(* ===== verification/Sv2_Prelude.thy ===== *)
theory Sv2_Prelude
  imports Main "HOL-Library.Word"
begin

text \<open>
  The vocabulary every component shares: the machine integers of the Rust sources as words, the
  \<open>Result\<close> type, the shared maps of \<open>stratum-apps/src/sync.rs\<close>, the little-endian token codec, and
  the collections of rewrite rules the component proofs carry.

  Rust's \<open>+\<close>, \<open>-\<close> and \<open>*\<close> on the unsigned types are the wrapping operations of words: the workspace
  sets no \<open>overflow-checks\<close>, so its release build wraps. A place where the source would panic in
  every build (an index out of range, an \<open>expect\<close>) is a value of the model, never an unspecified
  term.
\<close>

section \<open>Machine integers and results\<close>

type_synonym u8 = "8 word"
type_synonym u16 = "16 word"
type_synonym u32 = "32 word"
type_synonym u64 = "64 word"
type_synonym bytes = "u8 list"

type_synonym downstream_id = u64
type_synonym request_id = u32
type_synonym channel_id = u32
type_synonym jd_token = u64

text \<open>An \<open>Instant\<close> is a count of nanoseconds; \<open>duration_since\<close> saturates at zero, as \<open>nat\<close>
  subtraction does.\<close>

type_synonym instant = nat

definition from_secs :: "nat \<Rightarrow> nat" where
  "from_secs s = s * 1000000000"

text \<open>\<open>Result<'a, 'e>\<close> is \<open>'e + 'a\<close>, the error on the left.\<close>

type_synonym ('e, 'a) result = "'e + 'a"

abbreviation Err :: "'e \<Rightarrow> ('e, 'a) result" where
  "Err \<equiv> Inl"

abbreviation Ok :: "'a \<Rightarrow> ('e, 'a) result" where
  "Ok \<equiv> Inr"

fun is_ok :: "('e, 'a) result \<Rightarrow> bool" where
  "is_ok (Inr _) = True"
| "is_ok (Inl _) = False"

text \<open>\<open>saturating_sub\<close> and \<open>div_ceil\<close> of the unsigned integer types.\<close>

definition saturating_sub :: "'a::len word \<Rightarrow> 'a word \<Rightarrow> 'a word" where
  "saturating_sub a b = (if a < b then 0 else a - b)"

definition div_ceil :: "'a::len word \<Rightarrow> 'a word \<Rightarrow> 'a word" where
  "div_ceil a b = (if a mod b > 0 then a div b + 1 else a div b)"

named_theorems sv2_word \<open>facts that move word arithmetic to the naturals\<close>
named_theorems shared_map \<open>the equations of the shared maps\<close>
named_theorems frame \<open>what an operation leaves unchanged\<close>

lemma unat_lt_pow: "unat (a :: 'a::len word) < 2 ^ LENGTH('a)"
  by (rule unsigned_less)

lemma unat_ucast_u8_u64 [simp]: "unat (ucast (p :: u8) :: u64) = unat p"
  using unat_lt_pow [of p] by (simp add: unsigned_ucast_eq take_bit_eq_mod)

lemma unat_saturating_sub [sv2_word]:
  "unat (saturating_sub a b) = unat a - unat b"
  by (simp add: saturating_sub_def word_less_nat_alt unat_sub_if')

lemma unat_mult_no_overflow [sv2_word]:
  fixes a b :: "'a::len word"
  assumes "unat a * unat b < 2 ^ LENGTH('a)"
  shows "unat (a * b) = unat a * unat b"
  using assms by (simp add: unat_word_ariths)

lemma unat_add_no_overflow:
  fixes a b :: "'a::len word"
  assumes "unat a + unat b < 2 ^ LENGTH('a)"
  shows "unat (a + b) = unat a + unat b"
  using assms by (simp add: unat_word_ariths)

lemma nat_div_ceil_eq:
  fixes x y :: nat
  assumes "0 < y"
  shows "(x + (y - 1)) div y = (if x mod y > 0 then x div y + 1 else x div y)"
proof -
  define q r where "q = x div y" and "r = x mod y"
  have x: "x = q * y + r" and r: "r < y"
    using assms by (simp_all add: q_def r_def)
  show ?thesis
  proof (cases "r > 0")
    case True
    then have "x + (y - 1) = (q + 1) * y + (r - 1)" and "r - 1 < y"
      using x r by auto
    then have "(x + (y - 1)) div y = q + 1"
      using assms by (simp only: div_mult_self3) simp
    then show ?thesis using True by (simp add: q_def r_def)
  next
    case False
    then have "x + (y - 1) = q * y + (y - 1)" using x by simp
    then have "(x + (y - 1)) div y = q"
      using assms by (simp only: div_mult_self3) simp
    then show ?thesis using False by (simp add: q_def r_def)
  qed
qed

lemma unat_div_ceil [sv2_word]:
  fixes a b :: "'a::len word"
  assumes "0 < unat b"
  shows "unat (div_ceil a b) = (unat a + (unat b - 1)) div unat b"
proof (cases "unat a mod unat b > 0")
  case True
  then have "unat b \<noteq> 1" and a: "unat a \<noteq> 0"
    by (auto intro!: gr0I)
  then have "1 < unat b" using assms by simp
  then have "unat a div unat b < unat a" using a by (intro div_less_dividend) auto
  then have "unat a div unat b + 1 < 2 ^ LENGTH('a)"
    using unat_lt_pow [of a] by linarith
  then have "unat (a div b + 1) = unat a div unat b + 1"
    by (simp add: unat_word_ariths unat_div)
  then show ?thesis
    using True by (simp only: div_ceil_def nat_div_ceil_eq [OF assms])
      (simp add: word_less_nat_alt unat_mod)
next
  case False
  then show ?thesis
    by (simp only: div_ceil_def nat_div_ceil_eq [OF assms])
      (simp add: word_less_nat_alt unat_mod unat_div)
qed

section \<open>Shared maps\<close>

text \<open>
  \<open>SharedMap\<close> wraps a \<open>DashMap\<close>; each of its methods is one atomic access, so its value is a
  finite map and each method a function on it. A closure that mutates the entry returns its result
  beside the new entry.
\<close>

definition sm_with :: "('k \<rightharpoonup> 'v) \<Rightarrow> 'k \<Rightarrow> ('v \<Rightarrow> 'r) \<Rightarrow> 'r option" where
  "sm_with m k f = (case m k of None \<Rightarrow> None | Some v \<Rightarrow> Some (f v))"

definition sm_with_mut :: "('k \<rightharpoonup> 'v) \<Rightarrow> 'k \<Rightarrow> ('v \<Rightarrow> 'r \<times> 'v) \<Rightarrow> 'r option \<times> ('k \<rightharpoonup> 'v)" where
  "sm_with_mut m k f =
     (case m k of
        None \<Rightarrow> (None, m)
      | Some v \<Rightarrow> (let (r, v') = f v in (Some r, m(k \<mapsto> v'))))"

definition sm_with_mut_or_insert_with ::
  "('k \<rightharpoonup> 'v) \<Rightarrow> 'k \<Rightarrow> 'v \<Rightarrow> ('v \<Rightarrow> 'r \<times> 'v) \<Rightarrow> 'r \<times> ('k \<rightharpoonup> 'v)" where
  "sm_with_mut_or_insert_with m k d f =
     (let v = (case m k of None \<Rightarrow> d | Some v \<Rightarrow> v); (r, v') = f v in (r, m(k \<mapsto> v')))"

definition sm_insert :: "('k \<rightharpoonup> 'v) \<Rightarrow> 'k \<Rightarrow> 'v \<Rightarrow> 'v option \<times> ('k \<rightharpoonup> 'v)" where
  "sm_insert m k v = (m k, m(k \<mapsto> v))"

definition sm_remove :: "('k \<rightharpoonup> 'v) \<Rightarrow> 'k \<Rightarrow> ('k \<times> 'v) option \<times> ('k \<rightharpoonup> 'v)" where
  "sm_remove m k = (map_option (\<lambda>v. (k, v)) (m k), m(k := None))"

definition sm_remove_if ::
  "('k \<rightharpoonup> 'v) \<Rightarrow> 'k \<Rightarrow> ('k \<Rightarrow> 'v \<Rightarrow> bool) \<Rightarrow> ('k \<times> 'v) option \<times> ('k \<rightharpoonup> 'v)" where
  "sm_remove_if m k p =
     (case m k of
        None \<Rightarrow> (None, m)
      | Some v \<Rightarrow> if p k v then (Some (k, v), m(k := None)) else (None, m))"

definition sm_contains_key :: "('k \<rightharpoonup> 'v) \<Rightarrow> 'k \<Rightarrow> bool" where
  "sm_contains_key m k = (m k \<noteq> None)"

definition sm_retain :: "('k \<rightharpoonup> 'v) \<Rightarrow> ('k \<Rightarrow> 'v \<Rightarrow> bool) \<Rightarrow> ('k \<rightharpoonup> 'v)" where
  "sm_retain m p =
     (\<lambda>k. case m k of None \<Rightarrow> None | Some v \<Rightarrow> if p k v then Some v else None)"

definition sm_clear :: "('k \<rightharpoonup> 'v) \<Rightarrow> ('k \<rightharpoonup> 'v)" where
  "sm_clear m = Map.empty"

lemma sm_retain_Some [shared_map]:
  "sm_retain m p k = Some v \<longleftrightarrow> m k = Some v \<and> p k v"
  by (auto simp: sm_retain_def split: option.splits)

lemma sm_retain_None [shared_map]:
  "sm_retain m p k = None \<longleftrightarrow> (\<forall>v. m k = Some v \<longrightarrow> \<not> p k v)"
  by (auto simp: sm_retain_def split: option.splits)

lemma dom_sm_retain [shared_map]:
  "dom (sm_retain m p) = {k. \<exists>v. m k = Some v \<and> p k v}"
  by (auto simp: shared_map dom_def)

lemma finite_dom_sm_retain [simp]:
  "finite (dom m) \<Longrightarrow> finite (dom (sm_retain m p))"
  by (rule finite_subset [of _ "dom m"]) (auto simp: shared_map)

lemma sm_retain_le: "sm_retain m p \<subseteq>\<^sub>m m"
  by (auto simp: map_le_def shared_map)

lemma sm_retain_retain [shared_map]:
  "sm_retain (sm_retain m p) q = sm_retain m (\<lambda>k v. p k v \<and> q k v)"
  by (rule ext) (auto simp: sm_retain_def split: option.splits)

lemma sm_with_Some [shared_map]:
  "sm_with m k f = Some r \<longleftrightarrow> (\<exists>v. m k = Some v \<and> r = f v)"
  by (auto simp: sm_with_def split: option.splits)

lemma sm_with_None [shared_map]: "sm_with m k f = None \<longleftrightarrow> m k = None"
  by (auto simp: sm_with_def split: option.splits)

section \<open>Little-endian bytes of a token\<close>

text \<open>\<open>u64::to_le_bytes\<close> and \<open>u64::from_le_bytes\<close>; a token travels as a byte string of the message,
  and \<open>try_as_array::<8>\<close> accepts exactly the strings of length eight.\<close>

definition to_le_bytes :: "u64 \<Rightarrow> bytes" where
  "to_le_bytes w = map (\<lambda>i. ucast (drop_bit (8 * i) w)) [0..<8]"

fun from_le_bytes :: "bytes \<Rightarrow> u64" where
  "from_le_bytes [] = 0"
| "from_le_bytes (b # bs) = ucast b + 256 * from_le_bytes bs"

definition token_of_bytes :: "bytes \<Rightarrow> jd_token option" where
  "token_of_bytes bs = (if length bs = 8 then Some (from_le_bytes bs) else None)"

lemma length_to_le_bytes [simp]: "length (to_le_bytes w) = 8"
  by (simp add: to_le_bytes_def)

lemma unat_le_byte: "unat (ucast (drop_bit (8 * i) w :: u64) :: u8) = unat w div 2 ^ (8 * i) mod 256"
  by (simp add: unsigned_ucast_eq unat_drop_bit_eq take_bit_eq_mod flip: drop_bit_eq_div)

lemma unat_from_le_bytes_slice:
  fixes w :: u64
  assumes "k + n \<le> 8"
  shows "unat (from_le_bytes (map (\<lambda>i. ucast (drop_bit (8 * i) w)) [k..<k + n]))
    = unat w div 2 ^ (8 * k) mod 2 ^ (8 * n)"
  using assms
proof (induction n arbitrary: k)
  case 0
  then show ?case by simp
next
  case (Suc n)
  define x where "x = unat w div 2 ^ (8 * k)"
  let ?tl = "from_le_bytes (map (\<lambda>i. ucast (drop_bit (8 * i) w)) [Suc k..<Suc k + n])"
  have x64: "x < 2 ^ 64"
    unfolding x_def using unat_lt_pow [of w]
    by (intro order_le_less_trans [OF div_le_dividend]) simp
  have "unat w div 2 ^ (8 * Suc k) = x div 256"
    by (simp add: x_def power_add div_mult2_eq flip: div_mult2_eq) (simp add: mult.commute)
  then have tl: "unat ?tl = x div 256 mod 2 ^ (8 * n)"
    using Suc.IH [of "Suc k"] Suc.prems by simp
  have split: "x mod 2 ^ (8 * Suc n) = 256 * (x div 256 mod 2 ^ (8 * n)) + x mod 256"
    by (simp add: power_add mod_mult2_eq)
  have bound: "256 * (x div 256 mod 2 ^ (8 * n)) + x mod 256 < 2 ^ 64"
    using x64 split by (metis mod_less_eq_dividend order_le_less_trans)
  have "[k..<k + Suc n] = k # [Suc k..<Suc k + n]"
    by (simp add: upt_conv_Cons)
  then have list: "from_le_bytes (map (\<lambda>i. ucast (drop_bit (8 * i) w)) [k..<k + Suc n])
    = ucast (ucast (drop_bit (8 * k) w) :: u8) + 256 * ?tl" (is "_ = ?hd + _")
    by simp
  have hd: "unat ?hd = x mod 256"
    using unat_le_byte [of k w] by (simp add: x_def unsigned_ucast_eq unsigned_take_bit_eq)
  have mul: "unat (256 * ?tl) = 256 * unat ?tl"
    using bound tl by (subst unat_mult_no_overflow) simp_all
  have "unat (?hd + 256 * ?tl) = unat ?hd + unat (256 * ?tl)"
    using bound by (intro unat_add_no_overflow) (simp only: hd mul tl, simp)
  then have "unat (?hd + 256 * ?tl) = x mod 2 ^ (8 * Suc n)"
    by (simp only: hd mul tl split)
  then show ?case by (simp only: list x_def)
qed

lemma from_to_le_bytes [simp]: "from_le_bytes (to_le_bytes w) = w"
proof -
  have "unat (from_le_bytes (to_le_bytes w)) = unat w mod 2 ^ 64"
    using unat_from_le_bytes_slice [of 0 8 w] by (simp add: to_le_bytes_def)
  also have "\<dots> = unat w" using unat_lt_pow [of w] by (intro mod_less) simp
  finally show ?thesis by (simp add: word_unat_eq_iff)
qed

lemma token_of_to_le_bytes [simp]: "token_of_bytes (to_le_bytes w) = Some w"
  by (simp add: token_of_bytes_def)

end
