(* ===== verification/Bitcoin_Lib.thy ===== *)
theory Bitcoin_Lib
  imports Sv2_Prelude
begin

text \<open>
  What the sources use of the \<open>bitcoin\<close> and \<open>miniscript\<close> crates. Transactions, blocks and scripts
  are records with the fields the sources read; the functions of those crates (hashing, consensus
  encoding, weights, address parsing) are fields of two records of operations, \<open>btc_lib\<close> and
  \<open>script_lib\<close>, which every definition that calls them takes as an argument. A theorem that relies
  on a property of one of these functions states it as a hypothesis.
\<close>

text \<open>\<open>Txid\<close>, \<open>Wtxid\<close>, \<open>BlockHash\<close> and \<open>TxMerkleNode\<close> are 32-byte hashes.\<close>

type_synonym hash = "256 word"
type_synonym txid = hash
type_synonym wtxid = hash
type_synonym block_hash = hash
type_synonym merkle_node = hash

type_synonym script = bytes

record tx_in =
  prev_txid :: txid
  prev_vout :: u32
  script_sig :: script
  sequence :: u32
  witness :: "bytes list"

record tx_out =
  txout_value :: u64
  script_pubkey :: script

record transaction =
  tx_version :: u32
  tx_lock_time :: u32
  tx_input :: "tx_in list"
  tx_output :: "tx_out list"

record header =
  hdr_version :: u32
  hdr_prev_blockhash :: block_hash
  hdr_merkle_root :: merkle_node
  hdr_time :: u32
  hdr_bits :: u32
  hdr_nonce :: u32

record block =
  blk_header :: header
  blk_txdata :: "transaction list"

text \<open>
  Weights are counted in \<open>nat\<close>: a sum of weights in the sources is bounded by a few block weights
  before it is compared, far below the range of their \<open>u64\<close>.
\<close>

record btc_lib =
  compute_txid :: "transaction \<Rightarrow> txid"
  compute_wtxid :: "transaction \<Rightarrow> wtxid"
  tx_weight :: "transaction \<Rightarrow> nat"
  is_coinbase :: "transaction \<Rightarrow> bool"
  tx_consensus_decode :: "bytes \<Rightarrow> transaction option"
  tx_deserialize :: "bytes \<Rightarrow> (string, transaction) result"
  serialize_outputs :: "tx_out list \<Rightarrow> bytes"
  varint_decode :: "bytes \<Rightarrow> u64 option"
  varint_size :: "u64 \<Rightarrow> nat"
  merkle_hash :: "merkle_node \<Rightarrow> merkle_node \<Rightarrow> merkle_node"
  is_op_return :: "script \<Rightarrow> bool"
  weight_max_block :: nat
  weight_min_transaction :: nat

text \<open>
  The descriptor parser of \<open>miniscript\<close>: a whole-string parse, the name of the root of the
  expression tree, and what each kind of root yields. \<open>addr\<close> gives the address's script and whether
  the address is one of the main network.
\<close>

record script_lib =
  parse_descriptor :: "string \<Rightarrow> (string, script) result"
  tree_root_name :: "string \<Rightarrow> (string, string) result"
  tree_addr :: "string \<Rightarrow> (string, script \<times> bool) result"
  tree_raw :: "string \<Rightarrow> (string, script) result"
  tree_descriptor :: "string \<Rightarrow> (string, script) result"

section \<open>Coinbase reward scripts\<close>

record coinbase_reward_script =
  crs_script_pubkey :: script
  ok_for_mainnet :: bool

definition starts_with :: "'a list \<Rightarrow> 'a list \<Rightarrow> bool" where
  "starts_with xs p = (take (length p) xs = p)"

text \<open>\<open>CoinbaseRewardScript::from_descriptor\<close>.\<close>

definition from_descriptor :: "script_lib \<Rightarrow> string \<Rightarrow> (string, coinbase_reward_script) result" where
  "from_descriptor L s =
     (if starts_with s ''tr'' then
        (case parse_descriptor L s of
           Inl e \<Rightarrow> Err e
         | Inr sc \<Rightarrow> Ok \<lparr>crs_script_pubkey = sc, ok_for_mainnet = True\<rparr>)
      else
        (case tree_root_name L s of
           Inl e \<Rightarrow> Err e
         | Inr name \<Rightarrow>
             if name = ''addr'' then
               (case tree_addr L s of
                  Inl e \<Rightarrow> Err e
                | Inr (sc, main) \<Rightarrow> Ok \<lparr>crs_script_pubkey = sc, ok_for_mainnet = main\<rparr>)
             else if name = ''raw'' then
               (case tree_raw L s of
                  Inl e \<Rightarrow> Err e
                | Inr sc \<Rightarrow> Ok \<lparr>crs_script_pubkey = sc, ok_for_mainnet = True\<rparr>)
             else
               (case tree_descriptor L s of
                  Inl e \<Rightarrow> Err e
                | Inr sc \<Rightarrow> Ok \<lparr>crs_script_pubkey = sc, ok_for_mainnet = True\<rparr>)))"

subsection \<open>A concrete instance\<close>

text \<open>A concrete instance of the \<open>bitcoin\<close> operations, for evaluating the definitions: an output is
  an \<open>OP_RETURN\<close> if its script starts with \<open>0x6a\<close>, a transaction's identifiers are read off its lock
  time and its witness, and a one-byte length prefix is a \<open>VarInt\<close>.\<close>

definition demo_btc :: btc_lib where
  "demo_btc = \<lparr>
     compute_txid = (\<lambda>tx. ucast (tx_lock_time tx)),
     compute_wtxid = (\<lambda>tx. ucast (tx_lock_time tx)),
     tx_weight = (\<lambda>tx. 400 + length (tx_output tx)),
     is_coinbase = (\<lambda>tx. tx_input tx = []),
     tx_consensus_decode = (\<lambda>bs. if bs = [] then None else
        Some \<lparr>tx_version = 2, tx_lock_time = ucast (last bs),
              tx_input = [\<lparr>prev_txid = 0, prev_vout = -1, script_sig = drop 44 bs, sequence = -1,
                           witness = []\<rparr>],
              tx_output = []\<rparr>),
     tx_deserialize = (\<lambda>bs. if bs = [] then Err ''empty'' else
        Ok \<lparr>tx_version = 2, tx_lock_time = ucast (last bs), tx_input = [], tx_output = []\<rparr>),
     serialize_outputs = (\<lambda>os. concat (map script_pubkey os)),
     varint_decode = (\<lambda>bs. case bs of [] \<Rightarrow> None | b # _ \<Rightarrow> if b < 253 then Some (ucast b) else None),
     varint_size = (\<lambda>n. if n < 253 then 1 else 3),
     merkle_hash = (\<lambda>l r. 2 * l + 3 * r),
     is_op_return = (\<lambda>sc. case sc of [] \<Rightarrow> False | b # _ \<Rightarrow> b = 106),
     weight_max_block = 4000000,
     weight_min_transaction = 240\<rparr>"

lemmas demo_btc_simps = demo_btc_def

abbreviation crs :: "bytes \<Rightarrow> coinbase_reward_script" where
  "crs sc \<equiv> \<lparr>crs_script_pubkey = sc, ok_for_mainnet = True\<rparr>"

lemma starts_with_append [simp]: "starts_with (p @ xs) p"
  by (simp add: starts_with_def)

lemma starts_with_iff: "starts_with xs p \<longleftrightarrow> (\<exists>ys. xs = p @ ys)"
  by (metis append_take_drop_id starts_with_append starts_with_def)

text \<open>An \<open>addr(...)\<close> descriptor never takes the Taproot branch.\<close>

lemma from_descriptor_addr:
  assumes "tree_root_name L (''addr('' @ a @ '')'') = Ok ''addr''"
  shows "from_descriptor L (''addr('' @ a @ '')'') =
    (case tree_addr L (''addr('' @ a @ '')'') of
       Inl e \<Rightarrow> Err e
     | Inr (sc, main) \<Rightarrow> Ok \<lparr>crs_script_pubkey = sc, ok_for_mainnet = main\<rparr>)"
  using assms by (simp add: from_descriptor_def starts_with_def)

end
