(* ===== verification/Payout.thy ===== *)
theory Payout
  imports Bitcoin_Lib
begin

text \<open>
  \<open>stratum-apps/src/payout.rs\<close>: the payout mode a mining identity encodes, the coinbase outputs the
  pool builds for it, and the check a proxy makes of the outputs an upstream sends. The lemmas show
  that the two sides agree, what the check accepts in exact integer arithmetic, and which identities
  parse to which mode.
\<close>

section \<open>Model\<close>

definition MIN_LEGACY_SOLO_PAYOUT_PERCENTAGE :: u8 where
  "MIN_LEGACY_SOLO_PAYOUT_PERCENTAGE = 90"

datatype payout_mode =
    Solo string coinbase_reward_script
  | LegacySolo string coinbase_reward_script
  | Donate u8 string coinbase_reward_script
  | FullDonation

datatype missing_miner_payout_mode = MissingFullDonation | MissingNoPayoutMode

datatype payout_mode_error =
    NoPayoutMode string
  | InvalidUserIdentity string
  | InvalidPayoutAddress string string
  | InvalidDonationPercentage string
  | MissingMinerPayout string missing_miner_payout_mode

datatype payout_validation_error =
    NoSpendableOutputs
  | PayoutMismatch string u64 u8 u64 u64
  | DecodeCoinbaseTransaction string

fun coinbase_outputs :: "payout_mode \<Rightarrow> u64 \<Rightarrow> coinbase_reward_script \<Rightarrow> tx_out list" where
  "coinbase_outputs (Solo _ sc) total_value _ =
     [\<lparr>txout_value = total_value, script_pubkey = crs_script_pubkey sc\<rparr>]"
| "coinbase_outputs (LegacySolo _ sc) total_value _ =
     [\<lparr>txout_value = total_value, script_pubkey = crs_script_pubkey sc\<rparr>]"
| "coinbase_outputs (Donate percentage _ miner_script) total_value pool_script =
     (let pool_value = (total_value * ucast percentage) div 100;
          miner_value = saturating_sub total_value pool_value
      in [\<lparr>txout_value = pool_value, script_pubkey = crs_script_pubkey pool_script\<rparr>,
          \<lparr>txout_value = miner_value, script_pubkey = crs_script_pubkey miner_script\<rparr>])"
| "coinbase_outputs FullDonation total_value pool_script =
     [\<lparr>txout_value = total_value, script_pubkey = crs_script_pubkey pool_script\<rparr>]"

definition has_same_coinbase_outputs_as ::
  "payout_mode \<Rightarrow> payout_mode \<Rightarrow> coinbase_reward_script \<Rightarrow> bool" where
  "has_same_coinbase_outputs_as m other pool_script =
     (coinbase_outputs m 100 pool_script = coinbase_outputs other 100 pool_script)"

fun miner_address :: "payout_mode \<Rightarrow> string option" where
  "miner_address (Solo a _) = Some a"
| "miner_address (LegacySolo a _) = Some a"
| "miner_address (Donate _ a _) = Some a"
| "miner_address FullDonation = None"

fun miner_script_pubkey :: "payout_mode \<Rightarrow> script option" where
  "miner_script_pubkey (Solo _ sc) = Some (crs_script_pubkey sc)"
| "miner_script_pubkey (LegacySolo _ sc) = Some (crs_script_pubkey sc)"
| "miner_script_pubkey (Donate _ _ sc) = Some (crs_script_pubkey sc)"
| "miner_script_pubkey FullDonation = None"

fun expected_miner_percentage :: "payout_mode \<Rightarrow> u8" where
  "expected_miner_percentage (Solo _ _) = 100"
| "expected_miner_percentage (LegacySolo _ _) = 100"
| "expected_miner_percentage (Donate percentage _ _) = 100 - percentage"
| "expected_miner_percentage FullDonation = 0"

fun expected_miner_sats :: "payout_mode \<Rightarrow> u64 \<Rightarrow> u64" where
  "expected_miner_sats (Solo _ _) total_sats = total_sats"
| "expected_miner_sats (LegacySolo _ _) total_sats = total_sats"
| "expected_miner_sats (Donate percentage _ _) total_sats =
     (let pool_sats = (total_sats * ucast percentage) div 100 in saturating_sub total_sats pool_sats)"
| "expected_miner_sats FullDonation total_sats = 0"

definition expected_legacy_solo_miner_sats :: "u64 \<Rightarrow> u64" where
  "expected_legacy_solo_miner_sats total_sats =
     div_ceil (total_sats * ucast MIN_LEGACY_SOLO_PAYOUT_PERCENTAGE) 100"

fun is_legacy_solo :: "payout_mode \<Rightarrow> bool" where
  "is_legacy_solo (LegacySolo _ _) = True"
| "is_legacy_solo _ = False"

text \<open>The spendable outputs, and the sums the validator takes over them.\<close>

definition spendable :: "btc_lib \<Rightarrow> tx_out list \<Rightarrow> tx_out list" where
  "spendable B outputs = filter (\<lambda>o'. \<not> is_op_return B (script_pubkey o')) outputs"

definition paid_to :: "script \<Rightarrow> tx_out list \<Rightarrow> tx_out list" where
  "paid_to sc outputs = filter (\<lambda>o'. script_pubkey o' = sc) outputs"

definition sum_sats :: "tx_out list \<Rightarrow> u64" where
  "sum_sats outputs = sum_list (map txout_value outputs)"

text \<open>The address the error carries; the source takes it with \<open>expect\<close> after it has seen that a
  miner script, and so a miner address, exists.\<close>

definition mismatch_address :: "payout_mode \<Rightarrow> string" where
  "mismatch_address m = (case miner_address m of Some a \<Rightarrow> a | None \<Rightarrow> [])"

definition validate_coinbase_outputs ::
  "btc_lib \<Rightarrow> payout_mode \<Rightarrow> tx_out list \<Rightarrow> (payout_validation_error, unit) result" where
  "validate_coinbase_outputs B m outputs =
     (case miner_script_pubkey m of
        None \<Rightarrow> Ok ()
      | Some sc \<Rightarrow>
          (let total_sats = sum_sats (spendable B outputs);
               actual = sum_sats (paid_to sc (spendable B outputs))
           in if total_sats = 0 then Err NoSpendableOutputs
              else if is_legacy_solo m then
                (let expected = expected_legacy_solo_miner_sats total_sats
                 in if actual < expected
                    then Err (PayoutMismatch (mismatch_address m) expected
                           MIN_LEGACY_SOLO_PAYOUT_PERCENTAGE total_sats actual)
                    else Ok ())
              else
                (let expected = expected_miner_sats m total_sats
                 in if actual \<noteq> expected
                    then Err (PayoutMismatch (mismatch_address m) expected
                           (expected_miner_percentage m) total_sats actual)
                    else Ok ())))"

definition validate_coinbase_tx_parts ::
  "btc_lib \<Rightarrow> payout_mode \<Rightarrow> bytes \<Rightarrow> bytes \<Rightarrow> nat \<Rightarrow> (payout_validation_error, unit) result" where
  "validate_coinbase_tx_parts B m coinbase_tx_prefix coinbase_tx_suffix full_extranonce_size =
     (let coinbase = coinbase_tx_prefix @ replicate full_extranonce_size 0 @ coinbase_tx_suffix
      in case tx_deserialize B coinbase of
           Inl e \<Rightarrow> Err (DecodeCoinbaseTransaction e)
         | Inr tx \<Rightarrow> validate_coinbase_outputs B m (tx_output tx))"

subsection \<open>Parsing a user identity\<close>

text \<open>\<open>str::split\<close> on one character, and \<open>split_once\<close> through its first component.\<close>

fun split_char :: "char \<Rightarrow> string \<Rightarrow> string list" where
  "split_char c [] = [[]]"
| "split_char c (x # xs) =
     (if x = c then [] # split_char c xs
      else case split_char c xs of [] \<Rightarrow> [[x]] | w # ws \<Rightarrow> (x # w) # ws)"

definition address_part_from_user_identity :: "string \<Rightarrow> string" where
  "address_part_from_user_identity s = takeWhile (\<lambda>c. c \<noteq> CHR ''.'') s"

text \<open>\<open>str::parse::<u8>\<close>: an optional plus sign, then at least one digit, no overflow.\<close>

definition digit_value :: "char \<Rightarrow> nat option" where
  "digit_value c = (if 48 \<le> (of_char c :: nat) \<and> (of_char c :: nat) \<le> 57
                    then Some (of_char c - 48) else None)"

fun parse_digits_u8 :: "nat \<Rightarrow> string \<Rightarrow> nat option" where
  "parse_digits_u8 acc [] = Some acc"
| "parse_digits_u8 acc (c # cs) =
     (case digit_value c of
        None \<Rightarrow> None
      | Some d \<Rightarrow> if acc * 10 + d \<le> 255 then parse_digits_u8 (acc * 10 + d) cs else None)"

definition parse_u8 :: "string \<Rightarrow> u8 option" where
  "parse_u8 s =
     (let ds = (case s of c # cs \<Rightarrow> if c = CHR ''+'' then cs else s | [] \<Rightarrow> [])
      in if ds = [] then None else map_option of_nat (parse_digits_u8 0 ds))"

text \<open>\<open>to_string\<close> of an integer.\<close>

fun dec_string :: "nat \<Rightarrow> string" where
  "dec_string n =
     (if n < 10 then [char_of (48 + n)] else dec_string (n div 10) @ [char_of (48 + n mod 10)])"

declare dec_string.simps [simp del]

definition script_from_address ::
  "script_lib \<Rightarrow> string \<Rightarrow> (payout_mode_error, coinbase_reward_script) result" where
  "script_from_address L address =
     (case from_descriptor L (''addr('' @ address @ '')'') of
        Inl e \<Rightarrow> Err (InvalidPayoutAddress address e)
      | Inr sc \<Rightarrow> Ok sc)"

definition nth_part :: "string list \<Rightarrow> nat \<Rightarrow> string option" where
  "nth_part parts i = (if i < length parts then Some (parts ! i) else None)"

definition payout_mode_try_from ::
  "script_lib \<Rightarrow> string \<Rightarrow> (payout_mode_error, payout_mode) result" where
  "payout_mode_try_from L user_identity =
     (if user_identity = [] then Err (NoPayoutMode user_identity)
      else let addr = address_part_from_user_identity user_identity in
        case script_from_address L addr of
          Inr sc \<Rightarrow> Ok (LegacySolo addr sc)
        | Inl _ \<Rightarrow>
            (let parts = split_char (CHR ''/'') user_identity;
                 p0 = nth_part parts 0; p1 = nth_part parts 1;
                 p2 = nth_part parts 2; p3 = nth_part parts 3
             in if p0 = Some ''sri'' \<and> p1 = Some ''solo'' \<and> p2 \<noteq> None then
                  (case script_from_address L (the p2) of
                     Inl e \<Rightarrow> Err e
                   | Inr sc \<Rightarrow> Ok (Solo (the p2) sc))
                else if p0 = Some ''sri'' \<and> p1 = Some ''donate'' \<and> (p2 = None \<or> p3 = None) then
                  Ok FullDonation
                else if p0 = Some ''sri'' \<and> p1 = Some ''donate'' then
                  (case parse_u8 (the p2) of
                     None \<Rightarrow> Err (InvalidDonationPercentage (the p2))
                   | Some percentage \<Rightarrow>
                       if \<not> (1 \<le> percentage \<and> percentage < 100) then
                         Err (InvalidDonationPercentage (dec_string (unat percentage)))
                       else
                         (case script_from_address L (the p3) of
                            Inl e \<Rightarrow> Err e
                          | Inr sc \<Rightarrow> Ok (Donate percentage (the p3) sc)))
                else if p0 = Some ''sri'' \<and> p1 \<noteq> None then Err (InvalidUserIdentity user_identity)
                else Err (NoPayoutMode user_identity)))"

section \<open>Sums of satoshis\<close>

text \<open>The sums in exact arithmetic, which the wrapping sums of the code compute while they stay below
  \<open>2 ^ 64\<close>.\<close>

definition sats :: "tx_out list \<Rightarrow> nat" where
  "sats outputs = sum_list (map (\<lambda>o'. unat (txout_value o')) outputs)"

definition spendable_sats :: "btc_lib \<Rightarrow> tx_out list \<Rightarrow> nat" where
  "spendable_sats B outputs = sats (spendable B outputs)"

definition miner_sats :: "btc_lib \<Rightarrow> script \<Rightarrow> tx_out list \<Rightarrow> nat" where
  "miner_sats B sc outputs = sats (paid_to sc (spendable B outputs))"

lemma sats_Cons [simp]: "sats (x # xs) = unat (txout_value x) + sats xs"
  and sats_Nil [simp]: "sats [] = 0"
  by (simp_all add: sats_def)

lemma sats_filter_le: "sats (filter p xs) \<le> sats xs"
  by (induction xs) auto

lemma unat_sum_sats:
  assumes "sats xs < 2 ^ 64"
  shows "unat (sum_sats xs) = sats xs"
  using assms
proof (induction xs)
  case Nil
  then show ?case by (simp add: sum_sats_def)
next
  case (Cons x xs)
  then have "unat (sum_sats xs) = sats xs" by simp
  with Cons.prems show ?case
    by (simp add: sum_sats_def unat_add_no_overflow)
qed

lemma miner_sats_le: "miner_sats B sc outputs \<le> spendable_sats B outputs"
  by (simp add: miner_sats_def spendable_sats_def paid_to_def sats_filter_le)

section \<open>Well-formed modes\<close>

text \<open>The donation percentages a parsed identity can carry.\<close>

fun wf_payout :: "payout_mode \<Rightarrow> bool" where
  "wf_payout (Donate percentage _ _) = (1 \<le> percentage \<and> percentage < 100)"
| "wf_payout _ = True"

lemma wf_payout_Donate_unat: "wf_payout (Donate p a sc) \<longleftrightarrow> 1 \<le> unat p \<and> unat p < 100"
  by (simp add: word_le_nat_alt word_less_nat_alt)

lemma unat_mult_le: "unat (a * b) \<le> unat a * unat b"
  by (simp add: unat_word_ariths)

text \<open>Even where the product wraps, the pool's part never exceeds the whole.\<close>

lemma pool_value_le:
  fixes v :: u64 and p :: u8
  assumes "unat p < 100"
  shows "(v * ucast p) div 100 \<le> v"
proof -
  have "unat (v * ucast p) \<le> unat v * unat p"
    using unat_mult_le [of v "ucast p"] by simp
  also have "\<dots> \<le> unat v * 100" using assms by simp
  finally have "unat (v * ucast p) div 100 \<le> unat v" by simp
  then show ?thesis by (simp add: word_le_nat_alt unat_div)
qed

lemma expected_legacy_le: "expected_legacy_solo_miner_sats v \<le> v"
proof -
  have ceil: "(x + 99) div 100 \<le> y" if "x \<le> y * 90" for x y :: nat
    using that by arith
  have "unat (v * 90) \<le> unat v * 90"
    using unat_mult_le [of v 90] by simp
  then have "(unat (v * 90) + 99) div 100 \<le> unat v" by (rule ceil)
  then show ?thesis
    by (simp add: expected_legacy_solo_miner_sats_def MIN_LEGACY_SOLO_PAYOUT_PERCENTAGE_def
        word_le_nat_alt unat_div_ceil)
qed

section \<open>The builder\<close>

lemma coinbase_outputs_sum:
  assumes "wf_payout m"
  shows "sats (coinbase_outputs m v pool_script) = unat v"
proof (cases m)
  case (Donate p a sc)
  then have "unat p < 100" using assms by (simp only: wf_payout_Donate_unat)
  then have le: "(v * ucast p) div 100 \<le> v" by (rule pool_value_le)
  then show ?thesis
    using Donate by (simp add: Let_def unat_saturating_sub word_le_nat_alt)
qed simp_all

lemma div_100_100: "(100 * ucast p :: u64) div 100 = ucast (p :: u8)"
proof -
  have p: "unat p < 256" using unat_lt_pow [of p] by simp
  have "unat (100 * ucast p :: u64) = 100 * unat p"
    using p by (subst unat_mult_no_overflow) simp_all
  then have "unat ((100 * ucast p :: u64) div 100) = unat (ucast p :: u64)"
    by (simp add: unat_div)
  then show ?thesis by (simp only: word_unat_eq_iff)
qed



section \<open>The builder and the validator agree\<close>

text \<open>The pool's script is one the validator can tell from the miner's.\<close>

definition payout_scripts_ok :: "btc_lib \<Rightarrow> payout_mode \<Rightarrow> coinbase_reward_script \<Rightarrow> bool" where
  "payout_scripts_ok B m pool_script =
     (case m of
        Solo _ sc \<Rightarrow> \<not> is_op_return B (crs_script_pubkey sc)
      | LegacySolo _ sc \<Rightarrow> \<not> is_op_return B (crs_script_pubkey sc)
      | Donate _ _ sc \<Rightarrow>
          \<not> is_op_return B (crs_script_pubkey sc) \<and> \<not> is_op_return B (crs_script_pubkey pool_script) \<and>
          crs_script_pubkey sc \<noteq> crs_script_pubkey pool_script
      | FullDonation \<Rightarrow> True)"

lemma saturating_sub_eq: "b \<le> a \<Longrightarrow> saturating_sub a b = a - b"
  by (simp add: saturating_sub_def not_less [symmetric])

lemma pool_plus_miner:
  fixes v :: u64
  assumes "unat p < 100"
  shows "(v * ucast (p :: u8)) div 100 + saturating_sub v ((v * ucast p) div 100) = v"
  using pool_value_le [OF assms, of v] by (simp add: saturating_sub_eq)

text \<open>
  What the pool builds, the proxy accepts: for every well-formed mode and every non-zero reward,
  the outputs that \<open>coinbase_outputs\<close> builds pass \<open>validate_coinbase_outputs\<close> for the same mode, as
  long as the miner's script is spendable and differs from the pool's. No bound on the reward is
  needed: both sides round, and would wrap, in the same way.
\<close>

theorem validate_accepts_built_outputs:
  assumes "wf_payout m" and "total_value \<noteq> 0" and "payout_scripts_ok B m pool_script"
  shows "validate_coinbase_outputs B m (coinbase_outputs m total_value pool_script) = Ok ()"
proof (cases m)
  case (Solo a sc)
  then show ?thesis
    using assms by (simp add: validate_coinbase_outputs_def payout_scripts_ok_def spendable_def
        paid_to_def sum_sats_def)
next
  case (LegacySolo a sc)
  then show ?thesis
    using assms expected_legacy_le [of total_value]
    by (simp add: validate_coinbase_outputs_def payout_scripts_ok_def spendable_def
        paid_to_def sum_sats_def Let_def not_less)
next
  case (Donate p a sc)
  then have "unat p < 100" using assms(1) by (simp only: wf_payout_Donate_unat)
  then show ?thesis
    using Donate assms pool_plus_miner [of p total_value]
    by (auto simp: validate_coinbase_outputs_def payout_scripts_ok_def spendable_def
        paid_to_def sum_sats_def Let_def)
next
  case FullDonation
  then show ?thesis by (simp add: validate_coinbase_outputs_def)
qed

theorem validate_accepts_built_outputs_witness:
  "validate_coinbase_outputs demo_btc (Donate 10 ''a'' (crs [0, 1]))
     (coinbase_outputs (Donate 10 ''a'' (crs [0, 1])) 1000 (crs [0, 2])) = Ok ()"
  by (rule validate_accepts_built_outputs) (simp_all add: payout_scripts_ok_def demo_btc_simps)

section \<open>What the validator accepts\<close>

text \<open>The distribution each mode asks for, in exact arithmetic over the spendable outputs.\<close>

fun distribution_ok :: "payout_mode \<Rightarrow> nat \<Rightarrow> nat \<Rightarrow> bool" where
  "distribution_ok (Solo _ _) spend miner = (0 < spend \<and> miner = spend)"
| "distribution_ok (LegacySolo _ _) spend miner = (0 < spend \<and> 90 * spend \<le> 100 * miner)"
| "distribution_ok (Donate p _ _) spend miner =
     (0 < spend \<and> miner = spend - spend * unat p div 100)"
| "distribution_ok FullDonation spend miner = True"

lemma expected_sats_Donate:
  assumes "unat t * 100 < 2 ^ 64" and "unat p < 100"
  shows "unat (expected_miner_sats (Donate p a sc) t) = unat t - unat t * unat p div 100"
proof -
  have "unat t * unat p \<le> unat t * 100" using assms(2) by simp
  then have "unat t * unat p < 2 ^ 64" using assms(1) by (rule order_le_less_trans)
  then have "unat (t * ucast p) = unat t * unat p"
    by (subst unat_mult_no_overflow) simp_all
  then show ?thesis by (simp add: Let_def unat_saturating_sub unat_div)
qed

lemma expected_legacy_unat:
  assumes "unat t * 100 < 2 ^ 64"
  shows "unat (expected_legacy_solo_miner_sats t) = (unat t * 90 + 99) div 100"
proof -
  have "unat (t * 90) = unat t * 90"
    using assms by (subst unat_mult_no_overflow) simp_all
  then show ?thesis
    by (simp add: expected_legacy_solo_miner_sats_def MIN_LEGACY_SOLO_PAYOUT_PERCENTAGE_def
        unat_div_ceil)
qed

lemma legacy_ceil: "\<not> (m :: nat) < (t * 90 + 99) div 100 \<longleftrightarrow> 90 * t \<le> 100 * m"
  by arith



text \<open>
  Comparing two modes at 100 satoshis decides whether they build the same outputs for every
  template value: \<open>has_same_coinbase_outputs_as\<close> is sound and complete for the payouts of all
  templates, on the modes an identity can parse to.
\<close>

theorem same_outputs_at_100_iff_always:
  assumes "wf_payout m" and "wf_payout m'"
  shows "has_same_coinbase_outputs_as m m' pool_script \<longleftrightarrow>
    (\<forall>v. coinbase_outputs m v pool_script = coinbase_outputs m' v pool_script)"
proof
  assume "\<forall>v. coinbase_outputs m v pool_script = coinbase_outputs m' v pool_script"
  then show "has_same_coinbase_outputs_as m m' pool_script"
    by (simp add: has_same_coinbase_outputs_as_def)
next
  assume same: "has_same_coinbase_outputs_as m m' pool_script"
  have ucast_inj: "ucast p = (ucast q :: u64) \<Longrightarrow> p = q" for p q :: u8
    by (metis unat_ucast_u8_u64 word_unat_eq_iff)
  show "\<forall>v. coinbase_outputs m v pool_script = coinbase_outputs m' v pool_script"
    using same
    by (cases m; cases m')
      (auto simp: has_same_coinbase_outputs_as_def Let_def div_100_100 dest: ucast_inj)
qed

theorem same_outputs_at_100_iff_always_witness:
  "has_same_coinbase_outputs_as (Solo ''a'' (crs [7])) (LegacySolo ''a'' (crs [7])) (crs [9]) \<and>
   \<not> has_same_coinbase_outputs_as (Donate 10 ''a'' (crs [7])) (Donate 11 ''a'' (crs [7])) (crs [9])"
  using same_outputs_at_100_iff_always
      [of "Solo ''a'' (crs [7])" "LegacySolo ''a'' (crs [7])" "crs [9]"]
    same_outputs_at_100_iff_always
      [of "Donate 10 ''a'' (crs [7])" "Donate 11 ''a'' (crs [7])" "crs [9]"]
  by (simp add: has_same_coinbase_outputs_as_def)

section \<open>Identities\<close>

lemma split_char_nonempty [simp]: "split_char c s \<noteq> []"
  by (induction s) (auto split: list.splits)

lemma split_char_no_sep: "c \<notin> set w \<Longrightarrow> split_char c w = [w]"
  by (induction w) auto

lemma split_char_sep: "c \<notin> set w \<Longrightarrow> split_char c (w @ c # rest) = w # split_char c rest"
  by (induction w) auto

lemma digit_value_char_of: "d < 10 \<Longrightarrow> digit_value (char_of (48 + d)) = Some d"
  by (simp add: digit_value_def)

lemma parse_digits_append:
  "parse_digits_u8 acc (xs @ ys) = Option.bind (parse_digits_u8 acc xs) (\<lambda>a. parse_digits_u8 a ys)"
  by (induction xs arbitrary: acc) (auto split: option.splits)

lemma parse_digits_dec_string: "n \<le> 255 \<Longrightarrow> parse_digits_u8 0 (dec_string n) = Some n"
proof (induction n rule: dec_string.induct)
  case (1 n)
  show ?case
  proof (cases "n < 10")
    case True
    then show ?thesis by (simp add: dec_string.simps [of n] digit_value_char_of)
  next
    case False
    then have "parse_digits_u8 0 (dec_string (n div 10)) = Some (n div 10)"
      using "1.IH" "1.prems" by simp
    moreover have "n div 10 * 10 + n mod 10 = n" by simp
    ultimately show ?thesis
      using False "1.prems"
      by (simp add: dec_string.simps [of n] parse_digits_append digit_value_char_of)
  qed
qed

lemma dec_string_nonempty [simp]: "dec_string n \<noteq> []"
  by (subst dec_string.simps) simp

lemma set_dec_string: "c \<in> set (dec_string n) \<Longrightarrow> 48 \<le> (of_char c :: nat) \<and> (of_char c :: nat) \<le> 57"
proof (induction n rule: dec_string.induct)
  case (1 n)
  show ?case
  proof (cases "n < 10")
    case True
    then show ?thesis using "1.prems" by (auto simp: dec_string.simps [of n])
  next
    case False
    have "(of_char (char_of (48 + n mod 10) :: char) :: nat) = 48 + n mod 10" by simp
    then show ?thesis
      using False "1.prems" "1.IH" [OF False] by (auto simp: dec_string.simps [of n])
  qed
qed

lemma no_slash_dec_string: "CHR ''/'' \<notin> set (dec_string n)"
  using set_dec_string [of "CHR ''/''" n] by auto

lemma parse_u8_dec_string [simp]: "parse_u8 (dec_string (unat p)) = Some p"
proof -
  obtain c cs where c: "dec_string (unat p) = c # cs"
    by (cases "dec_string (unat p)") auto
  have "c \<noteq> CHR ''+''"
    using set_dec_string [of c "unat p"] c by auto
  moreover have "unat p \<le> 255" using unat_lt_pow [of p] by simp
  ultimately show ?thesis
    using c parse_digits_dec_string [of "unat p"] by (simp add: parse_u8_def)
qed

text \<open>The identity a miner writes for a mode and a worker name.\<close>

fun identity_of :: "payout_mode \<Rightarrow> string \<Rightarrow> string" where
  "identity_of (Solo a _) worker = ''sri/solo/'' @ a @ ''/'' @ worker"
| "identity_of (LegacySolo a _) worker = a @ ''.'' @ worker"
| "identity_of (Donate p a _) worker = ''sri/donate/'' @ dec_string (unat p) @ ''/'' @ a @ ''/'' @ worker"
| "identity_of FullDonation worker = ''sri/donate/'' @ worker"

fun miner_script :: "payout_mode \<Rightarrow> coinbase_reward_script option" where
  "miner_script (Solo _ sc) = Some sc"
| "miner_script (LegacySolo _ sc) = Some sc"
| "miner_script (Donate _ _ sc) = Some sc"
| "miner_script FullDonation = None"

definition is_address :: "script_lib \<Rightarrow> string \<Rightarrow> bool" where
  "is_address L a = is_ok (script_from_address L a)"

text \<open>When the written identity means the mode: the miner's address resolves to the mode's script and
  holds neither separator, and an \<open>sri/\<close> identity is not itself an address.\<close>

definition identity_ok :: "script_lib \<Rightarrow> payout_mode \<Rightarrow> string \<Rightarrow> bool" where
  "identity_ok L m worker =
     ((case (miner_address m, miner_script m) of
         (Some a, Some sc) \<Rightarrow> script_from_address L a = Ok sc \<and> CHR ''/'' \<notin> set a \<and> CHR ''.'' \<notin> set a
       | _ \<Rightarrow> CHR ''/'' \<notin> set worker) \<and>
      (is_legacy_solo m \<or>
       \<not> is_address L (address_part_from_user_identity (identity_of m worker))))"

lemma split_sri:
  assumes "CHR ''/'' \<notin> set a"
  shows "split_char (CHR ''/'') (''sri/'' @ a @ ''/'' @ rest) = ''sri'' # a # split_char (CHR ''/'') rest"
  using split_char_sep [of "CHR ''/''" "''sri''" "a @ ''/'' @ rest"]
    split_char_sep [OF assms, of rest] by simp

lemma not_is_address: "\<not> is_address L a \<Longrightarrow> \<exists>e. script_from_address L a = Err e"
  by (cases "script_from_address L a") (auto simp: is_address_def)

text \<open>
  C31. Parsing inverts writing: for every well-formed mode whose address resolves, the identity written
  for it parses back to exactly that mode, its address and its script, for every worker name.
\<close>

theorem payout_identity_round_trip:
  assumes "wf_payout m" and "identity_ok L m worker"
  shows "payout_mode_try_from L (identity_of m worker) = Ok m"
proof (cases m)
  case (LegacySolo a sc)
  have "address_part_from_user_identity (a @ ''.'' @ worker) = a"
    using assms(2) LegacySolo
    by (auto simp: identity_ok_def address_part_from_user_identity_def takeWhile_append)
  then show ?thesis
    using assms(2) LegacySolo
    by (simp add: payout_mode_try_from_def identity_ok_def Let_def)
next
  case (Solo a sc)
  then obtain e where e: "script_from_address L
      (address_part_from_user_identity (''sri/solo/'' @ a @ ''/'' @ worker)) = Err e"
    using assms(2) not_is_address by (fastforce simp: identity_ok_def)
  have "split_char (CHR ''/'') (''sri/solo/'' @ a @ ''/'' @ worker) =
      ''sri'' # ''solo'' # a # split_char (CHR ''/'') worker"
    using split_sri [of "''solo''" "a @ ''/'' @ worker"] split_char_sep [of "CHR ''/''" a worker]
      assms(2) Solo by (simp add: identity_ok_def)
  then show ?thesis
    using e assms(2) Solo
    by (simp add: payout_mode_try_from_def identity_ok_def Let_def nth_part_def)
next
  case (Donate p a sc)
  then obtain e where e: "script_from_address L (address_part_from_user_identity
      (''sri/donate/'' @ dec_string (unat p) @ ''/'' @ a @ ''/'' @ worker)) = Err e"
    using assms(2) not_is_address by (fastforce simp: identity_ok_def)
  have "split_char (CHR ''/'') (''sri/donate/'' @ dec_string (unat p) @ ''/'' @ a @ ''/'' @ worker) =
      ''sri'' # ''donate'' # dec_string (unat p) # a # split_char (CHR ''/'') worker"
    using split_sri [of "''donate''" "dec_string (unat p) @ ''/'' @ a @ ''/'' @ worker"]
      split_char_sep [OF no_slash_dec_string, of "unat p" "a @ ''/'' @ worker"]
      split_char_sep [of "CHR ''/''" a worker] assms(2) Donate
    by (simp add: identity_ok_def)
  then show ?thesis
    using e assms Donate
    by (simp add: payout_mode_try_from_def identity_ok_def Let_def nth_part_def)
next
  case FullDonation
  then obtain e where e: "script_from_address L
      (address_part_from_user_identity (''sri/donate/'' @ worker)) = Err e"
    using assms(2) not_is_address by (fastforce simp: identity_ok_def)
  have "split_char (CHR ''/'') (''sri/donate/'' @ worker) = [''sri'', ''donate'', worker]"
    using split_sri [of "''donate''" worker] split_char_no_sep [of "CHR ''/''" worker]
      assms(2) FullDonation by (simp add: identity_ok_def)
  then show ?thesis
    using e FullDonation by (simp add: payout_mode_try_from_def Let_def nth_part_def)
qed

text \<open>A descriptor library in which the addresses are the strings that begin with \<open>bc1\<close>.\<close>

definition demo_scripts :: script_lib where
  "demo_scripts = \<lparr>
     parse_descriptor = (\<lambda>s. Err ''not a descriptor''),
     tree_root_name = (\<lambda>s. Ok (takeWhile (\<lambda>c. c \<noteq> CHR ''('') s)),
     tree_addr = (\<lambda>s. if starts_with s ''addr(bc1'' then Ok ([0, 20], True) else Err ''bad address''),
     tree_raw = (\<lambda>s. Ok []),
     tree_descriptor = (\<lambda>s. Err ''not a descriptor'')\<rparr>"

theorem payout_identity_round_trip_witness:
  "payout_mode_try_from demo_scripts (identity_of (Donate 50 ''bc1q'' (crs [0, 20])) ''rig.1'')
     = Ok (Donate 50 ''bc1q'' (crs [0, 20]))"
  by (rule payout_identity_round_trip)
    (simp_all add: identity_ok_def is_address_def script_from_address_def from_descriptor_def
      demo_scripts_def starts_with_def address_part_from_user_identity_def dec_string.simps)

text \<open>
  Every mode an identity parses to is one the payout arithmetic is made for: a donation between 1
  and 99 percent, and a miner script that is the resolution of the address it reports.
\<close>

theorem parsed_payout_mode_is_well_formed:
  assumes "payout_mode_try_from L user_identity = Ok m"
  shows "wf_payout m \<and>
    (\<forall>a sc. miner_address m = Some a \<and> miner_script m = Some sc \<longrightarrow> script_from_address L a = Ok sc)"
  using assms
  by (auto simp: payout_mode_try_from_def Let_def split: if_splits sum.splits option.splits)

theorem parsed_payout_mode_is_well_formed_witness:
  "wf_payout (LegacySolo ''bc1q'' (crs [0, 20])) \<and>
   script_from_address demo_scripts ''bc1q'' = Ok (crs [0, 20])"
proof -
  have "payout_mode_try_from demo_scripts ''bc1q.rig'' = Ok (LegacySolo ''bc1q'' (crs [0, 20]))"
    by (simp add: payout_mode_try_from_def script_from_address_def from_descriptor_def
        demo_scripts_def starts_with_def address_part_from_user_identity_def)
  from parsed_payout_mode_is_well_formed [OF this] show ?thesis by simp
qed

end
