(* ===== verification/Mempool_Mirror.thy ===== *)
theory Mempool_Mirror
  imports Bitcoin_Lib "HOL-Library.AList" "HOL-Library.Multiset"
begin

text \<open>
  \<open>bitcoin-core-sv2/src/unix_capnp/v31x/job_declaration_protocol/mempool.rs\<close> (the v30x file is the
  same but for its header): the local mirror of Bitcoin Core's mempool that the Job Declaration
  Protocol resolves declared transactions in. The \<open>HashMap\<close> is an association list with distinct keys;
  the order in which \<open>retain\<close> visits its entries, which the source leaves open, is the argument
  \<open>visit\<close> of \<open>update\<close>, about which only that it permutes the entries is ever assumed.
\<close>

section \<open>Model\<close>

type_synonym tx_map = "(wtxid \<times> transaction) list"

record mempool_mirror =
  txdata :: tx_map
  current_prev_hash :: "block_hash option"
  current_nbits :: "u32 option"
  current_ntime :: "u32 option"

definition MAX_MIRROR_CARRY_OVER_WEIGHT :: "btc_lib \<Rightarrow> nat" where
  "MAX_MIRROR_CARRY_OVER_WEIGHT B = 4 * weight_max_block B"

definition MAX_MIRROR_WEIGHT :: "btc_lib \<Rightarrow> nat" where
  "MAX_MIRROR_WEIGHT B = weight_max_block B + MAX_MIRROR_CARRY_OVER_WEIGHT B"

datatype resolve_error = Missing "wtxid list" | TooHeavy

definition mirror_new :: mempool_mirror where
  "mirror_new = \<lparr>txdata = [], current_prev_hash = None, current_nbits = None, current_ntime = None\<rparr>"

definition contains_key :: "('k \<times> 'v) list \<Rightarrow> 'k \<Rightarrow> bool" where
  "contains_key m k = (map_of m k \<noteq> None)"

text \<open>Collecting the template's transactions, all but the coinbase, keyed by their wtxid.\<close>

definition template_map :: "btc_lib \<Rightarrow> block \<Rightarrow> tx_map" where
  "template_map B blk =
     foldl (\<lambda>m tx. AList.update (compute_wtxid B tx) tx m) [] (drop 1 (blk_txdata blk))"

text \<open>The \<open>retain\<close> of \<open>update\<close>: the captured counter \<open>carried\<close> runs along the entries.\<close>

fun retain_carry_over :: "btc_lib \<Rightarrow> tx_map \<Rightarrow> nat \<Rightarrow> tx_map \<Rightarrow> tx_map" where
  "retain_carry_over B template carried [] = []"
| "retain_carry_over B template carried ((w, tx) # xs) =
     (if contains_key template w then (w, tx) # retain_carry_over B template carried xs
      else (let carried' = carried + tx_weight B tx
            in if carried' \<le> MAX_MIRROR_CARRY_OVER_WEIGHT B
               then (w, tx) # retain_carry_over B template carried' xs
               else retain_carry_over B template carried' xs))"

definition or_insert :: "tx_map \<Rightarrow> wtxid \<times> transaction \<Rightarrow> tx_map" where
  "or_insert m e = (if contains_key m (fst e) then m else e # m)"

definition update :: "btc_lib \<Rightarrow> (tx_map \<Rightarrow> tx_map) \<Rightarrow> block \<Rightarrow> mempool_mirror \<Rightarrow> mempool_mirror" where
  "update B visit blk m =
     (let prev_hash = hdr_prev_blockhash (blk_header blk);
          txs0 = (if current_prev_hash m \<noteq> Some prev_hash then [] else txdata m);
          template = template_map B blk;
          txs1 = retain_carry_over B template 0 (visit txs0);
          txs2 = foldl or_insert txs1 template
      in m\<lparr>txdata := txs2, current_prev_hash := Some prev_hash,
           current_nbits := Some (hdr_bits (blk_header blk)),
           current_ntime := Some (hdr_time (blk_header blk))\<rparr>)"

definition map_weight :: "btc_lib \<Rightarrow> tx_map \<Rightarrow> nat" where
  "map_weight B m = sum_list (map (\<lambda>e. tx_weight B (snd e)) m)"

fun add_transactions_loop :: "btc_lib \<Rightarrow> nat \<Rightarrow> tx_map \<Rightarrow> transaction list \<Rightarrow> tx_map" where
  "add_transactions_loop B mirror_weight m [] = m"
| "add_transactions_loop B mirror_weight m (tx # txs) =
     (if contains_key m (compute_wtxid B tx) then add_transactions_loop B mirror_weight m txs
      else (let w = tx_weight B tx
            in if MAX_MIRROR_WEIGHT B < mirror_weight + w then m
               else add_transactions_loop B (mirror_weight + w) ((compute_wtxid B tx, tx) # m) txs))"

definition add_transactions :: "btc_lib \<Rightarrow> transaction list \<Rightarrow> mempool_mirror \<Rightarrow> mempool_mirror" where
  "add_transactions B txs m =
     m\<lparr>txdata := add_transactions_loop B (map_weight B (txdata m)) (txdata m) txs\<rparr>"

text \<open>The lookup of \<open>resolve_txdata\<close>: the staged transactions first, then the mirror.\<close>

definition lookup_tx :: "mempool_mirror \<Rightarrow> (wtxid \<rightharpoonup> transaction) \<Rightarrow> wtxid \<Rightarrow> transaction option" where
  "lookup_tx m staged w = (case staged w of Some tx \<Rightarrow> Some tx | None \<Rightarrow> map_of (txdata m) w)"

fun resolve_loop ::
  "btc_lib \<Rightarrow> (wtxid \<Rightarrow> transaction option) \<Rightarrow> nat \<Rightarrow> nat \<Rightarrow> transaction list \<Rightarrow> wtxid list \<Rightarrow>
   wtxid list \<Rightarrow> (resolve_error, transaction list) result" where
  "resolve_loop B look budget weight txs missing [] =
     (if missing = [] then Ok txs else Err (Missing missing))"
| "resolve_loop B look budget weight txs missing (w # ws) =
     (case look w of
        Some tx \<Rightarrow>
          (let weight' = weight + tx_weight B tx
           in if budget < weight' then Err TooHeavy
              else resolve_loop B look budget weight' (txs @ [tx]) missing ws)
      | None \<Rightarrow> resolve_loop B look budget weight txs (missing @ [w]) ws)"

definition resolve_txdata ::
  "btc_lib \<Rightarrow> mempool_mirror \<Rightarrow> wtxid list \<Rightarrow> (wtxid \<rightharpoonup> transaction) \<Rightarrow> nat \<Rightarrow>
   (resolve_error, transaction list) result" where
  "resolve_txdata B m wtxids staged weight_budget =
     resolve_loop B (lookup_tx m staged) weight_budget 0 [] [] wtxids"

section \<open>Keys\<close>

text \<open>Every entry is filed under the wtxid of its own transaction, and no wtxid twice.\<close>

definition keyed :: "btc_lib \<Rightarrow> tx_map \<Rightarrow> bool" where
  "keyed B m \<longleftrightarrow> distinct (map fst m) \<and> (\<forall>(w, tx) \<in> set m. compute_wtxid B tx = w)"

lemma contains_key_iff: "contains_key m k \<longleftrightarrow> k \<in> fst ` set m"
  by (simp add: contains_key_def map_of_eq_None_iff)

lemma keyed_Nil [simp]: "keyed B []"
  by (simp add: keyed_def)

lemma keyed_Cons:
  "keyed B ((w, tx) # m) \<longleftrightarrow> keyed B m \<and> \<not> contains_key m w \<and> compute_wtxid B tx = w"
  by (auto simp: keyed_def contains_key_iff)

lemma keyed_lookup: "keyed B m \<Longrightarrow> map_of m w = Some tx \<Longrightarrow> compute_wtxid B tx = w"
  by (auto simp: keyed_def dest: map_of_SomeD)

lemma keyed_perm:
  assumes "keyed B m" and "mset m' = mset m"
  shows "keyed B m'"
proof -
  have "mset (map fst m') = mset (map fst m)" using assms(2) by simp
  then have "distinct (map fst m') = distinct (map fst m)" by (rule mset_eq_imp_distinct_iff)
  moreover have "set m' = set m" using assms(2) by (rule mset_eq_setD)
  ultimately show ?thesis using assms(1) by (simp add: keyed_def)
qed

lemma retain_subset: "set (retain_carry_over B t c m) \<subseteq> set m"
  by (induction B t c m rule: retain_carry_over.induct) (auto simp: Let_def)

lemma keyed_retain: "keyed B m \<Longrightarrow> keyed B (retain_carry_over B t c m)"
proof (induction B t c m rule: retain_carry_over.induct)
  case (2 B t c w tx xs)
  have "contains_key (retain_carry_over B t c' xs) w \<Longrightarrow> contains_key xs w" for c'
    using retain_subset [of B t c' xs] by (auto simp: contains_key_iff)
  with 2 show ?case by (auto simp: keyed_Cons Let_def)
qed simp

lemma keyed_or_insert: "keyed B m \<Longrightarrow> compute_wtxid B (snd e) = fst e \<Longrightarrow> keyed B (or_insert m e)"
  by (cases e) (simp add: or_insert_def keyed_Cons)

lemma keyed_foldl_or_insert:
  "keyed B m \<Longrightarrow> \<forall>(w, tx) \<in> set t. compute_wtxid B tx = w \<Longrightarrow> keyed B (foldl or_insert m t)"
  by (induction t arbitrary: m) (auto simp: keyed_or_insert split: prod.splits)

lemma keyed_update_alist:
  assumes "keyed B m"
  shows "keyed B (AList.update (compute_wtxid B tx) tx m)"
proof -
  have "set (AList.update (compute_wtxid B tx) tx m) \<subseteq> insert (compute_wtxid B tx, tx) (set m)"
    by (induction m) auto
  then show ?thesis using assms by (fastforce simp: keyed_def distinct_update)
qed

lemma keyed_template: "keyed B (template_map B blk)"
proof -
  have "keyed B m \<Longrightarrow> keyed B (foldl (\<lambda>m tx. AList.update (compute_wtxid B tx) tx m) m txs)" for m txs
    by (induction txs arbitrary: m) (simp_all add: keyed_update_alist)
  then show ?thesis by (simp add: template_map_def)
qed

lemma keyed_add_loop: "keyed B m \<Longrightarrow> keyed B (add_transactions_loop B c m txs)"
  by (induction B c m txs rule: add_transactions_loop.induct) (simp_all add: keyed_Cons Let_def)

section \<open>Weights\<close>

lemma map_weight_Nil [simp]: "map_weight B [] = 0"
  and map_weight_Cons [simp]: "map_weight B (e # m) = tx_weight B (snd e) + map_weight B m"
  by (simp_all add: map_weight_def)

lemma map_weight_perm:
  assumes "mset m' = mset m"
  shows "map_weight B m' = map_weight B m"
proof -
  let ?f = "\<lambda>e. tx_weight B (snd e)"
  have "sum_mset (mset (map ?f m')) = sum_mset (mset (map ?f m))" using assms by simp
  then show ?thesis by (simp only: sum_mset_sum_list map_weight_def)
qed

lemma map_weight_partition:
  "map_weight B m = map_weight B (filter p m) + map_weight B (filter (\<lambda>e. \<not> p e) m)"
  by (induction m) auto

text \<open>Committing stops at the ceiling.\<close>

lemma add_loop_weight:
  assumes "map_weight B m \<le> MAX_MIRROR_WEIGHT B"
  shows "map_weight B (add_transactions_loop B (map_weight B m) m txs) \<le> MAX_MIRROR_WEIGHT B"
  using assms
proof (induction txs arbitrary: m)
  case (Cons tx txs)
  show ?case
    using Cons.prems Cons.IH [of m] Cons.IH [of "(compute_wtxid B tx, tx) # m"]
    by (auto simp: Let_def not_less add.commute)
qed simp

lemma add_loop_superset: "set m \<subseteq> set (add_transactions_loop B c m txs)"
  by (induction B c m txs rule: add_transactions_loop.induct) (auto simp: Let_def)

lemma add_loop_subset:
  "set (add_transactions_loop B c m txs) \<subseteq> set m \<union> (\<lambda>tx. (compute_wtxid B tx, tx)) ` set txs"
  by (induction B c m txs rule: add_transactions_loop.induct) (auto simp: Let_def)

text \<open>The entries the trim keeps beyond the template weigh at most the carry-over.\<close>

lemma retain_over_budget:
  "MAX_MIRROR_CARRY_OVER_WEIGHT B < c \<Longrightarrow>
    filter (\<lambda>e. \<not> contains_key t (fst e)) (retain_carry_over B t c m) = []"
  by (induction B t c m rule: retain_carry_over.induct) (auto simp: Let_def)

lemma retain_carried_weight:
  "c \<le> MAX_MIRROR_CARRY_OVER_WEIGHT B \<Longrightarrow>
    c + map_weight B (filter (\<lambda>e. \<not> contains_key t (fst e)) (retain_carry_over B t c m))
      \<le> MAX_MIRROR_CARRY_OVER_WEIGHT B"
proof (induction B t c m rule: retain_carry_over.induct)
  case (2 B t c w tx xs)
  then show ?case
    by (cases "c + tx_weight B tx \<le> MAX_MIRROR_CARRY_OVER_WEIGHT B")
      (auto simp: Let_def not_le retain_over_budget)
qed simp

text \<open>The template's own entries, in the mirror or in the template, weigh no more than the
  template's transactions: a wtxid stands for one transaction.\<close>

definition no_collision :: "btc_lib \<Rightarrow> transaction set \<Rightarrow> bool" where
  "no_collision B txs \<longleftrightarrow> inj_on (compute_wtxid B) txs"

definition template_txs :: "block \<Rightarrow> transaction list" where
  "template_txs blk = drop 1 (blk_txdata blk)"

definition txs_weight :: "btc_lib \<Rightarrow> transaction list \<Rightarrow> nat" where
  "txs_weight B txs = sum_list (map (tx_weight B) txs)"

lemma foldl_update_weight:
  "map_weight B (foldl (\<lambda>m tx. AList.update (compute_wtxid B tx) tx m) m txs)
    \<le> map_weight B m + txs_weight B txs"
proof (induction txs arbitrary: m)
  case Nil
  then show ?case by (simp add: txs_weight_def)
next
  case (Cons tx txs)
  let ?m' = "AList.update (compute_wtxid B tx) tx m"
  have "map_weight B (AList.update k tx m) \<le> map_weight B m + tx_weight B tx" for k
    by (induction m) auto
  then have u: "map_weight B ?m' \<le> map_weight B m + tx_weight B tx" .
  have w: "txs_weight B (tx # txs) = tx_weight B tx + txs_weight B txs"
    by (simp add: txs_weight_def)
  show ?case using Cons.IH [of ?m'] u unfolding foldl_Cons w by linarith
qed

lemma template_weight: "map_weight B (template_map B blk) \<le> txs_weight B (template_txs blk)"
  using foldl_update_weight [of B "[]" "drop 1 (blk_txdata blk)"]
  by (simp add: template_map_def template_txs_def)

lemma set_foldl_update:
  "snd ` set (foldl (\<lambda>m tx. AList.update (compute_wtxid B tx) tx m) m txs) \<subseteq> snd ` set m \<union> set txs"
proof (induction txs arbitrary: m)
  case (Cons tx txs)
  let ?m' = "AList.update (compute_wtxid B tx) tx m"
  have "set (AList.update k tx m) \<subseteq> insert (k, tx) (set m)" for k
    by (induction m) auto
  then have "snd ` set ?m' \<subseteq> snd ` insert (compute_wtxid B tx, tx) (set m)" by (rule image_mono)
  then have "snd ` set ?m' \<subseteq> snd ` set m \<union> set (tx # txs)" by auto
  then show ?case using Cons.IH [of ?m'] by (simp only: foldl_Cons set_simps) blast
qed simp

lemma set_template: "snd ` set (template_map B blk) \<subseteq> set (template_txs blk)"
  using set_foldl_update [of B "[]"] by (simp add: template_map_def template_txs_def)

lemma map_weight_mono:
  assumes "distinct m" and "distinct m'" and "set m \<subseteq> set m'"
  shows "map_weight B m \<le> map_weight B m'"
  unfolding map_weight_def sum_list_distinct_conv_sum_set [OF assms(1)]
    sum_list_distinct_conv_sum_set [OF assms(2)]
  using assms(3) by (intro sum_mono2) auto

lemma keyed_distinct: "keyed B m \<Longrightarrow> distinct m"
  by (simp add: keyed_def distinct_map)

lemma template_part_weight:
  assumes "keyed B m" and "keyed B t" and "no_collision B (snd ` (set m \<union> set t))"
  shows "map_weight B (filter (\<lambda>e. contains_key t (fst e)) m) \<le> map_weight B t"
proof (rule map_weight_mono)
  show "set (filter (\<lambda>e. contains_key t (fst e)) m) \<subseteq> set t"
  proof clarsimp
    fix w tx assume in_m: "(w, tx) \<in> set m" and "contains_key t w"
    then obtain tx' where in_t: "(w, tx') \<in> set t" by (auto simp: contains_key_iff)
    have "compute_wtxid B tx = compute_wtxid B tx'"
      using assms(1,2) in_m in_t by (fastforce simp: keyed_def)
    moreover have "tx \<in> snd ` (set m \<union> set t)" and "tx' \<in> snd ` (set m \<union> set t)"
      using in_m in_t by force+
    ultimately have "tx = tx'"
      using assms(3) by (auto simp: no_collision_def dest: inj_onD)
    then show "(w, tx) \<in> set t" using in_t by simp
  qed
qed (use assms keyed_distinct in auto)

lemma foldl_or_insert_others:
  "filter (\<lambda>e. \<not> contains_key t (fst e)) (foldl or_insert m t') =
    filter (\<lambda>e. \<not> contains_key t (fst e)) m" if "set t' \<subseteq> set t" for t t' :: tx_map
  using that
proof (induction t' arbitrary: m)
  case (Cons e t')
  then have "contains_key t (fst e)" by (auto simp: contains_key_iff)
  then have "filter (\<lambda>e. \<not> contains_key t (fst e)) (or_insert m e) =
      filter (\<lambda>e. \<not> contains_key t (fst e)) m"
    by (simp add: or_insert_def)
  with Cons show ?case by simp
qed simp

lemma set_foldl_or_insert: "set (foldl or_insert m t) \<subseteq> set m \<union> set t"
proof (induction t arbitrary: m)
  case (Cons e t)
  have "set (or_insert m e) \<subseteq> insert e (set m)" by (auto simp: or_insert_def)
  with Cons.IH [of "or_insert m e"] show ?case by auto
qed simp

lemma foldl_or_insert_superset: "set m \<subseteq> set (foldl or_insert m t)"
proof (induction t arbitrary: m)
  case (Cons e t)
  have "set m \<subseteq> set (or_insert m e)" by (auto simp: or_insert_def)
  with Cons.IH [of "or_insert m e"] show ?case by simp
qed simp

lemma foldl_or_insert_contains:
  "contains_key (foldl or_insert m t) w \<longleftrightarrow> contains_key m w \<or> contains_key t w"
proof (induction t arbitrary: m)
  case Nil
  then show ?case by (simp add: contains_key_iff)
next
  case (Cons e t)
  then show ?case by (auto simp: or_insert_def contains_key_iff)
qed

section \<open>The mirror invariant\<close>

text \<open>The mirror is keyed, never heavier than its ceiling, and knows its template's header fields
  together or not at all.\<close>

definition mirror_inv :: "btc_lib \<Rightarrow> mempool_mirror \<Rightarrow> bool" where
  "mirror_inv B m \<longleftrightarrow>
     keyed B (txdata m) \<and> map_weight B (txdata m) \<le> MAX_MIRROR_WEIGHT B \<and>
     (current_prev_hash m = None \<longleftrightarrow> current_nbits m = None) \<and>
     (current_prev_hash m = None \<longleftrightarrow> current_ntime m = None)"

definition ready_mirror :: "mempool_mirror \<Rightarrow> bool" where
  "ready_mirror m \<longleftrightarrow> current_prev_hash m \<noteq> None \<and> current_nbits m \<noteq> None \<and> current_ntime m \<noteq> None"

text \<open>What is assumed of Bitcoin Core's templates and of the hash: the transactions of a template fit
  in a block, and no two transactions among those in play share a wtxid.\<close>

definition fits_block :: "btc_lib \<Rightarrow> block \<Rightarrow> bool" where
  "fits_block B blk \<longleftrightarrow> txs_weight B (template_txs blk) \<le> weight_max_block B"

definition in_play :: "mempool_mirror \<Rightarrow> block \<Rightarrow> transaction set" where
  "in_play m blk = snd ` set (txdata m) \<union> set (template_txs blk)"

lemma update_txdata:
  obtains txs1 where "txdata (update B visit blk m) = foldl or_insert txs1 (template_map B blk)"
    and "txs1 = retain_carry_over B (template_map B blk) 0
      (visit (if current_prev_hash m \<noteq> Some (hdr_prev_blockhash (blk_header blk)) then [] else txdata m))"
  by (simp add: update_def Let_def)

lemma mirror_inv_update:
  assumes "mirror_inv B m" and visit: "\<And>xs. mset (visit xs) = mset xs"
    and "fits_block B blk" and "no_collision B (in_play m blk)"
  shows "mirror_inv B (update B visit blk m)"
proof -
  let ?t = "template_map B blk"
  define txs0 where "txs0 = (if current_prev_hash m \<noteq> Some (hdr_prev_blockhash (blk_header blk))
    then [] else txdata m)"
  define txs1 where "txs1 = retain_carry_over B ?t 0 (visit txs0)"
  define txs2 where "txs2 = foldl or_insert txs1 ?t"
  have up: "txdata (update B visit blk m) = txs2"
    by (simp add: update_def Let_def txs0_def txs1_def txs2_def)
  have "keyed B txs0" using assms(1) by (simp add: txs0_def mirror_inv_def)
  then have k1: "keyed B txs1"
    unfolding txs1_def by (intro keyed_retain keyed_perm [OF _ visit])
  have kt: "keyed B ?t" by (rule keyed_template)
  then have k2: "keyed B txs2"
    unfolding txs2_def by (intro keyed_foldl_or_insert [OF k1]) (simp add: keyed_def)
  have "set txs1 \<subseteq> set (txdata m)"
    using retain_subset [of B ?t 0 "visit txs0"] mset_eq_setD [OF visit, of txs0]
    by (auto simp: txs1_def txs0_def split: if_splits)
  then have "set txs2 \<union> set ?t \<subseteq> set (txdata m) \<union> set ?t"
    using set_foldl_or_insert [of txs1 ?t] unfolding txs2_def by blast
  then have "snd ` (set txs2 \<union> set ?t) \<subseteq> snd ` (set (txdata m) \<union> set ?t)" by (rule image_mono)
  then have "snd ` (set txs2 \<union> set ?t) \<subseteq> in_play m blk"
    using set_template [of B blk] unfolding in_play_def image_Un by blast
  then have nc: "no_collision B (snd ` (set txs2 \<union> set ?t))"
    using assms(4) by (auto simp: no_collision_def intro: inj_on_subset)
  have "map_weight B (filter (\<lambda>e. contains_key ?t (fst e)) txs2) \<le> weight_max_block B"
    using template_part_weight [OF k2 kt nc] template_weight [of B blk] assms(3)
    by (simp add: fits_block_def)
  moreover have "map_weight B (filter (\<lambda>e. \<not> contains_key ?t (fst e)) txs2)
      \<le> MAX_MIRROR_CARRY_OVER_WEIGHT B"
    using retain_carried_weight [of 0 B ?t "visit txs0"] foldl_or_insert_others [of ?t ?t txs1]
    by (simp add: txs2_def txs1_def)
  ultimately have "map_weight B txs2 \<le> MAX_MIRROR_WEIGHT B"
    using map_weight_partition [of B txs2 "\<lambda>e. contains_key ?t (fst e)"]
    by (simp add: MAX_MIRROR_WEIGHT_def)
  then show ?thesis
    using k2 up by (simp add: mirror_inv_def) (simp add: update_def Let_def)
qed

lemma mirror_inv_add_transactions:
  "mirror_inv B m \<Longrightarrow> mirror_inv B (add_transactions B txs m)"
  by (auto simp: mirror_inv_def add_transactions_def keyed_add_loop add_loop_weight)

lemma mirror_inv_new: "mirror_inv B mirror_new"
  by (simp add: mirror_inv_def mirror_new_def)

lemma ready_update [simp]: "ready_mirror (update B visit blk m)"
  by (simp add: ready_mirror_def update_def Let_def)

lemma add_transactions_header [simp, frame]:
  "current_prev_hash (add_transactions B txs m) = current_prev_hash m"
  "current_nbits (add_transactions B txs m) = current_nbits m"
  "current_ntime (add_transactions B txs m) = current_ntime m"
  "ready_mirror (add_transactions B txs m) = ready_mirror m"
  by (simp_all add: add_transactions_def ready_mirror_def)

text \<open>The mirrors any interleaving of template refreshes and commits can produce.\<close>

inductive mirror_reach :: "btc_lib \<Rightarrow> mempool_mirror \<Rightarrow> bool" for B where
  new: "mirror_reach B mirror_new"
| refresh: "mirror_reach B m \<Longrightarrow> (\<And>xs. mset (visit xs) = mset xs) \<Longrightarrow> fits_block B blk \<Longrightarrow>
    no_collision B (in_play m blk) \<Longrightarrow> mirror_reach B (update B visit blk m)"
| commit: "mirror_reach B m \<Longrightarrow> mirror_reach B (add_transactions B txs m)"

lemma mirror_reach_inv: "mirror_reach B m \<Longrightarrow> mirror_inv B m"
  by (induction rule: mirror_reach.induct)
    (simp_all add: mirror_inv_new mirror_inv_update mirror_inv_add_transactions)

text \<open>
  C7. The memory bound of the mirror holds at every moment: after any interleaving of template
  refreshes and commits of client transactions, in whatever order the hash map is traversed, the
  mirror weighs at most five blocks and files each transaction once, under its own wtxid.
\<close>

theorem mirror_weight_is_bounded:
  assumes "mirror_reach B m"
  shows "map_weight B (txdata m) \<le> 5 * weight_max_block B \<and> distinct (map fst (txdata m)) \<and>
    (\<forall>(w, tx) \<in> set (txdata m). compute_wtxid B tx = w)"
  using mirror_reach_inv [OF assms]
  by (simp add: mirror_inv_def keyed_def MAX_MIRROR_WEIGHT_def MAX_MIRROR_CARRY_OVER_WEIGHT_def)

text \<open>Transactions and templates for concrete evaluations.\<close>

definition demo_tx :: "u32 \<Rightarrow> transaction" where
  "demo_tx n = \<lparr>tx_version = 2, tx_lock_time = n,
     tx_input = [\<lparr>prev_txid = 0, prev_vout = 0, script_sig = [], sequence = 0, witness = []\<rparr>],
     tx_output = []\<rparr>"

definition demo_block :: "block_hash \<Rightarrow> u32 list \<Rightarrow> block" where
  "demo_block prev ns = \<lparr>
     blk_header = \<lparr>hdr_version = 2, hdr_prev_blockhash = prev, hdr_merkle_root = 0, hdr_time = 9,
                   hdr_bits = 5, hdr_nonce = 0\<rparr>,
     blk_txdata = map demo_tx (0 # ns)\<rparr>"

theorem mirror_weight_is_bounded_witness:
  "map_weight demo_btc (txdata (add_transactions demo_btc [demo_tx 3]
      (update demo_btc rev (demo_block 7 [1, 2]) mirror_new))) \<le> 5 * weight_max_block demo_btc"
proof -
  have "mirror_reach demo_btc (update demo_btc rev (demo_block 7 [1, 2]) mirror_new)"
    by (rule mirror_reach.refresh [OF mirror_reach.new])
      (simp_all add: fits_block_def txs_weight_def template_txs_def demo_block_def demo_tx_def
        demo_btc_def no_collision_def in_play_def mirror_new_def inj_on_def)
  then have "mirror_reach demo_btc (add_transactions demo_btc [demo_tx 3]
      (update demo_btc rev (demo_block 7 [1, 2]) mirror_new))"
    by (rule mirror_reach.commit)
  from mirror_weight_is_bounded [OF this] show ?thesis by simp
qed

section \<open>What a refresh keeps\<close>

lemma template_contains:
  "contains_key (template_map B blk) w \<longleftrightarrow> w \<in> compute_wtxid B ` set (template_txs blk)"
proof -
  have "contains_key (foldl (\<lambda>m tx. AList.update (compute_wtxid B tx) tx m) m txs) w \<longleftrightarrow>
      contains_key m w \<or> w \<in> compute_wtxid B ` set txs" for m txs
    by (induction txs arbitrary: m) (auto simp: contains_key_def update_conv)
  then show ?thesis by (simp add: template_map_def template_txs_def contains_key_def)
qed

lemma retain_keeps_template:
  "(w, tx) \<in> set m \<Longrightarrow> contains_key t w \<Longrightarrow> (w, tx) \<in> set (retain_carry_over B t c m)"
  by (induction B t c m rule: retain_carry_over.induct) (auto simp: Let_def)

text \<open>
  A refresh follows the template: afterwards every transaction of the template is in the mirror;
  at a new chain tip the mirror holds nothing else, and at the same tip every other entry is one the
  mirror already held. The header fields are those of the template.
\<close>

theorem refresh_follows_template:
  fixes B :: btc_lib and visit :: "tx_map \<Rightarrow> tx_map" and blk :: block and m :: mempool_mirror
  assumes "\<And>xs. mset (visit xs) = mset xs"
  defines "m' \<equiv> update B visit blk m"
  shows "(\<forall>tx \<in> set (template_txs blk). contains_key (txdata m') (compute_wtxid B tx)) \<and>
    (\<forall>w tx. (w, tx) \<in> set (txdata m') \<longrightarrow>
       w \<in> compute_wtxid B ` set (template_txs blk) \<or>
       ((w, tx) \<in> set (txdata m) \<and> current_prev_hash m = Some (hdr_prev_blockhash (blk_header blk)))) \<and>
    current_prev_hash m' = Some (hdr_prev_blockhash (blk_header blk)) \<and>
    current_nbits m' = Some (hdr_bits (blk_header blk)) \<and>
    current_ntime m' = Some (hdr_time (blk_header blk))"
proof -
  let ?t = "template_map B blk"
  define txs0 where "txs0 = (if current_prev_hash m \<noteq> Some (hdr_prev_blockhash (blk_header blk))
    then [] else txdata m)"
  define txs1 where "txs1 = retain_carry_over B ?t 0 (visit txs0)"
  have up: "txdata m' = foldl or_insert txs1 ?t"
    by (simp add: m'_def update_def Let_def txs0_def txs1_def)
  have txs1: "set txs1 \<subseteq> set txs0"
    using retain_subset [of B ?t 0 "visit txs0"] mset_eq_setD [OF assms(1), of txs0]
    by (simp add: txs1_def)
  have all: "\<forall>tx \<in> set (template_txs blk). contains_key (txdata m') (compute_wtxid B tx)"
    by (simp add: up foldl_or_insert_contains template_contains)
  have only: "w \<in> compute_wtxid B ` set (template_txs blk) \<or>
      ((w, tx) \<in> set (txdata m) \<and> current_prev_hash m = Some (hdr_prev_blockhash (blk_header blk)))"
    if "(w, tx) \<in> set (txdata m')" for w tx
  proof (cases "(w, tx) \<in> set ?t")
    case True
    then have "contains_key ?t w" by (force simp: contains_key_iff)
    then show ?thesis by (simp add: template_contains)
  next
    case False
    then have "(w, tx) \<in> set txs0"
      using that set_foldl_or_insert [of txs1 ?t] txs1 by (auto simp: up)
    then show ?thesis by (auto simp: txs0_def split: if_splits)
  qed
  show ?thesis
    using all only by (simp add: m'_def) (simp add: update_def Let_def)
qed

theorem refresh_follows_template_witness:
  "contains_key (txdata (update demo_btc rev (demo_block 7 [1, 2]) mirror_new)) 2"
proof -
  have "demo_tx 2 \<in> set (template_txs (demo_block 7 [1, 2]))"
    by (simp add: template_txs_def demo_block_def)
  then have "contains_key (txdata (update demo_btc rev (demo_block 7 [1, 2]) mirror_new))
      (compute_wtxid demo_btc (demo_tx 2))"
    using refresh_follows_template [of rev "demo_block 7 [1, 2]" demo_btc mirror_new] by simp
  then show ?thesis by (simp add: demo_btc_def demo_tx_def)
qed

section \<open>Resolution\<close>

text \<open>The specification: the resolved transactions in declaration order, weighed as a whole.\<close>

definition resolve_spec ::
  "btc_lib \<Rightarrow> (wtxid \<Rightarrow> transaction option) \<Rightarrow> nat \<Rightarrow> wtxid list \<Rightarrow>
   (resolve_error, transaction list) result" where
  "resolve_spec B look budget ws =
     (let resolved = List.map_filter look ws; unresolved = filter (\<lambda>w. look w = None) ws
      in if budget < txs_weight B resolved then Err TooHeavy
         else if unresolved = [] then Ok resolved else Err (Missing unresolved))"

lemma txs_weight_simps [simp]:
  "txs_weight B [] = 0" "txs_weight B (tx # txs) = tx_weight B tx + txs_weight B txs"
  "txs_weight B (txs @ txs') = txs_weight B txs + txs_weight B txs'"
  by (simp_all add: txs_weight_def)

lemma resolve_loop_eq:
  assumes "weight \<le> budget"
  shows "resolve_loop B look budget weight txs missing ws =
    (if budget < weight + txs_weight B (List.map_filter look ws) then Err TooHeavy
     else if missing @ filter (\<lambda>w. look w = None) ws = [] then Ok (txs @ List.map_filter look ws)
     else Err (Missing (missing @ filter (\<lambda>w. look w = None) ws)))"
  using assms
proof (induction ws arbitrary: weight txs missing)
  case Nil
  then show ?case by (simp add: map_filter_simps)
next
  case (Cons w ws)
  show ?case
  proof (cases "look w")
    case None
    then show ?thesis using Cons by (simp add: map_filter_simps)
  next
    case (Some tx)
    then show ?thesis
      using Cons.IH [of "weight + tx_weight B tx" "txs @ [tx]" missing] Cons.prems
      by (auto simp: map_filter_simps Let_def not_less add.assoc)
  qed
qed

lemma resolve_txdata_eq:
  "resolve_txdata B m ws staged budget = resolve_spec B (lookup_tx m staged) budget ws"
  by (simp add: resolve_txdata_def resolve_loop_eq resolve_spec_def Let_def)

text \<open>
  Resolving a declared list in one pass, stopping at the first transaction that breaks the weight
  budget, is the same as resolving everything first and then judging: too heavy exactly when the
  resolvable transactions together exceed the budget, otherwise the unresolvable wtxids in declaration
  order if there are any, otherwise the transactions in declaration order.
\<close>

theorem resolve_equals_specification:
  "resolve_txdata B m wtxids staged weight_budget =
     resolve_spec B (lookup_tx m staged) weight_budget wtxids"
  by (rule resolve_txdata_eq)

lemma map_filter_all_Some:
  "filter (\<lambda>w. look w = None) ws = [] \<Longrightarrow> list_all2 (\<lambda>w tx. look w = Some tx) ws (List.map_filter look ws)"
  by (induction ws) (auto simp: map_filter_simps split: option.splits if_splits)

lemma resolve_OkD:
  assumes "resolve_txdata B m ws staged budget = Ok txs"
  shows "list_all2 (\<lambda>w tx. lookup_tx m staged w = Some tx) ws txs" and "txs_weight B txs \<le> budget"
  using assms map_filter_all_Some [of "lookup_tx m staged" ws]
  by (auto simp: resolve_txdata_eq resolve_spec_def Let_def split: if_splits)

end
