(* ===== verification/Jdp_Validator.thy ===== *)
theory Jdp_Validator
  imports Mempool_Mirror
begin

text \<open>
  \<open>bitcoin-core-sv2/src/unix_capnp/v31x/job_declaration_protocol/\<close>, \<open>handlers.rs\<close> and \<open>mod.rs\<close>: the
  validation of a declared job against Bitcoin Core. The handler of \<open>DeclareMiningJob\<close> awaits once,
  for the answer of \<open>checkBlock\<close>; the model splits it there into \<open>declare_start\<close> and \<open>declare_finish\<close>,
  and the step relation \<open>jdp_step\<close> lets the mempool monitor refresh the mirror in between. What
  \<open>checkBlock\<close> answers is an argument. An \<open>expect\<close> on a header field the mirror has not got yet is
  the outcome \<open>StartPanic\<close> (\<open>None\<close> at the finish).
\<close>

section \<open>Model\<close>

text \<open>The error codes of \<open>job_declaration_sv2\<close> and \<open>mining_sv2\<close>, named as the constants are.\<close>

datatype error_code =
    DECLARE_MINING_JOB_INTERNAL_ERROR
  | DECLARE_MINING_JOB_INVALID_COINBASE_TX
  | DECLARE_MINING_JOB_INVALID_COINBASE_TX_INPUT
  | DECLARE_MINING_JOB_INVALID_JOB
  | DECLARE_MINING_JOB_INVALID_MINING_JOB_TOKEN
  | DECLARE_MINING_JOB_MISSING_TXS
  | DECLARE_MINING_JOB_STALE_CHAIN_TIP
  | SET_CUSTOM_MINING_JOB_INVALID_COINBASE_PREFIX
  | SET_CUSTOM_MINING_JOB_INVALID_COINBASE_TX
  | SET_CUSTOM_MINING_JOB_INVALID_COINBASE_TX_INPUT_N_SEQUENCE
  | SET_CUSTOM_MINING_JOB_INVALID_COINBASE_TX_LOCKTIME
  | SET_CUSTOM_MINING_JOB_INVALID_COINBASE_TX_OUTPUTS
  | SET_CUSTOM_MINING_JOB_INVALID_COINBASE_TX_VERSION
  | SET_CUSTOM_MINING_JOB_INVALID_MERKLE_PATH
  | SET_CUSTOM_MINING_JOB_INVALID_MINING_JOB_TOKEN
  | SET_CUSTOM_MINING_JOB_INVALID_NBITS
  | SET_CUSTOM_MINING_JOB_INVALID_VERSION
  | SET_CUSTOM_MINING_JOB_JOB_NOT_YET_VALIDATED
  | SET_CUSTOM_MINING_JOB_STALE_CHAIN_TIP

record validation_context =
  ctx_prev_hash :: block_hash
  ctx_nbits :: u32

record declare_request =
  rq_version :: u32
  rq_coinbase_tx :: transaction
  rq_wtxid_list :: "wtxid list"
  rq_missing_txs :: "transaction list"

datatype jd_response =
    JdSuccess block_hash u32 "txid list"
  | JdError error_code validation_context
  | JdMissingTransactions "wtxid list" validation_context

definition MAX_DECLARED_TXS :: "btc_lib \<Rightarrow> nat" where
  "MAX_DECLARED_TXS B = weight_max_block B div weight_min_transaction B"

text \<open>The two loops of \<open>stage_missing_txs\<close>: over the declared list, with the set \<open>declared\<close>, and over
  the supplied transactions, with the map \<open>staged\<close>.\<close>

fun collect_declared :: "wtxid set \<Rightarrow> wtxid list \<Rightarrow> wtxid set option" where
  "collect_declared declared [] = Some declared"
| "collect_declared declared (w # ws) =
     (if w \<in> declared then None else collect_declared (insert w declared) ws)"

fun stage_loop ::
  "btc_lib \<Rightarrow> wtxid set \<Rightarrow> (wtxid \<rightharpoonup> transaction) \<Rightarrow> transaction list \<Rightarrow> (wtxid \<rightharpoonup> transaction) option" where
  "stage_loop B declared staged [] = Some staged"
| "stage_loop B declared staged (tx # txs) =
     (let w = compute_wtxid B tx
      in if is_coinbase B tx then None
         else if w \<notin> declared then None
         else if staged w \<noteq> None then None
         else stage_loop B declared (staged(w \<mapsto> tx)) txs)"

definition stage_missing_txs ::
  "btc_lib \<Rightarrow> wtxid list \<Rightarrow> transaction list \<Rightarrow> (wtxid \<rightharpoonup> transaction) option" where
  "stage_missing_txs B wtxid_list missing_txs =
     (if MAX_DECLARED_TXS B < length wtxid_list then None
      else case collect_declared {} wtxid_list of
             None \<Rightarrow> None
           | Some declared \<Rightarrow> stage_loop B declared Map.empty missing_txs)"

text \<open>What the handler holds across the await.\<close>

record in_flight =
  fl_request :: declare_request
  fl_context :: validation_context
  fl_ntime :: u32
  fl_txdata :: "transaction list"
  fl_staged :: "wtxid \<rightharpoonup> transaction"

datatype declare_start_result = StartPanic | StartReply jd_response | StartCheck in_flight

definition declare_start :: "btc_lib \<Rightarrow> declare_request \<Rightarrow> mempool_mirror \<Rightarrow> declare_start_result" where
  "declare_start B rq m =
     (case (current_prev_hash m, current_nbits m, current_ntime m) of
        (Some prev_hash, Some nbits, Some ntime) \<Rightarrow>
          (let ctx = \<lparr>ctx_prev_hash = prev_hash, ctx_nbits = nbits\<rparr>
           in if length (tx_input (rq_coinbase_tx rq)) \<noteq> 1
              then StartReply (JdError DECLARE_MINING_JOB_INVALID_COINBASE_TX_INPUT ctx)
              else case stage_missing_txs B (rq_wtxid_list rq) (rq_missing_txs rq) of
                None \<Rightarrow> StartReply (JdError DECLARE_MINING_JOB_INVALID_JOB ctx)
              | Some staged \<Rightarrow>
                  (let weight_budget = weight_max_block B - tx_weight B (rq_coinbase_tx rq)
                   in case resolve_txdata B m (rq_wtxid_list rq) staged weight_budget of
                        Inl (Missing ws) \<Rightarrow> StartReply (JdMissingTransactions ws ctx)
                      | Inl TooHeavy \<Rightarrow> StartReply (JdError DECLARE_MINING_JOB_INVALID_JOB ctx)
                      | Inr txs \<Rightarrow> StartCheck \<lparr>fl_request = rq, fl_context = ctx, fl_ntime = ntime,
                                               fl_txdata = txs, fl_staged = staged\<rparr>))
      | _ \<Rightarrow> StartPanic)"

text \<open>The block handed to \<open>checkBlock\<close>, with the merkle root and the nonce the handler leaves zero.\<close>

definition assembled_block :: "in_flight \<Rightarrow> block" where
  "assembled_block fl = \<lparr>
     blk_header = \<lparr>hdr_version = rq_version (fl_request fl),
                   hdr_prev_blockhash = ctx_prev_hash (fl_context fl), hdr_merkle_root = 0,
                   hdr_time = fl_ntime fl, hdr_bits = ctx_nbits (fl_context fl), hdr_nonce = 0\<rparr>,
     blk_txdata = rq_coinbase_tx (fl_request fl) # fl_txdata fl\<rparr>"

text \<open>The IPC calls around \<open>checkBlock\<close>, in the order they are made: whether each succeeds, and what the
  last one carries. Any failed call is \<open>CheckIpcFailure\<close>; a reason that is not there or not text reads as
  the empty string.\<close>

record check_block_ipc =
  ipc_context_ok :: bool
  ipc_options_ok :: bool
  ipc_send_ok :: bool
  ipc_result_ok :: bool
  ipc_accepted :: bool
  ipc_reason :: "string option"

datatype check_block_outcome = CheckOk | CheckRejected string | CheckIpcFailure

definition check_block :: "check_block_ipc \<Rightarrow> check_block_outcome" where
  "check_block ipc =
     (if \<not> ipc_context_ok ipc then CheckIpcFailure
      else if \<not> ipc_options_ok ipc then CheckIpcFailure
      else if \<not> ipc_send_ok ipc then CheckIpcFailure
      else if \<not> ipc_result_ok ipc then CheckIpcFailure
      else if ipc_accepted ipc then CheckOk
      else CheckRejected (case ipc_reason ipc of Some r \<Rightarrow> r | None \<Rightarrow> []))"

definition classify_rejection :: "string \<Rightarrow> error_code" where
  "classify_rejection reason =
     (if reason = ''inconclusive-not-best-prevblk'' \<or> reason = ''bad-txns-nonfinal'' \<or>
         reason = ''bad-cb-height''
      then DECLARE_MINING_JOB_STALE_CHAIN_TIP else DECLARE_MINING_JOB_INVALID_JOB)"

text \<open>\<open>wtxid_list.iter().filter_map(|wtxid| staged_txs.remove(wtxid))\<close>.\<close>

fun take_staged :: "(wtxid \<rightharpoonup> transaction) \<Rightarrow> wtxid list \<Rightarrow> transaction list" where
  "take_staged staged [] = []"
| "take_staged staged (w # ws) =
     (case staged w of
        None \<Rightarrow> take_staged staged ws
      | Some tx \<Rightarrow> tx # take_staged (staged(w := None)) ws)"

text \<open>The answer, the mirror afterwards, and whether the connection to Bitcoin Core is cancelled.\<close>

definition declare_finish ::
  "btc_lib \<Rightarrow> in_flight \<Rightarrow> check_block_outcome \<Rightarrow> mempool_mirror \<Rightarrow>
   (jd_response \<times> mempool_mirror \<times> bool) option" where
  "declare_finish B fl outcome m =
     (case outcome of
        CheckIpcFailure \<Rightarrow>
          Some (JdError DECLARE_MINING_JOB_INTERNAL_ERROR (fl_context fl), m, True)
      | _ \<Rightarrow>
        (case (current_prev_hash m, current_nbits m) of
           (Some prev_hash, Some nbits) \<Rightarrow>
             (let latest = \<lparr>ctx_prev_hash = prev_hash, ctx_nbits = nbits\<rparr>
              in case outcome of
                   CheckRejected reason \<Rightarrow> Some (JdError (classify_rejection reason) latest, m, False)
                 | _ \<Rightarrow>
                     if ctx_prev_hash latest = ctx_prev_hash (fl_context fl)
                     then Some (JdSuccess (ctx_prev_hash (fl_context fl)) (ctx_nbits (fl_context fl))
                                  (map (compute_txid B) (fl_txdata fl)),
                                add_transactions B
                                  (take_staged (fl_staged fl) (rq_wtxid_list (fl_request fl))) m,
                                False)
                     else Some (JdError DECLARE_MINING_JOB_STALE_CHAIN_TIP latest, m, False))
         | _ \<Rightarrow> None))"

subsection \<open>The event loop\<close>

text \<open>
  Requests are handled one at a time; the monitor and cancellation interleave with a request at its
  await. The state keeps the request in flight; a step that answers carries the answer as its label.
\<close>

record jdp_state =
  jdp_mirror :: mempool_mirror
  jdp_in_flight :: "in_flight option"
  jdp_cancelled :: bool
  jdp_monitoring :: bool

text \<open>One turn of the mempool monitor, by what its \<open>waitNext\<close> request came to: the timeout of a quiet
  mempool (a null capability), a new template whose block could be fetched and decoded or not, any
  other failure, or cancellation.\<close>

datatype wait_next_outcome =
  WaitTimedOut | WaitNewTemplate "block option" | WaitFailed | WaitCancelled

definition monitor_turn ::
  "btc_lib \<Rightarrow> (tx_map \<Rightarrow> tx_map) \<Rightarrow> wait_next_outcome \<Rightarrow> jdp_state \<Rightarrow> jdp_state" where
  "monitor_turn B visit outcome s =
     (case outcome of
        WaitTimedOut \<Rightarrow> s
      | WaitNewTemplate (Some blk) \<Rightarrow> s\<lparr>jdp_mirror := update B visit blk (jdp_mirror s)\<rparr>
      | WaitNewTemplate None \<Rightarrow> s\<lparr>jdp_cancelled := True, jdp_monitoring := False\<rparr>
      | WaitFailed \<Rightarrow> s\<lparr>jdp_cancelled := True, jdp_monitoring := False\<rparr>
      | WaitCancelled \<Rightarrow> s\<lparr>jdp_monitoring := False\<rparr>)"

inductive jdp_step ::
  "btc_lib \<Rightarrow> jdp_state \<Rightarrow> (declare_request \<times> jd_response) option \<Rightarrow> jdp_state \<Rightarrow> bool" for B where
  refuse: "jdp_in_flight s = None \<Longrightarrow> \<not> jdp_cancelled s \<Longrightarrow>
    declare_start B rq (jdp_mirror s) = StartReply r \<Longrightarrow> jdp_step B s (Some (rq, r)) s"
| send_check: "jdp_in_flight s = None \<Longrightarrow> \<not> jdp_cancelled s \<Longrightarrow>
    declare_start B rq (jdp_mirror s) = StartCheck fl \<Longrightarrow>
    jdp_step B s None (s\<lparr>jdp_in_flight := Some fl\<rparr>)"
| checked: "jdp_in_flight s = Some fl \<Longrightarrow> \<not> jdp_cancelled s \<Longrightarrow>
    declare_finish B fl (check_block ipc) (jdp_mirror s) = Some (r, m, c) \<Longrightarrow>
    jdp_step B s (Some (fl_request fl, r))
      (s\<lparr>jdp_mirror := m, jdp_in_flight := None, jdp_cancelled := c\<rparr>)"
| push_solution: "jdp_in_flight s = None \<Longrightarrow> \<not> jdp_cancelled s \<Longrightarrow> jdp_step B s None s"
| monitor: "jdp_monitoring s \<Longrightarrow> (\<And>xs. mset (visit xs) = mset xs) \<Longrightarrow>
    (\<And>blk. outcome = WaitNewTemplate (Some blk) \<Longrightarrow>
      \<not> jdp_cancelled s \<and> fits_block B blk \<and> no_collision B (in_play (jdp_mirror s) blk)) \<Longrightarrow>
    jdp_step B s None (monitor_turn B visit outcome s)"
| cancel: "jdp_step B s None (s\<lparr>jdp_in_flight := None, jdp_cancelled := True\<rparr>)"

text \<open>Construction bootstraps the mirror from one template before the loop starts.\<close>

inductive jdp_reach :: "btc_lib \<Rightarrow> jdp_state \<Rightarrow> bool" for B where
  bootstrap: "(\<And>xs. mset (visit xs) = mset xs) \<Longrightarrow> fits_block B blk \<Longrightarrow>
    no_collision B (in_play mirror_new blk) \<Longrightarrow>
    jdp_reach B \<lparr>jdp_mirror = update B visit blk mirror_new, jdp_in_flight = None, jdp_cancelled = False,
      jdp_monitoring = True\<rparr>"
| step: "jdp_reach B s \<Longrightarrow> jdp_step B s l s' \<Longrightarrow> jdp_reach B s'"

section \<open>Staging\<close>

lemma collect_declared_eq:
  "collect_declared D ws =
    (if distinct ws \<and> set ws \<inter> D = {} then Some (D \<union> set ws) else None)"
  by (induction D ws rule: collect_declared.induct) auto

definition stage_ok :: "btc_lib \<Rightarrow> wtxid set \<Rightarrow> transaction list \<Rightarrow> bool" where
  "stage_ok B declared txs \<longleftrightarrow>
     distinct (map (compute_wtxid B) txs) \<and> compute_wtxid B ` set txs \<subseteq> declared \<and>
     (\<forall>tx \<in> set txs. \<not> is_coinbase B tx)"

lemma stage_loop_eq:
  "stage_loop B D staged txs =
    (if stage_ok B D txs \<and> compute_wtxid B ` set txs \<inter> dom staged = {}
     then Some (staged ++ map_of (map (\<lambda>tx. (compute_wtxid B tx, tx)) txs)) else None)"
proof (induction txs arbitrary: staged)
  case (Cons tx txs)
  let ?w = "compute_wtxid B tx"
  show ?case
  proof (cases "is_coinbase B tx \<or> ?w \<notin> D \<or> staged ?w \<noteq> None")
    case True
    then show ?thesis by (auto simp: stage_ok_def Let_def)
  next
    case False
    let ?rest = "map_of (map (\<lambda>tx. (compute_wtxid B tx, tx)) txs)"
    have step: "stage_loop B D staged (tx # txs) = stage_loop B D (staged(?w \<mapsto> tx)) txs"
      using False by (simp add: Let_def)
    have cond: "stage_ok B D (tx # txs) \<and> compute_wtxid B ` set (tx # txs) \<inter> dom staged = {} \<longleftrightarrow>
        stage_ok B D txs \<and> compute_wtxid B ` set txs \<inter> dom (staged(?w \<mapsto> tx)) = {}"
    proof -
      have dom: "dom (staged(?w \<mapsto> tx)) = insert ?w (dom staged)" by (rule dom_fun_upd [THEN trans]) simp
      have "?w \<notin> dom staged" and "?w \<in> D" and "\<not> is_coinbase B tx" using False by auto
      then show ?thesis unfolding dom stage_ok_def by auto
    qed
    have upd: "staged(?w \<mapsto> tx) ++ ?rest = staged ++ ?rest(?w \<mapsto> tx)"
      if "?w \<notin> compute_wtxid B ` set txs"
      using that by (simp add: map_add_upd_left dom_map_of_conv_image_fst image_image)
    show ?thesis
      unfolding step cond Cons.IH list.map map_of.simps fst_conv snd_conv
      using cond upd by (auto simp: stage_ok_def fun_upd_def simp del: map_add_upd)
  qed
qed (simp add: stage_ok_def)

lemma stage_missing_txs_eq:
  "stage_missing_txs B ws txs =
    (if length ws \<le> MAX_DECLARED_TXS B \<and> distinct ws \<and> stage_ok B (set ws) txs
     then Some (map_of (map (\<lambda>tx. (compute_wtxid B tx, tx)) txs)) else None)"
  by (simp add: stage_missing_txs_def collect_declared_eq stage_loop_eq)

text \<open>
  Staging accepts a declaration exactly when its list is short enough for a block and repeats no
  wtxid, and the supplied transactions are ordinary ones, each declared and none supplied twice; it
  then files each supplied transaction, and nothing else, under the wtxid it really hashes to.
\<close>

theorem staging_specification:
  "stage_missing_txs B wtxid_list missing_txs =
    (if length wtxid_list \<le> weight_max_block B div weight_min_transaction B \<and> distinct wtxid_list \<and>
        distinct (map (compute_wtxid B) missing_txs) \<and>
        compute_wtxid B ` set missing_txs \<subseteq> set wtxid_list \<and>
        list_all (\<lambda>tx. \<not> is_coinbase B tx) missing_txs
     then Some (map_of (map (\<lambda>tx. (compute_wtxid B tx, tx)) missing_txs)) else None)"
  by (simp add: stage_missing_txs_eq stage_ok_def MAX_DECLARED_TXS_def list_all_iff)

section \<open>The request in flight\<close>

lemma stagedD:
  assumes "stage_missing_txs B ws txs = Some st" and "st w = Some tx"
  shows "compute_wtxid B tx = w" and "w \<in> set ws" and "tx \<in> set txs"
  using assms
  by (auto simp: stage_missing_txs_eq stage_ok_def image_subset_iff split: if_splits dest!: map_of_SomeD)

lemma take_staged_subset: "tx \<in> set (take_staged st ws) \<Longrightarrow> \<exists>w \<in> set ws. st w = Some tx"
proof (induction st ws rule: take_staged.induct)
  case (2 st w ws)
  then show ?case by (fastforce split: option.splits if_splits)
qed simp

text \<open>What holds of a request whose block has been sent to \<open>checkBlock\<close>, whatever happens to the
  mirror meanwhile.\<close>

definition flight_inv :: "btc_lib \<Rightarrow> in_flight \<Rightarrow> bool" where
  "flight_inv B fl \<longleftrightarrow>
     map (compute_wtxid B) (fl_txdata fl) = rq_wtxid_list (fl_request fl) \<and>
     length (tx_input (rq_coinbase_tx (fl_request fl))) = 1 \<and>
     txs_weight B (fl_txdata fl) \<le> weight_max_block B - tx_weight B (rq_coinbase_tx (fl_request fl)) \<and>
     stage_missing_txs B (rq_wtxid_list (fl_request fl)) (rq_missing_txs (fl_request fl)) =
       Some (fl_staged fl)"

lemma declare_start_CheckD:
  assumes "declare_start B rq m = StartCheck fl"
  shows "fl_request fl = rq" and "length (tx_input (rq_coinbase_tx rq)) = 1"
    and "current_prev_hash m = Some (ctx_prev_hash (fl_context fl))"
    and "stage_missing_txs B (rq_wtxid_list rq) (rq_missing_txs rq) = Some (fl_staged fl)"
    and "resolve_txdata B m (rq_wtxid_list rq) (fl_staged fl)
      (weight_max_block B - tx_weight B (rq_coinbase_tx rq)) = Ok (fl_txdata fl)"
  using assms
  by (auto simp: declare_start_def Let_def split: option.splits sum.splits resolve_error.splits if_splits)

lemma flight_inv_start:
  assumes "keyed B (txdata m)" and "declare_start B rq m = StartCheck fl"
  shows "flight_inv B fl"
proof -
  note start = declare_start_CheckD [OF assms(2)]
  note resolved = resolve_OkD [OF start(5)]
  have key: "lookup_tx m (fl_staged fl) w = Some tx \<Longrightarrow> compute_wtxid B tx = w" for w tx
    using stagedD(1) [OF start(4)] keyed_lookup [OF assms(1)]
    by (auto simp: lookup_tx_def split: option.splits)
  have "list_all2 (\<lambda>w tx. compute_wtxid B tx = w) (rq_wtxid_list rq) (fl_txdata fl)"
    using resolved(1) by (rule list_all2_mono) (rule key)
  then have "map (compute_wtxid B) (fl_txdata fl) = rq_wtxid_list rq"
    by (induction rule: list_all2_induct) simp_all
  then show ?thesis using start resolved(2) by (simp add: flight_inv_def)
qed

lemma declare_finish_cases:
  assumes "declare_finish B fl outcome m = Some (r, m', c)"
  obtains (ipc) "outcome = CheckIpcFailure" and "m' = m" and "c"
      and "r = JdError DECLARE_MINING_JOB_INTERNAL_ERROR (fl_context fl)"
  | (rejected) reason ctx where "outcome = CheckRejected reason" and "m' = m" and "\<not> c"
      and "r = JdError (classify_rejection reason) ctx"
      and "current_prev_hash m = Some (ctx_prev_hash ctx)"
  | (moved) ctx where "outcome = CheckOk" and "m' = m" and "\<not> c"
      and "r = JdError DECLARE_MINING_JOB_STALE_CHAIN_TIP ctx"
      and "current_prev_hash m = Some (ctx_prev_hash ctx)"
      and "ctx_prev_hash ctx \<noteq> ctx_prev_hash (fl_context fl)"
  | (success) "outcome = CheckOk" and "\<not> c"
      and "current_prev_hash m = Some (ctx_prev_hash (fl_context fl))"
      and "m' = add_transactions B (take_staged (fl_staged fl) (rq_wtxid_list (fl_request fl))) m"
      and "r = JdSuccess (ctx_prev_hash (fl_context fl)) (ctx_nbits (fl_context fl))
        (map (compute_txid B) (fl_txdata fl))"
proof (cases outcome)
  case CheckIpcFailure
  then show ?thesis using assms by (intro ipc) (simp_all add: declare_finish_def)
next
  case (CheckRejected reason)
  then show ?thesis using assms
    by (auto simp: declare_finish_def Let_def split: option.splits intro: rejected)
next
  case CheckOk
  then obtain prev_hash nbits where tip: "current_prev_hash m = Some prev_hash" "current_nbits m = Some nbits"
    using assms by (auto simp: declare_finish_def split: option.splits)
  show ?thesis
  proof (cases "prev_hash = ctx_prev_hash (fl_context fl)")
    case True
    then show ?thesis using assms CheckOk tip by (intro success) (simp_all add: declare_finish_def)
  next
    case False
    then show ?thesis using assms CheckOk tip
      by (intro moved [of "\<lparr>ctx_prev_hash = prev_hash, ctx_nbits = nbits\<rparr>"]) (simp_all add: declare_finish_def)
  qed
qed

definition jdp_inv :: "btc_lib \<Rightarrow> jdp_state \<Rightarrow> bool" where
  "jdp_inv B s \<longleftrightarrow> mirror_inv B (jdp_mirror s) \<and> ready_mirror (jdp_mirror s) \<and>
     (\<forall>fl. jdp_in_flight s = Some fl \<longrightarrow> flight_inv B fl)"

lemma finish_mirror:
  assumes "declare_finish B fl outcome m = Some (r, m', c)"
  shows "mirror_inv B m \<Longrightarrow> mirror_inv B m'" and "ready_mirror m' = ready_mirror m"
  using assms by (cases rule: declare_finish_cases; simp add: mirror_inv_add_transactions)+

lemma jdp_inv_step: "jdp_step B s l s' \<Longrightarrow> jdp_inv B s \<Longrightarrow> jdp_inv B s'"
proof (induction rule: jdp_step.cases)
  case (send_check s rq fl)
  then show ?case using flight_inv_start [of B "jdp_mirror s" rq fl]
    by (auto simp: jdp_inv_def mirror_inv_def)
next
  case (checked s fl ipc r m c)
  then show ?case using finish_mirror [of B fl "check_block ipc" "jdp_mirror s" r m c]
    by (auto simp: jdp_inv_def)
next
  case (monitor s visit outcome)
  then show ?case using mirror_inv_update [of B "jdp_mirror s" visit]
    by (auto simp: jdp_inv_def monitor_turn_def split: wait_next_outcome.splits option.splits)
qed (auto simp: jdp_inv_def)

lemma jdp_reach_inv: "jdp_reach B s \<Longrightarrow> jdp_inv B s"
proof (induction rule: jdp_reach.induct)
  case (bootstrap visit blk)
  then show ?case
    using mirror_inv_update [OF mirror_inv_new, of visit B blk] by (simp add: jdp_inv_def)
qed (rule jdp_inv_step)


section \<open>What the answers mean\<close>

inductive_cases jdp_step_SomeE: "jdp_step B s (Some l) s'"

lemma jdp_step_answerE:
  assumes "jdp_step B s (Some (rq, r)) s'"
  obtains (refuse) "declare_start B rq (jdp_mirror s) = StartReply r" and "s' = s"
  | (checked) fl outcome m c where "jdp_in_flight s = Some fl" and "fl_request fl = rq"
      and "declare_finish B fl outcome (jdp_mirror s) = Some (r, m, c)" and "jdp_mirror s' = m"
  using assms by (rule jdp_step_SomeE) auto

text \<open>
  C1. Soundness of a \<open>Success\<close> under every interleaving with the mempool monitor: it is only ever
  given for a block that \<open>checkBlock\<close> accepted, whose transactions after the one-input coinbase are
  exactly the declared list, in order and within the weight of a block, whose previous hash and
  difficulty are the ones answered, and whose previous hash is still the tip the mirror knows.
\<close>

theorem success_is_sound:
  assumes "jdp_reach B s" and "jdp_step B s (Some (rq, JdSuccess prev_hash nbits txids)) s'"
  shows "\<exists>fl coinbase txs. jdp_in_flight s = Some fl \<and> coinbase = rq_coinbase_tx rq \<and>
    blk_txdata (assembled_block fl) = coinbase # txs \<and> length (tx_input coinbase) = 1 \<and>
    map (compute_wtxid B) txs = rq_wtxid_list rq \<and> txids = map (compute_txid B) txs \<and>
    txs_weight B txs \<le> weight_max_block B - tx_weight B coinbase \<and>
    hdr_version (blk_header (assembled_block fl)) = rq_version rq \<and>
    hdr_prev_blockhash (blk_header (assembled_block fl)) = prev_hash \<and>
    hdr_bits (blk_header (assembled_block fl)) = nbits \<and>
    current_prev_hash (jdp_mirror s) = Some prev_hash \<and>
    (\<forall>outcome m c. declare_finish B fl outcome (jdp_mirror s) = Some (JdSuccess prev_hash nbits txids, m, c) \<longrightarrow>
       outcome = CheckOk)"
  using assms(2)
proof (cases rule: jdp_step_answerE)
  case refuse
  then show ?thesis
    by (auto simp: declare_start_def Let_def
        split: option.splits sum.splits resolve_error.splits if_splits)
next
  case (checked fl outcome m c)
  have inv: "flight_inv B fl" using jdp_reach_inv [OF assms(1)] checked by (simp add: jdp_inv_def)
  have only: "outcome' = CheckOk"
    if "declare_finish B fl outcome' (jdp_mirror s) = Some (JdSuccess prev_hash nbits txids, m', c')"
    for outcome' m' c'
    using that by (cases rule: declare_finish_cases) simp_all
  from \<open>declare_finish B fl outcome (jdp_mirror s) = _\<close> show ?thesis
  proof (cases rule: declare_finish_cases)
    case success
    then show ?thesis
      using inv only checked by (auto simp: flight_inv_def assembled_block_def)
  qed simp_all
qed

text \<open>
  Only accepted declarations touch shared state: an answer other than \<open>Success\<close> leaves the mirror
  as it was; a \<open>Success\<close> keeps every entry and adds only transactions that the client supplied and
  declared, each under its own wtxid, within the ceiling of five blocks.
\<close>

theorem only_validated_transactions_are_committed:
  assumes "jdp_reach B s" and "jdp_step B s (Some (rq, r)) s'"
  shows "case r of
      JdSuccess _ _ _ \<Rightarrow>
        set (txdata (jdp_mirror s)) \<subseteq> set (txdata (jdp_mirror s')) \<and>
        (\<forall>(w, tx) \<in> set (txdata (jdp_mirror s')) - set (txdata (jdp_mirror s)).
           tx \<in> set (rq_missing_txs rq) \<and> w \<in> set (rq_wtxid_list rq) \<and> compute_wtxid B tx = w) \<and>
        map_weight B (txdata (jdp_mirror s')) \<le> 5 * weight_max_block B
    | _ \<Rightarrow> jdp_mirror s' = jdp_mirror s"
  using assms(2)
proof (cases rule: jdp_step_answerE)
  case refuse
  then show ?thesis
    by (auto simp: declare_start_def Let_def
        split: option.splits sum.splits resolve_error.splits if_splits)
next
  case (checked fl outcome m c)
  let ?new = "take_staged (fl_staged fl) (rq_wtxid_list (fl_request fl))"
  have stage: "stage_missing_txs B (rq_wtxid_list rq) (rq_missing_txs rq) = Some (fl_staged fl)"
    using jdp_reach_inv [OF assms(1)] checked by (simp add: jdp_inv_def flight_inv_def)
  have weight: "map_weight B (txdata (jdp_mirror s')) \<le> 5 * weight_max_block B"
    using jdp_inv_step [OF assms(2) jdp_reach_inv [OF assms(1)]]
    by (simp add: jdp_inv_def mirror_inv_def MAX_MIRROR_WEIGHT_def MAX_MIRROR_CARRY_OVER_WEIGHT_def)
  have new: "tx \<in> set (rq_missing_txs rq) \<and> compute_wtxid B tx \<in> set (rq_wtxid_list rq)"
    if "tx \<in> set ?new" for tx
    using take_staged_subset [OF that] stagedD [OF stage] by auto
  from \<open>declare_finish B fl outcome (jdp_mirror s) = _\<close> show ?thesis
  proof (cases rule: declare_finish_cases)
    case success
    let ?old = "txdata (jdp_mirror s)"
    let ?after = "add_transactions_loop B (map_weight B ?old) ?old ?new"
    have "txdata (jdp_mirror s') = ?after"
      using success checked by (simp add: add_transactions_def)
    then show ?thesis
      using success weight new add_loop_superset [of ?old B "map_weight B ?old" ?new]
        add_loop_subset [of B "map_weight B ?old" ?old ?new] by auto
  qed (use checked in simp_all)
qed

text \<open>
  The validator is total on its reachable states: once the mirror is bootstrapped, no request and
  no answer of \<open>checkBlock\<close> reaches one of the handler's \<open>expect\<close>s, so every request is answered or
  sent to Bitcoin Core, and every request sent is answered whatever Bitcoin Core says.
\<close>

theorem validator_always_answers:
  assumes "jdp_reach B s"
  shows "declare_start B rq (jdp_mirror s) \<noteq> StartPanic \<and>
    declare_finish B fl outcome (jdp_mirror s) \<noteq> None"
  using jdp_reach_inv [OF assms]
  by (auto simp: jdp_inv_def ready_mirror_def declare_start_def declare_finish_def Let_def
      split: check_block_outcome.splits option.splits sum.splits resolve_error.splits)

section \<open>A concrete run\<close>

text \<open>A template of two transactions, and a job that declares one of them and a third one the client
  supplies.\<close>

definition demo_rq :: declare_request where
  "demo_rq = \<lparr>rq_version = 2, rq_coinbase_tx = demo_tx 50, rq_wtxid_list = [1, 3],
              rq_missing_txs = [demo_tx 3]\<rparr>"

definition demo_flight :: in_flight where
  "demo_flight = \<lparr>fl_request = demo_rq, fl_context = \<lparr>ctx_prev_hash = 7, ctx_nbits = 5\<rparr>, fl_ntime = 9,
                  fl_txdata = [demo_tx 1, demo_tx 3], fl_staged = [3 \<mapsto> demo_tx 3]\<rparr>"

definition demo_jdp :: "in_flight option \<Rightarrow> jdp_state" where
  "demo_jdp fl = \<lparr>jdp_mirror = update demo_btc rev (demo_block 7 [1, 2]) mirror_new,
                  jdp_in_flight = fl, jdp_cancelled = False, jdp_monitoring = True\<rparr>"

lemmas demo_jdp_simps = demo_jdp_def demo_flight_def demo_rq_def demo_btc_def demo_tx_def demo_block_def

lemma demo_jdp_mirror:
  "jdp_mirror (demo_jdp fl) = \<lparr>txdata = [(2, demo_tx 2), (1, demo_tx 1)], current_prev_hash = Some 7,
     current_nbits = Some 5, current_ntime = Some 9\<rparr>"
  by (simp add: demo_jdp_def demo_block_def update_def mirror_new_def template_map_def Let_def
      or_insert_def contains_key_def demo_btc_def demo_tx_def)

lemma demo_jdp_start: "declare_start demo_btc demo_rq (jdp_mirror (demo_jdp fl)) = StartCheck demo_flight"
proof -
  have "stage_missing_txs demo_btc [1, 3] [demo_tx 3] = Some [3 \<mapsto> demo_tx 3]"
    by (simp add: stage_missing_txs_def MAX_DECLARED_TXS_def demo_btc_def demo_tx_def)
  then show ?thesis
    by (simp add: demo_jdp_mirror declare_start_def Let_def demo_rq_def demo_flight_def resolve_txdata_def
        lookup_tx_def)
      (simp add: demo_btc_def demo_tx_def)
qed

lemma demo_jdp_reach: "jdp_reach demo_btc (demo_jdp None)"
  unfolding demo_jdp_def
  by (rule jdp_reach.bootstrap)
    (simp_all add: fits_block_def txs_weight_def template_txs_def no_collision_def in_play_def
      mirror_new_def inj_on_def demo_jdp_simps)

lemma demo_jdp_reach_flight: "jdp_reach demo_btc (demo_jdp (Some demo_flight))"
proof -
  have "jdp_step demo_btc (demo_jdp None) None ((demo_jdp None)\<lparr>jdp_in_flight := Some demo_flight\<rparr>)"
    by (rule jdp_step.send_check [where rq = demo_rq]) (simp_all add: demo_jdp_start, simp_all add: demo_jdp_def)
  then have "jdp_step demo_btc (demo_jdp None) None (demo_jdp (Some demo_flight))"
    by (simp add: demo_jdp_def)
  with demo_jdp_reach show ?thesis by (rule jdp_reach.step)
qed

lemma demo_jdp_success:
  "\<exists>s'. jdp_step demo_btc (demo_jdp (Some demo_flight)) (Some (demo_rq, JdSuccess 7 5 [1, 3])) s' \<and>
     txdata (jdp_mirror s') = [(3, demo_tx 3), (2, demo_tx 2), (1, demo_tx 1)]"
proof -
  let ?s = "demo_jdp (Some demo_flight)"
  let ?m = "add_transactions demo_btc (take_staged (fl_staged demo_flight) [1, 3]) (jdp_mirror ?s)"
  let ?ipc = "\<lparr>ipc_context_ok = True, ipc_options_ok = True, ipc_send_ok = True, ipc_result_ok = True,
    ipc_accepted = True, ipc_reason = None\<rparr>"
  have fin: "declare_finish demo_btc demo_flight (check_block ?ipc) (jdp_mirror ?s) =
      Some (JdSuccess 7 5 [1, 3], ?m, False)"
    by (simp add: check_block_def demo_jdp_mirror declare_finish_def demo_flight_def demo_rq_def)
      (simp add: demo_btc_def demo_tx_def)
  have "jdp_step demo_btc ?s (Some (fl_request demo_flight, JdSuccess 7 5 [1, 3]))
      (?s\<lparr>jdp_mirror := ?m, jdp_in_flight := None, jdp_cancelled := False\<rparr>)"
    using fin by (intro jdp_step.checked) (simp_all add: demo_jdp_def)
  moreover have "txdata ?m = [(3, demo_tx 3), (2, demo_tx 2), (1, demo_tx 1)]"
    by (simp add: demo_jdp_mirror add_transactions_def demo_flight_def map_weight_def contains_key_def
        MAX_MIRROR_WEIGHT_def MAX_MIRROR_CARRY_OVER_WEIGHT_def demo_btc_def demo_tx_def)
  ultimately show ?thesis by (auto simp: demo_flight_def)
qed

theorem success_is_sound_witness:
  "\<exists>fl. jdp_in_flight (demo_jdp (Some demo_flight)) = Some fl \<and>
     map (compute_wtxid demo_btc) (tl (blk_txdata (assembled_block fl))) = [1, 3] \<and>
     hdr_prev_blockhash (blk_header (assembled_block fl)) = 7"
proof -
  obtain s' where "jdp_step demo_btc (demo_jdp (Some demo_flight)) (Some (demo_rq, JdSuccess 7 5 [1, 3])) s'"
    using demo_jdp_success by blast
  from success_is_sound [OF demo_jdp_reach_flight this] show ?thesis
    by (auto simp: demo_rq_def)
qed

theorem only_validated_transactions_are_committed_witness:
  "\<exists>s'. jdp_step demo_btc (demo_jdp (Some demo_flight)) (Some (demo_rq, JdSuccess 7 5 [1, 3])) s' \<and>
     (3, demo_tx 3) \<in> set (txdata (jdp_mirror s')) \<and> demo_tx 3 \<in> set (rq_missing_txs demo_rq)"
proof -
  obtain s' where step: "jdp_step demo_btc (demo_jdp (Some demo_flight))
      (Some (demo_rq, JdSuccess 7 5 [1, 3])) s'"
    and after: "txdata (jdp_mirror s') = [(3, demo_tx 3), (2, demo_tx 2), (1, demo_tx 1)]"
    using demo_jdp_success by blast
  have "(3, demo_tx 3) \<in> set (txdata (jdp_mirror s')) - set (txdata (jdp_mirror (demo_jdp (Some demo_flight))))"
    by (simp add: after demo_jdp_mirror)
  then have "demo_tx 3 \<in> set (rq_missing_txs demo_rq)"
    using only_validated_transactions_are_committed [OF demo_jdp_reach_flight step] by fastforce
  with step after show ?thesis by (intro exI [of _ s']) simp
qed

theorem validator_always_answers_witness:
  "declare_start demo_btc demo_rq (jdp_mirror (demo_jdp None)) \<noteq> StartPanic \<and>
   declare_finish demo_btc demo_flight (CheckRejected ''bad-cb-height'') (jdp_mirror (demo_jdp None)) \<noteq> None"
  by (rule validator_always_answers [OF demo_jdp_reach])

end
