(* ===== verification/Token_Manager.thy ===== *)
theory Token_Manager
  imports Sv2_Prelude
begin

text \<open>
  \<open>pool-apps/jd-server/src/lib/job_declarator/token_management/mod.rs\<close>: the tokens of the Job
  Declaration Protocol. A token is allocated to a downstream under an identity, activated once by the
  same downstream when its declared job is accepted, and looked up by the pool when the custom job is
  set. Each method of \<open>TokenManager\<close> is a function on the record of its two shared maps and its
  counter; \<open>Instant::now()\<close> is the argument \<open>now\<close>. The locale \<open>token_registry\<close> is the contract the Job
  Declarator relies on.
\<close>

section \<open>Model\<close>

record allocated_token_data =
  allocated_at :: instant
  allocated_owner :: downstream_id
  allocated_identity :: string

record active_token_data =
  allocated_token :: jd_token
  activated_at :: instant
  active_owner :: downstream_id
  active_identity :: string

record token_manager =
  token_factory :: u64
  allocated_tokens :: "jd_token \<rightharpoonup> allocated_token_data"
  active_tokens :: "jd_token \<rightharpoonup> active_token_data"

definition TEMPORARY_TIMEOUT_MULTIPLIER :: nat where
  "TEMPORARY_TIMEOUT_MULTIPLIER = 144"

definition ALLOCATED_TOKEN_TIMEOUT_SECS :: nat where
  "ALLOCATED_TOKEN_TIMEOUT_SECS = TEMPORARY_TIMEOUT_MULTIPLIER * 60 * 10"

definition ACTIVE_TOKEN_TIMEOUT_SECS :: nat where
  "ACTIVE_TOKEN_TIMEOUT_SECS = 10"

definition tm_new :: token_manager where
  "tm_new = \<lparr>token_factory = 0, allocated_tokens = Map.empty, active_tokens = Map.empty\<rparr>"

definition allocate ::
  "instant \<Rightarrow> downstream_id \<Rightarrow> string \<Rightarrow> token_manager \<Rightarrow> jd_token \<times> token_manager" where
  "allocate now d identity tm =
     (let token = token_factory tm;
          m = snd (sm_insert (allocated_tokens tm) token
                \<lparr>allocated_at = now, allocated_owner = d, allocated_identity = identity\<rparr>)
      in (token, tm\<lparr>token_factory := token_factory tm + 1, allocated_tokens := m\<rparr>))"

definition deallocate :: "jd_token \<Rightarrow> token_manager \<Rightarrow> token_manager" where
  "deallocate token tm = tm\<lparr>allocated_tokens := snd (sm_remove (allocated_tokens tm) token)\<rparr>"

definition is_allocated :: "jd_token \<Rightarrow> downstream_id \<Rightarrow> token_manager \<Rightarrow> bool" where
  "is_allocated token d tm =
     (case sm_with (allocated_tokens tm) token (\<lambda>data. allocated_owner data = d) of
        None \<Rightarrow> False | Some b \<Rightarrow> b)"

definition activate ::
  "instant \<Rightarrow> jd_token \<Rightarrow> downstream_id \<Rightarrow> token_manager \<Rightarrow> jd_token option \<times> token_manager" where
  "activate now token d tm =
     (case sm_remove_if (allocated_tokens tm) token (\<lambda>_ data. allocated_owner data = d) of
        (None, _) \<Rightarrow> (None, tm)
      | (Some (_, data), alloc') \<Rightarrow>
          (let activated = token_factory tm;
               act' = snd (sm_insert (active_tokens tm) activated
                        \<lparr>allocated_token = token, activated_at = now, active_owner = d,
                         active_identity = allocated_identity data\<rparr>)
           in (Some activated,
               tm\<lparr>token_factory := token_factory tm + 1, allocated_tokens := alloc',
                  active_tokens := act'\<rparr>)))"

definition deactivate :: "jd_token \<Rightarrow> token_manager \<Rightarrow> token_manager" where
  "deactivate token tm = tm\<lparr>active_tokens := snd (sm_remove (active_tokens tm) token)\<rparr>"

definition allocated_from_active :: "jd_token \<Rightarrow> token_manager \<Rightarrow> active_token_data option" where
  "allocated_from_active token tm = sm_with (active_tokens tm) token (\<lambda>data. data)"

definition tm_clear :: "token_manager \<Rightarrow> token_manager" where
  "tm_clear tm = tm\<lparr>allocated_tokens := sm_clear (allocated_tokens tm),
                    active_tokens := sm_clear (active_tokens tm)\<rparr>"

definition remove_downstream :: "downstream_id \<Rightarrow> token_manager \<Rightarrow> token_manager" where
  "remove_downstream d tm =
     tm\<lparr>allocated_tokens := sm_retain (allocated_tokens tm) (\<lambda>_ data. allocated_owner data \<noteq> d),
        active_tokens := sm_retain (active_tokens tm) (\<lambda>_ data. active_owner data \<noteq> d)\<rparr>"

text \<open>One tick of the janitor task.\<close>

definition janitor_tick :: "instant \<Rightarrow> token_manager \<Rightarrow> token_manager" where
  "janitor_tick now tm =
     tm\<lparr>allocated_tokens := sm_retain (allocated_tokens tm)
          (\<lambda>_ data. now - allocated_at data \<le> from_secs ALLOCATED_TOKEN_TIMEOUT_SECS),
        active_tokens := sm_retain (active_tokens tm)
          (\<lambda>_ data. now - activated_at data \<le> from_secs ACTIVE_TOKEN_TIMEOUT_SECS)\<rparr>"

subsection \<open>Operations as events\<close>

datatype tm_event =
    Allocate downstream_id string
  | Deallocate jd_token
  | Activate jd_token downstream_id
  | Deactivate jd_token
  | Clear
  | RemoveDownstream downstream_id
  | JanitorTick

fun tm_step :: "instant \<Rightarrow> tm_event \<Rightarrow> token_manager \<Rightarrow> token_manager" where
  "tm_step now (Allocate d identity) tm = snd (allocate now d identity tm)"
| "tm_step now (Deallocate t) tm = deallocate t tm"
| "tm_step now (Activate t d) tm = snd (activate now t d tm)"
| "tm_step now (Deactivate t) tm = deactivate t tm"
| "tm_step now Clear tm = tm_clear tm"
| "tm_step now (RemoveDownstream d) tm = remove_downstream d tm"
| "tm_step now JanitorTick tm = janitor_tick now tm"

fun tm_run :: "(instant \<times> tm_event) list \<Rightarrow> token_manager \<Rightarrow> token_manager" where
  "tm_run [] tm = tm"
| "tm_run ((now, e) # es) tm = tm_run es (tm_step now e tm)"

section \<open>The invariant\<close>

text \<open>
  Tokens are numbered in the order they are issued: every live token is below the counter, no token
  is both allocated and active, an active token is younger than the allocated token it came from, and
  no two active tokens come from the same allocation.
\<close>

definition tm_inv :: "token_manager \<Rightarrow> bool" where
  "tm_inv tm \<longleftrightarrow>
     (\<forall>t \<in> dom (allocated_tokens tm) \<union> dom (active_tokens tm). t < token_factory tm) \<and>
     dom (allocated_tokens tm) \<inter> dom (active_tokens tm) = {} \<and>
     (\<forall>t data. active_tokens tm t = Some data \<longrightarrow>
        allocated_token data < t \<and> allocated_tokens tm (allocated_token data) = None) \<and>
     (\<forall>t t' data data'. active_tokens tm t = Some data \<longrightarrow> active_tokens tm t' = Some data' \<longrightarrow>
        allocated_token data = allocated_token data' \<longrightarrow> t = t')"

definition can_issue :: "token_manager \<Rightarrow> bool" where
  "can_issue tm \<longleftrightarrow> unat (token_factory tm) + 1 < 2 ^ 64"

lemma unat_next: "can_issue tm \<Longrightarrow> unat (token_factory tm + 1) = unat (token_factory tm) + 1"
  using unat_add_no_overflow [of "token_factory tm" 1] by (simp add: can_issue_def)

lemma can_issue_less: "can_issue tm \<Longrightarrow> t \<le> token_factory tm \<Longrightarrow> t < token_factory tm + 1"
  by (simp add: word_less_nat_alt word_le_nat_alt unat_next)

lemma can_issue_less_iff:
  "can_issue tm \<Longrightarrow> t < token_factory tm + 1 \<longleftrightarrow> t < token_factory tm \<or> t = token_factory tm"
  by (auto simp: word_less_nat_alt word_unat_eq_iff unat_next)

lemma tm_invI:
  assumes "\<And>t a. allocated_tokens tm t = Some a \<Longrightarrow> t < token_factory tm"
    and "\<And>t v. active_tokens tm t = Some v \<Longrightarrow> t < token_factory tm"
    and "\<And>t a. allocated_tokens tm t = Some a \<Longrightarrow> active_tokens tm t = None"
    and "\<And>t v. active_tokens tm t = Some v \<Longrightarrow> allocated_token v < t"
    and "\<And>t v. active_tokens tm t = Some v \<Longrightarrow> allocated_tokens tm (allocated_token v) = None"
    and "\<And>t t' v v'. active_tokens tm t = Some v \<Longrightarrow> active_tokens tm t' = Some v' \<Longrightarrow>
      allocated_token v = allocated_token v' \<Longrightarrow> t = t'"
  shows "tm_inv tm"
  unfolding tm_inv_def using assms by (intro conjI) (blast, fastforce, blast, blast)

lemma tm_invD:
  assumes "tm_inv tm"
  shows "allocated_tokens tm t = Some a \<Longrightarrow> t < token_factory tm"
    and "active_tokens tm t = Some v \<Longrightarrow> t < token_factory tm"
    and "allocated_tokens tm t = Some a \<Longrightarrow> active_tokens tm t = None"
    and "active_tokens tm t = Some v \<Longrightarrow> allocated_tokens tm t = None"
    and "active_tokens tm t = Some v \<Longrightarrow> allocated_token v < t"
    and "active_tokens tm t = Some v \<Longrightarrow> allocated_tokens tm (allocated_token v) = None"
    and "active_tokens tm t = Some v \<Longrightarrow> active_tokens tm t' = Some v' \<Longrightarrow>
      allocated_token v = allocated_token v' \<Longrightarrow> t = t'"
  using assms unfolding tm_inv_def by (blast, blast, blast, blast, blast, blast, blast)

lemma tm_inv_fresh:
  assumes "tm_inv tm"
  shows "allocated_tokens tm (token_factory tm) = None" and "active_tokens tm (token_factory tm) = None"
  using tm_invD(1,2) [OF assms, of "token_factory tm"]
  by (metis less_irrefl not_Some_eq)+

text \<open>The operations, unfolded to updates of the two maps.\<close>

lemma allocate_eq:
  "allocate now d identity tm =
    (token_factory tm,
     tm\<lparr>token_factory := token_factory tm + 1,
        allocated_tokens := (allocated_tokens tm)(token_factory tm \<mapsto>
          \<lparr>allocated_at = now, allocated_owner = d, allocated_identity = identity\<rparr>)\<rparr>)"
  by (simp add: allocate_def sm_insert_def Let_def)

lemma is_allocated_iff:
  "is_allocated t d tm \<longleftrightarrow> (\<exists>data. allocated_tokens tm t = Some data \<and> allocated_owner data = d)"
  by (auto simp: is_allocated_def sm_with_def split: option.splits)

lemma activate_eq:
  "activate now t d tm =
    (if is_allocated t d tm
     then (Some (token_factory tm),
           tm\<lparr>token_factory := token_factory tm + 1,
              allocated_tokens := (allocated_tokens tm)(t := None),
              active_tokens := (active_tokens tm)(token_factory tm \<mapsto>
                \<lparr>allocated_token = t, activated_at = now, active_owner = d,
                 active_identity = allocated_identity (the (allocated_tokens tm t))\<rparr>)\<rparr>)
     else (None, tm))"
  by (auto simp: activate_def is_allocated_iff sm_remove_if_def sm_insert_def Let_def
      split: option.splits)

lemma activate_None: "\<not> is_allocated t d tm \<Longrightarrow> activate now t d tm = (None, tm)"
  by (simp add: activate_eq)

lemma deallocate_eq:
  "deallocate t tm = tm\<lparr>allocated_tokens := (allocated_tokens tm)(t := None)\<rparr>"
  by (simp add: deallocate_def sm_remove_def)

lemma deactivate_eq:
  "deactivate t tm = tm\<lparr>active_tokens := (active_tokens tm)(t := None)\<rparr>"
  by (simp add: deactivate_def sm_remove_def)

lemma allocated_from_active_eq [simp]: "allocated_from_active t tm = active_tokens tm t"
  by (simp add: allocated_from_active_def sm_with_def split: option.splits)

text \<open>An operation that only removes entries keeps the invariant.\<close>

lemma tm_inv_submap:
  assumes "tm_inv tm" and "token_factory tm' = token_factory tm"
    and "allocated_tokens tm' \<subseteq>\<^sub>m allocated_tokens tm" and "active_tokens tm' \<subseteq>\<^sub>m active_tokens tm"
  shows "tm_inv tm'"
proof -
  have al: "allocated_tokens tm' t = Some v \<Longrightarrow> allocated_tokens tm t = Some v" for t v
    using assms(3) by (metis domI map_le_def)
  have ac: "active_tokens tm' t = Some v \<Longrightarrow> active_tokens tm t = Some v" for t v
    using assms(4) by (metis domI map_le_def)
  have none: "allocated_tokens tm t = None \<Longrightarrow> allocated_tokens tm' t = None" for t
    using al by (metis not_Some_eq)
  show ?thesis
  proof (rule tm_invI, unfold assms(2))
    note inv = tm_invD [OF assms(1)]
    show "t < token_factory tm" if "allocated_tokens tm' t = Some a" for t a
      using inv(1) al [OF that] .
    show "t < token_factory tm" if "active_tokens tm' t = Some v" for t v
      using inv(2) ac [OF that] .
    show "active_tokens tm' t = None" if "allocated_tokens tm' t = Some a" for t a
      using inv(3) [OF al [OF that]] ac by (metis not_Some_eq)
    show "allocated_token v < t" if "active_tokens tm' t = Some v" for t v
      using inv(5) ac [OF that] .
    show "allocated_tokens tm' (allocated_token v) = None" if "active_tokens tm' t = Some v" for t v
      using inv(6) [OF ac [OF that]] by (rule none)
    show "t = t'" if "active_tokens tm' t = Some v" "active_tokens tm' t' = Some v'"
      "allocated_token v = allocated_token v'" for t t' v v'
      using inv(7) [OF ac [OF that(1)] ac [OF that(2)] that(3)] .
  qed
qed

lemma map_le_upd_None: "m(k := None) \<subseteq>\<^sub>m m"
  by (auto simp: map_le_def)

lemma tm_inv_new: "tm_inv tm_new"
  by (simp add: tm_inv_def tm_new_def)

lemma tm_inv_deallocate: "tm_inv tm \<Longrightarrow> tm_inv (deallocate t tm)"
  by (erule tm_inv_submap) (simp_all add: deallocate_eq map_le_upd_None)

lemma tm_inv_deactivate: "tm_inv tm \<Longrightarrow> tm_inv (deactivate t tm)"
  by (erule tm_inv_submap) (simp_all add: deactivate_eq map_le_upd_None)

lemma tm_inv_clear: "tm_inv tm \<Longrightarrow> tm_inv (tm_clear tm)"
  by (erule tm_inv_submap) (simp_all add: tm_clear_def sm_clear_def)

lemma tm_inv_remove_downstream: "tm_inv tm \<Longrightarrow> tm_inv (remove_downstream d tm)"
  by (erule tm_inv_submap) (simp_all add: remove_downstream_def sm_retain_le)

lemma tm_inv_janitor: "tm_inv tm \<Longrightarrow> tm_inv (janitor_tick now tm)"
  by (erule tm_inv_submap) (simp_all add: janitor_tick_def sm_retain_le)

lemma tm_inv_allocate:
  assumes "tm_inv tm" and "can_issue tm"
  shows "tm_inv (snd (allocate now d identity tm))"
proof -
  note inv = tm_invD [OF assms(1)] and fresh = tm_inv_fresh [OF assms(1)]
  have ne: "active_tokens tm t = Some v \<Longrightarrow> allocated_token v \<noteq> token_factory tm" for t v
    using inv(2,5) by (metis less_trans less_irrefl)
  have lt: "t < token_factory tm \<Longrightarrow> t < token_factory tm + 1" for t
    using can_issue_less [OF assms(2)] by simp
  show ?thesis
    using inv(3,5,6,7) fresh ne can_issue_less [OF assms(2)]
    by (intro tm_invI) (auto simp: allocate_eq intro: lt dest: inv(1,2) split: if_splits)
qed

lemma tm_inv_activate:
  assumes "tm_inv tm" and "can_issue tm"
  shows "tm_inv (snd (activate now t d tm))"
proof (cases "is_allocated t d tm")
  case False
  then show ?thesis using assms(1) by (simp add: activate_eq)
next
  case True
  then obtain data where data: "allocated_tokens tm t = Some data" by (auto simp: is_allocated_iff)
  note inv = tm_invD [OF assms(1)] and fresh = tm_inv_fresh [OF assms(1)]
  have ne: "active_tokens tm s = Some v \<Longrightarrow> allocated_token v \<noteq> t" for s v
    using inv(6) [of s v] data by auto
  have lt: "s < token_factory tm \<Longrightarrow> s < token_factory tm + 1" for s
    using can_issue_less [OF assms(2)] by simp
  show ?thesis
    using True data inv(1,3,5,6,7) fresh ne can_issue_less [OF assms(2)]
    by (intro tm_invI) (auto simp: activate_eq intro: lt dest: inv(1,2) split: if_splits)
qed

lemmas tm_inv_ops = tm_inv_allocate tm_inv_activate tm_inv_deallocate tm_inv_deactivate tm_inv_clear
  tm_inv_remove_downstream tm_inv_janitor

lemma tm_inv_step: "tm_inv tm \<Longrightarrow> can_issue tm \<Longrightarrow> tm_inv (tm_step now e tm)"
  by (cases e) (simp_all add: tm_inv_ops)

section \<open>The life of a token\<close>

text \<open>
  The abstract specification: one token on its own. It is issued either as an allocated token or as an
  active one, keeps its owner and identity while it lives, and once retired never comes back. The
  concrete state maps every token number to its phase.
\<close>

datatype phase =
    Unissued
  | Allocated downstream_id string
  | Active jd_token downstream_id string
  | Retired

inductive phase_step :: "phase \<Rightarrow> phase \<Rightarrow> bool" where
  stay: "phase_step p p"
| issue_allocated: "phase_step Unissued (Allocated d u)"
| issue_active: "phase_step Unissued (Active t d u)"
| retire_allocated: "phase_step (Allocated d u) Retired"
| retire_active: "phase_step (Active t d u) Retired"

inductive_cases phase_step_RetiredE: "phase_step Retired p"
inductive_cases phase_step_AllocatedE: "phase_step (Allocated d u) p"
inductive_cases phase_step_ActiveE: "phase_step (Active t d u) p"

definition token_phase :: "token_manager \<Rightarrow> jd_token \<Rightarrow> phase" where
  "token_phase tm t =
     (if \<not> t < token_factory tm then Unissued
      else case allocated_tokens tm t of
             Some a \<Rightarrow> Allocated (allocated_owner a) (allocated_identity a)
           | None \<Rightarrow>
               (case active_tokens tm t of
                  Some v \<Rightarrow> Active (allocated_token v) (active_owner v) (active_identity v)
                | None \<Rightarrow> Retired))"

lemma phase_step_submap:
  assumes "tm_inv tm" and "token_factory tm' = token_factory tm"
    and "allocated_tokens tm' \<subseteq>\<^sub>m allocated_tokens tm" and "active_tokens tm' \<subseteq>\<^sub>m active_tokens tm"
  shows "phase_step (token_phase tm t) (token_phase tm' t)"
proof -
  have al: "allocated_tokens tm' t = Some v \<Longrightarrow> allocated_tokens tm t = Some v" for v
    using assms(3) by (metis domI map_le_def)
  have ac: "active_tokens tm' t = Some v \<Longrightarrow> active_tokens tm t = Some v" for v
    using assms(4) by (metis domI map_le_def)
  show ?thesis
    using tm_invD(3) [OF assms(1), of t] assms(2) al ac
    by (auto simp: token_phase_def split: option.splits intro: phase_step.intros)
qed

lemma phase_step_allocate:
  assumes "tm_inv tm" and "can_issue tm"
  shows "phase_step (token_phase tm t) (token_phase (snd (allocate now d identity tm)) t)"
  using tm_inv_fresh [OF assms(1)]
  by (auto simp: token_phase_def allocate_eq can_issue_less_iff [OF assms(2)]
      split: option.splits intro: phase_step.intros)

lemma phase_step_activate:
  assumes "tm_inv tm" and "can_issue tm"
  shows "phase_step (token_phase tm t) (token_phase (snd (activate now s d tm)) t)"
proof (cases "is_allocated s d tm")
  case False
  then show ?thesis by (simp add: activate_None phase_step.stay)
next
  case True
  then obtain a where a: "allocated_tokens tm s = Some a" by (auto simp: is_allocated_iff)
  note facts = tm_inv_fresh [OF assms(1)] tm_invD(1,3) [OF assms(1) a]
  show ?thesis
    using True a facts
    by (auto simp: token_phase_def activate_eq can_issue_less_iff [OF assms(2)]
        split: option.splits intro: phase_step.intros)
qed

lemma token_manager_refines_life_cycle_step:
  assumes "tm_inv tm" and "can_issue tm"
  shows "phase_step (token_phase tm t) (token_phase (tm_step now e tm) t)"
proof (cases e)
  case (Allocate d identity)
  then show ?thesis using phase_step_allocate [OF assms] by simp
next
  case (Activate s d)
  then show ?thesis using phase_step_activate [OF assms] by simp
next
  case (Deallocate s)
  then show ?thesis
    using phase_step_submap [OF assms(1), of "deallocate s tm" t]
    by (simp add: deallocate_eq map_le_upd_None)
next
  case (Deactivate s)
  then show ?thesis
    using phase_step_submap [OF assms(1), of "deactivate s tm" t]
    by (simp add: deactivate_eq map_le_upd_None)
next
  case Clear
  then show ?thesis
    using phase_step_submap [OF assms(1), of "tm_clear tm" t] by (simp add: tm_clear_def sm_clear_def)
next
  case (RemoveDownstream d)
  then show ?thesis
    using phase_step_submap [OF assms(1), of "remove_downstream d tm" t]
    by (simp add: remove_downstream_def sm_retain_le)
next
  case JanitorTick
  then show ?thesis
    using phase_step_submap [OF assms(1), of "janitor_tick now tm" t]
    by (simp add: janitor_tick_def sm_retain_le)
qed



section \<open>Runs\<close>

lemma unat_factory_step: "unat (token_factory (tm_step now e tm)) \<le> unat (token_factory tm) + 1"
proof -
  have "unat (w + 1) \<le> unat w + 1" for w :: u64
    by (simp add: unat_word_ariths)
  then show ?thesis
    by (cases e)
      (simp_all add: allocate_eq activate_eq deallocate_eq deactivate_eq tm_clear_def
        remove_downstream_def janitor_tick_def)
qed

lemma tm_run_inv:
  assumes "tm_inv tm" and "unat (token_factory tm) + length es < 2 ^ 64"
  shows "tm_inv (tm_run es tm) \<and> phase_step\<^sup>*\<^sup>* (token_phase tm t) (token_phase (tm_run es tm) t)"
  using assms
proof (induction es arbitrary: tm)
  case Nil
  then show ?case by simp
next
  case (Cons ne es)
  obtain now e where ne: "ne = (now, e)" by (cases ne)
  have ci: "can_issue tm" using Cons.prems(2) by (simp add: can_issue_def)
  have inv: "tm_inv (tm_step now e tm)" using Cons.prems(1) ci by (rule tm_inv_step)
  have "unat (token_factory (tm_step now e tm)) + length es < 2 ^ 64"
    using unat_factory_step [of now e tm] Cons.prems(2) by simp
  from Cons.IH [OF inv this] show ?case
    using token_manager_refines_life_cycle_step [OF Cons.prems(1) ci, of t now e] ne
    by (simp add: converse_rtranclp_into_rtranclp)
qed

lemma tm_run_append: "tm_run (es @ es') tm = tm_run es' (tm_run es tm)"
  by (induction es tm rule: tm_run.induct) simp_all

lemma unat_factory_run: "unat (token_factory (tm_run es tm)) \<le> unat (token_factory tm) + length es"
proof (induction es tm rule: tm_run.induct)
  case (2 now e es tm)
  then show ?case using unat_factory_step [of now e tm] by simp
qed simp

lemma phase_steps_Retired: "phase_step\<^sup>*\<^sup>* p q \<Longrightarrow> p = Retired \<Longrightarrow> q = Retired"
  by (induction rule: rtranclp_induct) (auto elim: phase_step_RetiredE)

text \<open>
  Tokens are never reused: in every run of the manager from its initial state with fewer than
  \<open>2 ^ 64\<close> operations, the state satisfies the invariant, and a token that has been retired (spent,
  rejected, expired or dropped with its downstream) stays retired for the rest of the run.
\<close>

theorem retired_tokens_stay_retired:
  assumes "length es + length es' < 2 ^ 64"
  shows "tm_inv (tm_run es tm_new) \<and>
    (token_phase (tm_run es tm_new) t = Retired \<longrightarrow> token_phase (tm_run (es @ es') tm_new) t = Retired)"
proof -
  have f0: "unat (token_factory tm_new) = 0" by (simp add: tm_new_def)
  have inv: "tm_inv (tm_run es tm_new)"
    using tm_run_inv [OF tm_inv_new, of es] assms f0 by simp
  have "unat (token_factory (tm_run es tm_new)) + length es' < 2 ^ 64"
    using unat_factory_run [of es tm_new] assms f0 by simp
  with inv show ?thesis
    using tm_run_inv [of "tm_run es tm_new" es' t] phase_steps_Retired
    by (auto simp: tm_run_append)
qed

theorem retired_tokens_stay_retired_witness:
  "token_phase (tm_run ([(0, Allocate 7 ''u''), (1, Activate 0 7)] @ [(2, Allocate 7 ''u'')]) tm_new) 0
     = Retired"
proof -
  have "token_phase (tm_run [(0, Allocate 7 ''u''), (1, Activate 0 7)] tm_new) 0 = Retired"
    by (simp add: token_phase_def allocate_eq activate_eq is_allocated_iff tm_new_def)
  then show ?thesis
    using retired_tokens_stay_retired
        [of "[(0, Allocate 7 ''u''), (1, Activate 0 7)]" "[(2, Allocate 7 ''u'')]" 0]
    by simp
qed

section \<open>Activation\<close>

text \<open>
  What activation does: it succeeds exactly when the token is allocated to the asking downstream;
  otherwise nothing changes. On success the returned token is new, is bound to the allocated token, to
  that downstream and to the identity of the allocation, the allocated token is gone (no downstream
  can activate it again), and every other token is untouched.
\<close>

theorem activate_spends_allocated_token:
  assumes "tm_inv tm" and "activate now t d tm = (r, tm')"
  shows "(r \<noteq> None \<longleftrightarrow> is_allocated t d tm) \<and> (r = None \<longrightarrow> tm' = tm) \<and>
    (\<forall>t'. r = Some t' \<longrightarrow>
       token_phase tm t' = Unissued \<and>
       (\<exists>a. allocated_tokens tm t = Some a \<and> allocated_owner a = d \<and>
          allocated_from_active t' tm' =
            Some \<lparr>allocated_token = t, activated_at = now, active_owner = d,
                  active_identity = allocated_identity a\<rparr>) \<and>
       (\<forall>now' d'. fst (activate now' t d' tm') = None) \<and>
       (\<forall>s. s \<noteq> t \<longrightarrow> allocated_tokens tm' s = allocated_tokens tm s) \<and>
       (\<forall>s. s \<noteq> t' \<longrightarrow> active_tokens tm' s = active_tokens tm s))"
proof (cases "is_allocated t d tm")
  case False
  then show ?thesis using assms(2) by (simp add: activate_eq)
next
  case True
  then have r: "r = Some (token_factory tm)" and tm': "tm' = snd (activate now t d tm)"
    using assms(2) by (auto simp: activate_eq)
  have "\<not> is_allocated t d' tm'" for d'
    using True by (simp add: tm' activate_eq is_allocated_iff)
  then have "fst (activate now' t d' tm') = None" for now' d'
    by (simp add: activate_None)
  with True r show ?thesis
    by (auto simp: token_phase_def is_allocated_iff tm' activate_eq)
qed

theorem activate_spends_allocated_token_witness:
  "\<exists>tm'. activate 5 0 7 (snd (allocate 0 7 ''u'' tm_new)) = (Some 1, tm') \<and>
     allocated_from_active 1 tm' =
       Some \<lparr>allocated_token = 0, activated_at = 5, active_owner = 7, active_identity = ''u''\<rparr> \<and>
     fst (activate 6 0 7 tm') = None"
proof -
  let ?tm = "snd (allocate 0 7 ''u'' tm_new)"
  have inv: "tm_inv ?tm"
    by (rule tm_inv_allocate [OF tm_inv_new]) (simp add: can_issue_def tm_new_def)
  have act: "activate 5 0 7 ?tm = (Some 1, snd (activate 5 0 7 ?tm))"
    by (simp add: activate_eq allocate_eq is_allocated_iff tm_new_def)
  show ?thesis
    using activate_spends_allocated_token [OF inv act] act
    by (auto simp: allocate_eq tm_new_def)
qed

section \<open>Eviction\<close>

text \<open>
  Eviction is exact. After \<open>remove_downstream d\<close> no token of \<open>d\<close> is left and every token of
  another downstream is kept as it was. After a tick of the janitor a token is kept, unchanged, if and
  only if its age is within its timeout: 24 hours for an allocated token, 10 seconds for an active one.
\<close>

theorem eviction_is_exact:
  "(allocated_tokens (remove_downstream d tm) t = Some a \<longleftrightarrow>
      allocated_tokens tm t = Some a \<and> allocated_owner a \<noteq> d) \<and>
   (active_tokens (remove_downstream d tm) t = Some v \<longleftrightarrow>
      active_tokens tm t = Some v \<and> active_owner v \<noteq> d) \<and>
   (allocated_tokens (janitor_tick now tm) t = Some a \<longleftrightarrow>
      allocated_tokens tm t = Some a \<and> now - allocated_at a \<le> 24 * 60 * 60 * 1000000000) \<and>
   (active_tokens (janitor_tick now tm) t = Some v \<longleftrightarrow>
      active_tokens tm t = Some v \<and> now - activated_at v \<le> 10 * 1000000000)"
  by (simp add: remove_downstream_def janitor_tick_def shared_map from_secs_def
      ALLOCATED_TOKEN_TIMEOUT_SECS_def ACTIVE_TOKEN_TIMEOUT_SECS_def TEMPORARY_TIMEOUT_MULTIPLIER_def)

section \<open>The contract of the token registry\<close>

text \<open>
  What the Job Declarator relies on: a token it has issued to a client is owned by that client and no
  other, promoting it yields a token bound to that client and its identity, and spending or dropping
  tokens really removes them.
\<close>

locale token_registry =
  fixes inv :: "'s \<Rightarrow> bool"
    and ready :: "'s \<Rightarrow> bool"
    and issue :: "instant \<Rightarrow> downstream_id \<Rightarrow> string \<Rightarrow> 's \<Rightarrow> jd_token \<times> 's"
    and owned :: "jd_token \<Rightarrow> downstream_id \<Rightarrow> 's \<Rightarrow> bool"
    and identity :: "jd_token \<Rightarrow> 's \<Rightarrow> string option"
    and promote :: "instant \<Rightarrow> jd_token \<Rightarrow> downstream_id \<Rightarrow> 's \<Rightarrow> jd_token option \<times> 's"
    and release :: "jd_token \<Rightarrow> 's \<Rightarrow> 's"
    and bound :: "jd_token \<Rightarrow> 's \<Rightarrow> active_token_data option"
    and consume :: "jd_token \<Rightarrow> 's \<Rightarrow> 's"
    and drop_client :: "downstream_id \<Rightarrow> 's \<Rightarrow> 's"
  assumes issue_inv: "inv s \<Longrightarrow> ready s \<Longrightarrow> inv (snd (issue now d u s))"
    and issue_owned: "inv s \<Longrightarrow> ready s \<Longrightarrow>
      owned (fst (issue now d u s)) d' (snd (issue now d u s)) \<longleftrightarrow> d' = d"
    and issue_identity: "inv s \<Longrightarrow> ready s \<Longrightarrow>
      identity (fst (issue now d u s)) (snd (issue now d u s)) = Some u"
    and promote_inv: "inv s \<Longrightarrow> ready s \<Longrightarrow> inv (snd (promote now t d s))"
    and promote_refused: "\<not> owned t d s \<Longrightarrow> promote now t d s = (None, s)"
    and promote_bound: "owned t d s \<Longrightarrow> \<exists>t' u. fst (promote now t d s) = Some t' \<and>
      identity t s = Some u \<and>
      bound t' (snd (promote now t d s)) =
        Some \<lparr>allocated_token = t, activated_at = now, active_owner = d, active_identity = u\<rparr>"
    and promote_spends: "owned t d s \<Longrightarrow> \<not> owned t d' (snd (promote now t d s))"
    and release_inv: "inv s \<Longrightarrow> inv (release t s)"
    and release_spends: "\<not> owned t d (release t s)"
    and consume_inv: "inv s \<Longrightarrow> inv (consume t s)"
    and consume_spends: "bound t (consume t s) = None"
    and drop_inv: "inv s \<Longrightarrow> inv (drop_client d s)"
    and drop_owned: "\<not> owned t d (drop_client d s)"
    and drop_bound: "bound t (drop_client d s) = Some v \<Longrightarrow> active_owner v \<noteq> d"
begin

text \<open>The path of a token through one accepted declaration.\<close>

lemma issue_promote_bound:
  assumes "inv s" and "ready s" and "issue now d u s = (t, s1)"
  obtains t' s2 where "promote now' t d s1 = (Some t', s2)"
    and "bound t' s2 = Some \<lparr>allocated_token = t, activated_at = now', active_owner = d,
      active_identity = u\<rparr>"
proof -
  have owned: "owned t d s1" and ident: "identity t s1 = Some u"
    using issue_owned [OF assms(1,2), of now d u d] issue_identity [OF assms(1,2), of now d u] assms(3)
    by simp_all
  obtain t' where "fst (promote now' t d s1) = Some t'"
    and "bound t' (snd (promote now' t d s1)) =
      Some \<lparr>allocated_token = t, activated_at = now', active_owner = d, active_identity = u\<rparr>"
    using promote_bound [OF owned, of now'] ident by auto
  then show ?thesis by (intro that) (auto simp: prod_eq_iff)
qed

text \<open>A stranger cannot promote a token, whatever it guesses.\<close>

lemma stranger_cannot_promote:
  assumes "inv s" and "ready s" and "issue now d u s = (t, s1)" and "d' \<noteq> d"
  shows "promote now' t d' s1 = (None, s1)"
  using issue_owned [OF assms(1,2), of now d u d'] assms(3,4) by (intro promote_refused) simp

lemma promote_twice:
  assumes "promote now t d s = (Some t', s1)"
  shows "promote now' t d' s1 = (None, s1)"
proof -
  have "owned t d s" using assms promote_refused [of t d s now] by (cases "owned t d s") simp_all
  then show ?thesis using promote_spends [of t d s d' now] assms by (intro promote_refused) simp
qed

end

interpretation tokens: token_registry tm_inv can_issue allocate is_allocated
  "\<lambda>t tm. map_option allocated_identity (allocated_tokens tm t)"
  activate deallocate allocated_from_active deactivate remove_downstream
proof (unfold_locales, goal_cases)
  case (1 s now d u) then show ?case by (rule tm_inv_allocate)
next
  case (2 s now d u d') then show ?case by (auto simp: allocate_eq is_allocated_iff)
next
  case (3 s now d u) then show ?case by (simp add: allocate_eq)
next
  case (4 s now t d) then show ?case by (rule tm_inv_activate)
next
  case (5 t d s now) then show ?case by (rule activate_None)
next
  case (6 t d s now) then show ?case by (auto simp: activate_eq is_allocated_iff)
next
  case (7 t d s d' now) then show ?case by (simp add: activate_eq is_allocated_iff)
next
  case (8 s t) then show ?case by (rule tm_inv_deallocate)
next
  case (9 t d s) then show ?case by (simp add: deallocate_eq is_allocated_iff)
next
  case (10 s t) then show ?case by (rule tm_inv_deactivate)
next
  case (11 t s) then show ?case by (simp add: deactivate_eq)
next
  case (12 s d) then show ?case by (rule tm_inv_remove_downstream)
next
  case (13 t d s) then show ?case
    by (simp add: remove_downstream_def is_allocated_iff shared_map)
next
  case (14 t d s v) then show ?case by (simp add: remove_downstream_def shared_map)
qed

end
