(* ===== verification/Declared_Jobs.thy ===== *)
theory Declared_Jobs
  imports Jdp_Validator Token_Manager
begin

text \<open>
  \<open>pool-apps/jd-server/src/lib/job_declarator/job_validation/bitcoin_core_ipc.rs\<close>: the engine that
  validates declared jobs through Bitcoin Core and later matches a \<open>SetCustomMiningJob\<close> against the
  declaration. \<open>handle_declare_mining_job\<close> awaits the answer of the validator once; the model splits it
  there into \<open>engine_start\<close> and \<open>engine_resume\<close>, so that everything that can happen in between is a
  change of the state \<open>engine_resume\<close> is applied to. A panic (a slice or index out of range, a vector
  beyond \<open>isize::MAX\<close> bytes, a failed \<open>expect\<close>) is the value \<open>Panic\<close>.

  The locale \<open>validation_engine\<close> states the contract of the trait \<open>JobValidationEngine\<close>
  (\<open>job_validation/mod.rs\<close>).
\<close>

section \<open>Model\<close>

datatype 'a may_panic = Panic | Value 'a

text \<open>The messages, with the fields the sources read.\<close>

record declare_mining_job =
  dm_request_id :: request_id
  dm_token :: bytes
  dm_version :: u32
  dm_coinbase_tx_prefix :: bytes
  dm_coinbase_tx_suffix :: bytes
  dm_wtxid_list :: "wtxid list"

record provide_missing_transactions_success =
  pm_request_id :: request_id
  pm_transaction_list :: "bytes list"

record set_custom_mining_job =
  sc_request_id :: request_id
  sc_channel_id :: channel_id
  sc_token :: bytes
  sc_version :: u32
  sc_prev_hash :: block_hash
  sc_nbits :: u32
  sc_coinbase_tx_version :: u32
  sc_coinbase_prefix :: bytes
  sc_coinbase_tx_input_n_sequence :: u32
  sc_coinbase_tx_outputs :: bytes
  sc_coinbase_tx_locktime :: u32
  sc_merkle_path :: "merkle_node list"

datatype declare_mining_job_result =
    DeclareSuccess | DeclareError error_code | DeclareMissingTransactions "wtxid list"

datatype set_custom_mining_job_result = SetCustomSuccess | SetCustomError error_code

record declared_custom_job =
  dj_message :: declare_mining_job
  dj_context :: validation_context
  dj_txid_list :: "txid list option"
  dj_validated :: bool

record allocated_token_entry =
  en_request_id :: request_id
  inserted_at :: instant

record downstream_state =
  declared_custom_jobs :: "request_id \<rightharpoonup> declared_custom_job"
  allocated_token_entries :: "jd_token \<rightharpoonup> allocated_token_entry"

definition downstream_state_default :: downstream_state where
  "downstream_state_default =
     \<lparr>declared_custom_jobs = Map.empty, allocated_token_entries = Map.empty\<rparr>"

definition insert_declared_custom_job ::
  "instant \<Rightarrow> request_id \<Rightarrow> jd_token \<Rightarrow> declared_custom_job \<Rightarrow> downstream_state \<Rightarrow> downstream_state" where
  "insert_declared_custom_job now r t job st =
     st\<lparr>declared_custom_jobs := (declared_custom_jobs st)(r \<mapsto> job),
        allocated_token_entries := (allocated_token_entries st)(t \<mapsto>
          \<lparr>en_request_id = r, inserted_at = now\<rparr>)\<rparr>"

definition remove_declared_custom_job ::
  "request_id \<Rightarrow> jd_token \<Rightarrow> downstream_state \<Rightarrow> downstream_state" where
  "remove_declared_custom_job r t st =
     st\<lparr>declared_custom_jobs := (declared_custom_jobs st)(r := None),
        allocated_token_entries := (allocated_token_entries st)(t := None)\<rparr>"

definition take_declared_custom_job ::
  "jd_token \<Rightarrow> downstream_state \<Rightarrow> declared_custom_job option \<times> downstream_state" where
  "take_declared_custom_job t st =
     (case allocated_token_entries st t of
        None \<Rightarrow> (None, st)
      | Some e \<Rightarrow>
          (declared_custom_jobs st (en_request_id e),
           st\<lparr>allocated_token_entries := (allocated_token_entries st)(t := None),
              declared_custom_jobs := (declared_custom_jobs st)(en_request_id e := None)\<rparr>))"

definition entry_kept :: "instant \<Rightarrow> nat \<Rightarrow> allocated_token_entry \<Rightarrow> bool" where
  "entry_kept now token_timeout e = (now - inserted_at e \<le> token_timeout)"

definition prune_expired_allocations ::
  "instant \<Rightarrow> nat \<Rightarrow> downstream_state \<Rightarrow> downstream_state" where
  "prune_expired_allocations now token_timeout st =
     (let expired = {e \<in> ran (allocated_token_entries st). \<not> entry_kept now token_timeout e}
      in st\<lparr>allocated_token_entries :=
              sm_retain (allocated_token_entries st) (\<lambda>_ e. entry_kept now token_timeout e),
            declared_custom_jobs := declared_custom_jobs st |` (- en_request_id ` expired)\<rparr>)"

definition validation_context_for_request ::
  "request_id \<Rightarrow> downstream_state \<Rightarrow> validation_context option" where
  "validation_context_for_request r st = map_option dj_context (declared_custom_jobs st r)"

definition validation_context_drifted :: "validation_context \<Rightarrow> validation_context \<Rightarrow> bool" where
  "validation_context_drifted previous current = (ctx_prev_hash previous \<noteq> ctx_prev_hash current)"

subsection \<open>The declared coinbase\<close>

definition COINBASE_PREFIX_LEN :: nat where
  "COINBASE_PREFIX_LEN = 43"

text \<open>The largest vector Rust allocates.\<close>

definition ISIZE_MAX :: nat where
  "ISIZE_MAX = 2 ^ 63 - 1"

definition get_coinbase_tx ::
  "btc_lib \<Rightarrow> declare_mining_job \<Rightarrow> (unit, transaction) result may_panic" where
  "get_coinbase_tx B dm =
     (let prefix = dm_coinbase_tx_prefix dm; suffix = dm_coinbase_tx_suffix dm
      in if length prefix < COINBASE_PREFIX_LEN then Panic
         else case varint_decode B (drop COINBASE_PREFIX_LEN prefix) of
           None \<Rightarrow> Value (Err ())
         | Some script_sig_size \<Rightarrow>
             (let script_sig_offset = of_nat (COINBASE_PREFIX_LEN + varint_size B script_sig_size) :: u64;
                  script_sig_bytes_in_prefix = of_nat (length prefix) - script_sig_offset;
                  full_extranonce_size = script_sig_size - script_sig_bytes_in_prefix
              in if ISIZE_MAX < unat full_extranonce_size then Panic
                 else case tx_consensus_decode B
                             (prefix @ replicate (unat full_extranonce_size) 0 @ suffix) of
                        None \<Rightarrow> Value (Err ())
                      | Some tx \<Rightarrow> Value (Ok tx)))"

subsection \<open>The merkle path of the coinbase\<close>

definition next_level :: "btc_lib \<Rightarrow> merkle_node list \<Rightarrow> merkle_node list" where
  "next_level B hashes =
     map (\<lambda>idx. merkle_hash B (hashes ! (2 * idx)) (hashes ! min (2 * idx + 1) (length hashes - 1)))
       [0..<(length hashes + 1) div 2]"

function merkle_branch :: "btc_lib \<Rightarrow> merkle_node list \<Rightarrow> merkle_node list \<Rightarrow> merkle_node list" where
  "merkle_branch B branch hashes =
     (if length hashes > 1
      then merkle_branch B (branch @ [hashes ! 1]) (next_level B hashes)
      else branch)"
  by pat_completeness auto
termination
  by (relation "measure (\<lambda>(B, branch, hashes). length hashes)") (auto simp: next_level_def)

declare merkle_branch.simps [simp del]

definition get_merkle_path ::
  "btc_lib \<Rightarrow> declared_custom_job \<Rightarrow> (unit, merkle_node list) result may_panic" where
  "get_merkle_path B job =
     (if \<not> dj_validated job then Value (Err ())
      else case dj_txid_list job of
        None \<Rightarrow> Value (Err ())
      | Some txids \<Rightarrow>
          (case get_coinbase_tx B (dj_message job) of
             Value (Inr coinbase_tx) \<Rightarrow>
               (let hashes = compute_txid B coinbase_tx # txids
                in Value (Ok (if length hashes = 1 then [] else merkle_branch B [] hashes)))
           | _ \<Rightarrow> Panic))"

subsection \<open>Declaring a job\<close>

type_synonym engine = "downstream_id \<rightharpoonup> downstream_state"

text \<open>What \<open>handle_declare_mining_job\<close> holds while it awaits the validator.\<close>

record pending_declare =
  pd_downstream :: downstream_id
  pd_message :: declare_mining_job
  pd_retry :: bool
  pd_token :: jd_token
  pd_previous_context :: "validation_context option"
  pd_request :: declare_request

datatype engine_start_result =
    EnginePanic
  | EngineReturn declare_mining_job_result
  | EngineAwait pending_declare engine

definition engine_start ::
  "btc_lib \<Rightarrow> downstream_id \<Rightarrow> declare_mining_job \<Rightarrow> provide_missing_transactions_success option \<Rightarrow>
   engine \<Rightarrow> engine_start_result" where
  "engine_start B d dm pmts eng =
     (case token_of_bytes (dm_token dm) of
        None \<Rightarrow> EngineReturn (DeclareError DECLARE_MINING_JOB_INVALID_MINING_JOB_TOKEN)
      | Some allocated \<Rightarrow>
          (case get_coinbase_tx B dm of
             Panic \<Rightarrow> EnginePanic
           | Value (Inl _) \<Rightarrow> EngineReturn (DeclareError DECLARE_MINING_JOB_INVALID_COINBASE_TX)
           | Value (Inr coinbase_tx) \<Rightarrow>
               if length (tx_input coinbase_tx) \<noteq> 1
               then EngineReturn (DeclareError DECLARE_MINING_JOB_INVALID_COINBASE_TX_INPUT)
               else
                 (let missing_txs = (case pmts of
                        None \<Rightarrow> []
                      | Some p \<Rightarrow> List.map_filter (tx_consensus_decode B) (pm_transaction_list p));
                      previous = (case pmts of
                        None \<Rightarrow> None
                      | Some _ \<Rightarrow> Option.bind (sm_with eng d (validation_context_for_request (dm_request_id dm))) id);
                      eng' = snd (sm_with_mut_or_insert_with eng d downstream_state_default (\<lambda>st. ((), st)))
                  in EngineAwait
                       \<lparr>pd_downstream = d, pd_message = dm, pd_retry = (pmts \<noteq> None), pd_token = allocated,
                        pd_previous_context = previous,
                        pd_request = \<lparr>rq_version = dm_version dm, rq_coinbase_tx = coinbase_tx,
                                      rq_wtxid_list = dm_wtxid_list dm, rq_missing_txs = missing_txs\<rparr>\<rparr>
                       eng')))"

definition tip_drifted :: "pending_declare \<Rightarrow> validation_context \<Rightarrow> bool" where
  "tip_drifted pd ctx =
     (case pd_previous_context pd of None \<Rightarrow> False | Some prev \<Rightarrow> validation_context_drifted prev ctx)"

text \<open>Storing the job of an answered declaration: refused when the client's state is gone.\<close>

definition store_job ::
  "instant \<Rightarrow> pending_declare \<Rightarrow> declared_custom_job \<Rightarrow> declare_mining_job_result \<Rightarrow> engine \<Rightarrow>
   declare_mining_job_result \<times> engine" where
  "store_job now pd job result eng =
     (case sm_with_mut eng (pd_downstream pd)
             (\<lambda>st. ((), insert_declared_custom_job now (dm_request_id (pd_message pd)) (pd_token pd) job st)) of
        (None, eng') \<Rightarrow> (DeclareError DECLARE_MINING_JOB_INTERNAL_ERROR, eng')
      | (Some _, eng') \<Rightarrow> (result, eng'))"

definition forget_job :: "pending_declare \<Rightarrow> engine \<Rightarrow> engine" where
  "forget_job pd eng =
     snd (sm_with_mut eng (pd_downstream pd)
       (\<lambda>st. ((), remove_declared_custom_job (dm_request_id (pd_message pd)) (pd_token pd) st)))"

text \<open>\<open>None\<close> is a request that could not be sent or whose answer never came.\<close>

definition engine_resume ::
  "instant \<Rightarrow> pending_declare \<Rightarrow> jd_response option \<Rightarrow> engine \<Rightarrow> declare_mining_job_result \<times> engine" where
  "engine_resume now pd response eng =
     (case response of
        None \<Rightarrow> (DeclareError DECLARE_MINING_JOB_INTERNAL_ERROR, eng)
      | Some (JdSuccess prev_hash nbits txids) \<Rightarrow>
          store_job now pd
            \<lparr>dj_message = pd_message pd, dj_context = \<lparr>ctx_prev_hash = prev_hash, ctx_nbits = nbits\<rparr>,
             dj_txid_list = Some txids, dj_validated = True\<rparr>
            DeclareSuccess eng
      | Some (JdError code ctx) \<Rightarrow>
          (DeclareError (if tip_drifted pd ctx then DECLARE_MINING_JOB_STALE_CHAIN_TIP else code),
           forget_job pd eng)
      | Some (JdMissingTransactions missing ctx) \<Rightarrow>
          if pd_retry pd \<and> tip_drifted pd ctx
          then (DeclareError DECLARE_MINING_JOB_STALE_CHAIN_TIP, forget_job pd eng)
          else store_job now pd
            \<lparr>dj_message = pd_message pd, dj_context = ctx, dj_txid_list = None, dj_validated = False\<rparr>
            (DeclareMissingTransactions missing) eng)"

subsection \<open>Setting a custom job\<close>

text \<open>The coinbase checks; \<open>None\<close> is a coinbase that passes them all.\<close>

definition coinbase_mismatch ::
  "btc_lib \<Rightarrow> transaction \<Rightarrow> set_custom_mining_job \<Rightarrow> error_code option may_panic" where
  "coinbase_mismatch B tx msg =
     (if tx_version tx \<noteq> sc_coinbase_tx_version msg
      then Value (Some SET_CUSTOM_MINING_JOB_INVALID_COINBASE_TX_VERSION)
      else case tx_input tx of
        [] \<Rightarrow> Panic
      | input0 # _ \<Rightarrow>
          if \<not> starts_with (script_sig input0) (sc_coinbase_prefix msg)
          then Value (Some SET_CUSTOM_MINING_JOB_INVALID_COINBASE_PREFIX)
          else if sequence input0 \<noteq> sc_coinbase_tx_input_n_sequence msg
          then Value (Some SET_CUSTOM_MINING_JOB_INVALID_COINBASE_TX_INPUT_N_SEQUENCE)
          else if serialize_outputs B (tx_output tx) \<noteq> sc_coinbase_tx_outputs msg
          then Value (Some SET_CUSTOM_MINING_JOB_INVALID_COINBASE_TX_OUTPUTS)
          else if tx_lock_time tx \<noteq> sc_coinbase_tx_locktime msg
          then Value (Some SET_CUSTOM_MINING_JOB_INVALID_COINBASE_TX_LOCKTIME)
          else Value None)"

text \<open>The comparison of the message with the job taken out of the state.\<close>

definition match_custom_job ::
  "btc_lib \<Rightarrow> declared_custom_job \<Rightarrow> set_custom_mining_job \<Rightarrow> set_custom_mining_job_result may_panic" where
  "match_custom_job B job msg =
     (if \<not> dj_validated job then Value (SetCustomError SET_CUSTOM_MINING_JOB_JOB_NOT_YET_VALIDATED)
      else if sc_prev_hash msg \<noteq> ctx_prev_hash (dj_context job)
      then Value (SetCustomError SET_CUSTOM_MINING_JOB_STALE_CHAIN_TIP)
      else if sc_nbits msg \<noteq> ctx_nbits (dj_context job)
      then Value (SetCustomError SET_CUSTOM_MINING_JOB_INVALID_NBITS)
      else if sc_version msg \<noteq> dm_version (dj_message job)
      then Value (SetCustomError SET_CUSTOM_MINING_JOB_INVALID_VERSION)
      else case get_coinbase_tx B (dj_message job) of
        Panic \<Rightarrow> Panic
      | Value (Inl _) \<Rightarrow> Value (SetCustomError SET_CUSTOM_MINING_JOB_INVALID_COINBASE_TX)
      | Value (Inr coinbase_tx) \<Rightarrow>
          (case coinbase_mismatch B coinbase_tx msg of
             Panic \<Rightarrow> Panic
           | Value (Some code) \<Rightarrow> Value (SetCustomError code)
           | Value None \<Rightarrow>
               (case get_merkle_path B job of
                  Panic \<Rightarrow> Panic
                | Value (Inl _) \<Rightarrow> Value (SetCustomError SET_CUSTOM_MINING_JOB_JOB_NOT_YET_VALIDATED)
                | Value (Inr path) \<Rightarrow>
                    if path \<noteq> sc_merkle_path msg
                    then Value (SetCustomError SET_CUSTOM_MINING_JOB_INVALID_MERKLE_PATH)
                    else Value SetCustomSuccess)))"

definition engine_set_custom ::
  "btc_lib \<Rightarrow> downstream_id \<Rightarrow> set_custom_mining_job \<Rightarrow> jd_token \<Rightarrow> engine \<Rightarrow>
   set_custom_mining_job_result may_panic \<times> engine" where
  "engine_set_custom B d msg allocated eng =
     (let (taken, eng') = sm_with_mut eng d (take_declared_custom_job allocated)
      in case Option.bind taken id of
           None \<Rightarrow> (Value (SetCustomError SET_CUSTOM_MINING_JOB_INVALID_MINING_JOB_TOKEN), eng')
         | Some job \<Rightarrow> (match_custom_job B job msg, eng'))"

definition engine_cleanup_downstream :: "downstream_id \<Rightarrow> engine \<Rightarrow> engine" where
  "engine_cleanup_downstream d eng = snd (sm_remove eng d)"

text \<open>One tick of the engine's janitor.\<close>

definition engine_janitor_tick :: "instant \<Rightarrow> engine \<Rightarrow> engine" where
  "engine_janitor_tick now eng =
     (\<lambda>d. map_option (prune_expired_allocations now (from_secs ALLOCATED_TOKEN_TIMEOUT_SECS)) (eng d))"

section \<open>The declared coinbase\<close>

text \<open>What the \<open>bitcoin\<close> crate documents of \<open>VarInt\<close>: a decoded value was read from as many bytes as
  it takes to write.\<close>

definition varint_ok :: "btc_lib \<Rightarrow> bool" where
  "varint_ok B \<longleftrightarrow> (\<forall>bs n. varint_decode B bs = Some n \<longrightarrow> varint_size B n \<le> length bs)"

text \<open>The number of script bytes the prefix carries after the length.\<close>

definition script_bytes_in_prefix :: "btc_lib \<Rightarrow> bytes \<Rightarrow> u64 \<Rightarrow> nat" where
  "script_bytes_in_prefix B prefix n = length prefix - (43 + varint_size B n)"

lemma extranonce_size:
  assumes "varint_ok B" and "varint_decode B (drop 43 prefix) = Some n" and "43 \<le> length prefix"
    and "length prefix < 2 ^ 16"
  shows "unat (n - (of_nat (length prefix) - of_nat (43 + varint_size B n)) :: u64) =
    (if unat n < script_bytes_in_prefix B prefix n
     then 2 ^ 64 - (script_bytes_in_prefix B prefix n - unat n)
     else unat n - script_bytes_in_prefix B prefix n)"
proof -
  have "varint_size B n \<le> length (drop 43 prefix)"
    using assms(1,2) unfolding varint_ok_def by blast
  then have fits: "43 + varint_size B n \<le> length prefix" using assms(3) by simp
  have word: "(of_nat (length prefix) - of_nat (43 + varint_size B n) :: u64) =
      of_nat (script_bytes_in_prefix B prefix n)"
    using fits by (simp add: script_bytes_in_prefix_def of_nat_diff)
  have k: "unat (of_nat (script_bytes_in_prefix B prefix n) :: u64) = script_bytes_in_prefix B prefix n"
    using assms(4) by (simp add: script_bytes_in_prefix_def unsigned_of_nat take_bit_eq_mod)
  show ?thesis
    unfolding word unat_sub_if' k using unat_lt_pow [of n] by (auto simp: not_le)
qed

text \<open>The declarations on which rebuilding the coinbase panics.\<close>

definition coinbase_panics :: "btc_lib \<Rightarrow> bytes \<Rightarrow> bool" where
  "coinbase_panics B prefix \<longleftrightarrow>
     length prefix < 43 \<or>
     (\<exists>n. varint_decode B (drop 43 prefix) = Some n \<and>
        (unat n < script_bytes_in_prefix B prefix n \<or>
         2 ^ 63 \<le> unat n - script_bytes_in_prefix B prefix n))"

lemma get_coinbase_tx_eq:
  assumes "varint_ok B" and "length (dm_coinbase_tx_prefix dm) < 2 ^ 16"
  shows "get_coinbase_tx B dm =
    (if coinbase_panics B (dm_coinbase_tx_prefix dm) then Panic
     else case varint_decode B (drop 43 (dm_coinbase_tx_prefix dm)) of
       None \<Rightarrow> Value (Err ())
     | Some n \<Rightarrow>
         (case tx_consensus_decode B (dm_coinbase_tx_prefix dm @
             replicate (unat n - script_bytes_in_prefix B (dm_coinbase_tx_prefix dm) n) 0 @
             dm_coinbase_tx_suffix dm) of
            None \<Rightarrow> Value (Err ())
          | Some tx \<Rightarrow> Value (Ok tx)))"
proof (cases "length (dm_coinbase_tx_prefix dm) < 43")
  case True
  then show ?thesis by (simp add: get_coinbase_tx_def coinbase_panics_def COINBASE_PREFIX_LEN_def)
next
  case False
  let ?p = "dm_coinbase_tx_prefix dm"
  show ?thesis
  proof (cases "varint_decode B (drop 43 ?p)")
    case None
    then show ?thesis
      using False by (simp add: get_coinbase_tx_def coinbase_panics_def COINBASE_PREFIX_LEN_def)
  next
    case (Some n)
    let ?k = "script_bytes_in_prefix B ?p n"
    have k: "?k < 2 ^ 16" using assms(2) by (simp add: script_bytes_in_prefix_def)
    note size = extranonce_size [OF assms(1) Some _ assms(2)]
    show ?thesis
      using False Some size k
      by (auto simp: get_coinbase_tx_def coinbase_panics_def COINBASE_PREFIX_LEN_def ISIZE_MAX_def
          Let_def not_less)
  qed
qed

text \<open>
  Rebuilding the declared coinbase, for a prefix of any length a message can carry: it panics
  exactly when the prefix is too short to hold a coinbase input, or when the script length it announces
  is smaller than the script bytes the prefix already holds, or leaves an extranonce beyond the largest
  vector; in every other case it pads the script with exactly the missing bytes and returns what the
  decoder says of prefix, padding and suffix.
\<close>

theorem coinbase_reconstruction:
  assumes "varint_ok B" and "length (dm_coinbase_tx_prefix dm) < 2 ^ 16"
  shows "(get_coinbase_tx B dm = Panic \<longleftrightarrow> coinbase_panics B (dm_coinbase_tx_prefix dm)) \<and>
    (get_coinbase_tx B dm = Value (Ok tx) \<longleftrightarrow>
       \<not> coinbase_panics B (dm_coinbase_tx_prefix dm) \<and>
       (\<exists>n pad. varint_decode B (drop 43 (dm_coinbase_tx_prefix dm)) = Some n \<and>
          script_bytes_in_prefix B (dm_coinbase_tx_prefix dm) n + pad = unat n \<and>
          tx_consensus_decode B (dm_coinbase_tx_prefix dm @ replicate pad 0 @ dm_coinbase_tx_suffix dm)
            = Some tx))"
proof -
  have "varint_decode B (drop 43 (dm_coinbase_tx_prefix dm)) = Some n \<Longrightarrow>
      \<not> coinbase_panics B (dm_coinbase_tx_prefix dm) \<Longrightarrow>
      script_bytes_in_prefix B (dm_coinbase_tx_prefix dm) n + pad = unat n \<longleftrightarrow>
      pad = unat n - script_bytes_in_prefix B (dm_coinbase_tx_prefix dm) n" for n pad
    by (auto simp: coinbase_panics_def not_less)
  then show ?thesis
    unfolding get_coinbase_tx_eq [OF assms]
    by (auto split: option.splits)
qed

section \<open>The merkle path\<close>

text \<open>The reference: pair the hashes up, the last one with itself when it is alone, until one is left.\<close>

fun pair_up :: "btc_lib \<Rightarrow> merkle_node list \<Rightarrow> merkle_node list" where
  "pair_up B [] = []"
| "pair_up B [a] = [merkle_hash B a a]"
| "pair_up B (a # b # hs) = merkle_hash B a b # pair_up B hs"

lemma length_pair_up: "length (pair_up B hs) = (length hs + 1) div 2"
  by (induction B hs rule: pair_up.induct) simp_all

function merkle_root :: "btc_lib \<Rightarrow> merkle_node list \<Rightarrow> merkle_node" where
  "merkle_root B [] = 0"
| "merkle_root B [h] = h"
| "merkle_root B (a # b # hs) = merkle_root B (pair_up B (a # b # hs))"
  by pat_completeness auto
termination
  by (relation "measure (\<lambda>(B, hs). length hs)") (auto simp: length_pair_up)

lemma nth_pair:
  assumes "idx < (length hs + 1) div 2"
  shows "(a # b # hs) ! min (Suc (Suc (Suc (2 * idx)))) (Suc (length hs)) = hs ! min (Suc (2 * idx)) (length hs - 1)"
  using assms by (cases "Suc (2 * idx) < length hs") (auto simp: min_def nth_Cons')

lemma next_level_eq: "next_level B hs = pair_up B hs"
proof (induction B hs rule: pair_up.induct)
  case (3 B a b hs)
  have "[0..<(length (a # b # hs) + 1) div 2] = 0 # map Suc [0..<(length hs + 1) div 2]"
    by (simp add: upt_conv_Cons map_Suc_upt del: upt_Suc)
  then have "next_level B (a # b # hs) = merkle_hash B a b # next_level B hs"
    using nth_pair [of _ hs a b] by (simp add: next_level_def comp_def)
  with 3 show ?case by simp
qed (simp_all add: next_level_def)

lemma merkle_branch_append: "merkle_branch B branch hs = branch @ merkle_branch B [] hs"
proof (induction "length hs" arbitrary: hs branch rule: less_induct)
  case less
  show ?case
  proof (cases "length hs > 1")
    case True
    then have "length (next_level B hs) < length hs" by (simp add: next_level_def)
    note IH = less [OF this]
    have "merkle_branch B branch hs = merkle_branch B (branch @ [hs ! 1]) (next_level B hs)"
      using True by (subst merkle_branch.simps) simp
    also have "\<dots> = (branch @ [hs ! 1]) @ merkle_branch B [] (next_level B hs)" by (rule IH)
    also have "\<dots> = branch @ merkle_branch B [hs ! 1] (next_level B hs)"
      by (subst IH [of "[hs ! 1]"]) simp
    also have "merkle_branch B [hs ! 1] (next_level B hs) = merkle_branch B [] hs"
      using True by (subst (2) merkle_branch.simps) simp
    finally show ?thesis .
  next
    case False
    then show ?thesis by (simp add: merkle_branch.simps)
  qed
qed

lemma merkle_branch_Cons:
  "merkle_branch B [] (a # b # hs) = b # merkle_branch B [] (merkle_hash B a b # pair_up B hs)"
proof -
  have "merkle_branch B [] (a # b # hs) = merkle_branch B [b] (next_level B (a # b # hs))"
    by (subst merkle_branch.simps) simp
  then show ?thesis by (subst (asm) merkle_branch_append) (simp add: next_level_eq)
qed

lemma fold_merkle_branch:
  "foldl (merkle_hash B) leaf (merkle_branch B [] (c # hs)) = merkle_root B (leaf # hs)"
proof (induction "length hs" arbitrary: c leaf hs rule: less_induct)
  case less
  show ?case
  proof (cases hs)
    case Nil
    then show ?thesis by (simp add: merkle_branch.simps)
  next
    case (Cons b hs')
    then have "length (pair_up B hs') < length hs" by (simp add: length_pair_up)
    then show ?thesis
      using less [of "pair_up B hs'" "merkle_hash B leaf b" "merkle_hash B c b"] Cons
      by (simp add: merkle_branch_Cons)
  qed
qed

lemma get_merkle_path_eq:
  assumes "dj_validated job" and "dj_txid_list job = Some txids"
    and "get_coinbase_tx B (dj_message job) = Value (Ok tx)"
  shows "get_merkle_path B job = Value (Ok (merkle_branch B [] (compute_txid B tx # txids)))"
  using assms by (simp add: get_merkle_path_def merkle_branch.simps)

text \<open>
  C8. The merkle path of a validated job is right for every coinbase: whatever coinbase txid is put in
  front of the declared transactions, as the miner's extranonce varies, folding it with the path gives
  the merkle root of the block with that coinbase, computed level by level as Bitcoin does.
\<close>

theorem merkle_path_gives_root:
  assumes "dj_validated job" and "dj_txid_list job = Some txids"
    and "get_coinbase_tx B (dj_message job) = Value (Ok tx)"
  shows "\<exists>path. get_merkle_path B job = Value (Ok path) \<and>
    (\<forall>coinbase_txid. foldl (merkle_hash B) coinbase_txid path = merkle_root B (coinbase_txid # txids))"
  by (simp add: get_merkle_path_eq [OF assms] fold_merkle_branch)

subsection \<open>Concrete evaluations\<close>

definition demo_dm :: "request_id \<Rightarrow> jd_token \<Rightarrow> declare_mining_job" where
  "demo_dm r t = \<lparr>dm_request_id = r, dm_token = to_le_bytes t, dm_version = 2,
     dm_coinbase_tx_prefix = replicate 43 0 @ [10, 1, 2], dm_coinbase_tx_suffix = [9],
     dm_wtxid_list = [1, 3]\<rparr>"

definition demo_coinbase :: transaction where
  "demo_coinbase = \<lparr>tx_version = 2, tx_lock_time = 9,
     tx_input = [\<lparr>prev_txid = 0, prev_vout = -1, script_sig = [1, 2] @ replicate 8 0 @ [9], sequence = -1,
                  witness = []\<rparr>],
     tx_output = []\<rparr>"

definition demo_job :: "request_id \<Rightarrow> jd_token \<Rightarrow> declared_custom_job" where
  "demo_job r t = \<lparr>dj_message = demo_dm r t, dj_context = \<lparr>ctx_prev_hash = 7, ctx_nbits = 5\<rparr>,
     dj_txid_list = Some [1, 3], dj_validated = True\<rparr>"

lemma demo_varint_ok: "varint_ok demo_btc"
  by (auto simp: varint_ok_def demo_btc_def word_less_nat_alt split: list.splits if_splits)

lemma demo_script_bytes: "script_bytes_in_prefix demo_btc (replicate 43 0 @ [10, 1, 2]) 10 = 2"
  by (simp add: script_bytes_in_prefix_def demo_btc_def)

lemma demo_no_panic: "\<not> coinbase_panics demo_btc (replicate 43 0 @ [10, 1, 2])"
  using demo_script_bytes by (simp add: coinbase_panics_def demo_btc_def)

lemma demo_decode:
  "tx_consensus_decode demo_btc ((replicate 43 0 @ [10, 1, 2]) @ replicate 8 0 @ [9]) = Some demo_coinbase"
  by (simp add: demo_btc_def demo_coinbase_def)

theorem coinbase_reconstruction_witness:
  "get_coinbase_tx demo_btc (demo_dm 4 0) = Value (Ok demo_coinbase) \<and>
   get_coinbase_tx demo_btc ((demo_dm 4 0)\<lparr>dm_coinbase_tx_prefix := [1, 2, 3]\<rparr>) = Panic"
proof -
  have ok: "get_coinbase_tx demo_btc (demo_dm 4 0) = Value (Ok demo_coinbase)"
    using coinbase_reconstruction [OF demo_varint_ok, of "demo_dm 4 0" demo_coinbase] demo_no_panic
      demo_script_bytes demo_decode
    by (auto simp: demo_dm_def demo_btc_def intro!: exI [of _ "8 :: nat"])
  have "get_coinbase_tx demo_btc ((demo_dm 4 0)\<lparr>dm_coinbase_tx_prefix := [1, 2, 3]\<rparr>) = Panic"
    using coinbase_reconstruction
        [OF demo_varint_ok, of "(demo_dm 4 0)\<lparr>dm_coinbase_tx_prefix := [1, 2, 3]\<rparr>"]
    by (simp add: coinbase_panics_def)
  with ok show ?thesis by simp
qed

lemma demo_get_coinbase: "get_coinbase_tx demo_btc (demo_dm r t) = Value (Ok demo_coinbase)"
proof -
  have prefix: "dm_coinbase_tx_prefix (demo_dm r t) = replicate 43 0 @ [10, 1, 2]"
    and suffix: "dm_coinbase_tx_suffix (demo_dm r t) = [9]" by (simp_all add: demo_dm_def)
  have len: "length (dm_coinbase_tx_prefix (demo_dm r t)) < 2 ^ 16" by (simp add: prefix)
  have size: "varint_decode demo_btc (drop 43 (replicate 43 0 @ [10, 1, 2])) = Some 10"
    by (simp add: demo_btc_def)
  have pad: "unat (10 :: u64) - 2 = 8" by simp
  show ?thesis
    unfolding get_coinbase_tx_eq [OF demo_varint_ok len] prefix suffix size
    by (simp only: demo_no_panic option.case demo_script_bytes pad demo_decode if_False)
qed

theorem merkle_path_gives_root_witness:
  "\<exists>path. get_merkle_path demo_btc (demo_job 4 0) = Value (Ok path) \<and>
     foldl (merkle_hash demo_btc) 6 path = merkle_root demo_btc [6, 1, 3]"
proof -
  have "dj_validated (demo_job 4 0)" and "dj_txid_list (demo_job 4 0) = Some [1, 3]"
    and "get_coinbase_tx demo_btc (dj_message (demo_job 4 0)) = Value (Ok demo_coinbase)"
    by (simp_all add: demo_job_def demo_get_coinbase)
  from merkle_path_gives_root [OF this] show ?thesis by auto
qed

section \<open>The invariant of the engine\<close>

text \<open>Every stored job has a coinbase that was rebuilt with one input, and it is validated exactly if
  its txids are known.\<close>

definition coinbase_ok :: "btc_lib \<Rightarrow> declare_mining_job \<Rightarrow> bool" where
  "coinbase_ok B dm \<longleftrightarrow> (\<exists>tx. get_coinbase_tx B dm = Value (Ok tx) \<and> length (tx_input tx) = 1)"

definition job_ok :: "btc_lib \<Rightarrow> declared_custom_job \<Rightarrow> bool" where
  "job_ok B job \<longleftrightarrow> coinbase_ok B (dj_message job) \<and> (dj_validated job \<longleftrightarrow> dj_txid_list job \<noteq> None)"

definition engine_inv :: "btc_lib \<Rightarrow> engine \<Rightarrow> bool" where
  "engine_inv B eng \<longleftrightarrow>
     (\<forall>d st r job. eng d = Some st \<longrightarrow> declared_custom_jobs st r = Some job \<longrightarrow> job_ok B job)"

definition pending_ok :: "btc_lib \<Rightarrow> pending_declare \<Rightarrow> bool" where
  "pending_ok B pd \<longleftrightarrow> coinbase_ok B (pd_message pd) \<and>
     token_of_bytes (dm_token (pd_message pd)) = Some (pd_token pd)"

text \<open>The job a token of a client leads to.\<close>

definition job_of_token :: "downstream_id \<Rightarrow> jd_token \<Rightarrow> engine \<Rightarrow> declared_custom_job option" where
  "job_of_token d t eng =
     Option.bind (eng d) (\<lambda>st. Option.bind (allocated_token_entries st t)
       (\<lambda>e. declared_custom_jobs st (en_request_id e)))"

lemma engine_inv_empty: "engine_inv B Map.empty"
  by (simp add: engine_inv_def)

lemma engine_invD: "engine_inv B eng \<Longrightarrow> job_of_token d t eng = Some job \<Longrightarrow> job_ok B job"
  by (auto simp: engine_inv_def job_of_token_def bind_eq_Some_conv)

lemma engine_inv_upd:
  assumes "engine_inv B eng" and "\<And>r job. declared_custom_jobs st r = Some job \<Longrightarrow> job_ok B job"
  shows "engine_inv B (eng(d \<mapsto> st))"
  using assms by (auto simp: engine_inv_def)

lemma engine_start_AwaitD:
  assumes "engine_start B d dm pmts eng = EngineAwait pd eng'"
  shows "pending_ok B pd" and "pd_downstream pd = d" and "pd_message pd = dm"
    and "eng' = (case eng d of None \<Rightarrow> eng(d \<mapsto> downstream_state_default) | Some _ \<Rightarrow> eng)"
  using assms
  by (auto simp: engine_start_def pending_ok_def coinbase_ok_def Let_def sm_with_mut_or_insert_with_def
      split: option.splits may_panic.splits sum.splits if_splits)

lemma engine_inv_start:
  assumes "engine_inv B eng" and "engine_start B d dm pmts eng = EngineAwait pd eng'"
  shows "engine_inv B eng'"
  using assms(1) engine_start_AwaitD(4) [OF assms(2)]
  by (auto simp: downstream_state_default_def split: option.splits intro!: engine_inv_upd)

lemma store_job_eq:
  "store_job now pd job result eng =
    (case eng (pd_downstream pd) of
       None \<Rightarrow> (DeclareError DECLARE_MINING_JOB_INTERNAL_ERROR, eng)
     | Some st \<Rightarrow> (result, eng(pd_downstream pd \<mapsto>
         insert_declared_custom_job now (dm_request_id (pd_message pd)) (pd_token pd) job st)))"
  by (simp add: store_job_def sm_with_mut_def split: option.splits)

lemma forget_job_eq:
  "forget_job pd eng =
    (case eng (pd_downstream pd) of
       None \<Rightarrow> eng
     | Some st \<Rightarrow> eng(pd_downstream pd \<mapsto>
         remove_declared_custom_job (dm_request_id (pd_message pd)) (pd_token pd) st))"
  by (simp add: forget_job_def sm_with_mut_def split: option.splits)

lemma engine_inv_store:
  assumes "engine_inv B eng" and "job_ok B job"
  shows "engine_inv B (snd (store_job now pd job result eng))"
  using assms
  by (auto simp: store_job_eq insert_declared_custom_job_def engine_inv_def split: option.splits if_splits)

lemma engine_inv_forget: "engine_inv B eng \<Longrightarrow> engine_inv B (forget_job pd eng)"
  by (auto simp: forget_job_eq remove_declared_custom_job_def engine_inv_def split: option.splits if_splits)

lemma engine_inv_resume:
  assumes "engine_inv B eng" and "pending_ok B pd"
  shows "engine_inv B (snd (engine_resume now pd response eng))"
  using assms
  by (auto simp: engine_resume_def pending_ok_def job_ok_def
      intro!: engine_inv_store engine_inv_forget split: option.splits jd_response.splits)

lemma engine_set_custom_eq:
  "engine_set_custom B d msg t eng =
    (case job_of_token d t eng of
       None \<Rightarrow> Value (SetCustomError SET_CUSTOM_MINING_JOB_INVALID_MINING_JOB_TOKEN)
     | Some job \<Rightarrow> match_custom_job B job msg,
     case eng d of None \<Rightarrow> eng | Some st \<Rightarrow> eng(d \<mapsto> snd (take_declared_custom_job t st)))"
  by (auto simp: engine_set_custom_def sm_with_mut_def job_of_token_def take_declared_custom_job_def
      split: option.splits)

lemma engine_inv_set_custom:
  assumes "engine_inv B eng"
  shows "engine_inv B (snd (engine_set_custom B d msg t eng))"
  using assms
  by (auto simp: engine_set_custom_eq take_declared_custom_job_def engine_inv_def
      split: option.splits if_splits)

lemma engine_inv_cleanup: "engine_inv B eng \<Longrightarrow> engine_inv B (engine_cleanup_downstream d eng)"
  by (auto simp: engine_cleanup_downstream_def sm_remove_def engine_inv_def)

lemma engine_inv_janitor: "engine_inv B eng \<Longrightarrow> engine_inv B (engine_janitor_tick now eng)"
  by (auto simp: engine_janitor_tick_def prune_expired_allocations_def Let_def engine_inv_def
      restrict_map_def split: if_splits)

section \<open>Matching a custom job\<close>

text \<open>The specification: every field of the message is the declared one, the scriptSig prefix is a
  prefix of the declared scriptSig, and the merkle path is the one of the declared transactions.\<close>

definition custom_job_matches :: "btc_lib \<Rightarrow> declared_custom_job \<Rightarrow> set_custom_mining_job \<Rightarrow> bool" where
  "custom_job_matches B job msg \<longleftrightarrow>
     dj_validated job \<and>
     sc_prev_hash msg = ctx_prev_hash (dj_context job) \<and> sc_nbits msg = ctx_nbits (dj_context job) \<and>
     sc_version msg = dm_version (dj_message job) \<and>
     (\<exists>tx input txids. get_coinbase_tx B (dj_message job) = Value (Ok tx) \<and> tx_input tx = [input] \<and>
        dj_txid_list job = Some txids \<and>
        sc_coinbase_tx_version msg = tx_version tx \<and>
        (\<exists>rest. script_sig input = sc_coinbase_prefix msg @ rest) \<and>
        sc_coinbase_tx_input_n_sequence msg = sequence input \<and>
        sc_coinbase_tx_outputs msg = serialize_outputs B (tx_output tx) \<and>
        sc_coinbase_tx_locktime msg = tx_lock_time tx \<and>
        sc_merkle_path msg = merkle_branch B [] (compute_txid B tx # txids))"

lemma coinbase_mismatch_eq:
  assumes "tx_input tx = [input]"
  shows "coinbase_mismatch B tx msg \<noteq> Panic"
    and "coinbase_mismatch B tx msg = Value None \<longleftrightarrow>
      sc_coinbase_tx_version msg = tx_version tx \<and>
      (\<exists>rest. script_sig input = sc_coinbase_prefix msg @ rest) \<and>
      sc_coinbase_tx_input_n_sequence msg = sequence input \<and>
      sc_coinbase_tx_outputs msg = serialize_outputs B (tx_output tx) \<and>
      sc_coinbase_tx_locktime msg = tx_lock_time tx"
  using assms by (auto simp: coinbase_mismatch_def starts_with_iff)

lemma match_custom_job_ok:
  assumes "job_ok B job"
  shows "match_custom_job B job msg \<noteq> Panic"
    and "match_custom_job B job msg = Value SetCustomSuccess \<longleftrightarrow> custom_job_matches B job msg"
proof -
  obtain tx input where tx: "get_coinbase_tx B (dj_message job) = Value (Ok tx)" "tx_input tx = [input]"
    using assms by (auto simp: job_ok_def coinbase_ok_def length_Suc_conv)
  have path: "get_merkle_path B job = Value (Ok (merkle_branch B [] (compute_txid B tx # the (dj_txid_list job))))"
    if "dj_validated job"
    using that assms tx by (intro get_merkle_path_eq) (auto simp: job_ok_def)
  note mm = coinbase_mismatch_eq [OF tx(2), of B msg]
  show "match_custom_job B job msg \<noteq> Panic"
    using tx path mm(1)
    by (auto simp: match_custom_job_def split: may_panic.splits option.splits if_splits)
  show "match_custom_job B job msg = Value SetCustomSuccess \<longleftrightarrow> custom_job_matches B job msg"
  proof (cases "dj_validated job \<and> coinbase_mismatch B tx msg = Value None")
    case True
    then show ?thesis
      using assms tx path mm(2) by (auto simp: match_custom_job_def custom_job_matches_def job_ok_def)
  next
    case False
    then show ?thesis
      using tx mm
      by (auto simp: match_custom_job_def custom_job_matches_def split: may_panic.splits option.splits)
  qed
qed

lemma engine_set_custom_iff:
  assumes "engine_inv B eng"
  shows "fst (engine_set_custom B d msg t eng) \<noteq> Panic"
    and "fst (engine_set_custom B d msg t eng) = Value SetCustomSuccess \<longleftrightarrow>
      (\<exists>job. job_of_token d t eng = Some job \<and> custom_job_matches B job msg)"
  using match_custom_job_ok [OF engine_invD [OF assms, of d t]]
  by (auto simp: engine_set_custom_eq split: option.splits)

text \<open>
  A \<open>SetCustomMiningJob\<close> is accepted exactly when the token leads to a job this client declared,
  Bitcoin Core has validated that job, and the message agrees with it on every field of the block header
  and of the coinbase and on the merkle path. On the states the engine can be in, the comparison never
  panics: not on the first input of the coinbase, and not on the \<open>expect\<close> of the merkle path.
\<close>

theorem set_custom_job_matches_declaration:
  assumes "engine_inv B eng"
  shows "fst (engine_set_custom B d msg t eng) \<noteq> Panic \<and>
    (fst (engine_set_custom B d msg t eng) = Value SetCustomSuccess \<longleftrightarrow>
      (\<exists>job. job_of_token d t eng = Some job \<and> custom_job_matches B job msg))"
  using engine_set_custom_iff [OF assms] by simp

lemma set_custom_consumes: "job_of_token d t (snd (engine_set_custom B d msg t eng)) = None"
  by (auto simp: engine_set_custom_eq take_declared_custom_job_def job_of_token_def split: option.splits)

lemma set_custom_frame [frame]: "d' \<noteq> d \<Longrightarrow> snd (engine_set_custom B d msg t eng) d' = eng d'"
  by (simp add: engine_set_custom_eq split: option.splits)

text \<open>
  A declared job is used at most once: whatever the answer to the first \<open>SetCustomMiningJob\<close> for
  a token, accepted, mismatching or not yet validated, a second one for the same token is refused as an
  unknown token; the state of other clients is not touched.
\<close>

theorem declared_job_is_used_once:
  "fst (engine_set_custom B d msg' t (snd (engine_set_custom B d msg t eng))) =
     Value (SetCustomError SET_CUSTOM_MINING_JOB_INVALID_MINING_JOB_TOKEN) \<and>
   (d' = d \<or> snd (engine_set_custom B d msg t eng) d' = eng d')"
  using set_custom_frame [of d' d]
  by (auto simp: engine_set_custom_eq [of B d msg'] set_custom_consumes)

section \<open>The answer to a declaration\<close>

lemma resume_gone:
  assumes "eng (pd_downstream pd) = None"
  shows "snd (engine_resume now pd response eng) = eng"
    and "\<exists>code. fst (engine_resume now pd response eng) = DeclareError code"
  using assms
  by (auto simp: engine_resume_def store_job_eq forget_job_eq split: option.splits jd_response.splits)

lemma resume_success:
  assumes "engine_resume now pd response eng = (DeclareSuccess, eng')"
  obtains prev_hash nbits txids where "response = Some (JdSuccess prev_hash nbits txids)"
    and "eng (pd_downstream pd) \<noteq> None"
    and "job_of_token (pd_downstream pd) (pd_token pd) eng' =
      Some \<lparr>dj_message = pd_message pd, dj_context = \<lparr>ctx_prev_hash = prev_hash, ctx_nbits = nbits\<rparr>,
            dj_txid_list = Some txids, dj_validated = True\<rparr>"
  using assms
  by (auto simp: engine_resume_def store_job_eq job_of_token_def insert_declared_custom_job_def
      split: option.splits jd_response.splits if_splits)

lemma resume_frame [frame]:
  "d \<noteq> pd_downstream pd \<Longrightarrow> snd (engine_resume now pd response eng) d = eng d"
  by (auto simp: engine_resume_def store_job_eq forget_job_eq split: option.splits jd_response.splits)

text \<open>
  The answer of the validator is applied to the state as it is when the answer arrives. If the
  client has been cleaned up meanwhile, the answer is an error and the state stays without that client,
  so a late answer never resurrects a disconnected client. A declaration succeeds only on a \<open>Success\<close> of
  the validator, and then the token leads to this very message, validated, under the tip and the txids
  the validator answered. No other client is affected.
\<close>

theorem late_answers_are_safe:
  assumes "engine_resume now pd response eng = (result, eng')"
  shows "(eng (pd_downstream pd) = None \<longrightarrow> eng' = eng \<and> (\<exists>code. result = DeclareError code)) \<and>
    (result = DeclareSuccess \<longrightarrow>
      (\<exists>prev_hash nbits txids. response = Some (JdSuccess prev_hash nbits txids) \<and>
         job_of_token (pd_downstream pd) (pd_token pd) eng' =
           Some \<lparr>dj_message = pd_message pd,
                 dj_context = \<lparr>ctx_prev_hash = prev_hash, ctx_nbits = nbits\<rparr>,
                 dj_txid_list = Some txids, dj_validated = True\<rparr>)) \<and>
    (\<forall>d. d \<noteq> pd_downstream pd \<longrightarrow> eng' d = eng d)"
proof (intro conjI impI allI)
  show "eng' = eng" and "\<exists>code. result = DeclareError code" if "eng (pd_downstream pd) = None"
    using resume_gone [of eng pd now response, OF that] assms by simp_all
  show "\<exists>prev_hash nbits txids. response = Some (JdSuccess prev_hash nbits txids) \<and>
      job_of_token (pd_downstream pd) (pd_token pd) eng' =
        Some \<lparr>dj_message = pd_message pd,
              dj_context = \<lparr>ctx_prev_hash = prev_hash, ctx_nbits = nbits\<rparr>,
              dj_txid_list = Some txids, dj_validated = True\<rparr>" if "result = DeclareSuccess"
    using resume_success [of now pd response eng eng'] assms that by metis
  show "eng' d = eng d" if "d \<noteq> pd_downstream pd" for d
    using resume_frame [OF that, of now response eng] assms by simp
qed

text \<open>A client that declares a job, gets it validated, and sets it.\<close>

definition demo_pending :: "downstream_id \<Rightarrow> request_id \<Rightarrow> jd_token \<Rightarrow> pending_declare" where
  "demo_pending d r t = \<lparr>pd_downstream = d, pd_message = demo_dm r t, pd_retry = False, pd_token = t,
     pd_previous_context = None,
     pd_request = \<lparr>rq_version = 2, rq_coinbase_tx = demo_coinbase, rq_wtxid_list = [1, 3],
                   rq_missing_txs = []\<rparr>\<rparr>"

definition demo_engine :: "downstream_id \<Rightarrow> request_id \<Rightarrow> jd_token \<Rightarrow> engine" where
  "demo_engine d r t =
     snd (engine_resume 0 (demo_pending d r t) (Some (JdSuccess 7 5 [1, 3]))
       [d \<mapsto> downstream_state_default])"

definition demo_set_custom :: "jd_token \<Rightarrow> set_custom_mining_job" where
  "demo_set_custom t = \<lparr>sc_request_id = 1, sc_channel_id = 1, sc_token = to_le_bytes t, sc_version = 2,
     sc_prev_hash = 7, sc_nbits = 5, sc_coinbase_tx_version = 2, sc_coinbase_prefix = [1, 2],
     sc_coinbase_tx_input_n_sequence = -1, sc_coinbase_tx_outputs = [], sc_coinbase_tx_locktime = 9,
     sc_merkle_path = merkle_branch demo_btc [] [9, 1, 3]\<rparr>"

lemma demo_resume:
  "engine_resume 0 (demo_pending d r t) (Some (JdSuccess 7 5 [1, 3])) [d \<mapsto> downstream_state_default] =
    (DeclareSuccess, demo_engine d r t)"
  by (simp add: engine_resume_def store_job_eq demo_engine_def demo_pending_def)

lemma demo_engine_job: "job_of_token d t (demo_engine d r t) = Some (demo_job r t)"
  using demo_resume [of d r t]
  by (simp add: job_of_token_def engine_resume_def store_job_eq demo_engine_def demo_pending_def demo_job_def
      insert_declared_custom_job_def demo_dm_def)

lemma demo_engine_inv: "engine_inv demo_btc (demo_engine d r t)"
proof -
  have "engine_inv demo_btc [d \<mapsto> downstream_state_default]"
    by (simp add: engine_inv_def downstream_state_default_def)
  moreover have "pending_ok demo_btc (demo_pending d r t)"
    by (simp add: pending_ok_def demo_pending_def coinbase_ok_def demo_get_coinbase)
      (simp add: demo_coinbase_def demo_dm_def)
  ultimately show ?thesis unfolding demo_engine_def by (rule engine_inv_resume)
qed

lemma demo_matches: "custom_job_matches demo_btc (demo_job r t) (demo_set_custom t')"
  by (simp add: custom_job_matches_def demo_job_def demo_get_coinbase demo_set_custom_def)
    (simp add: demo_dm_def demo_coinbase_def demo_btc_def)

theorem set_custom_job_matches_declaration_witness:
  "fst (engine_set_custom demo_btc 7 (demo_set_custom 0) 0 (demo_engine 7 4 0)) = Value SetCustomSuccess"
  using set_custom_job_matches_declaration [OF demo_engine_inv, of 7 "demo_set_custom 0" 0 7 4 0]
    demo_engine_job demo_matches by simp

theorem late_answers_are_safe_witness:
  "job_of_token 7 0 (demo_engine 7 4 0) = Some (demo_job 4 0)"
  using late_answers_are_safe [OF demo_resume [of 7 4 0]]
  by (simp add: demo_pending_def demo_job_def)

section \<open>The contract of the validation engine\<close>

text \<open>
  What the Job Declarator relies on. Declaring is the pair of \<open>start\<close>, which hands out a pending
  declaration, and \<open>resume\<close>, applied to whatever the state has become.
\<close>

locale validation_engine =
  fixes inv :: "'s \<Rightarrow> bool"
    and pending_inv :: "pending_declare \<Rightarrow> bool"
    and resume :: "instant \<Rightarrow> pending_declare \<Rightarrow> jd_response option \<Rightarrow> 's \<Rightarrow> declare_mining_job_result \<times> 's"
    and set_custom :: "downstream_id \<Rightarrow> set_custom_mining_job \<Rightarrow> jd_token \<Rightarrow> 's \<Rightarrow>
      set_custom_mining_job_result may_panic \<times> 's"
    and cleanup :: "downstream_id \<Rightarrow> 's \<Rightarrow> 's"
    and held :: "downstream_id \<Rightarrow> jd_token \<Rightarrow> 's \<Rightarrow> declared_custom_job option"
    and accepts :: "declared_custom_job \<Rightarrow> set_custom_mining_job \<Rightarrow> bool"
  assumes resume_inv: "inv s \<Longrightarrow> pending_inv pd \<Longrightarrow> inv (snd (resume now pd a s))"
    and resume_held: "resume now pd a s = (DeclareSuccess, s') \<Longrightarrow>
      \<exists>job. held (pd_downstream pd) (pd_token pd) s' = Some job \<and> dj_message job = pd_message pd"
    and set_inv: "inv s \<Longrightarrow> inv (snd (set_custom d msg t s))"
    and set_no_panic: "inv s \<Longrightarrow> fst (set_custom d msg t s) \<noteq> Panic"
    and set_success: "inv s \<Longrightarrow> fst (set_custom d msg t s) = Value SetCustomSuccess \<longleftrightarrow>
      (\<exists>job. held d t s = Some job \<and> accepts job msg)"
    and set_spends: "held d t (snd (set_custom d msg t s)) = None"
    and cleanup_inv: "inv s \<Longrightarrow> inv (cleanup d s)"
    and cleanup_held: "held d t (cleanup d s) = None"
begin

text \<open>A declared job can be set, exactly by a message it accepts.\<close>

lemma declared_then_set:
  assumes "inv s" and "pending_inv pd" and "resume now pd a s = (DeclareSuccess, s')"
  obtains job where "dj_message job = pd_message pd"
    and "fst (set_custom (pd_downstream pd) msg (pd_token pd) s') = Value SetCustomSuccess \<longleftrightarrow> accepts job msg"
proof -
  obtain job where job: "held (pd_downstream pd) (pd_token pd) s' = Some job" "dj_message job = pd_message pd"
    using resume_held [OF assms(3)] by blast
  have "inv s'" using resume_inv [OF assms(1,2), of now a] assms(3) by simp
  with job show ?thesis by (intro that) (simp_all add: set_success)
qed

lemma no_replay:
  assumes "inv s"
  shows "fst (set_custom d msg' t (snd (set_custom d msg t s))) \<noteq> Value SetCustomSuccess"
  using assms by (simp add: set_success set_inv set_spends)

lemma no_set_after_cleanup:
  assumes "inv s"
  shows "fst (set_custom d msg t (cleanup d s)) \<noteq> Value SetCustomSuccess"
  using assms by (simp add: set_success cleanup_inv cleanup_held)

end

interpretation ipc: validation_engine "engine_inv B" "pending_ok B" engine_resume "engine_set_custom B"
  engine_cleanup_downstream job_of_token "custom_job_matches B" for B
proof (unfold_locales, goal_cases)
  case (1 s pd now a) then show ?case by (rule engine_inv_resume)
next
  case (2 now pd a s s') then show ?case by (rule resume_success) auto
next
  case (3 s d msg t) then show ?case by (rule engine_inv_set_custom)
next
  case (4 s d msg t) then show ?case by (rule engine_set_custom_iff)
next
  case (5 s d msg t) then show ?case by (rule engine_set_custom_iff)
next
  case (6 d t msg s) then show ?case by (rule set_custom_consumes)
next
  case (7 s d) then show ?case by (rule engine_inv_cleanup)
next
  case (8 d t s) then show ?case
    by (simp add: job_of_token_def engine_cleanup_downstream_def sm_remove_def)
qed

end
