(* ===== verification/Job_Declarator.thy ===== *)
theory Job_Declarator
  imports Declared_Jobs
begin

text \<open>
  \<open>pool-apps/jd-server/src/lib/job_declarator/\<close>, \<open>mod.rs\<close>, \<open>job_declaration_message_handler.rs\<close> and
  \<open>downstream/mod.rs\<close>, with \<open>error.rs\<close>: the Job Declarator. It owns the token manager and the
  validation engine, answers the messages of its clients one at a time, and checks the custom jobs the
  pool hands it.

  A handler runs to its end or to the await of the validation engine; the part after the await is
  applied to the state as it is then. Whether a send on a client's channel succeeds is the argument
  \<open>sent\<close>: it fails when the client's task is gone. The segments between awaits are atomic in the model;
  in the program each access to a shared map is.
\<close>

section \<open>Errors\<close>

datatype jds_error_kind =
    ChannelSend
  | ChannelRecv
  | BinarySv2
  | UnexpectedMessage u16 u8
  | ClientNotFound downstream_id
  | ClientSenderNotFound downstream_id
  | PendingDeclareMiningJobNotFound request_id
  | UnsupportedProtocol
  | UnsupportedConnectionFlags
  | ProtocolVersionMismatch

datatype jds_action = ActionLog | ActionDisconnect downstream_id | ActionShutdown

record jds_error =
  err_kind :: jds_error_kind
  err_action :: jds_action

datatype loop_control = Continue | Break

definition jds_shutdown :: "jds_error_kind \<Rightarrow> jds_error" where
  "jds_shutdown k = \<lparr>err_kind = k, err_action = ActionShutdown\<rparr>"

definition jds_disconnect :: "jds_error_kind \<Rightarrow> downstream_id \<Rightarrow> jds_error" where
  "jds_disconnect k d = \<lparr>err_kind = k, err_action = ActionDisconnect d\<rparr>"

definition jds_log :: "jds_error_kind \<Rightarrow> jds_error" where
  "jds_log k = \<lparr>err_kind = k, err_action = ActionLog\<rparr>"

definition jds_unexpected_message :: "u16 \<Rightarrow> u8 \<Rightarrow> jds_error" where
  "jds_unexpected_message ext m = \<lparr>err_kind = UnexpectedMessage ext m, err_action = ActionLog\<rparr>"

section \<open>State and messages\<close>

record downstream_client =
  negotiated_extensions :: "u16 list"
  pending_declare_mining_jobs :: "request_id \<rightharpoonup> instant \<times> declare_mining_job"
  client_cancelled :: bool

record job_declarator =
  token_manager_of :: token_manager
  job_validator :: engine
  reward_script :: coinbase_reward_script
  downstream_clients :: "downstream_id \<rightharpoonup> downstream_client"
  downstream_client_senders :: "downstream_id set"
  downstream_id_factory :: u64

datatype jd_client_message =
    AllocateMiningJobToken request_id string
  | DeclareMiningJob declare_mining_job
  | ProvideMissingTransactionsSuccess provide_missing_transactions_success
  | PushSolution
  | OtherJobDeclarationMessage u16 u8

datatype jd_server_message =
    AllocateMiningJobTokenSuccess request_id bytes bytes
  | DeclareMiningJobSuccess request_id bytes
  | DeclareMiningJobError request_id error_code
  | ProvideMissingTransactions request_id "u16 list"

type_synonym outbox = "(downstream_id \<times> jd_server_message) list"

definition jd_new :: "coinbase_reward_script \<Rightarrow> job_declarator" where
  "jd_new sc = \<lparr>token_manager_of = tm_new, job_validator = Map.empty, reward_script = sc,
                downstream_clients = Map.empty, downstream_client_senders = {}, downstream_id_factory = 0\<rparr>"

definition downstream_new :: downstream_client where
  "downstream_new = \<lparr>negotiated_extensions = [], pending_declare_mining_jobs = Map.empty,
                     client_cancelled = False\<rparr>"

text \<open>The body of the accept task, after the handshake.\<close>

definition accept_connection :: "job_declarator \<Rightarrow> downstream_id \<times> job_declarator" where
  "accept_connection jd =
     (let d = downstream_id_factory jd
      in (d, jd\<lparr>downstream_id_factory := d + 1,
                downstream_clients := snd (sm_insert (downstream_clients jd) d downstream_new),
                downstream_client_senders := insert d (downstream_client_senders jd)\<rparr>))"

definition jd_cleanup_downstream :: "downstream_id \<Rightarrow> job_declarator \<Rightarrow> job_declarator" where
  "jd_cleanup_downstream d jd =
     jd\<lparr>downstream_clients := snd (sm_remove (downstream_clients jd) d),
        downstream_client_senders := downstream_client_senders jd - {d},
        job_validator := engine_cleanup_downstream d (job_validator jd),
        token_manager_of := remove_downstream d (token_manager_of jd)\<rparr>"

definition handle_error_action :: "jds_error \<Rightarrow> job_declarator \<Rightarrow> loop_control \<times> job_declarator" where
  "handle_error_action e jd =
     (case err_action e of
        ActionLog \<Rightarrow> (Continue, jd)
      | ActionDisconnect d \<Rightarrow> (Continue, jd_cleanup_downstream d jd)
      | ActionShutdown \<Rightarrow> (Break, jd))"

text \<open>One tick of a client's janitor of pending jobs.\<close>

definition pending_jobs_janitor_tick :: "instant \<Rightarrow> downstream_client \<Rightarrow> downstream_client" where
  "pending_jobs_janitor_tick now c =
     c\<lparr>pending_declare_mining_jobs := sm_retain (pending_declare_mining_jobs c)
         (\<lambda>_ (inserted, _). \<not> (now - inserted > from_secs ALLOCATED_TOKEN_TIMEOUT_SECS))\<rparr>"

definition get_negotiated_extensions_with_client ::
  "downstream_id option \<Rightarrow> job_declarator \<Rightarrow> (jds_error, u16 list) result" where
  "get_negotiated_extensions_with_client client_id jd =
     (case client_id of
        None \<Rightarrow> Err (jds_shutdown (ClientNotFound 0))
      | Some d \<Rightarrow>
          (case sm_with (downstream_clients jd) d negotiated_extensions of
             None \<Rightarrow> Err (jds_disconnect (ClientNotFound d) d)
           | Some exts \<Rightarrow> Ok exts))"

section \<open>Message handlers\<close>

text \<open>\<open>client_sender.send(...).await.map_err(|e| disconnect(e, client_id))\<close>.\<close>

definition send_to_client ::
  "bool \<Rightarrow> downstream_id \<Rightarrow> jd_server_message \<Rightarrow> (jds_error, unit) result \<times> outbox" where
  "send_to_client sent d m =
     (if sent then (Ok (), [(d, m)]) else (Err (jds_disconnect ChannelSend d), []))"

definition handle_allocate_mining_job_token ::
  "btc_lib \<Rightarrow> instant \<Rightarrow> bool \<Rightarrow> downstream_id option \<Rightarrow> request_id \<Rightarrow> string \<Rightarrow> job_declarator \<Rightarrow>
   (jds_error, unit) result \<times> job_declarator \<times> outbox" where
  "handle_allocate_mining_job_token B now sent client_id r user_identity jd =
     (case client_id of
        None \<Rightarrow> (Err (jds_shutdown (ClientNotFound 0)), jd, [])
      | Some d \<Rightarrow>
          (let (allocated, tm) = allocate now d user_identity (token_manager_of jd);
               jd' = jd\<lparr>token_manager_of := tm\<rparr>;
               outputs = serialize_outputs B
                 [\<lparr>txout_value = 0, script_pubkey = crs_script_pubkey (reward_script jd)\<rparr>]
           in if d \<notin> downstream_client_senders jd'
              then (Err (jds_disconnect (ClientSenderNotFound d) d), jd', [])
              else (let (res, out) = send_to_client sent d
                          (AllocateMiningJobTokenSuccess r (to_le_bytes allocated) outputs)
                    in (res, jd', out))))"

text \<open>The positions of the missing wtxids in the declared list, as \<open>u16\<close>.\<close>

definition position :: "wtxid list \<Rightarrow> wtxid \<Rightarrow> nat option" where
  "position ws w = (let i = length (takeWhile (\<lambda>v. v \<noteq> w) ws) in if i < length ws then Some i else None)"

definition unknown_tx_position_list :: "wtxid list \<Rightarrow> wtxid list \<Rightarrow> u16 list" where
  "unknown_tx_position_list ws missing =
     List.map_filter (\<lambda>w. map_option of_nat (position ws w)) missing"

text \<open>The branches of \<open>handle_declare_mining_job\<close> on the engine's verdict.\<close>

definition declare_verdict ::
  "instant \<Rightarrow> downstream_id \<Rightarrow> declare_mining_job \<Rightarrow> jd_token \<Rightarrow> declare_mining_job_result \<Rightarrow>
   job_declarator \<Rightarrow> (jds_error, jd_server_message) result \<times> job_declarator" where
  "declare_verdict now d dm token verdict jd =
     (case verdict of
        DeclareSuccess \<Rightarrow>
          (case activate now token d (token_manager_of jd) of
             (Some activated, tm) \<Rightarrow>
               (Ok (DeclareMiningJobSuccess (dm_request_id dm) (to_le_bytes activated)),
                jd\<lparr>token_manager_of := tm\<rparr>)
           | (None, tm) \<Rightarrow>
               (Ok (DeclareMiningJobError (dm_request_id dm) DECLARE_MINING_JOB_INVALID_MINING_JOB_TOKEN),
                jd\<lparr>token_manager_of := tm\<rparr>))
      | DeclareError code \<Rightarrow>
          (Ok (DeclareMiningJobError (dm_request_id dm) code),
           jd\<lparr>token_manager_of := deallocate token (token_manager_of jd)\<rparr>)
      | DeclareMissingTransactions missing \<Rightarrow>
          (case downstream_clients jd d of
             None \<Rightarrow> (Err (jds_disconnect (ClientNotFound d) d), jd)
           | Some c \<Rightarrow>
               (let c' = c\<lparr>pending_declare_mining_jobs :=
                            (pending_declare_mining_jobs c)(dm_request_id dm \<mapsto> (now, dm))\<rparr>;
                    jd' = jd\<lparr>downstream_clients := (downstream_clients jd)(d \<mapsto> c')\<rparr>;
                    positions = unknown_tx_position_list (dm_wtxid_list dm) missing
                in if length positions < 2 ^ 16
                   then (Ok (ProvideMissingTransactions (dm_request_id dm) positions), jd')
                   else (Err (jds_shutdown BinarySv2), jd'))))"

text \<open>The branches of \<open>handle_provide_missing_transactions_success\<close>.\<close>

definition provide_verdict ::
  "instant \<Rightarrow> downstream_id \<Rightarrow> request_id \<Rightarrow> jd_token \<Rightarrow> declare_mining_job_result \<Rightarrow>
   job_declarator \<Rightarrow> (jds_error, jd_server_message) result \<times> job_declarator" where
  "provide_verdict now d r token verdict jd =
     (case verdict of
        DeclareSuccess \<Rightarrow>
          (case activate now token d (token_manager_of jd) of
             (Some activated, tm) \<Rightarrow>
               (Ok (DeclareMiningJobSuccess r (to_le_bytes activated)), jd\<lparr>token_manager_of := tm\<rparr>)
           | (None, tm) \<Rightarrow>
               (Ok (DeclareMiningJobError r DECLARE_MINING_JOB_INVALID_MINING_JOB_TOKEN),
                jd\<lparr>token_manager_of := tm\<rparr>))
      | DeclareError code \<Rightarrow>
          (Ok (DeclareMiningJobError r code),
           jd\<lparr>token_manager_of := deallocate token (token_manager_of jd)\<rparr>)
      | DeclareMissingTransactions _ \<Rightarrow>
          (Ok (DeclareMiningJobError r DECLARE_MINING_JOB_MISSING_TXS),
           jd\<lparr>token_manager_of := deallocate token (token_manager_of jd)\<rparr>))"

text \<open>A handler in progress: which of the two it is, and what it holds across the await.\<close>

datatype awaiting =
    AwaitDeclare downstream_id declare_mining_job jd_token
  | AwaitProvide downstream_id request_id jd_token

definition verdict ::
  "instant \<Rightarrow> awaiting \<Rightarrow> declare_mining_job_result \<Rightarrow> job_declarator \<Rightarrow>
   (jds_error, jd_server_message) result \<times> job_declarator" where
  "verdict now aw res jd =
     (case aw of
        AwaitDeclare d dm token \<Rightarrow> declare_verdict now d dm token res jd
      | AwaitProvide d r token \<Rightarrow> provide_verdict now d r token res jd)"

fun awaiting_client :: "awaiting \<Rightarrow> downstream_id" where
  "awaiting_client (AwaitDeclare d _ _) = d"
| "awaiting_client (AwaitProvide d _ _) = d"

fun awaiting_token :: "awaiting \<Rightarrow> jd_token" where
  "awaiting_token (AwaitDeclare _ _ t) = t"
| "awaiting_token (AwaitProvide _ _ t) = t"

text \<open>The end of both handlers: the response is built and sent, or the error is returned.\<close>

definition conclude ::
  "instant \<Rightarrow> bool \<Rightarrow> awaiting \<Rightarrow> declare_mining_job_result \<Rightarrow> job_declarator \<Rightarrow>
   (jds_error, unit) result \<times> job_declarator \<times> outbox" where
  "conclude now sent aw res jd =
     (case verdict now aw res jd of
        (Inl e, jd') \<Rightarrow> (Err e, jd', [])
      | (Inr m, jd') \<Rightarrow>
          (let (r, out) = send_to_client sent (awaiting_client aw) m in (r, jd', out)))"

datatype handler_result =
    HandlerPanic
  | HandlerDone "(jds_error, unit) result" job_declarator outbox
  | HandlerAwait awaiting pending_declare job_declarator

text \<open>The call of the engine, up to its await.\<close>

definition call_engine ::
  "btc_lib \<Rightarrow> instant \<Rightarrow> bool \<Rightarrow> awaiting \<Rightarrow> declare_mining_job \<Rightarrow>
   provide_missing_transactions_success option \<Rightarrow> job_declarator \<Rightarrow> handler_result" where
  "call_engine B now sent aw dm pmts jd =
     (case engine_start B (awaiting_client aw) dm pmts (job_validator jd) of
        EnginePanic \<Rightarrow> HandlerPanic
      | EngineReturn res \<Rightarrow>
          (case conclude now sent aw res jd of (r, jd', out) \<Rightarrow> HandlerDone r jd' out)
      | EngineAwait pd eng \<Rightarrow> HandlerAwait aw pd (jd\<lparr>job_validator := eng\<rparr>))"

definition handle_declare_mining_job ::
  "btc_lib \<Rightarrow> instant \<Rightarrow> bool \<Rightarrow> downstream_id option \<Rightarrow> declare_mining_job \<Rightarrow> job_declarator \<Rightarrow>
   handler_result" where
  "handle_declare_mining_job B now sent client_id dm jd =
     (case client_id of
        None \<Rightarrow> HandlerDone (Err (jds_shutdown (ClientNotFound 0))) jd []
      | Some d \<Rightarrow>
          if d \<notin> downstream_client_senders jd
          then HandlerDone (Err (jds_disconnect (ClientSenderNotFound d) d)) jd []
          else
            (let invalid_token = (case send_to_client sent d
                   (DeclareMiningJobError (dm_request_id dm) DECLARE_MINING_JOB_INVALID_MINING_JOB_TOKEN) of
                   (r, out) \<Rightarrow> HandlerDone r jd out)
             in case token_of_bytes (dm_token dm) of
                  None \<Rightarrow> invalid_token
                | Some token \<Rightarrow>
                    if \<not> is_allocated token d (token_manager_of jd) then invalid_token
                    else call_engine B now sent (AwaitDeclare d dm token) dm None jd))"

definition handle_provide_missing_transactions_success ::
  "btc_lib \<Rightarrow> instant \<Rightarrow> bool \<Rightarrow> downstream_id option \<Rightarrow> provide_missing_transactions_success \<Rightarrow>
   job_declarator \<Rightarrow> handler_result" where
  "handle_provide_missing_transactions_success B now sent client_id pm jd =
     (case client_id of
        None \<Rightarrow> HandlerDone (Err (jds_shutdown (ClientNotFound 0))) jd []
      | Some d \<Rightarrow>
          if d \<notin> downstream_client_senders jd
          then HandlerDone (Err (jds_disconnect (ClientSenderNotFound d) d)) jd []
          else case downstream_clients jd d of
            None \<Rightarrow> HandlerDone (Err (jds_disconnect (ClientNotFound d) d)) jd []
          | Some c \<Rightarrow>
              (let (removed, pending) = sm_remove (pending_declare_mining_jobs c) (pm_request_id pm);
                   jd' = jd\<lparr>downstream_clients :=
                     (downstream_clients jd)(d \<mapsto> c\<lparr>pending_declare_mining_jobs := pending\<rparr>)\<rparr>
               in case removed of
                    None \<Rightarrow> HandlerDone (Err (jds_log (PendingDeclareMiningJobNotFound (pm_request_id pm)))) jd' []
                  | Some (_, _, dm) \<Rightarrow>
                      (case token_of_bytes (dm_token dm) of
                         None \<Rightarrow> HandlerPanic
                       | Some token \<Rightarrow>
                           call_engine B now sent (AwaitProvide d (pm_request_id pm) token) dm (Some pm) jd')))"

text \<open>\<open>handle_push_solution\<close> forwards to the engine, which forwards to the validator's stub.\<close>

definition handle_push_solution ::
  "downstream_id option \<Rightarrow> job_declarator \<Rightarrow> (jds_error, unit) result \<times> job_declarator" where
  "handle_push_solution client_id jd =
     (case client_id of
        None \<Rightarrow> (Err (jds_shutdown (ClientNotFound 0)), jd)
      | Some _ \<Rightarrow> (Ok (), jd))"

text \<open>\<open>handle_jdp_message\<close> on a received message.\<close>

definition handle_jdp_message ::
  "btc_lib \<Rightarrow> instant \<Rightarrow> bool \<Rightarrow> downstream_id \<Rightarrow> jd_client_message \<Rightarrow> job_declarator \<Rightarrow> handler_result" where
  "handle_jdp_message B now sent d m jd =
     (case m of
        AllocateMiningJobToken r identity \<Rightarrow>
          (case handle_allocate_mining_job_token B now sent (Some d) r identity jd of
             (res, jd', out) \<Rightarrow> HandlerDone res jd' out)
      | DeclareMiningJob dm \<Rightarrow> handle_declare_mining_job B now sent (Some d) dm jd
      | ProvideMissingTransactionsSuccess pm \<Rightarrow>
          handle_provide_missing_transactions_success B now sent (Some d) pm jd
      | PushSolution \<Rightarrow>
          (case handle_push_solution (Some d) jd of (res, jd') \<Rightarrow> HandlerDone res jd' [])
      | OtherJobDeclarationMessage ext t \<Rightarrow> HandlerDone (Err (jds_unexpected_message ext t)) jd [])"

text \<open>The rest of a handler once the validator has answered.\<close>

definition resume_handler ::
  "instant \<Rightarrow> bool \<Rightarrow> awaiting \<Rightarrow> pending_declare \<Rightarrow> jd_response option \<Rightarrow> job_declarator \<Rightarrow>
   (jds_error, unit) result \<times> job_declarator \<times> outbox" where
  "resume_handler now sent aw pd response jd =
     (let (res, eng) = engine_resume now pd response (job_validator jd)
      in conclude now sent aw res (jd\<lparr>job_validator := eng\<rparr>))"

section \<open>Setting a custom job\<close>

datatype set_custom_mining_job_response =
    SetCustomOk channel_id request_id
  | SetCustomErr request_id channel_id error_code

definition handle_set_custom_mining_job ::
  "btc_lib \<Rightarrow> set_custom_mining_job \<Rightarrow> string \<Rightarrow> job_declarator \<Rightarrow>
   set_custom_mining_job_response may_panic \<times> job_declarator" where
  "handle_set_custom_mining_job B msg user_identity jd =
     (let r = sc_request_id msg; c = sc_channel_id msg;
          invalid = Value (SetCustomErr r c SET_CUSTOM_MINING_JOB_INVALID_MINING_JOB_TOKEN)
      in case token_of_bytes (sc_token msg) of
           None \<Rightarrow> (invalid, jd)
         | Some active \<Rightarrow>
             (case allocated_from_active active (token_manager_of jd) of
                None \<Rightarrow> (invalid, jd)
              | Some data \<Rightarrow>
                  if user_identity \<noteq> active_identity data then (invalid, jd)
                  else
                    (let tm = deactivate active (token_manager_of jd);
                         (res, eng) = engine_set_custom B (active_owner data) msg (allocated_token data)
                                        (job_validator jd);
                         jd' = jd\<lparr>token_manager_of := tm, job_validator := eng\<rparr>
                     in case res of
                          Panic \<Rightarrow> (Panic, jd')
                        | Value SetCustomSuccess \<Rightarrow> (Value (SetCustomOk c r), jd')
                        | Value (SetCustomError code) \<Rightarrow> (Value (SetCustomErr r c code), jd'))))"

section \<open>The system\<close>

text \<open>
  The Job Declarator with the handler in progress, whether its message loop still runs, and the
  messages sent so far. Connections, disconnections, the janitors and the pool's calls interleave with
  the loop at any await.
\<close>

record jd_system =
  sys_jd :: job_declarator
  sys_awaiting :: "(awaiting \<times> pending_declare) option"
  sys_running :: bool
  sys_sent :: outbox

definition jd_system_new :: "coinbase_reward_script \<Rightarrow> jd_system" where
  "jd_system_new sc = \<lparr>sys_jd = jd_new sc, sys_awaiting = None, sys_running = True, sys_sent = []\<rparr>"

text \<open>The message loop on the result of a handler.\<close>

definition after_handler ::
  "(jds_error, unit) result \<Rightarrow> job_declarator \<Rightarrow> loop_control \<times> job_declarator" where
  "after_handler res jd = (case res of Inr _ \<Rightarrow> (Continue, jd) | Inl e \<Rightarrow> handle_error_action e jd)"

definition finish_handler ::
  "(jds_error, unit) result \<Rightarrow> job_declarator \<Rightarrow> outbox \<Rightarrow> jd_system \<Rightarrow> jd_system" where
  "finish_handler res jd out s =
     (let (ctl, jd') = after_handler res jd
      in s\<lparr>sys_jd := jd', sys_awaiting := None, sys_running := (ctl = Continue), sys_sent := sys_sent s @ out\<rparr>)"

inductive jd_step :: "btc_lib \<Rightarrow> jd_system \<Rightarrow> jd_system \<Rightarrow> bool" for B where
  connect: "jd_step B s (s\<lparr>sys_jd := snd (accept_connection (sys_jd s))\<rparr>)"
| message: "sys_running s \<Longrightarrow> sys_awaiting s = None \<Longrightarrow>
    handle_jdp_message B now sent d m (sys_jd s) = HandlerDone res jd out \<Longrightarrow>
    jd_step B s (finish_handler res jd out s)"
| await: "sys_running s \<Longrightarrow> sys_awaiting s = None \<Longrightarrow>
    handle_jdp_message B now sent d m (sys_jd s) = HandlerAwait aw pd jd \<Longrightarrow>
    jd_step B s (s\<lparr>sys_jd := jd, sys_awaiting := Some (aw, pd)\<rparr>)"
| panic: "sys_running s \<Longrightarrow> sys_awaiting s = None \<Longrightarrow>
    handle_jdp_message B now sent d m (sys_jd s) = HandlerPanic \<Longrightarrow>
    jd_step B s (s\<lparr>sys_running := False\<rparr>)"
| answer: "sys_running s \<Longrightarrow> sys_awaiting s = Some (aw, pd) \<Longrightarrow>
    resume_handler now sent aw pd response (sys_jd s) = (res, jd, out) \<Longrightarrow>
    jd_step B s (finish_handler res jd out s)"
| disconnect: "jd_step B s (s\<lparr>sys_jd := jd_cleanup_downstream d (sys_jd s)\<rparr>)"
| token_janitor: "jd_step B s (s\<lparr>sys_jd := (sys_jd s)
    \<lparr>token_manager_of := janitor_tick now (token_manager_of (sys_jd s))\<rparr>\<rparr>)"
| engine_janitor: "jd_step B s (s\<lparr>sys_jd := (sys_jd s)
    \<lparr>job_validator := engine_janitor_tick now (job_validator (sys_jd s))\<rparr>\<rparr>)"
| pending_janitor: "downstream_clients (sys_jd s) d = Some c \<Longrightarrow>
    jd_step B s (s\<lparr>sys_jd := (sys_jd s)
      \<lparr>downstream_clients := (downstream_clients (sys_jd s))(d \<mapsto> pending_jobs_janitor_tick now c)\<rparr>\<rparr>)"
| set_custom: "handle_set_custom_mining_job B msg user_identity (sys_jd s) = (res, jd) \<Longrightarrow>
    jd_step B s (s\<lparr>sys_jd := jd\<rparr>)"
| stop: "jd_step B s (s\<lparr>sys_awaiting := None, sys_running := False\<rparr>)"

inductive jd_reach :: "btc_lib \<Rightarrow> coinbase_reward_script \<Rightarrow> jd_system \<Rightarrow> bool" for B sc where
  new: "jd_reach B sc (jd_system_new sc)"
| step: "jd_reach B sc s \<Longrightarrow> jd_step B s s' \<Longrightarrow> jd_reach B sc s'"

section \<open>Clients leave no trace\<close>

definition no_trace :: "downstream_id \<Rightarrow> job_declarator \<Rightarrow> bool" where
  "no_trace d jd \<longleftrightarrow> downstream_clients jd d = None \<and> job_validator jd d = None \<and>
     (\<forall>t a. allocated_tokens (token_manager_of jd) t = Some a \<longrightarrow> allocated_owner a \<noteq> d) \<and>
     (\<forall>t v. active_tokens (token_manager_of jd) t = Some v \<longrightarrow> active_owner v \<noteq> d)"

text \<open>Every client without a sender is gone, \<open>d\<close> perhaps excepted.\<close>

definition clean_but :: "downstream_id \<Rightarrow> job_declarator \<Rightarrow> bool" where
  "clean_but d jd \<longleftrightarrow> (\<forall>d'. d' \<notin> downstream_client_senders jd \<longrightarrow> d' \<noteq> d \<longrightarrow> no_trace d' jd)"

definition clean :: "job_declarator \<Rightarrow> bool" where
  "clean jd \<longleftrightarrow> (\<forall>d'. d' \<notin> downstream_client_senders jd \<longrightarrow> no_trace d' jd)"

lemma clean_imp_but: "clean jd \<Longrightarrow> clean_but d jd"
  by (simp add: clean_def clean_but_def)

lemma no_trace_cleanup:
  "no_trace d (jd_cleanup_downstream d jd)"
  "no_trace d' jd \<Longrightarrow> no_trace d' (jd_cleanup_downstream d jd)"
  by (auto simp: no_trace_def jd_cleanup_downstream_def sm_remove_def engine_cleanup_downstream_def
      remove_downstream_def shared_map)

lemma clean_cleanup:
  assumes "clean_but d jd"
  shows "clean (jd_cleanup_downstream d jd)"
  unfolding clean_def
proof (intro allI impI)
  fix d' assume "d' \<notin> downstream_client_senders (jd_cleanup_downstream d jd)"
  then have "d' = d \<or> d' \<notin> downstream_client_senders jd" by (auto simp: jd_cleanup_downstream_def)
  then show "no_trace d' (jd_cleanup_downstream d jd)"
    using assms no_trace_cleanup unfolding clean_but_def by blast
qed

text \<open>A step that gives no client anything it had not before.\<close>

definition shrinks :: "job_declarator \<Rightarrow> job_declarator \<Rightarrow> bool" where
  "shrinks jd jd' \<longleftrightarrow> downstream_client_senders jd' = downstream_client_senders jd \<and>
     (\<forall>d. no_trace d jd \<longrightarrow> no_trace d jd')"

lemma shrinks_clean: "shrinks jd jd' \<Longrightarrow> clean jd \<Longrightarrow> clean jd'"
  by (simp add: shrinks_def clean_def)

lemma shrinks_refl [simp]: "shrinks jd jd"
  by (simp add: shrinks_def)

lemma shrinks_trans: "shrinks jd jd' \<Longrightarrow> shrinks jd' jd'' \<Longrightarrow> shrinks jd jd''"
  by (simp add: shrinks_def)

lemma shrinks_tokens:
  assumes "\<And>t a. allocated_tokens tm t = Some a \<Longrightarrow>
      \<exists>t' a'. allocated_tokens (token_manager_of jd) t' = Some a' \<and> allocated_owner a' = allocated_owner a"
    and "\<And>t v. active_tokens tm t = Some v \<Longrightarrow>
      (\<exists>t' v'. active_tokens (token_manager_of jd) t' = Some v' \<and> active_owner v' = active_owner v) \<or>
      (\<exists>t' a'. allocated_tokens (token_manager_of jd) t' = Some a' \<and> allocated_owner a' = active_owner v)"
  shows "shrinks jd (jd\<lparr>token_manager_of := tm\<rparr>)"
  using assms unfolding shrinks_def no_trace_def by simp metis

lemma shrinks_activate:
  "shrinks jd (jd\<lparr>token_manager_of := snd (activate now t d (token_manager_of jd))\<rparr>)"
proof (rule shrinks_tokens)
  let ?tm = "token_manager_of jd"
  show "(\<exists>t' v'. active_tokens ?tm t' = Some v' \<and> active_owner v' = active_owner v) \<or>
      (\<exists>t' a'. allocated_tokens ?tm t' = Some a' \<and> allocated_owner a' = active_owner v)"
    if "active_tokens (snd (activate now t d ?tm)) s = Some v" for s v
  proof (cases "is_allocated t d ?tm \<and> s = token_factory ?tm")
    case True
    then have "active_owner v = d" and "\<exists>t' a'. allocated_tokens ?tm t' = Some a' \<and> allocated_owner a' = d"
      using that by (auto simp: activate_eq is_allocated_iff)
    then show ?thesis by simp
  next
    case False
    then have "active_tokens ?tm s = Some v" using that by (auto simp: activate_eq split: if_splits)
    then show ?thesis by blast
  qed
qed (auto simp: activate_eq is_allocated_iff split: if_splits)

lemma shrinks_deallocate: "shrinks jd (jd\<lparr>token_manager_of := deallocate t (token_manager_of jd)\<rparr>)"
  by (rule shrinks_tokens) (auto simp: deallocate_eq split: if_splits)

lemma shrinks_deactivate: "shrinks jd (jd\<lparr>token_manager_of := deactivate t (token_manager_of jd)\<rparr>)"
  by (rule shrinks_tokens) (auto simp: deactivate_eq split: if_splits)

lemma shrinks_janitor: "shrinks jd (jd\<lparr>token_manager_of := janitor_tick now (token_manager_of jd)\<rparr>)"
  by (rule shrinks_tokens) (auto simp: janitor_tick_def shared_map)

lemma shrinks_engine:
  assumes "\<And>d. job_validator jd d = None \<Longrightarrow> eng d = None"
  shows "shrinks jd (jd\<lparr>job_validator := eng\<rparr>)"
  using assms by (auto simp: shrinks_def no_trace_def)

lemma shrinks_client:
  assumes "downstream_clients jd d = Some c"
  shows "shrinks jd (jd\<lparr>downstream_clients := (downstream_clients jd)(d \<mapsto> c')\<rparr>)"
  using assms by (auto simp: shrinks_def no_trace_def)

lemma resume_none: "eng d = None \<Longrightarrow> snd (engine_resume now pd response eng) d = None"
  by (cases "d = pd_downstream pd") (simp_all add: resume_frame resume_gone)

lemma shrinks_resume:
  "shrinks jd (jd\<lparr>job_validator := snd (engine_resume now pd response (job_validator jd))\<rparr>)"
  by (rule shrinks_engine) (rule resume_none)

section \<open>The invariant of the system\<close>

text \<open>A job that waits for its missing transactions has passed the checks of the first round.\<close>

definition message_ok :: "btc_lib \<Rightarrow> declare_mining_job \<Rightarrow> bool" where
  "message_ok B dm \<longleftrightarrow> coinbase_ok B dm \<and> token_of_bytes (dm_token dm) \<noteq> None"

definition pending_jobs_ok :: "btc_lib \<Rightarrow> job_declarator \<Rightarrow> bool" where
  "pending_jobs_ok B jd \<longleftrightarrow> (\<forall>d c r i dm. downstream_clients jd d = Some c \<longrightarrow>
     pending_declare_mining_jobs c r = Some (i, dm) \<longrightarrow> message_ok B dm)"

definition jd_inv :: "btc_lib \<Rightarrow> job_declarator \<Rightarrow> bool" where
  "jd_inv B jd \<longleftrightarrow> engine_inv B (job_validator jd) \<and> pending_jobs_ok B jd \<and> clean jd"

definition awaiting_ok :: "btc_lib \<Rightarrow> awaiting \<Rightarrow> pending_declare \<Rightarrow> bool" where
  "awaiting_ok B aw pd \<longleftrightarrow> pending_ok B pd \<and> pd_downstream pd = awaiting_client aw \<and>
     pd_token pd = awaiting_token aw \<and>
     (case aw of AwaitDeclare _ dm _ \<Rightarrow> pd_message pd = dm | _ \<Rightarrow> True)"

definition sys_inv :: "btc_lib \<Rightarrow> jd_system \<Rightarrow> bool" where
  "sys_inv B s \<longleftrightarrow> jd_inv B (sys_jd s) \<and>
     (\<forall>aw pd. sys_awaiting s = Some (aw, pd) \<longrightarrow> awaiting_ok B aw pd)"

lemmas verdict_defs = verdict_def declare_verdict_def provide_verdict_def

lemma verdict_engine [frame]: "job_validator (snd (verdict now aw res jd)) = job_validator jd"
  by (auto simp: verdict_defs Let_def
      split: awaiting.splits declare_mining_job_result.splits option.splits prod.splits)

lemma shrinks_verdict: "shrinks jd (snd (verdict now aw res jd))"
proof -
  have act: "shrinks jd (jd\<lparr>token_manager_of := tm\<rparr>)" if "activate now t d (token_manager_of jd) = (x, tm)"
    for t d x tm
    using shrinks_activate [of jd now t d] that by simp
  show ?thesis
    using act shrinks_deallocate [of jd] shrinks_client [of jd]
    by (auto simp: verdict_defs Let_def
        split: awaiting.splits declare_mining_job_result.splits option.splits prod.splits)
qed

lemma verdict_pending:
  assumes "pending_jobs_ok B jd"
    and "\<And>d dm t ws. aw = AwaitDeclare d dm t \<Longrightarrow> res = DeclareMissingTransactions ws \<Longrightarrow> message_ok B dm"
  shows "pending_jobs_ok B (snd (verdict now aw res jd))"
  using assms
  by (auto simp: verdict_defs Let_def pending_jobs_ok_def
      split: awaiting.splits declare_mining_job_result.splits option.splits prod.splits if_splits)

lemma jd_inv_verdict:
  assumes "jd_inv B jd"
    and "\<And>d dm t ws. aw = AwaitDeclare d dm t \<Longrightarrow> res = DeclareMissingTransactions ws \<Longrightarrow> message_ok B dm"
  shows "jd_inv B (snd (verdict now aw res jd))"
  using assms verdict_pending [of B jd aw res now] shrinks_clean [OF shrinks_verdict]
  by (simp add: jd_inv_def verdict_engine)

lemma conclude_jd: "conclude now sent aw res jd = (r, jd', out) \<Longrightarrow> jd' = snd (verdict now aw res jd)"
  by (auto simp: conclude_def split: prod.splits sum.splits)

lemma jd_inv_cleanup: "jd_inv B jd \<Longrightarrow> jd_inv B (jd_cleanup_downstream d jd)"
  using clean_cleanup [OF clean_imp_but, of jd d] engine_inv_cleanup [of B "job_validator jd" d]
  by (auto simp: jd_inv_def pending_jobs_ok_def jd_cleanup_downstream_def sm_remove_def split: if_splits)

lemma jd_inv_after: "jd_inv B jd \<Longrightarrow> jd_inv B (snd (after_handler res jd))"
  by (auto simp: after_handler_def handle_error_action_def jd_inv_cleanup
      split: sum.splits jds_action.splits)

lemma engine_start_return:
  "engine_start B d dm pmts eng = EngineReturn res \<Longrightarrow> \<exists>code. res = DeclareError code"
  by (auto simp: engine_start_def Let_def split: option.splits may_panic.splits sum.splits if_splits)

lemma call_engine_inv:
  assumes "jd_inv B jd" and "awaiting_client aw \<in> downstream_client_senders jd"
    and "token_of_bytes (dm_token dm) = Some (awaiting_token aw)"
    and "\<And>d m t. aw = AwaitDeclare d m t \<Longrightarrow> m = dm"
  shows "call_engine B now sent aw dm pmts jd = HandlerDone r jd' out \<Longrightarrow> jd_inv B jd'"
    and "call_engine B now sent aw dm pmts jd = HandlerAwait aw' pd jd' \<Longrightarrow> jd_inv B jd' \<and> awaiting_ok B aw' pd"
proof -
  assume "call_engine B now sent aw dm pmts jd = HandlerDone r jd' out"
  then obtain code where "conclude now sent aw (DeclareError code) jd = (r, jd', out)"
    by (auto simp: call_engine_def dest: engine_start_return split: engine_start_result.splits prod.splits)
  then show "jd_inv B jd'" using jd_inv_verdict [OF assms(1)] by (auto dest!: conclude_jd)
next
  assume "call_engine B now sent aw dm pmts jd = HandlerAwait aw' pd jd'"
  then obtain eng where st: "engine_start B (awaiting_client aw) dm pmts (job_validator jd) = EngineAwait pd eng"
    and aw': "aw' = aw" and jd': "jd' = jd\<lparr>job_validator := eng\<rparr>"
    by (auto simp: call_engine_def split: engine_start_result.splits prod.splits)
  note start = engine_start_AwaitD [OF st]
  have "clean jd'"
    using assms(1,2) start(4) by (auto simp: jd' jd_inv_def clean_def no_trace_def split: option.splits)
  moreover have "engine_inv B eng" using assms(1) engine_inv_start [OF _ st] by (simp add: jd_inv_def)
  ultimately have "jd_inv B jd'" using assms(1) by (simp add: jd' jd_inv_def pending_jobs_ok_def)
  moreover have "awaiting_ok B aw' pd"
    using start(1-3) assms(3,4) by (auto simp: aw' awaiting_ok_def pending_ok_def split: awaiting.splits)
  ultimately show "jd_inv B jd' \<and> awaiting_ok B aw' pd" ..
qed

lemma clean_but_allocate:
  assumes "clean jd"
  shows "clean_but d (jd\<lparr>token_manager_of := snd (allocate now d u (token_manager_of jd))\<rparr>)"
  using assms by (auto simp: clean_def clean_but_def no_trace_def allocate_eq split: if_splits)

lemma handle_allocate_inv:
  assumes "jd_inv B jd" and "handle_allocate_mining_job_token B now sent (Some d) r u jd = (res, jd', out)"
  shows "jd_inv B (snd (after_handler res jd'))"
proof -
  have jd': "jd' = jd\<lparr>token_manager_of := snd (allocate now d u (token_manager_of jd))\<rparr>"
    using assms(2) by (auto simp: handle_allocate_mining_job_token_def Let_def split: prod.splits if_splits)
  have but: "clean_but d jd'" using assms(1) clean_but_allocate by (simp add: jd' jd_inv_def)
  show ?thesis
  proof (cases "d \<in> downstream_client_senders jd")
    case True
    then have "clean jd'" using but by (auto simp: clean_def clean_but_def jd')
    then have "jd_inv B jd'" using assms(1) by (simp add: jd' jd_inv_def pending_jobs_ok_def)
    then show ?thesis by (rule jd_inv_after)
  next
    case False
    then have "snd (after_handler res jd') = jd_cleanup_downstream d jd'"
      using assms(2)
      by (auto simp: handle_allocate_mining_job_token_def Let_def after_handler_def handle_error_action_def
          jds_disconnect_def split: prod.splits)
    moreover have "engine_inv B (engine_cleanup_downstream d (job_validator jd))" and
      "pending_jobs_ok B (jd_cleanup_downstream d jd')"
      using assms(1) engine_inv_cleanup
      by (auto simp: jd' jd_inv_def pending_jobs_ok_def jd_cleanup_downstream_def sm_remove_def split: if_splits)
    ultimately show ?thesis
      using clean_cleanup [OF but] by (simp add: jd_inv_def) (simp add: jd' jd_cleanup_downstream_def)
  qed
qed

lemma handle_declare_cases:
  assumes "jd_inv B jd"
  shows "handle_declare_mining_job B now sent (Some d) dm jd = HandlerDone res jd' out \<Longrightarrow> jd_inv B jd'"
    and "handle_declare_mining_job B now sent (Some d) dm jd = HandlerAwait aw pd jd' \<Longrightarrow>
      jd_inv B jd' \<and> awaiting_ok B aw pd"
proof -
  have call: "d \<in> downstream_client_senders jd \<Longrightarrow> token_of_bytes (dm_token dm) = Some token \<Longrightarrow>
      (call_engine B now sent (AwaitDeclare d dm token) dm None jd = HandlerDone res jd' out \<longrightarrow> jd_inv B jd') \<and>
      (call_engine B now sent (AwaitDeclare d dm token) dm None jd = HandlerAwait aw pd jd' \<longrightarrow>
        jd_inv B jd' \<and> awaiting_ok B aw pd)" for token
    using call_engine_inv [OF assms, of "AwaitDeclare d dm token" dm] by simp
  show "handle_declare_mining_job B now sent (Some d) dm jd = HandlerDone res jd' out \<Longrightarrow> jd_inv B jd'"
    using assms call
    by (auto simp: handle_declare_mining_job_def Let_def split: option.splits if_splits prod.splits)
  show "handle_declare_mining_job B now sent (Some d) dm jd = HandlerAwait aw pd jd' \<Longrightarrow>
      jd_inv B jd' \<and> awaiting_ok B aw pd"
    using call by (auto simp: handle_declare_mining_job_def Let_def split: option.splits if_splits prod.splits)
qed

text \<open>The client after its pending job has been taken.\<close>

lemma jd_inv_take_pending:
  assumes "jd_inv B jd" and "downstream_clients jd d = Some c"
  shows "jd_inv B (jd\<lparr>downstream_clients := (downstream_clients jd)(d \<mapsto>
      c\<lparr>pending_declare_mining_jobs := (pending_declare_mining_jobs c)(r := None)\<rparr>)\<rparr>)" (is "jd_inv B ?jd")
proof -
  have "clean ?jd" using shrinks_clean [OF shrinks_client [OF assms(2)]] assms(1) by (simp add: jd_inv_def)
  moreover have "pending_jobs_ok B ?jd"
    using assms by (auto simp: jd_inv_def pending_jobs_ok_def split: if_splits)
  ultimately show ?thesis using assms(1) by (simp add: jd_inv_def)
qed

lemma handle_provide_unfold:
  assumes "d \<in> downstream_client_senders jd" and "downstream_clients jd d = Some c"
    and "pending_declare_mining_jobs c (pm_request_id pm) = Some (i, dm)"
    and "token_of_bytes (dm_token dm) = Some token"
  shows "handle_provide_missing_transactions_success B now sent (Some d) pm jd =
    call_engine B now sent (AwaitProvide d (pm_request_id pm) token) dm (Some pm)
      (jd\<lparr>downstream_clients := (downstream_clients jd)(d \<mapsto>
        c\<lparr>pending_declare_mining_jobs := (pending_declare_mining_jobs c)(pm_request_id pm := None)\<rparr>)\<rparr>)"
  using assms by (simp add: handle_provide_missing_transactions_success_def sm_remove_def Let_def)

lemma handle_provide_early:
  assumes "d \<notin> downstream_client_senders jd \<or> downstream_clients jd d = None \<or>
    pending_declare_mining_jobs (the (downstream_clients jd d)) (pm_request_id pm) = None"
  shows "\<exists>e. handle_provide_missing_transactions_success B now sent (Some d) pm jd = HandlerDone (Err e) jd []"
proof (cases "downstream_clients jd d")
  case None
  then show ?thesis by (simp add: handle_provide_missing_transactions_success_def)
next
  case (Some c)
  show ?thesis
  proof (cases "pending_declare_mining_jobs c (pm_request_id pm)")
    case None
    then have "(downstream_clients jd)(d \<mapsto> c\<lparr>pending_declare_mining_jobs :=
        (pending_declare_mining_jobs c)(pm_request_id pm := None)\<rparr>) = downstream_clients jd"
      using Some by (simp add: fun_upd_idem)
    then show ?thesis
      using Some None by (simp add: handle_provide_missing_transactions_success_def sm_remove_def Let_def)
  next
    case (Some e)
    then show ?thesis
      using \<open>downstream_clients jd d = Some c\<close> assms
      by (simp add: handle_provide_missing_transactions_success_def)
  qed
qed

lemma engine_start_no_panic: "coinbase_ok B dm \<Longrightarrow> engine_start B d dm pmts eng \<noteq> EnginePanic"
  by (auto simp: engine_start_def coinbase_ok_def Let_def split: option.splits)

lemma handle_provide_cases:
  assumes "jd_inv B jd"
  shows "handle_provide_missing_transactions_success B now sent (Some d) pm jd \<noteq> HandlerPanic"
    and "handle_provide_missing_transactions_success B now sent (Some d) pm jd = HandlerDone res jd' out \<Longrightarrow>
      jd_inv B jd'"
    and "handle_provide_missing_transactions_success B now sent (Some d) pm jd = HandlerAwait aw pd jd' \<Longrightarrow>
      jd_inv B jd' \<and> awaiting_ok B aw pd"
proof -
  let ?h = "handle_provide_missing_transactions_success B now sent (Some d) pm jd"
  have "?h \<noteq> HandlerPanic \<and> (?h = HandlerDone res jd' out \<longrightarrow> jd_inv B jd') \<and>
      (?h = HandlerAwait aw pd jd' \<longrightarrow> jd_inv B jd' \<and> awaiting_ok B aw pd)"
  proof (cases "d \<in> downstream_client_senders jd \<and> (\<exists>c i dm. downstream_clients jd d = Some c \<and>
      pending_declare_mining_jobs c (pm_request_id pm) = Some (i, dm))")
    case True
    then obtain c i dm where client: "d \<in> downstream_client_senders jd" "downstream_clients jd d = Some c"
        "pending_declare_mining_jobs c (pm_request_id pm) = Some (i, dm)" by blast
    have msg: "message_ok B dm" using assms client by (auto simp: jd_inv_def pending_jobs_ok_def)
    then obtain token where token: "token_of_bytes (dm_token dm) = Some token" by (auto simp: message_ok_def)
    let ?aw = "AwaitProvide d (pm_request_id pm) token"
    define jd0 where "jd0 = jd\<lparr>downstream_clients := (downstream_clients jd)(d \<mapsto>
        c\<lparr>pending_declare_mining_jobs := (pending_declare_mining_jobs c)(pm_request_id pm := None)\<rparr>)\<rparr>"
    have inv0: "jd_inv B jd0" unfolding jd0_def by (rule jd_inv_take_pending [OF assms client(2)])
    have h: "?h = call_engine B now sent ?aw dm (Some pm) jd0"
      unfolding jd0_def by (rule handle_provide_unfold [OF client token])
    have send: "awaiting_client ?aw \<in> downstream_client_senders jd0" using client by (simp add: jd0_def)
    have no: "call_engine B now sent ?aw dm (Some pm) jd0 \<noteq> HandlerPanic"
      using engine_start_no_panic msg
      by (auto simp: call_engine_def message_ok_def split: engine_start_result.splits prod.splits)
    show ?thesis
      unfolding h using no call_engine_inv [OF inv0 send] token by auto
  next
    case False
    then have "d \<notin> downstream_client_senders jd \<or> downstream_clients jd d = None \<or>
        pending_declare_mining_jobs (the (downstream_clients jd d)) (pm_request_id pm) = None"
      by force
    then obtain e where "?h = HandlerDone (Err e) jd []" using handle_provide_early by blast
    then show ?thesis using assms by auto
  qed
  then show "?h \<noteq> HandlerPanic" and "?h = HandlerDone res jd' out \<Longrightarrow> jd_inv B jd'"
    and "?h = HandlerAwait aw pd jd' \<Longrightarrow> jd_inv B jd' \<and> awaiting_ok B aw pd"
    by blast+
qed

lemma handle_jdp_message_inv:
  assumes "jd_inv B jd"
  shows "handle_jdp_message B now sent d m jd = HandlerDone res jd' out \<Longrightarrow>
      jd_inv B (snd (after_handler res jd'))"
    and "handle_jdp_message B now sent d m jd = HandlerAwait aw pd jd' \<Longrightarrow>
      jd_inv B jd' \<and> awaiting_ok B aw pd"
proof -
  note decl = handle_declare_cases [OF assms] and provide = handle_provide_cases [OF assms]
    and allocate = handle_allocate_inv [OF assms]
  show "handle_jdp_message B now sent d m jd = HandlerDone res jd' out \<Longrightarrow>
      jd_inv B (snd (after_handler res jd'))"
    using decl(1) provide(2) allocate assms
    by (cases m) (auto simp: handle_jdp_message_def handle_push_solution_def intro: jd_inv_after
        split: prod.splits)
  show "handle_jdp_message B now sent d m jd = HandlerAwait aw pd jd' \<Longrightarrow>
      jd_inv B jd' \<and> awaiting_ok B aw pd"
    using decl(2) provide(3)
    by (cases m) (auto simp: handle_jdp_message_def handle_push_solution_def split: prod.splits)
qed

lemma resume_handler_inv:
  assumes "jd_inv B jd" and "awaiting_ok B aw pd"
    and "resume_handler now sent aw pd response jd = (res, jd', out)"
  shows "jd_inv B jd'"
proof -
  obtain v eng where resume: "engine_resume now pd response (job_validator jd) = (v, eng)" by (cases "engine_resume now pd response (job_validator jd)")
  let ?jd = "jd\<lparr>job_validator := eng\<rparr>"
  have "engine_inv B eng"
    using engine_inv_resume [of B "job_validator jd" pd now response] assms resume
    by (simp add: jd_inv_def awaiting_ok_def)
  moreover have "clean ?jd"
    using shrinks_clean [OF shrinks_resume, of jd now pd response] assms(1) resume by (simp add: jd_inv_def)
  ultimately have "jd_inv B ?jd" using assms(1) by (simp add: jd_inv_def pending_jobs_ok_def)
  moreover have "message_ok B dm" if "aw = AwaitDeclare d dm t" for d dm t
    using assms(2) that by (auto simp: awaiting_ok_def pending_ok_def message_ok_def)
  moreover have "conclude now sent aw v ?jd = (res, jd', out)"
    using assms(3) resume by (simp add: resume_handler_def)
  ultimately show ?thesis using jd_inv_verdict [of B ?jd aw v now] by (auto dest!: conclude_jd)
qed

lemma handle_set_custom_eq:
  "handle_set_custom_mining_job B msg u jd =
    (case Option.bind (token_of_bytes (sc_token msg)) (\<lambda>a. map_option (Pair a) (active_tokens (token_manager_of jd) a)) of
       None \<Rightarrow> (Value (SetCustomErr (sc_request_id msg) (sc_channel_id msg) SET_CUSTOM_MINING_JOB_INVALID_MINING_JOB_TOKEN), jd)
     | Some (active, data) \<Rightarrow>
         if u \<noteq> active_identity data
         then (Value (SetCustomErr (sc_request_id msg) (sc_channel_id msg) SET_CUSTOM_MINING_JOB_INVALID_MINING_JOB_TOKEN), jd)
         else
           (case fst (engine_set_custom B (active_owner data) msg (allocated_token data) (job_validator jd)) of
              Panic \<Rightarrow> Panic
            | Value SetCustomSuccess \<Rightarrow> Value (SetCustomOk (sc_channel_id msg) (sc_request_id msg))
            | Value (SetCustomError code) \<Rightarrow> Value (SetCustomErr (sc_request_id msg) (sc_channel_id msg) code),
            jd\<lparr>token_manager_of := deactivate active (token_manager_of jd),
               job_validator :=
                 snd (engine_set_custom B (active_owner data) msg (allocated_token data) (job_validator jd))\<rparr>))"
proof (cases "token_of_bytes (sc_token msg)")
  case None
  then show ?thesis by (simp add: handle_set_custom_mining_job_def)
next
  case (Some active)
  show ?thesis
  proof (cases "active_tokens (token_manager_of jd) active")
    case None
    then show ?thesis using Some by (simp add: handle_set_custom_mining_job_def)
  next
    case data: (Some data)
    obtain r eng where
      "engine_set_custom B (active_owner data) msg (allocated_token data) (job_validator jd) = (r, eng)"
      by (meson surj_pair)
    then show ?thesis
      using Some data
      by (simp add: handle_set_custom_mining_job_def split: may_panic.splits set_custom_mining_job_result.splits)
  qed
qed

lemma set_custom_jd:
  assumes "handle_set_custom_mining_job B msg u jd = (res, jd')"
  obtains "jd' = jd"
  | active d t where "jd' = jd\<lparr>token_manager_of := deactivate active (token_manager_of jd),
      job_validator := snd (engine_set_custom B d msg t (job_validator jd))\<rparr>"
  using assms by (auto simp: handle_set_custom_eq split: option.splits if_splits prod.splits)

lemma set_custom_inv:
  assumes "jd_inv B jd" and "handle_set_custom_mining_job B msg u jd = (res, jd')"
  shows "jd_inv B jd'"
  using assms(2)
proof (cases rule: set_custom_jd)
  case 1
  then show ?thesis using assms(1) by simp
next
  case (2 active d t)
  let ?jd = "jd\<lparr>token_manager_of := deactivate active (token_manager_of jd)\<rparr>"
  have "eng d' = None \<Longrightarrow> snd (engine_set_custom B d msg t eng) d' = None" for eng d'
    by (auto simp: engine_set_custom_eq split: option.splits)
  then have "shrinks ?jd (?jd\<lparr>job_validator := snd (engine_set_custom B d msg t (job_validator jd))\<rparr>)"
    by (intro shrinks_engine) simp
  then have "shrinks jd jd'" using shrinks_trans [OF shrinks_deactivate] 2 by simp
  then show ?thesis
    using assms(1) engine_inv_set_custom [of B "job_validator jd" d msg t] shrinks_clean
    by (auto simp: 2 jd_inv_def pending_jobs_ok_def)
qed

lemma accept_inv: "jd_inv B jd \<Longrightarrow> jd_inv B (snd (accept_connection jd))"
  by (auto simp: accept_connection_def sm_insert_def Let_def jd_inv_def pending_jobs_ok_def downstream_new_def
      clean_def no_trace_def split: if_splits)

lemma pending_janitor_inv:
  assumes "jd_inv B jd" and "downstream_clients jd d = Some c"
  shows "jd_inv B (jd\<lparr>downstream_clients := (downstream_clients jd)(d \<mapsto> pending_jobs_janitor_tick now c)\<rparr>)"
    (is "jd_inv B ?jd")
proof -
  have "clean ?jd" using shrinks_clean [OF shrinks_client [OF assms(2)]] assms(1) by (simp add: jd_inv_def)
  moreover have "pending_jobs_ok B ?jd"
    using assms
    by (auto simp: jd_inv_def pending_jobs_ok_def pending_jobs_janitor_tick_def shared_map split: if_splits)
  ultimately show ?thesis using assms(1) by (simp add: jd_inv_def)
qed

lemma sys_inv_finish:
  "jd_inv B (snd (after_handler res jd)) \<Longrightarrow> sys_inv B (finish_handler res jd out s)"
  by (cases "after_handler res jd") (simp add: sys_inv_def finish_handler_def)

lemma sys_inv_step: "jd_step B s s' \<Longrightarrow> sys_inv B s \<Longrightarrow> sys_inv B s'"
proof (induction rule: jd_step.cases)
  case (connect s) then show ?case by (simp add: sys_inv_def accept_inv)
next
  case (message s now sent d m res jd out)
  then have "jd_inv B (snd (after_handler res jd))"
    by (elim handle_jdp_message_inv(1) [rotated]) (simp add: sys_inv_def)
  then show ?case using message by (simp add: sys_inv_finish)
next
  case (await s now sent d m aw pd jd)
  then show ?case using handle_jdp_message_inv(2) by (auto simp: sys_inv_def)
next
  case (answer s aw pd now sent response res jd out)
  then have "jd_inv B jd"
    by (elim resume_handler_inv [rotated 2]) (auto simp: sys_inv_def)
  then show ?case using answer by (simp add: sys_inv_finish jd_inv_after)
next
  case (disconnect s d) then show ?case by (simp add: sys_inv_def jd_inv_cleanup)
next
  case (token_janitor s now)
  then show ?case using shrinks_clean [OF shrinks_janitor, of "sys_jd s" now]
    by (simp add: sys_inv_def jd_inv_def pending_jobs_ok_def)
next
  case (engine_janitor s now)
  have "shrinks (sys_jd s) ((sys_jd s)\<lparr>job_validator := engine_janitor_tick now (job_validator (sys_jd s))\<rparr>)"
    by (rule shrinks_engine) (simp add: engine_janitor_tick_def)
  then show ?case using engine_janitor shrinks_clean engine_inv_janitor
    by (auto simp: sys_inv_def jd_inv_def pending_jobs_ok_def)
next
  case (pending_janitor s d c now) then show ?case by (simp add: sys_inv_def pending_janitor_inv)
next
  case (set_custom msg u s res jd) then show ?case using set_custom_inv by (auto simp: sys_inv_def)
qed (auto simp: sys_inv_def)

lemma sys_inv_new: "sys_inv B (jd_system_new sc)"
  by (simp add: sys_inv_def jd_system_new_def jd_inv_def jd_new_def engine_inv_empty pending_jobs_ok_def
      clean_def no_trace_def tm_new_def)

lemma jd_reach_inv: "jd_reach B sc s \<Longrightarrow> sys_inv B s"
  by (induction rule: jd_reach.induct) (auto simp: sys_inv_new dest: sys_inv_step)

section \<open>Properties of the system\<close>

text \<open>
  C9. In every reachable state exactly one kind of message can bring the message loop down by a panic:
  a declaration by a connected client, for a token allocated to it, whose coinbase cannot be rebuilt.
  In particular the retry with the missing transactions never panics, on its token or on the coinbase,
  and neither does a custom job the pool hands over.
\<close>

theorem only_declared_coinbase_can_panic:
  assumes "jd_reach B sc s"
  shows "(handle_jdp_message B now sent d m (sys_jd s) = HandlerPanic \<longleftrightarrow>
      (\<exists>dm token. m = DeclareMiningJob dm \<and> d \<in> downstream_client_senders (sys_jd s) \<and>
         token_of_bytes (dm_token dm) = Some token \<and>
         is_allocated token d (token_manager_of (sys_jd s)) \<and> get_coinbase_tx B dm = Panic)) \<and>
    fst (handle_set_custom_mining_job B msg user_identity (sys_jd s)) \<noteq> Panic"
proof
  have inv: "jd_inv B (sys_jd s)" using jd_reach_inv [OF assms] by (simp add: sys_inv_def)
  have call: "call_engine B now sent aw dm None jd = HandlerPanic \<longleftrightarrow> get_coinbase_tx B dm = Panic"
    if "token_of_bytes (dm_token dm) = Some token" for aw dm jd token
    using that
    by (auto simp: call_engine_def engine_start_def Let_def
        split: engine_start_result.splits prod.splits may_panic.splits sum.splits if_splits)
  show "handle_jdp_message B now sent d m (sys_jd s) = HandlerPanic \<longleftrightarrow>
      (\<exists>dm token. m = DeclareMiningJob dm \<and> d \<in> downstream_client_senders (sys_jd s) \<and>
         token_of_bytes (dm_token dm) = Some token \<and>
         is_allocated token d (token_manager_of (sys_jd s)) \<and> get_coinbase_tx B dm = Panic)"
  proof (cases m)
    case (DeclareMiningJob dm)
    then show ?thesis
      using call by (auto simp: handle_jdp_message_def handle_declare_mining_job_def Let_def
          split: option.splits prod.splits)
  next
    case (ProvideMissingTransactionsSuccess pm)
    then show ?thesis using handle_provide_cases(1) [OF inv] by (simp add: handle_jdp_message_def)
  qed (auto simp: handle_jdp_message_def split: prod.splits)
  show "fst (handle_set_custom_mining_job B msg user_identity (sys_jd s)) \<noteq> Panic"
    using inv ipc.set_no_panic [of B "job_validator (sys_jd s)"]
    by (auto simp: handle_set_custom_eq jd_inv_def
        split: option.splits may_panic.splits set_custom_mining_job_result.splits)
qed


lemma set_custom_ok_iff:
  assumes "engine_inv B (job_validator jd)"
  shows "fst (handle_set_custom_mining_job B msg u jd) = Value (SetCustomOk c r) \<longleftrightarrow>
    c = sc_channel_id msg \<and> r = sc_request_id msg \<and>
    (\<exists>active data job. token_of_bytes (sc_token msg) = Some active \<and>
       active_tokens (token_manager_of jd) active = Some data \<and> u = active_identity data \<and>
       job_of_token (active_owner data) (allocated_token data) (job_validator jd) = Some job \<and>
       custom_job_matches B job msg)"
proof (cases "Option.bind (token_of_bytes (sc_token msg)) (\<lambda>a. map_option (Pair a) (active_tokens (token_manager_of jd) a))")
  case None
  then have "fst (handle_set_custom_mining_job B msg u jd) =
      Value (SetCustomErr (sc_request_id msg) (sc_channel_id msg) SET_CUSTOM_MINING_JOB_INVALID_MINING_JOB_TOKEN)"
    unfolding handle_set_custom_eq None by simp
  then show ?thesis using None by auto
next
  case (Some ad)
  then obtain active data where ad: "ad = (active, data)" "token_of_bytes (sc_token msg) = Some active"
    "active_tokens (token_manager_of jd) active = Some data"
    by (auto simp: bind_eq_Some_conv)
  have "fst (handle_set_custom_mining_job B msg u jd) = Value (SetCustomOk c r) \<longleftrightarrow>
      c = sc_channel_id msg \<and> r = sc_request_id msg \<and> u = active_identity data \<and>
      fst (engine_set_custom B (active_owner data) msg (allocated_token data) (job_validator jd)) =
        Value SetCustomSuccess"
    using ad by (auto simp: handle_set_custom_eq split: may_panic.splits set_custom_mining_job_result.splits)
  then show ?thesis using ad ipc.set_success [OF assms] by auto
qed

text \<open>
  C4. The pool's check of a custom job: it is accepted exactly when its token is active, the channel
  presents the identity the token was allocated for, and it matches the validated job the token stands
  for. A wrong identity changes nothing, so the right channel can still use the token; the right identity
  spends the token whatever the outcome, so no message with the same token is accepted again.
\<close>

theorem custom_job_needs_live_token_and_identity:
  assumes "jd_reach B sc s" and "handle_set_custom_mining_job B msg u (sys_jd s) = (res, jd')"
  shows "(res = Value (SetCustomOk c r) \<longleftrightarrow> c = sc_channel_id msg \<and> r = sc_request_id msg \<and>
      (\<exists>active data job. token_of_bytes (sc_token msg) = Some active \<and>
         allocated_from_active active (token_manager_of (sys_jd s)) = Some data \<and>
         u = active_identity data \<and>
         job_of_token (active_owner data) (allocated_token data) (job_validator (sys_jd s)) = Some job \<and>
         custom_job_matches B job msg)) \<and>
    (\<forall>active data. token_of_bytes (sc_token msg) = Some active \<longrightarrow>
       allocated_from_active active (token_manager_of (sys_jd s)) = Some data \<longrightarrow>
       (if u = active_identity data
        then (\<forall>msg' u'. sc_token msg' = sc_token msg \<longrightarrow>
          fst (handle_set_custom_mining_job B msg' u' jd') =
            Value (SetCustomErr (sc_request_id msg') (sc_channel_id msg')
              SET_CUSTOM_MINING_JOB_INVALID_MINING_JOB_TOKEN))
        else jd' = sys_jd s))"
proof (intro conjI allI impI)
  have inv: "engine_inv B (job_validator (sys_jd s))"
    using jd_reach_inv [OF assms(1)] by (simp add: sys_inv_def jd_inv_def)
  show "res = Value (SetCustomOk c r) \<longleftrightarrow> c = sc_channel_id msg \<and> r = sc_request_id msg \<and>
      (\<exists>active data job. token_of_bytes (sc_token msg) = Some active \<and>
         allocated_from_active active (token_manager_of (sys_jd s)) = Some data \<and>
         u = active_identity data \<and>
         job_of_token (active_owner data) (allocated_token data) (job_validator (sys_jd s)) = Some job \<and>
         custom_job_matches B job msg)"
    using set_custom_ok_iff [OF inv, of msg u c r] assms(2) by simp
next
  fix active data
  assume token: "token_of_bytes (sc_token msg) = Some active"
    and data: "allocated_from_active active (token_manager_of (sys_jd s)) = Some data"
  show "if u = active_identity data
    then (\<forall>msg' u'. sc_token msg' = sc_token msg \<longrightarrow>
      fst (handle_set_custom_mining_job B msg' u' jd') =
        Value (SetCustomErr (sc_request_id msg') (sc_channel_id msg')
          SET_CUSTOM_MINING_JOB_INVALID_MINING_JOB_TOKEN))
    else jd' = sys_jd s"
  proof (cases "u = active_identity data")
    case True
    then have "active_tokens (token_manager_of jd') active = None"
      using assms(2) token data by (auto simp: handle_set_custom_eq deactivate_eq)
    then show ?thesis using True token by (simp add: handle_set_custom_eq)
  next
    case False
    then show ?thesis using assms(2) token data by (simp add: handle_set_custom_eq)
  qed
qed

text \<open>The messages of the two successful branches.\<close>

lemma conclude_success:
  assumes "conclude now sent aw res jd = (r, jd', [(d, DeclareMiningJobSuccess rid tok)])"
  obtains active a where "res = DeclareSuccess" and "tok = to_le_bytes active" and "d = awaiting_client aw"
    and "allocated_tokens (token_manager_of jd) (awaiting_token aw) = Some a" and "allocated_owner a = d"
    and "active_tokens (token_manager_of jd') active =
      Some \<lparr>allocated_token = awaiting_token aw, activated_at = now, active_owner = d,
            active_identity = allocated_identity a\<rparr>"
    and "job_validator jd' = job_validator jd"
proof -
  obtain m where v: "verdict now aw res jd = (Ok m, jd')" and m: "m = DeclareMiningJobSuccess rid tok"
    and d: "d = awaiting_client aw"
    using assms by (auto simp: conclude_def send_to_client_def split: prod.splits sum.splits if_splits)
  let ?d = "awaiting_client aw" and ?t = "awaiting_token aw"
  have "res = DeclareSuccess \<and> (\<exists>active tm. activate now ?t ?d (token_manager_of jd) = (Some active, tm) \<and>
      tok = to_le_bytes active \<and> jd' = jd\<lparr>token_manager_of := tm\<rparr>)"
    using v m by (auto simp: verdict_defs Let_def
        split: awaiting.splits declare_mining_job_result.splits option.splits prod.splits if_splits)
  then obtain active tm where res: "res = DeclareSuccess" and tok: "tok = to_le_bytes active"
    and act: "activate now ?t ?d (token_manager_of jd) = (Some active, tm)"
    and jd': "jd' = jd\<lparr>token_manager_of := tm\<rparr>" by blast
  have "is_allocated ?t ?d (token_manager_of jd)" using act by (cases "is_allocated ?t ?d (token_manager_of jd)") (simp_all add: activate_None)
  then obtain a where "allocated_tokens (token_manager_of jd) ?t = Some a" "allocated_owner a = ?d"
    by (auto simp: is_allocated_iff)
  with act res tok jd' d show ?thesis by (intro that [of active a]) (auto simp: activate_eq split: if_splits)
qed

text \<open>
  C2. The protocol end to end. When the Job Declarator tells a client that its declaration succeeded,
  then at that moment the new token buys exactly the declared job: a \<open>SetCustomMiningJob\<close> with this
  token is accepted if and only if it comes from a channel with the identity the client allocated its
  first token under, and matches the message the client declared, as Bitcoin Core validated it. This
  holds in whatever state the answer of the validator arrives.
\<close>

theorem declared_job_can_be_mined:
  assumes "jd_reach B sc s" and "sys_awaiting s = Some (aw, pd)"
    and "resume_handler now sent aw pd response (sys_jd s) =
      (res, jd', [(d, DeclareMiningJobSuccess rid tok)])"
  shows "\<exists>a prev_hash nbits txids. response = Some (JdSuccess prev_hash nbits txids) \<and>
    d = awaiting_client aw \<and>
    allocated_tokens (token_manager_of (sys_jd s)) (pd_token pd) = Some a \<and> allocated_owner a = d \<and>
    (\<forall>msg u. sc_token msg = tok \<longrightarrow>
       (fst (handle_set_custom_mining_job B msg u jd') =
          Value (SetCustomOk (sc_channel_id msg) (sc_request_id msg)) \<longleftrightarrow>
        u = allocated_identity a \<and>
        custom_job_matches B
          \<lparr>dj_message = pd_message pd, dj_context = \<lparr>ctx_prev_hash = prev_hash, ctx_nbits = nbits\<rparr>,
           dj_txid_list = Some txids, dj_validated = True\<rparr> msg))"
proof -
  have inv: "jd_inv B (sys_jd s)" and aw: "awaiting_ok B aw pd"
    using jd_reach_inv [OF assms(1)] assms(2) by (simp_all add: sys_inv_def)
  obtain v eng where resume: "engine_resume now pd response (job_validator (sys_jd s)) = (v, eng)"
    by (meson surj_pair)
  let ?jd = "(sys_jd s)\<lparr>job_validator := eng\<rparr>"
  have "conclude now sent aw v ?jd = (res, jd', [(d, DeclareMiningJobSuccess rid tok)])"
    using assms(3) resume by (simp add: resume_handler_def)
  then obtain active a where v: "v = DeclareSuccess" and tok: "tok = to_le_bytes active"
    and d: "d = awaiting_client aw"
    and alloc: "allocated_tokens (token_manager_of ?jd) (awaiting_token aw) = Some a" "allocated_owner a = d"
    and act: "active_tokens (token_manager_of jd') active =
      Some \<lparr>allocated_token = awaiting_token aw, activated_at = now, active_owner = d,
            active_identity = allocated_identity a\<rparr>"
    and eng': "job_validator jd' = job_validator ?jd"
    by (rule conclude_success)
  obtain prev_hash nbits txids where resp: "response = Some (JdSuccess prev_hash nbits txids)"
    and job: "job_of_token (pd_downstream pd) (pd_token pd) eng =
      Some \<lparr>dj_message = pd_message pd, dj_context = \<lparr>ctx_prev_hash = prev_hash, ctx_nbits = nbits\<rparr>,
            dj_txid_list = Some txids, dj_validated = True\<rparr>"
    using resume_success [OF resume [unfolded v]] by metis
  have "engine_inv B (job_validator jd')"
    using resume_handler_inv [OF inv aw assms(3)] by (simp add: jd_inv_def)
  from set_custom_ok_iff [OF this] show ?thesis
    using resp alloc act job aw tok d eng' by (auto simp: awaiting_ok_def)
qed

section \<open>Asking for missing transactions\<close>

lemma position_nth: "w \<in> set ws \<Longrightarrow> \<exists>i. position ws w = Some i \<and> i < length ws \<and> ws ! i = w"
proof -
  assume w: "w \<in> set ws"
  let ?i = "length (takeWhile (\<lambda>v. v \<noteq> w) ws)"
  have "?i < length ws"
    using w by (metis (mono_tags, lifting) length_takeWhile_le le_neq_implies_less takeWhile_eq_all_conv takeWhile_eq_take take_all_iff order_refl)
  moreover from this have "ws ! ?i = w" using nth_length_takeWhile [of "\<lambda>v. v \<noteq> w" ws] by blast
  ultimately show ?thesis by (simp add: position_def Let_def)
qed

lemma positions_of_missing:
  assumes "set missing \<subseteq> set ws" and "length ws \<le> 2 ^ 16"
  shows "map (\<lambda>p. ws ! unat p) (unknown_tx_position_list ws missing) = missing"
  using assms(1)
proof (induction missing)
  case (Cons w missing)
  obtain i where i: "position ws w = Some i" "i < length ws" "ws ! i = w"
    using position_nth [of w ws] Cons.prems by auto
  have "unat (of_nat i :: u16) = i" using i(2) assms(2) by (simp add: unsigned_of_nat take_bit_eq_mod)
  with i Cons show ?case by (simp add: unknown_tx_position_list_def map_filter_simps)
qed (simp add: unknown_tx_position_list_def map_filter_simps)

text \<open>
  The positions in \<open>ProvideMissingTransactions\<close> name the missing transactions: read back against
  the declared list they give exactly the wtxids the validator could not resolve, in order, for every
  list a message can carry; the narrowing to 16 bits loses nothing.
\<close>

theorem requested_positions_are_the_missing_ones:
  assumes "set missing \<subseteq> set (dm_wtxid_list dm)" and "length (dm_wtxid_list dm) < 2 ^ 16"
    and "length missing < 2 ^ 16" and "downstream_clients jd d = Some c"
  shows "\<exists>positions jd'. declare_verdict now d dm token (DeclareMissingTransactions missing) jd =
      (Ok (ProvideMissingTransactions (dm_request_id dm) positions), jd') \<and>
    map (\<lambda>p. dm_wtxid_list dm ! unat p) positions = missing \<and>
    (\<exists>c'. downstream_clients jd' d = Some c' \<and>
       pending_declare_mining_jobs c' (dm_request_id dm) = Some (now, dm))"
proof -
  have pos: "map (\<lambda>p. dm_wtxid_list dm ! unat p) (unknown_tx_position_list (dm_wtxid_list dm) missing) = missing"
    using assms(1,2) by (intro positions_of_missing) simp_all
  then have "length (unknown_tx_position_list (dm_wtxid_list dm) missing) = length missing"
    using length_map by metis
  then show ?thesis using assms pos by (simp add: declare_verdict_def Let_def)
qed

section \<open>A concrete run\<close>

text \<open>Client 0 connects, allocates token 0 as \<open>u\<close>, declares a job and waits for the validator.\<close>

definition demo_jd :: job_declarator where
  "demo_jd = (snd (accept_connection (jd_new (crs [5]))))
     \<lparr>token_manager_of := snd (allocate 0 0 ''u'' tm_new)\<rparr>"

definition demo_allocated :: jd_system where
  "demo_allocated = \<lparr>sys_jd = demo_jd, sys_awaiting = None, sys_running = True,
     sys_sent = [(0, AllocateMiningJobTokenSuccess 1 (to_le_bytes 0) [5])]\<rparr>"

definition demo_waiting :: jd_system where
  "demo_waiting = \<lparr>sys_jd = demo_jd\<lparr>job_validator := [0 \<mapsto> downstream_state_default]\<rparr>,
     sys_awaiting = Some (AwaitDeclare 0 (demo_dm 4 0) 0, demo_pending 0 4 0), sys_running = True,
     sys_sent = [(0, AllocateMiningJobTokenSuccess 1 (to_le_bytes 0) [5])]\<rparr>"

lemma demo_serialize: "serialize_outputs demo_btc [\<lparr>txout_value = 0, script_pubkey = [5]\<rparr>] = [5]"
  by (simp add: demo_btc_def)

lemma demo_reach_allocated: "jd_reach demo_btc (crs [5]) demo_allocated"
proof -
  let ?s0 = "jd_system_new (crs [5])"
  let ?s1 = "?s0\<lparr>sys_jd := snd (accept_connection (sys_jd ?s0))\<rparr>"
  have r1: "jd_reach demo_btc (crs [5]) ?s1" by (rule jd_reach.step [OF jd_reach.new jd_step.connect])
  have "handle_jdp_message demo_btc 0 True 0 (AllocateMiningJobToken 1 ''u'') (sys_jd ?s1) =
      HandlerDone (Ok ()) demo_jd [(0, AllocateMiningJobTokenSuccess 1 (to_le_bytes 0) [5])]"
    by (simp add: handle_jdp_message_def handle_allocate_mining_job_token_def jd_system_new_def jd_new_def
        accept_connection_def Let_def allocate_eq tm_new_def send_to_client_def demo_serialize demo_jd_def)
  then have "jd_step demo_btc ?s1 (finish_handler (Ok ()) demo_jd
      [(0, AllocateMiningJobTokenSuccess 1 (to_le_bytes 0) [5])] ?s1)"
    by (rule jd_step.message [rotated 2]) (simp_all add: jd_system_new_def)
  moreover have "finish_handler (Ok ()) demo_jd [(0, AllocateMiningJobTokenSuccess 1 (to_le_bytes 0) [5])] ?s1 =
      demo_allocated"
    by (simp add: finish_handler_def after_handler_def jd_system_new_def demo_allocated_def)
  ultimately show ?thesis using jd_reach.step [OF r1] by simp
qed

lemma demo_jd_fields [simp]:
  "token_manager_of demo_jd = snd (allocate 0 0 ''u'' tm_new)" "job_validator demo_jd = Map.empty"
  "downstream_client_senders demo_jd = {0}" "downstream_clients demo_jd = [0 \<mapsto> downstream_new]"
  by (simp_all add: demo_jd_def jd_new_def accept_connection_def Let_def sm_insert_def)

lemma demo_is_allocated: "is_allocated 0 0 (snd (allocate 0 0 ''u'' tm_new))"
  by (simp add: is_allocated_iff allocate_eq tm_new_def)

lemma demo_engine_start:
  "engine_start demo_btc 0 (demo_dm 4 0) None Map.empty =
    EngineAwait (demo_pending 0 4 0) [0 \<mapsto> downstream_state_default]"
proof -
  have "token_of_bytes (dm_token (demo_dm 4 0)) = Some 0" by (simp add: demo_dm_def)
  moreover have "length (tx_input demo_coinbase) = 1" by (simp add: demo_coinbase_def)
  ultimately show ?thesis
    by (simp add: engine_start_def demo_get_coinbase Let_def sm_with_mut_or_insert_with_def demo_pending_def)
      (simp add: demo_dm_def)
qed

lemma demo_reach_waiting: "jd_reach demo_btc (crs [5]) demo_waiting"
proof -
  have "token_of_bytes (dm_token (demo_dm 4 0)) = Some 0" by (simp add: demo_dm_def)
  then have "handle_jdp_message demo_btc 0 True 0 (DeclareMiningJob (demo_dm 4 0)) (sys_jd demo_allocated) =
      HandlerAwait (AwaitDeclare 0 (demo_dm 4 0) 0) (demo_pending 0 4 0)
        (demo_jd\<lparr>job_validator := [0 \<mapsto> downstream_state_default]\<rparr>)"
    by (simp add: handle_jdp_message_def handle_declare_mining_job_def demo_allocated_def Let_def
        demo_is_allocated call_engine_def demo_engine_start)
  then have "jd_step demo_btc demo_allocated
      (demo_allocated\<lparr>sys_jd := demo_jd\<lparr>job_validator := [0 \<mapsto> downstream_state_default]\<rparr>,
        sys_awaiting := Some (AwaitDeclare 0 (demo_dm 4 0) 0, demo_pending 0 4 0)\<rparr>)"
    by (rule jd_step.await [rotated 2]) (simp_all add: demo_allocated_def)
  then have "jd_step demo_btc demo_allocated demo_waiting"
    by (simp add: demo_allocated_def demo_waiting_def)
  with demo_reach_allocated show ?thesis by (rule jd_reach.step)
qed

theorem only_declared_coinbase_can_panic_witness:
  "handle_jdp_message demo_btc 0 True 0
     (DeclareMiningJob ((demo_dm 4 0)\<lparr>dm_coinbase_tx_prefix := [1, 2, 3]\<rparr>)) (sys_jd demo_allocated) =
     HandlerPanic"
proof -
  let ?dm = "(demo_dm 4 0)\<lparr>dm_coinbase_tx_prefix := [1, 2, 3]\<rparr>"
  have "get_coinbase_tx demo_btc ?dm = Panic"
    by (simp add: get_coinbase_tx_def COINBASE_PREFIX_LEN_def)
  moreover have "token_of_bytes (dm_token ?dm) = Some 0" by (simp add: demo_dm_def)
  ultimately show ?thesis
    using only_declared_coinbase_can_panic
        [OF demo_reach_allocated, of 0 True 0 "DeclareMiningJob ?dm"] demo_is_allocated
    by (auto simp: demo_allocated_def)
qed


lemma demo_resume_handler:
  "\<exists>jd'. resume_handler 0 True (AwaitDeclare 0 (demo_dm 4 0) 0) (demo_pending 0 4 0)
     (Some (JdSuccess 7 5 [1, 3])) (sys_jd demo_waiting) =
     (Ok (), jd', [(0, DeclareMiningJobSuccess 4 (to_le_bytes 1))])"
  by (simp add: resume_handler_def demo_waiting_def engine_resume_def store_job_eq demo_pending_def conclude_def
      verdict_def declare_verdict_def activate_eq demo_is_allocated send_to_client_def)
    (simp add: allocate_eq tm_new_def demo_dm_def)

lemma demo_declared:
  assumes "resume_handler 0 True (AwaitDeclare 0 (demo_dm 4 0) 0) (demo_pending 0 4 0)
     (Some (JdSuccess 7 5 [1, 3])) (sys_jd demo_waiting) = (r, jd', out)"
  shows "active_tokens (token_manager_of jd') 1 =
      Some \<lparr>allocated_token = 0, activated_at = 0, active_owner = 0, active_identity = ''u''\<rparr>"
    and "job_of_token 0 0 (job_validator jd') = Some (demo_job 4 0)"
proof -
  have "job_validator jd' = demo_engine 0 4 0 \<and>
      token_manager_of jd' = snd (activate 0 0 0 (snd (allocate 0 0 ''u'' tm_new)))"
    using assms demo_resume [of 0 4 0]
    by (auto simp: resume_handler_def demo_waiting_def conclude_def verdict_def declare_verdict_def activate_eq
        demo_is_allocated send_to_client_def)
  then show "active_tokens (token_manager_of jd') 1 =
      Some \<lparr>allocated_token = 0, activated_at = 0, active_owner = 0, active_identity = ''u''\<rparr>"
    and "job_of_token 0 0 (job_validator jd') = Some (demo_job 4 0)"
    by (simp_all add: demo_engine_job) (simp add: activate_eq demo_is_allocated, simp add: allocate_eq tm_new_def)
qed

theorem custom_job_needs_live_token_and_identity_witness:
  "\<exists>s jd'. jd_reach demo_btc (crs [5]) s \<and>
     handle_set_custom_mining_job demo_btc (demo_set_custom 1) ''u'' (sys_jd s) = (Value (SetCustomOk 1 1), jd') \<and>
     fst (handle_set_custom_mining_job demo_btc (demo_set_custom 1) ''u'' jd') =
       Value (SetCustomErr 1 1 SET_CUSTOM_MINING_JOB_INVALID_MINING_JOB_TOKEN)"
proof -
  let ?msg = "demo_set_custom 1"
  obtain jd1 where r: "resume_handler 0 True (AwaitDeclare 0 (demo_dm 4 0) 0) (demo_pending 0 4 0)
      (Some (JdSuccess 7 5 [1, 3])) (sys_jd demo_waiting) =
      (Ok (), jd1, [(0, DeclareMiningJobSuccess 4 (to_le_bytes 1))])"
    using demo_resume_handler by blast
  define s where "s = finish_handler (Ok ()) jd1 [(0, DeclareMiningJobSuccess 4 (to_le_bytes 1))] demo_waiting"
  have "jd_step demo_btc demo_waiting s"
    unfolding s_def using r by (rule jd_step.answer [rotated 2]) (simp_all add: demo_waiting_def)
  then have reach: "jd_reach demo_btc (crs [5]) s" by (rule jd_reach.step [OF demo_reach_waiting])
  have jd: "sys_jd s = jd1" by (simp add: s_def finish_handler_def after_handler_def)
  obtain res jd' where h: "handle_set_custom_mining_job demo_btc ?msg ''u'' (sys_jd s) = (res, jd')"
    by (meson surj_pair)
  have fields: "token_of_bytes (sc_token ?msg) = Some 1" "sc_channel_id ?msg = 1" "sc_request_id ?msg = 1"
    by (simp_all add: demo_set_custom_def)
  note spec = custom_job_needs_live_token_and_identity [OF reach h, of 1 1]
  have "res = Value (SetCustomOk 1 1)"
    using spec demo_declared [OF r] demo_matches [of 4 0 1] fields by (auto simp: jd)
  moreover have "fst (handle_set_custom_mining_job demo_btc ?msg ''u'' jd') =
      Value (SetCustomErr 1 1 SET_CUSTOM_MINING_JOB_INVALID_MINING_JOB_TOKEN)"
    using spec demo_declared [OF r] fields by (auto simp: jd)
  ultimately show ?thesis using reach h by blast
qed

theorem declared_job_can_be_mined_witness:
  "\<exists>res jd'. resume_handler 0 True (AwaitDeclare 0 (demo_dm 4 0) 0) (demo_pending 0 4 0)
       (Some (JdSuccess 7 5 [1, 3])) (sys_jd demo_waiting) =
       (res, jd', [(0, DeclareMiningJobSuccess 4 (to_le_bytes 1))]) \<and>
     fst (handle_set_custom_mining_job demo_btc (demo_set_custom 1) ''u'' jd') = Value (SetCustomOk 1 1) \<and>
     fst (handle_set_custom_mining_job demo_btc (demo_set_custom 1) ''v'' jd') \<noteq> Value (SetCustomOk 1 1)"
proof -
  obtain jd' where r: "resume_handler 0 True (AwaitDeclare 0 (demo_dm 4 0) 0) (demo_pending 0 4 0)
      (Some (JdSuccess 7 5 [1, 3])) (sys_jd demo_waiting) =
      (Ok (), jd', [(0, DeclareMiningJobSuccess 4 (to_le_bytes 1))])"
    using demo_resume_handler by blast
  have aw: "sys_awaiting demo_waiting = Some (AwaitDeclare 0 (demo_dm 4 0) 0, demo_pending 0 4 0)"
    by (simp add: demo_waiting_def)
  have fields: "sc_token (demo_set_custom 1) = to_le_bytes 1" "sc_channel_id (demo_set_custom 1) = 1"
    "sc_request_id (demo_set_custom 1) = 1" "pd_message (demo_pending 0 4 0) = demo_dm 4 0"
    "pd_token (demo_pending 0 4 0) = 0"
    by (simp_all add: demo_set_custom_def demo_pending_def)
  have ident: "allocated_tokens (token_manager_of (sys_jd demo_waiting)) 0 = Some a \<Longrightarrow> allocated_identity a = ''u''" for a
    by (auto simp: demo_waiting_def allocate_eq tm_new_def)
  show ?thesis
    using r declared_job_can_be_mined [OF demo_reach_waiting aw r] ident fields
      demo_matches [of 4 0 1, unfolded demo_job_def]
    by (intro exI [of _ "Ok ()"] exI [of _ jd']) auto
qed

theorem requested_positions_are_the_missing_ones_witness:
  "\<exists>positions jd'. declare_verdict 1 0 (demo_dm 4 0) 0 (DeclareMissingTransactions [3]) demo_jd =
     (Ok (ProvideMissingTransactions 4 positions), jd') \<and> map (\<lambda>p. [1, 3] ! unat p) positions = [3 :: wtxid]"
  using requested_positions_are_the_missing_ones [of "[3]" "demo_dm 4 0" demo_jd 0 downstream_new 1 0]
  by (auto simp: demo_dm_def)

end
