(* ===== verification/Downstream_Connection.thy ===== *)
theory Downstream_Connection
  imports Job_Declarator
begin

unbundle bit_operations_syntax

text \<open>
  The connection of one Job Declaration client: \<open>stratum-apps/src/utils/protocol_message_type.rs\<close>, which
  sorts frames by protocol, and \<open>pool-apps/jd-server/src/lib/job_declarator/downstream/\<close>
  (\<open>common_message_handler.rs\<close>, \<open>mod.rs\<close>), which performs the \<open>SetupConnection\<close> handshake and then
  forwards the client's Job Declaration messages to the Job Declarator.

  The message codes are constants of the \<open>stratum-core\<close> crates: a function \<open>code\<close> from their names, an
  argument of the classification. The decoder of a frame's payload is the argument \<open>parse\<close>.
\<close>

section \<open>Message types\<close>

datatype message_name =
    SETUP_CONNECTION | SETUP_CONNECTION_SUCCESS | SETUP_CONNECTION_ERROR | CHANNEL_ENDPOINT_CHANGED
  | RECONNECT
  | OPEN_STANDARD_MINING_CHANNEL | OPEN_STANDARD_MINING_CHANNEL_SUCCESS | OPEN_MINING_CHANNEL_ERROR
  | OPEN_EXTENDED_MINING_CHANNEL | OPEN_EXTENDED_MINING_CHANNEL_SUCCESS | NEW_MINING_JOB
  | UPDATE_CHANNEL | UPDATE_CHANNEL_ERROR | CLOSE_CHANNEL | SET_EXTRANONCE_PREFIX
  | SUBMIT_SHARES_STANDARD | SUBMIT_SHARES_EXTENDED | SUBMIT_SHARES_SUCCESS | SUBMIT_SHARES_ERROR
  | NEW_EXTENDED_MINING_JOB | MINING_SET_NEW_PREV_HASH | SET_TARGET | SET_CUSTOM_MINING_JOB
  | SET_CUSTOM_MINING_JOB_SUCCESS | SET_CUSTOM_MINING_JOB_ERROR | SET_GROUP_CHANNEL
  | ALLOCATE_MINING_JOB_TOKEN | ALLOCATE_MINING_JOB_TOKEN_SUCCESS | PROVIDE_MISSING_TRANSACTIONS
  | PROVIDE_MISSING_TRANSACTIONS_SUCCESS | DECLARE_MINING_JOB | DECLARE_MINING_JOB_SUCCESS
  | DECLARE_MINING_JOB_ERROR | PUSH_SOLUTION
  | COINBASE_OUTPUT_CONSTRAINTS | NEW_TEMPLATE | SET_NEW_PREV_HASH | REQUEST_TRANSACTION_DATA
  | REQUEST_TRANSACTION_DATA_SUCCESS | REQUEST_TRANSACTION_DATA_ERROR | SUBMIT_SOLUTION
  | REQUEST_EXTENSIONS | REQUEST_EXTENSIONS_ERROR | REQUEST_EXTENSIONS_SUCCESS

datatype message_type = Common | Mining | JobDeclaration | TemplateDistribution | Extensions | Unknown

definition is_common_message :: "(message_name \<Rightarrow> u8) \<Rightarrow> u16 \<Rightarrow> u8 \<Rightarrow> bool" where
  "is_common_message code ext t = (ext = 0 \<and> t \<in> set (map code
     [SETUP_CONNECTION, SETUP_CONNECTION_SUCCESS, SETUP_CONNECTION_ERROR, CHANNEL_ENDPOINT_CHANGED,
      RECONNECT]))"

definition is_mining_message :: "(message_name \<Rightarrow> u8) \<Rightarrow> u16 \<Rightarrow> u8 \<Rightarrow> bool" where
  "is_mining_message code ext t = (ext = 0 \<and> (t = 0x1e \<or> t \<in> set (map code
     [OPEN_STANDARD_MINING_CHANNEL, OPEN_STANDARD_MINING_CHANNEL_SUCCESS, OPEN_MINING_CHANNEL_ERROR,
      OPEN_EXTENDED_MINING_CHANNEL, OPEN_EXTENDED_MINING_CHANNEL_SUCCESS, NEW_MINING_JOB,
      UPDATE_CHANNEL, UPDATE_CHANNEL_ERROR, CLOSE_CHANNEL, SET_EXTRANONCE_PREFIX,
      SUBMIT_SHARES_STANDARD, SUBMIT_SHARES_EXTENDED, SUBMIT_SHARES_SUCCESS, SUBMIT_SHARES_ERROR,
      NEW_EXTENDED_MINING_JOB, MINING_SET_NEW_PREV_HASH, SET_TARGET, SET_CUSTOM_MINING_JOB,
      SET_CUSTOM_MINING_JOB_SUCCESS, SET_CUSTOM_MINING_JOB_ERROR, SET_GROUP_CHANNEL])))"

definition is_job_declaration_message :: "(message_name \<Rightarrow> u8) \<Rightarrow> u16 \<Rightarrow> u8 \<Rightarrow> bool" where
  "is_job_declaration_message code ext t = (ext = 0 \<and> t \<in> set (map code
     [ALLOCATE_MINING_JOB_TOKEN, ALLOCATE_MINING_JOB_TOKEN_SUCCESS, PROVIDE_MISSING_TRANSACTIONS,
      PROVIDE_MISSING_TRANSACTIONS_SUCCESS, DECLARE_MINING_JOB, DECLARE_MINING_JOB_SUCCESS,
      DECLARE_MINING_JOB_ERROR, PUSH_SOLUTION]))"

definition is_template_distribution_message :: "(message_name \<Rightarrow> u8) \<Rightarrow> u16 \<Rightarrow> u8 \<Rightarrow> bool" where
  "is_template_distribution_message code ext t = (ext = 0 \<and> t \<in> set (map code
     [COINBASE_OUTPUT_CONSTRAINTS, NEW_TEMPLATE, SET_NEW_PREV_HASH, REQUEST_TRANSACTION_DATA,
      REQUEST_TRANSACTION_DATA_SUCCESS, REQUEST_TRANSACTION_DATA_ERROR, SUBMIT_SOLUTION]))"

definition is_extensions_message :: "(message_name \<Rightarrow> u8) \<Rightarrow> u16 \<Rightarrow> u16 \<Rightarrow> u8 \<Rightarrow> bool" where
  "is_extensions_message code ext_negotiation ext t = (ext = ext_negotiation \<and> t \<in> set (map code
     [REQUEST_EXTENSIONS, REQUEST_EXTENSIONS_ERROR, REQUEST_EXTENSIONS_SUCCESS]))"

definition CHANNEL_MSG_MASK :: u16 where
  "CHANNEL_MSG_MASK = 0x8000"

definition protocol_message_type :: "(message_name \<Rightarrow> u8) \<Rightarrow> u16 \<Rightarrow> u16 \<Rightarrow> u8 \<Rightarrow> message_type" where
  "protocol_message_type code ext_negotiation extension_type t =
     (let ext = extension_type AND NOT CHANNEL_MSG_MASK
      in if is_common_message code ext t then Common
         else if is_mining_message code ext t then Mining
         else if is_job_declaration_message code ext t then JobDeclaration
         else if is_template_distribution_message code ext t then TemplateDistribution
         else if is_extensions_message code ext_negotiation ext t then Extensions
         else Unknown)"

section \<open>The handshake\<close>

datatype protocol = MiningProtocol | JobDeclarationProtocol | TemplateDistributionProtocol

record setup_connection =
  su_protocol :: protocol
  su_min_version :: u16
  su_max_version :: u16
  su_flags :: u32

datatype setup_error_code =
  UNSUPPORTED_PROTOCOL | PROTOCOL_VERSION_MISMATCH | MISSING_DECLARE_TX_DATA_FLAG | UNSUPPORTED_FEATURE_FLAGS

datatype setup_reply = SetupConnectionSuccess u16 u32 | SetupConnectionError u32 setup_error_code

definition SUPPORTED_PROTOCOL_VERSION :: u16 where
  "SUPPORTED_PROTOCOL_VERSION = 2"

text \<open>\<open>u32::reverse_bits\<close>: bit \<open>i\<close> of the result is bit \<open>31 - i\<close> of the argument.\<close>

definition reverse_bits :: "u32 \<Rightarrow> u32" where
  "reverse_bits w = horner_sum of_bool 2 (rev (map (bit w) [0..<32]))"

definition has_declare_tx_data :: "u32 \<Rightarrow> bool" where
  "has_declare_tx_data flags = (drop_bit 31 (reverse_bits flags) \<noteq> 0)"

definition handle_setup_connection ::
  "bool \<Rightarrow> downstream_id \<Rightarrow> setup_connection \<Rightarrow> (jds_error, unit) result \<times> setup_reply list" where
  "handle_setup_connection sent d msg =
     (let refuse = (\<lambda>code kind.
            if sent then (Err (jds_disconnect kind d), [SetupConnectionError 0 code])
            else (Err (jds_disconnect ChannelSend d), []))
      in if su_protocol msg \<noteq> JobDeclarationProtocol then refuse UNSUPPORTED_PROTOCOL UnsupportedProtocol
         else if SUPPORTED_PROTOCOL_VERSION < su_min_version msg \<or> SUPPORTED_PROTOCOL_VERSION > su_max_version msg
         then refuse PROTOCOL_VERSION_MISMATCH ProtocolVersionMismatch
         else if \<not> has_declare_tx_data (su_flags msg)
         then refuse MISSING_DECLARE_TX_DATA_FLAG UnsupportedConnectionFlags
         else if sent then (Ok (), [SetupConnectionSuccess SUPPORTED_PROTOCOL_VERSION 0])
         else (Err (jds_disconnect ChannelSend d), []))"

section \<open>Frames\<close>

record frame =
  fr_ext_type :: u16
  fr_msg_type :: u8
  fr_payload :: bytes

text \<open>What the third-party decoders make of a payload: a \<open>SetupConnection\<close>, and a Job Declaration
  message, another message (\<open>Some None\<close>), or a parse error (\<open>None\<close>).\<close>

record decoders =
  decode_setup :: "frame \<Rightarrow> setup_connection option"
  decode_message :: "frame \<Rightarrow> jd_client_message option option"

definition setup_connection_with_downstream ::
  "(message_name \<Rightarrow> u8) \<Rightarrow> decoders \<Rightarrow> bool \<Rightarrow> downstream_id \<Rightarrow> frame option \<Rightarrow>
   (jds_error, unit) result \<times> setup_reply list" where
  "setup_connection_with_downstream code D sent d received =
     (case received of
        None \<Rightarrow> (Err (jds_disconnect ChannelRecv d), [])
      | Some f \<Rightarrow>
          if fr_ext_type f = 0 \<and> fr_msg_type f = code SETUP_CONNECTION
          then (case decode_setup D f of
                  None \<Rightarrow> (Err (jds_log BinarySv2), [])
                | Some msg \<Rightarrow> handle_setup_connection sent d msg)
          else (Err (jds_disconnect
                 (UnexpectedMessage (fr_ext_type f AND NOT CHANNEL_MSG_MASK) (fr_msg_type f)) d), []))"

text \<open>One turn of \<open>handle_message_from_downstream\<close>: the result, and what is forwarded to the Job
  Declarator. The send fails (\<open>sent\<close> false) when the declarator has shut its channel.\<close>

definition handle_message_from_downstream ::
  "(message_name \<Rightarrow> u8) \<Rightarrow> u16 \<Rightarrow> decoders \<Rightarrow> bool \<Rightarrow> downstream_id \<Rightarrow> frame option \<Rightarrow>
   (jds_error, unit) result \<times> jd_client_message list" where
  "handle_message_from_downstream code ext_negotiation D sent d received =
     (case received of
        None \<Rightarrow> (Err (jds_disconnect ChannelRecv d), [])
      | Some f \<Rightarrow>
          (case protocol_message_type code ext_negotiation (fr_ext_type f) (fr_msg_type f) of
             JobDeclaration \<Rightarrow>
               (case decode_message D f of
                  None \<Rightarrow> (Err (jds_disconnect BinarySv2 d), [])
                | Some None \<Rightarrow>
                    (Err (jds_disconnect
                      (UnexpectedMessage (fr_ext_type f AND NOT CHANNEL_MSG_MASK) (fr_msg_type f)) d), [])
                | Some (Some m) \<Rightarrow> if sent then (Ok (), [m]) else (Err (jds_shutdown ChannelSend), []))
           | _ \<Rightarrow> (Ok (), [])))"

text \<open>\<open>Downstream::handle_error_action\<close>: only a log-only error lets the client's loop go on.\<close>

definition downstream_error_action :: "jds_error \<Rightarrow> loop_control" where
  "downstream_error_action e =
     (case err_action e of ActionLog \<Rightarrow> Continue | ActionDisconnect _ \<Rightarrow> Break | ActionShutdown \<Rightarrow> Break)"

text \<open>The loop of a client's task over the frames it receives: the messages it forwards, and whether
  it has left the loop and cleaned up.\<close>

fun downstream_loop ::
  "(message_name \<Rightarrow> u8) \<Rightarrow> u16 \<Rightarrow> decoders \<Rightarrow> downstream_id \<Rightarrow> (bool \<times> frame option) list \<Rightarrow>
   jd_client_message list \<times> bool" where
  "downstream_loop code ext_negotiation D d [] = ([], False)"
| "downstream_loop code ext_negotiation D d ((sent, received) # rest) =
     (let (res, forwarded) = handle_message_from_downstream code ext_negotiation D sent d received;
          ctl = (case res of Inr _ \<Rightarrow> Continue | Inl e \<Rightarrow> downstream_error_action e)
      in if ctl = Break then (forwarded, True)
         else (let (more, gone) = downstream_loop code ext_negotiation D d rest in (forwarded @ more, gone)))"

text \<open>\<open>Downstream::start\<close>: the handshake on the first frame, then the loop; a failed handshake cleans up
  at once.\<close>

definition downstream_start ::
  "(message_name \<Rightarrow> u8) \<Rightarrow> u16 \<Rightarrow> decoders \<Rightarrow> downstream_id \<Rightarrow> (bool \<times> frame option) \<Rightarrow>
   (bool \<times> frame option) list \<Rightarrow> setup_reply list \<times> jd_client_message list \<times> bool" where
  "downstream_start code ext_negotiation D d first rest =
     (case setup_connection_with_downstream code D (fst first) d (snd first) of
        (Inl _, replies) \<Rightarrow> (replies, [], True)
      | (Inr _, replies) \<Rightarrow> (replies, downstream_loop code ext_negotiation D d rest))"

section \<open>Classification\<close>

text \<open>The protocol each message belongs to.\<close>

definition protocol_of :: "message_name \<Rightarrow> message_type" where
  "protocol_of n =
     (if n \<in> {SETUP_CONNECTION, SETUP_CONNECTION_SUCCESS, SETUP_CONNECTION_ERROR, CHANNEL_ENDPOINT_CHANGED,
              RECONNECT} then Common
      else if n \<in> {ALLOCATE_MINING_JOB_TOKEN, ALLOCATE_MINING_JOB_TOKEN_SUCCESS, PROVIDE_MISSING_TRANSACTIONS,
                   PROVIDE_MISSING_TRANSACTIONS_SUCCESS, DECLARE_MINING_JOB, DECLARE_MINING_JOB_SUCCESS,
                   DECLARE_MINING_JOB_ERROR, PUSH_SOLUTION} then JobDeclaration
      else if n \<in> {COINBASE_OUTPUT_CONSTRAINTS, NEW_TEMPLATE, SET_NEW_PREV_HASH, REQUEST_TRANSACTION_DATA,
                   REQUEST_TRANSACTION_DATA_SUCCESS, REQUEST_TRANSACTION_DATA_ERROR, SUBMIT_SOLUTION}
      then TemplateDistribution
      else if n \<in> {REQUEST_EXTENSIONS, REQUEST_EXTENSIONS_ERROR, REQUEST_EXTENSIONS_SUCCESS} then Extensions
      else Mining)"

text \<open>What the specification says of the codes: those of the base protocols are distinct and avoid the
  reserved \<open>0x1e\<close>, and the extension of the negotiation is neither the base nor a channel message.\<close>

definition codes_ok :: "(message_name \<Rightarrow> u8) \<Rightarrow> u16 \<Rightarrow> bool" where
  "codes_ok code ext_negotiation \<longleftrightarrow>
     inj_on code {n. protocol_of n \<noteq> Extensions} \<and> (\<forall>n. protocol_of n \<noteq> Extensions \<longrightarrow> code n \<noteq> 0x1e) \<and>
     ext_negotiation \<noteq> 0 \<and> ext_negotiation AND NOT CHANNEL_MSG_MASK = ext_negotiation"

lemma code_mem:
  assumes "inj_on code {n. protocol_of n \<noteq> Extensions}" and "protocol_of n \<noteq> Extensions"
    and "set ns \<subseteq> {n. protocol_of n \<noteq> Extensions}"
  shows "code n \<in> set (map code ns) \<longleftrightarrow> n \<in> set ns"
  using inj_on_image_mem_iff [OF assms(1) _ assms(3), of n] assms(2) by simp

lemma channel_bit_masked: "(ext OR CHANNEL_MSG_MASK) AND NOT CHANNEL_MSG_MASK = ext AND NOT CHANNEL_MSG_MASK"
  for ext :: u16
  by (rule bit_eqI) (auto simp: bit_simps)

lemma base_message_type:
  assumes "codes_ok code en" and "protocol_of n \<noteq> Extensions"
  shows "protocol_message_type code en 0 (code n) = protocol_of n"
proof -
  have inj: "inj_on code {n. protocol_of n \<noteq> Extensions}" and r: "code n \<noteq> 0x1e" and en: "en \<noteq> 0"
    using assms by (auto simp: codes_ok_def)
  note mem = code_mem [OF inj assms(2)]
  have c: "is_common_message code 0 (code n) \<longleftrightarrow> protocol_of n = Common"
    unfolding is_common_message_def by (subst mem) (auto simp: protocol_of_def)
  have j: "is_job_declaration_message code 0 (code n) \<longleftrightarrow> protocol_of n = JobDeclaration"
    unfolding is_job_declaration_message_def by (subst mem) (auto simp: protocol_of_def)
  have t: "is_template_distribution_message code 0 (code n) \<longleftrightarrow> protocol_of n = TemplateDistribution"
    unfolding is_template_distribution_message_def by (subst mem) (auto simp: protocol_of_def)
  have "protocol_of n = Mining \<Longrightarrow> n \<in> set [OPEN_STANDARD_MINING_CHANNEL, OPEN_STANDARD_MINING_CHANNEL_SUCCESS,
      OPEN_MINING_CHANNEL_ERROR, OPEN_EXTENDED_MINING_CHANNEL, OPEN_EXTENDED_MINING_CHANNEL_SUCCESS,
      NEW_MINING_JOB, UPDATE_CHANNEL, UPDATE_CHANNEL_ERROR, CLOSE_CHANNEL, SET_EXTRANONCE_PREFIX,
      SUBMIT_SHARES_STANDARD, SUBMIT_SHARES_EXTENDED, SUBMIT_SHARES_SUCCESS, SUBMIT_SHARES_ERROR,
      NEW_EXTENDED_MINING_JOB, MINING_SET_NEW_PREV_HASH, SET_TARGET, SET_CUSTOM_MINING_JOB,
      SET_CUSTOM_MINING_JOB_SUCCESS, SET_CUSTOM_MINING_JOB_ERROR, SET_GROUP_CHANNEL]"
    by (cases n) (simp_all add: protocol_of_def)
  then have m: "is_mining_message code 0 (code n) \<longleftrightarrow> protocol_of n = Mining"
    unfolding is_mining_message_def using r by (subst mem) (auto simp: protocol_of_def)
  have "protocol_of n \<noteq> Unknown" by (simp add: protocol_of_def)
  then show ?thesis
    using c m j t assms(2) by (cases "protocol_of n") (auto simp: protocol_message_type_def Let_def)
qed

text \<open>
  Every message of the base protocols is routed to its own protocol, whatever order the
  classification tries them in, the messages of the extension negotiation go to the extensions, and the
  channel bit of the extension type never changes the verdict.
\<close>

theorem frames_are_sorted_by_protocol:
  assumes "codes_ok code en"
  shows "protocol_message_type code en (if protocol_of n = Extensions then en else 0) (code n) = protocol_of n \<and>
    protocol_message_type code en (ext OR CHANNEL_MSG_MASK) t = protocol_message_type code en ext t"
proof
  show "protocol_message_type code en (if protocol_of n = Extensions then en else 0) (code n) = protocol_of n"
  proof (cases "protocol_of n = Extensions")
    case True
    then have "n \<in> {REQUEST_EXTENSIONS, REQUEST_EXTENSIONS_ERROR, REQUEST_EXTENSIONS_SUCCESS}"
      by (auto simp: protocol_of_def split: if_splits)
    then show ?thesis
      using assms True
      by (auto simp: codes_ok_def protocol_message_type_def is_common_message_def is_mining_message_def
          is_job_declaration_message_def is_template_distribution_message_def is_extensions_message_def)
  next
    case False
    then show ?thesis using base_message_type [OF assms] by simp
  qed
  show "protocol_message_type code en (ext OR CHANNEL_MSG_MASK) t = protocol_message_type code en ext t"
    by (simp add: protocol_message_type_def channel_bit_masked)
qed

section \<open>The handshake\<close>

lemma has_declare_tx_data_iff: "has_declare_tx_data flags \<longleftrightarrow> bit flags 0"
proof -
  have "bit (reverse_bits flags) 31 \<longleftrightarrow> bit flags 0"
    by (simp add: reverse_bits_def bit_horner_sum_bit_word_iff rev_nth)
  moreover have "drop_bit 31 w \<noteq> 0 \<longleftrightarrow> bit w 31" for w :: u32
  proof
    assume "drop_bit 31 w \<noteq> 0"
    then obtain n where "bit w (31 + n)" by (auto simp: bit_eq_iff bit_drop_bit_eq)
    moreover from this have "31 + n < 32" using bit_imp_le_length [of w "31 + n"] by simp
    ultimately show "bit w 31" by (cases n) simp_all
  next
    assume "bit w 31"
    then have "bit (drop_bit 31 w) 0" by (simp add: bit_drop_bit_eq)
    then show "drop_bit 31 w \<noteq> 0" by (metis bit_0_eq bot_apply bot_bool_def)
  qed
  ultimately show ?thesis by (simp add: has_declare_tx_data_def)
qed

text \<open>
  The handshake accepts exactly the clients that ask for the Job Declaration Protocol, whose version
  range contains 2, and that set the lowest flag bit (\<open>DECLARE_TX_DATA\<close>); it answers them with version 2,
  and every other client with the error code of the first requirement it misses, before it is dropped.
\<close>

theorem handshake_accepts_exactly_the_supported_clients:
  "handle_setup_connection True d msg =
    (if su_protocol msg \<noteq> JobDeclarationProtocol
     then (Err (jds_disconnect UnsupportedProtocol d), [SetupConnectionError 0 UNSUPPORTED_PROTOCOL])
     else if \<not> (su_min_version msg \<le> 2 \<and> 2 \<le> su_max_version msg)
     then (Err (jds_disconnect ProtocolVersionMismatch d), [SetupConnectionError 0 PROTOCOL_VERSION_MISMATCH])
     else if \<not> bit (su_flags msg) 0
     then (Err (jds_disconnect UnsupportedConnectionFlags d), [SetupConnectionError 0 MISSING_DECLARE_TX_DATA_FLAG])
     else (Ok (), [SetupConnectionSuccess 2 0]))"
  by (auto simp: handle_setup_connection_def has_declare_tx_data_iff SUPPORTED_PROTOCOL_VERSION_def not_less)

section \<open>The life of a connection\<close>

text \<open>The specification: a turn that keeps the loop going, and what it passes on.\<close>

fun keeps_going :: "(message_name \<Rightarrow> u8) \<Rightarrow> u16 \<Rightarrow> decoders \<Rightarrow> bool \<times> frame option \<Rightarrow> bool" where
  "keeps_going code en D (sent, None) = False"
| "keeps_going code en D (sent, Some f) =
     (if protocol_message_type code en (fr_ext_type f) (fr_msg_type f) = JobDeclaration
      then sent \<and> (\<exists>m. decode_message D f = Some (Some m)) else True)"

fun passes_on :: "(message_name \<Rightarrow> u8) \<Rightarrow> u16 \<Rightarrow> decoders \<Rightarrow> bool \<times> frame option \<Rightarrow> jd_client_message list" where
  "passes_on code en D (sent, None) = []"
| "passes_on code en D (sent, Some f) =
     (if protocol_message_type code en (fr_ext_type f) (fr_msg_type f) = JobDeclaration
      then (case decode_message D f of Some (Some m) \<Rightarrow> [m] | _ \<Rightarrow> []) else [])"

lemma handle_message_from_downstream_eq:
  "handle_message_from_downstream code en D sent d received = (res, forwarded) \<Longrightarrow>
    (if keeps_going code en D (sent, received)
     then res = Ok () \<and> forwarded = passes_on code en D (sent, received)
     else (\<exists>e. res = Err e \<and> downstream_error_action e = Break) \<and> forwarded = [])"
  by (auto simp: handle_message_from_downstream_def downstream_error_action_def jds_disconnect_def
      jds_shutdown_def split: option.splits message_type.splits if_splits)

lemma downstream_loop_eq:
  "downstream_loop code en D d turns =
    (concat (map (passes_on code en D) (takeWhile (keeps_going code en D) turns)),
     \<exists>x \<in> set turns. \<not> keeps_going code en D x)"
proof (induction turns)
  case (Cons turn turns)
  obtain sent received where turn: "turn = (sent, received)" by (cases turn)
  obtain res forwarded where h: "handle_message_from_downstream code en D sent d received = (res, forwarded)"
    by (meson surj_pair)
  show ?case
    using handle_message_from_downstream_eq [OF h] Cons.IH by (auto simp: turn h split: if_splits)
qed simp

text \<open>
  Nothing of a client reaches the Job Declarator before its handshake has succeeded; afterwards the
  declarator receives exactly the client's Job Declaration messages, in order, up to the first frame that
  ends the connection, and every connection that ends, in the handshake or later, is cleaned up.
\<close>

theorem messages_pass_only_after_handshake:
  "downstream_start code en D d first rest =
    (case setup_connection_with_downstream code D (fst first) d (snd first) of
       (handshake, replies) \<Rightarrow>
         (replies,
          if is_ok handshake
          then concat (map (passes_on code en D) (takeWhile (keeps_going code en D) rest)) else [],
          if is_ok handshake then \<exists>x \<in> set rest. \<not> keeps_going code en D x else True))"
  by (auto simp: downstream_start_def downstream_loop_eq split: prod.splits sum.splits)

subsection \<open>The codes of the specification\<close>

text \<open>The codes the Stratum V2 specification assigns, as an instance of the parameter.\<close>

definition spec_codes :: "(message_name \<times> u8) list" where
  "spec_codes = [
     (SETUP_CONNECTION, 0x00), (SETUP_CONNECTION_SUCCESS, 0x01), (SETUP_CONNECTION_ERROR, 0x02),
     (CHANNEL_ENDPOINT_CHANGED, 0x03), (RECONNECT, 0x04), (OPEN_STANDARD_MINING_CHANNEL, 0x10),
     (OPEN_STANDARD_MINING_CHANNEL_SUCCESS, 0x11), (OPEN_MINING_CHANNEL_ERROR, 0x12),
     (OPEN_EXTENDED_MINING_CHANNEL, 0x13), (OPEN_EXTENDED_MINING_CHANNEL_SUCCESS, 0x14),
     (NEW_MINING_JOB, 0x15), (UPDATE_CHANNEL, 0x16), (UPDATE_CHANNEL_ERROR, 0x17),
     (CLOSE_CHANNEL, 0x18), (SET_EXTRANONCE_PREFIX, 0x19), (SUBMIT_SHARES_STANDARD, 0x1a),
     (SUBMIT_SHARES_EXTENDED, 0x1b), (SUBMIT_SHARES_SUCCESS, 0x1c), (SUBMIT_SHARES_ERROR, 0x1d),
     (NEW_EXTENDED_MINING_JOB, 0x1f), (MINING_SET_NEW_PREV_HASH, 0x20), (SET_TARGET, 0x21),
     (SET_CUSTOM_MINING_JOB, 0x22), (SET_CUSTOM_MINING_JOB_SUCCESS, 0x23),
     (SET_CUSTOM_MINING_JOB_ERROR, 0x24), (SET_GROUP_CHANNEL, 0x25),
     (ALLOCATE_MINING_JOB_TOKEN, 0x50), (ALLOCATE_MINING_JOB_TOKEN_SUCCESS, 0x51),
     (PROVIDE_MISSING_TRANSACTIONS, 0x55), (PROVIDE_MISSING_TRANSACTIONS_SUCCESS, 0x56),
     (DECLARE_MINING_JOB, 0x57), (DECLARE_MINING_JOB_SUCCESS, 0x58),
     (DECLARE_MINING_JOB_ERROR, 0x59), (PUSH_SOLUTION, 0x60),
     (COINBASE_OUTPUT_CONSTRAINTS, 0x70), (NEW_TEMPLATE, 0x71), (SET_NEW_PREV_HASH, 0x72),
     (REQUEST_TRANSACTION_DATA, 0x73), (REQUEST_TRANSACTION_DATA_SUCCESS, 0x74),
     (REQUEST_TRANSACTION_DATA_ERROR, 0x75), (SUBMIT_SOLUTION, 0x76)]"

definition spec_code :: "message_name \<Rightarrow> u8" where
  "spec_code n = (case map_of spec_codes n of Some c \<Rightarrow> c | None \<Rightarrow> 0)"

lemma spec_codes_base: "protocol_of n \<noteq> Extensions \<Longrightarrow> n \<in> fst ` set spec_codes"
  by (cases n) (simp_all add: spec_codes_def protocol_of_def)

lemma spec_codes_distinct: "distinct (map snd spec_codes)"
  by (simp add: spec_codes_def)

lemma spec_code_base: "protocol_of n \<noteq> Extensions \<Longrightarrow> (n, spec_code n) \<in> set spec_codes"
proof -
  assume "protocol_of n \<noteq> Extensions"
  then obtain c where "map_of spec_codes n = Some c"
    using spec_codes_base [of n] by (cases "map_of spec_codes n") (simp_all add: map_of_eq_None_iff)
  then show ?thesis by (simp add: spec_code_def map_of_SomeD)
qed

lemma spec_codes_ok: "codes_ok spec_code 1"
proof -
  have inj: "inj_on snd (set spec_codes)" using spec_codes_distinct by (simp add: distinct_map)
  have "(x, spec_code x) = (y, spec_code y)"
    if "protocol_of x \<noteq> Extensions" "protocol_of y \<noteq> Extensions" "spec_code x = spec_code y" for x y
    by (rule inj_onD [OF inj _ spec_code_base [OF that(1)] spec_code_base [OF that(2)]]) (simp add: that(3))
  then have "inj_on spec_code {n. protocol_of n \<noteq> Extensions}" by (auto intro!: inj_onI)
  moreover have "spec_code n \<noteq> 0x1e" if "protocol_of n \<noteq> Extensions" for n
  proof -
    have "0x1e \<notin> snd ` set spec_codes" by (simp add: spec_codes_def)
    moreover have "spec_code n \<in> snd ` set spec_codes" using spec_code_base [OF that] by force
    ultimately show ?thesis by metis
  qed
  moreover have "(1 :: u16) AND NOT CHANNEL_MSG_MASK = 1" by (simp add: CHANNEL_MSG_MASK_def)
  ultimately show ?thesis by (simp add: codes_ok_def)
qed

theorem frames_are_sorted_by_protocol_witness:
  "protocol_message_type spec_code 1 0 (spec_code DECLARE_MINING_JOB) = JobDeclaration"
  using frames_are_sorted_by_protocol [OF spec_codes_ok, of DECLARE_MINING_JOB 0 0]
  by (simp add: protocol_of_def)

end
