(* ===== verification/Fallback.thy ===== *)
theory Fallback
  imports Main
begin

text \<open>
  \<open>stratum-apps/src/fallback_coordinator.rs\<close>: the coordinator the translator and the Job Declarator
  Client use to change upstream. Tasks register; on a fallback the coordinator cancels them and waits
  until the last one is done. Each atomic operation of \<open>register\<close>, \<open>done\<close> and
  \<open>trigger_fallback_and_wait\<close> is a step, and the steps of all tasks interleave; \<open>Notify\<close> is its
  documented single permit. The relaxed orderings of the source are not weaker than this for the one
  counter they guard: its read-modify-write operations have one total order.
\<close>

section \<open>Model\<close>

text \<open>A handler is registered, then between the decrement and the check of the signal (with the value
  the decrement returned), then about to notify, then finished.\<close>

datatype handler_phase = Registered | Subtracted nat | Notifying | Finished

datatype waiter_phase = Idle | Triggered | Waiting | Returned

record fallback_coordinator =
  signal_cancelled :: bool
  pending_tasks :: nat
  permit :: bool
  handlers :: "handler_phase list"
  waiter :: waiter_phase

definition coordinator_new :: fallback_coordinator where
  "coordinator_new = \<lparr>signal_cancelled = False, pending_tasks = 0, permit = False, handlers = [],
                      waiter = Idle\<rparr>"

definition register :: "fallback_coordinator \<Rightarrow> fallback_coordinator" where
  "register s = s\<lparr>pending_tasks := pending_tasks s + 1, handlers := handlers s @ [Registered]\<rparr>"

text \<open>The three steps of \<open>done\<close>: \<open>fetch_sub\<close>, the check, \<open>notify_one\<close>.\<close>

definition done_fetch_sub :: "nat \<Rightarrow> fallback_coordinator \<Rightarrow> fallback_coordinator" where
  "done_fetch_sub i s =
     s\<lparr>pending_tasks := pending_tasks s - 1, handlers := (handlers s)[i := Subtracted (pending_tasks s)]\<rparr>"

definition done_check :: "nat \<Rightarrow> nat \<Rightarrow> fallback_coordinator \<Rightarrow> fallback_coordinator" where
  "done_check i prev s =
     s\<lparr>handlers := (handlers s)[i := (if signal_cancelled s \<and> prev = 1 then Notifying else Finished)]\<rparr>"

definition done_notify :: "nat \<Rightarrow> fallback_coordinator \<Rightarrow> fallback_coordinator" where
  "done_notify i s = s\<lparr>permit := True, handlers := (handlers s)[i := Finished]\<rparr>"

text \<open>The three steps of \<open>trigger_fallback_and_wait\<close>: the cancellation, the load, the wait.\<close>

definition trigger_cancel :: "fallback_coordinator \<Rightarrow> fallback_coordinator" where
  "trigger_cancel s = s\<lparr>signal_cancelled := True, waiter := Triggered\<rparr>"

definition trigger_load :: "fallback_coordinator \<Rightarrow> fallback_coordinator" where
  "trigger_load s = s\<lparr>waiter := (if pending_tasks s = 0 then Returned else Waiting)\<rparr>"

definition trigger_notified :: "fallback_coordinator \<Rightarrow> fallback_coordinator" where
  "trigger_notified s = s\<lparr>permit := False, waiter := Returned\<rparr>"

text \<open>The steps that bring a fallback to its end.\<close>

inductive work :: "fallback_coordinator \<Rightarrow> fallback_coordinator \<Rightarrow> bool" where
  fetch_sub: "i < length (handlers s) \<Longrightarrow> handlers s ! i = Registered \<Longrightarrow> work s (done_fetch_sub i s)"
| check: "i < length (handlers s) \<Longrightarrow> handlers s ! i = Subtracted prev \<Longrightarrow> work s (done_check i prev s)"
| notify: "i < length (handlers s) \<Longrightarrow> handlers s ! i = Notifying \<Longrightarrow> work s (done_notify i s)"
| load: "waiter s = Triggered \<Longrightarrow> work s (trigger_load s)"
| notified: "waiter s = Waiting \<Longrightarrow> permit s \<Longrightarrow> work s (trigger_notified s)"

inductive fb_step :: "fallback_coordinator \<Rightarrow> fallback_coordinator \<Rightarrow> bool" where
  work: "work s s' \<Longrightarrow> fb_step s s'"
| register: "fb_step s (register s)"
| cancel: "waiter s = Idle \<Longrightarrow> fb_step s (trigger_cancel s)"

inductive fb_reach :: "fallback_coordinator \<Rightarrow> bool" where
  new: "fb_reach coordinator_new"
| step: "fb_reach s \<Longrightarrow> fb_step s s' \<Longrightarrow> fb_reach s'"

section \<open>No lost wake-up\<close>

abbreviation registered_count :: "handler_phase list \<Rightarrow> nat" where
  "registered_count hs \<equiv> length (filter (\<lambda>h. h = Registered) hs)"

definition fb_inv :: "fallback_coordinator \<Rightarrow> bool" where
  "fb_inv s \<longleftrightarrow> pending_tasks s = registered_count (handlers s) \<and>
     (waiter s = Idle \<longleftrightarrow> \<not> signal_cancelled s) \<and>
     (waiter s = Waiting \<longrightarrow> pending_tasks s > 0 \<or> permit s \<or>
        Subtracted 1 \<in> set (handlers s) \<or> Notifying \<in> set (handlers s))"

lemma registered_count_pos:
  assumes "i < length hs" and "hs ! i = Registered"
  shows "registered_count hs > 0"
proof -
  have "Registered \<in> set hs" using assms nth_mem by metis
  then show ?thesis by (auto simp: filter_empty_conv)
qed

lemma registered_count_update:
  assumes "i < length hs" and "hs ! i = Registered" and "h \<noteq> Registered"
  shows "registered_count (hs[i := h]) = registered_count hs - 1"
  using assms
proof (induction hs arbitrary: i)
  case (Cons x hs)
  show ?case
  proof (cases i)
    case (Suc j)
    have "registered_count hs > 0"
      using Cons.prems Suc registered_count_pos [of j hs] by simp
    then show ?thesis using Cons Suc by simp
  qed (use Cons in simp)
qed simp

lemma registered_count_keep:
  assumes "i < length hs" and "hs ! i \<noteq> Registered" and "h \<noteq> Registered"
  shows "registered_count (hs[i := h]) = registered_count hs"
  using assms
proof (induction hs arbitrary: i)
  case (Cons x hs)
  then show ?case by (cases i) simp_all
qed simp

lemma mem_update_other: "x \<in> set hs \<Longrightarrow> i < length hs \<Longrightarrow> hs ! i \<noteq> x \<Longrightarrow> x \<in> set (hs[i := h])"
  by (metis in_set_conv_nth length_list_update nth_list_update_neq)

lemma mem_updated: "i < length hs \<Longrightarrow> h \<in> set (hs[i := h])"
  by (rule set_update_memI)

lemma fb_inv_work: "work s s' \<Longrightarrow> fb_inv s \<Longrightarrow> fb_inv s'"
proof (induction rule: work.induct)
  case (fetch_sub i s)
  let ?hs = "(handlers s)[i := Subtracted (pending_tasks s)]"
  have pos: "pending_tasks s > 0" using fetch_sub registered_count_pos by (simp add: fb_inv_def)
  have wake: "pending_tasks s - 1 > 0 \<or> Subtracted 1 \<in> set ?hs"
    using pos mem_updated [OF fetch_sub(1), of "Subtracted (pending_tasks s)"] by (cases "pending_tasks s = 1") auto
  show ?case
    using fetch_sub wake registered_count_update [OF fetch_sub(1,2), of "Subtracted (pending_tasks s)"]
    by (auto simp: fb_inv_def done_fetch_sub_def)
next
  case (check i s prev)
  let ?h = "if signal_cancelled s \<and> prev = 1 then Notifying else Finished"
  have count: "registered_count ((handlers s)[i := ?h]) = registered_count (handlers s)"
    using check by (intro registered_count_keep) auto
  have "Notifying \<in> set ((handlers s)[i := ?h]) \<or> Subtracted 1 \<in> set ((handlers s)[i := ?h])"
    if "waiter s = Waiting" and "Subtracted 1 \<in> set (handlers s) \<or> Notifying \<in> set (handlers s)"
  proof (cases "prev = 1")
    case True
    then show ?thesis using check that mem_updated [OF check(1), of Notifying] by (simp add: fb_inv_def)
  next
    case False
    then show ?thesis using that(2) check mem_update_other [of _ "handlers s" i ?h] by auto
  qed
  then show ?case using check count by (auto simp: fb_inv_def done_check_def)
next
  case (notify i s)
  then have "registered_count ((handlers s)[i := Finished]) = registered_count (handlers s)"
    by (intro registered_count_keep) auto
  then show ?case using notify by (auto simp: fb_inv_def done_notify_def)
qed (auto simp: fb_inv_def trigger_load_def trigger_notified_def)

lemma fb_inv_step: "fb_step s s' \<Longrightarrow> fb_inv s \<Longrightarrow> fb_inv s'"
  by (induction rule: fb_step.induct)
    (auto simp: fb_inv_work, auto simp: fb_inv_def register_def trigger_cancel_def)

lemma fb_reach_inv: "fb_reach s \<Longrightarrow> fb_inv s"
  by (induction rule: fb_reach.induct) (auto simp: fb_inv_def coordinator_new_def dest: fb_inv_step)

text \<open>The work that is left: every handler has at most three steps, the waiter two.\<close>

fun phase_work :: "handler_phase \<Rightarrow> nat" where
  "phase_work Registered = 3"
| "phase_work (Subtracted _) = 2"
| "phase_work Notifying = 1"
| "phase_work Finished = 0"

fun waiter_work :: "waiter_phase \<Rightarrow> nat" where
  "waiter_work Idle = 3"
| "waiter_work Triggered = 2"
| "waiter_work Waiting = 1"
| "waiter_work Returned = 0"

definition work_left :: "fallback_coordinator \<Rightarrow> nat" where
  "work_left s = sum_list (map phase_work (handlers s)) + waiter_work (waiter s)"

lemma phase_work_update:
  assumes "i < length hs" and "phase_work h < phase_work (hs ! i)"
  shows "sum_list (map phase_work (hs[i := h])) < sum_list (map phase_work hs)"
  using assms
proof (induction hs arbitrary: i)
  case (Cons x hs)
  then show ?case by (cases i) simp_all
qed simp

lemma work_left_decreases: "work s s' \<Longrightarrow> work_left s' < work_left s"
  by (induction rule: work.induct)
    (auto simp: work_left_def done_fetch_sub_def done_check_def done_notify_def trigger_load_def
      trigger_notified_def intro!: phase_work_update)

lemma handler_can_work:
  assumes "h \<in> set (handlers s)" and "h \<noteq> Finished"
  shows "\<exists>s'. work s s'"
proof -
  obtain i where i: "i < length (handlers s)" "handlers s ! i = h" using assms(1) by (auto simp: in_set_conv_nth)
  show ?thesis
  proof (cases h)
    case Registered
    then show ?thesis using work.fetch_sub i by blast
  next
    case (Subtracted prev)
    then show ?thesis using work.check i by blast
  next
    case Notifying
    then show ?thesis using work.notify i by blast
  qed (use assms(2) in simp)
qed

lemma waiting_can_work:
  assumes "fb_inv s" and "waiter s = Triggered \<or> waiter s = Waiting"
  shows "\<exists>s'. work s s'"
proof (cases "waiter s = Triggered \<or> permit s")
  case True
  then show ?thesis using assms(2) work.load work.notified by blast
next
  case False
  then have "pending_tasks s > 0 \<or> Subtracted 1 \<in> set (handlers s) \<or> Notifying \<in> set (handlers s)"
    using assms by (auto simp: fb_inv_def)
  moreover have "Registered \<in> set (handlers s)" if "pending_tasks s > 0"
    using assms(1) that by (auto simp: fb_inv_def filter_empty_conv)
  ultimately obtain h where "h \<in> set (handlers s)" and "h \<noteq> Finished" by blast
  then show ?thesis by (rule handler_can_work)
qed

text \<open>
  C30. No wake-up is ever lost: in every reachable state in which a fallback has been triggered and not
  yet completed, some task or the waiter can take a step, and each step leaves strictly less work, so
  every run in which the tasks keep calling \<open>done\<close> and no new ones register ends with
  \<open>trigger_fallback_and_wait\<close> returned.
\<close>

theorem fallback_always_completes:
  assumes "fb_reach s" and "waiter s = Triggered \<or> waiter s = Waiting"
  shows "(\<exists>s'. work s s') \<and> (\<forall>s'. work s s' \<longrightarrow> work_left s' < work_left s \<and> fb_reach s') \<and>
    (\<exists>s'. work\<^sup>*\<^sup>* s s' \<and> waiter s' = Returned)"
proof -
  have next_state: "work t t' \<Longrightarrow> waiter t \<noteq> Idle \<Longrightarrow> waiter t' \<noteq> Idle" for t t'
    by (induction rule: work.induct)
      (auto simp: done_fetch_sub_def done_check_def done_notify_def trigger_load_def trigger_notified_def)
  have "fb_reach t \<Longrightarrow> waiter t \<noteq> Idle \<Longrightarrow> \<exists>s'. work\<^sup>*\<^sup>* t s' \<and> waiter s' = Returned" for t
  proof (induction "work_left t" arbitrary: t rule: less_induct)
    case less
    show ?case
    proof (cases "waiter t = Returned")
      case False
      then have "waiter t = Triggered \<or> waiter t = Waiting" using less.prems by (cases "waiter t") simp_all
      then obtain t' where t': "work t t'" using waiting_can_work [OF fb_reach_inv [OF less.prems(1)]] by blast
      have "fb_reach t'" using fb_reach.step [OF less.prems(1) fb_step.work [OF t']] .
      then obtain s' where "work\<^sup>*\<^sup>* t' s'" and "waiter s' = Returned"
        using less.hyps [OF work_left_decreases [OF t']] next_state [OF t' less.prems(2)] by blast
      with t' show ?thesis by (meson converse_rtranclp_into_rtranclp)
    qed auto
  qed
  then have "\<exists>s'. work\<^sup>*\<^sup>* s s' \<and> waiter s' = Returned" using assms by force
  then show ?thesis
    using waiting_can_work [OF fb_reach_inv [OF assms(1)] assms(2)] work_left_decreases
      fb_reach.step [OF assms(1) fb_step.work] by blast
qed

section \<open>When the wait is over\<close>

text \<open>The discipline under which the wait covers every task: no task registers once the fallback is
  triggered, nor while another is between the two halves of \<open>done\<close>.\<close>

definition may_register :: "fallback_coordinator \<Rightarrow> bool" where
  "may_register s \<longleftrightarrow> \<not> signal_cancelled s \<and> set (handlers s) \<subseteq> {Registered, Finished}"

inductive disciplined :: "fallback_coordinator \<Rightarrow> bool" where
  new: "disciplined coordinator_new"
| work: "disciplined s \<Longrightarrow> work s s' \<Longrightarrow> disciplined s'"
| register: "disciplined s \<Longrightarrow> may_register s \<Longrightarrow> disciplined (register s)"
| cancel: "disciplined s \<Longrightarrow> waiter s = Idle \<Longrightarrow> disciplined (trigger_cancel s)"

lemma disciplined_reach: "disciplined s \<Longrightarrow> fb_reach s"
  by (induction rule: disciplined.induct) (auto intro: fb_reach.intros fb_step.intros)

definition all_told :: "fallback_coordinator \<Rightarrow> bool" where
  "all_told s \<longleftrightarrow>
     (permit s \<or> Notifying \<in> set (handlers s) \<or> waiter s = Returned \<longrightarrow>
        signal_cancelled s \<and> pending_tasks s = 0) \<and>
     (Subtracted 1 \<in> set (handlers s) \<longrightarrow> pending_tasks s = 0)"

lemma all_told_work: "work s s' \<Longrightarrow> all_told s \<Longrightarrow> fb_inv s \<Longrightarrow> all_told s'"
proof (induction rule: work.induct)
  case (fetch_sub i s)
  have "pending_tasks s > 0" using fetch_sub registered_count_pos by (simp add: fb_inv_def)
  then show ?case
    using fetch_sub set_update_subset_insert [of "handlers s" i "Subtracted (pending_tasks s)"]
    by (auto simp: all_told_def done_fetch_sub_def)
next
  case (check i s prev)
  have mem: "Subtracted prev \<in> set (handlers s)" using check nth_mem by metis
  show ?case
    using check mem
      set_update_subset_insert [of "handlers s" i "if signal_cancelled s \<and> prev = 1 then Notifying else Finished"]
    by (auto simp: all_told_def done_check_def split: if_splits)
next
  case (notify i s)
  have "Notifying \<in> set (handlers s)" using notify nth_mem by metis
  then show ?case
    using notify set_update_subset_insert [of "handlers s" i Finished]
    by (auto simp: all_told_def done_notify_def)
next
  case (load s)
  then show ?case by (auto simp: all_told_def trigger_load_def fb_inv_def)
next
  case (notified s)
  then show ?case by (auto simp: all_told_def trigger_notified_def)
qed

lemma disciplined_all_told: "disciplined s \<Longrightarrow> all_told s"
proof (induction rule: disciplined.induct)
  case (work s s')
  then show ?case using all_told_work fb_reach_inv [OF disciplined_reach] by blast
next
  case (register s)
  then show ?case
    using fb_reach_inv [OF disciplined_reach] by (auto simp: all_told_def may_register_def register_def)
qed (auto simp: all_told_def coordinator_new_def trigger_cancel_def)

text \<open>
  Under that discipline the wait is complete: when \<open>trigger_fallback_and_wait\<close> has returned, every
  task that ever registered has called \<open>done\<close>.
\<close>

theorem fallback_waits_for_all:
  assumes "disciplined s" and "waiter s = Returned"
  shows "Registered \<notin> set (handlers s) \<and> pending_tasks s = 0"
  using disciplined_all_told [OF assms(1)] fb_reach_inv [OF disciplined_reach [OF assms(1)]] assms(2)
  by (auto simp: all_told_def fb_inv_def filter_empty_conv)

lemma work_reach: "fb_reach s \<Longrightarrow> work s s' \<Longrightarrow> fb_reach s'"
  by (rule fb_reach.step [OF _ fb_step.work])

text \<open>
  Without that discipline the wait can end early: a task decrements the counter to zero before the
  fallback is triggered, another registers, the fallback is triggered and waits for it, and the first
  task, resuming at its check, finds the signal cancelled and wakes the waiter.\<close>

theorem wait_can_end_early:
  "\<exists>s. fb_reach s \<and> waiter s = Returned \<and> Registered \<in> set (handlers s)"
proof -
  let ?st = "\<lambda>c p n hs w. \<lparr>signal_cancelled = c, pending_tasks = p, permit = n, handlers = hs, waiter = w\<rparr>"
  have "fb_reach (?st False 1 False [Registered] Idle)"
    using fb_reach.step [OF fb_reach.new fb_step.register] by (simp add: register_def coordinator_new_def)
  from work_reach [OF this work.fetch_sub [of 0]] have "fb_reach (?st False 0 False [Subtracted 1] Idle)"
    by (simp add: done_fetch_sub_def)
  from fb_reach.step [OF this fb_step.register]
  have "fb_reach (?st False 1 False [Subtracted 1, Registered] Idle)" by (simp add: register_def)
  from fb_reach.step [OF this fb_step.cancel]
  have "fb_reach (?st True 1 False [Subtracted 1, Registered] Triggered)" by (simp add: trigger_cancel_def)
  from work_reach [OF this work.load] have "fb_reach (?st True 1 False [Subtracted 1, Registered] Waiting)"
    by (simp add: trigger_load_def)
  from work_reach [OF this work.check [of 0 _ 1]] have "fb_reach (?st True 1 False [Notifying, Registered] Waiting)"
    by (simp add: done_check_def)
  from work_reach [OF this work.notify [of 0]] have "fb_reach (?st True 1 True [Finished, Registered] Waiting)"
    by (simp add: done_notify_def)
  from work_reach [OF this work.notified] have "fb_reach (?st True 1 False [Finished, Registered] Returned)"
    by (simp add: trigger_notified_def)
  then show ?thesis by force
qed

section \<open>Concrete runs\<close>

theorem fallback_always_completes_witness:
  "\<exists>s'. work\<^sup>*\<^sup>* (trigger_cancel (register coordinator_new)) s' \<and> waiter s' = Returned"
proof -
  have "fb_reach (trigger_cancel (register coordinator_new))"
    by (intro fb_reach.step [OF fb_reach.step [OF fb_reach.new fb_step.register] fb_step.cancel])
      (simp add: register_def coordinator_new_def)
  moreover have "waiter (trigger_cancel (register coordinator_new)) = Triggered"
    by (simp add: trigger_cancel_def)
  ultimately show ?thesis using fallback_always_completes by blast
qed

theorem fallback_waits_for_all_witness:
  "\<exists>s. disciplined s \<and> waiter s = Returned \<and> length (handlers s) = 1 \<and> Registered \<notin> set (handlers s)"
proof -
  let ?s1 = "register coordinator_new"
  let ?s2 = "done_fetch_sub 0 ?s1"
  let ?s4 = "trigger_load (trigger_cancel ?s2)"
  have "disciplined ?s1"
    by (rule disciplined.register [OF disciplined.new]) (simp add: may_register_def coordinator_new_def)
  then have "disciplined ?s2"
    by (rule disciplined.work) (rule work.fetch_sub; simp add: register_def coordinator_new_def)
  then have "disciplined (trigger_cancel ?s2)"
    by (rule disciplined.cancel) (simp add: done_fetch_sub_def register_def coordinator_new_def)
  then have d: "disciplined ?s4"
    by (rule disciplined.work) (rule work.load, simp add: trigger_cancel_def)
  have w: "waiter ?s4 = Returned" and l: "length (handlers ?s4) = 1"
    by (simp_all add: trigger_load_def trigger_cancel_def done_fetch_sub_def register_def coordinator_new_def)
  from fallback_waits_for_all [OF d w] d w l show ?thesis by blast
qed

end
