(* ===== verification/Sv1_Job_Store.thy ===== *)
theory Sv1_Job_Store
  imports Sv2_Prelude "HOL-Library.AList"
begin

text \<open>
  \<open>miner-apps/translator/src/lib/sv1/job_store.rs\<close>: the jobs an SV1 miner may still submit shares for,
  one active job and a bounded history under the current chain tip. The \<open>HashMap\<close> of past jobs is an
  association list with distinct keys, the \<open>VecDeque\<close> of their ids a list whose head is the front.
  \<open>MAX_PAST_JOBS\<close> is a constant of the \<open>channels_sv2\<close> crate and an argument here.

  The eviction loop pops the order queue until the map is within its cap. If the queue ran empty first,
  the loop would spin forever; that outcome is \<open>None\<close>, and the theory shows it never happens. The store
  then refines a plain history: the list of the newest jobs, each id once.
\<close>

section \<open>Model\<close>

type_synonym job_id = string

record 'a sv1_job_store =
  active_job :: "(job_id \<times> 'a) option"
  past_jobs :: "(job_id \<times> 'a) list"
  past_job_order :: "job_id list"
  max_past_jobs :: nat

definition store_cap :: "nat \<Rightarrow> nat option \<Rightarrow> nat" where
  "store_cap MAX_PAST_JOBS cap =
     (case cap of Some c \<Rightarrow> if c > 0 then c else MAX_PAST_JOBS | None \<Rightarrow> MAX_PAST_JOBS)"

definition job_store_new :: "nat \<Rightarrow> nat option \<Rightarrow> 'a sv1_job_store" where
  "job_store_new MAX_PAST_JOBS cap =
     \<lparr>active_job = None, past_jobs = [], past_job_order = [], max_past_jobs = store_cap MAX_PAST_JOBS cap\<rparr>"

definition remove_past :: "job_id \<Rightarrow> 'a sv1_job_store \<Rightarrow> 'a sv1_job_store" where
  "remove_past job_id st =
     (case map_of (past_jobs st) job_id of
        None \<Rightarrow> st
      | Some _ \<Rightarrow> st\<lparr>past_jobs := AList.delete job_id (past_jobs st),
                    past_job_order := filter (\<lambda>past_job_id. past_job_id \<noteq> job_id) (past_job_order st)\<rparr>)"

definition store_clear :: "'a sv1_job_store \<Rightarrow> 'a sv1_job_store" where
  "store_clear st = st\<lparr>active_job := None, past_jobs := [], past_job_order := []\<rparr>"

text \<open>The part of \<open>activate\<close> that retires the displaced job, and its eviction loop.\<close>

definition retire_active :: "job_id \<Rightarrow> 'a sv1_job_store \<Rightarrow> 'a sv1_job_store" where
  "retire_active job_id st =
     (case active_job st of
        None \<Rightarrow> st
      | Some (active_id, job) \<Rightarrow>
          if active_id \<noteq> job_id
          then st\<lparr>active_job := None, past_job_order := past_job_order st @ [active_id],
                 past_jobs := AList.update active_id job (past_jobs st)\<rparr>
          else st\<lparr>active_job := None\<rparr>)"

fun evict_loop :: "nat \<Rightarrow> (job_id \<times> 'a) list \<Rightarrow> job_id list \<Rightarrow> ((job_id \<times> 'a) list \<times> job_id list) option" where
  "evict_loop cap past [] = (if length past > cap then None else Some (past, []))"
| "evict_loop cap past (evicted # order) =
     (if length past > cap then evict_loop cap (AList.delete evicted past) order
      else Some (past, evicted # order))"

definition store_activate :: "job_id \<Rightarrow> 'a \<Rightarrow> bool \<Rightarrow> 'a sv1_job_store \<Rightarrow> 'a sv1_job_store option" where
  "store_activate job_id job clean_jobs st =
     (if clean_jobs then Some ((store_clear st)\<lparr>active_job := Some (job_id, job)\<rparr>)
      else
        (let st' = retire_active job_id (remove_past job_id st)
         in case evict_loop (max_past_jobs st') (past_jobs st') (past_job_order st') of
              None \<Rightarrow> None
            | Some (past, order) \<Rightarrow>
                Some (st'\<lparr>past_jobs := past, past_job_order := order, active_job := Some (job_id, job)\<rparr>)))"

definition store_get :: "job_id \<Rightarrow> 'a sv1_job_store \<Rightarrow> 'a option" where
  "store_get job_id st =
     (case active_job st of
        Some (active_id, job) \<Rightarrow> if active_id = job_id then Some job else map_of (past_jobs st) job_id
      | None \<Rightarrow> map_of (past_jobs st) job_id)"

definition store_active :: "'a sv1_job_store \<Rightarrow> 'a option" where
  "store_active st = map_option snd (active_job st)"

section \<open>The invariant\<close>

text \<open>The queue lists every past job once, no more than the cap, and the active job is not among them.\<close>

definition store_inv :: "'a sv1_job_store \<Rightarrow> bool" where
  "store_inv st \<longleftrightarrow>
     distinct (map fst (past_jobs st)) \<and> distinct (past_job_order st) \<and>
     set (past_job_order st) = fst ` set (past_jobs st) \<and>
     length (past_jobs st) \<le> max_past_jobs st \<and>
     (case active_job st of None \<Rightarrow> past_jobs st = [] | Some (i, _) \<Rightarrow> i \<notin> fst ` set (past_jobs st))"

text \<open>The same without the cap, which holds between retiring a job and evicting.\<close>

definition order_ok :: "(job_id \<times> 'a) list \<Rightarrow> job_id list \<Rightarrow> bool" where
  "order_ok past order \<longleftrightarrow>
     distinct (map fst past) \<and> distinct order \<and> set order = fst ` set past"

lemma order_ok_length: "order_ok past order \<Longrightarrow> length order = length past"
  by (metis distinct_card length_map list.set_map order_ok_def)

lemma order_ok_delete:
  assumes "order_ok past order"
  shows "order_ok (AList.delete i past) (filter (\<lambda>j. j \<noteq> i) order)"
proof -
  have "fst ` set (AList.delete i past) = fst ` set past - {i}"
    using arg_cong [OF delete_keys [of i past], of set] by simp
  with assms show ?thesis by (auto simp: order_ok_def distinct_delete)
qed

lemma order_ok_delete_head:
  assumes "order_ok past (i # order)"
  shows "order_ok (AList.delete i past) order"
proof -
  have "filter (\<lambda>j. j \<noteq> i) (i # order) = order"
    using assms by (auto simp: order_ok_def filter_id_conv)
  then show ?thesis using order_ok_delete [OF assms, of i] by simp
qed

lemma order_ok_push:
  assumes "order_ok past order" and "i \<notin> fst ` set past"
  shows "order_ok (AList.update i x past) (order @ [i])"
proof -
  have "fst ` set (AList.update i x past) = insert i (fst ` set past)"
    using dom_update [of i x past] by (simp add: dom_map_of_conv_image_fst)
  with assms show ?thesis by (auto simp: order_ok_def distinct_update)
qed

section \<open>Refinement of a bounded history\<close>

text \<open>The abstract store: the known jobs, newest first.\<close>

definition past_view :: "(job_id \<times> 'a) list \<Rightarrow> job_id list \<Rightarrow> (job_id \<times> 'a) list" where
  "past_view past order = rev (map (\<lambda>i. (i, the (map_of past i))) order)"

definition history :: "'a sv1_job_store \<Rightarrow> (job_id \<times> 'a) list" where
  "history st = (case active_job st of None \<Rightarrow> [] | Some a \<Rightarrow> [a]) @ past_view (past_jobs st) (past_job_order st)"

definition history_activate ::
  "nat \<Rightarrow> job_id \<Rightarrow> 'a \<Rightarrow> bool \<Rightarrow> (job_id \<times> 'a) list \<Rightarrow> (job_id \<times> 'a) list" where
  "history_activate cap job_id job clean_jobs h =
     (job_id, job) # (if clean_jobs then [] else take cap (filter (\<lambda>(i, _). i \<noteq> job_id) h))"

lemma past_view_delete:
  "past_view (AList.delete i past) (filter (\<lambda>j. j \<noteq> i) order) =
   filter (\<lambda>(j, _). j \<noteq> i) (past_view past order)"
  by (induction order) (auto simp: past_view_def delete_conv' rev_filter)

lemma past_view_push:
  assumes "i \<notin> set order"
  shows "past_view (AList.update i x past) (order @ [i]) = (i, x) # past_view past order"
  using assms by (auto simp: past_view_def update_conv' intro!: map_cong)

lemma map_of_past_view:
  assumes "order_ok past order"
  shows "map_of (past_view past order) = map_of past"
proof
  fix i
  have keys: "i \<in> set order \<longleftrightarrow> (\<exists>v. map_of past i = Some v)"
    using assms by (metis dom_map_of_conv_image_fst domD domI order_ok_def)
  have "distinct (map fst (past_view past order))"
    using assms by (simp add: order_ok_def past_view_def comp_def rev_map [symmetric])
  then have "map_of (past_view past order) i = Some v \<longleftrightarrow> map_of past i = Some v" for v
    using keys by (auto simp: past_view_def)
  then show "map_of (past_view past order) i = map_of past i"
    by (metis not_Some_eq)
qed

text \<open>The loop ends, and keeps the newest jobs.\<close>

lemma evict_loop_spec:
  assumes "order_ok past order"
  shows "\<exists>past' order'. evict_loop cap past order = Some (past', order') \<and> order_ok past' order' \<and>
    length past' \<le> cap \<and> past_view past' order' = take cap (past_view past order)"
  using assms
proof (induction order arbitrary: past)
  case Nil
  then show ?case using order_ok_length [OF Nil] by (simp add: past_view_def)
next
  case (Cons i order)
  show ?case
  proof (cases "length past > cap")
    case True
    have i: "i \<notin> set order" using Cons.prems by (simp add: order_ok_def)
    then have "past_view (AList.delete i past) order = past_view past order"
      by (auto simp: past_view_def delete_conv')
    moreover have "take cap (past_view past (i # order)) = take cap (past_view past order)"
      using True order_ok_length [OF Cons.prems] by (simp add: past_view_def)
    ultimately show ?thesis using Cons.IH [OF order_ok_delete_head [OF Cons.prems]] True by simp
  next
    case False
    then show ?thesis using Cons.prems order_ok_length [OF Cons.prems] by (simp add: past_view_def)
  qed
qed

lemma remove_past_eq:
  assumes "order_ok (past_jobs st) (past_job_order st)"
  shows "remove_past i st =
    st\<lparr>past_jobs := AList.delete i (past_jobs st),
       past_job_order := filter (\<lambda>j. j \<noteq> i) (past_job_order st)\<rparr>"
proof (cases "map_of (past_jobs st) i")
  case None
  then have "i \<notin> fst ` set (past_jobs st)" by (simp add: map_of_eq_None_iff)
  moreover from this have "filter (\<lambda>j. j \<noteq> i) (past_job_order st) = past_job_order st"
    using assms by (auto simp: order_ok_def filter_id_conv)
  ultimately show ?thesis using None by (simp add: remove_past_def delete_idem)
qed (simp add: remove_past_def)

text \<open>Retiring: the past becomes the old history without the new id.\<close>

lemma retire_active_spec:
  fixes i :: job_id
  assumes "store_inv st"
  defines "st' \<equiv> retire_active i (remove_past i st)"
  shows "order_ok (past_jobs st') (past_job_order st')"
    and "max_past_jobs st' = max_past_jobs st"
    and "past_view (past_jobs st') (past_job_order st') = filter (\<lambda>(j, _). j \<noteq> i) (history st)"
proof -
  have ok: "order_ok (past_jobs st) (past_job_order st)"
    using assms(1) by (simp add: store_inv_def order_ok_def)
  have r: "remove_past i st = st\<lparr>past_jobs := AList.delete i (past_jobs st),
       past_job_order := filter (\<lambda>j. j \<noteq> i) (past_job_order st)\<rparr>"
    by (rule remove_past_eq [OF ok])
  have fresh: "a \<notin> fst ` set (AList.delete i (past_jobs st))" "a \<notin> set (filter (\<lambda>j. j \<noteq> i) (past_job_order st))"
    if "active_job st = Some (a, y)" for a y
    using assms(1) that arg_cong [OF delete_keys [of i "past_jobs st"], of set] by (auto simp: store_inv_def)
  show "max_past_jobs st' = max_past_jobs st"
    by (auto simp: st'_def r retire_active_def split: option.split)
  show "order_ok (past_jobs st') (past_job_order st')"
  proof (cases "active_job st")
    case None
    then show ?thesis using order_ok_delete [OF ok] by (simp add: st'_def r retire_active_def)
  next
    case (Some a)
    then show ?thesis
      using order_ok_push [OF order_ok_delete [OF ok], OF fresh(1)] order_ok_delete [OF ok]
      by (cases a) (simp add: st'_def r retire_active_def)
  qed
  show "past_view (past_jobs st') (past_job_order st') = filter (\<lambda>(j, _). j \<noteq> i) (history st)"
  proof (cases "active_job st")
    case None
    then show ?thesis by (simp add: st'_def r retire_active_def history_def past_view_delete)
  next
    case (Some a)
    then obtain j y where a: "active_job st = Some (j, y)" by (cases a) simp
    show ?thesis
      using past_view_push [OF fresh(2) [OF a], of y "AList.delete i (past_jobs st)"] a
      by (simp add: st'_def r retire_active_def history_def past_view_delete)
  qed
qed

lemma store_activate_spec:
  assumes "store_inv st"
  shows "\<exists>st'. store_activate i x clean st = Some st' \<and> store_inv st' \<and>
    max_past_jobs st' = max_past_jobs st \<and>
    history st' = history_activate (max_past_jobs st) i x clean (history st)"
proof (cases clean)
  case True
  then show ?thesis
    by (simp add: store_activate_def store_clear_def store_inv_def history_def history_activate_def past_view_def)
next
  case False
  let ?t = "retire_active i (remove_past i st)"
  obtain past order where ev: "evict_loop (max_past_jobs ?t) (past_jobs ?t) (past_job_order ?t) = Some (past, order)"
    and ok: "order_ok past order" "length past \<le> max_past_jobs ?t"
    and view: "past_view past order = take (max_past_jobs ?t) (past_view (past_jobs ?t) (past_job_order ?t))"
    using evict_loop_spec [OF retire_active_spec(1) [OF assms, of i], of "max_past_jobs ?t"] by blast
  have "i \<notin> fst ` set (past_view past order)"
    using view retire_active_spec(3) [OF assms, of i] by (auto dest: in_set_takeD)
  then have "i \<notin> fst ` set past"
    using ok(1) by (auto simp: past_view_def order_ok_def image_image)
  with False ev ok view show ?thesis
    using retire_active_spec [OF assms, of i]
    by (simp add: store_activate_def Let_def store_inv_def order_ok_def history_def history_activate_def)
qed

lemma store_inv_order_ok: "store_inv st \<Longrightarrow> order_ok (past_jobs st) (past_job_order st)"
  by (simp add: store_inv_def order_ok_def)

lemma store_get_history:
  assumes "store_inv st"
  shows "store_get i st = map_of (history st) i"
  using map_of_past_view [OF store_inv_order_ok [OF assms]]
  by (auto simp: store_get_def history_def split: option.split)

lemma store_active_history:
  assumes "store_inv st"
  shows "store_active st = (case history st of [] \<Rightarrow> None | (_, x) # _ \<Rightarrow> Some x)"
  using assms
  by (auto simp: store_inv_def store_active_def history_def past_view_def split: option.splits)

lemma distinct_history:
  assumes "store_inv st"
  shows "distinct (map fst (history st))"
proof -
  have "map fst (past_view (past_jobs st) (past_job_order st)) = rev (past_job_order st)"
    by (simp add: past_view_def rev_map [symmetric] comp_def)
  with assms show ?thesis by (auto simp: store_inv_def history_def split: option.splits)
qed

section \<open>Runs\<close>

text \<open>A run of the store from its creation, and of the abstract history.\<close>

fun activate_all :: "(job_id \<times> 'a \<times> bool) list \<Rightarrow> 'a sv1_job_store \<Rightarrow> 'a sv1_job_store option" where
  "activate_all [] st = Some st"
| "activate_all ((i, x, clean) # evs) st =
     (case store_activate i x clean st of None \<Rightarrow> None | Some st' \<Rightarrow> activate_all evs st')"

fun history_of :: "nat \<Rightarrow> (job_id \<times> 'a \<times> bool) list \<Rightarrow> (job_id \<times> 'a) list \<Rightarrow> (job_id \<times> 'a) list" where
  "history_of cap [] h = h"
| "history_of cap ((i, x, clean) # evs) h = history_of cap evs (history_activate cap i x clean h)"

lemma activate_all_spec:
  assumes "store_inv st"
  shows "\<exists>st'. activate_all evs st = Some st' \<and> store_inv st' \<and> max_past_jobs st' = max_past_jobs st \<and>
    history st' = history_of (max_past_jobs st) evs (history st)"
  using assms
proof (induction evs arbitrary: st)
  case (Cons e evs)
  obtain i x clean where e: "e = (i, x, clean)" by (cases e)
  obtain st' where st': "store_activate i x clean st = Some st'" "store_inv st'"
    "max_past_jobs st' = max_past_jobs st"
    "history st' = history_activate (max_past_jobs st) i x clean (history st)"
    using store_activate_spec [OF Cons.prems] by blast
  show ?case using Cons.IH [OF st'(2)] st' e by simp
qed simp

lemma job_store_new_inv: "store_inv (job_store_new d cap)" "history (job_store_new d cap) = []"
  by (simp_all add: job_store_new_def store_inv_def history_def past_view_def)

text \<open>
  C32. The job store is the bounded history it documents. After any sequence of activations from a new
  store: every activation returned (the eviction loop ends), the store answers a lookup as the list of
  the newest jobs since the last clean job does, in which each id occurs once with its latest value, the
  active job is the head of that list, and no more than the cap of past jobs is kept.
\<close>

theorem job_store_is_bounded_history:
  "\<exists>st. activate_all evs (job_store_new MAX_PAST_JOBS max_past) = Some st \<and>
    (\<forall>i. store_get i st = map_of (history_of (store_cap MAX_PAST_JOBS max_past) evs []) i) \<and>
    store_active st = (case history_of (store_cap MAX_PAST_JOBS max_past) evs [] of
       [] \<Rightarrow> None | (_, x) # _ \<Rightarrow> Some x) \<and>
    distinct (map fst (history_of (store_cap MAX_PAST_JOBS max_past) evs [])) \<and>
    length (past_jobs st) \<le> store_cap MAX_PAST_JOBS max_past"
proof -
  have cap: "max_past_jobs (job_store_new MAX_PAST_JOBS max_past) = store_cap MAX_PAST_JOBS max_past"
    by (simp add: job_store_new_def)
  obtain st where run: "activate_all evs (job_store_new MAX_PAST_JOBS max_past) = Some st" "store_inv st"
    "max_past_jobs st = store_cap MAX_PAST_JOBS max_past"
    "history st = history_of (store_cap MAX_PAST_JOBS max_past) evs []"
    using activate_all_spec [OF job_store_new_inv(1), of evs MAX_PAST_JOBS max_past]
    unfolding cap job_store_new_inv(2) by blast
  then show ?thesis
    using store_get_history [OF run(2)] store_active_history [OF run(2)] distinct_history [OF run(2)]
    by (auto simp: store_inv_def)
qed

end
