(* ===== verification/Mining_Messages.thy ===== *)
theory Mining_Messages
  imports Bitcoin_Lib
begin

text \<open>
  The messages of the SV2 mining protocol that the translator and the pool exchange, with the fields
  either of them reads or writes. A \<open>Target\<close> is a 256-bit number; a hashrate (\<open>f32\<close>) is its bit pattern,
  never computed with in the model.
\<close>

type_synonym target = "256 word"
type_synonym hashrate = u32

record set_new_prev_hash =
  ph_channel_id :: channel_id
  ph_job_id :: u32
  ph_prev_hash :: block_hash
  ph_min_ntime :: u32
  ph_nbits :: u32

record new_extended_mining_job =
  nj_channel_id :: channel_id
  nj_job_id :: u32
  nj_min_ntime :: "u32 option"
  nj_version :: u32
  nj_version_rolling_allowed :: bool
  nj_merkle_path :: "bytes list"
  nj_coinbase_tx_prefix :: bytes
  nj_coinbase_tx_suffix :: bytes

record submit_shares_extended =
  se_channel_id :: channel_id
  se_sequence_number :: u32
  se_job_id :: u32
  se_nonce :: u32
  se_ntime :: u32
  se_version :: u32
  se_extranonce :: bytes

record open_channel_msg =
  oc_request_id :: request_id
  oc_user_identity :: string
  oc_nominal_hash_rate :: hashrate
  oc_max_target :: target
  oc_min_extranonce_size :: u16

end
