(* ===== verification/Sv1_Downstream.thy ===== *)
theory Sv1_Downstream
  imports Sv1_Job_Store Mining_Messages
begin

text \<open>
  \<open>miner-apps/translator/src/lib/sv1/downstream.rs\<close>: the connection of one SV1 miner. The server and
  the connection's task share \<open>DownstreamData\<close>; the server queues events, the task turns them into the
  messages the miner gets: a job is preceded by a difficulty and an extranonce that changed since the
  last one, and with each job the values a late share of it must be validated with are recorded.

  A \<open>mining.set_difficulty\<close> message is its JSON text. \<open>Instant::now()\<close> is the argument \<open>now\<close>. How many of
  the messages handed to the miner's channel get through before it closes is the argument \<open>k\<close>.

  The section \<open>Server and task\<close> interleaves the handlers of the task with what the server does to the shared data,
  one handler at a time.
\<close>

section \<open>Model\<close>

type_synonym json_message = string

record notify =
  nt_job_id :: job_id
  nt_prev_hash :: bytes
  nt_coin_base1 :: bytes
  nt_coin_base2 :: bytes
  nt_merkle_branch :: "bytes list"
  nt_version :: u32
  nt_bits :: u32
  nt_time :: u32
  nt_clean_jobs :: bool

record set_extranonce =
  se_extra_nonce1 :: bytes
  se_extra_nonce2_size :: nat

record submit =
  sb_user_name :: string
  sb_job_id :: job_id
  sb_extra_nonce2 :: bytes
  sb_time :: u32
  sb_nonce :: u32
  sb_version_bits :: "u32 option"

datatype sv1_server_event =
    EvNotify notify
  | EvSetDifficulty json_message
  | EvSetExtranonce set_extranonce bool
  | EvSetupComplete

datatype sv1_session_state = Starting (starting_subscribed: bool) (starting_authorized: bool) | Ready

datatype sv1_setup_request = SetupSubscribe | SetupAuthorize

definition session_default :: sv1_session_state where
  "session_default = Starting False False"

fun record_response :: "sv1_setup_request \<Rightarrow> sv1_session_state \<Rightarrow> bool \<times> sv1_session_state" where
  "record_response _ Ready = (False, Ready)"
| "record_response request (Starting subscribed authorized) =
     (let was_complete = subscribed \<and> authorized;
          subscribed' = (if request = SetupSubscribe then True else subscribed);
          authorized' = (if request = SetupAuthorize then True else authorized)
      in (\<not> was_complete \<and> subscribed' \<and> authorized', Starting subscribed' authorized'))"

definition is_ready :: "sv1_session_state \<Rightarrow> bool" where
  "is_ready s = (s = Ready)"

fun is_subscribed :: "sv1_session_state \<Rightarrow> bool" where
  "is_subscribed (Starting subscribed _) = subscribed"
| "is_subscribed Ready = True"

fun setup_complete :: "sv1_session_state \<Rightarrow> bool" where
  "setup_complete (Starting subscribed authorized) = (subscribed \<and> authorized)"
| "setup_complete Ready = True"

record sv1_job_validation_context =
  jc_extranonce :: bytes
  jc_extranonce2_len :: nat
  jc_target :: target

text \<open>The cache of accepted share hashes, oldest first; \<open>MAX_SEEN_SHARES\<close> is a constant of
  \<open>channels_sv2\<close>.\<close>

definition insert_if_new :: "nat \<Rightarrow> 'h \<Rightarrow> 'h list \<Rightarrow> bool \<times> 'h list" where
  "insert_if_new MAX_SEEN_SHARES hash hashes =
     (if hash \<in> set hashes then (False, hashes)
      else (True, (if length hashes = MAX_SEEN_SHARES then tl hashes else hashes) @ [hash]))"

text \<open>The requests of a miner, decoded by \<open>sv1_api\<close>; the sources distinguish these.\<close>

datatype client_request = Configure | Subscribe | Authorize string | Submit submit | OtherRequest

record submit_share =
  ss_channel_id :: channel_id
  ss_downstream_id :: downstream_id
  ss_share :: submit
  ss_extranonce :: bytes
  ss_extranonce2_len :: nat
  ss_version_rolling_mask :: "u32 option"
  ss_job_version :: "u32 option"

record downstream_data =
  dd_channel_id :: "channel_id option"
  dd_extranonce1 :: bytes
  dd_extranonce2_len :: nat
  dd_target :: target
  dd_hashrate :: "hashrate option"
  dd_version_rolling_mask :: "u32 option"
  dd_version_rolling_min_bit :: "u32 option"
  dd_sv1_username :: string
  dd_sv1_worker_name :: string
  dd_cached_set_difficulty :: "json_message option"
  dd_cached_notify :: "notify option"
  dd_cached_set_extranonce :: "set_extranonce option"
  dd_session_state :: sv1_session_state
  dd_job_validation_contexts :: "sv1_job_validation_context sv1_job_store"
  dd_accepted_share_hashes :: "256 word list"
  dd_pending_set_extranonce_notifications :: nat
  dd_pending_target :: "target option"
  dd_pending_hashrate :: "hashrate option"
  dd_stable_hashrate :: bool
  dd_queued_sv1_handshake_messages :: "client_request list"
  dd_pending_share :: "submit_share option"
  dd_upstream_target :: "target option"
  dd_keepalive_timer_anchor :: "instant option"
  dd_supports_set_extranonce :: bool

definition downstream_data_new :: "nat \<Rightarrow> hashrate option \<Rightarrow> target \<Rightarrow> nat option \<Rightarrow> downstream_data" where
  "downstream_data_new MAX_PAST_JOBS hashrate target max_past =
     \<lparr>dd_channel_id = None, dd_extranonce1 = replicate 8 0, dd_extranonce2_len = 4,
      dd_target = target, dd_hashrate = hashrate,
      dd_version_rolling_mask = None, dd_version_rolling_min_bit = None,
      dd_sv1_username = [], dd_sv1_worker_name = [],
      dd_cached_set_difficulty = None, dd_cached_notify = None, dd_cached_set_extranonce = None,
      dd_session_state = session_default,
      dd_job_validation_contexts = job_store_new MAX_PAST_JOBS max_past,
      dd_accepted_share_hashes = [], dd_pending_set_extranonce_notifications = 0,
      dd_pending_target = None, dd_pending_hashrate = None, dd_stable_hashrate = False,
      dd_queued_sv1_handshake_messages = [], dd_pending_share = None, dd_upstream_target = None,
      dd_keepalive_timer_anchor = None, dd_supports_set_extranonce = False\<rparr>"

definition record_job_validation_context ::
  "instant \<Rightarrow> notify \<Rightarrow> downstream_data \<Rightarrow> downstream_data option" where
  "record_job_validation_context now nt d =
     (let d = (if nt_clean_jobs nt then d\<lparr>dd_accepted_share_hashes := []\<rparr> else d);
          context = \<lparr>jc_extranonce = dd_extranonce1 d, jc_extranonce2_len = dd_extranonce2_len d,
                     jc_target = dd_target d\<rparr>
      in case store_activate (nt_job_id nt) context (nt_clean_jobs nt) (dd_job_validation_contexts d) of
           None \<Rightarrow> None
         | Some contexts \<Rightarrow>
             Some (d\<lparr>dd_job_validation_contexts := contexts,
                     dd_keepalive_timer_anchor :=
                       (if dd_pending_set_extranonce_notifications d = 0 then Some now
                        else dd_keepalive_timer_anchor d)\<rparr>))"

definition job_validation_context :: "job_id \<Rightarrow> downstream_data \<Rightarrow> sv1_job_validation_context option" where
  "job_validation_context job_id d = store_get job_id (dd_job_validation_contexts d)"

definition set_pending_target :: "target \<Rightarrow> downstream_data \<Rightarrow> downstream_data" where
  "set_pending_target new_target d = d\<lparr>dd_pending_target := Some new_target\<rparr>"

definition set_pending_hashrate :: "hashrate option \<Rightarrow> downstream_data \<Rightarrow> downstream_data" where
  "set_pending_hashrate new_hashrate d = d\<lparr>dd_pending_hashrate := new_hashrate\<rparr>"

definition set_upstream_target :: "target \<Rightarrow> downstream_data \<Rightarrow> downstream_data" where
  "set_upstream_target upstream_target d = d\<lparr>dd_upstream_target := Some upstream_target\<rparr>"

text \<open>Messages to the miner. The subscribe response carries the extranonce.\<close>

datatype miner_message =
    MSetDifficulty json_message
  | MSetExtranonce set_extranonce
  | MNotify notify
  | MSubscribeResponse bytes nat
  | MOtherResponse

text \<open>\<open>send_job\<close>: the update under the lock, with the messages; \<open>JobRefused\<close> is the disconnection of a
  miner that cannot follow a changed extranonce, \<open>JobDiverges\<close> an endless eviction loop.\<close>

datatype job_messages = JobDiverges | JobRefused | JobMessages "miner_message list" downstream_data

definition take_difficulty :: "downstream_data \<Rightarrow> downstream_data" where
  "take_difficulty d =
     (case dd_cached_set_difficulty d of
        None \<Rightarrow> d
      | Some _ \<Rightarrow>
          d\<lparr>dd_cached_set_difficulty := None,
            dd_target := (case dd_pending_target d of Some t \<Rightarrow> t | None \<Rightarrow> dd_target d),
            dd_pending_target := None,
            dd_hashrate := (case dd_pending_hashrate d of Some h \<Rightarrow> Some h | None \<Rightarrow> dd_hashrate d),
            dd_pending_hashrate := None\<rparr>)"

definition send_job :: "instant \<Rightarrow> notify \<Rightarrow> downstream_data \<Rightarrow> job_messages" where
  "send_job now nt d =
     (if dd_cached_set_extranonce d \<noteq> None \<and> \<not> dd_supports_set_extranonce d then JobRefused
      else
        (case record_job_validation_context now nt ((take_difficulty d)\<lparr>dd_cached_set_extranonce := None\<rparr>) of
           None \<Rightarrow> JobDiverges
         | Some d' \<Rightarrow>
             JobMessages
               ((case dd_cached_set_difficulty d of Some m \<Rightarrow> [MSetDifficulty m] | None \<Rightarrow> []) @
                (case dd_cached_set_extranonce d of Some m \<Rightarrow> [MSetExtranonce m] | None \<Rightarrow> []) @
                [MNotify nt]) d'))"

text \<open>The connection: the shared data, the event queue, what the miner was sent, and whether the
  connection's token is cancelled (its task then ends).\<close>

record sv1_downstream =
  dn_data :: downstream_data
  dn_queue :: "sv1_server_event list"
  dn_sent :: "miner_message list"
  dn_cancelled :: bool

text \<open>Sending, given how many messages get through; a failed send is an error with the action
  \<open>Disconnect\<close>, on which \<open>handle_error_action\<close> cancels the token. The flag of \<open>run_send_job\<close> is false
  on that error.\<close>

definition deliver :: "nat \<Rightarrow> miner_message list \<Rightarrow> sv1_downstream \<Rightarrow> sv1_downstream" where
  "deliver k messages s =
     s\<lparr>dn_sent := dn_sent s @ take k messages,
       dn_cancelled := dn_cancelled s \<or> k < length messages\<rparr>"

definition run_send_job :: "nat \<Rightarrow> instant \<Rightarrow> notify \<Rightarrow> sv1_downstream \<Rightarrow> (bool \<times> sv1_downstream) option" where
  "run_send_job k now nt s =
     (case send_job now nt (dn_data s) of
        JobDiverges \<Rightarrow> None
      | JobRefused \<Rightarrow> Some (True, s\<lparr>dn_cancelled := True\<rparr>)
      | JobMessages messages d \<Rightarrow>
          Some (length messages \<le> k, deliver k messages (s\<lparr>dn_data := d\<rparr>)))"

definition enable_notification_forwarding ::
  "nat \<Rightarrow> instant \<Rightarrow> sv1_downstream \<Rightarrow> sv1_downstream option" where
  "enable_notification_forwarding k now s =
     (let d = dn_data s
      in if is_ready (dd_session_state d) \<or> \<not> setup_complete (dd_session_state d) then Some s
         else
           (case (case dd_cached_notify d of
                    None \<Rightarrow> Some (True, s)
                  | Some nt \<Rightarrow> run_send_job k now nt (s\<lparr>dn_data := d\<lparr>dd_cached_notify := None\<rparr>\<rparr>)) of
              None \<Rightarrow> None
            | Some (False, s') \<Rightarrow> Some s'
            | Some (True, s') \<Rightarrow> Some (s'\<lparr>dn_data := (dn_data s')\<lparr>dd_session_state := Ready\<rparr>\<rparr>)))"

text \<open>\<open>handle_sv1_server_message\<close> on the event at the front of the queue.\<close>

fun handle_sv1_server_event ::
  "nat \<Rightarrow> instant \<Rightarrow> sv1_server_event \<Rightarrow> sv1_downstream \<Rightarrow> sv1_downstream option" where
  "handle_sv1_server_event k now EvSetupComplete s = enable_notification_forwarding k now s"
| "handle_sv1_server_event k now (EvSetDifficulty message) s =
     Some (s\<lparr>dn_data := (dn_data s)\<lparr>dd_cached_set_difficulty := Some message\<rparr>\<rparr>)"
| "handle_sv1_server_event k now (EvNotify nt) s =
     (if is_ready (dd_session_state (dn_data s)) then map_option snd (run_send_job k now nt s)
      else Some (s\<lparr>dn_data := (dn_data s)\<lparr>dd_cached_notify := Some nt\<rparr>\<rparr>))"
| "handle_sv1_server_event k now (EvSetExtranonce message notify_miner) s =
     (let d = dn_data s;
          d = d\<lparr>dd_pending_set_extranonce_notifications := dd_pending_set_extranonce_notifications d - 1\<rparr>;
          d = (if notify_miner
               then d\<lparr>dd_extranonce1 := se_extra_nonce1 message,
                      dd_extranonce2_len := se_extra_nonce2_size message,
                      dd_cached_set_extranonce := Some message\<rparr>
               else d)
      in Some (s\<lparr>dn_data := d\<lparr>dd_cached_notify := None\<rparr>\<rparr>))"

definition handle_sv1_server_message :: "nat \<Rightarrow> instant \<Rightarrow> sv1_downstream \<Rightarrow> sv1_downstream option" where
  "handle_sv1_server_message k now s =
     (case dn_queue s of
        [] \<Rightarrow> Some s
      | event # queue \<Rightarrow> handle_sv1_server_event k now event (s\<lparr>dn_queue := queue\<rparr>))"

section \<open>Server and task\<close>

text \<open>What the handlers of \<open>sv1/sv1_server/mod.rs\<close> do to one miner: the answer to an opened channel, the
  setup responses, and a changed extranonce prefix.\<close>

definition open_channel_success :: "channel_id \<Rightarrow> bytes \<Rightarrow> nat \<Rightarrow> target \<Rightarrow> downstream_data \<Rightarrow> downstream_data" where
  "open_channel_success channel_id extranonce1 extranonce_size initial_target d =
     set_upstream_target initial_target
       (d\<lparr>dd_extranonce1 := extranonce1, dd_extranonce2_len := extranonce_size,
          dd_channel_id := Some channel_id, dd_queued_sv1_handshake_messages := []\<rparr>)"

definition setup_response :: "sv1_setup_request \<Rightarrow> sv1_downstream \<Rightarrow> sv1_downstream" where
  "setup_response request s =
     (let d = dn_data s;
          response = (case request of
             SetupSubscribe \<Rightarrow> MSubscribeResponse (dd_extranonce1 d) (dd_extranonce2_len d)
           | SetupAuthorize \<Rightarrow> MOtherResponse);
          (setup_just_completed, session) = record_response request (dd_session_state d)
      in s\<lparr>dn_data := d\<lparr>dd_session_state := session\<rparr>,
           dn_sent := dn_sent s @ [response],
           dn_queue := dn_queue s @ (if setup_just_completed then [EvSetupComplete] else [])\<rparr>)"

definition handle_upstream_extranonce_change :: "bytes \<Rightarrow> sv1_downstream \<Rightarrow> sv1_downstream" where
  "handle_upstream_extranonce_change extranonce1 s =
     (let d = dn_data s;
          notify_miner = is_subscribed (dd_session_state d);
          d' = d\<lparr>dd_pending_set_extranonce_notifications := dd_pending_set_extranonce_notifications d + 1,
                 dd_keepalive_timer_anchor := None\<rparr>;
          d' = (if notify_miner then d' else d'\<lparr>dd_extranonce1 := extranonce1\<rparr>)
      in s\<lparr>dn_data := d',
           dn_queue := dn_queue s @
             [EvSetExtranonce \<lparr>se_extra_nonce1 = extranonce1, se_extra_nonce2_size = dd_extranonce2_len d\<rparr>
                notify_miner]\<rparr>)"

text \<open>One step of the server or of the task. Requests of the miner are processed only once its channel
  is open. A cancelled connection takes no more steps: its input and output are gone.\<close>

inductive dn_step :: "sv1_downstream \<Rightarrow> sv1_downstream \<Rightarrow> bool" where
  task: "\<not> dn_cancelled s \<Longrightarrow> handle_sv1_server_message k now s = Some s' \<Longrightarrow> dn_step s s'"
| opened: "\<not> dn_cancelled s \<Longrightarrow> dd_channel_id (dn_data s) = None \<Longrightarrow>
    dn_step s (s\<lparr>dn_data := open_channel_success c e n t (dn_data s)\<rparr>)"
| setup_request: "\<not> dn_cancelled s \<Longrightarrow> dd_channel_id (dn_data s) \<noteq> None \<Longrightarrow> dn_step s (setup_response request s)"
| response: "\<not> dn_cancelled s \<Longrightarrow> dd_channel_id (dn_data s) \<noteq> None \<Longrightarrow>
    dn_step s (s\<lparr>dn_sent := dn_sent s @ [MOtherResponse]\<rparr>)"
| supported: "\<not> dn_cancelled s \<Longrightarrow> dd_channel_id (dn_data s) \<noteq> None \<Longrightarrow>
    dn_step s (s\<lparr>dn_data := (dn_data s)\<lparr>dd_supports_set_extranonce := True\<rparr>\<rparr>)"
| extranonce: "\<not> dn_cancelled s \<Longrightarrow> dd_channel_id (dn_data s) \<noteq> None \<Longrightarrow>
    dn_step s (handle_upstream_extranonce_change e s)"
| queue_notify: "\<not> dn_cancelled s \<Longrightarrow> dn_step s (s\<lparr>dn_queue := dn_queue s @ [EvNotify nt]\<rparr>)"
| queue_difficulty: "\<not> dn_cancelled s \<Longrightarrow> dn_step s (s\<lparr>dn_queue := dn_queue s @ [EvSetDifficulty m]\<rparr>)"
| pending: "\<not> dn_cancelled s \<Longrightarrow>
    dn_step s (s\<lparr>dn_data := set_pending_hashrate h (set_pending_target t (dn_data s))\<rparr>)"
| upstream: "\<not> dn_cancelled s \<Longrightarrow> dn_step s (s\<lparr>dn_data := set_upstream_target t (dn_data s)\<rparr>)"
| close: "\<not> dn_cancelled s \<Longrightarrow>
    dn_step s (s\<lparr>dn_data := (dn_data s)\<lparr>dd_channel_id := None\<rparr>, dn_cancelled := True\<rparr>)"

definition connection_new :: "nat \<Rightarrow> hashrate option \<Rightarrow> target \<Rightarrow> nat option \<Rightarrow> sv1_downstream" where
  "connection_new MAX_PAST_JOBS hashrate target max_past =
     \<lparr>dn_data = downstream_data_new MAX_PAST_JOBS hashrate target max_past,
      dn_queue = [], dn_sent = [], dn_cancelled = False\<rparr>"

inductive dn_reach :: "nat \<Rightarrow> nat option \<Rightarrow> sv1_downstream \<Rightarrow> bool" for MAX_PAST_JOBS max_past where
  new: "dn_reach MAX_PAST_JOBS max_past (connection_new MAX_PAST_JOBS hashrate target max_past)"
| step: "dn_reach MAX_PAST_JOBS max_past s \<Longrightarrow> dn_step s s' \<Longrightarrow> dn_reach MAX_PAST_JOBS max_past s'"

section \<open>What the miner knows\<close>

text \<open>The extranonce the miner works with after a list of messages, and the jobs it was given, each with
  the extranonce it had then.\<close>

fun miner_extranonce :: "(bytes \<times> nat) option \<Rightarrow> miner_message list \<Rightarrow> (bytes \<times> nat) option" where
  "miner_extranonce v [] = v"
| "miner_extranonce v (MSubscribeResponse e n # ms) = miner_extranonce (Some (e, n)) ms"
| "miner_extranonce v (MSetExtranonce m # ms) =
     miner_extranonce (Some (se_extra_nonce1 m, se_extra_nonce2_size m)) ms"
| "miner_extranonce v (MSetDifficulty _ # ms) = miner_extranonce v ms"
| "miner_extranonce v (MNotify _ # ms) = miner_extranonce v ms"
| "miner_extranonce v (MOtherResponse # ms) = miner_extranonce v ms"

fun deliveries :: "(bytes \<times> nat) option \<Rightarrow> miner_message list \<Rightarrow> (job_id \<times> (bytes \<times> nat) option \<times> bool) list" where
  "deliveries v [] = []"
| "deliveries v (MNotify nt # ms) = (nt_job_id nt, v, nt_clean_jobs nt) # deliveries v ms"
| "deliveries v (MSubscribeResponse e n # ms) = deliveries (Some (e, n)) ms"
| "deliveries v (MSetExtranonce m # ms) = deliveries (Some (se_extra_nonce1 m, se_extra_nonce2_size m)) ms"
| "deliveries v (MSetDifficulty _ # ms) = deliveries v ms"
| "deliveries v (MOtherResponse # ms) = deliveries v ms"

lemma miner_extranonce_append: "miner_extranonce v (xs @ ys) = miner_extranonce (miner_extranonce v xs) ys"
  by (induction v xs rule: miner_extranonce.induct) simp_all

lemma deliveries_append: "deliveries v (xs @ ys) = deliveries v xs @ deliveries (miner_extranonce v xs) ys"
  by (induction v xs rule: deliveries.induct) simp_all

definition context_view :: "sv1_job_validation_context \<Rightarrow> (bytes \<times> nat) option" where
  "context_view c = Some (jc_extranonce c, jc_extranonce2_len c)"

section \<open>The invariant\<close>

text \<open>The extranonce of the shared data is the one the miner has, or the one it will be given before its
  next job.\<close>

definition extranonce_agrees :: "sv1_downstream \<Rightarrow> bool" where
  "extranonce_agrees s \<longleftrightarrow>
     (let d = dn_data s
      in (dd_cached_set_extranonce d = None \<longrightarrow>
            miner_extranonce None (dn_sent s) = Some (dd_extranonce1 d, dd_extranonce2_len d)) \<and>
         (\<forall>m. dd_cached_set_extranonce d = Some m \<longrightarrow>
            m = \<lparr>se_extra_nonce1 = dd_extranonce1 d, se_extra_nonce2_size = dd_extranonce2_len d\<rparr>))"

text \<open>Before the subscribe response no extranonce change waits for the miner; before the channel opens
  nothing was answered.\<close>

definition dn_session_inv :: "sv1_downstream \<Rightarrow> bool" where
  "dn_session_inv s \<longleftrightarrow>
     (is_subscribed (dd_session_state (dn_data s)) \<longrightarrow> extranonce_agrees s) \<and>
     (\<not> is_subscribed (dd_session_state (dn_data s)) \<longrightarrow>
        dd_cached_set_extranonce (dn_data s) = None \<and>
        list_all (\<lambda>ev. case ev of EvSetExtranonce _ b \<Rightarrow> \<not> b | _ \<Rightarrow> True) (dn_queue s)) \<and>
     (dd_channel_id (dn_data s) = None \<longrightarrow> \<not> is_subscribed (dd_session_state (dn_data s)))"

definition dn_contexts_inv :: "nat \<Rightarrow> sv1_downstream \<Rightarrow> bool" where
  "dn_contexts_inv cap s \<longleftrightarrow>
     store_inv (dd_job_validation_contexts (dn_data s)) \<and>
     max_past_jobs (dd_job_validation_contexts (dn_data s)) = cap \<and>
     map (apsnd context_view) (history (dd_job_validation_contexts (dn_data s))) =
       history_of cap (deliveries None (dn_sent s)) [] \<and>
     list_all (\<lambda>(_, v, _). v \<noteq> None) (deliveries None (dn_sent s))"

definition dn_running_inv :: "nat \<Rightarrow> sv1_downstream \<Rightarrow> bool" where
  "dn_running_inv cap s \<longleftrightarrow> dn_session_inv s \<and> dn_contexts_inv cap s"

lemma history_of_append: "history_of cap (xs @ ys) h = history_of cap ys (history_of cap xs h)"
  by (induction cap xs h rule: history_of.induct) simp_all

lemma map_history_activate:
  "map (apsnd f) (history_activate cap i x clean h) = history_activate cap i (f x) clean (map (apsnd f) h)"
proof -
  have "map (apsnd f) (filter (\<lambda>(j, _). j \<noteq> i) h) = filter (\<lambda>(j, _). j \<noteq> i) (map (apsnd f) h)"
    by (induction h) auto
  then show ?thesis by (simp add: history_activate_def take_map [symmetric])
qed

lemma take_difficulty_simps [simp]:
  "dd_extranonce1 (take_difficulty d) = dd_extranonce1 d"
  "dd_extranonce2_len (take_difficulty d) = dd_extranonce2_len d"
  "dd_job_validation_contexts (take_difficulty d) = dd_job_validation_contexts d"
  "dd_session_state (take_difficulty d) = dd_session_state d"
  "dd_channel_id (take_difficulty d) = dd_channel_id d"
  by (auto simp: take_difficulty_def split: option.splits)

text \<open>A job that is sent: the context recorded for it has the extranonce the miner has then.\<close>

definition context_recorded :: "nat \<Rightarrow> notify \<Rightarrow> downstream_data \<Rightarrow> downstream_data \<Rightarrow> bool" where
  "context_recorded cap nt d d' \<longleftrightarrow>
     store_inv (dd_job_validation_contexts d') \<and> max_past_jobs (dd_job_validation_contexts d') = cap \<and>
     map (apsnd context_view) (history (dd_job_validation_contexts d')) =
       history_activate cap (nt_job_id nt) (Some (dd_extranonce1 d, dd_extranonce2_len d)) (nt_clean_jobs nt)
         (map (apsnd context_view) (history (dd_job_validation_contexts d))) \<and>
     dd_cached_set_extranonce d' = None \<and> dd_extranonce1 d' = dd_extranonce1 d \<and>
     dd_extranonce2_len d' = dd_extranonce2_len d \<and> dd_session_state d' = dd_session_state d \<and>
     dd_channel_id d' = dd_channel_id d"

lemma record_job_validation_context_spec:
  assumes "store_inv (dd_job_validation_contexts d)" and "max_past_jobs (dd_job_validation_contexts d) = cap"
    and "dd_cached_set_extranonce d = None"
  shows "\<exists>d'. record_job_validation_context now nt d = Some d' \<and> context_recorded cap nt d d'"
proof -
  let ?ctx = "\<lparr>jc_extranonce = dd_extranonce1 d, jc_extranonce2_len = dd_extranonce2_len d,
    jc_target = dd_target d\<rparr>"
  obtain st where st: "store_activate (nt_job_id nt) ?ctx (nt_clean_jobs nt) (dd_job_validation_contexts d) = Some st"
    "store_inv st" "max_past_jobs st = cap"
    "history st = history_activate cap (nt_job_id nt) ?ctx (nt_clean_jobs nt) (history (dd_job_validation_contexts d))"
    using store_activate_spec [OF assms(1)] assms(2) by metis
  then show ?thesis
    using assms(3) by (cases "nt_clean_jobs nt")
      (simp_all add: record_job_validation_context_def Let_def context_recorded_def map_history_activate context_view_def)
qed

lemma send_job_spec:
  assumes "store_inv (dd_job_validation_contexts d)" and "max_past_jobs (dd_job_validation_contexts d) = cap"
  obtains (refused) "send_job now nt d = JobRefused"
  | (sent) d' where "context_recorded cap nt d d'"
    "send_job now nt d = JobMessages
      ((case dd_cached_set_difficulty d of Some m \<Rightarrow> [MSetDifficulty m] | None \<Rightarrow> []) @
       (case dd_cached_set_extranonce d of Some m \<Rightarrow> [MSetExtranonce m] | None \<Rightarrow> []) @ [MNotify nt]) d'"
proof (cases "dd_cached_set_extranonce d \<noteq> None \<and> \<not> dd_supports_set_extranonce d")
  case True
  then show ?thesis by (intro refused) (simp add: send_job_def)
next
  case False
  let ?d = "(take_difficulty d)\<lparr>dd_cached_set_extranonce := None\<rparr>"
  obtain d' where "record_job_validation_context now nt ?d = Some d'" "context_recorded cap nt ?d d'"
    using record_job_validation_context_spec [of ?d cap now nt] assms by auto
  with False show ?thesis by (intro sent [of d']) (simp_all add: send_job_def context_recorded_def)
qed

text \<open>Sending keeps the invariant when the messages get through.\<close>

lemma run_send_job_inv:
  assumes inv: "dn_running_inv cap s" and sub: "is_subscribed (dd_session_state (dn_data s))"
  obtains ok s' where "run_send_job k now nt s = Some (ok, s')"
    "dn_cancelled s' \<or> dn_running_inv cap s'"
    "dd_session_state (dn_data s') = dd_session_state (dn_data s)"
proof -
  have agrees: "extranonce_agrees s" and contexts: "dn_contexts_inv cap s"
    using inv sub by (simp_all add: dn_running_inv_def dn_session_inv_def)
  have store: "store_inv (dd_job_validation_contexts (dn_data s))"
    "max_past_jobs (dd_job_validation_contexts (dn_data s)) = cap"
    using contexts by (simp_all add: dn_contexts_inv_def)
  show thesis
  proof (rule send_job_spec [OF store, of now nt])
    assume "send_job now nt (dn_data s) = JobRefused"
    then show thesis by (intro that [of True "s\<lparr>dn_cancelled := True\<rparr>"]) (simp_all add: run_send_job_def)
  next
    fix d'
    let ?msgs = "(case dd_cached_set_difficulty (dn_data s) of Some m \<Rightarrow> [MSetDifficulty m] | None \<Rightarrow> []) @
       (case dd_cached_set_extranonce (dn_data s) of Some m \<Rightarrow> [MSetExtranonce m] | None \<Rightarrow> []) @ [MNotify nt]"
    let ?v = "Some (dd_extranonce1 (dn_data s), dd_extranonce2_len (dn_data s))"
    define msgs where "msgs = ?msgs"
    let ?s = "deliver k msgs (s\<lparr>dn_data := d'\<rparr>)"
    assume rec: "context_recorded cap nt (dn_data s) d'" and "send_job now nt (dn_data s) = JobMessages ?msgs d'"
    then have send: "send_job now nt (dn_data s) = JobMessages msgs d'" by (simp add: msgs_def)
    have view: "miner_extranonce (miner_extranonce None (dn_sent s)) msgs = ?v"
      "deliveries (miner_extranonce None (dn_sent s)) msgs = [(nt_job_id nt, ?v, nt_clean_jobs nt)]"
      using agrees by (auto simp: msgs_def extranonce_agrees_def Let_def split: option.splits)
    have "dn_running_inv cap ?s" if "length msgs \<le> k"
      using that rec contexts sub inv view
      by (simp add: dn_running_inv_def dn_session_inv_def dn_contexts_inv_def deliver_def context_recorded_def
          extranonce_agrees_def Let_def miner_extranonce_append deliveries_append history_of_append)
    then have "dn_cancelled ?s \<or> dn_running_inv cap ?s"
      by (cases "length msgs \<le> k") (simp_all add: deliver_def)
    then show thesis
      using send rec
      by (intro that [of "length msgs \<le> k" ?s]) (simp_all add: run_send_job_def deliver_def context_recorded_def)
  qed
qed

lemmas dn_inv_defs = dn_running_inv_def dn_session_inv_def dn_contexts_inv_def extranonce_agrees_def Let_def

lemma is_ready_subscribed: "is_ready s \<Longrightarrow> is_subscribed s" "setup_complete s \<Longrightarrow> is_subscribed s"
  by (cases s; simp add: is_ready_def)+

lemma enable_notification_forwarding_inv:
  assumes inv: "dn_running_inv cap s"
  obtains s' where "enable_notification_forwarding k now s = Some s'" "dn_cancelled s' \<or> dn_running_inv cap s'"
proof (cases "is_ready (dd_session_state (dn_data s)) \<or> \<not> setup_complete (dd_session_state (dn_data s))")
  case True
  then show ?thesis using inv by (intro that [of s]) (simp_all add: enable_notification_forwarding_def Let_def)
next
  case False
  let ?s = "s\<lparr>dn_data := (dn_data s)\<lparr>dd_cached_notify := None\<rparr>\<rparr>"
  have sub: "is_subscribed (dd_session_state (dn_data s))" using False is_ready_subscribed by blast
  have ready: "dn_running_inv cap (u\<lparr>dn_data := (dn_data u)\<lparr>dd_session_state := Ready\<rparr>\<rparr>)"
    if "dn_running_inv cap u" "is_subscribed (dd_session_state (dn_data u))" for u
    using that by (auto simp: dn_inv_defs)
  have inv': "dn_running_inv cap ?s" using inv by (simp add: dn_inv_defs)
  show ?thesis
  proof (cases "dd_cached_notify (dn_data s)")
    case None
    then show ?thesis using False ready [OF inv sub]
      by (intro that [of "s\<lparr>dn_data := (dn_data s)\<lparr>dd_session_state := Ready\<rparr>\<rparr>"])
        (simp_all add: enable_notification_forwarding_def Let_def)
  next
    case (Some nt)
    obtain ok u where u: "run_send_job k now nt ?s = Some (ok, u)" "dn_cancelled u \<or> dn_running_inv cap u"
      "dd_session_state (dn_data u) = dd_session_state (dn_data s)"
      using run_send_job_inv [OF inv', of k now nt] sub by auto
    let ?u = "u\<lparr>dn_data := (dn_data u)\<lparr>dd_session_state := Ready\<rparr>\<rparr>"
    have "enable_notification_forwarding k now s = Some (if ok then ?u else u)"
      using False Some u(1) by (cases ok) (simp_all add: enable_notification_forwarding_def Let_def)
    moreover have "dn_cancelled ?u \<or> dn_running_inv cap ?u"
      using u sub ready by auto
    ultimately show ?thesis using that u(2) by auto
  qed
qed

text \<open>The task never loops forever, and keeps the invariant.\<close>

lemma handle_sv1_server_message_inv:
  assumes inv: "dn_running_inv cap s"
  obtains s' where "handle_sv1_server_message k now s = Some s'" "dn_cancelled s' \<or> dn_running_inv cap s'"
proof (cases "dn_queue s")
  case Nil
  then show ?thesis using inv by (intro that [of s]) (simp_all add: handle_sv1_server_message_def)
next
  case (Cons ev queue)
  let ?s = "s\<lparr>dn_queue := queue\<rparr>"
  have inv': "dn_running_inv cap ?s" using inv Cons by (auto simp: dn_inv_defs split: if_splits)
  have "\<exists>s'. handle_sv1_server_event k now ev ?s = Some s' \<and> (dn_cancelled s' \<or> dn_running_inv cap s')"
  proof (cases ev)
    case EvSetupComplete
    then show ?thesis using enable_notification_forwarding_inv [OF inv', of k now] by fastforce
  next
    case (EvNotify nt)
    show ?thesis
    proof (cases "is_ready (dd_session_state (dn_data s))")
      case True
      then have "is_subscribed (dd_session_state (dn_data ?s))" using is_ready_subscribed by simp
      then obtain ok u where "run_send_job k now nt ?s = Some (ok, u)" "dn_cancelled u \<or> dn_running_inv cap u"
        using run_send_job_inv [OF inv', of k now nt] by metis
      then show ?thesis using EvNotify True by simp
    qed (use EvNotify inv' in \<open>simp add: dn_inv_defs\<close>)
  next
    case (EvSetDifficulty m)
    then show ?thesis using inv' by (simp add: dn_inv_defs)
  next
    case (EvSetExtranonce m b)
    then show ?thesis using inv Cons by (auto simp: dn_inv_defs split: if_splits)
  qed
  then show ?thesis using Cons that by (auto simp: handle_sv1_server_message_def)
qed

lemma record_response_subscribed:
  "is_subscribed (snd (record_response request s)) \<longleftrightarrow> is_subscribed s \<or> request = SetupSubscribe"
  by (cases s; cases request) (auto simp: Let_def)

lemma setup_response_inv:
  assumes inv: "dn_running_inv cap s" and channel: "dd_channel_id (dn_data s) \<noteq> None"
  shows "dn_running_inv cap (setup_response request s)"
proof -
  obtain completed session where r: "record_response request (dd_session_state (dn_data s)) = (completed, session)"
    by fastforce
  have sub: "is_subscribed session \<longleftrightarrow> is_subscribed (dd_session_state (dn_data s)) \<or> request = SetupSubscribe"
    using record_response_subscribed [of request "dd_session_state (dn_data s)"] r by simp
  show ?thesis
    using inv channel sub r
    by (cases request) (auto simp: setup_response_def dn_inv_defs miner_extranonce_append deliveries_append)
qed

lemma dn_step_inv:
  assumes "dn_step s s'" and "dn_cancelled s \<or> dn_running_inv cap s"
  shows "dn_cancelled s' \<or> dn_running_inv cap s'"
  using assms
proof (induction rule: dn_step.induct)
  case (task s k now s')
  then show ?case using handle_sv1_server_message_inv [of cap s k now] by fastforce
next
  case (setup_request s request)
  then show ?case using setup_response_inv by blast
next
  case (extranonce s e)
  then show ?case by (auto simp: handle_upstream_extranonce_change_def dn_inv_defs)
qed (auto simp: dn_inv_defs open_channel_success_def set_upstream_target_def set_pending_target_def
    set_pending_hashrate_def miner_extranonce_append deliveries_append)

lemma connection_new_inv: "dn_running_inv (store_cap d cap) (connection_new d h t cap)"
  using job_store_new_inv [of d cap]
  by (simp add: dn_inv_defs connection_new_def downstream_data_new_def session_default_def)
    (simp add: job_store_new_def)

lemma dn_reach_inv: "dn_reach d cap s \<Longrightarrow> dn_cancelled s \<or> dn_running_inv (store_cap d cap) s"
proof (induction rule: dn_reach.induct)
  case (new h t)
  then show ?case by (simp add: connection_new_inv)
next
  case (step s s')
  then show ?case using dn_step_inv by blast
qed

lemma map_of_map_apsnd: "map_of (map (apsnd f) xs) i = map_option f (map_of xs i)"
  by (induction xs) auto


text \<open>A run: the channel opens, the miner sets up, a job is queued and delivered.\<close>

definition example_job :: notify where
  "example_job = \<lparr>nt_job_id = ''7'', nt_prev_hash = [], nt_coin_base1 = [], nt_coin_base2 = [],
     nt_merkle_branch = [], nt_version = 2, nt_bits = 0, nt_time = 0, nt_clean_jobs = True\<rparr>"

definition example_ready :: sv1_downstream where
  "example_ready =
     (let s = connection_new 3 None 0 None;
          s = s\<lparr>dn_data := open_channel_success 1 [9, 9] 4 0 (dn_data s)\<rparr>;
          s = setup_response SetupAuthorize (setup_response SetupSubscribe s)
      in s\<lparr>dn_queue := dn_queue s @ [EvNotify example_job]\<rparr>)"

definition example_delivered :: sv1_downstream where
  "example_delivered =
     the (handle_sv1_server_message 3 0 (the (handle_sv1_server_message 3 0 example_ready)))"

lemmas example_defs = example_delivered_def example_ready_def example_job_def connection_new_def
  downstream_data_new_def open_channel_success_def set_upstream_target_def setup_response_def
  session_default_def handle_sv1_server_message_def enable_notification_forwarding_def is_ready_def
  run_send_job_def send_job_def take_difficulty_def record_job_validation_context_def job_store_new_def
  store_activate_def store_clear_def deliver_def Let_def

lemma example_ready_reach: "dn_reach 3 None example_ready"
proof -
  let ?s0 = "connection_new 3 None 0 None"
  let ?s1 = "?s0\<lparr>dn_data := open_channel_success 1 [9, 9] 4 0 (dn_data ?s0)\<rparr>"
  have "dn_reach 3 None ?s1"
    by (rule dn_reach.step [OF dn_reach.new dn_step.opened]) (simp_all add: example_defs)
  from dn_reach.step [OF this dn_step.setup_request [of _ SetupSubscribe]]
  have "dn_reach 3 None (setup_response SetupSubscribe ?s1)" by (simp add: example_defs)
  from dn_reach.step [OF this dn_step.setup_request [of _ SetupAuthorize]]
  have "dn_reach 3 None (setup_response SetupAuthorize (setup_response SetupSubscribe ?s1))"
    by (simp add: example_defs)
  from dn_reach.step [OF this dn_step.queue_notify [of _ example_job]]
  show ?thesis by (simp add: example_defs)
qed

lemma example_delivered_reach: "dn_reach 3 None example_delivered"
proof -
  let ?s = "the (handle_sv1_server_message 3 0 example_ready)"
  have "dn_reach 3 None ?s"
    by (rule dn_reach.step [OF example_ready_reach dn_step.task]) (simp_all add: example_defs)
  then show ?thesis unfolding example_delivered_def
    by (rule dn_reach.step [OF _ dn_step.task [of _ 3 0]]) (simp_all add: example_defs)
qed


end
