(* ===== verification/Sv1_Share.thy ===== *)
theory Sv1_Share
  imports Bitcoin_Lib Sv1_Downstream
begin

unbundle bit_operations_syntax

text \<open>
  \<open>miner-apps/translator/src/lib/utils.rs\<close> and the error type of \<open>error.rs\<close>: the validation of an SV1
  share against the job it was mined on, and the worker names the translator derives from SV1 user names.
  The functions of \<open>channels_sv2\<close>, \<open>sv1_api\<close>, \<open>stratum_translation\<close> and \<open>bitcoin\<close> that the translator
  calls are the fields of the record \<open>sv1_lib\<close>. A Rust string is its UTF-8 bytes.
\<close>

section \<open>Errors\<close>

text \<open>The kinds of error; what a library's error value carries is left out.\<close>

datatype tproxy_error_kind =
    SV1Error
  | NetworkHelpersError
  | TpParserError
  | BadCliArgs
  | BadSerdeJson
  | BadConfigDeserialize
  | TpBinarySv2
  | CodecNoise
  | FramingSv2
  | TpIo
  | TpParseInt
  | TpPoisonLock
  | ChannelErrorReceiver
  | ChannelErrorSender
  | Sv1HandshakeMessageQueueFull
  | Sv1RequestBeforeSetup
  | TpTimeout
  | SetDifficultyToMessage
  | TpUnexpectedMessage u16 u8
  | InvalidUserIdentityName bytes
  | TpJobNotFound
  | InvalidMerkleRoot
  | PendingChannelNotFound u32
  | RequiredExtensionsNotSupported "u16 list"
  | ServerRequiresUnsupportedExtensions "u16 list"
  | TpGeneral
  | TranslatorCore
  | RequestIdNotFound request_id
  | TpTlvError
  | TpSetupConnectionError
  | OpenMiningChannelError
  | CouldNotInitiateSystem
  | DownstreamNotFoundWithChannelId channel_id
  | ChannelNotFound
  | ChannelIdAlreadyInUse channel_id
  | FailedToProcessSetNewPrevHash
  | FailedToProcessNewExtendedMiningJob
  | FailedToProcessSetTarget
  | VersionRollingNotAllowed
  | FailedToAddChannelIdToGroupChannel
  | AggregatedChannelClosed
  | MissingAggregatedExtranonceAllocator
  | InvalidExtranonceSize nat u16
  | AggregatedExtranonceAllocatorUpdateFailed
  | UpstreamExtranoncePrefixUpdateFailed channel_id
  | InvalidKey
  | DownstreamNotPresent downstream_id
  | PayoutVerificationFailed

datatype tproxy_action = TpLog | TpDisconnect downstream_id | TpFallback | TpShutdown

record tproxy_error =
  tp_kind :: tproxy_error_kind
  tp_action :: tproxy_action

definition tp_log :: "tproxy_error_kind \<Rightarrow> tproxy_error" where
  "tp_log kind = \<lparr>tp_kind = kind, tp_action = TpLog\<rparr>"

definition tp_disconnect :: "tproxy_error_kind \<Rightarrow> downstream_id \<Rightarrow> tproxy_error" where
  "tp_disconnect kind d = \<lparr>tp_kind = kind, tp_action = TpDisconnect d\<rparr>"

definition tp_fallback :: "tproxy_error_kind \<Rightarrow> tproxy_error" where
  "tp_fallback kind = \<lparr>tp_kind = kind, tp_action = TpFallback\<rparr>"

definition tp_shutdown :: "tproxy_error_kind \<Rightarrow> tproxy_error" where
  "tp_shutdown kind = \<lparr>tp_kind = kind, tp_action = TpShutdown\<rparr>"

definition with_sv1_downstream_context :: "downstream_id \<Rightarrow> tproxy_error \<Rightarrow> tproxy_error" where
  "with_sv1_downstream_context d e =
     (if tp_kind e = SV1Error \<and> tp_action e = TpLog then e\<lparr>tp_action := TpDisconnect d\<rparr> else e)"

section \<open>Share validation\<close>

record sv1_lib =
  VERSION_ROLLING_MASK :: u32
  MAX_SEEN_SHARES :: nat
  u256_of_bytes :: "bytes \<Rightarrow> block_hash option"
  merkle_root_from_path :: "bytes \<Rightarrow> bytes \<Rightarrow> bytes \<Rightarrow> bytes list \<Rightarrow> merkle_node option"
  block_hash :: "header \<Rightarrow> block_hash"
  target_of_hash :: "block_hash \<Rightarrow> target"

datatype sv1_share_validation_outcome = MeetsTarget hash | DoesNotMeetTarget

definition rolled_version :: "u32 \<Rightarrow> u32 \<Rightarrow> u32 \<Rightarrow> u32" where
  "rolled_version m job_version share_version =
     (job_version AND NOT m) OR (share_version AND m)"

definition share_header ::
  "'m sv1_lib_scheme \<Rightarrow> submit \<Rightarrow> u32 option \<Rightarrow> notify \<Rightarrow> block_hash \<Rightarrow> merkle_node \<Rightarrow> header" where
  "share_header L share version_rolling_mask job prev_hash merkle_root =
     (let share_version = (case sb_version_bits share of Some vb \<Rightarrow> vb | None \<Rightarrow> nt_version job);
          m = (case version_rolling_mask of Some vm \<Rightarrow> vm | None \<Rightarrow> VERSION_ROLLING_MASK L)
      in \<lparr>hdr_version = rolled_version m (nt_version job) share_version,
          hdr_prev_blockhash = prev_hash, hdr_merkle_root = merkle_root, hdr_time = sb_time share,
          hdr_bits = nt_bits job, hdr_nonce = sb_nonce share\<rparr>)"

definition validate_sv1_share ::
  "'m sv1_lib_scheme \<Rightarrow> submit \<Rightarrow> target \<Rightarrow> bytes \<Rightarrow> u32 option \<Rightarrow> notify \<Rightarrow>
   (tproxy_error_kind, sv1_share_validation_outcome) result" where
  "validate_sv1_share L share target extranonce1 version_rolling_mask job =
     (let full_extranonce = extranonce1 @ sb_extra_nonce2 share
      in case u256_of_bytes L (nt_prev_hash job) of
           None \<Rightarrow> Err TpBinarySv2
         | Some prev_hash \<Rightarrow>
             (case merkle_root_from_path L (nt_coin_base1 job) (nt_coin_base2 job) full_extranonce
                     (nt_merkle_branch job) of
                None \<Rightarrow> Err InvalidMerkleRoot
              | Some merkle_root \<Rightarrow>
                  (let hash = block_hash L (share_header L share version_rolling_mask job prev_hash merkle_root)
                   in if target_of_hash L hash < target then Ok (MeetsTarget hash)
                      else Ok DoesNotMeetTarget)))"

text \<open>A miner can only change the version bits of the mask.\<close>

lemma rolled_version_bit:
  "bit (rolled_version m j v) n = (if bit m n then bit v n else bit j n \<and> n < 32)"
  by (auto simp: rolled_version_def bit_or_iff bit_and_iff bit_not_iff dest: bit_imp_le_length)

lemma rolled_version_outside: "rolled_version m j v AND NOT m = j AND NOT m"
  by (rule bit_word_eqI) (auto simp: rolled_version_def bit_or_iff bit_and_iff bit_not_iff)

lemma rolled_version_no_bits [simp]: "rolled_version m j j = j"
  by (rule bit_word_eqI) (auto simp: rolled_version_def bit_or_iff bit_and_iff bit_not_iff)

section \<open>Names\<close>

text \<open>\<open>split_once\<close>: the parts before and after the first occurrence of a character.\<close>

fun split_once :: "'a \<Rightarrow> 'a list \<Rightarrow> ('a list \<times> 'a list) option" where
  "split_once c [] = None"
| "split_once c (x # xs) =
     (if x = c then Some ([], xs)
      else case split_once c xs of None \<Rightarrow> None | Some (a, b) \<Rightarrow> Some (x # a, b))"

lemma split_once_None: "split_once c xs = None \<longleftrightarrow> c \<notin> set xs"
  by (induction xs) (auto split: option.split)

lemma split_once_append: "c \<notin> set a \<Longrightarrow> split_once c (a @ c # b) = Some (a, b)"
  by (induction a) auto

lemma split_once_SomeD: "split_once c xs = Some (a, b) \<Longrightarrow> c \<notin> set a \<and> xs = a @ c # b"
  by (induction xs arbitrary: a) (auto split: if_splits option.splits)

definition sv1_worker_name_from_sv1_username :: "string \<Rightarrow> string" where
  "sv1_worker_name_from_sv1_username sv1_username =
     (case split_once CHR ''.'' sv1_username of
        Some (_, worker_name) \<Rightarrow> if worker_name \<noteq> [] then worker_name else sv1_username
      | None \<Rightarrow> sv1_username)"

definition aggregated_upstream_user_identity :: "string \<Rightarrow> string" where
  "aggregated_upstream_user_identity user_identity =
     (if starts_with user_identity ''sri/'' then user_identity
      else case split_once CHR ''.'' user_identity of
             Some (account, _) \<Rightarrow> account @ ''.translator-proxy''
           | None \<Rightarrow> user_identity @ ''.translator-proxy'')"

text \<open>\<open>str::is_char_boundary\<close> and the loop that truncates a name for the extension's TLV;
  \<open>UserIdentity::new\<close> is the argument \<open>new_identity\<close>.\<close>

definition is_char_boundary :: "bytes \<Rightarrow> nat \<Rightarrow> bool" where
  "is_char_boundary s i =
     (i = 0 \<or> i = length s \<or> i < length s \<and> (s ! i) AND 0xC0 \<noteq> 0x80)"

fun truncation_end :: "bytes \<Rightarrow> nat \<Rightarrow> nat" where
  "truncation_end s 0 = 0"
| "truncation_end s (Suc e) = (if is_char_boundary s (Suc e) then Suc e else truncation_end s e)"

definition tlv_user_identity_from_sv1_worker_name ::
  "nat \<Rightarrow> (bytes \<Rightarrow> 'u option) \<Rightarrow> bytes \<Rightarrow> (tproxy_error_kind, 'u) result" where
  "tlv_user_identity_from_sv1_worker_name MAX_USER_IDENTITY_LENGTH new_identity sv1_worker_name =
     (let name = (if length sv1_worker_name \<le> MAX_USER_IDENTITY_LENGTH then sv1_worker_name
                  else take (truncation_end sv1_worker_name MAX_USER_IDENTITY_LENGTH) sv1_worker_name)
      in case new_identity name of None \<Rightarrow> Err (InvalidUserIdentityName name) | Some u \<Rightarrow> Ok u)"

lemma truncation_end_spec:
  "truncation_end s n \<le> n \<and> is_char_boundary s (truncation_end s n) \<and>
   (\<forall>e. truncation_end s n < e \<and> e \<le> n \<longrightarrow> \<not> is_char_boundary s e)"
proof (induction n)
  case (Suc n)
  then show ?case by (auto simp: le_Suc_eq)
qed (auto simp: is_char_boundary_def)

end
