(* ===== verification/Chains.thy ===== *)
theory Chains
  imports Sv2_Prelude
begin

text \<open>
  Handlers that can stop at several points. A handler ends with a value, with an error of its
  application, or in a panic, and always leaves a state; \<open>and_then\<close> goes on only after a value, as the \<open>?\<close>
  of the source does. The state reached before an error is kept, because the mutations made before it
  are.
\<close>

datatype ('e, 'a) attempt = Done 'a | Failed 'e | Panicked

definition and_then ::
  "('e, 'a) attempt \<times> 's \<Rightarrow> ('a \<Rightarrow> 's \<Rightarrow> ('e, 'b) attempt \<times> 's) \<Rightarrow> ('e, 'b) attempt \<times> 's" where
  "and_then r k =
     (case r of
        (Done x, s) \<Rightarrow> k x s
      | (Failed e, s) \<Rightarrow> (Failed e, s)
      | (Panicked, s) \<Rightarrow> (Panicked, s))"

primrec each :: "('x \<Rightarrow> 's \<Rightarrow> ('e, unit) attempt \<times> 's) \<Rightarrow> 'x list \<Rightarrow> 's \<Rightarrow> ('e, unit) attempt \<times> 's" where
  "each f [] s = (Done (), s)"
| "each f (x # xs) s = and_then (f x s) (\<lambda>_. each f xs)"

text \<open>The same, with the messages of the steps collected in order.\<close>

primrec collect :: "('x \<Rightarrow> 's \<Rightarrow> ('e, 'm list) attempt \<times> 's) \<Rightarrow> 'x list \<Rightarrow> 's \<Rightarrow> ('e, 'm list) attempt \<times> 's" where
  "collect f [] s = (Done [], s)"
| "collect f (x # xs) s = and_then (f x s) (\<lambda>ms s. and_then (collect f xs s) (\<lambda>ms' s. (Done (ms @ ms'), s)))"

text \<open>The two lifts of a value that may be missing.\<close>

definition or_fail :: "'e \<Rightarrow> 'a option \<Rightarrow> 's \<Rightarrow> ('e, 'a) attempt \<times> 's" where
  "or_fail e v s = (case v of Some x \<Rightarrow> (Done x, s) | None \<Rightarrow> (Failed e, s))"

definition expect :: "'a option \<Rightarrow> 's \<Rightarrow> ('e, 'a) attempt \<times> 's" where
  "expect v s = (case v of Some x \<Rightarrow> (Done x, s) | None \<Rightarrow> (Panicked, s))"

lemma and_then_simps [simp]:
  "and_then (Done x, s) k = k x s"
  "and_then (Failed e, s) k = (Failed e, s)"
  "and_then (Panicked, s) k = (Panicked, s)"
  by (simp_all add: and_then_def)

lemma and_then_Done:
  "and_then r k = (Done y, s') \<longleftrightarrow> (\<exists>x s. r = (Done x, s) \<and> k x s = (Done y, s'))"
  by (cases r rule: prod.exhaust; cases "fst r") (auto simp: and_then_def split: attempt.splits)

lemma or_fail_simps [simp]: "or_fail e (Some x) s = (Done x, s)" "or_fail e None s = (Failed e, s)"
  by (simp_all add: or_fail_def)

lemma expect_simps [simp]: "expect (Some x) s = (Done x, s)" "expect None s = (Panicked, s)"
  by (simp_all add: expect_def)

lemma snd_or_fail [simp]: "snd (or_fail e v s) = s" by (simp add: or_fail_def split: option.split)
lemma snd_expect [simp]: "snd (expect v s) = s" by (simp add: expect_def split: option.split)

text \<open>A relation between the states before and after is kept along a chain when it is reflexive and
  transitive.\<close>

locale kept_relation =
  fixes R :: "'s \<Rightarrow> 's \<Rightarrow> bool"
  assumes refl: "R s s" and trans: "R a b \<Longrightarrow> R b c \<Longrightarrow> R a c"
begin

lemma kept_and_then:
  assumes "R s (snd r)" and "\<And>x. R (snd r) (snd (k x (snd r)))"
  shows "R s (snd (and_then r k))"
  using assms trans by (cases r; cases "fst r") (auto simp: and_then_def split: attempt.splits)

lemma kept_each:
  assumes "\<And>x s. R s (snd (f x s))"
  shows "R s (snd (each f xs s))"
proof (induction xs arbitrary: s)
  case (Cons x xs)
  show ?case unfolding each.simps by (rule kept_and_then) (rule assms Cons.IH)+
qed (simp add: refl)

lemma kept_collect:
  assumes "\<And>x s. R s (snd (f x s))"
  shows "R s (snd (collect f xs s))"
proof (induction xs arbitrary: s)
  case (Cons x xs)
  have rest: "R t (snd (and_then (collect f xs t) (\<lambda>ms' s. (Done (ms @ ms'), s))))" for t ms
    by (rule kept_and_then) (simp_all add: Cons.IH refl)
  show ?case unfolding collect.simps by (rule kept_and_then) (rule assms rest)+
qed (simp add: refl)

lemma kept_or_fail: "R s (snd (or_fail e v s))" by (simp add: refl)

lemma kept_expect: "R s (snd (expect v s))" by (simp add: refl)

lemma kept_here: "R s (snd (out, s))" by (simp add: refl)

lemma kept_if: "(c \<Longrightarrow> R s (snd a)) \<Longrightarrow> (\<not> c \<Longrightarrow> R s (snd b)) \<Longrightarrow> R s (snd (if c then a else b))"
  by simp

lemma kept_case_option:
  "(v = None \<Longrightarrow> R s (snd a)) \<Longrightarrow> (\<And>x. v = Some x \<Longrightarrow> R s (snd (f x))) \<Longrightarrow>
   R s (snd (case v of None \<Rightarrow> a | Some x \<Rightarrow> f x))"
  by (cases v) simp_all

lemma kept_case_prod:
  "(\<And>a b. p = (a, b) \<Longrightarrow> R s (snd (f a b s'))) \<Longrightarrow> R s (snd ((case p of (a, b) \<Rightarrow> f a b) s'))"
  by (cases p) simp

text \<open>The same from a state that already differs from the first one.\<close>

lemma kept_after: "R a s \<Longrightarrow> R s (snd (f s)) \<Longrightarrow> R a (snd (f s))"
  by (rule trans)

lemma kept_each_after: "R a s \<Longrightarrow> (\<And>x s. R s (snd (f x s))) \<Longrightarrow> R a (snd (each f xs s))"
  by (rule trans [OF _ kept_each])

lemma kept_or_fail_after: "R a s \<Longrightarrow> R a (snd (or_fail e v s))" by simp

lemma kept_expect_after: "R a s \<Longrightarrow> R a (snd (expect v s))" by simp

lemma kept_here_after: "R a s \<Longrightarrow> R a (snd (out, s))" by simp

lemmas kept_after_rules =
  kept_and_then kept_each_after kept_or_fail_after kept_expect_after kept_here_after kept_if kept_case_option kept_case_prod

lemmas kept_rules = kept_and_then kept_each kept_or_fail kept_expect kept_here kept_if kept_case_option kept_case_prod

end

end
