(* ===== verification/Sv1_Server.thy ===== *)
theory Sv1_Server
  imports Sv1_Share Chains
begin

text \<open>
  \<open>miner-apps/translator/src/lib/sv1/sv1_server/mod.rs\<close> and \<open>downstream_message_handler.rs\<close>: the SV1
  server of the translator. It registers miners, opens an SV2 channel for each, translates upstream jobs
  to SV1 jobs, checks and forwards shares, forwards the upstream's difficulty when the translator does not
  manage it, and keeps idle miners alive with jobs of a later time.

  The shared maps are maps; a miner's entry of \<open>downstreams\<close> is the connection of \<open>Sv1_Downstream\<close>, whose
  queue stands for the channel behind its sender. What a handler meets outside the server is the record
  \<open>sv1_env\<close>: the time, whose queues still have a reader, whether the channel manager still reads, and the
  order in which a map is visited. A handler returns its outcome and the server, in which \<open>srv_out\<close>
  collects the messages to the channel manager. A handler runs as one step.
\<close>

section \<open>State\<close>

datatype tproxy_mode = Aggregated | NonAggregated

definition tproxy_mode_from :: "bool \<Rightarrow> tproxy_mode" where
  "tproxy_mode_from value = (if value then Aggregated else NonAggregated)"

definition is_aggregated :: "tproxy_mode \<Rightarrow> bool" where
  "is_aggregated m = (m = Aggregated)"

definition is_non_aggregated :: "tproxy_mode \<Rightarrow> bool" where
  "is_non_aggregated m = (m = NonAggregated)"

definition AGGREGATED_CHANNEL_ID :: channel_id where
  "AGGREGATED_CHANNEL_ID = - 1"

definition MAX_FUTURE_BLOCK_TIME :: u32 where
  "MAX_FUTURE_BLOCK_TIME = 2 * 60 * 60"

definition MAX_QUEUED_SV1_HANDSHAKE_MESSAGES :: nat where
  "MAX_QUEUED_SV1_HANDSHAKE_MESSAGES = 8"

record stored_sv1_job =
  sj_notify :: notify
  sj_keepalive_base_time :: u32

definition stored_upstream_job :: "notify \<Rightarrow> stored_sv1_job" where
  "stored_upstream_job nt = \<lparr>sj_notify = nt, sj_keepalive_base_time = nt_time nt\<rparr>"

datatype to_channel_manager =
    OutUpdateChannel channel_id hashrate target
  | OutCloseChannel channel_id
  | OutSubmitShares submit_shares_extended "string option"
  | OutOpenChannel open_channel_msg

text \<open>The functions of \<open>channels_sv2\<close> and \<open>stratum_translation\<close> the server calls; a variable-difficulty
  state is a value of a type of theirs.\<close>

record 'v server_lib = sv1_lib +
  MAX_PAST_JOBS :: nat
  hash_rate_to_target :: "hashrate \<Rightarrow> hashrate \<Rightarrow> target option"
  hash_rate_from_target :: "target \<Rightarrow> hashrate \<Rightarrow> hashrate option"
  hashrate_add :: "hashrate \<Rightarrow> hashrate \<Rightarrow> hashrate"
  build_set_difficulty :: "target \<Rightarrow> json_message option"
  advertised_target :: "target \<Rightarrow> target option"
  vardiff_new :: 'v
  increment_shares :: "'v \<Rightarrow> 'v"
  try_vardiff :: "'v \<Rightarrow> hashrate \<Rightarrow> target \<Rightarrow> hashrate \<Rightarrow> (unit, hashrate option) result \<times> 'v"
  build_notify :: "set_new_prev_hash \<Rightarrow> new_extended_mining_job \<Rightarrow> bool \<Rightarrow> notify option"
  build_submit_shares :: "submit \<Rightarrow> channel_id \<Rightarrow> u32 \<Rightarrow> u32 \<Rightarrow> u32 option \<Rightarrow> submit_shares_extended option"
  build_open_channel :: "open_channel_msg \<Rightarrow> open_channel_msg option"

record 'v sv1_server =
  srv_mode :: tproxy_mode
  srv_shares_per_minute :: hashrate
  srv_min_hashrate :: hashrate
  srv_enable_vardiff :: bool
  srv_max_past_jobs :: "nat option"
  srv_extranonce2_size :: u16
  srv_user_identity :: "string option"
  srv_sequence_counter :: u32
  srv_miner_counter :: u32
  srv_keepalive_job_id_counter :: u32
  srv_aggregated_job_mutation_time :: "instant option"
  srv_downstream_id_factory :: downstream_id
  srv_request_id_factory :: request_id
  srv_downstreams :: "downstream_id \<rightharpoonup> sv1_downstream"
  srv_senders :: "downstream_id set"
  srv_request_id_to_downstream_id :: "request_id \<rightharpoonup> downstream_id"
  srv_channel_id_to_downstream_id :: "channel_id \<rightharpoonup> downstream_id"
  srv_vardiff :: "downstream_id \<rightharpoonup> 'v"
  srv_prevhashes :: "channel_id \<rightharpoonup> set_new_prev_hash"
  srv_pending_target_updates :: "downstream_id \<rightharpoonup> target"
  srv_valid_sv1_jobs :: "channel_id \<rightharpoonup> stored_sv1_job sv1_job_store"
  srv_out :: "to_channel_manager list"

record sv1_env =
  env_now :: instant
  env_alive :: "downstream_id \<Rightarrow> bool"
  env_manager_open :: bool
  env_visit :: "downstream_id list"

type_synonym 'a outcome = "(tproxy_error, 'a) attempt"

definition sv1_server_new ::
  "tproxy_mode \<Rightarrow> hashrate \<Rightarrow> hashrate \<Rightarrow> bool \<Rightarrow> nat option \<Rightarrow> u16 \<Rightarrow> 'v sv1_server" where
  "sv1_server_new mode shares_per_minute min_hashrate enable_vardiff max_past extranonce2_size =
     \<lparr>srv_mode = mode, srv_shares_per_minute = shares_per_minute, srv_min_hashrate = min_hashrate,
      srv_enable_vardiff = enable_vardiff, srv_max_past_jobs = max_past,
      srv_extranonce2_size = extranonce2_size, srv_user_identity = None,
      srv_sequence_counter = 1, srv_miner_counter = 0, srv_keepalive_job_id_counter = 0,
      srv_aggregated_job_mutation_time = None, srv_downstream_id_factory = 1, srv_request_id_factory = 1,
      srv_downstreams = Map.empty, srv_senders = {},
      srv_request_id_to_downstream_id = Map.empty, srv_channel_id_to_downstream_id = Map.empty,
      srv_vardiff = Map.empty, srv_prevhashes = Map.empty, srv_pending_target_updates = Map.empty,
      srv_valid_sv1_jobs = Map.empty, srv_out = []\<rparr>"

section \<open>Sending and looking up\<close>

definition update_connection ::
  "downstream_id \<Rightarrow> (sv1_downstream \<Rightarrow> sv1_downstream) \<Rightarrow> 'v sv1_server \<Rightarrow> 'v sv1_server" where
  "update_connection d f s =
     (case srv_downstreams s d of
        None \<Rightarrow> s
      | Some c \<Rightarrow> s\<lparr>srv_downstreams := (srv_downstreams s)(d \<mapsto> f c)\<rparr>)"

definition update_data ::
  "downstream_id \<Rightarrow> (downstream_data \<Rightarrow> downstream_data) \<Rightarrow> 'v sv1_server \<Rightarrow> 'v sv1_server" where
  "update_data d f = update_connection d (\<lambda>c. c\<lparr>dn_data := f (dn_data c)\<rparr>)"

text \<open>\<open>with_registered_downstream\<close> for an access that returns a value.\<close>

definition with_registered_downstream ::
  "downstream_id \<Rightarrow> (downstream_data \<Rightarrow> 'a) \<Rightarrow> 'v sv1_server \<Rightarrow> (tproxy_error, 'a) result" where
  "with_registered_downstream d f s =
     (case srv_downstreams s d of
        Some c \<Rightarrow> Ok (f (dn_data c))
      | None \<Rightarrow> Err (tp_disconnect (DownstreamNotPresent d) d))"

text \<open>A send on a miner's event queue.\<close>

datatype send_outcome = NoSender | SendFailed | SendOk

definition send_event ::
  "sv1_env \<Rightarrow> downstream_id \<Rightarrow> sv1_server_event \<Rightarrow> 'v sv1_server \<Rightarrow> send_outcome \<times> 'v sv1_server" where
  "send_event env d ev s =
     (if d \<notin> srv_senders s then (NoSender, s)
      else if env_alive env d
      then (SendOk, update_connection d (\<lambda>c. c\<lparr>dn_queue := dn_queue c @ [ev]\<rparr>) s)
      else (SendFailed, s))"

definition send_to_manager ::
  "sv1_env \<Rightarrow> to_channel_manager \<Rightarrow> 'v sv1_server \<Rightarrow> bool \<times> 'v sv1_server" where
  "send_to_manager env m s =
     (if env_manager_open env then (True, s\<lparr>srv_out := srv_out s @ [m]\<rparr>) else (False, s))"

definition manager_outcome :: "bool \<Rightarrow> unit outcome" where
  "manager_outcome ok = (if ok then Done () else Failed (tp_shutdown ChannelErrorSender))"

text \<open>\<open>send_to_channel\<close>: a job for one channel, or for every miner.\<close>

fun broadcast :: "sv1_env \<Rightarrow> downstream_id list \<Rightarrow> sv1_server_event \<Rightarrow> 'v sv1_server \<Rightarrow> 'v sv1_server" where
  "broadcast env [] ev s = s"
| "broadcast env (d # ds) ev s = broadcast env ds ev (snd (send_event env d ev s))"

definition send_to_channel :: "sv1_env \<Rightarrow> channel_id \<Rightarrow> notify \<Rightarrow> 'v sv1_server \<Rightarrow> 'v sv1_server" where
  "send_to_channel env channel_id msg s =
     (if channel_id = AGGREGATED_CHANNEL_ID then broadcast env (env_visit env) (EvNotify msg) s
      else case srv_channel_id_to_downstream_id s channel_id of
             None \<Rightarrow> s
           | Some d \<Rightarrow> snd (send_event env d (EvNotify msg) s))"

definition server_cleanup :: "'v sv1_server \<Rightarrow> 'v sv1_server" where
  "server_cleanup s =
     s\<lparr>srv_prevhashes := Map.empty, srv_valid_sv1_jobs := Map.empty,
       srv_aggregated_job_mutation_time := None,
       srv_vardiff := (if srv_enable_vardiff s then Map.empty else srv_vardiff s),
       srv_downstreams := Map.empty, srv_channel_id_to_downstream_id := Map.empty,
       srv_request_id_to_downstream_id := Map.empty, srv_pending_target_updates := Map.empty,
       srv_senders := {}\<rparr>"

text \<open>The branch of \<open>start\<close> that accepts a connection; \<open>first_target\<close> is the target of the configured
  minimum hashrate.\<close>

definition accept_miner :: "'v server_lib \<Rightarrow> target \<Rightarrow> 'v sv1_server \<Rightarrow> 'v sv1_server" where
  "accept_miner L first_target s =
     (let d = srv_downstream_id_factory s
      in s\<lparr>srv_downstream_id_factory := d + 1,
           srv_senders := insert d (srv_senders s),
           srv_downstreams := (srv_downstreams s)(d \<mapsto>
             connection_new (MAX_PAST_JOBS L) (Some (srv_min_hashrate s)) first_target (srv_max_past_jobs s))\<rparr>)"

section \<open>Jobs and keepalives\<close>

text \<open>\<open>u32::to_string\<close>.\<close>

fun show_nat :: "nat \<Rightarrow> string" where
  "show_nat n = (if n < 10 then [char_of (48 + n)] else show_nat (n div 10) @ [char_of (48 + n mod 10)])"

declare show_nat.simps [simp del]

definition show_u32 :: "u32 \<Rightarrow> string" where
  "show_u32 w = show_nat (unat w)"

definition KEEPALIVE_JOB_ID_DELIMITER :: char where
  "KEEPALIVE_JOB_ID_DELIMITER = CHR ''#''"

definition next_keepalive_job_id :: "job_id \<Rightarrow> 'v sv1_server \<Rightarrow> job_id \<times> 'v sv1_server" where
  "next_keepalive_job_id original_job_id s =
     (original_job_id @ [KEEPALIVE_JOB_ID_DELIMITER] @ show_u32 (srv_keepalive_job_id_counter s),
      s\<lparr>srv_keepalive_job_id_counter := srv_keepalive_job_id_counter s + 1\<rparr>)"

definition extract_original_job_id :: "job_id \<Rightarrow> job_id option" where
  "extract_original_job_id job_id = map_option fst (split_once KEEPALIVE_JOB_ID_DELIMITER job_id)"

definition is_keepalive_job_id :: "job_id \<Rightarrow> bool" where
  "is_keepalive_job_id job_id = (KEEPALIVE_JOB_ID_DELIMITER \<in> set job_id)"

definition resolve_channel_id :: "channel_id \<Rightarrow> 'v sv1_server \<Rightarrow> channel_id" where
  "resolve_channel_id channel_id s =
     (if is_aggregated (srv_mode s) then AGGREGATED_CHANNEL_ID else channel_id)"

definition get_last_job :: "channel_id \<Rightarrow> 'v sv1_server \<Rightarrow> stored_sv1_job option" where
  "get_last_job channel_id s =
     (case srv_valid_sv1_jobs s (resolve_channel_id channel_id s) of
        None \<Rightarrow> None
      | Some jobs \<Rightarrow> store_active jobs)"

text \<open>\<open>u32::saturating_add\<close>.\<close>

definition saturating_add :: "u32 \<Rightarrow> u32 \<Rightarrow> u32" where
  "saturating_add a b = (if unat a + unat b < 2 ^ 32 then a + b else - 1)"

text \<open>\<open>create_keepalive_job\<close>. The inner \<open>None\<close> is the source's; the outer one is an eviction loop that
  does not end.\<close>

definition create_keepalive_job ::
  "channel_id \<Rightarrow> u16 \<Rightarrow> 'v sv1_server \<Rightarrow> (notify option \<times> 'v sv1_server) option" where
  "create_keepalive_job channel_id keepalive_interval_secs s =
     (case get_last_job channel_id s of
        None \<Rightarrow> Some (None, s)
      | Some last_job \<Rightarrow>
          (let nt = sj_notify last_job;
               original_job_id = (case extract_original_job_id (nt_job_id nt) of
                                    Some original \<Rightarrow> original | None \<Rightarrow> nt_job_id nt);
               base_time = sj_keepalive_base_time last_job;
               new_time = min (saturating_add (nt_time nt) (ucast keepalive_interval_secs))
                              (saturating_add base_time MAX_FUTURE_BLOCK_TIME)
           in if new_time = nt_time nt then Some (None, s)
              else
                (let (job_id, s') = next_keepalive_job_id original_job_id s;
                     nt' = nt\<lparr>nt_job_id := job_id, nt_time := new_time, nt_clean_jobs := False\<rparr>;
                     job_channel_id = resolve_channel_id channel_id s'
                 in case srv_valid_sv1_jobs s' job_channel_id of
                      None \<Rightarrow> Some (None, s')
                    | Some jobs \<Rightarrow>
                        (case store_activate job_id \<lparr>sj_notify = nt', sj_keepalive_base_time = base_time\<rparr>
                                False jobs of
                           None \<Rightarrow> None
                         | Some jobs' \<Rightarrow>
                             Some (Some nt', s'\<lparr>srv_valid_sv1_jobs :=
                                      (srv_valid_sv1_jobs s')(job_channel_id \<mapsto> jobs')\<rparr>)))))"

definition send_keepalive_to_downstream ::
  "sv1_env \<Rightarrow> downstream_id \<Rightarrow> notify \<Rightarrow> 'v sv1_server \<Rightarrow> 'v sv1_server" where
  "send_keepalive_to_downstream env d nt s =
     (case send_event env d (EvNotify nt) s of
        (SendOk, s') \<Rightarrow> update_data d (\<lambda>data. data\<lparr>dd_keepalive_timer_anchor := Some (env_now env)\<rparr>) s'
      | (_, s') \<Rightarrow> s')"

text \<open>\<open>send_keepalive_jobs\<close>: who is due, then one shared job or one job per channel.\<close>

definition keepalive_due :: "sv1_env \<Rightarrow> u16 \<Rightarrow> downstream_data \<Rightarrow> channel_id option" where
  "keepalive_due env keepalive_interval_secs d =
     (if \<not> is_ready (dd_session_state d) then None
      else case dd_keepalive_timer_anchor d of
             None \<Rightarrow> None
           | Some last_time \<Rightarrow>
               if env_now env - last_time < from_secs (unat keepalive_interval_secs) then None
               else dd_channel_id d)"

definition keepalive_targets :: "sv1_env \<Rightarrow> u16 \<Rightarrow> 'v sv1_server \<Rightarrow> (downstream_id \<times> channel_id) list" where
  "keepalive_targets env secs s =
     List.map_filter (\<lambda>d. case srv_downstreams s d of
        None \<Rightarrow> None
      | Some c \<Rightarrow> map_option (\<lambda>ch. (d, ch)) (keepalive_due env secs (dn_data c))) (env_visit env)"

definition aggregated_keepalive ::
  "sv1_env \<Rightarrow> u16 \<Rightarrow> 'v sv1_server \<Rightarrow> (notify option \<times> 'v sv1_server) option" where
  "aggregated_keepalive env secs s =
     (if (case srv_aggregated_job_mutation_time s of
            None \<Rightarrow> False
          | Some last_mutation \<Rightarrow> env_now env - last_mutation < from_secs (unat secs))
      then Some (case get_last_job AGGREGATED_CHANNEL_ID s of
                   None \<Rightarrow> None
                 | Some job \<Rightarrow>
                     if is_keepalive_job_id (nt_job_id (sj_notify job)) then Some (sj_notify job) else None, s)
      else case create_keepalive_job AGGREGATED_CHANNEL_ID secs s of
             None \<Rightarrow> None
           | Some (None, s') \<Rightarrow> Some (None, s')
           | Some (Some nt, s') \<Rightarrow>
               Some (Some nt, s'\<lparr>srv_aggregated_job_mutation_time := Some (env_now env)\<rparr>))"

fun send_keepalives_shared ::
  "sv1_env \<Rightarrow> notify \<Rightarrow> (downstream_id \<times> channel_id) list \<Rightarrow> 'v sv1_server \<Rightarrow> 'v sv1_server" where
  "send_keepalives_shared env nt [] s = s"
| "send_keepalives_shared env nt ((d, _) # ts) s =
     send_keepalives_shared env nt ts (send_keepalive_to_downstream env d nt s)"

fun send_keepalives_single ::
  "sv1_env \<Rightarrow> u16 \<Rightarrow> (downstream_id \<times> channel_id) list \<Rightarrow> 'v sv1_server \<Rightarrow> 'v sv1_server option" where
  "send_keepalives_single env secs [] s = Some s"
| "send_keepalives_single env secs ((d, ch) # ts) s =
     (case create_keepalive_job ch secs s of
        None \<Rightarrow> None
      | Some (None, s') \<Rightarrow> send_keepalives_single env secs ts s'
      | Some (Some nt, s') \<Rightarrow> send_keepalives_single env secs ts (send_keepalive_to_downstream env d nt s'))"

definition send_keepalive_jobs :: "sv1_env \<Rightarrow> u16 \<Rightarrow> 'v sv1_server \<Rightarrow> 'v sv1_server option" where
  "send_keepalive_jobs env secs s =
     (case keepalive_targets env secs s of
        [] \<Rightarrow> Some s
      | ts \<Rightarrow>
          if is_aggregated (srv_mode s)
          then (case aggregated_keepalive env secs s of
                  None \<Rightarrow> None
                | Some (None, s') \<Rightarrow> Some s'
                | Some (Some nt, s') \<Rightarrow> Some (send_keepalives_shared env nt ts s'))
          else send_keepalives_single env secs ts s)"

section \<open>Requests of a miner\<close>

datatype submit_error = SubmitOther | JobNotFound | DuplicateShare | LowDifficultyShare | NotSubscribed

datatype submit_outcome = Accepted | Rejected submit_error

text \<open>\<open>handle_submit\<close> under the miner's lock, once the job was found.\<close>

definition judge_share ::
  "'v server_lib \<Rightarrow> downstream_id \<Rightarrow> submit \<Rightarrow> notify \<Rightarrow> downstream_data \<Rightarrow>
   submit_outcome \<times> downstream_data" where
  "judge_share L d request job data =
     (case dd_channel_id data of
        None \<Rightarrow> (Rejected SubmitOther, data)
      | Some channel_id \<Rightarrow>
          (case job_validation_context (sb_job_id request) data of
             None \<Rightarrow> (Rejected JobNotFound, data)
           | Some job_context \<Rightarrow>
               (case validate_sv1_share L request (jc_target job_context)
                       (jc_extranonce job_context) (dd_version_rolling_mask data) job of
                  Inl _ \<Rightarrow> (Rejected SubmitOther, data)
                | Inr DoesNotMeetTarget \<Rightarrow> (Rejected LowDifficultyShare, data)
                | Inr (MeetsTarget share_hash) \<Rightarrow>
                    (case insert_if_new (MAX_SEEN_SHARES L) share_hash (dd_accepted_share_hashes data) of
                       (False, hashes) \<Rightarrow> (Rejected DuplicateShare, data\<lparr>dd_accepted_share_hashes := hashes\<rparr>)
                     | (True, hashes) \<Rightarrow>
                         (Accepted,
                          data\<lparr>dd_accepted_share_hashes := hashes,
                               dd_pending_share := Some
                                 \<lparr>ss_channel_id = channel_id, ss_downstream_id = d, ss_share = request,
                                  ss_extranonce = jc_extranonce job_context,
                                  ss_extranonce2_len = jc_extranonce2_len job_context,
                                  ss_version_rolling_mask = dd_version_rolling_mask data,
                                  ss_job_version = Some (nt_version job)\<rparr>\<rparr>)))))"

definition handle_submit ::
  "'v server_lib \<Rightarrow> downstream_id \<Rightarrow> submit \<Rightarrow> 'v sv1_server \<Rightarrow>
   (tproxy_error, submit_outcome) result \<times> 'v sv1_server" where
  "handle_submit L d request s =
     (case srv_downstreams s d of
        None \<Rightarrow> (Err (tp_disconnect (DownstreamNotPresent d) d), s)
      | Some c \<Rightarrow>
          (case dd_channel_id (dn_data c) of
             None \<Rightarrow> (Ok (Rejected SubmitOther), s)
           | Some channel_id \<Rightarrow>
               (case srv_valid_sv1_jobs s (resolve_channel_id channel_id s) of
                  None \<Rightarrow> (Ok (Rejected JobNotFound), s)
                | Some jobs \<Rightarrow>
                    (case store_get (sb_job_id request) jobs of
                       None \<Rightarrow> (Ok (Rejected JobNotFound), s)
                     | Some job \<Rightarrow>
                         (case judge_share L d request (sj_notify job) (dn_data c) of
                            (out, data) \<Rightarrow> (Ok out, update_data d (\<lambda>_. data) s))))))"

definition handle_configure ::
  "'v server_lib \<Rightarrow> downstream_id \<Rightarrow> u32 option \<Rightarrow> u32 option \<Rightarrow> 'v sv1_server \<Rightarrow>
   (tproxy_error, u32 \<times> u32) result \<times> 'v sv1_server" where
  "handle_configure L d requested_mask min_bit_count s =
     (case srv_downstreams s d of
        None \<Rightarrow> (Err (tp_disconnect (DownstreamNotPresent d) d), s)
      | Some _ \<Rightarrow>
          (let m = map_option (\<lambda>r. r AND VERSION_ROLLING_MASK L) requested_mask
           in (Ok (case m of Some x \<Rightarrow> x | None \<Rightarrow> 0, case min_bit_count of Some x \<Rightarrow> x | None \<Rightarrow> 0),
               update_data d (\<lambda>data. data\<lparr>dd_version_rolling_mask := m,
                                           dd_version_rolling_min_bit := min_bit_count\<rparr>) s)))"

definition is_authorized ::
  "downstream_id \<Rightarrow> string \<Rightarrow> 'v sv1_server \<Rightarrow> (tproxy_error, bool) result" where
  "is_authorized d name = with_registered_downstream d (\<lambda>data. dd_sv1_username data = name)"

definition authorize ::
  "downstream_id \<Rightarrow> string \<Rightarrow> 'v sv1_server \<Rightarrow> (tproxy_error, unit) result \<times> 'v sv1_server" where
  "authorize d name s =
     (case is_authorized d name s of
        Inl e \<Rightarrow> (Err e, s)
      | Inr authorized \<Rightarrow>
          (Ok (), update_data d (\<lambda>data. data\<lparr>
             dd_sv1_username := (if authorized then dd_sv1_username data else name),
             dd_sv1_worker_name := sv1_worker_name_from_sv1_username name\<rparr>) s))"

definition handle_extranonce_subscribe ::
  "downstream_id \<Rightarrow> 'v sv1_server \<Rightarrow> (tproxy_error, unit) result \<times> 'v sv1_server" where
  "handle_extranonce_subscribe d s =
     (case srv_downstreams s d of
        None \<Rightarrow> (Err (tp_disconnect (DownstreamNotPresent d) d), s)
      | Some _ \<Rightarrow> (Ok (), update_data d (\<lambda>data. data\<lparr>dd_supports_set_extranonce := True\<rparr>) s))"

definition set_version_rolling_mask ::
  "downstream_id \<Rightarrow> u32 option \<Rightarrow> 'v sv1_server \<Rightarrow> (tproxy_error, unit) result \<times> 'v sv1_server" where
  "set_version_rolling_mask d m s =
     (case srv_downstreams s d of
        None \<Rightarrow> (Err (tp_disconnect (DownstreamNotPresent d) d), s)
      | Some _ \<Rightarrow> (Ok (), update_data d (\<lambda>data. data\<lparr>dd_version_rolling_mask := m\<rparr>) s))"

definition set_version_rolling_min_bit ::
  "downstream_id \<Rightarrow> u32 option \<Rightarrow> 'v sv1_server \<Rightarrow> (tproxy_error, unit) result \<times> 'v sv1_server" where
  "set_version_rolling_min_bit d m s =
     (case srv_downstreams s d of
        None \<Rightarrow> (Err (tp_disconnect (DownstreamNotPresent d) d), s)
      | Some _ \<Rightarrow> (Ok (), update_data d (\<lambda>data. data\<lparr>dd_version_rolling_min_bit := m\<rparr>) s))"

text \<open>\<open>handle_submit_shares\<close>: an accepted share goes upstream under the original job id.\<close>

definition handle_submit_shares ::
  "'v server_lib \<Rightarrow> sv1_env \<Rightarrow> submit_share \<Rightarrow> 'v sv1_server \<Rightarrow> unit outcome \<times> 'v sv1_server" where
  "handle_submit_shares L env message s =
     (let d = ss_downstream_id message;
          s1 = (if srv_enable_vardiff s
                then s\<lparr>srv_vardiff := (case srv_vardiff s d of
                        None \<Rightarrow> srv_vardiff s
                      | Some v \<Rightarrow> (srv_vardiff s)(d \<mapsto> increment_shares L v))\<rparr>
                else s)
      in case ss_job_version message of
           None \<Rightarrow> (Done (), s1)
         | Some job_version \<Rightarrow>
             (let job_id = sb_job_id (ss_share message)
              in case (if is_keepalive_job_id job_id then extract_original_job_id job_id else Some job_id) of
                   None \<Rightarrow> (Done (), s1)
                 | Some original \<Rightarrow>
                     (let share = (ss_share message)\<lparr>sb_job_id := original\<rparr>;
                          sequence_number = srv_sequence_counter s1;
                          s2 = s1\<lparr>srv_sequence_counter := sequence_number + 1\<rparr>
                      in case build_submit_shares L share (ss_channel_id message) sequence_number job_version
                                (ss_version_rolling_mask message) of
                           None \<Rightarrow> (Failed (tp_shutdown TranslatorCore), s2)
                         | Some extended \<Rightarrow>
                             (case srv_downstreams s2 d of
                                None \<Rightarrow> (Done (), s2)
                              | Some c \<Rightarrow>
                                  (let worker_name = dd_sv1_worker_name (dn_data c);
                                       (ok, s3) = send_to_manager env
                                         (OutSubmitShares extended
                                            (if worker_name \<noteq> [] then Some worker_name else None)) s2
                                   in (manager_outcome ok, s3))))))"

text \<open>\<open>process_sv1_message\<close>. What \<open>sv1_api\<close> makes of the request, by calling the methods above, is the
  argument \<open>handle_parsed_request\<close>: an error, or the response for the miner. \<open>sent\<close> is whether the miner's channel takes
  the response.\<close>

datatype sv1_reply = NoReply | Reply miner_message

definition queue_setup_complete ::
  "sv1_env \<Rightarrow> downstream_id \<Rightarrow> 'v sv1_server \<Rightarrow> unit outcome \<times> 'v sv1_server" where
  "queue_setup_complete env d s =
     (case send_event env d EvSetupComplete s of
        (SendOk, s') \<Rightarrow> (Done (), s')
      | (NoSender, s') \<Rightarrow> (Failed (tp_disconnect (DownstreamNotPresent d) d), s')
      | (SendFailed, s') \<Rightarrow> (Failed (tp_disconnect ChannelErrorSender d), s'))"

definition record_setup ::
  "sv1_env \<Rightarrow> downstream_id \<Rightarrow> client_request \<Rightarrow> 'v sv1_server \<Rightarrow> unit outcome \<times> 'v sv1_server" where
  "record_setup env d request s =
     (let setup_request = (case request of
            Subscribe \<Rightarrow> Some SetupSubscribe | Authorize _ \<Rightarrow> Some SetupAuthorize | _ \<Rightarrow> None)
      in case setup_request of
           None \<Rightarrow> (Done (), s)
         | Some r \<Rightarrow>
             (case srv_downstreams s d of
                None \<Rightarrow> (Failed (tp_disconnect (DownstreamNotPresent d) d), s)
              | Some c \<Rightarrow>
                  (let (just_completed, session) = record_response r (dd_session_state (dn_data c));
                       s' = update_data d (\<lambda>data. data\<lparr>dd_session_state := session\<rparr>) s
                   in if just_completed then queue_setup_complete env d s' else (Done (), s'))))"

definition forward_pending_share ::
  "'v server_lib \<Rightarrow> sv1_env \<Rightarrow> downstream_id \<Rightarrow> 'v sv1_server \<Rightarrow> unit outcome \<times> 'v sv1_server" where
  "forward_pending_share L env d s =
     (case srv_downstreams s d of
        None \<Rightarrow> (Failed (tp_disconnect (DownstreamNotPresent d) d), s)
      | Some c \<Rightarrow>
          (let s' = update_data d (\<lambda>data. data\<lparr>dd_pending_share := None\<rparr>) s
           in case dd_pending_share (dn_data c) of
                None \<Rightarrow> (Done (), s')
              | Some share \<Rightarrow> handle_submit_shares L env share s'))"

definition process_sv1_message ::
  "'v server_lib \<Rightarrow> sv1_env \<Rightarrow>
   (downstream_id \<Rightarrow> client_request \<Rightarrow> 'v sv1_server \<Rightarrow> (tproxy_error, sv1_reply) result \<times> 'v sv1_server) \<Rightarrow>
   bool \<Rightarrow> downstream_id \<Rightarrow> client_request \<Rightarrow> 'v sv1_server \<Rightarrow> unit outcome \<times> 'v sv1_server" where
  "process_sv1_message L env handle_parsed_request sent d request s =
     (case handle_parsed_request d request s of
        (Inl e, s1) \<Rightarrow> (Failed (with_sv1_downstream_context d e), s1)
      | (Inr NoReply, s1) \<Rightarrow> forward_pending_share L env d s1
      | (Inr (Reply msg), s1) \<Rightarrow>
          (case srv_downstreams s1 d of
             None \<Rightarrow> (Failed (tp_disconnect (DownstreamNotPresent d) d), s1)
           | Some _ \<Rightarrow>
               if \<not> sent then (Failed (tp_disconnect ChannelErrorSender d), s1)
               else
                 (let s2 = update_connection d (\<lambda>c. c\<lparr>dn_sent := dn_sent c @ [msg]\<rparr>) s1
                  in case record_setup env d request s2 of
                       (Done _, s3) \<Rightarrow> forward_pending_share L env d s3
                     | (Failed e, s3) \<Rightarrow> (Failed e, s3)
                     | (Panicked, s3) \<Rightarrow> (Panicked, s3))))"

section \<open>Opening a channel\<close>

text \<open>A missing target for the configured hashrate, or no configured identity, panics.\<close>

definition open_extended_mining_channel ::
  "'v server_lib \<Rightarrow> sv1_env \<Rightarrow> request_id \<Rightarrow> downstream_id \<Rightarrow> 'v sv1_server \<Rightarrow> unit outcome \<times> 'v sv1_server" where
  "open_extended_mining_channel L env request_id d s =
     (case srv_downstreams s d of
        None \<Rightarrow> (Failed (tp_disconnect (DownstreamNotPresent d) d), s)
      | Some _ \<Rightarrow>
          (case (if srv_enable_vardiff s then hash_rate_to_target L (srv_min_hashrate s) (srv_shares_per_minute s)
                 else Some (- 1)) of
             None \<Rightarrow> (Panicked, s)
           | Some max_target \<Rightarrow>
               (let miner_id = srv_miner_counter s + 1;
                    s1 = s\<lparr>srv_miner_counter := miner_id\<rparr>
                in case srv_user_identity s1 of
                     None \<Rightarrow> (Panicked, s1)
                   | Some user_identity \<Rightarrow>
                       (let identity = (if starts_with user_identity ''sri/'' then user_identity
                                        else user_identity @ ''.miner'' @ show_u32 miner_id)
                        in case build_open_channel L
                             \<lparr>oc_request_id = request_id, oc_user_identity = identity,
                              oc_nominal_hash_rate = srv_min_hashrate s1, oc_max_target = max_target,
                              oc_min_extranonce_size = srv_extranonce2_size s1\<rparr> of
                             None \<Rightarrow> (Failed (tp_shutdown TranslatorCore), s1)
                           | Some m \<Rightarrow>
                               (let (ok, s2) = send_to_manager env (OutOpenChannel m) s1
                                in (manager_outcome ok, s2))))))"

definition forward_pending_open_channel_request ::
  "'v server_lib \<Rightarrow> sv1_env \<Rightarrow> request_id \<Rightarrow> downstream_id \<Rightarrow> 'v sv1_server \<Rightarrow> unit outcome \<times> 'v sv1_server" where
  "forward_pending_open_channel_request L env request_id d s =
     (case open_extended_mining_channel L env request_id d s of
        (Failed e, s') \<Rightarrow>
          (Failed e, s'\<lparr>srv_request_id_to_downstream_id :=
                          (srv_request_id_to_downstream_id s')(request_id := None)\<rparr>)
      | (out, s') \<Rightarrow> (out, s'))"

definition handle_open_channel_request ::
  "'v server_lib \<Rightarrow> sv1_env \<Rightarrow> downstream_id \<Rightarrow> 'v sv1_server \<Rightarrow> unit outcome \<times> 'v sv1_server" where
  "handle_open_channel_request L env d s =
     (case srv_downstreams s d of
        None \<Rightarrow> (Failed (tp_disconnect (DownstreamNotPresent d) d), s)
      | Some _ \<Rightarrow>
          (let request_id = srv_request_id_factory s
           in forward_pending_open_channel_request L env request_id d
                (s\<lparr>srv_request_id_factory := request_id + 1,
                   srv_request_id_to_downstream_id :=
                     (srv_request_id_to_downstream_id s)(request_id \<mapsto> d)\<rparr>)))"

text \<open>\<open>handle_downstream_message\<close>; the request is \<open>None\<close> when \<open>sv1_api\<close> cannot decode the message.\<close>

definition can_start :: "client_request \<Rightarrow> bool" where
  "can_start request = (case request of Configure \<Rightarrow> True | Subscribe \<Rightarrow> True | Authorize _ \<Rightarrow> True | _ \<Rightarrow> False)"

definition queue_handshake ::
  "'v server_lib \<Rightarrow> sv1_env \<Rightarrow> downstream_id \<Rightarrow> client_request \<Rightarrow> downstream_data \<Rightarrow> 'v sv1_server \<Rightarrow>
   unit outcome \<times> 'v sv1_server" where
  "queue_handshake L env d request data s =
     (if MAX_QUEUED_SV1_HANDSHAKE_MESSAGES \<le> length (dd_queued_sv1_handshake_messages data)
      then (Failed (tp_disconnect Sv1HandshakeMessageQueueFull d), s)
      else
        (let s' = update_data d (\<lambda>data. data\<lparr>dd_queued_sv1_handshake_messages :=
                    dd_queued_sv1_handshake_messages data @ [request]\<rparr>) s
         in if dd_queued_sv1_handshake_messages data = [] then handle_open_channel_request L env d s'
            else (Done (), s')))"

definition server_downstream_message ::
  "'v server_lib \<Rightarrow> sv1_env \<Rightarrow>
   (downstream_id \<Rightarrow> client_request \<Rightarrow> 'v sv1_server \<Rightarrow> (tproxy_error, sv1_reply) result \<times> 'v sv1_server) \<Rightarrow>
   bool \<Rightarrow> downstream_id \<Rightarrow> client_request option \<Rightarrow> 'v sv1_server \<Rightarrow> unit outcome \<times> 'v sv1_server" where
  "server_downstream_message L env handle_parsed_request sent d message s =
     (case srv_downstreams s d of
        None \<Rightarrow> (Done (), s)
      | Some c \<Rightarrow>
          (let data = dn_data c
           in case message of
                None \<Rightarrow> (Failed (tp_disconnect SV1Error d), s)
              | Some request \<Rightarrow>
                  if \<not> is_subscribed (dd_session_state data) \<and> (case request of Submit _ \<Rightarrow> True | _ \<Rightarrow> False)
                  then (if sent then (Done (), update_connection d (\<lambda>c. c\<lparr>dn_sent := dn_sent c @ [MOtherResponse]\<rparr>) s)
                        else (Failed (tp_disconnect ChannelErrorSender d), s))
                  else if dd_channel_id data = None \<and> dd_queued_sv1_handshake_messages data = [] \<and>
                          \<not> can_start request
                  then (Failed (tp_disconnect Sv1RequestBeforeSetup d), s)
                  else if dd_channel_id data = None then queue_handshake L env d request data s
                  else process_sv1_message L env handle_parsed_request sent d request s))"

section \<open>Disconnection\<close>

text \<open>The state of the aggregate, for \<open>UpdateChannel\<close> messages (\<open>difficulty_manager.rs\<close>): the fold over the
  miners with an open channel. A miner without any hashrate panics.\<close>

datatype aggregated_snapshot = SnapActive hashrate target | NoOpenChannels | NoValidTargets

fun snapshot_loop ::
  "'v server_lib \<Rightarrow> hashrate \<Rightarrow> downstream_data list \<Rightarrow> hashrate \<Rightarrow> target option \<Rightarrow> bool \<Rightarrow>
   (hashrate \<times> target option \<times> bool) option" where
  "snapshot_loop L spm [] total_hr min_target has_open = Some (total_hr, min_target, has_open)"
| "snapshot_loop L spm (data # ds) total_hr min_target has_open =
     (case dd_channel_id data of
        None \<Rightarrow> snapshot_loop L spm ds total_hr min_target has_open
      | Some _ \<Rightarrow>
          (case (case dd_pending_hashrate data of Some h \<Rightarrow> Some h | None \<Rightarrow> dd_hashrate data) of
             None \<Rightarrow> None
           | Some h \<Rightarrow>
               (case hash_rate_to_target L h spm of
                  None \<Rightarrow> snapshot_loop L spm ds total_hr min_target True
                | Some t \<Rightarrow>
                    snapshot_loop L spm ds (hashrate_add L total_hr h)
                      (Some (case min_target of Some current \<Rightarrow> min current t | None \<Rightarrow> t)) True)))"

definition visited_data :: "sv1_env \<Rightarrow> 'v sv1_server \<Rightarrow> downstream_data list" where
  "visited_data env s = List.map_filter (\<lambda>d. map_option dn_data (srv_downstreams s d)) (env_visit env)"

definition aggregated_downstream_snapshot ::
  "'v server_lib \<Rightarrow> sv1_env \<Rightarrow> 'v sv1_server \<Rightarrow> aggregated_snapshot option" where
  "aggregated_downstream_snapshot L env s =
     (case snapshot_loop L (srv_shares_per_minute s) (visited_data env s) 0 None False of
        None \<Rightarrow> None
      | Some (total_hr, min_target, has_open) \<Rightarrow>
          Some (if \<not> has_open then NoOpenChannels
                else case min_target of Some t \<Rightarrow> SnapActive total_hr t | None \<Rightarrow> NoValidTargets))"

definition send_update_channel_on_downstream_state_change ::
  "'v server_lib \<Rightarrow> sv1_env \<Rightarrow> 'v sv1_server \<Rightarrow> unit outcome \<times> 'v sv1_server" where
  "send_update_channel_on_downstream_state_change L env s =
     (if is_non_aggregated (srv_mode s) then (Done (), s)
      else case aggregated_downstream_snapshot L env s of
             None \<Rightarrow> (Panicked, s)
           | Some NoValidTargets \<Rightarrow> (Done (), s)
           | Some (SnapActive total_hr t) \<Rightarrow>
               (let (ok, s') = send_to_manager env (OutUpdateChannel 0 total_hr t) s in (manager_outcome ok, s'))
           | Some NoOpenChannels \<Rightarrow>
               (let (ok, s') = send_to_manager env (OutUpdateChannel 0 0 (- 1)) s in (manager_outcome ok, s')))"

definition handle_downstream_disconnect ::
  "'v server_lib \<Rightarrow> sv1_env \<Rightarrow> downstream_id \<Rightarrow> 'v sv1_server \<Rightarrow> unit outcome \<times> 'v sv1_server" where
  "handle_downstream_disconnect L env d s =
     (let current = srv_downstreams s d;
          s1 = s\<lparr>srv_vardiff := (if srv_enable_vardiff s then (srv_vardiff s)(d := None) else srv_vardiff s),
                 srv_pending_target_updates :=
                   (if srv_enable_vardiff s then (srv_pending_target_updates s)(d := None)
                    else srv_pending_target_updates s),
                 srv_senders := srv_senders s - {d},
                 srv_downstreams := (srv_downstreams s)(d := None),
                 srv_request_id_to_downstream_id :=
                   (\<lambda>r. if srv_request_id_to_downstream_id s r = Some d then None
                        else srv_request_id_to_downstream_id s r)\<rparr>
      in case current of
           None \<Rightarrow> (Done (), s1)
         | Some c \<Rightarrow>
             (case (if srv_enable_vardiff s1 then send_update_channel_on_downstream_state_change L env s1
                    else (Done (), s1)) of
                (Panicked, s2) \<Rightarrow> (Panicked, s2)
              | (_, s2) \<Rightarrow>
                  (case dd_channel_id (dn_data c) of
                     None \<Rightarrow> (Done (), s2)
                   | Some channel_id \<Rightarrow>
                       (let s3 = s2\<lparr>srv_channel_id_to_downstream_id :=
                                     (srv_channel_id_to_downstream_id s2)(channel_id := None)\<rparr>
                        in (Done (), snd (send_to_manager env (OutCloseChannel channel_id) s3))))))"

definition disconnect_downstream_for_upstream_close :: "channel_id \<Rightarrow> 'v sv1_server \<Rightarrow> 'v sv1_server" where
  "disconnect_downstream_for_upstream_close channel_id s =
     (case srv_channel_id_to_downstream_id s channel_id of
        None \<Rightarrow> s
      | Some d \<Rightarrow>
          update_connection d
            (\<lambda>c. c\<lparr>dn_data := (if dd_channel_id (dn_data c) = Some channel_id
                               then (dn_data c)\<lparr>dd_channel_id := None\<rparr> else dn_data c),
                   dn_cancelled := True\<rparr>)
            (s\<lparr>srv_channel_id_to_downstream_id := (srv_channel_id_to_downstream_id s)(channel_id := None)\<rparr>))"

section \<open>Difficulty without variable difficulty\<close>

definition advertise :: "'v server_lib \<Rightarrow> target \<Rightarrow> target" where
  "advertise L t = (case advertised_target L t of Some a \<Rightarrow> a | None \<Rightarrow> t)"

definition note_upstream_difficulty ::
  "'v server_lib \<Rightarrow> target \<Rightarrow> hashrate option \<Rightarrow> downstream_data \<Rightarrow> downstream_data" where
  "note_upstream_difficulty L t derived_hashrate data =
     (let data' = set_pending_target (advertise L t) (set_upstream_target t data)
      in case derived_hashrate of Some hr \<Rightarrow> set_pending_hashrate (Some hr) data' | None \<Rightarrow> data')"

text \<open>In aggregated mode: the miners with a channel are noted first, then each is told; the first miner
  whose queue is gone is reported at the end.\<close>

fun note_all ::
  "'v server_lib \<Rightarrow> target \<Rightarrow> hashrate option \<Rightarrow> downstream_id list \<Rightarrow> 'v sv1_server \<Rightarrow>
   downstream_id list \<times> 'v sv1_server" where
  "note_all L t hr [] s = ([], s)"
| "note_all L t hr (d # ds) s =
     (case srv_downstreams s d of
        None \<Rightarrow> note_all L t hr ds s
      | Some c \<Rightarrow>
          if dd_channel_id (dn_data c) = None then note_all L t hr ds s
          else
            (let s' = update_data d (note_upstream_difficulty L t hr) s;
                 (tasks, s'') = note_all L t hr ds s'
             in (if d \<in> srv_senders s then d # tasks else tasks, s'')))"

fun tell_all ::
  "'v server_lib \<Rightarrow> sv1_env \<Rightarrow> target \<Rightarrow> downstream_id list \<Rightarrow> downstream_id option \<Rightarrow> 'v sv1_server \<Rightarrow>
   unit outcome \<times> 'v sv1_server" where
  "tell_all L env t [] disconnected s =
     (case disconnected of
        Some d \<Rightarrow> (Failed (tp_disconnect ChannelErrorSender d), s)
      | None \<Rightarrow> (Done (), s))"
| "tell_all L env t (d # ds) disconnected s =
     (case build_set_difficulty L t of
        None \<Rightarrow> (Failed (tp_shutdown TranslatorCore), s)
      | Some m \<Rightarrow>
          (case send_event env d (EvSetDifficulty m) s of
             (SendOk, s') \<Rightarrow> tell_all L env t ds disconnected s'
           | (_, s') \<Rightarrow> tell_all L env t ds (case disconnected of Some x \<Rightarrow> Some x | None \<Rightarrow> Some d) s'))"

definition send_set_difficulty_to_all_downstreams ::
  "'v server_lib \<Rightarrow> sv1_env \<Rightarrow> target \<Rightarrow> hashrate option \<Rightarrow> 'v sv1_server \<Rightarrow> unit outcome \<times> 'v sv1_server" where
  "send_set_difficulty_to_all_downstreams L env t derived_hashrate s =
     (let (tasks, s') = note_all L t derived_hashrate (env_visit env) s
      in tell_all L env t tasks None s')"

definition send_set_difficulty_to_specific_downstream ::
  "'v server_lib \<Rightarrow> sv1_env \<Rightarrow> channel_id \<Rightarrow> target \<Rightarrow> hashrate option \<Rightarrow> 'v sv1_server \<Rightarrow>
   unit outcome \<times> 'v sv1_server" where
  "send_set_difficulty_to_specific_downstream L env channel_id t derived_hashrate s =
     (case srv_channel_id_to_downstream_id s channel_id of
        None \<Rightarrow>
          (let (ok, s') = send_to_manager env (OutCloseChannel channel_id) s
           in (if ok then Failed (tp_log (DownstreamNotFoundWithChannelId channel_id))
               else Failed (tp_shutdown ChannelErrorSender), s'))
      | Some d \<Rightarrow>
          (case srv_downstreams s d of
             None \<Rightarrow> (Done (), s)
           | Some _ \<Rightarrow>
               (let s' = update_data d (note_upstream_difficulty L t derived_hashrate) s
                in case build_set_difficulty L t of
                     None \<Rightarrow> (Failed (tp_shutdown TranslatorCore), s')
                   | Some m \<Rightarrow>
                       (case send_event env d (EvSetDifficulty m) s' of
                          (SendFailed, s'') \<Rightarrow> (Failed (tp_disconnect ChannelErrorSender d), s'')
                        | (_, s'') \<Rightarrow> (Done (), s'')))))"

definition handle_set_target_without_vardiff ::
  "'v server_lib \<Rightarrow> sv1_env \<Rightarrow> channel_id \<Rightarrow> target \<Rightarrow> 'v sv1_server \<Rightarrow> unit outcome \<times> 'v sv1_server" where
  "handle_set_target_without_vardiff L env channel_id new_target s =
     (let derived_hashrate = hash_rate_from_target L new_target (srv_shares_per_minute s)
      in if is_aggregated (srv_mode s)
         then send_set_difficulty_to_all_downstreams L env new_target derived_hashrate s
         else send_set_difficulty_to_specific_downstream L env channel_id new_target derived_hashrate s)"

section \<open>Messages from the channel manager\<close>

record open_channel_success_msg =
  os_channel_id :: channel_id
  os_request_id :: request_id
  os_target :: target
  os_extranonce_prefix :: bytes
  os_extranonce_size :: u16

fun process_queued ::
  "'v server_lib \<Rightarrow> sv1_env \<Rightarrow>
   (downstream_id \<Rightarrow> client_request \<Rightarrow> 'v sv1_server \<Rightarrow> (tproxy_error, sv1_reply) result \<times> 'v sv1_server) \<Rightarrow>
   bool \<Rightarrow> downstream_id \<Rightarrow> client_request list \<Rightarrow> 'v sv1_server \<Rightarrow> unit outcome \<times> 'v sv1_server" where
  "process_queued L env handle sent d [] s = (Done (), s)"
| "process_queued L env handle sent d (request # requests) s =
     (case process_sv1_message L env handle sent d request s of
        (Done _, s') \<Rightarrow> process_queued L env handle sent d requests s'
      | (out, s') \<Rightarrow> (out, s'))"

text \<open>The end of a successful opening: the first difficulty, and the aggregate's new state.\<close>

definition finish_open ::
  "'v server_lib \<Rightarrow> sv1_env \<Rightarrow> target \<Rightarrow> downstream_id \<Rightarrow> 'v sv1_server \<Rightarrow> unit outcome \<times> 'v sv1_server" where
  "finish_open L env first_target d s =
     (case build_set_difficulty L first_target of
        None \<Rightarrow> (Failed (tp_shutdown TranslatorCore), s)
      | Some m \<Rightarrow>
          (case send_event env d (EvSetDifficulty m) s of
             (SendFailed, s') \<Rightarrow> (Failed (tp_disconnect ChannelErrorSender d), s')
           | (_, s') \<Rightarrow>
               if is_aggregated (srv_mode s') \<and> srv_enable_vardiff s'
               then send_update_channel_on_downstream_state_change L env s'
               else (Done (), s')))"

text \<open>A prefix that is no SV1 extranonce (\<open>valid_extranonce\<close> of \<open>sv1_api\<close>) is a fallback.\<close>

definition handle_open_success ::
  "'v server_lib \<Rightarrow> sv1_env \<Rightarrow> (bytes \<Rightarrow> bool) \<Rightarrow>
   (downstream_id \<Rightarrow> client_request \<Rightarrow> 'v sv1_server \<Rightarrow> (tproxy_error, sv1_reply) result \<times> 'v sv1_server) \<Rightarrow>
   bool \<Rightarrow> target \<Rightarrow> open_channel_success_msg \<Rightarrow> 'v sv1_server \<Rightarrow> unit outcome \<times> 'v sv1_server" where
  "handle_open_success L env valid_extranonce handle sent first_target m s =
     (let ch = os_channel_id m;
          s1 = s\<lparr>srv_request_id_to_downstream_id :=
                  (srv_request_id_to_downstream_id s)(os_request_id m := None)\<rparr>
      in case srv_request_id_to_downstream_id s (os_request_id m) of
           None \<Rightarrow>
             (let (ok, s2) = (if srv_channel_id_to_downstream_id s1 ch = None
                              then send_to_manager env (OutCloseChannel ch) s1 else (True, s1))
              in (if ok then Failed (tp_log (RequestIdNotFound (os_request_id m)))
                  else Failed (tp_shutdown ChannelErrorSender), s2))
         | Some d \<Rightarrow>
             if \<not> valid_extranonce (os_extranonce_prefix m) then (Failed (tp_fallback SV1Error), s1)
             else
               (case srv_downstreams s1 d of
                  None \<Rightarrow>
                    (let (ok, s2) = send_to_manager env (OutCloseChannel ch) s1 in (manager_outcome ok, s2))
                | Some c \<Rightarrow>
                    (let queued = dd_queued_sv1_handshake_messages (dn_data c);
                         s2 = update_data d (open_channel_success ch (os_extranonce_prefix m)
                                (unat (os_extranonce_size m)) (os_target m)) s1;
                         s3 = s2\<lparr>srv_channel_id_to_downstream_id :=
                                   (srv_channel_id_to_downstream_id s2)(ch \<mapsto> d)\<rparr>;
                         s4 = (if srv_enable_vardiff s3
                               then s3\<lparr>srv_vardiff := (srv_vardiff s3)(d \<mapsto> vardiff_new L)\<rparr> else s3)
                     in case process_queued L env handle sent d queued s4 of
                          (Done _, s5) \<Rightarrow> finish_open L env first_target d s5
                        | (out, s5) \<Rightarrow> (out, s5))))"

definition handle_open_error :: "request_id \<Rightarrow> 'v sv1_server \<Rightarrow> unit outcome \<times> 'v sv1_server" where
  "handle_open_error request_id s =
     (let s' = s\<lparr>srv_request_id_to_downstream_id := (srv_request_id_to_downstream_id s)(request_id := None)\<rparr>
      in case srv_request_id_to_downstream_id s request_id of
           None \<Rightarrow> (Failed (tp_log (RequestIdNotFound request_id)), s')
         | Some d \<Rightarrow> (Failed (tp_disconnect OpenMiningChannelError d), s'))"

text \<open>A new job: the bootstrap of a late joiner replays the shared active job; any other job enters the
  history. An endless eviction loop is the outcome \<open>None\<close>.\<close>

definition store_upstream_job ::
  "'v server_lib \<Rightarrow> channel_id \<Rightarrow> notify \<Rightarrow> bool \<Rightarrow> 'v sv1_server \<Rightarrow> 'v sv1_server option" where
  "store_upstream_job L job_channel_id nt resets s =
     (let jobs = (case srv_valid_sv1_jobs s job_channel_id of
                    Some jobs \<Rightarrow> jobs
                  | None \<Rightarrow> job_store_new (MAX_PAST_JOBS L) (srv_max_past_jobs s))
      in case store_activate (nt_job_id nt) (stored_upstream_job nt) resets jobs of
           None \<Rightarrow> None
         | Some jobs' \<Rightarrow>
             Some (s\<lparr>srv_valid_sv1_jobs := (srv_valid_sv1_jobs s)(job_channel_id \<mapsto> jobs')\<rparr>))"

definition handle_new_job ::
  "'v server_lib \<Rightarrow> sv1_env \<Rightarrow> new_extended_mining_job \<Rightarrow> 'v sv1_server \<Rightarrow>
   (unit outcome \<times> 'v sv1_server) option" where
  "handle_new_job L env m s =
     (let job_channel_id = resolve_channel_id (nj_channel_id m) s
      in case srv_prevhashes s job_channel_id of
           None \<Rightarrow> Some (Done (), s)
         | Some prevhash \<Rightarrow>
             (let clean_jobs = (nj_job_id m = ph_job_id prevhash)
              in case build_notify L prevhash m clean_jobs of
                   None \<Rightarrow> Some (Failed (tp_shutdown TranslatorCore), s)
                 | Some nt \<Rightarrow>
                     (let bootstrap = (is_aggregated (srv_mode s) \<and> nj_channel_id m \<noteq> AGGREGATED_CHANNEL_ID)
                      in case (if bootstrap then get_last_job AGGREGATED_CHANNEL_ID s else None) of
                           Some current \<Rightarrow>
                             (let cur = sj_notify current;
                                  original = (case extract_original_job_id (nt_job_id cur) of
                                                Some i \<Rightarrow> i | None \<Rightarrow> nt_job_id cur)
                              in if original \<noteq> show_u32 (nj_job_id m) then Some (Done (), s)
                                 else Some (Done (), send_to_channel env (nj_channel_id m)
                                              (cur\<lparr>nt_clean_jobs := True\<rparr>) s))
                         | None \<Rightarrow>
                             (let resets = (clean_jobs \<and> (is_non_aggregated (srv_mode s) \<or>
                                              nj_channel_id m = AGGREGATED_CHANNEL_ID))
                              in case store_upstream_job L job_channel_id nt resets s of
                                   None \<Rightarrow> None
                                 | Some s1 \<Rightarrow>
                                     (let s2 = (if is_aggregated (srv_mode s1) \<and>
                                                   nj_channel_id m = AGGREGATED_CHANNEL_ID
                                                then s1\<lparr>srv_aggregated_job_mutation_time := Some (env_now env)\<rparr>
                                                else s1)
                                      in Some (Done (), send_to_channel env (nj_channel_id m) nt s2))))))"

definition handle_set_new_prev_hash :: "set_new_prev_hash \<Rightarrow> 'v sv1_server \<Rightarrow> 'v sv1_server" where
  "handle_set_new_prev_hash m s = s\<lparr>srv_prevhashes := (srv_prevhashes s)(ph_channel_id m \<mapsto> m)\<rparr>"

definition server_extranonce_change ::
  "sv1_env \<Rightarrow> (bytes \<Rightarrow> bool) \<Rightarrow> channel_id \<Rightarrow> bytes \<Rightarrow> 'v sv1_server \<Rightarrow> unit outcome \<times> 'v sv1_server" where
  "server_extranonce_change env valid_extranonce channel_id prefix s =
     (case srv_channel_id_to_downstream_id s channel_id of
        None \<Rightarrow> (Done (), s)
      | Some d \<Rightarrow>
          (case srv_downstreams s d of
             None \<Rightarrow> (Done (), s)
           | Some c \<Rightarrow>
               if \<not> valid_extranonce prefix then (Failed (tp_fallback SV1Error), s)
               else
                 (let c' = handle_upstream_extranonce_change prefix c
                  in if d \<in> srv_senders s \<and> env_alive env d
                     then (Done (), update_connection d (\<lambda>_. c') s)
                     else (Failed (tp_disconnect (if d \<in> srv_senders s then ChannelErrorSender
                                                  else DownstreamNotPresent d) d),
                           update_connection d (\<lambda>_. c'\<lparr>dn_queue := dn_queue c\<rparr>) s))))"

section \<open>What a handler leaves of a miner\<close>

text \<open>The queue of a miner and the target its upstream accepts; what the sending primitives do to them.\<close>

definition queue_of :: "downstream_id \<Rightarrow> 'v sv1_server \<Rightarrow> sv1_server_event list" where
  "queue_of d s = (case srv_downstreams s d of None \<Rightarrow> [] | Some c \<Rightarrow> dn_queue c)"

definition upstream_of :: "downstream_id \<Rightarrow> 'v sv1_server \<Rightarrow> target option" where
  "upstream_of d s = (case srv_downstreams s d of None \<Rightarrow> None | Some c \<Rightarrow> dd_upstream_target (dn_data c))"

definition reachable_miner :: "sv1_env \<Rightarrow> downstream_id \<Rightarrow> 'v sv1_server \<Rightarrow> bool" where
  "reachable_miner env d s \<longleftrightarrow> d \<in> srv_senders s \<and> env_alive env d \<and> srv_downstreams s d \<noteq> None"

lemma update_connection_downstreams [simp]:
  "srv_downstreams (update_connection d f s) x = (if x = d then map_option f (srv_downstreams s d) else srv_downstreams s x)"
  by (simp add: update_connection_def split: option.split)

lemma update_data_downstreams [simp]:
  "srv_downstreams (update_data d f s) x =
     (if x = d then map_option (\<lambda>c. c\<lparr>dn_data := f (dn_data c)\<rparr>) (srv_downstreams s d) else srv_downstreams s x)"
  by (simp add: update_data_def)

lemma update_connection_frame [simp]:
  "srv_mode (update_connection d f s) = srv_mode s"
  "srv_shares_per_minute (update_connection d f s) = srv_shares_per_minute s"
  "srv_enable_vardiff (update_connection d f s) = srv_enable_vardiff s"
  "srv_senders (update_connection d f s) = srv_senders s"
  "srv_downstream_id_factory (update_connection d f s) = srv_downstream_id_factory s"
  "srv_request_id_to_downstream_id (update_connection d f s) = srv_request_id_to_downstream_id s"
  "srv_channel_id_to_downstream_id (update_connection d f s) = srv_channel_id_to_downstream_id s"
  "srv_vardiff (update_connection d f s) = srv_vardiff s"
  "srv_pending_target_updates (update_connection d f s) = srv_pending_target_updates s"
  "srv_valid_sv1_jobs (update_connection d f s) = srv_valid_sv1_jobs s"
  "srv_out (update_connection d f s) = srv_out s"
  by (simp_all add: update_connection_def split: option.split)

lemma update_data_frame [simp]:
  "srv_mode (update_data d g s) = srv_mode s"
  "srv_shares_per_minute (update_data d g s) = srv_shares_per_minute s"
  "srv_enable_vardiff (update_data d g s) = srv_enable_vardiff s"
  "srv_senders (update_data d g s) = srv_senders s"
  "srv_downstream_id_factory (update_data d g s) = srv_downstream_id_factory s"
  "srv_request_id_to_downstream_id (update_data d g s) = srv_request_id_to_downstream_id s"
  "srv_channel_id_to_downstream_id (update_data d g s) = srv_channel_id_to_downstream_id s"
  "srv_vardiff (update_data d g s) = srv_vardiff s"
  "srv_pending_target_updates (update_data d g s) = srv_pending_target_updates s"
  "srv_valid_sv1_jobs (update_data d g s) = srv_valid_sv1_jobs s"
  "srv_out (update_data d g s) = srv_out s"
  by (simp_all add: update_data_def)

lemma send_event_frame [simp]:
  "srv_mode (snd (send_event env d ev s)) = srv_mode s"
  "srv_enable_vardiff (snd (send_event env d ev s)) = srv_enable_vardiff s"
  "srv_senders (snd (send_event env d ev s)) = srv_senders s"
  "srv_downstream_id_factory (snd (send_event env d ev s)) = srv_downstream_id_factory s"
  "srv_request_id_to_downstream_id (snd (send_event env d ev s)) = srv_request_id_to_downstream_id s"
  "srv_channel_id_to_downstream_id (snd (send_event env d ev s)) = srv_channel_id_to_downstream_id s"
  "srv_vardiff (snd (send_event env d ev s)) = srv_vardiff s"
  "srv_pending_target_updates (snd (send_event env d ev s)) = srv_pending_target_updates s"
  "srv_valid_sv1_jobs (snd (send_event env d ev s)) = srv_valid_sv1_jobs s"
  "srv_out (snd (send_event env d ev s)) = srv_out s"
  by (simp_all add: send_event_def)

lemma send_to_manager_frame [simp]:
  "srv_mode (snd (send_to_manager env m s)) = srv_mode s"
  "srv_enable_vardiff (snd (send_to_manager env m s)) = srv_enable_vardiff s"
  "srv_senders (snd (send_to_manager env m s)) = srv_senders s"
  "srv_downstream_id_factory (snd (send_to_manager env m s)) = srv_downstream_id_factory s"
  "srv_downstreams (snd (send_to_manager env m s)) = srv_downstreams s"
  "srv_request_id_to_downstream_id (snd (send_to_manager env m s)) = srv_request_id_to_downstream_id s"
  "srv_channel_id_to_downstream_id (snd (send_to_manager env m s)) = srv_channel_id_to_downstream_id s"
  "srv_vardiff (snd (send_to_manager env m s)) = srv_vardiff s"
  "srv_pending_target_updates (snd (send_to_manager env m s)) = srv_pending_target_updates s"
  "srv_valid_sv1_jobs (snd (send_to_manager env m s)) = srv_valid_sv1_jobs s"
  by (simp_all add: send_to_manager_def)

lemma queue_of_send_event:
  "queue_of x (snd (send_event env d ev s)) =
     (if x = d \<and> reachable_miner env d s then queue_of d s @ [ev] else queue_of x s)"
  by (auto simp: send_event_def queue_of_def reachable_miner_def split: option.splits)

lemma upstream_of_send_event [simp]: "upstream_of x (snd (send_event env d ev s)) = upstream_of x s"
  by (auto simp: send_event_def upstream_of_def split: option.splits)

lemma reachable_miner_send_event [simp]:
  "reachable_miner env x (snd (send_event env d ev s)) = reachable_miner env x s"
  by (auto simp: send_event_def reachable_miner_def)

section \<open>An example\<close>

text \<open>A library and a server with one miner that finished its setup, for concrete runs: difficulty messages
  are told apart by their target, the variable difficulty always asks for the hashrate 9, whose target is 40.\<close>

definition example_lib :: "unit server_lib" where
  "example_lib =
     \<lparr>VERSION_ROLLING_MASK = 0x1FFFE000, MAX_SEEN_SHARES = 2, u256_of_bytes = (\<lambda>_. Some 0),
      merkle_root_from_path = (\<lambda>_ _ e _. Some (of_nat (length e))), block_hash = (\<lambda>h. ucast (hdr_nonce h)),
      target_of_hash = (\<lambda>h. h), MAX_PAST_JOBS = 3, hash_rate_to_target = (\<lambda>h _. if h = 9 then Some 40 else Some 50),
      hash_rate_from_target = (\<lambda>_ _. None), hashrate_add = (+),
      build_set_difficulty = (\<lambda>t. Some (if t = 40 then ''40'' else ''50'')), advertised_target = Some,
      vardiff_new = (), increment_shares = (\<lambda>v. v), try_vardiff = (\<lambda>v _ _ _. (Inr (Some 9), v)),
      build_notify = (\<lambda>_ _ _. None), build_submit_shares = (\<lambda>share ch n v _. Some \<lparr>se_channel_id = ch,
        se_sequence_number = n, se_job_id = 7, se_nonce = sb_nonce share, se_ntime = sb_time share, se_version = v,
        se_extranonce = sb_extra_nonce2 share\<rparr>),
      build_open_channel = Some\<rparr>"

definition example_connection :: sv1_downstream where
  "example_connection = example_delivered\<lparr>dn_data := (dn_data example_delivered)
     \<lparr>dd_hashrate := Some 7, dd_target := 50, dd_upstream_target := Some 60,
      dd_cached_set_difficulty := Some ''50''\<rparr>\<rparr>"

definition example_server :: "unit sv1_server" where
  "example_server = (sv1_server_new NonAggregated 1 7 True None 4)
     \<lparr>srv_downstreams := [1 \<mapsto> example_connection], srv_senders := {1},
      srv_channel_id_to_downstream_id := [1 \<mapsto> 1], srv_vardiff := [1 \<mapsto> ()]\<rparr>"

definition example_env :: sv1_env where
  "example_env = \<lparr>env_now = 0, env_alive = (\<lambda>_. True), env_manager_open = True, env_visit = [1]\<rparr>"

lemmas example_server_defs = example_server_def example_connection_def example_env_def example_lib_def
  sv1_server_new_def

end
