(* ===== verification/Difficulty_Manager.thy ===== *)
theory Difficulty_Manager
  imports Sv1_Server
begin

text \<open>
  \<open>miner-apps/translator/src/lib/sv1/sv1_server/difficulty_manager.rs\<close>: the translator's variable
  difficulty. Each turn asks the difficulty state of every miner for a new hashrate, reports the change
  upstream, and tells the miner its new difficulty at once when its target is at least as easy as what the
  upstream accepts; a harder target waits until the upstream's \<open>SetTarget\<close> has caught up.

  The order in which the maps are visited is \<open>env_visit\<close>. A difficulty is known here by the target its
  \<open>mining.set_difficulty\<close> message is built from.
\<close>

section \<open>Model\<close>

text \<open>One miner's turn: the updates to report, the difficulties to send at once, the server. An
  \<open>unwrap\<close> of a missing hashrate is the outcome \<open>None\<close>.\<close>

type_synonym reported_update = "downstream_id \<times> channel_id \<times> target \<times> hashrate"

definition note_new_target :: "'v server_lib \<Rightarrow> target \<Rightarrow> hashrate \<Rightarrow> downstream_data \<Rightarrow> downstream_data" where
  "note_new_target L new_target new_hashrate data =
     (set_pending_hashrate (Some new_hashrate) (set_pending_target (advertise L new_target) data))
       \<lparr>dd_stable_hashrate := False\<rparr>"

definition advertise_now :: "target option \<Rightarrow> target \<Rightarrow> bool" where
  "advertise_now upstream_target new_target =
     (case upstream_target of Some u \<Rightarrow> u \<le> new_target | None \<Rightarrow> True)"

definition vardiff_update ::
  "'v server_lib \<Rightarrow> downstream_id \<Rightarrow> 'v sv1_server \<Rightarrow>
   (reported_update list \<times> (downstream_id \<times> target) list \<times> 'v sv1_server) option" where
  "vardiff_update L d s =
     (case srv_vardiff s d of
        None \<Rightarrow> Some ([], [], s)
      | Some v \<Rightarrow>
          (case srv_downstreams s d of
             None \<Rightarrow> Some ([], [], s)
           | Some c \<Rightarrow>
               (case dd_hashrate (dn_data c) of
                  None \<Rightarrow> None
                | Some h \<Rightarrow>
                    (case dd_channel_id (dn_data c) of
                       None \<Rightarrow> Some ([], [], s)
                     | Some channel_id \<Rightarrow>
                         (let (r, v') = try_vardiff L v h (dd_target (dn_data c)) (srv_shares_per_minute s);
                              s1 = s\<lparr>srv_vardiff := (srv_vardiff s)(d \<mapsto> v')\<rparr>
                          in case r of
                               Inl _ \<Rightarrow> Some ([], [], s1)
                             | Inr None \<Rightarrow> Some ([], [], update_data d (\<lambda>data. data\<lparr>dd_stable_hashrate := True\<rparr>) s1)
                             | Inr (Some new_hashrate) \<Rightarrow>
                                 (case hash_rate_to_target L new_hashrate (srv_shares_per_minute s1) of
                                    None \<Rightarrow> Some ([], [], s1)
                                  | Some new_target \<Rightarrow>
                                      (let s2 = update_data d (note_new_target L new_target new_hashrate) s1;
                                           update = (d, channel_id, new_target, new_hashrate)
                                       in if advertise_now (dd_upstream_target (dn_data c)) new_target
                                          then Some ([update], [(d, new_target)],
                                                 s2\<lparr>srv_pending_target_updates :=
                                                      (srv_pending_target_updates s2)(d := None)\<rparr>)
                                          else Some ([update], [],
                                                 s2\<lparr>srv_pending_target_updates :=
                                                      (srv_pending_target_updates s2)(d \<mapsto> new_target)\<rparr>))))))))"

fun vardiff_loop ::
  "'v server_lib \<Rightarrow> downstream_id list \<Rightarrow> 'v sv1_server \<Rightarrow>
   (reported_update list \<times> (downstream_id \<times> target) list \<times> 'v sv1_server) option" where
  "vardiff_loop L [] s = Some ([], [], s)"
| "vardiff_loop L (d # ds) s =
     (case vardiff_update L d s of
        None \<Rightarrow> None
      | Some (ups, now, s') \<Rightarrow>
          (case vardiff_loop L ds s' of
             None \<Rightarrow> None
           | Some (ups', now', s'') \<Rightarrow> Some (ups @ ups', now @ now', s'')))"

text \<open>\<open>send_pending_set_difficulty_messages_to_downstream\<close>, and the same loop at the end of a turn: a
  message that cannot be built or sent is skipped.\<close>

fun send_set_difficulties ::
  "'v server_lib \<Rightarrow> sv1_env \<Rightarrow> (downstream_id \<times> target) list \<Rightarrow> 'v sv1_server \<Rightarrow> 'v sv1_server" where
  "send_set_difficulties L env [] s = s"
| "send_set_difficulties L env ((d, t) # us) s =
     (case build_set_difficulty L t of
        None \<Rightarrow> send_set_difficulties L env us s
      | Some m \<Rightarrow> send_set_difficulties L env us (snd (send_event env d (EvSetDifficulty m) s)))"

definition send_aggregated_update_channel ::
  "'v server_lib \<Rightarrow> sv1_env \<Rightarrow> reported_update list \<Rightarrow> 'v sv1_server \<Rightarrow> unit outcome \<times> 'v sv1_server" where
  "send_aggregated_update_channel L env all_updates s =
     (case all_updates of
        [] \<Rightarrow> (Done (), s)
      | (_, channel_id, _, _) # _ \<Rightarrow>
          (case aggregated_downstream_snapshot L env s of
             None \<Rightarrow> (Panicked, s)
           | Some (SnapActive total_hashrate min_target) \<Rightarrow>
               (let (ok, s') = send_to_manager env (OutUpdateChannel channel_id total_hashrate min_target) s
                in (manager_outcome ok, s'))
           | Some _ \<Rightarrow> (Done (), s)))"

fun send_non_aggregated_update_channels ::
  "sv1_env \<Rightarrow> reported_update list \<Rightarrow> 'v sv1_server \<Rightarrow> unit outcome \<times> 'v sv1_server" where
  "send_non_aggregated_update_channels env [] s = (Done (), s)"
| "send_non_aggregated_update_channels env ((_, channel_id, new_target, new_hashrate) # us) s =
     (case send_to_manager env (OutUpdateChannel channel_id new_hashrate new_target) s of
        (True, s') \<Rightarrow> send_non_aggregated_update_channels env us s'
      | (False, s') \<Rightarrow> (manager_outcome False, s'))"

definition send_update_channel_messages ::
  "'v server_lib \<Rightarrow> sv1_env \<Rightarrow> reported_update list \<Rightarrow> 'v sv1_server \<Rightarrow> unit outcome \<times> 'v sv1_server" where
  "send_update_channel_messages L env all_updates s =
     (if is_aggregated (srv_mode s) then send_aggregated_update_channel L env all_updates s
      else send_non_aggregated_update_channels env all_updates s)"

definition handle_vardiff_updates ::
  "'v server_lib \<Rightarrow> sv1_env \<Rightarrow> 'v sv1_server \<Rightarrow> unit outcome \<times> 'v sv1_server" where
  "handle_vardiff_updates L env s =
     (case vardiff_loop L (env_visit env) s of
        None \<Rightarrow> (Panicked, s)
      | Some (all_updates, immediate_updates, s1) \<Rightarrow>
          (case (if all_updates \<noteq> [] then send_update_channel_messages L env all_updates s1 else (Done (), s1)) of
             (Done _, s2) \<Rightarrow> (Done (), send_set_difficulties L env immediate_updates s2)
           | (out, s2) \<Rightarrow> (out, s2)))"

text \<open>\<open>get_pending_difficulty_updates\<close>: the \<open>retain\<close> over the waiting targets.\<close>

fun get_pending_difficulty_updates ::
  "target \<Rightarrow> downstream_id option \<Rightarrow> downstream_id list \<Rightarrow> 'v sv1_server \<Rightarrow>
   (downstream_id \<times> target) list \<times> 'v sv1_server" where
  "get_pending_difficulty_updates u only [] s = ([], s)"
| "get_pending_difficulty_updates u only (d # ds) s =
     (case srv_pending_target_updates s d of
        None \<Rightarrow> get_pending_difficulty_updates u only ds s
      | Some pending_target \<Rightarrow>
          if (case only of Some x \<Rightarrow> d = x | None \<Rightarrow> True) \<and> u \<le> pending_target
          then (case get_pending_difficulty_updates u only ds
                       (s\<lparr>srv_pending_target_updates := (srv_pending_target_updates s)(d := None)\<rparr>) of
                  (us, s') \<Rightarrow> ((d, pending_target) # us, s'))
          else get_pending_difficulty_updates u only ds s)"

fun set_upstream_target_of_all :: "target \<Rightarrow> downstream_id list \<Rightarrow> 'v sv1_server \<Rightarrow> 'v sv1_server" where
  "set_upstream_target_of_all u [] s = s"
| "set_upstream_target_of_all u (d # ds) s =
     set_upstream_target_of_all u ds (update_data d (set_upstream_target u) s)"

definition handle_aggregated_set_target ::
  "'v server_lib \<Rightarrow> sv1_env \<Rightarrow> target \<Rightarrow> 'v sv1_server \<Rightarrow> 'v sv1_server" where
  "handle_aggregated_set_target L env new_upstream_target s =
     (let s1 = set_upstream_target_of_all new_upstream_target (env_visit env) s;
          (updates, s2) = get_pending_difficulty_updates new_upstream_target None (env_visit env) s1
      in send_set_difficulties L env updates s2)"

definition handle_non_aggregated_set_target ::
  "'v server_lib \<Rightarrow> sv1_env \<Rightarrow> channel_id \<Rightarrow> target \<Rightarrow> 'v sv1_server \<Rightarrow> 'v sv1_server" where
  "handle_non_aggregated_set_target L env channel_id new_upstream_target s =
     (case srv_channel_id_to_downstream_id s channel_id of
        None \<Rightarrow> s
      | Some d \<Rightarrow>
          (case srv_downstreams s d of
             None \<Rightarrow> s
           | Some _ \<Rightarrow>
               (let s1 = update_data d (set_upstream_target new_upstream_target) s;
                    (updates, s2) = get_pending_difficulty_updates new_upstream_target (Some d) (env_visit env) s1
                in send_set_difficulties L env updates s2)))"

definition handle_set_target_message ::
  "'v server_lib \<Rightarrow> sv1_env \<Rightarrow> channel_id \<Rightarrow> target \<Rightarrow> 'v sv1_server \<Rightarrow> 'v sv1_server" where
  "handle_set_target_message L env channel_id new_upstream_target s =
     (if is_aggregated (srv_mode s) then handle_aggregated_set_target L env new_upstream_target s
      else handle_non_aggregated_set_target L env channel_id new_upstream_target s)"

section \<open>Sending\<close>

lemma queue_of_send_set_difficulties:
  "queue_of d (send_set_difficulties L env us s) =
     queue_of d s @ (if reachable_miner env d s
       then map EvSetDifficulty (List.map_filter (\<lambda>(x, t). if x = d then build_set_difficulty L t else None) us)
       else [])"
proof (induction us arbitrary: s)
  case (Cons u us)
  then show ?case
    by (cases u) (auto simp: queue_of_send_event map_filter_simps split: option.splits)
qed (simp add: map_filter_simps)

lemma send_set_difficulties_frame [simp]:
  "upstream_of d (send_set_difficulties L env us s) = upstream_of d s"
  "srv_pending_target_updates (send_set_difficulties L env us s) = srv_pending_target_updates s"
  by (induction us arbitrary: s) (auto split: option.splits)

text \<open>The report to the upstream touches no miner.\<close>

definition same_miners :: "'v sv1_server \<Rightarrow> 'v sv1_server \<Rightarrow> bool" where
  "same_miners s s' \<longleftrightarrow>
     srv_downstreams s' = srv_downstreams s \<and> srv_senders s' = srv_senders s \<and>
     srv_pending_target_updates s' = srv_pending_target_updates s"

lemma same_miners_refl: "same_miners s s"
  by (simp add: same_miners_def)

lemma same_miners_send_to_manager: "send_to_manager env m s = (ok, s') \<Longrightarrow> same_miners s s'"
  using send_to_manager_frame [of env m s] by (simp add: same_miners_def)

lemma same_miners_non_aggregated:
  "send_non_aggregated_update_channels env us s = (out, s') \<Longrightarrow> same_miners s s'"
proof (induction us arbitrary: s)
  case (Cons u us)
  obtain ok s1 where s1: "send_to_manager env (OutUpdateChannel (fst (snd u)) (snd (snd (snd u))) (fst (snd (snd u)))) s = (ok, s1)"
    by fastforce
  have "same_miners s s1" by (rule same_miners_send_to_manager [OF s1])
  then show ?case
    using Cons.prems s1 Cons.IH [of s1] by (cases u; cases ok) (auto simp: same_miners_def)
qed (simp add: same_miners_def)

lemma same_miners_report:
  assumes "send_update_channel_messages L env us s = (out, s')"
  shows "same_miners s s'"
proof (cases "is_aggregated (srv_mode s)")
  case True
  then show ?thesis
    using assms
    by (auto simp: send_update_channel_messages_def send_aggregated_update_channel_def
        split: list.splits option.splits aggregated_snapshot.splits prod.splits
        intro: same_miners_send_to_manager same_miners_refl)
next
  case False
  then show ?thesis
    using assms same_miners_non_aggregated by (simp add: send_update_channel_messages_def)
qed

section \<open>A turn of the variable difficulty\<close>

text \<open>What the loop decides for one miner, in a server \<open>s\<close>: a difficulty for at once is one the upstream
  already accepts, a waiting one is not, and the queues are untouched.\<close>

definition turn_ok ::
  "'v sv1_server \<Rightarrow> (downstream_id \<times> target) list \<Rightarrow> 'v sv1_server \<Rightarrow> bool" where
  "turn_ok s now s' \<longleftrightarrow>
     (\<forall>d. queue_of d s' = queue_of d s \<and> upstream_of d s' = upstream_of d s) \<and>
     srv_senders s' = srv_senders s \<and>
     (\<forall>d. srv_downstreams s' d = None \<longleftrightarrow> srv_downstreams s d = None) \<and>
     (\<forall>(d, t) \<in> set now. advertise_now (upstream_of d s) t) \<and>
     (\<forall>d t. srv_pending_target_updates s' d = Some t \<longrightarrow>
        srv_pending_target_updates s d = Some t \<or> \<not> advertise_now (upstream_of d s) t)"

lemma turn_ok_refl: "turn_ok s [] s"
  by (simp add: turn_ok_def)

lemma turn_ok_trans:
  assumes "turn_ok s now s'" and "turn_ok s' now' s''"
  shows "turn_ok s (now @ now') s''"
  using assms unfolding turn_ok_def by (simp add: ball_Un) blast

lemma turn_ok_vardiff: "turn_ok s [] (s\<lparr>srv_vardiff := v\<rparr>)"
  by (simp add: turn_ok_def queue_of_def upstream_of_def)

lemma turn_ok_update_data:
  assumes "\<And>data. dd_upstream_target (f data) = dd_upstream_target data"
  shows "turn_ok s [] (update_data d f s)"
  using assms by (auto simp: turn_ok_def queue_of_def upstream_of_def split: option.splits)

lemma turn_ok_advertised:
  assumes "turn_ok s [] s'" and "advertise_now (upstream_of d s) t"
  shows "turn_ok s [(d, t)] (s'\<lparr>srv_pending_target_updates := (srv_pending_target_updates s')(d := None)\<rparr>)"
  using assms by (auto simp: turn_ok_def queue_of_def upstream_of_def)

lemma turn_ok_waiting:
  assumes "turn_ok s [] s'" and "\<not> advertise_now (upstream_of d s) t"
  shows "turn_ok s [] (s'\<lparr>srv_pending_target_updates := (srv_pending_target_updates s')(d \<mapsto> t)\<rparr>)"
  using assms by (auto simp: turn_ok_def queue_of_def upstream_of_def)

lemma turn_ok_vardiff_update:
  assumes "vardiff_update L d s = Some (ups, now, s')"
  shows "turn_ok s now s'"
proof -
  have noted: "turn_ok s [] (update_data d (note_new_target L t h) (s\<lparr>srv_vardiff := v\<rparr>))" for t h v
    using turn_ok_trans [OF turn_ok_vardiff turn_ok_update_data [of "note_new_target L t h"]]
    by (simp add: note_new_target_def set_pending_target_def set_pending_hashrate_def)
  have stable: "turn_ok s [] (update_data d (\<lambda>data. data\<lparr>dd_stable_hashrate := True\<rparr>) (s\<lparr>srv_vardiff := v\<rparr>))" for v
    using turn_ok_trans [OF turn_ok_vardiff turn_ok_update_data [of "\<lambda>data. data\<lparr>dd_stable_hashrate := True\<rparr>"]] by simp
  have up: "dd_upstream_target (dn_data c) = upstream_of d s" if "srv_downstreams s d = Some c" for c
    using that by (simp add: upstream_of_def)
  show ?thesis
    using assms turn_ok_refl [of s] turn_ok_vardiff [of s] stable turn_ok_advertised [OF noted] turn_ok_waiting [OF noted]
    by (auto simp: vardiff_update_def Let_def up split: option.splits sum.splits prod.splits if_splits)
qed

lemma turn_ok_vardiff_loop: "vardiff_loop L ds s = Some (ups, now, s') \<Longrightarrow> turn_ok s now s'"
proof (induction ds arbitrary: s ups now)
  case (Cons d ds)
  obtain ups1 now1 s1 ups2 now2 where steps: "vardiff_update L d s = Some (ups1, now1, s1)"
    "vardiff_loop L ds s1 = Some (ups2, now2, s')" "now = now1 @ now2"
    using Cons.prems by (auto split: option.splits)
  show ?case
    unfolding steps(3) by (rule turn_ok_trans [OF turn_ok_vardiff_update [OF steps(1)] Cons.IH [OF steps(2)]])
qed (simp add: turn_ok_refl)

lemma turn_ok_same_miners: "turn_ok s now s' \<Longrightarrow> same_miners s' s'' \<Longrightarrow> turn_ok s now s''"
  by (simp add: turn_ok_def same_miners_def queue_of_def upstream_of_def)

text \<open>
  Variable difficulty never costs a miner shares the upstream would pay for. Whatever the
  difficulty states answer, in a turn every difficulty queued to a miner is built from a target at least as
  easy as the one its upstream accepts (if it has told one); a target that is harder is only remembered; and
  the turn changes nothing else in any miner's queue nor the upstream target it knows.
\<close>

theorem difficulty_turn_respects_upstream:
  "\<exists>ms. queue_of d (snd (handle_vardiff_updates L env s)) = queue_of d s @ map EvSetDifficulty ms \<and>
     list_all (\<lambda>m. \<exists>t. build_set_difficulty L t = Some m \<and> advertise_now (upstream_of d s) t) ms \<and>
     upstream_of d (snd (handle_vardiff_updates L env s)) = upstream_of d s \<and>
     (case srv_pending_target_updates (snd (handle_vardiff_updates L env s)) d of
        None \<Rightarrow> True
      | Some t \<Rightarrow>
          if advertise_now (upstream_of d s) t then srv_pending_target_updates s d = Some t else True)"
proof (cases "vardiff_loop L (env_visit env) s")
  case None
  then show ?thesis
    by (intro exI [of _ "[]"]) (simp add: handle_vardiff_updates_def split: option.split)
next
  case (Some r)
  obtain ups now s1 where loop: "vardiff_loop L (env_visit env) s = Some (ups, now, s1)"
    using Some by (cases r) auto
  obtain out s2 where report: "(if ups \<noteq> [] then send_update_channel_messages L env ups s1 else (Done (), s1)) = (out, s2)"
    by fastforce
  have ok: "turn_ok s now s2"
    using report turn_ok_vardiff_loop [OF loop] turn_ok_same_miners same_miners_report
    by (fastforce split: if_splits)
  let ?ms = "List.map_filter (\<lambda>(x, t). if x = d then build_set_difficulty L t else None) now"
  have built: "list_all (\<lambda>m. \<exists>t. build_set_difficulty L t = Some m \<and> advertise_now (upstream_of d s) t) ?ms"
    using ok by (auto simp: list_all_iff turn_ok_def map_filter_def split: if_splits)
  have pending: "srv_pending_target_updates s2 d = Some t \<Longrightarrow>
      srv_pending_target_updates s d = Some t \<or> \<not> advertise_now (upstream_of d s) t" for t
    using ok by (simp add: turn_ok_def)
  have turn: "handle_vardiff_updates L env s =
      (case out of Done _ \<Rightarrow> (Done (), send_set_difficulties L env now s2) | _ \<Rightarrow> (out, s2))"
    using loop report by (auto simp: handle_vardiff_updates_def split: attempt.splits)
  show ?thesis
  proof (cases out)
    case (Done u)
    then show ?thesis
      using ok built pending turn
      by (intro exI [of _ "if reachable_miner env d s2 then ?ms else []"])
        (auto simp: queue_of_send_set_difficulties turn_ok_def split: option.split)
  qed (use ok pending turn in \<open>auto simp: turn_ok_def split: option.split\<close>)
qed

section \<open>SetTarget\<close>

text \<open>The waiting targets that a \<open>SetTarget\<close> releases.\<close>

definition releases :: "target \<Rightarrow> downstream_id option \<Rightarrow> 'v sv1_server \<Rightarrow> downstream_id \<Rightarrow> (downstream_id \<times> target) option" where
  "releases u only s d =
     (case srv_pending_target_updates s d of
        Some t \<Rightarrow> if (case only of Some x \<Rightarrow> d = x | None \<Rightarrow> True) \<and> u \<le> t then Some (d, t) else None
      | None \<Rightarrow> None)"

lemma map_filter_cong_set:
  "(\<And>x. x \<in> set xs \<Longrightarrow> f x = g x) \<Longrightarrow> List.map_filter f xs = List.map_filter g xs"
  by (induction xs) (auto simp: map_filter_simps split: option.split)

lemma get_pending_difficulty_updates_spec:
  assumes "distinct ds"
  shows "get_pending_difficulty_updates u only ds s =
    (List.map_filter (releases u only s) ds,
     s\<lparr>srv_pending_target_updates :=
        (\<lambda>d. if d \<in> set ds \<and> releases u only s d \<noteq> None then None else srv_pending_target_updates s d)\<rparr>)"
  using assms
proof (induction ds arbitrary: s)
  case (Cons d ds)
  show ?case
  proof (cases "releases u only s d")
    case None
    have "(\<lambda>x. if x \<in> set ds \<and> releases u only s x \<noteq> None then None else srv_pending_target_updates s x) =
      (\<lambda>x. if x \<in> set (d # ds) \<and> releases u only s x \<noteq> None then None else srv_pending_target_updates s x)"
      using None by (auto simp: fun_eq_iff)
    moreover have "get_pending_difficulty_updates u only (d # ds) s = get_pending_difficulty_updates u only ds s"
      using None by (auto simp: releases_def split: option.splits if_splits)
    ultimately show ?thesis using Cons None by (simp add: map_filter_simps)
  next
    case (Some r)
    let ?s = "s\<lparr>srv_pending_target_updates := (srv_pending_target_updates s)(d := None)\<rparr>"
    obtain t where t: "srv_pending_target_updates s d = Some t" "r = (d, t)"
      "(case only of Some x \<Rightarrow> d = x | None \<Rightarrow> True) \<and> u \<le> t"
      using Some by (auto simp: releases_def split: option.splits if_splits)
    have other: "x \<in> set ds \<Longrightarrow> releases u only ?s x = releases u only s x" for x
      using Cons.prems by (auto simp: releases_def)
    have "List.map_filter (releases u only ?s) ds = List.map_filter (releases u only s) ds"
      using other by (rule map_filter_cong_set)
    moreover have "(\<lambda>x. if x \<in> set ds \<and> releases u only ?s x \<noteq> None then None else srv_pending_target_updates ?s x) =
      (\<lambda>x. if x \<in> set (d # ds) \<and> releases u only s x \<noteq> None then None else srv_pending_target_updates s x)"
      using other Some t(2) by (auto simp: fun_eq_iff)
    ultimately show ?thesis
      using Cons.IH [of ?s] Cons.prems t Some by (simp add: map_filter_simps)
  qed
qed (simp add: map_filter_simps)

lemma set_upstream_target_of_all_spec:
  "srv_downstreams (set_upstream_target_of_all u ds s) d =
     (if d \<in> set ds then map_option (\<lambda>c. c\<lparr>dn_data := set_upstream_target u (dn_data c)\<rparr>) (srv_downstreams s d)
      else srv_downstreams s d)"
  "srv_senders (set_upstream_target_of_all u ds s) = srv_senders s"
  "srv_pending_target_updates (set_upstream_target_of_all u ds s) = srv_pending_target_updates s"
  by (induction ds arbitrary: s) (auto simp: option.map_comp set_upstream_target_def comp_def)

lemma map_filter_one_key:
  assumes "distinct ds" and "\<And>x. f x = None \<or> (\<exists>t. f x = Some (x, t))"
  shows "List.map_filter (\<lambda>(x, t). if x = d then h t else None) (List.map_filter f ds) =
    (if d \<in> set ds then (case f d of None \<Rightarrow> [] | Some (_, t) \<Rightarrow> (case h t of None \<Rightarrow> [] | Some m \<Rightarrow> [m])) else [])"
  using assms(1)
proof (induction ds)
  case (Cons x ds)
  consider "f x = None" | t where "f x = Some (x, t)" using assms(2) [of x] by auto
  then show ?case using Cons by cases (auto simp: map_filter_simps split: option.split)
qed (simp add: map_filter_simps)

definition concerned :: "channel_id \<Rightarrow> 'v sv1_server \<Rightarrow> downstream_id \<Rightarrow> bool" where
  "concerned channel_id s d \<longleftrightarrow>
     (if is_aggregated (srv_mode s) then True
      else srv_channel_id_to_downstream_id s channel_id = Some d \<and> srv_downstreams s d \<noteq> None)"

text \<open>The effect on one miner of releasing what waits, after the upstream targets were set.\<close>

lemma release_spec:
  assumes "distinct (env_visit env)" and "srv_pending_target_updates s d \<noteq> None \<longrightarrow> d \<in> set (env_visit env)"
    and "get_pending_difficulty_updates u only (env_visit env) s = (us, s1)"
  shows "srv_pending_target_updates (send_set_difficulties L env us s1) d =
      (if releases u only s d \<noteq> None then None else srv_pending_target_updates s d)"
    and "queue_of d (send_set_difficulties L env us s1) = queue_of d s @
      (case releases u only s d of
         None \<Rightarrow> []
       | Some (_, t) \<Rightarrow>
           if reachable_miner env d s then map EvSetDifficulty (case build_set_difficulty L t of None \<Rightarrow> [] | Some m \<Rightarrow> [m])
           else [])"
    and "upstream_of d (send_set_difficulties L env us s1) = upstream_of d s"
proof -
  have us: "us = List.map_filter (releases u only s) (env_visit env)"
    and s1: "s1 = s\<lparr>srv_pending_target_updates :=
      (\<lambda>d. if d \<in> set (env_visit env) \<and> releases u only s d \<noteq> None then None else srv_pending_target_updates s d)\<rparr>"
    using get_pending_difficulty_updates_spec [OF assms(1), of u only s] assms(3) by simp_all
  have pair: "releases u only s x = None \<or> (\<exists>t. releases u only s x = Some (x, t))" for x
    by (auto simp: releases_def split: option.splits)
  have visited: "d \<in> set (env_visit env) \<or> releases u only s d = None"
    using assms(2) by (auto simp: releases_def split: option.splits)
  show "srv_pending_target_updates (send_set_difficulties L env us s1) d =
      (if releases u only s d \<noteq> None then None else srv_pending_target_updates s d)"
    using visited by (auto simp: s1)
  have "upstream_of d s1 = upstream_of d s" by (simp add: s1 upstream_of_def)
  then show "upstream_of d (send_set_difficulties L env us s1) = upstream_of d s" by simp
  have "queue_of d s1 = queue_of d s" "reachable_miner env d s1 = reachable_miner env d s"
    by (simp_all add: s1 queue_of_def reachable_miner_def)
  then show "queue_of d (send_set_difficulties L env us s1) = queue_of d s @
      (case releases u only s d of
         None \<Rightarrow> []
       | Some (_, t) \<Rightarrow>
           if reachable_miner env d s then map EvSetDifficulty (case build_set_difficulty L t of None \<Rightarrow> [] | Some m \<Rightarrow> [m])
           else [])"
    using visited map_filter_one_key [OF assms(1) pair, of d "build_set_difficulty L"]
    by (auto simp: queue_of_send_set_difficulties us split: option.split)
qed

text \<open>
  A waiting difficulty is sent exactly when the upstream has caught up. If the visited order lists every
  miner and every waiting target once, then after a \<open>SetTarget\<close> each miner it concerns (all in aggregated
  mode, the channel's miner otherwise) knows the new upstream target; a target waiting for it leaves the
  waiting list and is queued to the miner, if it can be, exactly when it is at least as easy as the new one;
  every other waiting target and every other queue stays as it was.
\<close>

theorem set_target_releases_what_upstream_accepts:
  assumes "distinct (env_visit env)"
    and "dom (srv_downstreams s) \<union> dom (srv_pending_target_updates s) \<subseteq> set (env_visit env)"
  shows "srv_pending_target_updates (handle_set_target_message L env ch u s) d =
      (case srv_pending_target_updates s d of
         Some t \<Rightarrow> if concerned ch s d \<and> u \<le> t then None else Some t
       | None \<Rightarrow> None) \<and>
    queue_of d (handle_set_target_message L env ch u s) = queue_of d s @
      (case srv_pending_target_updates s d of
         Some t \<Rightarrow>
           if concerned ch s d \<and> u \<le> t \<and> reachable_miner env d s
           then map EvSetDifficulty (case build_set_difficulty L t of None \<Rightarrow> [] | Some m \<Rightarrow> [m]) else []
       | None \<Rightarrow> []) \<and>
    upstream_of d (handle_set_target_message L env ch u s) =
      (if concerned ch s d \<and> srv_downstreams s d \<noteq> None then Some u else upstream_of d s)"
proof (cases "is_aggregated (srv_mode s)")
  case True
  let ?s1 = "set_upstream_target_of_all u (env_visit env) s"
  obtain us s2 where g: "get_pending_difficulty_updates u None (env_visit env) ?s1 = (us, s2)" by fastforce
  have eq: "handle_set_target_message L env ch u s = send_set_difficulties L env us s2"
    using True g by (simp add: handle_set_target_message_def handle_aggregated_set_target_def)
  have in_visit: "srv_downstreams s d \<noteq> None \<longrightarrow> d \<in> set (env_visit env)"
    "srv_pending_target_updates ?s1 d \<noteq> None \<longrightarrow> d \<in> set (env_visit env)"
    using assms(2) by (auto simp: set_upstream_target_of_all_spec)
  have s1: "queue_of d ?s1 = queue_of d s" "reachable_miner env d ?s1 = reachable_miner env d s"
    "upstream_of d ?s1 = (if srv_downstreams s d \<noteq> None then Some u else upstream_of d s)"
    using in_visit(1)
    by (auto simp: queue_of_def reachable_miner_def upstream_of_def set_upstream_target_of_all_spec
        set_upstream_target_def split: option.splits)
  show ?thesis
    using release_spec [OF assms(1) in_visit(2) g, of L] s1 True
    by (auto simp: eq concerned_def releases_def set_upstream_target_of_all_spec split: option.splits)
next
  case False
  show ?thesis
  proof (cases "\<exists>x. srv_channel_id_to_downstream_id s ch = Some x \<and> srv_downstreams s x \<noteq> None")
    case True
    then obtain x c where x: "srv_channel_id_to_downstream_id s ch = Some x" "srv_downstreams s x = Some c" by auto
    let ?s1 = "update_data x (set_upstream_target u) s"
    obtain us s2 where g: "get_pending_difficulty_updates u (Some x) (env_visit env) ?s1 = (us, s2)" by fastforce
    have eq: "handle_set_target_message L env ch u s = send_set_difficulties L env us s2"
      using False x g by (simp add: handle_set_target_message_def handle_non_aggregated_set_target_def)
    have in_visit: "srv_pending_target_updates ?s1 d \<noteq> None \<longrightarrow> d \<in> set (env_visit env)"
      using assms(2) by auto
    have s1: "queue_of d ?s1 = queue_of d s" "reachable_miner env d ?s1 = reachable_miner env d s"
      "upstream_of d ?s1 = (if d = x then Some u else upstream_of d s)"
      using x(2) by (auto simp: queue_of_def reachable_miner_def upstream_of_def set_upstream_target_def split: option.splits)
    show ?thesis
      using release_spec [OF assms(1) in_visit g, of L] s1 False x
      by (auto simp: eq concerned_def releases_def split: option.splits)
  next
    case none: False
    then have "handle_set_target_message L env ch u s = s"
      using False by (auto simp: handle_set_target_message_def handle_non_aggregated_set_target_def split: option.split)
    then show ?thesis using False none by (auto simp: concerned_def split: option.split)
  qed
qed

theorem set_target_releases_what_upstream_accepts_witness:
  "srv_pending_target_updates
     (handle_set_target_message example_lib example_env 1 30
        (example_server\<lparr>srv_pending_target_updates := [1 \<mapsto> 40]\<rparr>)) 1 = None \<and>
   upstream_of 1 (handle_set_target_message example_lib example_env 1 30
        (example_server\<lparr>srv_pending_target_updates := [1 \<mapsto> 40]\<rparr>)) = Some 30"
proof -
  let ?s = "example_server\<lparr>srv_pending_target_updates := [1 \<mapsto> 40]\<rparr>"
  have "distinct (env_visit example_env)"
    "dom (srv_downstreams ?s) \<union> dom (srv_pending_target_updates ?s) \<subseteq> set (env_visit example_env)"
    by (auto simp: example_server_def example_env_def sv1_server_new_def split: if_splits)
  from set_target_releases_what_upstream_accepts [OF this, of example_lib 1 30 1]
  show ?thesis by (simp add: concerned_def example_server_def sv1_server_new_def is_aggregated_def)
qed

section \<open>A target that waits is applied early\<close>

text \<open>
  A turn that lets a harder target wait still makes it the miner's pending target. If another
  difficulty message is waiting for the next job, that job goes out with the old, easier difficulty while its
  shares are validated against the harder target the upstream has not accepted yet.
\<close>

theorem waiting_target_is_applied_early:
  assumes "vardiff_update L d s = Some (ups, [], s')" and "ups \<noteq> []"
    and "srv_downstreams s d = Some c" and "dd_cached_set_difficulty (dn_data c) = Some m"
    and "dd_cached_set_extranonce (dn_data c) = None" and "store_inv (dd_job_validation_contexts (dn_data c))"
  shows "\<exists>t c' data. srv_pending_target_updates s' d = Some t \<and> \<not> advertise_now (upstream_of d s) t \<and>
    srv_downstreams s' d = Some c' \<and>
    send_job now nt (dn_data c') = JobMessages [MSetDifficulty m, MNotify nt] data \<and>
    map_option jc_target (job_validation_context (nt_job_id nt) data) = Some (advertise L t)"
proof -
  obtain t h v where t: "\<not> advertise_now (upstream_of d s) t"
    "s' = (update_data d (note_new_target L t h) (s\<lparr>srv_vardiff := v\<rparr>))
       \<lparr>srv_pending_target_updates := (srv_pending_target_updates s)(d \<mapsto> t)\<rparr>"
    using assms(1,2,3)
    by (auto simp: vardiff_update_def Let_def upstream_of_def split: option.splits sum.splits prod.splits if_splits)
  let ?data = "note_new_target L t h (dn_data c)"
  let ?ctx = "\<lparr>jc_extranonce = dd_extranonce1 (dn_data c), jc_extranonce2_len = dd_extranonce2_len (dn_data c),
    jc_target = advertise L t\<rparr>"
  obtain st where st: "store_activate (nt_job_id nt) ?ctx (nt_clean_jobs nt) (dd_job_validation_contexts (dn_data c)) = Some st"
    using store_activate_spec [OF assms(6)] by metis
  then have "store_get (nt_job_id nt) st = Some ?ctx"
    by (auto simp: store_activate_def store_get_def Let_def split: if_splits option.splits)
  then obtain data where "send_job now nt ?data = JobMessages [MSetDifficulty m, MNotify nt] data"
    "map_option jc_target (job_validation_context (nt_job_id nt) data) = Some (advertise L t)"
    using assms(4,5) st
    by (cases "nt_clean_jobs nt")
      (simp_all add: send_job_def take_difficulty_def record_job_validation_context_def note_new_target_def
        set_pending_target_def set_pending_hashrate_def job_validation_context_def Let_def)
  then show ?thesis using t assms(3) by (intro exI [of _ t]) simp
qed

lemma example_store_inv: "store_inv (dd_job_validation_contexts (dn_data example_connection))"
  using dn_reach_inv [OF example_delivered_reach]
  by (auto simp: example_connection_def dn_running_inv_def dn_contexts_inv_def example_defs)

theorem waiting_target_is_applied_early_witness:
  "\<exists>data. send_job 0 example_job
      (dn_data (the (srv_downstreams (snd (snd (the (vardiff_update example_lib 1 example_server)))) 1))) =
      JobMessages [MSetDifficulty ''50'', MNotify example_job] data \<and>
    map_option jc_target (job_validation_context ''7'' data) = Some 40"
proof -
  obtain ups s' where turn: "vardiff_update example_lib 1 example_server = Some (ups, [], s')" "ups \<noteq> []"
    "srv_pending_target_updates s' 1 = Some 40"
    by (simp add: vardiff_update_def example_server_defs example_delivered_def example_defs advertise_now_def)
  have "srv_downstreams example_server 1 = Some example_connection"
    "dd_cached_set_difficulty (dn_data example_connection) = Some ''50''"
    "dd_cached_set_extranonce (dn_data example_connection) = None"
    by (simp_all add: example_server_def example_connection_def sv1_server_new_def example_defs)
  from waiting_target_is_applied_early [OF turn(1,2) this example_store_inv, of 0 example_job]
  show ?thesis using turn by (auto simp: advertise_def example_lib_def example_job_def)
qed

end
