(* ===== verification/Sv1_Run.thy ===== *)
theory Sv1_Run
  imports Difficulty_Manager
begin

text \<open>
  The SV1 server as a whole: its handlers, the turns of its timers and the tasks of its miners as steps of
  one system, and the invariant of its registries. The requests of a miner are dispatched by \<open>sv1_api\<close>,
  which calls the methods of \<open>downstream_message_handler.rs\<close>; that is all that is assumed of it.
\<close>

section \<open>The main loop\<close>

text \<open>What the loop of \<open>start\<close> makes of a handler's outcome: \<open>handle_error_action\<close>, and the cleanup
  before the loop ends. A panic is the outcome \<open>None\<close>.\<close>

datatype tp_loop_control = TpContinue | TpBreak

record server_tokens =
  cancellation_token :: bool
  fallback_token :: bool

definition server_error_action ::
  "'v server_lib \<Rightarrow> sv1_env \<Rightarrow> tproxy_error \<Rightarrow> server_tokens \<Rightarrow> 'v sv1_server \<Rightarrow>
   (tp_loop_control \<times> server_tokens \<times> 'v sv1_server) option" where
  "server_error_action L env e tokens s =
     (if cancellation_token tokens then Some (TpContinue, tokens, s)
      else if fallback_token tokens then Some (TpContinue, tokens, s)
      else
        (case tp_action e of
           TpLog \<Rightarrow> Some (TpContinue, tokens, s)
         | TpDisconnect d \<Rightarrow>
             (case handle_downstream_disconnect L env d s of
                (Done _, s') \<Rightarrow> Some (TpContinue, tokens, s')
              | (Failed _, s') \<Rightarrow> Some (TpBreak, tokens\<lparr>cancellation_token := True\<rparr>, s')
              | (Panicked, _) \<Rightarrow> None)
         | TpFallback \<Rightarrow> Some (TpBreak, tokens\<lparr>fallback_token := True\<rparr>, s)
         | TpShutdown \<Rightarrow> Some (TpBreak, tokens\<lparr>cancellation_token := True\<rparr>, s)))"

definition server_turn ::
  "'v server_lib \<Rightarrow> sv1_env \<Rightarrow> server_tokens \<Rightarrow> unit outcome \<times> 'v sv1_server \<Rightarrow>
   (tp_loop_control \<times> server_tokens \<times> 'v sv1_server) option" where
  "server_turn L env tokens r =
     (case r of
        (Done _, s) \<Rightarrow> Some (TpContinue, tokens, s)
      | (Failed e, s) \<Rightarrow>
          (case server_error_action L env e tokens s of
             Some (TpBreak, tokens', s') \<Rightarrow> Some (TpBreak, tokens', server_cleanup s')
           | other \<Rightarrow> other)
      | (Panicked, s) \<Rightarrow> None)"

text \<open>\<open>set_user_identity\<close>: the identity is written once; a second time panics.\<close>

definition set_user_identity :: "string \<Rightarrow> 'v sv1_server \<Rightarrow> 'v sv1_server option" where
  "set_user_identity user_identity s =
     (case srv_user_identity s of
        None \<Rightarrow> Some (s\<lparr>srv_user_identity := Some user_identity\<rparr>)
      | Some _ \<Rightarrow> None)"

section \<open>Steps\<close>

text \<open>The methods \<open>sv1_api\<close> may call for a miner, in any number and order.\<close>

inductive method_call :: "'v server_lib \<Rightarrow> downstream_id \<Rightarrow> 'v sv1_server \<Rightarrow> 'v sv1_server \<Rightarrow> bool"
  for L d where
  none: "method_call L d s s"
| configure: "method_call L d s s' \<Longrightarrow> method_call L d s (snd (handle_configure L d m b s'))"
| authorize: "method_call L d s s' \<Longrightarrow> method_call L d s (snd (authorize d name s'))"
| submit: "method_call L d s s' \<Longrightarrow> method_call L d s (snd (handle_submit L d share s'))"
| subscribe: "method_call L d s s' \<Longrightarrow> method_call L d s (snd (handle_extranonce_subscribe d s'))"
| rolling_mask: "method_call L d s s' \<Longrightarrow> method_call L d s (snd (set_version_rolling_mask d m s'))"
| min_bit: "method_call L d s s' \<Longrightarrow> method_call L d s (snd (set_version_rolling_min_bit d m s'))"

type_synonym 'v parsed_request_handler =
  "downstream_id \<Rightarrow> client_request \<Rightarrow> 'v sv1_server \<Rightarrow> (tproxy_error, sv1_reply) result \<times> 'v sv1_server"

definition calls_methods :: "'v server_lib \<Rightarrow> 'v parsed_request_handler \<Rightarrow> bool" where
  "calls_methods L handle \<longleftrightarrow> (\<forall>d request s. method_call L d s (snd (handle d request s)))"

text \<open>The handler of an upstream message chooses by the kind of message; \<open>SetTarget\<close> depends on whether
  the translator manages the difficulty. Downstream ids come from a 64-bit counter that is never exhausted.\<close>

inductive sv1_step :: "'v server_lib \<Rightarrow> 'v parsed_request_handler \<Rightarrow> 'v sv1_server \<Rightarrow> 'v sv1_server \<Rightarrow> bool"
  for L handle where
  identity: "set_user_identity u s = Some s' \<Longrightarrow> sv1_step L handle s s'"
| accept: "srv_downstream_id_factory s \<noteq> - 1 \<Longrightarrow> sv1_step L handle s (accept_miner L first_target s)"
| request: "sv1_step L handle s (snd (server_downstream_message L env handle sent d message s))"
| open_success: "sv1_step L handle s (snd (handle_open_success L env valid handle sent first_target m s))"
| open_error: "sv1_step L handle s (snd (handle_open_error r s))"
| new_job: "handle_new_job L env job s = Some (out, s') \<Longrightarrow> sv1_step L handle s s'"
| prev_hash: "sv1_step L handle s (handle_set_new_prev_hash ph s)"
| set_target: "srv_enable_vardiff s \<Longrightarrow> sv1_step L handle s (handle_set_target_message L env ch u s)"
| forward_target: "\<not> srv_enable_vardiff s \<Longrightarrow>
    sv1_step L handle s (snd (handle_set_target_without_vardiff L env ch u s))"
| upstream_close: "sv1_step L handle s (disconnect_downstream_for_upstream_close ch s)"
| extranonce: "sv1_step L handle s (snd (server_extranonce_change env valid ch e s))"
| vardiff_turn: "srv_enable_vardiff s \<Longrightarrow> sv1_step L handle s (snd (handle_vardiff_updates L env s))"
| keepalive: "send_keepalive_jobs env secs s = Some s' \<Longrightarrow> sv1_step L handle s s'"
| task: "srv_downstreams s d = Some c \<Longrightarrow> handle_sv1_server_message k now c = Some c' \<Longrightarrow>
    sv1_step L handle s (update_connection d (\<lambda>_. c') s)"
| disconnect: "sv1_step L handle s (snd (handle_downstream_disconnect L env d s))"
| stop: "sv1_step L handle s (server_cleanup s)"

inductive sv1_reach :: "'v server_lib \<Rightarrow> 'v parsed_request_handler \<Rightarrow> 'v sv1_server \<Rightarrow> bool"
  for L handle where
  new: "sv1_reach L handle (sv1_server_new mode spm min_hashrate vd max_past e2)"
| step: "sv1_reach L handle s \<Longrightarrow> sv1_step L handle s s' \<Longrightarrow> sv1_reach L handle s'"

section \<open>The invariant\<close>

text \<open>Every id in a registry belongs to a registered miner; a routed channel is the channel of its miner; an
  open request is the only one of its miner, which has no channel yet and a request queued; the job stores
  are well formed; every miner has a hashrate.\<close>

definition request_ok :: "'v sv1_server \<Rightarrow> downstream_id \<Rightarrow> bool" where
  "request_ok s d \<longleftrightarrow> (\<exists>c. srv_downstreams s d = Some c \<and> dd_channel_id (dn_data c) = None \<and>
     dd_queued_sv1_handshake_messages (dn_data c) \<noteq> [])"

definition connection_ok :: "sv1_downstream \<Rightarrow> bool" where
  "connection_ok c \<longleftrightarrow> dd_hashrate (dn_data c) \<noteq> None \<and> store_inv (dd_job_validation_contexts (dn_data c))"

definition jobs_ok :: "'v sv1_server \<Rightarrow> bool" where
  "jobs_ok s \<longleftrightarrow> (\<forall>ch jobs. srv_valid_sv1_jobs s ch = Some jobs \<longrightarrow> store_inv jobs)"

definition registry_inv :: "'v sv1_server \<Rightarrow> bool" where
  "registry_inv s \<longleftrightarrow>
     srv_senders s = dom (srv_downstreams s) \<and>
     (\<forall>d c. srv_downstreams s d = Some c \<longrightarrow> d < srv_downstream_id_factory s \<and> connection_ok c) \<and>
     (\<forall>r d. srv_request_id_to_downstream_id s r = Some d \<longrightarrow> request_ok s d) \<and>
     inj_on (srv_request_id_to_downstream_id s) (dom (srv_request_id_to_downstream_id s)) \<and>
     (\<forall>ch d. srv_channel_id_to_downstream_id s ch = Some d \<longrightarrow>
        (\<exists>c. srv_downstreams s d = Some c \<and> dd_channel_id (dn_data c) = Some ch)) \<and>
     dom (srv_vardiff s) \<subseteq> dom (srv_downstreams s) \<and>
     dom (srv_pending_target_updates s) \<subseteq> dom (srv_downstreams s) \<and>
     (\<not> srv_enable_vardiff s \<longrightarrow> srv_vardiff s = Map.empty \<and> srv_pending_target_updates s = Map.empty) \<and>
     jobs_ok s"

section \<open>Handlers that keep the registries\<close>

definition same_connection :: "sv1_downstream \<Rightarrow> sv1_downstream \<Rightarrow> bool" where
  "same_connection c c' \<longleftrightarrow>
     dd_channel_id (dn_data c') = dd_channel_id (dn_data c) \<and>
     (dd_queued_sv1_handshake_messages (dn_data c) \<noteq> [] \<longrightarrow> dd_queued_sv1_handshake_messages (dn_data c') \<noteq> []) \<and>
     (connection_ok c \<longrightarrow> connection_ok c')"

definition keeps_registry :: "'v sv1_server \<Rightarrow> 'v sv1_server \<Rightarrow> bool" where
  "keeps_registry s s' \<longleftrightarrow>
     srv_senders s' = srv_senders s \<and> srv_downstream_id_factory s' = srv_downstream_id_factory s \<and>
     srv_request_id_to_downstream_id s' = srv_request_id_to_downstream_id s \<and>
     srv_channel_id_to_downstream_id s' = srv_channel_id_to_downstream_id s \<and>
     srv_enable_vardiff s' = srv_enable_vardiff s \<and>
     dom (srv_vardiff s') = dom (srv_vardiff s) \<and>
     dom (srv_pending_target_updates s') \<subseteq>
       dom (srv_pending_target_updates s) \<union> (dom (srv_vardiff s) \<inter> dom (srv_downstreams s)) \<and>
     (jobs_ok s \<longrightarrow> jobs_ok s') \<and>
     (\<forall>d. rel_option same_connection (srv_downstreams s d) (srv_downstreams s' d))"

lemma same_connection_refl [simp]: "same_connection c c"
  by (simp add: same_connection_def)

lemma same_connection_trans: "same_connection a b \<Longrightarrow> same_connection b c \<Longrightarrow> same_connection a c"
  by (simp add: same_connection_def)

lemma rel_option_None_iff: "rel_option R a b \<Longrightarrow> a = None \<longleftrightarrow> b = None"
  by (cases a; cases b) auto

lemma rel_option_trans:
  "rel_option R a b \<Longrightarrow> rel_option R b c \<Longrightarrow> (\<And>x y z. R x y \<Longrightarrow> R y z \<Longrightarrow> R x z) \<Longrightarrow> rel_option R a c"
  by (cases a; cases b; cases c) auto

lemma keeps_registry_refl [simp]: "keeps_registry s s"
  by (simp add: keeps_registry_def option.rel_refl)

lemma keeps_registry_connection:
  "keeps_registry s s' \<Longrightarrow> rel_option same_connection (srv_downstreams s d) (srv_downstreams s' d)"
  by (simp add: keeps_registry_def)

lemma keeps_registry_dom: "keeps_registry s s' \<Longrightarrow> dom (srv_downstreams s') = dom (srv_downstreams s)"
  by (rule set_eqI) (simp only: domIff rel_option_None_iff [OF keeps_registry_connection, symmetric])

lemma keeps_registry_trans:
  assumes "keeps_registry a b" and "keeps_registry b c"
  shows "keeps_registry a c"
proof -
  have "rel_option same_connection (srv_downstreams a d) (srv_downstreams c d)" for d
    by (rule rel_option_trans [OF keeps_registry_connection [OF assms(1)] keeps_registry_connection [OF assms(2)]])
      (rule same_connection_trans)
  moreover have "dom (srv_downstreams b) = dom (srv_downstreams a)" by (rule keeps_registry_dom [OF assms(1)])
  ultimately show ?thesis using assms unfolding keeps_registry_def by (simp, blast)
qed

lemma keeps_registry_inv:
  assumes keeps: "keeps_registry s s'" and inv: "registry_inv s"
  shows "registry_inv s'"
proof -
  have dom: "dom (srv_downstreams s') = dom (srv_downstreams s)" by (rule keeps_registry_dom [OF keeps])
  have conn: "\<exists>c. srv_downstreams s d = Some c \<and> same_connection c c'" if "srv_downstreams s' d = Some c'" for d c'
    using keeps_registry_connection [OF keeps, of d] that by (auto elim: option.rel_cases)
  have conn': "\<exists>c'. srv_downstreams s' d = Some c' \<and> same_connection c c'" if "srv_downstreams s d = Some c" for d c
    using keeps_registry_connection [OF keeps, of d] that by (auto elim: option.rel_cases)
  note k = keeps [unfolded keeps_registry_def]
  note i = inv [unfolded registry_inv_def]
  have "request_ok s' d" if "srv_request_id_to_downstream_id s' r = Some d" for r d
  proof -
    have "request_ok s d" using that k i by metis
    then show ?thesis using conn' unfolding request_ok_def same_connection_def by metis
  qed
  moreover have "\<exists>c'. srv_downstreams s' d = Some c' \<and> dd_channel_id (dn_data c') = Some ch"
    if routed: "srv_channel_id_to_downstream_id s' ch = Some d" for d ch
  proof -
    obtain c where "srv_downstreams s d = Some c" "dd_channel_id (dn_data c) = Some ch" using routed k i by metis
    then show ?thesis using conn' unfolding same_connection_def by metis
  qed
  moreover have "d < srv_downstream_id_factory s' \<and> connection_ok c'" if "srv_downstreams s' d = Some c'" for d c'
    using conn [OF that] k i unfolding same_connection_def by metis
  moreover have "dom (srv_pending_target_updates s') \<subseteq> dom (srv_downstreams s')"
  proof -
    have "dom (srv_pending_target_updates s') \<subseteq>
        dom (srv_pending_target_updates s) \<union> (dom (srv_vardiff s) \<inter> dom (srv_downstreams s))"
      "dom (srv_pending_target_updates s) \<subseteq> dom (srv_downstreams s)"
      using k i by simp_all
    then show ?thesis unfolding dom by blast
  qed
  moreover have "srv_vardiff s' = Map.empty \<and> srv_pending_target_updates s' = Map.empty" if "\<not> srv_enable_vardiff s'"
  proof -
    have "dom (srv_vardiff s') = {}" "dom (srv_pending_target_updates s') \<subseteq> {}" using that k i by auto
    then show ?thesis by auto
  qed
  ultimately show ?thesis
    unfolding registry_inv_def using k i dom by (intro conjI) simp_all
qed

named_theorems keeps \<open>handlers that keep the registries\<close>

lemma keeps_counter [keeps]:
  "keeps_registry s (s\<lparr>srv_sequence_counter := n\<rparr>)"
  "keeps_registry s (s\<lparr>srv_miner_counter := n\<rparr>)"
  "keeps_registry s (s\<lparr>srv_keepalive_job_id_counter := n\<rparr>)"
  "keeps_registry s (s\<lparr>srv_aggregated_job_mutation_time := t\<rparr>)"
  "keeps_registry s (s\<lparr>srv_prevhashes := ph\<rparr>)"
  "keeps_registry s (s\<lparr>srv_user_identity := i\<rparr>)"
  by (simp_all add: keeps_registry_def jobs_ok_def option.rel_refl)

lemma keeps_vardiff: "dom v = dom (srv_vardiff s) \<Longrightarrow> keeps_registry s (s\<lparr>srv_vardiff := v\<rparr>)"
  by (simp add: keeps_registry_def jobs_ok_def option.rel_refl)

lemma keeps_pending:
  "dom p \<subseteq> dom (srv_pending_target_updates s) \<union> (dom (srv_vardiff s) \<inter> dom (srv_downstreams s)) \<Longrightarrow>
   keeps_registry s (s\<lparr>srv_pending_target_updates := p\<rparr>)"
  by (simp add: keeps_registry_def jobs_ok_def option.rel_refl)

lemma keeps_jobs:
  assumes "jobs_ok s \<Longrightarrow> store_inv jobs"
  shows "keeps_registry s (s\<lparr>srv_valid_sv1_jobs := (srv_valid_sv1_jobs s)(ch \<mapsto> jobs)\<rparr>)"
  using assms by (simp add: keeps_registry_def jobs_ok_def option.rel_refl)

lemma keeps_update_connection:
  assumes "\<And>c. srv_downstreams s d = Some c \<Longrightarrow> same_connection c (f c)"
  shows "keeps_registry s (update_connection d f s)"
  using assms by (auto simp: keeps_registry_def jobs_ok_def option.rel_refl rel_option_iff split: option.split)

lemma keeps_update_data:
  assumes "\<And>c. srv_downstreams s d = Some c \<Longrightarrow> same_connection c (c\<lparr>dn_data := f (dn_data c)\<rparr>)"
  shows "keeps_registry s (update_data d f s)"
  unfolding update_data_def using assms by (rule keeps_update_connection)

lemma keeps_send_event [keeps]: "keeps_registry s (snd (send_event env d ev s))"
  unfolding send_event_def
  by (auto intro!: keeps_update_connection simp: same_connection_def connection_ok_def)

lemma keeps_send_to_manager [keeps]: "keeps_registry s (snd (send_to_manager env m s))"
  by (simp add: keeps_registry_def jobs_ok_def option.rel_refl)

lemma keeps_broadcast [keeps]: "keeps_registry s (broadcast env ds ev s)"
  by (induction ds arbitrary: s) (auto intro: keeps_registry_trans keeps_send_event)

lemma keeps_send_to_channel [keeps]: "keeps_registry s (send_to_channel env ch nt s)"
  by (auto simp: send_to_channel_def intro: keeps split: option.split)

text \<open>Changes of a miner's data that keep its channel, queue, hashrate and job contexts.\<close>

lemma same_connection_data:
  assumes "dd_channel_id (f (dn_data c)) = dd_channel_id (dn_data c)"
    and "dd_queued_sv1_handshake_messages (f (dn_data c)) = dd_queued_sv1_handshake_messages (dn_data c)"
    and "dd_hashrate (dn_data c) \<noteq> None \<Longrightarrow> dd_hashrate (f (dn_data c)) \<noteq> None"
    and "dd_job_validation_contexts (f (dn_data c)) = dd_job_validation_contexts (dn_data c)"
  shows "same_connection c (c\<lparr>dn_data := f (dn_data c)\<rparr>)"
  using assms by (auto simp: same_connection_def connection_ok_def)

lemma keeps_handle_submit_shares [keeps]: "keeps_registry s (snd (handle_submit_shares L env message s))"
proof -
  let ?d = "ss_downstream_id message"
  define s1 where "s1 = (if srv_enable_vardiff s
    then s\<lparr>srv_vardiff := (case srv_vardiff s ?d of
       None \<Rightarrow> srv_vardiff s | Some v \<Rightarrow> (srv_vardiff s)(?d \<mapsto> increment_shares L v))\<rparr> else s)"
  have "dom (case srv_vardiff s ?d of None \<Rightarrow> srv_vardiff s | Some v \<Rightarrow> (srv_vardiff s)(?d \<mapsto> increment_shares L v))
      = dom (srv_vardiff s)"
    by (cases "srv_vardiff s ?d") auto
  then have 1: "keeps_registry s s1" by (simp add: s1_def keeps_vardiff)
  have 2: "keeps_registry s (s1\<lparr>srv_sequence_counter := n\<rparr>)" for n
    by (rule keeps_registry_trans [OF 1]) (rule keeps)
  have 3: "keeps_registry s (snd (send_to_manager env m (s1\<lparr>srv_sequence_counter := n\<rparr>)))" for m n
    by (rule keeps_registry_trans [OF 2]) (rule keeps)
  show ?thesis
    unfolding handle_submit_shares_def Let_def s1_def [symmetric]
    using 1 2 3 by (simp add: split_beta split: option.split)
qed

lemma keeps_queue_setup_complete [keeps]: "keeps_registry s (snd (queue_setup_complete env d s))"
  using keeps_send_event [of s env d EvSetupComplete]
  by (simp add: queue_setup_complete_def split_beta split: send_outcome.split)

lemma keeps_record_setup [keeps]: "keeps_registry s (snd (record_setup env d request s))"
proof -
  have upd: "keeps_registry s (update_data d (\<lambda>data. data\<lparr>dd_session_state := session\<rparr>) s)" for session
    by (rule keeps_update_data, rule same_connection_data) simp_all
  have "keeps_registry s (snd (queue_setup_complete env d (update_data d (\<lambda>data. data\<lparr>dd_session_state := session\<rparr>) s)))"
    for session
    by (rule keeps_registry_trans [OF upd]) (rule keeps)
  then show ?thesis
    using upd by (simp add: record_setup_def Let_def split_beta split: option.split)
qed

lemma keeps_forward_pending_share [keeps]: "keeps_registry s (snd (forward_pending_share L env d s))"
proof -
  have upd: "keeps_registry s (update_data d (\<lambda>data. data\<lparr>dd_pending_share := None\<rparr>) s)"
    by (rule keeps_update_data, rule same_connection_data) simp_all
  have "keeps_registry s (snd (handle_submit_shares L env share (update_data d (\<lambda>data. data\<lparr>dd_pending_share := None\<rparr>) s)))"
    for share
    by (rule keeps_registry_trans [OF upd]) (rule keeps)
  then show ?thesis
    using upd by (simp add: forward_pending_share_def Let_def split: option.split)
qed

text \<open>Whatever methods \<open>sv1_api\<close> calls, the registries stay.\<close>

lemma judge_share_data:
  assumes "judge_share L d request job data = (out, data')"
  shows "dd_channel_id data' = dd_channel_id data \<and>
    dd_queued_sv1_handshake_messages data' = dd_queued_sv1_handshake_messages data \<and>
    dd_hashrate data' = dd_hashrate data \<and> dd_job_validation_contexts data' = dd_job_validation_contexts data"
  using assms
  by (auto simp: judge_share_def split: option.splits sum.splits sv1_share_validation_outcome.splits prod.splits bool.splits)

lemma keeps_handle_submit: "keeps_registry s (snd (handle_submit L d request s))"
proof -
  have "keeps_registry s (update_data d (\<lambda>_. data) s)"
    if "srv_downstreams s d = Some c" "judge_share L d request job (dn_data c) = (out, data)" for c job out data
    using that judge_share_data [OF that(2)]
    by (intro keeps_update_data) (auto simp: same_connection_def connection_ok_def)
  then show ?thesis by (auto simp: handle_submit_def split: option.split prod.split)
qed

lemma method_call_keeps: "method_call L d s s' \<Longrightarrow> keeps_registry s s'"
proof (induction rule: method_call.induct)
  case (submit s s' share)
  then show ?case using keeps_handle_submit keeps_registry_trans by blast
qed (auto simp: handle_configure_def authorize_def handle_extranonce_subscribe_def set_version_rolling_mask_def
      set_version_rolling_min_bit_def Let_def split: option.split sum.split
      elim!: keeps_registry_trans intro!: keeps_update_data same_connection_data)

lemma keeps_process_sv1_message:
  assumes "calls_methods L handle"
  shows "keeps_registry s (snd (process_sv1_message L env handle sent d request s))"
proof -
  obtain r s1 where h: "handle d request s = (r, s1)" by fastforce
  then have 1: "keeps_registry s s1"
    using assms method_call_keeps [of L d s s1] by (metis calls_methods_def snd_conv)
  let ?s2 = "\<lambda>msg. update_connection d (\<lambda>c. c\<lparr>dn_sent := dn_sent c @ [msg]\<rparr>) s1"
  have 2: "keeps_registry s (?s2 msg)" for msg
    by (rule keeps_registry_trans [OF 1]) (auto intro: keeps_update_connection simp: same_connection_def connection_ok_def)
  have 3: "keeps_registry s (snd (record_setup env d request (?s2 msg)))" for msg
    by (rule keeps_registry_trans [OF 2]) (rule keeps)
  have 4: "keeps_registry s (snd (forward_pending_share L env d u))" if "keeps_registry s u" for u
    by (rule keeps_registry_trans [OF that]) (rule keeps)
  show ?thesis
    using 1 4 [OF 1] 3 4 [OF 3]
    by (simp add: process_sv1_message_def h Let_def split_beta split: sum.split sv1_reply.split option.split attempt.split)
qed

lemma keeps_process_queued:
  assumes "calls_methods L handle"
  shows "keeps_registry s (snd (process_queued L env handle sent d requests s))"
proof (induction requests arbitrary: s)
  case (Cons request requests)
  note step = keeps_process_sv1_message [OF assms, of s env sent d request]
  have "keeps_registry s (snd (process_queued L env handle sent d requests (snd (process_sv1_message L env handle sent d request s))))"
    by (rule keeps_registry_trans [OF step Cons.IH])
  then show ?case using step by (simp add: split_beta split: attempt.split)
qed simp

lemma keeps_update_channel [keeps]:
  "keeps_registry s (snd (send_update_channel_on_downstream_state_change L env s))"
  by (simp add: send_update_channel_on_downstream_state_change_def split_beta Let_def keeps_send_to_manager
      split: option.split aggregated_snapshot.split)

lemma keeps_finish_open [keeps]: "keeps_registry s (snd (finish_open L env first_target d s))"
proof -
  have 1: "keeps_registry s (snd (send_event env d ev s))" for ev by (rule keeps)
  have "keeps_registry s (snd (send_update_channel_on_downstream_state_change L env (snd (send_event env d ev s))))" for ev
    by (rule keeps_registry_trans [OF 1]) (rule keeps)
  then show ?thesis
    using 1 by (simp add: finish_open_def split_beta split: option.split send_outcome.split)
qed

section \<open>Difficulties and jobs\<close>

lemma keeps_note_upstream_difficulty: "keeps_registry s (update_data d (note_upstream_difficulty L t hr) s)"
  by (intro keeps_update_data same_connection_data)
    (simp_all add: note_upstream_difficulty_def set_pending_target_def set_upstream_target_def
      set_pending_hashrate_def Let_def split: option.split)

lemma keeps_note_all: "keeps_registry s (snd (note_all L t hr ds s))"
proof (induction ds arbitrary: s)
  case (Cons d ds)
  have "keeps_registry s (snd (note_all L t hr ds (update_data d (note_upstream_difficulty L t hr) s)))"
    by (rule keeps_registry_trans [OF keeps_note_upstream_difficulty Cons.IH])
  then show ?case using Cons.IH by (simp add: split_beta Let_def split: option.split)
qed simp

lemma keeps_tell_all: "keeps_registry s (snd (tell_all L env t ds disconnected s))"
proof (induction ds arbitrary: s disconnected)
  case (Cons d ds)
  have "keeps_registry s (snd (tell_all L env t ds e (snd (send_event env d ev s))))" for e ev
    by (rule keeps_registry_trans [OF keeps_send_event Cons.IH])
  then show ?case by (simp add: split_beta split: option.split send_outcome.split)
qed (simp split: option.split)

lemma keeps_set_target_without_vardiff [keeps]:
  "keeps_registry s (snd (handle_set_target_without_vardiff L env ch t s))"
proof -
  have "keeps_registry s (snd (tell_all L env t (fst (note_all L t hr ds s)) None (snd (note_all L t hr ds s))))" for hr ds
    by (rule keeps_registry_trans [OF keeps_note_all keeps_tell_all])
  moreover have "keeps_registry s (snd (send_event env d ev (update_data d (note_upstream_difficulty L t hr) s)))" for d ev hr
    by (rule keeps_registry_trans [OF keeps_note_upstream_difficulty keeps_send_event])
  ultimately show ?thesis
    by (simp add: handle_set_target_without_vardiff_def send_set_difficulty_to_all_downstreams_def
        send_set_difficulty_to_specific_downstream_def Let_def split_beta keeps_send_to_manager
        keeps_note_upstream_difficulty split: option.split send_outcome.split)
qed

lemma keeps_send_set_difficulties [keeps]: "keeps_registry s (send_set_difficulties L env us s)"
proof (induction us arbitrary: s)
  case (Cons u us)
  have "keeps_registry s (send_set_difficulties L env us (snd (send_event env d ev s)))" for d ev
    by (rule keeps_registry_trans [OF keeps_send_event Cons.IH])
  then show ?case using Cons.IH by (cases u) (simp split: option.split)
qed simp

lemma keeps_get_pending [keeps]: "keeps_registry s (snd (get_pending_difficulty_updates u only ds s))"
proof (induction ds arbitrary: s)
  case (Cons d ds)
  let ?s = "s\<lparr>srv_pending_target_updates := (srv_pending_target_updates s)(d := None)\<rparr>"
  have "keeps_registry s ?s" by (rule keeps_pending) auto
  then have "keeps_registry s (snd (get_pending_difficulty_updates u only ds ?s))"
    by (rule keeps_registry_trans) (rule Cons.IH)
  then show ?case using Cons.IH by (simp add: split_beta split: option.split)
qed simp

lemma keeps_set_upstream_target: "keeps_registry s (update_data d (set_upstream_target u) s)"
  by (intro keeps_update_data same_connection_data) (simp_all add: set_upstream_target_def)

lemma keeps_set_upstream_target_of_all: "keeps_registry s (set_upstream_target_of_all u ds s)"
  by (induction ds arbitrary: s) (auto intro: keeps_registry_trans keeps_set_upstream_target)

lemma keeps_set_target_message [keeps]: "keeps_registry s (handle_set_target_message L env ch u s)"
proof -
  have "keeps_registry s (send_set_difficulties L env (fst r) (snd r))"
    if "keeps_registry s s1" "r = get_pending_difficulty_updates u only (env_visit env) s1" for r s1 only
    unfolding that(2)
    by (rule keeps_registry_trans [OF that(1)], rule keeps_registry_trans [OF keeps_get_pending]) (rule keeps)
  from this [OF keeps_set_upstream_target_of_all refl] this [OF keeps_set_upstream_target refl] show ?thesis
    by (simp add: handle_set_target_message_def handle_aggregated_set_target_def
        handle_non_aggregated_set_target_def Let_def split_beta split: option.split)
qed

text \<open>A turn of the variable difficulty adds a waiting target only for a registered miner with a
  difficulty state.\<close>

lemma keeps_vardiff_update:
  assumes "vardiff_update L d s = Some (ups, now, s')"
  shows "keeps_registry s s'"
proof (cases "srv_vardiff s d = None \<or> srv_downstreams s d = None")
  case True
  then show ?thesis using assms by (auto simp: vardiff_update_def split: option.splits)
next
  case False
  let ?s1 = "\<lambda>v. s\<lparr>srv_vardiff := (srv_vardiff s)(d \<mapsto> v)\<rparr>"
  have 1: "keeps_registry s (?s1 v)" for v using False by (intro keeps_vardiff) auto
  have "keeps_registry s (update_data d (\<lambda>data. data\<lparr>dd_stable_hashrate := True\<rparr>) (?s1 v))" for v
    by (rule keeps_registry_trans [OF 1 [of v]], intro keeps_update_data same_connection_data) simp_all
  moreover have 2: "keeps_registry s (update_data d (note_new_target L t h) (?s1 v))" for t h v
    by (rule keeps_registry_trans [OF 1 [of v]], intro keeps_update_data same_connection_data)
      (simp_all add: note_new_target_def set_pending_target_def set_pending_hashrate_def)
  have "keeps_registry s (update_data d (note_new_target L t h) (?s1 v)\<lparr>srv_pending_target_updates := p\<rparr>)"
    if "p = (srv_pending_target_updates s)(d := w)" for t h v p w
    using False that
    by (intro keeps_registry_trans [OF 2 keeps_pending]) (auto simp: update_data_def update_connection_def split: option.splits)
  ultimately show ?thesis
    using assms 1 by (auto simp: vardiff_update_def Let_def split_beta split: option.splits sum.splits if_splits)
qed

lemma keeps_vardiff_loop: "vardiff_loop L ds s = Some (ups, now, s') \<Longrightarrow> keeps_registry s s'"
proof (induction ds arbitrary: s ups now)
  case (Cons d ds)
  obtain ups1 now1 s1 ups2 now2 where "vardiff_update L d s = Some (ups1, now1, s1)"
    "vardiff_loop L ds s1 = Some (ups2, now2, s')"
    using Cons.prems by (auto split: option.splits)
  then show ?case using keeps_registry_trans [OF keeps_vardiff_update Cons.IH] by blast
qed simp

lemma keeps_non_aggregated_updates: "keeps_registry s (snd (send_non_aggregated_update_channels env us s))"
proof (induction us arbitrary: s)
  case (Cons u us)
  obtain d ch t h where u: "u = (d, ch, t, h)" by (cases u)
  have "keeps_registry s (snd (send_non_aggregated_update_channels env us (snd (send_to_manager env m s))))" for m
    by (rule keeps_registry_trans [OF keeps_send_to_manager Cons.IH])
  then show ?case by (simp add: u split_beta keeps_send_to_manager split: bool.split)
qed simp

lemma keeps_update_channel_messages: "keeps_registry s (snd (send_update_channel_messages L env us s))"
  by (simp add: send_update_channel_messages_def send_aggregated_update_channel_def split_beta
      keeps_non_aggregated_updates keeps_send_to_manager Let_def split: list.split option.split aggregated_snapshot.split)

lemma keeps_vardiff_turn [keeps]: "keeps_registry s (snd (handle_vardiff_updates L env s))"
proof (cases "vardiff_loop L (env_visit env) s")
  case (Some r)
  obtain ups now s1 where r: "r = (ups, now, s1)" by (cases r)
  have 1: "keeps_registry s s1" using Some r keeps_vardiff_loop by blast
  have 2: "keeps_registry s (snd (send_update_channel_messages L env ups s1))"
    by (rule keeps_registry_trans [OF 1 keeps_update_channel_messages])
  have "keeps_registry s (send_set_difficulties L env now u)" if "keeps_registry s u" for u
    by (rule keeps_registry_trans [OF that]) (rule keeps)
  from this [OF 1] this [OF 2] show ?thesis
    using 1 2 by (simp add: handle_vardiff_updates_def Some r split_beta split: attempt.split)
qed (simp add: handle_vardiff_updates_def)

text \<open>A job enters a well-formed store without an endless eviction.\<close>

lemma next_keepalive_job_id_frame [simp]:
  "srv_valid_sv1_jobs (snd (next_keepalive_job_id i s)) = srv_valid_sv1_jobs s"
  "resolve_channel_id ch (snd (next_keepalive_job_id i s)) = resolve_channel_id ch s"
  by (simp_all add: next_keepalive_job_id_def resolve_channel_id_def)

lemma create_keepalive_job_keeps:
  assumes "jobs_ok s"
  obtains nt s' where "create_keepalive_job ch secs s = Some (nt, s')" "keeps_registry s s'"
proof -
  let ?ch = "resolve_channel_id ch s"
  have stored: "\<exists>s'. (case store_activate i x False jobs of None \<Rightarrow> None
      | Some jobs' \<Rightarrow> Some (Some n, snd (next_keepalive_job_id j s)\<lparr>srv_valid_sv1_jobs :=
          (srv_valid_sv1_jobs s)(?ch \<mapsto> jobs')\<rparr>)) = Some (Some n, s') \<and> keeps_registry s s'"
    if jobs: "srv_valid_sv1_jobs s ?ch = Some jobs" for i x jobs n j
  proof -
    have "store_inv jobs" using assms jobs by (auto simp: jobs_ok_def)
    then obtain jobs' where act: "store_activate i x False jobs = Some jobs'" "store_inv jobs'"
      using store_activate_spec by metis
    have "keeps_registry s (snd (next_keepalive_job_id j s))" by (simp add: next_keepalive_job_id_def keeps)
    from keeps_registry_trans [OF this keeps_jobs [of _ jobs' ?ch]] act show ?thesis by simp
  qed
  show ?thesis
  proof (cases "get_last_job ch s")
    case None
    then show ?thesis by (intro that [of None s]) (simp_all add: create_keepalive_job_def)
  next
    case (Some job)
    then obtain jobs where jobs: "srv_valid_sv1_jobs s ?ch = Some jobs"
      by (auto simp: get_last_job_def split: option.splits)
    define t where "t = min (saturating_add (nt_time (sj_notify job)) (ucast secs))
      (saturating_add (sj_keepalive_base_time job) MAX_FUTURE_BLOCK_TIME)"
    show ?thesis
    proof (cases "t = nt_time (sj_notify job)")
      case True
      then show ?thesis by (intro that [of None s]) (simp_all add: create_keepalive_job_def Some t_def Let_def)
    next
      case False
      have "\<exists>nt s'. create_keepalive_job ch secs s = Some (nt, s') \<and> keeps_registry s s'"
        unfolding create_keepalive_job_def Some option.case Let_def t_def [symmetric] if_not_P [OF False] split_beta
          next_keepalive_job_id_frame jobs
        by (rule exI, rule stored [OF jobs])
      then show ?thesis using that by blast
    qed
  qed
qed

lemma keeps_send_keepalive: "keeps_registry s (send_keepalive_to_downstream env d nt s)"
proof -
  have "keeps_registry s (update_data d (\<lambda>data. data\<lparr>dd_keepalive_timer_anchor := a\<rparr>) (snd (send_event env d ev s)))" for a ev
    by (rule keeps_registry_trans [OF keeps_send_event [of s env d ev]], intro keeps_update_data same_connection_data) simp_all
  then show ?thesis
    by (simp add: send_keepalive_to_downstream_def split_beta keeps_send_event split: send_outcome.split)
qed

lemma keeps_keepalives_shared: "keeps_registry s (send_keepalives_shared env nt ts s)"
proof (induction ts arbitrary: s)
  case (Cons t ts)
  then show ?case using keeps_registry_trans [OF keeps_send_keepalive Cons.IH] by (cases t) simp
qed simp

lemma keeps_jobs_ok: "keeps_registry s s' \<Longrightarrow> jobs_ok s \<Longrightarrow> jobs_ok s'"
  by (simp add: keeps_registry_def)

lemma keeps_keepalives_single:
  "jobs_ok s \<Longrightarrow> \<exists>s'. send_keepalives_single env secs ts s = Some s' \<and> keeps_registry s s'"
proof (induction ts arbitrary: s)
  case (Cons t ts)
  obtain d ch where t: "t = (d, ch)" by fastforce
  obtain nt s1 where s1: "create_keepalive_job ch secs s = Some (nt, s1)" "keeps_registry s s1"
    using create_keepalive_job_keeps [OF Cons.prems] by blast
  define s2 where "s2 = (case nt of None \<Rightarrow> s1 | Some n \<Rightarrow> send_keepalive_to_downstream env d n s1)"
  have s2: "keeps_registry s s2"
    using keeps_registry_trans [OF s1(2) keeps_send_keepalive] s1(2) by (simp add: s2_def split: option.split)
  have "send_keepalives_single env secs (t # ts) s = send_keepalives_single env secs ts s2"
    by (simp add: t s1(1) s2_def split: option.split)
  then show ?case using Cons.IH [OF keeps_jobs_ok [OF s2 Cons.prems]] keeps_registry_trans [OF s2] by auto
qed simp

lemma keeps_keepalive_jobs:
  assumes "jobs_ok s"
  obtains s' where "send_keepalive_jobs env secs s = Some s'" "keeps_registry s s'"
proof -
  have "\<exists>nt s'. aggregated_keepalive env secs s = Some (nt, s') \<and> keeps_registry s s'"
  proof -
    obtain nt s1 where "create_keepalive_job AGGREGATED_CHANNEL_ID secs s = Some (nt, s1)" "keeps_registry s s1"
      using create_keepalive_job_keeps [OF assms] by blast
    moreover from this(2) have "keeps_registry s (s1\<lparr>srv_aggregated_job_mutation_time := t\<rparr>)" for t
      by (rule keeps_registry_trans) (rule keeps)
    ultimately show ?thesis by (simp add: aggregated_keepalive_def split: option.split)
  qed
  then obtain nt s1 where agg: "aggregated_keepalive env secs s = Some (nt, s1)" "keeps_registry s s1" by blast
  have "keeps_registry s (send_keepalives_shared env n ts s1)" for n ts
    by (rule keeps_registry_trans [OF agg(2) keeps_keepalives_shared])
  then have "\<exists>s'. send_keepalive_jobs env secs s = Some s' \<and> keeps_registry s s'"
    using agg keeps_keepalives_single [OF assms]
    by (simp add: send_keepalive_jobs_def del: send_keepalives_single.simps send_keepalives_shared.simps
        split: list.split option.split)
  then show ?thesis using that by blast
qed

lemma keeps_new_job:
  assumes "jobs_ok s"
  obtains out s' where "handle_new_job L env job s = Some (out, s')" "keeps_registry s s'"
proof -
  have "\<exists>s'. store_upstream_job L ch nt resets s = Some s' \<and> keeps_registry s s'" for ch nt resets
  proof -
    define jobs where "jobs = (case srv_valid_sv1_jobs s ch of Some jobs \<Rightarrow> jobs
      | None \<Rightarrow> job_store_new (MAX_PAST_JOBS L) (srv_max_past_jobs s))"
    have "store_inv jobs"
      using assms job_store_new_inv by (auto simp: jobs_def jobs_ok_def split: option.splits)
    then obtain jobs' where "store_activate (nt_job_id nt) (stored_upstream_job nt) resets jobs = Some jobs'"
      "store_inv jobs'"
      using store_activate_spec by metis
    then show ?thesis by (simp add: store_upstream_job_def Let_def jobs_def [symmetric] keeps_jobs)
  qed
  then obtain f where f: "\<And>ch nt resets. store_upstream_job L ch nt resets s = Some (f ch nt resets)"
    "\<And>ch nt resets. keeps_registry s (f ch nt resets)"
    by metis
  have "keeps_registry s (send_to_channel env ch nt s)" for ch nt by (rule keeps)
  moreover have sent: "keeps_registry s (send_to_channel env ch nt u)" if "keeps_registry s u" for ch nt u
    by (rule keeps_registry_trans [OF that]) (rule keeps)
  moreover have "keeps_registry s (send_to_channel env ch nt (f i n r\<lparr>srv_aggregated_job_mutation_time := m\<rparr>))"
    for ch nt i n r m
    by (rule sent, rule keeps_registry_trans [OF f(2)]) (rule keeps)
  ultimately have "\<exists>out s'. handle_new_job L env job s = Some (out, s') \<and> keeps_registry s s'"
    using f by (simp add: handle_new_job_def Let_def split: option.split)
  then show ?thesis using that by blast
qed

text \<open>The task of a miner keeps its channel, queued requests and hashrate, and its job store well formed.\<close>

lemma store_activate_inv: "store_inv st \<Longrightarrow> store_activate i x clean st = Some st' \<Longrightarrow> store_inv st'"
  using store_activate_spec by (metis option.inject)

lemma take_difficulty_connection [simp]:
  "dd_queued_sv1_handshake_messages (take_difficulty d) = dd_queued_sv1_handshake_messages d"
  "dd_hashrate d \<noteq> None \<Longrightarrow> dd_hashrate (take_difficulty d) \<noteq> None"
  by (auto simp: take_difficulty_def split: option.split)

lemma run_send_job_connection:
  assumes "run_send_job k now nt c = Some (ok, c')"
  shows "same_connection c c'"
proof (cases "send_job now nt (dn_data c)")
  case (JobMessages messages data)
  then obtain st where "store_activate (nt_job_id nt) \<lparr>jc_extranonce = dd_extranonce1 (dn_data c),
      jc_extranonce2_len = dd_extranonce2_len (dn_data c), jc_target = dd_target (take_difficulty (dn_data c))\<rparr>
      (nt_clean_jobs nt) (dd_job_validation_contexts (dn_data c)) = Some st"
    and data: "dd_job_validation_contexts data = st" "dd_channel_id data = dd_channel_id (dn_data c)"
    "dd_queued_sv1_handshake_messages data = dd_queued_sv1_handshake_messages (dn_data c)"
    "dd_hashrate data = dd_hashrate (take_difficulty (dn_data c))"
    by (cases "nt_clean_jobs nt")
      (auto simp: send_job_def record_job_validation_context_def Let_def split: if_splits option.splits)
  moreover have "dn_data c' = data" using assms JobMessages by (auto simp: run_send_job_def deliver_def)
  ultimately have "connection_ok c \<Longrightarrow> connection_ok c'"
    using store_activate_inv take_difficulty_connection(2) unfolding connection_ok_def by metis
  then show ?thesis
    using data \<open>dn_data c' = data\<close> by (simp add: same_connection_def)
qed (use assms in \<open>auto simp: run_send_job_def same_connection_def connection_ok_def\<close>)

lemma same_connection_fields [simp]:
  "same_connection c (c\<lparr>dn_data := (dn_data c)\<lparr>dd_cached_notify := a\<rparr>\<rparr>)"
  "same_connection c (c\<lparr>dn_data := (dn_data c)\<lparr>dd_session_state := b\<rparr>\<rparr>)"
  "same_connection c (c\<lparr>dn_queue := q\<rparr>)"
  by (simp_all add: same_connection_def connection_ok_def)

lemma enable_notification_forwarding_connection:
  assumes "enable_notification_forwarding k now c = Some c'"
  shows "same_connection c c'"
proof -
  let ?c = "c\<lparr>dn_data := (dn_data c)\<lparr>dd_cached_notify := None\<rparr>\<rparr>"
  have sent: "same_connection c u" if "run_send_job k now nt ?c = Some (ok, u)" for nt ok u
    by (rule same_connection_trans [OF _ run_send_job_connection [OF that]]) simp
  have "same_connection c (u\<lparr>dn_data := (dn_data u)\<lparr>dd_session_state := Ready\<rparr>\<rparr>)"
    if "run_send_job k now nt ?c = Some (ok, u)" for nt ok u
    by (rule same_connection_trans [OF sent [OF that]]) simp
  then show ?thesis
    using assms sent
    by (auto simp: enable_notification_forwarding_def Let_def split: if_splits option.splits bool.splits)
qed

lemma handle_sv1_server_message_connection:
  assumes "handle_sv1_server_message k now c = Some c'"
  shows "same_connection c c'"
proof (cases "dn_queue c")
  case (Cons ev queue)
  let ?c = "c\<lparr>dn_queue := queue\<rparr>"
  have step: "handle_sv1_server_event k now ev ?c = Some c'" using assms Cons by (simp add: handle_sv1_server_message_def)
  have "same_connection ?c c'"
  proof (cases ev)
    case EvSetupComplete
    then show ?thesis using step enable_notification_forwarding_connection by auto
  next
    case (EvNotify nt)
    then show ?thesis using step run_send_job_connection same_connection_fields(1) [of ?c]
      by (cases "is_ready (dd_session_state (dn_data c))") auto
  qed (use step in \<open>auto simp: same_connection_def connection_ok_def Let_def split: if_splits\<close>)
  then show ?thesis using same_connection_trans [of c ?c c'] by simp
qed (use assms in \<open>simp add: handle_sv1_server_message_def\<close>)

lemma keeps_extranonce [keeps]: "keeps_registry s (snd (server_extranonce_change env valid ch e s))"
  by (auto simp: server_extranonce_change_def handle_upstream_extranonce_change_def Let_def same_connection_def
      connection_ok_def intro!: keeps_update_connection split: option.split)

section \<open>Handlers that change the registries\<close>

lemma registry_inv_downstream:
  "registry_inv s \<Longrightarrow> srv_downstreams s d = Some c \<Longrightarrow> d < srv_downstream_id_factory s \<and> connection_ok c"
  by (simp add: registry_inv_def)

lemma registry_inv_request:
  "registry_inv s \<Longrightarrow> srv_request_id_to_downstream_id s r = Some d \<Longrightarrow> request_ok s d"
  by (simp add: registry_inv_def)

lemma registry_inv_routed:
  assumes "registry_inv s" and "srv_channel_id_to_downstream_id s ch = Some d"
  obtains c where "srv_downstreams s d = Some c" "dd_channel_id (dn_data c) = Some ch"
  using assms unfolding registry_inv_def by metis

lemma less_next_id: "(d :: downstream_id) \<le> f \<Longrightarrow> f \<noteq> - 1 \<Longrightarrow> d < f + 1"
  using inc_less_eq_self_iff_eq [of f] by (simp add: le_less_trans not_le)

lemma accept_miner_inv:
  assumes inv: "registry_inv s" and bound: "srv_downstream_id_factory s \<noteq> - 1"
  shows "registry_inv (accept_miner L first_target s)"
proof -
  let ?d = "srv_downstream_id_factory s"
  have fresh: "srv_downstreams s ?d = None"
    using inv by (cases "srv_downstreams s ?d") (auto dest: registry_inv_downstream)
  have new: "connection_ok (connection_new m (Some h) t cap)" for m h t cap
    by (simp add: connection_ok_def connection_new_def downstream_data_new_def job_store_new_inv)
  have ok: "request_ok (accept_miner L first_target s) d" if "request_ok s d" for d
    using that fresh by (auto simp: request_ok_def accept_miner_def Let_def)
  have routed: "\<exists>c. srv_downstreams (accept_miner L first_target s) d = Some c \<and> dd_channel_id (dn_data c) = Some ch"
    if "srv_channel_id_to_downstream_id s ch = Some d" for ch d
    by (rule registry_inv_routed [OF inv that]) (use fresh in \<open>auto simp: accept_miner_def Let_def\<close>)
  have ids: "d < ?d + 1 \<and> connection_ok c" if "srv_downstreams (accept_miner L first_target s) d = Some c" for d c
    using that new registry_inv_downstream [OF inv] less_next_id [OF order_refl bound] less_next_id [OF less_imp_le bound]
    by (auto simp: accept_miner_def Let_def split: if_splits)
  have frame: "srv_request_id_to_downstream_id (accept_miner L first_target s) = srv_request_id_to_downstream_id s"
    "srv_channel_id_to_downstream_id (accept_miner L first_target s) = srv_channel_id_to_downstream_id s"
    "srv_downstream_id_factory (accept_miner L first_target s) = ?d + 1"
    "srv_senders (accept_miner L first_target s) = insert ?d (srv_senders s)"
    "srv_vardiff (accept_miner L first_target s) = srv_vardiff s"
    "srv_pending_target_updates (accept_miner L first_target s) = srv_pending_target_updates s"
    "srv_enable_vardiff (accept_miner L first_target s) = srv_enable_vardiff s"
    "dom (srv_downstreams (accept_miner L first_target s)) = insert ?d (dom (srv_downstreams s))"
    "jobs_ok (accept_miner L first_target s) = jobs_ok s"
    by (simp_all add: accept_miner_def Let_def jobs_ok_def)
  note i = inv [unfolded registry_inv_def]
  show ?thesis
    unfolding registry_inv_def frame using ok routed ids i by (intro conjI) blast+
qed

lemma request_ok_frame [simp]:
  "request_ok (s\<lparr>srv_request_id_to_downstream_id := q\<rparr>) = request_ok s"
  "request_ok (s\<lparr>srv_request_id_factory := n\<rparr>) = request_ok s"
  "request_ok (s\<lparr>srv_out := out\<rparr>) = request_ok s"
  by (simp_all add: request_ok_def fun_eq_iff)

lemma registry_inv_out [simp]: "registry_inv (s\<lparr>srv_out := out\<rparr>) = registry_inv s"
  by (simp add: registry_inv_def jobs_ok_def)

lemma remove_requests_inv:
  assumes "registry_inv s" and "q \<subseteq>\<^sub>m srv_request_id_to_downstream_id s"
  shows "registry_inv (s\<lparr>srv_request_id_to_downstream_id := q\<rparr>)"
proof -
  have sub: "q r = Some d \<Longrightarrow> srv_request_id_to_downstream_id s r = Some d" for r d
    using assms(2) by (auto simp: map_le_def dom_def)
  have "inj_on (srv_request_id_to_downstream_id s) (dom (srv_request_id_to_downstream_id s))"
    using assms(1) by (simp add: registry_inv_def)
  then have "inj_on q (dom q)"
    using assms(2) unfolding map_le_def inj_on_def by (metis domIff)
  then show ?thesis
    using assms(1) registry_inv_request [OF assms(1) sub] unfolding registry_inv_def jobs_ok_def by simp
qed

lemma remove_request_inv:
  "registry_inv s \<Longrightarrow>
   registry_inv (s\<lparr>srv_request_id_to_downstream_id := (srv_request_id_to_downstream_id s)(r := None)\<rparr>)"
  by (rule remove_requests_inv) (auto simp: map_le_def)

lemma add_request_inv:
  assumes inv: "registry_inv s" and ok: "request_ok s d"
    and new: "\<And>r. srv_request_id_to_downstream_id s r \<noteq> Some d"
  shows "registry_inv (s\<lparr>srv_request_id_factory := n,
    srv_request_id_to_downstream_id := (srv_request_id_to_downstream_id s)(r \<mapsto> d)\<rparr>)"
proof -
  let ?q = "srv_request_id_to_downstream_id s"
  have "inj_on ?q (dom ?q)" using inv by (simp add: registry_inv_def)
  then have "inj_on (?q(r \<mapsto> d)) (dom (?q(r \<mapsto> d)))"
    using new unfolding inj_on_def by (simp add: dom_def) metis
  then show ?thesis
    using inv ok unfolding registry_inv_def jobs_ok_def by simp
qed

lemma keeps_open_extended [keeps]: "keeps_registry s (snd (open_extended_mining_channel L env r d s))"
proof -
  have "keeps_registry s (snd (send_to_manager env m (s\<lparr>srv_miner_counter := n\<rparr>)))" for m n
    by (rule keeps_registry_trans [OF keeps_counter(2) keeps_send_to_manager])
  then show ?thesis
    by (simp add: open_extended_mining_channel_def Let_def split_beta keeps_counter split: option.split)
qed

lemma forward_pending_open_inv:
  assumes "registry_inv s"
  shows "registry_inv (snd (forward_pending_open_channel_request L env r d s))"
  using keeps_registry_inv [OF keeps_open_extended assms, of L env r d]
    remove_request_inv [OF keeps_registry_inv [OF keeps_open_extended assms, of L env r d], of r]
  by (simp add: forward_pending_open_channel_request_def split_beta split: attempt.split)

lemma queue_handshake_inv:
  assumes inv: "registry_inv s" and c: "srv_downstreams s d = Some c" and no_channel: "dd_channel_id (dn_data c) = None"
  shows "registry_inv (snd (queue_handshake L env d request (dn_data c) s))"
proof -
  let ?s = "update_data d (\<lambda>data. data\<lparr>dd_queued_sv1_handshake_messages :=
    dd_queued_sv1_handshake_messages data @ [request]\<rparr>) s"
  have inv': "registry_inv ?s"
    by (rule keeps_registry_inv [OF keeps_update_data inv]) (simp add: same_connection_def connection_ok_def)
  have "request_ok ?s d" using c no_channel by (simp add: request_ok_def)
  moreover have "srv_request_id_to_downstream_id ?s r \<noteq> Some d" if "dd_queued_sv1_handshake_messages (dn_data c) = []" for r
    using that c registry_inv_request [OF inv, of r d] by (auto simp: request_ok_def)
  ultimately have "registry_inv (snd (handle_open_channel_request L env d ?s))"
    if "dd_queued_sv1_handshake_messages (dn_data c) = []"
    using that forward_pending_open_inv [OF add_request_inv [OF inv']]
    by (simp add: handle_open_channel_request_def Let_def c)
  then show ?thesis using inv inv' by (simp add: queue_handshake_def Let_def)
qed

lemma server_downstream_message_inv:
  assumes "calls_methods L handle" and inv: "registry_inv s"
  shows "registry_inv (snd (server_downstream_message L env handle sent d message s))"
proof -
  have "registry_inv (update_connection d (\<lambda>c. c\<lparr>dn_sent := dn_sent c @ [MOtherResponse]\<rparr>) s)"
    by (rule keeps_registry_inv [OF keeps_update_connection inv]) (simp add: same_connection_def connection_ok_def)
  moreover have "registry_inv (snd (process_sv1_message L env handle sent d request s))" for request
    by (rule keeps_registry_inv [OF keeps_process_sv1_message [OF assms(1)] inv])
  ultimately show ?thesis
    using inv queue_handshake_inv [OF inv]
    by (simp add: server_downstream_message_def Let_def split: option.split)
qed

text \<open>An opened channel is routed to its miner, which has no other request.\<close>

lemma route_inv:
  assumes inv: "registry_inv s" and c: "srv_downstreams s d = Some c" and no_channel: "dd_channel_id (dn_data c) = None"
    and new: "\<And>r. srv_request_id_to_downstream_id s r \<noteq> Some d"
    and v: "dom v \<subseteq> insert d (dom (srv_vardiff s))" "srv_enable_vardiff s \<or> v = srv_vardiff s"
  shows "registry_inv (update_data d (open_channel_success ch e n t) s
    \<lparr>srv_channel_id_to_downstream_id := (srv_channel_id_to_downstream_id s)(ch \<mapsto> d), srv_vardiff := v\<rparr>)"
    (is "registry_inv ?s")
proof -
  have conn: "srv_downstreams ?s x = (if x = d then Some (c\<lparr>dn_data := open_channel_success ch e n t (dn_data c)\<rparr>)
      else srv_downstreams s x)" for x
    by (simp add: c)
  have dom: "dom (srv_downstreams ?s) = dom (srv_downstreams s)" using c by (auto simp: dom_def conn)
  have "d' < srv_downstream_id_factory s \<and> connection_ok c'" if "srv_downstreams ?s d' = Some c'" for d' c'
    using that c registry_inv_downstream [OF inv, of d c] registry_inv_downstream [OF inv, of d' c']
    by (auto simp: conn connection_ok_def open_channel_success_def set_upstream_target_def split: if_splits)
  moreover have "request_ok ?s x" if "srv_request_id_to_downstream_id s r = Some x" for r x
    using registry_inv_request [OF inv that] that new [of r] by (auto simp: request_ok_def)
  moreover have "\<exists>c'. srv_downstreams ?s x = Some c' \<and> dd_channel_id (dn_data c') = Some k"
    if k: "((srv_channel_id_to_downstream_id s)(ch \<mapsto> d)) k = Some x" for k x
  proof (cases "k = ch")
    case True
    then show ?thesis using k c by (auto simp: open_channel_success_def set_upstream_target_def)
  next
    case False
    then have "srv_channel_id_to_downstream_id s k = Some x" using k by simp
    then show ?thesis by (rule registry_inv_routed [OF inv]) (use c no_channel in \<open>auto simp: conn\<close>)
  qed
  moreover have "dom v \<subseteq> dom (srv_downstreams s)"
  proof -
    have "dom (srv_vardiff s) \<subseteq> dom (srv_downstreams s)" using inv by (simp add: registry_inv_def)
    then show ?thesis using v(1) domI [of "srv_downstreams s" d c] c by blast
  qed
  moreover have "\<not> srv_enable_vardiff s \<Longrightarrow> v = Map.empty" using v(2) inv by (auto simp: registry_inv_def)
  ultimately show ?thesis
    using inv dom unfolding registry_inv_def by (simp add: jobs_ok_def)
qed

lemma handle_open_success_inv:
  assumes methods: "calls_methods L handle" and inv: "registry_inv s"
  shows "registry_inv (snd (handle_open_success L env valid handle sent t m s))"
proof -
  let ?r = "os_request_id m"
  let ?q = "srv_request_id_to_downstream_id s"
  define s1 where "s1 = s\<lparr>srv_request_id_to_downstream_id := ?q(?r := None)\<rparr>"
  have inv1: "registry_inv s1" unfolding s1_def by (rule remove_request_inv [OF inv])
  have sent1: "registry_inv (snd (send_to_manager env x s1))" for x
    by (rule keeps_registry_inv [OF keeps_send_to_manager inv1])
  show ?thesis
  proof (cases "?q ?r")
    case None
    then show ?thesis using inv1 sent1 by (simp add: handle_open_success_def Let_def split_beta s1_def [symmetric])
  next
    case (Some d)
    have "inj_on ?q (dom ?q)" using inv by (simp add: registry_inv_def)
    then have new: "srv_request_id_to_downstream_id s1 r \<noteq> Some d" for r
      using Some unfolding inj_on_def s1_def by (auto simp: dom_def)
    obtain c where c: "srv_downstreams s1 d = Some c" "dd_channel_id (dn_data c) = None"
      using registry_inv_request [OF inv Some] by (auto simp: request_ok_def s1_def)
    define u where "u = update_data d (open_channel_success (os_channel_id m) (os_extranonce_prefix m)
      (unat (os_extranonce_size m)) (os_target m)) s1"
    define s4 where "s4 = (if srv_enable_vardiff u
      then u\<lparr>srv_channel_id_to_downstream_id := (srv_channel_id_to_downstream_id u)(os_channel_id m \<mapsto> d),
             srv_vardiff := (srv_vardiff u)(d \<mapsto> vardiff_new L)\<rparr>
      else u\<lparr>srv_channel_id_to_downstream_id := (srv_channel_id_to_downstream_id u)(os_channel_id m \<mapsto> d)\<rparr>)"
    have "registry_inv s4"
    proof (cases "srv_enable_vardiff s1")
      case True
      then show ?thesis
        using route_inv [OF inv1 c new, of "(srv_vardiff s1)(d \<mapsto> vardiff_new L)"] by (auto simp: s4_def u_def)
    next
      case False
      have "s4 = u\<lparr>srv_channel_id_to_downstream_id := (srv_channel_id_to_downstream_id s1)(os_channel_id m \<mapsto> d),
          srv_vardiff := srv_vardiff s1\<rparr>"
        using False by (simp add: s4_def u_def update_data_def update_connection_def c)
      then show ?thesis using route_inv [OF inv1 c new, of "srv_vardiff s1"] by (simp add: u_def subset_insertI)
    qed
    then have inv5: "registry_inv (snd (process_queued L env handle sent d q s4))" for q
      by (rule keeps_registry_inv [OF keeps_process_queued [OF methods]])
    then have "registry_inv (snd (finish_open L env t d (snd (process_queued L env handle sent d q s4))))" for q
      by (rule keeps_registry_inv [OF keeps_finish_open])
    moreover have "handle_open_success L env valid handle sent t m s =
        (if \<not> valid (os_extranonce_prefix m) then (Failed (tp_fallback SV1Error), s1)
         else case process_queued L env handle sent d (dd_queued_sv1_handshake_messages (dn_data c)) s4 of
             (Done _, s5) \<Rightarrow> finish_open L env t d s5 | (out, s5) \<Rightarrow> (out, s5))"
      by (simp add: handle_open_success_def Let_def Some s1_def [symmetric] c u_def [symmetric] s4_def)
    ultimately show ?thesis using inv1 inv5 by (simp add: split_beta split: attempt.split)
  qed
qed

lemma upstream_close_inv:
  assumes inv: "registry_inv s"
  shows "registry_inv (disconnect_downstream_for_upstream_close ch s)"
proof (cases "srv_channel_id_to_downstream_id s ch")
  case (Some d)
  let ?s = "disconnect_downstream_for_upstream_close ch s"
  obtain c where c: "srv_downstreams s d = Some c" "dd_channel_id (dn_data c) = Some ch"
    by (rule registry_inv_routed [OF inv Some])
  have s: "?s = s\<lparr>srv_channel_id_to_downstream_id := (srv_channel_id_to_downstream_id s)(ch := None),
      srv_downstreams := (srv_downstreams s)(d \<mapsto> c\<lparr>dn_data := (dn_data c)\<lparr>dd_channel_id := None\<rparr>, dn_cancelled := True\<rparr>)\<rparr>"
    by (simp add: disconnect_downstream_for_upstream_close_def Some update_connection_def c)
  have "request_ok ?s x" if "request_ok s x" for x
    using that c by (auto simp: request_ok_def s)
  moreover have "\<exists>c'. srv_downstreams ?s x = Some c' \<and> dd_channel_id (dn_data c') = Some k"
    if "srv_channel_id_to_downstream_id s k = Some x" "k \<noteq> ch" for k x
    by (rule registry_inv_routed [OF inv that(1)]) (use c that(2) in \<open>auto simp: s\<close>)
  moreover have "x < srv_downstream_id_factory s \<and> connection_ok c'" if "srv_downstreams ?s x = Some c'" for x c'
    using that registry_inv_downstream [OF inv, of x] registry_inv_downstream [OF inv c(1)]
    by (auto simp: s connection_ok_def split: if_splits)
  moreover have "dom (srv_downstreams ?s) = dom (srv_downstreams s)" using c by (auto simp: s)
  ultimately show ?thesis
    using inv unfolding registry_inv_def by (simp add: s jobs_ok_def)
qed (use inv in \<open>simp add: disconnect_downstream_for_upstream_close_def\<close>)

text \<open>Every miner has a hashrate, so the snapshot of the aggregate always exists.\<close>

lemma snapshot_loop_exists:
  "list_all (\<lambda>data. dd_hashrate data \<noteq> None) ds \<Longrightarrow> \<exists>r. snapshot_loop L spm ds total_hr t b = Some r"
  by (induction ds arbitrary: total_hr t b) (auto split: option.split)

lemma aggregated_snapshot_exists:
  assumes "\<And>d c. srv_downstreams s d = Some c \<Longrightarrow> connection_ok c"
  shows "aggregated_downstream_snapshot L env s \<noteq> None"
proof -
  have "list_all (\<lambda>data. dd_hashrate data \<noteq> None) (visited_data env s)"
    using assms by (auto simp: visited_data_def list_all_iff map_filter_def connection_ok_def)
  then show ?thesis
    using snapshot_loop_exists [of "visited_data env s" L "srv_shares_per_minute s" 0 None False]
    by (auto simp: aggregated_downstream_snapshot_def)
qed

lemma send_update_channel_no_panic:
  assumes "\<And>d c. srv_downstreams s d = Some c \<Longrightarrow> connection_ok c"
  obtains out os where "send_update_channel_on_downstream_state_change L env s = (out, s\<lparr>srv_out := os\<rparr>)"
    "out \<noteq> Panicked"
proof -
  have "\<exists>b os. send_to_manager env m s = (b, s\<lparr>srv_out := os\<rparr>)" for m
    by (auto simp: send_to_manager_def intro: exI [of _ "srv_out s"])
  then obtain b f where f: "\<And>m. send_to_manager env m s = (b m, s\<lparr>srv_out := f m\<rparr>)" by metis
  have self: "\<exists>os. s = s\<lparr>srv_out := os\<rparr>" by (rule exI [of _ "srv_out s"]) simp
  obtain snap where "aggregated_downstream_snapshot L env s = Some snap"
    using aggregated_snapshot_exists [of s L env] assms by blast
  then have "\<exists>out os. send_update_channel_on_downstream_state_change L env s = (out, s\<lparr>srv_out := os\<rparr>) \<and> out \<noteq> Panicked"
    using self
    by (cases snap) (auto simp: send_update_channel_on_downstream_state_change_def f manager_outcome_def)
  then show ?thesis using that by blast
qed

lemma disconnect_inv:
  assumes inv: "registry_inv s"
  shows "registry_inv (snd (handle_downstream_disconnect L env d s))"
    and "fst (handle_downstream_disconnect L env d s) = Done ()"
proof -
  let ?q = "\<lambda>r. if srv_request_id_to_downstream_id s r = Some d then None else srv_request_id_to_downstream_id s r"
  define chs where "chs = (case srv_downstreams s d of None \<Rightarrow> srv_channel_id_to_downstream_id s
    | Some c \<Rightarrow> (case dd_channel_id (dn_data c) of None \<Rightarrow> srv_channel_id_to_downstream_id s
      | Some ch \<Rightarrow> (srv_channel_id_to_downstream_id s)(ch := None)))"
  define s1 where "s1 = s\<lparr>srv_vardiff := (if srv_enable_vardiff s then (srv_vardiff s)(d := None) else srv_vardiff s),
    srv_pending_target_updates := (if srv_enable_vardiff s then (srv_pending_target_updates s)(d := None)
      else srv_pending_target_updates s),
    srv_senders := srv_senders s - {d}, srv_downstreams := (srv_downstreams s)(d := None),
    srv_request_id_to_downstream_id := ?q\<rparr>"
  have "registry_inv (s\<lparr>srv_request_id_to_downstream_id := ?q\<rparr>)"
    by (rule remove_requests_inv [OF inv]) (auto simp: map_le_def split: if_splits)
  then have inj: "inj_on ?q (dom ?q)" by (simp add: registry_inv_def)
  have ok: "request_ok (s1\<lparr>srv_channel_id_to_downstream_id := chs\<rparr>) x" if "?q r = Some x" for r x
  proof -
    have "srv_request_id_to_downstream_id s r = Some x" "x \<noteq> d" using that by (auto split: if_splits)
    then show ?thesis using registry_inv_request [OF inv] by (auto simp: request_ok_def s1_def)
  qed
  have routed: "\<exists>c'. srv_downstreams s1 x = Some c' \<and> dd_channel_id (dn_data c') = Some k" if "chs k = Some x" for k x
  proof -
    have k: "srv_channel_id_to_downstream_id s k = Some x"
      using that by (auto simp: chs_def split: option.splits if_splits)
    show ?thesis by (rule registry_inv_routed [OF inv k]) (use that in \<open>auto simp: chs_def s1_def\<close>)
  qed
  have conn: "connection_ok c" if "srv_downstreams s1 x = Some c" for x c
    using that registry_inv_downstream [OF inv] by (auto simp: s1_def split: if_splits)
  have inv1: "registry_inv (s1\<lparr>srv_channel_id_to_downstream_id := chs\<rparr>)"
    using inv inj ok routed conn unfolding registry_inv_def by (auto simp: s1_def jobs_ok_def)
  obtain out os where up: "send_update_channel_on_downstream_state_change L env s1 = (out, s1\<lparr>srv_out := os\<rparr>)"
    "out \<noteq> Panicked"
    using send_update_channel_no_panic [of s1 L env] conn by blast
  have s1: "s1\<lparr>srv_channel_id_to_downstream_id := srv_channel_id_to_downstream_id s\<rparr> = s1"
    "srv_channel_id_to_downstream_id s1 = srv_channel_id_to_downstream_id s" "srv_enable_vardiff s1 = srv_enable_vardiff s"
    by (simp_all add: s1_def)
  define s2 where "s2 = (if srv_enable_vardiff s then s1\<lparr>srv_out := os\<rparr> else s1)"
  have comm: "s1\<lparr>srv_out := os, srv_channel_id_to_downstream_id := chs\<rparr> =
      s1\<lparr>srv_channel_id_to_downstream_id := chs, srv_out := os\<rparr>"
    by simp
  have s2: "registry_inv (s2\<lparr>srv_channel_id_to_downstream_id := chs\<rparr>)"
    using inv1 registry_inv_out [where s = "s1\<lparr>srv_channel_id_to_downstream_id := chs\<rparr>" and out = os]
    by (simp add: s2_def comm)
  have same: "s2\<lparr>srv_channel_id_to_downstream_id := srv_channel_id_to_downstream_id s\<rparr> = s2"
    "srv_channel_id_to_downstream_id s2 = srv_channel_id_to_downstream_id s"
    by (simp_all add: s2_def s1_def)
  have closed: "registry_inv (snd (send_to_manager env m (s2\<lparr>srv_channel_id_to_downstream_id := chs\<rparr>)))" for m
    by (rule keeps_registry_inv [OF keeps_send_to_manager s2])
  have res: "handle_downstream_disconnect L env d s = (Done (),
      case srv_downstreams s d of None \<Rightarrow> s1
      | Some c \<Rightarrow> (case dd_channel_id (dn_data c) of None \<Rightarrow> s2
        | Some ch \<Rightarrow> snd (send_to_manager env (OutCloseChannel ch) (s2\<lparr>srv_channel_id_to_downstream_id := chs\<rparr>))))"
    using up unfolding handle_downstream_disconnect_def Let_def s1_def [symmetric]
    by (cases out) (auto simp: s1(2,3) chs_def s2_def split: option.split)
  show "fst (handle_downstream_disconnect L env d s) = Done ()" by (simp add: res)
  show "registry_inv (snd (handle_downstream_disconnect L env d s))"
    using inv1 s2 closed s1(1) same(1) by (auto simp: res chs_def split: option.split)
qed

lemma disconnect_downstreams:
  "srv_downstreams (snd (handle_downstream_disconnect L env d s)) = (srv_downstreams s)(d := None)"
proof -
  have "srv_downstreams (snd (send_update_channel_on_downstream_state_change L env u)) = srv_downstreams u" for u
    by (simp add: send_update_channel_on_downstream_state_change_def split_beta Let_def
        split: option.split aggregated_snapshot.split)
  then show ?thesis
    by (simp add: handle_downstream_disconnect_def Let_def split_beta split: option.split attempt.split)
qed

lemma cleanup_inv: "registry_inv s \<Longrightarrow> registry_inv (server_cleanup s)"
  by (auto simp: registry_inv_def server_cleanup_def jobs_ok_def)

lemma sv1_step_inv:
  assumes "sv1_step L handle s s'" and methods: "calls_methods L handle" and inv: "registry_inv s"
  shows "registry_inv s'"
  using assms(1)
proof cases
  case (identity u)
  then show ?thesis using keeps_registry_inv [OF keeps_counter(6) inv, of "Some u"]
    by (simp add: set_user_identity_def split: option.splits)
next
  case (accept first_target)
  then show ?thesis using accept_miner_inv inv by simp
next
  case (request env sent d message)
  then show ?thesis using server_downstream_message_inv [OF methods inv] by simp
next
  case (open_success env valid sent first_target m)
  then show ?thesis using handle_open_success_inv [OF methods inv] by simp
next
  case (open_error r)
  then show ?thesis using remove_request_inv [OF inv, of r] by (simp add: handle_open_error_def Let_def split: option.split)
next
  case (new_job env job out)
  then show ?thesis using keeps_new_job [of s L env job] keeps_registry_inv [OF _ inv] inv
    by (auto simp: registry_inv_def)
next
  case (prev_hash ph)
  then show ?thesis using keeps_registry_inv [OF keeps_counter(5) inv] by (simp add: handle_set_new_prev_hash_def)
next
  case (keepalive env secs)
  then show ?thesis using keeps_keepalive_jobs [of s env secs] keeps_registry_inv [OF _ inv] inv
    by (auto simp: registry_inv_def)
next
  case (task d c k now c')
  have "same_connection c c'" by (rule handle_sv1_server_message_connection [OF task(3)])
  then have "keeps_registry s (update_connection d (\<lambda>_. c') s)" using task(2) by (intro keeps_update_connection) simp
  then show ?thesis using keeps_registry_inv [OF _ inv] task(1) by simp
next
  case (upstream_close ch)
  then show ?thesis using upstream_close_inv [OF inv] by simp
next
  case (disconnect env d)
  then show ?thesis using disconnect_inv [OF inv] by simp
next
  case stop
  then show ?thesis using cleanup_inv [OF inv] by simp
next
  case (set_target env ch u)
  then show ?thesis using keeps_registry_inv [OF keeps_set_target_message inv] by simp
next
  case (forward_target env ch u)
  then show ?thesis using keeps_registry_inv [OF keeps_set_target_without_vardiff inv] by simp
next
  case (extranonce env valid ch e)
  then show ?thesis using keeps_registry_inv [OF keeps_extranonce inv] by simp
next
  case (vardiff_turn env)
  then show ?thesis using keeps_registry_inv [OF keeps_vardiff_turn inv] by simp
qed

lemma sv1_reach_inv: "sv1_reach L handle s \<Longrightarrow> calls_methods L handle \<Longrightarrow> registry_inv s"
proof (induction rule: sv1_reach.induct)
  case (step s s')
  then show ?case using sv1_step_inv by blast
qed (simp add: registry_inv_def sv1_server_new_def jobs_ok_def)

section \<open>No handler panics on a missing hashrate\<close>

lemma vardiff_loop_exists: "registry_inv s \<Longrightarrow> vardiff_loop L ds s \<noteq> None"
proof (induction ds arbitrary: s)
  case (Cons d ds)
  have "dd_hashrate (dn_data c) \<noteq> None" if "srv_downstreams s d = Some c" for c
    using registry_inv_downstream [OF Cons.prems that] by (simp add: connection_ok_def)
  then have "vardiff_update L d s \<noteq> None"
    by (simp add: vardiff_update_def Let_def split_beta split: option.split sum.split) (metis option.distinct(1))
  then obtain ups now s1 where s1: "vardiff_update L d s = Some (ups, now, s1)"
    by (cases "vardiff_update L d s") auto
  then show ?case
    using Cons.IH [OF keeps_registry_inv [OF keeps_vardiff_update [OF s1] Cons.prems]] by auto
qed simp

lemma send_non_aggregated_no_panic: "fst (send_non_aggregated_update_channels env us s) \<noteq> Panicked"
proof (induction us arbitrary: s)
  case (Cons u us)
  then show ?case by (cases u) (simp add: split_beta manager_outcome_def split: bool.split)
qed simp

lemma vardiff_turn_no_panic:
  assumes inv: "registry_inv s"
  shows "fst (handle_vardiff_updates L env s) \<noteq> Panicked"
proof -
  obtain ups now s1 where s1: "vardiff_loop L (env_visit env) s = Some (ups, now, s1)"
    using vardiff_loop_exists [OF inv] by fastforce
  have "registry_inv s1" by (rule keeps_registry_inv [OF keeps_vardiff_loop [OF s1] inv])
  then have "aggregated_downstream_snapshot L env s1 \<noteq> None"
    using registry_inv_downstream by (intro aggregated_snapshot_exists) blast
  then have "fst (send_update_channel_messages L env ups s1) \<noteq> Panicked"
    using send_non_aggregated_no_panic [of env ups s1]
    by (auto simp: send_update_channel_messages_def send_aggregated_update_channel_def split_beta Let_def
        manager_outcome_def split: list.splits option.splits aggregated_snapshot.splits)
  then show ?thesis by (auto simp: handle_vardiff_updates_def s1 split_beta split: attempt.splits)
qed


definition example_handle :: "unit parsed_request_handler" where
  "example_handle d request s = (Inr NoReply, s)"

definition example_accepted :: "unit sv1_server" where
  "example_accepted = accept_miner example_lib 50
     ((sv1_server_new NonAggregated 1 7 True None 4)\<lparr>srv_user_identity := Some ''pool''\<rparr>)"

lemma example_accepted_reach: "sv1_reach example_lib handle example_accepted"
proof -
  let ?s = "sv1_server_new NonAggregated 1 7 True None 4 :: unit sv1_server"
  have "sv1_reach example_lib handle (?s\<lparr>srv_user_identity := Some ''pool''\<rparr>)"
    by (rule sv1_reach.step [OF sv1_reach.new sv1_step.identity [of "''pool''"]])
      (simp add: set_user_identity_def sv1_server_new_def)
  then show ?thesis
    unfolding example_accepted_def
    by (rule sv1_reach.step [OF _ sv1_step.accept]) (simp add: sv1_server_new_def)
qed


end
