(* ===== verification/Sv1_Work.thy ===== *)
theory Sv1_Work
  imports Sv1_Run
begin

text \<open>
  What a miner's work is worth to the SV1 server: a share that was accepted is not accepted a second time,
  a keepalive job changes nothing but its id and its time, and an error caused by one miner costs that
  miner's connection only.
\<close>

section \<open>Shares\<close>

text \<open>Submissions of one miner, in order, with the outcomes.\<close>

fun submit_all ::
  "'v server_lib \<Rightarrow> downstream_id \<Rightarrow> submit list \<Rightarrow> 'v sv1_server \<Rightarrow>
   (tproxy_error, submit_outcome) result list \<times> 'v sv1_server" where
  "submit_all L d [] s = ([], s)"
| "submit_all L d (r # rs) s =
     (case handle_submit L d r s of
        (out, s1) \<Rightarrow> (case submit_all L d rs s1 of (outs, s2) \<Rightarrow> (out # outs, s2)))"

definition accepted_count :: "(tproxy_error, submit_outcome) result list \<Rightarrow> nat" where
  "accepted_count outs = length (filter (\<lambda>out. out = Ok Accepted) outs)"

text \<open>The miner's accepted hashes.\<close>

definition seen_hashes :: "downstream_id \<Rightarrow> 'v sv1_server \<Rightarrow> 256 word list" where
  "seen_hashes d s = (case srv_downstreams s d of None \<Rightarrow> [] | Some c \<Rightarrow> dd_accepted_share_hashes (dn_data c))"

text \<open>A submission that leaves alone everything the next judgement reads, the hashes apart.\<close>

definition same_judgement :: "downstream_id \<Rightarrow> 'v sv1_server \<Rightarrow> 'v sv1_server \<Rightarrow> bool" where
  "same_judgement d s s' \<longleftrightarrow>
     srv_mode s' = srv_mode s \<and> srv_valid_sv1_jobs s' = srv_valid_sv1_jobs s \<and>
     rel_option (\<lambda>c c'. dd_channel_id (dn_data c') = dd_channel_id (dn_data c) \<and>
         dd_job_validation_contexts (dn_data c') = dd_job_validation_contexts (dn_data c) \<and>
         dd_version_rolling_mask (dn_data c') = dd_version_rolling_mask (dn_data c))
       (srv_downstreams s d) (srv_downstreams s' d)"

lemma same_judgement_refl [simp]: "same_judgement d s s"
  by (simp add: same_judgement_def option.rel_refl)

lemma same_judgement_trans: "same_judgement d a b \<Longrightarrow> same_judgement d b c \<Longrightarrow> same_judgement d a c"
  unfolding same_judgement_def by (auto elim!: option.rel_cases)

text \<open>What \<open>judge_share\<close> does, by the share's check: the hash of a share that meets its job's target.\<close>

definition share_hash ::
  "'v server_lib \<Rightarrow> downstream_id \<Rightarrow> submit \<Rightarrow> 'v sv1_server \<Rightarrow> 256 word option" where
  "share_hash L d request s =
     (case srv_downstreams s d of
        None \<Rightarrow> None
      | Some c \<Rightarrow>
          (case dd_channel_id (dn_data c) of
             None \<Rightarrow> None
           | Some ch \<Rightarrow>
               (case srv_valid_sv1_jobs s (resolve_channel_id ch s) of
                  None \<Rightarrow> None
                | Some jobs \<Rightarrow>
                    (case (store_get (sb_job_id request) jobs, job_validation_context (sb_job_id request) (dn_data c)) of
                       (Some job, Some ctx) \<Rightarrow>
                         (case validate_sv1_share L request (jc_target ctx) (jc_extranonce ctx)
                                 (dd_version_rolling_mask (dn_data c)) (sj_notify job) of
                            Inr (MeetsTarget h) \<Rightarrow> Some h
                          | _ \<Rightarrow> None)
                     | _ \<Rightarrow> None))))"

lemma share_hash_same_judgement:
  assumes "same_judgement d s s'"
  shows "share_hash L d r s' = share_hash L d r s"
proof (cases "srv_downstreams s d")
  case None
  then show ?thesis using assms by (auto simp: same_judgement_def share_hash_def)
next
  case (Some c)
  then obtain c' where c': "srv_downstreams s' d = Some c'" "dd_channel_id (dn_data c') = dd_channel_id (dn_data c)"
    "dd_job_validation_contexts (dn_data c') = dd_job_validation_contexts (dn_data c)"
    "dd_version_rolling_mask (dn_data c') = dd_version_rolling_mask (dn_data c)"
    using assms by (auto simp: same_judgement_def elim: option.rel_cases)
  have server: "srv_mode s' = srv_mode s" "srv_valid_sv1_jobs s' = srv_valid_sv1_jobs s"
    using assms by (simp_all add: same_judgement_def)
  show ?thesis
    unfolding share_hash_def job_validation_context_def resolve_channel_id_def server c' Some option.case c'(2-4) ..
qed

lemma handle_submit_cases:
  obtains (none) "share_hash L d r s = None" "fst (handle_submit L d r s) \<noteq> Ok Accepted"
    "fst (handle_submit L d r s) \<noteq> Ok (Rejected DuplicateShare)"
    "seen_hashes d (snd (handle_submit L d r s)) = seen_hashes d s"
  | (duplicate) h where "share_hash L d r s = Some h" "h \<in> set (seen_hashes d s)"
    "fst (handle_submit L d r s) = Ok (Rejected DuplicateShare)"
    "seen_hashes d (snd (handle_submit L d r s)) = seen_hashes d s"
  | (accepted) h where "share_hash L d r s = Some h" "h \<notin> set (seen_hashes d s)"
    "fst (handle_submit L d r s) = Ok Accepted"
    "seen_hashes d (snd (handle_submit L d r s)) = snd (insert_if_new (MAX_SEEN_SHARES L) h (seen_hashes d s))"
proof (cases "share_hash L d r s")
  case None
  then show ?thesis
    by (intro none; auto simp: handle_submit_def share_hash_def judge_share_def seen_hashes_def
        split: option.splits sum.splits sv1_share_validation_outcome.splits)
next
  case (Some h)
  then obtain c ch jobs job ctx where "srv_downstreams s d = Some c" "dd_channel_id (dn_data c) = Some ch"
    "srv_valid_sv1_jobs s (resolve_channel_id ch s) = Some jobs" "store_get (sb_job_id r) jobs = Some job"
    "job_validation_context (sb_job_id r) (dn_data c) = Some ctx"
    "validate_sv1_share L r (jc_target ctx) (jc_extranonce ctx) (dd_version_rolling_mask (dn_data c)) (sj_notify job)
      = Inr (MeetsTarget h)"
    by (auto simp: share_hash_def split: option.splits sum.splits sv1_share_validation_outcome.splits)
  note found = this
  show ?thesis
  proof (cases "h \<in> set (seen_hashes d s)")
    case True
    then show ?thesis using Some found
      by (intro duplicate [of h]) (simp_all add: handle_submit_def judge_share_def seen_hashes_def insert_if_new_def)
  next
    case False
    then show ?thesis using Some found
      by (intro accepted [of h]) (simp_all add: handle_submit_def judge_share_def seen_hashes_def insert_if_new_def)
  qed
qed

lemma same_judgement_submit: "same_judgement d s (snd (handle_submit L d r s))"
  by (auto simp: handle_submit_def judge_share_def same_judgement_def rel_option_iff
      split: option.split sum.split sv1_share_validation_outcome.split prod.split bool.split)

text \<open>A hash stays among the accepted ones until \<open>MAX_SEEN_SHARES\<close> later shares were accepted.\<close>

lemma insert_if_new_keeps:
  assumes "hashes = pre @ h # post" and "Suc (length post) < n"
  shows "\<exists>pre'. snd (insert_if_new n x hashes) = pre' @ h # (if x \<in> set hashes then post else post @ [x])"
proof (cases pre)
  case Nil
  then show ?thesis using assms by (auto simp: insert_if_new_def)
next
  case (Cons y ys)
  then show ?thesis using assms by (auto simp: insert_if_new_def)
qed

lemma submit_all_keeps_hash:
  "seen_hashes d s = pre @ h # post \<Longrightarrow> length post + accepted_count (fst (submit_all L d rs s)) < MAX_SEEN_SHARES L \<Longrightarrow>
   same_judgement d s (snd (submit_all L d rs s)) \<and> h \<in> set (seen_hashes d (snd (submit_all L d rs s)))"
proof (induction rs arbitrary: s pre post)
  case (Cons r rs)
  let ?s1 = "snd (handle_submit L d r s)"
  let ?out = "fst (handle_submit L d r s)"
  have split: "fst (submit_all L d (r # rs) s) = ?out # fst (submit_all L d rs ?s1)"
    "snd (submit_all L d (r # rs) s) = snd (submit_all L d rs ?s1)"
    by (simp_all add: split_beta)
  have same: "same_judgement d s ?s1" by (rule same_judgement_submit)
  show ?case
  proof (cases "?out = Ok Accepted")
    case True
    then obtain x where x: "x \<notin> set (seen_hashes d s)"
      "seen_hashes d ?s1 = snd (insert_if_new (MAX_SEEN_SHARES L) x (seen_hashes d s))"
      by (cases rule: handle_submit_cases [of L d r s]) auto
    have bound: "length (post @ [x]) + accepted_count (fst (submit_all L d rs ?s1)) < MAX_SEEN_SHARES L"
      using Cons.prems(2) [unfolded split] True by (simp add: accepted_count_def)
    then obtain pre' where "seen_hashes d ?s1 = pre' @ h # (post @ [x])"
      using insert_if_new_keeps [OF Cons.prems(1), of "MAX_SEEN_SHARES L" x] x by auto
    from Cons.IH [OF this bound] show ?thesis
      unfolding split using same_judgement_trans [OF same] by blast
  next
    case False
    then have "seen_hashes d ?s1 = pre @ h # post"
      using Cons.prems(1) by (cases rule: handle_submit_cases [of L d r s]) auto
    moreover have "length post + accepted_count (fst (submit_all L d rs ?s1)) < MAX_SEEN_SHARES L"
      using Cons.prems(2) [unfolded split] False by (simp add: accepted_count_def)
    ultimately show ?thesis unfolding split using Cons.IH same_judgement_trans [OF same] by blast
  qed
qed simp


definition example_mining :: "unit sv1_server" where
  "example_mining = example_server
     \<lparr>srv_downstreams := [1 \<mapsto> example_connection\<lparr>dn_data := (dn_data example_connection)
        \<lparr>dd_job_validation_contexts :=
           \<lparr>active_job = Some (''7'', \<lparr>jc_extranonce = [9, 9], jc_extranonce2_len = 4, jc_target = 50\<rparr>),
            past_jobs = [], past_job_order = [], max_past_jobs = 3\<rparr>\<rparr>\<rparr>],
      srv_valid_sv1_jobs := [1 \<mapsto> \<lparr>active_job = Some (''7'', stored_upstream_job example_job),
        past_jobs = [], past_job_order = [], max_past_jobs = 3\<rparr>]\<rparr>"

definition example_share :: "u32 \<Rightarrow> submit" where
  "example_share nonce = \<lparr>sb_user_name = ''u'', sb_job_id = ''7'', sb_extra_nonce2 = [], sb_time = 0, sb_nonce = nonce,
     sb_version_bits = None\<rparr>"

lemmas example_submit_simps = handle_submit_def judge_share_def example_mining_def example_server_defs
  example_share_def resolve_channel_id_def is_aggregated_def store_get_def job_validation_context_def
  validate_sv1_share_def share_header_def stored_upstream_job_def insert_if_new_def example_defs


section \<open>Keepalives\<close>

lemma split_once_fst: "split_once c xs = Some (a, b) \<Longrightarrow> c \<notin> set a"
  by (drule split_once_SomeD) simp

lemma extract_next_keepalive:
  "KEEPALIVE_JOB_ID_DELIMITER \<notin> set i \<Longrightarrow> extract_original_job_id (fst (next_keepalive_job_id i s)) = Some i"
  by (simp add: extract_original_job_id_def next_keepalive_job_id_def split_once_append)

definition original_job_id :: "job_id \<Rightarrow> job_id" where
  "original_job_id i = (case extract_original_job_id i of Some original \<Rightarrow> original | None \<Rightarrow> i)"

lemma original_job_id_plain: "KEEPALIVE_JOB_ID_DELIMITER \<notin> set (original_job_id i)"
  by (auto simp: original_job_id_def extract_original_job_id_def split_once_None
      split: option.split dest: split_once_fst)

lemma saturating_add_le: "a \<le> saturating_add a b"
proof (cases "unat a + unat b < 2 ^ 32")
  case True
  then show ?thesis by (simp add: saturating_add_def no_plus_overflow_unat_size word_size)
qed (simp add: saturating_add_def)

lemma saturating_add_less:
  assumes "b \<noteq> 0" and "a \<noteq> - 1"
  shows "a < saturating_add a b"
proof (cases "unat a + unat b < 2 ^ 32")
  case True
  then have "unat (a + b) = unat a + unat b" using unat_add_lem [of a b] by simp
  then show ?thesis using True assms(1) by (simp add: saturating_add_def word_less_nat_alt unat_gt_0)
next
  case False
  then show ?thesis using assms(2) by (simp add: saturating_add_def word_order.not_eq_extremum)
qed

lemma ucast_u16_0 [simp]: "(ucast (x :: u16) :: u32) = 0 \<longleftrightarrow> x = 0"
  by transfer (simp add: take_bit_take_bit)

definition time_ok :: "stored_sv1_job \<Rightarrow> bool" where
  "time_ok job \<longleftrightarrow> sj_keepalive_base_time job \<le> nt_time (sj_notify job) \<and>
     nt_time (sj_notify job) \<le> saturating_add (sj_keepalive_base_time job) MAX_FUTURE_BLOCK_TIME"

lemma stored_upstream_job_time_ok: "time_ok (stored_upstream_job nt)"
  by (simp add: time_ok_def stored_upstream_job_def saturating_add_le)

text \<open>
  While the limit on the time allows one, the next keepalive job is made. It is the active job under a new id and with a later time, marked as not clean, so that
  the miner's work goes on: its time grows by at most the interval and never passes two hours after the time
  of the upstream's job, however many keepalives follow each other, without overflow; the id still leads to
  the id of the upstream's job, under which the miner's shares are forwarded; and it is the active job
  afterwards, with the same anchor. A job from the upstream starts such a chain.
\<close>

theorem keepalive_changes_id_and_time_only:
  assumes "jobs_ok s" and "get_last_job ch s = Some job" and "time_ok job"
  shows "\<exists>out s'. create_keepalive_job ch secs s = Some (out, s') \<and>
    (case out of
       None \<Rightarrow> s' = s \<and> (secs = 0 \<or> nt_time (sj_notify job) = saturating_add (sj_keepalive_base_time job) MAX_FUTURE_BLOCK_TIME)
     | Some nt \<Rightarrow>
         nt = (sj_notify job)\<lparr>nt_job_id := nt_job_id nt, nt_time := nt_time nt, nt_clean_jobs := False\<rparr> \<and>
         nt_time (sj_notify job) < nt_time nt \<and>
         nt_time nt \<le> saturating_add (nt_time (sj_notify job)) (ucast secs) \<and>
         is_keepalive_job_id (nt_job_id nt) \<and>
         extract_original_job_id (nt_job_id nt) = Some (original_job_id (nt_job_id (sj_notify job))) \<and>
         (\<exists>job'. get_last_job ch s' = Some job' \<and> sj_notify job' = nt \<and>
            sj_keepalive_base_time job' = sj_keepalive_base_time job \<and> time_ok job')) \<and>
    time_ok (stored_upstream_job nt')"
proof -
  let ?nt = "sj_notify job"
  let ?base = "sj_keepalive_base_time job"
  let ?i = "original_job_id (nt_job_id ?nt)"
  let ?ch = "resolve_channel_id ch s"
  define t where "t = min (saturating_add (nt_time ?nt) (ucast secs)) (saturating_add ?base MAX_FUTURE_BLOCK_TIME)"
  obtain jobs where jobs: "srv_valid_sv1_jobs s ?ch = Some jobs" "store_active jobs = Some job"
    using assms(2) by (auto simp: get_last_job_def split: option.splits)
  then have inv: "store_inv jobs" using assms(1) by (auto simp: jobs_ok_def)
  have later: "nt_time ?nt \<le> t" using assms(3) saturating_add_le by (simp add: t_def time_ok_def)
  show ?thesis
  proof (cases "t = nt_time ?nt")
    case True
    then have "create_keepalive_job ch secs s = Some (None, s)"
      by (simp add: create_keepalive_job_def assms(2) Let_def t_def)
    moreover have "secs = 0 \<or> nt_time ?nt = saturating_add ?base MAX_FUTURE_BLOCK_TIME"
    proof (rule ccontr)
      assume "\<not> ?thesis"
      then have "ucast secs \<noteq> (0 :: u32)" "nt_time ?nt < saturating_add ?base MAX_FUTURE_BLOCK_TIME"
        using assms(3) by (auto simp: time_ok_def order_le_less)
      moreover from this(2) have "nt_time ?nt \<noteq> - 1" by (metis word_order.extremum_strict)
      ultimately have "nt_time ?nt < t"
        using saturating_add_less [of "ucast secs" "nt_time ?nt"] by (auto simp: t_def)
      then show False using True by simp
    qed
    ultimately show ?thesis by (simp add: stored_upstream_job_time_ok)
  next
    case False
    let ?id = "fst (next_keepalive_job_id ?i s)"
    let ?s = "snd (next_keepalive_job_id ?i s)"
    let ?new = "?nt\<lparr>nt_job_id := ?id, nt_time := t, nt_clean_jobs := False\<rparr>"
    let ?job = "\<lparr>sj_notify = ?new, sj_keepalive_base_time = ?base\<rparr>"
    obtain jobs' where jobs': "store_activate ?id ?job False jobs = Some jobs'" "store_inv jobs'"
      "history jobs' = history_activate (max_past_jobs jobs) ?id ?job False (history jobs)"
      using store_activate_spec [OF inv] by metis
    let ?s' = "?s\<lparr>srv_valid_sv1_jobs := (srv_valid_sv1_jobs s)(?ch \<mapsto> jobs')\<rparr>"
    have "create_keepalive_job ch secs s = Some (Some ?new, ?s')"
      unfolding create_keepalive_job_def assms(2) option.case Let_def t_def [symmetric] if_not_P [OF False] split_beta
        next_keepalive_job_id_frame jobs(1) original_job_id_def [symmetric] jobs'(1) ..
    moreover have "store_active jobs' = Some ?job"
      using store_active_history [OF jobs'(2)] jobs'(3) by (simp add: history_activate_def)
    then have "get_last_job ch ?s' = Some ?job"
      by (simp add: get_last_job_def resolve_channel_id_def next_keepalive_job_id_def)
    moreover have "time_ok ?job" using later assms(3) by (auto simp: time_ok_def t_def)
    moreover have "nt_time ?nt < t" using later False by simp
    moreover have "is_keepalive_job_id ?id" by (simp add: is_keepalive_job_id_def next_keepalive_job_id_def)
    ultimately show ?thesis
      using extract_next_keepalive [OF original_job_id_plain] stored_upstream_job_time_ok
      by (intro exI [of _ "Some ?new"] exI [of _ ?s'] conjI) (simp_all add: t_def)
  qed
qed

theorem keepalive_changes_id_and_time_only_witness:
  "\<exists>nt s'. create_keepalive_job 1 60 example_mining = Some (Some nt, s') \<and> nt_time nt \<le> 60 \<and> 0 < nt_time nt \<and>
     extract_original_job_id (nt_job_id nt) = Some ''7''"
proof -
  have jobs: "jobs_ok example_mining"
    by (simp add: jobs_ok_def example_mining_def store_inv_def order_ok_def)
  have last: "get_last_job 1 example_mining = Some (stored_upstream_job example_job)"
    by (simp add: get_last_job_def example_mining_def resolve_channel_id_def is_aggregated_def store_active_def
        example_server_def sv1_server_new_def)
  have "original_job_id ''7'' = ''7''"
    by (simp add: original_job_id_def extract_original_job_id_def KEEPALIVE_JOB_ID_DELIMITER_def)
  moreover have "saturating_add 0 60 = 60" "saturating_add 0 MAX_FUTURE_BLOCK_TIME \<noteq> 0"
    by (simp_all add: saturating_add_def MAX_FUTURE_BLOCK_TIME_def)
  moreover have "sj_notify (stored_upstream_job example_job) = example_job"
    "sj_keepalive_base_time (stored_upstream_job example_job) = 0" "nt_time example_job = 0" "nt_job_id example_job = ''7''"
    by (simp_all add: stored_upstream_job_def example_job_def)
  ultimately show ?thesis
    using keepalive_changes_id_and_time_only [OF jobs last stored_upstream_job_time_ok, of 60 example_job]
    by (auto split: option.splits)
qed

section \<open>Errors of one miner\<close>

text \<open>An error that costs at most the connection of one miner.\<close>

definition miner_error :: "downstream_id \<Rightarrow> tproxy_error \<Rightarrow> bool" where
  "miner_error d e \<longleftrightarrow> tp_action e = TpLog \<or> tp_action e = TpDisconnect d"

fun miner_outcome :: "downstream_id \<Rightarrow> unit outcome \<Rightarrow> bool" where
  "miner_outcome d (Done _) = True"
| "miner_outcome d (Failed e) = miner_error d e"
| "miner_outcome d Panicked = False"

lemma miner_error_simps [simp]: "miner_error d (tp_log k)" "miner_error d (tp_disconnect k d)"
  by (simp_all add: miner_error_def tp_log_def tp_disconnect_def)

text \<open>What the libraries do for well-formed input: the builders of messages succeed, and the configured
  hashrate has a target. The identity is set before the server starts.\<close>

definition builders_work :: "'v server_lib \<Rightarrow> 'v sv1_server \<Rightarrow> bool" where
  "builders_work L s \<longleftrightarrow>
     (\<forall>share ch n v m. build_submit_shares L share ch n v m \<noteq> None) \<and>
     (\<forall>m. build_open_channel L m \<noteq> None) \<and>
     hash_rate_to_target L (srv_min_hashrate s) (srv_shares_per_minute s) \<noteq> None \<and>
     srv_user_identity s \<noteq> None"

lemma manager_open [simp]: "env_manager_open env \<Longrightarrow> fst (send_to_manager env m s) = True"
  by (simp add: send_to_manager_def)

lemma submit_shares_outcome:
  assumes "env_manager_open env" and "builders_work L s0"
  shows "miner_outcome d (fst (handle_submit_shares L env message s))"
proof -
  define f where "f = (\<lambda>share ch n v m. the (build_submit_shares L share ch n v m))"
  have f: "build_submit_shares L = (\<lambda>share ch n v m. Some (f share ch n v m))"
    using assms(2) by (simp add: builders_work_def f_def fun_eq_iff)
  show ?thesis
    unfolding handle_submit_shares_def Let_def split_beta f
    using assms(1) by (simp add: manager_outcome_def split: option.split)
qed

lemma forward_pending_outcome:
  "env_manager_open env \<Longrightarrow> builders_work L s0 \<Longrightarrow> miner_outcome d (fst (forward_pending_share L env d s))"
  using submit_shares_outcome by (auto simp: forward_pending_share_def Let_def split: option.split)

lemma record_setup_outcome: "miner_outcome d (fst (record_setup env d request s))"
  by (simp add: record_setup_def queue_setup_complete_def Let_def split_beta split: option.split send_outcome.split)

definition request_errors :: "'v parsed_request_handler \<Rightarrow> bool" where
  "request_errors handle \<longleftrightarrow>
     (\<forall>d request s e s'. handle d request s = (Inl e, s') \<longrightarrow> miner_error d e)"

lemma process_message_outcome:
  assumes "env_manager_open env" and "builders_work L s0" and "request_errors handle"
  shows "miner_outcome d (fst (process_sv1_message L env handle sent d request s))"
proof -
  obtain r s1 where h: "handle d request s = (r, s1)" by fastforce
  have err: "miner_error d (with_sv1_downstream_context d e)" if "r = Inl e" for e
  proof -
    have "miner_error d e"
      using assms(3) h that unfolding request_errors_def by blast
    then show ?thesis by (auto simp: with_sv1_downstream_context_def miner_error_def)
  qed
  have fwd: "miner_outcome d (fst (forward_pending_share L env d u))" for u
    by (rule forward_pending_outcome [OF assms(1,2)])
  have recorded: "miner_outcome d (fst (record_setup env d request u))" for u by (rule record_setup_outcome)
  show ?thesis
  proof (cases r)
    case (Inr reply)
    show ?thesis
    proof (cases reply)
      case NoReply
      then show ?thesis using fwd by (simp add: process_sv1_message_def h Inr)
    next
      case (Reply msg)
      let ?u = "update_connection d (\<lambda>c. c\<lparr>dn_sent := dn_sent c @ [msg]\<rparr>) s1"
      obtain out s3 where "record_setup env d request ?u = (out, s3)" by fastforce
      then show ?thesis
        using fwd recorded [of ?u] by (cases out) (auto simp: process_sv1_message_def h Inr Reply Let_def split: option.split)
    qed
  qed (simp add: process_sv1_message_def h err)
qed

lemma open_channel_outcome:
  assumes "env_manager_open env" and "builders_work L s"
  shows "miner_outcome d (fst (open_extended_mining_channel L env r d s))"
proof -
  obtain t identity where t: "hash_rate_to_target L (srv_min_hashrate s) (srv_shares_per_minute s) = Some t"
    and identity: "srv_user_identity s = Some identity"
    using assms(2) by (auto simp: builders_work_def)
  define f where "f m = the (build_open_channel L m)" for m
  have f: "build_open_channel L = (\<lambda>m. Some (f m))" using assms(2) by (simp add: builders_work_def f_def fun_eq_iff)
  show ?thesis
    unfolding open_extended_mining_channel_def Let_def split_beta f
    using assms(1) t identity by (simp add: manager_outcome_def split: option.split)
qed

lemma builders_work_update [simp]:
  "builders_work L (update_data d g s) = builders_work L s"
  "builders_work L (s\<lparr>srv_request_id_factory := n, srv_request_id_to_downstream_id := q\<rparr>) = builders_work L s"
  by (auto simp: builders_work_def update_data_def update_connection_def split: option.split)

lemma queue_handshake_outcome:
  assumes "env_manager_open env" and "builders_work L s"
  shows "miner_outcome d (fst (queue_handshake L env d request data s))"
proof -
  have "miner_outcome d (fst (forward_pending_open_channel_request L env r d u))" if "builders_work L u" for r u
    using open_channel_outcome [OF assms(1) that, of d r]
    by (auto simp: forward_pending_open_channel_request_def split_beta split: attempt.split)
  then have "miner_outcome d (fst (handle_open_channel_request L env d u))" if "builders_work L u" for u
    using that by (auto simp: handle_open_channel_request_def Let_def split: option.split)
  then show ?thesis using assms(2) by (auto simp: queue_handshake_def Let_def)
qed

lemma server_downstream_message_outcome:
  assumes "env_manager_open env" and "builders_work L s" and "request_errors handle"
  shows "miner_outcome d (fst (server_downstream_message L env handle sent d message s))"
  using process_message_outcome [OF assms, of d sent] queue_handshake_outcome [OF assms(1,2), of d]
  by (simp add: server_downstream_message_def Let_def split: option.split)

text \<open>No handler of a miner's message unregisters a miner.\<close>

lemma queue_handshake_dom: "dom (srv_downstreams (snd (queue_handshake L env d request data s))) = dom (srv_downstreams s)"
proof -
  have upd: "dom (srv_downstreams (update_data d g u)) = dom (srv_downstreams u)" for g and u :: "'a sv1_server"
    by (auto simp: dom_def)
  have "dom (srv_downstreams (snd (open_extended_mining_channel L env r d u))) = dom (srv_downstreams u)" for r u
    by (rule keeps_registry_dom [OF keeps_open_extended])
  then have fwd: "dom (srv_downstreams (snd (forward_pending_open_channel_request L env r d u))) = dom (srv_downstreams u)" for r u
    by (simp add: forward_pending_open_channel_request_def split_beta split: attempt.split)
  have "dom (srv_downstreams (snd (handle_open_channel_request L env d u))) = dom (srv_downstreams u)" for u
    using fwd [of "srv_request_id_factory u" "u\<lparr>srv_request_id_factory := srv_request_id_factory u + 1,
        srv_request_id_to_downstream_id := (srv_request_id_to_downstream_id u)(srv_request_id_factory u \<mapsto> d)\<rparr>"]
    by (simp add: handle_open_channel_request_def Let_def split: option.split)
  then show ?thesis using upd by (simp add: queue_handshake_def Let_def)
qed

lemma server_downstream_message_dom:
  assumes "calls_methods L handle"
  shows "dom (srv_downstreams (snd (server_downstream_message L env handle sent d message s))) = dom (srv_downstreams s)"
proof -
  have "dom (srv_downstreams (update_connection d g s)) = dom (srv_downstreams s)" for g by (auto simp: dom_def)
  moreover have "dom (srv_downstreams (snd (process_sv1_message L env handle sent d request s))) = dom (srv_downstreams s)"
    for request
    by (rule keeps_registry_dom [OF keeps_process_sv1_message [OF assms]])
  ultimately show ?thesis
    using queue_handshake_dom [of L env d _ _ s]
    by (simp add: server_downstream_message_def Let_def split: option.split)
qed



end
