(* ===== verification/Sv2_Channels.thy ===== *)
theory Sv2_Channels
  imports Sv1_Server Payout
begin

text \<open>
  \<open>miner-apps/translator/src/lib/sv2/channel_manager/mod.rs\<close>: the channel manager of the translator, which
  stands between the SV1 server and the upstream. This theory holds its state, the messages it queues, the
  forwarding of jobs with the extranonce prefix they need, and the messages of the SV1 server: opening
  channels, shares, updates and closes.

  Channels, group channels and the extranonce allocator are values of \<open>channels_sv2\<close>, reached through the
  functions of the record \<open>channels_lib\<close>. A handler that can fail at several points is a chain of steps
  \<open>and_then\<close> on an outcome and a state, as the \<open>?\<close> of the source.
\<close>

section \<open>The libraries\<close>

record captured_job =
  cj_message :: new_extended_mining_job
  cj_prefix :: bytes
  cj_target :: target

record chain_tip =
  ct_prev_hash :: block_hash
  ct_nbits :: u32
  ct_min_ntime :: u32

datatype share_verdict = ShareValid | ShareMissesTarget | ShareInvalid

text \<open>\<open>ExtendedChannel\<close>, \<open>GroupChannel\<close>, \<open>ExtranonceAllocator\<close> and \<open>ExtranoncePrefix\<close>. A dropped prefix, or a
  dropped channel that owns one, gives its slot back to the allocator.\<close>

record ('c, 'g, 'a, 'p) channels_lib =
  ch_new :: "channel_id \<Rightarrow> string \<Rightarrow> 'p \<Rightarrow> target \<Rightarrow> hashrate \<Rightarrow> bool \<Rightarrow> u16 \<Rightarrow> nat option \<Rightarrow> 'c option"
  ch_channel_id :: "'c \<Rightarrow> channel_id"
  ch_target :: "'c \<Rightarrow> target"
  ch_prefix :: "'c \<Rightarrow> bytes"
  ch_upstream_prefix_len :: "'c \<Rightarrow> nat"
  ch_full_extranonce_size :: "'c \<Rightarrow> nat"
  ch_rollable_extranonce_size :: "'c \<Rightarrow> u16"
  ch_active_job :: "'c \<Rightarrow> captured_job option"
  ch_future_jobs :: "'c \<Rightarrow> captured_job list"
  ch_chain_tip :: "'c \<Rightarrow> chain_tip option"
  ch_set_chain_tip :: "chain_tip \<Rightarrow> 'c \<Rightarrow> 'c"
  ch_set_upstream_prefix :: "bytes \<Rightarrow> 'c \<Rightarrow> 'c option"
  ch_set_target :: "target \<Rightarrow> 'c \<Rightarrow> 'c option"
  ch_set_nominal_hashrate :: "hashrate \<Rightarrow> 'c \<Rightarrow> 'c"
  ch_on_new_job :: "new_extended_mining_job \<Rightarrow> 'c \<Rightarrow> 'c option"
  ch_on_prev_hash :: "set_new_prev_hash \<Rightarrow> 'c \<Rightarrow> 'c option"
  ch_validate_share :: "submit_shares_extended \<Rightarrow> 'c \<Rightarrow> share_verdict \<times> 'c"
  ch_on_acknowledgement :: "u32 \<Rightarrow> u64 \<Rightarrow> 'c \<Rightarrow> 'c"
  ch_on_rejection :: "string \<Rightarrow> 'c \<Rightarrow> 'c"
  gr_new :: "channel_id \<Rightarrow> 'g"
  gr_add :: "channel_id \<Rightarrow> nat \<Rightarrow> 'g \<Rightarrow> 'g option"
  gr_remove :: "channel_id \<Rightarrow> 'g \<Rightarrow> 'g"
  gr_ids :: "'g \<Rightarrow> channel_id list"
  gr_full_extranonce_size :: "'g \<Rightarrow> nat option"
  gr_on_new_job :: "new_extended_mining_job \<Rightarrow> 'g \<Rightarrow> 'g"
  gr_on_prev_hash :: "set_new_prev_hash \<Rightarrow> 'g \<Rightarrow> 'g option"
  al_from_upstream_prefix :: "bytes \<Rightarrow> bytes \<Rightarrow> u8 \<Rightarrow> u32 \<Rightarrow> 'a option"
  al_allocate_extended :: "nat \<Rightarrow> 'a \<Rightarrow> 'p option \<times> 'a"
  al_rollable_extranonce_size :: "'a \<Rightarrow> nat"
  al_upstream_prefix :: "'a \<Rightarrow> bytes"
  al_upstream_prefix_len :: "'a \<Rightarrow> nat"
  al_set_upstream_prefix :: "bytes \<Rightarrow> 'a \<Rightarrow> 'a option"
  al_drop_prefix :: "'p \<Rightarrow> 'a \<Rightarrow> 'a"
  al_drop_channel :: "'c \<Rightarrow> 'a \<Rightarrow> 'a"
  prefix_bytes :: "'p \<Rightarrow> bytes"
  prefix_from_wire :: "bytes \<Rightarrow> 'p option"
  bytes_needed :: "u32 \<Rightarrow> nat"
  MAX_EXTRANONCE_LEN :: nat
  ERROR_CODE_CHANNEL_CAPACITY_EXHAUSTED :: string
  ERROR_CODE_UNSUPPORTED_MIN_EXTRANONCE_SIZE :: string
  EXTENSION_TYPE_WORKER_HASHRATE_TRACKING :: u16
  MAX_USER_IDENTITY_LENGTH :: nat
  user_identity_tlv :: "bytes \<Rightarrow> bytes option"

text \<open>The bounds of the wire types \<open>Str0255\<close> and \<open>B032\<close>.\<close>

definition str0255_ok :: "string \<Rightarrow> bool" where
  "str0255_ok s = (length s \<le> 255)"

definition b032_ok :: "bytes \<Rightarrow> bool" where
  "b032_ok b = (length b \<le> 32)"

section \<open>State\<close>

definition AGGREGATED_TPROXY_MAX_CHANNELS :: u32 where
  "AGGREGATED_TPROXY_MAX_CHANNELS = 65536"

definition AGGREGATED_TPROXY_LOCAL_PREFIX_BYTES :: "('c, 'g, 'a, 'p) channels_lib \<Rightarrow> nat" where
  "AGGREGATED_TPROXY_LOCAL_PREFIX_BYTES L = bytes_needed L AGGREGATED_TPROXY_MAX_CHANNELS"

definition NON_AGGREGATED_TPROXY_MAX_CHANNELS :: u32 where
  "NON_AGGREGATED_TPROXY_MAX_CHANNELS = 1"

datatype aggregated_state = NoChannel | PendingChannel | Connected

datatype to_sv1_server =
    SvOpenSuccess open_channel_success_msg
  | SvOpenError request_id string
  | SvSetExtranoncePrefix channel_id bytes
  | SvNewJob new_extended_mining_job
  | SvSetNewPrevHash set_new_prev_hash
  | SvSetTarget channel_id target
  | SvCloseChannel channel_id

datatype to_upstream =
    UpOpenChannel open_channel_msg
  | UpSubmitShares submit_shares_extended "bytes option"
  | UpUpdateChannel channel_id hashrate target
  | UpCloseChannel channel_id
  | UpRequestExtensions u16 "u16 list"

record ('c, 'g, 'a) channel_manager =
  cm_supported_extensions :: "u16 list"
  cm_required_extensions :: "u16 list"
  cm_max_past_jobs :: "nat option"
  cm_pending :: "request_id \<rightharpoonup> string \<times> hashrate \<times> nat"
  cm_extended :: "channel_id \<rightharpoonup> 'c"
  cm_advertised :: "channel_id \<rightharpoonup> bytes"
  cm_groups :: "channel_id \<rightharpoonup> 'g"
  cm_counters :: "u32 \<rightharpoonup> u32"
  cm_negotiated :: "u16 list"
  cm_allocator :: "'a option"
  cm_aggregated_state :: aggregated_state
  cm_payout :: "payout_mode option option"
  cm_mode :: tproxy_mode
  cm_to_sv1 :: "to_sv1_server list"
  cm_to_upstream :: "to_upstream list"

text \<open>Who still reads the queues, and the order in which the maps are visited.\<close>

record cm_env =
  sv1_open :: bool
  upstream_open :: bool
  visit_channels :: "channel_id list"
  visit_groups :: "channel_id list"
  visit_pending :: "request_id list"

definition channel_manager_new ::
  "u16 list \<Rightarrow> u16 list \<Rightarrow> tproxy_mode \<Rightarrow> nat option \<Rightarrow> ('c, 'g, 'a) channel_manager" where
  "channel_manager_new supported required mode max_past =
     \<lparr>cm_supported_extensions = supported, cm_required_extensions = required, cm_max_past_jobs = max_past,
      cm_pending = Map.empty, cm_extended = Map.empty, cm_advertised = Map.empty, cm_groups = Map.empty,
      cm_counters = Map.empty, cm_negotiated = [], cm_allocator = None, cm_aggregated_state = NoChannel,
      cm_payout = None, cm_mode = mode, cm_to_sv1 = [], cm_to_upstream = []\<rparr>"

definition set_expected_payout_distribution ::
  "payout_mode option \<Rightarrow> ('c, 'g, 'a) channel_manager \<Rightarrow> ('c, 'g, 'a) channel_manager option" where
  "set_expected_payout_distribution payout s =
     (case cm_payout s of None \<Rightarrow> Some (s\<lparr>cm_payout := Some payout\<rparr>) | Some _ \<Rightarrow> None)"

definition send_sv1 ::
  "cm_env \<Rightarrow> to_sv1_server \<Rightarrow> ('c, 'g, 'a) channel_manager \<Rightarrow> unit outcome \<times> ('c, 'g, 'a) channel_manager" where
  "send_sv1 env m s =
     (if sv1_open env then (Done (), s\<lparr>cm_to_sv1 := cm_to_sv1 s @ [m]\<rparr>)
      else (Failed (tp_shutdown ChannelErrorSender), s))"

definition send_upstream ::
  "cm_env \<Rightarrow> to_upstream \<Rightarrow> ('c, 'g, 'a) channel_manager \<Rightarrow> unit outcome \<times> ('c, 'g, 'a) channel_manager" where
  "send_upstream env m s =
     (if upstream_open env then (Done (), s\<lparr>cm_to_upstream := cm_to_upstream s @ [m]\<rparr>)
      else (Failed (tp_fallback ChannelErrorSender), s))"

section \<open>Jobs and their prefixes\<close>

definition job_prefix ::
  "('c, 'g, 'a, 'p) channels_lib \<Rightarrow> u32 \<Rightarrow> 'c \<Rightarrow> bytes option" where
  "job_prefix L job_id c =
     (case ch_active_job L c of
        Some job \<Rightarrow> if nj_job_id (cj_message job) = job_id then Some (cj_prefix job) else None
      | None \<Rightarrow> None)"

definition downstream_channels :: "cm_env \<Rightarrow> ('c, 'g, 'a) channel_manager \<Rightarrow> (channel_id \<times> 'c) list" where
  "downstream_channels env s =
     List.map_filter (\<lambda>ch. if ch = AGGREGATED_CHANNEL_ID then None
                           else map_option (\<lambda>c. (ch, c)) (cm_extended s ch)) (visit_channels env)"

definition active_job_extranonce_prefixes ::
  "('c, 'g, 'a, 'p) channels_lib \<Rightarrow> cm_env \<Rightarrow> new_extended_mining_job \<Rightarrow> ('c, 'g, 'a) channel_manager \<Rightarrow>
   (channel_id \<times> bytes) list option" where
  "active_job_extranonce_prefixes L env message s =
     (if nj_channel_id message = AGGREGATED_CHANNEL_ID
      then (let chs = downstream_channels env s
            in if list_all (\<lambda>(_, c). job_prefix L (nj_job_id message) c \<noteq> None) chs
               then Some (map (\<lambda>(ch, c). (ch, the (job_prefix L (nj_job_id message) c))) chs)
               else None)
      else (case cm_extended s (nj_channel_id message) of
              None \<Rightarrow> None
            | Some c \<Rightarrow> map_option (\<lambda>p. [(nj_channel_id message, p)]) (job_prefix L (nj_job_id message) c)))"

text \<open>One prefix of \<open>forward_job_to_sv1_server\<close>: announced when it differs from the last one.\<close>

definition announce_prefix ::
  "cm_env \<Rightarrow> channel_id \<times> bytes \<Rightarrow> ('c, 'g, 'a) channel_manager \<Rightarrow>
   unit outcome \<times> ('c, 'g, 'a) channel_manager" where
  "announce_prefix env p s =
     (case p of (ch, prefix) \<Rightarrow>
        (case cm_advertised s ch of
           None \<Rightarrow> (Failed (tp_shutdown ChannelNotFound), s)
         | Some advertised \<Rightarrow>
             if advertised = prefix then (Done (), s)
             else if \<not> b032_ok prefix then (Failed (tp_shutdown TpBinarySv2), s)
             else and_then (send_sv1 env (SvSetExtranoncePrefix ch prefix) s)
                    (\<lambda>_ s. (Done (), s\<lparr>cm_advertised := (cm_advertised s)(ch \<mapsto> prefix)\<rparr>))))"

definition forward_job_to_sv1_server ::
  "('c, 'g, 'a, 'p) channels_lib \<Rightarrow> cm_env \<Rightarrow> new_extended_mining_job \<Rightarrow> ('c, 'g, 'a) channel_manager \<Rightarrow>
   unit outcome \<times> ('c, 'g, 'a) channel_manager" where
  "forward_job_to_sv1_server L env message s =
     and_then (or_fail (tp_fallback FailedToProcessNewExtendedMiningJob)
                 (active_job_extranonce_prefixes L env message s) s)
       (\<lambda>prefixes s. and_then (each (announce_prefix env) prefixes s)
          (\<lambda>_. send_sv1 env (SvNewJob message)))"

definition reject_downstream_channel_request ::
  "cm_env \<Rightarrow> request_id \<Rightarrow> string \<Rightarrow> ('c, 'g, 'a) channel_manager \<Rightarrow>
   unit outcome \<times> ('c, 'g, 'a) channel_manager" where
  "reject_downstream_channel_request env request_id error_code = send_sv1 env (SvOpenError request_id error_code)"

section \<open>Opening a channel under the aggregated one\<close>

text \<open>The search for an unused channel id, from \<open>i\<close> up to the reserved one.\<close>

function first_free :: "(channel_id \<Rightarrow> bool) \<Rightarrow> nat \<Rightarrow> channel_id option" where
  "first_free used i =
     (if i < unat AGGREGATED_CHANNEL_ID
      then if used (of_nat i) then first_free used (Suc i) else Some (of_nat i)
      else None)"
  by auto
termination by (relation "measure (\<lambda>(_, i). unat AGGREGATED_CHANNEL_ID - i)") auto

declare first_free.simps [simp del]

definition highest_channel_id :: "cm_env \<Rightarrow> ('c, 'g, 'a) channel_manager \<Rightarrow> channel_id" where
  "highest_channel_id env s =
     fold max (filter (\<lambda>ch. ch \<noteq> AGGREGATED_CHANNEL_ID \<and> cm_extended s ch \<noteq> None) (visit_channels env)) 0"

definition next_downstream_channel_id :: "cm_env \<Rightarrow> ('c, 'g, 'a) channel_manager \<Rightarrow> channel_id option" where
  "next_downstream_channel_id env s =
     (let ch = highest_channel_id env s
      in if ch \<noteq> - 1 \<and> ch + 1 \<noteq> AGGREGATED_CHANNEL_ID then Some (ch + 1)
         else first_free (\<lambda>i. cm_extended s i \<noteq> None) 1)"

text \<open>A new channel takes over the jobs of the aggregated one, each with its own prefix and target.\<close>

definition inherit_job ::
  "('c, 'g, 'a, 'p) channels_lib \<Rightarrow> channel_id \<Rightarrow> captured_job \<Rightarrow> 'c \<Rightarrow> (tproxy_error, 'c) result" where
  "inherit_job L ch job c =
     (case ch_set_upstream_prefix L (cj_prefix job) c of
        None \<Rightarrow> Err (tp_shutdown (UpstreamExtranoncePrefixUpdateFailed ch))
      | Some c1 \<Rightarrow>
          (case ch_set_target L (cj_target job) c1 of
             None \<Rightarrow> Err (tp_shutdown FailedToProcessNewExtendedMiningJob)
           | Some c2 \<Rightarrow>
               (case ch_on_new_job L ((cj_message job)\<lparr>nj_channel_id := ch\<rparr>) c2 of
                  None \<Rightarrow> Err (tp_shutdown FailedToProcessNewExtendedMiningJob)
                | Some c3 \<Rightarrow> Ok c3)))"

primrec inherit_jobs ::
  "('c, 'g, 'a, 'p) channels_lib \<Rightarrow> channel_id \<Rightarrow> captured_job list \<Rightarrow> 'c \<Rightarrow> (tproxy_error, 'c) result" where
  "inherit_jobs L ch [] c = Ok c"
| "inherit_jobs L ch (job # jobs) c =
     (case inherit_job L ch job c of Inl e \<Rightarrow> Err e | Inr c' \<Rightarrow> inherit_jobs L ch jobs c')"

definition init_child ::
  "('c, 'g, 'a, 'p) channels_lib \<Rightarrow> channel_id \<Rightarrow> 'c \<Rightarrow> 'c \<Rightarrow> (tproxy_error, 'c \<times> bytes) result" where
  "init_child L ch aggregate c =
     (let current = ch_prefix L aggregate;
          initial = (case ch_active_job L aggregate of Some job \<Rightarrow> cj_prefix job | None \<Rightarrow> current);
          jobs = (case ch_active_job L aggregate of Some job \<Rightarrow> [job] | None \<Rightarrow> []) @ ch_future_jobs L aggregate;
          prefix_error = tp_shutdown (UpstreamExtranoncePrefixUpdateFailed ch)
      in case ch_set_upstream_prefix L initial c of
           None \<Rightarrow> Err prefix_error
         | Some c1 \<Rightarrow>
             (let success_prefix = ch_prefix L c1;
                  c2 = (case ch_chain_tip L aggregate of Some tip \<Rightarrow> ch_set_chain_tip L tip c1 | None \<Rightarrow> c1)
              in case inherit_jobs L ch jobs c2 of
                   Inl e \<Rightarrow> Err e
                 | Inr c3 \<Rightarrow>
                     (case ch_set_upstream_prefix L current c3 of
                        None \<Rightarrow> Err prefix_error
                      | Some c4 \<Rightarrow>
                          (case ch_set_target L (ch_target L aggregate) c4 of
                             None \<Rightarrow> Err (tp_shutdown FailedToProcessNewExtendedMiningJob)
                           | Some c5 \<Rightarrow> Ok (c5, success_prefix)))))"

definition publish_child ::
  "('c, 'g, 'a, 'p) channels_lib \<Rightarrow> cm_env \<Rightarrow> request_id \<Rightarrow> nat \<Rightarrow> channel_id \<Rightarrow> 'c \<Rightarrow> 'c \<Rightarrow> bytes \<Rightarrow>
   ('c, 'g, 'a) channel_manager \<Rightarrow> unit outcome \<times> ('c, 'g, 'a) channel_manager" where
  "publish_child L env request_id min_size ch aggregate child success_prefix s =
     (let s1 = s\<lparr>cm_extended := (cm_extended s)(ch \<mapsto> child)\<rparr>
      in if \<not> b032_ok success_prefix then (Failed (tp_shutdown TpBinarySv2), s1)
         else
           and_then (send_sv1 env (SvOpenSuccess
               \<lparr>os_channel_id = ch, os_request_id = request_id, os_target = ch_target L aggregate,
                os_extranonce_prefix = success_prefix, os_extranonce_size = of_nat min_size\<rparr>) s1)
             (\<lambda>_ s.
                (let s2 = s\<lparr>cm_advertised := (cm_advertised s)(ch \<mapsto> success_prefix)\<rparr>
                 in case ch_active_job L aggregate of
                      None \<Rightarrow> (Done (), s2)
                    | Some job \<Rightarrow>
                        forward_job_to_sv1_server L env ((cj_message job)\<lparr>nj_channel_id := ch\<rparr>) s2)))"

definition handle_downstream_channel_request_in_aggregated_mode ::
  "('c, 'g, 'a, 'p) channels_lib \<Rightarrow> cm_env \<Rightarrow> request_id \<Rightarrow> string \<Rightarrow> hashrate \<Rightarrow> nat \<Rightarrow>
   ('c, 'g, 'a) channel_manager \<Rightarrow> unit outcome \<times> ('c, 'g, 'a) channel_manager" where
  "handle_downstream_channel_request_in_aggregated_mode L env request_id user_identity hashrate min_size s =
     (case cm_extended s AGGREGATED_CHANNEL_ID of
        None \<Rightarrow> (Failed (tp_shutdown ChannelNotFound), s)
      | Some aggregate \<Rightarrow>
          (case cm_allocator s of
             None \<Rightarrow> (Failed (tp_shutdown OpenMiningChannelError), s)
           | Some allocator \<Rightarrow>
               (let rollable = al_rollable_extranonce_size L allocator;
                    (allocation, allocator') = al_allocate_extended L min_size allocator;
                    s1 = s\<lparr>cm_allocator := Some allocator'\<rparr>
                in case allocation of
                     None \<Rightarrow>
                       reject_downstream_channel_request env request_id
                         (if rollable \<noteq> min_size then (ERROR_CODE_UNSUPPORTED_MIN_EXTRANONCE_SIZE L)
                          else (ERROR_CODE_CHANNEL_CAPACITY_EXHAUSTED L)) s1
                   | Some prefix \<Rightarrow>
                       (let released = s1\<lparr>cm_allocator := Some (al_drop_prefix L prefix allocator')\<rparr>
                        in if rollable \<noteq> min_size
                           then reject_downstream_channel_request env request_id
                                  (ERROR_CODE_UNSUPPORTED_MIN_EXTRANONCE_SIZE L) released
                           else
                             (case next_downstream_channel_id env s1 of
                                None \<Rightarrow>
                                  reject_downstream_channel_request env request_id
                                    (ERROR_CODE_CHANNEL_CAPACITY_EXHAUSTED L) released
                              | Some ch \<Rightarrow>
                                  (case ch_new L ch user_identity prefix (ch_target L aggregate) hashrate True
                                          (of_nat min_size) (cm_max_past_jobs s1) of
                                     None \<Rightarrow> (Failed (tp_shutdown OpenMiningChannelError), released)
                                   | Some c \<Rightarrow>
                                       (case init_child L ch aggregate c of
                                          Inl e \<Rightarrow>
                                            (Failed e, s1\<lparr>cm_allocator := Some (al_drop_channel L c allocator')\<rparr>)
                                        | Inr (child, success_prefix) \<Rightarrow>
                                            publish_child L env request_id min_size ch aggregate child
                                              success_prefix s1)))))))"

definition open_pending_aggregated_downstream_channels ::
  "('c, 'g, 'a, 'p) channels_lib \<Rightarrow> cm_env \<Rightarrow> ('c, 'g, 'a) channel_manager \<Rightarrow>
   unit outcome \<times> ('c, 'g, 'a) channel_manager" where
  "open_pending_aggregated_downstream_channels L env s =
     (if cm_aggregated_state s \<noteq> Connected then (Done (), s)
      else
        (let requests = List.map_filter (\<lambda>r. map_option (\<lambda>q. (r, q)) (cm_pending s r)) (visit_pending env)
         in each (\<lambda>(r, user_identity, hashrate, min_size).
                    handle_downstream_channel_request_in_aggregated_mode L env r user_identity hashrate min_size)
              requests (s\<lparr>cm_pending := Map.empty\<rparr>)))"

section \<open>Messages of the SV1 server\<close>

definition handle_open_request ::
  "('c, 'g, 'a, 'p) channels_lib \<Rightarrow> cm_env \<Rightarrow> open_channel_msg \<Rightarrow> ('c, 'g, 'a) channel_manager \<Rightarrow>
   unit outcome \<times> ('c, 'g, 'a) channel_manager" where
  "handle_open_request L env m s =
     (let user_identity = oc_user_identity m;
          min_size = unat (oc_min_extranonce_size m);
          pending = (cm_pending s)(oc_request_id m \<mapsto> (user_identity, oc_nominal_hash_rate m, min_size))
      in if is_aggregated (cm_mode s)
         then
           (case cm_aggregated_state s of
              Connected \<Rightarrow>
                handle_downstream_channel_request_in_aggregated_mode L env (oc_request_id m) user_identity
                  (oc_nominal_hash_rate m) min_size s
            | PendingChannel \<Rightarrow> (Done (), s\<lparr>cm_pending := pending\<rparr>)
            | NoChannel \<Rightarrow>
                (let s1 = s\<lparr>cm_aggregated_state := PendingChannel, cm_pending := pending\<rparr>;
                     upstream_identity = aggregated_upstream_user_identity user_identity
                 in if \<not> str0255_ok upstream_identity then (Panicked, s1)
                    else send_upstream env (UpOpenChannel (m\<lparr>oc_user_identity := upstream_identity,
                           oc_min_extranonce_size :=
                             of_nat (min_size + AGGREGATED_TPROXY_LOCAL_PREFIX_BYTES L)\<rparr>)) s1))
         else send_upstream env (UpOpenChannel (m\<lparr>oc_min_extranonce_size := of_nat min_size\<rparr>))
                (s\<lparr>cm_pending := pending\<rparr>))"

definition next_share_sequence_number ::
  "u32 \<Rightarrow> ('c, 'g, 'a) channel_manager \<Rightarrow> u32 \<times> ('c, 'g, 'a) channel_manager" where
  "next_share_sequence_number key s =
     (let n = (case cm_counters s key of Some n \<Rightarrow> n | None \<Rightarrow> 0) + 1
      in (n, s\<lparr>cm_counters := (cm_counters s)(key \<mapsto> n)\<rparr>))"

text \<open>The bytes a share's extranonce gets in front: what follows the upstream's part of the prefix. A slice
  beyond the end panics.\<close>

definition prepend_local ::
  "nat \<Rightarrow> bytes \<Rightarrow> submit_shares_extended \<Rightarrow> 's \<Rightarrow> submit_shares_extended outcome \<times> 's" where
  "prepend_local n prefix m s =
     (if length prefix < n then (Panicked, s)
      else if drop n prefix = [] then (Done m, s)
      else
        (let e = drop n prefix @ se_extranonce m
         in if b032_ok e then (Done (m\<lparr>se_extranonce := e\<rparr>), s) else (Failed (tp_shutdown TpBinarySv2), s)))"

definition string_bytes :: "string \<Rightarrow> bytes" where
  "string_bytes = map of_char"

definition send_share ::
  "('c, 'g, 'a, 'p) channels_lib \<Rightarrow> cm_env \<Rightarrow> string option \<Rightarrow> submit_shares_extended \<Rightarrow>
   ('c, 'g, 'a) channel_manager \<Rightarrow> unit outcome \<times> ('c, 'g, 'a) channel_manager" where
  "send_share L env worker m s =
     (let name = (case worker of Some w \<Rightarrow> w | None \<Rightarrow> [])
      in if EXTENSION_TYPE_WORKER_HASHRATE_TRACKING L \<in> set (cm_negotiated s) \<and> name \<noteq> []
         then (case tlv_user_identity_from_sv1_worker_name (MAX_USER_IDENTITY_LENGTH L) (user_identity_tlv L)
                      (string_bytes name) of
                 Inl kind \<Rightarrow> (Failed (tp_shutdown kind), s)
               | Inr tlv \<Rightarrow> send_upstream env (UpSubmitShares m (Some tlv)) s)
         else send_upstream env (UpSubmitShares m None) s)"

definition handle_share ::
  "('c, 'g, 'a, 'p) channels_lib \<Rightarrow> cm_env \<Rightarrow> submit_shares_extended \<Rightarrow> string option \<Rightarrow>
   ('c, 'g, 'a) channel_manager \<Rightarrow> unit outcome \<times> ('c, 'g, 'a) channel_manager" where
  "handle_share L env m worker s =
     (case (if is_aggregated (cm_mode s) then cm_extended s AGGREGATED_CHANNEL_ID else None) of
        Some aggregate \<Rightarrow>
          and_then (case (cm_extended s (se_channel_id m), cm_allocator s) of
                      (Some c, Some allocator) \<Rightarrow>
                        prepend_local (al_upstream_prefix_len L allocator) (ch_prefix L c) m s
                    | _ \<Rightarrow> (Done m, s))
            (\<lambda>m s.
               (let ch = ch_channel_id L aggregate;
                    m1 = m\<lparr>se_channel_id := ch\<rparr>;
                    (verdict, aggregate') = ch_validate_share L m1 aggregate;
                    s1 = s\<lparr>cm_extended := (cm_extended s)(AGGREGATED_CHANNEL_ID \<mapsto> aggregate')\<rparr>
                in if verdict \<noteq> ShareValid then (Done (), s1)
                   else
                     (let (n, s2) = next_share_sequence_number ch s1
                      in send_share L env worker (m1\<lparr>se_sequence_number := n\<rparr>) s2)))
      | None \<Rightarrow>
          (case cm_extended s (se_channel_id m) of
             None \<Rightarrow> (Done (), s)
           | Some c \<Rightarrow>
               (let (verdict, c') = ch_validate_share L m c;
                    s1 = s\<lparr>cm_extended := (cm_extended s)(se_channel_id m \<mapsto> c')\<rparr>
                in if verdict \<noteq> ShareValid then (Done (), s1)
                   else
                     (let (n, s2) = next_share_sequence_number (se_channel_id m) s1
                      in and_then (prepend_local (ch_upstream_prefix_len L c') (ch_prefix L c')
                                     (m\<lparr>se_sequence_number := n\<rparr>) s2)
                           (send_share L env worker)))))"

definition handle_update_channel ::
  "('c, 'g, 'a, 'p) channels_lib \<Rightarrow> cm_env \<Rightarrow> channel_id \<Rightarrow> hashrate \<Rightarrow> target \<Rightarrow>
   ('c, 'g, 'a) channel_manager \<Rightarrow> unit outcome \<times> ('c, 'g, 'a) channel_manager" where
  "handle_update_channel L env ch nominal_hash_rate max_target s =
     (let key = (if is_aggregated (cm_mode s) then AGGREGATED_CHANNEL_ID else ch)
      in case cm_extended s key of
           None \<Rightarrow> if is_aggregated (cm_mode s) then (Done (), s)
                   else send_upstream env (UpUpdateChannel ch nominal_hash_rate max_target) s
         | Some c \<Rightarrow>
             send_upstream env
               (UpUpdateChannel (if is_aggregated (cm_mode s) then ch_channel_id L c else ch)
                  nominal_hash_rate max_target)
               (s\<lparr>cm_extended := (cm_extended s)(key \<mapsto> ch_set_nominal_hashrate L nominal_hash_rate c)\<rparr>))"

definition remove_from_groups ::
  "('c, 'g, 'a, 'p) channels_lib \<Rightarrow> channel_id \<Rightarrow> ('c, 'g, 'a) channel_manager \<Rightarrow> ('c, 'g, 'a) channel_manager" where
  "remove_from_groups L ch s =
     s\<lparr>cm_groups := (\<lambda>g. map_option (\<lambda>gr. if ch \<in> set (gr_ids L gr) then gr_remove L ch gr else gr) (cm_groups s g))\<rparr>"

definition drop_channel ::
  "('c, 'g, 'a, 'p) channels_lib \<Rightarrow> channel_id \<Rightarrow> ('c, 'g, 'a) channel_manager \<Rightarrow> ('c, 'g, 'a) channel_manager" where
  "drop_channel L ch s =
     (case cm_extended s ch of
        None \<Rightarrow> s
      | Some c \<Rightarrow> s\<lparr>cm_extended := (cm_extended s)(ch := None),
                    cm_allocator := map_option (al_drop_channel L c) (cm_allocator s)\<rparr>)"

definition handle_close_from_sv1 ::
  "('c, 'g, 'a, 'p) channels_lib \<Rightarrow> cm_env \<Rightarrow> channel_id \<Rightarrow> ('c, 'g, 'a) channel_manager \<Rightarrow>
   unit outcome \<times> ('c, 'g, 'a) channel_manager" where
  "handle_close_from_sv1 L env ch s =
     (if is_aggregated (cm_mode s) \<and> ch = AGGREGATED_CHANNEL_ID then (Done (), s)
      else
        (let s1 = drop_channel L ch s;
             s2 = remove_from_groups L ch (s1\<lparr>cm_advertised := (cm_advertised s1)(ch := None)\<rparr>)
         in if is_aggregated (cm_mode s2) then (Done (), s2)
            else send_upstream env (UpCloseChannel ch) s2))"

fun handle_message_of_sv1 ::
  "('c, 'g, 'a, 'p) channels_lib \<Rightarrow> cm_env \<Rightarrow> to_channel_manager \<Rightarrow> ('c, 'g, 'a) channel_manager \<Rightarrow>
   unit outcome \<times> ('c, 'g, 'a) channel_manager" where
  "handle_message_of_sv1 L env (OutOpenChannel m) s = handle_open_request L env m s"
| "handle_message_of_sv1 L env (OutSubmitShares m worker) s = handle_share L env m worker s"
| "handle_message_of_sv1 L env (OutUpdateChannel ch h t) s = handle_update_channel L env ch h t s"
| "handle_message_of_sv1 L env (OutCloseChannel ch) s = handle_close_from_sv1 L env ch s"

end
