(* ===== verification/Sv2_Mining_Handler.thy ===== *)
theory Sv2_Mining_Handler
  imports Sv2_Channels
begin

text \<open>
  \<open>sv2/channel_manager/mining_message_handler.rs\<close> and \<open>extensions_message_handler.rs\<close>: what the channel
  manager does with each message of the upstream, and the loop around its handlers.
\<close>

section \<open>Channels\<close>

definition colliding_channel_id ::
  "channel_id \<Rightarrow> channel_id \<Rightarrow> ('c, 'g, 'a) channel_manager \<Rightarrow> channel_id option" where
  "colliding_channel_id ch group_id s =
     (if ch = AGGREGATED_CHANNEL_ID \<or> group_id = AGGREGATED_CHANNEL_ID then Some AGGREGATED_CHANNEL_ID
      else if \<not> is_aggregated (cm_mode s) \<and> cm_extended s group_id \<noteq> None then Some group_id
      else if ch = group_id \<or> \<not> is_aggregated (cm_mode s) \<and> (cm_extended s ch \<noteq> None \<or> cm_groups s ch \<noteq> None)
      then Some ch
      else None)"

record upstream_open_success =
  uo_request_id :: request_id
  uo_channel_id :: channel_id
  uo_target :: target
  uo_extranonce_size :: u16
  uo_extranonce_prefix :: bytes
  uo_group_channel_id :: channel_id

definition join_group ::
  "('c, 'g, 'a, 'p) channels_lib \<Rightarrow> channel_id \<Rightarrow> channel_id \<Rightarrow> nat \<Rightarrow> ('c, 'g, 'a) channel_manager \<Rightarrow>
   unit outcome \<times> ('c, 'g, 'a) channel_manager" where
  "join_group L group_id ch full_size s =
     (let gr = (case cm_groups s group_id of Some gr \<Rightarrow> gr | None \<Rightarrow> gr_new L group_id)
      in case gr_add L ch full_size gr of
           None \<Rightarrow> (Failed (tp_fallback FailedToAddChannelIdToGroupChannel), s\<lparr>cm_groups := (cm_groups s)(group_id \<mapsto> gr)\<rparr>)
         | Some gr' \<Rightarrow> (Done (), s\<lparr>cm_groups := (cm_groups s)(group_id \<mapsto> gr')\<rparr>))"

text \<open>The prefix for one downstream, minted by a fresh allocator over the upstream's prefix; the zero
  padding absorbs what the upstream granted beyond the request.\<close>

definition mint_prefix ::
  "('c, 'g, 'a, 'p) channels_lib \<Rightarrow> u32 \<Rightarrow> bytes \<Rightarrow> u16 \<Rightarrow> nat \<Rightarrow> ('p \<times> 'a) option" where
  "mint_prefix L max_channels upstream_prefix extranonce_size downstream_len =
     (case al_from_upstream_prefix L upstream_prefix
             (replicate (unat extranonce_size - bytes_needed L max_channels - downstream_len) 0)
             (of_nat (length upstream_prefix) + ucast extranonce_size) max_channels of
        None \<Rightarrow> None
      | Some allocator \<Rightarrow>
          (case al_allocate_extended L downstream_len allocator of
             (None, _) \<Rightarrow> None
           | (Some prefix, allocator') \<Rightarrow> Some (prefix, allocator')))"

definition success_for_sv1 :: "upstream_open_success \<Rightarrow> channel_id \<Rightarrow> bytes \<Rightarrow> nat \<Rightarrow> open_channel_success_msg" where
  "success_for_sv1 m ch prefix len =
     \<lparr>os_channel_id = ch, os_request_id = uo_request_id m, os_target = uo_target m,
      os_extranonce_prefix = prefix, os_extranonce_size = of_nat len\<rparr>"

definition open_failed :: tproxy_error where
  "open_failed = tp_fallback OpenMiningChannelError"

definition open_aggregated ::
  "('c, 'g, 'a, 'p) channels_lib \<Rightarrow> upstream_open_success \<Rightarrow> string \<Rightarrow> hashrate \<Rightarrow> nat \<Rightarrow>
   ('c, 'g, 'a) channel_manager \<Rightarrow> open_channel_success_msg outcome \<times> ('c, 'g, 'a) channel_manager" where
  "open_aggregated L m user_identity nominal_hashrate len s =
     (if unat (uo_extranonce_size m) < AGGREGATED_TPROXY_LOCAL_PREFIX_BYTES L + len then (Failed open_failed, s)
      else
        and_then (or_fail open_failed (mint_prefix L AGGREGATED_TPROXY_MAX_CHANNELS (uo_extranonce_prefix m)
                    (uo_extranonce_size m) len) s)
          (\<lambda>(prefix, allocator) s.
             and_then (expect (prefix_from_wire L (al_upstream_prefix L allocator)) s)
               (\<lambda>upstream_prefix s.
                  and_then (or_fail open_failed (ch_new L (uo_channel_id m)
                      (aggregated_upstream_user_identity user_identity) upstream_prefix (uo_target m)
                      nominal_hashrate True (uo_extranonce_size m) (cm_max_past_jobs s)) s)
                    (\<lambda>aggregate s.
                       (let s1 = s\<lparr>cm_extended := (cm_extended s)(AGGREGATED_CHANNEL_ID \<mapsto> aggregate)\<rparr>
                        in and_then (or_fail open_failed (ch_new L 1 user_identity prefix (uo_target m)
                               nominal_hashrate True (of_nat len) (cm_max_past_jobs s1)) s1)
                             (\<lambda>child s.
                                (let s2 = s\<lparr>cm_extended := (cm_extended s)(1 \<mapsto> child), cm_allocator := Some allocator,
                                            cm_aggregated_state := Connected\<rparr>;
                                     b = prefix_bytes L prefix
                                 in if b032_ok b then (Done (success_for_sv1 m 1 b len), s2)
                                    else (Failed (tp_shutdown TpBinarySv2), s2))))))))"

definition open_non_aggregated ::
  "('c, 'g, 'a, 'p) channels_lib \<Rightarrow> upstream_open_success \<Rightarrow> string \<Rightarrow> hashrate \<Rightarrow> nat \<Rightarrow>
   ('c, 'g, 'a) channel_manager \<Rightarrow> open_channel_success_msg outcome \<times> ('c, 'g, 'a) channel_manager" where
  "open_non_aggregated L m user_identity nominal_hashrate len s =
     (let n = unat (uo_extranonce_size m)
      in if n < len then (Failed open_failed, s)
         else
           and_then
             (if n = len
              then and_then (or_fail (tp_shutdown OpenMiningChannelError) (prefix_from_wire L (uo_extranonce_prefix m)) s)
                     (\<lambda>prefix s. (Done (prefix, uo_extranonce_prefix m), s))
              else if n < bytes_needed L NON_AGGREGATED_TPROXY_MAX_CHANNELS + len then (Failed open_failed, s)
              else and_then (or_fail open_failed (mint_prefix L NON_AGGREGATED_TPROXY_MAX_CHANNELS
                       (uo_extranonce_prefix m) (uo_extranonce_size m) len) s)
                     (\<lambda>(prefix, _) s. (Done (prefix, prefix_bytes L prefix), s)))
             (\<lambda>(prefix, b) s.
                and_then (or_fail open_failed (ch_new L (uo_channel_id m) user_identity prefix (uo_target m)
                    nominal_hashrate True (of_nat len) (cm_max_past_jobs s)) s)
                  (\<lambda>c s.
                     (let s1 = s\<lparr>cm_extended := (cm_extended s)(uo_channel_id m \<mapsto> c)\<rparr>
                      in if b032_ok b then (Done (success_for_sv1 m (uo_channel_id m) b len), s1)
                         else (Failed (tp_shutdown TpBinarySv2), s1)))))"

definition handle_open_extended_mining_channel_success ::
  "('c, 'g, 'a, 'p) channels_lib \<Rightarrow> cm_env \<Rightarrow> upstream_open_success \<Rightarrow> ('c, 'g, 'a) channel_manager \<Rightarrow>
   unit outcome \<times> ('c, 'g, 'a) channel_manager" where
  "handle_open_extended_mining_channel_success L env m s =
     (case cm_pending s (uo_request_id m) of
        None \<Rightarrow> (Failed (tp_log (PendingChannelNotFound (uo_request_id m))), s)
      | Some (user_identity, nominal_hashrate, len) \<Rightarrow>
          (let s1 = s\<lparr>cm_pending := (cm_pending s)(uo_request_id m := None)\<rparr>
           in case colliding_channel_id (uo_channel_id m) (uo_group_channel_id m) s1 of
                Some conflicting \<Rightarrow> (Failed (tp_fallback (ChannelIdAlreadyInUse conflicting)), s1)
              | None \<Rightarrow>
                  and_then (join_group L (uo_group_channel_id m) (uo_channel_id m)
                      (unat (uo_extranonce_size m) + length (uo_extranonce_prefix m)) s1)
                    (\<lambda>_ s.
                       and_then (if is_aggregated (cm_mode s)
                                 then open_aggregated L m user_identity nominal_hashrate len s
                                 else open_non_aggregated L m user_identity nominal_hashrate len s)
                         (\<lambda>success s.
                            and_then (send_sv1 env (SvOpenSuccess success) s)
                              (\<lambda>_ s.
                                 (let s1 = s\<lparr>cm_advertised := (cm_advertised s)
                                             (os_channel_id success \<mapsto> os_extranonce_prefix success)\<rparr>
                                  in if is_aggregated (cm_mode s1)
                                     then open_pending_aggregated_downstream_channels L env s1
                                     else (Done (), s1)))))))"

definition handle_open_mining_channel_error :: "('c, 'g, 'a) channel_manager \<Rightarrow> unit outcome \<times> ('c, 'g, 'a) channel_manager" where
  "handle_open_mining_channel_error s = (Failed (tp_fallback OpenMiningChannelError), s)"

definition close_for_sv1 ::
  "cm_env \<Rightarrow> channel_id \<Rightarrow> ('c, 'g, 'a) channel_manager \<Rightarrow> unit outcome \<times> ('c, 'g, 'a) channel_manager" where
  "close_for_sv1 env ch s =
     send_sv1 env (SvCloseChannel ch) (s\<lparr>cm_advertised := (cm_advertised s)(ch := None)\<rparr>)"

definition handle_close_channel ::
  "('c, 'g, 'a, 'p) channels_lib \<Rightarrow> cm_env \<Rightarrow> channel_id \<Rightarrow> ('c, 'g, 'a) channel_manager \<Rightarrow>
   unit outcome \<times> ('c, 'g, 'a) channel_manager" where
  "handle_close_channel L env ch s =
     (if is_aggregated (cm_mode s) then (Failed (tp_fallback AggregatedChannelClosed), s)
      else
        (case cm_groups s ch of
           Some gr \<Rightarrow>
             (let ids = gr_ids L gr
              in each (close_for_sv1 env) ids
                   (fold (drop_channel L) ids (s\<lparr>cm_groups := (cm_groups s)(ch := None)\<rparr>)))
         | None \<Rightarrow>
             if cm_extended s ch = None then (Failed (tp_log ChannelNotFound), s)
             else close_for_sv1 env ch (remove_from_groups L ch (drop_channel L ch s))))"

definition update_all ::
  "('c \<Rightarrow> 'c option) \<Rightarrow> tproxy_error \<Rightarrow> channel_id \<Rightarrow> ('c, 'g, 'a) channel_manager \<Rightarrow>
   unit outcome \<times> ('c, 'g, 'a) channel_manager" where
  "update_all f e ch s =
     (case cm_extended s ch of
        None \<Rightarrow> (Done (), s)
      | Some c \<Rightarrow>
          (case f c of
             None \<Rightarrow> (Failed e, s)
           | Some c' \<Rightarrow> (Done (), s\<lparr>cm_extended := (cm_extended s)(ch \<mapsto> c')\<rparr>)))"

text \<open>The same for a channel that has to exist.\<close>

definition update_channel ::
  "('c \<Rightarrow> 'c option) \<Rightarrow> tproxy_error \<Rightarrow> tproxy_error \<Rightarrow> channel_id \<Rightarrow> ('c, 'g, 'a) channel_manager \<Rightarrow>
   unit outcome \<times> ('c, 'g, 'a) channel_manager" where
  "update_channel f missing e ch s =
     (if cm_extended s ch = None then (Failed missing, s) else update_all f e ch s)"

definition handle_set_extranonce_prefix ::
  "('c, 'g, 'a, 'p) channels_lib \<Rightarrow> cm_env \<Rightarrow> channel_id \<Rightarrow> bytes \<Rightarrow> ('c, 'g, 'a) channel_manager \<Rightarrow>
   unit outcome \<times> ('c, 'g, 'a) channel_manager" where
  "handle_set_extranonce_prefix L env ch prefix s =
     (if is_aggregated (cm_mode s)
      then
        (case cm_extended s AGGREGATED_CHANNEL_ID of
           None \<Rightarrow> (Failed (tp_shutdown ChannelNotFound), s)
         | Some aggregate \<Rightarrow>
             if ch \<noteq> ch_channel_id L aggregate then (Failed (tp_log ChannelNotFound), s)
             else if MAX_EXTRANONCE_LEN L < length prefix + unat (ch_rollable_extranonce_size L aggregate)
             then (Failed (tp_fallback (InvalidExtranonceSize (length prefix) (ch_rollable_extranonce_size L aggregate))), s)
             else
               and_then (or_fail (tp_shutdown MissingAggregatedExtranonceAllocator) (cm_allocator s) s)
                 (\<lambda>allocator s.
                    and_then (or_fail (tp_fallback AggregatedExtranonceAllocatorUpdateFailed)
                        (al_set_upstream_prefix L prefix allocator) s)
                      (\<lambda>allocator' s.
                         and_then (update_channel (ch_set_upstream_prefix L prefix) (tp_shutdown ChannelNotFound)
                             (tp_fallback (UpstreamExtranoncePrefixUpdateFailed ch)) AGGREGATED_CHANNEL_ID
                             (s\<lparr>cm_allocator := Some allocator'\<rparr>))
                           (\<lambda>_ s.
                              each (\<lambda>k. update_all (ch_set_upstream_prefix L prefix)
                                          (tp_shutdown (UpstreamExtranoncePrefixUpdateFailed k)) k)
                                (filter (\<lambda>k. k \<noteq> AGGREGATED_CHANNEL_ID) (visit_channels env)) s))))
      else update_channel (ch_set_upstream_prefix L prefix) (tp_log ChannelNotFound)
             (tp_fallback (UpstreamExtranoncePrefixUpdateFailed ch)) ch s)"

definition account_share ::
  "('c \<Rightarrow> 'c) \<Rightarrow> channel_id \<Rightarrow> ('c, 'g, 'a) channel_manager \<Rightarrow> unit outcome \<times> ('c, 'g, 'a) channel_manager" where
  "account_share f ch s =
     (let key = (if is_aggregated (cm_mode s) then AGGREGATED_CHANNEL_ID else ch)
      in (Done (), s\<lparr>cm_extended := (cm_extended s)(key := map_option f (cm_extended s key))\<rparr>))"

definition handle_submit_shares_success ::
  "('c, 'g, 'a, 'p) channels_lib \<Rightarrow> channel_id \<Rightarrow> u32 \<Rightarrow> u64 \<Rightarrow> ('c, 'g, 'a) channel_manager \<Rightarrow>
   unit outcome \<times> ('c, 'g, 'a) channel_manager" where
  "handle_submit_shares_success L ch accepted shares_sum = account_share (ch_on_acknowledgement L accepted shares_sum) ch"

definition handle_submit_shares_error ::
  "('c, 'g, 'a, 'p) channels_lib \<Rightarrow> channel_id \<Rightarrow> string \<Rightarrow> ('c, 'g, 'a) channel_manager \<Rightarrow>
   unit outcome \<times> ('c, 'g, 'a) channel_manager" where
  "handle_submit_shares_error L ch error_code = account_share (ch_on_rejection L error_code) ch"

section \<open>Jobs\<close>

definition is_future :: "new_extended_mining_job \<Rightarrow> bool" where
  "is_future m = (nj_min_ntime m = None)"

definition verify_payout_distribution ::
  "btc_lib \<Rightarrow> new_extended_mining_job \<Rightarrow> nat \<Rightarrow> ('c, 'g, 'a) channel_manager \<Rightarrow>
   unit outcome \<times> ('c, 'g, 'a) channel_manager" where
  "verify_payout_distribution B m full_extranonce_size s =
     and_then (expect (cm_payout s) s)
       (\<lambda>payout s.
          (case payout of
             None \<Rightarrow> (Done (), s)
           | Some mode \<Rightarrow>
               (case validate_coinbase_tx_parts B mode (nj_coinbase_tx_prefix m) (nj_coinbase_tx_suffix m)
                       full_extranonce_size of
                  Inl _ \<Rightarrow> (Failed (tp_fallback PayoutVerificationFailed), s)
                | Inr _ \<Rightarrow> (Done (), s))))"

text \<open>The aggregated channel and its group, for the messages that may address either.\<close>

definition aggregated_scope ::
  "cm_env \<Rightarrow> ('c, 'g, 'a) channel_manager \<Rightarrow> ('c \<times> channel_id) outcome \<times> ('c, 'g, 'a) channel_manager" where
  "aggregated_scope env s =
     and_then (or_fail (tp_fallback ChannelNotFound) (cm_extended s AGGREGATED_CHANNEL_ID) s)
       (\<lambda>aggregate s.
          (case filter (\<lambda>g. cm_groups s g \<noteq> None) (visit_groups env) of
             [] \<Rightarrow> (Failed (tp_fallback ChannelNotFound), s)
           | g # _ \<Rightarrow> (Done (aggregate, g), s)))"

definition new_job_failed :: tproxy_error where
  "new_job_failed = tp_fallback FailedToProcessNewExtendedMiningJob"

definition handle_new_extended_mining_job ::
  "('c, 'g, 'a, 'p) channels_lib \<Rightarrow> btc_lib \<Rightarrow> cm_env \<Rightarrow> new_extended_mining_job \<Rightarrow>
   ('c, 'g, 'a) channel_manager \<Rightarrow> unit outcome \<times> ('c, 'g, 'a) channel_manager" where
  "handle_new_extended_mining_job L B env m s =
     (if \<not> nj_version_rolling_allowed m then (Failed (tp_fallback VersionRollingNotAllowed), s)
      else if is_aggregated (cm_mode s)
      then
        and_then (aggregated_scope env s)
          (\<lambda>(aggregate, g) s.
             if ch_channel_id L aggregate \<noteq> nj_channel_id m \<and> g \<noteq> nj_channel_id m
             then (Failed (tp_log ChannelNotFound), s)
             else
               and_then (verify_payout_distribution B m (ch_full_extranonce_size L aggregate) s)
                 (\<lambda>_ s. and_then (each (update_all (ch_on_new_job L m) new_job_failed) (visit_channels env) s)
                    (\<lambda>_ s. if is_future m then (Done (), s)
                           else forward_job_to_sv1_server L env (m\<lparr>nj_channel_id := AGGREGATED_CHANNEL_ID\<rparr>) s)))
      else
        (case cm_groups s (nj_channel_id m) of
           Some gr \<Rightarrow>
             and_then (or_fail (tp_fallback ChannelNotFound) (gr_full_extranonce_size L gr) s)
               (\<lambda>full_size s.
                  and_then (verify_payout_distribution B m full_size s)
                    (\<lambda>_ s.
                       (let s1 = s\<lparr>cm_groups := (cm_groups s)(nj_channel_id m \<mapsto> gr_on_new_job L m gr)\<rparr>;
                            ids = gr_ids L (gr_on_new_job L m gr)
                        in and_then (each (\<lambda>ch. update_channel (ch_on_new_job L (m\<lparr>nj_channel_id := ch\<rparr>))
                                               (tp_fallback ChannelNotFound) new_job_failed ch) ids s1)
                             (\<lambda>_ s. if is_future m then (Done (), s)
                                    else each (\<lambda>ch. forward_job_to_sv1_server L env (m\<lparr>nj_channel_id := ch\<rparr>)) ids s))))
         | None \<Rightarrow>
             (case cm_extended s (nj_channel_id m) of
                None \<Rightarrow> (Failed (tp_log ChannelNotFound), s)
              | Some c \<Rightarrow>
                  and_then (verify_payout_distribution B m (ch_full_extranonce_size L c) s)
                    (\<lambda>_ s.
                       and_then (update_all (ch_on_new_job L m) new_job_failed (nj_channel_id m) s)
                         (\<lambda>_ s. if is_future m then (Done (), s) else forward_job_to_sv1_server L env m s)))))"

definition prev_hash_failed :: tproxy_error where
  "prev_hash_failed = tp_fallback FailedToProcessSetNewPrevHash"

text \<open>The active job of a channel after a new prevhash; there has to be one.\<close>

definition activated_job ::
  "('c, 'g, 'a, 'p) channels_lib \<Rightarrow> channel_id \<Rightarrow> ('c, 'g, 'a) channel_manager \<Rightarrow>
   new_extended_mining_job outcome \<times> ('c, 'g, 'a) channel_manager" where
  "activated_job L ch s =
     expect (case cm_extended s ch of
               None \<Rightarrow> None
             | Some c \<Rightarrow> map_option cj_message (ch_active_job L c)) s"

primrec prev_hash_for_group ::
  "('c, 'g, 'a, 'p) channels_lib \<Rightarrow> set_new_prev_hash \<Rightarrow> channel_id list \<Rightarrow> ('c, 'g, 'a) channel_manager \<Rightarrow>
   new_extended_mining_job list outcome \<times> ('c, 'g, 'a) channel_manager" where
  "prev_hash_for_group L m [] s = (Done [], s)"
| "prev_hash_for_group L m (ch # chs) s =
     and_then (update_channel (ch_on_prev_hash L m) (tp_fallback ChannelNotFound) prev_hash_failed ch s)
       (\<lambda>_ s. and_then (activated_job L ch s)
          (\<lambda>job s. and_then (prev_hash_for_group L m chs s)
             (\<lambda>jobs s. (Done (job # jobs), s))))"

definition send_prev_hashes ::
  "('c, 'g, 'a, 'p) channels_lib \<Rightarrow> cm_env \<Rightarrow> set_new_prev_hash \<Rightarrow> channel_id list \<Rightarrow>
   new_extended_mining_job list \<Rightarrow> ('c, 'g, 'a) channel_manager \<Rightarrow>
   unit outcome \<times> ('c, 'g, 'a) channel_manager" where
  "send_prev_hashes L env m chs jobs s =
     and_then (each (\<lambda>ch. send_sv1 env (SvSetNewPrevHash (m\<lparr>ph_channel_id := ch\<rparr>))) chs s)
       (\<lambda>_. each (forward_job_to_sv1_server L env) jobs)"

definition upstream_set_new_prev_hash ::
  "('c, 'g, 'a, 'p) channels_lib \<Rightarrow> cm_env \<Rightarrow> set_new_prev_hash \<Rightarrow> ('c, 'g, 'a) channel_manager \<Rightarrow>
   unit outcome \<times> ('c, 'g, 'a) channel_manager" where
  "upstream_set_new_prev_hash L env m s =
     (if is_aggregated (cm_mode s)
      then
        and_then (aggregated_scope env s)
          (\<lambda>(aggregate, g) s.
             if ch_channel_id L aggregate \<noteq> ph_channel_id m \<and> g \<noteq> ph_channel_id m
             then (Failed (tp_log ChannelNotFound), s)
             else
               and_then (each (update_all (ch_on_prev_hash L m) prev_hash_failed) (visit_channels env) s)
                 (\<lambda>_ s. and_then (activated_job L AGGREGATED_CHANNEL_ID s)
                    (\<lambda>job s. send_prev_hashes L env m [AGGREGATED_CHANNEL_ID]
                               [job\<lparr>nj_channel_id := AGGREGATED_CHANNEL_ID\<rparr>] s)))
      else
        (case cm_groups s (ph_channel_id m) of
           Some gr \<Rightarrow>
             and_then (or_fail prev_hash_failed (gr_on_prev_hash L m gr) s)
               (\<lambda>gr' s.
                  and_then (prev_hash_for_group L m (gr_ids L gr')
                      (s\<lparr>cm_groups := (cm_groups s)(ph_channel_id m \<mapsto> gr')\<rparr>))
                    (\<lambda>jobs s. send_prev_hashes L env m (gr_ids L gr') jobs s))
         | None \<Rightarrow>
             if cm_extended s (ph_channel_id m) = None then (Failed (tp_log ChannelNotFound), s)
             else
               and_then (prev_hash_for_group L m [ph_channel_id m] s)
                 (\<lambda>jobs s. send_prev_hashes L env m [ph_channel_id m] jobs s)))"

section \<open>Targets and groups\<close>

definition set_target_failed :: tproxy_error where
  "set_target_failed = tp_fallback FailedToProcessSetTarget"

definition upstream_set_target ::
  "('c, 'g, 'a, 'p) channels_lib \<Rightarrow> cm_env \<Rightarrow> channel_id \<Rightarrow> target \<Rightarrow> ('c, 'g, 'a) channel_manager \<Rightarrow>
   unit outcome \<times> ('c, 'g, 'a) channel_manager" where
  "upstream_set_target L env ch t s =
     (if is_aggregated (cm_mode s)
      then
        and_then (aggregated_scope env s)
          (\<lambda>(aggregate, g) s.
             if ch_channel_id L aggregate \<noteq> ch \<and> g \<noteq> ch then (Failed (tp_log ChannelNotFound), s)
             else
               and_then (each (update_all (ch_set_target L t) set_target_failed) (visit_channels env) s)
                 (\<lambda>_. send_sv1 env (SvSetTarget AGGREGATED_CHANNEL_ID t)))
      else
        (case cm_groups s ch of
           Some gr \<Rightarrow>
             and_then (each (update_channel (ch_set_target L t) (tp_fallback ChannelNotFound) set_target_failed)
                 (gr_ids L gr) s)
               (\<lambda>_. each (\<lambda>k. send_sv1 env (SvSetTarget k t)) (gr_ids L gr))
         | None \<Rightarrow>
             and_then (update_channel (ch_set_target L t) (tp_log ChannelNotFound) set_target_failed ch s)
               (\<lambda>_. send_sv1 env (SvSetTarget ch t))))"

text \<open>\<open>SetGroupChannel\<close>: the replacement is built and checked before any group changes.\<close>

definition size_for_group ::
  "('c, 'g, 'a, 'p) channels_lib \<Rightarrow> ('c, 'g, 'a) channel_manager \<Rightarrow> channel_id \<Rightarrow> nat option" where
  "size_for_group L s ch =
     (if is_aggregated (cm_mode s)
      then (case cm_extended s AGGREGATED_CHANNEL_ID of
              Some aggregate \<Rightarrow>
                if ch = ch_channel_id L aggregate then Some (ch_full_extranonce_size L aggregate) else None
            | None \<Rightarrow> None)
      else map_option (ch_full_extranonce_size L) (cm_extended s ch))"

primrec build_group ::
  "('c, 'g, 'a, 'p) channels_lib \<Rightarrow> ('c, 'g, 'a) channel_manager \<Rightarrow> channel_id list \<Rightarrow> 'g \<Rightarrow>
   (tproxy_error, 'g) result" where
  "build_group L s [] gr = Ok gr"
| "build_group L s (ch # chs) gr =
     (if ch = AGGREGATED_CHANNEL_ID then Err (tp_fallback (ChannelIdAlreadyInUse AGGREGATED_CHANNEL_ID))
      else case size_for_group L s ch of
             None \<Rightarrow> Err (tp_fallback ChannelNotFound)
           | Some full_size \<Rightarrow>
               (case gr_add L ch full_size gr of
                  None \<Rightarrow> Err (tp_fallback FailedToAddChannelIdToGroupChannel)
                | Some gr' \<Rightarrow> build_group L s chs gr'))"

definition install_group ::
  "('c, 'g, 'a, 'p) channels_lib \<Rightarrow> channel_id \<Rightarrow> channel_id list \<Rightarrow> 'g \<Rightarrow> ('c, 'g, 'a) channel_manager \<Rightarrow>
   ('c, 'g, 'a) channel_manager" where
  "install_group L g chs gr s =
     (let moved = (\<lambda>k. case cm_groups s k of
             None \<Rightarrow> None
           | Some old \<Rightarrow> let old' = fold (gr_remove L) chs old in if gr_ids L old' = [] then None else Some old')
      in s\<lparr>cm_groups := moved(g := (if chs = [] then None else Some gr))\<rparr>)"

definition handle_set_group_channel ::
  "('c, 'g, 'a, 'p) channels_lib \<Rightarrow> channel_id \<Rightarrow> channel_id list \<Rightarrow> ('c, 'g, 'a) channel_manager \<Rightarrow>
   unit outcome \<times> ('c, 'g, 'a) channel_manager" where
  "handle_set_group_channel L g chs s =
     (if g = AGGREGATED_CHANNEL_ID then (Failed (tp_fallback (ChannelIdAlreadyInUse g)), s)
      else if is_aggregated (cm_mode s) \<and> cm_extended s AGGREGATED_CHANNEL_ID = None
      then (Failed (tp_fallback ChannelNotFound), s)
      else if (if is_aggregated (cm_mode s)
               then map_option (ch_channel_id L) (cm_extended s AGGREGATED_CHANNEL_ID) = Some g
               else cm_extended s g \<noteq> None)
      then (Failed (tp_fallback (ChannelIdAlreadyInUse g)), s)
      else case build_group L s chs (gr_new L g) of
             Inl e \<Rightarrow> (Failed e, s)
           | Inr gr \<Rightarrow> (Done (), install_group L g chs gr s))"

section \<open>Extensions\<close>

definition handle_request_extensions_success ::
  "u16 list \<Rightarrow> ('c, 'g, 'a) channel_manager \<Rightarrow> unit outcome \<times> ('c, 'g, 'a) channel_manager" where
  "handle_request_extensions_success supported s =
     (if filter (\<lambda>x. x \<notin> set supported) (cm_required_extensions s) \<noteq> [] then (Failed (tp_fallback TpGeneral), s)
      else (Done (), s\<lparr>cm_negotiated := supported\<rparr>))"

definition handle_request_extensions_error ::
  "cm_env \<Rightarrow> u16 \<Rightarrow> u16 list \<Rightarrow> u16 list \<Rightarrow> ('c, 'g, 'a) channel_manager \<Rightarrow>
   unit outcome \<times> ('c, 'g, 'a) channel_manager" where
  "handle_request_extensions_error env request_id unsupported required_by_server s =
     (let missing = filter (\<lambda>x. x \<in> set unsupported) (cm_required_extensions s);
          can = filter (\<lambda>x. x \<in> set (cm_supported_extensions s)) required_by_server;
          cannot = filter (\<lambda>x. x \<notin> set (cm_supported_extensions s)) required_by_server
      in if missing \<noteq> [] then (Failed (tp_fallback (RequiredExtensionsNotSupported missing)), s)
         else if required_by_server = [] then (Done (), s)
         else if cannot \<noteq> [] then (Failed (tp_fallback (ServerRequiresUnsupportedExtensions cannot)), s)
         else send_upstream env (UpRequestExtensions (request_id + 1) can) s)"

section \<open>The loop\<close>

datatype from_upstream =
    FromOpenSuccess upstream_open_success
  | FromOpenError
  | FromUpdateChannelError
  | FromCloseChannel channel_id
  | FromSetExtranoncePrefix channel_id bytes
  | FromSharesSuccess channel_id u32 u64
  | FromSharesError channel_id string
  | FromNewMiningJob
  | FromNewExtendedMiningJob new_extended_mining_job
  | FromSetNewPrevHash set_new_prev_hash
  | FromSetTarget channel_id target
  | FromSetGroupChannel channel_id "channel_id list"
  | FromExtensionsSuccess "u16 list"
  | FromExtensionsError u16 "u16 list" "u16 list"
  | FromUnsupported u8
  | FromOtherProtocol u16 u8

fun handle_upstream_message ::
  "('c, 'g, 'a, 'p) channels_lib \<Rightarrow> btc_lib \<Rightarrow> cm_env \<Rightarrow> from_upstream \<Rightarrow> ('c, 'g, 'a) channel_manager \<Rightarrow>
   unit outcome \<times> ('c, 'g, 'a) channel_manager" where
  "handle_upstream_message L B env (FromOpenSuccess m) s = handle_open_extended_mining_channel_success L env m s"
| "handle_upstream_message L B env FromOpenError s = handle_open_mining_channel_error s"
| "handle_upstream_message L B env FromUpdateChannelError s = (Done (), s)"
| "handle_upstream_message L B env (FromCloseChannel ch) s = handle_close_channel L env ch s"
| "handle_upstream_message L B env (FromSetExtranoncePrefix ch p) s = handle_set_extranonce_prefix L env ch p s"
| "handle_upstream_message L B env (FromSharesSuccess ch n shares_sum) s = handle_submit_shares_success L ch n shares_sum s"
| "handle_upstream_message L B env (FromSharesError ch code) s = handle_submit_shares_error L ch code s"
| "handle_upstream_message L B env FromNewMiningJob s = (Done (), s)"
| "handle_upstream_message L B env (FromNewExtendedMiningJob m) s = handle_new_extended_mining_job L B env m s"
| "handle_upstream_message L B env (FromSetNewPrevHash m) s = upstream_set_new_prev_hash L env m s"
| "handle_upstream_message L B env (FromSetTarget ch t) s = upstream_set_target L env ch t s"
| "handle_upstream_message L B env (FromSetGroupChannel g chs) s = handle_set_group_channel L g chs s"
| "handle_upstream_message L B env (FromExtensionsSuccess xs) s = handle_request_extensions_success xs s"
| "handle_upstream_message L B env (FromExtensionsError r us rs) s = handle_request_extensions_error env r us rs s"
| "handle_upstream_message L B env (FromUnsupported code) s = (Failed (tp_log (TpUnexpectedMessage 0 code)), s)"
| "handle_upstream_message L B env (FromOtherProtocol ext code) s =
     (Failed (tp_fallback (TpUnexpectedMessage ext code)), s)"

text \<open>The loop goes on after an error that is only logged; a disconnection is the SV1 server's business.\<close>

definition manager_continues :: "unit outcome \<Rightarrow> bool" where
  "manager_continues out =
     (case out of
        Done _ \<Rightarrow> True
      | Failed e \<Rightarrow> (case tp_action e of TpLog \<Rightarrow> True | TpDisconnect _ \<Rightarrow> True | TpFallback \<Rightarrow> False | TpShutdown \<Rightarrow> False)
      | Panicked \<Rightarrow> False)"

end
