(* ===== verification/Sv2_Prefixes.thy ===== *)
theory Sv2_Prefixes
  imports Sv2_Mining_Handler
begin

text \<open>
  The extranonce prefix a miner has been told when a job reaches it. A job captured its prefix when the
  upstream sent it; the channel manager announces a change just before the first job that needs it. The
  messages queued for the SV1 server are replayed to know what a miner was told.
\<close>

section \<open>What the miners were told\<close>

fun tell :: "to_sv1_server \<Rightarrow> (channel_id \<rightharpoonup> bytes) \<Rightarrow> (channel_id \<rightharpoonup> bytes)" where
  "tell (SvOpenSuccess m) t = t(os_channel_id m \<mapsto> os_extranonce_prefix m)"
| "tell (SvSetExtranoncePrefix ch p) t = t(ch \<mapsto> p)"
| "tell _ t = t"

definition told :: "to_sv1_server list \<Rightarrow> (channel_id \<rightharpoonup> bytes)" where
  "told ms = fold tell ms Map.empty"

lemma told_snoc [simp]: "told (ms @ [m]) = tell m (told ms)"
  by (simp add: told_def)

definition prefix_inv :: "('c, 'g, 'a) channel_manager \<Rightarrow> bool" where
  "prefix_inv s \<longleftrightarrow> (\<forall>ch p. cm_advertised s ch = Some p \<longrightarrow> told (cm_to_sv1 s) ch = Some p)"

text \<open>The channels a job is for.\<close>

definition in_scope :: "new_extended_mining_job \<Rightarrow> channel_id \<Rightarrow> bool" where
  "in_scope m ch =
     (if nj_channel_id m = AGGREGATED_CHANNEL_ID then ch \<noteq> AGGREGATED_CHANNEL_ID else ch = nj_channel_id m)"

text \<open>Every job queued after the first \<open>n\<close> messages: each of its channels has it as the active job and was
  told the job's prefix before.\<close>

definition job_told ::
  "('c, 'g, 'a, 'p) channels_lib \<Rightarrow> (channel_id \<rightharpoonup> 'c) \<Rightarrow> to_sv1_server list \<Rightarrow> new_extended_mining_job \<Rightarrow> bool" where
  "job_told L E before m \<longleftrightarrow>
     (\<forall>ch c. in_scope m ch \<and> E ch = Some c \<longrightarrow>
        (\<exists>p. job_prefix L (nj_job_id m) c = Some p \<and> told before ch = Some p))"

definition jobs_told ::
  "('c, 'g, 'a, 'p) channels_lib \<Rightarrow> nat \<Rightarrow> ('c, 'g, 'a) channel_manager \<Rightarrow> bool" where
  "jobs_told L n s \<longleftrightarrow>
     (\<forall>before m after. cm_to_sv1 s = before @ SvNewJob m # after \<and> n \<le> length before \<longrightarrow>
        job_told L (cm_extended s) before m)"

definition prefixes_ok ::
  "('c, 'g, 'a, 'p) channels_lib \<Rightarrow> nat \<Rightarrow> ('c, 'g, 'a) channel_manager \<Rightarrow> bool" where
  "prefixes_ok L n s \<longleftrightarrow> prefix_inv s \<and> jobs_told L n s"

lemma split_snoc:
  "xs @ [x] = before @ y # after \<longleftrightarrow> after = [] \<and> xs = before \<and> x = y \<or> (\<exists>zs. after = zs @ [x] \<and> xs = before @ y # zs)"
  by (cases after rule: rev_cases) auto

lemma jobs_told_start: "length (cm_to_sv1 s) \<le> n \<Longrightarrow> jobs_told L n s"
  by (auto simp: jobs_told_def)

lemma prefixes_ok_send:
  assumes ok: "prefixes_ok L n s"
    and adv: "\<And>ch p. cm_advertised s' ch = Some p \<Longrightarrow> tell m (told (cm_to_sv1 s)) ch = Some p"
    and job: "\<And>j. m = SvNewJob j \<Longrightarrow> job_told L (cm_extended s) (cm_to_sv1 s) j"
    and s': "cm_to_sv1 s' = cm_to_sv1 s @ [m]" "cm_extended s' = cm_extended s"
  shows "prefixes_ok L n s'"
proof -
  have "jobs_told L n s'"
    using ok job unfolding prefixes_ok_def jobs_told_def s' by (auto simp: split_snoc)
  moreover have "prefix_inv s'" using adv by (simp add: prefix_inv_def s')
  ultimately show ?thesis by (simp add: prefixes_ok_def)
qed

text \<open>Forwarding a job, from any state in which the announced prefixes are right.\<close>

lemma announce_prefix_spec:
  assumes ok: "prefixes_ok L n s" and r: "announce_prefix env (ch, p) s = (out, s')"
  shows "prefixes_ok L n s'" and "cm_extended s' = cm_extended s"
    and "out = Done () \<Longrightarrow> cm_advertised s' = (cm_advertised s)(ch \<mapsto> p)"
proof -
  have inv: "\<And>k q. cm_advertised s k = Some q \<Longrightarrow> told (cm_to_sv1 s) k = Some q"
    using ok by (simp add: prefixes_ok_def prefix_inv_def)
  have sent: "prefixes_ok L n (s\<lparr>cm_to_sv1 := cm_to_sv1 s @ [SvSetExtranoncePrefix ch p],
      cm_advertised := (cm_advertised s)(ch \<mapsto> p)\<rparr>)"
    by (rule prefixes_ok_send [OF ok, where m = "SvSetExtranoncePrefix ch p"]) (auto simp: inv split: if_splits)
  show "prefixes_ok L n s'" "cm_extended s' = cm_extended s"
    "out = Done () \<Longrightarrow> cm_advertised s' = (cm_advertised s)(ch \<mapsto> p)"
    using r ok sent by (auto simp: announce_prefix_def send_sv1_def split: option.splits if_splits)
qed

lemma announce_all_spec:
  assumes "prefixes_ok L n s" and "each (announce_prefix env) ps s = (out, s')" and "distinct (map fst ps)"
  shows "prefixes_ok L n s' \<and> cm_extended s' = cm_extended s \<and>
    (out = Done () \<longrightarrow> (\<forall>ch. cm_advertised s' ch = (case map_of ps ch of Some p \<Rightarrow> Some p | None \<Rightarrow> cm_advertised s ch)))"
  using assms
proof (induction ps arbitrary: s)
  case (Cons x ps)
  obtain ch p where x: "x = (ch, p)" by fastforce
  obtain out1 s1 where s1: "announce_prefix env (ch, p) s = (out1, s1)" by fastforce
  note a = announce_prefix_spec [OF Cons.prems(1) s1]
  show ?case
  proof (cases out1)
    case (Done u)
    have step: "each (announce_prefix env) ps s1 = (out, s')" using Cons.prems(2) by (simp add: x s1 Done)
    have dist: "distinct (map fst ps)" "map_of ps ch = None"
      using Cons.prems(3) by (simp_all add: x map_of_eq_None_iff)
    note ih = Cons.IH [OF a(1) step dist(1)]
    show ?thesis using ih a(2,3) dist(2) Done by (auto simp: x split: option.splits)
  qed (use Cons.prems(2) a x s1 in auto)
qed simp

lemma map_of_prefixes:
  assumes "distinct (visit_channels env)"
  shows "distinct (map fst (downstream_channels env s))"
    and "set (downstream_channels env s) =
      {(ch, c). ch \<in> set (visit_channels env) \<and> ch \<noteq> AGGREGATED_CHANNEL_ID \<and> cm_extended s ch = Some c}"
proof -
  let ?f = "\<lambda>ch. if ch = AGGREGATED_CHANNEL_ID then None else map_option (\<lambda>c. (ch, c)) (cm_extended s ch)"
  have key: "fst (the (?f ch)) = ch" if "?f ch \<noteq> None" for ch using that by (auto split: if_splits)
  have "map fst (downstream_channels env s) = filter (\<lambda>ch. ?f ch \<noteq> None) (visit_channels env)"
    unfolding downstream_channels_def map_filter_def using key by (auto simp: comp_def intro!: map_idI)
  then show "distinct (map fst (downstream_channels env s))" using assms by simp
  show "set (downstream_channels env s) =
      {(ch, c). ch \<in> set (visit_channels env) \<and> ch \<noteq> AGGREGATED_CHANNEL_ID \<and> cm_extended s ch = Some c}"
    unfolding downstream_channels_def map_filter_def by (force split: if_splits)
qed

lemma active_prefixes_spec:
  assumes ps: "active_job_extranonce_prefixes L env m s = Some ps" and "distinct (visit_channels env)"
    and "dom (cm_extended s) \<subseteq> set (visit_channels env)"
  shows "distinct (map fst ps)"
    and "in_scope m ch \<Longrightarrow> cm_extended s ch = Some c \<Longrightarrow>
      \<exists>p. job_prefix L (nj_job_id m) c = Some p \<and> map_of ps ch = Some p"
proof -
  note mp = map_of_prefixes [OF assms(2), of s]
  show dist: "distinct (map fst ps)"
    using ps mp(1) by (auto simp: active_job_extranonce_prefixes_def Let_def split_beta comp_def split: if_splits option.splits)
  assume scope: "in_scope m ch" and c: "cm_extended s ch = Some c"
  show "\<exists>p. job_prefix L (nj_job_id m) c = Some p \<and> map_of ps ch = Some p"
  proof (cases "nj_channel_id m = AGGREGATED_CHANNEL_ID")
    case True
    have mem: "(ch, c) \<in> set (downstream_channels env s)"
      using scope c assms(3) True by (auto simp: mp(2) in_scope_def)
    then obtain p where p: "job_prefix L (nj_job_id m) c = Some p"
      using ps True by (fastforce simp: active_job_extranonce_prefixes_def Let_def list_all_iff split: if_splits)
    have "(ch, p) \<in> set ps"
      using ps True mem p by (force simp: active_job_extranonce_prefixes_def Let_def split: if_splits)
    then show ?thesis using p dist by (simp add: map_of_is_SomeI)
  next
    case False
    then show ?thesis
      using ps c scope by (auto simp: active_job_extranonce_prefixes_def in_scope_def split: option.splits)
  qed
qed

lemma forward_job_spec:
  assumes ok: "prefixes_ok L n s" and r: "forward_job_to_sv1_server L env m s = (out, s')"
    and visit: "distinct (visit_channels env)" "dom (cm_extended s) \<subseteq> set (visit_channels env)"
  shows "prefixes_ok L n s' \<and> cm_extended s' = cm_extended s"
proof (cases "active_job_extranonce_prefixes L env m s")
  case None
  then show ?thesis using r ok by (simp add: forward_job_to_sv1_server_def)
next
  case (Some ps)
  obtain out1 s1 where s1: "each (announce_prefix env) ps s = (out1, s1)" by fastforce
  note ann = announce_all_spec [OF ok s1 active_prefixes_spec(1) [OF Some visit]]
  show ?thesis
  proof (cases out1)
    case (Done u)
    have inv: "told (cm_to_sv1 s1) ch = Some p" if "map_of ps ch = Some p" for ch p
      using that ann Done by (auto simp: prefixes_ok_def prefix_inv_def)
    have job: "job_told L (cm_extended s1) (cm_to_sv1 s1) m"
      using active_prefixes_spec(2) [OF Some visit] inv ann by (fastforce simp: job_told_def)
    have "prefixes_ok L n (s1\<lparr>cm_to_sv1 := cm_to_sv1 s1 @ [SvNewJob m]\<rparr>)"
      by (rule prefixes_ok_send [OF conjunct1 [OF ann], where m = "SvNewJob m"])
        (use ann job in \<open>auto simp: prefixes_ok_def prefix_inv_def\<close>)
    then show ?thesis
      using r s1 Some Done ann by (auto simp: forward_job_to_sv1_server_def send_sv1_def split: if_splits)
  qed (use r s1 Some ann in \<open>auto simp: forward_job_to_sv1_server_def\<close>)
qed

section \<open>Handlers that stay silent, forward, or open channels\<close>

definition visits_all :: "cm_env \<Rightarrow> ('c, 'g, 'a) channel_manager \<Rightarrow> bool" where
  "visits_all env s \<longleftrightarrow> distinct (visit_channels env) \<and> dom (cm_extended s) \<subseteq> set (visit_channels env)"

text \<open>Nothing for the miners; a prefix may be forgotten.\<close>

definition silent :: "('c, 'g, 'a) channel_manager \<Rightarrow> ('c, 'g, 'a) channel_manager \<Rightarrow> bool" where
  "silent s s' \<longleftrightarrow> cm_to_sv1 s' = cm_to_sv1 s \<and> cm_advertised s' \<subseteq>\<^sub>m cm_advertised s"

definition same_channels :: "('c, 'g, 'a) channel_manager \<Rightarrow> ('c, 'g, 'a) channel_manager \<Rightarrow> bool" where
  "same_channels s s' \<longleftrightarrow> cm_extended s' = cm_extended s"

text \<open>Messages for the miners, and no change of a channel.\<close>

definition forwards ::
  "('c, 'g, 'a, 'p) channels_lib \<Rightarrow> nat \<Rightarrow> cm_env \<Rightarrow> ('c, 'g, 'a) channel_manager \<Rightarrow>
   ('c, 'g, 'a) channel_manager \<Rightarrow> bool" where
  "forwards L n env s s' \<longleftrightarrow>
     same_channels s s' \<and> (visits_all env s \<and> prefixes_ok L n s \<longrightarrow> prefixes_ok L n s')"

interpretation silent: kept_relation silent
  by unfold_locales (auto simp: silent_def intro: map_le_trans)

interpretation same_channels: kept_relation same_channels
  by unfold_locales (auto simp: same_channels_def)

interpretation forwards: kept_relation "forwards L n env" for L n env
  by unfold_locales (auto simp: forwards_def visits_all_def same_channels_def)

lemma prefixes_ok_now: "prefixes_ok L (length (cm_to_sv1 s)) s \<longleftrightarrow> prefix_inv s"
  by (simp add: prefixes_ok_def jobs_told_start)

lemma silent_prefix_inv: "silent s s' \<Longrightarrow> prefix_inv s \<Longrightarrow> prefix_inv s'"
  by (fastforce simp: silent_def prefix_inv_def map_le_def dom_def)

lemma same_channels_send: "same_channels s (snd (send_sv1 env m s))"
  by (simp add: same_channels_def send_sv1_def)

lemma same_channels_announce: "same_channels s (snd (announce_prefix env p s))"
  by (auto simp: same_channels_def announce_prefix_def send_sv1_def split: prod.split option.split)

lemma same_channels_forward: "same_channels s (snd (forward_job_to_sv1_server L env m s))"
  unfolding forward_job_to_sv1_server_def
  by (intro same_channels.kept_and_then same_channels.kept_or_fail same_channels.kept_each
      same_channels_announce same_channels_send)

lemma forward_job_forwards: "forwards L n env s (snd (forward_job_to_sv1_server L env m s))"
proof -
  obtain out s' where r: "forward_job_to_sv1_server L env m s = (out, s')" by fastforce
  show ?thesis
    using forward_job_spec [OF _ r, of n] same_channels_forward [of s L env m] r
    by (simp add: forwards_def visits_all_def)
qed

lemma send_sv1_forwards:
  assumes "\<And>j. m \<noteq> SvNewJob j" and "\<And>t. tell m t = t" and "cm_advertised s1 \<subseteq>\<^sub>m cm_advertised s"
    and "cm_to_sv1 s1 = cm_to_sv1 s" and "cm_extended s1 = cm_extended s"
  shows "forwards L n env s (snd (send_sv1 env m s1))"
proof -
  have adv: "told (cm_to_sv1 s) ch = Some p" if "prefixes_ok L n s" "cm_advertised s1 ch = Some p" for ch p
    using that assms(3) by (force simp: prefixes_ok_def prefix_inv_def map_le_def dom_def)
  have "prefixes_ok L n s1" if "prefixes_ok L n s"
    using that adv [OF that] assms(4,5) by (simp add: prefixes_ok_def prefix_inv_def jobs_told_def)
  moreover have "prefixes_ok L n (s1\<lparr>cm_to_sv1 := cm_to_sv1 s1 @ [m]\<rparr>)" if ok: "prefixes_ok L n s"
    by (rule prefixes_ok_send [OF ok, where m = m]) (use adv [OF ok] assms in auto)
  ultimately show ?thesis using assms(5) by (auto simp: forwards_def same_channels_def send_sv1_def)
qed

text \<open>What a whole handler does: silent steps first, then messages.\<close>

definition serves ::
  "('c, 'g, 'a, 'p) channels_lib \<Rightarrow> cm_env \<Rightarrow> ('c, 'g, 'a) channel_manager \<Rightarrow>
   ('c, 'g, 'a) channel_manager \<Rightarrow> bool" where
  "serves L env s s' \<longleftrightarrow>
     (visits_all env s' \<and> prefix_inv s \<longrightarrow> prefixes_ok L (length (cm_to_sv1 s)) s')"

lemma serves_silent: "silent s s' \<Longrightarrow> serves L env s s'"
  using silent_prefix_inv [of s s'] prefixes_ok_now [of L s'] by (auto simp: serves_def silent_def)

lemma serves_forwards:
  assumes "\<And>n. forwards L n env s s'"
  shows "serves L env s s'"
  using assms by (auto simp: serves_def forwards_def same_channels_def visits_all_def prefixes_ok_now)

lemma serves_after:
  assumes "silent s s1" and "serves L env s1 s'"
  shows "serves L env s s'"
  using assms silent_prefix_inv [of s s1] by (auto simp: serves_def silent_def)

lemma serves_and_then:
  assumes r: "silent s (snd r)" and k: "\<And>x. serves L env (snd r) (snd (k x (snd r)))"
  shows "serves L env s (snd (and_then r k))"
proof (cases "fst r")
  case (Done x)
  then have "and_then r k = k x (snd r)" by (cases r) simp
  then show ?thesis using serves_after [OF r k] by simp
qed (use r in \<open>cases r; auto intro: serves_silent\<close>)+

section \<open>The silent steps\<close>

named_theorems silent_steps

lemma silent_update_all [silent_steps]: "silent s (snd (update_all f e ch s))"
  by (auto simp: silent_def update_all_def split: option.split)

lemma silent_update_channel [silent_steps]: "silent s (snd (update_channel f missing e ch s))"
  by (simp add: update_channel_def silent_update_all silent.refl)

lemma silent_verify [silent_steps]: "silent s (snd (verify_payout_distribution B m full_size s))"
  unfolding verify_payout_distribution_def
  by (intro silent.kept_and_then silent.kept_expect) (auto simp: silent.refl split: option.split sum.split)

lemma silent_scope [silent_steps]: "silent s (snd (aggregated_scope env s))"
  unfolding aggregated_scope_def
  by (intro silent.kept_and_then silent.kept_or_fail) (auto simp: silent.refl split: list.split)

lemma silent_activated_job [silent_steps]: "silent s (snd (activated_job L ch s))"
  unfolding activated_job_def by (rule silent.kept_expect)

lemma silent_prev_hash_for_group [silent_steps]: "silent s (snd (prev_hash_for_group L m chs s))"
proof (induction chs arbitrary: s)
  case (Cons ch chs)
  show ?case unfolding prev_hash_for_group.simps
    by (intro silent.kept_and_then silent_update_channel silent_activated_job Cons.IH) (simp add: silent.refl)
qed (simp add: silent.refl)

lemma silent_send_upstream [silent_steps]: "silent s (snd (send_upstream env m s))"
  by (simp add: silent_def send_upstream_def)

lemma silent_drop [simp]:
  "cm_to_sv1 (drop_channel L ch s) = cm_to_sv1 s" "cm_advertised (drop_channel L ch s) = cm_advertised s"
  by (simp_all add: drop_channel_def split: option.split)

lemma silent_drop_all [simp]:
  "cm_to_sv1 (fold (drop_channel L) ids s) = cm_to_sv1 s"
  "cm_advertised (fold (drop_channel L) ids s) = cm_advertised s"
  by (induction ids arbitrary: s) simp_all

lemma silent_join_group [silent_steps]: "silent s (snd (join_group L g ch n s))"
  by (auto simp: silent_def join_group_def Let_def split: option.split)

lemma silent_or_fail [silent_steps]: "silent s (snd (or_fail e v s))" by (rule silent.kept_or_fail)
lemma silent_expect [silent_steps]: "silent s (snd (expect v s))" by (rule silent.kept_expect)

section \<open>The handlers\<close>

text \<open>The rules that follow a handler through its branches to the messages it queues.\<close>

named_theorems serves_rules

lemma serves_here [serves_rules]: "serves L env s (snd (out, s))"
  by (simp add: serves_silent silent.refl)

lemma serves_if [serves_rules]:
  "(c \<Longrightarrow> serves L env s (snd a)) \<Longrightarrow> (\<not> c \<Longrightarrow> serves L env s (snd b)) \<Longrightarrow> serves L env s (snd (if c then a else b))"
  by simp

lemma serves_case_option [serves_rules]:
  "(v = None \<Longrightarrow> serves L env s (snd a)) \<Longrightarrow> (\<And>x. v = Some x \<Longrightarrow> serves L env s (snd (f x))) \<Longrightarrow>
   serves L env s (snd (case v of None \<Rightarrow> a | Some x \<Rightarrow> f x))"
  by (cases v) simp_all

lemma serves_case_prod [serves_rules]:
  "(\<And>a b. p = (a, b) \<Longrightarrow> serves L env s (snd (f a b))) \<Longrightarrow> serves L env s (snd (case p of (a, b) \<Rightarrow> f a b))"
  by (cases p) simp

lemma serves_case_prod_state [serves_rules]:
  "(\<And>a b. p = (a, b) \<Longrightarrow> serves L env s (snd (f a b s'))) \<Longrightarrow>
   serves L env s (snd ((case p of (a, b) \<Rightarrow> f a b) s'))"
  by (cases p) simp

lemma serves_forward_job [serves_rules]: "serves L env s (snd (forward_job_to_sv1_server L env m s))"
  by (rule serves_forwards) (rule forward_job_forwards)

lemma serves_forward_jobs [serves_rules]:
  "serves L env s (snd (each (\<lambda>x. forward_job_to_sv1_server L env (f x)) xs s))"
  by (intro serves_forwards forwards.kept_each forward_job_forwards)

declare serves_and_then [serves_rules]
declare silent.kept_each [silent_steps]

lemma serves_new_job: "serves L env s (snd (handle_new_extended_mining_job L B env m s))"
proof -
  have grp: "silent s (s\<lparr>cm_groups := gs\<rparr>)" for s :: "('a, 'b, 'c) channel_manager" and gs by (simp add: silent_def)
  have "silent s (snd (each f ids (s\<lparr>cm_groups := gs\<rparr>)))" if "\<And>x s. silent s (snd (f x s))"
    for s :: "('a, 'b, 'c) channel_manager" and f :: "channel_id \<Rightarrow> _" and ids gs
    using silent.trans [OF grp silent.kept_each [OF that]] .
  note quiet = this silent_steps
  show ?thesis
    unfolding handle_new_extended_mining_job_def Let_def
    by (intro serves_rules quiet)
qed

lemma serves_prev_hashes [serves_rules]: "serves L env s (snd (send_prev_hashes L env m chs jobs s))"
  unfolding send_prev_hashes_def
  by (intro serves_forwards forwards.kept_and_then forwards.kept_each forward_job_forwards send_sv1_forwards) simp_all

lemma serves_set_new_prev_hash: "serves L env s (snd (upstream_set_new_prev_hash L env m s))"
proof -
  have "silent s (snd (prev_hash_for_group L m chs (s\<lparr>cm_groups := gs\<rparr>)))"
    for s :: "('a, 'b, 'c) channel_manager" and m chs gs
    by (rule silent.trans [OF _ silent_prev_hash_for_group]) (simp add: silent_def)
  note quiet = this silent_steps
  show ?thesis
    unfolding upstream_set_new_prev_hash_def
    by (intro serves_rules quiet)
qed

lemma serves_set_targets [serves_rules]: "serves L env s (snd (each (\<lambda>k. send_sv1 env (SvSetTarget k t)) chs s))"
  by (intro serves_forwards forwards.kept_each send_sv1_forwards) simp_all

lemma serves_one_target [serves_rules]: "serves L env s (snd (send_sv1 env (SvSetTarget k t) s))"
  by (intro serves_forwards send_sv1_forwards) simp_all

lemma serves_set_target: "serves L env s (snd (upstream_set_target L env ch t s))"
  unfolding upstream_set_target_def by (intro serves_rules silent_steps)

lemma forwards_close: "forwards L n env s (snd (close_for_sv1 env ch s))"
  unfolding close_for_sv1_def by (rule send_sv1_forwards) (auto simp: map_le_def)

lemma serves_close_channel: "serves L env s (snd (handle_close_channel L env ch s))"
proof -
  have many: "serves L env s (snd (each (close_for_sv1 env) ids s1))" if "silent s s1" for ids s1
    by (rule serves_after [OF that]) (intro serves_forwards forwards.kept_each forwards_close)
  have one: "serves L env s (snd (close_for_sv1 env ch s1))" if "silent s s1" for s1
    by (rule serves_after [OF that]) (intro serves_forwards forwards_close)
  show ?thesis
    unfolding handle_close_channel_def Let_def
    by (intro serves_rules many one) (simp_all add: silent_def remove_from_groups_def)
qed

lemma silent_set_extranonce_prefix: "silent s (snd (handle_set_extranonce_prefix L env ch p s))"
proof -
  have "silent s (snd (update_channel f missing e k (s\<lparr>cm_allocator := a\<rparr>)))"
    for s :: "('a, 'b, 'c) channel_manager" and f missing e k a
    by (rule silent.trans [OF _ silent_update_channel]) (simp add: silent_def)
  then have "silent s (snd (and_then (update_channel f missing e k (s\<lparr>cm_allocator := a\<rparr>)) (\<lambda>_. each g ks)))"
    if "\<And>x s. silent s (snd (g x s))" for s :: "('a, 'b, 'c) channel_manager" and f missing e k a ks and g :: "channel_id \<Rightarrow> _"
    by (intro silent.kept_and_then silent.kept_each that)
  note inner = this [OF silent_update_all]
  show ?thesis
    unfolding handle_set_extranonce_prefix_def
    by (auto split: option.split intro!: silent.kept_and_then silent.kept_or_fail inner silent_update_channel
        simp: silent.refl)
qed

lemma silent_set_group_channel: "silent s (snd (handle_set_group_channel L g chs s))"
  by (auto simp: handle_set_group_channel_def install_group_def Let_def silent_def split: sum.split)

lemma silent_extensions:
  "silent s (snd (handle_request_extensions_success xs s))"
  "silent s (snd (handle_request_extensions_error env r us rs s))"
  by (simp_all add: handle_request_extensions_success_def handle_request_extensions_error_def Let_def
      silent_send_upstream silent.refl silent_def [of s "s\<lparr>cm_negotiated := xs\<rparr>"])

section \<open>Channels opened under the aggregated one\<close>

lemma first_free_spec: "first_free used i = Some ch \<Longrightarrow> \<not> used ch \<and> i \<le> unat ch \<and> ch \<noteq> AGGREGATED_CHANNEL_ID"
proof (induction used i rule: first_free.induct)
  case (1 used i)
  have small: "unat (of_nat i :: channel_id) = i" if "i < unat AGGREGATED_CHANNEL_ID"
    using that unsigned_less [of AGGREGATED_CHANNEL_ID, where ?'a = nat]
    by (simp add: unsigned_of_nat take_bit_nat_eq_self)
  show ?case
    using 1 small first_free.simps [of used i] by (auto split: if_splits)
qed

lemma fold_max_upper: "ch \<in> set xs \<Longrightarrow> ch \<le> fold max xs (a :: 'x :: linorder)"
proof -
  assume "ch \<in> set xs"
  then have "ch \<le> Max (set (a # xs))" by simp
  then show ?thesis by (simp only: Max.set_eq_fold)
qed

text \<open>The id of a new channel is in use nowhere and never the reserved one.\<close>

lemma next_downstream_channel_id_fresh:
  assumes visit: "visits_all env s" and id: "next_downstream_channel_id env s = Some ch"
  shows "cm_extended s ch = None" and "ch \<noteq> AGGREGATED_CHANNEL_ID"
proof -
  let ?hi = "highest_channel_id env s"
  have upper: "k \<le> ?hi" if "cm_extended s k \<noteq> None" "k \<noteq> AGGREGATED_CHANNEL_ID" for k
    using that visit unfolding highest_channel_id_def visits_all_def by (intro fold_max_upper) (auto simp: domIff)
  have succ: "cm_extended s (?hi + 1) = None" if "?hi \<noteq> - 1" "?hi + 1 \<noteq> AGGREGATED_CHANNEL_ID"
  proof (rule ccontr)
    assume "cm_extended s (?hi + 1) \<noteq> None"
    then have "?hi + 1 \<le> ?hi" by (rule upper) (rule that(2))
    moreover have "1 + ?hi \<noteq> 0" using that(1) by (metis add.commute eq_neg_iff_add_eq_0)
    ultimately show False using unatSuc [of ?hi] by (simp add: word_le_nat_alt add.commute)
  qed
  show "cm_extended s ch = None" "ch \<noteq> AGGREGATED_CHANNEL_ID"
    using id succ first_free_spec [of "\<lambda>i. cm_extended s i \<noteq> None" 1 ch]
    unfolding next_downstream_channel_id_def Let_def by (metis option.inject)+
qed

text \<open>Jobs queued after the first \<open>n\<close> messages, each for one channel that exists.\<close>

definition jobs_local :: "nat \<Rightarrow> ('c, 'g, 'a) channel_manager \<Rightarrow> bool" where
  "jobs_local n s \<longleftrightarrow>
     (\<forall>before m after. cm_to_sv1 s = before @ SvNewJob m # after \<and> n \<le> length before \<longrightarrow>
        nj_channel_id m \<noteq> AGGREGATED_CHANNEL_ID \<and> cm_extended s (nj_channel_id m) \<noteq> None)"

definition opens ::
  "('c, 'g, 'a, 'p) channels_lib \<Rightarrow> nat \<Rightarrow> cm_env \<Rightarrow> ('c, 'g, 'a) channel_manager \<Rightarrow>
   ('c, 'g, 'a) channel_manager \<Rightarrow> bool" where
  "opens L n env s s' \<longleftrightarrow>
     dom (cm_extended s) \<subseteq> dom (cm_extended s') \<and>
     (visits_all env s' \<and> prefixes_ok L n s \<and> jobs_local n s \<longrightarrow> prefixes_ok L n s' \<and> jobs_local n s')"

lemma visits_all_mono: "dom (cm_extended s) \<subseteq> dom (cm_extended s') \<Longrightarrow> visits_all env s' \<Longrightarrow> visits_all env s"
  unfolding visits_all_def by blast

interpretation opens: kept_relation "opens L n env" for L n env
proof
  fix a b c :: "('a, 'b, 'c) channel_manager"
  assume ab: "opens L n env a b" and bc: "opens L n env b c"
  have "visits_all env c \<Longrightarrow> visits_all env b" 
    using bc visits_all_mono unfolding opens_def by blast
  then show "opens L n env a c" using ab bc unfolding opens_def by blast
qed (simp add: opens_def)

lemma jobs_local_send:
  assumes "jobs_local n s" and "\<And>j. m = SvNewJob j \<Longrightarrow> nj_channel_id j \<noteq> AGGREGATED_CHANNEL_ID \<and> cm_extended s (nj_channel_id j) \<noteq> None"
    and "cm_to_sv1 s' = cm_to_sv1 s @ [m]" and "cm_extended s' = cm_extended s"
  shows "jobs_local n s'"
  using assms unfolding jobs_local_def by (auto simp: split_snoc)

lemma opens_send_error: "opens L n env s (snd (send_sv1 env (SvOpenError r code) s))"
proof -
  have "forwards L n env s (snd (send_sv1 env (SvOpenError r code) s))"
    by (rule send_sv1_forwards) simp_all
  moreover have "jobs_local n s \<Longrightarrow> jobs_local n (snd (send_sv1 env (SvOpenError r code) s))"
    by (auto simp: send_sv1_def intro: jobs_local_send)
  ultimately show ?thesis by (simp add: opens_def forwards_def same_channels_def visits_all_def)
qed

lemma opens_same:
  assumes "cm_to_sv1 s' = cm_to_sv1 s" "cm_advertised s' = cm_advertised s" "cm_extended s' = cm_extended s"
  shows "opens L n env s s'"
  using assms by (simp add: opens_def prefixes_ok_def prefix_inv_def jobs_told_def jobs_local_def)

text \<open>A new channel, unknown so far, changes nothing for the jobs queued before.\<close>

lemma fresh_channel_ok:
  assumes ok: "prefixes_ok L n s" and loc: "jobs_local n s" and fresh: "cm_extended s ch = None"
  shows "prefixes_ok L n (s\<lparr>cm_extended := (cm_extended s)(ch \<mapsto> c)\<rparr>)"
    and "jobs_local n (s\<lparr>cm_extended := (cm_extended s)(ch \<mapsto> c)\<rparr>)"
proof -
  have "job_told L ((cm_extended s)(ch \<mapsto> c)) before m"
    if "cm_to_sv1 s = before @ SvNewJob m # after" "n \<le> length before" for before m after
  proof -
    have "nj_channel_id m \<noteq> AGGREGATED_CHANNEL_ID \<and> nj_channel_id m \<noteq> ch"
      using loc that fresh unfolding jobs_local_def by metis
    moreover have "job_told L (cm_extended s) before m"
      using ok that unfolding prefixes_ok_def jobs_told_def by metis
    ultimately show ?thesis by (auto simp: job_told_def in_scope_def)
  qed
  then show "prefixes_ok L n (s\<lparr>cm_extended := (cm_extended s)(ch \<mapsto> c)\<rparr>)"
    using ok by (auto simp: prefixes_ok_def prefix_inv_def jobs_told_def)
  show "jobs_local n (s\<lparr>cm_extended := (cm_extended s)(ch \<mapsto> c)\<rparr>)"
    using loc unfolding jobs_local_def by auto
qed

text \<open>The open success itself, with the prefix noted after it.\<close>

lemma open_success_ok:
  assumes ok: "prefixes_ok L n s"
    and s': "cm_to_sv1 s' = cm_to_sv1 s @ [SvOpenSuccess m]" "cm_extended s' = cm_extended s"
      "cm_advertised s' = (cm_advertised s)(os_channel_id m \<mapsto> os_extranonce_prefix m)"
  shows "prefixes_ok L n s'"
  by (rule prefixes_ok_send [OF ok, where m = "SvOpenSuccess m"])
    (use ok s' in \<open>auto simp: prefixes_ok_def prefix_inv_def split: if_splits\<close>)

lemma jobs_local_announce: "jobs_local n s \<Longrightarrow> jobs_local n (snd (announce_prefix env p s))"
  by (cases p) (auto simp: announce_prefix_def send_sv1_def split: option.split intro: jobs_local_send)

lemma jobs_local_announce_all: "jobs_local n s \<Longrightarrow> jobs_local n (snd (each (announce_prefix env) ps s))"
proof (induction ps arbitrary: s)
  case (Cons p ps)
  show ?case
    using jobs_local_announce [OF Cons.prems, of env p] Cons.IH
    by (cases "announce_prefix env p s"; cases "fst (announce_prefix env p s)") auto
qed simp

lemma jobs_local_forward:
  assumes "jobs_local n s" and "nj_channel_id m \<noteq> AGGREGATED_CHANNEL_ID" and "cm_extended s (nj_channel_id m) \<noteq> None"
  shows "jobs_local n (snd (forward_job_to_sv1_server L env m s))"
proof (cases "active_job_extranonce_prefixes L env m s")
  case (Some ps)
  obtain out s1 where s1: "each (announce_prefix env) ps s = (out, s1)" by fastforce
  have "jobs_local n s1" using jobs_local_announce_all [OF assms(1), of env ps] s1 by simp
  moreover have "cm_extended s1 = cm_extended s"
    using same_channels.kept_each [of "announce_prefix env" s ps] same_channels_announce s1
    by (fastforce simp: same_channels_def)
  ultimately show ?thesis
    using assms(2,3) Some s1
    by (cases out) (auto simp: forward_job_to_sv1_server_def send_sv1_def intro: jobs_local_send)
qed (simp add: forward_job_to_sv1_server_def assms(1))

lemma opens_fresh:
  assumes fresh: "visits_all env s \<Longrightarrow> cm_extended s ch = None"
    and s': "cm_extended s' = (cm_extended s)(ch \<mapsto> c)"
    and step: "\<lbrakk>visits_all env s; prefixes_ok L n (s\<lparr>cm_extended := (cm_extended s)(ch \<mapsto> c)\<rparr>);
      jobs_local n (s\<lparr>cm_extended := (cm_extended s)(ch \<mapsto> c)\<rparr>); visits_all env s'\<rbrakk> \<Longrightarrow>
      prefixes_ok L n s' \<and> jobs_local n s'"
  shows "opens L n env s s'"
proof -
  have sub: "dom (cm_extended s) \<subseteq> dom (cm_extended s')" by (auto simp: s')
  have "prefixes_ok L n s' \<and> jobs_local n s'"
    if v: "visits_all env s'" and ok: "prefixes_ok L n s" "jobs_local n s"
  proof -
    have vs: "visits_all env s" by (rule visits_all_mono [OF sub v])
    show ?thesis by (rule step [OF vs fresh_channel_ok [OF ok fresh [OF vs]] v])
  qed
  then show ?thesis using sub unfolding opens_def by blast
qed

lemma opens_publish_child:
  assumes fresh: "visits_all env s \<Longrightarrow> cm_extended s ch = None" and ch: "visits_all env s \<Longrightarrow> ch \<noteq> AGGREGATED_CHANNEL_ID"
  shows "opens L n env s (snd (publish_child L env r min_size ch aggregate child p s))"
proof -
  let ?s1 = "s\<lparr>cm_extended := (cm_extended s)(ch \<mapsto> child)\<rparr>"
  note grow = opens_fresh [OF fresh, where c = child]
  show ?thesis
  proof (cases "b032_ok p \<and> sv1_open env")
    case False
    then show ?thesis by (intro grow) (auto simp: publish_child_def Let_def send_sv1_def)
  next
    case True
    let ?m = "\<lparr>os_channel_id = ch, os_request_id = r, os_target = ch_target L aggregate,
      os_extranonce_prefix = p, os_extranonce_size = of_nat min_size\<rparr>"
    let ?s2 = "?s1\<lparr>cm_to_sv1 := cm_to_sv1 s @ [SvOpenSuccess ?m], cm_advertised := (cm_advertised s)(ch \<mapsto> p)\<rparr>"
    have ok2: "prefixes_ok L n ?s2 \<and> jobs_local n ?s2" if "prefixes_ok L n ?s1" "jobs_local n ?s1"
      using open_success_ok [OF that(1), of ?s2 ?m] jobs_local_send [OF that(2), of "SvOpenSuccess ?m" ?s2] by simp
    show ?thesis
    proof (cases "ch_active_job L aggregate")
      case None
      then show ?thesis using True ok2 by (intro grow) (auto simp: publish_child_def Let_def send_sv1_def)
    next
      case (Some job)
      let ?j = "(cj_message job)\<lparr>nj_channel_id := ch\<rparr>"
      let ?s' = "snd (forward_job_to_sv1_server L env ?j ?s2)"
      have eq: "snd (publish_child L env r min_size ch aggregate child p s) = ?s'"
        using True Some by (simp add: publish_child_def Let_def send_sv1_def)
      have same: "cm_extended ?s' = cm_extended ?s2"
        using same_channels_forward unfolding same_channels_def .
      have fwd: "visits_all env ?s2 \<Longrightarrow> prefixes_ok L n ?s2 \<Longrightarrow> prefixes_ok L n ?s'"
        using forward_job_forwards unfolding forwards_def by blast
      show ?thesis
        unfolding eq
      proof (rule grow)
        assume "visits_all env s" "prefixes_ok L n ?s1" "jobs_local n ?s1" "visits_all env ?s'"
        moreover from this have "visits_all env ?s2" using same by (simp add: visits_all_def)
        ultimately show "prefixes_ok L n ?s' \<and> jobs_local n ?s'"
          using fwd ok2 jobs_local_forward [of n ?s2 ?j] ch by simp
      qed (assumption, rule trans [OF same], simp)
    qed
  qed
qed

lemma opens_request:
  "opens L n env s (snd (handle_downstream_channel_request_in_aggregated_mode L env r user h min_size s))"
proof (cases "cm_extended s AGGREGATED_CHANNEL_ID")
  case (Some aggregate)
  note agg = Some
  show ?thesis
  proof (cases "cm_allocator s")
    case (Some allocator)
    obtain prefix allocator' where alloc: "al_allocate_extended L min_size allocator = (prefix, allocator')" by fastforce
    let ?s1 = "\<lambda>a. s\<lparr>cm_allocator := Some a\<rparr>"
    have same: "opens L n env s (?s1 a)" for a by (rule opens_same) simp_all
    have reject: "opens L n env s (snd (reject_downstream_channel_request env r code (?s1 a)))" for a code
      unfolding reject_downstream_channel_request_def by (rule opens.trans [OF same opens_send_error])
    have publish: "opens L n env s (snd (publish_child L env r min_size ch aggregate child p (?s1 allocator')))"
      if "next_downstream_channel_id env (?s1 allocator') = Some ch" for ch child p
    proof (rule opens.trans [OF same opens_publish_child])
      assume "visits_all env (?s1 allocator')"
      then show "cm_extended (?s1 allocator') ch = None" "ch \<noteq> AGGREGATED_CHANNEL_ID"
        using next_downstream_channel_id_fresh [OF _ that] by simp_all
    qed
    show ?thesis
      unfolding handle_downstream_channel_request_in_aggregated_mode_def
      using agg Some alloc by (auto simp: Let_def same reject publish split: option.split sum.split)
  qed (simp add: handle_downstream_channel_request_in_aggregated_mode_def agg opens.refl)
qed (simp add: handle_downstream_channel_request_in_aggregated_mode_def opens.refl)

lemma opens_pending: "opens L n env s (snd (open_pending_aggregated_downstream_channels L env s))"
proof -
  have "opens L n env s (s\<lparr>cm_pending := Map.empty\<rparr>)" by (rule opens_same) simp_all
  then have "opens L n env s (snd (each (\<lambda>(r, user, h, min_size).
      handle_downstream_channel_request_in_aggregated_mode L env r user h min_size) rs (s\<lparr>cm_pending := Map.empty\<rparr>)))" for rs
    by (rule opens.trans [OF _ opens.kept_each]) (auto simp: opens_request split: prod.split)
  then show ?thesis
    by (auto simp: open_pending_aggregated_downstream_channels_def Let_def opens.refl)
qed

lemma serves_opens:
  assumes "\<And>n. opens L n env s s'"
  shows "serves L env s s'"
  using assms [of "length (cm_to_sv1 s)"] prefixes_ok_now [of L s]
  by (auto simp: serves_def opens_def jobs_local_def)

lemma silent_open_aggregated [silent_steps]: "silent s (snd (open_aggregated L m user h len s))"
proof -
  have ext: "silent s (s\<lparr>cm_extended := E\<rparr>)" for s :: "('a, 'b, 'c) channel_manager" and E by (simp add: silent_def)
  have "silent s (snd (and_then (or_fail e v (s\<lparr>cm_extended := E\<rparr>)) k))" if "\<And>x s. silent s (snd (k x s))"
    for s :: "('a, 'b, 'c) channel_manager" and E e v k
    by (rule silent.trans [OF ext [of s E]]) (intro silent.kept_and_then silent.kept_or_fail that)
  note inner = this
  show ?thesis
    unfolding open_aggregated_def Let_def
    by (auto intro!: silent.kept_and_then silent.kept_or_fail silent.kept_expect inner split: prod.split
        simp: silent.refl) (simp_all add: silent_def)
qed

lemma silent_open_non_aggregated [silent_steps]: "silent s (snd (open_non_aggregated L m user h len s))"
  unfolding open_non_aggregated_def Let_def
  by (auto intro!: silent.kept_and_then silent.kept_or_fail split: prod.split simp: silent.refl)
    (simp_all add: silent_def)

text \<open>The state after an open success was queued and its prefix noted.\<close>

definition note_prefix :: "open_channel_success_msg \<Rightarrow> ('c, 'g, 'a) channel_manager \<Rightarrow> ('c, 'g, 'a) channel_manager" where
  "note_prefix m s = s\<lparr>cm_advertised := (cm_advertised s)(os_channel_id m \<mapsto> os_extranonce_prefix m)\<rparr>"

lemma serves_announced_open:
  "serves L env s (snd (and_then (send_sv1 env (SvOpenSuccess m) s)
      (\<lambda>_ s. if is_aggregated (cm_mode (note_prefix m s))
             then open_pending_aggregated_downstream_channels L env (note_prefix m s)
             else (Done (), note_prefix m s))))" (is "serves L env s ?s'")
proof (cases "sv1_open env")
  case True
  let ?n = "length (cm_to_sv1 s)"
  let ?s1 = "note_prefix m (s\<lparr>cm_to_sv1 := cm_to_sv1 s @ [SvOpenSuccess m]\<rparr>)"
  have s1: "cm_to_sv1 ?s1 = cm_to_sv1 s @ [SvOpenSuccess m]" "cm_extended ?s1 = cm_extended s"
    "cm_advertised ?s1 = (cm_advertised s)(os_channel_id m \<mapsto> os_extranonce_prefix m)"
    by (simp_all add: note_prefix_def)
  have later: "opens L ?n env ?s1 ?s'"
    using True opens_pending [of L ?n env ?s1] by (simp add: send_sv1_def opens.refl)
  have "prefixes_ok L ?n ?s1" if "prefix_inv s"
    using open_success_ok [OF _ s1] prefixes_ok_now [of L s] that by simp
  moreover have "jobs_local ?n ?s1" by (auto simp: s1 jobs_local_def split_snoc)
  ultimately show ?thesis using later unfolding serves_def opens_def by blast
qed (simp add: send_sv1_def serves_silent silent.refl)

lemma serves_open_success:
  "serves L env s (snd (handle_open_extended_mining_channel_success L env m s))"
proof -
  have pend: "silent s (snd (join_group L g ch n (s\<lparr>cm_pending := P\<rparr>)))"
    for s :: "('a, 'b, 'c) channel_manager" and g ch n P
    by (rule silent.trans [OF _ silent_join_group]) (simp add: silent_def)
  have fail: "serves L env s (snd (Failed e, s\<lparr>cm_pending := P\<rparr>))" for e P
    by (rule serves_silent) (simp add: silent_def)
  have step: "silent s (snd (if c then open_aggregated L m user h len s else open_non_aggregated L m user h len s))"
    for s :: "('a, 'b, 'c) channel_manager" and c user h len by (simp add: silent_steps)
  show ?thesis
    unfolding handle_open_extended_mining_channel_success_def Let_def note_prefix_def [symmetric]
    by (intro serves_rules pend fail step serves_announced_open)
qed

lemma silent_next_number: "silent s (snd (next_share_sequence_number k s))"
  by (simp add: silent_def next_share_sequence_number_def Let_def)

lemma silent_share: "silent s (snd (handle_share L env m worker s))"
proof -
  have prepend: "silent s (snd (prepend_local n p m s))" for s :: "('a, 'b, 'c) channel_manager" and n p m
    by (simp add: prepend_local_def Let_def silent.refl)
  have send: "silent s (snd (send_share L env worker m s))" for s :: "('a, 'b, 'c) channel_manager" and m
    by (auto simp: send_share_def Let_def silent.refl silent_send_upstream split: sum.split)
  have upd: "silent s (s\<lparr>cm_extended := E, cm_counters := N\<rparr>)" "silent s (s\<lparr>cm_extended := E\<rparr>)"
    for s :: "('a, 'b, 'c) channel_manager" and E N by (simp_all add: silent_def)
  have tail: "silent s (snd (send_share L env worker m (s\<lparr>cm_extended := E, cm_counters := N\<rparr>)))"
    for s :: "('a, 'b, 'c) channel_manager" and m E N
    by (rule silent.trans [OF upd(1) send])
  have tail2: "silent s (snd (and_then (prepend_local n p m (s\<lparr>cm_extended := E, cm_counters := N\<rparr>)) (send_share L env worker)))"
    for s :: "('a, 'b, 'c) channel_manager" and n p m E N
    by (rule silent.trans [OF upd(1) [where E = E and N = N]]) (intro silent.kept_and_then prepend send)
  show ?thesis
    unfolding handle_share_def Let_def next_share_sequence_number_def
    by (auto split: option.split prod.split intro!: silent.kept_and_then prepend tail tail2 upd simp: silent.refl)
qed

section \<open>Every message\<close>

lemma silent_update: "silent s (snd (handle_update_channel L env ch h t s))"
proof -
  have "silent s (snd (send_upstream env m (s\<lparr>cm_extended := E\<rparr>)))" for m E
    by (simp add: silent_def send_upstream_def)
  then show ?thesis
    by (simp add: handle_update_channel_def Let_def silent_send_upstream silent.refl split: option.split)
qed

lemma silent_close_from_sv1: "silent s (snd (handle_close_from_sv1 L env ch s))"
proof -
  let ?s1 = "remove_from_groups L ch ((drop_channel L ch s)\<lparr>cm_advertised := (cm_advertised s)(ch := None)\<rparr>)"
  have s1: "silent s ?s1" by (auto simp: silent_def remove_from_groups_def map_le_def)
  show ?thesis
    using s1 silent.trans [OF s1 silent_send_upstream] by (simp add: handle_close_from_sv1_def Let_def silent.refl)
qed

lemma serves_open_request: "serves L env s (snd (handle_open_request L env m s))"
proof -
  have "silent s (snd (send_upstream env q (s\<lparr>cm_aggregated_state := a, cm_pending := P\<rparr>)))"
    "silent s (snd (send_upstream env q (s\<lparr>cm_pending := P\<rparr>)))"
    "silent s (s\<lparr>cm_aggregated_state := a, cm_pending := P\<rparr>)" "silent s (s\<lparr>cm_pending := P\<rparr>)" for q a P
    by (simp_all add: silent_def send_upstream_def)
  note quiet = this [THEN serves_silent]
  show ?thesis
    using serves_opens [OF opens_request, of L env s "oc_request_id m" "oc_user_identity m" "oc_nominal_hash_rate m"]
    by (simp add: handle_open_request_def Let_def quiet split: aggregated_state.split)
qed

lemma serves_sv1_message: "serves L env s (snd (handle_message_of_sv1 L env m s))"
  by (cases m) (simp_all add: serves_open_request silent_share silent_update silent_close_from_sv1 serves_silent)

lemma serves_upstream_message: "serves L env s (snd (handle_upstream_message L B env m s))"
proof -
  have "silent s (snd (account_share f ch s))" for f ch
    by (simp add: silent_def account_share_def Let_def)
  then show ?thesis
    by (cases m) (simp_all add: serves_open_success serves_close_channel serves_new_job serves_set_new_prev_hash
        serves_set_target silent_set_extranonce_prefix silent_set_group_channel silent_extensions
        handle_submit_shares_success_def handle_submit_shares_error_def handle_open_mining_channel_error_def
        serves_silent silent.refl)
qed

end
