(* ===== verification/Sv2_Run.thy ===== *)
theory Sv2_Run
  imports Sv2_Prefixes
begin

text \<open>
  Runs of the channel manager: its loop takes a message of the upstream or of the SV1 server, one at a
  time, and goes on unless the outcome asks for a fallback or a shutdown. Then the properties that hold in
  every run.
\<close>

section \<open>Runs\<close>

datatype cm_event = FromUpstream from_upstream | FromSv1 to_channel_manager

fun cm_handle ::
  "('c, 'g, 'a, 'p) channels_lib \<Rightarrow> btc_lib \<Rightarrow> cm_env \<Rightarrow> cm_event \<Rightarrow> ('c, 'g, 'a) channel_manager \<Rightarrow>
   unit outcome \<times> ('c, 'g, 'a) channel_manager" where
  "cm_handle L B env (FromUpstream m) s = handle_upstream_message L B env m s"
| "cm_handle L B env (FromSv1 m) s = handle_message_of_sv1 L env m s"

inductive cm_reach ::
  "('c, 'g, 'a, 'p) channels_lib \<Rightarrow> btc_lib \<Rightarrow> ('c, 'g, 'a) channel_manager \<Rightarrow> bool" for L B where
  start: "cm_reach L B (channel_manager_new supported required mode max_past)"
| payout: "cm_reach L B s \<Longrightarrow> set_expected_payout_distribution payout s = Some s' \<Longrightarrow> cm_reach L B s'"
| turn: "cm_reach L B s \<Longrightarrow> cm_handle L B env ev s = (out, s') \<Longrightarrow> manager_continues out \<Longrightarrow>
    visits_all env s \<Longrightarrow> visits_all env s' \<Longrightarrow> cm_reach L B s'"

lemma serves_handle: "serves L env s (snd (cm_handle L B env ev s))"
  by (cases ev) (simp_all add: serves_sv1_message serves_upstream_message)

lemma reachable_prefix_inv: "cm_reach L B s \<Longrightarrow> prefix_inv s"
proof (induction rule: cm_reach.induct)
  case (turn s env ev out s')
  then show ?case using serves_handle [of L env s B ev] by (simp add: serves_def prefixes_ok_def)
qed (auto simp: channel_manager_new_def prefix_inv_def set_expected_payout_distribution_def split: option.splits)

text \<open>The identity of the aggregated channel is longer than the miner's by up to seventeen characters. When it
  no longer fits a \<open>Str0255\<close>, the first request of a miner panics.\<close>

theorem long_identity_panics:
  assumes "is_aggregated (cm_mode s)" and "cm_aggregated_state s = NoChannel"
    and "255 < length (aggregated_upstream_user_identity (oc_user_identity m))"
  shows "fst (cm_handle L B env (FromSv1 (OutOpenChannel m)) s) = Panicked"
  using assms by (simp add: handle_open_request_def Let_def str0255_ok_def)

section \<open>Jobs and prefixes\<close>

text \<open>
  C27. Whenever the channel manager queues a job for the SV1 server, in any run and for any message, every
  channel the job is for has it as its active job, and the last prefix the miner of that channel was told
  before the job is exactly the one the channel captured with the job: shares on it are reconstructed with
  the extranonce the miner used, however late the upstream changed the prefix.
\<close>

theorem jobs_follow_their_prefix:
  assumes "cm_reach L B s" and "cm_handle L B env ev s = (out, s')" and "visits_all env s'"
    and "cm_to_sv1 s' = before @ SvNewJob m # after" and "length (cm_to_sv1 s) \<le> length before"
    and "in_scope m ch" and "cm_extended s' ch = Some c"
  shows "\<exists>p. job_prefix L (nj_job_id m) c = Some p \<and> told before ch = Some p"
proof -
  have "prefixes_ok L (length (cm_to_sv1 s)) s'"
    using serves_handle [of L env s B ev] reachable_prefix_inv [OF assms(1)] assms(2,3) by (simp add: serves_def)
  then show ?thesis using assms(4-) unfolding prefixes_ok_def jobs_told_def job_told_def by blast
qed

text \<open>A concrete library to run the manager with: a channel knows its prefix and its active job, a group is
  the list of its channels, an allocator appends one byte to the upstream's prefix.\<close>

record demo_channel =
  dc_id :: channel_id
  dc_prefix :: bytes
  dc_target :: target
  dc_active :: "captured_job option"

definition demo_new_job :: "new_extended_mining_job \<Rightarrow> demo_channel \<Rightarrow> demo_channel" where
  "demo_new_job m c =
     (if nj_min_ntime m = None then c
      else c\<lparr>dc_active := Some \<lparr>cj_message = m, cj_prefix = dc_prefix c, cj_target = dc_target c\<rparr>\<rparr>)"

definition demo_channels ::
  "(demo_channel, (channel_id \<times> nat) list, bytes \<times> nat, bytes) channels_lib" where
  "demo_channels =
     \<lparr>ch_new = (\<lambda>ch _ p t _ _ _ _. Some \<lparr>dc_id = ch, dc_prefix = p, dc_target = t, dc_active = None\<rparr>),
      ch_channel_id = dc_id, ch_target = dc_target, ch_prefix = dc_prefix,
      ch_upstream_prefix_len = (\<lambda>c. length (dc_prefix c)),
      ch_full_extranonce_size = (\<lambda>c. length (dc_prefix c) + 8), ch_rollable_extranonce_size = (\<lambda>_. 8),
      ch_active_job = dc_active, ch_future_jobs = (\<lambda>_. []), ch_chain_tip = (\<lambda>_. None),
      ch_set_chain_tip = (\<lambda>_ c. c), ch_set_upstream_prefix = (\<lambda>p c. Some (c\<lparr>dc_prefix := p\<rparr>)),
      ch_set_target = (\<lambda>t c. Some (c\<lparr>dc_target := t\<rparr>)), ch_set_nominal_hashrate = (\<lambda>_ c. c),
      ch_on_new_job = (\<lambda>m c. Some (demo_new_job m c)), ch_on_prev_hash = (\<lambda>_ c. Some c),
      ch_validate_share = (\<lambda>_ c. (ShareValid, c)), ch_on_acknowledgement = (\<lambda>_ _ c. c),
      ch_on_rejection = (\<lambda>_ c. c),
      gr_new = (\<lambda>_. []), gr_add = (\<lambda>ch n g. Some ((ch, n) # filter (\<lambda>(k, _). k \<noteq> ch) g)),
      gr_remove = (\<lambda>ch. filter (\<lambda>(k, _). k \<noteq> ch)), gr_ids = map fst,
      gr_full_extranonce_size = (\<lambda>g. case g of [] \<Rightarrow> None | (_, n) # _ \<Rightarrow> Some n),
      gr_on_new_job = (\<lambda>_ g. g), gr_on_prev_hash = (\<lambda>_ g. Some g),
      al_from_upstream_prefix = (\<lambda>p _ _ _. Some (p, 0)),
      al_allocate_extended = (\<lambda>_ (p, k). (Some (p @ [of_nat k]), (p, Suc k))),
      al_rollable_extranonce_size = (\<lambda>_. 8), al_upstream_prefix = fst, al_upstream_prefix_len = (\<lambda>a. length (fst a)),
      al_set_upstream_prefix = (\<lambda>p (_, k). Some (p, k)), al_drop_prefix = (\<lambda>_ a. a), al_drop_channel = (\<lambda>_ a. a),
      prefix_bytes = (\<lambda>p. p), prefix_from_wire = Some, bytes_needed = (\<lambda>_. 1), MAX_EXTRANONCE_LEN = 32,
      ERROR_CODE_CHANNEL_CAPACITY_EXHAUSTED = ''channel-capacity-exhausted'',
      ERROR_CODE_UNSUPPORTED_MIN_EXTRANONCE_SIZE = ''unsupported-min-extranonce-size'',
      EXTENSION_TYPE_WORKER_HASHRATE_TRACKING = 2, MAX_USER_IDENTITY_LENGTH = 32, user_identity_tlv = Some\<rparr>"

definition demo_cm_env :: cm_env where
  "demo_cm_env = \<lparr>sv1_open = True, upstream_open = True, visit_channels = [7], visit_groups = [9], visit_pending = [1]\<rparr>"

abbreviation demo_job :: "u32 \<Rightarrow> new_extended_mining_job" where
  "demo_job i \<equiv> \<lparr>nj_channel_id = 7, nj_job_id = i, nj_min_ntime = Some 5, nj_version = 0,
     nj_version_rolling_allowed = True, nj_merkle_path = [], nj_coinbase_tx_prefix = [], nj_coinbase_tx_suffix = []\<rparr>"

text \<open>One miner in non-aggregated mode: its channel 7 in group 9 opens with prefix \<open>[1]\<close>, a job arrives, then
  the upstream changes the prefix to \<open>[2]\<close>.\<close>

type_synonym demo_manager = "(demo_channel, (channel_id \<times> nat) list, bytes \<times> nat) channel_manager"

definition demo_request :: open_channel_msg where
  "demo_request = \<lparr>oc_request_id = 1, oc_user_identity = ''u'', oc_nominal_hash_rate = 1,
     oc_max_target = 0, oc_min_extranonce_size = 8\<rparr>"

definition demo_success :: upstream_open_success where
  "demo_success = \<lparr>uo_request_id = 1, uo_channel_id = 7, uo_target = 0, uo_extranonce_size = 8,
     uo_extranonce_prefix = [1], uo_group_channel_id = 9\<rparr>"

definition demo_start :: demo_manager where
  "demo_start = (channel_manager_new [] [] NonAggregated None)\<lparr>cm_payout := Some None\<rparr>"

definition demo_requested :: demo_manager where
  "demo_requested = demo_start\<lparr>cm_pending := [1 \<mapsto> (''u'', 1, 8)], cm_to_upstream := [UpOpenChannel demo_request]\<rparr>"

definition demo_channel_7 :: "bytes \<Rightarrow> captured_job option \<Rightarrow> demo_channel" where
  "demo_channel_7 p job = \<lparr>dc_id = 7, dc_prefix = p, dc_target = 0, dc_active = job\<rparr>"

definition demo_opened :: demo_manager where
  "demo_opened = demo_requested\<lparr>cm_pending := Map.empty, cm_groups := [9 \<mapsto> [(7, 9)]],
     cm_extended := [7 \<mapsto> demo_channel_7 [1] None], cm_advertised := [7 \<mapsto> [1]],
     cm_to_sv1 := [SvOpenSuccess (success_for_sv1 demo_success 7 [1] 8)]\<rparr>"

definition captured :: "u32 \<Rightarrow> bytes \<Rightarrow> captured_job" where
  "captured i p = \<lparr>cj_message = demo_job i, cj_prefix = p, cj_target = 0\<rparr>"

definition demo_working :: demo_manager where
  "demo_working = demo_opened\<lparr>cm_extended := [7 \<mapsto> demo_channel_7 [1] (Some (captured 1 [1]))],
     cm_to_sv1 := cm_to_sv1 demo_opened @ [SvNewJob (demo_job 1)]\<rparr>"

definition demo_changed :: demo_manager where
  "demo_changed = demo_working\<lparr>cm_extended := [7 \<mapsto> demo_channel_7 [2] (Some (captured 1 [1]))]\<rparr>"

definition demo_final :: demo_manager where
  "demo_final = demo_changed\<lparr>cm_extended := [7 \<mapsto> demo_channel_7 [2] (Some (captured 2 [2]))],
     cm_advertised := [7 \<mapsto> [2]],
     cm_to_sv1 := cm_to_sv1 demo_changed @ [SvSetExtranoncePrefix 7 [2], SvNewJob (demo_job 2)]\<rparr>"

lemmas demo_states = demo_start_def demo_requested_def demo_opened_def demo_working_def demo_changed_def
  demo_final_def channel_manager_new_def

abbreviation demo_turn :: "cm_event \<Rightarrow> demo_manager \<Rightarrow> unit outcome \<times> demo_manager" where
  "demo_turn \<equiv> cm_handle demo_channels demo_btc demo_cm_env"

lemmas demo_simps = demo_channels_def demo_cm_env_def demo_request_def demo_success_def demo_new_job_def
  demo_channel_7_def captured_def AGGREGATED_CHANNEL_ID_def is_aggregated_def

lemma demo_turn_1: "demo_turn (FromSv1 (OutOpenChannel demo_request)) demo_start = (Done (), demo_requested)"
  by (simp add: demo_states demo_simps handle_open_request_def send_upstream_def)

lemma demo_turn_2: "demo_turn (FromUpstream (FromOpenSuccess demo_success)) demo_requested = (Done (), demo_opened)"
  by (simp add: demo_states demo_simps handle_open_extended_mining_channel_success_def colliding_channel_id_def
      join_group_def open_non_aggregated_def success_for_sv1_def send_sv1_def b032_ok_def)

lemma demo_turn_3: "demo_turn (FromUpstream (FromNewExtendedMiningJob (demo_job 1))) demo_opened = (Done (), demo_working)"
  by (simp add: demo_states demo_simps handle_new_extended_mining_job_def verify_payout_distribution_def
      update_all_def is_future_def forward_job_to_sv1_server_def active_job_extranonce_prefixes_def job_prefix_def
      announce_prefix_def send_sv1_def b032_ok_def)

lemma demo_turn_4: "demo_turn (FromUpstream (FromSetExtranoncePrefix 7 [2])) demo_working = (Done (), demo_changed)"
  by (simp add: demo_states demo_simps handle_set_extranonce_prefix_def update_channel_def update_all_def)

lemma demo_turn_5: "demo_turn (FromUpstream (FromNewExtendedMiningJob (demo_job 2))) demo_changed = (Done (), demo_final)"
  by (simp add: demo_states demo_simps handle_new_extended_mining_job_def verify_payout_distribution_def
      update_all_def is_future_def forward_job_to_sv1_server_def active_job_extranonce_prefixes_def job_prefix_def
      announce_prefix_def send_sv1_def b032_ok_def)

lemma demo_visits:
  "visits_all demo_cm_env demo_start" "visits_all demo_cm_env demo_requested" "visits_all demo_cm_env demo_opened"
  "visits_all demo_cm_env demo_working" "visits_all demo_cm_env demo_changed" "visits_all demo_cm_env demo_final"
  by (simp_all add: visits_all_def demo_states demo_cm_env_def)

lemma demo_reaches: "cm_reach demo_channels demo_btc demo_changed"
proof -
  have "cm_reach demo_channels demo_btc demo_start"
    by (rule cm_reach.payout [OF cm_reach.start])
      (simp add: demo_start_def set_expected_payout_distribution_def channel_manager_new_def)
  note cm_reach.turn [OF this demo_turn_1 _ demo_visits(1,2)]
  then have "cm_reach demo_channels demo_btc demo_requested" by (simp add: manager_continues_def)
  note cm_reach.turn [OF this demo_turn_2 _ demo_visits(2,3)]
  then have "cm_reach demo_channels demo_btc demo_opened" by (simp add: manager_continues_def)
  note cm_reach.turn [OF this demo_turn_3 _ demo_visits(3,4)]
  then have "cm_reach demo_channels demo_btc demo_working" by (simp add: manager_continues_def)
  note cm_reach.turn [OF this demo_turn_4 _ demo_visits(4,5)]
  then show ?thesis by (simp add: manager_continues_def)
qed

theorem jobs_follow_their_prefix_witness:
  "\<exists>p. job_prefix demo_channels 2 (demo_channel_7 [2] (Some (captured 2 [2]))) = Some p
     \<and> told (cm_to_sv1 demo_changed @ [SvSetExtranoncePrefix 7 [2]]) 7 = Some p"
  using jobs_follow_their_prefix [OF demo_reaches demo_turn_5 demo_visits(6), where m = "demo_job 2" and ch = 7
      and before = "cm_to_sv1 demo_changed @ [SvSetExtranoncePrefix 7 [2]]" and after = "[]"
      and c = "demo_channel_7 [2] (Some (captured 2 [2]))"]
  by (simp add: in_scope_def AGGREGATED_CHANNEL_ID_def demo_states)

end
