(* ===== verification/Sv2_Registry.thy ===== *)
theory Sv2_Registry
  imports Sv2_Run
begin

text \<open>
  The registries of the channel manager: channels, announced prefixes, groups and the aggregated state. An
  invariant relates them and holds after every message from which the loop goes on.
\<close>

section \<open>The invariant\<close>

definition members :: "('c, 'g, 'a, 'p) channels_lib \<Rightarrow> ('c, 'g, 'a) channel_manager \<Rightarrow> channel_id \<Rightarrow> channel_id set" where
  "members L s g = (case cm_groups s g of Some gr \<Rightarrow> set (gr_ids L gr) | None \<Rightarrow> {})"

definition aggregated_inv :: "('c, 'g, 'a) channel_manager \<Rightarrow> bool" where
  "aggregated_inv s \<longleftrightarrow>
     (if cm_aggregated_state s = Connected
      then cm_extended s AGGREGATED_CHANNEL_ID \<noteq> None \<and> cm_allocator s \<noteq> None
      else cm_extended s = Map.empty)"

definition groups_inv :: "('c, 'g, 'a, 'p) channels_lib \<Rightarrow> ('c, 'g, 'a) channel_manager \<Rightarrow> bool" where
  "groups_inv L s \<longleftrightarrow>
     cm_extended s AGGREGATED_CHANNEL_ID = None \<and> cm_aggregated_state s = NoChannel \<and>
     (\<forall>g. cm_groups s g \<noteq> None \<longrightarrow> cm_extended s g = None) \<and>
     (\<forall>g. members L s g \<subseteq> dom (cm_extended s)) \<and>
     (\<forall>g h. g \<noteq> h \<longrightarrow> members L s g \<inter> members L s h = {})"

definition cm_inv :: "('c, 'g, 'a, 'p) channels_lib \<Rightarrow> ('c, 'g, 'a) channel_manager \<Rightarrow> bool" where
  "cm_inv L s \<longleftrightarrow>
     dom (cm_advertised s) = dom (cm_extended s) - {AGGREGATED_CHANNEL_ID} \<and>
     (if is_aggregated (cm_mode s) then aggregated_inv s else groups_inv L s)"

text \<open>What \<open>GroupChannel\<close> is relied on for: it is a set of channel ids.\<close>

definition group_laws :: "('c, 'g, 'a, 'p) channels_lib \<Rightarrow> bool" where
  "group_laws L \<longleftrightarrow>
     (\<forall>g. gr_ids L (gr_new L g) = []) \<and>
     (\<forall>ch n gr gr'. gr_add L ch n gr = Some gr' \<longrightarrow> set (gr_ids L gr') = insert ch (set (gr_ids L gr))) \<and>
     (\<forall>ch gr. set (gr_ids L (gr_remove L ch gr)) = set (gr_ids L gr) - {ch}) \<and>
     (\<forall>m gr. set (gr_ids L (gr_on_new_job L m gr)) = set (gr_ids L gr)) \<and>
     (\<forall>m gr gr'. gr_on_prev_hash L m gr = Some gr' \<longrightarrow> set (gr_ids L gr') = set (gr_ids L gr))"

section \<open>Steps that keep the registries\<close>

definition same_registry ::
  "('c, 'g, 'a, 'p) channels_lib \<Rightarrow> ('c, 'g, 'a) channel_manager \<Rightarrow> ('c, 'g, 'a) channel_manager \<Rightarrow> bool" where
  "same_registry L s s' \<longleftrightarrow>
     dom (cm_extended s') = dom (cm_extended s) \<and> dom (cm_advertised s') = dom (cm_advertised s) \<and>
     dom (cm_groups s') = dom (cm_groups s) \<and> members L s' = members L s \<and>
     cm_aggregated_state s' = cm_aggregated_state s \<and> cm_mode s' = cm_mode s \<and>
     (cm_allocator s' = None \<longleftrightarrow> cm_allocator s = None)"

interpretation same_registry: kept_relation "same_registry L" for L
  by unfold_locales (simp_all add: same_registry_def)

lemma dom_same_None: "dom f = dom g \<Longrightarrow> f x = None \<longleftrightarrow> g x = None"
  by (metis domIff)

lemma same_registry_inv:
  assumes same: "same_registry L s s'" and inv: "cm_inv L s"
  shows "cm_inv L s'"
proof -
  have ext: "cm_extended s' x = None \<longleftrightarrow> cm_extended s x = None" for x
    using same by (intro dom_same_None) (simp add: same_registry_def)
  have empty: "cm_extended s' = Map.empty \<longleftrightarrow> cm_extended s = Map.empty"
    using same by (simp add: same_registry_def flip: dom_eq_empty_conv)
  have grp: "cm_groups s' x = None \<longleftrightarrow> cm_groups s x = None" for x
    using same by (intro dom_same_None) (simp add: same_registry_def)
  show ?thesis
    using inv same ext empty grp unfolding cm_inv_def aggregated_inv_def groups_inv_def same_registry_def
    by (simp only: ext empty grp simp_thms) (erule conjunct2)
qed

named_theorems registry_steps

lemma registry_update_all [registry_steps]: "same_registry L s (snd (update_all f e ch s))"
  by (auto simp: same_registry_def update_all_def members_def fun_eq_iff split: option.split)

lemma registry_update_channel [registry_steps]: "same_registry L s (snd (update_channel f missing e ch s))"
  by (simp add: update_channel_def registry_update_all same_registry.refl)

lemma registry_send [registry_steps]: "same_registry L s (snd (send_sv1 env m s))"
  by (simp add: same_registry_def send_sv1_def members_def fun_eq_iff)

lemma registry_send_upstream [registry_steps]: "same_registry L s (snd (send_upstream env m s))"
  by (simp add: same_registry_def send_upstream_def members_def fun_eq_iff)

lemma registry_announce [registry_steps]: "same_registry L s (snd (announce_prefix env p s))"
  by (auto simp: same_registry_def announce_prefix_def send_sv1_def members_def fun_eq_iff
      split: prod.split option.split)

lemma registry_forward [registry_steps]: "same_registry L s (snd (forward_job_to_sv1_server L' env m s))"
  unfolding forward_job_to_sv1_server_def by (intro same_registry.kept_rules registry_steps)

lemma verify_keeps_state [simp]: "snd (verify_payout_distribution B m full_size s) = s"
  by (auto simp: verify_payout_distribution_def expect_def split: option.split sum.split)

lemma registry_verify [registry_steps]: "same_registry L s (snd (verify_payout_distribution B m full_size s))"
  by (simp add: same_registry.refl)

lemma registry_scope [registry_steps]: "same_registry L s (snd (aggregated_scope env s))"
  unfolding aggregated_scope_def
  by (intro same_registry.kept_rules) (auto simp: same_registry.refl split: list.split)

lemma registry_activated_job [registry_steps]: "same_registry L s (snd (activated_job L' ch s))"
  unfolding activated_job_def by (rule same_registry.kept_expect)

lemma registry_prev_hash_for_group [registry_steps]: "same_registry L s (snd (prev_hash_for_group L' m chs s))"
proof (induction chs arbitrary: s)
  case (Cons ch chs)
  show ?case unfolding prev_hash_for_group.simps by (intro same_registry.kept_rules registry_steps Cons.IH)
qed (simp add: same_registry.refl)

lemma registry_send_prev_hashes [registry_steps]: "same_registry L s (snd (send_prev_hashes L' env m chs jobs s))"
  unfolding send_prev_hashes_def by (intro same_registry.kept_rules registry_steps)

text \<open>Replacing a group by one with the same members.\<close>

lemma registry_group:
  assumes "cm_groups s g = Some gr" and "set (gr_ids L gr') = set (gr_ids L gr)"
  shows "same_registry L s (s\<lparr>cm_groups := (cm_groups s)(g \<mapsto> gr')\<rparr>)"
  using assms by (auto simp: same_registry_def members_def fun_eq_iff)

lemma registry_new_job:
  assumes "group_laws L"
  shows "same_registry L s (snd (handle_new_extended_mining_job L B env m s))"
proof -
  have grp: "same_registry L s (snd (each f ids (s\<lparr>cm_groups := (cm_groups s)(g \<mapsto> gr_on_new_job L m gr)\<rparr>)))"
    if "\<And>x s. same_registry L s (snd (f x s))" "cm_groups s g = Some gr"
    for s :: "('a, 'b, 'c) channel_manager" and f :: "channel_id \<Rightarrow> _" and g gr ids
    by (rule same_registry.trans [OF registry_group [OF that(2), where gr' = "gr_on_new_job L m gr"]])
      (use assms in \<open>simp add: group_laws_def\<close>, intro same_registry.kept_each that(1))
  show ?thesis
    unfolding handle_new_extended_mining_job_def Let_def
    by (intro same_registry.kept_rules(1,3-) registry_steps grp same_registry.kept_each) simp
qed

lemma registry_set_new_prev_hash:
  assumes "group_laws L"
  shows "same_registry L s (snd (upstream_set_new_prev_hash L env m s))"
proof -
  have grp: "same_registry L s (snd (prev_hash_for_group L m ids (s\<lparr>cm_groups := (cm_groups s)(g \<mapsto> gr')\<rparr>)))"
    if "cm_groups s g = Some gr" "gr_on_prev_hash L m gr = Some gr'"
    for s :: "('a, 'b, 'c) channel_manager" and g gr gr' ids
    by (rule same_registry.trans [OF registry_group [OF that(1), where gr' = gr']])
      (use assms that(2) in \<open>simp add: group_laws_def\<close>, rule registry_prev_hash_for_group)
  have grp': "same_registry L s (snd (and_then (or_fail prev_hash_failed (gr_on_prev_hash L m gr) s)
      (\<lambda>gr' s. and_then (prev_hash_for_group L m (gr_ids L gr') (s\<lparr>cm_groups := (cm_groups s)(g \<mapsto> gr')\<rparr>))
        (\<lambda>jobs s. send_prev_hashes L env m (gr_ids L gr') jobs s))))" if "cm_groups s g = Some gr"
    for s :: "('a, 'b, 'c) channel_manager" and g gr
  proof (cases "gr_on_prev_hash L m gr")
    case (Some gr')
    show ?thesis
      unfolding Some or_fail_simps and_then_simps
      by (intro same_registry.kept_and_then grp [OF that Some] registry_send_prev_hashes)
  qed (simp add: same_registry.refl)
  show ?thesis
    unfolding upstream_set_new_prev_hash_def
    by (intro grp' same_registry.kept_rules registry_steps)
qed

lemma registry_set_target: "same_registry L s (snd (upstream_set_target L' env ch t s))"
  unfolding upstream_set_target_def by (intro same_registry.kept_rules registry_steps)

lemma registry_set_extranonce_prefix: "same_registry L s (snd (handle_set_extranonce_prefix L' env ch p s))"
proof -
  have upd: "same_registry L s (snd (update_channel f missing e k (s\<lparr>cm_allocator := Some a'\<rparr>)))"
    if "cm_allocator s = Some a" for s :: "('a, 'b, 'c) channel_manager" and f missing e k a a'
    by (rule same_registry.trans [OF _ registry_update_channel])
      (use that in \<open>simp add: same_registry_def members_def fun_eq_iff\<close>)
  have alloc: "same_registry L s (snd (and_then (or_fail e1 (cm_allocator s) s) (\<lambda>allocator s.
      and_then (or_fail e2 (f allocator) s) (\<lambda>allocator' s.
        and_then (update_channel g missing e k (s\<lparr>cm_allocator := Some allocator'\<rparr>)) h))))"
    if "\<And>x s. same_registry L s (snd (h x s))"
    for s :: "('a, 'b, 'c) channel_manager" and e1 e2 f g missing e k and h :: "unit \<Rightarrow> _ \<Rightarrow> unit outcome \<times> _"
  proof (cases "cm_allocator s")
    case (Some a)
    show ?thesis
      unfolding Some or_fail_simps and_then_simps
      by (cases "f a") (use Some in \<open>auto intro!: same_registry.kept_and_then upd that simp: same_registry.refl\<close>)
  qed (simp add: same_registry.refl)
  show ?thesis
    unfolding handle_set_extranonce_prefix_def by (intro alloc same_registry.kept_rules registry_steps)
qed

lemma registry_values:
  assumes "cm_extended s k \<noteq> None"
  shows "same_registry L s (s\<lparr>cm_extended := (cm_extended s)(k \<mapsto> c), cm_counters := N\<rparr>)"
    and "same_registry L s (s\<lparr>cm_extended := (cm_extended s)(k \<mapsto> c)\<rparr>)"
  using assms by (auto simp: same_registry_def members_def fun_eq_iff)

lemma registry_account_share: "same_registry L s (snd (account_share f ch s))"
  by (auto simp: account_share_def Let_def same_registry_def members_def fun_eq_iff split: if_splits)

lemma registry_share: "same_registry L s (snd (handle_share L' env m worker s))"
proof -
  have prepend: "same_registry L s (snd (prepend_local n p m s))" for s :: "('a, 'b, 'c) channel_manager" and n p m
    by (simp add: prepend_local_def Let_def same_registry.refl)
  have send: "same_registry L s (snd (send_share L' env worker m s))" for s :: "('a, 'b, 'c) channel_manager" and m
    by (auto simp: send_share_def Let_def same_registry.refl registry_send_upstream split: sum.split)
  have state: "snd (prepend_local n p m s) = s" for s :: "('a, 'b, 'c) channel_manager" and n p m
    by (simp add: prepend_local_def Let_def)
  have tail: "same_registry L s (snd (send_share L' env worker m (s\<lparr>cm_extended := (cm_extended s)(k \<mapsto> c), cm_counters := N\<rparr>)))"
    if "cm_extended s k \<noteq> None" for s :: "('a, 'b, 'c) channel_manager" and m k c N
    by (rule same_registry.trans [OF registry_values(1) [OF that] send])
  have tail2: "same_registry L s (snd (and_then (prepend_local n p m (s\<lparr>cm_extended := (cm_extended s)(k \<mapsto> c), cm_counters := N\<rparr>))
      (send_share L' env worker)))"
    if "cm_extended s k \<noteq> None" for s :: "('a, 'b, 'c) channel_manager" and n p m k c N
    by (rule same_registry.trans [OF registry_values(1) [OF that, where c = c and N = N]]) (intro same_registry.kept_and_then prepend send)
  show ?thesis
    unfolding handle_share_def Let_def next_share_sequence_number_def
    by (auto split: option.split prod.split intro!: same_registry.kept_and_then prepend tail tail2 registry_values
        simp: same_registry.refl state)
qed

section \<open>Steps that change the registries\<close>

text \<open>An outcome after which the loop does not go on; most steps end well or are fatal.\<close>

definition fatal :: "'x outcome \<Rightarrow> bool" where
  "fatal out =
     (case out of
        Done _ \<Rightarrow> False
      | Failed e \<Rightarrow> tp_action e = TpFallback \<or> tp_action e = TpShutdown
      | Panicked \<Rightarrow> True)"

definition well_or_fatal :: "'x outcome \<times> 's \<Rightarrow> bool" where
  "well_or_fatal r \<longleftrightarrow> (\<exists>x s. r = (Done x, s)) \<or> fatal (fst r)"

lemma fatal_simps [simp]:
  "\<not> fatal (Done x)" "fatal Panicked" "fatal (Failed (tp_fallback k))" "fatal (Failed (tp_shutdown k))"
  by (simp_all add: fatal_def tp_fallback_def tp_shutdown_def)

lemma manager_continues_iff: "manager_continues out \<longleftrightarrow> \<not> fatal out"
  by (auto simp: manager_continues_def fatal_def split: attempt.split tproxy_action.split)

lemma well_or_fatal_simps [simp]:
  "well_or_fatal (Done x, s)" "well_or_fatal (Failed (tp_fallback k), s)" "well_or_fatal (Failed (tp_shutdown k), s)"
  "well_or_fatal (Panicked, s)"
  by (auto simp: well_or_fatal_def)

lemma well_or_fatal_and_then:
  "well_or_fatal r \<Longrightarrow> (\<And>x s. well_or_fatal (k x s)) \<Longrightarrow> well_or_fatal (and_then r k)"
  by (cases r; cases "fst r") (auto simp: well_or_fatal_def fatal_def)

lemma well_or_fatal_each:
  "(\<And>x s. well_or_fatal (f x s)) \<Longrightarrow> well_or_fatal (each f xs s)"
  by (induction xs arbitrary: s) (simp_all add: well_or_fatal_and_then)

lemma nonfatal_and_then:
  assumes "\<not> fatal (fst (and_then r k))" and "well_or_fatal r"
  obtains x s where "r = (Done x, s)" and "and_then r k = k x s"
  using assms by (cases r; cases "fst r") (auto simp: well_or_fatal_def fatal_def)

lemma well_send [simp]: "well_or_fatal (send_sv1 env m s)" "well_or_fatal (send_upstream env q s)"
  by (simp_all add: send_sv1_def send_upstream_def)

lemma well_forward [simp]: "well_or_fatal (forward_job_to_sv1_server L env m s)"
proof -
  have "well_or_fatal (announce_prefix env p s)" for p and s :: "('a, 'b, 'c) channel_manager"
    by (auto simp: announce_prefix_def intro: well_or_fatal_and_then split: prod.split option.split)
  then show ?thesis
    unfolding forward_job_to_sv1_server_def
    by (auto simp: or_fail_def intro!: well_or_fatal_and_then well_or_fatal_each split: option.split)
qed

text \<open>A step that keeps the invariant whenever the loop goes on after it.\<close>

definition keeps ::
  "('c, 'g, 'a, 'p) channels_lib \<Rightarrow> ('c, 'g, 'a) channel_manager \<Rightarrow>
   'x outcome \<times> ('c, 'g, 'a) channel_manager \<Rightarrow> bool" where
  "keeps L s r \<longleftrightarrow> (cm_inv L s \<and> \<not> fatal (fst r) \<longrightarrow> cm_inv L (snd r))"

lemma keeps_registry: "same_registry L s (snd r) \<Longrightarrow> keeps L s r"
  using same_registry_inv by (auto simp: keeps_def)

lemma keeps_each:
  assumes well: "\<And>x s. well_or_fatal (f x s)" and f: "\<And>x s. P s \<Longrightarrow> keeps L s (f x s)"
    and P: "\<And>x s. P s \<Longrightarrow> P (snd (f x s))" and "P s"
  shows "keeps L s (each f xs s)"
  using assms(4)
proof (induction xs arbitrary: s)
  case (Cons x xs)
  show ?case
  proof (cases "fatal (fst (each f (x # xs) s))")
    case False
    then obtain u s1 where s1: "f x s = (Done u, s1)" "each f (x # xs) s = each f xs s1"
      using well [of x s] by (auto elim: nonfatal_and_then)
    moreover have "P s1" using P [OF Cons.prems, of x] s1(1) by simp
    ultimately show ?thesis using f [OF Cons.prems, of x] Cons.IH [of s1] by (simp add: keeps_def)
  qed (simp add: keeps_def)
qed (simp add: keeps_def)

text \<open>A new channel with its announced prefix.\<close>

lemma inv_aggregated_child:
  assumes inv: "cm_inv L s" and mode: "is_aggregated (cm_mode s)" "cm_aggregated_state s = Connected"
    and ch: "ch \<noteq> AGGREGATED_CHANNEL_ID"
    and s': "cm_extended s' = (cm_extended s)(ch \<mapsto> c)" "cm_advertised s' = (cm_advertised s)(ch \<mapsto> p)"
      "cm_mode s' = cm_mode s" "cm_aggregated_state s' = Connected" "cm_allocator s' \<noteq> None"
  shows "cm_inv L s'"
  using assms by (auto simp: cm_inv_def aggregated_inv_def)

lemma next_id_not_reserved: "next_downstream_channel_id env s = Some ch \<Longrightarrow> ch \<noteq> AGGREGATED_CHANNEL_ID"
  using first_free_spec [of "\<lambda>i. cm_extended s i \<noteq> None" 1 ch]
  unfolding next_downstream_channel_id_def Let_def by (metis option.inject)

lemma well_publish_child: "well_or_fatal (publish_child L env r min_size ch aggregate child p s)"
  by (auto simp: publish_child_def Let_def intro!: well_or_fatal_and_then split: option.split)

lemma keeps_publish_child:
  assumes inv: "cm_inv L s" and mode: "is_aggregated (cm_mode s)" "cm_aggregated_state s = Connected"
    and alloc: "cm_allocator s \<noteq> None" and ch: "ch \<noteq> AGGREGATED_CHANNEL_ID"
    and ok: "\<not> fatal (fst (publish_child L env r min_size ch aggregate child p s))"
  shows "cm_inv L (snd (publish_child L env r min_size ch aggregate child p s))"
proof -
  let ?m = "\<lparr>os_channel_id = ch, os_request_id = r, os_target = ch_target L aggregate,
    os_extranonce_prefix = p, os_extranonce_size = of_nat min_size\<rparr>"
  let ?s2 = "s\<lparr>cm_extended := (cm_extended s)(ch \<mapsto> child), cm_to_sv1 := cm_to_sv1 s @ [SvOpenSuccess ?m],
    cm_advertised := (cm_advertised s)(ch \<mapsto> p)\<rparr>"
  have s2: "cm_inv L ?s2" by (rule inv_aggregated_child [OF inv mode ch]) (simp_all add: mode alloc)
  have "b032_ok p" "sv1_open env" using ok by (auto simp: publish_child_def Let_def send_sv1_def split: if_splits)
  then show ?thesis
    using s2 same_registry_inv [OF registry_forward [where L' = L] s2]
    by (simp add: publish_child_def Let_def send_sv1_def split: option.split)
qed

lemma well_request:
  "well_or_fatal (handle_downstream_channel_request_in_aggregated_mode L env r user h min_size s)"
proof -
  have "tp_action e = TpShutdown" if "init_child L ch a c = Inl e" for ch a c e
  proof -
    have job: "tp_action e = TpShutdown" if "inherit_job L ch j c = Inl e" for j c e
      using that by (auto simp: inherit_job_def tp_shutdown_def split: option.splits)
    have "tp_action e = TpShutdown" if "inherit_jobs L ch js c = Inl e" for js c e
      using that by (induction js arbitrary: c) (auto split: sum.splits dest: job)
    then show ?thesis
      using that by (auto simp: init_child_def Let_def tp_shutdown_def split: option.splits sum.splits dest: job)
  qed
  then have "fatal (Failed e :: unit outcome)" if "init_child L ch a c = Inl e" for ch a c e
    using that by (auto simp: fatal_def)
  note child = this
  show ?thesis
    unfolding handle_downstream_channel_request_in_aggregated_mode_def
    by (auto simp: Let_def well_publish_child reject_downstream_channel_request_def well_or_fatal_def [of "(Failed _, _)"]
        child split: option.split prod.split sum.split)
qed

lemma keeps_request:
  assumes "is_aggregated (cm_mode s)"
  shows "keeps L s (handle_downstream_channel_request_in_aggregated_mode L env r user h min_size s)" (is "keeps L s ?r")
  unfolding keeps_def
proof (intro impI, elim conjE)
  assume inv: "cm_inv L s" and ok: "\<not> fatal (fst ?r)"
  have agg: "cm_aggregated_state s = Connected" if "cm_extended s AGGREGATED_CHANNEL_ID = Some a" for a
    using inv assms that by (auto simp: cm_inv_def aggregated_inv_def split: if_splits)
  have alloc: "same_registry L s (s\<lparr>cm_allocator := Some a\<rparr>)" if "cm_allocator s = Some b" for a b
    using that by (simp add: same_registry_def members_def fun_eq_iff)
  note alloc_inv = same_registry_inv [OF alloc inv] same_registry_inv [OF registry_send same_registry_inv [OF alloc inv]]
  note child = keeps_publish_child [OF alloc_inv(1)]
  show "cm_inv L (snd ?r)"
    using ok inv agg assms alloc_inv
    by (auto simp: handle_downstream_channel_request_in_aggregated_mode_def Let_def
        reject_downstream_channel_request_def intro!: child dest: next_id_not_reserved split: option.splits prod.splits sum.splits if_splits)
qed

lemma request_keeps_mode:
  "cm_mode (snd (handle_downstream_channel_request_in_aggregated_mode L env r user h min_size s)) = cm_mode s"
proof -
  have fwd: "cm_mode (snd (forward_job_to_sv1_server L env m s)) = cm_mode s" for m and s :: "('a, 'b, 'c) channel_manager"
    using registry_forward [of L s L env m] by (simp add: same_registry_def)
  have "cm_mode (snd (publish_child L env r min_size ch a child p s)) = cm_mode s"
    for ch a child p and s :: "('a, 'b, 'c) channel_manager"
    by (simp add: publish_child_def Let_def send_sv1_def fwd split: option.split)
  then show ?thesis
    by (auto simp: handle_downstream_channel_request_in_aggregated_mode_def Let_def send_sv1_def
        reject_downstream_channel_request_def split: option.split prod.split sum.split)
qed

lemma keeps_open_pending: 
  assumes "is_aggregated (cm_mode s)"
  shows "keeps L s (open_pending_aggregated_downstream_channels L env s)"
proof -
  let ?f = "\<lambda>(r, user, h, min_size). handle_downstream_channel_request_in_aggregated_mode L env r user h min_size"
  have each: "keeps L s (each ?f rs s)" if "is_aggregated (cm_mode s)" for rs and s :: "('a, 'b, 'c) channel_manager"
    by (rule keeps_each [where P = "\<lambda>s. is_aggregated (cm_mode s)"])
      (auto simp: well_request keeps_request request_keeps_mode that split: prod.split)
  have "same_registry L s (s\<lparr>cm_pending := Map.empty\<rparr>)" by (simp add: same_registry_def members_def fun_eq_iff)
  then have "cm_inv L s \<Longrightarrow> cm_inv L (s\<lparr>cm_pending := Map.empty\<rparr>)" by (rule same_registry_inv)
  then show ?thesis
    using each [of "s\<lparr>cm_pending := Map.empty\<rparr>"] assms
    by (auto simp: open_pending_aggregated_downstream_channels_def Let_def keeps_def)
qed

text \<open>The upstream's open success.\<close>

lemma well_or_fail [simp]: "well_or_fatal (or_fail (tp_fallback k) v s)" "well_or_fatal (or_fail (tp_shutdown k) v s)"
  by (simp_all add: or_fail_def split: option.split)

lemma well_expect [simp]: "well_or_fatal (expect v s)"
  by (simp add: expect_def split: option.split)

lemma join_group_done:
  assumes "join_group L g ch n s = (Done u, s')" and "group_laws L"
  shows "\<exists>gr. s' = s\<lparr>cm_groups := (cm_groups s)(g \<mapsto> gr)\<rparr> \<and> set (gr_ids L gr) = insert ch (members L s g)"
  using assms by (auto simp: join_group_def Let_def group_laws_def members_def split: option.splits)

lemma well_join_group: "well_or_fatal (join_group L g ch n s)"
  by (simp add: join_group_def Let_def split: option.split)

lemma well_open_aggregated: "well_or_fatal (open_aggregated L m user h len s)"
  unfolding open_aggregated_def open_failed_def Let_def
  by (auto intro!: well_or_fatal_and_then split: prod.split)

lemma open_aggregated_done:
  assumes "open_aggregated L m user h len s = (Done success, s')"
  shows "\<exists>a c al. s' = s\<lparr>cm_extended := (cm_extended s)(AGGREGATED_CHANNEL_ID \<mapsto> a, 1 \<mapsto> c),
      cm_allocator := Some al, cm_aggregated_state := Connected\<rparr> \<and> os_channel_id success = 1"
  using assms unfolding open_aggregated_def Let_def
  by (auto simp: and_then_Done or_fail_def expect_def success_for_sv1_def split: if_splits option.splits prod.splits) blast

lemma well_open_non_aggregated: "well_or_fatal (open_non_aggregated L m user h len s)"
  unfolding open_non_aggregated_def open_failed_def Let_def
  by (auto intro!: well_or_fatal_and_then split: prod.split)

lemma open_non_aggregated_done:
  assumes "open_non_aggregated L m user h len s = (Done success, s')"
  shows "\<exists>c. s' = s\<lparr>cm_extended := (cm_extended s)(uo_channel_id m \<mapsto> c)\<rparr> \<and> os_channel_id success = uo_channel_id m"
  using assms unfolding open_non_aggregated_def Let_def
  by (auto simp: and_then_Done or_fail_def success_for_sv1_def split: if_splits option.splits prod.splits)

lemma inv_opened_aggregated:
  assumes inv: "cm_inv L s" and mode: "is_aggregated (cm_mode s)"
    and s': "cm_extended s' = (cm_extended s)(AGGREGATED_CHANNEL_ID \<mapsto> a, 1 \<mapsto> c)"
      "cm_advertised s' = (cm_advertised s)(1 \<mapsto> p)" "cm_mode s' = cm_mode s" "cm_aggregated_state s' = Connected"
      "cm_allocator s' \<noteq> None"
  shows "cm_inv L s'"
  using inv mode by (auto simp: cm_inv_def aggregated_inv_def s' AGGREGATED_CHANNEL_ID_def split: if_splits)

lemma inv_opened_non_aggregated:
  assumes inv: "cm_inv L s" and mode: "\<not> is_aggregated (cm_mode s)"
    and new: "colliding_channel_id ch g s = None"
    and gr: "set (gr_ids L gr) = insert ch (members L s g)"
    and s': "cm_extended s' = (cm_extended s)(ch \<mapsto> c)" "cm_advertised s' = (cm_advertised s)(ch \<mapsto> p)"
      "cm_groups s' = (cm_groups s)(g \<mapsto> gr)" "cm_mode s' = cm_mode s" "cm_aggregated_state s' = cm_aggregated_state s"
  shows "cm_inv L s'"
proof -
  have fresh: "ch \<noteq> AGGREGATED_CHANNEL_ID" "g \<noteq> ch" "cm_extended s g = None" "cm_extended s ch = None" "cm_groups s ch = None"
    using new mode by (auto simp: colliding_channel_id_def split: if_splits)
  have grp: "groups_inv L s" using inv mode by (simp add: cm_inv_def)
  have mem: "members L s' k = (if k = g then insert ch (members L s g) else members L s k)" for k
    using gr by (simp add: members_def s')
  have out: "ch \<notin> members L s k" for k using grp fresh(4) unfolding groups_inv_def by (metis domIff subsetD)
  have "groups_inv L s'"
    using grp fresh out unfolding groups_inv_def mem s' by auto
  then show ?thesis using inv mode fresh by (auto simp: cm_inv_def s')
qed

text \<open>A success after which the loop goes on went through every step.\<close>

lemma open_success_steps:
  assumes pending: "cm_pending s (uo_request_id m) = Some (user, h, len)"
    and ok: "\<not> fatal (fst (handle_open_extended_mining_channel_success L env m s))"
    and s1: "s1 = s\<lparr>cm_pending := (cm_pending s)(uo_request_id m := None)\<rparr>"
  obtains u s2 success s3 s4 where "colliding_channel_id (uo_channel_id m) (uo_group_channel_id m) s1 = None"
    and "join_group L (uo_group_channel_id m) (uo_channel_id m)
      (unat (uo_extranonce_size m) + length (uo_extranonce_prefix m)) s1 = (Done u, s2)"
    and "(if is_aggregated (cm_mode s2) then open_aggregated L m user h len s2
      else open_non_aggregated L m user h len s2) = (Done success, s3)"
    and "s4 = note_prefix success (s3\<lparr>cm_to_sv1 := cm_to_sv1 s3 @ [SvOpenSuccess success]\<rparr>)"
    and "handle_open_extended_mining_channel_success L env m s =
      (if is_aggregated (cm_mode s4) then open_pending_aggregated_downstream_channels L env s4 else (Done (), s4))"
proof -
  let ?r = "handle_open_extended_mining_channel_success L env m s"
  let ?join = "join_group L (uo_group_channel_id m) (uo_channel_id m)
    (unat (uo_extranonce_size m) + length (uo_extranonce_prefix m)) s1"
  let ?open = "\<lambda>s. if is_aggregated (cm_mode s) then open_aggregated L m user h len s else open_non_aggregated L m user h len s"
  let ?tell = "\<lambda>success s. and_then (send_sv1 env (SvOpenSuccess success) s)
      (\<lambda>_ s. if is_aggregated (cm_mode (note_prefix success s))
             then open_pending_aggregated_downstream_channels L env (note_prefix success s)
             else (Done (), note_prefix success s))"
  have new: "colliding_channel_id (uo_channel_id m) (uo_group_channel_id m) s1 = None"
    using ok pending by (auto simp: handle_open_extended_mining_channel_success_def Let_def s1 split: option.splits)
  have "?r = and_then ?join (\<lambda>_ s. and_then (?open s) ?tell)"
    unfolding note_prefix_def using pending new by (simp add: handle_open_extended_mining_channel_success_def Let_def s1)
  then obtain u s2 where s2: "?join = (Done u, s2)" and r2: "?r = and_then (?open s2) ?tell"
    using ok well_join_group by (metis (no_types, lifting) nonfatal_and_then)
  have well: "well_or_fatal (?open s2)" by (simp add: well_open_aggregated well_open_non_aggregated)
  obtain success s3 where s3: "?open s2 = (Done success, s3)" and "and_then (?open s2) ?tell = ?tell success s3"
    by (rule nonfatal_and_then [OF ok [unfolded r2] well])
  note r3 = trans [OF r2 this(2)]
  have "sv1_open env" using ok by (auto simp: r3 send_sv1_def split: if_splits)
  then show thesis using that [OF new s2 s3 refl] by (simp add: r3 send_sv1_def)
qed

lemma keeps_open_success:
  assumes laws: "group_laws L"
  shows "keeps L s (handle_open_extended_mining_channel_success L env m s)" (is "keeps L s ?r")
  unfolding keeps_def
proof (intro impI, elim conjE)
  assume inv: "cm_inv L s" and ok: "\<not> fatal (fst ?r)"
  show "cm_inv L (snd ?r)"
  proof (cases "cm_pending s (uo_request_id m)")
    case None
    then show ?thesis using inv by (simp add: handle_open_extended_mining_channel_success_def)
  next
    case (Some q)
    obtain user h len where q: "q = (user, h, len)" by (cases q)
    define s1 where "s1 = s\<lparr>cm_pending := (cm_pending s)(uo_request_id m := None)\<rparr>"
    have s1: "cm_inv L s1" unfolding s1_def
      by (rule same_registry_inv [OF _ inv]) (simp add: same_registry_def members_def fun_eq_iff)
    from Some q have "cm_pending s (uo_request_id m) = Some (user, h, len)" by simp
    from this ok s1_def obtain u s2 success s3 s4 where
      new: "colliding_channel_id (uo_channel_id m) (uo_group_channel_id m) s1 = None"
      and s2: "join_group L (uo_group_channel_id m) (uo_channel_id m)
        (unat (uo_extranonce_size m) + length (uo_extranonce_prefix m)) s1 = (Done u, s2)"
      and s3: "(if is_aggregated (cm_mode s2) then open_aggregated L m user h len s2
        else open_non_aggregated L m user h len s2) = (Done success, s3)"
      and s4: "s4 = note_prefix success (s3\<lparr>cm_to_sv1 := cm_to_sv1 s3 @ [SvOpenSuccess success]\<rparr>)"
      and r: "?r = (if is_aggregated (cm_mode s4) then open_pending_aggregated_downstream_channels L env s4 else (Done (), s4))"
      by (rule open_success_steps)
    obtain gr where gr: "s2 = s1\<lparr>cm_groups := (cm_groups s1)(uo_group_channel_id m \<mapsto> gr)\<rparr>"
      "set (gr_ids L gr) = insert (uo_channel_id m) (members L s1 (uo_group_channel_id m))"
      using join_group_done [OF s2 laws] by blast
    have "cm_inv L s4"
    proof (cases "is_aggregated (cm_mode s1)")
      case True
      then have "open_aggregated L m user h len s2 = (Done success, s3)" using s3 gr(1) by simp
      from open_aggregated_done [OF this] show ?thesis
        using True by (elim exE conjE) (rule inv_opened_aggregated [OF s1], auto simp: s4 note_prefix_def gr(1))
    next
      case False
      then have "open_non_aggregated L m user h len s2 = (Done success, s3)" using s3 gr(1) by simp
      from open_non_aggregated_done [OF this] show ?thesis
        using False by (elim exE conjE)
          (rule inv_opened_non_aggregated [OF s1 _ new gr(2)], auto simp: s4 note_prefix_def gr(1))
    qed
    then show ?thesis using ok keeps_open_pending [of s4 L env] unfolding r keeps_def by (simp split: if_splits)
  qed
qed

text \<open>Channels that go away.\<close>

lemma drop_channel_simps [simp]:
  "cm_extended (drop_channel L ch s) = (cm_extended s)(ch := None)" "cm_groups (drop_channel L ch s) = cm_groups s"
  "cm_mode (drop_channel L ch s) = cm_mode s" "cm_aggregated_state (drop_channel L ch s) = cm_aggregated_state s"
  "cm_allocator (drop_channel L ch s) = None \<longleftrightarrow> cm_allocator s = None"
  by (auto simp: drop_channel_def split: option.split)

lemma drop_channels_simps [simp]:
  "cm_extended (fold (drop_channel L) ids s) = cm_extended s |` (- set ids)"
  "cm_groups (fold (drop_channel L) ids s) = cm_groups s" "cm_mode (fold (drop_channel L) ids s) = cm_mode s"
  "cm_aggregated_state (fold (drop_channel L) ids s) = cm_aggregated_state s"
  by (induction ids arbitrary: s) (auto simp: restrict_map_def fun_eq_iff)

lemma inv_removed:
  assumes inv: "cm_inv L s" and mode: "\<not> is_aggregated (cm_mode s)"
    and s': "cm_extended s' = cm_extended s |` (- D)" "cm_advertised s' = cm_advertised s |` (- D)"
      "cm_mode s' = cm_mode s" "cm_aggregated_state s' = cm_aggregated_state s"
    and grp: "\<And>g. members L s' g \<subseteq> members L s g - D" "dom (cm_groups s') \<subseteq> dom (cm_groups s)"
  shows "cm_inv L s'"
proof -
  have g: "groups_inv L s" using inv mode by (simp add: cm_inv_def)
  have "cm_extended s' k = None" if "cm_groups s' k \<noteq> None" for k
  proof -
    have "cm_groups s k \<noteq> None" using that grp(2) by (auto simp: dom_def)
    then show ?thesis using g by (simp add: groups_inv_def s' restrict_map_def)
  qed
  moreover have "members L s' k \<subseteq> dom (cm_extended s')" for k
    using grp(1) [of k] g unfolding groups_inv_def s' by fastforce
  moreover have "members L s' k \<inter> members L s' l = {}" if "k \<noteq> l" for k l
  proof -
    have "members L s k \<inter> members L s l = {}" using g that by (simp add: groups_inv_def)
    then show ?thesis using grp(1) [of k] grp(1) [of l] by blast
  qed
  moreover have "cm_extended s' AGGREGATED_CHANNEL_ID = None" "cm_aggregated_state s' = NoChannel"
    using g by (simp_all add: groups_inv_def s' restrict_map_def)
  ultimately have "groups_inv L s'" by (simp add: groups_inv_def)
  then show ?thesis using inv mode by (auto simp: cm_inv_def s')
qed

lemma members_remove_from_groups:
  assumes "group_laws L"
  shows "members L (remove_from_groups L ch s) g = members L s g - {ch}"
  using assms by (auto simp: members_def remove_from_groups_def group_laws_def split: option.split)

lemma close_each_done:
  assumes "each (close_for_sv1 env) ids s = (Done u, s')"
  shows "cm_advertised s' = cm_advertised s |` (- set ids) \<and> cm_extended s' = cm_extended s \<and>
    cm_groups s' = cm_groups s \<and> cm_mode s' = cm_mode s \<and> cm_aggregated_state s' = cm_aggregated_state s"
  using assms
proof (induction ids arbitrary: s)
  case (Cons ch ids)
  then show ?case
    by (auto simp: and_then_Done close_for_sv1_def send_sv1_def restrict_map_def fun_eq_iff split: if_splits dest!: Cons.IH)
qed (simp add: restrict_map_def)

lemma well_close: "well_or_fatal (close_for_sv1 env ch s)"
  by (simp add: close_for_sv1_def)

lemma keeps_close_channel:
  assumes laws: "group_laws L"
  shows "keeps L s (handle_close_channel L env ch s)" (is "keeps L s ?r")
  unfolding keeps_def
proof (intro impI, elim conjE)
  assume inv: "cm_inv L s" and ok: "\<not> fatal (fst ?r)"
  have mode: "\<not> is_aggregated (cm_mode s)" using ok by (auto simp: handle_close_channel_def)
  show "cm_inv L (snd ?r)"
  proof (cases "cm_groups s ch")
    case (Some gr)
    let ?s1 = "fold (drop_channel L) (gr_ids L gr) (s\<lparr>cm_groups := (cm_groups s)(ch := None)\<rparr>)"
    have r: "?r = each (close_for_sv1 env) (gr_ids L gr) ?s1" using mode Some by (simp add: handle_close_channel_def Let_def)
    have "well_or_fatal ?r" unfolding r by (rule well_or_fatal_each) (rule well_close)
    then obtain u s' where s': "?r = (Done u, s')" using ok by (auto simp: well_or_fatal_def)
    have mem: "members L s ch = set (gr_ids L gr)" using Some by (simp add: members_def)
    have "members L s' g \<subseteq> members L s g - set (gr_ids L gr)" for g
    proof (cases "g = ch")
      case False
      have "members L s g \<inter> members L s ch = {}"
        using inv mode False by (simp add: cm_inv_def groups_inv_def)
      then show ?thesis using close_each_done [OF s' [unfolded r]] mem False by (auto simp: members_def)
    qed (use close_each_done [OF s' [unfolded r]] in \<open>simp add: members_def\<close>)
    then show ?thesis
      using close_each_done [OF s' [unfolded r]]
      by (simp add: s') (rule inv_removed [OF inv mode, where D = "set (gr_ids L gr)"], auto)
  next
    case None
    let ?s1 = "remove_from_groups L ch (drop_channel L ch s)"
    show ?thesis
    proof (cases "cm_extended s ch = None")
      case False
      then have r: "?r = close_for_sv1 env ch ?s1" using mode None by (auto simp: handle_close_channel_def)
      have "members L (snd ?r) g \<subseteq> members L s g - {ch}" for g
        using members_remove_from_groups [OF laws, of ch "drop_channel L ch s" g]
        by (simp add: r close_for_sv1_def send_sv1_def members_def)
      then show ?thesis
        by (rule inv_removed [OF inv mode, where D = "{ch}", rotated 4])
          (auto simp: r close_for_sv1_def send_sv1_def remove_from_groups_def restrict_map_def fun_eq_iff dom_def)
    qed (use inv mode None in \<open>simp add: handle_close_channel_def\<close>)
  qed
qed

lemma keeps_close_from_sv1:
  assumes laws: "group_laws L"
  shows "keeps L s (handle_close_from_sv1 L env ch s)" (is "keeps L s ?r")
  unfolding keeps_def
proof (intro impI, elim conjE)
  assume inv: "cm_inv L s"
  let ?s1 = "remove_from_groups L ch ((drop_channel L ch s)\<lparr>cm_advertised := (cm_advertised s)(ch := None)\<rparr>)"
  have s1: "cm_extended ?s1 = cm_extended s |` (- {ch})" "cm_advertised ?s1 = cm_advertised s |` (- {ch})"
    "cm_mode ?s1 = cm_mode s" "cm_aggregated_state ?s1 = cm_aggregated_state s" "cm_allocator ?s1 = None \<longleftrightarrow> cm_allocator s = None"
    by (auto simp: remove_from_groups_def restrict_map_def fun_eq_iff)
  have mem: "members L ?s1 g = members L s g - {ch}" for g
    using members_remove_from_groups [OF laws] by (simp add: members_def)
  have dom: "dom (cm_groups ?s1) \<subseteq> dom (cm_groups s)" by (auto simp: remove_from_groups_def)
  have "cm_inv L ?s1" if "\<not> (is_aggregated (cm_mode s) \<and> ch = AGGREGATED_CHANNEL_ID)"
  proof (cases "is_aggregated (cm_mode s)")
    case True
    have "aggregated_inv ?s1"
      using inv that True unfolding cm_inv_def aggregated_inv_def s1(1,4,5) by (auto simp: restrict_map_def split: if_splits)
    moreover have "dom (cm_advertised ?s1) = dom (cm_extended ?s1) - {AGGREGATED_CHANNEL_ID}"
      using inv unfolding cm_inv_def s1(1,2) dom_restrict by blast
    ultimately show ?thesis using True by (simp add: cm_inv_def s1(3))
  next
    case False
    then show ?thesis using inv_removed [OF inv _ s1(1-4)] mem dom by blast
  qed
  then show "cm_inv L (snd ?r)"
    using inv same_registry_inv [OF registry_send_upstream] by (auto simp: handle_close_from_sv1_def Let_def)
qed

text \<open>\<open>SetGroupChannel\<close>.\<close>

lemma build_group_ok:
  assumes "build_group L s chs gr = Inr gr'" and "group_laws L"
  shows "set (gr_ids L gr') = set chs \<union> set (gr_ids L gr) \<and>
    (\<forall>ch \<in> set chs. size_for_group L s ch \<noteq> None \<and> ch \<noteq> AGGREGATED_CHANNEL_ID)"
  using assms(1)
proof (induction chs arbitrary: gr)
  case (Cons ch chs)
  then obtain n gr1 where step: "ch \<noteq> AGGREGATED_CHANNEL_ID" "size_for_group L s ch = Some n" "gr_add L ch n gr = Some gr1"
      "build_group L s chs gr1 = Inr gr'"
    by (auto split: if_splits option.splits)
  have "set (gr_ids L gr1) = insert ch (set (gr_ids L gr))" using assms(2) step(3) by (auto simp: group_laws_def)
  then show ?case using Cons.IH [OF step(4)] step(1,2) by auto
qed simp

lemma members_removed:
  assumes "group_laws L"
  shows "set (gr_ids L (fold (gr_remove L) chs gr)) = set (gr_ids L gr) - set chs"
proof (induction chs arbitrary: gr)
  case (Cons ch chs)
  have "set (gr_ids L (gr_remove L ch gr)) = set (gr_ids L gr) - {ch}" using assms by (simp add: group_laws_def)
  then show ?case using Cons.IH [of "gr_remove L ch gr"] by auto
qed simp

lemma members_install_group:
  assumes "group_laws L" and "set (gr_ids L gr) = set chs"
  shows "members L (install_group L g chs gr s) k = (if k = g then set chs else members L s k - set chs)"
proof -
  have "set (gr_ids L old) - set chs = {}" if "gr_ids L (fold (gr_remove L) chs old) = []" for old
    using that members_removed [OF assms(1), of chs old] by simp
  then show ?thesis
    using assms(2) members_removed [OF assms(1), of chs]
    by (auto simp: members_def install_group_def Let_def split: option.split if_splits)
qed

lemma keeps_set_group_channel:
  assumes laws: "group_laws L"
  shows "keeps L s (handle_set_group_channel L g chs s)" (is "keeps L s ?r")
  unfolding keeps_def
proof (intro impI, elim conjE)
  assume inv: "cm_inv L s"
  show "cm_inv L (snd ?r)"
  proof (cases "snd ?r = s")
    case False
    then obtain gr where free: "\<not> is_aggregated (cm_mode s) \<Longrightarrow> cm_extended s g = None"
      and gr: "build_group L s chs (gr_new L g) = Inr gr" and r: "snd ?r = install_group L g chs gr s"
      unfolding handle_set_group_channel_def by (auto split: if_splits sum.splits)
    have ids: "set (gr_ids L gr) = set chs" and known: "\<And>ch. ch \<in> set chs \<Longrightarrow> size_for_group L s ch \<noteq> None"
      using build_group_ok [OF gr laws] laws by (auto simp: group_laws_def)
    note mem = members_install_group [OF laws ids]
    have s': "cm_extended (snd ?r) = cm_extended s" "cm_advertised (snd ?r) = cm_advertised s" "cm_mode (snd ?r) = cm_mode s"
      "cm_aggregated_state (snd ?r) = cm_aggregated_state s" "cm_allocator (snd ?r) = cm_allocator s"
      by (simp_all add: r install_group_def Let_def)
    have "groups_inv L (snd ?r)" if mode: "\<not> is_aggregated (cm_mode s)"
    proof -
      have grp: "groups_inv L s" using inv mode by (simp add: cm_inv_def)
      have "set chs \<subseteq> dom (cm_extended s)"
        using known mode by (fastforce simp: size_for_group_def)
      then have sub: "\<forall>k. members L (snd ?r) k \<subseteq> dom (cm_extended s)"
        using grp unfolding groups_inv_def r mem by auto
      have disj: "\<forall>k l. k \<noteq> l \<longrightarrow> members L (snd ?r) k \<inter> members L (snd ?r) l = {}"
      proof (intro allI impI)
        fix k l :: channel_id assume "k \<noteq> l"
        moreover from this have "members L s k \<inter> members L s l = {}" using grp by (simp add: groups_inv_def)
        ultimately show "members L (snd ?r) k \<inter> members L (snd ?r) l = {}" unfolding r mem by auto
      qed
      have "cm_groups s k \<noteq> None" if "cm_groups (snd ?r) k \<noteq> None" "k \<noteq> g" for k
        using that by (auto simp: r install_group_def Let_def split: option.splits)
      then have keys: "\<forall>k. cm_groups (snd ?r) k \<noteq> None \<longrightarrow> cm_extended s k = None"
        using grp free [OF mode] unfolding groups_inv_def by metis
      show ?thesis using grp sub disj keys unfolding groups_inv_def s' by blast
    qed
    then show ?thesis using inv by (simp add: cm_inv_def aggregated_inv_def s' split: if_splits)
  qed (simp add: inv)
qed

lemma keeps_open_request: "keeps L s (handle_open_request L env m s)"
proof -
  have pend: "cm_inv L s \<Longrightarrow> cm_inv L (s\<lparr>cm_pending := P\<rparr>)" for P
    by (erule same_registry_inv [rotated]) (simp add: same_registry_def members_def fun_eq_iff)
  have wait: "cm_inv L (s\<lparr>cm_aggregated_state := PendingChannel, cm_pending := P\<rparr>)"
    if "cm_inv L s" "is_aggregated (cm_mode s)" "cm_aggregated_state s = NoChannel" for P
    using that by (simp add: cm_inv_def aggregated_inv_def)
  show ?thesis
    using keeps_request [of s L env] pend wait
    by (auto simp: keeps_def handle_open_request_def Let_def intro: same_registry_inv [OF registry_send_upstream]
        split: aggregated_state.split)
qed

lemma registry_update: "same_registry L s (snd (handle_update_channel L' env ch h t s))"
proof -
  have "same_registry L s (snd (send_upstream env m (s\<lparr>cm_extended := (cm_extended s)(k \<mapsto> c)\<rparr>)))"
    if "cm_extended s k = Some x" for m k c x
    by (rule same_registry.trans [OF registry_values(2) registry_send_upstream]) (simp add: that)
  then show ?thesis
    by (auto simp: handle_update_channel_def Let_def registry_send_upstream same_registry.refl split: option.split)
qed

lemma registry_extensions:
  "same_registry L s (snd (handle_request_extensions_success xs s))"
  "same_registry L s (snd (handle_request_extensions_error env r us rs s))"
  by (simp_all add: handle_request_extensions_success_def handle_request_extensions_error_def Let_def
      registry_send_upstream same_registry_def members_def fun_eq_iff send_upstream_def)

lemma keeps_handle:
  assumes "group_laws L"
  shows "keeps L s (cm_handle L B env ev s)"
proof (cases ev)
  case (FromUpstream m)
  then show ?thesis
    by (cases m) (simp_all add: keeps_open_success keeps_close_channel keeps_set_group_channel assms
        keeps_registry registry_new_job registry_set_new_prev_hash registry_set_target registry_set_extranonce_prefix
        registry_extensions registry_account_share handle_submit_shares_success_def handle_submit_shares_error_def
        handle_open_mining_channel_error_def same_registry.refl)
next
  case (FromSv1 m)
  then show ?thesis
    by (cases m) (simp_all add: keeps_open_request keeps_close_from_sv1 assms keeps_registry registry_share registry_update)
qed

lemma reachable_cm_inv:
  assumes "cm_reach L B s" and laws: "group_laws L"
  shows "cm_inv L s"
  using assms(1)
proof (induction rule: cm_reach.induct)
  case (start supported required mode max_past)
  show ?case by (simp add: cm_inv_def aggregated_inv_def groups_inv_def members_def channel_manager_new_def)
next
  case (payout s payout s')
  then show ?case
    by (elim same_registry_inv [rotated])
      (auto simp: set_expected_payout_distribution_def same_registry_def members_def fun_eq_iff split: option.splits)
next
  case (turn s env ev out s')
  then show ?case
    using keeps_handle [OF laws, of s B env ev] by (simp add: keeps_def manager_continues_iff)
qed

section \<open>What the invariant gives\<close>

lemma announce_all_known:
  assumes "fst ` set ps \<subseteq> dom (cm_advertised s)"
  shows "fst (each (announce_prefix env) ps s) \<noteq> Failed (tp_shutdown ChannelNotFound)"
  using assms
proof (induction ps arbitrary: s)
  case (Cons p ps)
  obtain ch b where p: "p = (ch, b)" by fastforce
  obtain a where a: "cm_advertised s ch = Some a" using Cons.prems p by auto
  obtain out s1 where s1: "announce_prefix env (ch, b) s = (out, s1)" by fastforce
  have "dom (cm_advertised s1) = dom (cm_advertised s)"
    using s1 by (auto simp: announce_prefix_def send_sv1_def a split: if_splits)
  moreover have "out \<noteq> Failed (tp_shutdown ChannelNotFound)"
    using s1 a by (auto simp: announce_prefix_def send_sv1_def tp_shutdown_def split: if_splits)
  ultimately show ?case using Cons by (cases out) (auto simp: p s1)
qed simp

lemma forward_finds_prefixes:
  assumes inv: "cm_inv L s"
  shows "fst (forward_job_to_sv1_server L env m s) \<noteq> Failed (tp_shutdown ChannelNotFound)"
proof (cases "active_job_extranonce_prefixes L env m s")
  case (Some ps)
  have ch: "fst ` set (downstream_channels env s) \<subseteq> dom (cm_extended s) - {AGGREGATED_CHANNEL_ID}"
    by (auto simp: downstream_channels_def map_filter_def split: if_splits)
  have "fst ` set ps \<subseteq> dom (cm_extended s) - {AGGREGATED_CHANNEL_ID}"
  proof (cases "nj_channel_id m = AGGREGATED_CHANNEL_ID")
    case True
    then have "ps = map (\<lambda>(ch, c). (ch, the (job_prefix L (nj_job_id m) c))) (downstream_channels env s)"
      using Some by (simp add: active_job_extranonce_prefixes_def Let_def split: if_splits)
    then have "fst ` set ps = fst ` set (downstream_channels env s)" by (force simp: image_image)
    then show ?thesis using ch by simp
  next
    case False
    then show ?thesis using Some by (auto simp: active_job_extranonce_prefixes_def split: option.splits)
  qed
  then have "fst ` set ps \<subseteq> dom (cm_advertised s)" using inv by (simp add: cm_inv_def)
  then show ?thesis
    using announce_all_known [of ps s env] Some
    by (cases "each (announce_prefix env) ps s"; cases "fst (each (announce_prefix env) ps s)")
      (auto simp: forward_job_to_sv1_server_def send_sv1_def tp_shutdown_def)
qed (simp add: forward_job_to_sv1_server_def tp_fallback_def tp_shutdown_def)

lemma update_members_known:
  assumes "set chs \<subseteq> dom (cm_extended s)" and "e \<noteq> missing"
  shows "fst (each (update_channel f missing e) chs s) \<noteq> Failed missing"
  using assms(1)
proof (induction chs arbitrary: s)
  case (Cons ch chs)
  obtain out s1 where s1: "update_channel f missing e ch s = (out, s1)" by fastforce
  have "dom (cm_extended s1) = dom (cm_extended s)"
    using s1 by (auto simp: update_channel_def update_all_def split: option.splits if_splits)
  moreover have "out \<noteq> Failed missing"
    using s1 Cons.prems assms(2) by (auto simp: update_channel_def update_all_def split: option.splits if_splits)
  ultimately show ?case using Cons by (cases out) (auto simp: s1)
qed simp

lemma set_target_finds_members:
  assumes inv: "cm_inv L s" and mode: "\<not> is_aggregated (cm_mode s)" and g: "cm_groups s g = Some gr"
  shows "fst (upstream_set_target L env g t s) \<noteq> Failed (tp_fallback ChannelNotFound)"
proof -
  have "members L s g \<subseteq> dom (cm_extended s)" using inv mode by (simp add: cm_inv_def groups_inv_def)
  then have known: "fst (each (update_channel (ch_set_target L t) (tp_fallback ChannelNotFound) set_target_failed) (gr_ids L gr) s)
      \<noteq> Failed (tp_fallback ChannelNotFound)"
    by (intro update_members_known) (use g in \<open>auto simp: members_def set_target_failed_def tp_fallback_def\<close>)
  have send: "fst (each (\<lambda>k. send_sv1 env (SvSetTarget k t)) chs s) \<noteq> Failed (tp_fallback ChannelNotFound)"
    for chs and s :: "('a, 'b, 'c) channel_manager"
    by (induction chs arbitrary: s) (auto simp: send_sv1_def tp_shutdown_def tp_fallback_def)
  show ?thesis
    using known send mode g
    by (cases "each (update_channel (ch_set_target L t) (tp_fallback ChannelNotFound) set_target_failed) (gr_ids L gr) s";
        cases "fst (each (update_channel (ch_set_target L t) (tp_fallback ChannelNotFound) set_target_failed) (gr_ids L gr) s)")
      (auto simp: upstream_set_target_def)
qed

text \<open>
  C28. In every run of the channel manager its registries agree. Every channel but the aggregated one has an
  announced prefix and nothing else has. In aggregated mode the aggregated channel and the allocator exist
  exactly from the upstream's success on. In non-aggregated mode every member of a group is an open channel,
  no channel is in two groups, and no id names both a channel and a group. So a job is never lost for want of
  a prefix, and a target for a group finds every member.
\<close>

theorem channel_registries_stay_consistent:
  assumes "cm_reach L B s" and "group_laws L"
  shows "dom (cm_advertised s) = dom (cm_extended s) - {AGGREGATED_CHANNEL_ID} \<and>
    (is_aggregated (cm_mode s) \<longrightarrow>
       (cm_extended s AGGREGATED_CHANNEL_ID \<noteq> None \<longleftrightarrow> cm_aggregated_state s = Connected) \<and>
       (cm_aggregated_state s = Connected \<longrightarrow> cm_allocator s \<noteq> None)) \<and>
    (\<not> is_aggregated (cm_mode s) \<longrightarrow>
       cm_extended s AGGREGATED_CHANNEL_ID = None \<and>
       (\<forall>g gr. cm_groups s g = Some gr \<longrightarrow> cm_extended s g = None \<and> set (gr_ids L gr) \<subseteq> dom (cm_extended s)) \<and>
       (\<forall>g h gr hr. g \<noteq> h \<and> cm_groups s g = Some gr \<and> cm_groups s h = Some hr \<longrightarrow>
          set (gr_ids L gr) \<inter> set (gr_ids L hr) = {}) \<and>
       (cm_groups s k \<noteq> None \<longrightarrow> fst (upstream_set_target L env k t s) \<noteq> Failed (tp_fallback ChannelNotFound))) \<and>
    fst (forward_job_to_sv1_server L env m s) \<noteq> Failed (tp_shutdown ChannelNotFound)"
proof -
  have inv: "cm_inv L s" by (rule reachable_cm_inv [OF assms])
  have "cm_extended s AGGREGATED_CHANNEL_ID = None \<and>
       (\<forall>g gr. cm_groups s g = Some gr \<longrightarrow> cm_extended s g = None \<and> set (gr_ids L gr) \<subseteq> dom (cm_extended s)) \<and>
       (\<forall>g h gr hr. g \<noteq> h \<and> cm_groups s g = Some gr \<and> cm_groups s h = Some hr \<longrightarrow>
          set (gr_ids L gr) \<inter> set (gr_ids L hr) = {})" if "\<not> is_aggregated (cm_mode s)"
  proof -
    have g: "groups_inv L s" using inv that by (simp add: cm_inv_def)
    have "set (gr_ids L gr) = members L s k" if "cm_groups s k = Some gr" for k gr using that by (simp add: members_def)
    then show ?thesis using g unfolding groups_inv_def by (metis option.discI)
  qed
  moreover have "dom (cm_advertised s) = dom (cm_extended s) - {AGGREGATED_CHANNEL_ID}" using inv by (simp add: cm_inv_def)
  moreover have "aggregated_inv s" if "is_aggregated (cm_mode s)" using inv that by (simp add: cm_inv_def)
  ultimately show ?thesis
    using set_target_finds_members [OF inv] forward_finds_prefixes [OF inv]
    by (auto simp: aggregated_inv_def split: if_splits)
qed

lemma demo_group_laws: "group_laws demo_channels"
  by (auto simp: group_laws_def demo_channels_def)

theorem channel_registries_stay_consistent_witness:
  "dom (cm_advertised demo_changed) = {7} \<and>
   fst (upstream_set_target demo_channels demo_cm_env 9 3 demo_changed) \<noteq> Failed (tp_fallback ChannelNotFound) \<and>
   fst (forward_job_to_sv1_server demo_channels demo_cm_env (demo_job 1) demo_changed) \<noteq> Failed (tp_shutdown ChannelNotFound)"
  using channel_registries_stay_consistent [OF demo_reaches demo_group_laws, of 9 demo_cm_env 3 "demo_job 1"]
  by (auto simp: demo_states is_aggregated_def AGGREGATED_CHANNEL_ID_def)

end
