(* ===== verification/Sv2_Shares.thy ===== *)
theory Sv2_Shares
  imports Sv2_Run
begin

text \<open>
  What the channel manager sends upstream: shares numbered without a gap, and jobs checked against the
  expected payout before any channel sees them.
\<close>

section \<open>Shares and their numbers\<close>

definition share_numbers :: "channel_id \<Rightarrow> to_upstream list \<Rightarrow> u32 list" where
  "share_numbers k ms =
     List.map_filter (\<lambda>q. case q of
         UpSubmitShares m _ \<Rightarrow> if se_channel_id m = k then Some (se_sequence_number m) else None
       | _ \<Rightarrow> None) ms"

definition numbered :: "('c, 'g, 'a) channel_manager \<Rightarrow> bool" where
  "numbered s \<longleftrightarrow>
     (\<forall>k. \<exists>n. share_numbers k (cm_to_upstream s) = map of_nat [1..<Suc n] \<and>
        (case cm_counters s k of None \<Rightarrow> n = 0 | Some c \<Rightarrow> c = of_nat n))"

text \<open>Steps that submit no share.\<close>

definition no_share :: "('c, 'g, 'a) channel_manager \<Rightarrow> ('c, 'g, 'a) channel_manager \<Rightarrow> bool" where
  "no_share s s' \<longleftrightarrow>
     cm_counters s' = cm_counters s \<and> (\<forall>k. share_numbers k (cm_to_upstream s') = share_numbers k (cm_to_upstream s))"

interpretation no_share: kept_relation no_share
  by unfold_locales (simp_all add: no_share_def)

lemma no_share_numbered: "no_share s s' \<Longrightarrow> numbered s \<Longrightarrow> numbered s'"
  by (simp add: no_share_def numbered_def)

lemma share_numbers_snoc:
  "share_numbers k (ms @ [q]) = share_numbers k ms @ share_numbers k [q]"
  by (simp add: share_numbers_def map_filter_def)

lemma share_numbers_one [simp]:
  "share_numbers k [UpOpenChannel o1] = []" "share_numbers k [UpUpdateChannel ch h t] = []"
  "share_numbers k [UpCloseChannel ch] = []" "share_numbers k [UpRequestExtensions r xs] = []"
  "share_numbers k [UpSubmitShares m w] = (if se_channel_id m = k then [se_sequence_number m] else [])"
  by (simp_all add: share_numbers_def map_filter_def)

lemma no_share_same: "cm_counters s' = cm_counters s \<Longrightarrow> cm_to_upstream s' = cm_to_upstream s \<Longrightarrow> no_share s s'"
  by (simp add: no_share_def)

text \<open>The steps, each from a state that may already differ.\<close>

named_theorems quiet_steps

lemma quiet_update_all [quiet_steps]: "no_share a s \<Longrightarrow> no_share a (snd (update_all f e ch s))"
  by (auto simp: no_share_def update_all_def split: option.split)

lemma quiet_update_channel [quiet_steps]: "no_share a s \<Longrightarrow> no_share a (snd (update_channel f missing e ch s))"
  by (simp add: update_channel_def quiet_update_all)

lemma quiet_send [quiet_steps]: "no_share a s \<Longrightarrow> no_share a (snd (send_sv1 env m s))"
  by (simp add: no_share_def send_sv1_def)

lemma quiet_send_upstream:
  assumes "no_share a s" and "\<And>k. share_numbers k [q] = []"
  shows "no_share a (snd (send_upstream env q s))"
  using assms by (simp add: no_share_def send_upstream_def share_numbers_snoc)

lemma quiet_announce [quiet_steps]: "no_share a s \<Longrightarrow> no_share a (snd (announce_prefix env p s))"
  by (auto simp: no_share_def announce_prefix_def send_sv1_def split: prod.split option.split)

lemma quiet_forward [quiet_steps]: "no_share a s \<Longrightarrow> no_share a (snd (forward_job_to_sv1_server L env m s))"
  unfolding forward_job_to_sv1_server_def
  by (intro no_share.kept_after_rules quiet_steps no_share.refl)

lemma quiet_verify [quiet_steps]: "no_share a s \<Longrightarrow> no_share a (snd (verify_payout_distribution B m n s))"
  unfolding verify_payout_distribution_def
  by (intro no_share.kept_after_rules no_share.refl) (auto simp: no_share.refl split: sum.split)

lemma quiet_scope [quiet_steps]: "no_share a s \<Longrightarrow> no_share a (snd (aggregated_scope env s))"
  unfolding aggregated_scope_def
  by (intro no_share.kept_after_rules) (auto simp: no_share.refl split: list.split)

lemma quiet_activated_job [quiet_steps]: "no_share a s \<Longrightarrow> no_share a (snd (activated_job L ch s))"
  by (simp add: activated_job_def)

lemma quiet_prev_hash_for_group [quiet_steps]: "no_share a s \<Longrightarrow> no_share a (snd (prev_hash_for_group L m chs s))"
proof (induction chs arbitrary: s a)
  case (Cons ch chs)
  show ?case unfolding prev_hash_for_group.simps
    by (intro no_share.kept_after_rules quiet_steps Cons no_share.refl)
qed simp

lemma quiet_send_prev_hashes [quiet_steps]: "no_share a s \<Longrightarrow> no_share a (snd (send_prev_hashes L env m chs jobs s))"
  unfolding send_prev_hashes_def by (intro no_share.kept_after_rules quiet_steps no_share.refl)

lemma quiet_new_job: "no_share s (snd (handle_new_extended_mining_job L B env m s))"
  unfolding handle_new_extended_mining_job_def Let_def
  by (intro no_share.kept_after_rules quiet_steps no_share.refl) (simp add: no_share_same)

lemma quiet_set_new_prev_hash: "no_share s (snd (upstream_set_new_prev_hash L env m s))"
  unfolding upstream_set_new_prev_hash_def
  by (intro no_share.kept_after_rules quiet_steps no_share.refl) (simp add: no_share_same)

lemma quiet_set_target: "no_share s (snd (upstream_set_target L env ch t s))"
  unfolding upstream_set_target_def by (intro no_share.kept_after_rules quiet_steps no_share.refl)

lemma quiet_set_extranonce_prefix: "no_share s (snd (handle_set_extranonce_prefix L env ch p s))"
  unfolding handle_set_extranonce_prefix_def
  by (intro no_share.kept_after_rules quiet_steps no_share.refl) (simp add: no_share_same)

lemma quiet_drop [simp]:
  "cm_counters (drop_channel L ch s) = cm_counters s" "cm_to_upstream (drop_channel L ch s) = cm_to_upstream s"
  by (simp_all add: drop_channel_def split: option.split)

lemma quiet_drop_all [simp]:
  "cm_counters (fold (drop_channel L) ids s) = cm_counters s"
  "cm_to_upstream (fold (drop_channel L) ids s) = cm_to_upstream s"
  by (induction ids arbitrary: s) simp_all

lemma quiet_close [quiet_steps]: "no_share a s \<Longrightarrow> no_share a (snd (close_for_sv1 env ch s))"
  by (simp add: no_share_def close_for_sv1_def send_sv1_def)

lemma quiet_close_channel: "no_share s (snd (handle_close_channel L env ch s))"
  unfolding handle_close_channel_def Let_def
  by (intro no_share.kept_after_rules quiet_steps no_share.refl) (simp_all add: no_share_same remove_from_groups_def)

lemma quiet_join_group [quiet_steps]: "no_share a s \<Longrightarrow> no_share a (snd (join_group L g ch n s))"
  by (auto simp: no_share_def join_group_def Let_def split: option.split)

lemma quiet_open_aggregated [quiet_steps]: "no_share a s \<Longrightarrow> no_share a (snd (open_aggregated L m user h len s))"
  unfolding open_aggregated_def Let_def
  by (intro no_share.kept_after_rules quiet_steps no_share.refl) (simp_all add: no_share_same)

lemma quiet_open_non_aggregated [quiet_steps]: "no_share a s \<Longrightarrow> no_share a (snd (open_non_aggregated L m user h len s))"
  unfolding open_non_aggregated_def Let_def
  by (intro no_share.kept_after_rules quiet_steps no_share.refl) (simp_all add: no_share_same)

lemma quiet_publish_child [quiet_steps]:
  "no_share a s \<Longrightarrow> no_share a (snd (publish_child L env r min_size ch agg child p s))"
  unfolding publish_child_def Let_def
  by (intro no_share.kept_after_rules quiet_steps no_share.refl) (simp_all add: no_share_def)

lemma quiet_request [quiet_steps]:
  assumes "no_share a s"
  shows "no_share a (snd (handle_downstream_channel_request_in_aggregated_mode L env r user h min_size s))"
proof -
  have "no_share s (snd (handle_downstream_channel_request_in_aggregated_mode L env r user h min_size s))"
    unfolding handle_downstream_channel_request_in_aggregated_mode_def Let_def
    by (auto split: option.split prod.split sum.split intro!: quiet_publish_child quiet_send
        simp: no_share_same reject_downstream_channel_request_def no_share.refl)
  then show ?thesis by (rule no_share.trans [OF assms])
qed

lemma quiet_pending [quiet_steps]: "no_share a s \<Longrightarrow> no_share a (snd (open_pending_aggregated_downstream_channels L env s))"
  unfolding open_pending_aggregated_downstream_channels_def Let_def
  by (auto intro!: no_share.kept_each_after quiet_request no_share.refl split: prod.split) (simp add: no_share_def)

lemma quiet_case_prod:
  "(\<And>a b. p = (a, b) \<Longrightarrow> no_share s (snd (f a b))) \<Longrightarrow> no_share s (snd (case p of (a, b) \<Rightarrow> f a b))"
  by (cases p) simp

lemma quiet_open_success: "no_share s (snd (handle_open_extended_mining_channel_success L env m s))"
  unfolding handle_open_extended_mining_channel_success_def Let_def
  by (intro no_share.kept_after_rules quiet_case_prod quiet_steps no_share.refl) (simp_all add: no_share_same)

lemma quiet_upstream_message: "no_share s (snd (handle_upstream_message L B env m s))"
proof -
  have ext: "no_share s (snd (handle_request_extensions_success xs s))"
    "no_share s (snd (handle_request_extensions_error env r us rs s))" for xs r us rs
    by (auto simp: handle_request_extensions_success_def handle_request_extensions_error_def Let_def no_share.refl
        no_share_same intro!: quiet_send_upstream)
  have acc: "no_share s (snd (account_share f ch s))" for f ch by (simp add: account_share_def Let_def no_share_same)
  have grp: "no_share s (snd (handle_set_group_channel L g chs s))" for g chs
    by (auto simp: handle_set_group_channel_def install_group_def Let_def no_share_same no_share.refl split: sum.split)
  show ?thesis
    by (cases m) (simp_all add: quiet_open_success quiet_close_channel quiet_new_job quiet_set_new_prev_hash quiet_set_target
        quiet_set_extranonce_prefix ext acc grp handle_submit_shares_success_def handle_submit_shares_error_def
        handle_open_mining_channel_error_def no_share.refl)
qed

text \<open>A share: the counter moves and the share goes out with it, or the loop ends.\<close>

lemma numbered_send_share:
  assumes num: "numbered s" and s1: "cm_counters s1 = (cm_counters s)(k \<mapsto> n)" "cm_to_upstream s1 = cm_to_upstream s"
    and n: "n = (case cm_counters s k of Some c \<Rightarrow> c | None \<Rightarrow> 0) + 1"
    and m: "se_channel_id m = k" "se_sequence_number m = n"
    and r: "send_share L env worker m s1 = (Done u, s')"
  shows "numbered s'"
proof -
  obtain w where up: "cm_to_upstream s' = cm_to_upstream s @ [UpSubmitShares m w]" and cnt: "cm_counters s' = (cm_counters s)(k \<mapsto> n)"
    using r s1 by (auto simp: send_share_def Let_def send_upstream_def split: if_splits sum.splits)
  have "\<exists>i. share_numbers j (cm_to_upstream s') = map of_nat [1..<Suc i] \<and>
      (case cm_counters s' j of None \<Rightarrow> i = 0 | Some c \<Rightarrow> c = of_nat i)" for j
  proof -
    obtain i where i: "share_numbers j (cm_to_upstream s) = map of_nat [1..<Suc i]"
      "case cm_counters s j of None \<Rightarrow> i = 0 | Some c \<Rightarrow> c = of_nat i"
      using num by (auto simp: numbered_def)
    show ?thesis
    proof (cases "j = k")
      case True
      have "n = of_nat (Suc i)" using i(2) n True by (auto split: option.splits)
      then have "share_numbers j (cm_to_upstream s') = map of_nat [1..<Suc (Suc i)] \<and>
          (case cm_counters s' j of None \<Rightarrow> Suc i = 0 | Some c \<Rightarrow> c = of_nat (Suc i))"
        using i(1) True m by (simp add: up cnt share_numbers_snoc)
      then show ?thesis by blast
    qed (use i m in \<open>auto simp: up cnt share_numbers_snoc\<close>)
  qed
  then show ?thesis by (simp add: numbered_def)
qed

lemma prepend_local_cases:
  "(\<exists>m'. prepend_local n p m s = (Done m', s) \<and> se_channel_id m' = se_channel_id m \<and>
      se_sequence_number m' = se_sequence_number m) \<or>
   prepend_local n p m s = (Panicked, s) \<or> prepend_local n p m s = (Failed (tp_shutdown TpBinarySv2), s)"
  by (auto simp: prepend_local_def Let_def)

lemma send_share_continues:
  assumes "send_share L env worker m s = (out, s')" and "manager_continues out"
  shows "out = Done ()"
  using assms
  by (auto simp: send_share_def Let_def send_upstream_def manager_continues_def tp_shutdown_def tp_fallback_def
      split: if_splits sum.splits)

lemma numbered_send:
  assumes "numbered s" and "send_share L env worker m s1 = (out, s')" and "manager_continues out"
    and "cm_counters s1 = (cm_counters s)(k \<mapsto> (case cm_counters s k of Some c \<Rightarrow> c | None \<Rightarrow> 0) + 1)"
    and "cm_to_upstream s1 = cm_to_upstream s"
    and "se_channel_id m = k" and "se_sequence_number m = (case cm_counters s k of Some c \<Rightarrow> c | None \<Rightarrow> 0) + 1"
  shows "numbered s'"
  using numbered_send_share [OF assms(1,4,5) refl assms(6,7)] send_share_continues [OF assms(2,3)] assms(2) by blast

lemma numbered_extended: "numbered s \<Longrightarrow> numbered (s\<lparr>cm_extended := E\<rparr>)"
  by (simp add: numbered_def)

lemma numbered_share:
  assumes num: "numbered s" and r: "handle_share L env m worker s = (out, s')" and go: "manager_continues out"
  shows "numbered s'"
proof (cases "if is_aggregated (cm_mode s) then cm_extended s AGGREGATED_CHANNEL_ID else None")
  case (Some aggregate)
  let ?p = "case (cm_extended s (se_channel_id m), cm_allocator s) of
      (Some c, Some allocator) \<Rightarrow> prepend_local (al_upstream_prefix_len L allocator) (ch_prefix L c) m s
    | _ \<Rightarrow> (Done m, s)"
  have "(\<exists>m'. ?p = (Done m', s)) \<or> ?p = (Panicked, s) \<or> ?p = (Failed (tp_shutdown TpBinarySv2), s)"
    using prepend_local_cases [where m = m and s = s] by (simp split: option.split) blast
  then obtain m' where p: "?p = (Done m', s)"
    using r go Some by (auto simp: handle_share_def manager_continues_def tp_shutdown_def)
  show ?thesis
    using r num Some p
    by (auto simp: handle_share_def Let_def next_share_sequence_number_def numbered_extended split: prod.splits if_splits
        elim!: numbered_send [OF num _ go])
next
  case None
  show ?thesis
  proof (cases "cm_extended s (se_channel_id m)")
    case (Some c)
    obtain v c' where v: "ch_validate_share L m c = (v, c')" by fastforce
    let ?n = "(case cm_counters s (se_channel_id m) of Some c \<Rightarrow> c | None \<Rightarrow> 0) + 1"
    let ?s1 = "s\<lparr>cm_extended := (cm_extended s)(se_channel_id m \<mapsto> c')\<rparr>"
    let ?s2 = "?s1\<lparr>cm_counters := (cm_counters s)(se_channel_id m \<mapsto> ?n)\<rparr>"
    show ?thesis
    proof (cases "v = ShareValid")
      case True
      have r': "and_then (prepend_local (ch_upstream_prefix_len L c') (ch_prefix L c') (m\<lparr>se_sequence_number := ?n\<rparr>) ?s2)
          (send_share L env worker) = (out, s')"
        using r None Some v True by (simp add: handle_share_def Let_def next_share_sequence_number_def)
      then obtain m' where send: "send_share L env worker m' ?s2 = (out, s')"
        and m': "se_channel_id m' = se_channel_id m" "se_sequence_number m' = ?n"
        using prepend_local_cases [of "ch_upstream_prefix_len L c'" "ch_prefix L c'" "m\<lparr>se_sequence_number := ?n\<rparr>" ?s2] go
        by (auto simp: manager_continues_def tp_shutdown_def)
      show ?thesis by (rule numbered_send [OF num send go _ _ m']) simp_all
    qed (use r num None Some v in \<open>auto simp: handle_share_def numbered_extended\<close>)
  qed (use r num None in \<open>simp add: handle_share_def\<close>)
qed

lemma numbered_handle:
  assumes num: "numbered s" and r: "cm_handle L B env ev s = (out, s')" and go: "manager_continues out"
  shows "numbered s'"
proof (cases "\<exists>m w. ev = FromSv1 (OutSubmitShares m w)")
  case False
  have open_quiet: "no_share s (snd (handle_open_request L env m s))" for m
    unfolding handle_open_request_def Let_def
    by (auto intro!: quiet_request quiet_send_upstream no_share.refl simp: no_share_same split: aggregated_state.split)
  have upd: "no_share s (snd (handle_update_channel L env ch h t s))" for ch h t
    by (auto simp: handle_update_channel_def Let_def no_share_same intro!: quiet_send_upstream no_share.refl split: option.split)
  have close: "no_share s (snd (handle_close_from_sv1 L env ch s))" for ch
    by (auto simp: handle_close_from_sv1_def Let_def no_share_same remove_from_groups_def intro!: quiet_send_upstream no_share.refl)
  have "no_share s (snd (cm_handle L B env ev s))"
  proof (cases ev)
    case (FromSv1 m)
    then show ?thesis using False open_quiet upd close by (cases m) auto
  qed (simp add: quiet_upstream_message)
  then show ?thesis using no_share_numbered num r by (metis snd_conv)
qed (use assms numbered_share in auto)

text \<open>
  In every run the shares sent upstream for a channel are numbered 1, 2, 3 and so on in the order they
  are sent, modulo \<open>2 ^ 32\<close>, with no number skipped or used twice: rejected shares take no number, and
  neither does any other message.
\<close>

theorem shares_are_numbered_consecutively:
  assumes "cm_reach L B s"
  shows "\<exists>n. share_numbers k (cm_to_upstream s) = map of_nat [1..<Suc n]"
proof -
  have "numbered s" using assms
  proof (induction rule: cm_reach.induct)
    case (turn s env ev out s')
    then show ?case using numbered_handle by blast
  next
    case (payout s p s')
    then show ?case
      by (auto simp: set_expected_payout_distribution_def no_share_def split: option.splits intro: no_share_numbered [rotated])
  qed (simp add: channel_manager_new_def numbered_def share_numbers_def map_filter_def)
  then show ?thesis unfolding numbered_def by blast
qed

text \<open>Two shares of the miner of channel 7.\<close>

definition demo_share :: "u32 \<Rightarrow> submit_shares_extended" where
  "demo_share nonce = \<lparr>se_channel_id = 7, se_sequence_number = 0, se_job_id = 1, se_nonce = nonce, se_ntime = 5,
     se_version = 0, se_extranonce = [3]\<rparr>"

definition demo_shared :: "nat \<Rightarrow> demo_manager" where
  "demo_shared i = demo_changed\<lparr>cm_counters := [7 \<mapsto> of_nat i],
     cm_to_upstream := cm_to_upstream demo_changed @
       map (\<lambda>j. UpSubmitShares ((demo_share (of_nat j))\<lparr>se_sequence_number := of_nat j\<rparr>) None) [1..<Suc i]\<rparr>"

lemma demo_share_turns:
  "demo_turn (FromSv1 (OutSubmitShares (demo_share 1) None)) demo_changed = (Done (), demo_shared 1)"
  "demo_turn (FromSv1 (OutSubmitShares (demo_share 2) None)) (demo_shared 1) = (Done (), demo_shared 2)"
  by (simp_all add: demo_shared_def demo_share_def demo_states demo_simps handle_share_def next_share_sequence_number_def
      prepend_local_def send_share_def send_upstream_def numeral_2_eq_2)

lemma demo_shared_reached: "cm_reach demo_channels demo_btc (demo_shared 2)"
proof -
  have visit: "visits_all demo_cm_env (demo_shared i)" for i
    by (simp add: visits_all_def demo_shared_def demo_states demo_cm_env_def)
  from cm_reach.turn [OF demo_reaches demo_share_turns(1) _ demo_visits(5) visit]
  have "cm_reach demo_channels demo_btc (demo_shared 1)" by (simp add: manager_continues_def)
  from cm_reach.turn [OF this demo_share_turns(2) _ visit visit] show ?thesis by (simp add: manager_continues_def)
qed

theorem shares_are_numbered_consecutively_witness:
  "share_numbers 7 (cm_to_upstream (demo_shared 2)) = [1, 2] \<and>
   (\<exists>n. share_numbers 7 (cm_to_upstream (demo_shared 2)) = map of_nat [1..<Suc n])"
  using shares_are_numbered_consecutively [OF demo_shared_reached, of 7]
  by (simp add: demo_shared_def demo_states demo_share_def share_numbers_def map_filter_def numeral_2_eq_2)

section \<open>Jobs and the expected payout\<close>

text \<open>The size of the extranonce in the coinbase of a job, known from the channel or group it is addressed
  to.\<close>

definition addressed_size ::
  "('c, 'g, 'a, 'p) channels_lib \<Rightarrow> cm_env \<Rightarrow> ('c, 'g, 'a) channel_manager \<Rightarrow> channel_id \<Rightarrow> nat option" where
  "addressed_size L env s ch =
     (if is_aggregated (cm_mode s)
      then (case (cm_extended s AGGREGATED_CHANNEL_ID, filter (\<lambda>g. cm_groups s g \<noteq> None) (visit_groups env)) of
              (Some aggregate, g # _) \<Rightarrow>
                if ch_channel_id L aggregate = ch \<or> g = ch then Some (ch_full_extranonce_size L aggregate) else None
            | _ \<Rightarrow> None)
      else (case cm_groups s ch of
              Some gr \<Rightarrow> gr_full_extranonce_size L gr
            | None \<Rightarrow> map_option (ch_full_extranonce_size L) (cm_extended s ch)))"

lemma unaddressed_job_changes_nothing:
  assumes "addressed_size L env s (nj_channel_id m) = None"
  shows "snd (handle_new_extended_mining_job L B env m s) = s"
  using assms
  by (auto simp: handle_new_extended_mining_job_def addressed_size_def aggregated_scope_def or_fail_def
      split: option.splits list.splits if_splits)


lemma demo_unpaid:
  "validate_coinbase_tx_parts demo_btc (LegacySolo ''a'' (crs [0, 1])) [] [] 9 \<noteq> Ok ()"
  by (simp add: validate_coinbase_tx_parts_def validate_coinbase_outputs_def demo_btc_def spendable_def sum_sats_def Let_def)


section \<open>Channel ids\<close>

lemma first_free_None:
  "first_free used i = None \<longleftrightarrow> (\<forall>j. i \<le> j \<and> j < unat AGGREGATED_CHANNEL_ID \<longrightarrow> used (of_nat j))"
proof (induction used i rule: first_free.induct)
  case (1 used i)
  show ?case
  proof (cases "i < unat AGGREGATED_CHANNEL_ID \<and> used (of_nat i)")
    case True
    then show ?thesis
      using 1 first_free.simps [of used i] by (auto simp: Suc_le_eq) (metis le_neq_implies_less)
  next
    case False
    then show ?thesis using first_free.simps [of used i] by (auto split: if_splits)
  qed
qed

text \<open>
  The search for the id of a new channel under the aggregated one always ends with the right answer: an
  id that is not the reserved one, is at least 1 and names no channel; and it gives up only when every id
  from 1 up to the reserved one is taken. It skips the scan unless the highest id in use is the last one.
\<close>

theorem channel_id_search_is_complete:
  assumes "visits_all env s"
  shows "case next_downstream_channel_id env s of
      Some ch \<Rightarrow> cm_extended s ch = None \<and> ch \<noteq> AGGREGATED_CHANNEL_ID \<and> 1 \<le> ch
    | None \<Rightarrow> \<forall>ch. 1 \<le> ch \<and> ch < AGGREGATED_CHANNEL_ID \<longrightarrow> cm_extended s ch \<noteq> None"
proof (cases "next_downstream_channel_id env s")
  case (Some ch)
  have "1 \<le> ch"
  proof (cases "highest_channel_id env s \<noteq> - 1 \<and> highest_channel_id env s + 1 \<noteq> AGGREGATED_CHANNEL_ID")
    case True
    then have "ch = highest_channel_id env s + 1" using Some by (simp add: next_downstream_channel_id_def Let_def)
    then have "ch \<noteq> 0" using True by (metis add.commute eq_neg_iff_add_eq_0)
    then show ?thesis by (simp add: word_le_nat_alt Suc_le_eq unat_gt_0)
  next
    case False
    then have "first_free (\<lambda>i. cm_extended s i \<noteq> None) 1 = Some ch"
      using Some by (auto simp: next_downstream_channel_id_def Let_def split: if_splits)
    then show ?thesis using first_free_spec by (fastforce simp: word_le_nat_alt)
  qed
  then show ?thesis using Some next_downstream_channel_id_fresh [OF assms Some] by simp
next
  case None
  then have none: "first_free (\<lambda>i. cm_extended s i \<noteq> None) 1 = None"
    by (simp add: next_downstream_channel_id_def Let_def split: if_splits)
  have "cm_extended s ch \<noteq> None" if "1 \<le> ch" "ch < AGGREGATED_CHANNEL_ID" for ch
    using none [unfolded first_free_None, rule_format, of "unat ch"] that by (simp add: word_le_nat_alt word_less_nat_alt)
  then show ?thesis using None by simp
qed

theorem channel_id_search_is_complete_witness:
  "case next_downstream_channel_id demo_cm_env demo_changed of
      Some ch \<Rightarrow> cm_extended demo_changed ch = None \<and> ch \<noteq> AGGREGATED_CHANNEL_ID \<and> 1 \<le> ch
    | None \<Rightarrow> \<forall>ch. 1 \<le> ch \<and> ch < AGGREGATED_CHANNEL_ID \<longrightarrow> cm_extended demo_changed ch \<noteq> None"
  by (rule channel_id_search_is_complete [OF demo_visits(5)])

end
