(* ===== verification/Coinbase_Constraints.thy ===== *)
theory Coinbase_Constraints
  imports Payout
begin

text \<open>
  \<open>stratum-apps/src/coinbase_output_constraints.rs\<close>: how much room the Template Provider has to leave in a
  block for the coinbase outputs, in bytes and in signature operations. The pool announces its own output
  and a margin for a miner's address; the payouts of \<open>Payout\<close> have to fit what was announced, since
  the template they are put into is already full.

  \<open>Transaction::total_sigop_cost\<close> of the \<open>bitcoin\<close> crate is the argument \<open>sigop_cost\<close>.
\<close>

section \<open>Model\<close>

definition OFFSET_ADDITIONAL_SIZE :: u32 where
  "OFFSET_ADDITIONAL_SIZE = 43"

definition OFFSET_MAX_SIGOPS :: u16 where
  "OFFSET_MAX_SIGOPS = 4"

record coinbase_output_constraints =
  max_additional_size :: u32
  max_additional_sigops :: u16

text \<open>\<open>TxOut::size\<close>: the value, the length of the script and the script.\<close>

definition txout_size :: "btc_lib \<Rightarrow> tx_out \<Rightarrow> nat" where
  "txout_size B out =
     8 + varint_size B (of_nat (length (script_pubkey out))) + length (script_pubkey out)"

definition dummy_coinbase :: "tx_out list \<Rightarrow> transaction" where
  "dummy_coinbase outs =
     \<lparr>tx_version = 2, tx_lock_time = 0,
      tx_input = [\<lparr>prev_txid = 0, prev_vout = - 1, script_sig = [], sequence = - 1, witness = [replicate 32 0]\<rparr>],
      tx_output = outs\<rparr>"

definition coinbase_output_constraints_message ::
  "btc_lib \<Rightarrow> (transaction \<Rightarrow> nat) \<Rightarrow> tx_out list \<Rightarrow> coinbase_output_constraints" where
  "coinbase_output_constraints_message B sigop_cost outs =
     \<lparr>max_additional_size = sum_list (map (\<lambda>out. of_nat (txout_size B out)) outs),
      max_additional_sigops = of_nat (sigop_cost (dummy_coinbase outs))\<rparr>"

definition coinbase_output_constraints_message_with_offset ::
  "btc_lib \<Rightarrow> (transaction \<Rightarrow> nat) \<Rightarrow> tx_out list \<Rightarrow> coinbase_output_constraints" where
  "coinbase_output_constraints_message_with_offset B sigop_cost outs =
     (let constraints = coinbase_output_constraints_message B sigop_cost outs
      in \<lparr>max_additional_size = max_additional_size constraints + OFFSET_ADDITIONAL_SIZE,
          max_additional_sigops = max_additional_sigops constraints + OFFSET_MAX_SIGOPS\<rparr>)"

text \<open>The pool's own output, \<open>PoolConfig::get_txout\<close>.\<close>

definition get_txout :: "coinbase_reward_script \<Rightarrow> tx_out" where
  "get_txout pool_script = \<lparr>txout_value = 0, script_pubkey = crs_script_pubkey pool_script\<rparr>"

section \<open>What is built fits what was announced\<close>

definition outputs_size :: "btc_lib \<Rightarrow> tx_out list \<Rightarrow> nat" where
  "outputs_size B outs = sum_list (map (txout_size B) outs)"

text \<open>The signature operations of a coinbase are those of its output scripts.\<close>

definition sigops_add_up :: "(transaction \<Rightarrow> nat) \<Rightarrow> (script \<Rightarrow> nat) \<Rightarrow> bool" where
  "sigops_add_up sigop_cost script_cost \<longleftrightarrow>
     (\<forall>outs. sigop_cost (dummy_coinbase outs) = sum_list (map (script_cost \<circ> script_pubkey) outs))"

text \<open>A miner's script that is no larger than a Taproot output and no dearer than a key hash.\<close>

definition standard_miner_script :: "btc_lib \<Rightarrow> (script \<Rightarrow> nat) \<Rightarrow> payout_mode \<Rightarrow> bool" where
  "standard_miner_script B script_cost m \<longleftrightarrow>
     (case miner_script_pubkey m of
        None \<Rightarrow> True
      | Some sc \<Rightarrow> 8 + varint_size B (of_nat (length sc)) + length sc \<le> unat OFFSET_ADDITIONAL_SIZE \<and>
                  script_cost sc \<le> unat OFFSET_MAX_SIGOPS)"

lemma announced_size:
  assumes "txout_size B (get_txout pool_script) + unat OFFSET_ADDITIONAL_SIZE < 2 ^ 32"
  shows "unat (max_additional_size (coinbase_output_constraints_message_with_offset B sigop_cost [get_txout pool_script])) =
    txout_size B (get_txout pool_script) + unat OFFSET_ADDITIONAL_SIZE"
proof -
  have "unat (of_nat (txout_size B (get_txout pool_script)) :: u32) = txout_size B (get_txout pool_script)"
    using assms by (simp add: unat_of_nat)
  then show ?thesis
    using assms
    by (simp add: coinbase_output_constraints_message_with_offset_def coinbase_output_constraints_message_def Let_def
        unat_add_no_overflow)
qed

lemma announced_sigops:
  assumes "sigops_add_up sigop_cost script_cost"
    and "script_cost (crs_script_pubkey pool_script) + unat OFFSET_MAX_SIGOPS < 2 ^ 16"
  shows "unat (max_additional_sigops (coinbase_output_constraints_message_with_offset B sigop_cost [get_txout pool_script])) =
    script_cost (crs_script_pubkey pool_script) + unat OFFSET_MAX_SIGOPS"
proof -
  have "sigop_cost (dummy_coinbase [get_txout pool_script]) = script_cost (crs_script_pubkey pool_script)"
    using assms(1) by (simp add: sigops_add_up_def get_txout_def)
  moreover have "unat (of_nat (script_cost (crs_script_pubkey pool_script)) :: u16) = script_cost (crs_script_pubkey pool_script)"
    using assms(2) by (simp add: unat_of_nat)
  ultimately show ?thesis
    using assms(2)
    by (simp add: coinbase_output_constraints_message_with_offset_def coinbase_output_constraints_message_def Let_def
        unat_add_no_overflow)
qed

lemma txout_size_script: "script_pubkey a = script_pubkey b \<Longrightarrow> txout_size B a = txout_size B b"
  by (simp add: txout_size_def)

text \<open>
  The outputs of every payout fit the constraints the pool announced with its own output alone:
  whatever the miner's identity asks for (the whole reward, a share, or nothing), the coinbase the pool
  builds needs no more bytes and no more signature operations than the Template Provider left room for,
  for a miner's address of a standard type.
\<close>

theorem payouts_fit_the_announced_constraints:
  assumes "sigops_add_up sigop_cost script_cost" and "standard_miner_script B script_cost m"
    and "txout_size B (get_txout pool_script) + unat OFFSET_ADDITIONAL_SIZE < 2 ^ 32"
    and "script_cost (crs_script_pubkey pool_script) + unat OFFSET_MAX_SIGOPS < 2 ^ 16"
  defines "announced \<equiv> coinbase_output_constraints_message_with_offset B sigop_cost [get_txout pool_script]"
  shows "outputs_size B (coinbase_outputs m value pool_script) \<le> unat (max_additional_size announced) \<and>
    sigop_cost (dummy_coinbase (coinbase_outputs m value pool_script)) \<le> unat (max_additional_sigops announced)"
proof
  show "outputs_size B (coinbase_outputs m value pool_script) \<le> unat (max_additional_size announced)"
    unfolding announced_def announced_size [OF assms(3)] using assms(2)
    by (cases m) (simp_all add: outputs_size_def txout_size_def get_txout_def standard_miner_script_def Let_def)
  show "sigop_cost (dummy_coinbase (coinbase_outputs m value pool_script)) \<le> unat (max_additional_sigops announced)"
    unfolding announced_def announced_sigops [OF assms(1,4)] using assms(1,2)
    by (cases m) (simp_all add: sigops_add_up_def standard_miner_script_def Let_def)
qed

theorem payouts_fit_the_announced_constraints_witness:
  "outputs_size demo_btc (coinbase_outputs (Donate 10 ''a'' (crs (replicate 34 7))) 5000 (crs (replicate 22 9))) \<le>
     unat (max_additional_size (coinbase_output_constraints_message_with_offset demo_btc
       (\<lambda>tx. 4 * length (tx_output tx)) [get_txout (crs (replicate 22 9))])) \<and>
   4 * length (coinbase_outputs (Donate 10 ''a'' (crs (replicate 34 7))) 5000 (crs (replicate 22 9))) \<le>
     unat (max_additional_sigops (coinbase_output_constraints_message_with_offset demo_btc
       (\<lambda>tx. 4 * length (tx_output tx)) [get_txout (crs (replicate 22 9))]))"
  using payouts_fit_the_announced_constraints [of "\<lambda>tx. 4 * length (tx_output tx)" "\<lambda>_. 4" demo_btc
      "Donate 10 ''a'' (crs (replicate 34 7))" "crs (replicate 22 9)" 5000]
  by (simp add: sigops_add_up_def dummy_coinbase_def standard_miner_script_def OFFSET_ADDITIONAL_SIZE_def
      OFFSET_MAX_SIGOPS_def txout_size_def get_txout_def demo_btc_def sum_list_replicate comp_def map_replicate_const)

end
