(* ===== verification/Template_Messages.thy ===== *)
theory Template_Messages
  imports Coinbase_Constraints Mining_Messages
begin

text \<open>The messages of the SV2 template distribution protocol that the pool and the runtime over Bitcoin Core
  exchange, with the fields either of them reads or writes.\<close>

record new_template =
  tm_template_id :: u64
  tm_future_template :: bool
  tm_version :: u32
  tm_coinbase_tx_version :: u32
  tm_coinbase_prefix :: bytes
  tm_coinbase_tx_input_sequence :: u32
  tm_coinbase_tx_value_remaining :: u64
  tm_coinbase_tx_outputs_count :: u32
  tm_coinbase_tx_outputs :: bytes
  tm_coinbase_tx_locktime :: u32
  tm_merkle_path :: "merkle_node list"

record template_prev_hash =
  tph_template_id :: u64
  tph_prev_hash :: block_hash
  tph_ntime_start :: u32
  tph_n_bits :: u32
  tph_target :: target

record submit_solution =
  sol_template_id :: u64
  sol_version :: u32
  sol_ntime :: u32
  sol_nonce :: u32
  sol_coinbase_tx :: bytes

end
