(* ===== verification/Pool_State.thy ===== *)
theory Pool_State
  imports Chains Template_Messages Job_Declarator
begin

text \<open>
  \<open>pool-apps/pool/src/lib/channel_manager/mod.rs\<close>, with \<open>error.rs\<close>, \<open>utils.rs\<close> and the \<open>Downstream\<close> of
  \<open>downstream/mod.rs\<close>: the state of the pool's channel manager, the messages it routes, and the life of a
  connection in its registries.

  Standard, extended and group channels, their jobs, the extranonce allocator with its prefixes and the
  variable-difficulty states are values of \<open>channels_sv2\<close>, reached through the functions of the record
  \<open>pool_lib\<close>. A prefix is owned by the channel it was made for and goes back to the allocator when that
  channel is dropped. A connection that left the registry is still held by its own task: its channels wait
  in \<open>pl_departing\<close> until the task drops them.

  The closure a handler runs under \<open>with_registered_downstream\<close> holds the guard of the registry's entry, so
  it is one step here. A lock is never poisoned in the model, since a panic ends the run. The error codes
  \<open>channels_sv2\<close> reports are short literals, so their conversion to \<open>Str0255\<close> succeeds.
\<close>

section \<open>Errors\<close>

datatype pool_error_kind =
    PkDownstreamNotFound downstream_id
  | PkFutureTemplateNotPresent
  | PkLastNewPrevhashNotFound
  | PkChannelSv2
  | PkBinarySv2
  | PkVardiff
  | PkJobNotFound
  | PkChannelErrorSender
  | PkChannelSend
  | PkChannelRecv
  | PkParser
  | PkUnexpectedMessage u16 u8
  | PkUnsupportedProtocol
  | PkSetupConnectionError
  | PkClientDoesNotSupportRequiredExtensions "u16 list"
  | PkInvalidSocketAddress
  | PkChangeEndpoint
  | PkTimeout
  | PkInvalidKey
  | PkCouldNotInitiateSystem

datatype pool_action = PoolLog | PoolDisconnect downstream_id | PoolShutdown

record pool_error =
  pe_kind :: pool_error_kind
  pe_action :: pool_action

definition pool_log :: "pool_error_kind \<Rightarrow> pool_error" where
  "pool_log k = \<lparr>pe_kind = k, pe_action = PoolLog\<rparr>"

definition pool_disconnect :: "pool_error_kind \<Rightarrow> downstream_id \<Rightarrow> pool_error" where
  "pool_disconnect k d = \<lparr>pe_kind = k, pe_action = PoolDisconnect d\<rparr>"

definition pool_shutdown :: "pool_error_kind \<Rightarrow> pool_error" where
  "pool_shutdown k = \<lparr>pe_kind = k, pe_action = PoolShutdown\<rparr>"

section \<open>Messages\<close>

record new_mining_job =
  sm_channel_id :: channel_id
  sm_job_id :: u32
  sm_min_ntime :: "u32 option"
  sm_version :: u32
  sm_merkle_root :: bytes

record submit_shares_standard =
  ss_channel_id :: channel_id
  ss_sequence_number :: u32
  ss_job_id :: u32
  ss_nonce :: u32
  ss_ntime :: u32
  ss_version :: u32

record open_standard_msg =
  so_request_id :: request_id
  so_user_identity :: string
  so_nominal_hash_rate :: hashrate
  so_max_target :: target

text \<open>Error codes: those the pool chooses, by name, and those \<open>channels_sv2\<close> or the Job Declarator hand it.\<close>

datatype mining_error_code =
    STANDARD_CHANNELS_NOT_SUPPORTED_FOR_CUSTOM_WORK
  | EXTENDED_CHANNELS_NOT_SUPPORTED_FOR_STANDARD_JOBS
  | INVALID_USER_IDENTITY
  | INCOMPATIBLE_PAYOUT_MODE
  | CHANNEL_CAPACITY_EXHAUSTED
  | MIN_EXTRANONCE_SIZE_TOO_LARGE
  | SUBMIT_SHARES_INVALID_CHANNEL_ID
  | UPDATE_CHANNEL_INVALID_CHANNEL_ID
  | CUSTOM_JOB_JD_NOT_SUPPORTED
  | CUSTOM_JOB_INVALID_CHANNEL_ID
  | CodeOfLibrary string
  | CodeOfJds error_code

datatype to_client =
    MnOpenError request_id mining_error_code
  | MnOpenStandardSuccess request_id channel_id target bytes channel_id
  | MnOpenExtendedSuccess request_id channel_id target bytes u16 channel_id
  | MnNewMiningJob new_mining_job
  | MnNewExtendedMiningJob new_extended_mining_job
  | MnSetNewPrevHash set_new_prev_hash
  | MnSubmitSharesSuccess channel_id u32 u32 u64
  | MnSubmitSharesError channel_id u32 mining_error_code
  | MnCloseChannel channel_id mining_error_code
  | MnUpdateChannelError channel_id mining_error_code
  | MnSetTarget channel_id target
  | MnSetCustomMiningJobSuccess channel_id request_id u32
  | MnSetCustomMiningJobError request_id channel_id mining_error_code

datatype to_template_provider =
    TpSubmitSolution submit_solution
  | TpCoinbaseOutputConstraints coinbase_output_constraints

datatype route_message_to = ToTemplateProvider to_template_provider | ToDownstream downstream_id to_client

section \<open>The libraries\<close>

datatype open_channel_error = OpenInvalid string | OpenOther

datatype update_channel_error = UpdateInvalid string | UpdateOther

datatype allocator_error = CapacityExhausted | InvalidRollableSize | OtherAllocatorError

datatype share_validation_result = ShareAccepted | BlockFound "u64 option" bytes

datatype share_validation_error =
    ShInvalid string
  | ShStale string
  | ShInvalidJobId string
  | ShDoesNotMeetTarget string
  | ShDuplicateShare string
  | ShBadExtranonceSize string
  | ShVersionRollingNotAllowed string
  | ShSeenSharesBudgetExhausted
  | ShOther

record share_accounting =
  sa_should_acknowledge :: bool
  sa_last_sequence_number :: u32
  sa_last_batch_accepted :: u32
  sa_last_batch_work_sum :: u64

type_synonym share_validation = "(share_validation_error, share_validation_result) result"

record ('s, 'e, 'g, 'j, 'a, 'p, 'v) pool_lib =
  std_new :: "channel_id \<Rightarrow> string \<Rightarrow> 'p \<Rightarrow> target \<Rightarrow> hashrate \<Rightarrow> nat \<Rightarrow> hashrate \<Rightarrow> string \<Rightarrow> nat option \<Rightarrow>
    (open_channel_error, 's) result"
  std_slot :: "'s \<Rightarrow> 'p"
  std_user_identity :: "'s \<Rightarrow> string"
  std_target :: "'s \<Rightarrow> target"
  std_nominal_hashrate :: "'s \<Rightarrow> hashrate"
  std_shares_per_minute :: "'s \<Rightarrow> hashrate"
  std_set_stable :: "bool \<Rightarrow> 's \<Rightarrow> 's"
  std_accounting :: "'s \<Rightarrow> share_accounting"
  std_on_new_template :: "new_template \<Rightarrow> tx_out list \<Rightarrow> 's \<Rightarrow> 's option"
  std_on_group_job :: "'j \<Rightarrow> 's \<Rightarrow> 's option"
  std_on_prev_hash :: "template_prev_hash \<Rightarrow> 's \<Rightarrow> 's option"
  std_future_job_id :: "u64 \<Rightarrow> 's \<Rightarrow> u32 option"
  std_future_job :: "u32 \<Rightarrow> 's \<Rightarrow> new_mining_job option"
  std_active_job :: "'s \<Rightarrow> new_mining_job option"
  std_validate_share :: "submit_shares_standard \<Rightarrow> 's \<Rightarrow> share_validation \<times> 's"
  std_update :: "hashrate \<Rightarrow> target option \<Rightarrow> 's \<Rightarrow> (update_channel_error, 's) result"
  ext_new :: "channel_id \<Rightarrow> string \<Rightarrow> 'p \<Rightarrow> target \<Rightarrow> hashrate \<Rightarrow> bool \<Rightarrow> u16 \<Rightarrow> nat \<Rightarrow> hashrate \<Rightarrow> string \<Rightarrow>
    nat option \<Rightarrow> (open_channel_error, 'e) result"
  ext_slot :: "'e \<Rightarrow> 'p"
  ext_user_identity :: "'e \<Rightarrow> string"
  ext_target :: "'e \<Rightarrow> target"
  ext_rollable_extranonce_size :: "'e \<Rightarrow> u16"
  ext_full_extranonce_size :: "'e \<Rightarrow> nat"
  ext_nominal_hashrate :: "'e \<Rightarrow> hashrate"
  ext_shares_per_minute :: "'e \<Rightarrow> hashrate"
  ext_set_stable :: "bool \<Rightarrow> 'e \<Rightarrow> 'e"
  ext_accounting :: "'e \<Rightarrow> share_accounting"
  ext_on_new_template :: "new_template \<Rightarrow> tx_out list \<Rightarrow> 'e \<Rightarrow> 'e option"
  ext_on_group_job :: "'j \<Rightarrow> 'e \<Rightarrow> 'e option"
  ext_on_prev_hash :: "template_prev_hash \<Rightarrow> 'e \<Rightarrow> 'e option"
  ext_on_custom_job :: "set_custom_mining_job \<Rightarrow> 'e \<Rightarrow> (u32 \<times> 'e) option"
  ext_future_job_id :: "u64 \<Rightarrow> 'e \<Rightarrow> u32 option"
  ext_future_job :: "u32 \<Rightarrow> 'e \<Rightarrow> 'j option"
  ext_validate_share :: "submit_shares_extended \<Rightarrow> 'e \<Rightarrow> share_validation \<times> 'e"
  ext_update :: "hashrate \<Rightarrow> target option \<Rightarrow> 'e \<Rightarrow> (update_channel_error, 'e) result"
  grp_new :: "channel_id \<Rightarrow> nat \<Rightarrow> bool \<Rightarrow> string \<Rightarrow> 'g option"
  grp_id :: "'g \<Rightarrow> channel_id"
  grp_ids :: "'g \<Rightarrow> channel_id list"
  grp_add :: "channel_id \<Rightarrow> nat \<Rightarrow> 'g \<Rightarrow> 'g option"
  grp_remove :: "channel_id \<Rightarrow> 'g \<Rightarrow> 'g"
  grp_on_new_template :: "new_template \<Rightarrow> tx_out list \<Rightarrow> 'g \<Rightarrow> 'g option"
  grp_on_prev_hash :: "template_prev_hash \<Rightarrow> 'g \<Rightarrow> 'g option"
  grp_future_job_id :: "u64 \<Rightarrow> 'g \<Rightarrow> u32 option"
  grp_future_job :: "u32 \<Rightarrow> 'g \<Rightarrow> 'j option"
  grp_active_job :: "'g \<Rightarrow> 'j option"
  job_message :: "'j \<Rightarrow> new_extended_mining_job"
  job_id_of :: "'j \<Rightarrow> u32"
  alloc_new :: "bytes \<Rightarrow> u8 \<Rightarrow> u32 \<Rightarrow> 'a option"
  alloc_standard :: "'a \<Rightarrow> (allocator_error, 'p) result \<times> 'a"
  alloc_extended :: "nat \<Rightarrow> 'a \<Rightarrow> (allocator_error, 'p) result \<times> 'a"
  alloc_release :: "'p \<Rightarrow> 'a \<Rightarrow> 'a"
  slot_bytes :: "'p \<Rightarrow> bytes"
  vd_new :: "'v option"
  vd_increment :: "'v \<Rightarrow> 'v"
  vd_try :: "'v \<Rightarrow> hashrate \<Rightarrow> target \<Rightarrow> hashrate \<Rightarrow> (unit, hashrate option) result \<times> 'v"
  bytes_needed_for :: "u32 \<Rightarrow> u8"
  deserialize_outputs :: "bytes \<Rightarrow> tx_out list option"

section \<open>State\<close>

definition POOL_SERVER_BYTES :: u8 where
  "POOL_SERVER_BYTES = 1"

definition POOL_MAX_CHANNELS :: u32 where
  "POOL_MAX_CHANNELS = 16777216"

definition POOL_LOCAL_PREFIX_BYTES :: "('s, 'e, 'g, 'j, 'a, 'p, 'v) pool_lib \<Rightarrow> u8" where
  "POOL_LOCAL_PREFIX_BYTES L = bytes_needed_for L POOL_MAX_CHANNELS"

definition POOL_ALLOCATION_BYTES :: "('s, 'e, 'g, 'j, 'a, 'p, 'v) pool_lib \<Rightarrow> u8" where
  "POOL_ALLOCATION_BYTES L = POOL_SERVER_BYTES + POOL_LOCAL_PREFIX_BYTES L"

definition CLIENT_SEARCH_SPACE_BYTES :: u8 where
  "CLIENT_SEARCH_SPACE_BYTES = 16"

definition FULL_EXTRANONCE_SIZE :: "('s, 'e, 'g, 'j, 'a, 'p, 'v) pool_lib \<Rightarrow> u8" where
  "FULL_EXTRANONCE_SIZE L = POOL_ALLOCATION_BYTES L + CLIENT_SEARCH_SPACE_BYTES"

record ('s, 'e, 'g) pool_client =
  pd_group :: 'g
  pd_extended :: "channel_id \<rightharpoonup> 'e"
  pd_standard :: "channel_id \<rightharpoonup> 's"
  pd_channel_id_factory :: u32
  pd_negotiated_extensions :: "u16 list"
  pd_payout_mode :: "payout_mode option"
  pd_requires_standard_jobs :: bool
  pd_requires_custom_work :: bool
  pd_supported_extensions :: "u16 list"
  pd_required_extensions :: "u16 list"

text \<open>The embedded Job Declarator is shared with its own tasks, hence the whole of \<open>jd_system\<close>.\<close>

record ('s, 'e, 'g, 'a, 'v) pool =
  pl_downstreams :: "downstream_id \<rightharpoonup> ('s, 'e, 'g) pool_client"
  pl_allocator :: 'a
  pl_downstream_id_factory :: u64
  pl_vardiff :: "downstream_id \<times> channel_id \<rightharpoonup> 'v"
  pl_coinbase_outputs :: bytes
  pl_last_new_prev_hash :: "template_prev_hash option"
  pl_last_future_template :: "new_template option"
  pl_senders :: "downstream_id set"
  pl_pool_tag_string :: string
  pl_share_batch_size :: nat
  pl_shares_per_minute :: hashrate
  pl_max_past_jobs :: "nat option"
  pl_coinbase_reward_script :: coinbase_reward_script
  pl_supported_extensions :: "u16 list"
  pl_required_extensions :: "u16 list"
  pl_job_declarator :: "jd_system option"
  pl_departing :: "downstream_id \<rightharpoonup> ('s, 'e, 'g) pool_client"
  pl_to_clients :: "(downstream_id \<times> to_client) list"
  pl_to_template_provider :: "to_template_provider list"

record pool_config =
  cfg_server_id :: u8
  cfg_share_batch_size :: nat
  cfg_shares_per_minute :: hashrate
  cfg_max_past_jobs :: "nat option"
  cfg_pool_signature :: string
  cfg_coinbase_reward_script :: coinbase_reward_script
  cfg_supported_extensions :: "u16 list"
  cfg_required_extensions :: "u16 list"

text \<open>Whose queues still have a reader, and the order in which the maps are visited.\<close>

record pool_env =
  client_reads :: "downstream_id \<Rightarrow> bool"
  provider_reads :: bool
  visit_clients :: "downstream_id list"
  visit_client_channels :: "downstream_id \<Rightarrow> channel_id list"
  visit_vardiff :: "(downstream_id \<times> channel_id) list"

definition pool_new ::
  "('s, 'e, 'g, 'j, 'a, 'p, 'v) pool_lib \<Rightarrow> pool_config \<Rightarrow> bytes \<Rightarrow> jd_system option \<Rightarrow>
   (pool_error, ('s, 'e, 'g, 'a, 'v) pool) result" where
  "pool_new L cfg outputs job_declarator =
     (case alloc_new L [cfg_server_id cfg] (FULL_EXTRANONCE_SIZE L) POOL_MAX_CHANNELS of
        None \<Rightarrow> Err (pool_shutdown PkChannelSv2)
      | Some allocator \<Rightarrow>
          Ok \<lparr>pl_downstreams = Map.empty, pl_allocator = allocator, pl_downstream_id_factory = 1,
              pl_vardiff = Map.empty, pl_coinbase_outputs = outputs, pl_last_new_prev_hash = None,
              pl_last_future_template = None, pl_senders = {}, pl_pool_tag_string = cfg_pool_signature cfg,
              pl_share_batch_size = cfg_share_batch_size cfg, pl_shares_per_minute = cfg_shares_per_minute cfg,
              pl_max_past_jobs = cfg_max_past_jobs cfg,
              pl_coinbase_reward_script = cfg_coinbase_reward_script cfg,
              pl_supported_extensions = cfg_supported_extensions cfg,
              pl_required_extensions = cfg_required_extensions cfg, pl_job_declarator = job_declarator,
              pl_departing = Map.empty, pl_to_clients = [], pl_to_template_provider = []\<rparr>)"

section \<open>Registries\<close>

definition put_client ::
  "downstream_id \<Rightarrow> ('s, 'e, 'g) pool_client \<Rightarrow> ('s, 'e, 'g, 'a, 'v) pool \<Rightarrow> ('s, 'e, 'g, 'a, 'v) pool" where
  "put_client d c s = s\<lparr>pl_downstreams := (pl_downstreams s)(d \<mapsto> c)\<rparr>"

definition release_slot ::
  "('s, 'e, 'g, 'j, 'a, 'p, 'v) pool_lib \<Rightarrow> 'p option \<Rightarrow> ('s, 'e, 'g, 'a, 'v) pool \<Rightarrow> ('s, 'e, 'g, 'a, 'v) pool" where
  "release_slot L p s =
     (case p of None \<Rightarrow> s | Some q \<Rightarrow> s\<lparr>pl_allocator := alloc_release L q (pl_allocator s)\<rparr>)"

definition with_registered_downstream ::
  "downstream_id \<Rightarrow> (('s, 'e, 'g) pool_client \<Rightarrow> ('s, 'e, 'g, 'a, 'v) pool \<Rightarrow>
     (pool_error, 'r) attempt \<times> ('s, 'e, 'g, 'a, 'v) pool) \<Rightarrow>
   ('s, 'e, 'g, 'a, 'v) pool \<Rightarrow> (pool_error, 'r) attempt \<times> ('s, 'e, 'g, 'a, 'v) pool" where
  "with_registered_downstream d f s =
     (case pl_downstreams s d of
        None \<Rightarrow> (Failed (pool_disconnect (PkDownstreamNotFound d) d), s)
      | Some c \<Rightarrow> f c s)"

definition remove_downstream ::
  "downstream_id \<Rightarrow> ('s, 'e, 'g, 'a, 'v) pool \<Rightarrow> ('s, 'e, 'g, 'a, 'v) pool" where
  "remove_downstream d s =
     s\<lparr>pl_downstreams := snd (sm_remove (pl_downstreams s) d),
       pl_vardiff := sm_retain (pl_vardiff s) (\<lambda>key _. fst key \<noteq> d),
       pl_senders := pl_senders s - {d},
       pl_departing := (case pl_downstreams s d of
          None \<Rightarrow> pl_departing s | Some c \<Rightarrow> (pl_departing s)(d \<mapsto> c))\<rparr>"

text \<open>\<open>RouteMessageTo::forward\<close>: whether the send succeeded, and the queues. A message for a client that
  is no longer registered is dropped without an error.\<close>

definition forward ::
  "pool_env \<Rightarrow> route_message_to \<Rightarrow> ('s, 'e, 'g, 'a, 'v) pool \<Rightarrow> bool \<times> ('s, 'e, 'g, 'a, 'v) pool" where
  "forward env m s =
     (case m of
        ToDownstream d msg \<Rightarrow>
          if d \<in> pl_senders s
          then (if client_reads env d then (True, s\<lparr>pl_to_clients := pl_to_clients s @ [(d, msg)]\<rparr>) else (False, s))
          else (True, s)
      | ToTemplateProvider msg \<Rightarrow>
          if provider_reads env
          then (True, s\<lparr>pl_to_template_provider := pl_to_template_provider s @ [msg]\<rparr>) else (False, s))"

text \<open>The loop at the end of most handlers: a failed send is logged and the next message goes on.\<close>

fun forward_all ::
  "pool_env \<Rightarrow> route_message_to list \<Rightarrow> ('s, 'e, 'g, 'a, 'v) pool \<Rightarrow> ('s, 'e, 'g, 'a, 'v) pool" where
  "forward_all env [] s = s"
| "forward_all env (m # ms) s = forward_all env ms (snd (forward env m s))"

definition then_forward ::
  "pool_env \<Rightarrow> (pool_error, route_message_to list) attempt \<times> ('s, 'e, 'g, 'a, 'v) pool \<Rightarrow>
   (pool_error, unit) attempt \<times> ('s, 'e, 'g, 'a, 'v) pool" where
  "then_forward env r = and_then r (\<lambda>ms s. (Done (), forward_all env ms s))"

definition pool_error_action ::
  "pool_error \<Rightarrow> ('s, 'e, 'g, 'a, 'v) pool \<Rightarrow> loop_control \<times> ('s, 'e, 'g, 'a, 'v) pool" where
  "pool_error_action e s =
     (case pe_action e of
        PoolLog \<Rightarrow> (Continue, s)
      | PoolDisconnect d \<Rightarrow> (Continue, remove_downstream d s)
      | PoolShutdown \<Rightarrow> (Break, s))"

section \<open>Connections\<close>

definition bootstrap_group_channel ::
  "('s, 'e, 'g, 'j, 'a, 'p, 'v) pool_lib \<Rightarrow> channel_id \<Rightarrow> ('s, 'e, 'g, 'a, 'v) pool \<Rightarrow>
   (pool_error, 'g option) attempt" where
  "bootstrap_group_channel L ch s =
     (case (pl_last_future_template s, pl_last_new_prev_hash s) of
        (Some template, Some prev_hash) \<Rightarrow>
          Done (case grp_new L ch (unat (FULL_EXTRANONCE_SIZE L)) True (pl_pool_tag_string s) of
                  None \<Rightarrow> None
                | Some g \<Rightarrow>
                    (case grp_on_new_template L template
                            [\<lparr>txout_value = tm_coinbase_tx_value_remaining template,
                              script_pubkey = crs_script_pubkey (pl_coinbase_reward_script s)\<rparr>] g of
                       None \<Rightarrow> None
                     | Some g' \<Rightarrow> grp_on_prev_hash L prev_hash g'))
      | _ \<Rightarrow> Panicked)"

definition pool_client_new ::
  "u32 \<Rightarrow> 'g \<Rightarrow> u16 list \<Rightarrow> u16 list \<Rightarrow> ('s, 'e, 'g) pool_client" where
  "pool_client_new channel_id_factory g supported required =
     \<lparr>pd_group = g, pd_extended = Map.empty, pd_standard = Map.empty,
      pd_channel_id_factory = channel_id_factory, pd_negotiated_extensions = [], pd_payout_mode = None,
      pd_requires_standard_jobs = False, pd_requires_custom_work = False,
      pd_supported_extensions = supported, pd_required_extensions = required\<rparr>"

text \<open>The body of the accept task, after the handshake. A group channel that cannot be made cancels the
  token of the whole application; the server accepts nobody before the first template and previous hash.\<close>

definition accept_client ::
  "('s, 'e, 'g, 'j, 'a, 'p, 'v) pool_lib \<Rightarrow> ('s, 'e, 'g, 'a, 'v) pool \<Rightarrow>
   (pool_error, downstream_id option) attempt \<times> ('s, 'e, 'g, 'a, 'v) pool" where
  "accept_client L s =
     (let d = pl_downstream_id_factory s;
          s1 = s\<lparr>pl_downstream_id_factory := d + 1\<rparr>;
          group_channel_id = 1
      in case bootstrap_group_channel L group_channel_id s1 of
           Panicked \<Rightarrow> (Panicked, s1)
         | Failed e \<Rightarrow> (Failed e, s1)
         | Done None \<Rightarrow> (Done None, s1)
         | Done (Some g) \<Rightarrow>
             (Done (Some d),
              put_client d (pool_client_new (group_channel_id + 1) g (pl_supported_extensions s)
                              (pl_required_extensions s))
                (s1\<lparr>pl_senders := insert d (pl_senders s1)\<rparr>)))"

text \<open>The drop of one channel by the task of a connection that has left.\<close>

definition drop_departed ::
  "('s, 'e, 'g, 'j, 'a, 'p, 'v) pool_lib \<Rightarrow> downstream_id \<Rightarrow> channel_id \<Rightarrow> ('s, 'e, 'g, 'a, 'v) pool \<Rightarrow>
   ('s, 'e, 'g, 'a, 'v) pool" where
  "drop_departed L d ch s =
     (case pl_departing s d of
        None \<Rightarrow> s
      | Some c \<Rightarrow>
          release_slot L (map_option (ext_slot L) (pd_extended c ch))
            (release_slot L (map_option (std_slot L) (pd_standard c ch))
              (s\<lparr>pl_departing := (pl_departing s)(d \<mapsto>
                   c\<lparr>pd_standard := (pd_standard c)(ch := None), pd_extended := (pd_extended c)(ch := None)\<rparr>)\<rparr>)))"

end
