(* ===== verification/Pool_Handlers.thy ===== *)
theory Pool_Handlers
  imports Pool_State
begin

text \<open>
  \<open>channel_manager/mining_message_handler.rs\<close> of the pool: opening and closing channels, shares, updates
  and custom jobs. Each handler runs its closure on the registered connection and then forwards the
  messages the closure collected; the state a closure leaves when it fails is kept.
\<close>

section \<open>Closing\<close>

definition has_no_channels :: "('s, 'e, 'g) pool_client \<Rightarrow> bool" where
  "has_no_channels c = (pd_standard c = Map.empty \<and> pd_extended c = Map.empty)"

definition close_in_client ::
  "('s, 'e, 'g, 'j, 'a, 'p, 'v) pool_lib \<Rightarrow> channel_id \<Rightarrow> ('s, 'e, 'g) pool_client \<Rightarrow> ('s, 'e, 'g) pool_client" where
  "close_in_client L ch c =
     (let g = (if ch \<in> set (grp_ids L (pd_group c)) then grp_remove L ch (pd_group c) else pd_group c);
          c' = c\<lparr>pd_group := g, pd_standard := (pd_standard c)(ch := None),
                 pd_extended := (pd_extended c)(ch := None)\<rparr>
      in if has_no_channels c' then c'\<lparr>pd_payout_mode := None\<rparr> else c')"

definition handle_close_channel ::
  "('s, 'e, 'g, 'j, 'a, 'p, 'v) pool_lib \<Rightarrow> downstream_id \<Rightarrow> channel_id \<Rightarrow> ('s, 'e, 'g, 'a, 'v) pool \<Rightarrow>
   (pool_error, unit) attempt \<times> ('s, 'e, 'g, 'a, 'v) pool" where
  "handle_close_channel L d ch s =
     and_then
       (with_registered_downstream d
          (\<lambda>c s. (Done (),
             release_slot L (map_option (ext_slot L) (pd_extended c ch))
               (release_slot L (map_option (std_slot L) (pd_standard c ch))
                 (put_client d (close_in_client L ch c) s)))) s)
       (\<lambda>_ s. (Done (), s\<lparr>pl_vardiff := (pl_vardiff s)((d, ch) := None)\<rparr>))"

section \<open>Opening\<close>

definition extranonce_allocation_error_code :: "allocator_error \<Rightarrow> mining_error_code option" where
  "extranonce_allocation_error_code e =
     (case e of
        CapacityExhausted \<Rightarrow> Some CHANNEL_CAPACITY_EXHAUSTED
      | InvalidRollableSize \<Rightarrow> Some MIN_EXTRANONCE_SIZE_TOO_LARGE
      | OtherAllocatorError \<Rightarrow> None)"

text \<open>The payout an identity asks for: an identity without a payout leaves the whole reward to the pool.\<close>

definition requested_payout :: "script_lib \<Rightarrow> string \<Rightarrow> payout_mode option" where
  "requested_payout S identity =
     (case payout_mode_try_from S identity of
        Inr mode \<Rightarrow> Some mode
      | Inl (NoPayoutMode _) \<Rightarrow> Some FullDonation
      | Inl _ \<Rightarrow> None)"

definition payout_is_compatible ::
  "payout_mode \<Rightarrow> coinbase_reward_script \<Rightarrow> ('s, 'e, 'g) pool_client \<Rightarrow> bool" where
  "payout_is_compatible mode pool_script c =
     (case pd_payout_mode c of
        None \<Rightarrow> True | Some current \<Rightarrow> has_same_coinbase_outputs_as current mode pool_script)"

text \<open>The reservation of a prefix and a channel id, the part the two kinds of channel share: either the
  prefix and the id, or the answer that refuses the request.\<close>

definition reserve ::
  "(allocator_error, 'p) result \<times> 'a \<Rightarrow> downstream_id \<Rightarrow> ('s, 'e, 'g) pool_client \<Rightarrow> ('s, 'e, 'g, 'a, 'v) pool \<Rightarrow>
   (pool_error, mining_error_code + 'p \<times> channel_id) attempt \<times> ('s, 'e, 'g, 'a, 'v) pool" where
  "reserve allocation d c s =
     (let s1 = s\<lparr>pl_allocator := snd allocation\<rparr>
      in case fst allocation of
           Inl e \<Rightarrow>
             (case extranonce_allocation_error_code e of
                None \<Rightarrow> (Failed (pool_shutdown PkChannelSv2), s1)
              | Some code \<Rightarrow> (Done (Inl code), s1))
         | Inr p \<Rightarrow>
             (let ch = pd_channel_id_factory c
              in (Done (Inr (p, ch)), put_client d (c\<lparr>pd_channel_id_factory := ch + 1\<rparr>) s1)))"

text \<open>The work a new channel starts with: the last future template, activated by the last previous hash.\<close>

definition start_standard ::
  "('s, 'e, 'g, 'j, 'a, 'p, 'v) pool_lib \<Rightarrow> new_template \<Rightarrow> template_prev_hash \<Rightarrow> tx_out list \<Rightarrow> channel_id \<Rightarrow> 's \<Rightarrow>
   (pool_error, to_client list \<times> 's) attempt" where
  "start_standard L template prev_hash outputs ch sc =
     (case std_on_new_template L template outputs sc of
        None \<Rightarrow> Failed (pool_shutdown PkChannelSv2)
      | Some sc1 \<Rightarrow>
          (case std_future_job_id L (tm_template_id template) sc1 of
             None \<Rightarrow> Panicked
           | Some job_id \<Rightarrow>
               (case std_future_job L job_id sc1 of
                  None \<Rightarrow> Panicked
                | Some job \<Rightarrow>
                    (case std_on_prev_hash L prev_hash sc1 of
                       None \<Rightarrow> Failed (pool_shutdown PkChannelSv2)
                     | Some sc2 \<Rightarrow>
                         Done ([MnNewMiningJob job,
                                MnSetNewPrevHash \<lparr>ph_channel_id = ch, ph_job_id = job_id,
                                  ph_prev_hash = tph_prev_hash prev_hash, ph_min_ntime = tph_ntime_start prev_hash,
                                  ph_nbits = tph_n_bits prev_hash\<rparr>], sc2)))))"

definition start_extended ::
  "('s, 'e, 'g, 'j, 'a, 'p, 'v) pool_lib \<Rightarrow> new_template \<Rightarrow> template_prev_hash \<Rightarrow> tx_out list \<Rightarrow> channel_id \<Rightarrow> 'e \<Rightarrow>
   (pool_error, to_client list \<times> 'e) attempt" where
  "start_extended L template prev_hash outputs ch ec =
     (case ext_on_new_template L template outputs ec of
        None \<Rightarrow> Failed (pool_shutdown PkChannelSv2)
      | Some ec1 \<Rightarrow>
          (case ext_future_job_id L (tm_template_id template) ec1 of
             None \<Rightarrow> Panicked
           | Some job_id \<Rightarrow>
               (case ext_future_job L job_id ec1 of
                  None \<Rightarrow> Panicked
                | Some job \<Rightarrow>
                    (case ext_on_prev_hash L prev_hash ec1 of
                       None \<Rightarrow> Failed (pool_shutdown PkChannelSv2)
                     | Some ec2 \<Rightarrow>
                         Done ([MnNewExtendedMiningJob (job_message L job),
                                MnSetNewPrevHash \<lparr>ph_channel_id = ch, ph_job_id = job_id,
                                  ph_prev_hash = tph_prev_hash prev_hash, ph_min_ntime = tph_ntime_start prev_hash,
                                  ph_nbits = tph_n_bits prev_hash\<rparr>], ec2)))))"

text \<open>The end of both handlers: the channel joins its group where it should, and gets a difficulty state.
  A failure of either stops the application.\<close>

definition join_client_group ::
  "('s, 'e, 'g, 'j, 'a, 'p, 'v) pool_lib \<Rightarrow> bool \<Rightarrow> channel_id \<Rightarrow> nat \<Rightarrow> 'g \<Rightarrow> 'g option" where
  "join_client_group L joins ch full_size g = (if joins then grp_add L ch full_size g else Some g)"

definition insert_vardiff ::
  "('s, 'e, 'g, 'j, 'a, 'p, 'v) pool_lib \<Rightarrow> downstream_id \<Rightarrow> channel_id \<Rightarrow> 'm \<Rightarrow> ('s, 'e, 'g, 'a, 'v) pool \<Rightarrow>
   (pool_error, 'm) attempt \<times> ('s, 'e, 'g, 'a, 'v) pool" where
  "insert_vardiff L d ch ms s =
     (case vd_new L of
        None \<Rightarrow> (Failed (pool_shutdown PkVardiff), s)
      | Some v \<Rightarrow> (Done ms, s\<lparr>pl_vardiff := (pl_vardiff s)((d, ch) \<mapsto> v)\<rparr>))"

definition publish_standard ::
  "('s, 'e, 'g, 'j, 'a, 'p, 'v) pool_lib \<Rightarrow> downstream_id \<Rightarrow> channel_id \<Rightarrow> payout_mode \<Rightarrow> nat \<Rightarrow> 's \<Rightarrow> 'm \<Rightarrow>
   ('s, 'e, 'g) pool_client \<Rightarrow> ('s, 'e, 'g, 'a, 'v) pool \<Rightarrow> (pool_error, 'm) attempt \<times> ('s, 'e, 'g, 'a, 'v) pool" where
  "publish_standard L d ch mode prefix_size sc ms c s =
     (let c1 = c\<lparr>pd_standard := (pd_standard c)(ch \<mapsto> sc), pd_payout_mode := Some mode\<rparr>;
          s1 = release_slot L (map_option (std_slot L) (pd_standard c ch)) (put_client d c1 s)
      in case join_client_group L (\<not> pd_requires_standard_jobs c) ch prefix_size (pd_group c1) of
           None \<Rightarrow> (Failed (pool_shutdown PkChannelSv2), s1)
         | Some g \<Rightarrow> insert_vardiff L d ch ms (put_client d (c1\<lparr>pd_group := g\<rparr>) s1))"

definition publish_extended ::
  "('s, 'e, 'g, 'j, 'a, 'p, 'v) pool_lib \<Rightarrow> downstream_id \<Rightarrow> channel_id \<Rightarrow> payout_mode \<Rightarrow> 'e \<Rightarrow> 'm \<Rightarrow>
   ('s, 'e, 'g) pool_client \<Rightarrow> ('s, 'e, 'g, 'a, 'v) pool \<Rightarrow> (pool_error, 'm) attempt \<times> ('s, 'e, 'g, 'a, 'v) pool" where
  "publish_extended L d ch mode ec ms c s =
     (case join_client_group L (\<not> pd_requires_custom_work c) ch (ext_full_extranonce_size L ec) (pd_group c) of
        None \<Rightarrow> (Failed (pool_shutdown PkChannelSv2), release_slot L (Some (ext_slot L ec)) s)
      | Some g \<Rightarrow>
          insert_vardiff L d ch ms
            (release_slot L (map_option (ext_slot L) (pd_extended c ch))
              (put_client d (c\<lparr>pd_group := g, pd_extended := (pd_extended c)(ch \<mapsto> ec),
                                pd_payout_mode := Some mode\<rparr>) s)))"

text \<open>A channel that is dropped because a later step failed gives its prefix back.\<close>

definition started ::
  "('s, 'e, 'g, 'j, 'a, 'p, 'v) pool_lib \<Rightarrow> 'p \<Rightarrow> (pool_error, 'r) attempt \<Rightarrow> ('s, 'e, 'g, 'a, 'v) pool \<Rightarrow>
   (pool_error, 'r) attempt \<times> ('s, 'e, 'g, 'a, 'v) pool" where
  "started L p r s = (r, case r of Done _ \<Rightarrow> s | _ \<Rightarrow> release_slot L (Some p) s)"

definition refuse_open ::
  "request_id \<Rightarrow> mining_error_code \<Rightarrow> 'st \<Rightarrow> (pool_error, to_client list) attempt \<times> 'st" where
  "refuse_open r code s = (Done [MnOpenError r code], s)"

definition open_standard ::
  "script_lib \<Rightarrow> ('s, 'e, 'g, 'j, 'a, 'p, 'v) pool_lib \<Rightarrow> downstream_id \<Rightarrow> open_standard_msg \<Rightarrow>
   ('s, 'e, 'g) pool_client \<Rightarrow> ('s, 'e, 'g, 'a, 'v) pool \<Rightarrow>
   (pool_error, to_client list) attempt \<times> ('s, 'e, 'g, 'a, 'v) pool" where
  "open_standard S L d msg c s =
     (if pd_requires_custom_work c
      then refuse_open (so_request_id msg) STANDARD_CHANNELS_NOT_SUPPORTED_FOR_CUSTOM_WORK s
      else
        and_then (or_fail (pool_disconnect PkFutureTemplateNotPresent d) (pl_last_future_template s) s) (\<lambda>template s.
        and_then (or_fail (pool_disconnect PkLastNewPrevhashNotFound d) (pl_last_new_prev_hash s) s) (\<lambda>prev_hash s.
          case requested_payout S (so_user_identity msg) of
            None \<Rightarrow> refuse_open (so_request_id msg) INVALID_USER_IDENTITY s
          | Some mode \<Rightarrow>
              if \<not> payout_is_compatible mode (pl_coinbase_reward_script s) c
              then refuse_open (so_request_id msg) INCOMPATIBLE_PAYOUT_MODE s
              else
                and_then (reserve (alloc_standard L (pl_allocator s)) d c s) (\<lambda>reserved s1.
                  case reserved of
                    Inl code \<Rightarrow> refuse_open (so_request_id msg) code s1
                  | Inr (p, ch) \<Rightarrow>
                      (case std_new L ch (so_user_identity msg) p (so_max_target msg) (so_nominal_hash_rate msg)
                              (pl_share_batch_size s) (pl_shares_per_minute s) (pl_pool_tag_string s)
                              (pl_max_past_jobs s) of
                         Inl (OpenInvalid code) \<Rightarrow>
                           refuse_open (so_request_id msg) (CodeOfLibrary code) (release_slot L (Some p) s1)
                       | Inl OpenOther \<Rightarrow>
                           (Failed (pool_disconnect PkChannelErrorSender d), release_slot L (Some p) s1)
                       | Inr sc \<Rightarrow>
                           and_then (started L (std_slot L sc)
                               (if \<not> length (slot_bytes L (std_slot L sc)) \<le> 32 then Panicked
                                else start_standard L template prev_hash
                                 (coinbase_outputs mode (tm_coinbase_tx_value_remaining template)
                                   (pl_coinbase_reward_script s)) ch sc) s1) (\<lambda>(work, sc') s2.
                             publish_standard L d ch mode (length (slot_bytes L (std_slot L sc))) sc'
                               (MnOpenStandardSuccess (so_request_id msg) ch (std_target L sc)
                                  (slot_bytes L (std_slot L sc)) (grp_id L (pd_group c)) # work)
                               (c\<lparr>pd_channel_id_factory := ch + 1\<rparr>) s2))))))"

definition open_extended ::
  "script_lib \<Rightarrow> ('s, 'e, 'g, 'j, 'a, 'p, 'v) pool_lib \<Rightarrow> downstream_id \<Rightarrow> open_channel_msg \<Rightarrow>
   ('s, 'e, 'g) pool_client \<Rightarrow> ('s, 'e, 'g, 'a, 'v) pool \<Rightarrow>
   (pool_error, to_client list) attempt \<times> ('s, 'e, 'g, 'a, 'v) pool" where
  "open_extended S L d msg c s =
     (if pd_requires_standard_jobs c
      then refuse_open (oc_request_id msg) EXTENDED_CHANNELS_NOT_SUPPORTED_FOR_STANDARD_JOBS s
      else case requested_payout S (oc_user_identity msg) of
        None \<Rightarrow> refuse_open (oc_request_id msg) INVALID_USER_IDENTITY s
      | Some mode \<Rightarrow>
          if \<not> payout_is_compatible mode (pl_coinbase_reward_script s) c
          then refuse_open (oc_request_id msg) INCOMPATIBLE_PAYOUT_MODE s
          else
            and_then (reserve (alloc_extended L (unat (oc_min_extranonce_size msg)) (pl_allocator s)) d c s) (\<lambda>reserved s1.
              case reserved of
                Inl code \<Rightarrow> refuse_open (oc_request_id msg) code s1
              | Inr (p, ch) \<Rightarrow>
                  (case ext_new L ch (oc_user_identity msg) p (oc_max_target msg) (oc_nominal_hash_rate msg) True
                          (ucast CLIENT_SEARCH_SPACE_BYTES) (pl_share_batch_size s) (pl_shares_per_minute s)
                          (pl_pool_tag_string s) (pl_max_past_jobs s) of
                     Inl (OpenInvalid code) \<Rightarrow>
                       refuse_open (oc_request_id msg) (CodeOfLibrary code) (release_slot L (Some p) s1)
                   | Inl OpenOther \<Rightarrow>
                       (Failed (pool_disconnect PkChannelSv2 d), release_slot L (Some p) s1)
                   | Inr ec \<Rightarrow>
                       and_then (started L (ext_slot L ec)
                           (if \<not> length (slot_bytes L (ext_slot L ec)) \<le> 32
                            then Failed (pool_shutdown PkBinarySv2)
                            else case pl_last_new_prev_hash s of
                              None \<Rightarrow> Failed (pool_disconnect PkLastNewPrevhashNotFound d)
                            | Some prev_hash \<Rightarrow>
                                (case pl_last_future_template s of
                                   None \<Rightarrow> Failed (pool_disconnect PkFutureTemplateNotPresent d)
                                 | Some template \<Rightarrow>
                                     if pd_requires_custom_work c
                                     then (case ext_on_prev_hash L prev_hash ec of
                                             None \<Rightarrow> Failed (pool_shutdown PkChannelSv2)
                                           | Some ec' \<Rightarrow> Done ([], ec'))
                                     else start_extended L template prev_hash
                                            (coinbase_outputs mode (tm_coinbase_tx_value_remaining template)
                                              (pl_coinbase_reward_script s)) ch ec)) s1) (\<lambda>(work, ec') s2.
                         publish_extended L d ch mode ec'
                           (MnOpenExtendedSuccess (oc_request_id msg) ch (ext_target L ec)
                              (slot_bytes L (ext_slot L ec)) (ext_rollable_extranonce_size L ec)
                              (grp_id L (pd_group c)) # work)
                           (c\<lparr>pd_channel_id_factory := ch + 1\<rparr>) s2))))"

definition to_this_client ::
  "downstream_id \<Rightarrow> (pool_error, to_client list) attempt \<times> 'st \<Rightarrow> (pool_error, route_message_to list) attempt \<times> 'st" where
  "to_this_client d r = and_then r (\<lambda>ms s. (Done (map (ToDownstream d) ms), s))"

definition handle_open_standard_mining_channel ::
  "script_lib \<Rightarrow> ('s, 'e, 'g, 'j, 'a, 'p, 'v) pool_lib \<Rightarrow> pool_env \<Rightarrow> downstream_id \<Rightarrow> open_standard_msg \<Rightarrow>
   ('s, 'e, 'g, 'a, 'v) pool \<Rightarrow> (pool_error, unit) attempt \<times> ('s, 'e, 'g, 'a, 'v) pool" where
  "handle_open_standard_mining_channel S L env d msg s =
     then_forward env (to_this_client d (with_registered_downstream d (open_standard S L d msg) s))"

definition handle_open_extended_mining_channel ::
  "script_lib \<Rightarrow> ('s, 'e, 'g, 'j, 'a, 'p, 'v) pool_lib \<Rightarrow> pool_env \<Rightarrow> downstream_id \<Rightarrow> open_channel_msg \<Rightarrow>
   ('s, 'e, 'g, 'a, 'v) pool \<Rightarrow> (pool_error, unit) attempt \<times> ('s, 'e, 'g, 'a, 'v) pool" where
  "handle_open_extended_mining_channel S L env d msg s =
     then_forward env (to_this_client d (with_registered_downstream d (open_extended S L d msg) s))"

section \<open>Shares\<close>

definition share_success :: "channel_id \<Rightarrow> share_accounting \<Rightarrow> to_client" where
  "share_success ch acc =
     MnSubmitSharesSuccess ch (sa_last_sequence_number acc) (sa_last_batch_accepted acc) (sa_last_batch_work_sum acc)"

text \<open>The errors answered with a code; any other error disconnects the client.\<close>

definition standard_rejection :: "share_validation_error \<Rightarrow> string option" where
  "standard_rejection e =
     (case e of
        ShInvalid code \<Rightarrow> Some code
      | ShStale code \<Rightarrow> Some code
      | ShInvalidJobId code \<Rightarrow> Some code
      | ShDoesNotMeetTarget code \<Rightarrow> Some code
      | ShDuplicateShare code \<Rightarrow> Some code
      | ShVersionRollingNotAllowed code \<Rightarrow> Some code
      | ShBadExtranonceSize _ \<Rightarrow> None
      | ShSeenSharesBudgetExhausted \<Rightarrow> None
      | ShOther \<Rightarrow> None)"

definition extended_rejection :: "share_validation_error \<Rightarrow> string option" where
  "extended_rejection e =
     (case e of ShBadExtranonceSize code \<Rightarrow> Some code | _ \<Rightarrow> standard_rejection e)"

definition share_answer ::
  "downstream_id \<Rightarrow> channel_id \<Rightarrow> u32 \<Rightarrow> (u64 \<Rightarrow> bytes \<Rightarrow> submit_solution) \<Rightarrow> (share_validation_error \<Rightarrow> string option) \<Rightarrow>
   share_accounting \<Rightarrow> share_validation \<Rightarrow> (pool_error, route_message_to list) attempt" where
  "share_answer d ch seq solution rejection acc v =
     (case v of
        Inr ShareAccepted \<Rightarrow>
          Done (if sa_should_acknowledge acc then [ToDownstream d (share_success ch acc)] else [])
      | Inr (BlockFound template_id coinbase) \<Rightarrow>
          (case template_id of
             None \<Rightarrow> Done [ToDownstream d (share_success ch acc)]
           | Some t \<Rightarrow>
               if length coinbase < 2 ^ 16
               then Done [ToTemplateProvider (TpSubmitSolution (solution t coinbase)),
                          ToDownstream d (share_success ch acc)]
               else Failed (pool_shutdown PkBinarySv2))
      | Inl e \<Rightarrow>
          (case rejection e of
             Some code \<Rightarrow> Done [ToDownstream d (MnSubmitSharesError ch seq (CodeOfLibrary code))]
           | None \<Rightarrow> Failed (pool_disconnect PkChannelSv2 d)))"

definition count_share ::
  "('s, 'e, 'g, 'j, 'a, 'p, 'v) pool_lib \<Rightarrow> downstream_id \<Rightarrow> channel_id \<Rightarrow> ('s, 'e, 'g, 'a, 'v) pool \<Rightarrow>
   ('s, 'e, 'g, 'a, 'v) pool" where
  "count_share L d ch s =
     s\<lparr>pl_vardiff := (pl_vardiff s)((d, ch) := map_option (vd_increment L) (pl_vardiff s (d, ch)))\<rparr>"

definition solution_standard :: "submit_shares_standard \<Rightarrow> u64 \<Rightarrow> bytes \<Rightarrow> submit_solution" where
  "solution_standard msg template_id coinbase =
     \<lparr>sol_template_id = template_id, sol_version = ss_version msg, sol_ntime = ss_ntime msg,
      sol_nonce = ss_nonce msg, sol_coinbase_tx = coinbase\<rparr>"

definition solution_extended :: "submit_shares_extended \<Rightarrow> u64 \<Rightarrow> bytes \<Rightarrow> submit_solution" where
  "solution_extended msg template_id coinbase =
     \<lparr>sol_template_id = template_id, sol_version = se_version msg, sol_ntime = se_ntime msg,
      sol_nonce = se_nonce msg, sol_coinbase_tx = coinbase\<rparr>"

definition submit_standard ::
  "('s, 'e, 'g, 'j, 'a, 'p, 'v) pool_lib \<Rightarrow> downstream_id \<Rightarrow> submit_shares_standard \<Rightarrow> ('s, 'e, 'g) pool_client \<Rightarrow>
   ('s, 'e, 'g, 'a, 'v) pool \<Rightarrow> (pool_error, route_message_to list) attempt \<times> ('s, 'e, 'g, 'a, 'v) pool" where
  "submit_standard L d msg c s =
     (let ch = ss_channel_id msg; seq = ss_sequence_number msg
      in case pd_standard c ch of
           None \<Rightarrow> (Done [ToDownstream d (MnSubmitSharesError ch seq SUBMIT_SHARES_INVALID_CHANNEL_ID)], s)
         | Some sc \<Rightarrow>
             if pl_vardiff s (d, ch) = None
             then (Done [ToDownstream d (MnCloseChannel ch SUBMIT_SHARES_INVALID_CHANNEL_ID)], s)
             else
               (let (v, sc') = std_validate_share L msg sc
                in (share_answer d ch seq (solution_standard msg) standard_rejection (std_accounting L sc') v,
                    count_share L d ch (put_client d (c\<lparr>pd_standard := (pd_standard c)(ch \<mapsto> sc')\<rparr>) s))))"

definition submit_extended ::
  "('s, 'e, 'g, 'j, 'a, 'p, 'v) pool_lib \<Rightarrow> downstream_id \<Rightarrow> submit_shares_extended \<Rightarrow> ('s, 'e, 'g) pool_client \<Rightarrow>
   ('s, 'e, 'g, 'a, 'v) pool \<Rightarrow> (pool_error, route_message_to list) attempt \<times> ('s, 'e, 'g, 'a, 'v) pool" where
  "submit_extended L d msg c s =
     (let ch = se_channel_id msg; seq = se_sequence_number msg
      in case pd_extended c ch of
           None \<Rightarrow> (Done [ToDownstream d (MnSubmitSharesError ch seq SUBMIT_SHARES_INVALID_CHANNEL_ID)], s)
         | Some ec \<Rightarrow>
             if pl_vardiff s (d, ch) = None
             then (Done [ToDownstream d (MnCloseChannel ch SUBMIT_SHARES_INVALID_CHANNEL_ID)], s)
             else
               (let (v, ec') = ext_validate_share L msg ec
                in (share_answer d ch seq (solution_extended msg) extended_rejection (ext_accounting L ec') v,
                    count_share L d ch (put_client d (c\<lparr>pd_extended := (pd_extended c)(ch \<mapsto> ec')\<rparr>) s))))"

definition handle_submit_shares_standard ::
  "('s, 'e, 'g, 'j, 'a, 'p, 'v) pool_lib \<Rightarrow> pool_env \<Rightarrow> downstream_id \<Rightarrow> submit_shares_standard \<Rightarrow>
   ('s, 'e, 'g, 'a, 'v) pool \<Rightarrow> (pool_error, unit) attempt \<times> ('s, 'e, 'g, 'a, 'v) pool" where
  "handle_submit_shares_standard L env d msg s =
     then_forward env (with_registered_downstream d (submit_standard L d msg) s)"

text \<open>The worker name an extended share may carry in a TLV is read and not used.\<close>

definition handle_submit_shares_extended ::
  "('s, 'e, 'g, 'j, 'a, 'p, 'v) pool_lib \<Rightarrow> pool_env \<Rightarrow> downstream_id \<Rightarrow> submit_shares_extended \<Rightarrow>
   ('s, 'e, 'g, 'a, 'v) pool \<Rightarrow> (pool_error, unit) attempt \<times> ('s, 'e, 'g, 'a, 'v) pool" where
  "handle_submit_shares_extended L env d msg s =
     then_forward env (with_registered_downstream d (submit_extended L d msg) s)"

section \<open>Updates\<close>

text \<open>What the client is told after \<open>update_channel\<close>: the target in force, after the error if there was
  one.\<close>

definition update_answer ::
  "(update_channel_error, 'c) result \<Rightarrow> channel_id \<Rightarrow> ('c \<Rightarrow> target) \<Rightarrow> 'c \<Rightarrow>
   (pool_error, to_client list) attempt \<times> 'c" where
  "update_answer r ch target_of chan =
     (case r of
        Inr chan' \<Rightarrow> (Done [MnSetTarget ch (target_of chan')], chan')
      | Inl (UpdateInvalid code) \<Rightarrow>
          (Done [MnUpdateChannelError ch (CodeOfLibrary code), MnSetTarget ch (target_of chan)], chan)
      | Inl UpdateOther \<Rightarrow> (Panicked, chan))"

definition update_in_client ::
  "('s, 'e, 'g, 'j, 'a, 'p, 'v) pool_lib \<Rightarrow> downstream_id \<Rightarrow> channel_id \<Rightarrow> hashrate \<Rightarrow> target \<Rightarrow>
   ('s, 'e, 'g) pool_client \<Rightarrow> ('s, 'e, 'g, 'a, 'v) pool \<Rightarrow>
   (pool_error, to_client list) attempt \<times> ('s, 'e, 'g, 'a, 'v) pool" where
  "update_in_client L d ch h max_target c s =
     (case pd_standard c ch of
        Some sc \<Rightarrow>
          (let (r, sc') = update_answer (std_update L h (Some max_target) sc) ch (std_target L) sc
           in (r, put_client d (c\<lparr>pd_standard := (pd_standard c)(ch \<mapsto> sc')\<rparr>) s))
      | None \<Rightarrow>
          (case pd_extended c ch of
             Some ec \<Rightarrow>
               (let (r, ec') = update_answer (ext_update L h (Some max_target) ec) ch (ext_target L) ec
                in (r, put_client d (c\<lparr>pd_extended := (pd_extended c)(ch \<mapsto> ec')\<rparr>) s))
           | None \<Rightarrow> (Done [MnUpdateChannelError ch UPDATE_CHANNEL_INVALID_CHANNEL_ID], s)))"

definition pool_handle_update_channel ::
  "('s, 'e, 'g, 'j, 'a, 'p, 'v) pool_lib \<Rightarrow> pool_env \<Rightarrow> downstream_id \<Rightarrow> channel_id \<Rightarrow> hashrate \<Rightarrow> target \<Rightarrow>
   ('s, 'e, 'g, 'a, 'v) pool \<Rightarrow> (pool_error, unit) attempt \<times> ('s, 'e, 'g, 'a, 'v) pool" where
  "pool_handle_update_channel L env d ch h max_target s =
     then_forward env (to_this_client d (with_registered_downstream d (update_in_client L d ch h max_target) s))"

section \<open>Custom jobs\<close>

definition forward_or_disconnect ::
  "pool_env \<Rightarrow> downstream_id \<Rightarrow> to_client \<Rightarrow> ('s, 'e, 'g, 'a, 'v) pool \<Rightarrow>
   (pool_error, unit) attempt \<times> ('s, 'e, 'g, 'a, 'v) pool" where
  "forward_or_disconnect env d m s =
     (case forward env (ToDownstream d m) s of
        (True, s') \<Rightarrow> (Done (), s')
      | (False, s') \<Rightarrow> (Failed (pool_disconnect PkChannelSend d), s'))"

text \<open>Committing a job the Job Declarator accepted.\<close>

definition commit_custom_job ::
  "('s, 'e, 'g, 'j, 'a, 'p, 'v) pool_lib \<Rightarrow> downstream_id \<Rightarrow> set_custom_mining_job \<Rightarrow> ('s, 'e, 'g) pool_client \<Rightarrow>
   ('s, 'e, 'g, 'a, 'v) pool \<Rightarrow> (pool_error, to_client) attempt \<times> ('s, 'e, 'g, 'a, 'v) pool" where
  "commit_custom_job L d msg c s =
     (let ch = sc_channel_id msg; r = sc_request_id msg
      in case pd_extended c ch of
           None \<Rightarrow> (Done (MnSetCustomMiningJobError r ch CUSTOM_JOB_INVALID_CHANNEL_ID), s)
         | Some ec \<Rightarrow>
             (case ext_on_custom_job L msg ec of
                None \<Rightarrow> (Failed (pool_disconnect PkChannelSv2 d), s)
              | Some (job_id, ec') \<Rightarrow>
                  (Done (MnSetCustomMiningJobSuccess ch r job_id),
                   put_client d (c\<lparr>pd_extended := (pd_extended c)(ch \<mapsto> ec')\<rparr>) s)))"

text \<open>The connection's own task may unregister it between the two accesses of the handler: \<open>leaves\<close>.\<close>

definition judge_custom_job ::
  "btc_lib \<Rightarrow> ('s, 'e, 'g, 'j, 'a, 'p, 'v) pool_lib \<Rightarrow> pool_env \<Rightarrow> bool \<Rightarrow> downstream_id \<Rightarrow> set_custom_mining_job \<Rightarrow>
   string \<Rightarrow> jd_system \<Rightarrow> ('s, 'e, 'g, 'a, 'v) pool \<Rightarrow>
   (pool_error, unit) attempt \<times> ('s, 'e, 'g, 'a, 'v) pool" where
  "judge_custom_job B L env leaves d msg user_identity sys s =
     (let (res, jd) = handle_set_custom_mining_job B msg user_identity (sys_jd sys);
          s1 = s\<lparr>pl_job_declarator := Some (sys\<lparr>sys_jd := jd\<rparr>)\<rparr>
      in case res of
           Panic \<Rightarrow> (Panicked, s1)
         | Value (SetCustomErr r ch code) \<Rightarrow>
             forward_or_disconnect env d (MnSetCustomMiningJobError r ch (CodeOfJds code)) s1
         | Value (SetCustomOk _ _) \<Rightarrow>
             and_then
               (with_registered_downstream d (commit_custom_job L d msg)
                  (if leaves then remove_downstream d s1 else s1))
               (forward_or_disconnect env d))"

definition pool_handle_set_custom_mining_job ::
  "btc_lib \<Rightarrow> ('s, 'e, 'g, 'j, 'a, 'p, 'v) pool_lib \<Rightarrow> pool_env \<Rightarrow> bool \<Rightarrow> downstream_id \<Rightarrow> set_custom_mining_job \<Rightarrow>
   ('s, 'e, 'g, 'a, 'v) pool \<Rightarrow> (pool_error, unit) attempt \<times> ('s, 'e, 'g, 'a, 'v) pool" where
  "pool_handle_set_custom_mining_job B L env leaves d msg s =
     (let ch = sc_channel_id msg; r = sc_request_id msg
      in and_then
           (with_registered_downstream d (\<lambda>c s. (Done (map_option (ext_user_identity L) (pd_extended c ch)), s)) s)
           (\<lambda>user_identity s.
              case pl_job_declarator s of
                None \<Rightarrow> forward_or_disconnect env d (MnSetCustomMiningJobError r ch CUSTOM_JOB_JD_NOT_SUPPORTED) s
              | Some sys \<Rightarrow>
                  (case user_identity of
                     None \<Rightarrow> forward_or_disconnect env d (MnSetCustomMiningJobError r ch CUSTOM_JOB_INVALID_CHANNEL_ID) s
                   | Some u \<Rightarrow> judge_custom_job B L env leaves d msg u sys s)))"

section \<open>The dispatcher\<close>

datatype from_client =
    ClOpenStandard open_standard_msg
  | ClOpenExtended open_channel_msg
  | ClCloseChannel channel_id
  | ClSubmitStandard submit_shares_standard
  | ClSubmitExtended submit_shares_extended
  | ClUpdateChannel channel_id hashrate target
  | ClSetCustomJob set_custom_mining_job bool

fun handle_mining_message_from_client ::
  "btc_lib \<Rightarrow> script_lib \<Rightarrow> ('s, 'e, 'g, 'j, 'a, 'p, 'v) pool_lib \<Rightarrow> pool_env \<Rightarrow> downstream_id \<Rightarrow> from_client \<Rightarrow>
   ('s, 'e, 'g, 'a, 'v) pool \<Rightarrow> (pool_error, unit) attempt \<times> ('s, 'e, 'g, 'a, 'v) pool" where
  "handle_mining_message_from_client B S L env d (ClOpenStandard m) s = handle_open_standard_mining_channel S L env d m s"
| "handle_mining_message_from_client B S L env d (ClOpenExtended m) s = handle_open_extended_mining_channel S L env d m s"
| "handle_mining_message_from_client B S L env d (ClCloseChannel ch) s = handle_close_channel L d ch s"
| "handle_mining_message_from_client B S L env d (ClSubmitStandard m) s = handle_submit_shares_standard L env d m s"
| "handle_mining_message_from_client B S L env d (ClSubmitExtended m) s = handle_submit_shares_extended L env d m s"
| "handle_mining_message_from_client B S L env d (ClUpdateChannel ch h t) s = pool_handle_update_channel L env d ch h t s"
| "handle_mining_message_from_client B S L env d (ClSetCustomJob m leaves) s =
     pool_handle_set_custom_mining_job B L env leaves d m s"

end
