(* ===== verification/Pool_Templates.thy ===== *)
theory Pool_Templates
  imports Pool_Handlers
begin

text \<open>
  \<open>channel_manager/template_distribution_message_handler.rs\<close> of the pool, with the variable difficulty and
  the constraints of \<open>mod.rs\<close>: what the pool does on its own, when a template or a previous hash arrives or a
  minute has passed. A loop over a map visits it in the order \<open>pool_env\<close> gives; the messages of a loop that
  fails are dropped.
\<close>

section \<open>Templates\<close>

definition group_job_of ::
  "('s, 'e, 'g, 'j, 'a, 'p, 'v) pool_lib \<Rightarrow> new_template \<Rightarrow> 'g \<Rightarrow> 'j option" where
  "group_job_of L template g =
     (if tm_future_template template
      then (case grp_future_job_id L (tm_template_id template) g of
              None \<Rightarrow> None | Some job_id \<Rightarrow> grp_future_job L job_id g)
      else grp_active_job L g)"

definition standard_job_of ::
  "('s, 'e, 'g, 'j, 'a, 'p, 'v) pool_lib \<Rightarrow> new_template \<Rightarrow> 's \<Rightarrow> new_mining_job option" where
  "standard_job_of L template sc =
     (if tm_future_template template
      then (case std_future_job_id L (tm_template_id template) sc of
              None \<Rightarrow> None | Some job_id \<Rightarrow> std_future_job L job_id sc)
      else std_active_job L sc)"

definition template_for_standard ::
  "('s, 'e, 'g, 'j, 'a, 'p, 'v) pool_lib \<Rightarrow> new_template \<Rightarrow> tx_out list \<Rightarrow> 'j \<Rightarrow> channel_id \<Rightarrow> ('s, 'e, 'g) pool_client \<Rightarrow>
   (pool_error, to_client list) attempt \<times> ('s, 'e, 'g) pool_client" where
  "template_for_standard L template outputs group_job ch c =
     (case pd_standard c ch of
        None \<Rightarrow> (Done [], c)
      | Some sc \<Rightarrow>
          if \<not> pd_requires_standard_jobs c
          then (case std_on_group_job L group_job sc of
                  None \<Rightarrow> (Failed (pool_shutdown PkChannelSv2), c)
                | Some sc' \<Rightarrow> (Done [], c\<lparr>pd_standard := (pd_standard c)(ch \<mapsto> sc')\<rparr>))
          else (case std_on_new_template L template outputs sc of
                  None \<Rightarrow> (Failed (pool_shutdown PkChannelSv2), c)
                | Some sc' \<Rightarrow>
                    (case standard_job_of L template sc' of
                       None \<Rightarrow> (Panicked, c\<lparr>pd_standard := (pd_standard c)(ch \<mapsto> sc')\<rparr>)
                     | Some job \<Rightarrow> (Done [MnNewMiningJob job], c\<lparr>pd_standard := (pd_standard c)(ch \<mapsto> sc')\<rparr>))))"

definition update_extended ::
  "('e \<Rightarrow> 'e option) \<Rightarrow> channel_id \<Rightarrow> ('s, 'e, 'g) pool_client \<Rightarrow>
   (pool_error, unit) attempt \<times> ('s, 'e, 'g) pool_client" where
  "update_extended f ch c =
     (case pd_extended c ch of
        None \<Rightarrow> (Done (), c)
      | Some ec \<Rightarrow>
          (case f ec of
             None \<Rightarrow> (Failed (pool_shutdown PkChannelSv2), c)
           | Some ec' \<Rightarrow> (Done (), c\<lparr>pd_extended := (pd_extended c)(ch \<mapsto> ec')\<rparr>)))"

definition client_outputs ::
  "tx_out list \<Rightarrow> coinbase_reward_script \<Rightarrow> new_template \<Rightarrow> ('s, 'e, 'g) pool_client \<Rightarrow> tx_out list" where
  "client_outputs default_outputs pool_script template c =
     (case pd_payout_mode c of
        Some mode \<Rightarrow> coinbase_outputs mode (tm_coinbase_tx_value_remaining template) pool_script
      | None \<Rightarrow> default_outputs)"

definition template_for_client ::
  "('s, 'e, 'g, 'j, 'a, 'p, 'v) pool_lib \<Rightarrow> new_template \<Rightarrow> tx_out list \<Rightarrow> channel_id list \<Rightarrow> ('s, 'e, 'g) pool_client \<Rightarrow>
   (pool_error, to_client list) attempt \<times> ('s, 'e, 'g) pool_client" where
  "template_for_client L template outputs channels c =
     (if pd_requires_custom_work c then (Done [], c)
      else case grp_on_new_template L template outputs (pd_group c) of
        None \<Rightarrow> (Failed (pool_shutdown PkChannelSv2), c)
      | Some g \<Rightarrow>
          (let c1 = c\<lparr>pd_group := g\<rparr>
           in case group_job_of L template g of
                None \<Rightarrow> (Failed (pool_shutdown PkJobNotFound), c1)
              | Some group_job \<Rightarrow>
                  and_then (collect (template_for_standard L template outputs group_job) channels c1) (\<lambda>ms c2.
                  and_then (each (update_extended (ext_on_group_job L group_job)) channels c2) (\<lambda>_ c3.
                    (Done ((if \<not> pd_requires_standard_jobs c \<and> grp_ids L g \<noteq> []
                            then [MnNewExtendedMiningJob (job_message L group_job)] else []) @ ms), c3)))))"

text \<open>A pass over the registered clients.\<close>

definition for_client ::
  "(downstream_id \<Rightarrow> ('s, 'e, 'g) pool_client \<Rightarrow> (pool_error, to_client list) attempt \<times> ('s, 'e, 'g) pool_client) \<Rightarrow>
   downstream_id \<Rightarrow> ('s, 'e, 'g, 'a, 'v) pool \<Rightarrow>
   (pool_error, route_message_to list) attempt \<times> ('s, 'e, 'g, 'a, 'v) pool" where
  "for_client f d s =
     (case pl_downstreams s d of
        None \<Rightarrow> (Done [], s)
      | Some c \<Rightarrow> (let (r, c') = f d c in to_this_client d (r, put_client d c' s)))"

definition handle_new_template ::
  "('s, 'e, 'g, 'j, 'a, 'p, 'v) pool_lib \<Rightarrow> pool_env \<Rightarrow> new_template \<Rightarrow> ('s, 'e, 'g, 'a, 'v) pool \<Rightarrow>
   (pool_error, unit) attempt \<times> ('s, 'e, 'g, 'a, 'v) pool" where
  "handle_new_template L env template s =
     (let s1 = (if tm_future_template template then s\<lparr>pl_last_future_template := Some template\<rparr> else s)
      in case deserialize_outputs L (pl_coinbase_outputs s) of
           Some (out # outs) \<Rightarrow>
             (let default_outputs = out\<lparr>txout_value := tm_coinbase_tx_value_remaining template\<rparr> # outs
              in then_forward env (collect (for_client (\<lambda>d c.
                   template_for_client L template
                     (client_outputs default_outputs (pl_coinbase_reward_script s) template c)
                     (visit_client_channels env d) c)) (visit_clients env) s1))
         | _ \<Rightarrow> (Panicked, s1))"

section \<open>Previous hashes\<close>

definition mining_prev_hash :: "channel_id \<Rightarrow> u32 \<Rightarrow> template_prev_hash \<Rightarrow> set_new_prev_hash" where
  "mining_prev_hash ch job_id msg =
     \<lparr>ph_channel_id = ch, ph_job_id = job_id, ph_prev_hash = tph_prev_hash msg,
      ph_min_ntime = tph_ntime_start msg, ph_nbits = tph_n_bits msg\<rparr>"

definition prev_hash_for_standard ::
  "('s, 'e, 'g, 'j, 'a, 'p, 'v) pool_lib \<Rightarrow> template_prev_hash \<Rightarrow> channel_id \<Rightarrow> ('s, 'e, 'g) pool_client \<Rightarrow>
   (pool_error, to_client list) attempt \<times> ('s, 'e, 'g) pool_client" where
  "prev_hash_for_standard L msg ch c =
     (case pd_standard c ch of
        None \<Rightarrow> (Done [], c)
      | Some sc \<Rightarrow>
          (case std_on_prev_hash L msg sc of
             None \<Rightarrow> (Failed (pool_shutdown PkChannelSv2), c)
           | Some sc' \<Rightarrow>
               (let c' = c\<lparr>pd_standard := (pd_standard c)(ch \<mapsto> sc')\<rparr>
                in if pd_requires_standard_jobs c
                   then (case std_active_job L sc' of
                           None \<Rightarrow> (Failed (pool_shutdown PkJobNotFound), c')
                         | Some job \<Rightarrow> (Done [MnSetNewPrevHash (mining_prev_hash ch (sm_job_id job) msg)], c'))
                   else (Done [], c'))))"

definition group_prev_hash ::
  "('s, 'e, 'g, 'j, 'a, 'p, 'v) pool_lib \<Rightarrow> template_prev_hash \<Rightarrow> ('s, 'e, 'g) pool_client \<Rightarrow>
   (pool_error, to_client list) attempt \<times> ('s, 'e, 'g) pool_client" where
  "group_prev_hash L msg c =
     (case grp_on_prev_hash L msg (pd_group c) of
        None \<Rightarrow> (Failed (pool_shutdown PkChannelSv2), c)
      | Some g \<Rightarrow>
          (let c' = c\<lparr>pd_group := g\<rparr>
           in if \<not> pd_requires_standard_jobs c \<and> grp_ids L g \<noteq> []
              then (case grp_active_job L g of
                      None \<Rightarrow> (Panicked, c')
                    | Some job \<Rightarrow> (Done [MnSetNewPrevHash (mining_prev_hash (grp_id L g) (job_id_of L job) msg)], c'))
              else (Done [], c')))"

definition prev_hash_for_client ::
  "('s, 'e, 'g, 'j, 'a, 'p, 'v) pool_lib \<Rightarrow> template_prev_hash \<Rightarrow> channel_id list \<Rightarrow> ('s, 'e, 'g) pool_client \<Rightarrow>
   (pool_error, to_client list) attempt \<times> ('s, 'e, 'g) pool_client" where
  "prev_hash_for_client L msg channels c =
     (if pd_requires_custom_work c then (Done [], c)
      else
        and_then (group_prev_hash L msg c) (\<lambda>ms c1.
        and_then (each (update_extended (ext_on_prev_hash L msg)) channels c1) (\<lambda>_ c2.
        and_then (collect (prev_hash_for_standard L msg) channels c2) (\<lambda>ms' c3. (Done (ms @ ms'), c3)))))"

definition pool_handle_set_new_prev_hash ::
  "('s, 'e, 'g, 'j, 'a, 'p, 'v) pool_lib \<Rightarrow> pool_env \<Rightarrow> template_prev_hash \<Rightarrow> ('s, 'e, 'g, 'a, 'v) pool \<Rightarrow>
   (pool_error, unit) attempt \<times> ('s, 'e, 'g, 'a, 'v) pool" where
  "pool_handle_set_new_prev_hash L env msg s =
     then_forward env (collect (for_client (\<lambda>d c. prev_hash_for_client L msg (visit_client_channels env d) c))
       (visit_clients env) (s\<lparr>pl_last_new_prev_hash := Some msg\<rparr>))"

datatype from_template_provider =
    TdNewTemplate new_template
  | TdSetNewPrevHash template_prev_hash
  | TdRequestTxDataError
  | TdRequestTxDataSuccess

fun handle_template_distribution_message ::
  "('s, 'e, 'g, 'j, 'a, 'p, 'v) pool_lib \<Rightarrow> pool_env \<Rightarrow> from_template_provider \<Rightarrow> ('s, 'e, 'g, 'a, 'v) pool \<Rightarrow>
   (pool_error, unit) attempt \<times> ('s, 'e, 'g, 'a, 'v) pool" where
  "handle_template_distribution_message L env (TdNewTemplate t) s = handle_new_template L env t s"
| "handle_template_distribution_message L env (TdSetNewPrevHash m) s = pool_handle_set_new_prev_hash L env m s"
| "handle_template_distribution_message L env TdRequestTxDataError s = (Done (), s)"
| "handle_template_distribution_message L env TdRequestTxDataSuccess s = (Done (), s)"

section \<open>Variable difficulty\<close>

text \<open>The body the two kinds of channel share: a difficulty state that cannot answer changes nothing else;
  no new hashrate means the hashrate is stable; a new one is applied and its target announced.\<close>

definition vardiff_on_channel ::
  "(unit, hashrate option) result \<Rightarrow> channel_id \<Rightarrow> (bool \<Rightarrow> 'c \<Rightarrow> 'c) \<Rightarrow>
   (hashrate \<Rightarrow> target option \<Rightarrow> 'c \<Rightarrow> (update_channel_error, 'c) result) \<Rightarrow> ('c \<Rightarrow> target) \<Rightarrow> 'c \<Rightarrow> to_client list \<times> 'c" where
  "vardiff_on_channel r ch set_stable apply_rate target_of chan =
     (case r of
        Inl _ \<Rightarrow> ([], chan)
      | Inr None \<Rightarrow> ([], set_stable True chan)
      | Inr (Some new_hashrate) \<Rightarrow>
          (case apply_rate new_hashrate None (set_stable False chan) of
             Inl _ \<Rightarrow> ([], set_stable False chan)
           | Inr chan' \<Rightarrow> ([MnSetTarget ch (target_of chan')], chan')))"

definition run_vardiff_on_standard_channel ::
  "('s, 'e, 'g, 'j, 'a, 'p, 'v) pool_lib \<Rightarrow> channel_id \<Rightarrow> ('s, 'e, 'g) pool_client \<Rightarrow> 'v \<Rightarrow>
   to_client list \<times> ('s, 'e, 'g) pool_client \<times> 'v" where
  "run_vardiff_on_standard_channel L ch c v =
     (case pd_standard c ch of
        None \<Rightarrow> ([], c, v)
      | Some sc \<Rightarrow>
          (let (r, v') = vd_try L v (std_nominal_hashrate L sc) (std_target L sc) (std_shares_per_minute L sc);
               (ms, sc') = vardiff_on_channel r ch (std_set_stable L) (std_update L) (std_target L) sc
           in (ms, c\<lparr>pd_standard := (pd_standard c)(ch \<mapsto> sc')\<rparr>, v')))"

definition run_vardiff_on_extended_channel ::
  "('s, 'e, 'g, 'j, 'a, 'p, 'v) pool_lib \<Rightarrow> channel_id \<Rightarrow> ('s, 'e, 'g) pool_client \<Rightarrow> 'v \<Rightarrow>
   to_client list \<times> ('s, 'e, 'g) pool_client \<times> 'v" where
  "run_vardiff_on_extended_channel L ch c v =
     (case pd_extended c ch of
        None \<Rightarrow> ([], c, v)
      | Some ec \<Rightarrow>
          (let (r, v') = vd_try L v (ext_nominal_hashrate L ec) (ext_target L ec) (ext_shares_per_minute L ec);
               (ms, ec') = vardiff_on_channel r ch (ext_set_stable L) (ext_update L) (ext_target L) ec
           in (ms, c\<lparr>pd_extended := (pd_extended c)(ch \<mapsto> ec')\<rparr>, v')))"

definition vardiff_turn ::
  "('s, 'e, 'g, 'j, 'a, 'p, 'v) pool_lib \<Rightarrow> downstream_id \<times> channel_id \<Rightarrow> ('s, 'e, 'g, 'a, 'v) pool \<Rightarrow>
   route_message_to list \<times> ('s, 'e, 'g, 'a, 'v) pool" where
  "vardiff_turn L key s =
     (case pl_downstreams s (fst key) of
        None \<Rightarrow> ([], s\<lparr>pl_vardiff := (pl_vardiff s)(key := None)\<rparr>)
      | Some c \<Rightarrow>
          (case pl_vardiff s key of
             None \<Rightarrow> ([], s)
           | Some v \<Rightarrow>
               (let (ms, c1, v1) = run_vardiff_on_standard_channel L (snd key) c v;
                    (ms', c2, v2) = run_vardiff_on_extended_channel L (snd key) c1 v1
                in (map (ToDownstream (fst key)) (ms @ ms'),
                    put_client (fst key) c2 (s\<lparr>pl_vardiff := (pl_vardiff s)(key \<mapsto> v2)\<rparr>)))))"

fun vardiff_turns ::
  "('s, 'e, 'g, 'j, 'a, 'p, 'v) pool_lib \<Rightarrow> (downstream_id \<times> channel_id) list \<Rightarrow> ('s, 'e, 'g, 'a, 'v) pool \<Rightarrow>
   route_message_to list \<times> ('s, 'e, 'g, 'a, 'v) pool" where
  "vardiff_turns L [] s = ([], s)"
| "vardiff_turns L (key # keys) s =
     (let (ms, s1) = vardiff_turn L key s; (ms', s2) = vardiff_turns L keys s1 in (ms @ ms', s2))"

definition run_vardiff ::
  "('s, 'e, 'g, 'j, 'a, 'p, 'v) pool_lib \<Rightarrow> pool_env \<Rightarrow> ('s, 'e, 'g, 'a, 'v) pool \<Rightarrow> ('s, 'e, 'g, 'a, 'v) pool" where
  "run_vardiff L env s = (let (ms, s') = vardiff_turns L (visit_vardiff env) s in forward_all env ms s')"

section \<open>Constraints\<close>

definition announce_coinbase_output_constraints ::
  "btc_lib \<Rightarrow> (transaction \<Rightarrow> nat) \<Rightarrow> pool_env \<Rightarrow> tx_out list \<Rightarrow> ('s, 'e, 'g, 'a, 'v) pool \<Rightarrow>
   (pool_error, unit) attempt \<times> ('s, 'e, 'g, 'a, 'v) pool" where
  "announce_coinbase_output_constraints B sigop_cost env outs s =
     (if provider_reads env
      then (Done (), s\<lparr>pl_to_template_provider := pl_to_template_provider s @
             [TpCoinbaseOutputConstraints (coinbase_output_constraints_message_with_offset B sigop_cost outs)]\<rparr>)
      else (Failed (pool_shutdown PkChannelErrorSender), s))"

end
