(* ===== verification/Pool_Connection.thy ===== *)
theory Pool_Connection
  imports Pool_State Downstream_Connection
begin

text \<open>
  \<open>pool-apps/pool/src/lib/downstream/\<close>, \<open>mod.rs\<close>, \<open>common_message_handler.rs\<close> and
  \<open>extensions_message_handler.rs\<close>: the task of one client of the pool. It makes the handshake, which decides
  what kind of channel the client may open, negotiates extensions, and passes the mining messages on to the
  channel manager; everything else is ignored.

  The flags of \<open>SetupConnection\<close> are read by \<open>common_messages_sv2\<close> and frames are decoded by \<open>parsers_sv2\<close>:
  both are fields of \<open>client_lib\<close>. A frame the client's socket delivers is \<open>Some\<close>, a closed socket \<open>None\<close>;
  whether the answer reaches the client's queue, or the message the channel manager's, is the argument
  \<open>sent\<close>.
\<close>

record 'm client_lib =
  has_requires_std_job :: "u32 \<Rightarrow> bool"
  has_work_selection :: "u32 \<Rightarrow> bool"
  decode_setup_connection :: "frame \<Rightarrow> setup_connection option"
  decode_mining :: "u16 list \<Rightarrow> frame \<Rightarrow> 'm option option"
  decode_request_extensions :: "frame \<Rightarrow> (u16 \<times> u16 list) option"

section \<open>The handshake\<close>

definition REQUIRES_EXTENDED_CHANNELS :: u32 where
  "REQUIRES_EXTENDED_CHANNELS = 2"

definition pool_setup_connection ::
  "'m client_lib \<Rightarrow> bool \<Rightarrow> downstream_id \<Rightarrow> setup_connection \<Rightarrow> ('s, 'e, 'g) pool_client \<Rightarrow>
   (pool_error, unit) attempt \<times> setup_reply list \<times> ('s, 'e, 'g) pool_client" where
  "pool_setup_connection K sent d msg c =
     (let answer = (\<lambda>res reply c. if sent then (res, [reply], c)
                               else (Failed (pool_disconnect PkChannelErrorSender d), [], c))
      in if su_protocol msg \<noteq> MiningProtocol
         then answer (Failed (pool_disconnect PkUnsupportedProtocol d)) (SetupConnectionError 0 UNSUPPORTED_PROTOCOL) c
         else if SUPPORTED_PROTOCOL_VERSION < su_min_version msg \<or> SUPPORTED_PROTOCOL_VERSION > su_max_version msg
         then answer (Failed (pool_disconnect PkSetupConnectionError d))
                (SetupConnectionError 0 PROTOCOL_VERSION_MISMATCH) c
         else answer (Done ())
                (SetupConnectionSuccess SUPPORTED_PROTOCOL_VERSION
                   (if has_work_selection K (su_flags msg) then REQUIRES_EXTENDED_CHANNELS else 0))
                (c\<lparr>pd_requires_custom_work := has_work_selection K (su_flags msg),
                   pd_requires_standard_jobs := has_requires_std_job K (su_flags msg)\<rparr>))"

definition pool_setup_with_downstream ::
  "(message_name \<Rightarrow> u8) \<Rightarrow> 'm client_lib \<Rightarrow> bool \<Rightarrow> downstream_id \<Rightarrow> frame option \<Rightarrow> ('s, 'e, 'g) pool_client \<Rightarrow>
   (pool_error, unit) attempt \<times> setup_reply list \<times> ('s, 'e, 'g) pool_client" where
  "pool_setup_with_downstream code K sent d received c =
     (case received of
        None \<Rightarrow> (Failed (pool_disconnect PkChannelRecv d), [], c)
      | Some f \<Rightarrow>
          if fr_ext_type f = 0 \<and> fr_msg_type f = code SETUP_CONNECTION
          then (case decode_setup_connection K f of
                  None \<Rightarrow> (Failed (pool_log PkParser), [], c)
                | Some msg \<Rightarrow> pool_setup_connection K sent d msg c)
          else (Failed (pool_disconnect
                 (PkUnexpectedMessage (fr_ext_type f AND NOT CHANNEL_MSG_MASK) (fr_msg_type f)) d), [], c))"

section \<open>Extensions\<close>

datatype extensions_reply =
    RequestExtensionsSuccess u16 "u16 list"
  | RequestExtensionsError u16 "u16 list" "u16 list"

text \<open>A \<open>Seq064K\<close> holds fewer than \<open>2 ^ 16\<close> elements; the error and the success are sent to the client's
  queue.\<close>

definition handle_request_extensions ::
  "bool \<Rightarrow> downstream_id \<Rightarrow> u16 \<Rightarrow> u16 list \<Rightarrow> ('s, 'e, 'g) pool_client \<Rightarrow>
   (pool_error, unit) attempt \<times> extensions_reply list \<times> ('s, 'e, 'g) pool_client" where
  "handle_request_extensions sent d r requested c =
     (let supported = filter (\<lambda>ext. ext \<in> set (pd_supported_extensions c)) requested;
          unsupported = filter (\<lambda>ext. ext \<notin> set (pd_supported_extensions c)) requested;
          missing_required = filter (\<lambda>ext. ext \<notin> set requested) (pd_required_extensions c);
          lost = Failed (pool_disconnect PkChannelErrorSender d)
      in if supported = [] \<or> missing_required \<noteq> []
         then (if length unsupported \<ge> 2 ^ 16 \<or> length missing_required \<ge> 2 ^ 16
               then (Failed (pool_shutdown PkBinarySv2), [], c)
               else if \<not> sent then (lost, [], c)
               else (if missing_required \<noteq> []
                     then Failed (pool_disconnect (PkClientDoesNotSupportRequiredExtensions missing_required) d)
                     else Done (),
                     [RequestExtensionsError r unsupported missing_required], c))
         else (let c' = c\<lparr>pd_negotiated_extensions := supported\<rparr>
               in if length supported \<ge> 2 ^ 16 then (Failed (pool_shutdown PkBinarySv2), [], c')
                  else if \<not> sent then (lost, [], c')
                  else (Done (), [RequestExtensionsSuccess r supported], c')))"

section \<open>The loop\<close>

text \<open>One frame of the client: the outcome, the answers, the mining message passed on, and the client.\<close>

definition handle_downstream_message ::
  "(message_name \<Rightarrow> u8) \<Rightarrow> u16 \<Rightarrow> 'm client_lib \<Rightarrow> bool \<Rightarrow> downstream_id \<Rightarrow> frame option \<Rightarrow> ('s, 'e, 'g) pool_client \<Rightarrow>
   (pool_error, unit) attempt \<times> extensions_reply list \<times> 'm list \<times> ('s, 'e, 'g) pool_client" where
  "handle_downstream_message code ext_negotiation K sent d received c =
     (case received of
        None \<Rightarrow> (Failed (pool_disconnect PkChannelRecv d), [], [], c)
      | Some f \<Rightarrow>
          (case protocol_message_type code ext_negotiation (fr_ext_type f) (fr_msg_type f) of
             Mining \<Rightarrow>
               (case decode_mining K (pd_negotiated_extensions c) f of
                  None \<Rightarrow> (Failed (pool_disconnect PkParser d), [], [], c)
                | Some None \<Rightarrow>
                    (Failed (pool_disconnect
                      (PkUnexpectedMessage (fr_ext_type f AND NOT CHANNEL_MSG_MASK) (fr_msg_type f)) d), [], [], c)
                | Some (Some m) \<Rightarrow>
                    if sent then (Done (), [], [m], c) else (Failed (pool_shutdown PkChannelSend), [], [], c))
           | Extensions \<Rightarrow>
               (case decode_request_extensions K f of
                  None \<Rightarrow> (Failed (pool_log PkParser), [], [], c)
                | Some (r, requested) \<Rightarrow>
                    (case handle_request_extensions sent d r requested c of
                       (out, replies, c') \<Rightarrow> (out, replies, [], c')))
           | _ \<Rightarrow> (Done (), [], [], c)))"

text \<open>\<open>Downstream::handle_error_action\<close>: only a log-only error lets the loop go on.\<close>

definition client_error_action :: "pool_error \<Rightarrow> loop_control" where
  "client_error_action e =
     (case pe_action e of PoolLog \<Rightarrow> Continue | PoolDisconnect _ \<Rightarrow> Break | PoolShutdown \<Rightarrow> Break)"

definition client_continues :: "(pool_error, 'a) attempt \<Rightarrow> bool" where
  "client_continues out =
     (case out of Done _ \<Rightarrow> True | Failed e \<Rightarrow> client_error_action e = Continue | Panicked \<Rightarrow> False)"

fun client_loop ::
  "(message_name \<Rightarrow> u8) \<Rightarrow> u16 \<Rightarrow> 'm client_lib \<Rightarrow> downstream_id \<Rightarrow> (bool \<times> frame option) list \<Rightarrow>
   ('s, 'e, 'g) pool_client \<Rightarrow> 'm list \<times> bool \<times> ('s, 'e, 'g) pool_client" where
  "client_loop code ext_negotiation K d [] c = ([], True, c)"
| "client_loop code ext_negotiation K d ((sent, received) # rest) c =
     (let (out, replies, forwarded, c') = handle_downstream_message code ext_negotiation K sent d received c
      in if client_continues out
         then (let (more, alive, c'') = client_loop code ext_negotiation K d rest c' in (forwarded @ more, alive, c''))
         else (forwarded, False, c'))"

definition client_start ::
  "(message_name \<Rightarrow> u8) \<Rightarrow> u16 \<Rightarrow> 'm client_lib \<Rightarrow> downstream_id \<Rightarrow> (bool \<times> frame option) \<Rightarrow>
   (bool \<times> frame option) list \<Rightarrow> ('s, 'e, 'g) pool_client \<Rightarrow> 'm list \<times> bool \<times> ('s, 'e, 'g) pool_client" where
  "client_start code ext_negotiation K d first rest c =
     (case pool_setup_with_downstream code K (fst first) d (snd first) c of
        (Done _, replies, c') \<Rightarrow> client_loop code ext_negotiation K d rest c'
      | (_, replies, c') \<Rightarrow> ([], False, c'))"

section \<open>Negotiated extensions\<close>

definition extensions_ok :: "('s, 'e, 'g) pool_client \<Rightarrow> bool" where
  "extensions_ok c \<longleftrightarrow>
     pd_negotiated_extensions c = [] \<or>
     set (pd_negotiated_extensions c) \<subseteq> set (pd_supported_extensions c) \<and>
     (set (pd_required_extensions c) \<inter> set (pd_supported_extensions c) \<subseteq> set (pd_negotiated_extensions c))"

lemma extensions_ok_request:
  assumes "handle_request_extensions sent d r requested c = (out, replies, c')" and "extensions_ok c"
  shows "extensions_ok c'"
  using assms by (auto simp: handle_request_extensions_def extensions_ok_def Let_def filter_empty_conv split: if_splits)

lemma extensions_ok_message:
  assumes "handle_downstream_message code en K sent d received c = (out, replies, forwarded, c')" and "extensions_ok c"
  shows "extensions_ok c'"
  using assms
  by (auto simp: handle_downstream_message_def split: option.splits message_type.splits if_splits prod.splits
      dest: extensions_ok_request)

lemma extensions_ok_loop:
  assumes "client_loop code en K d frames c = (ms, alive, c')" and "extensions_ok c"
  shows "extensions_ok c'"
  using assms
proof (induction code en K d frames c arbitrary: ms alive c' rule: client_loop.induct)
  case (2 code en K d sent received rest c)
  obtain out replies forwarded c1 where
    m: "handle_downstream_message code en K sent d received c = (out, replies, forwarded, c1)"
    by (metis prod_cases4)
  have ok: "extensions_ok c1" using extensions_ok_message [OF m 2(3)] .
  show ?case
  proof (cases "client_continues out")
    case True
    then show ?thesis
      using 2(1) [OF m [symmetric] refl refl refl True _ ok] 2(2) m by (auto simp: Let_def split: prod.splits)
  next
    case False
    then show ?thesis using 2(2) m ok by simp
  qed
qed simp

section \<open>The life of a connection\<close>

lemma loop_keeps_kind:
  assumes "client_loop code en K d frames c = (ms, alive, c')"
  shows "pd_requires_custom_work c' = pd_requires_custom_work c \<and> pd_requires_standard_jobs c' = pd_requires_standard_jobs c"
  using assms
proof (induction code en K d frames c arbitrary: ms alive c' rule: client_loop.induct)
  case (2 code en K d sent received rest c)
  obtain out replies forwarded c1 where
    m: "handle_downstream_message code en K sent d received c = (out, replies, forwarded, c1)"
    by (metis prod_cases4)
  have kind: "pd_requires_custom_work c1 = pd_requires_custom_work c" "pd_requires_standard_jobs c1 = pd_requires_standard_jobs c"
    using m by (auto simp: handle_downstream_message_def handle_request_extensions_def Let_def
        split: option.splits message_type.splits if_splits prod.splits)
  show ?case
  proof (cases "client_continues out")
    case True
    then show ?thesis
      using 2(1) [OF m [symmetric] refl refl refl True] 2(2) m kind by (auto simp: Let_def split: prod.splits)
  next
    case False
    then show ?thesis using 2(2) m kind by simp
  qed
qed simp

text \<open>
  A client of the pool is what its handshake made it. A connection passes a mining message on, or
  stays up, only when its first frame was a \<open>SetupConnection\<close> for the mining protocol with a version range
  that holds the pool's; from then on the client is limited to the kind of channel the flags of that
  message ask for, and the extensions in force are supported by the pool and include every required one
  the pool supports.
\<close>

theorem pool_connection_keeps_its_handshake:
  assumes "client_start code en K d first rest (pool_client_new n g supported required) = (forwarded, alive, c')"
    and "forwarded \<noteq> [] \<or> alive"
  shows "\<exists>f msg. snd first = Some f \<and> fr_ext_type f = 0 \<and> fr_msg_type f = code SETUP_CONNECTION \<and>
    decode_setup_connection K f = Some msg \<and> su_protocol msg = MiningProtocol \<and>
    su_min_version msg \<le> SUPPORTED_PROTOCOL_VERSION \<and> SUPPORTED_PROTOCOL_VERSION \<le> su_max_version msg \<and>
    pd_requires_custom_work c' = has_work_selection K (su_flags msg) \<and>
    pd_requires_standard_jobs c' = has_requires_std_job K (su_flags msg) \<and> extensions_ok c'"
proof -
  obtain replies c1 where hs: "pool_setup_with_downstream code K (fst first) d (snd first)
      (pool_client_new n g supported required) = (Done (), replies, c1)"
    and loop: "client_loop code en K d rest c1 = (forwarded, alive, c')"
    using assms by (auto simp: client_start_def split: prod.splits attempt.splits)
  then obtain f msg where f: "snd first = Some f" "fr_ext_type f = 0" "fr_msg_type f = code SETUP_CONNECTION"
      "decode_setup_connection K f = Some msg"
    and conn: "pool_setup_connection K (fst first) d msg (pool_client_new n g supported required) = (Done (), replies, c1)"
    by (auto simp: pool_setup_with_downstream_def split: option.splits if_splits)
  have msg: "su_protocol msg = MiningProtocol" "su_min_version msg \<le> SUPPORTED_PROTOCOL_VERSION"
      "SUPPORTED_PROTOCOL_VERSION \<le> su_max_version msg"
    and c1: "c1 = (pool_client_new n g supported required)\<lparr>pd_requires_custom_work := has_work_selection K (su_flags msg),
      pd_requires_standard_jobs := has_requires_std_job K (su_flags msg)\<rparr>"
    using conn by (auto simp: pool_setup_connection_def Let_def split: if_splits)
  have "extensions_ok c1" by (simp add: c1 extensions_ok_def pool_client_new_def)
  then show ?thesis using f msg extensions_ok_loop [OF loop] loop_keeps_kind [OF loop] by (simp add: c1)
qed

definition demo_frame_lib :: "unit client_lib" where
  "demo_frame_lib = \<lparr>has_requires_std_job = \<lambda>fl. bit fl 0, has_work_selection = \<lambda>fl. bit fl 1,
     decode_setup_connection = \<lambda>f. Some \<lparr>su_protocol = MiningProtocol, su_min_version = 2, su_max_version = 2, su_flags = 2\<rparr>,
     decode_mining = \<lambda>_ _. Some (Some ()), decode_request_extensions = \<lambda>_. None\<rparr>"

theorem pool_connection_keeps_its_handshake_witness:
  "\<exists>c'. client_start (\<lambda>_. 0) 1 demo_frame_lib 7 (True, Some \<lparr>fr_ext_type = 0, fr_msg_type = 0, fr_payload = []\<rparr>) []
       (pool_client_new 2 () [] [] :: (unit, unit, unit) pool_client) = ([], True, c') \<and>
     pd_requires_custom_work c' \<and> \<not> pd_requires_standard_jobs c'"
proof -
  obtain c' where run: "client_start (\<lambda>_. 0) 1 demo_frame_lib 7 (True, Some \<lparr>fr_ext_type = 0, fr_msg_type = 0, fr_payload = []\<rparr>) []
       (pool_client_new 2 () [] [] :: (unit, unit, unit) pool_client) = ([], True, c')"
    by (simp add: client_start_def pool_setup_with_downstream_def pool_setup_connection_def demo_frame_lib_def
        SUPPORTED_PROTOCOL_VERSION_def)
  from pool_connection_keeps_its_handshake [OF run] have "pd_requires_custom_work c' \<and> \<not> pd_requires_standard_jobs c'"
    by (auto simp: demo_frame_lib_def)
  then show ?thesis using run by blast
qed

end
