(* ===== verification/Pool_Shapes.thy ===== *)
theory Pool_Shapes
  imports Pool_Templates Pool_Connection
begin

text \<open>
  What the handlers of the pool leave as it is. Most of them only change what is inside channels: which
  channels are open, who owns which prefix, what each client is paid by and which channels are in its group
  stay the same. The relation \<open>same_shapes\<close> says so; it is kept along every chain of steps, and every
  invariant of the registries is one of shapes.
\<close>

section \<open>What channels and groups keep\<close>

definition std_owner :: "('s, 'e, 'g, 'j, 'a, 'p, 'v) pool_lib \<Rightarrow> 's \<Rightarrow> 'p \<times> string" where
  "std_owner L sc = (std_slot L sc, std_user_identity L sc)"

definition ext_owner :: "('s, 'e, 'g, 'j, 'a, 'p, 'v) pool_lib \<Rightarrow> 'e \<Rightarrow> 'p \<times> string" where
  "ext_owner L ec = (ext_slot L ec, ext_user_identity L ec)"

text \<open>A channel keeps the prefix and the identity it was made with.\<close>

definition standard_channels_ok :: "('s, 'e, 'g, 'j, 'a, 'p, 'v) pool_lib \<Rightarrow> bool" where
  "standard_channels_ok L \<longleftrightarrow>
     (\<forall>ch u p t h b r tag past sc. std_new L ch u p t h b r tag past = Inr sc \<longrightarrow> std_owner L sc = (p, u)) \<and>
     (\<forall>t outs sc sc'. std_on_new_template L t outs sc = Some sc' \<longrightarrow> std_owner L sc' = std_owner L sc) \<and>
     (\<forall>j sc sc'. std_on_group_job L j sc = Some sc' \<longrightarrow> std_owner L sc' = std_owner L sc) \<and>
     (\<forall>m sc sc'. std_on_prev_hash L m sc = Some sc' \<longrightarrow> std_owner L sc' = std_owner L sc) \<and>
     (\<forall>m sc. std_owner L (snd (std_validate_share L m sc)) = std_owner L sc) \<and>
     (\<forall>h t sc sc'. std_update L h t sc = Inr sc' \<longrightarrow> std_owner L sc' = std_owner L sc) \<and>
     (\<forall>b sc. std_owner L (std_set_stable L b sc) = std_owner L sc)"

definition extended_channels_ok :: "('s, 'e, 'g, 'j, 'a, 'p, 'v) pool_lib \<Rightarrow> bool" where
  "extended_channels_ok L \<longleftrightarrow>
     (\<forall>ch u p t h v n b r tag past ec. ext_new L ch u p t h v n b r tag past = Inr ec \<longrightarrow> ext_owner L ec = (p, u)) \<and>
     (\<forall>t outs ec ec'. ext_on_new_template L t outs ec = Some ec' \<longrightarrow> ext_owner L ec' = ext_owner L ec) \<and>
     (\<forall>j ec ec'. ext_on_group_job L j ec = Some ec' \<longrightarrow> ext_owner L ec' = ext_owner L ec) \<and>
     (\<forall>m ec ec'. ext_on_prev_hash L m ec = Some ec' \<longrightarrow> ext_owner L ec' = ext_owner L ec) \<and>
     (\<forall>m ec i ec'. ext_on_custom_job L m ec = Some (i, ec') \<longrightarrow> ext_owner L ec' = ext_owner L ec) \<and>
     (\<forall>m ec. ext_owner L (snd (ext_validate_share L m ec)) = ext_owner L ec) \<and>
     (\<forall>h t ec ec'. ext_update L h t ec = Inr ec' \<longrightarrow> ext_owner L ec' = ext_owner L ec) \<and>
     (\<forall>b ec. ext_owner L (ext_set_stable L b ec) = ext_owner L ec)"

text \<open>The members of a group are the channels added and not removed.\<close>

definition groups_ok :: "('s, 'e, 'g, 'j, 'a, 'p, 'v) pool_lib \<Rightarrow> bool" where
  "groups_ok L \<longleftrightarrow>
     (\<forall>ch n b tag g. grp_new L ch n b tag = Some g \<longrightarrow> grp_ids L g = []) \<and>
     (\<forall>ch n g g'. grp_add L ch n g = Some g' \<longrightarrow> set (grp_ids L g') = insert ch (set (grp_ids L g))) \<and>
     (\<forall>ch g. set (grp_ids L (grp_remove L ch g)) = set (grp_ids L g) - {ch}) \<and>
     (\<forall>t outs g g'. grp_on_new_template L t outs g = Some g' \<longrightarrow> set (grp_ids L g') = set (grp_ids L g)) \<and>
     (\<forall>m g g'. grp_on_prev_hash L m g = Some g' \<longrightarrow> set (grp_ids L g') = set (grp_ids L g))"

definition channels_ok :: "('s, 'e, 'g, 'j, 'a, 'p, 'v) pool_lib \<Rightarrow> bool" where
  "channels_ok L \<longleftrightarrow> standard_channels_ok L \<and> extended_channels_ok L \<and> groups_ok L"

lemma owners_kept:
  assumes "channels_ok L"
  shows std_new_owner: "std_new L ch u p t h b r tag past = Inr sc \<Longrightarrow> std_owner L sc = (p, u)"
    and std_template_owner: "std_on_new_template L tm outs sc = Some sc' \<Longrightarrow> std_owner L sc' = std_owner L sc"
    and std_group_job_owner: "std_on_group_job L j sc = Some sc' \<Longrightarrow> std_owner L sc' = std_owner L sc"
    and std_prev_hash_owner: "std_on_prev_hash L ph sc = Some sc' \<Longrightarrow> std_owner L sc' = std_owner L sc"
    and std_share_owner: "std_owner L (snd (std_validate_share L m sc)) = std_owner L sc"
    and std_update_owner: "std_update L h' t' sc = Inr sc' \<Longrightarrow> std_owner L sc' = std_owner L sc"
    and std_stable_owner: "std_owner L (std_set_stable L flag sc) = std_owner L sc"
  using assms unfolding channels_ok_def standard_channels_ok_def by meson+

lemma ext_owners_kept:
  assumes "channels_ok L"
  shows ext_new_owner: "ext_new L ch u p t h v n b r tag past = Inr ec \<Longrightarrow> ext_owner L ec = (p, u)"
    and ext_template_owner: "ext_on_new_template L tm outs ec = Some ec' \<Longrightarrow> ext_owner L ec' = ext_owner L ec"
    and ext_group_job_owner: "ext_on_group_job L j ec = Some ec' \<Longrightarrow> ext_owner L ec' = ext_owner L ec"
    and ext_prev_hash_owner: "ext_on_prev_hash L ph ec = Some ec' \<Longrightarrow> ext_owner L ec' = ext_owner L ec"
    and ext_custom_owner: "ext_on_custom_job L cm ec = Some (i, ec') \<Longrightarrow> ext_owner L ec' = ext_owner L ec"
    and ext_share_owner: "ext_owner L (snd (ext_validate_share L m ec)) = ext_owner L ec"
    and ext_update_owner: "ext_update L h' t' ec = Inr ec' \<Longrightarrow> ext_owner L ec' = ext_owner L ec"
    and ext_stable_owner: "ext_owner L (ext_set_stable L flag ec) = ext_owner L ec"
  using assms unfolding channels_ok_def extended_channels_ok_def by meson+

lemma groups_kept:
  assumes "channels_ok L"
  shows grp_new_ids: "grp_new L ch n b tag = Some g \<Longrightarrow> grp_ids L g = []"
    and grp_add_ids: "grp_add L ch n g = Some g' \<Longrightarrow> set (grp_ids L g') = insert ch (set (grp_ids L g))"
    and grp_remove_ids: "set (grp_ids L (grp_remove L ch g)) = set (grp_ids L g) - {ch}"
    and grp_template_ids: "grp_on_new_template L tm outs g = Some g' \<Longrightarrow> set (grp_ids L g') = set (grp_ids L g)"
    and grp_prev_hash_ids: "grp_on_prev_hash L ph g = Some g' \<Longrightarrow> set (grp_ids L g') = set (grp_ids L g)"
  using assms unfolding channels_ok_def groups_ok_def by meson+

section \<open>The shape of a client\<close>

definition same_shape ::
  "('s, 'e, 'g, 'j, 'a, 'p, 'v) pool_lib \<Rightarrow> ('s, 'e, 'g) pool_client \<Rightarrow> ('s, 'e, 'g) pool_client \<Rightarrow> bool" where
  "same_shape L c c' \<longleftrightarrow>
     (\<forall>ch. map_option (std_owner L) (pd_standard c' ch) = map_option (std_owner L) (pd_standard c ch)) \<and>
     (\<forall>ch. map_option (ext_owner L) (pd_extended c' ch) = map_option (ext_owner L) (pd_extended c ch)) \<and>
     set (grp_ids L (pd_group c')) = set (grp_ids L (pd_group c)) \<and>
     pd_payout_mode c' = pd_payout_mode c \<and>
     pd_requires_standard_jobs c' = pd_requires_standard_jobs c \<and>
     pd_requires_custom_work c' = pd_requires_custom_work c"

lemma same_shape_refl [simp]: "same_shape L c c"
  by (simp add: same_shape_def)

lemma same_shape_trans: "same_shape L a b \<Longrightarrow> same_shape L b c \<Longrightarrow> same_shape L a c"
  by (simp add: same_shape_def)

interpretation client_shape: kept_relation "same_shape L" for L
  by unfold_locales (simp, rule same_shape_trans)

lemma same_shape_standard:
  "pd_standard c ch = Some sc \<Longrightarrow> std_owner L sc' = std_owner L sc \<Longrightarrow>
   same_shape L c (c\<lparr>pd_standard := (pd_standard c)(ch \<mapsto> sc')\<rparr>)"
  by (simp add: same_shape_def)

lemma same_shape_extended:
  "pd_extended c ch = Some ec \<Longrightarrow> ext_owner L ec' = ext_owner L ec \<Longrightarrow>
   same_shape L c (c\<lparr>pd_extended := (pd_extended c)(ch \<mapsto> ec')\<rparr>)"
  by (simp add: same_shape_def)

lemma same_shape_group:
  "set (grp_ids L g) = set (grp_ids L (pd_group c)) \<Longrightarrow> same_shape L c (c\<lparr>pd_group := g\<rparr>)"
  by (simp add: same_shape_def)

lemmas same_shape_intros = same_shape_standard same_shape_extended same_shape_group

lemma shape_template_standard:
  assumes "channels_ok L"
  shows "same_shape L c (snd (template_for_standard L template outs job ch c))"
  using assms
  by (auto simp: template_for_standard_def split: option.split
      intro!: same_shape_standard dest: std_template_owner std_group_job_owner)

lemma shape_update_extended:
  assumes "\<And>ec ec'. f ec = Some ec' \<Longrightarrow> ext_owner L ec' = ext_owner L ec"
  shows "same_shape L c (snd (update_extended f ch c))"
  using assms by (auto simp: update_extended_def split: option.split intro!: same_shape_extended)

lemma shape_template_client:
  assumes "channels_ok L"
  shows "same_shape L c (snd (template_for_client L template outs channels c))"
proof -
  have ext: "same_shape L c' (snd (update_extended (ext_on_group_job L job) ch c'))" for c' job ch
    by (rule shape_update_extended) (rule ext_group_job_owner [OF assms])
  have grp: "same_shape L c (c\<lparr>pd_group := g\<rparr>)" if "grp_on_new_template L template outs (pd_group c) = Some g" for g
    using grp_template_ids [OF assms that] by (rule same_shape_group)
  have loops: "same_shape L c' (snd (and_then (collect (template_for_standard L template outs job) channels c') (\<lambda>ms c2.
      and_then (each (update_extended (ext_on_group_job L job)) channels c2) (\<lambda>_ c3. (Done (k ms), c3)))))" for c' job k
    by (intro client_shape.kept_rules client_shape.kept_collect shape_template_standard [OF assms] ext)
  show ?thesis
    by (auto simp: template_for_client_def Let_def split: option.split
        intro: grp same_shape_trans [OF grp loops])
qed

lemma shape_prev_hash_client:
  assumes "channels_ok L"
  shows "same_shape L c (snd (prev_hash_for_client L msg channels c))"
proof -
  have ext: "same_shape L c' (snd (update_extended (ext_on_prev_hash L msg) ch c'))" for c' ch
    by (rule shape_update_extended) (rule ext_prev_hash_owner [OF assms])
  have std: "same_shape L c' (snd (prev_hash_for_standard L msg ch c'))" for c' ch
    using assms
    by (auto simp: prev_hash_for_standard_def Let_def split: option.split
        intro!: same_shape_standard dest: std_prev_hash_owner)
  have grp: "same_shape L c (snd (group_prev_hash L msg c))"
    using assms
    by (auto simp: group_prev_hash_def Let_def split: option.split
        intro!: same_shape_group dest: grp_prev_hash_ids)
  show ?thesis
    unfolding prev_hash_for_client_def
    by (intro client_shape.kept_rules client_shape.kept_collect std ext grp)
qed

lemma owner_vardiff_on_channel:
  assumes "\<And>b chan. own (set_stable b chan) = own chan"
    and "\<And>h chan chan'. upd h None chan = Inr chan' \<Longrightarrow> own chan' = own chan"
  shows "own (snd (vardiff_on_channel r ch set_stable upd target_of chan)) = own chan"
proof (cases r)
  case (Inr ho)
  then show ?thesis
    using assms by (auto simp: vardiff_on_channel_def split: option.split sum.split)
qed (simp add: vardiff_on_channel_def)

lemma shape_vardiff:
  assumes "channels_ok L"
  shows "same_shape L c (fst (snd (run_vardiff_on_standard_channel L ch c v)))"
    and "same_shape L c (fst (snd (run_vardiff_on_extended_channel L ch c v)))"
proof -
  have "std_owner L (snd (vardiff_on_channel r ch (std_set_stable L) (std_update L) (std_target L) sc)) = std_owner L sc" for r sc
    by (rule owner_vardiff_on_channel) (simp_all add: std_stable_owner [OF assms] std_update_owner [OF assms])
  then show "same_shape L c (fst (snd (run_vardiff_on_standard_channel L ch c v)))"
    by (auto simp: run_vardiff_on_standard_channel_def Let_def split_beta split: option.split intro!: same_shape_standard)
  have "ext_owner L (snd (vardiff_on_channel r ch (ext_set_stable L) (ext_update L) (ext_target L) ec)) = ext_owner L ec" for r ec
    by (rule owner_vardiff_on_channel) (simp_all add: ext_stable_owner [OF assms] ext_update_owner [OF assms])
  then show "same_shape L c (fst (snd (run_vardiff_on_extended_channel L ch c v)))"
    by (auto simp: run_vardiff_on_extended_channel_def Let_def split_beta split: option.split intro!: same_shape_extended)
qed

section \<open>The shape of the pool\<close>

text \<open>The prefixes an allocator has handed out and not got back are \<open>H\<close> of it.\<close>

definition same_shapes ::
  "('s, 'e, 'g, 'j, 'a, 'p, 'v) pool_lib \<Rightarrow> ('a \<Rightarrow> 'p set) \<Rightarrow> ('s, 'e, 'g, 'a, 'v) pool \<Rightarrow> ('s, 'e, 'g, 'a, 'v) pool \<Rightarrow> bool" where
  "same_shapes L H s s' \<longleftrightarrow>
     (\<forall>d. rel_option (same_shape L) (pl_downstreams s d) (pl_downstreams s' d)) \<and>
     (\<forall>key. pl_vardiff s' key = None \<longleftrightarrow> pl_vardiff s key = None) \<and>
     H (pl_allocator s') = H (pl_allocator s) \<and> pl_senders s' = pl_senders s \<and> pl_departing s' = pl_departing s \<and>
     pl_coinbase_reward_script s' = pl_coinbase_reward_script s \<and>
     pl_downstream_id_factory s' = pl_downstream_id_factory s"

lemma rel_option_same_shape_refl [simp]: "rel_option (same_shape L) x x"
  by (rule option.rel_refl) simp

lemma same_shapes_refl: "same_shapes L H s s"
  by (simp add: same_shapes_def)

lemma same_shapes_trans:
  assumes "same_shapes L H a b" and "same_shapes L H b c"
  shows "same_shapes L H a c"
proof -
  have "rel_option (same_shape L) (pl_downstreams a d) (pl_downstreams c d)" for d
  proof -
    have "rel_option (same_shape L) (pl_downstreams a d) (pl_downstreams b d)"
      and "rel_option (same_shape L) (pl_downstreams b d) (pl_downstreams c d)"
      using assms by (simp_all add: same_shapes_def)
    then show ?thesis
      by (cases "pl_downstreams a d"; cases "pl_downstreams b d"; cases "pl_downstreams c d")
        (auto intro: same_shape_trans)
  qed
  then show ?thesis using assms by (simp add: same_shapes_def)
qed

interpretation pool_shape: kept_relation "same_shapes L H" for L H
  by unfold_locales (rule same_shapes_refl, rule same_shapes_trans)

lemma same_shapes_put:
  "pl_downstreams s d = Some c \<Longrightarrow> same_shape L c c' \<Longrightarrow> same_shapes L H s (put_client d c' s)"
  by (simp add: same_shapes_def put_client_def)

lemma same_shapes_count: "same_shapes L H s (count_share L d ch s)"
  by (auto simp: same_shapes_def count_share_def)

lemma same_shapes_forward: "same_shapes L H s (snd (forward env m s))"
  by (simp add: same_shapes_def forward_def split: route_message_to.split)

lemma same_shapes_forward_all: "same_shapes L H s (forward_all env ms s)"
proof (induction ms arbitrary: s)
  case (Cons m ms)
  show ?case by (simp add: same_shapes_trans [OF same_shapes_forward Cons.IH])
qed (simp add: same_shapes_refl)

lemma same_shapes_then_forward:
  "same_shapes L H s (snd r) \<Longrightarrow> same_shapes L H s (snd (then_forward env r))"
  unfolding then_forward_def by (rule pool_shape.kept_and_then) (simp_all add: same_shapes_forward_all)

lemma same_shapes_to_client:
  "same_shapes L H s (snd r) \<Longrightarrow> same_shapes L H s (snd (to_this_client d r))"
  unfolding to_this_client_def by (rule pool_shape.kept_and_then) (simp_all add: same_shapes_refl)

lemma same_shapes_registered:
  "(\<And>c. pl_downstreams s d = Some c \<Longrightarrow> same_shapes L H s (snd (f c s))) \<Longrightarrow>
   same_shapes L H s (snd (with_registered_downstream d f s))"
  by (simp add: with_registered_downstream_def same_shapes_refl split: option.split)

lemma same_shapes_put_count:
  assumes "pl_downstreams s d = Some c" and "same_shape L c c'"
  shows "same_shapes L H s (count_share L d ch (put_client d c' s))"
  by (rule same_shapes_trans [OF same_shapes_put [OF assms] same_shapes_count])

lemma shapes_submit_standard:
  assumes "channels_ok L"
  shows "same_shapes L H s (snd (handle_submit_shares_standard L env d msg s))"
  unfolding handle_submit_shares_standard_def
  by (intro same_shapes_then_forward same_shapes_registered)
    (auto simp: submit_standard_def Let_def split_beta same_shapes_refl split: option.split
      intro!: same_shapes_put_count same_shape_standard std_share_owner [OF assms])

lemma shapes_submit_extended:
  assumes "channels_ok L"
  shows "same_shapes L H s (snd (handle_submit_shares_extended L env d msg s))"
  unfolding handle_submit_shares_extended_def
  by (intro same_shapes_then_forward same_shapes_registered)
    (auto simp: submit_extended_def Let_def split_beta same_shapes_refl split: option.split
      intro!: same_shapes_put_count same_shape_extended ext_share_owner [OF assms])

lemma owner_update_answer:
  assumes "\<And>chan'. r = Inr chan' \<Longrightarrow> own chan' = own chan"
  shows "own (snd (update_answer r ch target_of chan)) = own chan"
  using assms by (auto simp: update_answer_def split: sum.split update_channel_error.split)

lemma shapes_update_channel:
  assumes "channels_ok L"
  shows "same_shapes L H s (snd (pool_handle_update_channel L env d ch h t s))"
proof -
  have "std_owner L (snd (update_answer (std_update L h (Some t) sc) ch (std_target L) sc)) = std_owner L sc" for sc
    by (rule owner_update_answer) (rule std_update_owner [OF assms])
  moreover have "ext_owner L (snd (update_answer (ext_update L h (Some t) ec) ch (ext_target L) ec)) = ext_owner L ec" for ec
    by (rule owner_update_answer) (rule ext_update_owner [OF assms])
  ultimately show ?thesis
    unfolding pool_handle_update_channel_def
    by (intro same_shapes_then_forward same_shapes_to_client same_shapes_registered)
      (auto simp: update_in_client_def Let_def split_beta same_shapes_refl split: option.split
        intro!: same_shapes_put same_shape_standard same_shape_extended)
qed

lemma shapes_for_client:
  assumes "\<And>d c. same_shape L c (snd (f d c))"
  shows "same_shapes L H s (snd (collect (for_client f) ds s))"
proof (rule pool_shape.kept_collect)
  fix d and s
  show "same_shapes L H s (snd (for_client f d s))"
    using assms
    by (auto simp: for_client_def split_beta Let_def same_shapes_refl split: option.split
        intro!: same_shapes_to_client same_shapes_put)
qed

lemma shapes_new_template:
  assumes "channels_ok L"
  shows "same_shapes L H s (snd (handle_new_template L env template s))"
proof -
  have start: "same_shapes L H s (if tm_future_template template then s\<lparr>pl_last_future_template := Some template\<rparr> else s)"
    by (simp add: same_shapes_def)
  have loop: "same_shapes L H s' (snd (then_forward env (collect (for_client (\<lambda>d c.
      template_for_client L template (outs c) (visit_client_channels env d) c)) ds s')))" for s' outs ds
    by (intro same_shapes_then_forward shapes_for_client shape_template_client [OF assms])
  show ?thesis
    using start same_shapes_trans [OF start loop]
    by (auto simp: handle_new_template_def Let_def split: option.split list.split)
qed

lemma shapes_set_new_prev_hash:
  assumes "channels_ok L"
  shows "same_shapes L H s (snd (pool_handle_set_new_prev_hash L env msg s))"
proof -
  have "same_shapes L H s (s\<lparr>pl_last_new_prev_hash := Some msg\<rparr>)" by (simp add: same_shapes_def)
  then show ?thesis
    unfolding pool_handle_set_new_prev_hash_def
    by (rule same_shapes_trans, intro same_shapes_then_forward shapes_for_client)
      (rule shape_prev_hash_client [OF assms])
qed

lemma shapes_template_message:
  assumes "channels_ok L"
  shows "same_shapes L H s (snd (handle_template_distribution_message L env m s))"
  using shapes_new_template [OF assms] shapes_set_new_prev_hash [OF assms]
  by (cases m) (simp_all add: same_shapes_refl)

lemma shapes_forward_or_disconnect: "same_shapes L H s (snd (forward_or_disconnect env d m s))"
  using same_shapes_forward [of L H s env "ToDownstream d m"]
  by (auto simp: forward_or_disconnect_def split: prod.split bool.split)

lemma shapes_commit_custom:
  assumes "channels_ok L" and "pl_downstreams s d = Some c"
  shows "same_shapes L H s (snd (commit_custom_job L d msg c s))"
  using assms(2)
  by (auto simp: commit_custom_job_def Let_def same_shapes_refl split: option.split
      intro!: same_shapes_put same_shape_extended ext_custom_owner [OF assms(1)])

text \<open>A custom job changes no shape, unless the client leaves while it is checked.\<close>

lemma gone_client:
  "with_registered_downstream d f (remove_downstream d s) =
     (Failed (pool_disconnect (PkDownstreamNotFound d) d), remove_downstream d s)"
  by (simp add: with_registered_downstream_def remove_downstream_def sm_remove_def)

definition left_meanwhile ::
  "('s, 'e, 'g, 'j, 'a, 'p, 'v) pool_lib \<Rightarrow> ('a \<Rightarrow> 'p set) \<Rightarrow> downstream_id \<Rightarrow> ('s, 'e, 'g, 'a, 'v) pool \<Rightarrow>
   (pool_error, unit) attempt \<times> ('s, 'e, 'g, 'a, 'v) pool \<Rightarrow> bool" where
  "left_meanwhile L H d s r \<longleftrightarrow>
     (\<exists>s1. same_shapes L H s s1 \<and> r = (Failed (pool_disconnect (PkDownstreamNotFound d) d), remove_downstream d s1))"

lemma shapes_judge_custom:
  assumes "channels_ok L"
  shows "same_shapes L H s (snd (judge_custom_job B L env leaves d msg u sys s)) \<or>
    left_meanwhile L H d s (judge_custom_job B L env leaves d msg u sys s)"
proof -
  define jd where "jd = snd (handle_set_custom_mining_job B msg u (sys_jd sys))"
  define s1 where "s1 = s\<lparr>pl_job_declarator := Some (sys\<lparr>sys_jd := jd\<rparr>)\<rparr>"
  have s1: "same_shapes L H s s1" by (simp add: same_shapes_def s1_def)
  have commit: "same_shapes L H s1 (snd (and_then (with_registered_downstream d (commit_custom_job L d msg) s1)
      (forward_or_disconnect env d)))"
    by (intro pool_shape.kept_and_then same_shapes_registered shapes_commit_custom [OF assms] shapes_forward_or_disconnect)
  note after = same_shapes_trans [OF s1]
  show ?thesis
  proof (cases "fst (handle_set_custom_mining_job B msg u (sys_jd sys))")
    case Panic
    then show ?thesis using s1 by (simp add: judge_custom_job_def split_beta Let_def s1_def jd_def)
  next
    case (Value res)
    then show ?thesis
      using after [OF commit] after [OF shapes_forward_or_disconnect] s1
      by (cases res; cases leaves)
        (auto simp: judge_custom_job_def split_beta Let_def s1_def jd_def gone_client left_meanwhile_def)
  qed
qed

lemma shapes_custom_job:
  assumes "channels_ok L"
  shows "same_shapes L H s (snd (pool_handle_set_custom_mining_job B L env leaves d msg s)) \<or>
    left_meanwhile L H d s (pool_handle_set_custom_mining_job B L env leaves d msg s)"
  using shapes_judge_custom [OF assms]
  by (simp add: pool_handle_set_custom_mining_job_def Let_def with_registered_downstream_def same_shapes_refl
      shapes_forward_or_disconnect split: option.split)

end
