(* ===== verification/Pool_Run.thy ===== *)
theory Pool_Run
  imports Pool_Shapes "HOL-Library.Sublist"
begin

text \<open>
  The runs of the pool: the loop of \<open>ChannelManager::start\<close> over the messages of clients and of the Template
  Provider, the minute's difficulty update, and what happens beside it: connections that arrive, shake
  hands, negotiate and leave, and the steps of the embedded Job Declarator. A state is reached by a run that
  goes on: a handler that panics or asks for a shutdown ends it.
\<close>

section \<open>Runs\<close>

definition pool_continues ::
  "(pool_error, 'r) attempt \<times> ('s, 'e, 'g, 'a, 'v) pool \<Rightarrow> ('s, 'e, 'g, 'a, 'v) pool option" where
  "pool_continues r =
     (case r of
        (Done _, s) \<Rightarrow> Some s
      | (Failed e, s) \<Rightarrow> (case pool_error_action e s of (Continue, s') \<Rightarrow> Some s' | (Break, _) \<Rightarrow> None)
      | (Panicked, _) \<Rightarrow> None)"

text \<open>The connection's first frame is its handshake, so it has no channel then. The counter of connections
  is taken not to have come round to one that is still registered.\<close>

inductive pool_reach ::
  "btc_lib \<Rightarrow> script_lib \<Rightarrow> ('s, 'e, 'g, 'j, 'a, 'p, 'v) pool_lib \<Rightarrow> 'm client_lib \<Rightarrow> pool_config \<Rightarrow>
   ('s, 'e, 'g, 'a, 'v) pool \<Rightarrow> bool" for B S L K cfg where
  new: "pool_new L cfg outs jds = Ok s \<Longrightarrow>
    jds = None \<or> jds = Some (jd_system_new (cfg_coinbase_reward_script cfg)) \<Longrightarrow> pool_reach B S L K cfg s"
| client: "pool_reach B S L K cfg s \<Longrightarrow>
    pool_continues (handle_mining_message_from_client B S L env d m s) = Some s' \<Longrightarrow> pool_reach B S L K cfg s'"
| template: "pool_reach B S L K cfg s \<Longrightarrow>
    pool_continues (handle_template_distribution_message L env t s) = Some s' \<Longrightarrow> pool_reach B S L K cfg s'"
| vardiff: "pool_reach B S L K cfg s \<Longrightarrow> pool_reach B S L K cfg (run_vardiff L env s)"
| connect: "pool_reach B S L K cfg s \<Longrightarrow> pl_downstreams s (pl_downstream_id_factory s) = None \<Longrightarrow>
    accept_client L s = (Done (Some d), s') \<Longrightarrow> pool_reach B S L K cfg s'"
| handshake: "pool_reach B S L K cfg s \<Longrightarrow> pl_downstreams s d = Some c \<Longrightarrow> has_no_channels c \<Longrightarrow>
    pool_setup_connection K sent d msg c = (out, replies, c') \<Longrightarrow> pool_reach B S L K cfg (put_client d c' s)"
| extensions: "pool_reach B S L K cfg s \<Longrightarrow> pl_downstreams s d = Some c \<Longrightarrow>
    handle_request_extensions sent d r requested c = (out, replies', c') \<Longrightarrow> pool_reach B S L K cfg (put_client d c' s)"
| leave: "pool_reach B S L K cfg s \<Longrightarrow> pool_reach B S L K cfg (remove_downstream d s)"
| dropped: "pool_reach B S L K cfg s \<Longrightarrow> pool_reach B S L K cfg (drop_departed L d ch s)"
| jds: "pool_reach B S L K cfg s \<Longrightarrow> pl_job_declarator s = Some sys \<Longrightarrow> jd_step B sys sys' \<Longrightarrow>
    pool_reach B S L K cfg (s\<lparr>pl_job_declarator := Some sys'\<rparr>)"

section \<open>Who owns which prefix\<close>

definition client_owner ::
  "('s, 'e, 'g, 'j, 'a, 'p, 'v) pool_lib \<Rightarrow> ('s, 'e, 'g) pool_client \<Rightarrow> bool \<times> channel_id \<rightharpoonup> 'p \<times> string" where
  "client_owner L c key =
     (if fst key then map_option (std_owner L) (pd_standard c (snd key))
      else map_option (ext_owner L) (pd_extended c (snd key)))"

text \<open>The prefixes in use: of the channels of the registered connections, and of those that have left and
  have not yet been dropped.\<close>

definition slots ::
  "('s, 'e, 'g, 'j, 'a, 'p, 'v) pool_lib \<Rightarrow> ('s, 'e, 'g, 'a, 'v) pool \<Rightarrow>
   (bool \<times> downstream_id) \<times> bool \<times> channel_id \<rightharpoonup> 'p" where
  "slots L s x =
     (case (if fst (fst x) then pl_departing s else pl_downstreams s) (snd (fst x)) of
        None \<Rightarrow> None
      | Some c \<Rightarrow> map_option fst (client_owner L c (snd x)))"

definition owned :: "'p set \<Rightarrow> ('x \<rightharpoonup> 'p) \<Rightarrow> bool" where
  "owned A m \<longleftrightarrow> ran m \<subseteq> A \<and> inj_on m (dom m)"

lemma owned_iff:
  "owned A m \<longleftrightarrow> (\<forall>x p. m x = Some p \<longrightarrow> p \<in> A) \<and> (\<forall>x y p. m x = Some p \<longrightarrow> m y = Some p \<longrightarrow> x = y)"
  unfolding owned_def by (auto simp: ran_def inj_on_def dom_def)

lemma owned_shrink:
  assumes "owned A m" and "\<And>x p. m' x = Some p \<Longrightarrow> m x = Some p \<and> p \<in> A'"
  shows "owned A' m'"
  using assms unfolding owned_iff by meson

lemma owned_put:
  assumes "owned A m" and "p \<notin> A" and "\<And>q. m x = Some q \<Longrightarrow> A - {q} \<subseteq> A'" and "m x = None \<Longrightarrow> A \<subseteq> A'" and "p \<in> A'"
  shows "owned A' (m(x \<mapsto> p))"
proof -
  have A: "\<And>y q. m y = Some q \<Longrightarrow> q \<in> A" and inj: "\<And>y z q. m y = Some q \<Longrightarrow> m z = Some q \<Longrightarrow> y = z"
    using assms(1) by (auto simp: owned_iff)
  have "q \<in> A'" if "m y = Some q" "y \<noteq> x" for y q
    using that A [OF that(1)] inj [OF that(1), of x] assms(3,4) by (cases "m x") auto
  then show ?thesis using A inj assms(2,5) by (auto simp: owned_iff)
qed

text \<open>The contract of the allocator, with \<open>H\<close> the prefixes it has handed out and not got back: a prefix
  it hands out is new, and none of them is the start of another, so the search spaces behind them are
  disjoint.\<close>

definition allocator_ok :: "('s, 'e, 'g, 'j, 'a, 'p, 'v) pool_lib \<Rightarrow> ('a \<Rightarrow> 'p set) \<Rightarrow> bool" where
  "allocator_ok L H \<longleftrightarrow>
     (\<forall>b n k a. alloc_new L b n k = Some a \<longrightarrow> H a = {}) \<and>
     (\<forall>a p a'. alloc_standard L a = (Inr p, a') \<longrightarrow> p \<notin> H a \<and> H a' = insert p (H a)) \<and>
     (\<forall>n a p a'. alloc_extended L n a = (Inr p, a') \<longrightarrow> p \<notin> H a \<and> H a' = insert p (H a)) \<and>
     (\<forall>a e a'. alloc_standard L a = (Inl e, a') \<longrightarrow> H a' = H a) \<and>
     (\<forall>n a e a'. alloc_extended L n a = (Inl e, a') \<longrightarrow> H a' = H a) \<and>
     (\<forall>p a. H (alloc_release L p a) = H a - {p}) \<and>
     (\<forall>a p q. p \<in> H a \<longrightarrow> q \<in> H a \<longrightarrow> p \<noteq> q \<longrightarrow> \<not> prefix (slot_bytes L p) (slot_bytes L q))"

lemma allocator_laws:
  assumes "allocator_ok L H"
  shows alloc_new_empty: "alloc_new L b n k = Some a \<Longrightarrow> H a = {}"
    and alloc_standard_new: "alloc_standard L a = (Inr p, a') \<Longrightarrow> p \<notin> H a \<and> H a' = insert p (H a)"
    and alloc_extended_new: "alloc_extended L i a = (Inr p, a') \<Longrightarrow> p \<notin> H a \<and> H a' = insert p (H a)"
    and alloc_standard_same: "alloc_standard L a = (Inl e, a') \<Longrightarrow> H a' = H a"
    and alloc_extended_same: "alloc_extended L i a = (Inl e, a') \<Longrightarrow> H a' = H a"
    and alloc_release_held: "H (alloc_release L p a) = H a - {p}"
    and held_apart: "p \<in> H a \<Longrightarrow> q \<in> H a \<Longrightarrow> p \<noteq> q \<Longrightarrow> \<not> prefix (slot_bytes L p) (slot_bytes L q)"
  using assms unfolding allocator_ok_def by meson+

section \<open>The invariant\<close>

definition is_open :: "('s, 'e, 'g) pool_client \<Rightarrow> channel_id \<Rightarrow> bool" where
  "is_open c ch \<longleftrightarrow> pd_standard c ch \<noteq> None \<or> pd_extended c ch \<noteq> None"

text \<open>A client's channels all want its payout, its group holds open channels only, and it has no channel of
  the kind it has ruled out.\<close>

definition client_ok ::
  "script_lib \<Rightarrow> ('s, 'e, 'g, 'j, 'a, 'p, 'v) pool_lib \<Rightarrow> coinbase_reward_script \<Rightarrow> ('s, 'e, 'g) pool_client \<Rightarrow> bool" where
  "client_ok S L pool_script c \<longleftrightarrow>
     (pd_payout_mode c = None \<longleftrightarrow> (\<forall>ch. \<not> is_open c ch)) \<and>
     (\<forall>key p u. client_owner L c key = Some (p, u) \<longrightarrow>
        (\<exists>m m'. pd_payout_mode c = Some m \<and> requested_payout S u = Some m' \<and>
           has_same_coinbase_outputs_as m m' pool_script)) \<and>
     (\<forall>m. pd_payout_mode c = Some m \<longrightarrow> wf_payout m) \<and>
     (\<forall>ch \<in> set (grp_ids L (pd_group c)). is_open c ch) \<and>
     (pd_requires_custom_work c \<longrightarrow> (\<forall>ch. pd_standard c ch = None)) \<and>
     (pd_requires_standard_jobs c \<longrightarrow> (\<forall>ch. pd_extended c ch = None))"

definition pool_inv ::
  "script_lib \<Rightarrow> ('s, 'e, 'g, 'j, 'a, 'p, 'v) pool_lib \<Rightarrow> ('a \<Rightarrow> 'p set) \<Rightarrow> coinbase_reward_script \<Rightarrow>
   ('s, 'e, 'g, 'a, 'v) pool \<Rightarrow> bool" where
  "pool_inv S L H pool_script s \<longleftrightarrow>
     pl_coinbase_reward_script s = pool_script \<and>
     (\<forall>d c. pl_downstreams s d = Some c \<longrightarrow> client_ok S L pool_script c) \<and>
     pl_senders s = dom (pl_downstreams s) \<and>
     (\<forall>d ch. pl_vardiff s (d, ch) \<noteq> None \<longleftrightarrow> (\<exists>c. pl_downstreams s d = Some c \<and> is_open c ch)) \<and>
     owned (H (pl_allocator s)) (slots L s)"

lemma pool_invD:
  assumes "pool_inv S L H ps s"
  shows inv_script: "pl_coinbase_reward_script s = ps"
    and inv_client: "pl_downstreams s d = Some c \<Longrightarrow> client_ok S L ps c"
    and inv_senders: "pl_senders s = dom (pl_downstreams s)"
    and inv_vardiff: "pl_vardiff s (d, ch) \<noteq> None \<longleftrightarrow> (\<exists>c. pl_downstreams s d = Some c \<and> is_open c ch)"
    and inv_owned: "owned (H (pl_allocator s)) (slots L s)"
  using assms unfolding pool_inv_def by blast+

lemma pool_invI:
  assumes "pl_coinbase_reward_script s = ps" and "\<And>d c. pl_downstreams s d = Some c \<Longrightarrow> client_ok S L ps c"
    and "pl_senders s = dom (pl_downstreams s)"
    and "\<And>d ch. pl_vardiff s (d, ch) \<noteq> None \<longleftrightarrow> (\<exists>c. pl_downstreams s d = Some c \<and> is_open c ch)"
    and "owned (H (pl_allocator s)) (slots L s)"
  shows "pool_inv S L H ps s"
  using assms unfolding pool_inv_def by blast

lemma client_okD:
  assumes "client_ok S L ps c"
  shows client_no_payout: "pd_payout_mode c = None \<longleftrightarrow> (\<forall>ch. \<not> is_open c ch)"
    and client_pays: "client_owner L c key = Some (p, u) \<Longrightarrow>
      \<exists>m m'. pd_payout_mode c = Some m \<and> requested_payout S u = Some m' \<and> has_same_coinbase_outputs_as m m' ps"
    and client_wf: "pd_payout_mode c = Some m \<Longrightarrow> wf_payout m"
    and client_group: "ch \<in> set (grp_ids L (pd_group c)) \<Longrightarrow> is_open c ch"
    and client_custom: "pd_requires_custom_work c \<Longrightarrow> pd_standard c ch = None"
    and client_standard: "pd_requires_standard_jobs c \<Longrightarrow> pd_extended c ch = None"
  using assms unfolding client_ok_def by blast+

lemma client_okI:
  assumes "pd_payout_mode c = None \<longleftrightarrow> (\<forall>ch. \<not> is_open c ch)"
    and "\<And>key p u. client_owner L c key = Some (p, u) \<Longrightarrow>
      \<exists>m m'. pd_payout_mode c = Some m \<and> requested_payout S u = Some m' \<and> has_same_coinbase_outputs_as m m' ps"
    and "\<And>m. pd_payout_mode c = Some m \<Longrightarrow> wf_payout m"
    and "\<And>ch. ch \<in> set (grp_ids L (pd_group c)) \<Longrightarrow> is_open c ch"
    and "\<And>ch. pd_requires_custom_work c \<Longrightarrow> pd_standard c ch = None"
    and "\<And>ch. pd_requires_standard_jobs c \<Longrightarrow> pd_extended c ch = None"
  shows "client_ok S L ps c"
  using assms unfolding client_ok_def by blast

lemma owner_none: "client_owner L c (True, ch) = None \<longleftrightarrow> pd_standard c ch = None"
  "client_owner L c (False, ch) = None \<longleftrightarrow> pd_extended c ch = None"
  by (simp_all add: client_owner_def)

lemma open_owner: "is_open c ch \<longleftrightarrow> client_owner L c (True, ch) \<noteq> None \<or> client_owner L c (False, ch) \<noteq> None"
  by (simp add: is_open_def owner_none)

lemma nothing_open: "has_no_channels c \<longleftrightarrow> (\<forall>ch. \<not> is_open c ch)"
  by (auto simp: has_no_channels_def is_open_def fun_eq_iff)

lemma shape_owner: "same_shape L c c' \<Longrightarrow> client_owner L c' = client_owner L c"
  by (auto simp: same_shape_def client_owner_def fun_eq_iff)

lemma same_owner_open:
  assumes "client_owner L c' = client_owner L c"
  shows "is_open c' ch = is_open c ch" and "pd_standard c' ch = None \<longleftrightarrow> pd_standard c ch = None"
    and "pd_extended c' ch = None \<longleftrightarrow> pd_extended c ch = None"
  using assms by (simp_all add: open_owner [of _ _ L] owner_none(1) [of L, symmetric] owner_none(2) [of L, symmetric])

lemma shape_client_ok: "same_shape L c c' \<Longrightarrow> client_ok S L ps c \<Longrightarrow> client_ok S L ps c'"
  by (simp add: client_ok_def shape_owner same_owner_open [OF shape_owner]) (simp add: same_shape_def)

lemma shapes_inv:
  assumes "same_shapes L H s s'" and inv: "pool_inv S L H ps s"
  shows "pool_inv S L H ps s'"
proof (rule pool_invI)
  have rel: "rel_option (same_shape L) (pl_downstreams s d) (pl_downstreams s' d)" for d
    using assms(1) by (simp add: same_shapes_def)
  have none: "pl_downstreams s' d = None \<longleftrightarrow> pl_downstreams s d = None" for d
    using rel [of d] by (auto elim: option.rel_cases)
  have dep: "pl_departing s' = pl_departing s" and held: "H (pl_allocator s') = H (pl_allocator s)"
    and vd: "pl_vardiff s' key = None \<longleftrightarrow> pl_vardiff s key = None" for key
    using assms(1) unfolding same_shapes_def by blast+
  show "pl_coinbase_reward_script s' = ps" using assms(1) inv_script [OF inv] by (simp add: same_shapes_def)
  show "client_ok S L ps c'" if "pl_downstreams s' d = Some c'" for d c'
    using rel [of d] that inv_client [OF inv] by (auto elim!: option.rel_cases intro: shape_client_ok)
  show "pl_senders s' = dom (pl_downstreams s')"
    using assms(1) inv_senders [OF inv] none unfolding dom_def by (simp add: same_shapes_def)
  show "pl_vardiff s' (d, ch) \<noteq> None \<longleftrightarrow> (\<exists>c. pl_downstreams s' d = Some c \<and> is_open c ch)" for d ch
    using rel [of d] vd [of "(d, ch)"] inv_vardiff [OF inv, of d ch]
    by (auto elim!: option.rel_cases simp: same_owner_open [OF shape_owner])
  have "slots L s' = slots L s"
  proof
    fix x
    show "slots L s' x = slots L s x"
      using rel [of "snd (fst x)"] dep
      by (cases rule: option.rel_cases) (auto simp: slots_def shape_owner)
  qed
  then show "owned (H (pl_allocator s')) (slots L s')" using inv_owned [OF inv] held by simp
qed

section \<open>Opening a channel\<close>

text \<open>What a successful open does to the registries, for either kind of channel.\<close>

definition opens ::
  "script_lib \<Rightarrow> ('s, 'e, 'g, 'j, 'a, 'p, 'v) pool_lib \<Rightarrow> ('a \<Rightarrow> 'p set) \<Rightarrow> downstream_id \<Rightarrow> bool \<Rightarrow> channel_id \<Rightarrow>
   ('s, 'e, 'g, 'a, 'v) pool \<Rightarrow> ('s, 'e, 'g, 'a, 'v) pool \<Rightarrow> bool" where
  "opens S L H d std ch s s' \<longleftrightarrow>
     (\<exists>c c' p u mode.
        pl_downstreams s d = Some c \<and> pl_downstreams s' = (pl_downstreams s)(d \<mapsto> c') \<and>
        client_owner L c' = (client_owner L c)((std, ch) \<mapsto> (p, u)) \<and>
        requested_payout S u = Some mode \<and> payout_is_compatible mode (pl_coinbase_reward_script s) c \<and>
        pd_payout_mode c' = Some mode \<and>
        pd_requires_custom_work c' = pd_requires_custom_work c \<and>
        pd_requires_standard_jobs c' = pd_requires_standard_jobs c \<and>
        (if std then \<not> pd_requires_custom_work c else \<not> pd_requires_standard_jobs c) \<and>
        set (grp_ids L (pd_group c')) \<subseteq> insert ch (set (grp_ids L (pd_group c))) \<and>
        p \<notin> H (pl_allocator s) \<and>
        H (pl_allocator s') = insert p (H (pl_allocator s)) -
          (case client_owner L c (std, ch) of None \<Rightarrow> {} | Some (q, _) \<Rightarrow> {q}) \<and>
        (\<forall>key. pl_vardiff s' key = None \<longleftrightarrow> pl_vardiff s key = None \<and> key \<noteq> (d, ch)) \<and>
        pl_senders s' = pl_senders s \<and> pl_departing s' = pl_departing s \<and>
        pl_coinbase_reward_script s' = pl_coinbase_reward_script s)"

lemma requested_payout_wf: "requested_payout S u = Some m \<Longrightarrow> wf_payout m"
  using parsed_payout_mode_is_well_formed [of S u m]
  by (auto simp: requested_payout_def split: sum.splits payout_mode_error.splits)

lemma same_outputs_trans:
  "has_same_coinbase_outputs_as a b ps \<Longrightarrow> has_same_coinbase_outputs_as a c ps \<Longrightarrow> has_same_coinbase_outputs_as b c ps"
  by (simp add: has_same_coinbase_outputs_as_def)

lemma opened_open:
  assumes "client_owner L c' = (client_owner L c)((std, ch) \<mapsto> (p, u))"
  shows "is_open c' x \<longleftrightarrow> x = ch \<or> is_open c x"
  using assms by (cases std) (auto simp: open_owner [of _ _ L])

lemma opens_client_ok:
  assumes ok: "client_ok S L ps c" and owner: "client_owner L c' = (client_owner L c)((std, ch) \<mapsto> (p, u))"
    and mode: "requested_payout S u = Some mode" and compat: "payout_is_compatible mode ps c"
    and pays: "pd_payout_mode c' = Some mode"
    and flags: "pd_requires_custom_work c' = pd_requires_custom_work c"
      "pd_requires_standard_jobs c' = pd_requires_standard_jobs c"
      "if std then \<not> pd_requires_custom_work c else \<not> pd_requires_standard_jobs c"
    and ids: "set (grp_ids L (pd_group c')) \<subseteq> insert ch (set (grp_ids L (pd_group c)))"
  shows "client_ok S L ps c'"
proof (rule client_okI)
  note open' = opened_open [OF owner]
  show "pd_payout_mode c' = None \<longleftrightarrow> (\<forall>x. \<not> is_open c' x)" using pays open' by auto
  show "wf_payout m" if "pd_payout_mode c' = Some m" for m
    using that pays requested_payout_wf [OF mode] by simp
  show "is_open c' x" if "x \<in> set (grp_ids L (pd_group c'))" for x
    using that ids client_group [OF ok] open' by auto
  show "pd_standard c' x = None" if "pd_requires_custom_work c'" for x
    using that flags client_custom [OF ok, of x] owner
    by (auto simp: owner_none(1) [of L, symmetric] split: if_splits)
  show "pd_extended c' x = None" if "pd_requires_standard_jobs c'" for x
    using that flags client_standard [OF ok, of x] owner
    by (auto simp: owner_none(2) [of L, symmetric] split: if_splits)
  fix key p' u' assume own: "client_owner L c' key = Some (p', u')"
  show "\<exists>m m'. pd_payout_mode c' = Some m \<and> requested_payout S u' = Some m' \<and> has_same_coinbase_outputs_as m m' ps"
  proof (cases "key = (std, ch)")
    case True
    then show ?thesis using own owner mode pays by (simp add: has_same_coinbase_outputs_as_def)
  next
    case False
    then have "client_owner L c key = Some (p', u')" using own owner by simp
    from client_pays [OF ok this] obtain m m' where m: "pd_payout_mode c = Some m" "requested_payout S u' = Some m'"
      "has_same_coinbase_outputs_as m m' ps" by blast
    then have "has_same_coinbase_outputs_as mode m' ps"
      using compat same_outputs_trans [OF _ m(3)] by (simp add: payout_is_compatible_def)
    then show ?thesis using m(2) pays by simp
  qed
qed

lemma opens_slots:
  assumes "pl_downstreams s' = (pl_downstreams s)(d \<mapsto> c')" and "pl_downstreams s d = Some c"
    and "client_owner L c' = (client_owner L c)(key \<mapsto> (p, u))" and "pl_departing s' = pl_departing s"
  shows "slots L s' = (slots L s)(((False, d), key) \<mapsto> p)"
  using assms by (auto simp: fun_eq_iff slots_def split: option.split)

lemma opens_inv:
  assumes "opens S L H d std ch s s'" and inv: "pool_inv S L H ps s"
  shows "pool_inv S L H ps s'"
proof -
  have ps: "pl_coinbase_reward_script s = ps" using inv by (simp add: pool_inv_def)
  obtain c c' p u mode where c: "pl_downstreams s d = Some c" "pl_downstreams s' = (pl_downstreams s)(d \<mapsto> c')"
    and owner: "client_owner L c' = (client_owner L c)((std, ch) \<mapsto> (p, u))"
    and shape: "requested_payout S u = Some mode" "payout_is_compatible mode ps c" "pd_payout_mode c' = Some mode"
      "pd_requires_custom_work c' = pd_requires_custom_work c"
      "pd_requires_standard_jobs c' = pd_requires_standard_jobs c"
      "if std then \<not> pd_requires_custom_work c else \<not> pd_requires_standard_jobs c"
      "set (grp_ids L (pd_group c')) \<subseteq> insert ch (set (grp_ids L (pd_group c)))"
    and p: "p \<notin> H (pl_allocator s)" and held: "H (pl_allocator s') = insert p (H (pl_allocator s)) -
          (case client_owner L c (std, ch) of None \<Rightarrow> {} | Some (q, _) \<Rightarrow> {q})"
    and vd: "\<forall>key. pl_vardiff s' key = None \<longleftrightarrow> pl_vardiff s key = None \<and> key \<noteq> (d, ch)"
    and rest: "pl_senders s' = pl_senders s" "pl_departing s' = pl_departing s"
      "pl_coinbase_reward_script s' = ps"
    using assms(1) unfolding opens_def ps by (elim exE conjE) (rule that; assumption)
  have own: "owned (H (pl_allocator s)) (slots L s)" using inv by (simp add: pool_inv_def)
  have at: "slots L s ((False, d), (std, ch)) = map_option fst (client_owner L c (std, ch))"
    using c(1) by (simp add: slots_def)
  have "owned (H (pl_allocator s')) (slots L s')"
    unfolding opens_slots [OF c(2,1) owner rest(2)]
  proof (rule owned_put [OF own p])
    show "p \<in> H (pl_allocator s')"
      using held p own at by (auto simp: owned_iff split: option.splits)
  qed (use at held in \<open>auto split: option.splits\<close>)
  note slots = this
  show ?thesis
  proof (rule pool_invI)
    show "client_ok S L ps x" if "pl_downstreams s' d' = Some x" for d' x
      using that c(2) inv_client [OF inv] opens_client_ok [OF inv_client [OF inv c(1)] owner shape]
      by (auto split: if_splits)
    show "pl_senders s' = dom (pl_downstreams s')" using rest(1) c inv_senders [OF inv] by auto
    show "pl_vardiff s' (d', ch') \<noteq> None \<longleftrightarrow> (\<exists>c. pl_downstreams s' d' = Some c \<and> is_open c ch')" for d' ch'
      using vd [rule_format, of "(d', ch')"] inv_vardiff [OF inv, of d' ch'] c opened_open [OF owner, of ch'] by auto
  qed (rule rest(3) slots)+
qed

text \<open>An outcome that ends the run.\<close>

definition stops :: "(pool_error, 'r) attempt \<Rightarrow> bool" where
  "stops out \<longleftrightarrow> (case out of Done _ \<Rightarrow> False | Failed e \<Rightarrow> pe_action e = PoolShutdown | Panicked \<Rightarrow> True)"

lemma stops_simps [simp]:
  "\<not> stops (Done x)" "stops Panicked" "stops (Failed (pool_shutdown k))" "\<not> stops (Failed (pool_disconnect k d))"
  by (simp_all add: stops_def pool_shutdown_def pool_disconnect_def)

text \<open>The state between the reservation of a prefix and the end of an open.\<close>

definition reserving ::
  "('a \<Rightarrow> 'p set) \<Rightarrow> downstream_id \<Rightarrow> ('s, 'e, 'g) pool_client \<Rightarrow> ('s, 'e, 'g, 'a, 'v) pool \<Rightarrow> 'p \<Rightarrow> channel_id \<Rightarrow>
   ('s, 'e, 'g, 'a, 'v) pool \<Rightarrow> bool" where
  "reserving H d c s p ch s1 \<longleftrightarrow>
     (\<exists>a. s1 = put_client d (c\<lparr>pd_channel_id_factory := ch + 1\<rparr>) (s\<lparr>pl_allocator := a\<rparr>) \<and>
          p \<notin> H (pl_allocator s) \<and> H a = insert p (H (pl_allocator s)))"

lemma reserving_released:
  assumes "allocator_ok L H" and "pl_downstreams s d = Some c" and "reserving H d c s p ch s1"
  shows "same_shapes L H s (release_slot L (Some p) s1)"
proof -
  obtain a where a: "s1 = put_client d (c\<lparr>pd_channel_id_factory := ch + 1\<rparr>) (s\<lparr>pl_allocator := a\<rparr>)"
    "p \<notin> H (pl_allocator s)" "H a = insert p (H (pl_allocator s))"
    using assms(3) by (auto simp: reserving_def)
  have "H (alloc_release L p a) = H (pl_allocator s)"
    using a(2) unfolding alloc_release_held [OF assms(1)] a(3) by simp
  then show ?thesis
    using assms(2) by (simp add: a(1) same_shapes_def release_slot_def put_client_def same_shape_def)
qed

lemma reserve_cases:
  assumes "\<And>p a'. alloc = (Inr p, a') \<Longrightarrow> p \<notin> H (pl_allocator s) \<and> H a' = insert p (H (pl_allocator s))"
    and "\<And>e a'. alloc = (Inl e, a') \<Longrightarrow> H a' = H (pl_allocator s)"
    and "reserve alloc d c s = (out, s1)"
  shows "stops out \<or> (\<exists>code. out = Done (Inl code) \<and> same_shapes L H s s1) \<or>
    (\<exists>p ch. out = Done (Inr (p, ch)) \<and> reserving H d c s p ch s1)"
  using assms
  by (cases alloc; cases "fst alloc")
    (auto simp: reserve_def Let_def reserving_def same_shapes_def split: option.splits prod.splits)

lemma join_ids:
  assumes "channels_ok L" and "join_client_group L joins ch n g = Some g'"
  shows "set (grp_ids L g') \<subseteq> insert ch (set (grp_ids L g))"
  using assms grp_add_ids [OF assms(1), of ch n g g'] by (auto simp: join_client_group_def split: if_splits)

lemma publish_standard_opens:
  assumes "channels_ok L" and al: "allocator_ok L H" and c: "pl_downstreams s d = Some c"
    and r: "reserving H d c s p ch s1" and own: "std_owner L sc = (p, u)"
    and mode: "requested_payout S u = Some mode" "payout_is_compatible mode (pl_coinbase_reward_script s) c"
    and kind: "\<not> pd_requires_custom_work c"
    and pub: "publish_standard L d ch mode n sc ms (c\<lparr>pd_channel_id_factory := ch + 1\<rparr>) s1 = (out, s')"
  shows "stops out \<or> opens S L H d True ch s s'"
proof (cases "vd_new L")
  case None
  then show ?thesis using pub by (auto simp: publish_standard_def insert_vardiff_def Let_def split: option.splits)
next
  case (Some v)
  obtain a where a: "s1 = put_client d (c\<lparr>pd_channel_id_factory := ch + 1\<rparr>) (s\<lparr>pl_allocator := a\<rparr>)"
    "p \<notin> H (pl_allocator s)" "H a = insert p (H (pl_allocator s))"
    using r by (auto simp: reserving_def)
  define c1 where "c1 = c\<lparr>pd_channel_id_factory := ch + 1, pd_standard := (pd_standard c)(ch \<mapsto> sc), pd_payout_mode := Some mode\<rparr>"
  show ?thesis
  proof (cases "join_client_group L (\<not> pd_requires_standard_jobs c) ch n (pd_group c)")
    case None
    then show ?thesis using pub by (simp add: publish_standard_def Let_def) auto
  next
    case g: (Some g)
    have s': "s' = (put_client d (c1\<lparr>pd_group := g\<rparr>)
        (release_slot L (map_option (std_slot L) (pd_standard c ch)) (put_client d c1 s1)))
        \<lparr>pl_vardiff := (pl_vardiff s)((d, ch) \<mapsto> v)\<rparr>"
      using pub g Some a(1)
      by (auto simp: publish_standard_def Let_def insert_vardiff_def c1_def put_client_def release_slot_def split: option.splits)
    have "opens S L H d True ch s s'"
      unfolding opens_def
    proof (intro exI conjI)
      show "pl_downstreams s d = Some c" by (rule c)
      show "pl_downstreams s' = (pl_downstreams s)(d \<mapsto> c1\<lparr>pd_group := g\<rparr>)"
        by (simp add: s' a(1) put_client_def release_slot_def split: option.split)
      show "client_owner L (c1\<lparr>pd_group := g\<rparr>) = (client_owner L c)((True, ch) \<mapsto> (p, u))"
        using own by (auto simp: fun_eq_iff client_owner_def c1_def)
      show "set (grp_ids L (pd_group (c1\<lparr>pd_group := g\<rparr>))) \<subseteq> insert ch (set (grp_ids L (pd_group c)))"
        using join_ids [OF assms(1) g] by simp
      show "H (pl_allocator s') = insert p (H (pl_allocator s)) -
          (case client_owner L c (True, ch) of None \<Rightarrow> {} | Some (q, _) \<Rightarrow> {q})"
        using a by (auto simp: s' put_client_def release_slot_def alloc_release_held [OF al] client_owner_def std_owner_def
            split: option.split)
    qed (use mode kind a in \<open>simp_all add: s' c1_def put_client_def release_slot_def split: option.split\<close>)
    then show ?thesis ..
  qed
qed

lemma publish_extended_opens:
  assumes "channels_ok L" and al: "allocator_ok L H" and c: "pl_downstreams s d = Some c"
    and r: "reserving H d c s p ch s1" and own: "ext_owner L ec = (p, u)"
    and mode: "requested_payout S u = Some mode" "payout_is_compatible mode (pl_coinbase_reward_script s) c"
    and kind: "\<not> pd_requires_standard_jobs c"
    and pub: "publish_extended L d ch mode ec ms (c\<lparr>pd_channel_id_factory := ch + 1\<rparr>) s1 = (out, s')"
  shows "stops out \<or> opens S L H d False ch s s'"
proof (cases "vd_new L")
  case None
  then show ?thesis using pub by (auto simp: publish_extended_def insert_vardiff_def Let_def split: option.splits)
next
  case (Some v)
  obtain a where a: "s1 = put_client d (c\<lparr>pd_channel_id_factory := ch + 1\<rparr>) (s\<lparr>pl_allocator := a\<rparr>)"
    "p \<notin> H (pl_allocator s)" "H a = insert p (H (pl_allocator s))"
    using r by (auto simp: reserving_def)
  show ?thesis
  proof (cases "join_client_group L (\<not> pd_requires_custom_work c) ch (ext_full_extranonce_size L ec) (pd_group c)")
    case None
    then show ?thesis using pub by (simp add: publish_extended_def Let_def) auto
  next
    case g: (Some g)
    define c1 where "c1 = c\<lparr>pd_channel_id_factory := ch + 1, pd_group := g, pd_extended := (pd_extended c)(ch \<mapsto> ec),
      pd_payout_mode := Some mode\<rparr>"
    have s': "s' = (release_slot L (map_option (ext_slot L) (pd_extended c ch)) (put_client d c1 s1))
        \<lparr>pl_vardiff := (pl_vardiff s)((d, ch) \<mapsto> v)\<rparr>"
      using pub g Some a(1)
      by (auto simp: publish_extended_def Let_def insert_vardiff_def c1_def put_client_def release_slot_def split: option.splits)
    have "opens S L H d False ch s s'"
      unfolding opens_def
    proof (intro exI conjI)
      show "pl_downstreams s d = Some c" by (rule c)
      show "pl_downstreams s' = (pl_downstreams s)(d \<mapsto> c1)"
        by (simp add: s' a(1) put_client_def release_slot_def split: option.split)
      show "client_owner L c1 = (client_owner L c)((False, ch) \<mapsto> (p, u))"
        using own by (auto simp: fun_eq_iff client_owner_def c1_def)
      show "set (grp_ids L (pd_group c1)) \<subseteq> insert ch (set (grp_ids L (pd_group c)))"
        using join_ids [OF assms(1) g] by (simp add: c1_def)
      show "H (pl_allocator s') = insert p (H (pl_allocator s)) -
          (case client_owner L c (False, ch) of None \<Rightarrow> {} | Some (q, _) \<Rightarrow> {q})"
        using a by (auto simp: s' put_client_def release_slot_def alloc_release_held [OF al] client_owner_def ext_owner_def
            split: option.split)
    qed (use mode kind a in \<open>simp_all add: s' c1_def put_client_def release_slot_def split: option.split\<close>)
    then show ?thesis ..
  qed
qed

lemma start_standard_owner:
  assumes "channels_ok L" and "start_standard L template prev_hash outs ch sc = Done (work, sc')"
  shows "std_owner L sc' = std_owner L sc"
  using assms(2)
  by (auto simp: start_standard_def split: option.splits
      dest!: std_template_owner [OF assms(1)] std_prev_hash_owner [OF assms(1)])

lemma start_extended_owner:
  assumes "channels_ok L" and "start_extended L template prev_hash outs ch ec = Done (work, ec')"
  shows "ext_owner L ec' = ext_owner L ec"
  using assms(2)
  by (auto simp: start_extended_def split: option.splits
      dest!: ext_template_owner [OF assms(1)] ext_prev_hash_owner [OF assms(1)])

text \<open>A chain that stops keeps its outcome.\<close>

definition open_result ::
  "script_lib \<Rightarrow> ('s, 'e, 'g, 'j, 'a, 'p, 'v) pool_lib \<Rightarrow> ('a \<Rightarrow> 'p set) \<Rightarrow> downstream_id \<Rightarrow> bool \<Rightarrow>
   ('s, 'e, 'g, 'a, 'v) pool \<Rightarrow> (pool_error, 'r) attempt \<times> ('s, 'e, 'g, 'a, 'v) pool \<Rightarrow> bool" where
  "open_result S L H d std s r \<longleftrightarrow>
     stops (fst r) \<or> same_shapes L H s (snd r) \<or> (\<exists>ch. opens S L H d std ch s (snd r))"

lemma open_result_refuse: "same_shapes L H s s1 \<Longrightarrow> open_result S L H d std s (refuse_open r code s1)"
  by (simp add: open_result_def refuse_open_def)

lemma open_result_same: "same_shapes L H s s1 \<Longrightarrow> open_result S L H d std s (out, s1)"
  by (simp add: open_result_def)

lemma open_result_reserve:
  assumes "\<And>p a'. alloc = (Inr p, a') \<Longrightarrow> p \<notin> H (pl_allocator s) \<and> H a' = insert p (H (pl_allocator s))"
    and "\<And>e a'. alloc = (Inl e, a') \<Longrightarrow> H a' = H (pl_allocator s)"
    and "\<And>code s1. same_shapes L H s s1 \<Longrightarrow> open_result S L H d std s (k (Inl code) s1)"
    and "\<And>p ch s1. reserving H d c s p ch s1 \<Longrightarrow> open_result S L H d std s (k (Inr (p, ch)) s1)"
  shows "open_result S L H d std s (and_then (reserve alloc d c s) k)"
proof -
  obtain out s1 where r: "reserve alloc d c s = (out, s1)" by (cases "reserve alloc d c s")
  have "stops out \<or> (\<exists>code. out = Done (Inl code) \<and> same_shapes L H s s1) \<or>
    (\<exists>p ch. out = Done (Inr (p, ch)) \<and> reserving H d c s p ch s1)"
    by (rule reserve_cases [OF _ _ r]) (use assms(1,2) in blast)+
  then show ?thesis
  proof (elim disjE)
    assume "stops out"
    then show ?thesis by (cases out) (simp_all add: r open_result_def stops_def)
  qed (use assms(3,4) in \<open>auto simp: r\<close>)
qed

lemma open_result_standard:
  assumes ok: "channels_ok L" and al: "allocator_ok L H" and c: "pl_downstreams s d = Some c"
  shows "open_result S L H d True s (open_standard S L d msg c s)"
proof (cases "pd_requires_custom_work c")
  case True
  then show ?thesis by (simp add: open_standard_def open_result_refuse same_shapes_refl)
next
  case False
  have made: "open_result S L H d True s
      (case std_new L ch u p t h b r tag past of
         Inl (OpenInvalid code) \<Rightarrow> refuse_open req (CodeOfLibrary code) (release_slot L (Some p) s1)
       | Inl OpenOther \<Rightarrow> (Failed (pool_disconnect PkChannelErrorSender d), release_slot L (Some p) s1)
       | Inr sc \<Rightarrow> and_then (started L (std_slot L sc) (W sc) s1) (\<lambda>(work, sc') s2.
           publish_standard L d ch mode (N sc) sc' (M sc work) (c\<lparr>pd_channel_id_factory := ch + 1\<rparr>) s2))"
    if r: "reserving H d c s p ch s1" and mode: "requested_payout S u = Some mode"
      "payout_is_compatible mode (pl_coinbase_reward_script s) c"
      and W: "\<And>sc work sc'. W sc = Done (work, sc') \<Longrightarrow> std_owner L sc' = std_owner L sc"
    for ch u p t h b r tag past req s1 mode W N M
  proof (cases "std_new L ch u p t h b r tag past")
    case (Inl e)
    then show ?thesis
      using reserving_released [OF al c that(1)]
      by (cases e) (simp_all add: open_result_refuse open_result_same)
  next
    case (Inr sc)
    have own: "std_owner L sc = (p, u)" using std_new_owner [OF ok Inr] .
    then have slot: "std_slot L sc = p" by (simp add: std_owner_def)
    show ?thesis
    proof (cases "W sc")
      case (Done x)
      then obtain work sc' where x: "W sc = Done (work, sc')" by (cases x) simp
      obtain out s' where pub: "publish_standard L d ch mode (N sc) sc' (M sc work) (c\<lparr>pd_channel_id_factory := ch + 1\<rparr>) s1 = (out, s')"
        by (metis surj_pair)
      have "stops out \<or> opens S L H d True ch s s'"
        using publish_standard_opens [OF ok al c r _ mode False pub] W [OF x] own by simp
      then show ?thesis by (auto simp: Inr started_def x pub open_result_def)
    next
      case (Failed e)
      then show ?thesis
        using reserving_released [OF al c r] by (simp add: Inr started_def slot open_result_same)
    next
      case Panicked
      then show ?thesis by (simp add: Inr started_def open_result_def)
    qed
  qed
  have started: "std_owner L sc' = std_owner L sc"
    if "(if \<not> length (slot_bytes L (std_slot L sc)) \<le> 32 then Panicked
      else start_standard L template prev_hash outs ch sc) = Done (work, sc')" for sc work sc' template prev_hash outs ch
    using that start_standard_owner [OF ok] by (simp split: if_splits)
  show ?thesis
    unfolding open_standard_def using False
    by (auto simp: or_fail_def open_result_refuse open_result_same same_shapes_refl split: option.split
        intro!: open_result_reserve made alloc_standard_new [OF al] alloc_standard_same [OF al] elim!: started)
qed

lemma open_result_extended:
  assumes ok: "channels_ok L" and al: "allocator_ok L H" and c: "pl_downstreams s d = Some c"
  shows "open_result S L H d False s (open_extended S L d msg c s)"
proof (cases "pd_requires_standard_jobs c")
  case True
  then show ?thesis by (simp add: open_extended_def open_result_refuse same_shapes_refl)
next
  case False
  have made: "open_result S L H d False s
      (case ext_new L ch u p t h v n b r tag past of
         Inl (OpenInvalid code) \<Rightarrow> refuse_open req (CodeOfLibrary code) (release_slot L (Some p) s1)
       | Inl OpenOther \<Rightarrow> (Failed (pool_disconnect PkChannelSv2 d), release_slot L (Some p) s1)
       | Inr ec \<Rightarrow> and_then (started L (ext_slot L ec) (W ec) s1) (\<lambda>(work, ec') s2.
           publish_extended L d ch mode ec' (M ec work) (c\<lparr>pd_channel_id_factory := ch + 1\<rparr>) s2))"
    if r: "reserving H d c s p ch s1" and mode: "requested_payout S u = Some mode"
      "payout_is_compatible mode (pl_coinbase_reward_script s) c"
      and W: "\<And>ec work ec'. W ec = Done (work, ec') \<Longrightarrow> ext_owner L ec' = ext_owner L ec"
    for ch u p t h v n b r tag past req s1 mode W M
  proof (cases "ext_new L ch u p t h v n b r tag past")
    case (Inl e)
    then show ?thesis
      using reserving_released [OF al c that(1)]
      by (cases e) (simp_all add: open_result_refuse open_result_same)
  next
    case (Inr ec)
    have own: "ext_owner L ec = (p, u)" using ext_new_owner [OF ok Inr] .
    then have slot: "ext_slot L ec = p" by (simp add: ext_owner_def)
    show ?thesis
    proof (cases "W ec")
      case (Done x)
      then obtain work ec' where x: "W ec = Done (work, ec')" by (cases x) simp
      obtain out s' where pub: "publish_extended L d ch mode ec' (M ec work) (c\<lparr>pd_channel_id_factory := ch + 1\<rparr>) s1 = (out, s')"
        by (metis surj_pair)
      have "stops out \<or> opens S L H d False ch s s'"
        using publish_extended_opens [OF ok al c r _ mode False pub] W [OF x] own by simp
      then show ?thesis by (auto simp: Inr started_def x pub open_result_def)
    next
      case (Failed e)
      then show ?thesis
        using reserving_released [OF al c r] by (simp add: Inr started_def slot open_result_same)
    next
      case Panicked
      then show ?thesis by (simp add: Inr started_def open_result_def)
    qed
  qed
  have started: "ext_owner L ec' = ext_owner L ec"
    if "(if \<not> length (slot_bytes L (ext_slot L ec)) \<le> 32 then Failed (pool_shutdown PkBinarySv2)
      else case pl_last_new_prev_hash s of
        None \<Rightarrow> Failed (pool_disconnect PkLastNewPrevhashNotFound d)
      | Some prev_hash \<Rightarrow>
          (case pl_last_future_template s of
             None \<Rightarrow> Failed (pool_disconnect PkFutureTemplateNotPresent d)
           | Some template \<Rightarrow>
               if pd_requires_custom_work c
               then (case ext_on_prev_hash L prev_hash ec of
                       None \<Rightarrow> Failed (pool_shutdown PkChannelSv2) | Some ec' \<Rightarrow> Done ([], ec'))
               else start_extended L template prev_hash (outs template) ch ec)) = Done (work, ec')" for ec work ec' outs ch
    using that
    by (auto split: if_splits option.splits intro: start_extended_owner [OF ok] dest: ext_prev_hash_owner [OF ok])
  show ?thesis
    unfolding open_extended_def using False
    by (auto simp: open_result_refuse open_result_same same_shapes_refl split: option.split
        intro!: open_result_reserve made alloc_extended_new [OF al] alloc_extended_same [OF al]
        elim!: started)
qed

end
