(* ===== verification/Pool_Registry.thy ===== *)
theory Pool_Registry
  imports Pool_Run
begin

text \<open>
  The invariant of the pool's registries holds along every run: opening, closing and leaving keep the maps
  in step, and a prefix belongs to one channel at a time, from its reservation until its channel is dropped.
\<close>

section \<open>Leaving\<close>

lemma owned_move:
  assumes "owned A m" and "\<And>x p. m' x = Some p \<Longrightarrow> m (f x) = Some p"
    and "\<And>x y. m' x \<noteq> None \<Longrightarrow> m' y \<noteq> None \<Longrightarrow> f x = f y \<Longrightarrow> x = y"
  shows "owned A m'"
  unfolding owned_iff
proof (intro conjI allI impI)
  fix x p assume "m' x = Some p"
  then show "p \<in> A" using assms(1,2) unfolding owned_iff by blast
next
  fix x y p assume "m' x = Some p" "m' y = Some p"
  then show "x = y" using assms(1,2) assms(3) [of x y] unfolding owned_iff by blast
qed

lemma remove_fields [simp]:
  "pl_downstreams (remove_downstream d s) = (pl_downstreams s)(d := None)"
  "pl_senders (remove_downstream d s) = pl_senders s - {d}"
  "pl_vardiff (remove_downstream d s) key = (if fst key = d then None else pl_vardiff s key)"
  "pl_allocator (remove_downstream d s) = pl_allocator s"
  "pl_coinbase_reward_script (remove_downstream d s) = pl_coinbase_reward_script s"
  "pl_job_declarator (remove_downstream d s) = pl_job_declarator s"
  by (simp_all add: remove_downstream_def sm_remove_def sm_retain_def split: option.split)

lemma remove_inv:
  assumes inv: "pool_inv S L H ps s"
  shows "pool_inv S L H ps (remove_downstream d s)"
proof (rule pool_invI)
  show "pl_coinbase_reward_script (remove_downstream d s) = ps" using inv_script [OF inv] by simp
  show "client_ok S L ps c" if "pl_downstreams (remove_downstream d s) x = Some c" for x c
    using that inv_client [OF inv] by (simp split: if_splits)
  show "pl_senders (remove_downstream d s) = dom (pl_downstreams (remove_downstream d s))"
    using inv_senders [OF inv] by auto
  show "pl_vardiff (remove_downstream d s) (x, ch) \<noteq> None \<longleftrightarrow>
      (\<exists>c. pl_downstreams (remove_downstream d s) x = Some c \<and> is_open c ch)" for x ch
    using inv_vardiff [OF inv, of x ch] by simp
  define f :: "(bool \<times> downstream_id) \<times> bool \<times> channel_id \<Rightarrow> (bool \<times> downstream_id) \<times> bool \<times> channel_id"
    where "f = (\<lambda>(o', k). if o' = (True, d) \<and> pl_downstreams s d \<noteq> None then ((False, d), k) else (o', k))"
  have "owned (H (pl_allocator s)) (slots L (remove_downstream d s))"
  proof (rule owned_move [OF inv_owned [OF inv], where f = f])
    show "slots L s (f x) = Some p" if "slots L (remove_downstream d s) x = Some p" for x p
      using that
      by (cases x; cases "fst x")
        (auto simp: slots_def f_def remove_downstream_def sm_remove_def split: if_splits option.splits)
    show "x = y" if "slots L (remove_downstream d s) x \<noteq> None" "slots L (remove_downstream d s) y \<noteq> None" "f x = f y" for x y
      using that by (cases x; cases y) (auto simp: slots_def f_def split: if_splits option.splits)
  qed
  then show "owned (H (pl_allocator (remove_downstream d s))) (slots L (remove_downstream d s))" by simp
qed

lemma continues_inv:
  assumes "pool_continues (out, s) = Some s'" and "pool_inv S L H ps s"
  shows "pool_inv S L H ps s'"
  using assms remove_inv [OF assms(2)]
  by (auto simp: pool_continues_def pool_error_action_def split: attempt.splits pool_action.splits)

lemma continues_not_stops: "pool_continues (out, s) = Some s' \<Longrightarrow> \<not> stops out"
  by (auto simp: pool_continues_def pool_error_action_def stops_def split: attempt.splits pool_action.splits)

section \<open>Dropping channels\<close>

definition without :: "channel_id \<Rightarrow> ('s, 'e, 'g) pool_client \<Rightarrow> ('s, 'e, 'g) pool_client" where
  "without ch c = c\<lparr>pd_standard := (pd_standard c)(ch := None), pd_extended := (pd_extended c)(ch := None)\<rparr>"

lemma without_owner: "client_owner L (without ch c) key = (if snd key = ch then None else client_owner L c key)"
  by (simp add: client_owner_def without_def)

lemma without_open: "is_open (without ch c) x \<longleftrightarrow> is_open c x \<and> x \<noteq> ch"
  by (auto simp: is_open_def without_def)

text \<open>The prefixes of one channel id of one connection go back to the allocator.\<close>

definition released_slots ::
  "('s, 'e, 'g, 'j, 'a, 'p, 'v) pool_lib \<Rightarrow> channel_id \<Rightarrow> ('s, 'e, 'g) pool_client \<Rightarrow>
   ('s, 'e, 'g, 'a, 'v) pool \<Rightarrow> ('s, 'e, 'g, 'a, 'v) pool" where
  "released_slots L ch c s =
     release_slot L (map_option (ext_slot L) (pd_extended c ch))
       (release_slot L (map_option (std_slot L) (pd_standard c ch)) s)"

lemma released_fields [simp]:
  "pl_downstreams (released_slots L ch c s) = pl_downstreams s"
  "pl_senders (released_slots L ch c s) = pl_senders s"
  "pl_vardiff (released_slots L ch c s) = pl_vardiff s"
  "pl_departing (released_slots L ch c s) = pl_departing s"
  "pl_coinbase_reward_script (released_slots L ch c s) = pl_coinbase_reward_script s"
  "pl_job_declarator (released_slots L ch c s) = pl_job_declarator s"
  by (simp_all add: released_slots_def release_slot_def split: option.split)

lemma released_held:
  assumes "allocator_ok L H"
  shows "H (pl_allocator (released_slots L ch c s)) =
    H (pl_allocator s) - {p. \<exists>b u. client_owner L c (b, ch) = Some (p, u)}"
  by (auto simp: released_slots_def release_slot_def alloc_release_held [OF assms] client_owner_def std_owner_def
      ext_owner_def split: option.splits)

lemma dropped_owned:
  assumes al: "allocator_ok L H" and own: "owned (H (pl_allocator s)) (slots L s)"
    and at: "\<And>b. slots L s (x, (b, ch)) = map_option fst (client_owner L c (b, ch))"
    and alloc: "pl_allocator s' = pl_allocator (released_slots L ch c s)"
    and less: "\<And>y k. slots L s' (y, k) = (if y = x \<and> snd k = ch then None else slots L s (y, k))"
  shows "owned (H (pl_allocator s')) (slots L s')"
proof (rule owned_shrink [OF own])
  fix z p assume z: "slots L s' z = Some p"
  obtain y b ch' where y: "z = (y, (b, ch'))" by (metis surj_pair)
  have kept: "slots L s z = Some p" and other: "\<not> (y = x \<and> ch' = ch)"
    using z less [of y "(b, ch')"] y by (simp_all split: if_splits)
  have "p \<in> H (pl_allocator s)" using kept own unfolding owned_iff by blast
  moreover have "\<not> (\<exists>b' u. client_owner L c (b', ch) = Some (p, u))"
  proof
    assume "\<exists>b' u. client_owner L c (b', ch) = Some (p, u)"
    then obtain b' where "slots L s (x, (b', ch)) = Some p" using at by auto
    then have "z = (x, (b', ch))" using own kept unfolding owned_iff by blast
    then show False using other y by simp
  qed
  ultimately show "slots L s z = Some p \<and> p \<in> H (pl_allocator s')"
    using kept unfolding alloc released_held [OF al] by blast
qed

lemma drop_departed_inv:
  assumes al: "allocator_ok L H" and inv: "pool_inv S L H ps s"
  shows "pool_inv S L H ps (drop_departed L d ch s)"
proof (cases "pl_departing s d")
  case None
  then show ?thesis using inv by (simp add: drop_departed_def)
next
  case (Some c)
  define s1 where "s1 = s\<lparr>pl_departing := (pl_departing s)(d \<mapsto> without ch c)\<rparr>"
  have eq: "drop_departed L d ch s = released_slots L ch c s1"
    by (simp add: drop_departed_def Some released_slots_def s1_def without_def)
  have alloc: "pl_allocator (released_slots L ch c s1) = pl_allocator (released_slots L ch c s)"
    by (simp add: released_slots_def release_slot_def s1_def split: option.split)
  show ?thesis
    unfolding eq
  proof (rule pool_invI)
    show "owned (H (pl_allocator (released_slots L ch c s1))) (slots L (released_slots L ch c s1))"
      by (rule dropped_owned [OF al inv_owned [OF inv], where x = "(True, d)" and c = c and ch = ch])
        (use Some in \<open>auto simp: slots_def s1_def alloc [unfolded s1_def] without_owner split: option.splits\<close>)
  qed (use inv_script [OF inv] inv_client [OF inv] inv_senders [OF inv] inv_vardiff [OF inv] in \<open>simp_all add: s1_def\<close>)
qed

section \<open>Closing\<close>

lemma close_in_client_fields:
  "client_owner L (close_in_client L ch c) = client_owner L (without ch c)"
  "is_open (close_in_client L ch c) x \<longleftrightarrow> is_open c x \<and> x \<noteq> ch"
  "pd_requires_custom_work (close_in_client L ch c) = pd_requires_custom_work c"
  "pd_requires_standard_jobs (close_in_client L ch c) = pd_requires_standard_jobs c"
  "pd_payout_mode (close_in_client L ch c) =
     (if \<forall>x. is_open c x \<longrightarrow> x = ch then None else pd_payout_mode c)"
  by (auto simp: close_in_client_def Let_def client_owner_def without_def is_open_def nothing_open fun_eq_iff)

lemma close_in_client_ok:
  assumes "channels_ok L" and ok: "client_ok S L ps c"
  shows "client_ok S L ps (close_in_client L ch c)"
proof (rule client_okI)
  note f = close_in_client_fields [of L ch c]
  show "pd_payout_mode (close_in_client L ch c) = None \<longleftrightarrow> (\<forall>x. \<not> is_open (close_in_client L ch c) x)"
    using client_no_payout [OF ok] by (auto simp: f)
  show "wf_payout m" if "pd_payout_mode (close_in_client L ch c) = Some m" for m
    using that client_wf [OF ok] by (simp add: f split: if_splits)
  have ids: "set (grp_ids L (pd_group (close_in_client L ch c))) = set (grp_ids L (pd_group c)) - {ch}"
    using grp_remove_ids [OF assms(1)] by (auto simp: close_in_client_def Let_def)
  show "is_open (close_in_client L ch c) x" if "x \<in> set (grp_ids L (pd_group (close_in_client L ch c)))" for x
    using that client_group [OF ok, of x] by (simp add: f ids)
  show "pd_standard (close_in_client L ch c) x = None" if "pd_requires_custom_work (close_in_client L ch c)" for x
    using that client_custom [OF ok] by (simp add: close_in_client_def Let_def split: if_splits)
  show "pd_extended (close_in_client L ch c) x = None" if "pd_requires_standard_jobs (close_in_client L ch c)" for x
    using that client_standard [OF ok] by (simp add: close_in_client_def Let_def split: if_splits)
  fix key p u assume "client_owner L (close_in_client L ch c) key = Some (p, u)"
  then have own: "client_owner L c key = Some (p, u)" and "snd key \<noteq> ch"
    by (simp_all add: f without_owner split: if_splits)
  moreover have "is_open c (snd key)"
    using own by (cases key; cases "fst key") (auto simp: open_owner [of c _ L])
  ultimately show "\<exists>m m'. pd_payout_mode (close_in_client L ch c) = Some m \<and> requested_payout S u = Some m' \<and>
      has_same_coinbase_outputs_as m m' ps"
    using client_pays [OF ok own] by (auto simp: f)
qed

lemma close_inv:
  assumes ok: "channels_ok L" and al: "allocator_ok L H" and inv: "pool_inv S L H ps s"
  shows "pool_inv S L H ps (snd (handle_close_channel L d ch s))"
proof (cases "pl_downstreams s d")
  case None
  then show ?thesis using inv by (simp add: handle_close_channel_def with_registered_downstream_def)
next
  case (Some c)
  define c' where "c' = close_in_client L ch c"
  define s' where "s' = (released_slots L ch c (put_client d c' s))\<lparr>pl_vardiff := (pl_vardiff s)((d, ch) := None)\<rparr>"
  have eq: "snd (handle_close_channel L d ch s) = s'"
    by (simp add: handle_close_channel_def with_registered_downstream_def Some s'_def c'_def released_slots_def
        put_client_def release_slot_def split: option.split)
  have fields: "pl_downstreams s' = (pl_downstreams s)(d \<mapsto> c')" "pl_senders s' = pl_senders s"
    "pl_vardiff s' = (pl_vardiff s)((d, ch) := None)" "pl_departing s' = pl_departing s"
    "pl_coinbase_reward_script s' = pl_coinbase_reward_script s"
    "pl_allocator s' = pl_allocator (released_slots L ch c s)"
    by (simp_all add: s'_def put_client_def released_slots_def release_slot_def split: option.split)
  have own: "client_owner L c' = client_owner L (without ch c)" by (simp add: c'_def close_in_client_fields)
  have opn: "is_open c' x \<longleftrightarrow> is_open c x \<and> x \<noteq> ch" for x by (simp add: c'_def close_in_client_fields)
  show ?thesis
    unfolding eq
  proof (rule pool_invI)
    show "pl_coinbase_reward_script s' = ps" using inv_script [OF inv] by (simp add: fields)
    show "client_ok S L ps x" if "pl_downstreams s' y = Some x" for y x
      using that inv_client [OF inv] close_in_client_ok [OF ok inv_client [OF inv Some]]
      by (auto simp: fields c'_def split: if_splits)
    show "pl_senders s' = dom (pl_downstreams s')" using inv_senders [OF inv] Some by (auto simp: fields)
    show "pl_vardiff s' (y, x) \<noteq> None \<longleftrightarrow> (\<exists>c. pl_downstreams s' y = Some c \<and> is_open c x)" for y x
      using inv_vardiff [OF inv, of y x] Some by (auto simp: fields opn)
    show "owned (H (pl_allocator s')) (slots L s')"
      by (rule dropped_owned [OF al inv_owned [OF inv], where x = "(False, d)" and c = c and ch = ch])
        (use Some in \<open>auto simp: slots_def fields own without_owner split: option.splits\<close>)
  qed
qed

section \<open>The other steps\<close>

lemma new_inv:
  assumes "allocator_ok L H" and "pool_new L cfg outs jds = Ok s"
  shows "pool_inv S L H (cfg_coinbase_reward_script cfg) s"
  using assms(2)
  by (auto simp: pool_new_def pool_inv_def owned_iff slots_def split: option.splits)

lemma unopened_ok:
  assumes "pd_payout_mode c = None" and "has_no_channels c" and "grp_ids L (pd_group c) = []"
  shows "client_ok S L ps c"
  using assms by (auto simp: client_ok_def is_open_def has_no_channels_def client_owner_def)

lemma bootstrap_ids:
  assumes "channels_ok L" and "bootstrap_group_channel L ch s = Done (Some g)"
  shows "grp_ids L g = []"
proof -
  obtain template prev_hash g0 g1 where g: "grp_new L ch (unat (FULL_EXTRANONCE_SIZE L)) True (pl_pool_tag_string s) = Some g0"
    "grp_on_new_template L template [\<lparr>txout_value = tm_coinbase_tx_value_remaining template,
       script_pubkey = crs_script_pubkey (pl_coinbase_reward_script s)\<rparr>] g0 = Some g1"
    "grp_on_prev_hash L prev_hash g1 = Some g"
    using assms(2) by (auto simp: bootstrap_group_channel_def split: option.splits)
  have "set (grp_ids L g) = {}"
    using grp_new_ids [OF assms(1) g(1)] grp_template_ids [OF assms(1) g(2)] grp_prev_hash_ids [OF assms(1) g(3)] by simp
  then show ?thesis by simp
qed

lemma pool_accept_inv:
  assumes ok: "channels_ok L" and inv: "pool_inv S L H ps s"
    and fresh: "pl_downstreams s (pl_downstream_id_factory s) = None"
    and acc: "accept_client L s = (Done (Some d), s')"
  shows "pool_inv S L H ps s'"
proof -
  obtain g where g: "bootstrap_group_channel L 1 (s\<lparr>pl_downstream_id_factory := pl_downstream_id_factory s + 1\<rparr>) = Done (Some g)"
    and d: "d = pl_downstream_id_factory s"
    and s': "s' = put_client d (pool_client_new (1 + 1) g (pl_supported_extensions s) (pl_required_extensions s))
       (s\<lparr>pl_downstream_id_factory := d + 1, pl_senders := insert d (pl_senders s)\<rparr>)"
    using acc by (auto simp: accept_client_def Let_def split: attempt.splits option.splits)
  define c where "c = (pool_client_new (1 + 1) g (pl_supported_extensions s) (pl_required_extensions s)
    :: ('a, 'b, 'c) pool_client)"
  have c: "client_ok S L ps c"
    by (rule unopened_ok) (simp_all add: c_def pool_client_new_def has_no_channels_def bootstrap_ids [OF ok g])
  have none: "\<not> is_open c ch" "client_owner L c key = None" for ch key
    by (simp_all add: c_def pool_client_new_def is_open_def client_owner_def)
  have down: "pl_downstreams s' = (pl_downstreams s)(d \<mapsto> c)" by (simp add: s' put_client_def c_def)
  show ?thesis
  proof (rule pool_invI)
    show "client_ok S L ps x" if "pl_downstreams s' y = Some x" for y x
      using that c inv_client [OF inv] by (auto simp: down split: if_splits)
    show "pl_vardiff s' (y, x) \<noteq> None \<longleftrightarrow> (\<exists>c. pl_downstreams s' y = Some c \<and> is_open c x)" for y x
    proof -
      have "pl_vardiff s' = pl_vardiff s" by (simp add: s' put_client_def)
      then show ?thesis
        using inv_vardiff [OF inv, of y x] fresh none by (cases "y = d") (auto simp: down d)
    qed
    have "slots L s' = slots L s"
    proof
      fix x
      show "slots L s' x = slots L s x"
        using fresh none by (auto simp: slots_def down d) (simp_all add: s' put_client_def)
    qed
    then show "owned (H (pl_allocator s')) (slots L s')" using inv_owned [OF inv] by (simp add: s' put_client_def)
  qed (use inv_script [OF inv] inv_senders [OF inv] in \<open>simp_all add: s' put_client_def\<close>)
qed

lemma put_client_inv:
  assumes inv: "pool_inv S L H ps s" and c: "pl_downstreams s d = Some c"
    and "client_owner L c' = client_owner L c" and "client_ok S L ps c'"
  shows "pool_inv S L H ps (put_client d c' s)"
proof (rule pool_invI)
  show "pl_vardiff (put_client d c' s) (y, x) \<noteq> None \<longleftrightarrow>
      (\<exists>c. pl_downstreams (put_client d c' s) y = Some c \<and> is_open c x)" for y x
    using inv_vardiff [OF inv, of y x] c same_owner_open(1) [OF assms(3)] by (auto simp: put_client_def)
  have "slots L (put_client d c' s) = slots L s"
    using c assms(3) by (auto simp: fun_eq_iff slots_def put_client_def split: option.split)
  then show "owned (H (pl_allocator (put_client d c' s))) (slots L (put_client d c' s))"
    using inv_owned [OF inv] by (simp add: put_client_def)
qed (use assms inv_script [OF inv] inv_senders [OF inv] inv_client [OF inv] in
  \<open>auto simp: put_client_def split: if_splits\<close>)

lemma handshake_inv:
  assumes inv: "pool_inv S L H ps s" and c: "pl_downstreams s d = Some c" and none: "has_no_channels c"
    and step: "pool_setup_connection K sent d msg c = (out, replies, c')"
  shows "pool_inv S L H ps (put_client d c' s)"
proof (rule put_client_inv [OF inv c])
  have "c' = c\<lparr>pd_requires_custom_work := pd_requires_custom_work c', pd_requires_standard_jobs := pd_requires_standard_jobs c'\<rparr>"
    using step by (auto simp: pool_setup_connection_def Let_def split: if_splits)
  then obtain a b where c': "c' = c\<lparr>pd_requires_custom_work := a, pd_requires_standard_jobs := b\<rparr>" by blast
  show "client_owner L c' = client_owner L c" by (simp add: c' client_owner_def fun_eq_iff)
  have "\<forall>ch. \<not> is_open c ch" using none by (simp add: nothing_open)
  then show "client_ok S L ps c'"
    using inv_client [OF inv c] none
    by (auto simp: client_ok_def c' is_open_def client_owner_def has_no_channels_def)
qed

lemma extensions_inv:
  assumes inv: "pool_inv S L H ps s" and c: "pl_downstreams s d = Some c"
    and step: "handle_request_extensions sent d r requested c = (out, replies, c')"
  shows "pool_inv S L H ps (put_client d c' s)"
proof (rule shapes_inv [OF same_shapes_put [OF c] inv])
  have "c' = c\<lparr>pd_negotiated_extensions := pd_negotiated_extensions c'\<rparr>"
    using step by (auto simp: handle_request_extensions_def Let_def split: if_splits)
  then obtain exts where "c' = c\<lparr>pd_negotiated_extensions := exts\<rparr>" by blast
  then show "same_shape L c c'" by (simp add: same_shape_def)
qed

lemma vardiff_turn_inv:
  assumes ok: "channels_ok L" and inv: "pool_inv S L H ps s"
  shows "pool_inv S L H ps (snd (vardiff_turn L key s))"
proof (cases "pl_downstreams s (fst key)")
  case None
  then have "pl_vardiff s key = None" using inv_vardiff [OF inv, of "fst key" "snd key"] by simp
  then have "snd (vardiff_turn L key s) = s" using None by (simp add: vardiff_turn_def fun_upd_idem)
  then show ?thesis using inv by simp
next
  case (Some c)
  show ?thesis
  proof (cases "pl_vardiff s key")
    case None
    then show ?thesis using inv Some by (simp add: vardiff_turn_def)
  next
    case v: (Some v)
    define r1 where "r1 = run_vardiff_on_standard_channel L (snd key) c v"
    define r2 where "r2 = run_vardiff_on_extended_channel L (snd key) (fst (snd r1)) (snd (snd r1))"
    have shape: "same_shape L c (fst (snd r2))"
      unfolding r2_def using shape_vardiff(1) [OF ok, of c "snd key" v] shape_vardiff(2) [OF ok]
      by (auto simp: r1_def intro: same_shape_trans)
    have eq: "snd (vardiff_turn L key s) =
        put_client (fst key) (fst (snd r2)) (s\<lparr>pl_vardiff := (pl_vardiff s)(key \<mapsto> snd (snd r2))\<rparr>)"
      by (simp add: vardiff_turn_def Some v Let_def split_beta r1_def r2_def)
    have "same_shapes L H s (s\<lparr>pl_vardiff := (pl_vardiff s)(key \<mapsto> snd (snd r2))\<rparr>)"
      using v by (auto simp: same_shapes_def)
    then have "same_shapes L H s (snd (vardiff_turn L key s))"
      unfolding eq by (rule same_shapes_trans) (rule same_shapes_put [OF _ shape], simp add: Some)
    then show ?thesis using inv by (rule shapes_inv)
  qed
qed

lemma run_vardiff_inv:
  assumes "channels_ok L" and "pool_inv S L H ps s"
  shows "pool_inv S L H ps (run_vardiff L env s)"
proof -
  have "pool_inv S L H ps (snd (vardiff_turns L keys s))" for keys
    using assms(2) by (induction keys arbitrary: s) (simp_all add: split_beta vardiff_turn_inv [OF assms(1)])
  then show ?thesis
    using shapes_inv [OF same_shapes_forward_all [of L H]] by (simp add: run_vardiff_def split_beta)
qed

section \<open>Messages of clients\<close>

lemma open_result_forwarded:
  assumes "open_result S L H d std s r"
  shows "open_result S L H d std s (then_forward env (to_this_client d r))"
proof (cases r)
  case r: (Pair out s1)
  have fwd: "same_shapes L H s1 (forward_all env ms s1)" for ms by (rule same_shapes_forward_all)
  have opened: "opens S L H d std ch s s2" if "opens S L H d std ch s s1" "same_shapes L H s1 s2" "pl_downstreams s2 = pl_downstreams s1" for ch s2
    using that unfolding opens_def same_shapes_def by (elim exE conjE) (intro exI conjI; (assumption | simp))
  have down: "pl_downstreams (forward_all env ms s1) = pl_downstreams s1" for ms
    by (induction env ms s1 rule: forward_all.induct) (simp_all add: forward_def split: route_message_to.split)
  show ?thesis
  proof (cases out)
    case (Done ms)
    have "same_shapes L H s s1 \<or> (\<exists>ch. opens S L H d std ch s s1)" using assms by (simp add: r Done open_result_def)
    then show ?thesis
      using same_shapes_trans [OF _ fwd] opened [OF _ fwd down]
      unfolding r Done open_result_def then_forward_def to_this_client_def and_then_simps snd_conv by blast
  qed (use assms in \<open>auto simp: r open_result_def then_forward_def to_this_client_def stops_def\<close>)
qed

lemma open_inv:
  assumes ok: "channels_ok L" and al: "allocator_ok L H" and inv: "pool_inv S L H ps s"
    and step: "\<And>c. pl_downstreams s d = Some c \<Longrightarrow> open_result S L H d std s (f c s)"
    and goes_on: "pool_continues (then_forward env (to_this_client d (with_registered_downstream d f s))) = Some s'"
  shows "pool_inv S L H ps s'"
proof -
  have "open_result S L H d std s (with_registered_downstream d f s)"
    using step by (auto simp: with_registered_downstream_def open_result_same same_shapes_refl split: option.split)
  then have r: "open_result S L H d std s (then_forward env (to_this_client d (with_registered_downstream d f s)))"
    by (rule open_result_forwarded)
  obtain out s1 where eq: "then_forward env (to_this_client d (with_registered_downstream d f s)) = (out, s1)"
    by (metis surj_pair)
  have "pool_inv S L H ps s1"
    using r continues_not_stops goes_on inv unfolding eq open_result_def by (auto intro: shapes_inv opens_inv)
  then show ?thesis using goes_on continues_inv unfolding eq by blast
qed

lemma kept_inv:
  assumes "pool_continues r = Some s'" and "same_shapes L H s (snd r)" and "pool_inv S L H ps s"
  shows "pool_inv S L H ps s'"
  using continues_inv [of "fst r" "snd r" s'] shapes_inv [OF assms(2,3)] assms(1) by simp

lemma client_message_inv:
  assumes ok: "channels_ok L" and al: "allocator_ok L H" and inv: "pool_inv S L H ps s"
    and step: "pool_continues (handle_mining_message_from_client B S L env d m s) = Some s'"
  shows "pool_inv S L H ps s'"
proof (cases m)
  case (ClOpenStandard msg)
  show ?thesis
    by (rule open_inv [OF ok al inv, where f = "open_standard S L d msg" and d = d], rule open_result_standard [OF ok al])
      (use step ClOpenStandard in \<open>simp_all add: handle_open_standard_mining_channel_def\<close>)
next
  case (ClOpenExtended msg)
  show ?thesis
    by (rule open_inv [OF ok al inv, where f = "open_extended S L d msg" and d = d], rule open_result_extended [OF ok al])
      (use step ClOpenExtended in \<open>simp_all add: handle_open_extended_mining_channel_def\<close>)
next
  case (ClCloseChannel ch)
  then show ?thesis
    using step close_inv [OF ok al inv, of d ch] continues_inv by (metis handle_mining_message_from_client.simps(3) prod.collapse)
next
  case (ClSetCustomJob msg leaves)
  consider "same_shapes L H s (snd (pool_handle_set_custom_mining_job B L env leaves d msg s))"
    | "left_meanwhile L H d s (pool_handle_set_custom_mining_job B L env leaves d msg s)"
    using shapes_custom_job [OF ok] by blast
  then show ?thesis
  proof cases
    case 1
    then show ?thesis using step ClSetCustomJob inv by (auto intro: kept_inv)
  next
    case 2
    then obtain s1 where "same_shapes L H s s1"
      and eq: "pool_handle_set_custom_mining_job B L env leaves d msg s =
        (Failed (pool_disconnect (PkDownstreamNotFound d) d), remove_downstream d s1)"
      by (auto simp: left_meanwhile_def)
    then have "pool_inv S L H ps (remove_downstream d s1)" using inv by (blast intro: remove_inv shapes_inv)
    then show ?thesis using step ClSetCustomJob eq continues_inv by simp blast
  qed
next
  case (ClSubmitStandard msg)
  then show ?thesis using kept_inv [OF _ shapes_submit_standard [OF ok] inv] step by simp
next
  case (ClSubmitExtended msg)
  then show ?thesis using kept_inv [OF _ shapes_submit_extended [OF ok] inv] step by simp
next
  case (ClUpdateChannel ch h t)
  then show ?thesis using kept_inv [OF _ shapes_update_channel [OF ok] inv] step by simp
qed

lemma pool_reach_inv:
  assumes ok: "channels_ok L" and al: "allocator_ok L H" and "pool_reach B S L K cfg s"
  shows "pool_inv S L H (cfg_coinbase_reward_script cfg) s"
  using assms(3)
proof induction
  case (new outs jds s)
  then show ?case using new_inv [OF al] by blast
next
  case (client s env d m s')
  then show ?case using client_message_inv [OF ok al] by blast
next
  case (template s env t s')
  then show ?case using kept_inv [OF _ shapes_template_message [OF ok]] by blast
next
  case (vardiff s env)
  then show ?case using run_vardiff_inv [OF ok] by blast
next
  case (connect s d s')
  then show ?case using pool_accept_inv [OF ok] by blast
next
  case (handshake s d c sent msg out replies c')
  then show ?case using handshake_inv by blast
next
  case (extensions s d c sent r requested out replies' c')
  then show ?case using extensions_inv by blast
next
  case (leave s d)
  then show ?case using remove_inv by blast
next
  case (dropped s d ch)
  then show ?case using drop_departed_inv [OF al] by blast
next
  case (jds s sys sys')
  have "same_shapes L H s (s\<lparr>pl_job_declarator := Some sys'\<rparr>)" by (simp add: same_shapes_def)
  then show ?case using jds.IH by (rule shapes_inv)
qed

end
