(* ===== verification/Pool_Isolation.thy ===== *)
theory Pool_Isolation
  imports Pool_Registry
begin

text \<open>
  What a client can do to the others, and to the embedded Job Declarator. Every handler of a client's
  message leaves the other clients, their difficulty states and their queues alone, and can ask for no other
  client's disconnection; the Job Declarator is only ever changed by steps of its own.
\<close>

section \<open>The effect of a client's message\<close>

definition declarator_steps :: "btc_lib \<Rightarrow> jd_system option \<Rightarrow> jd_system option \<Rightarrow> bool" where
  "declarator_steps B = rel_option (jd_step B)\<^sup>*\<^sup>*"

definition client_effect ::
  "btc_lib \<Rightarrow> downstream_id \<Rightarrow> ('s, 'e, 'g, 'a, 'v) pool \<Rightarrow> ('s, 'e, 'g, 'a, 'v) pool \<Rightarrow> bool" where
  "client_effect B d s s' \<longleftrightarrow>
     (\<forall>x. x \<noteq> d \<longrightarrow> pl_downstreams s' x = pl_downstreams s x) \<and>
     (\<forall>x ch. x \<noteq> d \<longrightarrow> pl_vardiff s' (x, ch) = pl_vardiff s (x, ch)) \<and>
     pl_senders s' - {d} = pl_senders s - {d} \<and>
     (\<exists>ms. pl_to_clients s' = pl_to_clients s @ map (Pair d) ms) \<and>
     pl_last_future_template s' = pl_last_future_template s \<and>
     pl_last_new_prev_hash s' = pl_last_new_prev_hash s \<and>
     declarator_steps B (pl_job_declarator s) (pl_job_declarator s')"

lemma declarator_steps_refl [simp]: "declarator_steps B j j"
  unfolding declarator_steps_def by (rule option.rel_refl) simp

lemma declarator_steps_trans: "declarator_steps B i j \<Longrightarrow> declarator_steps B j k \<Longrightarrow> declarator_steps B i k"
  unfolding declarator_steps_def by (cases i; cases j; cases k) (auto intro: rtranclp_trans)

lemma client_effect_refl: "client_effect B d s s"
  by (simp add: client_effect_def)

lemma client_effect_trans:
  assumes "client_effect B d a b" and "client_effect B d b c"
  shows "client_effect B d a c"
proof -
  have "\<exists>ms. pl_to_clients c = pl_to_clients a @ map (Pair d) ms"
  proof -
    from assms(1) obtain ms where 1: "pl_to_clients b = pl_to_clients a @ map (Pair d) ms"
      by (simp only: client_effect_def) (elim conjE exE, rule that)
    from assms(2) obtain ms' where "pl_to_clients c = pl_to_clients b @ map (Pair d) ms'"
      by (simp only: client_effect_def) (elim conjE exE, rule that)
    then have "pl_to_clients c = pl_to_clients a @ map (Pair d) (ms @ ms')" by (simp add: 1)
    then show ?thesis by (rule exI)
  qed
  moreover have "declarator_steps B (pl_job_declarator a) (pl_job_declarator c)"
  proof (rule declarator_steps_trans)
    show "declarator_steps B (pl_job_declarator a) (pl_job_declarator b)" using assms(1) by (simp add: client_effect_def)
    show "declarator_steps B (pl_job_declarator b) (pl_job_declarator c)" using assms(2) by (simp add: client_effect_def)
  qed
  ultimately show ?thesis
    using assms by (simp add: client_effect_def)
qed

interpretation effect: kept_relation "client_effect B d" for B d
  by unfold_locales (rule client_effect_refl, rule client_effect_trans)

lemma effect_put: "client_effect B d s (put_client d c s)"
  by (simp add: client_effect_def put_client_def)

lemma effect_release: "client_effect B d s (release_slot L p s)"
  by (simp add: client_effect_def release_slot_def split: option.split)

lemma effect_allocator: "client_effect B d s (s\<lparr>pl_allocator := a\<rparr>)"
  by (simp add: client_effect_def)

lemma effect_vardiff: "client_effect B d s (s\<lparr>pl_vardiff := (pl_vardiff s)((d, ch) := v)\<rparr>)"
  by (simp add: client_effect_def)

lemma effect_remove: "client_effect B d s (remove_downstream d s)"
  by (simp add: client_effect_def) (simp add: remove_downstream_def)

lemma effect_forward: "client_effect B d s (snd (forward env (ToDownstream d m) s))"
  by (auto simp: client_effect_def forward_def intro: exI [of _ "[m]"])

lemma effect_forward_provider: "client_effect B d s (snd (forward env (ToTemplateProvider m) s))"
  by (simp add: client_effect_def forward_def)

lemmas effect_primitives = effect_put effect_release effect_allocator effect_vardiff effect_remove
  effect_forward effect_forward_provider

lemmas effect_after = effect_primitives [THEN client_effect_trans [rotated]]

text \<open>A list of messages none of which goes to another client.\<close>

definition for_client_only :: "downstream_id \<Rightarrow> route_message_to list \<Rightarrow> bool" where
  "for_client_only d ms \<longleftrightarrow> (\<forall>m \<in> set ms. case m of ToDownstream x _ \<Rightarrow> x = d | ToTemplateProvider _ \<Rightarrow> True)"

lemma effect_forward_all:
  assumes "for_client_only d ms"
  shows "client_effect B d s (forward_all env ms s)"
  using assms
proof (induction ms arbitrary: s)
  case (Cons m ms)
  have "client_effect B d s (snd (forward env m s))"
    using Cons.prems effect_forward effect_forward_provider by (auto simp: for_client_only_def split: route_message_to.splits)
  moreover have "client_effect B d (snd (forward env m s)) (forward_all env ms (snd (forward env m s)))"
    using Cons by (simp add: for_client_only_def)
  ultimately show ?case by (auto intro: client_effect_trans)
qed (simp add: client_effect_refl)

definition own_messages :: "downstream_id \<Rightarrow> (pool_error, route_message_to list) attempt \<Rightarrow> bool" where
  "own_messages d out \<longleftrightarrow> (\<forall>ms. out = Done ms \<longrightarrow> for_client_only d ms)"

lemma effect_then_forward:
  assumes "client_effect B d s (snd r)" and "own_messages d (fst r)"
  shows "client_effect B d s (snd (then_forward env r))"
proof (cases r)
  case (Pair out s1)
  then show ?thesis
    using assms client_effect_trans [OF _ effect_forward_all]
    by (cases out) (auto simp: then_forward_def own_messages_def)
qed

lemma own_messages_mapped: "own_messages d (fst (to_this_client d r))"
  by (cases r; cases "fst r") (auto simp: own_messages_def to_this_client_def for_client_only_def)

lemma effect_to_this_client:
  "client_effect B d s (snd r) \<Longrightarrow> client_effect B d s (snd (to_this_client d r))"
  unfolding to_this_client_def by (rule effect.kept_and_then) (simp_all add: client_effect_refl)

lemma effect_registered:
  "(\<And>c. client_effect B d s (snd (f c s))) \<Longrightarrow> client_effect B d s (snd (with_registered_downstream d f s))"
  by (simp add: with_registered_downstream_def client_effect_refl split: option.split)

section \<open>Handlers\<close>

lemma effect_reserve: "client_effect B d s (snd (reserve alloc d c s))"
  by (auto simp: reserve_def Let_def split: sum.split option.split
      intro: effect_allocator client_effect_trans [OF effect_allocator effect_put])

lemma effect_started: "client_effect B d s (snd (started L p r s))"
  by (auto simp: started_def client_effect_refl effect_release split: attempt.split)

lemma effect_insert_vardiff: "client_effect B d s (snd (insert_vardiff L d ch ms s))"
  by (auto simp: insert_vardiff_def client_effect_refl effect_vardiff split: option.split)

lemma effect_publish_standard: "client_effect B d s (snd (publish_standard L d ch mode n sc ms c s))"
  by (auto simp: publish_standard_def Let_def split: option.split
      intro!: effect_after client_effect_trans [OF _ effect_insert_vardiff] client_effect_refl)

lemma effect_publish_extended: "client_effect B d s (snd (publish_extended L d ch mode ec ms c s))"
  by (auto simp: publish_extended_def Let_def split: option.split
      intro!: effect_after client_effect_trans [OF _ effect_insert_vardiff] client_effect_refl)

lemma effect_refuse: "client_effect B d s s' \<Longrightarrow> client_effect B d s (snd (refuse_open r code s'))"
  by (simp add: refuse_open_def)

lemmas effect_refuse_here = effect_refuse [OF client_effect_refl] effect_refuse [OF effect_release]

lemma effect_open_standard: "client_effect B d s (snd (open_standard S L d msg c s))"
  unfolding open_standard_def
  by (intro effect.kept_rules effect_refuse_here effect_reserve)
    (auto split: sum.split open_channel_error.split
      intro!: effect_refuse_here effect_release effect.kept_and_then effect_started effect_publish_standard)

lemma effect_open_extended: "client_effect B d s (snd (open_extended S L d msg c s))"
  unfolding open_extended_def
  by (intro effect.kept_rules effect_refuse_here effect_reserve)
    (auto split: sum.split open_channel_error.split
      intro!: effect_refuse_here effect_release effect.kept_and_then effect_started effect_publish_extended)

lemma effect_close: "client_effect B d s (snd (handle_close_channel L d ch s))"
  by (auto simp: handle_close_channel_def with_registered_downstream_def split: option.split
      intro!: effect_after client_effect_refl)

lemma effect_count: "client_effect B d s s' \<Longrightarrow> client_effect B d s (count_share L d ch s')"
  unfolding count_share_def by (rule effect_after)

lemma own_share_answer: "own_messages d (share_answer d ch seq sol rej acc v)"
  by (auto simp: own_messages_def share_answer_def for_client_only_def
      split: sum.splits share_validation_result.splits option.splits if_splits)

lemma effect_submit_standard: "client_effect B d s (snd (handle_submit_shares_standard L env d msg s))"
  unfolding handle_submit_shares_standard_def
proof (rule effect_then_forward)
  show "client_effect B d s (snd (with_registered_downstream d (submit_standard L d msg) s))"
    by (rule effect_registered)
      (auto simp: submit_standard_def Let_def split_beta client_effect_refl split: option.split intro!: effect_count effect_put)
  show "own_messages d (fst (with_registered_downstream d (submit_standard L d msg) s))"
    using own_share_answer
    by (auto simp: submit_standard_def with_registered_downstream_def Let_def split_beta split: option.split)
      (auto simp: own_messages_def for_client_only_def)
qed

lemma effect_submit_extended: "client_effect B d s (snd (handle_submit_shares_extended L env d msg s))"
  unfolding handle_submit_shares_extended_def
proof (rule effect_then_forward)
  show "client_effect B d s (snd (with_registered_downstream d (submit_extended L d msg) s))"
    by (rule effect_registered)
      (auto simp: submit_extended_def Let_def split_beta client_effect_refl split: option.split intro!: effect_count effect_put)
  show "own_messages d (fst (with_registered_downstream d (submit_extended L d msg) s))"
    using own_share_answer
    by (auto simp: submit_extended_def with_registered_downstream_def Let_def split_beta split: option.split)
      (auto simp: own_messages_def for_client_only_def)
qed

lemma effect_update: "client_effect B d s (snd (pool_handle_update_channel L env d ch h t s))"
  unfolding pool_handle_update_channel_def
  by (intro effect_then_forward own_messages_mapped effect_to_this_client effect_registered)
    (auto simp: update_in_client_def Let_def split_beta client_effect_refl split: option.split intro!: effect_put)

lemma effect_forward_or_disconnect: "client_effect B d s (snd (forward_or_disconnect env d m s))"
  using effect_forward [of B d s env m] by (auto simp: forward_or_disconnect_def split: prod.split bool.split)

lemma effect_judge:
  assumes "pl_job_declarator s = Some sys"
  shows "client_effect B d s (snd (judge_custom_job B L env leaves d msg u sys s))"
proof -
  define jd where "jd = snd (handle_set_custom_mining_job B msg u (sys_jd sys))"
  define s1 where "s1 = s\<lparr>pl_job_declarator := Some (sys\<lparr>sys_jd := jd\<rparr>)\<rparr>"
  have "jd_step B sys (sys\<lparr>sys_jd := jd\<rparr>)"
    by (rule jd_step.set_custom [of B msg u _ "fst (handle_set_custom_mining_job B msg u (sys_jd sys))"]) (simp add: jd_def)
  then have s1: "client_effect B d s s1" using assms by (auto simp: client_effect_def s1_def declarator_steps_def)
  have commit: "client_effect B d s (snd (and_then (with_registered_downstream d (commit_custom_job L d msg) s2)
      (forward_or_disconnect env d)))" if "client_effect B d s s2" for s2
    by (rule client_effect_trans [OF that], intro effect.kept_and_then effect_registered effect_forward_or_disconnect)
      (auto simp: commit_custom_job_def Let_def client_effect_refl effect_put split: option.split)
  show ?thesis
  proof (cases "fst (handle_set_custom_mining_job B msg u (sys_jd sys))")
    case Panic
    then show ?thesis using s1 by (simp add: judge_custom_job_def split_beta Let_def s1_def jd_def)
  next
    case (Value res)
    then show ?thesis
      using commit [OF s1] commit [OF client_effect_trans [OF s1 effect_remove]]
        client_effect_trans [OF s1 effect_forward_or_disconnect]
      by (cases res; cases leaves) (simp_all add: judge_custom_job_def split_beta Let_def s1_def jd_def)
  qed
qed

lemma effect_custom: "client_effect B d s (snd (pool_handle_set_custom_mining_job B L env leaves d msg s))"
  by (auto simp: pool_handle_set_custom_mining_job_def Let_def with_registered_downstream_def client_effect_refl
      effect_forward_or_disconnect effect_judge split: option.split)

lemma message_effect: "client_effect B d s (snd (handle_mining_message_from_client B S L env d m s))"
proof (cases m)
  case (ClOpenStandard msg)
  then show ?thesis
    by (simp add: handle_open_standard_mining_channel_def)
      (intro effect_then_forward own_messages_mapped effect_to_this_client effect_registered effect_open_standard)
next
  case (ClOpenExtended msg)
  then show ?thesis
    by (simp add: handle_open_extended_mining_channel_def)
      (intro effect_then_forward own_messages_mapped effect_to_this_client effect_registered effect_open_extended)
qed (simp_all add: effect_close effect_submit_standard effect_submit_extended effect_update effect_custom)

section \<open>Errors\<close>

text \<open>An error that concerns the client alone, or the whole application.\<close>

definition own_error :: "downstream_id \<Rightarrow> (pool_error, 'r) attempt \<Rightarrow> bool" where
  "own_error d out \<longleftrightarrow> (\<forall>e. out = Failed e \<longrightarrow> pe_action e = PoolShutdown \<or> pe_action e = PoolDisconnect d)"

lemma own_error_simps [simp]:
  "own_error d (Done x)" "own_error d Panicked" "own_error d (Failed (pool_shutdown k))"
  "own_error d (Failed (pool_disconnect k d))"
  by (simp_all add: own_error_def pool_shutdown_def pool_disconnect_def)

lemma own_error_chain:
  "own_error d (fst r) \<Longrightarrow> (\<And>x s. own_error d (fst (k x s))) \<Longrightarrow> own_error d (fst (and_then r k))"
  by (cases r; cases "fst r") (auto simp: own_error_def and_then_def split: attempt.splits)

lemma own_error_or_fail: "own_error d (Failed e) \<Longrightarrow> own_error d (fst (or_fail e v s))"
  by (simp add: or_fail_def own_error_def split: option.split)

lemma own_error_registered:
  "(\<And>c. own_error d (fst (f c s))) \<Longrightarrow> own_error d (fst (with_registered_downstream d f s))"
  by (simp add: with_registered_downstream_def split: option.split)

lemma own_error_then_forward: "own_error d (fst r) \<Longrightarrow> own_error d (fst (then_forward env r))"
  unfolding then_forward_def by (rule own_error_chain) simp_all

lemma own_error_to_this_client: "own_error d (fst r) \<Longrightarrow> own_error d (fst (to_this_client d r))"
  unfolding to_this_client_def by (rule own_error_chain) simp_all

lemma own_error_reserve: "own_error d (fst (reserve alloc d c s))"
  by (simp add: reserve_def Let_def split: sum.split option.split)

lemma own_error_publish:
  "own_error d (fst (publish_standard L d ch mode n sc ms c s))"
  "own_error d (fst (publish_extended L d ch mode ec ms c s))"
  by (simp_all add: publish_standard_def publish_extended_def insert_vardiff_def Let_def split: option.split)

lemma own_error_start:
  "own_error d (start_standard L template prev_hash outs ch sc)"
  "own_error d (start_extended L template prev_hash outs ch ec)"
  by (simp_all add: start_standard_def start_extended_def split: option.split)

lemma own_error_started: "own_error d r \<Longrightarrow> own_error d (fst (started L p r s))"
  by (simp add: started_def)

lemma own_error_open:
  "own_error d (fst (open_standard S L d msg c s))" "own_error d (fst (open_extended S L d msg' c s))"
  by (auto simp: open_standard_def open_extended_def refuse_open_def own_error_publish own_error_start
      split: option.split sum.split open_channel_error.split
      intro!: own_error_chain own_error_or_fail own_error_reserve own_error_started)

lemma own_error_share: "own_error d (share_answer d ch seq sol rej acc v)"
  by (auto simp: share_answer_def split: sum.split share_validation_result.split option.split)

lemma own_error_forward: "own_error d (fst (forward_or_disconnect env d m s))"
  by (simp add: forward_or_disconnect_def split: prod.split bool.split)

lemma own_error_judge: "own_error d (fst (judge_custom_job B L env leaves d msg u sys s))"
  by (auto simp: judge_custom_job_def Let_def split_beta own_error_forward commit_custom_job_def
      split: may_panic.split set_custom_mining_job_response.split option.split
      intro!: own_error_chain own_error_registered own_error_forward)

lemma message_error: "own_error d (fst (handle_mining_message_from_client B S L env d m s))"
proof (cases m)
  case (ClSubmitStandard msg)
  then show ?thesis
    by (auto simp: handle_submit_shares_standard_def submit_standard_def Let_def split_beta own_error_share
        split: option.split intro!: own_error_then_forward own_error_registered)
next
  case (ClSubmitExtended msg)
  then show ?thesis
    by (auto simp: handle_submit_shares_extended_def submit_extended_def Let_def split_beta own_error_share
        split: option.split intro!: own_error_then_forward own_error_registered)
next
  case (ClUpdateChannel ch h t)
  then show ?thesis
    by (auto simp: pool_handle_update_channel_def update_in_client_def Let_def split_beta update_answer_def
        split: option.split sum.split update_channel_error.split
        intro!: own_error_then_forward own_error_to_this_client own_error_registered)
next
  case (ClSetCustomJob msg leaves)
  then show ?thesis
    by (auto simp: pool_handle_set_custom_mining_job_def Let_def own_error_forward own_error_judge
        split: option.split intro!: own_error_chain own_error_registered)
qed (auto simp: handle_open_standard_mining_channel_def handle_open_extended_mining_channel_def handle_close_channel_def
    intro!: own_error_then_forward own_error_to_this_client own_error_registered own_error_open own_error_chain)

section \<open>The embedded Job Declarator\<close>

text \<open>The pool's other steps leave the Job Declarator alone.\<close>

definition same_jds :: "('s, 'e, 'g, 'a, 'v) pool \<Rightarrow> ('s, 'e, 'g, 'a, 'v) pool \<Rightarrow> bool" where
  "same_jds s s' \<longleftrightarrow> pl_job_declarator s' = pl_job_declarator s"

interpretation same_jds: kept_relation same_jds
  by unfold_locales (simp_all add: same_jds_def)

lemma jds_forward_all: "same_jds s (forward_all env ms s)"
  by (induction env ms s rule: forward_all.induct)
    (simp_all add: same_jds_def forward_def split: route_message_to.splits if_splits)

lemma jds_then_forward: "same_jds s (snd r) \<Longrightarrow> same_jds s (snd (then_forward env r))"
  unfolding then_forward_def by (rule same_jds.kept_and_then) (simp_all add: jds_forward_all)

lemma jds_for_client: "same_jds s (snd (collect (for_client f) ds s))"
proof (rule same_jds.kept_collect)
  fix d :: downstream_id and s :: "('a, 'b, 'c, 'd, 'e) pool"
  show "same_jds s (snd (for_client f d s))"
    by (cases "pl_downstreams s d")
      (auto simp: for_client_def to_this_client_def split_beta same_jds_def put_client_def and_then_def split: attempt.split)
qed

lemma jds_template_message: "same_jds s (snd (handle_template_distribution_message L env t s))"
proof (cases t)
  case (TdNewTemplate m)
  have "same_jds s1 (snd (then_forward env (collect (for_client f) ds s1)))" for s1 f ds
    by (intro jds_then_forward jds_for_client)
  then show ?thesis
    by (auto simp: TdNewTemplate handle_new_template_def Let_def same_jds_def split: option.split list.split)
next
  case (TdSetNewPrevHash m)
  have "same_jds (s\<lparr>pl_last_new_prev_hash := Some m\<rparr>) (snd (pool_handle_set_new_prev_hash L env m s))"
    unfolding pool_handle_set_new_prev_hash_def by (intro jds_then_forward jds_for_client)
  then show ?thesis by (simp add: TdSetNewPrevHash same_jds_def)
qed (simp_all add: same_jds_def)

lemma jds_vardiff: "same_jds s (run_vardiff L env s)"
proof -
  have turn: "same_jds s (snd (vardiff_turn L key s))" for key s
    by (simp add: vardiff_turn_def Let_def split_beta same_jds_def put_client_def split: option.split)
  have turns: "same_jds s (snd (vardiff_turns L keys s))" for keys
  proof (induction keys arbitrary: s)
    case (Cons key keys)
    show ?case using same_jds.trans [OF turn Cons.IH] by (simp add: split_beta)
  qed (simp add: same_jds_def)
  show ?thesis using same_jds.trans [OF turns jds_forward_all] by (simp add: run_vardiff_def split_beta)
qed

lemma jd_reach_steps: "(jd_step B)\<^sup>*\<^sup>* a b \<Longrightarrow> jd_reach B sc a \<Longrightarrow> jd_reach B sc b"
  by (induction rule: rtranclp_induct) (auto intro: jd_reach.step)

lemma continues_jds: "pool_continues (out, s) = Some s' \<Longrightarrow> pl_job_declarator s' = pl_job_declarator s"
  by (auto simp: pool_continues_def pool_error_action_def split: attempt.splits pool_action.splits)

lemma pool_reach_jds:
  assumes "pool_reach B S L K cfg s" and "pl_job_declarator s = Some sys"
  shows "jd_reach B (cfg_coinbase_reward_script cfg) sys"
  using assms
proof (induction arbitrary: sys)
  case (new outs jds s)
  then show ?case by (auto simp: pool_new_def split: option.splits intro: jd_reach.new)
next
  case (client s env d m s')
  have "pl_job_declarator (snd (handle_mining_message_from_client B S L env d m s)) = Some sys"
    using client.hyps(2) client.prems continues_jds by (metis prod.collapse)
  then have "declarator_steps B (pl_job_declarator s) (Some sys)"
    using message_effect [of B d s S L env m] by (simp add: client_effect_def)
  then obtain sys0 where "pl_job_declarator s = Some sys0" "(jd_step B)\<^sup>*\<^sup>* sys0 sys"
    by (auto simp: declarator_steps_def elim: option.rel_cases)
  then show ?case using client.IH jd_reach_steps by blast
next
  case (template s env t s')
  have "pl_job_declarator s = Some sys"
    using template.hyps(2) template.prems continues_jds jds_template_message [of s L env t]
    by (metis same_jds_def prod.collapse)
  then show ?case by (rule template.IH)
next
  case (vardiff s env)
  then show ?case using jds_vardiff [of s L env] by (simp add: same_jds_def)
next
  case (connect s d s')
  then show ?case
    by (auto simp: accept_client_def Let_def put_client_def split: attempt.splits option.splits)
next
  case (handshake s d c sent msg out replies c')
  then show ?case by (simp add: put_client_def)
next
  case (extensions s d c sent r requested out replies' c')
  then show ?case by (simp add: put_client_def)
next
  case (leave s d)
  then show ?case by simp
next
  case (dropped s d ch)
  then show ?case by (auto simp: drop_departed_def release_slot_def split: option.splits)
next
  case (jds s sys0 sys')
  then show ?case by (auto intro: jd_reach.step)
qed

end
