(* ===== verification/Pool_Demo.thy ===== *)
theory Pool_Demo
  imports Pool_Run
begin

text \<open>
  A small instance of the libraries of the pool and a run on it, the input of the witnesses. A prefix is a
  number with bytes that end in a one; channels keep their prefix, identity and the jobs they were given;
  two clients connect, the first opens an extended channel and the second a standard one.
\<close>

section \<open>The instance\<close>

definition demo_fresh :: "nat list \<Rightarrow> nat" where
  "demo_fresh a = foldr max a 0 + 1"

definition demo_slot_bytes :: "nat \<Rightarrow> bytes" where
  "demo_slot_bytes p = replicate p 0 @ [1]"

definition demo_mining_job :: "u32 \<Rightarrow> new_mining_job" where
  "demo_mining_job i = \<lparr>sm_channel_id = 2, sm_job_id = i, sm_min_ntime = None, sm_version = 2, sm_merkle_root = []\<rparr>"

definition demo_extended_job :: "u32 \<Rightarrow> new_extended_mining_job" where
  "demo_extended_job i = \<lparr>nj_channel_id = 1, nj_job_id = i, nj_min_ntime = None, nj_version = 2,
     nj_version_rolling_allowed = True, nj_merkle_path = [], nj_coinbase_tx_prefix = [], nj_coinbase_tx_suffix = []\<rparr>"

definition demo_accounting :: share_accounting where
  "demo_accounting = \<lparr>sa_should_acknowledge = True, sa_last_sequence_number = 1, sa_last_batch_accepted = 1,
     sa_last_batch_work_sum = 1\<rparr>"

type_synonym demo_channel = "nat \<times> string \<times> u32 list"
type_synonym demo_group = "channel_id \<times> channel_id list \<times> u32"

definition demo_lib :: "(demo_channel, demo_channel, demo_group, u32, nat list, nat, nat) pool_lib" where
  "demo_lib = \<lparr>
     std_new = (\<lambda>ch u p t h b r tag past. Inr (p, u, [])),
     std_slot = fst, std_user_identity = fst \<circ> snd, std_target = (\<lambda>_. 9), std_nominal_hashrate = (\<lambda>_. 1),
     std_shares_per_minute = (\<lambda>_. 1), std_set_stable = (\<lambda>_ sc. sc), std_accounting = (\<lambda>_. demo_accounting),
     std_on_new_template = (\<lambda>t outs (p, u, js). Some (p, u, 1 # js)),
     std_on_group_job = (\<lambda>j (p, u, js). Some (p, u, j # js)),
     std_on_prev_hash = (\<lambda>m sc. Some sc), std_future_job_id = (\<lambda>_ _. Some 1),
     std_future_job = (\<lambda>i _. Some (demo_mining_job i)), std_active_job = (\<lambda>_. Some (demo_mining_job 1)),
     std_validate_share = (\<lambda>m sc. (Inr (BlockFound (Some 7) [3]), sc)),
     std_update = (\<lambda>h t sc. Inr sc),
     ext_new = (\<lambda>ch u p t h v n b r tag past. Inr (p, u, [])),
     ext_slot = fst, ext_user_identity = fst \<circ> snd, ext_target = (\<lambda>_. 9),
     ext_rollable_extranonce_size = (\<lambda>_. 16), ext_full_extranonce_size = (\<lambda>_. 20),
     ext_nominal_hashrate = (\<lambda>_. 1), ext_shares_per_minute = (\<lambda>_. 1), ext_set_stable = (\<lambda>_ ec. ec),
     ext_accounting = (\<lambda>_. demo_accounting),
     ext_on_new_template = (\<lambda>t outs (p, u, js). Some (p, u, 1 # js)),
     ext_on_group_job = (\<lambda>j (p, u, js). Some (p, u, j # js)),
     ext_on_prev_hash = (\<lambda>m ec. Some ec), ext_on_custom_job = (\<lambda>m (p, u, js). Some (8, p, u, 8 # js)),
     ext_future_job_id = (\<lambda>_ _. Some 1), ext_future_job = (\<lambda>i _. Some i),
     ext_validate_share = (\<lambda>m ec. (Inr (BlockFound (Some 7) [3]), ec)),
     ext_update = (\<lambda>h t ec. Inr ec),
     grp_new = (\<lambda>ch n b tag. Some (ch, [], 0)), grp_id = fst, grp_ids = fst \<circ> snd,
     grp_add = (\<lambda>ch n (g, chs, j). Some (g, ch # chs, j)),
     grp_remove = (\<lambda>ch (g, chs, j). (g, removeAll ch chs, j)),
     grp_on_new_template = (\<lambda>t outs (g, chs, j). Some (g, chs, j + 1)),
     grp_on_prev_hash = (\<lambda>m g. Some g), grp_future_job_id = (\<lambda>_ (g, chs, j). Some j),
     grp_future_job = (\<lambda>i _. Some i), grp_active_job = (\<lambda>(g, chs, j). Some j),
     job_message = demo_extended_job, job_id_of = (\<lambda>i. i),
     alloc_new = (\<lambda>b n k. Some []),
     alloc_standard = (\<lambda>a. (Inr (demo_fresh a), demo_fresh a # a)),
     alloc_extended = (\<lambda>n a. (Inr (demo_fresh a), demo_fresh a # a)),
     alloc_release = removeAll, slot_bytes = demo_slot_bytes,
     vd_new = Some 0, vd_increment = Suc, vd_try = (\<lambda>v h t r. (Inr None, v)),
     bytes_needed_for = (\<lambda>_. 3),
     deserialize_outputs = (\<lambda>_. Some [\<lparr>txout_value = 0, script_pubkey = [5]\<rparr>])\<rparr>"

lemma demo_fresh_not_in: "demo_fresh a \<notin> set a"
proof -
  have "x \<le> foldr max a 0" if "x \<in> set a" for x using that by (induction a) auto
  then have "demo_fresh a \<in> set a \<Longrightarrow> foldr max a 0 + 1 \<le> foldr max a 0" unfolding demo_fresh_def .
  then show ?thesis by linarith
qed

lemma demo_bytes_apart: "prefix (demo_slot_bytes p) (demo_slot_bytes q) \<Longrightarrow> p = q"
proof (induction p arbitrary: q)
  case 0
  then show ?case by (cases q) (auto simp: demo_slot_bytes_def)
next
  case (Suc p)
  show ?case
  proof (cases q)
    case 0
    then show ?thesis using Suc.prems by (simp add: demo_slot_bytes_def)
  next
    case q: (Suc q')
    have "prefix (demo_slot_bytes p) (demo_slot_bytes q')" using Suc.prems by (simp add: q demo_slot_bytes_def)
    then show ?thesis using Suc.IH q by blast
  qed
qed

lemma demo_channels_ok: "channels_ok demo_lib"
  by (auto simp: channels_ok_def standard_channels_ok_def extended_channels_ok_def groups_ok_def std_owner_def
      ext_owner_def demo_lib_def)

lemma demo_allocator_ok: "allocator_ok demo_lib set"
  by (auto simp: allocator_ok_def demo_lib_def demo_fresh_not_in dest: demo_bytes_apart)

section \<open>The run\<close>

definition demo_cfg :: pool_config where
  "demo_cfg = \<lparr>cfg_server_id = 1, cfg_share_batch_size = 1, cfg_shares_per_minute = 1, cfg_max_past_jobs = None,
     cfg_pool_signature = ''p'', cfg_coinbase_reward_script = crs [5], cfg_supported_extensions = [],
     cfg_required_extensions = []\<rparr>"

definition demo_env :: pool_env where
  "demo_env = \<lparr>client_reads = \<lambda>_. True, provider_reads = True, visit_clients = [], visit_client_channels = \<lambda>_. [],
     visit_vardiff = []\<rparr>"

definition demo_client_lib :: "unit client_lib" where
  "demo_client_lib = \<lparr>has_requires_std_job = \<lambda>_. False, has_work_selection = \<lambda>_. False,
     decode_setup_connection = \<lambda>_. None, decode_mining = \<lambda>_ _. None, decode_request_extensions = \<lambda>_. None\<rparr>"

definition demo_new_template :: new_template where
  "demo_new_template = \<lparr>tm_template_id = 7, tm_future_template = True, tm_version = 2, tm_coinbase_tx_version = 2,
     tm_coinbase_prefix = [], tm_coinbase_tx_input_sequence = 0, tm_coinbase_tx_value_remaining = 50,
     tm_coinbase_tx_outputs_count = 0, tm_coinbase_tx_outputs = [], tm_coinbase_tx_locktime = 0, tm_merkle_path = []\<rparr>"

definition demo_template_prev_hash :: template_prev_hash where
  "demo_template_prev_hash = \<lparr>tph_template_id = 7, tph_prev_hash = 3, tph_ntime_start = 4, tph_n_bits = 5,
     tph_target = 6\<rparr>"

text \<open>The states of the run, by what they differ in.\<close>

definition demo_pool ::
  "(downstream_id \<rightharpoonup> (demo_channel, demo_channel, demo_group) pool_client) \<Rightarrow> nat list \<Rightarrow> u64 \<Rightarrow>
   (downstream_id \<times> channel_id \<rightharpoonup> nat) \<Rightarrow> downstream_id set \<Rightarrow> (downstream_id \<times> to_client) list \<Rightarrow>
   (demo_channel, demo_channel, demo_group, nat list, nat) pool" where
  "demo_pool clients allocated next_id vd senders sent_out =
     \<lparr>pl_downstreams = clients, pl_allocator = allocated, pl_downstream_id_factory = next_id, pl_vardiff = vd,
      pl_coinbase_outputs = [], pl_last_new_prev_hash = Some demo_template_prev_hash,
      pl_last_future_template = Some demo_new_template, pl_senders = senders, pl_pool_tag_string = ''p'',
      pl_share_batch_size = 1, pl_shares_per_minute = 1, pl_max_past_jobs = None,
      pl_coinbase_reward_script = crs [5], pl_supported_extensions = [], pl_required_extensions = [],
      pl_job_declarator = Some (jd_system_new (crs [5])), pl_departing = Map.empty, pl_to_clients = sent_out,
      pl_to_template_provider = []\<rparr>"

definition demo_client :: "(demo_channel, demo_channel, demo_group) pool_client" where
  "demo_client = pool_client_new 2 (1, [], 1) [] []"

definition demo_client_1 :: "(demo_channel, demo_channel, demo_group) pool_client" where
  "demo_client_1 = demo_client\<lparr>pd_channel_id_factory := 3, pd_group := (1, [2], 1),
     pd_extended := [2 \<mapsto> (1, ''u'', [1])], pd_payout_mode := Some FullDonation\<rparr>"

definition demo_client_2 :: "(demo_channel, demo_channel, demo_group) pool_client" where
  "demo_client_2 = demo_client\<lparr>pd_channel_id_factory := 3, pd_group := (1, [2], 1),
     pd_standard := [2 \<mapsto> (2, ''u'', [1])], pd_payout_mode := Some FullDonation\<rparr>"

definition demo_open_extended :: open_channel_msg where
  "demo_open_extended = \<lparr>oc_request_id = 1, oc_user_identity = ''u'', oc_nominal_hash_rate = 1, oc_max_target = 9,
     oc_min_extranonce_size = 8\<rparr>"

definition demo_open_standard :: open_standard_msg where
  "demo_open_standard = \<lparr>so_request_id = 1, so_user_identity = ''u'', so_nominal_hash_rate = 1, so_max_target = 9\<rparr>"

definition demo_prev_hash_for :: "channel_id \<Rightarrow> to_client" where
  "demo_prev_hash_for ch = MnSetNewPrevHash \<lparr>ph_channel_id = ch, ph_job_id = 1, ph_prev_hash = 3, ph_min_ntime = 4, ph_nbits = 5\<rparr>"

definition demo_told_1 :: "(downstream_id \<times> to_client) list" where
  "demo_told_1 = [(1, MnOpenExtendedSuccess 1 2 9 [0, 1] 16 1), (1, MnNewExtendedMiningJob (demo_extended_job 1)),
     (1, demo_prev_hash_for 2)]"

definition demo_told_2 :: "(downstream_id \<times> to_client) list" where
  "demo_told_2 = [(2, MnOpenStandardSuccess 1 2 9 [0, 0, 1] 1), (2, MnNewMiningJob (demo_mining_job 1)),
     (2, demo_prev_hash_for 2)]"

definition demo_connected :: "(demo_channel, demo_channel, demo_group, nat list, nat) pool" where
  "demo_connected = demo_pool [1 \<mapsto> demo_client, 2 \<mapsto> demo_client] [] 3 Map.empty {1, 2} []"

definition demo_half_open :: "(demo_channel, demo_channel, demo_group, nat list, nat) pool" where
  "demo_half_open = demo_pool [2 \<mapsto> demo_client, 1 \<mapsto> demo_client_1] [1] 3 [(1, 2) \<mapsto> 0] {1, 2} demo_told_1"

definition demo_open :: "(demo_channel, demo_channel, demo_group, nat list, nat) pool" where
  "demo_open = demo_pool [1 \<mapsto> demo_client_1, 2 \<mapsto> demo_client_2] [2, 1] 3 [(1, 2) \<mapsto> 0, (2, 2) \<mapsto> 0] {1, 2}
     (demo_told_1 @ demo_told_2)"

lemma demo_payout: "requested_payout demo_scripts ''u'' = Some FullDonation"
  by (simp add: requested_payout_def payout_mode_try_from_def script_from_address_def from_descriptor_def
      demo_scripts_def starts_with_def address_part_from_user_identity_def nth_part_def)

abbreviation "demo_reach \<equiv> pool_reach demo_btc demo_scripts demo_lib demo_client_lib demo_cfg"

lemma demo_connected_reached: "demo_reach demo_connected"
proof -
  let ?s0 = "(demo_pool Map.empty [] 1 Map.empty {} [])\<lparr>pl_last_future_template := None, pl_last_new_prev_hash := None\<rparr>"
  let ?s1 = "(demo_pool Map.empty [] 1 Map.empty {} [])\<lparr>pl_last_new_prev_hash := None\<rparr>"
  let ?s2 = "demo_pool Map.empty [] 1 Map.empty {} []"
  let ?s3 = "demo_pool [1 \<mapsto> demo_client] [] 2 Map.empty {1} []"
  have "pool_new demo_lib demo_cfg [] (Some (jd_system_new (crs [5]))) = Ok ?s0"
    by (simp add: pool_new_def demo_lib_def demo_cfg_def demo_pool_def)
  then have r0: "demo_reach ?s0" by (rule pool_reach.new) (simp add: demo_cfg_def)
  have "pool_continues (handle_template_distribution_message demo_lib demo_env (TdNewTemplate demo_new_template) ?s0) = Some ?s1"
    by (simp add: handle_new_template_def demo_new_template_def demo_lib_def demo_env_def then_forward_def
        pool_continues_def demo_pool_def)
  then have r1: "demo_reach ?s1" by (rule pool_reach.template [OF r0])
  have "pool_continues (handle_template_distribution_message demo_lib demo_env (TdSetNewPrevHash demo_template_prev_hash) ?s1) = Some ?s2"
    by (simp add: pool_handle_set_new_prev_hash_def demo_env_def then_forward_def pool_continues_def demo_pool_def)
  then have r2: "demo_reach ?s2" by (rule pool_reach.template [OF r1])
  note accept = accept_client_def bootstrap_group_channel_def Let_def put_client_def demo_client_def demo_pool_def demo_lib_def
  have "accept_client demo_lib ?s2 = (Done (Some 1), ?s3)" by (simp add: accept)
  then have r3: "demo_reach ?s3" by (rule pool_reach.connect [OF r2, rotated]) (simp add: demo_pool_def)
  have "accept_client demo_lib ?s3 = (Done (Some 2), demo_connected)"
    by (auto simp: accept demo_connected_def)
  then show ?thesis by (rule pool_reach.connect [OF r3, rotated]) (simp add: demo_pool_def)
qed

lemmas demo_run_defs = then_forward_def to_this_client_def with_registered_downstream_def refuse_open_def reserve_def
  payout_is_compatible_def started_def publish_standard_def publish_extended_def start_standard_def start_extended_def
  join_client_group_def insert_vardiff_def put_client_def release_slot_def forward_def Let_def

lemma demo_extended_opened:
  "handle_mining_message_from_client demo_btc demo_scripts demo_lib demo_env 1 (ClOpenExtended demo_open_extended) demo_connected
     = (Done (), demo_half_open)"
  by (simp add: handle_open_extended_mining_channel_def open_extended_def demo_run_defs demo_payout
      demo_open_extended_def demo_lib_def demo_connected_def demo_half_open_def demo_pool_def demo_client_def pool_client_new_def
      demo_client_1_def demo_fresh_def demo_slot_bytes_def demo_env_def demo_told_1_def demo_prev_hash_for_def
      demo_template_prev_hash_def numeral_2_eq_2)

lemma demo_standard_opened:
  "handle_mining_message_from_client demo_btc demo_scripts demo_lib demo_env 2 (ClOpenStandard demo_open_standard) demo_half_open
     = (Done (), demo_open)"
  by (simp add: handle_open_standard_mining_channel_def open_standard_def demo_run_defs demo_payout
      demo_open_standard_def demo_lib_def demo_open_def demo_half_open_def demo_pool_def demo_client_def pool_client_new_def
      demo_client_2_def demo_fresh_def demo_slot_bytes_def demo_env_def demo_told_2_def demo_prev_hash_for_def
      demo_template_prev_hash_def numeral_2_eq_2)

lemma demo_open_reached: "demo_reach demo_open"
proof -
  have "demo_reach demo_half_open"
    by (rule pool_reach.client [OF demo_connected_reached, of demo_env 1 "ClOpenExtended demo_open_extended"])
      (simp add: demo_extended_opened pool_continues_def del: handle_mining_message_from_client.simps)
  then show ?thesis
    by (rule pool_reach.client [of _ _ _ _ _ _ demo_env 2 "ClOpenStandard demo_open_standard"])
      (simp add: demo_standard_opened pool_continues_def del: handle_mining_message_from_client.simps)
qed

end
