(* ===== verification/Pool_Work.thy ===== *)
theory Pool_Work
  imports Pool_Isolation Pool_Demo
begin

text \<open>
  What the pool promises its clients: search spaces that do not overlap, one payout for all channels of a
  client, work that reaches every channel, blocks that reach the Template Provider, custom jobs that were
  declared, and no harm from other clients.
\<close>

section \<open>Loops over channels and clients\<close>

lemma each_extended:
  assumes "each (update_extended f) chs c = (Done (), c')" and "distinct chs"
  shows "c' = c\<lparr>pd_extended := pd_extended c'\<rparr> \<and>
    (\<forall>ch ec. pd_extended c ch = Some ec \<longrightarrow>
       (if ch \<in> set chs then f ec \<noteq> None \<and> pd_extended c' ch = f ec else pd_extended c' ch = Some ec))"
  using assms
proof (induction chs arbitrary: c)
  case (Cons x chs)
  from Cons.prems(1) obtain c1 where 1: "update_extended f x c = (Done (), c1)"
    and rest: "each (update_extended f) chs c1 = (Done (), c')"
    by (auto simp: and_then_Done)
  have c1: "c1 = c\<lparr>pd_extended := pd_extended c1\<rparr>"
    and at: "\<And>ec. pd_extended c x = Some ec \<Longrightarrow> f ec \<noteq> None \<and> pd_extended c1 x = f ec"
    and other: "\<And>ch. ch \<noteq> x \<Longrightarrow> pd_extended c1 ch = pd_extended c ch"
    using 1 by (auto simp: update_extended_def split: option.splits)
  have ih: "c' = c1\<lparr>pd_extended := pd_extended c'\<rparr>"
    and kept: "\<And>ch ec. pd_extended c1 ch = Some ec \<Longrightarrow>
      (if ch \<in> set chs then f ec \<noteq> None \<and> pd_extended c' ch = f ec else pd_extended c' ch = Some ec)"
    using Cons.IH [OF rest] Cons.prems(2) by auto
  have "c' = c\<lparr>pd_extended := pd_extended c'\<rparr>"
    by (subst ih, subst c1) simp
  moreover have "if ch \<in> set (x # chs) then f ec \<noteq> None \<and> pd_extended c' ch = f ec else pd_extended c' ch = Some ec"
    if own: "pd_extended c ch = Some ec" for ch ec
  proof (cases "ch = x")
    case True
    then obtain ec1 where ec1: "f ec = Some ec1" "pd_extended c1 x = Some ec1" using at own by auto
    then show ?thesis using kept [OF ec1(2)] True Cons.prems(2) by simp
  next
    case False
    then show ?thesis using kept [of ch ec] other own by simp
  qed
  ultimately show ?case by blast
qed simp

text \<open>What a template does to one standard channel.\<close>

definition standard_after ::
  "('s, 'e, 'g, 'j, 'a, 'p, 'v) pool_lib \<Rightarrow> new_template \<Rightarrow> tx_out list \<Rightarrow> 'j \<Rightarrow> bool \<Rightarrow> 's \<Rightarrow> 's option" where
  "standard_after L template outs job requires_standard_jobs sc =
     (if requires_standard_jobs then std_on_new_template L template outs sc else std_on_group_job L job sc)"

lemma template_standard_Done:
  assumes "template_for_standard L template outs job x c = (Done ms, c1)"
  shows "c1 = c\<lparr>pd_standard := pd_standard c1\<rparr>"
    and "pd_standard c x = Some sc \<Longrightarrow> standard_after L template outs job (pd_requires_standard_jobs c) sc \<noteq> None \<and>
      pd_standard c1 x = standard_after L template outs job (pd_requires_standard_jobs c) sc"
    and "ch \<noteq> x \<Longrightarrow> pd_standard c1 ch = pd_standard c ch"
  using assms by (auto simp: template_for_standard_def standard_after_def split: option.splits if_splits)

lemma collect_standard:
  assumes "collect (template_for_standard L template outs job) chs c = (Done ms, c')" and "distinct chs"
  shows "c' = c\<lparr>pd_standard := pd_standard c'\<rparr> \<and>
    (\<forall>ch sc. pd_standard c ch = Some sc \<longrightarrow>
       (if ch \<in> set chs then standard_after L template outs job (pd_requires_standard_jobs c) sc \<noteq> None \<and>
          pd_standard c' ch = standard_after L template outs job (pd_requires_standard_jobs c) sc
        else pd_standard c' ch = Some sc))"
  using assms
proof (induction chs arbitrary: c ms)
  case (Cons x chs)
  from Cons.prems(1) obtain ms1 ms2 c1 where 1: "template_for_standard L template outs job x c = (Done ms1, c1)"
    and rest: "collect (template_for_standard L template outs job) chs c1 = (Done ms2, c')"
    by (auto simp: and_then_Done)
  note step = template_standard_Done [OF 1]
  have req: "pd_requires_standard_jobs c1 = pd_requires_standard_jobs c" by (subst step(1)) simp
  let ?f = "standard_after L template outs job (pd_requires_standard_jobs c)"
  have ih: "c' = c1\<lparr>pd_standard := pd_standard c'\<rparr>"
    and kept: "\<And>ch sc. pd_standard c1 ch = Some sc \<Longrightarrow>
      (if ch \<in> set chs then ?f sc \<noteq> None \<and> pd_standard c' ch = ?f sc else pd_standard c' ch = Some sc)"
    using Cons.IH [OF rest, unfolded req] Cons.prems(2) by simp_all
  have "c' = c\<lparr>pd_standard := pd_standard c'\<rparr>"
    by (subst ih, subst step(1)) simp
  moreover have "if ch \<in> set (x # chs) then ?f sc \<noteq> None \<and> pd_standard c' ch = ?f sc else pd_standard c' ch = Some sc"
    if own: "pd_standard c ch = Some sc" for ch sc
  proof (cases "ch = x")
    case True
    then obtain sc1 where sc1: "?f sc = Some sc1" "pd_standard c1 x = Some sc1" using step(2) own by auto
    then show ?thesis using kept [OF sc1(2)] True Cons.prems(2) by simp
  next
    case False
    then show ?thesis using kept [of ch sc] step(3) own by simp
  qed
  ultimately show ?case by blast
qed simp

lemma collect_clients:
  assumes "collect (for_client F) ds s = (Done ms, s')" and "distinct ds" and "d \<in> set ds" and "pl_downstreams s d = Some c"
  shows "\<exists>ms' c'. F d c = (Done ms', c') \<and> pl_downstreams s' d = Some c'"
  using assms
proof (induction ds arbitrary: s ms)
  case (Cons x ds)
  from Cons.prems(1) obtain ms1 ms2 s1 where 1: "for_client F x s = (Done ms1, s1)"
    and rest: "collect (for_client F) ds s1 = (Done ms2, s')"
    by (auto simp: and_then_Done)
  have untouched: "pl_downstreams t' d = pl_downstreams t d"
    if "collect (for_client F) es t = (Done ks, t')" "d \<notin> set es" for es t t' ks
    using that
  proof (induction es arbitrary: t ks)
    case (Cons e es)
    then obtain ks1 ks2 t1 where "for_client F e t = (Done ks1, t1)" "collect (for_client F) es t1 = (Done ks2, t')"
      by (auto simp: and_then_Done)
    moreover from this have "pl_downstreams t1 d = pl_downstreams t d"
      using Cons.prems(2)
      by (auto simp: for_client_def to_this_client_def and_then_Done put_client_def split_beta split: option.splits)
    ultimately show ?case using Cons by simp
  qed simp
  show ?case
  proof (cases "d = x")
    case True
    obtain r c' where F: "F d c = (r, c')" by (cases "F d c")
    obtain ms' where "r = Done ms'" "pl_downstreams s1 d = Some c'"
      using 1 Cons.prems(4) True F by (auto simp: for_client_def to_this_client_def and_then_Done put_client_def)
    then show ?thesis using F untouched [OF rest] True Cons.prems(2) by auto
  next
    case False
    then have "pl_downstreams s1 d = Some c"
      using 1 Cons.prems(4)
      by (auto simp: for_client_def to_this_client_def and_then_Done put_client_def split_beta split: option.splits)
    then show ?thesis using Cons.IH [OF rest] Cons.prems False by simp
  qed
qed simp

lemma down_forward_all: "pl_downstreams (forward_all env ms s) = pl_downstreams s"
  by (induction env ms s rule: forward_all.induct) (simp_all add: forward_def split: route_message_to.split)

section \<open>Work\<close>

text \<open>
  C17. A new template reaches every channel of every client that takes the pool's work. When the
  handler ends, the client's group has made its job from the template with the coinbase outputs of the
  client's payout, each of its extended channels has imported that job, and each of its standard channels
  has imported it too or, when the client asked for standard jobs, has made its own job with the same
  outputs.
\<close>

theorem new_template_reaches_every_channel:
  assumes "handle_new_template L env template s = (Done (), s')"
    and "distinct (visit_clients env)" and "dom (pl_downstreams s) = set (visit_clients env)"
    and "pl_downstreams s d = Some c" and "\<not> pd_requires_custom_work c" and "pd_payout_mode c = Some mode"
    and "distinct (visit_client_channels env d)" and "{ch. is_open c ch} = set (visit_client_channels env d)"
  defines "outs \<equiv> coinbase_outputs mode (tm_coinbase_tx_value_remaining template) (pl_coinbase_reward_script s)"
  shows "\<exists>g job c'. grp_on_new_template L template outs (pd_group c) = Some g \<and>
    group_job_of L template g = Some job \<and> pl_downstreams s' d = Some c' \<and> pd_group c' = g \<and>
    (\<forall>ch ec. pd_extended c ch = Some ec \<longrightarrow>
       ext_on_group_job L job ec \<noteq> None \<and> pd_extended c' ch = ext_on_group_job L job ec) \<and>
    (\<forall>ch sc. pd_standard c ch = Some sc \<longrightarrow>
       standard_after L template outs job (pd_requires_standard_jobs c) sc \<noteq> None \<and>
       pd_standard c' ch = standard_after L template outs job (pd_requires_standard_jobs c) sc)"
proof -
  define s1 where "s1 = (if tm_future_template template then s\<lparr>pl_last_future_template := Some template\<rparr> else s)"
  obtain default_outs ms s2 where run: "collect (for_client (\<lambda>d c. template_for_client L template
      (client_outputs default_outs (pl_coinbase_reward_script s) template c) (visit_client_channels env d) c))
      (visit_clients env) s1 = (Done ms, s2)" and s': "s' = forward_all env ms s2"
    using assms(1)
    by (auto simp: handle_new_template_def Let_def then_forward_def and_then_Done s1_def split: option.splits list.splits)
  have at: "pl_downstreams s1 d = Some c" "d \<in> set (visit_clients env)" using assms(3,4) by (auto simp: s1_def)
  have outs: "client_outputs default_outs (pl_coinbase_reward_script s) template c = outs"
    using assms(6) by (simp add: client_outputs_def outs_def)
  obtain ms' c' where t: "template_for_client L template outs (visit_client_channels env d) c = (Done ms', c')"
    and c': "pl_downstreams s' d = Some c'"
    using collect_clients [OF run assms(2) at(2,1)] unfolding outs s' down_forward_all by blast
  from t obtain g job ms1 c2 where g: "grp_on_new_template L template outs (pd_group c) = Some g"
    and job: "group_job_of L template g = Some job"
    and std: "collect (template_for_standard L template outs job) (visit_client_channels env d) (c\<lparr>pd_group := g\<rparr>) = (Done ms1, c2)"
    and ext: "each (update_extended (ext_on_group_job L job)) (visit_client_channels env d) c2 = (Done (), c')"
    using assms(5) by (auto simp: template_for_client_def Let_def and_then_Done split: option.splits)
  have req: "pd_requires_standard_jobs (c\<lparr>pd_group := g\<rparr>) = pd_requires_standard_jobs c" by simp
  note S = collect_standard [OF std assms(7), unfolded req] and E = each_extended [OF ext assms(7)]
  have c2: "c2 = c\<lparr>pd_group := g, pd_standard := pd_standard c2\<rparr>" using S by simp
  have c'': "c' = c2\<lparr>pd_extended := pd_extended c'\<rparr>" using E by blast
  have ext_c2: "pd_extended c2 = pd_extended c" and grp: "pd_group c2 = g" by (subst c2, simp)+
  have std_c': "pd_standard c' = pd_standard c2" and grp': "pd_group c' = g" by (subst c'', simp add: grp)+
  have here: "ch \<in> set (visit_client_channels env d)" if "is_open c ch" for ch using assms(8) that by blast
  have "ext_on_group_job L job ec \<noteq> None \<and> pd_extended c' ch = ext_on_group_job L job ec"
    if "pd_extended c ch = Some ec" for ch ec
    using E that here [of ch] by (simp add: ext_c2 is_open_def)
  moreover have "standard_after L template outs job (pd_requires_standard_jobs c) sc \<noteq> None \<and>
      pd_standard c' ch = standard_after L template outs job (pd_requires_standard_jobs c) sc"
    if "pd_standard c ch = Some sc" for ch sc
    using S that here [of ch] by (simp add: std_c' is_open_def)
  ultimately show ?thesis using g job c' grp' by blast
qed

definition demo_visits :: pool_env where
  "demo_visits = demo_env\<lparr>visit_clients := [1, 2], visit_client_channels := \<lambda>_. [2]\<rparr>"

lemmas demo_state_defs = demo_open_def demo_pool_def demo_client_1_def demo_client_2_def demo_client_def pool_client_new_def

lemma demo_template_handled: "\<exists>s'. handle_new_template demo_lib demo_visits demo_new_template demo_open = (Done (), s')"
  by (simp add: handle_new_template_def demo_visits_def demo_env_def then_forward_def for_client_def to_this_client_def
      template_for_client_def group_job_of_def template_for_standard_def update_extended_def put_client_def
      demo_state_defs demo_lib_def demo_new_template_def and_then_Done split_beta)

theorem new_template_reaches_every_channel_witness:
  "\<exists>s' c'. handle_new_template demo_lib demo_visits demo_new_template demo_open = (Done (), s') \<and>
     pl_downstreams s' 1 = Some c' \<and> pd_group c' = (1, [2], 2) \<and> pd_extended c' 2 = Some (1, ''u'', [2, 1])"
proof -
  obtain s' where run: "handle_new_template demo_lib demo_visits demo_new_template demo_open = (Done (), s')"
    using demo_template_handled by blast
  have "dom (pl_downstreams demo_open) = set (visit_clients demo_visits)"
    by (auto simp: demo_open_def demo_pool_def demo_visits_def)
  moreover have "{ch. is_open demo_client_1 ch} = set (visit_client_channels demo_visits 1)"
    by (auto simp: is_open_def demo_visits_def demo_client_1_def demo_client_def pool_client_new_def split: if_splits)
  ultimately obtain g job c' where
    g: "grp_on_new_template demo_lib demo_new_template
        (coinbase_outputs FullDonation (tm_coinbase_tx_value_remaining demo_new_template) (pl_coinbase_reward_script demo_open))
        (pd_group demo_client_1) = Some g" "group_job_of demo_lib demo_new_template g = Some job"
    and c': "pl_downstreams s' 1 = Some c'" "pd_group c' = g"
      "\<And>ch ec. pd_extended demo_client_1 ch = Some ec \<Longrightarrow> pd_extended c' ch = ext_on_group_job demo_lib job ec"
    using new_template_reaches_every_channel [OF run, of 1 demo_client_1 FullDonation]
    by (auto simp: demo_visits_def demo_state_defs)
  have g': "g = (1, [2], 2)" using g(1) by (simp add: demo_client_1_def demo_lib_def)
  have "job = 2" using g(2) by (simp add: g' demo_lib_def group_job_of_def demo_new_template_def)
  moreover have "pd_extended demo_client_1 2 = Some (1, ''u'', [1])" by (simp add: demo_client_1_def)
  ultimately have "pd_extended c' 2 = Some (1, ''u'', [2, 1])" using c'(3) by (simp add: demo_lib_def)
  then show ?thesis using c' run g' by blast
qed


definition demo_block_share :: submit_shares_extended where
  "demo_block_share = \<lparr>se_channel_id = 2, se_sequence_number = 1, se_job_id = 1, se_nonce = 4, se_ntime = 5, se_version = 2,
     se_extranonce = []\<rparr>"


section \<open>Search spaces and payouts\<close>

text \<open>
  C11. No two channels of the pool search the same space. In every reachable state the extranonce prefixes
  of two channels, of whatever client and kind and even of connections that have left and are not yet
  dropped, differ, and neither is the start of the other, so that no share of one can be a share of the
  other.
\<close>

theorem channels_search_disjoint_spaces:
  assumes "channels_ok L" and "allocator_ok L H" and "pool_reach B S L K cfg s"
    and "slots L s x = Some p" and "slots L s y = Some q" and "x \<noteq> y"
  shows "\<not> prefix (slot_bytes L p) (slot_bytes L q)"
proof -
  have own: "owned (H (pl_allocator s)) (slots L s)" using inv_owned [OF pool_reach_inv [OF assms(1-3)]] .
  have held: "p \<in> H (pl_allocator s)" "q \<in> H (pl_allocator s)" using own assms(4,5) unfolding owned_iff by blast+
  have "p \<noteq> q" using own assms(4-6) unfolding owned_iff by blast
  then show ?thesis by (rule held_apart [OF assms(2) held])
qed

theorem channels_search_disjoint_spaces_witness:
  "\<not> prefix (slot_bytes demo_lib 1) (slot_bytes demo_lib 2)"
  by (rule channels_search_disjoint_spaces [OF demo_channels_ok demo_allocator_ok demo_open_reached,
        of "((False, 1), (False, 2))" _ "((False, 2), (True, 2))"])
    (simp_all add: slots_def client_owner_def ext_owner_def std_owner_def demo_state_defs demo_lib_def)

text \<open>
  C12. All channels of a client are paid alike. In every reachable state the identity of each open
  channel asks for a payout that, whatever a template is worth, has the very outputs the pool puts into the
  jobs of that client, so the group's job is right for every member.
\<close>

theorem channels_of_a_client_share_one_payout:
  assumes "channels_ok L" and "allocator_ok L H" and "pool_reach B S L K cfg s"
    and "pl_downstreams s d = Some c" and "client_owner L c key = Some (p, user_identity)"
  shows "\<exists>mode. requested_payout S user_identity = Some mode \<and>
    (\<forall>default_outputs template.
       client_outputs default_outputs (pl_coinbase_reward_script s) template c =
       coinbase_outputs mode (tm_coinbase_tx_value_remaining template) (pl_coinbase_reward_script s))"
proof -
  have inv: "pool_inv S L H (cfg_coinbase_reward_script cfg) s" using pool_reach_inv [OF assms(1-3)] .
  have ok: "client_ok S L (cfg_coinbase_reward_script cfg) c" using inv_client [OF inv assms(4)] .
  obtain m m' where m: "pd_payout_mode c = Some m" "requested_payout S user_identity = Some m'"
    "has_same_coinbase_outputs_as m m' (pl_coinbase_reward_script s)"
    using client_pays [OF ok assms(5)] unfolding inv_script [OF inv] by blast
  have "\<forall>v. coinbase_outputs m v (pl_coinbase_reward_script s) = coinbase_outputs m' v (pl_coinbase_reward_script s)"
    using same_outputs_at_100_iff_always [OF client_wf [OF ok m(1)] requested_payout_wf [OF m(2)]] m(3) by blast
  then show ?thesis using m(1,2) by (simp add: client_outputs_def)
qed

theorem channels_of_a_client_share_one_payout_witness:
  "\<exists>mode. requested_payout demo_scripts ''u'' = Some mode \<and>
    (\<forall>default_outputs template.
       client_outputs default_outputs (pl_coinbase_reward_script demo_open) template demo_client_1 =
       coinbase_outputs mode (tm_coinbase_tx_value_remaining template) (pl_coinbase_reward_script demo_open))"
  by (rule channels_of_a_client_share_one_payout [OF demo_channels_ok demo_allocator_ok demo_open_reached, of 1 _ "(False, 2)" 1])
    (simp_all add: client_owner_def ext_owner_def demo_state_defs demo_lib_def)

text \<open>
  C15. The registries of the pool agree. In every reachable state the queues are those of the registered
  clients, the difficulty states are those of their open channels, a client has a payout exactly when it has
  a channel, its group holds open channels only, and no client has a channel of the kind its handshake ruled
  out.
\<close>

theorem pool_registries_stay_consistent:
  assumes "channels_ok L" and "allocator_ok L H" and "pool_reach B S L K cfg s"
  shows "pl_senders s = dom (pl_downstreams s) \<and>
    (\<forall>d ch. pl_vardiff s (d, ch) \<noteq> None \<longleftrightarrow> (\<exists>c. pl_downstreams s d = Some c \<and> is_open c ch)) \<and>
    (\<forall>d c. pl_downstreams s d = Some c \<longrightarrow>
       (pd_payout_mode c = None \<longleftrightarrow> has_no_channels c) \<and>
       (\<forall>ch \<in> set (grp_ids L (pd_group c)). is_open c ch) \<and>
       (pd_requires_custom_work c \<longrightarrow> pd_standard c = Map.empty) \<and>
       (pd_requires_standard_jobs c \<longrightarrow> pd_extended c = Map.empty))"
proof -
  have inv: "pool_inv S L H (cfg_coinbase_reward_script cfg) s" using pool_reach_inv [OF assms] .
  have "(pd_payout_mode c = None \<longleftrightarrow> has_no_channels c) \<and> (\<forall>ch \<in> set (grp_ids L (pd_group c)). is_open c ch) \<and>
      (pd_requires_custom_work c \<longrightarrow> pd_standard c = Map.empty) \<and>
      (pd_requires_standard_jobs c \<longrightarrow> pd_extended c = Map.empty)" if "pl_downstreams s d = Some c" for d c
  proof -
    note ok = inv_client [OF inv that]
    show ?thesis
      using client_no_payout [OF ok] client_group [OF ok] client_custom [OF ok] client_standard [OF ok]
      by (auto simp: nothing_open fun_eq_iff)
  qed
  then show ?thesis using inv_senders [OF inv] inv_vardiff [OF inv] by blast
qed

theorem pool_registries_stay_consistent_witness:
  "pl_senders demo_open = dom (pl_downstreams demo_open) \<and> \<not> has_no_channels demo_client_1 \<and>
   set (grp_ids demo_lib (pd_group demo_client_1)) \<subseteq> Collect (is_open demo_client_1)"
proof -
  have "pl_downstreams demo_open 1 = Some demo_client_1" by (simp add: demo_open_def demo_pool_def)
  moreover have "pd_payout_mode demo_client_1 \<noteq> None" by (simp add: demo_client_1_def)
  ultimately show ?thesis
    using pool_registries_stay_consistent [OF demo_channels_ok demo_allocator_ok demo_open_reached]
    unfolding subset_iff mem_Collect_eq by metis
qed

section \<open>Other clients\<close>

text \<open>
  C14. A client cannot harm another. Whatever a client sends, and whatever the handler makes of it, as long
  as the pool goes on the registrations, channels, difficulty states and queues of all other clients are as
  before, and nothing is sent to them; at worst the client itself is disconnected.
\<close>

theorem clients_are_isolated:
  assumes "pool_continues (handle_mining_message_from_client B S L env d m s) = Some s'" and "x \<noteq> d"
  shows "pl_downstreams s' x = pl_downstreams s x \<and> pl_vardiff s' (x, ch) = pl_vardiff s (x, ch) \<and>
    (x \<in> pl_senders s' \<longleftrightarrow> x \<in> pl_senders s) \<and>
    (\<exists>ms. pl_to_clients s' = pl_to_clients s @ ms \<and> x \<notin> fst ` set ms)"
proof -
  obtain out s1 where h: "handle_mining_message_from_client B S L env d m s = (out, s1)" by (metis surj_pair)
  have "client_effect B d s s1" using message_effect [of B d s S L env m] by (simp add: h)
  moreover have "s' = s1 \<or> s' = remove_downstream d s1"
    using assms(1) message_error [of d B S L env m s]
    by (auto simp: h pool_continues_def pool_error_action_def own_error_def split: attempt.splits pool_action.splits)
  ultimately have effect: "client_effect B d s s'" using client_effect_trans [OF _ effect_remove] by blast
  then obtain ms where "pl_to_clients s' = pl_to_clients s @ map (Pair d) ms" by (auto simp: client_effect_def)
  moreover have "x \<notin> fst ` set (map (Pair d) ms)" using assms(2) by auto
  moreover have "x \<in> pl_senders s' \<longleftrightarrow> x \<in> pl_senders s" using effect assms(2) by (auto simp: client_effect_def)
  ultimately show ?thesis using effect assms(2) by (simp add: client_effect_def)
qed

theorem clients_are_isolated_witness:
  "pl_downstreams demo_open 1 = pl_downstreams demo_half_open 1 \<and>
   (\<exists>ms. pl_to_clients demo_open = pl_to_clients demo_half_open @ ms \<and> 1 \<notin> fst ` set ms)"
proof -
  have "pool_continues (handle_mining_message_from_client demo_btc demo_scripts demo_lib demo_env 2
      (ClOpenStandard demo_open_standard) demo_half_open) = Some demo_open"
    by (simp add: demo_standard_opened pool_continues_def del: handle_mining_message_from_client.simps)
  from clients_are_isolated [OF this, of 1] show ?thesis by simp
qed

section \<open>Custom jobs\<close>

lemma tells_success:
  assumes "forward_or_disconnect env d m s = (out, s')"
  shows "s' = s \<or> s' = s\<lparr>pl_to_clients := pl_to_clients s @ [(d, m)]\<rparr>"
  using assms by (auto simp: forward_or_disconnect_def forward_def split: if_splits)

lemma judge_success:
  assumes "judge_custom_job B L env leaves d msg u sys s = (out, s')"
    and "pl_to_clients s' = pl_to_clients s @ [(d, MnSetCustomMiningJobSuccess ch r i)]"
  shows "ch = sc_channel_id msg \<and> r = sc_request_id msg \<and>
    (\<exists>ch' r' jd c ec ec'. handle_set_custom_mining_job B msg u (sys_jd sys) = (Value (SetCustomOk ch' r'), jd) \<and>
       pl_downstreams s d = Some c \<and> pd_extended c ch = Some ec \<and> ext_on_custom_job L msg ec = Some (i, ec') \<and>
       pl_downstreams s' d = Some (c\<lparr>pd_extended := (pd_extended c)(ch \<mapsto> ec')\<rparr>) \<and>
       pl_job_declarator s' = Some (sys\<lparr>sys_jd := jd\<rparr>))"
proof -
  obtain res jd where h: "handle_set_custom_mining_job B msg u (sys_jd sys) = (res, jd)" by (meson surj_pair)
  define s1 where "s1 = s\<lparr>pl_job_declarator := Some (sys\<lparr>sys_jd := jd\<rparr>)\<rparr>"
  have fields: "pl_to_clients s1 = pl_to_clients s" "pl_downstreams s1 = pl_downstreams s"
    "pl_job_declarator s1 = Some (sys\<lparr>sys_jd := jd\<rparr>)" by (simp_all add: s1_def)
  obtain ch' r' where res: "res = Value (SetCustomOk ch' r')"
  proof (cases res)
    case (Value v)
    show ?thesis
    proof (cases v)
      case (SetCustomErr r' ch' code)
      then have "forward_or_disconnect env d (MnSetCustomMiningJobError r' ch' (CodeOfJds code)) s1 = (out, s')"
        using assms(1) h Value by (simp add: judge_custom_job_def s1_def)
      from tells_success [OF this] have False using assms(2) fields by auto
      then show ?thesis ..
    qed (use Value that in blast)
  qed (use assms h in \<open>auto simp: judge_custom_job_def\<close>)
  define s2 where "s2 = (if leaves then remove_downstream d s1 else s1)"
  have run: "and_then (with_registered_downstream d (commit_custom_job L d msg) s2) (forward_or_disconnect env d) = (out, s')"
    using assms(1) h res by (cases leaves) (simp_all add: judge_custom_job_def s1_def s2_def)
  have same: "pl_to_clients s2 = pl_to_clients s" by (simp add: s2_def fields remove_downstream_def)
  obtain c where c: "pl_downstreams s2 d = Some c"
    using run assms(2) same by (cases "pl_downstreams s2 d") (auto simp: with_registered_downstream_def)
  then have s2: "s2 = s1" by (auto simp: s2_def sm_remove_def split: if_splits)
  obtain ec where ec: "pd_extended c (sc_channel_id msg) = Some ec"
  proof (cases "pd_extended c (sc_channel_id msg)")
    case None
    then have "forward_or_disconnect env d
        (MnSetCustomMiningJobError (sc_request_id msg) (sc_channel_id msg) CUSTOM_JOB_INVALID_CHANNEL_ID) s2 = (out, s')"
      using run c by (simp add: with_registered_downstream_def commit_custom_job_def Let_def)
    from tells_success [OF this] have False using assms(2) same by auto
    then show ?thesis ..
  qed blast
  obtain job_id ec' where job: "ext_on_custom_job L msg ec = Some (job_id, ec')"
    using run c ec assms(2) same
    by (cases "ext_on_custom_job L msg ec") (auto simp: with_registered_downstream_def commit_custom_job_def Let_def)
  let ?c = "c\<lparr>pd_extended := (pd_extended c)(sc_channel_id msg \<mapsto> ec')\<rparr>"
  have "forward_or_disconnect env d (MnSetCustomMiningJobSuccess (sc_channel_id msg) (sc_request_id msg) job_id)
      (put_client d ?c s2) = (out, s')"
    using run c ec job by (simp add: with_registered_downstream_def commit_custom_job_def Let_def)
  from tells_success [OF this] have "s' = (put_client d ?c s1)\<lparr>pl_to_clients := pl_to_clients s @
      [(d, MnSetCustomMiningJobSuccess (sc_channel_id msg) (sc_request_id msg) job_id)]\<rparr>"
    using assms(2) same by (auto simp: put_client_def s2 fields)
  then show ?thesis using h res c ec job assms(2) by (simp add: s2 fields put_client_def)
qed

text \<open>
  C13. A channel gets a custom job only when the Job Declarator vouches for it. In every reachable state, when
  the pool tells a client that its custom job is set, the message named an open extended channel of that
  client, its token was active and stood for a declared job the Job Declarator had validated, that job
  matches the message, the token was allocated for the very identity the channel was opened with, and the
  token is spent; the channel now holds the job.
\<close>

theorem accepted_custom_job_was_declared_for_the_channel:
  assumes "pool_reach B S L K cfg s" and "pool_handle_set_custom_mining_job B L env leaves d msg s = (out, s')"
    and "pl_to_clients s' = pl_to_clients s @ [(d, MnSetCustomMiningJobSuccess ch r i)]"
  shows "ch = sc_channel_id msg \<and> r = sc_request_id msg \<and>
    (\<exists>c ec ec' sys sys' active data job.
       pl_downstreams s d = Some c \<and> pd_extended c ch = Some ec \<and> ext_on_custom_job L msg ec = Some (i, ec') \<and>
       pl_downstreams s' d = Some (c\<lparr>pd_extended := (pd_extended c)(ch \<mapsto> ec')\<rparr>) \<and>
       pl_job_declarator s = Some sys \<and> token_of_bytes (sc_token msg) = Some active \<and>
       allocated_from_active active (token_manager_of (sys_jd sys)) = Some data \<and>
       active_identity data = ext_user_identity L ec \<and>
       job_of_token (active_owner data) (allocated_token data) (job_validator (sys_jd sys)) = Some job \<and>
       custom_job_matches B job msg \<and>
       pl_job_declarator s' = Some sys' \<and> allocated_from_active active (token_manager_of (sys_jd sys')) = None)"
proof -
  obtain c sys ec where c: "pl_downstreams s d = Some c" "pl_job_declarator s = Some sys"
      "pd_extended c (sc_channel_id msg) = Some ec"
    and judge: "judge_custom_job B L env leaves d msg (ext_user_identity L ec) sys s = (out, s')"
    using assms(2,3)
    by (auto simp: pool_handle_set_custom_mining_job_def Let_def with_registered_downstream_def
        dest!: tells_success split: option.splits)
  from judge_success [OF judge assms(3)] obtain ch' r' jd ec' where
    ids: "ch = sc_channel_id msg" "r = sc_request_id msg"
    and h: "handle_set_custom_mining_job B msg (ext_user_identity L ec) (sys_jd sys) = (Value (SetCustomOk ch' r'), jd)"
    and job: "ext_on_custom_job L msg ec = Some (i, ec')"
    and after: "pl_downstreams s' d = Some (c\<lparr>pd_extended := (pd_extended c)(ch \<mapsto> ec')\<rparr>)"
      "pl_job_declarator s' = Some (sys\<lparr>sys_jd := jd\<rparr>)"
    using c by auto
  have "engine_inv B (job_validator (sys_jd sys))"
    using jd_reach_inv [OF pool_reach_jds [OF assms(1) c(2)]] by (simp add: sys_inv_def jd_inv_def)
  from set_custom_ok_iff [OF this, of msg "ext_user_identity L ec" ch' r'] obtain active data job where
    token: "token_of_bytes (sc_token msg) = Some active" "active_tokens (token_manager_of (sys_jd sys)) active = Some data"
      "ext_user_identity L ec = active_identity data"
    and match: "job_of_token (active_owner data) (allocated_token data) (job_validator (sys_jd sys)) = Some job"
      "custom_job_matches B job msg"
    using h by auto
  have "active_tokens (token_manager_of jd) active = None"
    using h token by (auto simp: handle_set_custom_eq deactivate_eq)
  then show ?thesis using c ids job after token match by auto
qed

lemma reach_declarator_run:
  assumes "jd_reach B (cfg_coinbase_reward_script cfg) sys" and "pool_reach B S L K cfg s"
    and "pl_job_declarator s = Some (jd_system_new (cfg_coinbase_reward_script cfg))"
  shows "pool_reach B S L K cfg (s\<lparr>pl_job_declarator := Some sys\<rparr>)"
  using assms(1)
proof induction
  case new
  have "s\<lparr>pl_job_declarator := Some (jd_system_new (cfg_coinbase_reward_script cfg))\<rparr> = s" using assms(3) by simp
  then show ?case using assms(2) by simp
next
  case (step sys1 sys2)
  then show ?case using pool_reach.jds [OF step.IH, of sys1 sys2] by simp
qed

lemma demo_declared_reached:
  "\<exists>sys. jd_reach demo_btc (crs [5]) sys \<and> active_tokens (token_manager_of (sys_jd sys)) 1 =
      Some \<lparr>allocated_token = 0, activated_at = 0, active_owner = 0, active_identity = ''u''\<rparr> \<and>
    job_of_token 0 0 (job_validator (sys_jd sys)) = Some (demo_job 4 0)"
proof -
  obtain jd where r: "resume_handler 0 True (AwaitDeclare 0 (demo_dm 4 0) 0) (demo_pending 0 4 0)
      (Some (JdSuccess 7 5 [1, 3])) (sys_jd demo_waiting) =
      (Ok (), jd, [(0, DeclareMiningJobSuccess 4 (to_le_bytes 1))])"
    using demo_resume_handler by blast
  let ?sys = "finish_handler (Ok ()) jd [(0, DeclareMiningJobSuccess 4 (to_le_bytes 1))] demo_waiting"
  have "jd_step demo_btc demo_waiting ?sys"
    using r by (rule jd_step.answer [rotated 2]) (simp_all add: demo_waiting_def)
  then have "jd_reach demo_btc (crs [5]) ?sys" by (rule jd_reach.step [OF demo_reach_waiting])
  moreover have "sys_jd ?sys = jd" by (simp add: finish_handler_def after_handler_def)
  ultimately show ?thesis using demo_declared [OF r] by metis
qed

definition demo_pool_custom :: set_custom_mining_job where
  "demo_pool_custom = (demo_set_custom 1)\<lparr>sc_channel_id := 2\<rparr>"

lemma demo_custom_handled:
  assumes "jd_reach demo_btc (crs [5]) sys"
    and "active_tokens (token_manager_of (sys_jd sys)) 1 =
      Some \<lparr>allocated_token = 0, activated_at = 0, active_owner = 0, active_identity = ''u''\<rparr>"
    and "job_of_token 0 0 (job_validator (sys_jd sys)) = Some (demo_job 4 0)"
  shows "\<exists>s'. pool_handle_set_custom_mining_job demo_btc demo_lib demo_env False 1 demo_pool_custom
      (demo_open\<lparr>pl_job_declarator := Some sys\<rparr>) = (Done (), s') \<and>
    pl_to_clients s' = pl_to_clients demo_open @ [(1, MnSetCustomMiningJobSuccess 2 1 8)]"
proof -
  have fields: "token_of_bytes (sc_token demo_pool_custom) = Some 1" "sc_channel_id demo_pool_custom = 2"
    "sc_request_id demo_pool_custom = 1" by (simp_all add: demo_pool_custom_def demo_set_custom_def)
  have matches: "custom_job_matches demo_btc (demo_job 4 0) demo_pool_custom"
    using demo_matches [of 4 0 1] by (simp add: custom_job_matches_def demo_pool_custom_def)
  obtain res jd where h: "handle_set_custom_mining_job demo_btc demo_pool_custom ''u'' (sys_jd sys) = (res, jd)"
    by (meson surj_pair)
  have "engine_inv demo_btc (job_validator (sys_jd sys))"
    using jd_reach_inv [OF assms(1)] by (simp add: sys_inv_def jd_inv_def)
  from set_custom_ok_iff [OF this, of demo_pool_custom "''u''" 2 1] have res: "res = Value (SetCustomOk 2 1)"
    using assms(2,3) fields matches h by simp
  show ?thesis
    using h res fields
    by (simp add: pool_handle_set_custom_mining_job_def judge_custom_job_def commit_custom_job_def demo_run_defs
        forward_or_disconnect_def demo_env_def demo_lib_def demo_state_defs)
qed

theorem accepted_custom_job_was_declared_for_the_channel_witness:
  "\<exists>s s' c' job. demo_reach s \<and>
     pool_handle_set_custom_mining_job demo_btc demo_lib demo_env False 1 demo_pool_custom s = (Done (), s') \<and>
     pl_downstreams s' 1 = Some c' \<and> pd_extended c' 2 = Some (1, ''u'', [8, 1]) \<and>
     custom_job_matches demo_btc job demo_pool_custom"
proof -
  obtain sys where sys: "jd_reach demo_btc (crs [5]) sys"
    "active_tokens (token_manager_of (sys_jd sys)) 1 =
      Some \<lparr>allocated_token = 0, activated_at = 0, active_owner = 0, active_identity = ''u''\<rparr>"
    "job_of_token 0 0 (job_validator (sys_jd sys)) = Some (demo_job 4 0)"
    using demo_declared_reached by blast
  let ?s = "demo_open\<lparr>pl_job_declarator := Some sys\<rparr>"
  obtain s' where run: "pool_handle_set_custom_mining_job demo_btc demo_lib demo_env False 1 demo_pool_custom ?s = (Done (), s')"
    "pl_to_clients s' = pl_to_clients ?s @ [(1, MnSetCustomMiningJobSuccess 2 1 8)]"
    using demo_custom_handled [OF sys] by auto
  have reach: "demo_reach ?s"
    by (rule reach_declarator_run [OF _ demo_open_reached]) (simp_all add: sys(1) demo_cfg_def demo_open_def demo_pool_def)
  from accepted_custom_job_was_declared_for_the_channel [OF reach run] obtain c ec ec' job where
    "pl_downstreams ?s 1 = Some c" "pd_extended c 2 = Some ec" "ext_on_custom_job demo_lib demo_pool_custom ec = Some (8, ec')"
    "pl_downstreams s' 1 = Some (c\<lparr>pd_extended := (pd_extended c)(2 \<mapsto> ec')\<rparr>)" "custom_job_matches demo_btc job demo_pool_custom"
    by blast
  moreover from this have "ec' = (1, ''u'', [8, 1])"
    by (auto simp: demo_open_def demo_pool_def demo_client_1_def demo_lib_def)
  ultimately show ?thesis using reach run(1) by fastforce
qed

end
