(* ===== verification/Template_Data.thy ===== *)
theory Template_Data
  imports Chains Template_Messages
begin

text \<open>
  \<open>bitcoin-core-sv2/src/unix_capnp/v31x/template_distribution_protocol/template_data.rs\<close>, with
  \<open>coinbase_tx_from_ipc\<close> of \<open>mod.rs\<close> and the constants of \<open>unix_capnp/mod.rs\<close>: one block template of Bitcoin
  Core, the messages made from it, and the block a solution to it is archived as.

  A capability of the node (a \<open>BlockTemplate\<close> client) is a value of the type \<open>'c\<close>. What the node answers is an
  argument, \<open>None\<close> for a Cap'n Proto error. The functions of the \<open>bitcoin\<close> crate that are used here beyond
  \<open>btc_lib\<close> are the record \<open>block_lib\<close>. Versions are the bit patterns of their \<open>i32\<close>.
\<close>

section \<open>Constants\<close>

definition FIXED_BLOCK_RESERVED_WEIGHT :: u64 where
  "FIXED_BLOCK_RESERVED_WEIGHT = 1168"

definition MIN_BLOCK_RESERVED_WEIGHT :: u64 where
  "MIN_BLOCK_RESERVED_WEIGHT = 2000"

definition WEIGHT_FACTOR :: u64 where
  "WEIGHT_FACTOR = 4"

definition STALE_TEMPLATE_GRACE_PERIOD_SECS :: nat where
  "STALE_TEMPLATE_GRACE_PERIOD_SECS = 10"

definition DEFAULT_MAX_SAME_TIP_TEMPLATES :: nat where
  "DEFAULT_MAX_SAME_TIP_TEMPLATES = 17"

definition MAX_MONEY :: int where
  "MAX_MONEY = 21000000 * 100000000"

definition WAIT_NEXT_TIMEOUT_MS :: nat where
  "WAIT_NEXT_TIMEOUT_MS = 10000"

section \<open>Templates\<close>

record block_lib =
  header_deserialize :: "bytes \<Rightarrow> header option"
  block_deserialize :: "bytes \<Rightarrow> block option"
  txout_decode :: "bytes \<Rightarrow> tx_out option"
  txout_serialize :: "tx_out \<Rightarrow> bytes"
  tx_serialize :: "transaction \<Rightarrow> bytes"
  target_from_bits :: "u32 \<Rightarrow> target"
  pow_is_valid :: "header \<Rightarrow> bool"
  sha256d_pair :: "hash \<Rightarrow> bytes \<Rightarrow> hash"

datatype template_data_error =
    TdInvalidCoinbaseTx
  | TdInvalidTemplateBlock
  | TdInvalidSolution
  | TdInvalidSolutionPoW
  | TdInvalidBlockVersion
  | TdInvalidCoinbaseTxVersion
  | TdInvalidCoinbaseScriptSig
  | TdCapnpError
  | TdFailedIpcSubmitSolution
  | TdFailedToWriteSolution
  | TdFailedToSerializeCoinbaseOutputs
  | TdFailedToConvertMerklePathHashToU256
  | TdFailedToCreateMerklePathSeq

record 'c template_data =
  td_template_id :: u64
  td_header :: header
  td_coinbase_tx :: transaction
  td_block_reward_remaining :: u64
  td_merkle_path :: "bytes list"
  td_template_ipc_client :: 'c
  td_retire_at :: "instant option"

definition template_data_new ::
  "u64 \<Rightarrow> header \<Rightarrow> transaction \<Rightarrow> u64 \<Rightarrow> bytes list \<Rightarrow> 'c \<Rightarrow> 'c template_data" where
  "template_data_new template_id hdr coinbase_tx reward merkle_path client =
     \<lparr>td_template_id = template_id, td_header = hdr, td_coinbase_tx = coinbase_tx, td_block_reward_remaining = reward,
      td_merkle_path = merkle_path, td_template_ipc_client = client, td_retire_at = None\<rparr>"

text \<open>A template that is already retired keeps its deadline.\<close>

definition retire :: "instant \<Rightarrow> 'c template_data \<Rightarrow> 'c template_data" where
  "retire retire_at td = (if td_retire_at td \<noteq> None then td else td\<lparr>td_retire_at := Some retire_at\<rparr>)"

section \<open>Messages\<close>

text \<open>A version that is negative as an \<open>i32\<close> is no \<open>u32\<close>.\<close>

definition get_version :: "'c template_data \<Rightarrow> u32 option" where
  "get_version td = (if bit (hdr_version (td_header td)) 31 then None else Some (hdr_version (td_header td)))"

definition get_coinbase_tx_version :: "'c template_data \<Rightarrow> u32 option" where
  "get_coinbase_tx_version td =
     (if bit (tx_version (td_coinbase_tx td)) 31 then None else Some (tx_version (td_coinbase_tx td)))"

definition u256_of_bytes :: "bytes \<Rightarrow> hash option" where
  "u256_of_bytes bs = (if length bs = 32 then Some (horner_sum ucast 256 bs) else None)"

fun all_some :: "'a option list \<Rightarrow> 'a list option" where
  "all_some [] = Some []"
| "all_some (None # xs) = None"
| "all_some (Some x # xs) = map_option (Cons x) (all_some xs)"

definition get_merkle_path :: "'c template_data \<Rightarrow> (template_data_error, merkle_node list) result" where
  "get_merkle_path td =
     (case all_some (map u256_of_bytes (td_merkle_path td)) of
        None \<Rightarrow> Err TdFailedToConvertMerklePathHashToU256
      | Some path \<Rightarrow> if length path \<le> 255 then Ok path else Err TdFailedToCreateMerklePathSeq)"

definition get_serialized_required_coinbase_outputs ::
  "block_lib \<Rightarrow> 'c template_data \<Rightarrow> (template_data_error, bytes) result" where
  "get_serialized_required_coinbase_outputs K td =
     (let bs = concat (map (txout_serialize K) (tx_output (td_coinbase_tx td)))
      in if length bs < 2 ^ 16 then Ok bs else Err TdFailedToSerializeCoinbaseOutputs)"

text \<open>\<open>input[0]\<close> of a coinbase without inputs would panic.\<close>

definition get_new_template_message ::
  "block_lib \<Rightarrow> bool \<Rightarrow> 'c template_data \<Rightarrow> (template_data_error, new_template) attempt" where
  "get_new_template_message K future_template td =
     (case get_version td of
        None \<Rightarrow> Failed TdInvalidBlockVersion
      | Some version \<Rightarrow>
          (case get_coinbase_tx_version td of
             None \<Rightarrow> Failed TdInvalidCoinbaseTxVersion
           | Some coinbase_tx_version \<Rightarrow>
               (case tx_input (td_coinbase_tx td) of
                  [] \<Rightarrow> Panicked
                | coinbase_in # _ \<Rightarrow>
                    if \<not> length (script_sig coinbase_in) \<le> 255 then Failed TdInvalidCoinbaseScriptSig
                    else case get_serialized_required_coinbase_outputs K td of
                      Inl e \<Rightarrow> Failed e
                    | Inr outputs \<Rightarrow>
                        (case get_merkle_path td of
                           Inl e \<Rightarrow> Failed e
                         | Inr path \<Rightarrow>
                             Done \<lparr>tm_template_id = td_template_id td, tm_future_template = future_template,
                               tm_version = version, tm_coinbase_tx_version = coinbase_tx_version,
                               tm_coinbase_prefix = script_sig coinbase_in,
                               tm_coinbase_tx_input_sequence = sequence coinbase_in,
                               tm_coinbase_tx_value_remaining = td_block_reward_remaining td,
                               tm_coinbase_tx_outputs_count = of_nat (length (tx_output (td_coinbase_tx td))),
                               tm_coinbase_tx_outputs = outputs,
                               tm_coinbase_tx_locktime = tx_lock_time (td_coinbase_tx td),
                               tm_merkle_path = path\<rparr>))))"

definition get_prev_hash :: "'c template_data \<Rightarrow> block_hash" where
  "get_prev_hash td = hdr_prev_blockhash (td_header td)"

definition get_set_new_prev_hash_message :: "block_lib \<Rightarrow> 'c template_data \<Rightarrow> template_prev_hash" where
  "get_set_new_prev_hash_message K td =
     \<lparr>tph_template_id = td_template_id td, tph_prev_hash = get_prev_hash td, tph_ntime_start = hdr_time (td_header td),
      tph_n_bits = hdr_bits (td_header td), tph_target = target_from_bits K (hdr_bits (td_header td))\<rparr>"

text \<open>The transactions of the template's block, without the coinbase, from the node's answer to \<open>getBlock\<close>.\<close>

definition get_tx_data :: "block_lib \<Rightarrow> bytes option \<Rightarrow> (template_data_error, bytes list) attempt" where
  "get_tx_data K block_answer =
     (case block_answer of
        None \<Rightarrow> Failed TdCapnpError
      | Some block_bytes \<Rightarrow>
          (case block_deserialize K block_bytes of
             None \<Rightarrow> Failed TdInvalidCoinbaseTx
           | Some blk \<Rightarrow>
               (let tx_data = map (tx_serialize K) (drop 1 (blk_txdata blk))
                in if (\<forall>bs \<in> set tx_data. length bs < 2 ^ 24) \<and> length tx_data < 2 ^ 16
                   then Done tx_data else Panicked)))"

section \<open>The coinbase of a template\<close>

text \<open>What \<open>getCoinbaseTx\<close> returns; the fields behind pointers may fail to be read.\<close>

record ipc_coinbase =
  ic_version :: u32
  ic_sequence :: u32
  ic_script_sig_prefix :: "bytes option"
  ic_witness :: "bytes option"
  ic_block_reward_remaining :: u64
  ic_required_outputs :: "bytes option list option"
  ic_lock_time :: u32

datatype tdp_error =
    CapnpError
  | InvalidTemplateHeader
  | TdpTemplateNotFound
  | TemplateIpcClientNotFound
  | FailedToSendNewTemplateMessage
  | FailedToSendSetNewPrevHashMessage
  | FailedToFetchTemplateTxData
  | FailedToSendRequestTransactionDataResponseMessage
  | FailedToSubmitSolution
  | CreateNewBlockRequestInterrupted
  | FailedToWaitForMonitorIpcTemplatesTask
  | FailedToCreateSolutionDir
  | BootstrapCancelled
  | InvalidBlockRewardRemaining u64

fun decode_outputs :: "block_lib \<Rightarrow> bytes option list \<Rightarrow> (tdp_error, tx_out list) result" where
  "decode_outputs K [] = Ok []"
| "decode_outputs K (None # rest) = Err CapnpError"
| "decode_outputs K (Some bs # rest) =
     (case txout_decode K bs of
        None \<Rightarrow> Err InvalidTemplateHeader
      | Some out \<Rightarrow> (case decode_outputs K rest of Inl e \<Rightarrow> Err e | Inr outs \<Rightarrow> Ok (out # outs)))"

text \<open>The reward is an \<open>i64\<close>; a negative one is refused. The outpoint of a coinbase input is the null one.\<close>

definition coinbase_tx_from_ipc ::
  "block_lib \<Rightarrow> ipc_coinbase \<Rightarrow> (tdp_error, transaction \<times> u64) result" where
  "coinbase_tx_from_ipc K c =
     (if bit (ic_block_reward_remaining c) 63 then Err (InvalidBlockRewardRemaining (ic_block_reward_remaining c))
      else case ic_witness c of
        None \<Rightarrow> Err CapnpError
      | Some witness_bytes \<Rightarrow>
          (case ic_required_outputs c of
             None \<Rightarrow> Err CapnpError
           | Some output_list \<Rightarrow>
               (case decode_outputs K output_list of
                  Inl e \<Rightarrow> Err e
                | Inr required_outputs \<Rightarrow>
                    (case ic_script_sig_prefix c of
                       None \<Rightarrow> Err CapnpError
                     | Some prefix_bytes \<Rightarrow>
                         Ok (\<lparr>tx_version = ic_version c, tx_lock_time = ic_lock_time c,
                              tx_input = [\<lparr>prev_txid = 0, prev_vout = -1, script_sig = prefix_bytes,
                                           sequence = ic_sequence c,
                                           witness = (if witness_bytes = [] then [] else [witness_bytes])\<rparr>],
                              tx_output = required_outputs\<rparr>,
                             ic_block_reward_remaining c)))))"

section \<open>Solutions\<close>

definition same_outpoint :: "tx_in \<Rightarrow> tx_in \<Rightarrow> bool" where
  "same_outpoint a b = (prev_txid a = prev_txid b \<and> prev_vout a = prev_vout b)"

text \<open>The checks on the coinbase of a solution, in the order of the source: with one input, and like the
  template's but for its script and its outputs. \<open>None\<close> is the panic of a template without a coinbase input.\<close>

definition solution_is_congruent :: "transaction \<Rightarrow> 'c template_data \<Rightarrow> bool option" where
  "solution_is_congruent sol td =
     (let own = td_coinbase_tx td
      in if tx_version sol \<noteq> tx_version own \<or> tx_lock_time sol \<noteq> tx_lock_time own then Some False
         else case tx_input sol of
           [a] \<Rightarrow>
             (case tx_input own of
                [] \<Rightarrow> None
              | b # _ \<Rightarrow> Some (sequence a = sequence b \<and> witness a = witness b \<and> same_outpoint a b))
         | _ \<Rightarrow> Some False)"

definition solution_merkle_root :: "btc_lib \<Rightarrow> block_lib \<Rightarrow> transaction \<Rightarrow> 'c template_data \<Rightarrow> merkle_node" where
  "solution_merkle_root B K sol td = foldl (sha256d_pair K) (compute_txid B sol) (td_merkle_path td)"

definition solution_header :: "btc_lib \<Rightarrow> block_lib \<Rightarrow> transaction \<Rightarrow> submit_solution \<Rightarrow> 'c template_data \<Rightarrow> header" where
  "solution_header B K sol msg td =
     \<lparr>hdr_version = sol_version msg, hdr_prev_blockhash = hdr_prev_blockhash (td_header td),
      hdr_merkle_root = solution_merkle_root B K sol td, hdr_time = sol_ntime msg,
      hdr_bits = hdr_bits (td_header td), hdr_nonce = sol_nonce msg\<rparr>"

text \<open>The block that is written to disk.\<close>

definition archive_solution ::
  "btc_lib \<Rightarrow> block_lib \<Rightarrow> transaction \<Rightarrow> submit_solution \<Rightarrow> bytes option \<Rightarrow> bool \<Rightarrow> 'c template_data \<Rightarrow>
   (template_data_error, block) attempt" where
  "archive_solution B K sol msg block_answer written td =
     (case solution_is_congruent sol td of
        None \<Rightarrow> Panicked
      | Some False \<Rightarrow> Failed TdInvalidSolution
      | Some True \<Rightarrow>
          (let hdr = solution_header B K sol msg td
           in if \<not> pow_is_valid K hdr then Failed TdInvalidSolutionPoW
              else case block_answer of
                None \<Rightarrow> Failed TdCapnpError
              | Some block_bytes \<Rightarrow>
                  (case block_deserialize K block_bytes of
                     None \<Rightarrow> Failed TdInvalidTemplateBlock
                   | Some blk \<Rightarrow>
                       (case blk_txdata blk of
                          [] \<Rightarrow> Panicked
                        | _ # txs \<Rightarrow>
                            if written then Done \<lparr>blk_header = hdr, blk_txdata = sol # txs\<rparr>
                            else Failed TdFailedToWriteSolution))))"

text \<open>What is sent to the node, and the coinbase of the solution to archive once the node took it.\<close>

definition submit_solution_to_node ::
  "btc_lib \<Rightarrow> submit_solution \<Rightarrow> bool option \<Rightarrow> (template_data_error, transaction) result" where
  "submit_solution_to_node B msg node_answer =
     (case tx_deserialize B (sol_coinbase_tx msg) of
        Inl _ \<Rightarrow> Err TdInvalidCoinbaseTx
      | Inr sol \<Rightarrow>
          (case node_answer of
             None \<Rightarrow> Err TdCapnpError
           | Some False \<Rightarrow> Err TdFailedIpcSubmitSolution
           | Some True \<Rightarrow> Ok sol))"

section \<open>The room for the coinbase\<close>

definition block_reserved_weight :: "coinbase_output_constraints \<Rightarrow> u64" where
  "block_reserved_weight c =
     max (FIXED_BLOCK_RESERVED_WEIGHT + ucast (max_additional_size c) * WEIGHT_FACTOR) MIN_BLOCK_RESERVED_WEIGHT"

end
