(* ===== verification/Template_Provider.thy ===== *)
theory Template_Provider
  imports Template_Data "HOL-Library.AList"
begin

text \<open>
  \<open>bitcoin-core-sv2/src/unix_capnp/v31x/template_distribution_protocol/\<close>, \<open>mod.rs\<close>, \<open>handlers.rs\<close> and
  \<open>monitors.rs\<close>: the runtime that turns the block templates of a Bitcoin Core node into the messages of the
  template distribution protocol. Three tasks share its state: one waits for the node's next template, one
  handles the messages of the pool, one destroys templates whose time is over.

  A task is cut at its awaits: its value is where it waits and what it holds there, and a rule of \<open>tdp_step\<close> is
  what it does from one await to the next. The global cancellation token is \<open>tp_cancelled\<close>; the one that ends the
  current monitor is \<open>tp_rotating\<close>. Every clone of the runtime has its own \<open>last_sent_template_instant\<close>, so it is
  part of the monitor's value and of \<open>tp_last_sent\<close>, the copy of the task that handles messages. What the node
  answers, and whether the receiver of the outgoing channel is still there, is free. The hash map of retained
  templates is an association list, whose order nothing depends on. A request that is interrupted by the
  cancellation just ends its task; only then are the replies of the node not awaited.
\<close>

section \<open>State\<close>

datatype tx_data_error_code = TEMPLATE_ID_NOT_FOUND | STALE_TEMPLATE_ID

datatype tdp_message =
    OutNewTemplate new_template
  | OutSetNewPrevHash template_prev_hash
  | OutTxDataSuccess u64 "bytes list"
  | OutTxDataError u64 tx_data_error_code

datatype 'c monitor_task =
    NoMonitor
  | MonitorPanicked
  | MonitorStarting "instant option"
  | MonitorWaiting 'c "instant option" int nat
  | MonitorFetching 'c u64 "instant option"
  | MonitorSending "tdp_message list" 'c bool "instant option"

datatype 'c incoming_task =
    AwaitFirstConstraints
  | AwaitMessage
  | AwaitBlock "'c template_data"
  | AwaitVerdict "'c template_data" submit_solution
  | AwaitMonitor coinbase_output_constraints
  | AwaitNewBlock coinbase_output_constraints
  | AwaitTemplate 'c u64
  | AwaitSend "tdp_message list" 'c
  | IncomingEnded

datatype 'c retirement_task = RetirementNotStarted | Sweeping "'c template_data list" | RetirementEnded

record 'c provider =
  tp_fee_threshold :: u64
  tp_min_interval :: u8
  tp_max_same_tip_templates :: nat
  tp_monitor :: "'c monitor_task"
  tp_incoming :: "'c incoming_task"
  tp_retirement :: "'c retirement_task"
  tp_current_template_ipc_client :: "'c option"
  tp_current_prev_hash :: "block_hash option"
  tp_retained_templates :: "(u64 \<times> 'c template_data) list"
  tp_future_template :: "'c template_data option"
  tp_template_id_factory :: u64
  tp_cancelled :: bool
  tp_rotating :: bool
  tp_last_sent :: "instant option"
  tp_now :: instant
  tp_outgoing :: "tdp_message list"
  tp_destroyed :: "u64 list"
  tp_archiving :: "('c template_data \<times> transaction \<times> submit_solution) list"

text \<open>No particular retention, or none at all, means the default.\<close>

definition effective_retention :: "nat option \<Rightarrow> nat" where
  "effective_retention requested =
     (case requested of
        None \<Rightarrow> DEFAULT_MAX_SAME_TIP_TEMPLATES
      | Some n \<Rightarrow> if n = 0 then DEFAULT_MAX_SAME_TIP_TEMPLATES else n)"

definition provider_new :: "u64 \<Rightarrow> u8 \<Rightarrow> nat option \<Rightarrow> instant \<Rightarrow> 'c provider" where
  "provider_new fee_threshold min_interval requested now =
     \<lparr>tp_fee_threshold = fee_threshold, tp_min_interval = min_interval,
      tp_max_same_tip_templates = effective_retention requested, tp_monitor = NoMonitor,
      tp_incoming = AwaitFirstConstraints, tp_retirement = RetirementNotStarted, tp_current_template_ipc_client = None,
      tp_current_prev_hash = None, tp_retained_templates = [], tp_future_template = None, tp_template_id_factory = 0,
      tp_cancelled = False, tp_rotating = False, tp_last_sent = None, tp_now = now, tp_outgoing = [],
      tp_destroyed = [], tp_archiving = []\<rparr>"

section \<open>Templates\<close>

definition template_data_for :: "u64 \<Rightarrow> 'c provider \<Rightarrow> 'c template_data option" where
  "template_data_for template_id s =
     (case tp_future_template s of
        Some f \<Rightarrow> if td_template_id f = template_id then Some f else map_of (tp_retained_templates s) template_id
      | None \<Rightarrow> map_of (tp_retained_templates s) template_id)"

definition store_template_data :: "'c template_data \<Rightarrow> bool \<Rightarrow> 'c provider \<Rightarrow> 'c provider" where
  "store_template_data td future_template s =
     (if future_template then s\<lparr>tp_future_template := Some td\<rparr>
      else s\<lparr>tp_retained_templates := AList.update (td_template_id td) td (tp_retained_templates s)\<rparr>)"

definition retirement_deadline :: "'c provider \<Rightarrow> instant" where
  "retirement_deadline s = tp_now s + from_secs STALE_TEMPLATE_GRACE_PERIOD_SECS"

definition retire_all_templates :: "'c provider \<Rightarrow> 'c provider" where
  "retire_all_templates s =
     (let at = retirement_deadline s;
          retired = map (\<lambda>(i, td). (i, retire at td)) (tp_retained_templates s)
      in case tp_future_template s of
           None \<Rightarrow> s\<lparr>tp_retained_templates := retired\<rparr>
         | Some f \<Rightarrow>
             s\<lparr>tp_retained_templates := AList.update (td_template_id f) (retire at f) retired,
               tp_future_template := None\<rparr>)"

definition live_template_ids :: "'c provider \<Rightarrow> u64 list" where
  "live_template_ids s = map fst (filter (\<lambda>(_, td). td_retire_at td = None) (tp_retained_templates s))"

text \<open>The index of the oldest template to keep is in range because the retention is positive, which
  \<open>provider_new\<close> sees to.\<close>

definition retire_templates_beyond_cap :: "'c provider \<Rightarrow> 'c provider" where
  "retire_templates_beyond_cap s =
     (let live = live_template_ids s; cap = tp_max_same_tip_templates s
      in if length live \<le> cap then s
         else let oldest_kept = sort live ! (length live - cap)
              in s\<lparr>tp_retained_templates :=
                   map (\<lambda>(i, td). (i, if i < oldest_kept then retire (retirement_deadline s) td else td))
                     (tp_retained_templates s)\<rparr>)"

text \<open>\<open>fetch_template_data\<close>: the id is taken first, then the node answers three requests.\<close>

definition take_template_id :: "'c provider \<Rightarrow> 'c provider" where
  "take_template_id s = s\<lparr>tp_template_id_factory := tp_template_id_factory s + 1\<rparr>"

definition fetch_template_data ::
  "block_lib \<Rightarrow> u64 \<Rightarrow> 'c \<Rightarrow> bytes option \<Rightarrow> ipc_coinbase option \<Rightarrow> bytes option list option \<Rightarrow>
   (tdp_error, 'c template_data) result" where
  "fetch_template_data K template_id client header_answer coinbase_answer path_answer =
     (case header_answer of
        None \<Rightarrow> Err CapnpError
      | Some header_bytes \<Rightarrow>
          (case header_deserialize K header_bytes of
             None \<Rightarrow> Err InvalidTemplateHeader
           | Some hdr \<Rightarrow>
               (case coinbase_answer of
                  None \<Rightarrow> Err CapnpError
                | Some ipc \<Rightarrow>
                    (case coinbase_tx_from_ipc K ipc of
                       Inl e \<Rightarrow> Err e
                     | Inr (coinbase_tx, reward) \<Rightarrow>
                         (case Option.bind path_answer all_some of
                            None \<Rightarrow> Err CapnpError
                          | Some merkle_path \<Rightarrow>
                              Ok (template_data_new template_id hdr coinbase_tx reward merkle_path client))))))"

text \<open>\<open>publish_template\<close> up to its first send: the template is stored, old ones are retired and the tip is
  noted before anything is sent. The value are the messages to send.\<close>

definition publish_template ::
  "block_lib \<Rightarrow> 'c template_data \<Rightarrow> bool \<Rightarrow> bool \<Rightarrow> 'c provider \<Rightarrow> (tdp_error, tdp_message list) attempt \<times> 'c provider" where
  "publish_template K td future_template send_set_new_prev_hash s =
     (case get_new_template_message K future_template td of
        Panicked \<Rightarrow> (Panicked, s)
      | Failed _ \<Rightarrow> (Failed FailedToSendNewTemplateMessage, s)
      | Done new_template \<Rightarrow>
          (let s1 = retire_templates_beyond_cap (store_template_data td future_template s)
           in if send_set_new_prev_hash
              then (Done [OutNewTemplate new_template, OutSetNewPrevHash (get_set_new_prev_hash_message K td)],
                    s1\<lparr>tp_current_prev_hash := Some (get_prev_hash td)\<rparr>)
              else (Done [OutNewTemplate new_template], s1)))"

section \<open>The monitor of the node's templates\<close>

text \<open>The parameters of \<open>waitNext\<close>: within the minimal interval after a template was sent, only a new tip wakes
  the node's answer, and the request ends with the interval.\<close>

definition wait_next_parameters :: "'c provider \<Rightarrow> instant option \<Rightarrow> int \<times> nat" where
  "wait_next_parameters s last_sent =
     (case last_sent of
        None \<Rightarrow> (sint (tp_fee_threshold s), WAIT_NEXT_TIMEOUT_MS)
      | Some t \<Rightarrow>
          (let elapsed_ms = (tp_now s - t) div 1000000; min_interval_ms = unat (tp_min_interval s) * 1000
           in if elapsed_ms < min_interval_ms
              then (MAX_MONEY, min (min_interval_ms - elapsed_ms) WAIT_NEXT_TIMEOUT_MS)
              else (sint (tp_fee_threshold s), WAIT_NEXT_TIMEOUT_MS)))"

definition wait_next :: "'c \<Rightarrow> instant option \<Rightarrow> 'c provider \<Rightarrow> 'c provider" where
  "wait_next client last_sent s =
     s\<lparr>tp_monitor := MonitorWaiting client last_sent (fst (wait_next_parameters s last_sent))
                       (snd (wait_next_parameters s last_sent))\<rparr>"

text \<open>An error of the monitor ends it and the connection.\<close>

definition fail_monitor :: "'c provider \<Rightarrow> 'c provider" where
  "fail_monitor s = s\<lparr>tp_monitor := NoMonitor, tp_cancelled := True\<rparr>"

definition start_monitor :: "bool \<Rightarrow> instant option \<Rightarrow> 'c provider \<Rightarrow> 'c provider" where
  "start_monitor thread_created last_sent s =
     (if \<not> thread_created then fail_monitor s
      else case tp_current_template_ipc_client s of
        None \<Rightarrow> fail_monitor s
      | Some client \<Rightarrow> wait_next client last_sent s)"

definition monitor_publishes ::
  "block_lib \<Rightarrow> 'c \<Rightarrow> instant option \<Rightarrow> (tdp_error, 'c template_data) result \<Rightarrow> 'c provider \<Rightarrow> 'c provider" where
  "monitor_publishes K client last_sent fetched s =
     (case fetched of
        Inl _ \<Rightarrow> fail_monitor s
      | Inr td \<Rightarrow>
          (case tp_current_prev_hash s of
             None \<Rightarrow> fail_monitor s
           | Some current_prev_hash \<Rightarrow>
               (let new_tip = (get_prev_hash td \<noteq> current_prev_hash);
                    (out, s1) = publish_template K td new_tip new_tip (if new_tip then retire_all_templates s else s)
                in case out of
                     Done ms \<Rightarrow> s1\<lparr>tp_monitor := MonitorSending ms client (\<not> new_tip) last_sent\<rparr>
                   | Failed _ \<Rightarrow> fail_monitor s1
                   | Panicked \<Rightarrow> s1\<lparr>tp_monitor := MonitorPanicked\<rparr>)))"

section \<open>The messages of the pool\<close>

definition fail_incoming :: "'c provider \<Rightarrow> 'c provider" where
  "fail_incoming s = s\<lparr>tp_incoming := IncomingEnded, tp_cancelled := True\<rparr>"

definition send_or_fail :: "bool \<Rightarrow> tdp_message \<Rightarrow> ('c provider \<Rightarrow> 'c provider) \<Rightarrow> ('c provider \<Rightarrow> 'c provider) \<Rightarrow>
  'c provider \<Rightarrow> 'c provider" where
  "send_or_fail sent m go fail s = (if sent then go (s\<lparr>tp_outgoing := tp_outgoing s @ [m]\<rparr>) else fail s)"

text \<open>\<open>handle_request_transaction_data\<close>, up to the request to the node.\<close>

definition handle_request_transaction_data :: "bool \<Rightarrow> u64 \<Rightarrow> 'c provider \<Rightarrow> 'c provider" where
  "handle_request_transaction_data sent template_id s =
     (case template_data_for template_id s of
        None \<Rightarrow> send_or_fail sent (OutTxDataError template_id TEMPLATE_ID_NOT_FOUND) id fail_incoming s
      | Some td \<Rightarrow>
          if td_retire_at td \<noteq> None
          then send_or_fail sent (OutTxDataError template_id STALE_TEMPLATE_ID) id fail_incoming s
          else s\<lparr>tp_incoming := AwaitBlock td\<rparr>)"

definition answer_transaction_data :: "block_lib \<Rightarrow> bool \<Rightarrow> 'c template_data \<Rightarrow> bytes option \<Rightarrow> 'c provider \<Rightarrow> 'c provider" where
  "answer_transaction_data K sent td block_answer s =
     (case get_tx_data K block_answer of
        Failed _ \<Rightarrow> fail_incoming s
      | Panicked \<Rightarrow> s\<lparr>tp_incoming := IncomingEnded\<rparr>
      | Done tx_data \<Rightarrow>
          send_or_fail sent (OutTxDataSuccess (td_template_id td) tx_data)
            (\<lambda>s. s\<lparr>tp_incoming := AwaitMessage\<rparr>) fail_incoming s)"

text \<open>\<open>handle_submit_solution\<close>: an error is logged and the loop goes on.\<close>

definition handle_submit_solution :: "bool \<Rightarrow> submit_solution \<Rightarrow> 'c provider \<Rightarrow> 'c provider" where
  "handle_submit_solution directory_ready msg s =
     (case template_data_for (sol_template_id msg) s of
        None \<Rightarrow> s
      | Some td \<Rightarrow> if directory_ready then s\<lparr>tp_incoming := AwaitVerdict td msg\<rparr> else s)"

definition answer_solution ::
  "btc_lib \<Rightarrow> 'c template_data \<Rightarrow> submit_solution \<Rightarrow> bool option \<Rightarrow> 'c provider \<Rightarrow> 'c provider" where
  "answer_solution B td msg node_answer s =
     (case submit_solution_to_node B msg node_answer of
        Inl _ \<Rightarrow> s\<lparr>tp_incoming := AwaitMessage\<rparr>
      | Inr sol \<Rightarrow> s\<lparr>tp_incoming := AwaitMessage, tp_archiving := tp_archiving s @ [(td, sol, msg)]\<rparr>)"

text \<open>\<open>handle_coinbase_output_constraints\<close>: the monitor is told to end and waited for; then everything is
  retired and a template is fetched under the new constraints, as for the first constraints.\<close>

definition rotate :: "coinbase_output_constraints \<Rightarrow> 'c provider \<Rightarrow> 'c provider" where
  "rotate c s = s\<lparr>tp_rotating := True, tp_incoming := AwaitMonitor c\<rparr>"

definition monitor_joined :: "coinbase_output_constraints \<Rightarrow> 'c provider \<Rightarrow> 'c provider" where
  "monitor_joined c s = (retire_all_templates s)\<lparr>tp_rotating := False, tp_incoming := AwaitNewBlock c\<rparr>"

definition bootstrap_publishes ::
  "block_lib \<Rightarrow> 'c \<Rightarrow> (tdp_error, 'c template_data) result \<Rightarrow> 'c provider \<Rightarrow> 'c provider" where
  "bootstrap_publishes K client fetched s =
     (case fetched of
        Inl _ \<Rightarrow> fail_incoming s
      | Inr td \<Rightarrow>
          (case publish_template K td True True s of
             (Done ms, s1) \<Rightarrow> s1\<lparr>tp_incoming := AwaitSend ms client\<rparr>
           | (Failed _, s1) \<Rightarrow> fail_incoming s1
           | (Panicked, s1) \<Rightarrow> s1\<lparr>tp_incoming := IncomingEnded\<rparr>))"

text \<open>The end of the bootstrap: the client is stored and the monitor starts, with the task of retirement when
  it is the first.\<close>

definition bootstrap_done :: "'c \<Rightarrow> 'c provider \<Rightarrow> 'c provider" where
  "bootstrap_done client s =
     s\<lparr>tp_last_sent := Some (tp_now s), tp_current_template_ipc_client := Some client,
       tp_monitor := MonitorStarting (Some (tp_now s)), tp_incoming := AwaitMessage,
       tp_retirement := (case tp_retirement s of RetirementNotStarted \<Rightarrow> Sweeping [] | r \<Rightarrow> r)\<rparr>"

section \<open>Retirement\<close>

definition is_due :: "instant \<Rightarrow> 'c template_data \<Rightarrow> bool" where
  "is_due now td = (case td_retire_at td of None \<Rightarrow> False | Some retire_at \<Rightarrow> retire_at \<le> now)"

definition sweep :: "'c provider \<Rightarrow> 'c provider" where
  "sweep s =
     s\<lparr>tp_retirement := Sweeping (map snd (filter (\<lambda>(_, td). is_due (tp_now s) td) (tp_retained_templates s))),
       tp_retained_templates := filter (\<lambda>(_, td). \<not> is_due (tp_now s) td) (tp_retained_templates s)\<rparr>"

definition destroy_template :: "bool \<Rightarrow> 'c template_data \<Rightarrow> 'c template_data list \<Rightarrow> 'c provider \<Rightarrow> 'c provider" where
  "destroy_template destroyed td rest s =
     (if destroyed
      then s\<lparr>tp_retirement := Sweeping rest, tp_destroyed := tp_destroyed s @ [td_template_id td]\<rparr>
      else s\<lparr>tp_retirement := RetirementEnded, tp_cancelled := True\<rparr>)"

section \<open>Runs\<close>

text \<open>A task may end at each of its awaits once the connection is cancelled, since the local set that runs it
  is dropped then; the retirement task may also fail to get its thread. The counter of templates is taken not
  to come round.\<close>

definition ids_left :: "'c provider \<Rightarrow> bool" where
  "ids_left s = (tp_template_id_factory s + 1 \<noteq> 0)"

inductive tdp_step :: "btc_lib \<Rightarrow> block_lib \<Rightarrow> 'c provider \<Rightarrow> 'c provider \<Rightarrow> bool" for B K where
  time: "tdp_step B K s (s\<lparr>tp_now := tp_now s + n\<rparr>)"
| cancel: "tdp_step B K s (s\<lparr>tp_cancelled := True\<rparr>)"
| first_constraints: "tp_incoming s = AwaitFirstConstraints \<Longrightarrow> tdp_step B K s (s\<lparr>tp_incoming := AwaitNewBlock c\<rparr>)"
| request: "tp_incoming s = AwaitMessage \<Longrightarrow> tdp_step B K s (handle_request_transaction_data sent t s)"
| txs: "tp_incoming s = AwaitBlock td \<Longrightarrow> tdp_step B K s (answer_transaction_data K sent td answer s)"
| solution: "tp_incoming s = AwaitMessage \<Longrightarrow> tdp_step B K s (handle_submit_solution ready msg s)"
| accepted: "tp_incoming s = AwaitVerdict td msg \<Longrightarrow> tdp_step B K s (answer_solution B td msg verdict s)"
| constraints: "tp_incoming s = AwaitMessage \<Longrightarrow> tdp_step B K s (rotate c s)"
| joined: "tp_incoming s = AwaitMonitor c \<Longrightarrow> tp_monitor s = NoMonitor \<Longrightarrow> tdp_step B K s (monitor_joined c s)"
| join_failed: "tp_incoming s = AwaitMonitor c \<Longrightarrow> tp_monitor s = MonitorPanicked \<Longrightarrow> tdp_step B K s (fail_incoming s)"
| created: "tp_incoming s = AwaitNewBlock c \<Longrightarrow> ids_left s \<Longrightarrow>
    tdp_step B K s ((take_template_id s)\<lparr>tp_incoming := AwaitTemplate client (tp_template_id_factory s)\<rparr>)"
| create_failed: "tp_incoming s = AwaitNewBlock c \<Longrightarrow> tdp_step B K s (fail_incoming s)"
| bootstrap: "tp_incoming s = AwaitTemplate client t \<Longrightarrow> \<not> tp_cancelled s \<Longrightarrow>
    tdp_step B K s (bootstrap_publishes K client (fetch_template_data K t client hdr cb path) s)"
| bootstrap_send: "tp_incoming s = AwaitSend (m # ms) client \<Longrightarrow>
    tdp_step B K s (send_or_fail sent m (\<lambda>s. s\<lparr>tp_incoming := AwaitSend ms client\<rparr>) fail_incoming s)"
| bootstrapped: "tp_incoming s = AwaitSend [] client \<Longrightarrow> tdp_step B K s (bootstrap_done client s)"
| incoming_ends: "tp_cancelled s \<Longrightarrow> tdp_step B K s (s\<lparr>tp_incoming := IncomingEnded\<rparr>)"
| monitor_starts: "tp_monitor s = MonitorStarting last_sent \<Longrightarrow> tdp_step B K s (start_monitor ready last_sent s)"
| wait_timeout: "tp_monitor s = MonitorWaiting client last_sent th ms \<Longrightarrow> tdp_step B K s (wait_next client last_sent s)"
| wait_failed: "tp_monitor s = MonitorWaiting client last_sent th ms \<Longrightarrow> tdp_step B K s (fail_monitor s)"
| next_template: "tp_monitor s = MonitorWaiting old last_sent th ms \<Longrightarrow> ids_left s \<Longrightarrow>
    tdp_step B K s ((take_template_id s)\<lparr>tp_monitor := MonitorFetching client (tp_template_id_factory s) last_sent\<rparr>)"
| monitored: "tp_monitor s = MonitorFetching client t last_sent \<Longrightarrow> \<not> tp_cancelled s \<Longrightarrow>
    tdp_step B K s (monitor_publishes K client last_sent (fetch_template_data K t client hdr cb path) s)"
| monitor_send: "tp_monitor s = MonitorSending (m # ms) client upd last_sent \<Longrightarrow>
    tdp_step B K s (send_or_fail sent m (\<lambda>s. s\<lparr>tp_monitor := MonitorSending ms client upd last_sent\<rparr>) fail_monitor s)"
| monitor_sent: "tp_monitor s = MonitorSending [] client upd last_sent \<Longrightarrow>
    tdp_step B K s (wait_next client (if upd then Some (tp_now s) else last_sent)
      (s\<lparr>tp_current_template_ipc_client := Some client\<rparr>))"
| monitor_ends: "tp_cancelled s \<or> (\<exists>client last_sent th ms. tp_rotating s \<and> tp_monitor s = MonitorWaiting client last_sent th ms) \<Longrightarrow>
    tp_monitor s \<noteq> MonitorPanicked \<Longrightarrow> tdp_step B K s (s\<lparr>tp_monitor := NoMonitor\<rparr>)"
| swept: "tp_retirement s = Sweeping [] \<Longrightarrow> tdp_step B K s (sweep s)"
| destroyed: "tp_retirement s = Sweeping (td # rest) \<Longrightarrow> tdp_step B K s (destroy_template ok td rest s)"
| sweep_failed: "tp_retirement s = Sweeping [] \<Longrightarrow>
    tdp_step B K s (s\<lparr>tp_retirement := RetirementEnded, tp_cancelled := True\<rparr>)"
| retirement_ends: "tp_cancelled s \<Longrightarrow> tdp_step B K s (s\<lparr>tp_retirement := RetirementEnded\<rparr>)"

inductive tdp_reach :: "btc_lib \<Rightarrow> block_lib \<Rightarrow> 'c provider \<Rightarrow> bool" for B K where
  new: "tdp_reach B K (provider_new fee_threshold min_interval requested now)"
| step: "tdp_reach B K s \<Longrightarrow> tdp_step B K s s' \<Longrightarrow> tdp_reach B K s'"

end
