(* ===== verification/Template_Runs.thy ===== *)
theory Template_Runs
  imports Template_Provider
begin

text \<open>
  The runs of the template runtime: which templates it holds, that only one task publishes at a time, and in
  which order messages leave.
\<close>

section \<open>Retirement keeps the newest\<close>

lemma sorted_drop:
  fixes xs :: "'a::linorder list"
  assumes "sorted xs" and "distinct xs" and "k < length xs"
  shows "set (drop k xs) = {x \<in> set xs. \<not> x < xs ! k}"
proof -
  have strict: "xs ! i < xs ! j" if "i < j" "j < length xs" for i j
    using that assms(1,2) by (simp add: order.strict_iff_order sorted_iff_nth_mono nth_eq_iff_index_eq)
  have "x \<in> set (drop k xs) \<longleftrightarrow> x \<in> set xs \<and> \<not> x < xs ! k" for x
  proof
    assume "x \<in> set (drop k xs)"
    then obtain j where "k \<le> j" "j < length xs" "x = xs ! j"
      by (auto simp: in_set_conv_nth) (metis add.commute le_add2 less_diff_conv)
    then show "x \<in> set xs \<and> \<not> x < xs ! k" using assms(1) by (auto simp: sorted_iff_nth_mono leD)
  next
    assume x: "x \<in> set xs \<and> \<not> x < xs ! k"
    then obtain j where j: "j < length xs" "x = xs ! j" by (auto simp: in_set_conv_nth)
    then have "k \<le> j" using strict [of j k] x assms(3) by force
    then have "drop k xs ! (j - k) = x" "j - k < length (drop k xs)" using j by simp_all
    then show "x \<in> set (drop k xs)" by (metis nth_mem)
  qed
  then show ?thesis by blast
qed

lemma retire_fields [simp]:
  "td_template_id (retire at td) = td_template_id td" "get_prev_hash (retire at td) = get_prev_hash td"
  "td_retire_at (retire at td) \<noteq> None" "\<exists>t. td_retire_at (retire at td) = Some t"
  by (auto simp: retire_def get_prev_hash_def)

lemma retire_live: "td_retire_at td = None \<Longrightarrow> td_retire_at (retire at td) = Some at"
  by (simp add: retire_def)

lemma retire_retired: "td_retire_at td \<noteq> None \<Longrightarrow> retire at td = td"
  by (simp add: retire_def)

definition live :: "(u64 \<times> 'c template_data) list \<Rightarrow> u64 list" where
  "live R = map fst (filter (\<lambda>(_, td). td_retire_at td = None) R)"

lemma set_live: "set (live R) = {i. \<exists>td. (i, td) \<in> set R \<and> td_retire_at td = None}"
  by (force simp: live_def)

lemma distinct_live: "distinct (map fst R) \<Longrightarrow> distinct (live R)"
  by (simp add: live_def distinct_map_filter)

text \<open>What the cap leaves live are the newest templates, as many as it allows.\<close>

lemma cap_keeps_newest:
  assumes "distinct (map fst (tp_retained_templates s))" and "0 < tp_max_same_tip_templates s"
  defines "old \<equiv> live (tp_retained_templates s)"
    and "new \<equiv> live (tp_retained_templates (retire_templates_beyond_cap s))"
  shows "set new = set (drop (length old - tp_max_same_tip_templates s) (sort old))"
    and "length new = min (length old) (tp_max_same_tip_templates s)"
proof -
  let ?cap = "tp_max_same_tip_templates s" and ?k = "length old - tp_max_same_tip_templates s"
  have old: "old = live_template_ids s" by (simp add: old_def live_def live_template_ids_def)
  have "set new = set (drop ?k (sort old)) \<and> length new = min (length old) ?cap"
  proof (cases "length old \<le> ?cap")
    case True
    then show ?thesis
      by (simp add: new_def old retire_templates_beyond_cap_def Let_def) (simp add: old [symmetric] old_def)
  next
    case False
    let ?oldest = "sort old ! ?k"
    have R: "tp_retained_templates (retire_templates_beyond_cap s) =
        map (\<lambda>(i, td). (i, if i < ?oldest then retire (retirement_deadline s) td else td)) (tp_retained_templates s)"
      using False by (simp add: retire_templates_beyond_cap_def Let_def old)
    have "set new = {i \<in> set old. \<not> i < ?oldest}"
      unfolding new_def R old_def set_live by (force split: if_splits)
    also have "\<dots> = set (drop ?k (sort old))"
      using sorted_drop [of "sort old" ?k] False assms(1,2) by (simp add: old_def distinct_live)
    finally have sets: "set new = set (drop ?k (sort old))" .
    have "distinct new"
      unfolding new_def by (rule distinct_live) (use assms(1) in \<open>simp add: R comp_def split_beta\<close>)
    moreover have "distinct (drop ?k (sort old))" using distinct_live [OF assms(1)] by (simp add: old_def)
    ultimately have "length new = length (drop ?k (sort old))" using sets by (metis distinct_card)
    then show ?thesis using sets False by simp
  qed
  then show "set new = set (drop ?k (sort old))" "length new = min (length old) ?cap" by blast+
qed

section \<open>What is held\<close>

text \<open>The templates held, with the bound \<open>bound\<close> on the ids given out and the ids \<open>gone\<close> of the templates that
  are destroyed or about to be. Retained templates carry their own id. What is not retired builds on the current
  tip and is newer than the future template, which is never retired where it is.\<close>

definition templates_ok ::
  "nat \<Rightarrow> u64 \<Rightarrow> block_hash option \<Rightarrow> (u64 \<times> 'c template_data) list \<Rightarrow> 'c template_data option \<Rightarrow> u64 list \<Rightarrow> bool"
  where
  "templates_ok cap bound tip R F gone \<longleftrightarrow>
     0 < cap \<and> distinct (map fst R) \<and> length (live R) \<le> cap \<and> distinct gone \<and>
     (\<forall>i td. (i, td) \<in> set R \<longrightarrow> td_template_id td = i \<and> i < bound \<and>
        (td_retire_at td = None \<longrightarrow> tip = Some (get_prev_hash td) \<and> (\<exists>f. F = Some f \<and> td_template_id f < i))) \<and>
     (\<forall>f. F = Some f \<longrightarrow> td_retire_at f = None \<and> td_template_id f < bound \<and> td_template_id f \<notin> fst ` set R \<and>
        tip = Some (get_prev_hash f)) \<and>
     (\<forall>i \<in> set gone. i < bound \<and> i \<notin> fst ` set R \<and> (\<forall>f. F = Some f \<longrightarrow> td_template_id f \<noteq> i))"

lemma templates_okI:
  assumes "0 < cap" and "distinct (map fst R)" and "length (live R) \<le> cap" and "distinct gone"
    and "\<And>i td. (i, td) \<in> set R \<Longrightarrow> td_template_id td = i \<and> i < bound"
    and "\<And>i td. (i, td) \<in> set R \<Longrightarrow> td_retire_at td = None \<Longrightarrow>
      tip = Some (get_prev_hash td) \<and> (\<exists>f. F = Some f \<and> td_template_id f < i)"
    and "\<And>f. F = Some f \<Longrightarrow> td_retire_at f = None \<and> td_template_id f < bound \<and> td_template_id f \<notin> fst ` set R \<and>
      tip = Some (get_prev_hash f)"
    and "\<And>i. i \<in> set gone \<Longrightarrow> i < bound \<and> i \<notin> fst ` set R \<and> (\<forall>f. F = Some f \<longrightarrow> td_template_id f \<noteq> i)"
  shows "templates_ok cap bound tip R F gone"
  using assms unfolding templates_ok_def by blast

lemma templates_okD:
  assumes "templates_ok cap bound tip R F gone"
  shows "0 < cap" and "distinct (map fst R)" and "length (live R) \<le> cap" and "distinct gone"
    and "(i, td) \<in> set R \<Longrightarrow> td_template_id td = i \<and> i < bound"
    and "(i, td) \<in> set R \<Longrightarrow> td_retire_at td = None \<Longrightarrow>
      tip = Some (get_prev_hash td) \<and> (\<exists>f. F = Some f \<and> td_template_id f < i)"
    and "F = Some f \<Longrightarrow> td_retire_at f = None \<and> td_template_id f < bound \<and> td_template_id f \<notin> fst ` set R \<and>
      tip = Some (get_prev_hash f)"
    and "i \<in> set gone \<Longrightarrow> i < bound \<and> i \<notin> fst ` set R \<and> (\<forall>f. F = Some f \<longrightarrow> td_template_id f \<noteq> i)"
  using assms unfolding templates_ok_def by blast+

lemma templates_ok_mono:
  assumes "templates_ok cap bound tip R F gone" and "bound \<le> bound'"
  shows "templates_ok cap bound' tip R F gone"
proof (rule templates_okI)
  note ok = templates_okD [OF assms(1)]
  have less: "i < bound \<Longrightarrow> i < bound'" for i by (rule order_less_le_trans [OF _ assms(2)])
  show "td_template_id td = i \<and> i < bound'" if "(i, td) \<in> set R" for i td using ok(5) [OF that] less by blast
  show "td_retire_at f = None \<and> td_template_id f < bound' \<and> td_template_id f \<notin> fst ` set R \<and>
    tip = Some (get_prev_hash f)" if "F = Some f" for f using ok(7) [OF that] less by blast
  show "i < bound' \<and> i \<notin> fst ` set R \<and> (\<forall>f. F = Some f \<longrightarrow> td_template_id f \<noteq> i)" if "i \<in> set gone" for i
    using ok(8) [OF that] less by blast
qed (use templates_okD [OF assms(1)] in blast)+

lemma templates_ok_gone:
  assumes "templates_ok cap bound tip R F gone" and "distinct gone'" and "set gone' \<subseteq> set gone"
  shows "templates_ok cap bound tip R F gone'"
  using assms unfolding templates_ok_def by (meson subsetD)

lemma templates_ok_cap:
  assumes "templates_ok cap bound tip R F gone" and "0 < cap'" and "length (live R) \<le> cap'"
  shows "templates_ok cap' bound tip R F gone"
  using assms unfolding templates_ok_def by blast

text \<open>Taking templates out moves them among those that are gone.\<close>

lemma length_live_filter: "length (live (filter P R)) \<le> length (live R)"
  by (induction R) (auto simp: live_def)

lemma templates_ok_filter:
  assumes "templates_ok cap bound tip R F gone"
  shows "templates_ok cap bound tip (filter (\<lambda>x. \<not> P x) R) F (gone @ map (\<lambda>x. td_template_id (snd x)) (filter P R))"
proof (rule templates_okI)
  note ok = templates_okD [OF assms]
  have ids: "map (\<lambda>x. td_template_id (snd x)) (filter P R) = map fst (filter P R)"
    using ok(5) by auto
  have dR: "distinct (map fst (filter P R))" using ok(2) by (simp add: distinct_map_filter)
  have "set gone \<inter> fst ` set R = {}" using ok(8) by blast
  then show "distinct (gone @ map (\<lambda>x. td_template_id (snd x)) (filter P R))"
    unfolding ids using ok(4) dR by auto
  show "length (live (filter (\<lambda>x. \<not> P x) R)) \<le> cap" using length_live_filter ok(3) by (rule order_trans)
  fix i
  assume i: "i \<in> set (gone @ map (\<lambda>x. td_template_id (snd x)) (filter P R))"
  show "i < bound \<and> i \<notin> fst ` set (filter (\<lambda>x. \<not> P x) R) \<and> (\<forall>f. F = Some f \<longrightarrow> td_template_id f \<noteq> i)"
  proof (cases "i \<in> set gone")
    case True
    then show ?thesis using ok(8) [OF True] by auto
  next
    case False
    then obtain td where td: "(i, td) \<in> set R" "P (i, td)" using i ids by auto
    then have "i \<notin> fst ` set (filter (\<lambda>x. \<not> P x) R)" using ok(2) by (auto dest: eq_key_imp_eq_value)
    moreover have "td_template_id f \<noteq> i" if "F = Some f" for f using ok(7) [OF that] td(1) by force
    ultimately show ?thesis using ok(5) [OF td(1)] by blast
  qed
qed (use templates_okD [OF assms] in \<open>auto simp: distinct_map_filter\<close>)

text \<open>Retiring keeps what holds of the others, and without a live template the tip is free.\<close>

lemma live_retire_some: "length (live (map (\<lambda>(i, td). (i, if C i then retire at td else td)) R)) \<le> length (live R)"
  by (induction R) (auto simp: live_def split: if_splits)

lemma live_retire_all: "live (map (\<lambda>(i, td). (i, retire at td)) R) = []"
  by (induction R) (auto simp: live_def)

lemma templates_ok_retire_some:
  assumes "templates_ok cap bound tip R F gone"
  shows "templates_ok cap bound tip (map (\<lambda>(i, td). (i, if C i then retire at td else td)) R) F gone"
proof (rule templates_okI)
  note ok = templates_okD [OF assms]
  let ?R = "map (\<lambda>(i, td). (i, if C i then retire at td else td)) R"
  have keys: "map fst ?R = map fst R" by (induction R) auto
  then have fs: "fst ` set ?R = fst ` set R" by (metis set_map)
  show "distinct (map fst ?R)" unfolding keys by (rule ok(2))
  show "length (live ?R) \<le> cap" using live_retire_some ok(3) by (rule order_trans)
  show "td_template_id td = i \<and> i < bound" if "(i, td) \<in> set ?R" for i td using that ok(5) by auto
  show "tip = Some (get_prev_hash td) \<and> (\<exists>f. F = Some f \<and> td_template_id f < i)"
    if "(i, td) \<in> set ?R" "td_retire_at td = None" for i td using that ok(6) by (auto split: if_splits)
  show "td_retire_at f = None \<and> td_template_id f < bound \<and> td_template_id f \<notin> fst ` set ?R \<and>
    tip = Some (get_prev_hash f)" if "F = Some f" for f using ok(7) [OF that] fs by simp
  show "i < bound \<and> i \<notin> fst ` set ?R \<and> (\<forall>f. F = Some f \<longrightarrow> td_template_id f \<noteq> i)" if "i \<in> set gone" for i
    using ok(8) [OF that] fs by simp
qed (use templates_okD [OF assms] in blast)+

lemma templates_ok_no_live:
  assumes "templates_ok cap bound tip R F gone" and "live R = []"
  shows "templates_ok cap bound tip' R None gone"
proof (rule templates_okI)
  show "tip' = Some (get_prev_hash td) \<and> (\<exists>f. None = Some f \<and> td_template_id f < i)"
    if "(i, td) \<in> set R" "td_retire_at td = None" for i td
    using that assms(2) by (auto simp: live_def filter_empty_conv)
qed (use templates_okD [OF assms(1)] in auto)

lemma update_fresh: "k \<notin> fst ` set al \<Longrightarrow> AList.update k v al = al @ [(k, v)]"
  by (induction al) auto

lemma live_append [simp]: "live (R @ R') = live R @ live R'"
  by (simp add: live_def)

lemma live_Nil [simp]: "live [] = []"
  by (simp add: live_def)

lemma live_single [simp]: "live [(i, td)] = (if td_retire_at td = None then [i] else [])"
  by (simp add: live_def)

lemma templates_ok_append:
  assumes "templates_ok cap bound tip R F gone" and "td_template_id td \<notin> fst ` set R" and "td_template_id td < bound"
    and "td_template_id td \<notin> set gone" and "\<And>f. F = Some f \<Longrightarrow> td_template_id f \<noteq> td_template_id td"
    and "td_retire_at td = None \<Longrightarrow> tip = Some (get_prev_hash td) \<and> (\<exists>f. F = Some f \<and> td_template_id f < td_template_id td)"
  shows "templates_ok (Suc cap) bound tip (R @ [(td_template_id td, td)]) F gone"
proof (rule templates_okI)
  note ok = templates_okD [OF assms(1)]
  show "td_retire_at f = None \<and> td_template_id f < bound \<and> td_template_id f \<notin> fst ` set (R @ [(td_template_id td, td)]) \<and>
    tip = Some (get_prev_hash f)" if "F = Some f" for f using ok(7) [OF that] assms(5) [OF that] by simp
  show "i < bound \<and> i \<notin> fst ` set (R @ [(td_template_id td, td)]) \<and> (\<forall>f. F = Some f \<longrightarrow> td_template_id f \<noteq> i)"
    if "i \<in> set gone" for i using ok(8) [OF that] assms(4) that by auto
qed (use templates_okD [OF assms(1)] assms in auto)

section \<open>The tasks\<close>

definition gone :: "'c provider \<Rightarrow> u64 list" where
  "gone s = tp_destroyed s @ (case tp_retirement s of Sweeping tds \<Rightarrow> map td_template_id tds | _ \<Rightarrow> [])"

abbreviation holds_ok :: "u64 \<Rightarrow> 'c provider \<Rightarrow> bool" where
  "holds_ok bound s \<equiv> templates_ok (tp_max_same_tip_templates s) bound (tp_current_prev_hash s)
     (tp_retained_templates s) (tp_future_template s) (gone s)"

lemma retire_all_fields [simp]:
  "tp_monitor (retire_all_templates s) = tp_monitor s" "tp_incoming (retire_all_templates s) = tp_incoming s"
  "tp_retirement (retire_all_templates s) = tp_retirement s" "tp_cancelled (retire_all_templates s) = tp_cancelled s"
  "tp_current_prev_hash (retire_all_templates s) = tp_current_prev_hash s"
  "tp_template_id_factory (retire_all_templates s) = tp_template_id_factory s"
  "tp_max_same_tip_templates (retire_all_templates s) = tp_max_same_tip_templates s"
  "tp_future_template (retire_all_templates s) = None" "tp_now (retire_all_templates s) = tp_now s"
  "tp_outgoing (retire_all_templates s) = tp_outgoing s" "tp_destroyed (retire_all_templates s) = tp_destroyed s"
  "gone (retire_all_templates s) = gone s"
  by (simp_all add: retire_all_templates_def gone_def Let_def split: option.split)

lemma holds_retire_all:
  assumes "holds_ok bound s"
  shows "templates_ok (tp_max_same_tip_templates s) bound tip (tp_retained_templates (retire_all_templates s)) None (gone s)"
proof -
  let ?at = "retirement_deadline s" and ?cap = "tp_max_same_tip_templates s"
  note ok = templates_okD [OF assms]
  let ?R = "map (\<lambda>(i, td). (i, retire ?at td)) (tp_retained_templates s)"
  have R: "templates_ok ?cap bound (tp_current_prev_hash s) ?R (tp_future_template s) (gone s)"
    using templates_ok_retire_some [OF assms, of "\<lambda>_. True"] by simp
  note R' = templates_ok_no_live [OF R live_retire_all, of tip]
  show ?thesis
  proof (cases "tp_future_template s")
    case None
    then show ?thesis using R' by (simp add: retire_all_templates_def)
  next
    case (Some f)
    have fresh: "td_template_id f \<notin> fst ` set ?R" using ok(7) [OF Some] by (auto simp: image_image split_beta)
    have gone: "td_template_id f \<notin> set (gone s)" using ok(8) Some by blast
    have "templates_ok (Suc ?cap) bound tip (?R @ [(td_template_id f, retire ?at f)]) None (gone s)"
      using templates_ok_append [OF R', of "retire ?at f"] fresh gone ok(7) [OF Some] by simp
    then have "templates_ok ?cap bound tip (?R @ [(td_template_id f, retire ?at f)]) None (gone s)"
      using ok(1) by (rule templates_ok_cap) (simp add: live_retire_all)
    then show ?thesis using Some update_fresh [OF fresh] by (simp add: retire_all_templates_def Let_def)
  qed
qed

lemma beyond_cap_fields [simp]:
  "tp_monitor (retire_templates_beyond_cap s) = tp_monitor s" "tp_incoming (retire_templates_beyond_cap s) = tp_incoming s"
  "tp_retirement (retire_templates_beyond_cap s) = tp_retirement s"
  "tp_cancelled (retire_templates_beyond_cap s) = tp_cancelled s"
  "tp_current_prev_hash (retire_templates_beyond_cap s) = tp_current_prev_hash s"
  "tp_template_id_factory (retire_templates_beyond_cap s) = tp_template_id_factory s"
  "tp_max_same_tip_templates (retire_templates_beyond_cap s) = tp_max_same_tip_templates s"
  "tp_future_template (retire_templates_beyond_cap s) = tp_future_template s"
  "tp_now (retire_templates_beyond_cap s) = tp_now s" "tp_outgoing (retire_templates_beyond_cap s) = tp_outgoing s"
  "tp_destroyed (retire_templates_beyond_cap s) = tp_destroyed s" "gone (retire_templates_beyond_cap s) = gone s"
  by (simp_all add: retire_templates_beyond_cap_def gone_def Let_def)

lemma holds_beyond_cap:
  assumes "templates_ok n bound tip (tp_retained_templates s) F g" and "0 < tp_max_same_tip_templates s"
  shows "templates_ok (tp_max_same_tip_templates s) bound tip (tp_retained_templates (retire_templates_beyond_cap s)) F g"
proof -
  note ok = templates_okD [OF assms(1)]
  have "templates_ok n bound tip (tp_retained_templates (retire_templates_beyond_cap s)) F g"
    using assms(1) templates_ok_retire_some [OF assms(1)]
    by (simp add: retire_templates_beyond_cap_def Let_def)
  then show ?thesis using assms(2)
    by (rule templates_ok_cap) (simp add: cap_keeps_newest(2) [OF ok(2) assms(2)])
qed

lemma publish_fields [simp]:
  "tp_monitor (snd (publish_template K td fut snph s)) = tp_monitor s"
  "tp_incoming (snd (publish_template K td fut snph s)) = tp_incoming s"
  "tp_retirement (snd (publish_template K td fut snph s)) = tp_retirement s"
  "tp_cancelled (snd (publish_template K td fut snph s)) = tp_cancelled s"
  "tp_template_id_factory (snd (publish_template K td fut snph s)) = tp_template_id_factory s"
  "tp_max_same_tip_templates (snd (publish_template K td fut snph s)) = tp_max_same_tip_templates s"
  "tp_now (snd (publish_template K td fut snph s)) = tp_now s"
  "tp_outgoing (snd (publish_template K td fut snph s)) = tp_outgoing s"
  "tp_destroyed (snd (publish_template K td fut snph s)) = tp_destroyed s"
  "gone (snd (publish_template K td fut snph s)) = gone s"
  by (simp_all add: publish_template_def store_template_data_def gone_def Let_def split: attempt.split)

text \<open>A template on a new tip, published when no future template is held, becomes the future template.\<close>

lemma holds_publish_tip:
  assumes "holds_ok (td_template_id td) s" and "tp_future_template s = None" and "td_template_id td < bound"
    and "td_retire_at td = None"
  shows "holds_ok bound (snd (publish_template K td True True s))"
proof (cases "get_new_template_message K True td")
  case (Done m)
  note ok = templates_okD [OF assms(1)]
  let ?s = "s\<lparr>tp_future_template := Some td\<rparr>" and ?tip = "Some (get_prev_hash td)"
  have "templates_ok (tp_max_same_tip_templates s) bound ?tip (tp_retained_templates s) (Some td) (gone s)"
  proof (rule templates_okI)
    show "?tip = Some (get_prev_hash t) \<and> (\<exists>f. Some td = Some f \<and> td_template_id f < i)"
      if "(i, t) \<in> set (tp_retained_templates s)" "td_retire_at t = None" for i t
      using ok(6) [OF that] assms(2) by simp
    show "i < bound \<and> i \<notin> fst ` set (tp_retained_templates s) \<and> (\<forall>f. Some td = Some f \<longrightarrow> td_template_id f \<noteq> i)"
      if "i \<in> set (gone s)" for i using ok(8) [OF that] assms(3) by auto
    show "td_retire_at f = None \<and> td_template_id f < bound \<and> td_template_id f \<notin> fst ` set (tp_retained_templates s) \<and>
      ?tip = Some (get_prev_hash f)" if "Some td = Some f" for f using that assms(3,4) ok(5) by force
    show "td_template_id t = i \<and> i < bound" if "(i, t) \<in> set (tp_retained_templates s)" for i t
      using ok(5) [OF that] assms(3) by auto
  qed (use ok in blast)+
  then have "templates_ok (tp_max_same_tip_templates ?s) bound ?tip
      (tp_retained_templates (retire_templates_beyond_cap ?s)) (Some td) (gone s)"
    using ok(1) by (intro holds_beyond_cap) simp_all
  then show ?thesis using Done
    by (simp add: publish_template_def store_template_data_def Let_def gone_def)
qed (use templates_ok_mono [OF assms(1), of bound] assms(3) in \<open>auto simp: publish_template_def\<close>)

text \<open>A template on the current tip joins the retained ones, of which the oldest may go.\<close>

lemma holds_publish_fees:
  assumes "holds_ok (td_template_id td) s" and "tp_future_template s = Some f" and "td_template_id td < bound"
    and "td_retire_at td = None" and "tp_current_prev_hash s = Some (get_prev_hash td)"
  shows "holds_ok bound (snd (publish_template K td False False s))"
proof (cases "get_new_template_message K False td")
  case (Done m)
  note ok = templates_okD [OF assms(1)]
  let ?R = "tp_retained_templates s @ [(td_template_id td, td)]" and ?s = "store_template_data td False s"
  have fresh: "td_template_id td \<notin> fst ` set (tp_retained_templates s)" using ok(5) by force
  have s: "?s = s\<lparr>tp_retained_templates := ?R\<rparr>"
    using update_fresh [OF fresh] by (simp add: store_template_data_def)
  have "templates_ok (Suc (tp_max_same_tip_templates s)) bound (tp_current_prev_hash s) ?R (tp_future_template s) (gone s)"
  proof (rule templates_ok_append)
    show "templates_ok (tp_max_same_tip_templates s) bound (tp_current_prev_hash s) (tp_retained_templates s)
      (tp_future_template s) (gone s)" using templates_ok_mono [OF assms(1)] assms(3) by simp
    show "td_template_id td \<notin> set (gone s)" using ok(8) by blast
    show "td_template_id f' \<noteq> td_template_id td" if "tp_future_template s = Some f'" for f' using ok(7) [OF that] by force
  qed (use assms ok(7) [OF assms(2)] fresh in auto)
  then have "templates_ok (tp_max_same_tip_templates ?s) bound (tp_current_prev_hash s)
      (tp_retained_templates (retire_templates_beyond_cap ?s)) (tp_future_template s) (gone s)"
    using ok(1) by (intro holds_beyond_cap) (simp_all add: s)
  then show ?thesis using Done by (simp add: publish_template_def Let_def s gone_def)
qed (use templates_ok_mono [OF assms(1), of bound] assms(3) in \<open>auto simp: publish_template_def\<close>)

lemma publish_future:
  "fst (publish_template K td fut snph s) = Done ms \<Longrightarrow>
   tp_future_template (snd (publish_template K td fut snph s)) = (if fut then Some td else tp_future_template s)"
  by (auto simp: publish_template_def store_template_data_def Let_def split: attempt.splits if_splits)

lemma fetched_fields:
  "fetch_template_data K t client hdr cb path = Inr td \<Longrightarrow> td_template_id td = t \<and> td_retire_at td = None"
  by (auto simp: fetch_template_data_def template_data_new_def split: option.splits sum.splits)

section \<open>One publisher at a time\<close>

fun idle :: "'c monitor_task \<Rightarrow> bool" where
  "idle NoMonitor = True"
| "idle MonitorPanicked = True"
| "idle _ = False"

text \<open>While a template is fetched under new constraints, no monitor runs; a monitor runs only with a future
  template. The id of a template being fetched is above all the others.\<close>

fun monitor_ok :: "'c provider \<Rightarrow> 'c monitor_task \<Rightarrow> bool" where
  "monitor_ok s (MonitorFetching _ t _) \<longleftrightarrow> tp_future_template s \<noteq> None \<and> holds_ok t s \<and> t < tp_template_id_factory s"
| "monitor_ok s m \<longleftrightarrow> idle m \<or> tp_future_template s \<noteq> None"

fun incoming_ok :: "'c provider \<Rightarrow> 'c incoming_task \<Rightarrow> bool" where
  "incoming_ok s AwaitFirstConstraints \<longleftrightarrow> idle (tp_monitor s) \<and> tp_future_template s = None"
| "incoming_ok s (AwaitNewBlock _) \<longleftrightarrow> idle (tp_monitor s) \<and> tp_future_template s = None"
| "incoming_ok s (AwaitTemplate _ t) \<longleftrightarrow>
     idle (tp_monitor s) \<and> tp_future_template s = None \<and> holds_ok t s \<and> t < tp_template_id_factory s"
| "incoming_ok s (AwaitSend _ _) \<longleftrightarrow> idle (tp_monitor s) \<and> tp_future_template s \<noteq> None"
| "incoming_ok s _ \<longleftrightarrow> True"

definition provider_ok :: "'c provider \<Rightarrow> bool" where
  "provider_ok s \<longleftrightarrow> holds_ok (tp_template_id_factory s) s \<and> monitor_ok s (tp_monitor s) \<and> incoming_ok s (tp_incoming s)"

lemma provider_ok_new: "provider_ok (provider_new fee_threshold min_interval requested now)"
  by (simp add: provider_ok_def provider_new_def templates_ok_def gone_def effective_retention_def
      DEFAULT_MAX_SAME_TIP_TEMPLATES_def split: option.split)

text \<open>What the tasks do besides publishing and sweeping leaves the templates alone.\<close>

definition same_templates :: "'c provider \<Rightarrow> 'c provider \<Rightarrow> bool" where
  "same_templates s s' \<longleftrightarrow> tp_max_same_tip_templates s' = tp_max_same_tip_templates s \<and>
     tp_current_prev_hash s' = tp_current_prev_hash s \<and> tp_retained_templates s' = tp_retained_templates s \<and>
     tp_future_template s' = tp_future_template s \<and> gone s' = gone s \<and>
     tp_template_id_factory s' = tp_template_id_factory s"

lemma same_templates_monitor_ok: "same_templates s s' \<Longrightarrow> monitor_ok s m \<Longrightarrow> monitor_ok s' m"
  by (cases m) (auto simp: same_templates_def)

lemma same_templates_incoming_ok:
  "same_templates s s' \<Longrightarrow> (\<not> idle (tp_monitor s') \<Longrightarrow> \<not> idle (tp_monitor s)) \<Longrightarrow> incoming_ok s i \<Longrightarrow> incoming_ok s' i"
  by (cases i) (auto simp: same_templates_def)

lemma idle_monitor_ok: "idle m \<Longrightarrow> monitor_ok s m"
  by (cases m) auto

lemma busy_monitor_ok: "monitor_ok s m \<Longrightarrow> \<not> idle m \<Longrightarrow> tp_future_template s \<noteq> None"
  by (cases m) auto

lemma quiet_step:
  assumes "provider_ok s" and "same_templates s s'"
    and "tp_monitor s' = tp_monitor s \<or> idle (tp_monitor s') \<or>
      \<not> idle (tp_monitor s) \<and> (\<forall>c t l. tp_monitor s' \<noteq> MonitorFetching c t l)"
    and "tp_incoming s' = tp_incoming s \<or> incoming_ok s' (tp_incoming s')"
  shows "provider_ok s'"
proof -
  have "monitor_ok s' (tp_monitor s')"
  proof (cases "tp_monitor s' = tp_monitor s \<or> idle (tp_monitor s')")
    case True
    then show ?thesis
      using same_templates_monitor_ok [OF assms(2)] assms(1) by (auto simp: provider_ok_def intro: idle_monitor_ok)
  next
    case False
    then have "\<not> idle (tp_monitor s)" "\<forall>c t l. tp_monitor s' \<noteq> MonitorFetching c t l" using assms(3) by blast+
    moreover from this have "tp_future_template s \<noteq> None"
      using busy_monitor_ok assms(1) by (auto simp: provider_ok_def)
    ultimately show ?thesis using assms(2) by (cases "tp_monitor s'") (auto simp: same_templates_def)
  qed
  moreover have "incoming_ok s' (tp_incoming s')"
    using assms(3,4) same_templates_incoming_ok [OF assms(2)] assms(1) by (auto simp: provider_ok_def)
  moreover have "holds_ok (tp_template_id_factory s') s'" using assms(1,2) by (simp add: provider_ok_def same_templates_def)
  ultimately show ?thesis by (simp add: provider_ok_def)
qed

lemmas step_defs = handle_request_transaction_data_def answer_transaction_data_def handle_submit_solution_def
  answer_solution_def rotate_def fail_incoming_def fail_monitor_def send_or_fail_def start_monitor_def wait_next_def

lemma next_id_greater: "ids_left s \<Longrightarrow> tp_template_id_factory s < tp_template_id_factory s + 1"
  by (simp add: ids_left_def word_less_nat_alt unatSuc add.commute)

lemma joined_ok:
  assumes "provider_ok s" and "tp_monitor s = NoMonitor"
  shows "provider_ok (monitor_joined c s)"
  using assms holds_retire_all [of s "tp_template_id_factory s"]
  by (simp add: provider_ok_def monitor_joined_def gone_def)

lemma created_ok:
  assumes "provider_ok s" and "tp_incoming s = AwaitNewBlock c" and "ids_left s"
  shows "provider_ok ((take_template_id s)\<lparr>tp_incoming := AwaitTemplate client (tp_template_id_factory s)\<rparr>)"
proof -
  have less: "tp_template_id_factory s < tp_template_id_factory s + 1" using assms(3) by (rule next_id_greater)
  then show ?thesis
    using assms templates_ok_mono [OF _ less_imp_le [OF less]]
    by (cases "tp_monitor s") (auto simp: provider_ok_def take_template_id_def gone_def)
qed

lemma next_template_ok:
  assumes "provider_ok s" and "tp_monitor s = MonitorWaiting old last_sent th ms" and "ids_left s"
  shows "provider_ok ((take_template_id s)\<lparr>tp_monitor := MonitorFetching client (tp_template_id_factory s) last_sent\<rparr>)"
proof -
  have less: "tp_template_id_factory s < tp_template_id_factory s + 1" using assms(3) by (rule next_id_greater)
  then show ?thesis
    using assms templates_ok_mono [OF _ less_imp_le [OF less]]
    by (cases "tp_incoming s") (auto simp: provider_ok_def take_template_id_def gone_def)
qed

lemma bootstrap_ok:
  assumes "provider_ok s" and "tp_incoming s = AwaitTemplate client t"
  shows "provider_ok (bootstrap_publishes K client (fetch_template_data K t client hdr cb path) s)"
proof (cases "fetch_template_data K t client hdr cb path")
  case (Inl e)
  then show ?thesis
    using assms by (auto simp: bootstrap_publishes_def fail_incoming_def provider_ok_def gone_def intro: idle_monitor_ok)
next
  case (Inr td)
  let ?p = "publish_template K td True True s"
  have td: "td_template_id td = t" "td_retire_at td = None" using fetched_fields [OF Inr] by simp_all
  have ok: "holds_ok t s" "t < tp_template_id_factory s" "tp_future_template s = None" "idle (tp_monitor s)"
    using assms unfolding provider_ok_def by auto
  then have "holds_ok (tp_template_id_factory s) (snd ?p)" using holds_publish_tip td by blast
  then show ?thesis
    using Inr ok(4) publish_future [of K td True True s]
    by (cases ?p; cases "fst ?p")
      (auto simp: bootstrap_publishes_def fail_incoming_def provider_ok_def gone_def intro!: idle_monitor_ok
        dest!: arg_cong [where f = fst] arg_cong [where f = snd])
qed

lemma not_bootstrapping: "incoming_ok s i \<Longrightarrow> \<not> idle (tp_monitor s) \<Longrightarrow> incoming_ok s' i"
  by (cases i) auto

lemma monitored_ok:
  assumes "provider_ok s" and "tp_monitor s = MonitorFetching client t last_sent"
  shows "provider_ok (monitor_publishes K client last_sent (fetch_template_data K t client hdr cb path) s)"
proof (cases "fetch_template_data K t client hdr cb path")
  case (Inl e)
  then show ?thesis
    using assms not_bootstrapping [of s "tp_incoming s"]
    by (simp add: monitor_publishes_def fail_monitor_def provider_ok_def gone_def)
next
  case (Inr td)
  have td: "td_template_id td = t" "td_retire_at td = None" using fetched_fields [OF Inr] by simp_all
  have ok: "holds_ok t s" "t < tp_template_id_factory s" "incoming_ok s' (tp_incoming s)" for s'
    using assms not_bootstrapping [of s "tp_incoming s"] unfolding provider_ok_def by auto
  obtain f where f: "tp_future_template s = Some f" using assms by (auto simp: provider_ok_def)
  then have tip: "tp_current_prev_hash s = Some (get_prev_hash f)" using templates_okD(7) [OF ok(1)] by blast
  let ?new = "get_prev_hash td \<noteq> get_prev_hash f"
  let ?s = "if ?new then retire_all_templates s else s"
  let ?p = "publish_template K td ?new ?new ?s"
  have eq: "monitor_publishes K client last_sent (Inr td) s =
     (case fst ?p of Done ms \<Rightarrow> (snd ?p)\<lparr>tp_monitor := MonitorSending ms client (\<not> ?new) last_sent\<rparr>
      | Failed _ \<Rightarrow> fail_monitor (snd ?p) | Panicked \<Rightarrow> (snd ?p)\<lparr>tp_monitor := MonitorPanicked\<rparr>)"
    by (simp add: monitor_publishes_def tip Let_def split_beta)
  have fut: "tp_future_template (snd ?p) \<noteq> None" if "fst ?p = Done ms" for ms
    using publish_future [OF that] f by auto
  have "holds_ok (tp_template_id_factory s) (snd ?p)"
  proof (cases ?new)
    case True
    then have "holds_ok t ?s" using holds_retire_all [OF ok(1)] by simp
    then show ?thesis using holds_publish_tip [of ?s td] True td ok(2) by simp
  next
    case False
    then show ?thesis using holds_publish_fees [of s td f] td ok(1,2) f tip by simp
  qed
  then show ?thesis
    unfolding Inr eq using fut ok(3) by (auto simp: provider_ok_def fail_monitor_def gone_def split: attempt.splits)
qed

lemma bootstrapped_ok:
  assumes "provider_ok s" and "tp_incoming s = AwaitSend [] client"
  shows "provider_ok (bootstrap_done client s)"
proof -
  have "gone (bootstrap_done client s) = gone s"
    by (auto simp: bootstrap_done_def gone_def split: retirement_task.split)
  then show ?thesis using assms by (simp add: provider_ok_def bootstrap_done_def)
qed

text \<open>A step of the retirement task moves templates on their way out.\<close>

definition only_retires :: "'c provider \<Rightarrow> 'c provider \<Rightarrow> bool" where
  "only_retires s s' \<longleftrightarrow> tp_max_same_tip_templates s' = tp_max_same_tip_templates s \<and>
     tp_current_prev_hash s' = tp_current_prev_hash s \<and> tp_future_template s' = tp_future_template s \<and>
     tp_template_id_factory s' = tp_template_id_factory s \<and> tp_monitor s' = tp_monitor s \<and> tp_incoming s' = tp_incoming s"

lemma retirement_ok:
  assumes "provider_ok s" and "\<And>bound. holds_ok bound s \<Longrightarrow> holds_ok bound s'" and "only_retires s s'"
  shows "provider_ok s'"
proof -
  note same = assms(3) [unfolded only_retires_def]
  have "monitor_ok s' (tp_monitor s)" if "monitor_ok s (tp_monitor s)"
    using that assms(2) same by (cases "tp_monitor s") auto
  moreover have "incoming_ok s' (tp_incoming s)" if "incoming_ok s (tp_incoming s)"
    using that assms(2) same by (cases "tp_incoming s") auto
  moreover have "holds_ok (tp_template_id_factory s) s'" using assms(1,2) by (simp add: provider_ok_def)
  ultimately show ?thesis using assms(1) same by (simp add: provider_ok_def)
qed

lemma swept_ok:
  assumes "provider_ok s" and "tp_retirement s = Sweeping []"
  shows "provider_ok (sweep s)"
proof (rule retirement_ok [OF assms(1)])
  show "holds_ok bound (sweep s)" if "holds_ok bound s" for bound
    using templates_ok_filter [OF that, of "\<lambda>x. is_due (tp_now s) (snd x)"] assms(2)
    by (simp add: gone_def sweep_def case_prod_unfold comp_def)
qed (simp add: sweep_def only_retires_def)

lemma fewer_gone_ok:
  assumes "provider_ok s" and "set (gone s') \<subseteq> set (gone s)" and "distinct (gone s) \<Longrightarrow> distinct (gone s')"
    and "only_retires s s'" and "tp_retained_templates s' = tp_retained_templates s"
  shows "provider_ok s'"
proof (rule retirement_ok [OF assms(1) _ assms(4)])
  have "distinct (gone s)" using assms(1) templates_okD(4) by (auto simp: provider_ok_def)
  then show "holds_ok bound s'" if "holds_ok bound s" for bound
    using templates_ok_gone [OF that assms(3,2)] assms(4,5) by (simp add: only_retires_def)
qed

lemma destroyed_ok:
  assumes "provider_ok s" and "tp_retirement s = Sweeping (td # rest)"
  shows "provider_ok (destroy_template ok td rest s)"
  by (rule fewer_gone_ok [OF assms(1)]) (use assms(2) in \<open>auto simp: destroy_template_def only_retires_def gone_def\<close>)

lemma retirement_ends_ok:
  assumes "provider_ok s"
  shows "provider_ok (s\<lparr>tp_retirement := RetirementEnded\<rparr>)"
    and "provider_ok (s\<lparr>tp_retirement := RetirementEnded, tp_cancelled := True\<rparr>)"
  by (rule fewer_gone_ok [OF assms(1)]; auto simp: gone_def only_retires_def)+

theorem tdp_step_ok: "tdp_step B K s s' \<Longrightarrow> provider_ok s \<Longrightarrow> provider_ok s'"
proof (induction rule: tdp_step.induct)
  case (created s c client)
  then show ?case by (auto intro: created_ok)
next
  case (bootstrap s client t hdr cb path)
  then show ?case by (auto intro: bootstrap_ok)
next
  case (bootstrapped s client)
  then show ?case by (auto intro: bootstrapped_ok)
next
  case (next_template s old last_sent th ms client)
  then show ?case by (auto intro: next_template_ok)
next
  case (monitored s client t last_sent hdr cb path)
  then show ?case by (auto intro: monitored_ok)
next
  case (joined s c)
  then show ?case by (auto intro: joined_ok)
next
  case (swept s)
  then show ?case by (auto intro: swept_ok)
next
  case (destroyed s td rest ok)
  then show ?case by (auto intro: destroyed_ok)
next
  case (sweep_failed s)
  then show ?case by (auto intro: retirement_ends_ok)
next
  case (retirement_ends s)
  then show ?case by (auto intro: retirement_ends_ok)
next
  case (first_constraints s c)
  then show ?case by (intro quiet_step [OF first_constraints(2)]) (auto simp: provider_ok_def same_templates_def gone_def)
next
  case (bootstrap_send s m ms client sent)
  then show ?case
    by (intro quiet_step [OF bootstrap_send(2)]) (auto simp: provider_ok_def same_templates_def gone_def step_defs)
next
  case (monitor_sent s client upd last_sent)
  then show ?case
    by (intro quiet_step [OF monitor_sent(2)]) (auto simp: same_templates_def gone_def step_defs)
qed (erule quiet_step; auto simp: same_templates_def gone_def step_defs split: option.splits attempt.splits sum.splits)+

lemma tdp_reach_ok: "tdp_reach B K s \<Longrightarrow> provider_ok s"
  by (induction rule: tdp_reach.induct) (auto intro: provider_ok_new tdp_step_ok)

end
