(* ===== verification/Template_Feed.thy ===== *)
theory Template_Feed
  imports Template_Runs "HOL-Library.Sublist"
begin

text \<open>
  The order in which the template runtime sends its work: each future template is followed by the message that
  puts it in force, before any other work, and the ids of the templates only grow.
\<close>

section \<open>The order as an automaton\<close>

text \<open>The state is the id of the last template and the id of the future template whose \<open>SetNewPrevHash\<close> is due.\<close>

fun feed :: "u64 option \<times> u64 option \<Rightarrow> tdp_message list \<Rightarrow> (u64 option \<times> u64 option) option" where
  "feed st [] = Some st"
| "feed (newest, due) (OutNewTemplate m # ms) =
     (if due = None \<and> (case newest of None \<Rightarrow> tm_future_template m | Some l \<Rightarrow> l < tm_template_id m)
      then feed (Some (tm_template_id m), if tm_future_template m then Some (tm_template_id m) else None) ms
      else None)"
| "feed (newest, due) (OutSetNewPrevHash p # ms) = (if due = Some (tph_template_id p) then feed (newest, None) ms else None)"
| "feed st (OutTxDataSuccess t txs # ms) = feed st ms"
| "feed st (OutTxDataError t e # ms) = feed st ms"

fun is_work :: "tdp_message \<Rightarrow> bool" where
  "is_work (OutNewTemplate _) = True"
| "is_work (OutSetNewPrevHash _) = True"
| "is_work _ = False"

fun template_ids :: "tdp_message list \<Rightarrow> u64 list" where
  "template_ids [] = []"
| "template_ids (OutNewTemplate m # ms) = tm_template_id m # template_ids ms"
| "template_ids (_ # ms) = template_ids ms"

lemma feed_append: "feed st (xs @ ys) = Option.bind (feed st xs) (\<lambda>st. feed st ys)"
  by (induction st xs rule: feed.induct) auto

lemma feed_work: "feed st (filter is_work ms) = feed st ms"
  by (induction st ms rule: feed.induct) auto

lemma feed_prefix: "feed st ys \<noteq> None \<Longrightarrow> prefix xs ys \<Longrightarrow> feed st xs \<noteq> None"
  by (cases "feed st xs") (auto simp: prefix_def feed_append)

lemma feed_ids:
  "feed (newest, due) ms \<noteq> None \<Longrightarrow> sorted_wrt (<) ((case newest of None \<Rightarrow> [] | Some l \<Rightarrow> [l]) @ template_ids ms)"
  by (induction "(newest, due)" ms arbitrary: newest due rule: feed.induct)
    (auto split: if_splits option.splits intro: order_less_trans)

lemma feed_due:
  assumes "feed (None, None) ms = Some (newest, Some t)"
  shows "\<exists>ms' m. filter is_work ms = ms' @ [OutNewTemplate m] \<and> tm_future_template m \<and> tm_template_id m = t"
  using assms
proof (induction ms arbitrary: newest t rule: rev_induct)
  case (snoc x xs)
  then show ?case
    by (cases x) (auto simp: feed_append bind_eq_Some_conv split: if_splits)
qed simp

lemma feed_prev_hash:
  assumes "feed (None, None) (xs @ OutSetNewPrevHash p # ys) \<noteq> None"
  shows "\<exists>ms m. filter is_work xs = ms @ [OutNewTemplate m] \<and> tm_future_template m \<and> tm_template_id m = tph_template_id p"
proof -
  obtain newest due where "feed (None, None) xs = Some (newest, due)" "feed (newest, due) (OutSetNewPrevHash p # ys) \<noteq> None"
    using assms by (auto simp: feed_append bind_eq_Some_conv)
  then show ?thesis using feed_due by (auto split: if_splits)
qed

lemma feed_future:
  assumes "feed (None, None) (xs @ OutNewTemplate m # w # ys) \<noteq> None" and "tm_future_template m" and "is_work w"
  shows "\<exists>p. w = OutSetNewPrevHash p \<and> tph_template_id p = tm_template_id m"
  using assms by (cases w) (auto simp: feed_append bind_eq_Some_conv split: if_splits)

section \<open>The messages sent and about to be sent\<close>

definition queued :: "'c provider \<Rightarrow> tdp_message list" where
  "queued s = (case tp_monitor s of MonitorSending ms _ _ _ \<Rightarrow> ms | _ \<Rightarrow> [])
     @ (case tp_incoming s of AwaitSend ms _ \<Rightarrow> ms | _ \<Rightarrow> [])"

definition work_messages :: "'c provider \<Rightarrow> tdp_message list" where
  "work_messages s = filter is_work (tp_outgoing s @ queued s)"

definition in_flight :: "'c provider \<Rightarrow> u64 set" where
  "in_flight s = {t. (\<exists>c l. tp_monitor s = MonitorFetching c t l) \<or> (\<exists>c. tp_incoming s = AwaitTemplate c t)}"

definition feed_ok :: "'c provider \<Rightarrow> bool" where
  "feed_ok s \<longleftrightarrow> feed (None, None) (work_messages s) \<noteq> None \<and>
     (\<not> tp_cancelled s \<longrightarrow> (\<exists>newest. feed (None, None) (work_messages s) = Some (newest, None) \<and>
        (\<forall>l. newest = Some l \<longrightarrow> l < tp_template_id_factory s \<and> (\<forall>t \<in> in_flight s. l < t)) \<and>
        (tp_future_template s \<noteq> None \<longrightarrow> newest \<noteq> None)))"

lemma feed_ok_new: "feed_ok (provider_new fee_threshold min_interval requested now)"
  by (simp add: feed_ok_def work_messages_def queued_def in_flight_def provider_new_def)

lemma feed_ok_cancelled:
  assumes "feed_ok s" and "tp_cancelled s'" and "prefix (work_messages s') (work_messages s)"
  shows "feed_ok s'"
  using assms feed_prefix [OF _ assms(3)] unfolding feed_ok_def by blast

lemma feed_ok_quiet:
  assumes "feed_ok s" and "work_messages s' = work_messages s" and "tp_cancelled s \<Longrightarrow> tp_cancelled s'"
    and "tp_template_id_factory s \<le> tp_template_id_factory s'"
    and "\<And>t. t \<in> in_flight s' \<Longrightarrow> t \<in> in_flight s \<or> tp_template_id_factory s \<le> t"
    and "tp_future_template s' \<noteq> None \<Longrightarrow> tp_future_template s \<noteq> None"
  shows "feed_ok s'"
proof (cases "tp_cancelled s")
  case True
  then show ?thesis using assms(1,2,3) by (simp add: feed_ok_def)
next
  case False
  then obtain newest where fed: "feed (None, None) (work_messages s) = Some (newest, None)"
    and less: "\<And>l. newest = Some l \<Longrightarrow> l < tp_template_id_factory s \<and> (\<forall>t \<in> in_flight s. l < t)"
    and some: "tp_future_template s \<noteq> None \<Longrightarrow> newest \<noteq> None"
    using assms(1) unfolding feed_ok_def by blast
  have "l < tp_template_id_factory s' \<and> (\<forall>t \<in> in_flight s'. l < t)" if "newest = Some l" for l
    using less [OF that] assms(4,5) order_less_le_trans by blast
  then show ?thesis using fed some assms(2,6) unfolding feed_ok_def by simp
qed

text \<open>Publishing a template whose id was in flight.\<close>

lemma new_template_fields:
  "get_new_template_message K fut td = Done m \<Longrightarrow> tm_template_id m = td_template_id td \<and> tm_future_template m = fut"
  by (auto simp: get_new_template_message_def split: if_splits option.splits list.splits sum.splits)

lemma published_messages:
  assumes "fst (publish_template K td fut snph s) = Done ms"
  obtains m where "tm_template_id m = td_template_id td" and "tm_future_template m = fut"
    and "ms = OutNewTemplate m # (if snph then [OutSetNewPrevHash (get_set_new_prev_hash_message K td)] else [])"
proof -
  obtain m where m: "get_new_template_message K fut td = Done m"
    using assms by (auto simp: publish_template_def split: attempt.splits)
  then have "ms = OutNewTemplate m # (if snph then [OutSetNewPrevHash (get_set_new_prev_hash_message K td)] else [])"
    using assms by (auto simp: publish_template_def Let_def split: if_splits)
  then show ?thesis using that new_template_fields [OF m] by blast
qed

lemma published_work: "fst (publish_template K td fut snph s) = Done ms \<Longrightarrow> filter is_work ms = ms"
  by (erule published_messages) auto

lemma feed_ok_publish:
  assumes "feed_ok s" and "\<not> tp_cancelled s" and "fst (publish_template K td fut fut s0) = Done ms"
    and "td_template_id td \<in> in_flight s" and "td_template_id td < tp_template_id_factory s'"
    and "\<not> fut \<Longrightarrow> tp_future_template s \<noteq> None" and "work_messages s' = work_messages s @ ms" and "in_flight s' = {}"
  shows "feed_ok s'"
proof -
  obtain m where m: "tm_template_id m = td_template_id td" "tm_future_template m = fut"
    "ms = OutNewTemplate m # (if fut then [OutSetNewPrevHash (get_set_new_prev_hash_message K td)] else [])"
    using published_messages [OF assms(3)] by blast
  obtain newest where fed: "feed (None, None) (work_messages s) = Some (newest, None)"
    and less: "\<And>l. newest = Some l \<Longrightarrow> l < td_template_id td"
    and some: "tp_future_template s \<noteq> None \<Longrightarrow> newest \<noteq> None"
    using assms(1,2,4) unfolding feed_ok_def by blast
  have "feed (newest, None) ms = Some (Some (td_template_id td), None)"
    using m less some assms(6) by (cases newest; cases fut) (auto simp: get_set_new_prev_hash_message_def)
  then show ?thesis using fed assms(5,7,8) by (simp add: feed_ok_def feed_append)
qed

section \<open>Every step keeps the order\<close>

lemmas feed_views = work_messages_def queued_def in_flight_def

lemma bootstrap_feed:
  assumes "feed_ok s" and "provider_ok s" and "tp_incoming s = AwaitTemplate client t" and "\<not> tp_cancelled s"
  shows "feed_ok (bootstrap_publishes K client (fetch_template_data K t client hdr cb path) s)"
proof (cases "fetch_template_data K t client hdr cb path")
  case (Inl e)
  show ?thesis
    by (rule feed_ok_cancelled [OF assms(1)])
      (use Inl assms(3) in \<open>auto simp: bootstrap_publishes_def fail_incoming_def feed_views\<close>)
next
  case (Inr td)
  let ?p = "publish_template K td True True s"
  have td: "td_template_id td = t" using fetched_fields [OF Inr] by simp
  have ok: "idle (tp_monitor s)" "t < tp_template_id_factory s" using assms(2,3) by (auto simp: provider_ok_def)
  have quiet: "(case tp_monitor s of MonitorSending ms _ _ _ \<Rightarrow> ms | _ \<Rightarrow> []) = []" "\<And>c t l. tp_monitor s \<noteq> MonitorFetching c t l"
    using ok(1) by (cases "tp_monitor s"; simp)+
  have eq: "bootstrap_publishes K client (Inr td) s =
     (case fst ?p of Done ms \<Rightarrow> (snd ?p)\<lparr>tp_incoming := AwaitSend ms client\<rparr>
      | Failed _ \<Rightarrow> fail_incoming (snd ?p) | Panicked \<Rightarrow> (snd ?p)\<lparr>tp_incoming := IncomingEnded\<rparr>)"
    by (simp add: bootstrap_publishes_def split_beta split: prod.split)
  show ?thesis
  proof (cases "fst ?p")
    case (Done ms)
    have "feed_ok ((snd ?p)\<lparr>tp_incoming := AwaitSend ms client\<rparr>)"
    proof (rule feed_ok_publish [OF assms(1,4) Done])
      show "td_template_id td \<in> in_flight s" using assms(3) td by (auto simp: in_flight_def)
      show "work_messages ((snd ?p)\<lparr>tp_incoming := AwaitSend ms client\<rparr>) = work_messages s @ ms"
        using assms(3) quiet published_work [OF Done] by (simp add: work_messages_def queued_def)
    qed (use td ok(2) quiet in \<open>simp_all add: in_flight_def\<close>)
    then show ?thesis unfolding Inr eq Done by simp
  next
    case (Failed e)
    then show ?thesis unfolding Inr eq Failed
      by simp (rule feed_ok_cancelled [OF assms(1)], use assms(3) in \<open>auto simp: fail_incoming_def feed_views\<close>)
  next
    case Panicked
    have "tp_future_template (snd ?p) = tp_future_template s"
      using Panicked by (auto simp: publish_template_def Let_def split: attempt.splits)
    then show ?thesis unfolding Inr eq Panicked
      by simp (rule feed_ok_quiet [OF assms(1)], use assms(3) quiet in \<open>auto simp: feed_views\<close>)
  qed
qed

lemma monitor_feed:
  assumes "feed_ok s" and "provider_ok s" and "tp_monitor s = MonitorFetching client t last_sent" and "\<not> tp_cancelled s"
  shows "feed_ok (monitor_publishes K client last_sent (fetch_template_data K t client hdr cb path) s)"
proof (cases "fetch_template_data K t client hdr cb path")
  case (Inl e)
  show ?thesis
    by (rule feed_ok_cancelled [OF assms(1)])
      (use Inl assms(3) in \<open>auto simp: monitor_publishes_def fail_monitor_def feed_views\<close>)
next
  case (Inr td)
  have td: "td_template_id td = t" using fetched_fields [OF Inr] by simp
  have ok: "tp_future_template s \<noteq> None" "t < tp_template_id_factory s" using assms(2,3) by (auto simp: provider_ok_def)
  have quiet: "(case tp_incoming s of AwaitSend ms _ \<Rightarrow> ms | _ \<Rightarrow> []) = []" "\<And>c t. tp_incoming s \<noteq> AwaitTemplate c t"
    using assms(2,3) by (cases "tp_incoming s"; simp add: provider_ok_def)+
  show ?thesis
  proof (cases "tp_current_prev_hash s")
    case None
    show ?thesis
      by (rule feed_ok_cancelled [OF assms(1)])
        (use Inr None assms(3) in \<open>auto simp: monitor_publishes_def fail_monitor_def feed_views\<close>)
  next
    case (Some tip)
    let ?new = "get_prev_hash td \<noteq> tip"
    let ?p = "publish_template K td ?new ?new (if ?new then retire_all_templates s else s)"
    have eq: "monitor_publishes K client last_sent (Inr td) s =
       (case fst ?p of Done ms \<Rightarrow> (snd ?p)\<lparr>tp_monitor := MonitorSending ms client (\<not> ?new) last_sent\<rparr>
        | Failed _ \<Rightarrow> fail_monitor (snd ?p) | Panicked \<Rightarrow> (snd ?p)\<lparr>tp_monitor := MonitorPanicked\<rparr>)"
      by (simp add: monitor_publishes_def Some Let_def split_beta)
    have same: "tp_outgoing (snd ?p) = tp_outgoing s" "tp_incoming (snd ?p) = tp_incoming s"
      "tp_template_id_factory (snd ?p) = tp_template_id_factory s" "tp_cancelled (snd ?p) = tp_cancelled s"
      by simp_all
    show ?thesis
    proof (cases "fst ?p")
      case (Done ms)
      have "feed_ok ((snd ?p)\<lparr>tp_monitor := MonitorSending ms client (\<not> ?new) last_sent\<rparr>)"
      proof (rule feed_ok_publish [OF assms(1,4) Done])
        show "td_template_id td \<in> in_flight s" using assms(3) td by (auto simp: in_flight_def)
        show "work_messages ((snd ?p)\<lparr>tp_monitor := MonitorSending ms client (\<not> ?new) last_sent\<rparr>) = work_messages s @ ms"
          using assms(3) quiet published_work [OF Done] by (simp add: work_messages_def queued_def same)
      qed (use td ok quiet same in \<open>simp_all add: in_flight_def\<close>)
      then show ?thesis unfolding Inr eq Done by simp
    next
      case (Failed e)
      show ?thesis unfolding Inr eq Failed attempt.case
        by (rule feed_ok_cancelled [OF assms(1)]) (use assms(3) same in \<open>auto simp: fail_monitor_def feed_views\<close>)
    next
      case Panicked
      show ?thesis unfolding Inr eq Panicked attempt.case
        by (rule feed_ok_quiet [OF assms(1)]) (use assms(3) quiet same ok in \<open>auto simp: feed_views\<close>)
    qed
  qed
qed

text \<open>A step that sends or drops nothing but answers, and one that ends a task and with it the connection.\<close>

lemma fail_incoming_feed: "feed_ok s \<Longrightarrow> feed_ok (fail_incoming s)"
  by (erule feed_ok_cancelled) (auto simp: fail_incoming_def feed_views)

lemma dropped_monitor:
  assumes "\<And>ms c. tp_incoming s = AwaitSend ms c \<Longrightarrow> idle (tp_monitor s)"
  shows "prefix (work_messages (s\<lparr>tp_monitor := NoMonitor\<rparr>)) (work_messages s)"
  using assms by (cases "tp_monitor s"; cases "tp_incoming s") (auto simp: feed_views)

lemma fail_monitor_feed:
  "feed_ok s \<Longrightarrow> (\<And>ms c. tp_incoming s = AwaitSend ms c \<Longrightarrow> idle (tp_monitor s)) \<Longrightarrow> feed_ok (fail_monitor s)"
  using dropped_monitor [of s] by (elim feed_ok_cancelled) (auto simp: fail_monitor_def work_messages_def queued_def)

lemma answer_feed: "feed_ok s \<Longrightarrow> \<not> is_work m \<Longrightarrow> feed_ok (s\<lparr>tp_outgoing := tp_outgoing s @ [m]\<rparr>)"
  by (erule feed_ok_quiet) (auto simp: feed_views)

lemma incoming_feed:
  assumes "feed_ok s" and "\<And>ms c. tp_incoming s = AwaitSend ms c \<Longrightarrow> ms = []" and "\<And>ms c. i \<noteq> AwaitSend ms c"
    and "\<And>c t. i \<noteq> AwaitTemplate c t"
  shows "feed_ok (s\<lparr>tp_incoming := i\<rparr>)"
  by (rule feed_ok_quiet [OF assms(1)])
    (use assms(2-) in \<open>auto simp: feed_views split: incoming_task.splits\<close>)

lemma monitor_ends_feed:
  assumes "feed_ok s" and "provider_ok s"
    and "tp_cancelled s \<or> (\<exists>client last_sent th ms. tp_rotating s \<and> tp_monitor s = MonitorWaiting client last_sent th ms)"
  shows "feed_ok (s\<lparr>tp_monitor := NoMonitor\<rparr>)"
proof (cases "tp_cancelled s")
  case True
  show ?thesis
    by (rule feed_ok_cancelled [OF assms(1)])
      (use True assms(2) in \<open>auto simp: provider_ok_def intro!: dropped_monitor\<close>)
next
  case False
  then show ?thesis by (intro feed_ok_quiet [OF assms(1)]) (use assms(3) in \<open>auto simp: feed_views\<close>)
qed

lemma request_feed:
  assumes "feed_ok s" and "tp_incoming s = AwaitMessage"
  shows "feed_ok (handle_request_transaction_data sent t s)"
  using assms answer_feed [OF assms(1)] fail_incoming_feed [OF assms(1)] incoming_feed [OF assms(1)]
  by (auto simp: handle_request_transaction_data_def send_or_fail_def split: option.split)

lemma txs_feed:
  assumes "feed_ok s" and "tp_incoming s = AwaitBlock td"
  shows "feed_ok (answer_transaction_data K sent td answer s)"
proof -
  have "feed_ok (s\<lparr>tp_outgoing := tp_outgoing s @ [OutTxDataSuccess t txs], tp_incoming := AwaitMessage\<rparr>)" for t txs
    using incoming_feed [OF answer_feed [OF assms(1), of "OutTxDataSuccess t txs"], of AwaitMessage] assms(2) by simp
  then show ?thesis using assms fail_incoming_feed [OF assms(1)] incoming_feed [OF assms(1), of IncomingEnded]
    by (simp add: answer_transaction_data_def send_or_fail_def split: attempt.split)
qed

theorem tdp_step_feed: "tdp_step B K s s' \<Longrightarrow> provider_ok s \<Longrightarrow> feed_ok s \<Longrightarrow> feed_ok s'"
proof (induction rule: tdp_step.induct)
  case (request s sent t)
  then show ?case by (auto intro: request_feed)
next
  case (txs s td sent answer)
  then show ?case by (auto intro: txs_feed)
next
  case (bootstrap s client t hdr cb path)
  then show ?case by (auto intro: bootstrap_feed)
next
  case (monitored s client t last_sent hdr cb path)
  then show ?case by (auto intro: monitor_feed)
next
  case (monitor_ends s)
  then show ?case by (auto intro: monitor_ends_feed)
next
  case (solution s ready msg)
  then show ?case by (auto simp: handle_submit_solution_def intro: incoming_feed split: option.split)
next
  case (bootstrapped s client)
  have "idle (tp_monitor s)" using bootstrapped by (simp add: provider_ok_def)
  then show ?case
    by (intro feed_ok_quiet [OF bootstrapped(3)])
      (use bootstrapped(1) in \<open>cases "tp_monitor s"; auto simp: feed_views bootstrap_done_def\<close>)+
next
  case (destroyed s td rest ok)
  then show ?case
    by (cases ok) (erule feed_ok_quiet; auto simp: feed_views destroy_template_def)+
next
  case (join_failed s c)
  then show ?case by (auto intro: fail_incoming_feed)
next
  case (create_failed s c)
  then show ?case by (auto intro: fail_incoming_feed)
next
  case (wait_failed s client last_sent th ms)
  then show ?case by (intro fail_monitor_feed) (auto simp: provider_ok_def)
next
  case (incoming_ends s)
  then show ?case by (intro feed_ok_cancelled [OF incoming_ends(3)]) (auto simp: feed_views)
next
  case (bootstrap_send s m ms client sent)
  have "idle (tp_monitor s)" using bootstrap_send by (simp add: provider_ok_def)
  then have "feed_ok (s\<lparr>tp_outgoing := tp_outgoing s @ [m], tp_incoming := AwaitSend ms client\<rparr>)"
    by (intro feed_ok_quiet [OF bootstrap_send(3)]) (use bootstrap_send(1) in \<open>cases "tp_monitor s"; auto simp: feed_views\<close>)+
  then show ?case using fail_incoming_feed [OF bootstrap_send(3)] by (simp add: send_or_fail_def)
next
  case (monitor_send s m ms client upd last_sent sent)
  have "feed_ok (s\<lparr>tp_outgoing := tp_outgoing s @ [m], tp_monitor := MonitorSending ms client upd last_sent\<rparr>)"
    by (rule feed_ok_quiet [OF monitor_send(3)]) (use monitor_send(1) in \<open>auto simp: feed_views\<close>)
  moreover have "feed_ok (fail_monitor s)"
    using monitor_send by (intro fail_monitor_feed) (auto simp: provider_ok_def)
  ultimately show ?case by (simp add: send_or_fail_def)
next
  case (monitor_starts s last_sent ready)
  have "feed_ok (fail_monitor s)"
    using monitor_starts by (intro fail_monitor_feed) (auto simp: provider_ok_def)
  moreover have "feed_ok (wait_next client last_sent s)" for client
    by (rule feed_ok_quiet [OF monitor_starts(3)]) (use monitor_starts(1) in \<open>auto simp: feed_views wait_next_def\<close>)
  ultimately show ?case by (simp add: start_monitor_def split: option.split)
next
  case (created s c client)
  show ?case
    by (rule feed_ok_quiet [OF created(4)])
      (use created(1) next_id_greater [OF created(2)] in \<open>auto simp: feed_views take_template_id_def\<close>)
next
  case (next_template s old last_sent th ms client)
  show ?case
    by (rule feed_ok_quiet [OF next_template(4)])
      (use next_template(1) next_id_greater [OF next_template(2)] in \<open>auto simp: feed_views take_template_id_def\<close>)
qed (erule feed_ok_quiet; auto simp: feed_views step_defs monitor_joined_def bootstrap_done_def sweep_def
    destroy_template_def split: option.splits sum.splits)+

lemma tdp_reach_feed: "tdp_reach B K s \<Longrightarrow> feed_ok s"
  by (induction rule: tdp_reach.induct) (auto intro: feed_ok_new tdp_step_feed tdp_reach_ok)

end
