(* ===== verification/Template_Grace.thy ===== *)
theory Template_Grace
  imports Template_Runs
begin

text \<open>
  The time a superseded template has left: a template that is in force stays at hand for the whole grace period
  after that, whatever the tasks do.
\<close>

definition still :: "instant \<Rightarrow> 'c template_data \<Rightarrow> 'c template_data \<Rightarrow> bool" where
  "still d td td' \<longleftrightarrow> td' = td \<or> (\<exists>at \<ge> d. td' = td\<lparr>td_retire_at := Some at\<rparr>)"

definition holding :: "instant \<Rightarrow> 'c template_data \<Rightarrow> 'c provider \<Rightarrow> bool" where
  "holding d td s \<longleftrightarrow>
     (\<exists>td'. still d td td' \<and> (tp_future_template s = Some td' \<or> (td_template_id td, td') \<in> set (tp_retained_templates s)))"

lemma still_retire: "still d td td' \<Longrightarrow> td_retire_at td = None \<Longrightarrow> d \<le> at \<Longrightarrow> still d td (retire at td')"
  by (auto simp: still_def retire_def)

lemma still_id: "still d td td' \<Longrightarrow> td_template_id td' = td_template_id td"
  by (auto simp: still_def)

lemma still_not_due: "still d td td' \<Longrightarrow> td_retire_at td = None \<Longrightarrow> now < d \<Longrightarrow> \<not> is_due now td'"
  by (auto simp: still_def is_due_def)

text \<open>Retiring everything.\<close>

lemma holding_retire_all:
  assumes "holding d td s" and "holds_ok bound s" and "td_retire_at td = None" and "d \<le> retirement_deadline s"
  shows "holding d td (retire_all_templates s)"
proof -
  let ?at = "retirement_deadline s"
  obtain td' where td': "still d td td'"
    "tp_future_template s = Some td' \<or> (td_template_id td, td') \<in> set (tp_retained_templates s)"
    using assms(1) by (auto simp: holding_def)
  have kept: "still d td (retire ?at td')" using still_retire [OF td'(1) assms(3,4)] .
  have "(td_template_id td, retire ?at td') \<in> set (tp_retained_templates (retire_all_templates s))"
  proof (cases "tp_future_template s")
    case None
    then show ?thesis using td'(2) by (force simp: retire_all_templates_def)
  next
    case (Some f)
    have "td_template_id f \<notin> fst ` set (tp_retained_templates s)" using templates_okD(7) [OF assms(2) Some] by blast
    then have fresh: "td_template_id f \<notin> fst ` set (map (\<lambda>(i, td). (i, retire ?at td)) (tp_retained_templates s))"
      by (auto simp: image_image split_beta)
    show ?thesis
      using Some td' still_id [OF td'(1)] by (force simp: retire_all_templates_def Let_def update_fresh [OF fresh])
  qed
  then show ?thesis using kept by (auto simp: holding_def)
qed

text \<open>Publishing a new template.\<close>

lemma beyond_cap_form:
  obtains C where "tp_retained_templates (retire_templates_beyond_cap s) =
    map (\<lambda>(i, td). (i, if C i then retire (retirement_deadline s) td else td)) (tp_retained_templates s)"
proof (cases "length (live_template_ids s) \<le> tp_max_same_tip_templates s")
  case True
  then show ?thesis using that [of "\<lambda>_. False"] by (simp add: retire_templates_beyond_cap_def Let_def)
next
  case False
  then show ?thesis
    using that [of "\<lambda>i. i < sort (live_template_ids s) ! (length (live_template_ids s) - tp_max_same_tip_templates s)"]
    by (simp add: retire_templates_beyond_cap_def Let_def)
qed

lemma holding_beyond_cap:
  assumes "holding d td s" and "td_retire_at td = None" and "d \<le> retirement_deadline s"
  shows "holding d td (retire_templates_beyond_cap s)"
proof -
  obtain td' where td': "still d td td'"
    "tp_future_template s = Some td' \<or> (td_template_id td, td') \<in> set (tp_retained_templates s)"
    using assms(1) by (auto simp: holding_def)
  obtain C where C: "tp_retained_templates (retire_templates_beyond_cap s) =
    map (\<lambda>(i, td). (i, if C i then retire (retirement_deadline s) td else td)) (tp_retained_templates s)"
    by (rule beyond_cap_form)
  show ?thesis
  proof (cases "tp_future_template s = Some td'")
    case True
    then show ?thesis using td'(1) by (auto simp: holding_def)
  next
    case False
    let ?td = "if C (td_template_id td) then retire (retirement_deadline s) td' else td'"
    have "(td_template_id td, ?td) \<in> set (tp_retained_templates (retire_templates_beyond_cap s))"
      using td'(2) False by (force simp: C)
    moreover have "still d td ?td" using td'(1) still_retire [OF td'(1) assms(2,3)] by simp
    ultimately show ?thesis unfolding holding_def by blast
  qed
qed

lemma holding_publish:
  assumes "holding d td s" and "td_retire_at td = None" and "d \<le> retirement_deadline s" and "holds_ok (td_template_id new) s"
    and "fut \<Longrightarrow> tp_future_template s = None"
  shows "holding d td (snd (publish_template K new fut snph s))"
proof -
  have fresh: "td_template_id new \<notin> fst ` set (tp_retained_templates s)" using templates_okD(5) [OF assms(4)] by force
  have "holding d td (store_template_data new fut s)"
    using assms(1,5) update_fresh [OF fresh] by (auto simp: holding_def store_template_data_def)
  then have "holding d td (retire_templates_beyond_cap (store_template_data new fut s))"
    using assms(2,3) by (intro holding_beyond_cap) (auto simp: retirement_deadline_def store_template_data_def)
  then show ?thesis using assms(1)
    by (auto simp: publish_template_def Let_def holding_def split: attempt.split)
qed

lemma holding_same:
  "holding d td s \<Longrightarrow> tp_future_template s' = tp_future_template s \<Longrightarrow> tp_retained_templates s' = tp_retained_templates s \<Longrightarrow>
   holding d td s'"
  by (simp add: holding_def)

lemma bootstrap_holding:
  assumes "holding d td s" and "td_retire_at td = None" and "d \<le> retirement_deadline s" and "provider_ok s"
    and "tp_incoming s = AwaitTemplate client t"
  shows "holding d td (bootstrap_publishes K client (fetch_template_data K t client hdr cb path) s)"
proof (cases "fetch_template_data K t client hdr cb path")
  case (Inr new)
  have "holds_ok (td_template_id new) s" "tp_future_template s = None"
    using assms(4,5) fetched_fields [OF Inr] unfolding provider_ok_def by auto
  then have "holding d td (snd (publish_template K new True True s))" by (intro holding_publish assms(1-3)) simp_all
  then show ?thesis unfolding Inr
    by (cases "publish_template K new True True s")
      (auto simp: bootstrap_publishes_def fail_incoming_def elim!: holding_same split: attempt.splits)
qed (use assms(1) in \<open>auto simp: bootstrap_publishes_def fail_incoming_def elim!: holding_same\<close>)

lemma monitor_holding:
  assumes "holding d td s" and "td_retire_at td = None" and "d \<le> retirement_deadline s" and "provider_ok s"
    and "tp_monitor s = MonitorFetching client t last_sent"
  shows "holding d td (monitor_publishes K client last_sent (fetch_template_data K t client hdr cb path) s)"
proof (cases "fetch_template_data K t client hdr cb path")
  case (Inr new)
  have ok: "holds_ok (td_template_id new) s" using assms(4,5) fetched_fields [OF Inr] unfolding provider_ok_def by auto
  show ?thesis
  proof (cases "tp_current_prev_hash s")
    case None
    then show ?thesis using assms(1) unfolding Inr by (auto simp: monitor_publishes_def fail_monitor_def elim!: holding_same)
  next
    case (Some tip)
    let ?new = "get_prev_hash new \<noteq> tip"
    let ?s = "if ?new then retire_all_templates s else s"
    have "holding d td ?s" using holding_retire_all [OF assms(1) ok assms(2,3)] assms(1) by simp
    moreover have "holds_ok (td_template_id new) ?s" using holds_retire_all [OF ok] ok by simp
    ultimately have "holding d td (snd (publish_template K new ?new ?new ?s))"
      using assms(2,3) by (intro holding_publish) (auto simp: retirement_deadline_def)
    then show ?thesis unfolding Inr
      by (auto simp: monitor_publishes_def Some Let_def split_beta fail_monitor_def elim!: holding_same split: attempt.splits)
  qed
qed (use assms(1) in \<open>auto simp: monitor_publishes_def fail_monitor_def elim!: holding_same\<close>)

lemma sweep_holding:
  assumes "holding d td s" and "td_retire_at td = None" and "tp_now s < d"
  shows "holding d td (sweep s)"
  using assms still_not_due by (fastforce simp: holding_def sweep_def)

theorem tdp_step_holding:
  "tdp_step B K s s' \<Longrightarrow> provider_ok s \<Longrightarrow> holding d td s \<Longrightarrow> td_retire_at td = None \<Longrightarrow> d \<le> retirement_deadline s \<Longrightarrow>
   tp_now s' < d \<Longrightarrow> holding d td s'"
proof (induction rule: tdp_step.induct)
  case (bootstrap s client t hdr cb path)
  then show ?case by (auto intro: bootstrap_holding)
next
  case (monitored s client t last_sent hdr cb path)
  then show ?case by (auto intro: monitor_holding)
next
  case (swept s)
  then have "tp_now s < d" by (simp add: sweep_def)
  then show ?case using swept by (intro sweep_holding)
next
  case (joined s c)
  then have "holding d td (retire_all_templates s)" by (auto intro: holding_retire_all simp: provider_ok_def)
  then show ?case by (auto simp: monitor_joined_def elim!: holding_same)
qed (auto simp: step_defs bootstrap_done_def destroy_template_def take_template_id_def elim!: holding_same
    split: option.splits attempt.splits sum.splits)

lemma tdp_step_now: "tdp_step B K s s' \<Longrightarrow> tp_now s \<le> tp_now s'"
  by (induction rule: tdp_step.induct)
    (auto simp: step_defs bootstrap_done_def destroy_template_def take_template_id_def sweep_def monitor_joined_def
      bootstrap_publishes_def monitor_publishes_def Let_def split_beta split: option.splits attempt.splits sum.splits prod.splits)

end
