(* ===== verification/Template_Work.thy ===== *)
theory Template_Work
  imports Template_Feed Template_Grace Declared_Jobs
begin

text \<open>
  What the template runtime promises the pool: the order of its work, the life of a template, what it holds, and
  the room it reserves for the coinbase. The last section is a run on a small instance.
\<close>

section \<open>A run\<close>

text \<open>A header is read as its previous hash; every other answer of the node is a constant.\<close>

definition demo_block_lib :: block_lib where
  "demo_block_lib = \<lparr>
     header_deserialize = (\<lambda>bs. Some \<lparr>hdr_version = 2, hdr_prev_blockhash = of_nat (length bs), hdr_merkle_root = 0,
        hdr_time = 5, hdr_bits = 6, hdr_nonce = 0\<rparr>),
     block_deserialize = (\<lambda>_. None), txout_decode = (\<lambda>_. None), txout_serialize = (\<lambda>_. []),
     tx_serialize = (\<lambda>_. []), target_from_bits = (\<lambda>_. 9), pow_is_valid = (\<lambda>_. True), sha256d_pair = (\<lambda>h _. h)\<rparr>"

definition demo_ipc_coinbase :: ipc_coinbase where
  "demo_ipc_coinbase = \<lparr>ic_version = 2, ic_sequence = 1, ic_script_sig_prefix = Some [3], ic_witness = Some [],
     ic_block_reward_remaining = 50, ic_required_outputs = Some [], ic_lock_time = 0\<rparr>"

definition demo_fetch :: "u64 \<Rightarrow> nat \<Rightarrow> nat \<Rightarrow> (tdp_error, nat template_data) result" where
  "demo_fetch t client tip =
     fetch_template_data demo_block_lib t client (Some (replicate tip 0)) (Some demo_ipc_coinbase) (Some [])"

definition demo_constraints :: coinbase_output_constraints where
  "demo_constraints = \<lparr>max_additional_size = 74, max_additional_sigops = 4\<rparr>"

definition demo_provider :: "nat provider" where
  "demo_provider = provider_new 100 5 (Some 1) 0"

text \<open>The first constraints arrive and the first template is sent.\<close>

definition demo_asked :: "nat provider" where
  "demo_asked = (take_template_id demo_provider)\<lparr>tp_incoming := AwaitTemplate 1 0\<rparr>"

definition demo_first :: "nat provider" where
  "demo_first = bootstrap_publishes demo_block_lib 1 (demo_fetch 0 1 7) demo_asked"

definition demo_template :: "bool \<Rightarrow> u64 \<Rightarrow> new_template" where
  "demo_template fut t = \<lparr>tm_template_id = t, tm_future_template = fut, tm_version = 2, tm_coinbase_tx_version = 2,
     tm_coinbase_prefix = [3], tm_coinbase_tx_input_sequence = 1, tm_coinbase_tx_value_remaining = 50,
     tm_coinbase_tx_outputs_count = 0, tm_coinbase_tx_outputs = [], tm_coinbase_tx_locktime = 0, tm_merkle_path = []\<rparr>"

definition demo_prev_hash :: "u64 \<Rightarrow> nat \<Rightarrow> template_prev_hash" where
  "demo_prev_hash t tip = \<lparr>tph_template_id = t, tph_prev_hash = of_nat tip, tph_ntime_start = 5, tph_n_bits = 6,
     tph_target = 9\<rparr>"

definition demo_data :: "u64 \<Rightarrow> nat \<Rightarrow> nat \<Rightarrow> nat template_data" where
  "demo_data t client tip = template_data_new t
     \<lparr>hdr_version = 2, hdr_prev_blockhash = of_nat tip, hdr_merkle_root = 0, hdr_time = 5, hdr_bits = 6, hdr_nonce = 0\<rparr>
     \<lparr>tx_version = 2, tx_lock_time = 0,
      tx_input = [\<lparr>prev_txid = 0, prev_vout = -1, script_sig = [3], sequence = 1, witness = []\<rparr>], tx_output = []\<rparr>
     50 [] client"

lemma demo_fetched: "demo_fetch t client tip = Inr (demo_data t client tip)"
  by (simp add: demo_fetch_def fetch_template_data_def demo_block_lib_def demo_ipc_coinbase_def coinbase_tx_from_ipc_def
      demo_data_def)

lemma demo_message: "get_new_template_message demo_block_lib fut (demo_data t client tip) = Done (demo_template fut t)"
  by (simp add: get_new_template_message_def demo_data_def template_data_new_def get_version_def get_coinbase_tx_version_def
      get_serialized_required_coinbase_outputs_def Template_Data.get_merkle_path_def demo_template_def)

lemma demo_prev: "get_set_new_prev_hash_message demo_block_lib (demo_data t client tip) = demo_prev_hash t tip"
  by (simp add: get_set_new_prev_hash_message_def demo_data_def template_data_new_def get_prev_hash_def demo_prev_hash_def
      demo_block_lib_def)

lemma demo_data_fields [simp]:
  "get_prev_hash (demo_data t client tip) = of_nat tip" "td_template_id (demo_data t client tip) = t"
  "td_retire_at (demo_data t client tip) = None"
  by (simp_all add: get_prev_hash_def demo_data_def template_data_new_def)

text \<open>The state once the first template, with id 0 on the tip 7, is out and the monitor waits for the next.\<close>

definition demo_serving :: "nat provider" where
  "demo_serving = demo_provider\<lparr>tp_template_id_factory := 1, tp_future_template := Some (demo_data 0 1 7),
     tp_current_prev_hash := Some 7, tp_outgoing := [OutNewTemplate (demo_template True 0), OutSetNewPrevHash (demo_prev_hash 0 7)],
     tp_last_sent := Some 0, tp_current_template_ipc_client := Some 1, tp_retirement := Sweeping [],
     tp_incoming := AwaitMessage, tp_monitor := MonitorWaiting 1 (Some 0) MAX_MONEY 5000\<rparr>"

lemma demo_first_value:
  "demo_first = demo_provider\<lparr>tp_template_id_factory := 1, tp_future_template := Some (demo_data 0 1 7),
     tp_current_prev_hash := Some 7,
     tp_incoming := AwaitSend [OutNewTemplate (demo_template True 0), OutSetNewPrevHash (demo_prev_hash 0 7)] 1\<rparr>"
  by (simp add: demo_first_def bootstrap_publishes_def demo_fetched publish_template_def demo_message demo_prev
      store_template_data_def retire_templates_beyond_cap_def live_template_ids_def demo_asked_def demo_provider_def
      provider_new_def take_template_id_def)

lemma demo_first_reached: "tdp_reach demo_btc demo_block_lib demo_first"
proof -
  have "tdp_reach demo_btc demo_block_lib (demo_provider\<lparr>tp_incoming := AwaitNewBlock demo_constraints\<rparr>)"
    unfolding demo_provider_def by (rule tdp_reach.step [OF tdp_reach.new]) (rule tdp_step.first_constraints, simp add: provider_new_def)
  then have "tdp_reach demo_btc demo_block_lib demo_asked"
    by (rule tdp_reach.step)
      (use tdp_step.created [where s = "demo_provider\<lparr>tp_incoming := AwaitNewBlock demo_constraints\<rparr>" and client = 1]
        in \<open>simp add: demo_asked_def take_template_id_def ids_left_def demo_provider_def provider_new_def\<close>)
  then show ?thesis unfolding demo_first_def demo_fetch_def
    by (rule tdp_reach.step) (rule tdp_step.bootstrap, simp_all add: demo_asked_def take_template_id_def demo_provider_def provider_new_def)
qed

lemma demo_serving_reached: "tdp_reach demo_btc demo_block_lib demo_serving"
proof -
  let ?K = demo_block_lib
  let ?send = "\<lambda>m ms s. send_or_fail True m (\<lambda>s. s\<lparr>tp_incoming := AwaitSend ms (1::nat)\<rparr>) fail_incoming s"
  let ?nt = "OutNewTemplate (demo_template True 0)" and ?ph = "OutSetNewPrevHash (demo_prev_hash 0 7)"
  have "tdp_reach demo_btc ?K (?send ?nt [?ph] demo_first)"
    by (rule tdp_reach.step [OF demo_first_reached]) (rule tdp_step.bootstrap_send, simp add: demo_first_value)
  then have "tdp_reach demo_btc ?K (?send ?ph [] (?send ?nt [?ph] demo_first))"
    by (rule tdp_reach.step) (rule tdp_step.bootstrap_send, simp add: send_or_fail_def)
  then have "tdp_reach demo_btc ?K (bootstrap_done 1 (?send ?ph [] (?send ?nt [?ph] demo_first)))"
    by (rule tdp_reach.step) (rule tdp_step.bootstrapped, simp add: send_or_fail_def)
  then have "tdp_reach demo_btc ?K
      (start_monitor True (Some 0) (bootstrap_done 1 (?send ?ph [] (?send ?nt [?ph] demo_first))))"
    by (rule tdp_reach.step)
      (rule tdp_step.monitor_starts, simp add: bootstrap_done_def send_or_fail_def demo_first_value demo_provider_def provider_new_def)
  then show ?thesis
    by (simp add: bootstrap_done_def send_or_fail_def demo_first_value demo_provider_def provider_new_def start_monitor_def
        wait_next_def wait_next_parameters_def WAIT_NEXT_TIMEOUT_MS_def demo_serving_def)
qed

text \<open>Three seconds later the node has another template, with the id 1.\<close>

definition demo_later :: "nat provider" where
  "demo_later = demo_serving\<lparr>tp_now := 3000000000, tp_template_id_factory := 2, tp_monitor := MonitorFetching 2 1 (Some 0)\<rparr>"

lemma demo_later_steps: "(tdp_step demo_btc demo_block_lib)\<^sup>*\<^sup>* demo_serving demo_later"
proof -
  have "tdp_step demo_btc demo_block_lib demo_serving (demo_serving\<lparr>tp_now := 3000000000\<rparr>)"
    using tdp_step.time [where s = demo_serving and n = 3000000000] by (simp add: demo_serving_def demo_provider_def provider_new_def)
  moreover have "tdp_step demo_btc demo_block_lib (demo_serving\<lparr>tp_now := 3000000000\<rparr>) demo_later"
    using tdp_step.next_template [where s = "demo_serving\<lparr>tp_now := 3000000000\<rparr>" and client = 2]
    by (simp add: demo_later_def demo_serving_def ids_left_def take_template_id_def)
  ultimately show ?thesis by simp
qed

lemma reach_steps: "(tdp_step B K)\<^sup>*\<^sup>* s s' \<Longrightarrow> tdp_reach B K s \<Longrightarrow> tdp_reach B K s'"
  by (induction rule: rtranclp_induct) (auto intro: tdp_reach.step)

lemma demo_later_reached: "tdp_reach demo_btc demo_block_lib demo_later"
  by (rule reach_steps [OF demo_later_steps demo_serving_reached])

text \<open>It is on the tip 8.\<close>

definition demo_new_tip :: "nat provider" where
  "demo_new_tip = monitor_publishes demo_block_lib 2 (Some 0) (demo_fetch 1 2 8) demo_later"

lemma demo_new_tip_step: "tdp_step demo_btc demo_block_lib demo_later demo_new_tip"
  unfolding demo_new_tip_def demo_fetch_def
  by (rule tdp_step.monitored) (simp_all add: demo_later_def demo_serving_def demo_provider_def provider_new_def)

lemma demo_new_tip_steps: "(tdp_step demo_btc demo_block_lib)\<^sup>*\<^sup>* demo_serving demo_new_tip"
  using demo_later_steps demo_new_tip_step by (rule rtranclp.rtrancl_into_rtrancl)

lemma demo_new_tip_value:
  "demo_new_tip = demo_later\<lparr>tp_retained_templates := [(0, retire 13000000000 (demo_data 0 1 7))],
     tp_future_template := Some (demo_data 1 2 8), tp_current_prev_hash := Some 8,
     tp_monitor := MonitorSending [OutNewTemplate (demo_template True 1), OutSetNewPrevHash (demo_prev_hash 1 8)] 2 False (Some 0)\<rparr>"
  by (simp add: demo_new_tip_def monitor_publishes_def demo_fetched publish_template_def demo_message demo_prev
      store_template_data_def retire_templates_beyond_cap_def live_template_ids_def demo_later_def demo_serving_def
      demo_provider_def provider_new_def retire_all_templates_def retirement_deadline_def from_secs_def
      STALE_TEMPLATE_GRACE_PERIOD_SECS_def retire_def)

section \<open>What the pool can rely on\<close>

lemma template_data_for_held:
  assumes "holds_ok bound s"
  shows "template_data_for i s = Some td \<longleftrightarrow>
    (tp_future_template s = Some td \<and> td_template_id td = i) \<or> (i, td) \<in> set (tp_retained_templates s)"
proof -
  note ok = templates_okD [OF assms]
  have "map_of (tp_retained_templates s) i = Some td \<longleftrightarrow> (i, td) \<in> set (tp_retained_templates s)"
    using ok(2) by simp
  moreover have "(i, td) \<notin> set (tp_retained_templates s)" if "tp_future_template s = Some f" "td_template_id f = i" for f
    using ok(7) [OF that(1)] that(2) by force
  ultimately show ?thesis by (auto simp: template_data_for_def split: option.split)
qed

lemma holding_is_held:
  assumes "provider_ok s" and "holding d td s"
  shows "\<exists>td'. still d td td' \<and> template_data_for (td_template_id td) s = Some td'"
proof -
  have ok: "holds_ok (tp_template_id_factory s) s" using assms(1) by (simp add: provider_ok_def)
  obtain td' where td': "still d td td'"
    "tp_future_template s = Some td' \<or> (td_template_id td, td') \<in> set (tp_retained_templates s)"
    using assms(2) by (auto simp: holding_def)
  then have "template_data_for (td_template_id td) s = Some td'"
    using still_id [OF td'(1)] template_data_for_held [OF ok, of "td_template_id td" td'] by blast
  then show ?thesis using td'(1) by blast
qed

lemma grace_period:
  assumes "(tdp_step B K)\<^sup>*\<^sup>* s s'" and "provider_ok s" and "td_retire_at td = None" and "holding d td s"
    and "d \<le> retirement_deadline s"
  shows "provider_ok s' \<and> d \<le> retirement_deadline s' \<and> (tp_now s' < d \<longrightarrow> holding d td s')"
  using assms(1)
proof (induction rule: rtranclp_induct)
  case (step y z)
  have "tp_now y \<le> tp_now z" using tdp_step_now [OF step.hyps(2)] .
  then show ?case
    using step tdp_step_ok [OF step.hyps(2)] tdp_step_holding [OF step.hyps(2) _ _ assms(3), of d]
    by (auto simp: retirement_deadline_def)
qed (use assms(2,4,5) in simp)

text \<open>
  C23. A template in force can still be solved for the whole grace period after it is superseded. If the
  runtime holds a template that is not retired, then in every state that any interleaving of its tasks
  reaches less than ten seconds later, a solution for it is passed to the node on that same template, the same
  in everything but its deadline, which has not come yet: neither new tips, nor new constraints, nor newer
  templates on the same tip, nor the sweep takes it away before.
\<close>

theorem superseded_template_can_still_be_solved:
  assumes "tdp_reach B K s" and "template_data_for (sol_template_id msg) s = Some td" and "td_retire_at td = None"
    and "(tdp_step B K)\<^sup>*\<^sup>* s s'" and "tp_now s' < tp_now s + from_secs STALE_TEMPLATE_GRACE_PERIOD_SECS"
  shows "\<exists>td'. handle_submit_solution True msg s' = s'\<lparr>tp_incoming := AwaitVerdict td' msg\<rparr> \<and>
    (td' = td \<or> (\<exists>at \<ge> tp_now s + from_secs STALE_TEMPLATE_GRACE_PERIOD_SECS. td' = td\<lparr>td_retire_at := Some at\<rparr>))"
proof -
  let ?d = "tp_now s + from_secs STALE_TEMPLATE_GRACE_PERIOD_SECS"
  have ok: "provider_ok s" using tdp_reach_ok [OF assms(1)] .
  then have "holds_ok (tp_template_id_factory s) s" by (simp add: provider_ok_def)
  then have held: "tp_future_template s = Some td \<and> td_template_id td = sol_template_id msg \<or>
    (sol_template_id msg, td) \<in> set (tp_retained_templates s) \<and> td_template_id td = sol_template_id msg"
    using template_data_for_held assms(2) templates_okD(5) by blast
  then have "holding ?d td s" by (auto simp: holding_def still_def)
  then have "provider_ok s'" "holding ?d td s'"
    using grace_period [OF assms(4) ok assms(3)] assms(5) by (auto simp: retirement_deadline_def)
  from holding_is_held [OF this] held obtain td'
    where "still ?d td td'" "template_data_for (sol_template_id msg) s' = Some td'" by auto
  then show ?thesis by (intro exI [of _ td']) (simp add: handle_submit_solution_def still_def)
qed

theorem superseded_template_can_still_be_solved_witness:
  "handle_submit_solution True \<lparr>sol_template_id = 0, sol_version = 2, sol_ntime = 6, sol_nonce = 1, sol_coinbase_tx = [1]\<rparr>
     demo_new_tip \<noteq> demo_new_tip"
  using superseded_template_can_still_be_solved [OF demo_serving_reached, where s' = demo_new_tip and td = "demo_data 0 1 7"
      and msg = "\<lparr>sol_template_id = 0, sol_version = 2, sol_ntime = 6, sol_nonce = 1, sol_coinbase_tx = [1]\<rparr>"]
    demo_new_tip_steps
  by (auto simp: demo_serving_def demo_provider_def provider_new_def template_data_for_def demo_new_tip_value demo_later_def
      from_secs_def STALE_TEMPLATE_GRACE_PERIOD_SECS_def dest: arg_cong [where f = tp_incoming])

text \<open>
  C24. The work of the runtime arrives in order. In every run, each \<open>SetNewPrevHash\<close> follows, with no other work
  message in between, a future \<open>NewTemplate\<close> of the same id; after a future template no other work is sent
  before its \<open>SetNewPrevHash\<close>; the ids of the templates grow strictly; and while the connection is up and nothing
  is about to be sent, no future template waits for its \<open>SetNewPrevHash\<close>.
\<close>

theorem template_feed_is_ordered:
  assumes "tdp_reach B K s"
  shows "sorted_wrt (<) (template_ids (tp_outgoing s)) \<and>
    (\<forall>xs p ys. tp_outgoing s = xs @ OutSetNewPrevHash p # ys \<longrightarrow>
      (\<exists>ms m. filter is_work xs = ms @ [OutNewTemplate m] \<and> tm_future_template m \<and> tm_template_id m = tph_template_id p)) \<and>
    (\<forall>xs m w ys. filter is_work (tp_outgoing s) = xs @ OutNewTemplate m # w # ys \<and> tm_future_template m \<longrightarrow>
      (\<exists>p. w = OutSetNewPrevHash p \<and> tph_template_id p = tm_template_id m)) \<and>
    (\<forall>xs m. \<not> tp_cancelled s \<and> queued s = [] \<and> filter is_work (tp_outgoing s) = xs @ [OutNewTemplate m] \<longrightarrow>
      \<not> tm_future_template m)"
proof (intro conjI allI impI)
  have ok: "feed_ok s" using tdp_reach_feed [OF assms] .
  have "prefix (filter is_work (tp_outgoing s)) (work_messages s)" by (simp add: work_messages_def)
  then have work: "feed (None, None) (filter is_work (tp_outgoing s)) \<noteq> None"
    using ok feed_prefix unfolding feed_ok_def by blast
  then have fed: "feed (None, None) (tp_outgoing s) \<noteq> None" by (simp add: feed_work)
  show "sorted_wrt (<) (template_ids (tp_outgoing s))" using feed_ids [OF fed] by simp
  show "\<exists>ms m. filter is_work xs = ms @ [OutNewTemplate m] \<and> tm_future_template m \<and> tm_template_id m = tph_template_id p"
    if "tp_outgoing s = xs @ OutSetNewPrevHash p # ys" for xs p ys
    using fed that by (intro feed_prev_hash) simp
  show "\<exists>p. w = OutSetNewPrevHash p \<and> tph_template_id p = tm_template_id m"
    if "filter is_work (tp_outgoing s) = xs @ OutNewTemplate m # w # ys \<and> tm_future_template m" for xs m w ys
  proof (rule feed_future)
    show "feed (None, None) (xs @ OutNewTemplate m # w # ys) \<noteq> None" using work that by simp
    have "w \<in> set (filter is_work (tp_outgoing s))" using that by simp
    then show "is_work w" by simp
  qed (use that in simp)
  show "\<not> tm_future_template m"
    if "\<not> tp_cancelled s \<and> queued s = [] \<and> filter is_work (tp_outgoing s) = xs @ [OutNewTemplate m]" for xs m
    using ok that unfolding feed_ok_def by (auto simp: work_messages_def feed_append bind_eq_Some_conv split: if_splits)
qed

theorem template_feed_is_ordered_witness:
  "template_ids (tp_outgoing demo_serving) = [0] \<and> tp_outgoing demo_serving \<noteq> [] \<and>
   sorted_wrt (<) (template_ids (tp_outgoing demo_serving)) \<and> \<not> tp_cancelled demo_serving"
  using template_feed_is_ordered [OF demo_serving_reached]
  by (simp add: demo_serving_def demo_provider_def provider_new_def demo_template_def)

text \<open>
  C25. What the runtime holds is bounded and current. In every run at most the agreed number of retained
  templates is not retired; every template that is not retired builds on the tip that was last announced and is
  found under its own id; the future template is never retired; and a template is destroyed at most once, and
  never while a message could still find it.
\<close>

theorem held_templates_are_bounded_and_current:
  assumes "tdp_reach B K s"
  shows "length (live_template_ids s) \<le> tp_max_same_tip_templates s \<and>
    (\<forall>i td. template_data_for i s = Some td \<and> td_retire_at td = None \<longrightarrow>
      td_template_id td = i \<and> tp_current_prev_hash s = Some (get_prev_hash td)) \<and>
    (\<forall>f. tp_future_template s = Some f \<longrightarrow> td_retire_at f = None) \<and>
    distinct (tp_destroyed s) \<and> (\<forall>i \<in> set (tp_destroyed s). template_data_for i s = None)"
proof (intro conjI allI impI ballI)
  have held: "holds_ok (tp_template_id_factory s) s" using tdp_reach_ok [OF assms] by (simp add: provider_ok_def)
  note ok = templates_okD [OF held]
  show "length (live_template_ids s) \<le> tp_max_same_tip_templates s" using ok(3) by (simp add: live_def live_template_ids_def)
  fix i td
  assume td: "template_data_for i s = Some td \<and> td_retire_at td = None"
  then consider "tp_future_template s = Some td" "td_template_id td = i" | "(i, td) \<in> set (tp_retained_templates s)"
    using template_data_for_held [OF held] by blast
  then show "td_template_id td = i" "tp_current_prev_hash s = Some (get_prev_hash td)"
    using ok(5,6,7) td by (cases; blast)+
next
  fix f
  assume "tp_future_template s = Some f"
  then show "td_retire_at f = None"
    using tdp_reach_ok [OF assms] templates_okD(7) unfolding provider_ok_def by blast
next
  have held: "holds_ok (tp_template_id_factory s) s" using tdp_reach_ok [OF assms] by (simp add: provider_ok_def)
  note ok = templates_okD [OF held]
  show "distinct (tp_destroyed s)" using ok(4) by (simp add: gone_def)
  show "template_data_for i s = None" if "i \<in> set (tp_destroyed s)" for i
  proof -
    have "i \<in> set (gone s)" using that by (simp add: gone_def)
    then show ?thesis
      using ok(8) [of i] template_data_for_held [OF held, of i]
      by (cases "template_data_for i s") (force simp: image_iff)+
  qed
qed

theorem held_templates_are_bounded_and_current_witness:
  "tp_retained_templates demo_new_tip \<noteq> [] \<and> length (live_template_ids demo_new_tip) \<le> 1 \<and>
   td_retire_at (demo_data 1 2 8) = None \<and> tp_current_prev_hash demo_new_tip = Some (get_prev_hash (demo_data 1 2 8))"
  using held_templates_are_bounded_and_current [OF reach_steps [OF demo_new_tip_steps demo_serving_reached]]
  by (simp add: demo_new_tip_value demo_later_def demo_serving_def demo_provider_def provider_new_def effective_retention_def)

lemma live_ids: "live_template_ids s = live (tp_retained_templates s)"
  by (simp add: live_template_ids_def live_def)

lemma cap_retires_the_rest:
  assumes "i \<in> set (live_template_ids s)" and "i \<notin> set (live_template_ids (retire_templates_beyond_cap s))"
  shows "\<exists>td. (i, td) \<in> set (tp_retained_templates (retire_templates_beyond_cap s)) \<and>
    td_retire_at td = Some (retirement_deadline s)"
proof -
  obtain C where C: "tp_retained_templates (retire_templates_beyond_cap s) =
    map (\<lambda>(i, td). (i, if C i then retire (retirement_deadline s) td else td)) (tp_retained_templates s)"
    by (rule beyond_cap_form)
  obtain td where td: "(i, td) \<in> set (tp_retained_templates s)" "td_retire_at td = None"
    using assms(1) by (auto simp: live_ids set_live)
  let ?td = "if C i then retire (retirement_deadline s) td else td"
  have new: "(i, ?td) \<in> set (tp_retained_templates (retire_templates_beyond_cap s))" using td(1) by (force simp: C)
  then have "td_retire_at ?td \<noteq> None" using assms(2) by (auto simp: live_ids set_live)
  then have "C i" using td(2) by (cases "C i") auto
  then show ?thesis using new retire_live [OF td(2)] by auto
qed

lemma sort_snoc:
  fixes x :: "'a::linorder"
  assumes "distinct (x # xs)"
  shows "sort (xs @ [x]) = sort (x # xs)"
  by (rule sorted_distinct_set_unique) (use assms in \<open>auto simp: distinct_sort simp del: sort_key_simps\<close>)

text \<open>Storing a template on the current tip, with the cap applied.\<close>

lemma newest_after_store:
  assumes "holds_ok t s" and "td_template_id td = t" and "td_retire_at td = None"
  shows "set (live_template_ids (retire_templates_beyond_cap (store_template_data td False s))) =
    set (take (tp_max_same_tip_templates s) (rev (sort (t # live_template_ids s))))"
proof -
  note ok = templates_okD [OF assms(1)]
  let ?s = "store_template_data td False s" and ?R = "tp_retained_templates s @ [(t, td)]"
  let ?cap = "tp_max_same_tip_templates s" and ?ids = "sort (t # live_template_ids s)"
  have fresh: "t \<notin> fst ` set (tp_retained_templates s)" using ok(5) by force
  have R: "tp_retained_templates ?s = ?R" and cap: "tp_max_same_tip_templates ?s = ?cap"
    using update_fresh [OF fresh] assms(2) by (simp_all add: store_template_data_def)
  have "distinct (t # live_template_ids s)" using distinct_live [OF ok(2)] fresh by (auto simp: live_ids set_live image_iff)
  then have old: "sort (live ?R) = ?ids" using assms(3) sort_snoc [of t] by (simp add: live_ids del: sort_key_simps)
  have "distinct (map fst (tp_retained_templates ?s))" using ok(2) fresh R by simp
  from cap_keeps_newest(1) [OF this] ok(1) cap
  have "set (live_template_ids (retire_templates_beyond_cap ?s)) = set (drop (length (live ?R) - ?cap) (sort (live ?R)))"
    by (simp add: live_ids R)
  also have "\<dots> = set (drop (length ?ids - ?cap) ?ids)" unfolding old using assms(3) by (simp add: live_ids)
  also have "\<dots> = set (take ?cap (rev ?ids))" by (simp add: take_rev del: sort_key_simps)
  finally show ?thesis .
qed

text \<open>
  A template on the current tip supersedes exactly the oldest ones. When the node's next template does not
  change the tip, then afterwards the retained templates in force are the new one and the newest of those before,
  as many as the agreed number allows; the future template stays; and what is superseded is kept for the
  grace period.
\<close>

theorem newest_templates_stay_in_force:
  assumes "tdp_reach B K s" and "tp_monitor s = MonitorFetching client t last_sent"
    and "fetch_template_data K t client hdr cb path = Ok td" and "tp_current_prev_hash s = Some (get_prev_hash td)"
    and "get_new_template_message K False td = Done m"
  defines "s' \<equiv> monitor_publishes K client last_sent (fetch_template_data K t client hdr cb path) s"
  shows "set (live_template_ids s') = set (take (tp_max_same_tip_templates s) (rev (sort (t # live_template_ids s)))) \<and>
    tp_future_template s' = tp_future_template s \<and>
    (\<forall>i \<in> set (live_template_ids s) - set (live_template_ids s').
      \<exists>td'. template_data_for i s' = Some td' \<and> td_retire_at td' = Some (retirement_deadline s))"
proof -
  let ?s = "store_template_data td False s"
  have prov: "provider_ok s" using tdp_reach_ok [OF assms(1)] .
  have held: "holds_ok t s" using prov assms(2) unfolding provider_ok_def by simp
  have td: "td_template_id td = t" "td_retire_at td = None" using fetched_fields [OF assms(3)] by simp_all
  have s': "s' = (retire_templates_beyond_cap ?s)\<lparr>tp_monitor := MonitorSending [OutNewTemplate m] client True last_sent\<rparr>"
    by (simp add: s'_def assms(3,4,5) monitor_publishes_def publish_template_def Let_def)
  have live': "live_template_ids s' = live_template_ids (retire_templates_beyond_cap ?s)" by (simp add: live_ids s')
  have held': "holds_ok (tp_template_id_factory s') s'"
    using monitored_ok [OF prov assms(2)] unfolding s'_def provider_ok_def by blast
  have late: "template_data_for i s' = Some td' \<and> td_retire_at td' = Some (retirement_deadline s)"
    if "(i, td') \<in> set (tp_retained_templates (retire_templates_beyond_cap ?s))"
      "td_retire_at td' = Some (retirement_deadline ?s)" for i td'
    using that template_data_for_held [OF held', of i td'] by (simp add: s' retirement_deadline_def store_template_data_def)
  have kept: "i \<in> set (live_template_ids ?s)" if "i \<in> set (live_template_ids s)" for i
    using that update_fresh [of t "tp_retained_templates s"] templates_okD(5) [OF held] td
    by (force simp: live_ids set_live store_template_data_def)
  show ?thesis
  proof (intro conjI ballI)
    show "set (live_template_ids s') = set (take (tp_max_same_tip_templates s) (rev (sort (t # live_template_ids s))))"
      unfolding live' by (rule newest_after_store [OF held td])
    show "tp_future_template s' = tp_future_template s" by (simp add: s' store_template_data_def)
    show "\<exists>td'. template_data_for i s' = Some td' \<and> td_retire_at td' = Some (retirement_deadline s)"
      if "i \<in> set (live_template_ids s) - set (live_template_ids s')" for i
      using that kept late cap_retires_the_rest [of i ?s] unfolding live' by blast
  qed
qed

theorem newest_templates_stay_in_force_witness:
  "set (live_template_ids (monitor_publishes demo_block_lib 2 (Some 0) (demo_fetch 1 2 7) demo_later)) = {1} \<and>
   tp_future_template (monitor_publishes demo_block_lib 2 (Some 0) (demo_fetch 1 2 7) demo_later) = Some (demo_data 0 1 7)"
  using newest_templates_stay_in_force [OF demo_later_reached, of 2 1 "Some 0" "Some (replicate 7 0)" "Some demo_ipc_coinbase"
      "Some []" "demo_data 1 2 7" "demo_template False 1"] demo_fetched [of 1 2 7] demo_message [of False 1 2 7]
  by (simp add: demo_fetch_def demo_later_def demo_serving_def demo_provider_def provider_new_def effective_retention_def
      live_template_ids_def)

section \<open>The room for the coinbase\<close>

lemma reserved_weight:
  "unat (block_reserved_weight c) = max (unat FIXED_BLOCK_RESERVED_WEIGHT + 4 * unat (max_additional_size c)) 2000"
proof -
  have small: "unat (max_additional_size c) < 2 ^ 32" using unsigned_less [of "max_additional_size c"] by simp
  have "unat (ucast (max_additional_size c) * WEIGHT_FACTOR :: u64) = unat (max_additional_size c) * 4"
    using small by (simp add: WEIGHT_FACTOR_def unat_word_ariths unsigned_ucast_eq take_bit_nat_eq_self)
  then have "unat (FIXED_BLOCK_RESERVED_WEIGHT + ucast (max_additional_size c) * WEIGHT_FACTOR) =
      unat FIXED_BLOCK_RESERVED_WEIGHT + 4 * unat (max_additional_size c)"
    using small by (simp add: FIXED_BLOCK_RESERVED_WEIGHT_def unat_word_ariths)
  then show ?thesis
    by (simp add: block_reserved_weight_def MIN_BLOCK_RESERVED_WEIGHT_def max_def word_le_nat_alt)
qed



section \<open>Solutions\<close>

text \<open>The path the node gives with a template leads from any coinbase to the merkle root of the block with that
  coinbase and the node's transactions.\<close>

definition path_of_block :: "btc_lib \<Rightarrow> block_lib \<Rightarrow> 'c template_data \<Rightarrow> block \<Rightarrow> bool" where
  "path_of_block B K td blk \<longleftrightarrow>
     (\<forall>coinbase_txid. foldl (sha256d_pair K) coinbase_txid (td_merkle_path td) =
        merkle_root B (coinbase_txid # map (compute_txid B) (tl (blk_txdata blk))))"

text \<open>
  A block is archived only as a block the node could take. What is written to disk has the solution's
  coinbase in place of the node's and the node's other transactions; its header commits to just these, builds on
  the template's tip with the template's difficulty, has the solution's version, time and nonce, and meets its
  own target; and the coinbase differs from the template's in nothing but its script and its outputs.
\<close>

theorem archived_block_commits_to_the_solution:
  assumes "archive_solution B K sol msg (Some answer) written td = Done blk" and "block_deserialize K answer = Some node_blk"
    and "path_of_block B K td node_blk"
  shows "hdr_merkle_root (blk_header blk) = merkle_root B (map (compute_txid B) (blk_txdata blk)) \<and>
    blk_txdata blk = sol # tl (blk_txdata node_blk) \<and> pow_is_valid K (blk_header blk) \<and>
    hdr_prev_blockhash (blk_header blk) = get_prev_hash td \<and> hdr_bits (blk_header blk) = hdr_bits (td_header td) \<and>
    hdr_version (blk_header blk) = sol_version msg \<and> hdr_time (blk_header blk) = sol_ntime msg \<and>
    hdr_nonce (blk_header blk) = sol_nonce msg \<and>
    (\<exists>a. tx_input sol = [a] \<and> tx_version sol = tx_version (td_coinbase_tx td) \<and>
      tx_lock_time sol = tx_lock_time (td_coinbase_tx td) \<and>
      sequence a = sequence (hd (tx_input (td_coinbase_tx td))) \<and> witness a = witness (hd (tx_input (td_coinbase_tx td))))"
proof -
  have congruent: "solution_is_congruent sol td = Some True" and pow: "pow_is_valid K (solution_header B K sol msg td)"
    and blk: "blk = \<lparr>blk_header = solution_header B K sol msg td, blk_txdata = sol # tl (blk_txdata node_blk)\<rparr>"
    using assms(1,2) by (auto simp: archive_solution_def Let_def split: option.splits bool.splits if_splits list.splits)
  have "\<exists>a. tx_input sol = [a] \<and> tx_version sol = tx_version (td_coinbase_tx td) \<and>
      tx_lock_time sol = tx_lock_time (td_coinbase_tx td) \<and>
      sequence a = sequence (hd (tx_input (td_coinbase_tx td))) \<and> witness a = witness (hd (tx_input (td_coinbase_tx td)))"
    using congruent by (auto simp: solution_is_congruent_def Let_def split: if_splits list.splits)
  moreover have "hdr_merkle_root (solution_header B K sol msg td) =
      merkle_root B (compute_txid B sol # map (compute_txid B) (tl (blk_txdata node_blk)))"
    using assms(3) by (simp add: solution_header_def solution_merkle_root_def path_of_block_def)
  ultimately show ?thesis using pow blk by (simp add: solution_header_def get_prev_hash_def)
qed

definition demo_archive_lib :: block_lib where
  "demo_archive_lib = demo_block_lib\<lparr>block_deserialize := (\<lambda>_. Some \<lparr>blk_header = td_header (demo_data 0 1 7),
     blk_txdata = [td_coinbase_tx (demo_data 0 1 7)]\<rparr>)\<rparr>"

theorem archived_block_commits_to_the_solution_witness:
  "hdr_merkle_root (solution_header demo_btc demo_archive_lib (td_coinbase_tx (demo_data 0 1 7))
     \<lparr>sol_template_id = 0, sol_version = 2, sol_ntime = 6, sol_nonce = 1, sol_coinbase_tx = [1]\<rparr> (demo_data 0 1 7)) =
   merkle_root demo_btc [compute_txid demo_btc (td_coinbase_tx (demo_data 0 1 7))]"
proof -
  let ?td = "demo_data 0 1 7" and ?K = demo_archive_lib
  let ?msg = "\<lparr>sol_template_id = 0, sol_version = 2, sol_ntime = 6, sol_nonce = 1, sol_coinbase_tx = [1]\<rparr>"
  let ?node = "\<lparr>blk_header = td_header ?td, blk_txdata = [td_coinbase_tx ?td]\<rparr>"
  let ?blk = "\<lparr>blk_header = solution_header demo_btc ?K (td_coinbase_tx ?td) ?msg ?td, blk_txdata = [td_coinbase_tx ?td]\<rparr>"
  have "archive_solution demo_btc ?K (td_coinbase_tx ?td) ?msg (Some []) True ?td = Done ?blk"
    by (simp add: archive_solution_def solution_is_congruent_def demo_archive_lib_def demo_block_lib_def demo_data_def
        template_data_new_def same_outpoint_def)
  moreover have "block_deserialize ?K [] = Some ?node" by (simp add: demo_archive_lib_def)
  moreover have "path_of_block demo_btc ?K ?td ?node"
    by (simp add: path_of_block_def demo_data_def template_data_new_def merkle_root.simps)
  ultimately show ?thesis using archived_block_commits_to_the_solution [of demo_btc ?K _ ?msg "[]" True ?td ?blk ?node] by simp
qed

end
