(* ===== verification/Share_Cache.thy ===== *)
theory Share_Cache
  imports Mining_Messages "HOL-Library.Multiset"
begin

text \<open>
  The cache of shares that wait for the pool to accept their job (\<open>miner-apps/jd-client/src/lib/utils.rs\<close>:
  \<open>SharesOrderedByDiff\<close>, \<open>add_share_to_cache\<close>), over the \<open>BinaryHeap\<close> of the standard library, whose array and
  sifting are modelled because a heap is iterated in the order of its array. The proof-of-work value of a
  share is the number its hash is, in little-endian order.

  The heap keeps its order under a push and a pop, its root is a greatest element, and so the cache holds the
  hundred lowest values of the shares it was given, whatever the order they came in.
\<close>

section \<open>The binary heap\<close>

definition heap_parent :: "nat \<Rightarrow> nat" where
  "heap_parent i = (i - 1) div 2"

definition heap_swap :: "nat \<Rightarrow> nat \<Rightarrow> 'a list \<Rightarrow> 'a list" where
  "heap_swap i j xs = xs[j := xs ! i, i := xs ! j]"

lemma length_heap_swap [simp]: "length (heap_swap i j xs) = length xs"
  by (simp add: heap_swap_def)

lemma heap_parent_less [simp]: "0 < i \<Longrightarrow> heap_parent i < i"
  by (simp add: heap_parent_def)

function sift_up :: "('a \<Rightarrow> 'k::linorder) \<Rightarrow> nat \<Rightarrow> 'a list \<Rightarrow> 'a list" where
  "sift_up key pos xs =
     (if pos = 0 then xs
      else if key (xs ! pos) \<le> key (xs ! heap_parent pos) then xs
      else sift_up key (heap_parent pos) (heap_swap pos (heap_parent pos) xs))"
  by pat_completeness auto
termination by (relation "measure (\<lambda>(key, pos, xs). pos)") auto

declare sift_up.simps [simp del]

text \<open>\<open>sift_down_to_bottom\<close>, up to its final \<open>sift_up\<close>: the greater child moves up until the element has no
  child left.\<close>

definition greater_child :: "('a \<Rightarrow> 'k::linorder) \<Rightarrow> nat \<Rightarrow> 'a list \<Rightarrow> nat" where
  "greater_child key pos xs =
     (if key (xs ! (2 * pos + 1)) \<le> key (xs ! (2 * pos + 2)) then 2 * pos + 2 else 2 * pos + 1)"

function sift_down_to_bottom :: "('a \<Rightarrow> 'k::linorder) \<Rightarrow> nat \<Rightarrow> 'a list \<Rightarrow> nat \<times> 'a list" where
  "sift_down_to_bottom key pos xs =
     (if 2 * pos + 2 < length xs
      then sift_down_to_bottom key (greater_child key pos xs) (heap_swap pos (greater_child key pos xs) xs)
      else if 2 * pos + 2 = length xs then (2 * pos + 1, heap_swap pos (2 * pos + 1) xs)
      else (pos, xs))"
  by pat_completeness auto
termination by (relation "measure (\<lambda>(key, pos, xs). length xs - pos)") (auto simp: greater_child_def)

declare sift_down_to_bottom.simps [simp del]

definition heap_push :: "('a \<Rightarrow> 'k::linorder) \<Rightarrow> 'a \<Rightarrow> 'a list \<Rightarrow> 'a list" where
  "heap_push key x xs = sift_up key (length xs) (xs @ [x])"

definition heap_peek :: "'a list \<Rightarrow> 'a option" where
  "heap_peek xs = (case xs of [] \<Rightarrow> None | x # _ \<Rightarrow> Some x)"

definition heap_pop :: "('a \<Rightarrow> 'k::linorder) \<Rightarrow> 'a list \<Rightarrow> 'a option \<times> 'a list" where
  "heap_pop key xs =
     (if xs = [] then (None, [])
      else if butlast xs = [] then (Some (List.last xs), [])
      else (Some (hd xs),
            (case sift_down_to_bottom key 0 ((butlast xs)[0 := List.last xs]) of (pos, ys) \<Rightarrow> sift_up key pos ys)))"

section \<open>The cache\<close>

definition CACHED_SHARES_CAPACITY :: nat where
  "CACHED_SHARES_CAPACITY = 100"

record cached_share =
  cs_share :: submit_shares_extended
  cs_target :: target

definition shares_ordered_by_diff :: "submit_shares_extended \<Rightarrow> hash \<Rightarrow> cached_share" where
  "shares_ordered_by_diff share share_hash = \<lparr>cs_share = share, cs_target = share_hash\<rparr>"

definition add_share_to_cache :: "cached_share list \<Rightarrow> cached_share \<Rightarrow> cached_share list" where
  "add_share_to_cache heap entry =
     (if length heap < CACHED_SHARES_CAPACITY then heap_push cs_target entry heap
      else case heap_peek heap of
        None \<Rightarrow> heap
      | Some worst \<Rightarrow>
          if cs_target entry < cs_target worst
          then heap_push cs_target entry (snd (heap_pop cs_target heap))
          else heap)"

section \<open>The order of the heap\<close>

definition is_heap :: "('a \<Rightarrow> 'k::linorder) \<Rightarrow> 'a list \<Rightarrow> bool" where
  "is_heap key xs \<longleftrightarrow> (\<forall>i. 0 < i \<longrightarrow> i < length xs \<longrightarrow> key (xs ! i) \<le> key (xs ! heap_parent i))"

text \<open>Ordered but for one element, which may be too great for its place: it is the one being sifted up.\<close>

definition heap_but :: "('a \<Rightarrow> 'k::linorder) \<Rightarrow> nat \<Rightarrow> 'a list \<Rightarrow> bool" where
  "heap_but key p xs \<longleftrightarrow>
     (\<forall>i. 0 < i \<longrightarrow> i < length xs \<longrightarrow> i \<noteq> p \<longrightarrow> key (xs ! i) \<le> key (xs ! heap_parent i)) \<and>
     (\<forall>i. 0 < i \<longrightarrow> i < length xs \<longrightarrow> 0 < p \<longrightarrow> heap_parent i = p \<longrightarrow> key (xs ! i) \<le> key (xs ! heap_parent p))"

text \<open>Ordered but for one element, of any size.\<close>

definition heap_hole :: "('a \<Rightarrow> 'k::linorder) \<Rightarrow> nat \<Rightarrow> 'a list \<Rightarrow> bool" where
  "heap_hole key p xs \<longleftrightarrow>
     (\<forall>i. 0 < i \<longrightarrow> i < length xs \<longrightarrow> i \<noteq> p \<longrightarrow> heap_parent i \<noteq> p \<longrightarrow> key (xs ! i) \<le> key (xs ! heap_parent i)) \<and>
     (\<forall>i. 0 < i \<longrightarrow> i < length xs \<longrightarrow> 0 < p \<longrightarrow> heap_parent i = p \<longrightarrow> key (xs ! i) \<le> key (xs ! heap_parent p))"

lemma heap_swap_nth:
  "i < length xs \<Longrightarrow> j < length xs \<Longrightarrow> k < length xs \<Longrightarrow>
   heap_swap i j xs ! k = (if k = i then xs ! j else if k = j then xs ! i else xs ! k)"
  by (auto simp: heap_swap_def nth_list_update)

lemma mset_heap_swap: "i < length xs \<Longrightarrow> j < length xs \<Longrightarrow> mset (heap_swap i j xs) = mset xs"
  by (simp add: heap_swap_def mset_swap)

lemma heap_but_swap:
  assumes "heap_but key p xs" and "p < length xs" and "0 < p" and "key (xs ! heap_parent p) < key (xs ! p)"
  shows "heap_but key (heap_parent p) (heap_swap p (heap_parent p) xs)"
proof -
  let ?q = "heap_parent p"
  have q: "?q < p" "?q < length xs" using assms(2,3) heap_parent_less [of p] by linarith+
  have order: "\<And>i. 0 < i \<Longrightarrow> i < length xs \<Longrightarrow> i \<noteq> p \<Longrightarrow> key (xs ! i) \<le> key (xs ! heap_parent i)"
    and below: "\<And>i. 0 < i \<Longrightarrow> i < length xs \<Longrightarrow> heap_parent i = p \<Longrightarrow> key (xs ! i) \<le> key (xs ! ?q)"
    using assms(1,3) unfolding heap_but_def by auto
  have nth: "heap_swap p ?q xs ! k = (if k = p then xs ! ?q else if k = ?q then xs ! p else xs ! k)" if "k < length xs" for k
    using that assms(2) q by (simp add: heap_swap_nth)
  have "key (heap_swap p ?q xs ! i) \<le> key (heap_swap p ?q xs ! heap_parent i)"
    if i: "0 < i" "i < length xs" "i \<noteq> ?q" for i
  proof -
    have hp: "heap_parent i < length xs" using i heap_parent_less [of i] by linarith
    show ?thesis
      using order [OF i(1,2)] below [OF i(1,2)] assms(4) nth [OF i(2)] nth [OF hp] i by fastforce
  qed
  moreover have "key (heap_swap p ?q xs ! i) \<le> key (heap_swap p ?q xs ! heap_parent ?q)"
    if i: "0 < i" "i < length xs" "0 < ?q" "heap_parent i = ?q" for i
  proof -
    have up: "heap_parent ?q < ?q" using i by simp
    then have "key (xs ! ?q) \<le> key (xs ! heap_parent ?q)" using order [OF i(3) q(2)] q by simp
    moreover have "key (xs ! i) \<le> key (xs ! ?q)" if "i \<noteq> p" using order [OF i(1,2) that] i by simp
    moreover have "heap_swap p ?q xs ! heap_parent ?q = xs ! heap_parent ?q" using nth [of "heap_parent ?q"] up q by simp
    moreover have "i \<noteq> ?q" using i heap_parent_less [of i] by linarith
    ultimately show ?thesis using nth [OF i(2)] by (cases "i = p") (auto intro: order_trans)
  qed
  ultimately show ?thesis unfolding heap_but_def by auto
qed

lemma sift_up_heap: "heap_but key p xs \<Longrightarrow> p < length xs \<Longrightarrow> is_heap key (sift_up key p xs)"
proof (induction key p xs rule: sift_up.induct)
  case (1 key p xs)
  show ?case
  proof (cases "p = 0 \<or> key (xs ! p) \<le> key (xs ! heap_parent p)")
    case True
    then have "is_heap key xs" using "1.prems" unfolding is_heap_def heap_but_def by (metis neq0_conv)
    then show ?thesis using True by (subst sift_up.simps) auto
  next
    case False
    have "heap_parent p < length xs" using False "1.prems"(2) heap_parent_less [of p] by linarith
    then have "is_heap key (sift_up key (heap_parent p) (heap_swap p (heap_parent p) xs))"
      using False "1.prems" by (intro "1.IH") (auto intro: heap_but_swap)
    then show ?thesis using False by (subst sift_up.simps) auto
  qed
qed

lemma mset_sift_up: "p < length xs \<Longrightarrow> mset (sift_up key p xs) = mset xs"
proof (induction key p xs rule: sift_up.induct)
  case (1 key p xs)
  show ?case
  proof (cases "p = 0 \<or> key (xs ! p) \<le> key (xs ! heap_parent p)")
    case True
    then show ?thesis by (subst sift_up.simps) auto
  next
    case False
    have hp: "heap_parent p < length xs" using False "1.prems" heap_parent_less [of p] by linarith
    have "mset (sift_up key (heap_parent p) (heap_swap p (heap_parent p) xs)) = mset (heap_swap p (heap_parent p) xs)"
      using False hp by (intro "1.IH") auto
    then show ?thesis using False hp "1.prems" by (subst sift_up.simps) (simp add: mset_heap_swap)
  qed
qed

lemma is_heap_but: "is_heap key xs \<Longrightarrow> heap_but key (length xs) (xs @ [x])"
proof -
  assume "is_heap key xs"
  moreover have "heap_parent i < length xs" if "0 < i" "i \<le> length xs" for i
    using that heap_parent_less [of i] by linarith
  moreover have "heap_parent i \<noteq> length xs" if "0 < i" "i \<le> length xs" for i
    using that heap_parent_less [of i] by linarith
  ultimately show ?thesis by (auto simp: heap_but_def is_heap_def nth_append less_Suc_eq_le)
qed

lemma heap_push_heap: "is_heap key xs \<Longrightarrow> is_heap key (heap_push key x xs)"
  unfolding heap_push_def by (intro sift_up_heap is_heap_but) simp_all

lemma mset_heap_push [simp]: "mset (heap_push key x xs) = add_mset x (mset xs)"
  by (simp add: heap_push_def mset_sift_up)

text \<open>The element that sinks leaves an ordered array behind it.\<close>

lemma greater_child_bounds:
  "2 * p + 2 < length xs \<Longrightarrow> greater_child key p xs < length xs \<and> p < greater_child key p xs \<and>
     heap_parent (greater_child key p xs) = p"
  by (simp add: greater_child_def heap_parent_def)

lemma heap_parent_children: "0 < i \<Longrightarrow> heap_parent i = p \<longleftrightarrow> i = 2 * p + 1 \<or> i = 2 * p + 2"
  unfolding heap_parent_def by presburger

lemma greater_child_greatest:
  assumes "0 < i" and "heap_parent i = p"
  shows "key (xs ! i) \<le> key (xs ! greater_child key p xs)"
  using assms unfolding heap_parent_children [OF assms(1)] greater_child_def by auto

text \<open>The step of the descent, for any child that is no less than its sibling.\<close>

lemma heap_hole_swap:
  assumes "heap_hole key p xs" and c: "c < length xs" "0 < c" "heap_parent c = p"
    and greatest: "\<And>i. 0 < i \<Longrightarrow> i < length xs \<Longrightarrow> heap_parent i = p \<Longrightarrow> key (xs ! i) \<le> key (xs ! c)"
  shows "heap_hole key c (heap_swap p c xs)"
proof -
  have p: "p < c" "p < length xs" using c heap_parent_less [of c] by linarith+
  have order: "\<And>i. 0 < i \<Longrightarrow> i < length xs \<Longrightarrow> i \<noteq> p \<Longrightarrow> heap_parent i \<noteq> p \<Longrightarrow> key (xs ! i) \<le> key (xs ! heap_parent i)"
    and below: "\<And>i. 0 < i \<Longrightarrow> i < length xs \<Longrightarrow> 0 < p \<Longrightarrow> heap_parent i = p \<Longrightarrow> key (xs ! i) \<le> key (xs ! heap_parent p)"
    using assms(1) unfolding heap_hole_def by auto
  have nth: "heap_swap p c xs ! k = (if k = p then xs ! c else if k = c then xs ! p else xs ! k)" if "k < length xs" for k
    using that c(1) p by (simp add: heap_swap_nth)
  have "key (heap_swap p c xs ! i) \<le> key (heap_swap p c xs ! heap_parent i)"
    if i: "0 < i" "i < length xs" "i \<noteq> c" "heap_parent i \<noteq> c" for i
  proof -
    have hp: "heap_parent i < length xs" "heap_parent i \<noteq> i" using i heap_parent_less [of i] by linarith+
    show ?thesis
    proof (cases "i = p")
      case True
      then have "heap_parent i \<noteq> p" "heap_swap p c xs ! i = xs ! c" "heap_swap p c xs ! heap_parent i = xs ! heap_parent p"
        using hp nth [OF i(2)] nth [OF hp(1)] i by auto
      then show ?thesis using below [OF c(2,1)] c(3) True i by simp
    next
      case False
      then show ?thesis using order [OF i(1,2)] greatest [OF i(1,2)] nth [OF i(2)] nth [OF hp(1)] i by auto
    qed
  qed
  moreover have "key (heap_swap p c xs ! i) \<le> key (heap_swap p c xs ! heap_parent c)"
    if i: "0 < i" "i < length xs" "heap_parent i = c" for i
  proof -
    have "c < i" using i heap_parent_less [of i] by simp
    then have "heap_swap p c xs ! i = xs ! i" using nth [OF i(2)] p by simp
    moreover have "key (xs ! i) \<le> key (xs ! c)" using order [OF i(1,2)] i p \<open>c < i\<close> by auto
    ultimately show ?thesis using nth [OF p(2)] c(3) by simp
  qed
  ultimately show ?thesis unfolding heap_hole_def by auto
qed

lemma heap_hole_leaf: "heap_hole key p xs \<Longrightarrow> length xs \<le> 2 * p + 1 \<Longrightarrow> heap_but key p xs"
proof -
  assume hole: "heap_hole key p xs" and leaf: "length xs \<le> 2 * p + 1"
  have "heap_parent i \<noteq> p" if "0 < i" "i < length xs" for i
    using that leaf unfolding heap_parent_children [OF that(1)] by linarith
  then show ?thesis using hole unfolding heap_hole_def heap_but_def by auto
qed

definition sunk :: "('a \<Rightarrow> 'k::linorder) \<Rightarrow> 'a list \<Rightarrow> nat \<times> 'a list \<Rightarrow> bool" where
  "sunk key xs r \<longleftrightarrow> fst r < length (snd r) \<and> mset (snd r) = mset xs \<and> heap_but key (fst r) (snd r)"

lemma sift_down_sunk: "heap_hole key p xs \<Longrightarrow> p < length xs \<Longrightarrow> sunk key xs (sift_down_to_bottom key p xs)"
proof (induction key p xs rule: sift_down_to_bottom.induct)
  case (1 key p xs)
  consider (two) "2 * p + 2 < length xs" | (one) "2 * p + 2 = length xs" | (none) "length xs \<le> 2 * p + 1"
    by linarith
  then show ?case
  proof cases
    case two
    let ?c = "greater_child key p xs"
    note c = greater_child_bounds [OF two, of key]
    have hole: "heap_hole key ?c (heap_swap p ?c xs)"
      by (rule heap_hole_swap [OF "1.prems"(1)]) (use c in \<open>auto intro: greater_child_greatest\<close>)
    have "sunk key (heap_swap p ?c xs) (sift_down_to_bottom key ?c (heap_swap p ?c xs))"
      by (rule "1.IH" [OF two hole]) (simp add: c)
    then show ?thesis
      using two c "1.prems"(2) by (subst sift_down_to_bottom.simps) (simp add: sunk_def mset_heap_swap)
  next
    case one
    let ?c = "2 * p + 1"
    have c: "?c < length xs" "heap_parent ?c = p" using one by (simp_all add: heap_parent_def)
    have only: "i = ?c" if "0 < i" "i < length xs" "heap_parent i = p" for i
      using that one unfolding heap_parent_children [OF that(1)] by linarith
    have "heap_hole key ?c (heap_swap p ?c xs)"
      by (rule heap_hole_swap [OF "1.prems"(1)]) (use c in \<open>auto dest: only\<close>)
    then have "heap_but key ?c (heap_swap p ?c xs)" by (rule heap_hole_leaf) (use one in simp)
    then show ?thesis
      using one c "1.prems"(2) by (subst sift_down_to_bottom.simps) (simp add: sunk_def mset_heap_swap)
  next
    case none
    then show ?thesis
      using "1.prems" by (subst sift_down_to_bottom.simps) (simp add: sunk_def heap_hole_leaf)
  qed
qed

lemma heap_hole_root: "is_heap key xs \<Longrightarrow> heap_hole key 0 (xs[0 := x])"
  by (auto simp: heap_hole_def is_heap_def nth_list_update)

lemma is_heap_butlast: "is_heap key xs \<Longrightarrow> is_heap key (butlast xs)"
proof -
  assume heap: "is_heap key xs"
  have "key (butlast xs ! i) \<le> key (butlast xs ! heap_parent i)" if "0 < i" "i < length (butlast xs)" for i
  proof -
    have "heap_parent i < length (butlast xs)" using that heap_parent_less [of i] by linarith
    then show ?thesis using heap that unfolding is_heap_def by (simp add: nth_butlast)
  qed
  then show ?thesis unfolding is_heap_def by blast
qed

lemma heap_pop_ok:
  assumes "is_heap key xs" and "xs \<noteq> []"
  shows "is_heap key (snd (heap_pop key xs)) \<and> mset xs = add_mset (hd xs) (mset (snd (heap_pop key xs)))"
proof (cases "butlast xs = []")
  case True
  then obtain x where "xs = [x]" using assms(2) by (cases xs rule: rev_cases) auto
  then show ?thesis by (simp add: heap_pop_def is_heap_def)
next
  case False
  let ?ys = "(butlast xs)[0 := List.last xs]"
  have "sunk key ?ys (sift_down_to_bottom key 0 ?ys)"
    using False by (intro sift_down_sunk heap_hole_root is_heap_butlast assms(1)) (cases xs rule: rev_cases; simp)
  then obtain p zs where sink: "sift_down_to_bottom key 0 ?ys = (p, zs)" "p < length zs" "mset zs = mset ?ys"
      "heap_but key p zs"
    by (cases "sift_down_to_bottom key 0 ?ys") (simp add: sunk_def)
  obtain y ys' where ys: "butlast xs = y # ys'" using False by (cases "butlast xs") auto
  then have split: "xs = (y # ys') @ [List.last xs]" using assms(2) by (metis append_butlast_last_id)
  have "hd xs = y" by (subst split) simp
  then have "mset xs = add_mset (hd xs) (mset ?ys)"
    by (subst split) (simp add: ys)
  then show ?thesis
    using False assms(2) sink by (simp add: heap_pop_def sift_up_heap mset_sift_up)
qed

text \<open>The root is a greatest element.\<close>

lemma heap_root_greatest: "is_heap key xs \<Longrightarrow> i < length xs \<Longrightarrow> key (xs ! i) \<le> key (xs ! 0)"
proof (induction i rule: less_induct)
  case (less i)
  show ?case
  proof (cases "i = 0")
    case False
    then have "heap_parent i < i" by simp
    moreover have "key (xs ! i) \<le> key (xs ! heap_parent i)" using less.prems False by (simp add: is_heap_def)
    ultimately show ?thesis using less.IH [of "heap_parent i"] less.prems by fastforce
  qed simp
qed

section \<open>What the cache holds\<close>

lemma take_insort_full:
  assumes "sorted xs" and "length xs = n" and "\<And>y. y \<in> set xs \<Longrightarrow> y \<le> x"
  shows "take n (insort x xs) = xs"
proof -
  have "insort x xs = xs @ [x]"
    using assms(1,3) by (intro sorted_insort_is_snoc) auto
  then show ?thesis using assms(2) by simp
qed

lemma take_insort_evict:
  assumes "sorted (xs @ [w])" and "length xs = n" and "x \<le> w"
  shows "take (Suc n) (insort x (xs @ [w])) = insort x xs"
proof -
  have "insort x (xs @ [w]) = insort x xs @ [w]"
    using assms(1,3) by (induction xs) (auto simp: sorted_append)
  then show ?thesis using assms(2) by simp
qed

text \<open>The insertion of a value too great for the first \<open>n\<close> does not change them.\<close>

lemma take_insort_take:
  assumes "sorted xs"
  shows "take n (insort x (take n xs)) = take n (insort x xs)"
  using assms
proof (induction xs arbitrary: n)
  case (Cons a xs)
  then show ?case by (cases n) (auto simp: take_Cons')
qed simp

definition cache_ok :: "cached_share list \<Rightarrow> bool" where
  "cache_ok heap \<longleftrightarrow> is_heap cs_target heap \<and> length heap \<le> CACHED_SHARES_CAPACITY"

abbreviation cache_values :: "cached_share list \<Rightarrow> target list" where
  "cache_values heap \<equiv> sort (map cs_target heap)"

lemma sort_of_added:
  "mset heap' = add_mset entry (mset heap) \<Longrightarrow> cache_values heap' = insort (cs_target entry) (cache_values heap)"
  by (intro properties_for_sort) (simp_all add: sorted_insort)

lemma add_share_replaces:
  assumes heap: "cache_ok heap" and full: "length heap = CACHED_SHARES_CAPACITY"
    and less: "cs_target entry < cs_target (hd heap)"
  shows "add_share_to_cache heap entry = heap_push cs_target entry (snd (heap_pop cs_target heap))"
    and "mset heap = add_mset (hd heap) (mset (snd (heap_pop cs_target heap)))"
    and "is_heap cs_target (snd (heap_pop cs_target heap))"
proof -
  have ne: "heap \<noteq> []" using full by (auto simp: CACHED_SHARES_CAPACITY_def)
  then show "add_share_to_cache heap entry = heap_push cs_target entry (snd (heap_pop cs_target heap))"
    using full less by (cases heap) (simp_all add: add_share_to_cache_def heap_peek_def)
  show "mset heap = add_mset (hd heap) (mset (snd (heap_pop cs_target heap)))"
    and "is_heap cs_target (snd (heap_pop cs_target heap))"
    using heap_pop_ok [OF _ ne, of cs_target] heap by (simp_all add: cache_ok_def)
qed

text \<open>What one addition does to the values: they are the lowest of the old ones and the new one.\<close>

lemma add_share_step:
  assumes "cache_ok heap"
  shows "cache_ok (add_share_to_cache heap entry) \<and>
    cache_values (add_share_to_cache heap entry) =
      take CACHED_SHARES_CAPACITY (insort (cs_target entry) (cache_values heap)) \<and>
    mset (add_share_to_cache heap entry) \<subseteq># add_mset entry (mset heap)"
proof -
  have heap: "is_heap cs_target heap" using assms by (simp add: cache_ok_def)
  consider (room) "length heap < CACHED_SHARES_CAPACITY"
    | (full) "length heap = CACHED_SHARES_CAPACITY" "cs_target entry < cs_target (hd heap)"
    | (worse) "length heap = CACHED_SHARES_CAPACITY" "cs_target (hd heap) \<le> cs_target entry"
    using assms by (fastforce simp: cache_ok_def)
  then show ?thesis
  proof cases
    case room
    have eq: "add_share_to_cache heap entry = heap_push cs_target entry heap" using room by (simp add: add_share_to_cache_def)
    have "length (heap_push cs_target entry heap) = Suc (length heap)"
      by (metis mset_heap_push size_add_mset size_mset)
    then show ?thesis
      using room heap by (simp add: eq cache_ok_def heap_push_heap sort_of_added [where heap = heap])
  next
    case full
    let ?rest = "snd (heap_pop cs_target heap)"
    note replaced = add_share_replaces [OF assms full]
    have rest: "cache_values heap = insort (cs_target (hd heap)) (cache_values ?rest)"
      by (rule sort_of_added) (rule replaced(2))
    have size: "Suc (length ?rest) = length heap" by (metis replaced(2) size_add_mset size_mset)
    have "y \<le> cs_target (hd heap)" if "y \<in> set (cache_values ?rest)" for y
    proof -
      have "y \<in> cs_target ` set ?rest" using that by simp
      then obtain e where e: "e \<in> set ?rest" "y = cs_target e" by (rule imageE)
      have "e \<in> set heap" using e(1) replaced(2) by (metis set_mset_add_mset_insert set_mset_mset insertCI)
      with e show ?thesis
        using heap_root_greatest [OF heap] by (metis hd_conv_nth in_set_conv_nth list.size(3) not_less_zero)
    qed
    then have snoc: "cache_values heap = cache_values ?rest @ [cs_target (hd heap)]"
      unfolding rest by (intro sorted_insort_is_snoc) auto
    have "sorted (cache_values ?rest @ [cs_target (hd heap)])" unfolding snoc [symmetric] by simp
    then have "take (Suc (length ?rest)) (insort (cs_target entry) (cache_values heap)) =
        insort (cs_target entry) (cache_values ?rest)"
      unfolding snoc by (rule take_insort_evict) (use full in simp_all)
    moreover have "cache_values (heap_push cs_target entry ?rest) = insort (cs_target entry) (cache_values ?rest)"
      by (rule sort_of_added) simp
    moreover have "length (heap_push cs_target entry ?rest) = length heap"
      by (metis mset_heap_push size_add_mset size_mset replaced(2))
    ultimately show ?thesis
      using full size replaced by (simp add: cache_ok_def heap_push_heap)
  next
    case worse
    have ne: "heap \<noteq> []" using worse by (auto simp: CACHED_SHARES_CAPACITY_def)
    then have same: "add_share_to_cache heap entry = heap"
      using worse leD [OF worse(2)] by (cases heap) (simp_all add: add_share_to_cache_def heap_peek_def)
    have "cs_target e \<le> cs_target entry" if "e \<in> set heap" for e
      using heap_root_greatest [OF heap] that worse(2) ne by (metis hd_conv_nth in_set_conv_nth order_trans)
    then have "take CACHED_SHARES_CAPACITY (insort (cs_target entry) (cache_values heap)) = cache_values heap"
      using worse by (intro take_insort_full) auto
    then show ?thesis using assms by (simp add: same)
  qed
qed

lemmas add_share_ok = add_share_step [THEN conjunct1]

definition cache_of :: "cached_share list \<Rightarrow> cached_share list" where
  "cache_of shares = foldl add_share_to_cache [] shares"

lemma cache_of_all:
  "cache_ok (cache_of shares) \<and>
   cache_values (cache_of shares) = take CACHED_SHARES_CAPACITY (sort (map cs_target shares)) \<and>
   mset (cache_of shares) \<subseteq># mset shares"
proof (induction shares rule: rev_induct)
  case Nil
  show ?case by (simp add: cache_of_def cache_ok_def is_heap_def)
next
  case (snoc entry shares)
  have eq: "cache_of (shares @ [entry]) = add_share_to_cache (cache_of shares) entry" by (simp add: cache_of_def)
  have all: "sort (map cs_target (shares @ [entry])) = insort (cs_target entry) (sort (map cs_target shares))"
    by (intro properties_for_sort) (simp_all add: sorted_insort)
  note step = add_share_step [OF snoc.IH [THEN conjunct1], of entry]
  have "take CACHED_SHARES_CAPACITY (insort (cs_target entry) (cache_values (cache_of shares))) =
      take CACHED_SHARES_CAPACITY (sort (map cs_target (shares @ [entry])))"
    unfolding all snoc.IH [THEN conjunct2, THEN conjunct1] by (rule take_insort_take) simp
  moreover have "mset (add_share_to_cache (cache_of shares) entry) \<subseteq># mset (shares @ [entry])"
  proof -
    have "add_mset entry (mset (cache_of shares)) \<subseteq># add_mset entry (mset shares)"
      using snoc.IH by simp
    moreover have "mset (shares @ [entry]) = add_mset entry (mset shares)" by simp
    ultimately show ?thesis using step by (metis subset_mset.order_trans)
  qed
  ultimately show ?case unfolding eq using step by simp
qed

text \<open>
  C22. The cache of shares that wait for their job to be accepted holds the shares with the lowest
  proof-of-work values, at most a hundred of them: whatever shares arrive and in whatever order, the
  values it holds are the first hundred of the sorted values of all of them, and each share it holds is one
  that arrived (an equivalence between the in-place binary heap and sorting).
\<close>

theorem share_cache_keeps_the_best:
  "sort (map cs_target (foldl add_share_to_cache [] shares)) =
     take CACHED_SHARES_CAPACITY (sort (map cs_target shares)) \<and>
   mset (foldl add_share_to_cache [] shares) \<subseteq># mset shares"
  using cache_of_all [of shares] by (simp add: cache_of_def)

end
