(* ===== verification/Jdc_State.thy ===== *)
theory Jdc_State
  imports Pool_Templates Share_Cache
begin

text \<open>
  \<open>miner-apps/jd-client/src/lib/channel_manager/mod.rs\<close>, with \<open>error.rs\<close>, \<open>utils.rs\<close>, \<open>jd_mode.rs\<close> and the
  \<open>Downstream\<close> of \<open>downstream/mod.rs\<close>: the state of the channel manager of the Job Declarator Client, the
  messages it routes to miners, pool, Job Declarator Server and Template Provider, and the life of a
  connection in its registries.

  The client serves miners with the channels of the server side of \<open>channels_sv2\<close>, as the pool does, and
  holds one channel of the client side with its pool. Both are values of that library, reached through the
  record \<open>jdc_lib\<close>, which contains the operations the pool's model uses. A prefix knows the allocator that
  made it: giving it back to a later allocator is up to \<open>alloc_release\<close>.

  The loop handles one message at a time, and every send of a handler goes to an unbounded queue, so a
  handler is one step. A lock is never poisoned in the model. A frame built from a well-typed message can be
  encoded.
\<close>

section \<open>Errors\<close>

datatype jdc_error_kind =
    JkDownstreamNotFound downstream_id
  | JkFutureTemplateNotPresent
  | JkLastNewPrevhashNotFound
  | JkChannelSv2
  | JkBinarySv2
  | JkBitcoinEncode
  | JkChannelErrorSender
  | JkChannelManagerHasBadCoinbaseOutputs
  | JkDeclaredJobHasBadCoinbaseOutputs
  | JkExtranonceSizeTooSmall
  | JkExtranonceSizeTooLarge
  | JkLastDeclareJobNotFound request_id
  | JkTemplateNotFound u64
  | JkTxDataError
  | JkFailedToCreateCustomJob
  | JkDeclareMiningJobError
  | JkOpenMiningChannelError
  | JkOpenStandardMiningChannelError
  | JkCloseChannel
  | JkCustomJobError
  | JkUpstreamNotFound
  | JkUnexpectedMessage u16 u8
  | JkRequiredExtensionsNotSupported "u16 list"
  | JkServerRequiresUnsupportedExtensions "u16 list"
  | JkParser
  | JkChannelErrorReceiver
  | JkSetupConnectionError
  | JkCodecNoise
  | JkIo
  | JkTimeout
  | JkInvalidKey
  | JkNetworkHelpersError
  | JkCouldNotInitiateSystem
  | JkNoUpstreamConfig
  | JkInvalidCoinbaseOutput
  | JkInvalidBitcoinDataDir
  | JkMonitoringServerError
  | JkInvalidSocketAddress
  | JkInvalidUnsupportedExtensionsSequence
  | JkInvalidRequiredExtensionsSequence
  | JkInvalidSupportedExtensionsSequence

datatype jdc_action = JdcLog | JdcDisconnect downstream_id | JdcFallback | JdcShutdown

record jdc_error =
  je_kind :: jdc_error_kind
  je_action :: jdc_action

definition jdc_log :: "jdc_error_kind \<Rightarrow> jdc_error" where
  "jdc_log k = \<lparr>je_kind = k, je_action = JdcLog\<rparr>"

definition jdc_disconnect :: "jdc_error_kind \<Rightarrow> downstream_id \<Rightarrow> jdc_error" where
  "jdc_disconnect k d = \<lparr>je_kind = k, je_action = JdcDisconnect d\<rparr>"

definition jdc_fallback :: "jdc_error_kind \<Rightarrow> jdc_error" where
  "jdc_fallback k = \<lparr>je_kind = k, je_action = JdcFallback\<rparr>"

definition jdc_shutdown :: "jdc_error_kind \<Rightarrow> jdc_error" where
  "jdc_shutdown k = \<lparr>je_kind = k, je_action = JdcShutdown\<rparr>"

section \<open>Modes and states\<close>

datatype config_jdc_mode = FullTemplate | CoinbaseOnly | SoloMiningMode

datatype upstream_state = NoChannel | Pending | Connected | SoloMining

section \<open>Messages\<close>

datatype to_miner = Mn to_client | MnSetExtranoncePrefix channel_id bytes

datatype to_upstream =
    UpOpenExtended open_channel_msg
  | UpCloseChannel channel_id string
  | UpUpdateChannel channel_id hashrate target
  | UpSubmitShares submit_shares_extended
  | UpSetCustomMiningJob set_custom_mining_job
  | UpRequestExtensions u16 "u16 list"

record push_solution =
  ps_extranonce :: bytes
  ps_ntime :: u32
  ps_nonce :: u32
  ps_version :: u32
  ps_nbits :: u32
  ps_prev_hash :: block_hash

text \<open>A declared job carries the excess data of its template, which the server does not read.\<close>

datatype to_jds =
    JdAllocateToken request_id string
  | JdDeclare declare_mining_job bytes
  | JdProvideMissingSuccess provide_missing_transactions_success
  | JdPushSolution push_solution

datatype to_tp =
    JtSubmitSolution submit_solution
  | JtCoinbaseOutputConstraints coinbase_output_constraints
  | JtRequestTransactionData u64

datatype jdc_route =
    ToUpstream to_upstream
  | ToJobDeclarator to_jds
  | ToProvider to_tp
  | ToMiner downstream_id to_miner

record allocate_token_success =
  at_request_id :: request_id
  at_mining_job_token :: bytes
  at_coinbase_outputs :: bytes

datatype pending_channel_request =
    PendingExtended downstream_id open_channel_msg
  | PendingStandard downstream_id open_standard_msg

definition pending_downstream_id :: "pending_channel_request \<Rightarrow> downstream_id" where
  "pending_downstream_id r = (case r of PendingExtended d _ \<Rightarrow> d | PendingStandard d _ \<Rightarrow> d)"

definition pending_hashrate :: "pending_channel_request \<Rightarrow> hashrate" where
  "pending_hashrate r =
     (case r of PendingExtended _ m \<Rightarrow> oc_nominal_hash_rate m | PendingStandard _ m \<Rightarrow> so_nominal_hash_rate m)"

section \<open>The libraries\<close>

record chain_tip =
  ct_prev_hash :: block_hash
  ct_n_bits :: u32
  ct_min_ntime :: u32

definition chain_tip_of :: "template_prev_hash \<Rightarrow> chain_tip" where
  "chain_tip_of msg =
     \<lparr>ct_prev_hash = tph_prev_hash msg, ct_n_bits = tph_n_bits msg, ct_min_ntime = tph_ntime_start msg\<rparr>"

text \<open>The refusals of the client-side channel the sources tell apart.\<close>

datatype custom_job_refusal = ChainTipMismatch | OtherRefusal

record ('s, 'e, 'g, 'j, 'a, 'p, 'v, 'u, 'f) jdc_lib =
  srv :: "('s, 'e, 'g, 'j, 'a, 'p, 'v) pool_lib"
  std_new_jdc :: "channel_id \<Rightarrow> string \<Rightarrow> 'p \<Rightarrow> target \<Rightarrow> hashrate \<Rightarrow> nat \<Rightarrow> hashrate \<Rightarrow> string option \<Rightarrow> string \<Rightarrow>
    nat option \<Rightarrow> (open_channel_error, 's) result"
  ext_new_jdc :: "channel_id \<Rightarrow> string \<Rightarrow> 'p \<Rightarrow> target \<Rightarrow> hashrate \<Rightarrow> bool \<Rightarrow> u16 \<Rightarrow> nat \<Rightarrow> hashrate \<Rightarrow> string option \<Rightarrow>
    string \<Rightarrow> nat option \<Rightarrow> (open_channel_error, 'e) result"
  grp_new_jdc :: "channel_id \<Rightarrow> nat \<Rightarrow> bool \<Rightarrow> string option \<Rightarrow> string \<Rightarrow> 'g option"
  grp_set_full_size :: "nat \<Rightarrow> 'g \<Rightarrow> 'g option"
  std_set_prefix :: "'p \<Rightarrow> 's \<Rightarrow> 's option"
  ext_set_prefix :: "'p \<Rightarrow> 'e \<Rightarrow> 'e option"
  std_share :: "submit_shares_standard \<Rightarrow> 's \<Rightarrow> (share_validation_error, hash \<times> share_validation_result) result \<times> 's"
  ext_share :: "submit_shares_extended \<Rightarrow> 'e \<Rightarrow> (share_validation_error, hash \<times> share_validation_result) result \<times> 'e"
  alloc_from_upstream :: "bytes \<Rightarrow> bytes \<Rightarrow> u8 \<Rightarrow> u32 \<Rightarrow> 'a option"
  wire_prefix_ok :: "bytes \<Rightarrow> bool"
  up_new :: "channel_id \<Rightarrow> string \<Rightarrow> bytes \<Rightarrow> target \<Rightarrow> hashrate \<Rightarrow> bool \<Rightarrow> u16 \<Rightarrow> nat option \<Rightarrow> 'u option"
  up_channel_id :: "'u \<Rightarrow> channel_id"
  up_prefix :: "'u \<Rightarrow> bytes"
  up_full_size :: "'u \<Rightarrow> nat"
  up_rollable_size :: "'u \<Rightarrow> u16"
  up_set_prefix :: "bytes \<Rightarrow> 'u \<Rightarrow> 'u option"
  up_set_target :: "target \<Rightarrow> 'u \<Rightarrow> 'u option"
  up_set_nominal_hashrate :: "hashrate \<Rightarrow> 'u \<Rightarrow> 'u"
  up_on_chain_tip :: "chain_tip \<Rightarrow> 'u \<Rightarrow> 'u"
  up_on_custom_job_success :: "set_custom_mining_job \<Rightarrow> channel_id \<Rightarrow> request_id \<Rightarrow> u32 \<Rightarrow> 'u \<Rightarrow>
    custom_job_refusal option \<times> 'u"
  up_share :: "submit_shares_extended \<Rightarrow> 'u \<Rightarrow> (share_validation_error, hash \<times> bool) result \<times> 'u"
  up_on_acknowledgement :: "u32 \<Rightarrow> u64 \<Rightarrow> 'u \<Rightarrow> 'u"
  up_on_rejection :: "string \<Rightarrow> 'u \<Rightarrow> 'u"
  factory_new :: "bool \<Rightarrow> string option \<Rightarrow> string option \<Rightarrow> 'f"
  new_custom_job :: "channel_id \<Rightarrow> request_id \<Rightarrow> bytes \<Rightarrow> chain_tip \<Rightarrow> new_template \<Rightarrow> tx_out list \<Rightarrow> nat \<Rightarrow> 'f \<Rightarrow>
    set_custom_mining_job option \<times> 'f"
  new_coinbase_parts :: "new_template \<Rightarrow> tx_out list \<Rightarrow> nat \<Rightarrow> 'f \<Rightarrow> (bytes \<times> bytes) option \<times> 'f"
  f32_add :: "hashrate \<Rightarrow> hashrate \<Rightarrow> hashrate"

section \<open>State\<close>

definition JDC_MAX_CHANNELS :: u32 where
  "JDC_MAX_CHANNELS = 65536"

definition JDC_LOCAL_PREFIX_BYTES :: "('s, 'e, 'g, 'j, 'a, 'p, 'v, 'u, 'f) jdc_lib \<Rightarrow> u8" where
  "JDC_LOCAL_PREFIX_BYTES J = bytes_needed_for (srv J) JDC_MAX_CHANNELS"

definition SOLO_FULL_EXTRANONCE_SIZE :: u8 where
  "SOLO_FULL_EXTRANONCE_SIZE = 20"

record declared_job =
  dc_declare_mining_job :: "(declare_mining_job \<times> bytes) option"
  dc_template :: new_template
  dc_prev_hash :: "template_prev_hash option"
  dc_set_custom_mining_job :: "set_custom_mining_job option"
  dc_coinbase_output :: bytes
  dc_tx_list :: "bytes list"

record ('s, 'e, 'g) jdc_client =
  jd_require_std_job :: bool
  jd_group :: 'g
  jd_extended :: "channel_id \<rightharpoonup> 'e"
  jd_standard :: "channel_id \<rightharpoonup> 's"
  jd_channel_id_factory :: u32

record ('s, 'e, 'g, 'a, 'v, 'u, 'f) jdc =
  jc_downstreams :: "downstream_id \<rightharpoonup> ('s, 'e, 'g) jdc_client"
  jc_allocator :: 'a
  jc_request_id_factory :: u32
  jc_downstream_id_factory :: u64
  jc_sequence_number_factory :: u32
  jc_last_future_template :: "new_template option"
  jc_last_new_prev_hash :: "template_prev_hash option"
  jc_tokens :: "allocate_token_success list"
  jc_template_store :: "u64 \<rightharpoonup> new_template"
  jc_declared :: "request_id \<rightharpoonup> declared_job"
  jc_upstream_job :: "u64 \<rightharpoonup> u32"
  jc_job_template :: "downstream_id \<times> channel_id \<times> u32 \<rightharpoonup> u64"
  jc_coinbase_outputs :: bytes
  jc_upstream :: "'u option"
  jc_pool_tag :: "string option"
  jc_pending :: "pending_channel_request list"
  jc_factory :: "'f option"
  jc_vardiff :: "downstream_id \<times> channel_id \<rightharpoonup> 'v"
  jc_negotiated :: "u16 list"
  jc_supported :: "u16 list"
  jc_required :: "u16 list"
  jc_cached_shares :: "u64 \<rightharpoonup> cached_share list"
  jc_miner_tag :: string
  jc_share_batch_size :: nat
  jc_shares_per_minute :: hashrate
  jc_max_past_jobs :: "nat option"
  jc_user_identity :: "string option"
  jc_reserved_rollable :: u8
  jc_upstream_state :: upstream_state
  jc_mode :: config_jdc_mode
  jc_senders :: "downstream_id set"
  jc_departing :: "downstream_id \<rightharpoonup> ('s, 'e, 'g) jdc_client"
  jc_to_miners :: "(downstream_id \<times> to_miner) list"
  jc_to_upstream :: "to_upstream list"
  jc_to_jds :: "to_jds list"
  jc_to_tp :: "to_tp list"

record jdc_config =
  jcfg_share_batch_size :: nat
  jcfg_shares_per_minute :: hashrate
  jcfg_max_past_jobs :: "nat option"
  jcfg_signature :: string
  jcfg_reserved_rollable :: u8
  jcfg_mode :: config_jdc_mode
  jcfg_supported :: "u16 list"
  jcfg_required :: "u16 list"

text \<open>Whose queues still have a reader, and the order in which the maps are visited.\<close>

record jdc_env =
  miner_reads :: "downstream_id \<Rightarrow> bool"
  upstream_reads :: bool
  jds_reads :: bool
  tp_reads :: bool
  visit_miners :: "downstream_id list"
  visit_miner_channels :: "downstream_id \<Rightarrow> channel_id list"
  visit_miner_vardiff :: "(downstream_id \<times> channel_id) list"
  visit_declared :: "request_id list"

text \<open>\<open>ChannelManager::new\<close>: the manager starts as for solo mining, whatever the configured mode.\<close>

definition jdc_new ::
  "('s, 'e, 'g, 'j, 'a, 'p, 'v, 'u, 'f) jdc_lib \<Rightarrow> jdc_config \<Rightarrow> bytes \<Rightarrow>
   (jdc_error, ('s, 'e, 'g, 'a, 'v, 'u, 'f) jdc) result" where
  "jdc_new J cfg outputs =
     (case alloc_new (srv J) [] SOLO_FULL_EXTRANONCE_SIZE JDC_MAX_CHANNELS of
        None \<Rightarrow> Err (jdc_shutdown JkChannelSv2)
      | Some allocator \<Rightarrow>
          Ok \<lparr>jc_downstreams = Map.empty, jc_allocator = allocator, jc_request_id_factory = 0,
              jc_downstream_id_factory = 0, jc_sequence_number_factory = 1, jc_last_future_template = None,
              jc_last_new_prev_hash = None, jc_tokens = [], jc_template_store = Map.empty,
              jc_declared = Map.empty, jc_upstream_job = Map.empty, jc_job_template = Map.empty,
              jc_coinbase_outputs = outputs, jc_upstream = None, jc_pool_tag = None, jc_pending = [],
              jc_factory = None, jc_vardiff = Map.empty, jc_negotiated = [], jc_supported = jcfg_supported cfg,
              jc_required = jcfg_required cfg, jc_cached_shares = Map.empty, jc_miner_tag = jcfg_signature cfg,
              jc_share_batch_size = jcfg_share_batch_size cfg, jc_shares_per_minute = jcfg_shares_per_minute cfg,
              jc_max_past_jobs = jcfg_max_past_jobs cfg, jc_user_identity = None,
              jc_reserved_rollable = jcfg_reserved_rollable cfg, jc_upstream_state = SoloMining,
              jc_mode = SoloMiningMode, jc_senders = {}, jc_departing = Map.empty, jc_to_miners = [],
              jc_to_upstream = [], jc_to_jds = [], jc_to_tp = []\<rparr>)"

section \<open>Queues\<close>

text \<open>\<open>RouteMessageTo::forward\<close>: whether the send succeeded, and the queues.\<close>

definition jdc_forward ::
  "jdc_env \<Rightarrow> jdc_route \<Rightarrow> ('s, 'e, 'g, 'a, 'v, 'u, 'f) jdc \<Rightarrow> bool \<times> ('s, 'e, 'g, 'a, 'v, 'u, 'f) jdc" where
  "jdc_forward env m s =
     (case m of
        ToMiner d msg \<Rightarrow>
          if d \<in> jc_senders s
          then (if miner_reads env d then (True, s\<lparr>jc_to_miners := jc_to_miners s @ [(d, msg)]\<rparr>) else (False, s))
          else (True, s)
      | ToUpstream msg \<Rightarrow>
          if upstream_reads env then (True, s\<lparr>jc_to_upstream := jc_to_upstream s @ [msg]\<rparr>) else (False, s)
      | ToJobDeclarator msg \<Rightarrow>
          if jds_reads env then (True, s\<lparr>jc_to_jds := jc_to_jds s @ [msg]\<rparr>) else (False, s)
      | ToProvider msg \<Rightarrow>
          if tp_reads env then (True, s\<lparr>jc_to_tp := jc_to_tp s @ [msg]\<rparr>) else (False, s))"

fun jdc_forward_all ::
  "jdc_env \<Rightarrow> jdc_route list \<Rightarrow> ('s, 'e, 'g, 'a, 'v, 'u, 'f) jdc \<Rightarrow> ('s, 'e, 'g, 'a, 'v, 'u, 'f) jdc" where
  "jdc_forward_all env [] s = s"
| "jdc_forward_all env (m # ms) s = jdc_forward_all env ms (snd (jdc_forward env m s))"

definition jdc_then_forward ::
  "jdc_env \<Rightarrow> (jdc_error, jdc_route list) attempt \<times> ('s, 'e, 'g, 'a, 'v, 'u, 'f) jdc \<Rightarrow>
   (jdc_error, unit) attempt \<times> ('s, 'e, 'g, 'a, 'v, 'u, 'f) jdc" where
  "jdc_then_forward env r = and_then r (\<lambda>ms s. (Done (), jdc_forward_all env ms s))"

text \<open>A send whose failure is an error of the handler.\<close>

definition send_or ::
  "jdc_env \<Rightarrow> jdc_error \<Rightarrow> jdc_route \<Rightarrow> ('s, 'e, 'g, 'a, 'v, 'u, 'f) jdc \<Rightarrow>
   (jdc_error, unit) attempt \<times> ('s, 'e, 'g, 'a, 'v, 'u, 'f) jdc" where
  "send_or env e m s =
     (case jdc_forward env m s of (True, s') \<Rightarrow> (Done (), s') | (False, s') \<Rightarrow> (Failed e, s'))"

abbreviation send_upstream ::
  "jdc_env \<Rightarrow> to_upstream \<Rightarrow> ('s, 'e, 'g, 'a, 'v, 'u, 'f) jdc \<Rightarrow>
   (jdc_error, unit) attempt \<times> ('s, 'e, 'g, 'a, 'v, 'u, 'f) jdc" where
  "send_upstream env m \<equiv> send_or env (jdc_fallback JkChannelErrorSender) (ToUpstream m)"

definition request_transaction_data ::
  "jdc_env \<Rightarrow> u64 \<Rightarrow> ('s, 'e, 'g, 'a, 'v, 'u, 'f) jdc \<Rightarrow>
   (jdc_error, unit) attempt \<times> ('s, 'e, 'g, 'a, 'v, 'u, 'f) jdc" where
  "request_transaction_data env template_id =
     send_or env (jdc_shutdown JkChannelErrorSender) (ToProvider (JtRequestTransactionData template_id))"

text \<open>\<open>allocate_tokens\<close>: one request per token, each with its own id. The identity is a \<open>Str0255\<close> when it
  has at most 255 bytes; a missing or longer one is a panic.\<close>

primrec allocate_tokens ::
  "jdc_env \<Rightarrow> nat \<Rightarrow> ('s, 'e, 'g, 'a, 'v, 'u, 'f) jdc \<Rightarrow>
   (jdc_error, unit) attempt \<times> ('s, 'e, 'g, 'a, 'v, 'u, 'f) jdc" where
  "allocate_tokens env 0 s = (Done (), s)"
| "allocate_tokens env (Suc n) s =
     (let r = jc_request_id_factory s;
          s1 = s\<lparr>jc_request_id_factory := r + 1\<rparr>
      in case jc_user_identity s of
           None \<Rightarrow> (Panicked, s1)
         | Some identity \<Rightarrow>
             if length identity \<le> 255
             then and_then (send_or env (jdc_fallback JkChannelErrorSender) (ToJobDeclarator (JdAllocateToken r identity)) s1)
                    (\<lambda>_. allocate_tokens env n)
             else (Panicked, s1))"

text \<open>A call whose error is ignored (\<open>_ = self.allocate_tokens(1).await\<close>): only a panic goes through.\<close>

definition ignoring ::
  "(jdc_error, unit) attempt \<times> 'st \<Rightarrow> (jdc_error, unit) attempt \<times> 'st" where
  "ignoring r = (case r of (Panicked, s) \<Rightarrow> (Panicked, s) | (_, s) \<Rightarrow> (Done (), s))"

section \<open>Registries\<close>

definition put_miner ::
  "downstream_id \<Rightarrow> ('s, 'e, 'g) jdc_client \<Rightarrow> ('s, 'e, 'g, 'a, 'v, 'u, 'f) jdc \<Rightarrow> ('s, 'e, 'g, 'a, 'v, 'u, 'f) jdc" where
  "put_miner d c s = s\<lparr>jc_downstreams := (jc_downstreams s)(d \<mapsto> c)\<rparr>"

definition jdc_release ::
  "('s, 'e, 'g, 'j, 'a, 'p, 'v, 'u, 'f) jdc_lib \<Rightarrow> 'p option \<Rightarrow> ('s, 'e, 'g, 'a, 'v, 'u, 'f) jdc \<Rightarrow>
   ('s, 'e, 'g, 'a, 'v, 'u, 'f) jdc" where
  "jdc_release J p s =
     (case p of None \<Rightarrow> s | Some q \<Rightarrow> s\<lparr>jc_allocator := alloc_release (srv J) q (jc_allocator s)\<rparr>)"

definition with_registered_miner ::
  "downstream_id \<Rightarrow> (('s, 'e, 'g) jdc_client \<Rightarrow> ('s, 'e, 'g, 'a, 'v, 'u, 'f) jdc \<Rightarrow>
     (jdc_error, 'r) attempt \<times> ('s, 'e, 'g, 'a, 'v, 'u, 'f) jdc) \<Rightarrow>
   ('s, 'e, 'g, 'a, 'v, 'u, 'f) jdc \<Rightarrow> (jdc_error, 'r) attempt \<times> ('s, 'e, 'g, 'a, 'v, 'u, 'f) jdc" where
  "with_registered_miner d f s =
     (case jc_downstreams s d of
        None \<Rightarrow> (Failed (jdc_disconnect (JkDownstreamNotFound d) d), s)
      | Some c \<Rightarrow> f c s)"

definition jdc_remove_downstream ::
  "downstream_id \<Rightarrow> ('s, 'e, 'g, 'a, 'v, 'u, 'f) jdc \<Rightarrow> ('s, 'e, 'g, 'a, 'v, 'u, 'f) jdc" where
  "jdc_remove_downstream d s =
     s\<lparr>jc_downstreams := snd (sm_remove (jc_downstreams s) d),
       jc_job_template := sm_retain (jc_job_template s) (\<lambda>key _. fst key \<noteq> d),
       jc_vardiff := sm_retain (jc_vardiff s) (\<lambda>key _. fst key \<noteq> d),
       jc_senders := jc_senders s - {d},
       jc_departing := (case jc_downstreams s d of
          None \<Rightarrow> jc_departing s | Some c \<Rightarrow> (jc_departing s)(d \<mapsto> c))\<rparr>"

text \<open>\<open>handle_error_action\<close>, while neither token is cancelled.\<close>

definition jdc_error_action ::
  "jdc_error \<Rightarrow> ('s, 'e, 'g, 'a, 'v, 'u, 'f) jdc \<Rightarrow> loop_control \<times> ('s, 'e, 'g, 'a, 'v, 'u, 'f) jdc" where
  "jdc_error_action e s =
     (case je_action e of
        JdcLog \<Rightarrow> (Continue, s)
      | JdcFallback \<Rightarrow> (Break, s)
      | JdcShutdown \<Rightarrow> (Break, s)
      | JdcDisconnect d \<Rightarrow> (Continue, jdc_remove_downstream d s))"

section \<open>Connections\<close>

text \<open>\<open>coinbase_outputs[0].value = ...\<close>; \<open>None\<close> where the index panics.\<close>

definition set_first_value :: "u64 \<Rightarrow> tx_out list \<Rightarrow> tx_out list option" where
  "set_first_value v outs = (case outs of [] \<Rightarrow> None | out # rest \<Rightarrow> Some (out\<lparr>txout_value := v\<rparr> # rest))"

definition upstream_full_size ::
  "('s, 'e, 'g, 'j, 'a, 'p, 'v, 'u, 'f) jdc_lib \<Rightarrow> ('s, 'e, 'g, 'a, 'v, 'u, 'f) jdc \<Rightarrow> nat" where
  "upstream_full_size J s =
     (case jc_upstream s of None \<Rightarrow> unat SOLO_FULL_EXTRANONCE_SIZE | Some up \<Rightarrow> up_full_size J up)"

definition jdc_bootstrap_group_channel ::
  "('s, 'e, 'g, 'j, 'a, 'p, 'v, 'u, 'f) jdc_lib \<Rightarrow> channel_id \<Rightarrow> ('s, 'e, 'g, 'a, 'v, 'u, 'f) jdc \<Rightarrow>
   (jdc_error, 'g option) attempt" where
  "jdc_bootstrap_group_channel J ch s =
     (case (jc_last_future_template s, jc_last_new_prev_hash s) of
        (Some template, Some prev_hash) \<Rightarrow>
          (case grp_new_jdc J ch (upstream_full_size J s) True (jc_pool_tag s) (jc_miner_tag s) of
             None \<Rightarrow> Done None
           | Some g \<Rightarrow>
               (case deserialize_outputs (srv J) (jc_coinbase_outputs s) of
                  None \<Rightarrow> Done None
                | Some outs \<Rightarrow>
                    (case set_first_value (tm_coinbase_tx_value_remaining template) outs of
                       None \<Rightarrow> Panicked
                     | Some outs' \<Rightarrow>
                         Done (case grp_on_new_template (srv J) template outs' g of
                                 None \<Rightarrow> None
                               | Some g' \<Rightarrow> grp_on_prev_hash (srv J) prev_hash g'))))
      | _ \<Rightarrow> Panicked)"

definition jdc_client_new :: "u32 \<Rightarrow> 'g \<Rightarrow> ('s, 'e, 'g) jdc_client" where
  "jdc_client_new channel_id_factory g =
     \<lparr>jd_require_std_job = False, jd_group = g, jd_extended = Map.empty, jd_standard = Map.empty,
      jd_channel_id_factory = channel_id_factory\<rparr>"

text \<open>The body of the accept task of \<open>start_downstream_server\<close>, after the handshake.\<close>

definition accept_miner ::
  "('s, 'e, 'g, 'j, 'a, 'p, 'v, 'u, 'f) jdc_lib \<Rightarrow> ('s, 'e, 'g, 'a, 'v, 'u, 'f) jdc \<Rightarrow>
   (jdc_error, downstream_id option) attempt \<times> ('s, 'e, 'g, 'a, 'v, 'u, 'f) jdc" where
  "accept_miner J s =
     (let d = jc_downstream_id_factory s;
          s1 = s\<lparr>jc_downstream_id_factory := d + 1\<rparr>;
          group_channel_id = 1
      in case jdc_bootstrap_group_channel J group_channel_id s1 of
           Panicked \<Rightarrow> (Panicked, s1)
         | Failed e \<Rightarrow> (Failed e, s1)
         | Done None \<Rightarrow> (Done None, s1)
         | Done (Some g) \<Rightarrow>
             (Done (Some d),
              put_miner d (jdc_client_new (group_channel_id + 1) g) (s1\<lparr>jc_senders := insert d (jc_senders s1)\<rparr>)))"

definition drop_departed_miner ::
  "('s, 'e, 'g, 'j, 'a, 'p, 'v, 'u, 'f) jdc_lib \<Rightarrow> downstream_id \<Rightarrow> channel_id \<Rightarrow> ('s, 'e, 'g, 'a, 'v, 'u, 'f) jdc \<Rightarrow>
   ('s, 'e, 'g, 'a, 'v, 'u, 'f) jdc" where
  "drop_departed_miner J d ch s =
     (case jc_departing s d of
        None \<Rightarrow> s
      | Some c \<Rightarrow>
          jdc_release J (map_option (ext_slot (srv J)) (jd_extended c ch))
            (jdc_release J (map_option (std_slot (srv J)) (jd_standard c ch))
              (s\<lparr>jc_departing := (jc_departing s)(d \<mapsto>
                   c\<lparr>jd_standard := (jd_standard c)(ch := None), jd_extended := (jd_extended c)(ch := None)\<rparr>)\<rparr>)))"

text \<open>The end of \<open>try_upstream\<close> (\<open>jdc_runtime.rs\<close>), once pool and Job Declarator Server are connected: the
  configured mode is active, and two tokens are asked for.\<close>

definition upstream_ready ::
  "jdc_env \<Rightarrow> jdc_config \<Rightarrow> string \<Rightarrow> ('s, 'e, 'g, 'a, 'v, 'u, 'f) jdc \<Rightarrow>
   (jdc_error, unit) attempt \<times> ('s, 'e, 'g, 'a, 'v, 'u, 'f) jdc" where
  "upstream_ready env cfg identity s =
     (if jc_user_identity s \<noteq> None then (Panicked, s)
      else ignoring (allocate_tokens env 2
             (s\<lparr>jc_mode := jcfg_mode cfg, jc_user_identity := Some identity, jc_upstream_state := NoChannel\<rparr>)))"

end
