(* ===== verification/Jdc_Downstream.thy ===== *)
theory Jdc_Downstream
  imports Jdc_State
begin

text \<open>
  \<open>channel_manager/downstream_message_handler.rs\<close> of the Job Declarator Client, with \<open>handle_downstream_message\<close>
  of \<open>mod.rs\<close>: what a miner's message does. A share that is good for the miner's channel is translated to the
  pool's channel and sent there once the pool has accepted the job it was found on; until then it waits in the
  cache of its template.

  The part of opening a channel that applies the last template and previous hash is the same code as the
  pool's, so its definitions are used here, with the error of this application.
\<close>

section \<open>Closing\<close>

definition close_in_miner ::
  "('s, 'e, 'g, 'j, 'a, 'p, 'v, 'u, 'f) jdc_lib \<Rightarrow> channel_id \<Rightarrow> ('s, 'e, 'g) jdc_client \<Rightarrow> ('s, 'e, 'g) jdc_client" where
  "close_in_miner J ch c =
     c\<lparr>jd_group := (if ch \<in> set (grp_ids (srv J) (jd_group c)) then grp_remove (srv J) ch (jd_group c) else jd_group c),
       jd_extended := (jd_extended c)(ch := None), jd_standard := (jd_standard c)(ch := None)\<rparr>"

definition jdc_handle_close_channel ::
  "('s, 'e, 'g, 'j, 'a, 'p, 'v, 'u, 'f) jdc_lib \<Rightarrow> downstream_id \<Rightarrow> channel_id \<Rightarrow> ('s, 'e, 'g, 'a, 'v, 'u, 'f) jdc \<Rightarrow>
   (jdc_error, unit) attempt \<times> ('s, 'e, 'g, 'a, 'v, 'u, 'f) jdc" where
  "jdc_handle_close_channel J d ch s =
     and_then
       (with_registered_miner d
          (\<lambda>c s. (Done (),
             jdc_release J (map_option (std_slot (srv J)) (jd_standard c ch))
               (jdc_release J (map_option (ext_slot (srv J)) (jd_extended c ch))
                 (put_miner d (close_in_miner J ch c) s)))) s)
       (\<lambda>_ s. (Done (), s\<lparr>jc_vardiff := (jc_vardiff s)((d, ch) := None)\<rparr>))"

section \<open>Opening\<close>

definition to_this_miner ::
  "downstream_id \<Rightarrow> (jdc_error, to_client list) attempt \<times> 'st \<Rightarrow> (jdc_error, jdc_route list) attempt \<times> 'st" where
  "to_this_miner d r = and_then r (\<lambda>ms s. (Done (map (\<lambda>m. ToMiner d (Mn m)) ms), s))"

definition jdc_refuse_open ::
  "request_id \<Rightarrow> mining_error_code \<Rightarrow> 'st \<Rightarrow> (jdc_error, to_client list) attempt \<times> 'st" where
  "jdc_refuse_open r code s = (Done [MnOpenError r code], s)"

text \<open>A channel id is taken before the prefix is asked for.\<close>

definition jdc_reserve ::
  "(allocator_error, 'p) result \<times> 'a \<Rightarrow> downstream_id \<Rightarrow> ('s, 'e, 'g) jdc_client \<Rightarrow> ('s, 'e, 'g, 'a, 'v, 'u, 'f) jdc \<Rightarrow>
   (jdc_error, mining_error_code + 'p) attempt \<times> ('s, 'e, 'g, 'a, 'v, 'u, 'f) jdc" where
  "jdc_reserve allocation d c s =
     (let s1 = put_miner d (c\<lparr>jd_channel_id_factory := jd_channel_id_factory c + 1\<rparr>)
                 (s\<lparr>jc_allocator := snd allocation\<rparr>)
      in case fst allocation of
           Inl e \<Rightarrow>
             (case extranonce_allocation_error_code e of
                None \<Rightarrow> (Failed (jdc_shutdown JkChannelSv2), s1)
              | Some code \<Rightarrow> (Done (Inl code), s1))
         | Inr p \<Rightarrow> (Done (Inr p), s1))"

definition as_jdc_shutdown :: "(pool_error, 'r) attempt \<Rightarrow> (jdc_error, 'r) attempt" where
  "as_jdc_shutdown r =
     (case r of Done x \<Rightarrow> Done x | Failed _ \<Rightarrow> Failed (jdc_shutdown JkChannelSv2) | Panicked \<Rightarrow> Panicked)"

text \<open>A channel that is dropped because a later step failed gives its prefix back.\<close>

definition jdc_started ::
  "('s, 'e, 'g, 'j, 'a, 'p, 'v, 'u, 'f) jdc_lib \<Rightarrow> 'p \<Rightarrow> (jdc_error, 'r) attempt \<Rightarrow> ('s, 'e, 'g, 'a, 'v, 'u, 'f) jdc \<Rightarrow>
   (jdc_error, 'r) attempt \<times> ('s, 'e, 'g, 'a, 'v, 'u, 'f) jdc" where
  "jdc_started J p r s = (r, case r of Done _ \<Rightarrow> s | _ \<Rightarrow> jdc_release J (Some p) s)"

text \<open>The job of the last work announced to a new channel: its id is the one of the \<open>SetNewPrevHash\<close>.\<close>

definition announced_job :: "to_client list \<Rightarrow> u32 option" where
  "announced_job work = (case work of [_, MnSetNewPrevHash m] \<Rightarrow> Some (ph_job_id m) | _ \<Rightarrow> None)"

definition record_job ::
  "downstream_id \<Rightarrow> channel_id \<Rightarrow> u32 option \<Rightarrow> u64 \<Rightarrow> ('s, 'e, 'g, 'a, 'v, 'u, 'f) jdc \<Rightarrow>
   ('s, 'e, 'g, 'a, 'v, 'u, 'f) jdc" where
  "record_job d ch job template_id s =
     (case job of
        None \<Rightarrow> s
      | Some job_id \<Rightarrow> s\<lparr>jc_job_template := (jc_job_template s)((d, ch, job_id) \<mapsto> template_id)\<rparr>)"

text \<open>The end of both handlers. A difficulty state that cannot be made is a panic, a group that refuses the
  channel stops the application.\<close>

definition jdc_publish ::
  "('s, 'e, 'g, 'j, 'a, 'p, 'v, 'u, 'f) jdc_lib \<Rightarrow> downstream_id \<Rightarrow> channel_id \<Rightarrow> bool \<Rightarrow> nat \<Rightarrow> u64 \<Rightarrow> to_client list \<Rightarrow>
   to_client \<Rightarrow> ('s, 'e, 'g) jdc_client \<Rightarrow> 'p option \<Rightarrow> ('s, 'e, 'g, 'a, 'v, 'u, 'f) jdc \<Rightarrow>
   (jdc_error, to_client list) attempt \<times> ('s, 'e, 'g, 'a, 'v, 'u, 'f) jdc" where
  "jdc_publish J d ch joins extranonce_size template_id work success c replaced s =
     (case vd_new (srv J) of
        None \<Rightarrow> (Panicked, s)
      | Some v \<Rightarrow>
          (let s1 = record_job d ch (announced_job work) template_id
                      (jdc_release J replaced
                        (put_miner d c (s\<lparr>jc_vardiff := (jc_vardiff s)((d, ch) \<mapsto> v)\<rparr>)))
           in case join_client_group (srv J) joins ch extranonce_size (jd_group c) of
                None \<Rightarrow> (Failed (jdc_shutdown JkChannelSv2), s1)
              | Some g \<Rightarrow> (Done (success # work), put_miner d (c\<lparr>jd_group := g\<rparr>) s1)))"

definition jdc_open_standard ::
  "('s, 'e, 'g, 'j, 'a, 'p, 'v, 'u, 'f) jdc_lib \<Rightarrow> downstream_id \<Rightarrow> open_standard_msg \<Rightarrow> new_template \<Rightarrow>
   template_prev_hash \<Rightarrow> tx_out list \<Rightarrow> ('s, 'e, 'g) jdc_client \<Rightarrow> ('s, 'e, 'g, 'a, 'v, 'u, 'f) jdc \<Rightarrow>
   (jdc_error, to_client list) attempt \<times> ('s, 'e, 'g, 'a, 'v, 'u, 'f) jdc" where
  "jdc_open_standard J d msg template prev_hash outs c s =
     (let ch = jd_channel_id_factory c; c1 = c\<lparr>jd_channel_id_factory := ch + 1\<rparr>
      in and_then (jdc_reserve (alloc_standard (srv J) (jc_allocator s)) d c s) (\<lambda>reserved s1.
           case reserved of
             Inl code \<Rightarrow> jdc_refuse_open (so_request_id msg) code s1
           | Inr p \<Rightarrow>
               (case std_new_jdc J ch (so_user_identity msg) p (so_max_target msg) (so_nominal_hash_rate msg)
                       (jc_share_batch_size s) (jc_shares_per_minute s) (jc_pool_tag s) (jc_miner_tag s)
                       (jc_max_past_jobs s) of
                  Inl (OpenInvalid code) \<Rightarrow>
                    jdc_refuse_open (so_request_id msg) (CodeOfLibrary code) (jdc_release J (Some p) s1)
                | Inl OpenOther \<Rightarrow> (Failed (jdc_disconnect JkChannelSv2 d), jdc_release J (Some p) s1)
                | Inr sc \<Rightarrow>
                    and_then (jdc_started J (std_slot (srv J) sc)
                        (if length (slot_bytes (srv J) (std_slot (srv J) sc)) \<le> 32
                         then as_jdc_shutdown (start_standard (srv J) template prev_hash outs ch sc)
                         else Failed (jdc_shutdown JkBinarySv2)) s1) (\<lambda>(work, sc') s2.
                      jdc_publish J d ch (\<not> jd_require_std_job c)
                        (length (slot_bytes (srv J) (std_slot (srv J) sc))) (tm_template_id template) work
                        (MnOpenStandardSuccess (so_request_id msg) ch (std_target (srv J) sc)
                           (slot_bytes (srv J) (std_slot (srv J) sc)) (grp_id (srv J) (jd_group c)))
                        (c1\<lparr>jd_standard := (jd_standard c)(ch \<mapsto> sc')\<rparr>)
                        (map_option (std_slot (srv J)) (jd_standard c ch)) s2))))"

definition jdc_handle_open_standard ::
  "('s, 'e, 'g, 'j, 'a, 'p, 'v, 'u, 'f) jdc_lib \<Rightarrow> jdc_env \<Rightarrow> downstream_id \<Rightarrow> open_standard_msg \<Rightarrow>
   ('s, 'e, 'g, 'a, 'v, 'u, 'f) jdc \<Rightarrow> (jdc_error, unit) attempt \<times> ('s, 'e, 'g, 'a, 'v, 'u, 'f) jdc" where
  "jdc_handle_open_standard J env d msg s =
     jdc_then_forward env (to_this_miner d (
       and_then (or_fail (jdc_shutdown JkChannelManagerHasBadCoinbaseOutputs)
                   (deserialize_outputs (srv J) (jc_coinbase_outputs s)) s) (\<lambda>outs s.
       and_then (or_fail (jdc_disconnect JkFutureTemplateNotPresent d) (jc_last_future_template s) s) (\<lambda>template s.
       and_then (or_fail (jdc_disconnect JkLastNewPrevhashNotFound d) (jc_last_new_prev_hash s) s) (\<lambda>prev_hash s.
       and_then (expect (set_first_value (tm_coinbase_tx_value_remaining template) outs) s) (\<lambda>outs' s.
         with_registered_miner d (jdc_open_standard J d msg template prev_hash outs') s))))))"

text \<open>The outputs of an extended channel are read after its creation. The rollable part is what the prefix
  leaves of the whole extranonce; a prefix longer than that is a panic where the subtraction is checked.\<close>

definition jdc_open_extended ::
  "('s, 'e, 'g, 'j, 'a, 'p, 'v, 'u, 'f) jdc_lib \<Rightarrow> downstream_id \<Rightarrow> open_channel_msg \<Rightarrow> new_template \<Rightarrow>
   template_prev_hash \<Rightarrow> ('s, 'e, 'g) jdc_client \<Rightarrow> ('s, 'e, 'g, 'a, 'v, 'u, 'f) jdc \<Rightarrow>
   (jdc_error, to_client list) attempt \<times> ('s, 'e, 'g, 'a, 'v, 'u, 'f) jdc" where
  "jdc_open_extended J d msg template prev_hash c s =
     (if jd_require_std_job c
      then jdc_refuse_open (oc_request_id msg) EXTENDED_CHANNELS_NOT_SUPPORTED_FOR_STANDARD_JOBS s
      else
        (let ch = jd_channel_id_factory c; c1 = c\<lparr>jd_channel_id_factory := ch + 1\<rparr>
         in and_then (jdc_reserve (alloc_extended (srv J) (unat (oc_min_extranonce_size msg)) (jc_allocator s)) d c s)
              (\<lambda>reserved s1.
              case reserved of
                Inl code \<Rightarrow> jdc_refuse_open (oc_request_id msg) code s1
              | Inr p \<Rightarrow>
                  if upstream_full_size J s < length (slot_bytes (srv J) p) then (Panicked, s1)
                  else
                  (case ext_new_jdc J ch (oc_user_identity msg) p (oc_max_target msg) (oc_nominal_hash_rate msg) True
                          (of_nat (upstream_full_size J s - length (slot_bytes (srv J) p)))
                          (jc_share_batch_size s) (jc_shares_per_minute s) (jc_pool_tag s) (jc_miner_tag s)
                          (jc_max_past_jobs s) of
                     Inl (OpenInvalid code) \<Rightarrow>
                       jdc_refuse_open (oc_request_id msg) (CodeOfLibrary code) (jdc_release J (Some p) s1)
                   | Inl OpenOther \<Rightarrow> (Failed (jdc_disconnect JkChannelSv2 d), jdc_release J (Some p) s1)
                   | Inr ec \<Rightarrow>
                       and_then (jdc_started J (ext_slot (srv J) ec)
                           (if \<not> length (slot_bytes (srv J) (ext_slot (srv J) ec)) \<le> 32 then Panicked
                            else case deserialize_outputs (srv J) (jc_coinbase_outputs s) of
                              None \<Rightarrow> Failed (jdc_shutdown JkChannelManagerHasBadCoinbaseOutputs)
                            | Some outs \<Rightarrow>
                                (case set_first_value (tm_coinbase_tx_value_remaining template) outs of
                                   None \<Rightarrow> Panicked
                                 | Some outs' \<Rightarrow>
                                     as_jdc_shutdown (start_extended (srv J) template prev_hash outs' ch ec))) s1)
                         (\<lambda>(work, ec') s2.
                           jdc_publish J d ch True (ext_full_extranonce_size (srv J) ec) (tm_template_id template) work
                             (MnOpenExtendedSuccess (oc_request_id msg) ch (ext_target (srv J) ec)
                                (slot_bytes (srv J) (ext_slot (srv J) ec)) (ext_rollable_extranonce_size (srv J) ec)
                                (grp_id (srv J) (jd_group c)))
                             (c1\<lparr>jd_extended := (jd_extended c)(ch \<mapsto> ec')\<rparr>)
                             (map_option (ext_slot (srv J)) (jd_extended c ch)) s2)))))"

definition jdc_handle_open_extended ::
  "('s, 'e, 'g, 'j, 'a, 'p, 'v, 'u, 'f) jdc_lib \<Rightarrow> jdc_env \<Rightarrow> downstream_id \<Rightarrow> open_channel_msg \<Rightarrow>
   ('s, 'e, 'g, 'a, 'v, 'u, 'f) jdc \<Rightarrow> (jdc_error, unit) attempt \<times> ('s, 'e, 'g, 'a, 'v, 'u, 'f) jdc" where
  "jdc_handle_open_extended J env d msg s =
     jdc_then_forward env (to_this_miner d (
       and_then (or_fail (jdc_disconnect JkFutureTemplateNotPresent d) (jc_last_future_template s) s) (\<lambda>template s.
       and_then (or_fail (jdc_disconnect JkLastNewPrevhashNotFound d) (jc_last_new_prev_hash s) s) (\<lambda>prev_hash s.
         with_registered_miner d (jdc_open_extended J d msg template prev_hash) s))))"

section \<open>Updates\<close>

text \<open>An invalid request is answered with the error alone; any other failure with the target in force.\<close>

definition jdc_update_answer ::
  "(update_channel_error, 'c) result \<Rightarrow> channel_id \<Rightarrow> ('c \<Rightarrow> target) \<Rightarrow> 'c \<Rightarrow> to_client list \<times> 'c" where
  "jdc_update_answer r ch target_of chan =
     (case r of
        Inr chan' \<Rightarrow> ([MnSetTarget ch (target_of chan')], chan')
      | Inl (UpdateInvalid code) \<Rightarrow> ([MnUpdateChannelError ch (CodeOfLibrary code)], chan)
      | Inl UpdateOther \<Rightarrow> ([MnSetTarget ch (target_of chan)], chan))"

definition jdc_update_in_client ::
  "('s, 'e, 'g, 'j, 'a, 'p, 'v, 'u, 'f) jdc_lib \<Rightarrow> downstream_id \<Rightarrow> channel_id \<Rightarrow> hashrate \<Rightarrow> target \<Rightarrow>
   ('s, 'e, 'g) jdc_client \<Rightarrow> ('s, 'e, 'g, 'a, 'v, 'u, 'f) jdc \<Rightarrow>
   (jdc_error, to_client list) attempt \<times> ('s, 'e, 'g, 'a, 'v, 'u, 'f) jdc" where
  "jdc_update_in_client J d ch h max_target c s =
     (case jd_standard c ch of
        Some sc \<Rightarrow>
          (let (ms, sc') = jdc_update_answer (std_update (srv J) h (Some max_target) sc) ch (std_target (srv J)) sc
           in (Done ms, put_miner d (c\<lparr>jd_standard := (jd_standard c)(ch \<mapsto> sc')\<rparr>) s))
      | None \<Rightarrow>
          (case jd_extended c ch of
             Some ec \<Rightarrow>
               (let (ms, ec') = jdc_update_answer (ext_update (srv J) h (Some max_target) ec) ch (ext_target (srv J)) ec
                in (Done ms, put_miner d (c\<lparr>jd_extended := (jd_extended c)(ch \<mapsto> ec')\<rparr>) s))
           | None \<Rightarrow> (Done [MnUpdateChannelError ch UPDATE_CHANNEL_INVALID_CHANNEL_ID], s)))"

text \<open>The nominal hashrates and targets of all channels, in the order they are visited: of each miner the
  standard channels, then the extended ones.\<close>

definition channel_figures ::
  "('s, 'e, 'g, 'j, 'a, 'p, 'v, 'u, 'f) jdc_lib \<Rightarrow> jdc_env \<Rightarrow> ('s, 'e, 'g, 'a, 'v, 'u, 'f) jdc \<Rightarrow> (hashrate \<times> target) list" where
  "channel_figures J env s =
     concat (map (\<lambda>d. case jc_downstreams s d of
         None \<Rightarrow> []
       | Some c \<Rightarrow>
           map (\<lambda>sc. (std_nominal_hashrate (srv J) sc, std_target (srv J) sc))
             (List.map_filter (jd_standard c) (visit_miner_channels env d)) @
           map (\<lambda>ec. (ext_nominal_hashrate (srv J) ec, ext_target (srv J) ec))
             (List.map_filter (jd_extended c) (visit_miner_channels env d))) (visit_miners env))"

text \<open>The sum (from the \<open>f32\<close> zero, whose bits are zero) and a minimum of these, told to the pool.\<close>

definition tell_upstream_figures ::
  "('s, 'e, 'g, 'j, 'a, 'p, 'v, 'u, 'f) jdc_lib \<Rightarrow> (target \<Rightarrow> target \<Rightarrow> target) \<Rightarrow> (hashrate \<times> target) list \<Rightarrow>
   ('s, 'e, 'g, 'a, 'v, 'u, 'f) jdc \<Rightarrow> jdc_route list \<times> ('s, 'e, 'g, 'a, 'v, 'u, 'f) jdc" where
  "tell_upstream_figures J least figures s =
     (case jc_upstream s of
        None \<Rightarrow> ([], s)
      | Some up \<Rightarrow>
          (let total = foldl (f32_add J) 0 (map fst figures);
               max_target = foldl (\<lambda>m t. least t m) (- 1) (map snd figures)
           in ([ToUpstream (UpUpdateChannel (up_channel_id J up) total max_target)],
               s\<lparr>jc_upstream := Some (up_set_nominal_hashrate J total up)\<rparr>)))"

definition jdc_handle_update_channel ::
  "('s, 'e, 'g, 'j, 'a, 'p, 'v, 'u, 'f) jdc_lib \<Rightarrow> jdc_env \<Rightarrow> downstream_id \<Rightarrow> channel_id \<Rightarrow> hashrate \<Rightarrow> target \<Rightarrow>
   ('s, 'e, 'g, 'a, 'v, 'u, 'f) jdc \<Rightarrow> (jdc_error, unit) attempt \<times> ('s, 'e, 'g, 'a, 'v, 'u, 'f) jdc" where
  "jdc_handle_update_channel J env d ch h max_target s =
     jdc_then_forward env
       (and_then (to_this_miner d (with_registered_miner d (jdc_update_in_client J d ch h max_target) s)) (\<lambda>ms s1.
          case tell_upstream_figures J min (channel_figures J env s1) s1 of (ms', s2) \<Rightarrow> (Done (ms @ ms'), s2)))"

section \<open>Shares\<close>

text \<open>The errors of a share the handlers expect; any other is \<open>unreachable!\<close>. The standard handler does not
  expect a wrong extranonce size, neither from its channel nor from the pool's.\<close>

definition jdc_share_answer ::
  "downstream_id \<Rightarrow> channel_id \<Rightarrow> u32 \<Rightarrow> (u64 \<Rightarrow> bytes \<Rightarrow> submit_solution) \<Rightarrow> (share_validation_error \<Rightarrow> string option) \<Rightarrow>
   share_accounting \<Rightarrow> (share_validation_error, hash \<times> share_validation_result) result \<Rightarrow>
   (jdc_error, jdc_route list \<times> hash option) attempt" where
  "jdc_share_answer d ch seq solution rejection acc v =
     (case v of
        Inr (share_hash, ShareAccepted) \<Rightarrow>
          Done (if sa_should_acknowledge acc then [ToMiner d (Mn (share_success ch acc))] else [], Some share_hash)
      | Inr (share_hash, BlockFound template_id coinbase) \<Rightarrow>
          (case template_id of
             None \<Rightarrow> Done ([ToMiner d (Mn (share_success ch acc))], Some share_hash)
           | Some t \<Rightarrow>
               if length coinbase < 2 ^ 16
               then Done ([ToProvider (JtSubmitSolution (solution t coinbase)), ToMiner d (Mn (share_success ch acc))],
                          Some share_hash)
               else Failed (jdc_shutdown JkBinarySv2))
      | Inl e \<Rightarrow>
          if e = ShSeenSharesBudgetExhausted then Failed (jdc_disconnect JkChannelSv2 d)
          else (case rejection e of
                  Some code \<Rightarrow> Done ([ToMiner d (Mn (MnSubmitSharesError ch seq (CodeOfLibrary code)))], None)
                | None \<Rightarrow> Panicked))"

definition push_solution_of :: "bytes \<Rightarrow> template_prev_hash \<Rightarrow> submit_shares_extended \<Rightarrow> push_solution" where
  "push_solution_of extranonce prev_hash m =
     \<lparr>ps_extranonce = extranonce, ps_ntime = se_ntime m, ps_nonce = se_nonce m, ps_version = se_version m,
      ps_nbits = tph_n_bits prev_hash, ps_prev_hash = tph_prev_hash prev_hash\<rparr>"

text \<open>The pool's channel judges the share; a good one gets the next sequence number. \<open>solution_extranonce\<close> is the
  extranonce of a block's \<open>PushSolution\<close>, \<open>oversize\<close> what happens when it has no room.\<close>

definition submit_upstream ::
  "('s, 'e, 'g, 'j, 'a, 'p, 'v, 'u, 'f) jdc_lib \<Rightarrow> (share_validation_error \<Rightarrow> string option) \<Rightarrow>
   ('u \<Rightarrow> submit_shares_extended \<Rightarrow> bytes) \<Rightarrow> (jdc_error, jdc_route list) attempt \<Rightarrow> template_prev_hash \<Rightarrow> 'u \<Rightarrow>
   submit_shares_extended \<Rightarrow> ('s, 'e, 'g, 'a, 'v, 'u, 'f) jdc \<Rightarrow>
   (jdc_error, jdc_route list) attempt \<times> ('s, 'e, 'g, 'a, 'v, 'u, 'f) jdc" where
  "submit_upstream J rejection solution_extranonce oversize prev_hash up m s =
     (let (v, up') = up_share J m up; s1 = s\<lparr>jc_upstream := Some up'\<rparr>
      in case v of
           Inl e \<Rightarrow> (if rejection e = None then Panicked else Done [], s1)
         | Inr (_, block) \<Rightarrow>
             (let m' = m\<lparr>se_sequence_number := jc_sequence_number_factory s1\<rparr>;
                  s2 = s1\<lparr>jc_sequence_number_factory := jc_sequence_number_factory s1 + 1\<rparr>
              in if \<not> block then (Done [ToUpstream (UpSubmitShares m')], s2)
                 else if length (solution_extranonce up' m') \<le> 32
                 then (Done [ToJobDeclarator (JdPushSolution (push_solution_of (solution_extranonce up' m') prev_hash m')),
                             ToUpstream (UpSubmitShares m')], s2)
                 else (oversize, s2)))"

definition cache_share ::
  "u64 \<Rightarrow> submit_shares_extended \<Rightarrow> hash \<Rightarrow> ('s, 'e, 'g, 'a, 'v, 'u, 'f) jdc \<Rightarrow> ('s, 'e, 'g, 'a, 'v, 'u, 'f) jdc" where
  "cache_share template_id m share_hash s =
     s\<lparr>jc_cached_shares := (jc_cached_shares s)(template_id \<mapsto>
         add_share_to_cache (case jc_cached_shares s template_id of None \<Rightarrow> [] | Some heap \<Rightarrow> heap)
           (shares_ordered_by_diff m share_hash))\<rparr>"

text \<open>A share whose job the pool has accepted goes to the pool; one whose job it has not waits.\<close>

definition share_to_upstream ::
  "('s, 'e, 'g, 'j, 'a, 'p, 'v, 'u, 'f) jdc_lib \<Rightarrow> (share_validation_error \<Rightarrow> string option) \<Rightarrow>
   ('u \<Rightarrow> submit_shares_extended \<Rightarrow> bytes) \<Rightarrow> template_prev_hash \<Rightarrow> u64 option \<Rightarrow> hash \<Rightarrow> 'u \<Rightarrow> submit_shares_extended \<Rightarrow>
   ('s, 'e, 'g, 'a, 'v, 'u, 'f) jdc \<Rightarrow> (jdc_error, jdc_route list) attempt \<times> ('s, 'e, 'g, 'a, 'v, 'u, 'f) jdc" where
  "share_to_upstream J rejection solution_extranonce prev_hash template share_hash up m s =
     (case template of
        None \<Rightarrow> (Done [], s)
      | Some template_id \<Rightarrow>
          (case jc_upstream_job s template_id of
             Some job_id \<Rightarrow>
               submit_upstream J rejection solution_extranonce (Failed (jdc_shutdown JkBinarySv2)) prev_hash up
                 (m\<lparr>se_job_id := job_id\<rparr>) s
           | None \<Rightarrow> (Done [], cache_share template_id m share_hash s)))"

text \<open>The share as the pool's channel sees it: the part of the miner's extranonce behind the pool's prefix.
  \<open>None\<close> is the panic of a slice that starts behind the end; a length over 32 does not fit the field.\<close>

definition tail_of :: "bytes \<Rightarrow> bytes \<Rightarrow> bytes option" where
  "tail_of prefix_bytes upstream_prefix =
     (if length upstream_prefix \<le> length prefix_bytes then Some (drop (length upstream_prefix) prefix_bytes) else None)"

definition upstream_share_standard :: "channel_id \<Rightarrow> bytes \<Rightarrow> submit_shares_standard \<Rightarrow> submit_shares_extended" where
  "upstream_share_standard ch extranonce msg =
     \<lparr>se_channel_id = ch, se_sequence_number = 0, se_job_id = 0, se_nonce = ss_nonce msg, se_ntime = ss_ntime msg,
      se_version = ss_version msg, se_extranonce = extranonce\<rparr>"

definition upstream_share_extended :: "channel_id \<Rightarrow> bytes \<Rightarrow> submit_shares_extended \<Rightarrow> submit_shares_extended" where
  "upstream_share_extended ch extranonce msg =
     msg\<lparr>se_channel_id := ch, se_sequence_number := 0, se_extranonce := extranonce\<rparr>"

text \<open>The translation of a good share: the channel's prefix behind the pool's, and the extranonce the miner
  rolled (none on a standard channel).\<close>

definition translate_share ::
  "('s, 'e, 'g, 'j, 'a, 'p, 'v, 'u, 'f) jdc_lib \<Rightarrow> (share_validation_error \<Rightarrow> string option) \<Rightarrow>
   ('u \<Rightarrow> submit_shares_extended \<Rightarrow> bytes) \<Rightarrow> jdc_error \<Rightarrow> template_prev_hash \<Rightarrow> u64 option \<Rightarrow> hash \<Rightarrow> bytes \<Rightarrow> bytes \<Rightarrow>
   (channel_id \<Rightarrow> bytes \<Rightarrow> submit_shares_extended) \<Rightarrow> ('s, 'e, 'g, 'a, 'v, 'u, 'f) jdc \<Rightarrow>
   (jdc_error, jdc_route list) attempt \<times> ('s, 'e, 'g, 'a, 'v, 'u, 'f) jdc" where
  "translate_share J rejection solution_extranonce oversize prev_hash template share_hash channel_prefix rolled share s =
     (case jc_upstream s of
        None \<Rightarrow> (Done [], s)
      | Some up \<Rightarrow>
          (case tail_of channel_prefix (up_prefix J up) of
             None \<Rightarrow> (Panicked, s)
           | Some tail \<Rightarrow>
               if length (tail @ rolled) \<le> 32
               then share_to_upstream J rejection solution_extranonce prev_hash template share_hash up
                      (share (up_channel_id J up) (tail @ rolled)) s
               else (Failed oversize, s)))"

definition jdc_count_share ::
  "('s, 'e, 'g, 'j, 'a, 'p, 'v, 'u, 'f) jdc_lib \<Rightarrow> downstream_id \<Rightarrow> channel_id \<Rightarrow>
   (jdc_error, jdc_route list) attempt \<times> ('s, 'e, 'g, 'a, 'v, 'u, 'f) jdc \<Rightarrow>
   (jdc_error, jdc_route list) attempt \<times> ('s, 'e, 'g, 'a, 'v, 'u, 'f) jdc" where
  "jdc_count_share J d ch r =
     (case r of
        (Panicked, s) \<Rightarrow> (Panicked, s)
      | (out, s) \<Rightarrow>
          (case jc_vardiff s (d, ch) of
             None \<Rightarrow> (Done [ToMiner d (Mn (MnCloseChannel ch SUBMIT_SHARES_INVALID_CHANNEL_ID))], s)
           | Some v \<Rightarrow> (out, s\<lparr>jc_vardiff := (jc_vardiff s)((d, ch) \<mapsto> vd_increment (srv J) v)\<rparr>)))"

text \<open>What both handlers do after the channel's verdict.\<close>

definition after_verdict ::
  "(jdc_error, jdc_route list \<times> hash option) attempt \<Rightarrow>
   (hash \<Rightarrow> ('s, 'e, 'g, 'a, 'v, 'u, 'f) jdc \<Rightarrow> (jdc_error, jdc_route list) attempt \<times> ('s, 'e, 'g, 'a, 'v, 'u, 'f) jdc) \<Rightarrow>
   ('s, 'e, 'g, 'a, 'v, 'u, 'f) jdc \<Rightarrow> (jdc_error, jdc_route list) attempt \<times> ('s, 'e, 'g, 'a, 'v, 'u, 'f) jdc" where
  "after_verdict answer goes_up s =
     and_then (answer, s) (\<lambda>(ms, share_hash) s.
       case share_hash of
         None \<Rightarrow> (Done ms, s)
       | Some h \<Rightarrow> and_then (goes_up h s) (\<lambda>ms' s. (Done (ms @ ms'), s)))"

definition jdc_submit_standard ::
  "('s, 'e, 'g, 'j, 'a, 'p, 'v, 'u, 'f) jdc_lib \<Rightarrow> downstream_id \<Rightarrow> submit_shares_standard \<Rightarrow> template_prev_hash \<Rightarrow>
   ('s, 'e, 'g) jdc_client \<Rightarrow> ('s, 'e, 'g, 'a, 'v, 'u, 'f) jdc \<Rightarrow>
   (jdc_error, jdc_route list) attempt \<times> ('s, 'e, 'g, 'a, 'v, 'u, 'f) jdc" where
  "jdc_submit_standard J d msg prev_hash c s =
     (let ch = ss_channel_id msg; seq = ss_sequence_number msg
      in case jd_standard c ch of
           None \<Rightarrow> (Done [ToMiner d (Mn (MnSubmitSharesError ch seq SUBMIT_SHARES_INVALID_CHANNEL_ID))], s)
         | Some sc \<Rightarrow>
             (let (v, sc') = std_share J msg sc;
                  own_prefix = slot_bytes (srv J) (std_slot (srv J) sc')
              in jdc_count_share J d ch
                   (after_verdict
                      (jdc_share_answer d ch seq (solution_standard msg) standard_rejection (std_accounting (srv J) sc') v)
                      (\<lambda>share_hash s.
                         translate_share J standard_rejection (\<lambda>_ _. own_prefix) (jdc_shutdown JkBinarySv2) prev_hash
                           (jc_job_template s (d, ch, ss_job_id msg)) share_hash own_prefix []
                           (\<lambda>up_ch extranonce. upstream_share_standard up_ch extranonce msg) s)
                      (put_miner d (c\<lparr>jd_standard := (jd_standard c)(ch \<mapsto> sc')\<rparr>) s))))"

definition jdc_submit_extended ::
  "('s, 'e, 'g, 'j, 'a, 'p, 'v, 'u, 'f) jdc_lib \<Rightarrow> downstream_id \<Rightarrow> submit_shares_extended \<Rightarrow> template_prev_hash \<Rightarrow>
   ('s, 'e, 'g) jdc_client \<Rightarrow> ('s, 'e, 'g, 'a, 'v, 'u, 'f) jdc \<Rightarrow>
   (jdc_error, jdc_route list) attempt \<times> ('s, 'e, 'g, 'a, 'v, 'u, 'f) jdc" where
  "jdc_submit_extended J d msg prev_hash c s =
     (let ch = se_channel_id msg; seq = se_sequence_number msg
      in case jd_extended c ch of
           None \<Rightarrow> (Done [ToMiner d (Mn (MnSubmitSharesError ch seq SUBMIT_SHARES_INVALID_CHANNEL_ID))], s)
         | Some ec \<Rightarrow>
             (let (v, ec') = ext_share J msg ec;
                  own_prefix = slot_bytes (srv J) (ext_slot (srv J) ec')
              in jdc_count_share J d ch
                   (after_verdict
                      (jdc_share_answer d ch seq (solution_extended msg) extended_rejection (ext_accounting (srv J) ec') v)
                      (\<lambda>share_hash s.
                         translate_share J extended_rejection (\<lambda>up m. up_prefix J up @ se_extranonce m)
                           (jdc_disconnect JkBinarySv2 d) prev_hash
                           (jc_job_template s (d, ch, se_job_id msg)) share_hash own_prefix (se_extranonce msg)
                           (\<lambda>up_ch extranonce. upstream_share_extended up_ch extranonce msg) s)
                      (put_miner d (c\<lparr>jd_extended := (jd_extended c)(ch \<mapsto> ec')\<rparr>) s))))"

definition jdc_handle_submit_standard ::
  "('s, 'e, 'g, 'j, 'a, 'p, 'v, 'u, 'f) jdc_lib \<Rightarrow> jdc_env \<Rightarrow> downstream_id \<Rightarrow> submit_shares_standard \<Rightarrow>
   ('s, 'e, 'g, 'a, 'v, 'u, 'f) jdc \<Rightarrow> (jdc_error, unit) attempt \<times> ('s, 'e, 'g, 'a, 'v, 'u, 'f) jdc" where
  "jdc_handle_submit_standard J env d msg s =
     jdc_then_forward env
       (and_then (or_fail (jdc_disconnect JkLastNewPrevhashNotFound d) (jc_last_new_prev_hash s) s) (\<lambda>prev_hash s.
          with_registered_miner d (jdc_submit_standard J d msg prev_hash) s))"

text \<open>The worker name an extended share may carry in a TLV is read and not used.\<close>

definition jdc_handle_submit_extended ::
  "('s, 'e, 'g, 'j, 'a, 'p, 'v, 'u, 'f) jdc_lib \<Rightarrow> jdc_env \<Rightarrow> downstream_id \<Rightarrow> submit_shares_extended \<Rightarrow>
   ('s, 'e, 'g, 'a, 'v, 'u, 'f) jdc \<Rightarrow> (jdc_error, unit) attempt \<times> ('s, 'e, 'g, 'a, 'v, 'u, 'f) jdc" where
  "jdc_handle_submit_extended J env d msg s =
     jdc_then_forward env
       (and_then (or_fail (jdc_disconnect JkLastNewPrevhashNotFound d) (jc_last_new_prev_hash s) s) (\<lambda>prev_hash s.
          with_registered_miner d (jdc_submit_extended J d msg prev_hash) s))"

section \<open>The dispatcher\<close>

text \<open>A custom job from a miner is logged and ignored.\<close>

definition MESSAGE_TYPE_SET_CUSTOM_MINING_JOB :: u8 where
  "MESSAGE_TYPE_SET_CUSTOM_MINING_JOB = 34"

datatype from_miner =
    MiOpenStandard open_standard_msg
  | MiOpenExtended open_channel_msg
  | MiCloseChannel channel_id
  | MiSubmitStandard submit_shares_standard
  | MiSubmitExtended submit_shares_extended
  | MiUpdateChannel channel_id hashrate target
  | MiSetCustomJob

fun handle_mining_message_from_miner ::
  "('s, 'e, 'g, 'j, 'a, 'p, 'v, 'u, 'f) jdc_lib \<Rightarrow> jdc_env \<Rightarrow> downstream_id \<Rightarrow> from_miner \<Rightarrow>
   ('s, 'e, 'g, 'a, 'v, 'u, 'f) jdc \<Rightarrow> (jdc_error, unit) attempt \<times> ('s, 'e, 'g, 'a, 'v, 'u, 'f) jdc" where
  "handle_mining_message_from_miner J env d (MiOpenStandard m) s = jdc_handle_open_standard J env d m s"
| "handle_mining_message_from_miner J env d (MiOpenExtended m) s = jdc_handle_open_extended J env d m s"
| "handle_mining_message_from_miner J env d (MiCloseChannel ch) s = jdc_handle_close_channel J d ch s"
| "handle_mining_message_from_miner J env d (MiSubmitStandard m) s = jdc_handle_submit_standard J env d m s"
| "handle_mining_message_from_miner J env d (MiSubmitExtended m) s = jdc_handle_submit_extended J env d m s"
| "handle_mining_message_from_miner J env d (MiUpdateChannel ch h t) s = jdc_handle_update_channel J env d ch h t s"
| "handle_mining_message_from_miner J env d MiSetCustomJob s =
     (Failed (jdc_log (JkUnexpectedMessage 0 MESSAGE_TYPE_SET_CUSTOM_MINING_JOB)), s)"

text \<open>The request that opens the one channel with the pool, made from the miner's: the pool's identity, and
  room for the client's own bytes before what the miner asked for or the reserve, whichever is greater.\<close>

definition upstream_open_for_extended ::
  "('s, 'e, 'g, 'j, 'a, 'p, 'v, 'u, 'f) jdc_lib \<Rightarrow> u8 \<Rightarrow> string \<Rightarrow> open_channel_msg \<Rightarrow> open_channel_msg" where
  "upstream_open_for_extended J reserved identity msg =
     msg\<lparr>oc_user_identity := identity, oc_request_id := 1,
         oc_min_extranonce_size :=
           of_nat (unat (JDC_LOCAL_PREFIX_BYTES J) + max (unat reserved) (unat (oc_min_extranonce_size msg)))\<rparr>"

definition upstream_open_for_standard ::
  "('s, 'e, 'g, 'j, 'a, 'p, 'v, 'u, 'f) jdc_lib \<Rightarrow> u8 \<Rightarrow> string \<Rightarrow> open_standard_msg \<Rightarrow> open_channel_msg" where
  "upstream_open_for_standard J reserved identity msg =
     \<lparr>oc_request_id = 1, oc_user_identity = identity, oc_nominal_hash_rate = so_nominal_hash_rate msg,
      oc_max_target = so_max_target msg,
      oc_min_extranonce_size = ucast (JDC_LOCAL_PREFIX_BYTES J) + ucast reserved\<rparr>"

text \<open>The first request while there is no channel: it is queued in front and the channel asked for. The
  identity has to fit its field; it is checked after the state has changed.\<close>

definition ask_upstream ::
  "jdc_env \<Rightarrow> (jdc_error, unit) attempt \<Rightarrow> pending_channel_request \<Rightarrow> (string \<Rightarrow> open_channel_msg) \<Rightarrow>
   ('s, 'e, 'g, 'a, 'v, 'u, 'f) jdc \<Rightarrow> (jdc_error, unit) attempt \<times> ('s, 'e, 'g, 'a, 'v, 'u, 'f) jdc" where
  "ask_upstream env misfit request open_for s =
     (let s1 = s\<lparr>jc_pending := request # jc_pending s, jc_upstream_state := Pending\<rparr>
      in case jc_user_identity s of
           None \<Rightarrow> (Panicked, s1)
         | Some identity \<Rightarrow>
             if length identity \<le> 255 then send_upstream env (UpOpenExtended (open_for identity)) s1
             else (misfit, s1))"

definition jdc_handle_downstream_message ::
  "('s, 'e, 'g, 'j, 'a, 'p, 'v, 'u, 'f) jdc_lib \<Rightarrow> jdc_env \<Rightarrow> downstream_id \<Rightarrow> from_miner \<Rightarrow>
   ('s, 'e, 'g, 'a, 'v, 'u, 'f) jdc \<Rightarrow> (jdc_error, unit) attempt \<times> ('s, 'e, 'g, 'a, 'v, 'u, 'f) jdc" where
  "jdc_handle_downstream_message J env d m s =
     (case m of
        MiOpenExtended msg \<Rightarrow>
          (case jc_upstream_state s of
             NoChannel \<Rightarrow>
               ask_upstream env (Failed (jdc_shutdown JkBinarySv2)) (PendingExtended d msg)
                 (\<lambda>identity. upstream_open_for_extended J (jc_reserved_rollable s) identity msg) s
           | Pending \<Rightarrow> (Done (), s\<lparr>jc_pending := jc_pending s @ [PendingExtended d msg]\<rparr>)
           | _ \<Rightarrow> handle_mining_message_from_miner J env d m s)
      | MiOpenStandard msg \<Rightarrow>
          (case jc_upstream_state s of
             NoChannel \<Rightarrow>
               ask_upstream env Panicked (PendingStandard d msg)
                 (\<lambda>identity. upstream_open_for_standard J (jc_reserved_rollable s) identity msg) s
           | Pending \<Rightarrow> (Done (), s\<lparr>jc_pending := jc_pending s @ [PendingStandard d msg]\<rparr>)
           | _ \<Rightarrow> handle_mining_message_from_miner J env d m s)
      | _ \<Rightarrow> handle_mining_message_from_miner J env d m s)"

end
