(* ===== verification/Jdc_Templates.thy ===== *)
theory Jdc_Templates
  imports Jdc_Downstream
begin

text \<open>
  \<open>channel_manager/template_message_handler.rs\<close> of the Job Declarator Client, with the variable difficulty of
  \<open>mod.rs\<close>: templates and previous hashes go to the miners as jobs, and to the pool as custom jobs. In
  full-template mode the transactions of a template are asked for and the job is declared first; in
  coinbase-only mode the custom job goes to the pool at once. A token from the Job Declarator Server is spent
  on each.
\<close>

section \<open>Templates\<close>

definition pop_token ::
  "('s, 'e, 'g, 'a, 'v, 'u, 'f) jdc \<Rightarrow> allocate_token_success option \<times> ('s, 'e, 'g, 'a, 'v, 'u, 'f) jdc" where
  "pop_token s = (case jc_tokens s of [] \<Rightarrow> (None, s) | t # ts \<Rightarrow> (Some t, s\<lparr>jc_tokens := ts\<rparr>))"

text \<open>A request id and the custom job made under it; a job that cannot be made leaves no entry. A missing
  factory is a panic.\<close>

definition declare_custom_job ::
  "('s, 'e, 'g, 'j, 'a, 'p, 'v, 'u, 'f) jdc_lib \<Rightarrow> 'u \<Rightarrow> bytes \<Rightarrow> template_prev_hash \<Rightarrow> new_template \<Rightarrow> tx_out list \<Rightarrow>
   ('s, 'e, 'g, 'a, 'v, 'u, 'f) jdc \<Rightarrow> (jdc_error, jdc_route list) attempt \<times> ('s, 'e, 'g, 'a, 'v, 'u, 'f) jdc" where
  "declare_custom_job J up token prev_hash template outs s =
     (let r = jc_request_id_factory s;
          s1 = s\<lparr>jc_request_id_factory := r + 1\<rparr>
      in case jc_factory s of
           None \<Rightarrow> (Panicked, s1)
         | Some factory \<Rightarrow>
             (let (job, factory') = new_custom_job J (up_channel_id J up) r token (chain_tip_of prev_hash) template outs
                                      (up_full_size J up) factory;
                  s2 = s1\<lparr>jc_factory := Some factory'\<rparr>
              in case job of
                   None \<Rightarrow> (Done [], s2)
                 | Some m \<Rightarrow>
                     (Done [ToUpstream (UpSetCustomMiningJob m)],
                      s2\<lparr>jc_declared := (jc_declared s2)(r \<mapsto>
                         \<lparr>dc_declare_mining_job = None, dc_template = template, dc_prev_hash = Some prev_hash,
                          dc_set_custom_mining_job = Some m, dc_coinbase_output = jc_coinbase_outputs s,
                          dc_tx_list = []\<rparr>)\<rparr>)))"

text \<open>The custom job of one pass over a miner, in coinbase-only mode.\<close>

definition custom_job_for_miner ::
  "('s, 'e, 'g, 'j, 'a, 'p, 'v, 'u, 'f) jdc_lib \<Rightarrow> allocate_token_success option \<Rightarrow> 'u option \<Rightarrow> template_prev_hash option \<Rightarrow>
   new_template \<Rightarrow> tx_out list \<Rightarrow> ('s, 'e, 'g, 'a, 'v, 'u, 'f) jdc \<Rightarrow>
   (jdc_error, jdc_route list) attempt \<times> ('s, 'e, 'g, 'a, 'v, 'u, 'f) jdc" where
  "custom_job_for_miner J token up prev_hash template outs s =
     (case (token, up, prev_hash) of
        (Some t, Some u, Some ph) \<Rightarrow> declare_custom_job J u (at_mining_job_token t) ph template outs s
      | _ \<Rightarrow> (Done [], s))"

definition put_standard ::
  "downstream_id \<Rightarrow> channel_id \<Rightarrow> 's \<Rightarrow> ('s, 'e, 'g, 'a, 'v, 'u, 'f) jdc \<Rightarrow> ('s, 'e, 'g, 'a, 'v, 'u, 'f) jdc" where
  "put_standard d ch sc s =
     (case jc_downstreams s d of
        None \<Rightarrow> s | Some c \<Rightarrow> put_miner d (c\<lparr>jd_standard := (jd_standard c)(ch \<mapsto> sc)\<rparr>) s)"

definition put_extended ::
  "downstream_id \<Rightarrow> channel_id \<Rightarrow> 'e \<Rightarrow> ('s, 'e, 'g, 'a, 'v, 'u, 'f) jdc \<Rightarrow> ('s, 'e, 'g, 'a, 'v, 'u, 'f) jdc" where
  "put_extended d ch ec s =
     (case jc_downstreams s d of
        None \<Rightarrow> s | Some c \<Rightarrow> put_miner d (c\<lparr>jd_extended := (jd_extended c)(ch \<mapsto> ec)\<rparr>) s)"

definition standard_of ::
  "downstream_id \<Rightarrow> channel_id \<Rightarrow> ('s, 'e, 'g, 'a, 'v, 'u, 'f) jdc \<Rightarrow> 's option" where
  "standard_of d ch s = (case jc_downstreams s d of None \<Rightarrow> None | Some c \<Rightarrow> jd_standard c ch)"

definition extended_of ::
  "downstream_id \<Rightarrow> channel_id \<Rightarrow> ('s, 'e, 'g, 'a, 'v, 'u, 'f) jdc \<Rightarrow> 'e option" where
  "extended_of d ch s = (case jc_downstreams s d of None \<Rightarrow> None | Some c \<Rightarrow> jd_extended c ch)"

definition template_to_standard ::
  "('s, 'e, 'g, 'j, 'a, 'p, 'v, 'u, 'f) jdc_lib \<Rightarrow> new_template \<Rightarrow> tx_out list \<Rightarrow> 'j \<Rightarrow> bool \<Rightarrow> downstream_id \<Rightarrow> channel_id \<Rightarrow>
   ('s, 'e, 'g, 'a, 'v, 'u, 'f) jdc \<Rightarrow> (jdc_error, jdc_route list) attempt \<times> ('s, 'e, 'g, 'a, 'v, 'u, 'f) jdc" where
  "template_to_standard J template outs group_job requires_standard_jobs d ch s =
     (case standard_of d ch s of
        None \<Rightarrow> (Done [], s)
      | Some sc \<Rightarrow>
          if \<not> requires_standard_jobs
          then
            (let s1 = record_job d ch (Some (job_id_of (srv J) group_job)) (tm_template_id template) s
             in case std_on_group_job (srv J) group_job sc of
                  None \<Rightarrow> (Failed (jdc_shutdown JkChannelSv2), s1)
                | Some sc' \<Rightarrow> (Done [], put_standard d ch sc' s1))
          else
            (case std_on_new_template (srv J) template outs sc of
               None \<Rightarrow> (Failed (jdc_shutdown JkChannelSv2), s)
             | Some sc' \<Rightarrow>
                 (let s1 = put_standard d ch sc' s
                  in case standard_job_of (srv J) template sc' of
                       None \<Rightarrow> (Panicked, s1)
                     | Some job \<Rightarrow>
                         (Done [ToMiner d (Mn (MnNewMiningJob job))],
                          record_job d ch (Some (sm_job_id job)) (tm_template_id template) s1))))"

definition template_to_extended ::
  "('s, 'e, 'g, 'j, 'a, 'p, 'v, 'u, 'f) jdc_lib \<Rightarrow> new_template \<Rightarrow> 'j \<Rightarrow> downstream_id \<Rightarrow> channel_id \<Rightarrow>
   ('s, 'e, 'g, 'a, 'v, 'u, 'f) jdc \<Rightarrow> (jdc_error, unit) attempt \<times> ('s, 'e, 'g, 'a, 'v, 'u, 'f) jdc" where
  "template_to_extended J template group_job d ch s =
     (case extended_of d ch s of
        None \<Rightarrow> (Done (), s)
      | Some ec \<Rightarrow>
          (let s1 = record_job d ch (Some (job_id_of (srv J) group_job)) (tm_template_id template) s
           in case ext_on_group_job (srv J) group_job ec of
                None \<Rightarrow> (Failed (jdc_shutdown JkChannelSv2), s1)
              | Some ec' \<Rightarrow> (Done (), put_extended d ch ec' s1)))"

definition template_to_miner ::
  "('s, 'e, 'g, 'j, 'a, 'p, 'v, 'u, 'f) jdc_lib \<Rightarrow> jdc_env \<Rightarrow> new_template \<Rightarrow> tx_out list \<Rightarrow> allocate_token_success option \<Rightarrow>
   'u option \<Rightarrow> template_prev_hash option \<Rightarrow> downstream_id \<Rightarrow> ('s, 'e, 'g, 'a, 'v, 'u, 'f) jdc \<Rightarrow>
   (jdc_error, jdc_route list) attempt \<times> ('s, 'e, 'g, 'a, 'v, 'u, 'f) jdc" where
  "template_to_miner J env template outs token up prev_hash d s =
     (case jc_downstreams s d of
        None \<Rightarrow> (Done [], s)
      | Some c \<Rightarrow>
          (case grp_on_new_template (srv J) template outs (jd_group c) of
             None \<Rightarrow> (Failed (jdc_shutdown JkChannelSv2), s)
           | Some g \<Rightarrow>
               and_then (expect (group_job_of (srv J) template g) (put_miner d (c\<lparr>jd_group := g\<rparr>) s)) (\<lambda>group_job s1.
               and_then (custom_job_for_miner J token up prev_hash template outs s1) (\<lambda>custom s2.
               and_then (collect (template_to_standard J template outs group_job (jd_require_std_job c) d)
                           (visit_miner_channels env d) s2) (\<lambda>ms s3.
               and_then (each (template_to_extended J template group_job d) (visit_miner_channels env d) s3) (\<lambda>_ s4.
                 (Done (custom @
                        (if \<not> jd_require_std_job c \<and> grp_ids (srv J) g \<noteq> []
                         then [ToMiner d (Mn (MnNewExtendedMiningJob (job_message (srv J) group_job)))] else []) @ ms), s4)))))))"

definition note_template ::
  "new_template \<Rightarrow> ('s, 'e, 'g, 'a, 'v, 'u, 'f) jdc \<Rightarrow> ('s, 'e, 'g, 'a, 'v, 'u, 'f) jdc" where
  "note_template template s =
     s\<lparr>jc_template_store := (jc_template_store s)(tm_template_id template \<mapsto> template),
       jc_last_future_template := (if tm_future_template template then Some template else jc_last_future_template s)\<rparr>"

text \<open>The token of a template that replaces the current one, in coinbase-only mode.\<close>

definition token_for_template ::
  "new_template \<Rightarrow> ('s, 'e, 'g, 'a, 'v, 'u, 'f) jdc \<Rightarrow>
   allocate_token_success option \<times> ('s, 'e, 'g, 'a, 'v, 'u, 'f) jdc" where
  "token_for_template template s =
     (if \<not> tm_future_template template \<and> jc_mode s = CoinbaseOnly \<and> jc_upstream s \<noteq> None \<and>
         jc_last_new_prev_hash s \<noteq> None \<and> jc_factory s \<noteq> None
      then pop_token s else (None, s))"

definition jdc_handle_new_template ::
  "('s, 'e, 'g, 'j, 'a, 'p, 'v, 'u, 'f) jdc_lib \<Rightarrow> jdc_env \<Rightarrow> new_template \<Rightarrow> ('s, 'e, 'g, 'a, 'v, 'u, 'f) jdc \<Rightarrow>
   (jdc_error, unit) attempt \<times> ('s, 'e, 'g, 'a, 'v, 'u, 'f) jdc" where
  "jdc_handle_new_template J env template s =
     jdc_then_forward env (
       and_then (or_fail (jdc_shutdown JkChannelManagerHasBadCoinbaseOutputs)
                   (deserialize_outputs (srv J) (jc_coinbase_outputs s)) (note_template template s)) (\<lambda>outs s1.
       and_then (expect (set_first_value (tm_coinbase_tx_value_remaining template) outs) s1) (\<lambda>outs' s1.
       and_then (if jc_mode s1 = FullTemplate \<and> jc_upstream_state s1 = Connected
                 then request_transaction_data env (tm_template_id template) s1 else (Done (), s1)) (\<lambda>_ s2.
         case token_for_template template s2 of
           (token, s3) \<Rightarrow>
             and_then (collect (template_to_miner J env template outs' token (jc_upstream s3) (jc_last_new_prev_hash s3))
                         (visit_miners env) s3) (\<lambda>ms s4.
             and_then (if token = None then (Done (), s4) else ignoring (allocate_tokens env 1 s4)) (\<lambda>_ s5.
               (Done ms, s5)))))))"

section \<open>Transaction data\<close>

datatype tx_data_error = TemplateIdNotFound | StaleTemplateId | OtherTxDataError

definition jdc_handle_tx_data_error ::
  "tx_data_error \<Rightarrow> ('s, 'e, 'g, 'a, 'v, 'u, 'f) jdc \<Rightarrow>
   (jdc_error, unit) attempt \<times> ('s, 'e, 'g, 'a, 'v, 'u, 'f) jdc" where
  "jdc_handle_tx_data_error code s =
     (case code of OtherTxDataError \<Rightarrow> (Failed (jdc_log JkTxDataError), s) | _ \<Rightarrow> (Done (), s))"

text \<open>The transactions of a template, decoded; the first malformed one stops.\<close>

fun decode_transactions :: "btc_lib \<Rightarrow> bytes list \<Rightarrow> transaction list option" where
  "decode_transactions B [] = Some []"
| "decode_transactions B (raw # raws) =
     (case tx_deserialize B raw of
        Inl _ \<Rightarrow> None
      | Inr tx \<Rightarrow> map_option ((#) tx) (decode_transactions B raws))"

text \<open>A future template that has not been activated by a previous hash is kept and declared when it is.\<close>

definition waits_for_prev_hash :: "new_template \<Rightarrow> template_prev_hash option \<Rightarrow> bool" where
  "waits_for_prev_hash template prev_hash =
     (tm_future_template template \<and>
      (case prev_hash of None \<Rightarrow> True | Some ph \<Rightarrow> tph_template_id ph \<noteq> tm_template_id template))"

text \<open>The declaration of a template, and the entry it is kept under; nothing without a channel, a factory or
  a coinbase. Parts of a coinbase that do not fit their fields are a panic.\<close>

definition build_declaration ::
  "btc_lib \<Rightarrow> ('s, 'e, 'g, 'j, 'a, 'p, 'v, 'u, 'f) jdc_lib \<Rightarrow> request_id \<Rightarrow> bytes \<Rightarrow> new_template \<Rightarrow> tx_out list \<Rightarrow>
   wtxid list \<Rightarrow> bytes \<Rightarrow> bytes list \<Rightarrow> ('s, 'e, 'g, 'a, 'v, 'u, 'f) jdc \<Rightarrow>
   (jdc_error, (declare_mining_job \<times> bytes) option) attempt \<times> ('s, 'e, 'g, 'a, 'v, 'u, 'f) jdc" where
  "build_declaration B J r token template outs wtxids excess raws s =
     (case (jc_upstream s, jc_factory s) of
        (Some up, Some factory) \<Rightarrow>
          (let (parts, factory') = new_coinbase_parts J template outs (up_full_size J up) factory;
               s1 = s\<lparr>jc_factory := Some factory'\<rparr>
           in case parts of
                None \<Rightarrow> (Done None, s1)
              | Some (pre, suf) \<Rightarrow>
                  if length pre < 2 ^ 16 \<and> length suf < 2 ^ 16
                  then
                    (let m = \<lparr>dm_request_id = r, dm_token = token, dm_version = tm_version template,
                              dm_coinbase_tx_prefix = pre, dm_coinbase_tx_suffix = suf, dm_wtxid_list = wtxids\<rparr>
                     in (Done (Some (m, excess)),
                         s1\<lparr>jc_declared := (jc_declared s1)(r \<mapsto>
                            \<lparr>dc_declare_mining_job = Some (m, excess), dc_template = template,
                             dc_prev_hash = jc_last_new_prev_hash s, dc_set_custom_mining_job = None,
                             dc_coinbase_output = serialize_outputs B outs, dc_tx_list = raws\<rparr>)\<rparr>))
                  else (Panicked, s1))
      | _ \<Rightarrow> (Done None, s))"

text \<open>The part after the token has been taken and the template taken out of the store.\<close>

definition declare_template ::
  "btc_lib \<Rightarrow> ('s, 'e, 'g, 'j, 'a, 'p, 'v, 'u, 'f) jdc_lib \<Rightarrow> jdc_env \<Rightarrow> request_id \<Rightarrow> bytes \<Rightarrow> new_template \<Rightarrow> tx_out list \<Rightarrow>
   bytes list \<Rightarrow> bytes \<Rightarrow> ('s, 'e, 'g, 'a, 'v, 'u, 'f) jdc \<Rightarrow>
   (jdc_error, unit) attempt \<times> ('s, 'e, 'g, 'a, 'v, 'u, 'f) jdc" where
  "declare_template B J env r token template outs raws excess s =
     and_then (expect (set_first_value (tm_coinbase_tx_value_remaining template) outs) s) (\<lambda>outs' s.
     and_then (or_fail (jdc_shutdown JkBitcoinEncode) (decode_transactions B raws) s) (\<lambda>txs s.
       if \<not> length txs < 2 ^ 16 then (Failed (jdc_shutdown JkBinarySv2), s)
       else and_then (build_declaration B J r token template outs' (map (compute_wtxid B) txs) excess raws s) (\<lambda>decl s1.
              case (waits_for_prev_hash template (jc_last_new_prev_hash s), decl) of
                (False, Some (m, x)) \<Rightarrow> ignoring (send_or env (jdc_fallback JkChannelErrorSender) (ToJobDeclarator (JdDeclare m x)) s1)
              | _ \<Rightarrow> (Done (), s1))))"

definition jdc_handle_tx_data_success ::
  "btc_lib \<Rightarrow> ('s, 'e, 'g, 'j, 'a, 'p, 'v, 'u, 'f) jdc_lib \<Rightarrow> jdc_env \<Rightarrow> u64 \<Rightarrow> bytes \<Rightarrow> bytes list \<Rightarrow>
   ('s, 'e, 'g, 'a, 'v, 'u, 'f) jdc \<Rightarrow> (jdc_error, unit) attempt \<times> ('s, 'e, 'g, 'a, 'v, 'u, 'f) jdc" where
  "jdc_handle_tx_data_success B J env template_id excess raws s =
     (if jc_mode s \<noteq> FullTemplate \<or> jc_upstream_state s \<noteq> Connected then (Done (), s)
      else
        and_then (or_fail (jdc_shutdown JkChannelManagerHasBadCoinbaseOutputs)
                    (deserialize_outputs (srv J) (jc_coinbase_outputs s)) s) (\<lambda>outs s.
          case pop_token s of
            (token, s1) \<Rightarrow>
              (let template = jc_template_store s1 template_id;
                   r = jc_request_id_factory s1;
                   s2 = s1\<lparr>jc_template_store := (jc_template_store s1)(template_id := None),
                           jc_request_id_factory := r + 1\<rparr>
               in and_then (ignoring (allocate_tokens env 1 s2)) (\<lambda>_ s3.
                    case token of
                      None \<Rightarrow> (Done (), s3)
                    | Some t \<Rightarrow>
                        and_then (or_fail (jdc_log (JkTemplateNotFound template_id)) template s3) (\<lambda>template s3.
                          declare_template B J env r (at_mining_job_token t) template outs raws excess s3)))))"

section \<open>Previous hashes\<close>

definition update_upstream ::
  "('u \<Rightarrow> 'u) \<Rightarrow> ('s, 'e, 'g, 'a, 'v, 'u, 'f) jdc \<Rightarrow> ('s, 'e, 'g, 'a, 'v, 'u, 'f) jdc" where
  "update_upstream f s = s\<lparr>jc_upstream := map_option f (jc_upstream s)\<rparr>"

text \<open>The declaration of the last future template, if it was made: the last of the visited entries that fits.\<close>

definition future_declaration ::
  "jdc_env \<Rightarrow> ('s, 'e, 'g, 'a, 'v, 'u, 'f) jdc \<Rightarrow> (declare_mining_job \<times> bytes) option" where
  "future_declaration env s =
     foldl (\<lambda>found r.
        case jc_declared s r of
          None \<Rightarrow> found
        | Some job \<Rightarrow>
            if Some (tm_template_id (dc_template job)) = map_option tm_template_id (jc_last_future_template s)
            then dc_declare_mining_job job else found) None (visit_declared env)"

definition activate_declared :: "template_prev_hash \<Rightarrow> declared_job \<Rightarrow> declared_job" where
  "activate_declared msg job =
     (if tm_future_template (dc_template job) \<and> tm_template_id (dc_template job) = tph_template_id msg
      then job\<lparr>dc_prev_hash := Some msg, dc_template := (dc_template job)\<lparr>tm_future_template := False\<rparr>\<rparr>
      else job)"

text \<open>The custom job of the activated template, in coinbase-only mode, and whether a new token is due.\<close>

definition custom_job_on_prev_hash ::
  "('s, 'e, 'g, 'j, 'a, 'p, 'v, 'u, 'f) jdc_lib \<Rightarrow> template_prev_hash \<Rightarrow> tx_out list \<Rightarrow> ('s, 'e, 'g, 'a, 'v, 'u, 'f) jdc \<Rightarrow>
   (jdc_error, jdc_route list \<times> bool) attempt \<times> ('s, 'e, 'g, 'a, 'v, 'u, 'f) jdc" where
  "custom_job_on_prev_hash J msg outs s =
     (case (jc_mode s = CoinbaseOnly, jc_last_future_template s) of
        (True, Some template) \<Rightarrow>
          (case pop_token s of
             (Some t, s1) \<Rightarrow>
               (case jc_upstream s1 of
                  None \<Rightarrow> (Done ([], False), s1)
                | Some up \<Rightarrow>
                    and_then (declare_custom_job J up (at_mining_job_token t) msg template outs s1) (\<lambda>ms s2.
                      (Done (ms, True), s2)))
           | (None, s1) \<Rightarrow> (Done ([], False), s1))
      | _ \<Rightarrow> (Done ([], False), s))"

definition record_for_all ::
  "downstream_id \<Rightarrow> channel_id list \<Rightarrow> u32 \<Rightarrow> u64 \<Rightarrow> ('s, 'e, 'g) jdc_client \<Rightarrow> ('s, 'e, 'g, 'a, 'v, 'u, 'f) jdc \<Rightarrow>
   ('s, 'e, 'g, 'a, 'v, 'u, 'f) jdc" where
  "record_for_all d channels job_id template_id c s =
     foldl (\<lambda>s ch. if jd_standard c ch \<noteq> None \<or> jd_extended c ch \<noteq> None
                   then record_job d ch (Some job_id) template_id s else s) s channels"

definition prev_hash_to_standard ::
  "('s, 'e, 'g, 'j, 'a, 'p, 'v, 'u, 'f) jdc_lib \<Rightarrow> template_prev_hash \<Rightarrow> bool \<Rightarrow> downstream_id \<Rightarrow> channel_id \<Rightarrow>
   ('s, 'e, 'g, 'a, 'v, 'u, 'f) jdc \<Rightarrow> (jdc_error, jdc_route list) attempt \<times> ('s, 'e, 'g, 'a, 'v, 'u, 'f) jdc" where
  "prev_hash_to_standard J msg requires_standard_jobs d ch s =
     (case standard_of d ch s of
        None \<Rightarrow> (Done [], s)
      | Some sc \<Rightarrow>
          (case std_on_prev_hash (srv J) msg sc of
             None \<Rightarrow> (Failed (jdc_fallback JkChannelSv2), s)
           | Some sc' \<Rightarrow>
               (let s1 = put_standard d ch sc' s
                in if \<not> requires_standard_jobs then (Done [], s1)
                   else case std_active_job (srv J) sc' of
                     None \<Rightarrow> (Panicked, s1)
                   | Some job \<Rightarrow>
                       (Done [ToMiner d (Mn (MnSetNewPrevHash (mining_prev_hash ch (sm_job_id job) msg)))],
                        record_job d ch (Some (sm_job_id job)) (tph_template_id msg) s1))))"

definition prev_hash_to_extended ::
  "('s, 'e, 'g, 'j, 'a, 'p, 'v, 'u, 'f) jdc_lib \<Rightarrow> template_prev_hash \<Rightarrow> downstream_id \<Rightarrow> channel_id \<Rightarrow>
   ('s, 'e, 'g, 'a, 'v, 'u, 'f) jdc \<Rightarrow> (jdc_error, unit) attempt \<times> ('s, 'e, 'g, 'a, 'v, 'u, 'f) jdc" where
  "prev_hash_to_extended J msg d ch s =
     (case extended_of d ch s of
        None \<Rightarrow> (Done (), s)
      | Some ec \<Rightarrow>
          (case ext_on_prev_hash (srv J) msg ec of
             None \<Rightarrow> (Failed (jdc_fallback JkChannelSv2), s)
           | Some ec' \<Rightarrow> (Done (), put_extended d ch ec' s)))"

definition prev_hash_to_miner ::
  "('s, 'e, 'g, 'j, 'a, 'p, 'v, 'u, 'f) jdc_lib \<Rightarrow> jdc_env \<Rightarrow> template_prev_hash \<Rightarrow> downstream_id \<Rightarrow>
   ('s, 'e, 'g, 'a, 'v, 'u, 'f) jdc \<Rightarrow> (jdc_error, jdc_route list) attempt \<times> ('s, 'e, 'g, 'a, 'v, 'u, 'f) jdc" where
  "prev_hash_to_miner J env msg d s =
     (case jc_downstreams s d of
        None \<Rightarrow> (Done [], s)
      | Some c \<Rightarrow>
          (case grp_on_prev_hash (srv J) msg (jd_group c) of
             None \<Rightarrow> (Failed (jdc_fallback JkChannelSv2), s)
           | Some g \<Rightarrow>
               and_then (expect (grp_active_job (srv J) g) (put_miner d (c\<lparr>jd_group := g\<rparr>) s)) (\<lambda>job s1.
                 (let to_group = \<not> jd_require_std_job c \<and> grp_ids (srv J) g \<noteq> [];
                      s2 = (if to_group
                            then record_for_all d (visit_miner_channels env d) (job_id_of (srv J) job)
                                   (tph_template_id msg) c s1
                            else s1)
                  in and_then (collect (prev_hash_to_standard J msg (jd_require_std_job c) d) (visit_miner_channels env d) s2)
                       (\<lambda>ms s3.
                     and_then (each (prev_hash_to_extended J msg d) (visit_miner_channels env d) s3) (\<lambda>_ s4.
                       (Done ((if to_group
                               then [ToMiner d (Mn (MnSetNewPrevHash
                                       (mining_prev_hash (grp_id (srv J) g) (job_id_of (srv J) job) msg)))]
                               else []) @ ms), s4)))))))"

text \<open>The cached shares go: their jobs are built on the previous tip.\<close>

definition jdc_handle_set_new_prev_hash ::
  "('s, 'e, 'g, 'j, 'a, 'p, 'v, 'u, 'f) jdc_lib \<Rightarrow> jdc_env \<Rightarrow> template_prev_hash \<Rightarrow> ('s, 'e, 'g, 'a, 'v, 'u, 'f) jdc \<Rightarrow>
   (jdc_error, unit) attempt \<times> ('s, 'e, 'g, 'a, 'v, 'u, 'f) jdc" where
  "jdc_handle_set_new_prev_hash J env msg s =
     jdc_then_forward env (
       and_then (or_fail (jdc_shutdown JkChannelManagerHasBadCoinbaseOutputs)
                   (deserialize_outputs (srv J) (jc_coinbase_outputs s)) s) (\<lambda>outs s.
         let s1 = update_upstream (up_on_chain_tip J (chain_tip_of msg)) (s\<lparr>jc_cached_shares := Map.empty\<rparr>)
         in and_then (case (jc_mode s1, future_declaration env s1) of
                        (FullTemplate, Some (m, x)) \<Rightarrow>
                          send_or env (jdc_fallback JkChannelErrorSender) (ToJobDeclarator (JdDeclare m x)) s1
                      | _ \<Rightarrow> (Done (), s1)) (\<lambda>_ s2.
            let s3 = s2\<lparr>jc_last_new_prev_hash := Some msg,
                        jc_declared := (\<lambda>r. map_option (activate_declared msg) (jc_declared s2 r))\<rparr>
            in and_then (custom_job_on_prev_hash J msg outs s3) (\<lambda>(custom, token_consumed) s4.
               and_then (collect (prev_hash_to_miner J env msg) (visit_miners env) s4) (\<lambda>ms s5.
               and_then (if token_consumed then ignoring (allocate_tokens env 1 s5) else (Done (), s5)) (\<lambda>_ s6.
                 (Done (custom @ ms), s6)))))))"

datatype from_tp =
    TpNewTemplate new_template
  | TpSetNewPrevHash template_prev_hash
  | TpTxDataError tx_data_error
  | TpTxDataSuccess u64 bytes "bytes list"

fun handle_template_provider_message ::
  "btc_lib \<Rightarrow> ('s, 'e, 'g, 'j, 'a, 'p, 'v, 'u, 'f) jdc_lib \<Rightarrow> jdc_env \<Rightarrow> from_tp \<Rightarrow> ('s, 'e, 'g, 'a, 'v, 'u, 'f) jdc \<Rightarrow>
   (jdc_error, unit) attempt \<times> ('s, 'e, 'g, 'a, 'v, 'u, 'f) jdc" where
  "handle_template_provider_message B J env (TpNewTemplate t) s = jdc_handle_new_template J env t s"
| "handle_template_provider_message B J env (TpSetNewPrevHash m) s = jdc_handle_set_new_prev_hash J env m s"
| "handle_template_provider_message B J env (TpTxDataError code) s = jdc_handle_tx_data_error code s"
| "handle_template_provider_message B J env (TpTxDataSuccess t excess raws) s =
     jdc_handle_tx_data_success B J env t excess raws s"

section \<open>Variable difficulty\<close>

definition jdc_vardiff_standard ::
  "('s, 'e, 'g, 'j, 'a, 'p, 'v, 'u, 'f) jdc_lib \<Rightarrow> channel_id \<Rightarrow> ('s, 'e, 'g) jdc_client \<Rightarrow> 'v \<Rightarrow>
   to_client list \<times> ('s, 'e, 'g) jdc_client \<times> 'v" where
  "jdc_vardiff_standard J ch c v =
     (case jd_standard c ch of
        None \<Rightarrow> ([], c, v)
      | Some sc \<Rightarrow>
          (let (r, v') = vd_try (srv J) v (std_nominal_hashrate (srv J) sc) (std_target (srv J) sc)
                           (std_shares_per_minute (srv J) sc);
               (ms, sc') = vardiff_on_channel r ch (std_set_stable (srv J)) (std_update (srv J)) (std_target (srv J)) sc
           in (ms, c\<lparr>jd_standard := (jd_standard c)(ch \<mapsto> sc')\<rparr>, v')))"

definition jdc_vardiff_extended ::
  "('s, 'e, 'g, 'j, 'a, 'p, 'v, 'u, 'f) jdc_lib \<Rightarrow> channel_id \<Rightarrow> ('s, 'e, 'g) jdc_client \<Rightarrow> 'v \<Rightarrow>
   to_client list \<times> ('s, 'e, 'g) jdc_client \<times> 'v" where
  "jdc_vardiff_extended J ch c v =
     (case jd_extended c ch of
        None \<Rightarrow> ([], c, v)
      | Some ec \<Rightarrow>
          (let (r, v') = vd_try (srv J) v (ext_nominal_hashrate (srv J) ec) (ext_target (srv J) ec)
                           (ext_shares_per_minute (srv J) ec);
               (ms, ec') = vardiff_on_channel r ch (ext_set_stable (srv J)) (ext_update (srv J)) (ext_target (srv J)) ec
           in (ms, c\<lparr>jd_extended := (jd_extended c)(ch \<mapsto> ec')\<rparr>, v')))"

definition jdc_vardiff_turn ::
  "('s, 'e, 'g, 'j, 'a, 'p, 'v, 'u, 'f) jdc_lib \<Rightarrow> downstream_id \<times> channel_id \<Rightarrow> ('s, 'e, 'g, 'a, 'v, 'u, 'f) jdc \<Rightarrow>
   jdc_route list \<times> ('s, 'e, 'g, 'a, 'v, 'u, 'f) jdc" where
  "jdc_vardiff_turn J key s =
     (case jc_downstreams s (fst key) of
        None \<Rightarrow> ([], s\<lparr>jc_vardiff := (jc_vardiff s)(key := None)\<rparr>)
      | Some c \<Rightarrow>
          (case jc_vardiff s key of
             None \<Rightarrow> ([], s)
           | Some v \<Rightarrow>
               (let (ms, c1, v1) = jdc_vardiff_standard J (snd key) c v;
                    (ms', c2, v2) = jdc_vardiff_extended J (snd key) c1 v1
                in (map (\<lambda>m. ToMiner (fst key) (Mn m)) (ms @ ms'),
                    put_miner (fst key) c2 (s\<lparr>jc_vardiff := (jc_vardiff s)(key \<mapsto> v2)\<rparr>)))))"

fun jdc_vardiff_turns ::
  "('s, 'e, 'g, 'j, 'a, 'p, 'v, 'u, 'f) jdc_lib \<Rightarrow> (downstream_id \<times> channel_id) list \<Rightarrow> ('s, 'e, 'g, 'a, 'v, 'u, 'f) jdc \<Rightarrow>
   jdc_route list \<times> ('s, 'e, 'g, 'a, 'v, 'u, 'f) jdc" where
  "jdc_vardiff_turns J [] s = ([], s)"
| "jdc_vardiff_turns J (key # keys) s =
     (let (ms, s1) = jdc_vardiff_turn J key s; (ms', s2) = jdc_vardiff_turns J keys s1 in (ms @ ms', s2))"

text \<open>\<open>min\<close> on the little-endian byte arrays of two targets compares them byte by byte from the least
  significant one.\<close>

definition le_bytes :: "target \<Rightarrow> bytes" where
  "le_bytes t = map (\<lambda>i. ucast (drop_bit (8 * i) t)) [0..<32]"

fun lex_le :: "bytes \<Rightarrow> bytes \<Rightarrow> bool" where
  "lex_le [] ys = True"
| "lex_le (x # xs) [] = False"
| "lex_le (x # xs) (y # ys) = (x < y \<or> x = y \<and> lex_le xs ys)"

definition min_of_le_bytes :: "target \<Rightarrow> target \<Rightarrow> target" where
  "min_of_le_bytes a b = (if lex_le (le_bytes a) (le_bytes b) then a else b)"

definition jdc_run_vardiff ::
  "('s, 'e, 'g, 'j, 'a, 'p, 'v, 'u, 'f) jdc_lib \<Rightarrow> jdc_env \<Rightarrow> ('s, 'e, 'g, 'a, 'v, 'u, 'f) jdc \<Rightarrow>
   ('s, 'e, 'g, 'a, 'v, 'u, 'f) jdc" where
  "jdc_run_vardiff J env s =
     (case jdc_vardiff_turns J (visit_miner_vardiff env) s of
        ([], s1) \<Rightarrow> s1
      | (ms, s1) \<Rightarrow>
          (case tell_upstream_figures J min_of_le_bytes (channel_figures J env s1) s1 of
             (ms', s2) \<Rightarrow> jdc_forward_all env (ms @ ms') s2))"

text \<open>\<open>coinbase_output_constraints\<close>, at the start of the loop.\<close>

definition jdc_announce_constraints ::
  "btc_lib \<Rightarrow> (transaction \<Rightarrow> nat) \<Rightarrow> jdc_env \<Rightarrow> tx_out list \<Rightarrow> ('s, 'e, 'g, 'a, 'v, 'u, 'f) jdc \<Rightarrow>
   (jdc_error, unit) attempt \<times> ('s, 'e, 'g, 'a, 'v, 'u, 'f) jdc" where
  "jdc_announce_constraints B sigop_cost env outs =
     send_or env (jdc_shutdown JkChannelErrorSender)
       (ToProvider (JtCoinbaseOutputConstraints (coinbase_output_constraints_message B sigop_cost outs)))"

end
