(* ===== verification/Jdc_Upstream.thy ===== *)
theory Jdc_Upstream
  imports Jdc_Templates
begin

text \<open>
  \<open>jd_message_handler.rs\<close>, \<open>upstream_message_handler.rs\<close> and \<open>extensions_message_handler.rs\<close> of the Job
  Declarator Client's channel manager, with \<open>validate_cached_share\<close> of \<open>utils.rs\<close>: the answers of the Job
  Declarator Server and of the pool. A token fills the queue; an accepted declaration becomes a custom job for
  the pool; an accepted custom job releases the shares that waited for it; the opening of the pool's channel
  releases the requests of the miners that waited for it.
\<close>

section \<open>The Job Declarator Server\<close>

text \<open>\<open>consensus::deserialize\<close> of a list of outputs reads all of the bytes: \<open>decode_outputs\<close>.\<close>

definition jdc_handle_token_success ::
  "btc_lib \<Rightarrow> (transaction \<Rightarrow> nat) \<Rightarrow> (bytes \<Rightarrow> tx_out list option) \<Rightarrow> jdc_env \<Rightarrow> allocate_token_success \<Rightarrow>
   ('s, 'e, 'g, 'a, 'v, 'u, 'f) jdc \<Rightarrow> (jdc_error, unit) attempt \<times> ('s, 'e, 'g, 'a, 'v, 'u, 'f) jdc" where
  "jdc_handle_token_success B sigop_cost decode_outputs env msg s =
     (let changed = jc_coinbase_outputs s \<noteq> at_coinbase_outputs msg;
          s1 = s\<lparr>jc_coinbase_outputs := at_coinbase_outputs msg, jc_tokens := jc_tokens s @ [msg]\<rparr>
      in if \<not> changed then (Done (), s1)
         else and_then (or_fail (jdc_shutdown JkBitcoinEncode) (decode_outputs (at_coinbase_outputs msg)) s1) (\<lambda>outs s1.
                send_or env (jdc_shutdown JkChannelErrorSender)
                  (ToProvider (JtCoinbaseOutputConstraints
                     \<lparr>max_additional_size = of_nat (sum_list (map (txout_size B) outs)),
                      max_additional_sigops = of_nat (sigop_cost (dummy_coinbase outs))\<rparr>)) s1))"

definition jdc_handle_declare_error ::
  "bool \<Rightarrow> ('s, 'e, 'g, 'a, 'v, 'u, 'f) jdc \<Rightarrow> (jdc_error, unit) attempt \<times> ('s, 'e, 'g, 'a, 'v, 'u, 'f) jdc" where
  "jdc_handle_declare_error is_stale_chain_tip s =
     (if is_stale_chain_tip then (Done (), s) else (Failed (jdc_fallback JkDeclareMiningJobError), s))"

definition jdc_handle_declare_success ::
  "('s, 'e, 'g, 'j, 'a, 'p, 'v, 'u, 'f) jdc_lib \<Rightarrow> jdc_env \<Rightarrow> request_id \<Rightarrow> bytes \<Rightarrow> ('s, 'e, 'g, 'a, 'v, 'u, 'f) jdc \<Rightarrow>
   (jdc_error, unit) attempt \<times> ('s, 'e, 'g, 'a, 'v, 'u, 'f) jdc" where
  "jdc_handle_declare_success J env r new_token s =
     and_then (or_fail (jdc_log (JkLastDeclareJobNotFound r)) (jc_declared s r) s) (\<lambda>job s.
     and_then (or_fail (jdc_log JkLastNewPrevhashNotFound) (dc_prev_hash job) s) (\<lambda>prev_hash s.
     and_then (or_fail (jdc_shutdown JkChannelManagerHasBadCoinbaseOutputs)
                 (deserialize_outputs (srv J) (dc_coinbase_output job)) s) (\<lambda>outs s.
     and_then (or_fail (jdc_log JkFailedToCreateCustomJob) (jc_upstream s) s) (\<lambda>up s.
     and_then (or_fail (jdc_log JkFailedToCreateCustomJob) (jc_factory s) s) (\<lambda>factory s.
       (let (custom, factory') = new_custom_job J (up_channel_id J up) r new_token (chain_tip_of prev_hash)
                                   (dc_template job) outs (up_full_size J up) factory
        in and_then (or_fail (jdc_log JkFailedToCreateCustomJob) custom (s\<lparr>jc_factory := Some factory'\<rparr>)) (\<lambda>m s1.
             send_upstream env (UpSetCustomMiningJob m)
               (s1\<lparr>jc_declared := (jc_declared s1)(r \<mapsto> job\<lparr>dc_set_custom_mining_job := Some m\<rparr>)\<rparr>))))))))"

text \<open>The positions the server does not know are answered in their order; one behind the end is left out. A
  transaction over \<open>B016M\<close> and a list over \<open>Seq064K\<close> do not fit.\<close>

definition transactions_at :: "bytes list \<Rightarrow> u16 list \<Rightarrow> bytes list" where
  "transactions_at raws positions =
     List.map_filter (\<lambda>i. if unat i < length raws then Some (raws ! unat i) else None) positions"

definition jdc_handle_provide_missing ::
  "jdc_env \<Rightarrow> request_id \<Rightarrow> u16 list \<Rightarrow> ('s, 'e, 'g, 'a, 'v, 'u, 'f) jdc \<Rightarrow>
   (jdc_error, unit) attempt \<times> ('s, 'e, 'g, 'a, 'v, 'u, 'f) jdc" where
  "jdc_handle_provide_missing env r positions s =
     and_then (or_fail (jdc_log (JkLastDeclareJobNotFound r)) (jc_declared s r) s) (\<lambda>job s.
       let missing = transactions_at (dc_tx_list job) positions
       in if list_all (\<lambda>raw. length raw < 2 ^ 24) (dc_tx_list job) \<and> length missing < 2 ^ 16
          then send_or env (jdc_fallback JkChannelErrorSender)
                 (ToJobDeclarator (JdProvideMissingSuccess \<lparr>pm_request_id = r, pm_transaction_list = missing\<rparr>)) s
          else (Failed (jdc_shutdown JkBinarySv2), s))"

datatype from_jds =
    FjTokenSuccess allocate_token_success
  | FjDeclareError bool
  | FjDeclareSuccess request_id bytes
  | FjProvideMissing request_id "u16 list"

fun handle_jds_message ::
  "btc_lib \<Rightarrow> (transaction \<Rightarrow> nat) \<Rightarrow> (bytes \<Rightarrow> tx_out list option) \<Rightarrow>
   ('s, 'e, 'g, 'j, 'a, 'p, 'v, 'u, 'f) jdc_lib \<Rightarrow> jdc_env \<Rightarrow> from_jds \<Rightarrow> ('s, 'e, 'g, 'a, 'v, 'u, 'f) jdc \<Rightarrow>
   (jdc_error, unit) attempt \<times> ('s, 'e, 'g, 'a, 'v, 'u, 'f) jdc" where
  "handle_jds_message B sigop_cost decode_outputs J env (FjTokenSuccess m) s =
     jdc_handle_token_success B sigop_cost decode_outputs env m s"
| "handle_jds_message B sigop_cost decode_outputs J env (FjDeclareError stale) s = jdc_handle_declare_error stale s"
| "handle_jds_message B sigop_cost decode_outputs J env (FjDeclareSuccess r token) s =
     jdc_handle_declare_success J env r token s"
| "handle_jds_message B sigop_cost decode_outputs J env (FjProvideMissing r positions) s =
     jdc_handle_provide_missing env r positions s"

section \<open>Opening the pool's channel\<close>

record open_extended_success =
  oes_channel_id :: channel_id
  oes_target :: target
  oes_extranonce_size :: u16
  oes_extranonce_prefix :: bytes

text \<open>The room the pool has to grant.\<close>

definition min_extranonce_size ::
  "('s, 'e, 'g, 'j, 'a, 'p, 'v, 'u, 'f) jdc_lib \<Rightarrow> ('s, 'e, 'g, 'a, 'v, 'u, 'f) jdc \<Rightarrow> u16" where
  "min_extranonce_size J s = ucast (JDC_LOCAL_PREFIX_BYTES J) + ucast (jc_reserved_rollable s)"

text \<open>A channel that cannot be used is closed again.\<close>

definition give_up_channel ::
  "jdc_env \<Rightarrow> channel_id \<Rightarrow> ('s, 'e, 'g, 'a, 'v, 'u, 'f) jdc \<Rightarrow>
   (jdc_error, unit) attempt \<times> ('s, 'e, 'g, 'a, 'v, 'u, 'f) jdc" where
  "give_up_channel env ch s =
     send_upstream env (UpCloseChannel ch ''downstream not available'') (s\<lparr>jc_upstream_state := NoChannel\<rparr>)"

text \<open>The custom job of a reopened channel, in coinbase-only mode: only where a job factory was there before.
  The new factory makes the job and is kept.\<close>

definition custom_job_on_open ::
  "('s, 'e, 'g, 'j, 'a, 'p, 'v, 'u, 'f) jdc_lib \<Rightarrow> 'u \<Rightarrow> 'f \<Rightarrow> tx_out list \<Rightarrow> ('s, 'e, 'g, 'a, 'v, 'u, 'f) jdc \<Rightarrow>
   set_custom_mining_job option \<times> 'f \<times> ('s, 'e, 'g, 'a, 'v, 'u, 'f) jdc" where
  "custom_job_on_open J up factory outs s =
     (case (jc_mode s = CoinbaseOnly \<and> jc_factory s \<noteq> None, jc_last_future_template s, jc_last_new_prev_hash s) of
        (True, Some template, Some prev_hash) \<Rightarrow>
          (case pop_token s of
             (None, s1) \<Rightarrow> (None, factory, s1)
           | (Some t, s1) \<Rightarrow>
               (let r = jc_request_id_factory s1;
                    s2 = s1\<lparr>jc_request_id_factory := r + 1\<rparr>;
                    (custom, factory') = new_custom_job J (up_channel_id J up) r (at_mining_job_token t)
                                           (chain_tip_of prev_hash) template outs (up_full_size J up) factory
                in case custom of
                     None \<Rightarrow> (None, factory', s2)
                   | Some m \<Rightarrow>
                       (Some m, factory',
                        s2\<lparr>jc_declared := (jc_declared s2)(r \<mapsto>
                           \<lparr>dc_declare_mining_job = None, dc_template = template, dc_prev_hash = Some prev_hash,
                            dc_set_custom_mining_job = Some m, dc_coinbase_output = jc_coinbase_outputs s2,
                            dc_tx_list = []\<rparr>)\<rparr>)))
      | _ \<Rightarrow> (None, factory, s))"

definition resize_group ::
  "('s, 'e, 'g, 'j, 'a, 'p, 'v, 'u, 'f) jdc_lib \<Rightarrow> nat \<Rightarrow> downstream_id \<Rightarrow> ('s, 'e, 'g, 'a, 'v, 'u, 'f) jdc \<Rightarrow>
   (jdc_error, unit) attempt \<times> ('s, 'e, 'g, 'a, 'v, 'u, 'f) jdc" where
  "resize_group J full_size d s =
     (case jc_downstreams s d of
        None \<Rightarrow> (Done (), s)
      | Some c \<Rightarrow>
          (case grp_set_full_size J full_size (jd_group c) of
             None \<Rightarrow> (Failed (jdc_shutdown JkChannelSv2), s)
           | Some g \<Rightarrow> (Done (), put_miner d (c\<lparr>jd_group := g\<rparr>) s)))"

definition from_pending :: "pending_channel_request \<Rightarrow> from_miner" where
  "from_pending r = (case r of PendingExtended _ m \<Rightarrow> MiOpenExtended m | PendingStandard _ m \<Rightarrow> MiOpenStandard m)"

text \<open>The queue is emptied first; the loop over what it held stops at the first error.\<close>

definition replay_pending ::
  "('s, 'e, 'g, 'j, 'a, 'p, 'v, 'u, 'f) jdc_lib \<Rightarrow> jdc_env \<Rightarrow> ('s, 'e, 'g, 'a, 'v, 'u, 'f) jdc \<Rightarrow>
   (jdc_error, unit) attempt \<times> ('s, 'e, 'g, 'a, 'v, 'u, 'f) jdc" where
  "replay_pending J env s =
     each (\<lambda>r. handle_mining_message_from_miner J env (pending_downstream_id r) (from_pending r)) (jc_pending s)
       (s\<lparr>jc_pending := []\<rparr>)"

text \<open>What follows once the channel exists.\<close>

definition channel_established ::
  "('s, 'e, 'g, 'j, 'a, 'p, 'v, 'u, 'f) jdc_lib \<Rightarrow> jdc_env \<Rightarrow> set_custom_mining_job option \<Rightarrow> 'u \<Rightarrow>
   ('s, 'e, 'g, 'a, 'v, 'u, 'f) jdc \<Rightarrow> (jdc_error, unit) attempt \<times> ('s, 'e, 'g, 'a, 'v, 'u, 'f) jdc" where
  "channel_established J env custom up s =
     and_then (each (resize_group J (up_full_size J up)) (visit_miners env) s) (\<lambda>_ s.
     and_then (case (jc_mode s, jc_last_future_template s) of
                 (FullTemplate, Some template) \<Rightarrow> request_transaction_data env (tm_template_id template) s
               | _ \<Rightarrow> (Done (), s)) (\<lambda>_ s.
     and_then (case (jc_mode s, custom) of
                 (CoinbaseOnly, Some m) \<Rightarrow>
                   and_then (send_upstream env (UpSetCustomMiningJob m) s) (\<lambda>_ s. ignoring (allocate_tokens env 1 s))
               | _ \<Rightarrow> (Done (), s)) (\<lambda>_ s.
       replay_pending J env s)))"

text \<open>The lengths are added as \<open>u16\<close> and the sum cut to \<open>u8\<close>.\<close>

definition jdc_handle_open_success ::
  "('s, 'e, 'g, 'j, 'a, 'p, 'v, 'u, 'f) jdc_lib \<Rightarrow> jdc_env \<Rightarrow> open_extended_success \<Rightarrow> ('s, 'e, 'g, 'a, 'v, 'u, 'f) jdc \<Rightarrow>
   (jdc_error, unit) attempt \<times> ('s, 'e, 'g, 'a, 'v, 'u, 'f) jdc" where
  "jdc_handle_open_success J env msg s =
     and_then (or_fail (jdc_shutdown JkDeclaredJobHasBadCoinbaseOutputs)
                 (deserialize_outputs (srv J) (jc_coinbase_outputs s)) s) (\<lambda>outs s.
       if oes_extranonce_size msg < min_extranonce_size J s then (Failed (jdc_fallback JkExtranonceSizeTooSmall), s)
       else
         (let prefix_bytes = oes_extranonce_prefix msg;
              total_len = (of_nat (length prefix_bytes) :: u16) + oes_extranonce_size msg
          in case jc_pending s of
               [] \<Rightarrow> give_up_channel env (oes_channel_id msg) s
             | first # _ \<Rightarrow>
                 (case alloc_from_upstream J prefix_bytes [] (ucast total_len) JDC_MAX_CHANNELS of
                    None \<Rightarrow> give_up_channel env (oes_channel_id msg) s
                  | Some allocator \<Rightarrow>
                      if \<not> wire_prefix_ok J prefix_bytes then (Panicked, s)
                      else
                        and_then (expect (jc_user_identity s) s) (\<lambda>identity s.
                        and_then (or_fail (jdc_fallback JkChannelSv2)
                            (up_new J (oes_channel_id msg) identity prefix_bytes (oes_target msg) (pending_hashrate first)
                               True (oes_extranonce_size msg) (jc_max_past_jobs s)) s) (\<lambda>up s.
                          (let up1 = (case jc_last_new_prev_hash s of
                                        None \<Rightarrow> up | Some ph \<Rightarrow> up_on_chain_tip J (chain_tip_of ph) up);
                               factory = factory_new J True (jc_pool_tag s) (Some (jc_miner_tag s))
                           in case custom_job_on_open J up1 factory outs s of
                                (custom, factory', s1) \<Rightarrow>
                                  channel_established J env custom up1
                                    (s1\<lparr>jc_allocator := allocator, jc_upstream := Some up1, jc_factory := Some factory',
                                        jc_upstream_state := Connected\<rparr>)))))))"

section \<open>The life of the pool's channel\<close>

definition jdc_handle_upstream_close ::
  "('s, 'e, 'g, 'a, 'v, 'u, 'f) jdc \<Rightarrow> (jdc_error, unit) attempt \<times> ('s, 'e, 'g, 'a, 'v, 'u, 'f) jdc" where
  "jdc_handle_upstream_close s = (Failed (jdc_fallback JkCloseChannel), s\<lparr>jc_upstream := None\<rparr>)"

text \<open>A new prefix for one channel. What goes wrong for a channel is collected and dropped at the end of the
  handler, so the channel keeps its old prefix and its miner is not told.\<close>

definition new_prefix_standard ::
  "('s, 'e, 'g, 'j, 'a, 'p, 'v, 'u, 'f) jdc_lib \<Rightarrow> downstream_id \<Rightarrow> channel_id \<Rightarrow> ('s, 'e, 'g, 'a, 'v, 'u, 'f) jdc \<Rightarrow>
   jdc_route list \<times> ('s, 'e, 'g, 'a, 'v, 'u, 'f) jdc" where
  "new_prefix_standard J d ch s =
     (case standard_of d ch s of
        None \<Rightarrow> ([], s)
      | Some sc \<Rightarrow>
          (case alloc_standard (srv J) (jc_allocator s) of
             (Inl _, a) \<Rightarrow> ([], s\<lparr>jc_allocator := a\<rparr>)
           | (Inr p, a) \<Rightarrow>
               (case std_set_prefix J p sc of
                  None \<Rightarrow> ([], jdc_release J (Some p) (s\<lparr>jc_allocator := a\<rparr>))
                | Some sc' \<Rightarrow>
                    (if length (slot_bytes (srv J) p) \<le> 32
                     then [ToMiner d (MnSetExtranoncePrefix ch (slot_bytes (srv J) p))] else [],
                     put_standard d ch sc' (s\<lparr>jc_allocator := a\<rparr>)))))"

definition new_prefix_extended ::
  "('s, 'e, 'g, 'j, 'a, 'p, 'v, 'u, 'f) jdc_lib \<Rightarrow> downstream_id \<Rightarrow> channel_id \<Rightarrow> ('s, 'e, 'g, 'a, 'v, 'u, 'f) jdc \<Rightarrow>
   jdc_route list \<times> ('s, 'e, 'g, 'a, 'v, 'u, 'f) jdc" where
  "new_prefix_extended J d ch s =
     (case extended_of d ch s of
        None \<Rightarrow> ([], s)
      | Some ec \<Rightarrow>
          (case alloc_extended (srv J) (unat (ext_rollable_extranonce_size (srv J) ec)) (jc_allocator s) of
             (Inl _, a) \<Rightarrow> ([], s\<lparr>jc_allocator := a\<rparr>)
           | (Inr p, a) \<Rightarrow>
               (case ext_set_prefix J p ec of
                  None \<Rightarrow> ([], jdc_release J (Some p) (s\<lparr>jc_allocator := a\<rparr>))
                | Some ec' \<Rightarrow>
                    (if length (slot_bytes (srv J) p) \<le> 32
                     then [ToMiner d (MnSetExtranoncePrefix ch (slot_bytes (srv J) p))] else [],
                     put_extended d ch ec' (s\<lparr>jc_allocator := a\<rparr>)))))"

fun gather :: "('x \<Rightarrow> 'st \<Rightarrow> 'm list \<times> 'st) \<Rightarrow> 'x list \<Rightarrow> 'st \<Rightarrow> 'm list \<times> 'st" where
  "gather f [] s = ([], s)"
| "gather f (x # xs) s = (let (ms, s1) = f x s; (ms', s2) = gather f xs s1 in (ms @ ms', s2))"

definition new_prefixes_for_miner ::
  "('s, 'e, 'g, 'j, 'a, 'p, 'v, 'u, 'f) jdc_lib \<Rightarrow> jdc_env \<Rightarrow> downstream_id \<Rightarrow> ('s, 'e, 'g, 'a, 'v, 'u, 'f) jdc \<Rightarrow>
   jdc_route list \<times> ('s, 'e, 'g, 'a, 'v, 'u, 'f) jdc" where
  "new_prefixes_for_miner J env d s =
     (let (ms, s1) = gather (new_prefix_standard J d) (visit_miner_channels env d) s;
          (ms', s2) = gather (new_prefix_extended J d) (visit_miner_channels env d) s1
      in (ms @ ms', s2))"

definition MAX_EXTRANONCE_LEN :: nat where
  "MAX_EXTRANONCE_LEN = 32"

definition jdc_handle_set_extranonce_prefix ::
  "('s, 'e, 'g, 'j, 'a, 'p, 'v, 'u, 'f) jdc_lib \<Rightarrow> jdc_env \<Rightarrow> bytes \<Rightarrow> ('s, 'e, 'g, 'a, 'v, 'u, 'f) jdc \<Rightarrow>
   (jdc_error, unit) attempt \<times> ('s, 'e, 'g, 'a, 'v, 'u, 'f) jdc" where
  "jdc_handle_set_extranonce_prefix J env new_prefix s =
     (case jc_upstream s of
        None \<Rightarrow> (Done (), s)
      | Some up \<Rightarrow>
          if \<not> wire_prefix_ok J new_prefix then (Failed (jdc_fallback JkExtranonceSizeTooLarge), s)
          else (case up_set_prefix J new_prefix up of
            None \<Rightarrow> (Failed (jdc_fallback JkChannelSv2), s)
          | Some up' \<Rightarrow>
              (let s1 = s\<lparr>jc_upstream := Some up'\<rparr>;
                   full_size = length new_prefix + unat (up_rollable_size J up')
               in if MAX_EXTRANONCE_LEN < full_size then (Failed (jdc_fallback JkExtranonceSizeTooLarge), s1)
                  else (case alloc_from_upstream J new_prefix [] (of_nat full_size) JDC_MAX_CHANNELS of
                    None \<Rightarrow> (Failed (jdc_fallback JkChannelSv2), s1)
                  | Some a \<Rightarrow>
                      (let (ms, s2) = gather (new_prefixes_for_miner J env) (visit_miners env) (s1\<lparr>jc_allocator := a\<rparr>)
                       in (Done (), jdc_forward_all env ms s2))))))"

definition jdc_handle_set_target ::
  "('s, 'e, 'g, 'j, 'a, 'p, 'v, 'u, 'f) jdc_lib \<Rightarrow> target \<Rightarrow> ('s, 'e, 'g, 'a, 'v, 'u, 'f) jdc \<Rightarrow>
   (jdc_error, unit) attempt \<times> ('s, 'e, 'g, 'a, 'v, 'u, 'f) jdc" where
  "jdc_handle_set_target J t s =
     (case jc_upstream s of
        None \<Rightarrow> (Done (), s)
      | Some up \<Rightarrow>
          (case up_set_target J t up of
             None \<Rightarrow> (Failed (jdc_fallback JkChannelSv2), s)
           | Some up' \<Rightarrow> (Done (), s\<lparr>jc_upstream := Some up'\<rparr>)))"

section \<open>Custom jobs\<close>

text \<open>\<open>validate_cached_share\<close> in the loop over the cache of the accepted job's template.\<close>

definition replay_share ::
  "('s, 'e, 'g, 'j, 'a, 'p, 'v, 'u, 'f) jdc_lib \<Rightarrow> template_prev_hash \<Rightarrow> u32 \<Rightarrow> cached_share \<Rightarrow>
   ('s, 'e, 'g, 'a, 'v, 'u, 'f) jdc \<Rightarrow> (jdc_error, jdc_route list) attempt \<times> ('s, 'e, 'g, 'a, 'v, 'u, 'f) jdc" where
  "replay_share J prev_hash job_id entry s =
     (case jc_upstream s of
        None \<Rightarrow> (Done [], s)
      | Some up \<Rightarrow>
          submit_upstream J extended_rejection (\<lambda>up m. up_prefix J up @ se_extranonce m) Panicked prev_hash up
            ((cs_share entry)\<lparr>se_job_id := job_id\<rparr>) s)"

definition jdc_handle_custom_job_success ::
  "('s, 'e, 'g, 'j, 'a, 'p, 'v, 'u, 'f) jdc_lib \<Rightarrow> jdc_env \<Rightarrow> channel_id \<Rightarrow> request_id \<Rightarrow> u32 \<Rightarrow>
   ('s, 'e, 'g, 'a, 'v, 'u, 'f) jdc \<Rightarrow> (jdc_error, unit) attempt \<times> ('s, 'e, 'g, 'a, 'v, 'u, 'f) jdc" where
  "jdc_handle_custom_job_success J env ch r job_id s =
     jdc_then_forward env (
       and_then (or_fail (jdc_fallback (JkLastDeclareJobNotFound r)) (jc_declared s r) s) (\<lambda>job s.
         (let template_id = tm_template_id (dc_template job);
              shares = jc_cached_shares s template_id;
              s1 = s\<lparr>jc_declared := (jc_declared s)(r := None),
                     jc_upstream_job := (jc_upstream_job s)(template_id \<mapsto> job_id),
                     jc_cached_shares := (jc_cached_shares s)(template_id := None)\<rparr>
          in and_then (or_fail (jdc_log JkUpstreamNotFound) (jc_upstream s1) s1) (\<lambda>up s1.
             and_then (or_fail (jdc_shutdown JkCustomJobError) (dc_set_custom_mining_job job) s1) (\<lambda>custom s1.
               case up_on_custom_job_success J custom ch r job_id up of
                 (Some ChainTipMismatch, up') \<Rightarrow> (Failed (jdc_log JkChannelSv2), s1\<lparr>jc_upstream := Some up'\<rparr>)
               | (Some OtherRefusal, up') \<Rightarrow> (Failed (jdc_fallback JkChannelSv2), s1\<lparr>jc_upstream := Some up'\<rparr>)
               | (None, up') \<Rightarrow>
                   (case (jc_last_new_prev_hash s1, shares) of
                      (Some prev_hash, Some heap) \<Rightarrow>
                        collect (replay_share J prev_hash job_id) heap (s1\<lparr>jc_upstream := Some up'\<rparr>)
                    | _ \<Rightarrow> (Done [], s1\<lparr>jc_upstream := Some up'\<rparr>)))))))"

definition jdc_handle_custom_job_error ::
  "bool \<Rightarrow> request_id \<Rightarrow> ('s, 'e, 'g, 'a, 'v, 'u, 'f) jdc \<Rightarrow>
   (jdc_error, unit) attempt \<times> ('s, 'e, 'g, 'a, 'v, 'u, 'f) jdc" where
  "jdc_handle_custom_job_error is_stale_chain_tip r s =
     (if is_stale_chain_tip
      then (Done (),
            case jc_declared s r of
              None \<Rightarrow> s
            | Some job \<Rightarrow>
                s\<lparr>jc_declared := (jc_declared s)(r := None),
                  jc_cached_shares := (jc_cached_shares s)(tm_template_id (dc_template job) := None)\<rparr>)
      else (Failed (jdc_fallback JkCustomJobError), s))"

section \<open>Extensions\<close>

definition jdc_handle_extensions_success ::
  "u16 list \<Rightarrow> ('s, 'e, 'g, 'a, 'v, 'u, 'f) jdc \<Rightarrow> (jdc_error, unit) attempt \<times> ('s, 'e, 'g, 'a, 'v, 'u, 'f) jdc" where
  "jdc_handle_extensions_success supported s =
     (let missing = filter (\<lambda>x. x \<notin> set supported) (jc_required s)
      in if missing \<noteq> [] then (Failed (jdc_fallback (JkRequiredExtensionsNotSupported missing)), s)
         else (Done (), s\<lparr>jc_negotiated := supported\<rparr>))"

definition jdc_handle_extensions_error ::
  "jdc_env \<Rightarrow> u16 \<Rightarrow> u16 list \<Rightarrow> u16 list \<Rightarrow> ('s, 'e, 'g, 'a, 'v, 'u, 'f) jdc \<Rightarrow>
   (jdc_error, unit) attempt \<times> ('s, 'e, 'g, 'a, 'v, 'u, 'f) jdc" where
  "jdc_handle_extensions_error env r unsupported required_by_server s =
     (let missing = filter (\<lambda>x. x \<in> set unsupported) (jc_required s);
          cannot = filter (\<lambda>x. x \<notin> set (jc_supported s)) required_by_server
      in if missing \<noteq> [] then (Failed (jdc_fallback (JkRequiredExtensionsNotSupported missing)), s)
         else if required_by_server = [] then (Done (), s)
         else if cannot \<noteq> [] then (Failed (jdc_fallback (JkServerRequiresUnsupportedExtensions cannot)), s)
         else send_upstream env
                (UpRequestExtensions (r + 1) (filter (\<lambda>x. x \<in> set (jc_supported s)) required_by_server)) s)"

section \<open>The dispatcher\<close>

text \<open>Jobs, previous hashes and groups of the pool are logged and ignored.\<close>

datatype from_upstream =
    FuOpenStandardSuccess
  | FuOpenExtendedSuccess open_extended_success
  | FuOpenError
  | FuUpdateChannelError
  | FuCloseChannel
  | FuSetExtranoncePrefix bytes
  | FuSubmitSharesSuccess u32 u64
  | FuSubmitSharesError string
  | FuIgnored
  | FuCustomJobSuccess channel_id request_id u32
  | FuCustomJobError bool request_id
  | FuSetTarget target
  | FuExtensionsSuccess "u16 list"
  | FuExtensionsError u16 "u16 list" "u16 list"
  | FuOther u16 u8

fun handle_pool_message ::
  "('s, 'e, 'g, 'j, 'a, 'p, 'v, 'u, 'f) jdc_lib \<Rightarrow> jdc_env \<Rightarrow> from_upstream \<Rightarrow> ('s, 'e, 'g, 'a, 'v, 'u, 'f) jdc \<Rightarrow>
   (jdc_error, unit) attempt \<times> ('s, 'e, 'g, 'a, 'v, 'u, 'f) jdc" where
  "handle_pool_message J env FuOpenStandardSuccess s = (Failed (jdc_fallback JkOpenStandardMiningChannelError), s)"
| "handle_pool_message J env (FuOpenExtendedSuccess m) s = jdc_handle_open_success J env m s"
| "handle_pool_message J env FuOpenError s = (Failed (jdc_fallback JkOpenMiningChannelError), s)"
| "handle_pool_message J env FuUpdateChannelError s = (Done (), s)"
| "handle_pool_message J env FuCloseChannel s = jdc_handle_upstream_close s"
| "handle_pool_message J env (FuSetExtranoncePrefix p) s = jdc_handle_set_extranonce_prefix J env p s"
| "handle_pool_message J env (FuSubmitSharesSuccess n work) s =
     (Done (), update_upstream (up_on_acknowledgement J n work) s)"
| "handle_pool_message J env (FuSubmitSharesError code) s = (Done (), update_upstream (up_on_rejection J code) s)"
| "handle_pool_message J env FuIgnored s = (Done (), s)"
| "handle_pool_message J env (FuCustomJobSuccess ch r job_id) s = jdc_handle_custom_job_success J env ch r job_id s"
| "handle_pool_message J env (FuCustomJobError stale r) s = jdc_handle_custom_job_error stale r s"
| "handle_pool_message J env (FuSetTarget t) s = jdc_handle_set_target J t s"
| "handle_pool_message J env (FuExtensionsSuccess supported) s = jdc_handle_extensions_success supported s"
| "handle_pool_message J env (FuExtensionsError r unsupported required) s =
     jdc_handle_extensions_error env r unsupported required s"
| "handle_pool_message J env (FuOther ext ty) s = (Failed (jdc_log (JkUnexpectedMessage ext ty)), s)"

end
