(* ===== verification/Jdc_Frame.thy ===== *)
theory Jdc_Frame
  imports Jdc_Upstream
begin

text \<open>
  What most handlers of the Job Declarator Client leave alone: the counter of the shares sent to the pool, the
  jobs the pool has accepted, the state of the pool's channel, and the shares, channel requests and channel
  closings already sent to the pool. \<open>link\<close> is that part of the state, and \<open>ends\<close> carries it through a chain
  together with what is known of the messages the chain collects.
\<close>

section \<open>Chains and what they end in\<close>

definition ends :: "('s \<Rightarrow> bool) \<Rightarrow> ('a \<Rightarrow> bool) \<Rightarrow> ('e, 'a) attempt \<times> 's \<Rightarrow> bool" where
  "ends I Q r \<longleftrightarrow> I (snd r) \<and> (\<forall>x. fst r = Done x \<longrightarrow> Q x)"

lemma ends_and_then:
  assumes "ends I P r" and "\<And>x s. I s \<Longrightarrow> P x \<Longrightarrow> ends I Q (k x s)"
  shows "ends I Q (and_then r k)"
  using assms by (cases r; cases "fst r") (auto simp: and_then_def ends_def)

lemma ends_here: "I s \<Longrightarrow> (\<And>x. out = Done x \<Longrightarrow> Q x) \<Longrightarrow> ends I Q (out, s)"
  by (simp add: ends_def)

lemma ends_or_fail: "I s \<Longrightarrow> (\<And>x. v = Some x \<Longrightarrow> Q x) \<Longrightarrow> ends I Q (or_fail e v s)"
  by (simp add: ends_def or_fail_def split: option.split)

lemma ends_expect: "I s \<Longrightarrow> (\<And>x. v = Some x \<Longrightarrow> Q x) \<Longrightarrow> ends I Q (expect v s)"
  by (simp add: ends_def expect_def split: option.split)

lemma ends_or_fail_then:
  "I s \<Longrightarrow> (\<And>x. v = Some x \<Longrightarrow> ends I Q (k x s)) \<Longrightarrow> ends I Q (and_then (or_fail e v s) k)"
  by (cases v) (simp_all add: ends_def)

lemma ends_expect_then:
  "I s \<Longrightarrow> (\<And>x. v = Some x \<Longrightarrow> ends I Q (k x s)) \<Longrightarrow> ends I Q (and_then (expect v s) k)"
  by (cases v) (simp_all add: ends_def)

lemma ends_if: "(c \<Longrightarrow> ends I Q a) \<Longrightarrow> (\<not> c \<Longrightarrow> ends I Q b) \<Longrightarrow> ends I Q (if c then a else b)"
  by simp

lemma ends_case_option:
  "(v = None \<Longrightarrow> ends I Q a) \<Longrightarrow> (\<And>x. v = Some x \<Longrightarrow> ends I Q (f x)) \<Longrightarrow>
   ends I Q (case v of None \<Rightarrow> a | Some x \<Rightarrow> f x)"
  by (cases v) simp_all

lemma ends_case_prod:
  "(\<And>a b. p = (a, b) \<Longrightarrow> ends I Q (f a b)) \<Longrightarrow> ends I Q (case p of (a, b) \<Rightarrow> f a b)"
  by (cases p) simp

lemma ends_case_prod_fun:
  "(\<And>a b. p = (a, b) \<Longrightarrow> ends I Q (f a b s)) \<Longrightarrow> ends I Q ((case p of (a, b) \<Rightarrow> f a b) s)"
  by (cases p) simp

lemma ends_case_sum:
  "(\<And>a. v = Inl a \<Longrightarrow> ends I Q (f a)) \<Longrightarrow> (\<And>b. v = Inr b \<Longrightarrow> ends I Q (g b)) \<Longrightarrow>
   ends I Q (case v of Inl a \<Rightarrow> f a | Inr b \<Rightarrow> g b)"
  by (cases v) simp_all

lemma ends_each:
  assumes "\<And>x s. I s \<Longrightarrow> ends I (\<lambda>_. True) (f x s)" and "I s"
  shows "ends I (\<lambda>_. True) (each f xs s)"
  using assms(2)
proof (induction xs arbitrary: s)
  case (Cons x xs)
  show ?case unfolding each.simps
    by (rule ends_and_then [where P = "\<lambda>_. True"]) (use assms(1) Cons in auto)
qed (simp add: ends_def)

lemma ends_collect:
  assumes "\<And>x s. I s \<Longrightarrow> ends I (list_all Q) (f x s)" and "I s"
  shows "ends I (list_all Q) (collect f xs s)"
  using assms(2)
proof (induction xs arbitrary: s)
  case (Cons x xs)
  have rest: "ends I (list_all Q) (and_then (collect f xs t) (\<lambda>ms' s. (Done (ms @ ms'), s)))"
    if "I t" "list_all Q ms" for t ms
    by (rule ends_and_then [OF Cons.IH]) (use that in \<open>auto simp: ends_def\<close>)
  show ?case unfolding collect.simps
    by (rule ends_and_then [where P = "list_all Q"]) (use assms(1) Cons.prems rest in auto)
qed (simp add: ends_def)

lemma ends_weaken: "ends I P r \<Longrightarrow> (\<And>x. P x \<Longrightarrow> Q x) \<Longrightarrow> ends I Q r"
  by (auto simp: ends_def)

lemmas ends_rules = ends_here ends_or_fail ends_expect ends_if ends_case_option ends_case_prod
  ends_case_prod_fun ends_case_sum

section \<open>The link with the pool\<close>

definition tracked :: "to_upstream \<Rightarrow> bool" where
  "tracked m = (case m of UpSubmitShares _ \<Rightarrow> True | UpOpenExtended _ \<Rightarrow> True | UpCloseChannel _ _ \<Rightarrow> True | _ \<Rightarrow> False)"

definition link ::
  "('s, 'e, 'g, 'a, 'v, 'u, 'f) jdc \<Rightarrow>
   u32 \<times> (u64 \<rightharpoonup> u32) \<times> upstream_state \<times> to_upstream list \<times> bool \<times> bool \<times> config_jdc_mode \<times> string option" where
  "link s = (jc_sequence_number_factory s, jc_upstream_job s, jc_upstream_state s, filter tracked (jc_to_upstream s),
     jc_upstream s = None, jc_factory s = None, jc_mode s, jc_user_identity s)"

definition quiet :: "jdc_route \<Rightarrow> bool" where
  "quiet m = (case m of ToUpstream u \<Rightarrow> \<not> tracked u | _ \<Rightarrow> True)"

lemma quiet_simps [simp]:
  "quiet (ToMiner d m)" "quiet (ToJobDeclarator j)" "quiet (ToProvider t)"
  "quiet (ToUpstream (UpSetCustomMiningJob c))" "quiet (ToUpstream (UpUpdateChannel ch h t'))"
  "quiet (ToUpstream (UpRequestExtensions r xs))"
  by (simp_all add: quiet_def tracked_def)

lemma link_fields [simp]:
  "link (s\<lparr>jc_downstreams := v1\<rparr>) = link s" "link (s\<lparr>jc_allocator := v2\<rparr>) = link s"
  "link (s\<lparr>jc_request_id_factory := v3\<rparr>) = link s" "link (s\<lparr>jc_downstream_id_factory := v4\<rparr>) = link s"
  "link (s\<lparr>jc_last_future_template := v5\<rparr>) = link s" "link (s\<lparr>jc_last_new_prev_hash := v6\<rparr>) = link s"
  "link (s\<lparr>jc_tokens := v7\<rparr>) = link s" "link (s\<lparr>jc_template_store := v8\<rparr>) = link s"
  "link (s\<lparr>jc_declared := v9\<rparr>) = link s" "link (s\<lparr>jc_job_template := v10\<rparr>) = link s"
  "link (s\<lparr>jc_coinbase_outputs := v11\<rparr>) = link s" "link (s\<lparr>jc_pending := v12\<rparr>) = link s"
  "link (s\<lparr>jc_vardiff := v13\<rparr>) = link s" "link (s\<lparr>jc_negotiated := v14\<rparr>) = link s"
  "link (s\<lparr>jc_cached_shares := v15\<rparr>) = link s" "link (s\<lparr>jc_senders := v16\<rparr>) = link s"
  "link (s\<lparr>jc_departing := v17\<rparr>) = link s" "link (s\<lparr>jc_to_miners := v18\<rparr>) = link s"
  "link (s\<lparr>jc_to_jds := v19\<rparr>) = link s" "link (s\<lparr>jc_to_tp := v20\<rparr>) = link s"
  by (simp_all add: link_def)

lemma link_upstream: "jc_upstream s \<noteq> None \<Longrightarrow> link (s\<lparr>jc_upstream := Some up\<rparr>) = link s"
  by (simp add: link_def)

lemma link_factory: "jc_factory s \<noteq> None \<Longrightarrow> link (s\<lparr>jc_factory := Some f\<rparr>) = link s"
  by (simp add: link_def)

lemma link_helpers [simp]:
  "link (put_miner d c s) = link s" "link (jdc_release J p s) = link s" "link (record_job d ch job t s) = link s"
  "link (jdc_remove_downstream d s) = link s" "link (put_standard d ch sc s) = link s"
  "link (put_extended d ch ec s) = link s" "link (cache_share t m h s) = link s" "link (note_template tm s) = link s"
  "link (snd (pop_token s)) = link s" "link (update_upstream f s) = link s"
  by (simp_all add: put_miner_def jdc_release_def record_job_def jdc_remove_downstream_def put_standard_def
      put_extended_def cache_share_def note_template_def pop_token_def split: option.split list.split)
    (simp add: link_def update_upstream_def)

lemma link_forward: "quiet m \<Longrightarrow> link (snd (jdc_forward env m s)) = link s"
  by (cases m) (auto simp: jdc_forward_def link_def quiet_def)

lemma link_forward_all: "list_all quiet ms \<Longrightarrow> link (jdc_forward_all env ms s) = link s"
  by (induction ms arbitrary: s) (simp_all add: link_forward)

abbreviation same_link where
  "same_link v \<equiv> (\<lambda>s. link s = v)"

lemma link_send_or: "quiet m \<Longrightarrow> link s = v \<Longrightarrow> ends (same_link v) (\<lambda>_. True) (send_or env e m s)"
  using link_forward [of m env s] by (cases "jdc_forward env m s") (auto simp: send_or_def ends_def split: bool.split)

lemma ends_then_forward:
  assumes "ends (same_link v) (list_all quiet) r"
  shows "ends (same_link v) (\<lambda>_. True) (jdc_then_forward env r)"
  unfolding jdc_then_forward_def
  by (rule ends_and_then [OF assms]) (simp add: ends_def link_forward_all)

lemma ends_ignoring: "ends I P r \<Longrightarrow> ends I (\<lambda>_. True) (ignoring r)"
  by (cases r; cases "fst r") (auto simp: ends_def ignoring_def)

lemma link_allocate_tokens: "link s = v \<Longrightarrow> ends (same_link v) (\<lambda>_. True) (allocate_tokens env n s)"
proof (induction n arbitrary: s)
  case (Suc n)
  show ?case unfolding allocate_tokens.simps Let_def
    by (intro ends_rules ends_and_then [OF link_send_or] Suc.IH) (use Suc.prems in auto)
qed (simp add: ends_def)

lemmas link_ignoring_send = ends_ignoring [OF link_send_or]
lemmas link_ignoring_tokens = ends_ignoring [OF link_allocate_tokens]

lemmas link_steps = link_send_or link_ignoring_send link_ignoring_tokens ends_then_forward

declare allocate_tokens.simps [simp del]

section \<open>The messages of miners\<close>

lemma ends_registered:
  "link s = v \<Longrightarrow> (\<And>c. ends (same_link v) Q (f c s)) \<Longrightarrow> ends (same_link v) Q (with_registered_miner d f s)"
  by (simp add: with_registered_miner_def ends_def split: option.split)

lemma ends_to_this_miner:
  "ends (same_link v) P r \<Longrightarrow> ends (same_link v) (list_all quiet) (to_this_miner d r)"
  unfolding to_this_miner_def by (erule ends_and_then) (auto simp: ends_def list_all_iff)

lemma link_close: "link s = v \<Longrightarrow> ends (same_link v) (\<lambda>_. True) (jdc_handle_close_channel J d ch s)"
  unfolding jdc_handle_close_channel_def
  by (intro ends_and_then [where P = "\<lambda>_. True"] ends_registered ends_rules) auto

lemma link_reserve: "link s = v \<Longrightarrow> ends (same_link v) (\<lambda>_. True) (jdc_reserve al d c s)"
  unfolding jdc_reserve_def Let_def by (intro ends_rules) auto

lemma link_publish: "link s = v \<Longrightarrow> ends (same_link v) (\<lambda>_. True) (jdc_publish J d ch joins n t work ok c p s)"
  unfolding jdc_publish_def Let_def by (intro ends_rules) auto

lemma link_started: "link s = v \<Longrightarrow> ends (same_link v) (\<lambda>_. True) (jdc_started J p r s)"
  by (auto simp: jdc_started_def ends_def split: attempt.split)

lemma ends_case_open_error:
  "(\<And>code. e = OpenInvalid code \<Longrightarrow> ends I Q (f code)) \<Longrightarrow> (e = OpenOther \<Longrightarrow> ends I Q b) \<Longrightarrow>
   ends I Q (case e of OpenInvalid code \<Rightarrow> f code | OpenOther \<Rightarrow> b)"
  by (cases e) simp_all

lemma link_open_standard:
  "link s = v \<Longrightarrow> ends (same_link v) (\<lambda>_. True) (jdc_open_standard J d msg template prev_hash outs c s)"
  unfolding jdc_open_standard_def Let_def jdc_refuse_open_def
  by (intro ends_and_then [OF link_reserve] ends_and_then [OF link_started] ends_rules ends_case_open_error link_publish) auto

lemma link_open_extended:
  "link s = v \<Longrightarrow> ends (same_link v) (\<lambda>_. True) (jdc_open_extended J d msg template prev_hash c s)"
  unfolding jdc_open_extended_def Let_def jdc_refuse_open_def
  by (intro ends_and_then [OF link_reserve] ends_and_then [OF link_started] ends_rules ends_case_open_error link_publish) auto

lemma link_handle_open_standard:
  "link s = v \<Longrightarrow> ends (same_link v) (\<lambda>_. True) (jdc_handle_open_standard J env d msg s)"
  unfolding jdc_handle_open_standard_def
  by (intro ends_then_forward ends_to_this_miner [where P = "\<lambda>_. True"] ends_and_then [where P = "\<lambda>_. True"]
      ends_registered ends_rules link_open_standard) auto

lemma link_handle_open_extended:
  "link s = v \<Longrightarrow> ends (same_link v) (\<lambda>_. True) (jdc_handle_open_extended J env d msg s)"
  unfolding jdc_handle_open_extended_def
  by (intro ends_then_forward ends_to_this_miner [where P = "\<lambda>_. True"] ends_and_then [where P = "\<lambda>_. True"]
      ends_registered ends_rules link_open_extended) auto

lemma link_tell_upstream:
  "tell_upstream_figures J least figures s = (ms, s') \<Longrightarrow> link s' = link s \<and> list_all quiet ms"
  by (auto simp: tell_upstream_figures_def Let_def link_upstream split: option.splits)

lemma link_update:
  "link s = v \<Longrightarrow> ends (same_link v) (\<lambda>_. True) (jdc_handle_update_channel J env d ch h t s)"
proof -
  assume v: "link s = v"
  have "ends (same_link v) (\<lambda>_. True) (jdc_update_in_client J d ch h t c s)" for c
    unfolding jdc_update_in_client_def Let_def by (intro ends_rules) (use v in auto)
  then show ?thesis
    unfolding jdc_handle_update_channel_def
    by (intro ends_then_forward ends_and_then [where P = "list_all quiet"] ends_to_this_miner [where P = "\<lambda>_. True"]
        ends_registered ends_rules) (use v in \<open>auto dest: link_tell_upstream\<close>)
qed

section \<open>Templates and previous hashes\<close>

lemma link_pop: "pop_token s = (t, s') \<Longrightarrow> link s' = link s"
  using link_helpers(9) [of s] by simp

lemma link_declare_custom:
  "link s = v \<Longrightarrow> ends (same_link v) (list_all quiet) (declare_custom_job J up token ph template outs s)"
  unfolding declare_custom_job_def Let_def by (intro ends_rules) (auto simp: link_factory)

lemma link_custom_for_miner:
  "link s = v \<Longrightarrow> ends (same_link v) (list_all quiet) (custom_job_for_miner J token up ph template outs s)"
  unfolding custom_job_for_miner_def by (intro ends_rules link_declare_custom) auto

lemma link_template_standard:
  "link s = v \<Longrightarrow> ends (same_link v) (list_all quiet) (template_to_standard J template outs job b d ch s)"
  unfolding template_to_standard_def Let_def by (intro ends_rules) auto

lemma link_template_extended:
  "link s = v \<Longrightarrow> ends (same_link v) (\<lambda>_. True) (template_to_extended J template job d ch s)"
  unfolding template_to_extended_def Let_def by (intro ends_rules) auto

lemma link_template_miner:
  "link s = v \<Longrightarrow> ends (same_link v) (list_all quiet) (template_to_miner J env template outs token up ph d s)"
  unfolding template_to_miner_def
  by (intro ends_rules ends_expect_then ends_and_then [OF link_custom_for_miner]
      ends_and_then [OF ends_collect] ends_and_then [OF ends_each] link_template_standard link_template_extended)
    (auto intro: link_template_standard)

lemma link_token_for: "token_for_template template s = (t, s') \<Longrightarrow> link s' = link s"
  by (auto simp: token_for_template_def link_pop split: if_splits)

lemma link_new_template:
  "link s = v \<Longrightarrow> ends (same_link v) (\<lambda>_. True) (jdc_handle_new_template J env template s)"
  unfolding jdc_handle_new_template_def request_transaction_data_def
  by (intro ends_then_forward ends_or_fail_then
      ends_expect_then ends_and_then [OF ends_if [where Q = "\<lambda>_. True"]]
      ends_and_then [OF ends_collect] ends_rules link_steps link_template_miner)
    (auto dest: link_token_for intro: link_template_miner)

lemma link_build_declaration:
  "link s = v \<Longrightarrow> ends (same_link v) (\<lambda>_. True) (build_declaration B J r token template outs ws x raws s)"
  unfolding build_declaration_def Let_def by (intro ends_rules) (auto simp: link_factory)

lemma ends_case_bool: "(c \<Longrightarrow> ends I Q a) \<Longrightarrow> (\<not> c \<Longrightarrow> ends I Q b) \<Longrightarrow> ends I Q (case c of True \<Rightarrow> a | False \<Rightarrow> b)"
  by (cases c) simp_all

lemma link_declare_template:
  "link s = v \<Longrightarrow> ends (same_link v) (\<lambda>_. True) (declare_template B J env r token template outs raws x s)"
  unfolding declare_template_def
  by (intro ends_or_fail_then ends_expect_then
      ends_and_then [OF link_build_declaration] ends_rules ends_case_bool link_steps) auto

lemma link_tx_data_success:
  "link s = v \<Longrightarrow> ends (same_link v) (\<lambda>_. True) (jdc_handle_tx_data_success B J env t x raws s)"
  unfolding jdc_handle_tx_data_success_def Let_def
  by (intro ends_rules ends_or_fail_then ends_and_then [OF link_ignoring_tokens]
      link_declare_template) (auto dest: link_pop)

lemma link_custom_on_prev_hash:
  "link s = v \<Longrightarrow> ends (same_link v) (\<lambda>r. list_all quiet (fst r)) (custom_job_on_prev_hash J msg outs s)"
  unfolding custom_job_on_prev_hash_def
  by (intro ends_rules ends_case_bool ends_and_then [OF link_declare_custom]) (auto dest: link_pop)

lemma link_record_for_all [simp]: "link (record_for_all d chs job t c s) = link s"
  unfolding record_for_all_def by (induction chs arbitrary: s) simp_all

lemma link_prev_hash_standard:
  "link s = v \<Longrightarrow> ends (same_link v) (list_all quiet) (prev_hash_to_standard J msg b d ch s)"
  unfolding prev_hash_to_standard_def Let_def by (intro ends_rules) auto

lemma link_prev_hash_extended: "link s = v \<Longrightarrow> ends (same_link v) (\<lambda>_. True) (prev_hash_to_extended J msg d ch s)"
  unfolding prev_hash_to_extended_def by (intro ends_rules) auto

lemma link_prev_hash_miner: "link s = v \<Longrightarrow> ends (same_link v) (list_all quiet) (prev_hash_to_miner J env msg d s)"
  unfolding prev_hash_to_miner_def Let_def
  by (intro ends_rules ends_expect_then ends_and_then [OF ends_collect]
      ends_and_then [OF ends_each] link_prev_hash_standard link_prev_hash_extended)
    (auto intro: link_prev_hash_standard)

lemma ends_case_mode:
  "ends I Q a \<Longrightarrow> ends I Q b \<Longrightarrow> ends I Q c \<Longrightarrow>
   ends I Q (case m of FullTemplate \<Rightarrow> a | CoinbaseOnly \<Rightarrow> b | SoloMiningMode \<Rightarrow> c)"
  by (cases m) simp_all

lemma link_declare_future:
  "link s = v \<Longrightarrow> ends (same_link v) (\<lambda>_. True)
     (case (jc_mode s, future_declaration env s) of
        (FullTemplate, Some (m, x)) \<Rightarrow> send_or env e (ToJobDeclarator (JdDeclare m x)) s
      | _ \<Rightarrow> (Done (), s))"
  by (intro ends_rules ends_case_mode link_send_or) auto

lemma link_set_new_prev_hash:
  "link s = v \<Longrightarrow> ends (same_link v) (\<lambda>_. True) (jdc_handle_set_new_prev_hash J env msg s)"
  unfolding jdc_handle_set_new_prev_hash_def Let_def
  by (intro ends_then_forward ends_or_fail_then ends_and_then [OF link_declare_future]
      ends_and_then [OF link_custom_on_prev_hash] ends_and_then [OF ends_collect]
      ends_and_then [OF ends_if [where Q = "\<lambda>_. True"]] ends_rules link_steps link_prev_hash_miner)
    (auto intro: link_prev_hash_miner)

lemma link_tp_message:
  "link s = v \<Longrightarrow> ends (same_link v) (\<lambda>_. True) (handle_template_provider_message B J env m s)"
  using link_new_template [of s v J env] link_set_new_prev_hash [of s v J env] link_tx_data_success [of s v B J env]
  by (cases m) (simp_all add: jdc_handle_tx_data_error_def ends_here split: tx_data_error.split)

section \<open>Variable difficulty\<close>

lemma link_vardiff_turn: "link (snd (jdc_vardiff_turn J key s)) = link s \<and> list_all quiet (fst (jdc_vardiff_turn J key s))"
  by (auto simp: jdc_vardiff_turn_def list_all_iff split: option.split prod.split)

lemma link_vardiff_turns:
  "link (snd (jdc_vardiff_turns J keys s)) = link s \<and> list_all quiet (fst (jdc_vardiff_turns J keys s))"
proof (induction keys arbitrary: s)
  case (Cons key keys)
  show ?case using link_vardiff_turn [of J key s] Cons.IH [of "snd (jdc_vardiff_turn J key s)"]
    by (auto simp: split_beta)
qed simp

lemma link_run_vardiff: "link (jdc_run_vardiff J env s) = link s"
proof -
  obtain ms s1 where turns: "jdc_vardiff_turns J (visit_miner_vardiff env) s = (ms, s1)" by fastforce
  then have 1: "link s1 = link s" "list_all quiet ms" using link_vardiff_turns [of J "visit_miner_vardiff env" s] by simp_all
  obtain ms' s2 where told: "tell_upstream_figures J min_of_le_bytes (channel_figures J env s1) s1 = (ms', s2)" by fastforce
  then have 2: "link s2 = link s1" "list_all quiet ms'" using link_tell_upstream [OF told] by simp_all
  show ?thesis
    using 1 2 by (cases ms) (simp_all add: jdc_run_vardiff_def turns told link_forward_all link_forward)
qed

section \<open>The Job Declarator Server and the pool\<close>

lemma link_jds_message:
  "link s = v \<Longrightarrow> ends (same_link v) (\<lambda>_. True) (handle_jds_message B sc dec J env m s)"
proof (cases m)
  case (FjDeclareSuccess r token)
  assume "link s = v"
  then show ?thesis unfolding FjDeclareSuccess handle_jds_message.simps jdc_handle_declare_success_def Let_def
    by (intro ends_or_fail_then ends_rules link_send_or) (auto simp: link_factory)
next
  case (FjTokenSuccess t)
  assume "link s = v"
  then show ?thesis unfolding FjTokenSuccess handle_jds_message.simps jdc_handle_token_success_def Let_def
    by (intro ends_rules ends_or_fail_then link_send_or) auto
next
  case (FjProvideMissing r ps)
  assume "link s = v"
  then show ?thesis unfolding FjProvideMissing handle_jds_message.simps jdc_handle_provide_missing_def Let_def
    by (intro ends_or_fail_then ends_rules link_send_or) auto
qed (simp add: jdc_handle_declare_error_def ends_def)

lemma link_gather:
  assumes "\<And>x s. link (snd (f x s)) = link s \<and> list_all quiet (fst (f x s))"
  shows "link (snd (gather f xs s)) = link s \<and> list_all quiet (fst (gather f xs s))"
proof (induction xs arbitrary: s)
  case (Cons x xs)
  show ?case using assms [of x s] Cons.IH [of "snd (f x s)"] by (auto simp: split_beta)
qed simp

lemma link_new_prefix_standard:
  "link (snd (new_prefix_standard J d ch s)) = link s \<and> list_all quiet (fst (new_prefix_standard J d ch s))"
  by (auto simp: new_prefix_standard_def split: option.split prod.split sum.split)

lemma link_new_prefix_extended:
  "link (snd (new_prefix_extended J d ch s)) = link s \<and> list_all quiet (fst (new_prefix_extended J d ch s))"
  by (auto simp: new_prefix_extended_def split: option.split prod.split sum.split)

lemma link_new_prefixes:
  "link (snd (new_prefixes_for_miner J env d s)) = link s \<and> list_all quiet (fst (new_prefixes_for_miner J env d s))"
  using link_gather [where f = "new_prefix_standard J d" and xs = "visit_miner_channels env d" and s = s,
      OF link_new_prefix_standard]
    link_gather [where f = "new_prefix_extended J d" and xs = "visit_miner_channels env d", OF link_new_prefix_extended]
  by (simp add: new_prefixes_for_miner_def split_beta)

lemma link_set_extranonce_prefix:
  "link s = v \<Longrightarrow> ends (same_link v) (\<lambda>_. True) (jdc_handle_set_extranonce_prefix J env p s)"
proof -
  assume v: "link s = v"
  have "link (jdc_forward_all env ms s2) = v"
    if "gather (new_prefixes_for_miner J env) ds s1 = (ms, s2)" "link s1 = v" for ms s1 s2 ds
    using link_gather [where f = "new_prefixes_for_miner J env" and xs = ds and s = s1, OF link_new_prefixes] that
    by (simp add: link_forward_all)
  then show ?thesis
    unfolding jdc_handle_set_extranonce_prefix_def Let_def
    by (intro ends_rules) (use v in \<open>auto simp: link_upstream\<close>)
qed

lemma link_resize_group: "link s = v \<Longrightarrow> ends (same_link v) (\<lambda>_. True) (resize_group J n d s)"
  unfolding resize_group_def by (intro ends_rules) auto

lemma link_accept: "accept_miner J s = (r, s') \<Longrightarrow> link s' = link s"
  by (auto simp: accept_miner_def Let_def split: attempt.splits option.splits)

lemma link_drop_departed [simp]: "link (drop_departed_miner J d ch s) = link s"
  by (simp add: drop_departed_miner_def split: option.split)

end
