(* ===== verification/Jdc_Run.thy ===== *)
theory Jdc_Run
  imports Jdc_Frame "HOL-Library.Sublist"
begin

text \<open>
  The runs of the Job Declarator Client's channel manager: the loop of \<open>ChannelManager::start\<close> over the messages of
  miners, pool, Job Declarator Server and Template Provider, the minute's difficulty update, and beside it the
  connections that arrive, shake hands and leave. A run goes on after an error that is logged or disconnects a
  miner, and ends with a panic, a fallback or a shutdown. The ids of the jobs the pool has accepted are
  recorded along the run.

  In every run the shares sent to the pool carry the numbers of one counter, in order, and name accepted jobs
  only; the pool is asked for at most one channel that it was not told to close; and a channel that is in use
  comes with the factory for its jobs.
\<close>

section \<open>Runs\<close>

definition jdc_continues ::
  "(jdc_error, 'r) attempt \<times> ('s, 'e, 'g, 'a, 'v, 'u, 'f) jdc \<Rightarrow> ('s, 'e, 'g, 'a, 'v, 'u, 'f) jdc option" where
  "jdc_continues r =
     (case r of
        (Done _, s) \<Rightarrow> Some s
      | (Failed e, s) \<Rightarrow> (case jdc_error_action e s of (Continue, s') \<Rightarrow> Some s' | (Break, _) \<Rightarrow> None)
      | (Panicked, _) \<Rightarrow> None)"

definition accepted_by :: "from_upstream \<Rightarrow> u32 list" where
  "accepted_by m = (case m of FuCustomJobSuccess _ _ job_id \<Rightarrow> [job_id] | _ \<Rightarrow> [])"

definition miner_has_no_channels :: "('s, 'e, 'g) jdc_client \<Rightarrow> bool" where
  "miner_has_no_channels c = (jd_standard c = Map.empty \<and> jd_extended c = Map.empty)"

text \<open>Messages of the pool and the Job Declarator Server are read outside solo mining only. The counter of
  connections is taken not to have come round to one that is still registered.\<close>

inductive jdc_reach ::
  "btc_lib \<Rightarrow> (transaction \<Rightarrow> nat) \<Rightarrow> (bytes \<Rightarrow> tx_out list option) \<Rightarrow>
   ('s, 'e, 'g, 'j, 'a, 'p, 'v, 'u, 'f) jdc_lib \<Rightarrow> jdc_config \<Rightarrow> u32 list \<Rightarrow>
   ('s, 'e, 'g, 'a, 'v, 'u, 'f) jdc \<Rightarrow> bool" for B sigop_cost decode_outputs J cfg where
  solo: "jdc_new J cfg outs = Ok s \<Longrightarrow> jdc_reach B sigop_cost decode_outputs J cfg [] s"
| pooled: "jdc_new J cfg outs = Ok s \<Longrightarrow> upstream_ready env cfg identity s = (Done (), s') \<Longrightarrow>
    jdc_reach B sigop_cost decode_outputs J cfg [] s'"
| miner: "jdc_reach B sigop_cost decode_outputs J cfg acks s \<Longrightarrow>
    jdc_continues (jdc_handle_downstream_message J env d m s) = Some s' \<Longrightarrow>
    jdc_reach B sigop_cost decode_outputs J cfg acks s'"
| pool: "jdc_reach B sigop_cost decode_outputs J cfg acks s \<Longrightarrow> jc_mode s \<noteq> SoloMiningMode \<Longrightarrow>
    jdc_continues (handle_pool_message J env u s) = Some s' \<Longrightarrow>
    jdc_reach B sigop_cost decode_outputs J cfg (acks @ accepted_by u) s'"
| jds: "jdc_reach B sigop_cost decode_outputs J cfg acks s \<Longrightarrow> jc_mode s \<noteq> SoloMiningMode \<Longrightarrow>
    jdc_continues (handle_jds_message B sigop_cost decode_outputs J env j s) = Some s' \<Longrightarrow>
    jdc_reach B sigop_cost decode_outputs J cfg acks s'"
| template: "jdc_reach B sigop_cost decode_outputs J cfg acks s \<Longrightarrow>
    jdc_continues (handle_template_provider_message B J env t s) = Some s' \<Longrightarrow>
    jdc_reach B sigop_cost decode_outputs J cfg acks s'"
| vardiff: "jdc_reach B sigop_cost decode_outputs J cfg acks s \<Longrightarrow>
    jdc_reach B sigop_cost decode_outputs J cfg acks (jdc_run_vardiff J env s)"
| announce: "jdc_reach B sigop_cost decode_outputs J cfg acks s \<Longrightarrow>
    jdc_continues (jdc_announce_constraints B sigop_cost env outs s) = Some s' \<Longrightarrow>
    jdc_reach B sigop_cost decode_outputs J cfg acks s'"
| connect: "jdc_reach B sigop_cost decode_outputs J cfg acks s \<Longrightarrow>
    jc_downstreams s (jc_downstream_id_factory s) = None \<Longrightarrow> accept_miner J s = (Done (Some d), s') \<Longrightarrow>
    jdc_reach B sigop_cost decode_outputs J cfg acks s'"
| handshake: "jdc_reach B sigop_cost decode_outputs J cfg acks s \<Longrightarrow> jc_downstreams s d = Some c \<Longrightarrow>
    miner_has_no_channels c \<Longrightarrow>
    jdc_reach B sigop_cost decode_outputs J cfg acks (put_miner d (c\<lparr>jd_require_std_job := b\<rparr>) s)"
| leave: "jdc_reach B sigop_cost decode_outputs J cfg acks s \<Longrightarrow>
    jdc_reach B sigop_cost decode_outputs J cfg acks (jdc_remove_downstream d s)"
| dropped: "jdc_reach B sigop_cost decode_outputs J cfg acks s \<Longrightarrow>
    jdc_reach B sigop_cost decode_outputs J cfg acks (drop_departed_miner J d ch s)"

section \<open>What the pool has been sent\<close>

definition shares_in :: "to_upstream list \<Rightarrow> submit_shares_extended list" where
  "shares_in ms = List.map_filter (\<lambda>m. case m of UpSubmitShares sh \<Rightarrow> Some sh | _ \<Rightarrow> None) ms"

definition opens_in :: "to_upstream list \<Rightarrow> nat" where
  "opens_in ms = length (filter (\<lambda>m. case m of UpOpenExtended _ \<Rightarrow> True | _ \<Rightarrow> False) ms)"

definition closes_in :: "to_upstream list \<Rightarrow> nat" where
  "closes_in ms = length (filter (\<lambda>m. case m of UpCloseChannel _ _ \<Rightarrow> True | _ \<Rightarrow> False) ms)"

lemma in_append [simp]:
  "shares_in (xs @ ys) = shares_in xs @ shares_in ys" "opens_in (xs @ ys) = opens_in xs + opens_in ys"
  "closes_in (xs @ ys) = closes_in xs + closes_in ys"
  by (simp_all add: shares_in_def opens_in_def closes_in_def List.map_filter_def)

lemma in_nil [simp]: "shares_in [] = []" "opens_in [] = 0" "closes_in [] = 0"
  by (simp_all add: shares_in_def opens_in_def closes_in_def)

lemma shares_in_Cons [simp]:
  "shares_in (m # ms) = (case m of UpSubmitShares sh \<Rightarrow> [sh] | _ \<Rightarrow> []) @ shares_in ms"
  by (simp add: shares_in_def split: to_upstream.split)

lemma opens_in_Cons [simp]: "opens_in (m # ms) = (case m of UpOpenExtended _ \<Rightarrow> 1 | _ \<Rightarrow> 0) + opens_in ms"
  by (simp add: opens_in_def split: to_upstream.split)

lemma closes_in_Cons [simp]: "closes_in (m # ms) = (case m of UpCloseChannel _ _ \<Rightarrow> 1 | _ \<Rightarrow> 0) + closes_in ms"
  by (simp add: closes_in_def split: to_upstream.split)

lemma in_tracked:
  "shares_in (filter tracked ms) = shares_in ms \<and> opens_in (filter tracked ms) = opens_in ms \<and>
   closes_in (filter tracked ms) = closes_in ms"
  by (induction ms) (auto simp: tracked_def split: to_upstream.splits)

section \<open>The invariant\<close>

definition counted :: "u32 \<Rightarrow> submit_shares_extended list \<Rightarrow> bool" where
  "counted next_number shares \<longleftrightarrow>
     (\<exists>n. 0 < n \<and> next_number = of_nat n \<and> subseq (map se_sequence_number shares) (map of_nat [1..<n]))"

definition link_ok :: "u32 list \<Rightarrow>
   u32 \<times> (u64 \<rightharpoonup> u32) \<times> upstream_state \<times> to_upstream list \<times> bool \<times> bool \<times> config_jdc_mode \<times> string option \<Rightarrow> bool" where
  "link_ok acks = (\<lambda>(seq, jobs, state, sent, no_channel, no_factory, mode, identity).
     ran jobs \<subseteq> set acks \<and> counted seq (shares_in sent) \<and> se_job_id ` set (shares_in sent) \<subseteq> set acks \<and>
     (state = Connected \<longrightarrow> \<not> no_channel) \<and> (\<not> no_channel \<longrightarrow> \<not> no_factory) \<and>
     opens_in sent \<le> closes_in sent + (if state = NoChannel then 0 else 1))"

lemma link_ok_more: "link_ok acks v \<Longrightarrow> link_ok (acks @ new_acks) v"
  unfolding link_ok_def by auto

abbreviation jdc_ok where
  "jdc_ok acks s \<equiv> link_ok acks (link s)"

lemma jdc_ok_same: "link s' = link s \<Longrightarrow> jdc_ok acks s \<Longrightarrow> jdc_ok acks s'"
  by simp

text \<open>A step that goes on keeps what its chain ends in, for what an error's action leaves alone.\<close>

lemma continues_link:
  assumes "ends (\<lambda>s. P (link s)) Q r" and "jdc_continues r = Some s'"
  shows "P (link s')"
  using assms by (cases r; cases "fst r")
    (auto simp: jdc_continues_def ends_def jdc_error_action_def split: jdc_action.splits loop_control.splits)

section \<open>Shares on their way to the pool\<close>

definition upstream_part :: "jdc_route list \<Rightarrow> to_upstream list" where
  "upstream_part ms = List.map_filter (\<lambda>m. case m of ToUpstream u \<Rightarrow> Some u | _ \<Rightarrow> None) ms"

lemma upstream_part_simps [simp]:
  "upstream_part [] = []" "upstream_part (xs @ ys) = upstream_part xs @ upstream_part ys"
  "upstream_part (m # ms) = (case m of ToUpstream u \<Rightarrow> [u] | _ \<Rightarrow> []) @ upstream_part ms"
  by (simp_all add: upstream_part_def List.map_filter_def split: jdc_route.split)

definition sent_too ::
  "to_upstream list \<Rightarrow> u32 \<times> (u64 \<rightharpoonup> u32) \<times> upstream_state \<times> to_upstream list \<times> 'r \<Rightarrow>
   u32 \<times> (u64 \<rightharpoonup> u32) \<times> upstream_state \<times> to_upstream list \<times> 'r" where
  "sent_too us = (\<lambda>(seq, jobs, state, sent, rest). (seq, jobs, state, sent @ filter tracked us, rest))"

lemma sent_too_sent_too [simp]: "sent_too ys (sent_too xs v) = sent_too (xs @ ys) v"
  by (cases v) (simp add: sent_too_def)

lemma sent_too_nil [simp]: "sent_too [] v = v"
  by (cases v) (simp add: sent_too_def)

lemma link_forward_sent:
  "link (snd (jdc_forward env m s)) = sent_too (if upstream_reads env then upstream_part [m] else []) (link s)"
  by (cases m) (simp_all add: jdc_forward_def link_def sent_too_def)

lemma link_forward_all_sent:
  "link (jdc_forward_all env ms s) = sent_too (if upstream_reads env then upstream_part ms else []) (link s)"
  by (induction ms arbitrary: s) (simp_all add: link_forward_sent split: jdc_route.split)

text \<open>What a handler of shares may do: advance the counter, and collect shares with the numbers in between, on
  the jobs \<open>A\<close>.\<close>

definition feeds ::
  "u32 set \<Rightarrow> ('s, 'e, 'g, 'a, 'v, 'u, 'f) jdc \<Rightarrow>
   (jdc_error, jdc_route list) attempt \<times> ('s, 'e, 'g, 'a, 'v, 'u, 'f) jdc \<Rightarrow> bool" where
  "feeds A s r \<longleftrightarrow> snd (link (snd r)) = snd (link s) \<and>
     (\<exists>k. fst (link (snd r)) = fst (link s) + of_nat k \<and>
        (\<forall>ms. fst r = Done ms \<longrightarrow>
           subseq (map se_sequence_number (shares_in (upstream_part ms))) (map (\<lambda>i. fst (link s) + of_nat i) [0..<k]) \<and>
           se_job_id ` set (shares_in (upstream_part ms)) \<subseteq> A \<and>
           opens_in (upstream_part ms) = 0 \<and> closes_in (upstream_part ms) = 0))"

lemma feeds_quiet: "link (snd r) = link s \<Longrightarrow> (\<And>ms. fst r = Done ms \<Longrightarrow> list_all quiet ms) \<Longrightarrow> feeds A s r"
proof -
  assume same: "link (snd r) = link s" and q: "\<And>ms. fst r = Done ms \<Longrightarrow> list_all quiet ms"
  have "shares_in (upstream_part ms) = [] \<and> opens_in (upstream_part ms) = 0 \<and> closes_in (upstream_part ms) = 0"
    if "list_all quiet ms" for ms
    using that by (induction ms) (auto simp: quiet_def tracked_def split: jdc_route.splits to_upstream.splits)
  then show ?thesis using same q by (auto simp: feeds_def intro!: exI [of _ 0])
qed

lemma feeds_and_then:
  assumes "feeds A s r" and "\<And>ms. fst r = Done ms \<Longrightarrow> feeds A (snd r) (k ms (snd r))"
  shows "feeds A s (and_then r (\<lambda>ms t. and_then (k ms t) (\<lambda>ms' t. (Done (ms @ ms'), t))))"
proof (cases r)
  case (Pair out t)
  show ?thesis
  proof (cases out)
    case (Done ms)
    obtain out2 t2 where k: "k ms t = (out2, t2)" by fastforce
    obtain i where i: "fst (link t) = fst (link s) + of_nat i" "snd (link t) = snd (link s)"
        "subseq (map se_sequence_number (shares_in (upstream_part ms))) (map (\<lambda>j. fst (link s) + of_nat j) [0..<i])"
        "se_job_id ` set (shares_in (upstream_part ms)) \<subseteq> A" "opens_in (upstream_part ms) = 0" "closes_in (upstream_part ms) = 0"
      using assms(1) Done Pair by (auto simp: feeds_def)
    have "feeds A t (out2, t2)" using assms(2) [of ms] Done Pair k by simp
    then obtain j where j: "fst (link t2) = fst (link t) + of_nat j" "snd (link t2) = snd (link t)"
        "\<And>ms'. out2 = Done ms' \<Longrightarrow>
           subseq (map se_sequence_number (shares_in (upstream_part ms'))) (map (\<lambda>i. fst (link t) + of_nat i) [0..<j]) \<and>
           se_job_id ` set (shares_in (upstream_part ms')) \<subseteq> A \<and> opens_in (upstream_part ms') = 0 \<and>
           closes_in (upstream_part ms') = 0"
      by (auto simp: feeds_def)
    have numbers: "map (\<lambda>j. fst (link s) + of_nat j) [0..<i] @ map (\<lambda>l. fst (link t) + of_nat l) [0..<j] =
        map (\<lambda>l. fst (link s) + of_nat l) [0..<i + j]"
      by (rule nth_equalityI) (auto simp: nth_append i(1) add.assoc)
    show ?thesis
    proof (cases out2)
      case d: (Done ms')
      have "subseq (map se_sequence_number (shares_in (upstream_part (ms @ ms'))))
          (map (\<lambda>l. fst (link s) + of_nat l) [0..<i + j])"
        using i(3) j(3) [OF d] unfolding numbers [symmetric] by (simp add: list_emb_append_mono)
      then show ?thesis
        using i j(1,2) j(3) [OF d]
        by (auto simp: feeds_def Pair Done k d add.assoc intro!: exI [of _ "i + j"])
    qed (use i j(1,2) in \<open>auto simp: feeds_def Pair Done k add.assoc intro!: exI [of _ "i + j"]\<close>)
  qed (use assms(1) Pair in \<open>simp_all add: feeds_def\<close>)
qed

lemma counted_more:
  assumes "counted next_number xs" and "subseq (map se_sequence_number ys) (map (\<lambda>i. next_number + of_nat i) [0..<k])"
  shows "counted (next_number + of_nat k) (xs @ ys)"
proof -
  obtain n where n: "0 < n" "next_number = of_nat n" "subseq (map se_sequence_number xs) (map of_nat [1..<n])"
    using assms(1) by (auto simp: counted_def)
  have range: "map (of_nat :: nat \<Rightarrow> u32) [1..<n + k] = map of_nat [1..<n] @ map (\<lambda>i. next_number + of_nat i) [0..<k]"
    using n(1) by (intro nth_equalityI) (auto simp: nth_append n(2))
  have "subseq (map se_sequence_number (xs @ ys)) (map of_nat [1..<n + k])"
    using n(3) assms(2) unfolding range by (simp add: list_emb_append_mono)
  then show ?thesis
    using n(1,2) by (auto simp: counted_def intro!: exI [of _ "n + k"])
qed

lemma feeds_ok:
  assumes ok: "jdc_ok acks s" and feeds: "feeds (set acks) s r"
  shows "ends (jdc_ok acks) (\<lambda>_. True) (jdc_then_forward env r)"
proof (cases r)
  case (Pair out t)
  obtain seq jobs state sent rest where v: "link s = (seq, jobs, state, sent, rest)" by (cases "link s") auto
  obtain k where k: "link t = (seq + of_nat k, jobs, state, sent, rest)"
      "\<And>ms. out = Done ms \<Longrightarrow>
         subseq (map se_sequence_number (shares_in (upstream_part ms))) (map (\<lambda>i. seq + of_nat i) [0..<k]) \<and>
         se_job_id ` set (shares_in (upstream_part ms)) \<subseteq> set acks \<and>
         opens_in (upstream_part ms) = 0 \<and> closes_in (upstream_part ms) = 0"
    using feeds Pair by (cases "link t") (auto simp: feeds_def v)
  obtain no_channel no_factory mode identity where rest: "rest = (no_channel, no_factory, mode, identity)"
    by (cases rest) auto
  have c: "counted seq (shares_in sent)" using ok by (simp add: v rest link_ok_def)
  have "jdc_ok acks t"
    using counted_more [OF c, of "[]" k] ok by (simp add: v k rest link_ok_def)
  moreover have "jdc_ok acks (jdc_forward_all env ms t)" if "out = Done ms" for ms
  proof (cases "upstream_reads env")
    case True
    note km = k(2) [OF that]
    have "counted (seq + of_nat k) (shares_in sent @ shares_in (upstream_part ms))"
      by (rule counted_more [OF c]) (use km in simp)
    then show ?thesis
      using ok True km in_tracked [of "upstream_part ms"]
      by (auto simp: link_forward_all_sent k v rest link_ok_def sent_too_def)
  next
    case False
    then show ?thesis using \<open>jdc_ok acks t\<close> by (simp add: link_forward_all_sent)
  qed
  ultimately show ?thesis using Pair by (cases out) (auto simp: jdc_then_forward_def ends_def)
qed

section \<open>The handlers of shares\<close>

lemma submit_upstream_feeds:
  assumes "jc_upstream s = Some up'" and "se_job_id m \<in> A" and over: "\<And>ms. oversize \<noteq> Done ms"
  shows "feeds A s (submit_upstream J rejection ext oversize ph up m s)"
proof -
  obtain w up2 where share: "up_share J m up = (w, up2)" by fastforce
  show ?thesis
  proof (cases w)
    case (Inl e)
    show ?thesis
      by (rule feeds_quiet) (simp_all add: submit_upstream_def share Inl Let_def link_upstream assms(1) split: if_splits)
  next
    case (Inr b)
    obtain h block where b: "b = (h, block)" by fastforce
    let ?r = "submit_upstream J rejection ext oversize ph up m s"
    have link: "link (snd ?r) = (fst (link s) + 1, snd (link s))"
      using assms(1) by (simp add: submit_upstream_def share Inr b Let_def link_def)
    have out: "\<And>ms. fst ?r = Done ms \<Longrightarrow>
        shares_in (upstream_part ms) = [m\<lparr>se_sequence_number := fst (link s)\<rparr>] \<and> opens_in (upstream_part ms) = 0 \<and>
        closes_in (upstream_part ms) = 0"
      using over by (auto simp: submit_upstream_def share Inr b Let_def link_def split: if_splits)
    show ?thesis
      unfolding feeds_def using link out assms(2) by (auto intro!: exI [of _ 1])
  qed
qed

lemma share_to_upstream_feeds:
  assumes "jc_upstream s = Some up" and "ran (jc_upstream_job s) \<subseteq> A"
  shows "feeds A s (share_to_upstream J rejection ext ph template h up m s)"
proof (cases template)
  case None
  then show ?thesis by (intro feeds_quiet) (simp_all add: share_to_upstream_def)
next
  case (Some t)
  show ?thesis
  proof (cases "jc_upstream_job s t")
    case None
    then show ?thesis using Some by (intro feeds_quiet) (simp_all add: share_to_upstream_def)
  next
    case j: (Some job_id)
    have "job_id \<in> A" using j assms(2) by (auto simp: ran_def)
    then show ?thesis
      unfolding share_to_upstream_def Some option.case j by (intro submit_upstream_feeds [OF assms(1)]) simp_all
  qed
qed

lemma translate_share_feeds:
  assumes "ran (jc_upstream_job s) \<subseteq> A"
  shows "feeds A s (translate_share J rejection ext oversize ph template h pre rolled share s)"
proof (cases "jc_upstream s")
  case None
  then show ?thesis by (intro feeds_quiet) (simp_all add: translate_share_def)
next
  case (Some up)
  show ?thesis
  proof (cases "tail_of pre (up_prefix J up)")
    case None
    then show ?thesis using Some by (intro feeds_quiet) (simp_all add: translate_share_def)
  next
    case t: (Some tail)
    show ?thesis
    proof (cases "length (tail @ rolled) \<le> 32")
      case True
      then show ?thesis
        unfolding translate_share_def Some option.case t by (simp add: share_to_upstream_feeds Some assms)
    next
      case False
      then show ?thesis using Some t by (intro feeds_quiet) (simp_all add: translate_share_def)
    qed
  qed
qed

lemma feeds_count_share: "feeds A s r \<Longrightarrow> feeds A s (jdc_count_share J d ch r)"
  by (cases r; cases "fst r") (auto simp: jdc_count_share_def feeds_def split: option.split)

lemma feeds_link: "feeds A s' r \<Longrightarrow> link s' = link s \<Longrightarrow> feeds A s r"
  by (simp add: feeds_def)

lemma share_answer_quiet:
  "jdc_share_answer d ch seq solution rejection acc w = Done (ms, h) \<Longrightarrow> list_all quiet ms"
  by (auto simp: jdc_share_answer_def split: sum.splits prod.splits share_validation_result.splits option.splits if_splits)

lemma after_verdict_feeds:
  assumes "\<And>ms h. answer = Done (ms, h) \<Longrightarrow> list_all quiet ms" and "\<And>h. feeds A s (goes_up h s)"
  shows "feeds A s (after_verdict answer goes_up s)"
proof (cases answer)
  case (Done x)
  obtain ms h where x: "x = (ms, h)" by fastforce
  show ?thesis
  proof (cases h)
    case None
    then show ?thesis using assms(1) [of ms h] Done x by (intro feeds_quiet) (simp_all add: after_verdict_def)
  next
    case (Some h')
    have "feeds A s (and_then (Done ms, s) (\<lambda>ms t. and_then (goes_up h' t) (\<lambda>ms' t. (Done (ms @ ms'), t))))"
      by (rule feeds_and_then) (use assms(1) [of ms h] assms(2) Done x in \<open>auto intro: feeds_quiet\<close>)
    then show ?thesis by (simp add: after_verdict_def Done x Some)
  qed
qed (auto intro: feeds_quiet simp: after_verdict_def)

lemma upstream_job_link: "link s' = link s \<Longrightarrow> jc_upstream_job s' = jc_upstream_job s"
  by (simp add: link_def)

lemma submit_standard_feeds:
  assumes "ran (jc_upstream_job s) \<subseteq> A"
  shows "feeds A s (jdc_submit_standard J d msg ph c s)"
proof (cases "jd_standard c (ss_channel_id msg)")
  case None
  then show ?thesis by (intro feeds_quiet) (auto simp: jdc_submit_standard_def)
next
  case (Some sc)
  obtain w sc' where v: "std_share J msg sc = (w, sc')" by fastforce
  show ?thesis
    unfolding jdc_submit_standard_def Let_def Some option.case v prod.case
    by (intro feeds_count_share, rule feeds_link, rule after_verdict_feeds)
      (use assms in \<open>auto intro!: translate_share_feeds share_answer_quiet simp: upstream_job_link [of "put_miner _ _ s" s]\<close>)
qed

lemma submit_extended_feeds:
  assumes "ran (jc_upstream_job s) \<subseteq> A"
  shows "feeds A s (jdc_submit_extended J d msg ph c s)"
proof (cases "jd_extended c (se_channel_id msg)")
  case None
  then show ?thesis by (intro feeds_quiet) (auto simp: jdc_submit_extended_def)
next
  case (Some ec)
  obtain w ec' where v: "ext_share J msg ec = (w, ec')" by fastforce
  show ?thesis
    unfolding jdc_submit_extended_def Let_def Some option.case v prod.case
    by (intro feeds_count_share, rule feeds_link, rule after_verdict_feeds)
      (use assms in \<open>auto intro!: translate_share_feeds share_answer_quiet simp: upstream_job_link [of "put_miner _ _ s" s]\<close>)
qed

lemma accepted_jobs: "jdc_ok acks s \<Longrightarrow> ran (jc_upstream_job s) \<subseteq> set acks"
  by (simp add: link_ok_def link_def)

text \<open>The two handlers look the same from here.\<close>

lemma registered_share_ok:
  assumes "jdc_ok acks s" and "\<And>ph c. feeds (set acks) s (f ph c s)"
  shows "ends (jdc_ok acks) (\<lambda>_. True)
    (jdc_then_forward env (and_then (or_fail e (jc_last_new_prev_hash s) s) (\<lambda>ph s. with_registered_miner d (f ph) s)))"
proof (rule feeds_ok [OF assms(1)])
  show "feeds (set acks) s (and_then (or_fail e (jc_last_new_prev_hash s) s) (\<lambda>ph s. with_registered_miner d (f ph) s))"
    using assms(2)
    by (cases "jc_last_new_prev_hash s"; cases "jc_downstreams s d")
      (auto simp: with_registered_miner_def intro: feeds_quiet)
qed

lemma submit_standard_ok: "jdc_ok acks s \<Longrightarrow> ends (jdc_ok acks) (\<lambda>_. True) (jdc_handle_submit_standard J env d msg s)"
  unfolding jdc_handle_submit_standard_def
  by (rule registered_share_ok) (auto intro: submit_standard_feeds dest: accepted_jobs)

lemma submit_extended_ok: "jdc_ok acks s \<Longrightarrow> ends (jdc_ok acks) (\<lambda>_. True) (jdc_handle_submit_extended J env d msg s)"
  unfolding jdc_handle_submit_extended_def
  by (rule registered_share_ok) (auto intro: submit_extended_feeds dest: accepted_jobs)

section \<open>The messages of miners\<close>

lemma same_link_ok: "jdc_ok acks s \<Longrightarrow> ends (same_link (link s)) Q r \<Longrightarrow> ends (jdc_ok acks) Q r"
  by (simp add: ends_def)

lemma miner_message_ok:
  assumes "jdc_ok acks s"
  shows "ends (jdc_ok acks) (\<lambda>_. True) (handle_mining_message_from_miner J env d m s)"
  using submit_standard_ok [OF assms] submit_extended_ok [OF assms]
    same_link_ok [OF assms link_handle_open_standard [OF refl]] same_link_ok [OF assms link_handle_open_extended [OF refl]]
    same_link_ok [OF assms link_close [OF refl]] same_link_ok [OF assms link_update [OF refl]] assms
  by (cases m) (simp_all add: ends_here)

lemma send_open_ok:
  assumes "jdc_ok acks s" and "jc_upstream_state s = NoChannel"
  shows "ends (jdc_ok acks) (\<lambda>_. True) (ask_upstream env misfit request open_for s)"
  using assms by (auto simp: ask_upstream_def Let_def send_or_def jdc_forward_def ends_def link_ok_def link_def
      in_tracked tracked_def split: option.split if_splits)

lemma downstream_message_ok:
  assumes "jdc_ok acks s"
  shows "ends (jdc_ok acks) (\<lambda>_. True) (jdc_handle_downstream_message J env d m s)"
  using assms miner_message_ok [OF assms] send_open_ok [OF assms]
  by (auto simp: jdc_handle_downstream_message_def ends_here simp del: handle_mining_message_from_miner.simps
      split: from_miner.split upstream_state.split)

section \<open>The messages of the pool\<close>

definition keeps ::
  "u32 list \<Rightarrow> (jdc_error, unit) attempt \<times> ('s, 'e, 'g, 'a, 'v, 'u, 'f) jdc \<Rightarrow> bool" where
  "keeps acks r \<longleftrightarrow> (\<forall>s'. jdc_continues r = Some s' \<longrightarrow> jdc_ok acks s')"

lemma keepsD: "keeps acks r \<Longrightarrow> jdc_continues r = Some s' \<Longrightarrow> jdc_ok acks s'"
  by (simp add: keeps_def)

lemma keeps_ends: "ends (jdc_ok acks) Q r \<Longrightarrow> keeps acks r"
  unfolding keeps_def using continues_link [where P = "link_ok acks"] by blast

lemma keeps_here: "jdc_ok acks s \<Longrightarrow> keeps acks (out, s)"
  by (rule keeps_ends [where Q = "\<lambda>_. True"]) (simp add: ends_def)

lemma keeps_panicked: "keeps acks (Panicked, s)"
  by (simp add: keeps_def jdc_continues_def)

lemma keeps_fallback: "keeps acks (Failed (jdc_fallback k), s)"
  by (simp add: keeps_def jdc_continues_def jdc_error_action_def jdc_fallback_def)

lemma give_up_ok:
  assumes "jdc_ok acks s"
  shows "keeps acks (give_up_channel env ch s)"
proof (cases "upstream_reads env")
  case True
  then show ?thesis
    using assms by (auto simp: give_up_channel_def send_or_def jdc_forward_def keeps_def jdc_continues_def link_ok_def
        link_def tracked_def split: if_splits)
next
  case False
  then show ?thesis by (simp add: give_up_channel_def send_or_def jdc_forward_def keeps_fallback)
qed

lemma link_custom_on_open: "custom_job_on_open J up factory outs s = (custom, factory', s') \<Longrightarrow> link s' = link s"
  by (auto simp: custom_job_on_open_def Let_def link_pop split: bool.splits option.splits prod.splits)

lemma established_ok:
  assumes ok: "jdc_ok acks s"
  shows "ends (jdc_ok acks) (\<lambda>_. True) (channel_established J env custom up s)"
  unfolding channel_established_def replay_pending_def request_transaction_data_def
  by (intro ends_and_then [OF ends_each] ends_and_then [where P = "\<lambda>_. True"] ends_each ends_rules ends_case_mode
      miner_message_ok; (simp add: ok)?; erule same_link_ok [OF _ link_resize_group [OF refl]]
      same_link_ok [OF _ link_send_or [OF _ refl]] same_link_ok [OF _ link_ignoring_tokens [OF refl]]; simp?)

lemma jdc_open_success_ok:
  assumes ok: "jdc_ok acks s"
  shows "keeps acks (jdc_handle_open_success J env msg s)"
proof -
  have opened: "keeps acks (case custom_job_on_open J up factory outs s of (custom, factory', s1) \<Rightarrow>
      channel_established J env custom up (s1\<lparr>jc_allocator := a, jc_upstream := Some up, jc_factory := Some factory',
        jc_upstream_state := Connected\<rparr>))" for up factory outs a
  proof -
    obtain custom factory' s1 where open_job: "custom_job_on_open J up factory outs s = (custom, factory', s1)"
      by (metis prod_cases3)
    have "jdc_ok acks (s1\<lparr>jc_allocator := a, jc_upstream := Some up, jc_factory := Some factory', jc_upstream_state := Connected\<rparr>)"
      using ok link_custom_on_open [OF open_job] by (auto simp: link_ok_def link_def split: if_splits)
    then show ?thesis unfolding open_job prod.case by (rule keeps_ends [OF established_ok])
  qed
  show ?thesis
    unfolding jdc_handle_open_success_def Let_def
    by (auto simp: or_fail_def expect_def and_then_def keeps_panicked keeps_fallback keeps_here [OF ok] give_up_ok [OF ok]
        opened split: option.split list.split)
qed

lemma replay_share_feeds:
  assumes "job_id \<in> A"
  shows "feeds A s (replay_share J ph job_id entry s)"
proof (cases "jc_upstream s")
  case None
  then show ?thesis by (intro feeds_quiet) (simp_all add: replay_share_def)
next
  case (Some up)
  show ?thesis
    unfolding replay_share_def Some option.case by (rule submit_upstream_feeds [OF Some]) (use assms in simp_all)
qed

lemma replay_feeds:
  assumes "job_id \<in> A"
  shows "feeds A s (collect (replay_share J ph job_id) heap s)"
proof (induction heap arbitrary: s)
  case (Cons entry heap)
  show ?case unfolding collect.simps
    by (rule feeds_and_then [OF replay_share_feeds [OF assms], where k = "\<lambda>_. collect (replay_share J ph job_id) heap"])
      (rule Cons.IH)
qed (auto intro: feeds_quiet)

lemma custom_job_success_ok:
  assumes ok: "jdc_ok acks s"
  shows "ends (jdc_ok (acks @ [job_id])) (\<lambda>_. True) (jdc_handle_custom_job_success J env ch r job_id s)"
proof (cases "jc_declared s r")
  case None
  then show ?thesis
    using link_ok_more [OF ok, of "[job_id]"] by (simp add: jdc_handle_custom_job_success_def jdc_then_forward_def ends_def)
next
  case (Some job)
  define t where "t = tm_template_id (dc_template job)"
  define s1 where "s1 = s\<lparr>jc_declared := (jc_declared s)(r := None), jc_upstream_job := (jc_upstream_job s)(t \<mapsto> job_id),
    jc_cached_shares := (jc_cached_shares s)(t := None)\<rparr>"
  have ok1: "jdc_ok (acks @ [job_id]) s1"
    using ok by (auto simp: s1_def link_ok_def link_def ran_def)
  have feeds: "feeds (set (acks @ [job_id])) s1
      (case up_on_custom_job_success J custom ch r job_id up of
         (Some ChainTipMismatch, up') \<Rightarrow> (Failed (jdc_log JkChannelSv2), s1\<lparr>jc_upstream := Some up'\<rparr>)
       | (Some OtherRefusal, up') \<Rightarrow> (Failed (jdc_fallback JkChannelSv2), s1\<lparr>jc_upstream := Some up'\<rparr>)
       | (None, up') \<Rightarrow>
           (case (jc_last_new_prev_hash s1, shares) of
              (Some ph, Some heap) \<Rightarrow> collect (replay_share J ph job_id) heap (s1\<lparr>jc_upstream := Some up'\<rparr>)
            | _ \<Rightarrow> (Done [], s1\<lparr>jc_upstream := Some up'\<rparr>)))" if up: "jc_upstream s1 = Some up" for up custom shares
  proof -
    have same: "link (s1\<lparr>jc_upstream := Some up'\<rparr>) = link s1" for up' using up by (simp add: link_upstream)
    show ?thesis
      by (auto split: prod.split option.split custom_job_refusal.split
          intro!: feeds_quiet feeds_link [OF replay_feeds same] simp: same)
  qed
  have "ends (jdc_ok (acks @ [job_id])) (\<lambda>_. True) (jdc_then_forward env (
      and_then (or_fail (jdc_log JkUpstreamNotFound) (jc_upstream s1) s1) (\<lambda>up s1.
      and_then (or_fail (jdc_shutdown JkCustomJobError) (dc_set_custom_mining_job job) s1) (\<lambda>custom s1.
        case up_on_custom_job_success J custom ch r job_id up of
          (Some ChainTipMismatch, up') \<Rightarrow> (Failed (jdc_log JkChannelSv2), s1\<lparr>jc_upstream := Some up'\<rparr>)
        | (Some OtherRefusal, up') \<Rightarrow> (Failed (jdc_fallback JkChannelSv2), s1\<lparr>jc_upstream := Some up'\<rparr>)
        | (None, up') \<Rightarrow>
            (case (jc_last_new_prev_hash s1, jc_cached_shares s t) of
               (Some ph, Some heap) \<Rightarrow> collect (replay_share J ph job_id) heap (s1\<lparr>jc_upstream := Some up'\<rparr>)
             | _ \<Rightarrow> (Done [], s1\<lparr>jc_upstream := Some up'\<rparr>))))))"
    by (rule feeds_ok [OF ok1], cases "jc_upstream s1"; cases "dc_set_custom_mining_job job")
      (use feeds [where shares = "jc_cached_shares s t"] in \<open>auto intro: feeds_quiet\<close>)
  then show ?thesis
    unfolding jdc_handle_custom_job_success_def Some or_fail_simps and_then_simps Let_def t_def [symmetric] s1_def [symmetric] .
qed

lemma custom_job_error_ok:
  "jdc_ok acks s \<Longrightarrow> ends (jdc_ok acks) (\<lambda>_. True) (jdc_handle_custom_job_error stale r s)"
  by (auto simp: jdc_handle_custom_job_error_def ends_def split: option.split)

lemma extensions_ok_jdc:
  assumes "jdc_ok acks s"
  shows "ends (jdc_ok acks) (\<lambda>_. True) (jdc_handle_extensions_success xs s)"
    and "ends (jdc_ok acks) (\<lambda>_. True) (jdc_handle_extensions_error env r xs ys s)"
  using assms same_link_ok [OF assms link_send_or [OF _ refl]]
  by (auto simp: jdc_handle_extensions_success_def jdc_handle_extensions_error_def Let_def ends_here)

lemma set_target_ok: "jdc_ok acks s \<Longrightarrow> ends (jdc_ok acks) (\<lambda>_. True) (jdc_handle_set_target J t s)"
  by (auto simp: jdc_handle_set_target_def ends_def link_upstream split: option.split)

lemma pool_message_ok:
  assumes ok: "jdc_ok acks s"
  shows "keeps (acks @ accepted_by m) (handle_pool_message J env m s)"
proof (cases m)
  case (FuCustomJobSuccess ch r job_id)
  then show ?thesis using keeps_ends [OF custom_job_success_ok [OF ok]] by (simp add: accepted_by_def)
next
  case FuCloseChannel
  then show ?thesis by (simp add: jdc_handle_upstream_close_def keeps_fallback)
qed (use ok keeps_ends [OF extensions_ok_jdc(1) [OF ok]] keeps_ends [OF extensions_ok_jdc(2) [OF ok]]
      keeps_ends [OF set_target_ok [OF ok]] keeps_ends [OF custom_job_error_ok [OF ok]] jdc_open_success_ok [OF ok]
      keeps_ends [OF same_link_ok [OF ok link_set_extranonce_prefix [OF refl]]] in
    \<open>auto simp: accepted_by_def intro: keeps_here\<close>)

section \<open>Every run\<close>

theorem jdc_reach_ok: "jdc_reach B sigop_cost decode_outputs J cfg acks s \<Longrightarrow> jdc_ok acks s"
proof (induction rule: jdc_reach.induct)
  case (solo outs s)
  then show ?case
    by (auto simp: jdc_new_def link_ok_def link_def counted_def intro: exI [of _ 1] split: option.splits)
next
  case (pooled outs s env identity s')
  let ?s = "s\<lparr>jc_mode := jcfg_mode cfg, jc_user_identity := Some identity, jc_upstream_state := NoChannel\<rparr>"
  have "jdc_ok [] ?s"
    using pooled(1) by (auto simp: jdc_new_def link_ok_def link_def counted_def intro: exI [of _ 1] split: option.splits)
  moreover have "link s' = link ?s"
    using pooled(2) link_ignoring_tokens [of ?s "link ?s" env 2]
    by (auto simp: upstream_ready_def ends_def split: if_splits)
  ultimately show ?case by simp
next
  case (miner acks s env d m s')
  show ?case by (rule keepsD [OF keeps_ends [OF downstream_message_ok [OF miner.IH]] miner.hyps(2)])
next
  case (pool acks s env u s')
  show ?case by (rule keepsD [OF pool_message_ok [OF pool.IH] pool.hyps(3)])
next
  case (jds acks s env j s')
  show ?case by (rule keepsD [OF keeps_ends [OF same_link_ok [OF jds.IH link_jds_message [OF refl]]] jds.hyps(3)])
next
  case (template acks s env t s')
  show ?case by (rule keepsD [OF keeps_ends [OF same_link_ok [OF template.IH link_tp_message [OF refl]]] template.hyps(2)])
next
  case (announce acks s env outs s')
  show ?case
    by (rule keepsD [OF keeps_ends [OF same_link_ok [OF announce.IH link_send_or [OF _ refl]]]
          announce.hyps(2) [unfolded jdc_announce_constraints_def]]) simp
qed (simp_all add: link_run_vardiff link_accept)

end
