(* ===== verification/Jdc_Demo.thy ===== *)
theory Jdc_Demo
  imports Jdc_Run Pool_Demo
begin

text \<open>
  A small instance of the libraries of the Job Declarator Client and a run on it, the input of the witnesses. In
  coinbase-only mode a template comes, a miner opens a channel, and with it the client opens its one with the
  pool; the next previous hash spends a token on a custom job, the pool accepts it, and a share of the miner goes
  to the pool.
\<close>

section \<open>The instance\<close>

text \<open>The server side is the one of the pool's instance. The channel with the pool keeps the job it was given.\<close>

definition demo_custom_job :: "channel_id \<Rightarrow> request_id \<Rightarrow> bytes \<Rightarrow> chain_tip \<Rightarrow> set_custom_mining_job" where
  "demo_custom_job ch r token tip = (demo_set_custom 0)\<lparr>sc_channel_id := ch, sc_request_id := r, sc_token := token\<rparr>"

definition demo_jdc_lib ::
  "(demo_channel, demo_channel, demo_group, u32, nat list, nat, nat, u32 list, unit) jdc_lib" where
  "demo_jdc_lib = \<lparr>srv = demo_lib,
     std_new_jdc = (\<lambda>ch u p t h b r tag miner past. Inr (p, u, [])),
     ext_new_jdc = (\<lambda>ch u p t h v n b r tag miner past. Inr (p, u, [])),
     grp_new_jdc = (\<lambda>ch n b tag miner. Some (ch, [], 0)), grp_set_full_size = (\<lambda>n g. Some g),
     std_set_prefix = (\<lambda>p (q, u, js). Some (p, u, js)), ext_set_prefix = (\<lambda>p (q, u, js). Some (p, u, js)),
     std_share = (\<lambda>m sc. (Inr (5, ShareAccepted), sc)), ext_share = (\<lambda>m ec. (Inr (5, ShareAccepted), ec)),
     alloc_from_upstream = (\<lambda>p l n k. Some []), wire_prefix_ok = (\<lambda>p. length p \<le> 32),
     up_new = (\<lambda>ch u p t h v n past. Some []), up_channel_id = (\<lambda>_. 4), up_prefix = (\<lambda>_. []),
     up_full_size = (\<lambda>_. 20), up_rollable_size = (\<lambda>_. 20), up_set_prefix = (\<lambda>p up. Some up),
     up_set_target = (\<lambda>t up. Some up), up_set_nominal_hashrate = (\<lambda>h up. up), up_on_chain_tip = (\<lambda>tip up. up),
     up_on_custom_job_success = (\<lambda>m ch r job up. (None, job # up)),
     up_share = (\<lambda>m up. (if se_job_id m \<in> set up then Inr (5, False) else Inl (ShInvalidJobId ''j''), up)),
     up_on_acknowledgement = (\<lambda>n w up. up), up_on_rejection = (\<lambda>c up. up),
     factory_new = (\<lambda>v p m. ()),
     new_custom_job = (\<lambda>ch r token tip template outs n f. (Some (demo_custom_job ch r token tip), f)),
     new_coinbase_parts = (\<lambda>template outs n f. (Some ([1], [2]), f)), f32_add = (+)\<rparr>"

definition demo_jdc_cfg :: jdc_config where
  "demo_jdc_cfg = \<lparr>jcfg_share_batch_size = 1, jcfg_shares_per_minute = 1, jcfg_max_past_jobs = None,
     jcfg_signature = ''m'', jcfg_reserved_rollable = 4, jcfg_mode = CoinbaseOnly, jcfg_supported = [],
     jcfg_required = []\<rparr>"

definition demo_jdc_env :: jdc_env where
  "demo_jdc_env = \<lparr>miner_reads = \<lambda>_. True, upstream_reads = True, jds_reads = True, tp_reads = True,
     visit_miners = [0], visit_miner_channels = \<lambda>_. [2], visit_miner_vardiff = [], visit_declared = []\<rparr>"

definition demo_token_success :: "bytes \<Rightarrow> allocate_token_success" where
  "demo_token_success t = \<lparr>at_request_id = 0, at_mining_job_token = t, at_coinbase_outputs = [1]\<rparr>"

definition demo_pool_opens :: open_extended_success where
  "demo_pool_opens = \<lparr>oes_channel_id = 4, oes_target = 9, oes_extranonce_size = 20, oes_extranonce_prefix = []\<rparr>"

definition demo_miner_share :: submit_shares_extended where
  "demo_miner_share = \<lparr>se_channel_id = 2, se_sequence_number = 1, se_job_id = 1, se_nonce = 6, se_ntime = 4,
     se_version = 2, se_extranonce = []\<rparr>"

section \<open>The run\<close>

text \<open>The states of the run, by what they differ in.\<close>

definition demo_jdc ::
  "(demo_channel, demo_channel, demo_group, nat list, nat, u32 list, unit) jdc" where
  "demo_jdc = \<lparr>jc_downstreams = Map.empty, jc_allocator = [], jc_request_id_factory = 2,
     jc_downstream_id_factory = 0, jc_sequence_number_factory = 1, jc_last_future_template = None,
     jc_last_new_prev_hash = None, jc_tokens = [], jc_template_store = Map.empty, jc_declared = Map.empty,
     jc_upstream_job = Map.empty, jc_job_template = Map.empty, jc_coinbase_outputs = [1], jc_upstream = None,
     jc_pool_tag = None, jc_pending = [], jc_factory = None, jc_vardiff = Map.empty, jc_negotiated = [],
     jc_supported = [], jc_required = [], jc_cached_shares = Map.empty, jc_miner_tag = ''m'', jc_share_batch_size = 1,
     jc_shares_per_minute = 1, jc_max_past_jobs = None, jc_user_identity = Some ''u'', jc_reserved_rollable = 4,
     jc_upstream_state = NoChannel, jc_mode = CoinbaseOnly, jc_senders = {}, jc_departing = Map.empty,
     jc_to_miners = [], jc_to_upstream = [], jc_to_jds = [JdAllocateToken 0 ''u'', JdAllocateToken 1 ''u''],
     jc_to_tp = []\<rparr>"

definition demo_jdc_ready ::
  "(demo_channel, demo_channel, demo_group, nat list, nat, u32 list, unit) jdc" where
  "demo_jdc_ready = demo_jdc\<lparr>jc_last_future_template := Some demo_new_template,
     jc_last_new_prev_hash := Some demo_template_prev_hash, jc_template_store := [7 \<mapsto> demo_new_template],
     jc_tokens := [demo_token_success [9]], jc_downstreams := [0 \<mapsto> jdc_client_new 2 (1, [], 1)],
     jc_downstream_id_factory := 1, jc_senders := {0}\<rparr>"

definition demo_jdc_asked ::
  "(demo_channel, demo_channel, demo_group, nat list, nat, u32 list, unit) jdc" where
  "demo_jdc_asked = demo_jdc_ready\<lparr>jc_pending := [PendingExtended 0 demo_open_extended], jc_upstream_state := Pending,
     jc_to_upstream := [UpOpenExtended (upstream_open_for_extended demo_jdc_lib 4 ''u'' demo_open_extended)]\<rparr>"

definition demo_told_miner :: "(downstream_id \<times> to_miner) list" where
  "demo_told_miner = [(0, Mn (MnOpenExtendedSuccess 1 2 9 [0, 1] 16 1)),
     (0, Mn (MnNewExtendedMiningJob (demo_extended_job 1))), (0, Mn (demo_prev_hash_for 2))]"

definition demo_jdc_opened ::
  "(demo_channel, demo_channel, demo_group, nat list, nat, u32 list, unit) jdc" where
  "demo_jdc_opened = demo_jdc_asked\<lparr>jc_pending := [], jc_upstream_state := Connected, jc_upstream := Some [],
     jc_factory := Some (), jc_allocator := [1], jc_vardiff := [(0, 2) \<mapsto> 0], jc_job_template := [(0, 2, 1) \<mapsto> 7],
     jc_downstreams := [0 \<mapsto> (jdc_client_new 3 (1, [2], 1))\<lparr>jd_extended := [2 \<mapsto> (1, ''u'', [1])]\<rparr>],
     jc_to_miners := demo_told_miner\<rparr>"

definition demo_jdc_custom :: set_custom_mining_job where
  "demo_jdc_custom = demo_custom_job 4 2 [9] (chain_tip_of demo_template_prev_hash)"

definition demo_jdc_set ::
  "(demo_channel, demo_channel, demo_group, nat list, nat, u32 list, unit) jdc" where
  "demo_jdc_set = demo_jdc_opened\<lparr>jc_tokens := [], jc_request_id_factory := 4,
     jc_to_jds := jc_to_jds demo_jdc @ [JdAllocateToken 3 ''u''],
     jc_declared := [2 \<mapsto> \<lparr>dc_declare_mining_job = None, dc_template = demo_new_template,
        dc_prev_hash = Some demo_template_prev_hash, dc_set_custom_mining_job = Some demo_jdc_custom,
        dc_coinbase_output = [1], dc_tx_list = []\<rparr>],
     jc_to_upstream := jc_to_upstream demo_jdc_opened @ [UpSetCustomMiningJob demo_jdc_custom],
     jc_to_miners := demo_told_miner @ [(0, Mn (demo_prev_hash_for 1))]\<rparr>"

definition demo_jdc_accepted ::
  "(demo_channel, demo_channel, demo_group, nat list, nat, u32 list, unit) jdc" where
  "demo_jdc_accepted = demo_jdc_set\<lparr>jc_declared := Map.empty, jc_upstream_job := [7 \<mapsto> 8], jc_upstream := Some [8]\<rparr>"

definition demo_pool_share :: submit_shares_extended where
  "demo_pool_share = \<lparr>se_channel_id = 4, se_sequence_number = 1, se_job_id = 8, se_nonce = 6, se_ntime = 4,
     se_version = 2, se_extranonce = [0, 1]\<rparr>"

definition demo_jdc_shared ::
  "(demo_channel, demo_channel, demo_group, nat list, nat, u32 list, unit) jdc" where
  "demo_jdc_shared = demo_jdc_accepted\<lparr>jc_sequence_number_factory := 2, jc_vardiff := [(0, 2) \<mapsto> 1],
     jc_to_upstream := jc_to_upstream demo_jdc_accepted @ [UpSubmitShares demo_pool_share],
     jc_to_miners := jc_to_miners demo_jdc_accepted @ [(0, Mn (share_success 2 demo_accounting))]\<rparr>"

abbreviation "demo_jdc_reach \<equiv> jdc_reach demo_btc (\<lambda>_. 0) (\<lambda>_. Some []) demo_jdc_lib demo_jdc_cfg"

lemma demo_jdc_ready_reached: "demo_jdc_reach [] demo_jdc_ready"
proof -
  let ?s0 = "demo_jdc"
  let ?s1 = "?s0\<lparr>jc_last_future_template := Some demo_new_template, jc_template_store := [7 \<mapsto> demo_new_template]\<rparr>"
  let ?s2 = "?s1\<lparr>jc_last_new_prev_hash := Some demo_template_prev_hash\<rparr>"
  let ?s3 = "?s2\<lparr>jc_tokens := [demo_token_success [9]]\<rparr>"
  let ?new = "demo_jdc\<lparr>jc_request_id_factory := 0, jc_user_identity := None, jc_upstream_state := SoloMining,
    jc_mode := SoloMiningMode, jc_to_jds := []\<rparr>"
  have "jdc_new demo_jdc_lib demo_jdc_cfg [1] = Ok ?new"
    by (simp add: jdc_new_def demo_jdc_lib_def demo_lib_def demo_jdc_cfg_def demo_jdc_def)
  then have r0: "demo_jdc_reach [] ?s0"
    by (rule jdc_reach.pooled [where env = demo_jdc_env and identity = "''u''"])
      (simp add: upstream_ready_def demo_jdc_def numeral_2_eq_2 allocate_tokens.simps Let_def send_or_def jdc_forward_def
        demo_jdc_env_def demo_jdc_cfg_def ignoring_def)
  have "jdc_continues (handle_template_provider_message demo_btc demo_jdc_lib demo_jdc_env (TpNewTemplate demo_new_template) ?s0) = Some ?s1"
    by (simp add: jdc_handle_new_template_def demo_new_template_def demo_jdc_lib_def demo_lib_def demo_jdc_env_def
        jdc_then_forward_def jdc_continues_def demo_jdc_def note_template_def token_for_template_def set_first_value_def
        template_to_miner_def)
  then have r1: "demo_jdc_reach [] ?s1" by (rule jdc_reach.template [OF r0])
  have "jdc_continues (handle_template_provider_message demo_btc demo_jdc_lib demo_jdc_env
      (TpSetNewPrevHash demo_template_prev_hash) ?s1) = Some ?s2"
    by (simp add: jdc_handle_set_new_prev_hash_def demo_jdc_env_def demo_jdc_lib_def demo_lib_def jdc_then_forward_def
        jdc_continues_def demo_jdc_def update_upstream_def future_declaration_def custom_job_on_prev_hash_def pop_token_def
        prev_hash_to_miner_def)
  then have r2: "demo_jdc_reach [] ?s2" by (rule jdc_reach.template [OF r1])
  have "jdc_continues (handle_jds_message demo_btc (\<lambda>_. 0) (\<lambda>_. Some []) demo_jdc_lib demo_jdc_env
      (FjTokenSuccess (demo_token_success [9])) ?s2) = Some ?s3"
    by (simp add: jdc_handle_token_success_def demo_token_success_def demo_jdc_def jdc_continues_def)
  then have r3: "demo_jdc_reach [] ?s3" by (rule jdc_reach.jds [OF r2, rotated]) (simp add: demo_jdc_def)
  have "accept_miner demo_jdc_lib ?s3 = (Done (Some 0), demo_jdc_ready)"
    by (simp add: accept_miner_def jdc_bootstrap_group_channel_def Let_def put_miner_def demo_jdc_ready_def demo_jdc_def
        demo_jdc_lib_def demo_lib_def set_first_value_def upstream_full_size_def jdc_client_new_def)
  then show ?thesis by (rule jdc_reach.connect [OF r3, rotated]) (simp add: demo_jdc_def)
qed

lemmas demo_jdc_runs = jdc_continues_def jdc_then_forward_def to_this_miner_def with_registered_miner_def send_or_def
  jdc_forward_def put_miner_def jdc_release_def Let_def

lemma demo_jdc_asks:
  "jdc_handle_downstream_message demo_jdc_lib demo_jdc_env 0 (MiOpenExtended demo_open_extended) demo_jdc_ready
     = (Done (), demo_jdc_asked)"
  by (simp add: jdc_handle_downstream_message_def ask_upstream_def demo_jdc_runs demo_jdc_ready_def demo_jdc_def
      demo_jdc_env_def demo_jdc_asked_def)

lemma demo_jdc_replays:
  "jdc_handle_open_extended demo_jdc_lib demo_jdc_env 0 demo_open_extended (demo_jdc_asked\<lparr>jc_allocator := [],
     jc_upstream := Some [], jc_factory := Some (), jc_upstream_state := Connected,
     jc_downstreams := [0 \<mapsto> jdc_client_new 2 (1, [], 1)], jc_pending := []\<rparr>)
     = (Done (), demo_jdc_opened)"
  by (simp add: jdc_handle_open_extended_def
      jdc_open_extended_def jdc_reserve_def set_first_value_def jdc_started_def as_jdc_shutdown_def start_extended_def
      jdc_publish_def join_client_group_def record_job_def announced_job_def jdc_client_new_def upstream_full_size_def
      demo_open_extended_def demo_fresh_def
      demo_slot_bytes_def demo_told_miner_def demo_prev_hash_for_def demo_template_prev_hash_def
      demo_new_template_def demo_jdc_runs demo_jdc_lib_def demo_lib_def demo_jdc_asked_def demo_jdc_ready_def demo_jdc_def
      demo_jdc_opened_def demo_jdc_env_def)

lemma demo_asked_fields:
  "jc_pending demo_jdc_asked = [PendingExtended 0 demo_open_extended]" "jc_coinbase_outputs demo_jdc_asked = [1]"
  "jc_reserved_rollable demo_jdc_asked = 4" "jc_user_identity demo_jdc_asked = Some ''u''"
  "jc_factory demo_jdc_asked = None" "jc_mode demo_jdc_asked = CoinbaseOnly"
  "jc_downstreams demo_jdc_asked = [0 \<mapsto> jdc_client_new 2 (1, [], 1)]"
  "jc_last_new_prev_hash demo_jdc_asked = Some demo_template_prev_hash" "jc_pool_tag demo_jdc_asked = None"
  by (simp_all add: demo_jdc_asked_def demo_jdc_ready_def demo_jdc_def)

lemma demo_jdc_lib_fields:
  "deserialize_outputs (srv demo_jdc_lib) out_bytes = Some [\<lparr>txout_value = 0, script_pubkey = [5]\<rparr>]"
  "bytes_needed_for (srv demo_jdc_lib) n = 3" "alloc_from_upstream demo_jdc_lib p l k n = Some []"
  "wire_prefix_ok demo_jdc_lib p \<longleftrightarrow> length p \<le> 32" "up_new demo_jdc_lib ch u p t h v e past = Some []"
  "up_on_chain_tip demo_jdc_lib tip up = up" "factory_new demo_jdc_lib b pt mt = ()"
  "grp_set_full_size demo_jdc_lib i g = Some g"
  by (simp_all add: demo_jdc_lib_def demo_lib_def)

lemma demo_jdc_opens:
  "handle_pool_message demo_jdc_lib demo_jdc_env (FuOpenExtendedSuccess demo_pool_opens) demo_jdc_asked
     = (Done (), demo_jdc_opened)"
proof -
  have visited: "visit_miners demo_jdc_env = [0]" by (simp add: demo_jdc_env_def)
  show ?thesis
    using demo_jdc_replays
    by (simp add: jdc_handle_open_success_def min_extranonce_size_def JDC_LOCAL_PREFIX_BYTES_def demo_pool_opens_def
      custom_job_on_open_def channel_established_def resize_group_def replay_pending_def
      pending_downstream_id_def from_pending_def demo_asked_fields Let_def put_miner_def jdc_client_new_def
      demo_jdc_lib_fields visited)
qed

text \<open>The previous hash spends the token on a custom job, and the miner's group is told.\<close>

lemma demo_jdc_sets:
  "handle_template_provider_message demo_btc demo_jdc_lib demo_jdc_env (TpSetNewPrevHash demo_template_prev_hash) demo_jdc_opened
     = (Done (), demo_jdc_set)"
  by (simp add: jdc_handle_set_new_prev_hash_def update_upstream_def future_declaration_def custom_job_on_prev_hash_def
      pop_token_def declare_custom_job_def prev_hash_to_miner_def record_for_all_def record_job_def
      prev_hash_to_standard_def standard_of_def prev_hash_to_extended_def extended_of_def put_extended_def
      allocate_tokens.simps ignoring_def mining_prev_hash_def jdc_client_new_def demo_jdc_runs demo_jdc_lib_def demo_lib_def
      demo_jdc_asked_def demo_jdc_ready_def demo_jdc_def demo_jdc_opened_def demo_jdc_env_def demo_jdc_set_def
      demo_jdc_custom_def demo_token_success_def demo_prev_hash_for_def demo_template_prev_hash_def)

lemma demo_jdc_accepts:
  "handle_pool_message demo_jdc_lib demo_jdc_env (FuCustomJobSuccess 4 2 8) demo_jdc_set = (Done (), demo_jdc_accepted)"
  by (simp add: jdc_handle_custom_job_success_def demo_jdc_runs demo_jdc_lib_def demo_new_template_def
      demo_jdc_asked_def demo_jdc_ready_def demo_jdc_def demo_jdc_opened_def demo_jdc_set_def demo_jdc_accepted_def)

lemma demo_jdc_shares:
  "jdc_handle_downstream_message demo_jdc_lib demo_jdc_env 0 (MiSubmitExtended demo_miner_share) demo_jdc_accepted
     = (Done (), demo_jdc_shared)"
  by (simp add: jdc_handle_downstream_message_def jdc_handle_submit_extended_def jdc_submit_extended_def jdc_count_share_def
      after_verdict_def jdc_share_answer_def translate_share_def tail_of_def share_to_upstream_def submit_upstream_def
      upstream_share_extended_def jdc_client_new_def demo_jdc_runs demo_jdc_lib_def demo_lib_def demo_miner_share_def
      demo_pool_share_def demo_slot_bytes_def demo_accounting_def demo_jdc_env_def
      demo_jdc_asked_def demo_jdc_ready_def demo_jdc_def demo_jdc_opened_def demo_jdc_set_def demo_jdc_accepted_def
      demo_jdc_shared_def)

lemma demo_jdc_opened_reached: "demo_jdc_reach [] demo_jdc_opened"
proof -
  have "demo_jdc_reach [] demo_jdc_asked"
    by (rule jdc_reach.miner [OF demo_jdc_ready_reached, of demo_jdc_env 0 "MiOpenExtended demo_open_extended"])
      (simp add: demo_jdc_asks jdc_continues_def)
  then have "demo_jdc_reach ([] @ accepted_by (FuOpenExtendedSuccess demo_pool_opens)) demo_jdc_opened"
    by (rule jdc_reach.pool [where env = demo_jdc_env])
      (simp_all add: demo_jdc_opens demo_asked_fields jdc_continues_def del: handle_pool_message.simps)
  then show ?thesis by (simp add: accepted_by_def)
qed

lemma demo_jdc_shared_reached: "demo_jdc_reach [8] demo_jdc_shared"
proof -
  have mode: "jc_mode demo_jdc_set = CoinbaseOnly" by (simp add: demo_jdc_set_def demo_jdc_opened_def demo_asked_fields)
  have "demo_jdc_reach [] demo_jdc_set"
    by (rule jdc_reach.template [OF demo_jdc_opened_reached, of demo_jdc_env "TpSetNewPrevHash demo_template_prev_hash"])
      (simp add: demo_jdc_sets jdc_continues_def del: handle_template_provider_message.simps)
  then have "demo_jdc_reach ([] @ accepted_by (FuCustomJobSuccess 4 2 8)) demo_jdc_accepted"
    by (rule jdc_reach.pool [where env = demo_jdc_env])
      (simp_all add: demo_jdc_accepts jdc_continues_def mode del: handle_pool_message.simps)
  then have "demo_jdc_reach [8] demo_jdc_accepted" by (simp add: accepted_by_def)
  then show ?thesis
    by (rule jdc_reach.miner [of _ _ _ _ _ _ _ demo_jdc_env 0 "MiSubmitExtended demo_miner_share"])
      (simp add: demo_jdc_shares jdc_continues_def)
qed

end
