(* ===== verification/Jdc_Work.thy ===== *)
theory Jdc_Work
  imports Jdc_Demo
begin

text \<open>
  What the Job Declarator Client promises its pool, its Job Declarator Server and its miners, in every run of its
  channel manager; and two places where a promise fails.
\<close>

section \<open>Towards the pool\<close>

lemma jdc_reach_sent:
  assumes "jdc_reach B sigop_cost decode_outputs J cfg acks s"
  shows "counted (jc_sequence_number_factory s) (shares_in (jc_to_upstream s)) \<and>
    se_job_id ` set (shares_in (jc_to_upstream s)) \<subseteq> set acks \<and>
    (jc_upstream_state s = Connected \<longrightarrow> jc_upstream s \<noteq> None) \<and> (jc_upstream s \<noteq> None \<longrightarrow> jc_factory s \<noteq> None) \<and>
    opens_in (jc_to_upstream s) \<le> closes_in (jc_to_upstream s) + (if jc_upstream_state s = NoChannel then 0 else 1)"
  using jdc_reach_ok [OF assms] by (auto simp: link_ok_def link_def in_tracked split: if_splits)

text \<open>
  C18. The shares of all miners go to the pool over one channel. Whatever happens in a run, the pool is sent only
  shares on jobs whose ids it has assigned itself, in the confirmation of a custom job, and the shares carry
  the numbers of one counter in their order: a share that waited in the cache is numbered when it leaves it.
\<close>

theorem shares_name_jobs_the_pool_accepted:
  assumes "jdc_reach B sigop_cost decode_outputs J cfg acks s"
  shows "se_job_id ` set (shares_in (jc_to_upstream s)) \<subseteq> set acks \<and>
    (\<exists>n. jc_sequence_number_factory s = of_nat n \<and>
       subseq (map se_sequence_number (shares_in (jc_to_upstream s))) (map of_nat [1..<n]))"
  using jdc_reach_sent [OF assms] by (auto simp: counted_def)

theorem shares_name_jobs_the_pool_accepted_witness:
  "shares_in (jc_to_upstream demo_jdc_shared) = [demo_pool_share] \<and>
   se_job_id ` set (shares_in (jc_to_upstream demo_jdc_shared)) \<subseteq> {8} \<and>
   (\<exists>n. jc_sequence_number_factory demo_jdc_shared = of_nat n \<and>
      subseq (map se_sequence_number (shares_in (jc_to_upstream demo_jdc_shared))) (map of_nat [1..<n]))"
proof -
  have "shares_in (jc_to_upstream demo_jdc_shared) = [demo_pool_share]"
    by (simp add: demo_jdc_shared_def demo_jdc_accepted_def demo_jdc_set_def demo_jdc_opened_def demo_jdc_asked_def)
  then show ?thesis
    using shares_name_jobs_the_pool_accepted [OF demo_jdc_shared_reached] by (simp del: set_map)
qed



text \<open>What is expected of the confirmation of a custom job: the cached shares the pool's channel takes under the
  new job, numbered from the counter on.\<close>

fun taken_shares ::
  "('s, 'e, 'g, 'j, 'a, 'p, 'v, 'u, 'f) jdc_lib \<Rightarrow> u32 \<Rightarrow> 'u \<Rightarrow> cached_share list \<Rightarrow> submit_shares_extended list" where
  "taken_shares J job_id up [] = []"
| "taken_shares J job_id up (entry # heap) =
     (let m = (cs_share entry)\<lparr>se_job_id := job_id\<rparr>; (v, up') = up_share J m up
      in (case v of Inl _ \<Rightarrow> [] | Inr _ \<Rightarrow> [m]) @ taken_shares J job_id up' heap)"

fun numbered :: "u32 \<Rightarrow> submit_shares_extended list \<Rightarrow> submit_shares_extended list" where
  "numbered n [] = []"
| "numbered n (m # ms) = m\<lparr>se_sequence_number := n\<rparr> # numbered (n + 1) ms"

definition kept_by_replay where
  "kept_by_replay s = (jc_to_upstream s, jc_cached_shares s, jc_upstream_job s, jc_to_miners s)"

lemma replay_share_sends:
  assumes "jc_upstream s = Some up" and "replay_share J ph job_id entry s = (Done ms, s1)"
    and "up_share J ((cs_share entry)\<lparr>se_job_id := job_id\<rparr>) up = (v, up')"
  shows "jc_upstream s1 = Some up' \<and> kept_by_replay s1 = kept_by_replay s \<and>
    (case v of
       Inl _ \<Rightarrow> shares_in (upstream_part ms) = [] \<and> jc_sequence_number_factory s1 = jc_sequence_number_factory s
     | Inr _ \<Rightarrow> shares_in (upstream_part ms) =
           numbered (jc_sequence_number_factory s) [(cs_share entry)\<lparr>se_job_id := job_id\<rparr>] \<and>
         jc_sequence_number_factory s1 = jc_sequence_number_factory s + 1)"
  using assms
  by (cases v) (auto simp: replay_share_def submit_upstream_def kept_by_replay_def Let_def split: if_splits prod.splits)

lemma replay_sends:
  assumes "jc_upstream s = Some up" and "collect (replay_share J ph job_id) heap s = (Done ms, s')"
  shows "shares_in (upstream_part ms) = numbered (jc_sequence_number_factory s) (taken_shares J job_id up heap) \<and>
    kept_by_replay s' = kept_by_replay s"
  using assms
proof (induction heap arbitrary: s up ms)
  case (Cons entry heap)
  obtain out t where step: "replay_share J ph job_id entry s = (out, t)" by fastforce
  obtain ms1 ms2 where out: "out = Done ms1" and rest: "collect (replay_share J ph job_id) heap t = (Done ms2, s')"
      and ms: "ms = ms1 @ ms2"
    using Cons.prems(2) step
    by (cases out; cases "collect (replay_share J ph job_id) heap t"; cases "fst (collect (replay_share J ph job_id) heap t)") auto
  obtain v up' where v: "up_share J ((cs_share entry)\<lparr>se_job_id := job_id\<rparr>) up = (v, up')" by fastforce
  note first = replay_share_sends [OF Cons.prems(1) step [unfolded out] v]
  show ?case using first Cons.IH [OF _ rest, of up'] by (cases v) (simp_all add: ms v)
qed simp

lemma forward_all_upstream:
  assumes "upstream_reads env"
  shows "jc_to_upstream (jdc_forward_all env ms s) = jc_to_upstream s @ upstream_part ms \<and>
    jc_cached_shares (jdc_forward_all env ms s) = jc_cached_shares s \<and>
    jc_upstream_job (jdc_forward_all env ms s) = jc_upstream_job s"
  using assms by (induction ms arbitrary: s) (auto simp: jdc_forward_def split: jdc_route.split)

text \<open>
  C19. Shares found before the pool accepted their job are not lost. When the pool confirms the custom job of a
  template, every share in the template's cache that the pool's channel takes under the new job id is sent, in
  the order of the cache and numbered from the counter on; the cache is empty then and later shares on the
  template go out under that id.
\<close>

theorem accepted_job_releases_its_shares:
  assumes "jc_declared s r = Some job" and "dc_set_custom_mining_job job = Some custom" and "jc_upstream s = Some up"
    and "up_on_custom_job_success J custom ch r job_id up = (None, up')" and "jc_last_new_prev_hash s = Some prev_hash"
    and "jc_cached_shares s (tm_template_id (dc_template job)) = Some heap" and "upstream_reads env"
    and "handle_pool_message J env (FuCustomJobSuccess ch r job_id) s = (Done (), s')"
  shows "shares_in (jc_to_upstream s') = shares_in (jc_to_upstream s) @
      numbered (jc_sequence_number_factory s) (taken_shares J job_id up' heap) \<and>
    jc_cached_shares s' (tm_template_id (dc_template job)) = None \<and>
    jc_upstream_job s' (tm_template_id (dc_template job)) = Some job_id"
proof -
  define s1 where "s1 = s\<lparr>jc_declared := (jc_declared s)(r := None),
    jc_upstream_job := (jc_upstream_job s)(tm_template_id (dc_template job) \<mapsto> job_id),
    jc_cached_shares := (jc_cached_shares s)(tm_template_id (dc_template job) := None), jc_upstream := Some up'\<rparr>"
  obtain out t where replay: "collect (replay_share J prev_hash job_id) heap s1 = (out, t)" by fastforce
  have "jdc_then_forward env (out, t) = (Done (), s')"
    using assms(1-6,8) replay by (simp add: jdc_handle_custom_job_success_def Let_def s1_def)
  then obtain ms where ms: "out = Done ms" "s' = jdc_forward_all env ms t"
    by (cases out) (auto simp: jdc_then_forward_def)
  have "jc_upstream s1 = Some up'" "jc_sequence_number_factory s1 = jc_sequence_number_factory s"
      "kept_by_replay s1 = (jc_to_upstream s, (jc_cached_shares s)(tm_template_id (dc_template job) := None),
         (jc_upstream_job s)(tm_template_id (dc_template job) \<mapsto> job_id), jc_to_miners s)"
    by (simp_all add: s1_def kept_by_replay_def)
  then show ?thesis
    using replay_sends [OF _ replay [unfolded ms(1)]] forward_all_upstream [OF assms(7), of ms t]
    by (simp add: ms(2) kept_by_replay_def)
qed

definition demo_cached_entry :: cached_share where
  "demo_cached_entry = shares_ordered_by_diff demo_pool_share 5"

definition demo_jdc_cached ::
  "(demo_channel, demo_channel, demo_group, nat list, nat, u32 list, unit) jdc" where
  "demo_jdc_cached = demo_jdc_set\<lparr>jc_cached_shares := [7 \<mapsto> [demo_cached_entry, demo_cached_entry]]\<rparr>"

theorem accepted_job_releases_its_shares_witness:
  "shares_in (jc_to_upstream (snd (handle_pool_message demo_jdc_lib demo_jdc_env (FuCustomJobSuccess 4 2 8) demo_jdc_cached)))
     = [demo_pool_share, demo_pool_share\<lparr>se_sequence_number := 2\<rparr>]"
proof -
  have fields: "jc_declared demo_jdc_cached = [2 \<mapsto> \<lparr>dc_declare_mining_job = None, dc_template = demo_new_template,
        dc_prev_hash = Some demo_template_prev_hash, dc_set_custom_mining_job = Some demo_jdc_custom,
        dc_coinbase_output = [1], dc_tx_list = []\<rparr>]" "jc_upstream demo_jdc_cached = Some []"
      "jc_last_new_prev_hash demo_jdc_cached = Some demo_template_prev_hash" "jc_sequence_number_factory demo_jdc_cached = 1"
      "jc_cached_shares demo_jdc_cached = [7 \<mapsto> [demo_cached_entry, demo_cached_entry]]"
      "shares_in (jc_to_upstream demo_jdc_cached) = []"
    by (simp_all add: demo_jdc_cached_def demo_jdc_set_def demo_jdc_opened_def demo_jdc_asked_def demo_jdc_ready_def demo_jdc_def)
  have lib: "up_on_custom_job_success demo_jdc_lib m ch r job up = (None, job # up)"
      "up_share demo_jdc_lib sh up = (if se_job_id sh \<in> set up then Inr (5, False) else Inl (ShInvalidJobId ''j''), up)"
    for m sh ch r job up by (simp_all add: demo_jdc_lib_def)
  have entry: "cs_share demo_cached_entry = demo_pool_share"
    by (simp add: demo_cached_entry_def shares_ordered_by_diff_def)
  have id: "tm_template_id demo_new_template = 7" by (simp add: demo_new_template_def)
  have "\<exists>s'. handle_pool_message demo_jdc_lib demo_jdc_env (FuCustomJobSuccess 4 2 8) demo_jdc_cached = (Done (), s')"
    by (simp add: jdc_handle_custom_job_success_def fields lib id Let_def replay_share_def submit_upstream_def entry
        jdc_then_forward_def)
  then obtain s' where done_by: "handle_pool_message demo_jdc_lib demo_jdc_env (FuCustomJobSuccess 4 2 8) demo_jdc_cached = (Done (), s')"
    by blast
  show ?thesis
    using accepted_job_releases_its_shares [OF _ _ fields(2) lib(1) fields(3) _ _ done_by]
    unfolding done_by by (simp add: fields id demo_jdc_env_def lib(2) entry demo_pool_share_def Let_def)
qed

section \<open>Towards the Job Declarator Server\<close>

lemma decode_transactions_all:
  "decode_transactions B raws = Some txs \<longleftrightarrow> list_all2 (\<lambda>raw tx. tx_deserialize B raw = Inr tx) raws txs"
  by (induction raws arbitrary: txs)
    (auto simp: list_all2_Cons1 split: sum.splits)

lemma decode_transactions_at:
  assumes "decode_transactions B raws = Some txs" and "\<forall>i \<in> set is. i < length raws"
  shows "decode_transactions B (map (\<lambda>i. raws ! i) is) = Some (map (\<lambda>i. txs ! i) is)"
  using assms by (auto simp: decode_transactions_all list_all2_conv_all_nth)

lemma positions_in_range:
  assumes "p \<in> set (unknown_tx_position_list ws missing)" and "length ws \<le> 2 ^ 16"
  shows "unat p < length ws"
proof -
  obtain w i where "position ws w = Some i" "p = of_nat i"
    using assms(1) by (auto simp: unknown_tx_position_list_def List.map_filter_def)
  moreover from this have "i < length ws" by (auto simp: position_def Let_def split: if_splits)
  ultimately show ?thesis using assms(2) by (simp add: unsigned_of_nat take_bit_eq_mod)
qed

lemma transactions_at_all:
  assumes "\<forall>p \<in> set ps. unat p < length raws"
  shows "transactions_at raws ps = map (\<lambda>i. raws ! i) (map unat ps)"
  using assms by (induction ps) (simp_all add: transactions_at_def)

lemma ignored_send_declared: "jc_declared (snd (ignoring (send_or env e (ToJobDeclarator u) s))) = jc_declared s"
  by (auto simp: send_or_def jdc_forward_def ignoring_def)

text \<open>What a declaration is kept with: the transactions it was computed from.\<close>

lemma declared_with_its_transactions:
  assumes "declare_template B J env r token template outs raws excess s = (Done (), s1)" and "jc_declared s r = None"
    and "jc_declared s1 r = Some job" and "dc_declare_mining_job job = Some (m, x)"
  shows "dc_tx_list job = raws \<and> dm_request_id m = r \<and> length raws < 2 ^ 16 \<and>
    (\<exists>txs. decode_transactions B raws = Some txs \<and> dm_wtxid_list m = map (compute_wtxid B) txs)"
proof -
  obtain outs' txs where txs: "set_first_value (tm_coinbase_tx_value_remaining template) outs = Some outs'"
      "decode_transactions B raws = Some txs" "length txs < 2 ^ 16"
    using assms(1) by (auto simp: declare_template_def expect_def or_fail_def split: option.splits if_splits)
  moreover from txs(2) have "length raws = length txs" by (simp add: decode_transactions_all list_all2_lengthD)
  moreover obtain out t where built:
      "build_declaration B J r token template outs' (map (compute_wtxid B) txs) excess raws s = (out, t)" by fastforce
  moreover have "jc_declared s1 = jc_declared t \<and> (\<exists>decl. out = Done decl)"
  proof (cases out)
    case (Done decl)
    then have "(case (waits_for_prev_hash template (jc_last_new_prev_hash s), decl) of
        (False, Some (m, x)) \<Rightarrow> ignoring (send_or env (jdc_fallback JkChannelErrorSender) (ToJobDeclarator (JdDeclare m x)) t)
      | _ \<Rightarrow> (Done (), t)) = (Done (), s1)"
      using assms(1) txs built by (simp add: declare_template_def)
    then have "s1 = t \<or> (\<exists>m x. s1 = snd (ignoring (send_or env (jdc_fallback JkChannelErrorSender) (ToJobDeclarator (JdDeclare m x)) t)))"
      by (auto split: bool.splits option.splits prod.splits) (metis snd_conv)
    then show ?thesis using ignored_send_declared Done by auto
  qed (use assms(1) txs built in \<open>simp_all add: declare_template_def\<close>)
  ultimately show ?thesis
    using assms(2-4) by (auto simp: build_declaration_def Let_def split: option.splits prod.splits if_splits)
qed

text \<open>
  C20. Client and server agree on what a declaration is about. A job declared from a template's transactions is
  answered by the server with the positions of those it cannot resolve; the client's answer to these positions
  consists of well-formed transactions whose wtxids are exactly the missing ones, in order, under the request
  id of the declaration.
\<close>

theorem missing_transactions_are_provided:
  assumes "declare_template B J env r token template outs raws excess s = (Done (), s1)" and "jc_declared s r = None"
    and "jc_declared s1 r = Some job" and "dc_declare_mining_job job = Some (m, x)"
    and "set missing \<subseteq> set (dm_wtxid_list m)" and "length missing < 2 ^ 16"
    and "declare_verdict now d m jd_tok (DeclareMissingTransactions missing) jd =
      (Ok (ProvideMissingTransactions r' positions), jd')"
    and "list_all (\<lambda>raw. length raw < 2 ^ 24) raws" and "jds_reads env'"
  shows "\<exists>answer txs. jdc_handle_provide_missing env' r' positions s1 = (Done (), s1\<lparr>jc_to_jds := jc_to_jds s1 @
       [JdProvideMissingSuccess \<lparr>pm_request_id = dm_request_id m, pm_transaction_list = answer\<rparr>]\<rparr>) \<and>
     decode_transactions B answer = Some txs \<and> map (compute_wtxid B) txs = missing"
proof -
  obtain txs where job: "dc_tx_list job = raws" "dm_request_id m = r" "length raws < 2 ^ 16"
      "decode_transactions B raws = Some txs" "dm_wtxid_list m = map (compute_wtxid B) txs"
    using declared_with_its_transactions [OF assms(1-4)] by blast
  let ?ws = "dm_wtxid_list m"
  have positions: "r' = r" "positions = unknown_tx_position_list ?ws missing"
    using assms(7) job(2) by (auto simp: declare_verdict_def Let_def split: option.splits if_splits)
  have len: "length txs = length raws" using job(4) by (simp add: decode_transactions_all list_all2_lengthD)
  have fits: "length ?ws \<le> 2 ^ 16" using job(3,5) len by simp
  have named: "map (\<lambda>p. ?ws ! unat p) positions = missing"
    using positions_of_missing [OF assms(5) fits] positions(2) by simp
  have in_range: "\<forall>p \<in> set positions. unat p < length raws"
    using positions_in_range [OF _ fits] positions(2) job(5) len by auto
  have answer: "transactions_at raws positions = map (\<lambda>i. raws ! i) (map unat positions)"
    by (rule transactions_at_all [OF in_range])
  have "decode_transactions B (transactions_at raws positions) = Some (map (\<lambda>i. txs ! i) (map unat positions))"
    unfolding answer by (rule decode_transactions_at [OF job(4)]) (use in_range in simp)
  moreover have "map (compute_wtxid B) (map (\<lambda>i. txs ! i) (map unat positions)) = missing"
    unfolding named [symmetric] using in_range len by (simp add: job(5))
  moreover have "length (transactions_at raws positions) < 2 ^ 16"
    using assms(6) named by (auto simp: answer)
  moreover from this have "jdc_handle_provide_missing env' r' positions s1 = (Done (), s1\<lparr>jc_to_jds := jc_to_jds s1 @
      [JdProvideMissingSuccess \<lparr>pm_request_id = dm_request_id m, pm_transaction_list = transactions_at raws positions\<rparr>]\<rparr>)"
    using assms(3,8,9) job(1,2) positions(1)
    by (simp add: jdc_handle_provide_missing_def Let_def send_or_def jdc_forward_def)
  ultimately show ?thesis by blast
qed

definition demo_declared_template ::
  "(jdc_error, unit) attempt \<times> (demo_channel, demo_channel, demo_group, nat list, nat, u32 list, unit) jdc" where
  "demo_declared_template = declare_template demo_btc demo_jdc_lib demo_jdc_env 5 [9] demo_new_template
     [\<lparr>txout_value = 0, script_pubkey = [5]\<rparr>] [[1], [3]] [] demo_jdc_opened"

definition demo_declared_job :: declared_job where
  "demo_declared_job = \<lparr>dc_declare_mining_job = Some (\<lparr>dm_request_id = 5, dm_token = [9], dm_version = 2,
     dm_coinbase_tx_prefix = [1], dm_coinbase_tx_suffix = [2], dm_wtxid_list = [1, 3]\<rparr>, []),
     dc_template = demo_new_template, dc_prev_hash = Some demo_template_prev_hash, dc_set_custom_mining_job = None,
     dc_coinbase_output = [5], dc_tx_list = [[1], [3]]\<rparr>"

lemma demo_opened_fields:
  "jc_upstream demo_jdc_opened = Some []" "jc_factory demo_jdc_opened = Some ()" "jc_declared demo_jdc_opened = Map.empty"
  "jc_last_new_prev_hash demo_jdc_opened = Some demo_template_prev_hash"
  by (simp_all add: demo_jdc_opened_def demo_jdc_asked_def demo_jdc_ready_def demo_jdc_def)

lemma demo_declares:
  "fst demo_declared_template = Done ()" "jc_declared (snd demo_declared_template) 5 = Some demo_declared_job"
  by (simp_all add: demo_declared_template_def declare_template_def set_first_value_def build_declaration_def Let_def
      waits_for_prev_hash_def demo_new_template_def demo_template_prev_hash_def demo_opened_fields demo_btc_def
      demo_jdc_lib_def demo_jdc_env_def ignoring_def send_or_def jdc_forward_def demo_declared_job_def)

theorem missing_transactions_are_provided_witness:
  "\<exists>answer txs. jdc_handle_provide_missing demo_jdc_env 5 [1] (snd demo_declared_template) =
     (Done (), (snd demo_declared_template)\<lparr>jc_to_jds := jc_to_jds (snd demo_declared_template) @
       [JdProvideMissingSuccess \<lparr>pm_request_id = 5, pm_transaction_list = answer\<rparr>]\<rparr>) \<and>
     decode_transactions demo_btc answer = Some txs \<and> map (compute_wtxid demo_btc) txs = [3]"
proof -
  let ?m = "\<lparr>dm_request_id = 5, dm_token = [9], dm_version = 2, dm_coinbase_tx_prefix = [1], dm_coinbase_tx_suffix = [2],
    dm_wtxid_list = [1, 3]\<rparr>"
  have declared: "declare_template demo_btc demo_jdc_lib demo_jdc_env 5 [9] demo_new_template
      [\<lparr>txout_value = 0, script_pubkey = [5]\<rparr>] [[1], [3]] [] demo_jdc_opened = (Done (), snd demo_declared_template)"
    using demo_declares(1) by (cases demo_declared_template) (simp add: demo_declared_template_def)
  obtain jd' where asked: "declare_verdict 1 0 ?m 0 (DeclareMissingTransactions [3]) demo_jd =
      (Ok (ProvideMissingTransactions 5 [1]), jd')"
    by (simp add: declare_verdict_def unknown_tx_position_list_def position_def Let_def)
  show ?thesis
    using missing_transactions_are_provided [OF declared _ demo_declares(2) _ _ _ asked, where env' = demo_jdc_env and x = "[]"]
    by (simp add: demo_opened_fields demo_declared_job_def demo_jdc_env_def)
qed

section \<open>Towards the miners\<close>

text \<open>
  C40. The requests that waited for the pool's channel are not all answered. When the first of them is from a
  miner that has left meanwhile, the loop over the queue ends at its error, which only removes that miner once
  more: the queue is empty, the client runs on, and the miners behind it have no channel and no answer.
\<close>

theorem departed_miner_loses_the_queue:
  assumes "jc_pending s = r # rest" and "jc_downstreams s (pending_downstream_id r) = None"
    and "deserialize_outputs (srv J) (jc_coinbase_outputs s) = Some outs" and "outs \<noteq> []"
    and "jc_last_future_template s = Some template" and "jc_last_new_prev_hash s = Some prev_hash"
  shows "\<exists>s'. jdc_continues (replay_pending J env s) = Some s' \<and> jc_pending s' = [] \<and>
    jc_downstreams s' = jc_downstreams s \<and> jc_to_miners s' = jc_to_miners s \<and> jc_to_upstream s' = jc_to_upstream s"
proof -
  let ?d = "pending_downstream_id r"
  let ?s = "s\<lparr>jc_pending := []\<rparr>"
  obtain outs' where outs': "set_first_value (tm_coinbase_tx_value_remaining template) outs = Some outs'"
    using assms(4) by (cases outs) (simp_all add: set_first_value_def)
  have "handle_mining_message_from_miner J env ?d (from_pending r) ?s =
      (Failed (jdc_disconnect (JkDownstreamNotFound ?d) ?d), ?s)"
    using assms(2-6) outs'
    by (cases r) (simp_all add: from_pending_def jdc_handle_open_extended_def jdc_handle_open_standard_def
        with_registered_miner_def jdc_then_forward_def to_this_miner_def)
  then have "jdc_continues (replay_pending J env s) = Some (jdc_remove_downstream ?d ?s)"
    using assms(1) by (simp add: replay_pending_def jdc_continues_def jdc_error_action_def jdc_disconnect_def
        del: handle_mining_message_from_miner.simps)
  then show ?thesis using assms(2) by (simp add: jdc_remove_downstream_def sm_remove_def fun_upd_idem)
qed

definition demo_jdc_waiting ::
  "(demo_channel, demo_channel, demo_group, nat list, nat, u32 list, unit) jdc" where
  "demo_jdc_waiting = demo_jdc_asked\<lparr>jc_pending := [PendingStandard 1 demo_open_standard, PendingExtended 0 demo_open_extended]\<rparr>"

theorem departed_miner_loses_the_queue_witness:
  "\<exists>s'. jdc_continues (replay_pending demo_jdc_lib demo_jdc_env demo_jdc_waiting) = Some s' \<and> jc_pending s' = [] \<and>
    jc_downstreams s' 0 \<noteq> None \<and> jc_to_miners s' = []"
proof -
  have fields: "jc_last_future_template demo_jdc_waiting = Some demo_new_template" "jc_to_miners demo_jdc_waiting = []"
    by (simp_all add: demo_jdc_waiting_def demo_jdc_asked_def demo_jdc_ready_def demo_jdc_def)
  show ?thesis
    using departed_miner_loses_the_queue [of demo_jdc_waiting "PendingStandard 1 demo_open_standard"
        "[PendingExtended 0 demo_open_extended]" demo_jdc_lib _ demo_new_template demo_template_prev_hash demo_jdc_env]
    by (fastforce simp: demo_jdc_waiting_def demo_asked_fields demo_jdc_lib_fields pending_downstream_id_def
        fields [unfolded demo_jdc_waiting_def, simplified])
qed

text \<open>The minimum of two targets as byte arrays is not the smaller number.\<close>

lemma min_of_le_bytes_is_not_min: "min_of_le_bytes 256 1 = 256"
  by code_simp

end
