(* ===== verification/Peer_Tasks.thy ===== *)
theory Peer_Tasks
  imports Downstream_Connection Chains
begin

text \<open>
  What the applications' connections have in common. A task (\<open>upstream/mod.rs\<close>, \<open>job_declarator/mod.rs\<close>,
  \<open>template_receiver/sv2_tp/mod.rs\<close>, \<open>downstream/mod.rs\<close>) makes a handshake and then takes turns of its
  \<open>select!\<close>: a frame of the peer or a message of the channel manager, until an error ends it. The turns are a
  sequence of events, taken while no token is cancelled: a cancelled one ends the loop before its next turn. Before
  that a runtime dials the peer, and goes through its list of upstreams (\<open>jdc_runtime.rs\<close>,
  \<open>translator_runtime.rs\<close>); what the network does is an argument.
\<close>

section \<open>Tasks\<close>

text \<open>What a turn of a task reads: a frame of the peer, or a message of the channel manager. An error may end the
  loop and cancel the token of the connection, of the fallback, or of the process; a panic ends the task too.\<close>

datatype 'q task_event = PeerFrame bool "frame option" | ManagerMessage bool "'q option"

datatype task_signal = NoSignal | CancelConnection | CancelFallback | CancelAll | TaskPanic

definition turn_control ::
  "('e \<Rightarrow> loop_control \<times> task_signal) \<Rightarrow> ('e, unit) attempt \<Rightarrow> loop_control \<times> task_signal" where
  "turn_control act out =
     (case out of Done _ \<Rightarrow> (Continue, NoSignal) | Failed e \<Rightarrow> act e | Panicked \<Rightarrow> (Break, TaskPanic))"

fun task_loop ::
  "('q task_event \<Rightarrow> 's \<Rightarrow> ('e, unit) attempt \<times> 'o list \<times> 's) \<Rightarrow> ('e \<Rightarrow> loop_control \<times> task_signal) \<Rightarrow>
   'q task_event list \<Rightarrow> 's \<Rightarrow> 'o list \<times> (loop_control \<times> task_signal) \<times> 's" where
  "task_loop turn act [] s = ([], (Continue, NoSignal), s)"
| "task_loop turn act (ev # evs) s =
     (let (out, os, s') = turn ev s
      in case turn_control act out of
           (Break, signal) \<Rightarrow> (os, (Break, signal), s')
         | (Continue, _) \<Rightarrow> (let (os', ctl, s'') = task_loop turn act evs s' in (os @ os', ctl, s'')))"

lemma task_loop_append:
  "task_loop turn act (evs @ evs') s =
     (case task_loop turn act evs s of
        (os, (Continue, _), s') \<Rightarrow> (let (os', ctl, s'') = task_loop turn act evs' s' in (os @ os', ctl, s''))
      | (os, (Break, signal), s') \<Rightarrow> (os, (Break, signal), s'))"
  by (induction evs arbitrary: s) (auto split: prod.splits loop_control.splits)

text \<open>The \<open>FallbackHandler\<close> a task holds: \<open>done\<close> is called after the loop, and dropping the handler without it panics
  (\<open>fallback_coordinator.rs\<close>). A panic while another one unwinds aborts the process.\<close>

datatype drop_outcome = DropOk | DropPanics | DropAborts

definition drop_fallback_handler :: "bool \<Rightarrow> bool \<Rightarrow> drop_outcome" where
  "drop_fallback_handler was_done unwinding =
     (if was_done then DropOk else if unwinding then DropAborts else DropPanics)"

definition task_end :: "'o list \<times> (loop_control \<times> task_signal) \<times> 's \<Rightarrow> drop_outcome" where
  "task_end r =
     (case r of (_, (_, signal), _) \<Rightarrow> drop_fallback_handler (signal \<noteq> TaskPanic) (signal = TaskPanic))"

text \<open>\<open>start\<close>: a handshake that fails for whatever reason ends the task, with the signal of its error.\<close>

definition task_start ::
  "('q task_event \<Rightarrow> 's \<Rightarrow> ('e, unit) attempt \<times> 'o list \<times> 's) \<Rightarrow> ('e \<Rightarrow> loop_control \<times> task_signal) \<Rightarrow>
   ('e, unit) attempt \<times> 'o list \<times> 's \<Rightarrow> 'q task_event list \<Rightarrow>
   'o list \<times> (loop_control \<times> task_signal) \<times> 's" where
  "task_start turn act handshake evs =
     (case handshake of
        (Done _, os, s) \<Rightarrow> (let (os', ctl, s') = task_loop turn act evs s in (os @ os', ctl, s'))
      | (out, os, s) \<Rightarrow> (os, (Break, snd (turn_control act out)), s))"

section \<open>Messages of a server\<close>

datatype common_from_server =
    CsSetupSuccess
  | CsEndpointChanged
  | CsReconnect
  | CsSetupError
  | CsSetupConnection

definition is_setup_answer :: "(message_name \<Rightarrow> u8) \<Rightarrow> frame \<Rightarrow> bool" where
  "is_setup_answer code f \<longleftrightarrow>
     fr_ext_type f = 0 \<and> fr_msg_type f \<in> {code SETUP_CONNECTION_SUCCESS, code SETUP_CONNECTION_ERROR}"

datatype ('m, 'q) server_output =
    ServerSetup setup_connection
  | ServerRequestExtensions u16 "u16 list"
  | ServerMessage 'q
  | ServerToManager 'm

text \<open>What \<open>parsers_sv2\<close> promises of the common messages: a frame that decodes carries its message's code.\<close>

fun common_name :: "common_from_server \<Rightarrow> message_name" where
  "common_name CsSetupSuccess = SETUP_CONNECTION_SUCCESS"
| "common_name CsEndpointChanged = CHANNEL_ENDPOINT_CHANGED"
| "common_name CsReconnect = RECONNECT"
| "common_name CsSetupError = SETUP_CONNECTION_ERROR"
| "common_name CsSetupConnection = SETUP_CONNECTION"

definition common_decoder_ok :: "(message_name \<Rightarrow> u8) \<Rightarrow> (frame \<Rightarrow> common_from_server option) \<Rightarrow> bool" where
  "common_decoder_ok code decode_common \<longleftrightarrow>
     inj_on code (range common_name) \<and> (\<forall>f m. decode_common f = Some m \<longrightarrow> fr_msg_type f = code (common_name m))"

lemma setup_answer_decoded:
  assumes "common_decoder_ok code decode_common" and "is_setup_answer code f" and "decode_common f = Some m"
  shows "m \<in> {CsSetupSuccess, CsSetupError}"
proof -
  have "code (common_name m) \<in> {code SETUP_CONNECTION_SUCCESS, code SETUP_CONNECTION_ERROR}"
    using assms by (auto simp: common_decoder_ok_def is_setup_answer_def)
  then have "code (common_name m) = code (common_name CsSetupSuccess) \<or> code (common_name m) = code (common_name CsSetupError)"
    by simp
  then have "common_name m = common_name CsSetupSuccess \<or> common_name m = common_name CsSetupError"
    using assms(1) unfolding common_decoder_ok_def by (metis inj_on_contraD rangeI)
  then show ?thesis by (cases m) auto
qed

section \<open>The loops\<close>

lemma task_loop_invariant:
  assumes keep: "\<And>ev s out os s'. turn ev s = (out, os, s') \<Longrightarrow> P s \<Longrightarrow> P s'"
    and "task_loop turn act evs s = (os, ctl, s')" and "P s"
  shows "P s'"
  using assms(2, 3)
proof (induction evs arbitrary: s os ctl s')
  case (Cons ev evs)
  obtain out os1 s1 where t: "turn ev s = (out, os1, s1)" by (metis prod_cases3)
  have "P s1" using keep [OF t Cons.prems(2)] .
  then show ?case using Cons.IH [of s1] Cons.prems(1) t by (auto split: prod.splits loop_control.splits)
qed simp

lemma task_start_invariant:
  assumes "\<And>ev s out os s'. turn ev s = (out, os, s') \<Longrightarrow> P s \<Longrightarrow> P s'"
    and "task_start turn act (out, os, s) evs = (os', ctl, s')" and "P s"
  shows "P s'"
  using assms(2, 3) task_loop_invariant [of turn P act evs s _ ctl s', OF assms(1)]
  by (auto simp: task_start_def split: attempt.splits prod.splits)

text \<open>An event that breaks the loop from every state ends it, at the latest when it is read, with a signal that
  breaks give.\<close>

lemma task_loop_breaks:
  assumes "ev \<in> set evs" and stop: "\<And>s. fst (turn_control act (fst (turn ev s))) = Break"
    and signal: "\<And>ev s. fst (turn_control act (fst (turn ev s))) = Break \<Longrightarrow> snd (turn_control act (fst (turn ev s))) \<in> G"
    and "task_loop turn act evs s = (os, ctl, s')"
  shows "fst ctl = Break \<and> snd ctl \<in> G"
  using assms(1, 4)
proof (induction evs arbitrary: s os ctl s')
  case (Cons ev' evs)
  obtain out os1 s1 where t: "turn ev' s = (out, os1, s1)" by (metis prod_cases3)
  obtain c g where c: "turn_control act out = (c, g)" by fastforce
  show ?case
  proof (cases c)
    case Break
    then have "g \<in> G" and "ctl = (Break, g)" using signal [of ev' s] t c Cons.prems(2) by simp_all
    then show ?thesis by simp
  next
    case Continue
    then have "ev' \<noteq> ev" using stop [of s] t c by auto
    then show ?thesis using Cons.IH [of s1] Cons.prems t c Continue by (auto split: prod.splits)
  qed
qed simp

section \<open>Dialling\<close>

text \<open>What comes of one try to reach a peer: its name does not resolve, the connection times out, is refused or has
  no peer address, the process shuts down during the noise handshake, the key is wrong, the handshake fails, or the
  connection stands.\<close>

datatype dial =
    DialUnresolved
  | DialTimeout
  | DialRefused
  | DialNoPeer
  | DialCancelled
  | DialInvalidKey
  | DialNoiseFailed
  | DialConnected

section \<open>Upstreams in turn\<close>

text \<open>An upstream is a candidate until it has been connected to, or has failed every attempt.\<close>

record 'a upstream_entry =
  ue_peer :: 'a
  ue_tried_or_flagged :: bool
  ue_user_identity :: string

datatype 'k try_result = TryDone | TryFatal 'k | TryExhausted

fun try_upstreams ::
  "'k \<Rightarrow> (nat \<Rightarrow> bool) \<Rightarrow> (nat \<Rightarrow> 'a upstream_entry \<Rightarrow> 'k try_result) \<Rightarrow> nat \<Rightarrow> 'a upstream_entry list \<Rightarrow>
   ('k, nat \<times> string) result \<times> 'a upstream_entry list" where
  "try_upstreams exhausted cancelled attempts i [] = (Err exhausted, [])"
| "try_upstreams exhausted cancelled attempts i (u # us) =
     (let later = (\<lambda>u'. let (r, us') = try_upstreams exhausted cancelled attempts (i + 1) us in (r, u' # us'))
      in if cancelled i then (Err exhausted, u # us)
         else if ue_tried_or_flagged u then later u
         else (case attempts i u of
                 TryDone \<Rightarrow> (Ok (i, ue_user_identity u), u\<lparr>ue_tried_or_flagged := True\<rparr> # us)
               | TryFatal k \<Rightarrow> (Err k, u # us)
               | TryExhausted \<Rightarrow> later (u\<lparr>ue_tried_or_flagged := True\<rparr>)))"

definition untried :: "'a upstream_entry list \<Rightarrow> nat set" where
  "untried us = {i. i < length us \<and> \<not> ue_tried_or_flagged (us ! i)}"

lemma untried_Cons:
  "untried (u # us) = (if ue_tried_or_flagged u then {} else {0}) \<union> Suc ` untried us"
  by (auto simp: untried_def less_Suc_eq_0_disj image_iff)

lemma finite_untried [simp]: "finite (untried us)"
  by (simp add: untried_def)

lemma untried_bound: "card (untried us) \<le> length us"
  using card_mono [of "{..<length us}" "untried us"] by (auto simp: untried_def)

text \<open>No upstream becomes a candidate again, and the one that is connected to was one and is no longer.\<close>

lemma try_upstreams_untried:
  assumes "try_upstreams exhausted cancelled attempts i us = (r, us')"
  shows "length us' = length us \<and> untried us' \<subseteq> untried us \<and>
    (\<forall>j identity. r = Ok (j, identity) \<longrightarrow> i \<le> j \<and> j - i \<in> untried us \<and> j - i \<notin> untried us')"
  using assms
proof (induction exhausted cancelled attempts i us arbitrary: r us' rule: try_upstreams.induct)
  case (2 exhausted cancelled attempts i u us)
  obtain r1 us1 where rec: "try_upstreams exhausted cancelled attempts (i + 1) us = (r1, us1)" by fastforce
  have IH: "length us1 = length us \<and> untried us1 \<subseteq> untried us \<and>
    (\<forall>j identity. r1 = Ok (j, identity) \<longrightarrow> i + 1 \<le> j \<and> j - (i + 1) \<in> untried us \<and> j - (i + 1) \<notin> untried us1)"
    using 2(1) [OF rec] .
  have shift: "j - i = Suc (j - (i + 1))" if "i + 1 \<le> j" for j using that by simp
  show ?case
  proof (cases "cancelled i")
    case True
    then show ?thesis using 2(2) by auto
  next
    case going: False
    show ?thesis
    proof (cases "ue_tried_or_flagged u \<or> attempts i u = TryExhausted")
      case True
      then have "r = r1" "\<exists>u'. us' = u' # us1 \<and> ue_tried_or_flagged u'" 
        using 2(2) going rec by (auto simp: Let_def split: if_splits)
      then show ?thesis using IH shift by (fastforce simp: untried_Cons)
    next
      case False
      then show ?thesis using 2(2) going
        by (cases "attempts i u") (auto simp: Let_def untried_Cons)
    qed
  qed
qed auto

end
