(* ===== verification/Jdc_Connection.thy ===== *)
theory Jdc_Connection
  imports Jdc_State Pool_Connection Peer_Tasks
begin

text \<open>
  The connections of the Job Declarator Client: \<open>miner-apps/jd-client/src/lib/downstream/\<close> (the task of one miner),
  \<open>job_declarator/\<close>, \<open>upstream/\<close> and \<open>template_receiver/sv2_tp/\<close> (the tasks of the Job Declarator Server, the
  pool and the Template Provider), and the \<open>SetupConnection\<close> messages of \<open>utils.rs\<close>. Each task makes a
  handshake, then passes messages between its peer and the channel manager until an error ends it.

  Frames are decoded by \<open>parsers_sv2\<close>, the arguments \<open>decode_any\<close>, \<open>decode_common\<close> and \<open>decode_jd\<close>. A received
  frame is \<open>Some\<close>, a closed socket \<open>None\<close>; \<open>sent\<close> says whether the queue written to still has a reader. The tasks
  are those of \<open>Peer_Tasks\<close>.
\<close>

section \<open>The miner's task\<close>

record miner_connection =
  mc_require_std_job :: bool
  mc_negotiated :: "u16 list"
  mc_supported :: "u16 list"
  mc_required :: "u16 list"

definition miner_connection_new :: "u16 list \<Rightarrow> u16 list \<Rightarrow> miner_connection" where
  "miner_connection_new supported required =
     \<lparr>mc_require_std_job = False, mc_negotiated = [], mc_supported = supported, mc_required = required\<rparr>"

text \<open>A refusal that cannot be sent is a refusal all the same.\<close>

definition jdc_setup_connection ::
  "'m client_lib \<Rightarrow> bool \<Rightarrow> downstream_id \<Rightarrow> setup_connection \<Rightarrow> miner_connection \<Rightarrow>
   (jdc_error, unit) attempt \<times> setup_reply list \<times> miner_connection" where
  "jdc_setup_connection K sent d msg c =
     (let refuse = (\<lambda>flags code. (Failed (jdc_disconnect JkSetupConnectionError d),
                                 if sent then [SetupConnectionError flags code] else [], c))
      in if su_protocol msg \<noteq> MiningProtocol then refuse 0 UNSUPPORTED_PROTOCOL
         else if SUPPORTED_PROTOCOL_VERSION < su_min_version msg \<or> SUPPORTED_PROTOCOL_VERSION > su_max_version msg
         then refuse 0 PROTOCOL_VERSION_MISMATCH
         else if has_work_selection K (su_flags msg) then refuse 2 UNSUPPORTED_FEATURE_FLAGS
         else
           (let c' = (if has_requires_std_job K (su_flags msg) then c\<lparr>mc_require_std_job := True\<rparr> else c)
            in if sent then (Done (), [SetupConnectionSuccess SUPPORTED_PROTOCOL_VERSION 0], c')
               else (Failed (jdc_disconnect JkChannelErrorSender d), [], c')))"

definition jdc_setup_with_miner ::
  "(message_name \<Rightarrow> u8) \<Rightarrow> 'm client_lib \<Rightarrow> bool \<Rightarrow> downstream_id \<Rightarrow> frame option \<Rightarrow> miner_connection \<Rightarrow>
   (jdc_error, unit) attempt \<times> setup_reply list \<times> miner_connection" where
  "jdc_setup_with_miner code K sent d received c =
     (case received of
        None \<Rightarrow> (Failed (jdc_disconnect JkChannelErrorReceiver d), [], c)
      | Some f \<Rightarrow>
          if fr_ext_type f = 0 \<and> fr_msg_type f = code SETUP_CONNECTION
          then (case decode_setup_connection K f of
                  None \<Rightarrow> (Failed (jdc_log JkParser), [], c)
                | Some msg \<Rightarrow> jdc_setup_connection K sent d msg c)
          else (Failed (jdc_disconnect (JkUnexpectedMessage (fr_ext_type f) (fr_msg_type f)) d), [], c))"

text \<open>A miner that does not know a required extension gets an error and stays connected.\<close>

definition jdc_request_extensions ::
  "bool \<Rightarrow> downstream_id \<Rightarrow> u16 \<Rightarrow> u16 list \<Rightarrow> miner_connection \<Rightarrow>
   (jdc_error, unit) attempt \<times> extensions_reply list \<times> miner_connection" where
  "jdc_request_extensions sent d r requested c =
     (let supported = filter (\<lambda>ext. ext \<in> set (mc_supported c)) requested;
          unsupported = filter (\<lambda>ext. ext \<notin> set (mc_supported c)) requested;
          missing_required = filter (\<lambda>ext. ext \<notin> set requested) (mc_required c);
          lost = Failed (jdc_disconnect JkChannelErrorSender d)
      in if supported = [] \<or> missing_required \<noteq> []
         then (if length unsupported \<ge> 2 ^ 16 then (Failed (jdc_shutdown JkInvalidUnsupportedExtensionsSequence), [], c)
               else if length missing_required \<ge> 2 ^ 16
               then (Failed (jdc_shutdown JkInvalidRequiredExtensionsSequence), [], c)
               else if sent then (Done (), [RequestExtensionsError r unsupported missing_required], c)
               else (lost, [], c))
         else (let c' = c\<lparr>mc_negotiated := supported\<rparr>
               in if length supported \<ge> 2 ^ 16
                  then (Failed (jdc_shutdown JkInvalidSupportedExtensionsSequence), [], c')
                  else if sent then (Done (), [RequestExtensionsSuccess r supported], c')
                  else (lost, [], c')))"

text \<open>A decoded message. An extension message only a server sends is unexpected, and logged.\<close>

datatype 'm any_message =
    AnyMining 'm
  | AnyRequestExtensions u16 "u16 list"
  | AnyExtensionsAnswer
  | AnyOther

definition miner_frame ::
  "(u16 list \<Rightarrow> frame \<Rightarrow> 'm any_message option) \<Rightarrow> bool \<Rightarrow> downstream_id \<Rightarrow> frame option \<Rightarrow> miner_connection \<Rightarrow>
   (jdc_error, unit) attempt \<times> extensions_reply list \<times> 'm list \<times> miner_connection" where
  "miner_frame decode_any sent d received c =
     (case received of
        None \<Rightarrow> (Failed (jdc_disconnect JkChannelErrorReceiver d), [], [], c)
      | Some f \<Rightarrow>
          (case decode_any (mc_negotiated c) f of
             None \<Rightarrow> (Failed (jdc_disconnect JkParser d), [], [], c)
           | Some (AnyMining m) \<Rightarrow>
               if sent then (Done (), [], [m], c) else (Failed (jdc_shutdown JkChannelErrorSender), [], [], c)
           | Some (AnyRequestExtensions r requested) \<Rightarrow>
               (case jdc_request_extensions sent d r requested c of (out, replies, c') \<Rightarrow> (out, replies, [], c'))
           | Some AnyExtensionsAnswer \<Rightarrow>
               (Failed (jdc_log (JkUnexpectedMessage (fr_ext_type f) (fr_msg_type f))), [], [], c)
           | Some AnyOther \<Rightarrow> (Done (), [], [], c)))"

definition miner_from_manager ::
  "downstream_id \<Rightarrow> bool \<Rightarrow> 'q option \<Rightarrow> (jdc_error, unit) attempt \<times> 'q list" where
  "miner_from_manager d sent received =
     (case received of
        None \<Rightarrow> (Failed (jdc_disconnect JkChannelErrorReceiver d), [])
      | Some m \<Rightarrow> if sent then (Done (), [m]) else (Failed (jdc_disconnect JkChannelErrorSender d), []))"

definition miner_error_action :: "jdc_error \<Rightarrow> loop_control \<times> task_signal" where
  "miner_error_action e =
     (case je_action e of
        JdcLog \<Rightarrow> (Continue, NoSignal)
      | JdcDisconnect _ \<Rightarrow> (Break, CancelConnection)
      | JdcShutdown \<Rightarrow> (Break, CancelAll)
      | JdcFallback \<Rightarrow> (Continue, NoSignal))"

datatype ('m, 'q) miner_output =
    MinerSetup setup_reply
  | MinerExtensions extensions_reply
  | MinerMessage 'q
  | MinerToManager 'm

definition miner_turn ::
  "(u16 list \<Rightarrow> frame \<Rightarrow> 'm any_message option) \<Rightarrow> downstream_id \<Rightarrow> 'q task_event \<Rightarrow> miner_connection \<Rightarrow>
   (jdc_error, unit) attempt \<times> ('m, 'q) miner_output list \<times> miner_connection" where
  "miner_turn decode_any d ev c =
     (case ev of
        PeerFrame sent received \<Rightarrow>
          (case miner_frame decode_any sent d received c of (out, replies, ms, c') \<Rightarrow>
             (out, map MinerExtensions replies @ map MinerToManager ms, c'))
      | ManagerMessage sent received \<Rightarrow>
          (case miner_from_manager d sent received of (out, qs) \<Rightarrow> (out, map MinerMessage qs, c)))"

definition miner_start ::
  "(message_name \<Rightarrow> u8) \<Rightarrow> 'm client_lib \<Rightarrow> (u16 list \<Rightarrow> frame \<Rightarrow> 'm any_message option) \<Rightarrow> downstream_id \<Rightarrow>
   bool \<Rightarrow> frame option \<Rightarrow> 'q task_event list \<Rightarrow> miner_connection \<Rightarrow>
   ('m, 'q) miner_output list \<times> (loop_control \<times> task_signal) \<times> miner_connection" where
  "miner_start code K decode_any d sent first evs c =
     task_start (miner_turn decode_any d) miner_error_action
       (case jdc_setup_with_miner code K sent d first c of (out, replies, c') \<Rightarrow> (out, map MinerSetup replies, c')) evs"

section \<open>The client as a client\<close>

definition get_setup_connection_message :: "u16 \<Rightarrow> u16 \<Rightarrow> setup_connection" where
  "get_setup_connection_message min_version max_version =
     \<lparr>su_protocol = MiningProtocol, su_min_version = min_version, su_max_version = max_version, su_flags = 6\<rparr>"

text \<open>\<open>SetupConnection::allow_full_template_mode\<close> of \<open>common_messages_sv2\<close> is the argument \<open>allow_full_template\<close>, on the
  flags.\<close>

definition get_setup_connection_message_jds :: "(u32 \<Rightarrow> u32) \<Rightarrow> config_jdc_mode \<Rightarrow> setup_connection" where
  "get_setup_connection_message_jds allow_full_template config_mode =
     \<lparr>su_protocol = JobDeclarationProtocol, su_min_version = 2, su_max_version = 2,
      su_flags = (if config_mode = FullTemplate then allow_full_template 0 else 0)\<rparr>"

definition get_setup_connection_message_tp :: setup_connection where
  "get_setup_connection_message_tp =
     \<lparr>su_protocol = TemplateDistributionProtocol, su_min_version = 2, su_max_version = 2, su_flags = 0\<rparr>"

text \<open>The common messages of the Job Declarator Server: an accepted set-up makes the configured mode active.\<close>

definition jds_common_message ::
  "config_jdc_mode \<Rightarrow> frame \<Rightarrow> common_from_server \<Rightarrow> config_jdc_mode \<Rightarrow> (jdc_error, unit) attempt \<times> config_jdc_mode" where
  "jds_common_message config_mode f m mode =
     (case m of
        CsSetupSuccess \<Rightarrow> (Done (), config_mode)
      | CsEndpointChanged \<Rightarrow> (Done (), mode)
      | CsReconnect \<Rightarrow> (Done (), mode)
      | CsSetupError \<Rightarrow> (Failed (jdc_fallback JkSetupConnectionError), mode)
      | CsSetupConnection \<Rightarrow> (Failed (jdc_log (JkUnexpectedMessage (fr_ext_type f) (fr_msg_type f))), mode))"

definition jds_common_frame ::
  "(frame \<Rightarrow> common_from_server option) \<Rightarrow> config_jdc_mode \<Rightarrow> frame \<Rightarrow> config_jdc_mode \<Rightarrow>
   (jdc_error, unit) attempt \<times> config_jdc_mode" where
  "jds_common_frame decode_common config_mode f mode =
     (case decode_common f of
        None \<Rightarrow> (Failed (jdc_log JkParser), mode)
      | Some m \<Rightarrow> jds_common_message config_mode f m mode)"

text \<open>\<open>JobDeclarator::setup_connection\<close>: the outcome, the mode, and what was sent.\<close>

definition jds_setup_connection ::
  "(message_name \<Rightarrow> u8) \<Rightarrow> (frame \<Rightarrow> common_from_server option) \<Rightarrow> (u32 \<Rightarrow> u32) \<Rightarrow> config_jdc_mode \<Rightarrow> bool \<Rightarrow> frame option \<Rightarrow>
   config_jdc_mode \<Rightarrow> (jdc_error, unit) attempt \<times> setup_connection list \<times> config_jdc_mode" where
  "jds_setup_connection code decode_common allow_full_template config_mode sent received mode =
     (if \<not> sent then (Failed (jdc_fallback JkChannelErrorSender), [], mode)
      else
        (let request = get_setup_connection_message_jds allow_full_template config_mode
         in case received of
              None \<Rightarrow> (Failed (jdc_fallback JkChannelErrorSender), [request], mode)
            | Some f \<Rightarrow>
                if is_setup_answer code f
                then (case jds_common_frame decode_common config_mode f mode of (out, mode') \<Rightarrow> (out, [request], mode'))
                else (Failed (jdc_fallback (JkUnexpectedMessage (fr_ext_type f) (fr_msg_type f))), [request], mode)))"

text \<open>\<open>handle_job_declarator_message\<close>: one frame of the server and what is passed on.\<close>

definition jds_frame ::
  "(message_name \<Rightarrow> u8) \<Rightarrow> u16 \<Rightarrow> (frame \<Rightarrow> common_from_server option) \<Rightarrow> (frame \<Rightarrow> 'j option) \<Rightarrow> config_jdc_mode \<Rightarrow> bool \<Rightarrow>
   frame option \<Rightarrow> config_jdc_mode \<Rightarrow> (jdc_error, unit) attempt \<times> 'j list \<times> config_jdc_mode" where
  "jds_frame code ext_negotiation decode_common decode_jd config_mode sent received mode =
     (case received of
        None \<Rightarrow> (Failed (jdc_fallback JkChannelErrorReceiver), [], mode)
      | Some f \<Rightarrow>
          (case protocol_message_type code ext_negotiation (fr_ext_type f) (fr_msg_type f) of
             Common \<Rightarrow> (case jds_common_frame decode_common config_mode f mode of (out, mode') \<Rightarrow> (out, [], mode'))
           | JobDeclaration \<Rightarrow>
               (case decode_jd f of
                  None \<Rightarrow> (Failed (jdc_fallback JkParser), [], mode)
                | Some m \<Rightarrow>
                    if sent then (Done (), [m], mode) else (Failed (jdc_shutdown JkChannelErrorSender), [], mode))
           | _ \<Rightarrow> (Done (), [], mode)))"

text \<open>A channel manager that has gone is only logged.\<close>

definition jds_from_manager :: "bool \<Rightarrow> 'q option \<Rightarrow> (jdc_error, unit) attempt \<times> 'q list" where
  "jds_from_manager sent received =
     (case received of
        None \<Rightarrow> (Done (), [])
      | Some m \<Rightarrow> if sent then (Done (), [m]) else (Failed (jdc_fallback JkChannelErrorSender), []))"

definition server_error_action :: "jdc_error \<Rightarrow> loop_control \<times> task_signal" where
  "server_error_action e =
     (case je_action e of
        JdcLog \<Rightarrow> (Continue, NoSignal)
      | JdcFallback \<Rightarrow> (Break, CancelFallback)
      | JdcShutdown \<Rightarrow> (Break, CancelAll)
      | JdcDisconnect _ \<Rightarrow> (Continue, NoSignal))"

definition jds_turn ::
  "(message_name \<Rightarrow> u8) \<Rightarrow> u16 \<Rightarrow> (frame \<Rightarrow> common_from_server option) \<Rightarrow> (frame \<Rightarrow> 'j option) \<Rightarrow> config_jdc_mode \<Rightarrow>
   'q task_event \<Rightarrow> config_jdc_mode \<Rightarrow> (jdc_error, unit) attempt \<times> ('j, 'q) server_output list \<times> config_jdc_mode" where
  "jds_turn code ext_negotiation decode_common decode_jd config_mode ev mode =
     (case ev of
        PeerFrame sent received \<Rightarrow>
          (case jds_frame code ext_negotiation decode_common decode_jd config_mode sent received mode of
             (out, ms, mode') \<Rightarrow> (out, map ServerToManager ms, mode'))
      | ManagerMessage sent received \<Rightarrow>
          (case jds_from_manager sent received of (out, qs) \<Rightarrow> (out, map ServerMessage qs, mode)))"

definition jds_start ::
  "(message_name \<Rightarrow> u8) \<Rightarrow> u16 \<Rightarrow> (frame \<Rightarrow> common_from_server option) \<Rightarrow> (frame \<Rightarrow> 'j option) \<Rightarrow> (u32 \<Rightarrow> u32) \<Rightarrow>
   config_jdc_mode \<Rightarrow> bool \<Rightarrow> frame option \<Rightarrow> 'q task_event list \<Rightarrow> config_jdc_mode \<Rightarrow>
   ('j, 'q) server_output list \<times> (loop_control \<times> task_signal) \<times> config_jdc_mode" where
  "jds_start code ext_negotiation decode_common decode_jd allow_full_template config_mode sent first evs mode =
     task_start (jds_turn code ext_negotiation decode_common decode_jd config_mode) server_error_action
       (case jds_setup_connection code decode_common allow_full_template config_mode sent first mode of
          (out, ss, mode') \<Rightarrow> (out, map ServerSetup ss, mode')) evs"

text \<open>The pool: a set-up that is accepted is followed by the request of the required extensions.\<close>

definition pool_common_frame ::
  "(frame \<Rightarrow> common_from_server option) \<Rightarrow> frame \<Rightarrow> (jdc_error, unit) attempt" where
  "pool_common_frame decode_common f =
     (case decode_common f of
        None \<Rightarrow> Failed (jdc_log JkParser)
      | Some CsSetupError \<Rightarrow> Failed (jdc_fallback JkSetupConnectionError)
      | Some CsSetupConnection \<Rightarrow> Failed (jdc_log (JkUnexpectedMessage (fr_ext_type f) (fr_msg_type f)))
      | Some _ \<Rightarrow> Done ())"

definition send_request_extensions ::
  "u16 list \<Rightarrow> bool \<Rightarrow> (jdc_error, unit) attempt \<times> ('m, 'q) server_output list" where
  "send_request_extensions required sent =
     (if required = [] then (Done (), [])
      else if length required \<ge> 2 ^ 16 then (Failed (jdc_shutdown JkBinarySv2), [])
      else if sent then (Done (), [ServerRequestExtensions 0 required])
      else (Failed (jdc_fallback JkChannelErrorSender), []))"

definition upstream_setup_connection ::
  "(message_name \<Rightarrow> u8) \<Rightarrow> (frame \<Rightarrow> common_from_server option) \<Rightarrow> u16 \<Rightarrow> u16 \<Rightarrow> u16 list \<Rightarrow> bool \<Rightarrow> frame option \<Rightarrow> bool \<Rightarrow>
   (jdc_error, unit) attempt \<times> ('m, 'q) server_output list" where
  "upstream_setup_connection code decode_common min_version max_version required sent received sent' =
     (let request = ServerSetup (get_setup_connection_message min_version max_version)
      in if \<not> sent then (Failed (jdc_fallback JkChannelErrorSender), [])
         else case received of
           None \<Rightarrow> (Failed (jdc_fallback JkChannelErrorReceiver), [request])
         | Some f \<Rightarrow>
             if \<not> is_setup_answer code f
             then (Failed (jdc_fallback (JkUnexpectedMessage (fr_ext_type f) (fr_msg_type f))), [request])
             else (case pool_common_frame decode_common f of
                     Done _ \<Rightarrow> (case send_request_extensions required sent' of (out, ms) \<Rightarrow> (out, request # ms))
                   | failed \<Rightarrow> (failed, [request])))"

text \<open>\<open>Upstream::handle_pool_message_frame\<close>: frames of the mining protocol and of the extensions go on undecoded.\<close>

definition upstream_frame ::
  "(message_name \<Rightarrow> u8) \<Rightarrow> u16 \<Rightarrow> (frame \<Rightarrow> common_from_server option) \<Rightarrow> bool \<Rightarrow> frame option \<Rightarrow>
   (jdc_error, unit) attempt \<times> frame list" where
  "upstream_frame code ext_negotiation decode_common sent received =
     (case received of
        None \<Rightarrow> (Failed (jdc_fallback JkChannelErrorReceiver), [])
      | Some f \<Rightarrow>
          (let pass_on = (if sent then (Done (), [f]) else (Failed (jdc_shutdown JkChannelErrorSender), []))
           in case protocol_message_type code ext_negotiation (fr_ext_type f) (fr_msg_type f) of
                Common \<Rightarrow> (pool_common_frame decode_common f, [])
              | Mining \<Rightarrow> pass_on
              | Extensions \<Rightarrow> pass_on
              | _ \<Rightarrow> (Done (), [])))"

definition upstream_from_manager :: "bool \<Rightarrow> 'q option \<Rightarrow> (jdc_error, unit) attempt \<times> 'q list" where
  "upstream_from_manager sent received =
     (case received of
        None \<Rightarrow> (Done (), [])
      | Some m \<Rightarrow> if sent then (Done (), [m]) else (Failed (jdc_fallback JkChannelErrorSender), []))"

definition upstream_turn ::
  "(message_name \<Rightarrow> u8) \<Rightarrow> u16 \<Rightarrow> (frame \<Rightarrow> common_from_server option) \<Rightarrow> 'q task_event \<Rightarrow> unit \<Rightarrow>
   (jdc_error, unit) attempt \<times> (frame, 'q) server_output list \<times> unit" where
  "upstream_turn code ext_negotiation decode_common ev s =
     (case ev of
        PeerFrame sent received \<Rightarrow>
          (case upstream_frame code ext_negotiation decode_common sent received of (out, fs) \<Rightarrow> (out, map ServerToManager fs, s))
      | ManagerMessage sent received \<Rightarrow>
          (case upstream_from_manager sent received of (out, qs) \<Rightarrow> (out, map ServerMessage qs, s)))"

definition upstream_start ::
  "(message_name \<Rightarrow> u8) \<Rightarrow> u16 \<Rightarrow> (frame \<Rightarrow> common_from_server option) \<Rightarrow> u16 \<Rightarrow> u16 \<Rightarrow> u16 list \<Rightarrow> bool \<Rightarrow> frame option \<Rightarrow>
   bool \<Rightarrow> 'q task_event list \<Rightarrow> (frame, 'q) server_output list \<times> (loop_control \<times> task_signal) \<times> unit" where
  "upstream_start code ext_negotiation decode_common min_version max_version required sent first sent' evs =
     task_start (upstream_turn code ext_negotiation decode_common) server_error_action
       (case upstream_setup_connection code decode_common min_version max_version required sent first sent' of
          (out, os) \<Rightarrow> (out, os, ())) evs"

section \<open>The Template Provider\<close>

text \<open>There is no other provider to fall back to: every error but a log-only one shuts the client down.\<close>

definition provider_common_frame ::
  "(frame \<Rightarrow> common_from_server option) \<Rightarrow> frame \<Rightarrow> (jdc_error, unit) attempt" where
  "provider_common_frame decode_common f =
     (case decode_common f of
        None \<Rightarrow> Failed (jdc_log JkParser)
      | Some CsSetupError \<Rightarrow> Failed (jdc_shutdown JkSetupConnectionError)
      | Some CsSetupConnection \<Rightarrow> Failed (jdc_log (JkUnexpectedMessage (fr_ext_type f) (fr_msg_type f)))
      | Some _ \<Rightarrow> Done ())"

definition provider_setup_connection ::
  "(message_name \<Rightarrow> u8) \<Rightarrow> (frame \<Rightarrow> common_from_server option) \<Rightarrow> bool \<Rightarrow> bool \<Rightarrow> frame option \<Rightarrow>
   (jdc_error, unit) attempt \<times> setup_connection list" where
  "provider_setup_connection code decode_common resolved sent received =
     (if \<not> resolved then (Failed (jdc_shutdown JkInvalidSocketAddress), [])
      else if \<not> sent then (Failed (jdc_shutdown JkChannelErrorSender), [])
      else case received of
        None \<Rightarrow> (Failed (jdc_shutdown JkCodecNoise), [get_setup_connection_message_tp])
      | Some f \<Rightarrow>
          (if is_setup_answer code f then provider_common_frame decode_common f
           else Failed (jdc_shutdown (JkUnexpectedMessage (fr_ext_type f) (fr_msg_type f))),
           [get_setup_connection_message_tp]))"

definition provider_frame ::
  "(message_name \<Rightarrow> u8) \<Rightarrow> u16 \<Rightarrow> (frame \<Rightarrow> common_from_server option) \<Rightarrow> (frame \<Rightarrow> 't option) \<Rightarrow> bool \<Rightarrow> frame option \<Rightarrow>
   (jdc_error, unit) attempt \<times> 't list" where
  "provider_frame code ext_negotiation decode_common decode_td sent received =
     (case received of
        None \<Rightarrow> (Failed (jdc_shutdown JkChannelErrorReceiver), [])
      | Some f \<Rightarrow>
          (case protocol_message_type code ext_negotiation (fr_ext_type f) (fr_msg_type f) of
             Common \<Rightarrow> (provider_common_frame decode_common f, [])
           | TemplateDistribution \<Rightarrow>
               (case decode_td f of
                  None \<Rightarrow> (Failed (jdc_shutdown JkParser), [])
                | Some m \<Rightarrow> if sent then (Done (), [m]) else (Failed (jdc_shutdown JkChannelErrorSender), []))
           | _ \<Rightarrow> (Done (), [])))"

definition provider_from_manager :: "bool \<Rightarrow> 'q option \<Rightarrow> (jdc_error, unit) attempt \<times> 'q list" where
  "provider_from_manager sent received =
     (case received of
        None \<Rightarrow> (Failed (jdc_shutdown JkChannelErrorReceiver), [])
      | Some m \<Rightarrow> if sent then (Done (), [m]) else (Failed (jdc_shutdown JkChannelErrorSender), []))"

definition provider_error_action :: "jdc_error \<Rightarrow> loop_control \<times> task_signal" where
  "provider_error_action e = (case je_action e of JdcShutdown \<Rightarrow> (Break, CancelAll) | _ \<Rightarrow> (Continue, NoSignal))"

definition provider_turn ::
  "(message_name \<Rightarrow> u8) \<Rightarrow> u16 \<Rightarrow> (frame \<Rightarrow> common_from_server option) \<Rightarrow> (frame \<Rightarrow> 't option) \<Rightarrow> 'q task_event \<Rightarrow> unit \<Rightarrow>
   (jdc_error, unit) attempt \<times> ('t, 'q) server_output list \<times> unit" where
  "provider_turn code ext_negotiation decode_common decode_td ev s =
     (case ev of
        PeerFrame sent received \<Rightarrow>
          (case provider_frame code ext_negotiation decode_common decode_td sent received of
             (out, ms) \<Rightarrow> (out, map ServerToManager ms, s))
      | ManagerMessage sent received \<Rightarrow>
          (case provider_from_manager sent received of (out, qs) \<Rightarrow> (out, map ServerMessage qs, s)))"

text \<open>\<open>Sv2Tp::start\<close> returns the error of its handshake to the runtime, and starts the loop otherwise.\<close>

definition provider_start ::
  "(message_name \<Rightarrow> u8) \<Rightarrow> u16 \<Rightarrow> (frame \<Rightarrow> common_from_server option) \<Rightarrow> (frame \<Rightarrow> 't option) \<Rightarrow> bool \<Rightarrow> bool \<Rightarrow>
   frame option \<Rightarrow> 'q task_event list \<Rightarrow>
   (jdc_error, ('t, 'q) server_output list \<times> (loop_control \<times> task_signal)) attempt" where
  "provider_start code ext_negotiation decode_common decode_td resolved sent first evs =
     (case provider_setup_connection code decode_common resolved sent first of
        (Done _, ss) \<Rightarrow>
          (case task_loop (provider_turn code ext_negotiation decode_common decode_td) provider_error_action evs () of
             (os, ctl, _) \<Rightarrow> Done (map ServerSetup ss @ os, ctl))
      | (Failed e, _) \<Rightarrow> Failed e
      | (Panicked, _) \<Rightarrow> Panicked)"

section \<open>Dialling the servers\<close>

definition upstream_new :: "dial \<Rightarrow> (jdc_error, unit) attempt" where
  "upstream_new dial =
     (case dial of
        DialConnected \<Rightarrow> Done ()
      | DialTimeout \<Rightarrow> Failed (jdc_fallback JkTimeout)
      | DialRefused \<Rightarrow> Failed (jdc_fallback JkIo)
      | DialNoPeer \<Rightarrow> Failed (jdc_fallback JkIo)
      | DialCancelled \<Rightarrow> Failed (jdc_shutdown JkCouldNotInitiateSystem)
      | _ \<Rightarrow> Failed (jdc_fallback JkNetworkHelpersError))"

definition job_declarator_new :: "dial \<Rightarrow> (jdc_error, unit) attempt" where
  "job_declarator_new dial =
     (case dial of
        DialConnected \<Rightarrow> Done ()
      | DialTimeout \<Rightarrow> Failed (jdc_fallback JkTimeout)
      | DialRefused \<Rightarrow> Failed (jdc_fallback JkIo)
      | DialNoPeer \<Rightarrow> Failed (jdc_fallback JkIo)
      | DialCancelled \<Rightarrow> Failed (jdc_shutdown JkCouldNotInitiateSystem)
      | _ \<Rightarrow> Failed (jdc_fallback JkNetworkHelpersError))"

text \<open>\<open>Sv2Tp::new\<close>: a refused connection or a failed handshake is tried again, at most three times in all; a
  time-out is not.\<close>

fun provider_attempts :: "(nat \<Rightarrow> dial) \<Rightarrow> nat \<Rightarrow> nat \<Rightarrow> (jdc_error, unit) result" where
  "provider_attempts dial n 0 = Err (jdc_shutdown JkCouldNotInitiateSystem)"
| "provider_attempts dial n (Suc left) =
     (case dial n of
        DialConnected \<Rightarrow> Ok ()
      | DialTimeout \<Rightarrow> Err (jdc_shutdown JkTimeout)
      | DialCancelled \<Rightarrow> Err (jdc_shutdown JkCouldNotInitiateSystem)
      | DialInvalidKey \<Rightarrow> Err (jdc_shutdown JkInvalidKey)
      | _ \<Rightarrow> provider_attempts dial (n + 1) left)"

definition provider_new :: "(nat \<Rightarrow> dial) \<Rightarrow> (jdc_error, unit) result" where
  "provider_new dial = provider_attempts dial 1 3"

section \<open>The client among its servers\<close>

text \<open>
  The pool takes the client's \<open>SetupConnection\<close>: whenever its version is in the range the client offers, the
  client becomes one that selects its own work and is told to open extended channels only.
\<close>

theorem pool_accepts_the_client:
  assumes "has_work_selection K 6" and "min_version \<le> SUPPORTED_PROTOCOL_VERSION"
    and "SUPPORTED_PROTOCOL_VERSION \<le> max_version"
  shows "pool_setup_connection K True d (get_setup_connection_message min_version max_version) c =
    (Done (), [SetupConnectionSuccess SUPPORTED_PROTOCOL_VERSION REQUIRES_EXTENDED_CHANNELS],
     c\<lparr>pd_requires_custom_work := True, pd_requires_standard_jobs := has_requires_std_job K 6\<rparr>)"
  using assms by (auto simp: pool_setup_connection_def get_setup_connection_message_def)

text \<open>
  The Job Declarator Server takes the client's \<open>SetupConnection\<close> exactly when the client is configured for full
  templates; a client that declares coinbases only is refused, and falls back. \<open>allow_full_template_mode\<close> sets the
  lowest flag.
\<close>

theorem jds_accepts_full_template_only:
  assumes "bit (allow_full_template 0) 0"
  shows "handle_setup_connection True d (get_setup_connection_message_jds allow_full_template config_mode) =
    (if config_mode = FullTemplate then (Ok (), [SetupConnectionSuccess SUPPORTED_PROTOCOL_VERSION 0])
     else (Err (jds_disconnect UnsupportedConnectionFlags d), [SetupConnectionError 0 MISSING_DECLARE_TX_DATA_FLAG]))"
  using assms
  by (auto simp: handle_setup_connection_def get_setup_connection_message_jds_def has_declare_tx_data_iff
      SUPPORTED_PROTOCOL_VERSION_def)

text \<open>The turns of the servers' tasks that break their loops.\<close>

lemma server_turn_signals:
  assumes "fst (turn_control server_error_action out) = Break" and "out \<noteq> Panicked"
  shows "snd (turn_control server_error_action out) \<in> {CancelFallback, CancelAll}"
  using assms by (auto simp: turn_control_def server_error_action_def split: attempt.splits jdc_action.splits)

lemma jds_turn_not_panicked: "fst (jds_turn code en decode_common decode_jd config_mode ev mode) \<noteq> Panicked"
  by (auto simp: jds_turn_def jds_frame_def jds_from_manager_def jds_common_frame_def jds_common_message_def
      split: task_event.splits option.splits message_type.splits common_from_server.splits)

lemma upstream_turn_not_panicked: "fst (upstream_turn code en decode_common ev s) \<noteq> Panicked"
  by (auto simp: upstream_turn_def upstream_frame_def upstream_from_manager_def pool_common_frame_def Let_def
      split: task_event.splits option.splits message_type.splits common_from_server.splits)

lemma provider_turn_signals:
  assumes "fst (turn_control provider_error_action (fst (provider_turn code en decode_common decode_td ev s))) = Break"
  shows "snd (turn_control provider_error_action (fst (provider_turn code en decode_common decode_td ev s))) \<in> {CancelAll}"
  using assms
  by (auto simp: turn_control_def provider_error_action_def provider_turn_def provider_frame_def provider_from_manager_def provider_common_frame_def
      jdc_shutdown_def jdc_log_def
      split: task_event.splits option.splits message_type.splits common_from_server.splits if_splits)

text \<open>
  A server that goes away is never ignored. When the Job Declarator Server or the pool closes its connection, the
  task of that server ends and asks for a fallback (or the process is already shutting down); when the Template
  Provider does, its task ends and the process shuts down.
\<close>

theorem lost_server_is_noticed:
  fixes evs :: "'q task_event list"
  assumes "PeerFrame b None \<in> set evs"
  shows "task_loop (jds_turn code en decode_common decode_jd config_mode) server_error_action evs mode = (os, ctl, mode') \<Longrightarrow>
      fst ctl = Break \<and> snd ctl \<in> {CancelFallback, CancelAll}"
    and "task_loop (upstream_turn code en decode_common) server_error_action evs () = (os', ctl', u) \<Longrightarrow>
      fst ctl' = Break \<and> snd ctl' \<in> {CancelFallback, CancelAll}"
    and "task_loop (provider_turn code en decode_common decode_td) provider_error_action evs () = (os'', ctl'', u) \<Longrightarrow>
      fst ctl'' = Break \<and> snd ctl'' = CancelAll"
proof -
  show "fst ctl = Break \<and> snd ctl \<in> {CancelFallback, CancelAll}"
    if "task_loop (jds_turn code en decode_common decode_jd config_mode) server_error_action evs mode = (os, ctl, mode')"
    by (rule task_loop_breaks [OF assms _ server_turn_signals [OF _ jds_turn_not_panicked] that])
      (auto simp: jds_turn_def jds_frame_def turn_control_def server_error_action_def jdc_fallback_def)
  show "fst ctl' = Break \<and> snd ctl' \<in> {CancelFallback, CancelAll}"
    if "task_loop (upstream_turn code en decode_common) server_error_action evs () = (os', ctl', u)"
    by (rule task_loop_breaks [OF assms _ server_turn_signals [OF _ upstream_turn_not_panicked] that])
      (auto simp: upstream_turn_def upstream_frame_def turn_control_def server_error_action_def jdc_fallback_def)
  show "fst ctl'' = Break \<and> snd ctl'' = CancelAll"
    if "task_loop (provider_turn code en decode_common decode_td) provider_error_action evs () = (os'', ctl'', u)"
    using task_loop_breaks [OF assms _ provider_turn_signals that]
    by (auto simp: provider_turn_def provider_frame_def turn_control_def provider_error_action_def jdc_shutdown_def)
qed

section \<open>The mode\<close>

lemma jds_turn_keeps_mode:
  assumes "jds_turn code en decode_common decode_jd config_mode ev mode = (out, os, mode')" and "mode = config_mode"
  shows "mode' = config_mode"
  using assms
  by (auto simp: jds_turn_def jds_frame_def jds_common_frame_def jds_common_message_def
      split: task_event.splits option.splits message_type.splits common_from_server.splits if_splits prod.splits)

text \<open>
  Whatever the mode was before, a task of the Job Declarator Server that passes a message to the channel manager, or
  is still running, has made the configured mode the active one: no declared job is handled in the solo-mining mode
  the client starts in.
\<close>

theorem declared_jobs_in_the_configured_mode:
  assumes "common_decoder_ok code decode_common"
    and "jds_start code en decode_common decode_jd allow_full_template config_mode sent first evs mode = (os, ctl, mode')"
    and "fst ctl = Continue \<or> (\<exists>m. ServerToManager m \<in> set os)"
  shows "mode' = config_mode"
proof -
  obtain out ss mode1 where hs: "jds_setup_connection code decode_common allow_full_template config_mode sent first mode =
      (out, ss, mode1)" by (metis prod_cases3)
  have start: "task_start (jds_turn code en decode_common decode_jd config_mode) server_error_action
      (out, map ServerSetup ss, mode1) evs = (os, ctl, mode')"
    using assms(2) hs by (simp add: jds_start_def)
  then have "out = Done ()" using assms(3) by (auto simp: task_start_def split: attempt.splits)
  then have "mode1 = config_mode"
    using hs setup_answer_decoded [OF assms(1)]
    by (fastforce simp: jds_setup_connection_def jds_common_frame_def jds_common_message_def Let_def
        split: if_splits option.splits common_from_server.splits prod.splits)
  then show ?thesis
    using task_start_invariant [where P = "\<lambda>m. m = config_mode", OF _ start] jds_turn_keeps_mode by blast
qed

section \<open>The life of a miner's connection\<close>

definition miner_ok :: "bool \<Rightarrow> miner_connection \<Rightarrow> bool" where
  "miner_ok std c \<longleftrightarrow> mc_require_std_job c = std \<and> set (mc_negotiated c) \<subseteq> set (mc_supported c) \<and>
     (mc_negotiated c = [] \<or> set (mc_required c) \<inter> set (mc_supported c) \<subseteq> set (mc_negotiated c))"

lemma miner_ok_turn:
  assumes "miner_turn decode_any d ev c = (out, os, c')" and "miner_ok std c"
  shows "miner_ok std c'"
  using assms
  by (auto simp: miner_turn_def miner_frame_def miner_from_manager_def jdc_request_extensions_def miner_ok_def Let_def
      filter_empty_conv split: task_event.splits option.splits any_message.splits if_splits prod.splits)

text \<open>
  The client's miners are what their handshake made them. A miner's message reaches the channel manager, or its task
  stays up, only when the miner's first frame was a \<open>SetupConnection\<close> for the mining protocol with a version range that
  holds the client's and without work selection, which the client keeps for itself; the miner is then served standard
  jobs exactly when it asked for them, and its extensions are supported ones and include every required one the client
  supports.
\<close>

theorem miner_connection_keeps_its_handshake:
  assumes "miner_start code K decode_any d sent first evs (miner_connection_new supported required) = (os, ctl, c')"
    and "fst ctl = Continue \<or> (\<exists>m. MinerToManager m \<in> set os)"
  shows "\<exists>f msg. first = Some f \<and> fr_ext_type f = 0 \<and> fr_msg_type f = code SETUP_CONNECTION \<and>
    decode_setup_connection K f = Some msg \<and> su_protocol msg = MiningProtocol \<and>
    su_min_version msg \<le> SUPPORTED_PROTOCOL_VERSION \<and> SUPPORTED_PROTOCOL_VERSION \<le> su_max_version msg \<and>
    \<not> has_work_selection K (su_flags msg) \<and> miner_ok (has_requires_std_job K (su_flags msg)) c'"
proof -
  let ?c = "miner_connection_new supported required"
  obtain out rs c1 where hs: "jdc_setup_with_miner code K sent d first ?c = (out, rs, c1)" by (metis prod_cases3)
  have start: "task_start (miner_turn decode_any d) miner_error_action (out, map MinerSetup rs, c1) evs = (os, ctl, c')"
    using assms(1) hs by (simp add: miner_start_def)
  then have "out = Done ()" using assms(2) by (auto simp: task_start_def split: attempt.splits)
  then obtain f msg where f: "first = Some f" "fr_ext_type f = 0" "fr_msg_type f = code SETUP_CONNECTION"
      "decode_setup_connection K f = Some msg" and conn: "jdc_setup_connection K sent d msg ?c = (Done (), rs, c1)"
    using hs by (auto simp: jdc_setup_with_miner_def split: option.splits if_splits)
  have msg: "su_protocol msg = MiningProtocol" "su_min_version msg \<le> SUPPORTED_PROTOCOL_VERSION"
      "SUPPORTED_PROTOCOL_VERSION \<le> su_max_version msg" "\<not> has_work_selection K (su_flags msg)"
    and ok: "miner_ok (has_requires_std_job K (su_flags msg)) c1"
    using conn by (auto simp: jdc_setup_connection_def miner_ok_def miner_connection_new_def Let_def split: if_splits)
  have "miner_ok (has_requires_std_job K (su_flags msg)) c'"
    by (rule task_start_invariant [where P = "miner_ok (has_requires_std_job K (su_flags msg))", OF miner_ok_turn start ok])
  then show ?thesis using f msg by blast
qed

end
