(* ===== verification/Jdc_Runtime.thy ===== *)
theory Jdc_Runtime
  imports Jdc_Connection
begin

text \<open>
  \<open>miner-apps/jd-client/src/lib/jdc_runtime.rs\<close> and \<open>mod.rs\<close>: the life of the Job Declarator Client. It starts its
  Template Provider, goes through its list of upstreams, each a pool and a Job Declarator Server, and runs on the
  first pair it can dial, or alone. A fallback stops what runs and starts again with what is left of the list.

  What the network and the operator do is an argument, \<open>mining_env\<close> for each start. The channel manager itself is
  \<open>Jdc_State.jdc_new\<close>, and what \<open>try_upstream\<close> does to it \<open>Jdc_State.upstream_ready\<close>; here its creation either
  fails with a kind of error or not.
\<close>

section \<open>The Template Provider\<close>

text \<open>Either a provider that speaks the protocol, with what dialling it and its handshake give, or Bitcoin Core over
  its socket, which needs a data directory. To Bitcoin Core goes the number of templates to keep: one more than the
  past jobs, if any are configured.\<close>

datatype template_provider_type = Sv2TpProvider "nat \<Rightarrow> dial" "(jdc_error, unit) result" | BitcoinCoreIpc bool

definition max_same_tip_templates :: "u64 option \<Rightarrow> u64 option" where
  "max_same_tip_templates max_past_jobs =
     (case max_past_jobs of
        Some jobs \<Rightarrow> if jobs > 0 then Some (if jobs = - 1 then jobs else jobs + 1) else None
      | None \<Rightarrow> None)"

definition bootstrap_template_provider ::
  "template_provider_type \<Rightarrow> u64 option \<Rightarrow> (jdc_error_kind, u64 option option) result" where
  "bootstrap_template_provider provider max_past_jobs =
     (case provider of
        Sv2TpProvider dials handshake \<Rightarrow>
          (case provider_new dials of
             Inl e \<Rightarrow> Err (je_kind e)
           | Inr _ \<Rightarrow> (case handshake of Inl e \<Rightarrow> Err (je_kind e) | Inr _ \<Rightarrow> Ok None))
      | BitcoinCoreIpc data_dir \<Rightarrow>
          if data_dir then Ok (Some (max_same_tip_templates max_past_jobs)) else Err JkInvalidBitcoinDataDir)"

section \<open>Choosing an upstream\<close>

text \<open>One attempt: whether the process is cancelled before it or after its failure, and what dialling gives.\<close>

record jdc_try =
  jt_cancelled_before :: bool
  jt_pool :: dial
  jt_jds :: dial
  jt_cancelled_after :: bool

definition as_client_error :: "jdc_error \<Rightarrow> jdc_error" where
  "as_client_error e = (if je_action e = JdcShutdown then jdc_shutdown (je_kind e) else jdc_fallback (je_kind e))"

definition try_initialize_single :: "jdc_try \<Rightarrow> (jdc_error, unit) attempt" where
  "try_initialize_single t =
     (case upstream_new (jt_pool t) of
        Done _ \<Rightarrow>
          (case job_declarator_new (jt_jds t) of
             Done _ \<Rightarrow> Done ()
           | Failed e \<Rightarrow> Failed (as_client_error e)
           | Panicked \<Rightarrow> Panicked)
      | Failed e \<Rightarrow> Failed (as_client_error e)
      | Panicked \<Rightarrow> Panicked)"

fun jdc_attempts :: "(nat \<Rightarrow> jdc_try) \<Rightarrow> nat \<Rightarrow> nat \<Rightarrow> jdc_error_kind try_result" where
  "jdc_attempts tries n 0 = TryExhausted"
| "jdc_attempts tries n (Suc left) =
     (if jt_cancelled_before (tries n) then TryFatal JkCouldNotInitiateSystem
      else (case try_initialize_single (tries n) of
              Done _ \<Rightarrow> TryDone
            | Failed e \<Rightarrow>
                if jt_cancelled_after (tries n) then TryFatal JkCouldNotInitiateSystem
                else if je_action e = JdcShutdown then TryFatal (je_kind e)
                else jdc_attempts tries (n + 1) left
            | Panicked \<Rightarrow> TryExhausted))"

definition MAX_RETRIES :: nat where
  "MAX_RETRIES = 3"

record mining_env =
  me_manager :: "jdc_error_kind option"
  me_cancelled :: "nat \<Rightarrow> bool"
  me_tries :: "nat \<Rightarrow> nat \<Rightarrow> jdc_try"
  me_activated :: bool
  me_services :: "jdc_error_kind option"

definition initialize_jd ::
  "mining_env \<Rightarrow> 'a upstream_entry list \<Rightarrow> (jdc_error_kind, nat \<times> string) result \<times> 'a upstream_entry list" where
  "initialize_jd env us =
     try_upstreams JkCouldNotInitiateSystem (me_cancelled env) (\<lambda>i u. jdc_attempts (me_tries env i) 1 MAX_RETRIES) 0 us"

section \<open>The runtime\<close>

text \<open>What the client mines with: an upstream of its list, or alone.\<close>

datatype mining_on = OnUpstream nat | OnSolo

record 'a jdc_runtime =
  jr_config_mode :: config_jdc_mode
  jr_mode :: config_jdc_mode
  jr_upstreams :: "'a upstream_entry list"
  jr_user_identity :: "string option"

definition jdc_runtime_new ::
  "config_jdc_mode \<Rightarrow> bool \<Rightarrow> ('a \<times> string) list \<Rightarrow> (jdc_error_kind, 'a jdc_runtime) result" where
  "jdc_runtime_new config_mode encoded upstreams =
     (if encoded
      then Ok \<lparr>jr_config_mode = config_mode, jr_mode = SoloMiningMode,
               jr_upstreams = map (\<lambda>(peer, identity).
                 \<lparr>ue_peer = peer, ue_tried_or_flagged = False, ue_user_identity = identity\<rparr>) upstreams,
               jr_user_identity = None\<rparr>
      else Err JkInvalidCoinbaseOutput)"

text \<open>\<open>try_upstream\<close>: both tasks are handshake; the handshake with the Job Declarator Server activates the configured mode
  when it succeeds (\<open>me_activated\<close>).\<close>

definition try_upstream ::
  "mining_env \<Rightarrow> 'a jdc_runtime \<Rightarrow> (jdc_error_kind, nat) result \<times> 'a jdc_runtime" where
  "try_upstream env rt =
     (if jr_upstreams rt = [] then (Err JkNoUpstreamConfig, rt)
      else (case initialize_jd env (jr_upstreams rt) of
              (Inr (i, identity), us) \<Rightarrow>
                (Ok i, rt\<lparr>jr_upstreams := us, jr_user_identity := Some identity,
                          jr_mode := (if me_activated env then jr_config_mode rt else jr_mode rt)\<rparr>)
            | (Inl k, us) \<Rightarrow> (Err k, rt\<lparr>jr_upstreams := us\<rparr>)))"

definition into_solo_mining :: "'a jdc_runtime \<Rightarrow> 'a jdc_runtime" where
  "into_solo_mining rt = rt\<lparr>jr_mode := SoloMiningMode\<rparr>"

definition start_services ::
  "mining_env \<Rightarrow> mining_on \<Rightarrow> 'a jdc_runtime \<Rightarrow> (jdc_error_kind, mining_on) result \<times> 'a jdc_runtime" where
  "start_services env on rt = (case me_services env of Some k \<Rightarrow> (Err k, rt) | None \<Rightarrow> (Ok on, rt))"

definition bootstrap_mining ::
  "mining_env \<Rightarrow> 'a jdc_runtime \<Rightarrow> (jdc_error_kind, mining_on) result \<times> 'a jdc_runtime" where
  "bootstrap_mining env rt0 =
     (let rt = rt0\<lparr>jr_user_identity := None\<rparr>
      in case me_manager env of
           Some k \<Rightarrow> (Err k, rt)
         | None \<Rightarrow>
             if jr_config_mode rt = SoloMiningMode then start_services env OnSolo (into_solo_mining rt)
             else (case try_upstream env rt of
                     (Inr i, rt') \<Rightarrow> start_services env (OnUpstream i) rt'
                   | (Inl k, rt') \<Rightarrow>
                       if k = JkNoUpstreamConfig then (Err k, rt')
                       else start_services env OnSolo (into_solo_mining rt')))"

text \<open>\<open>cleanup_for_fallback\<close> waits for the tasks (\<open>Fallback\<close>), then clears the mode; the flags of the upstreams stay.\<close>

definition cleanup_for_fallback :: "'a jdc_runtime \<Rightarrow> 'a jdc_runtime" where
  "cleanup_for_fallback rt = rt\<lparr>jr_mode := SoloMiningMode\<rparr>"

section \<open>The client\<close>

datatype runtime_event = EvShutdown | EvFallback mining_env

datatype client_end = StillRunning | Stopped | EndedWith jdc_error_kind

text \<open>The loop of \<open>JobDeclaratorClient::start\<close>, with what the client mined on after each start.\<close>

fun jdc_client_waits ::
  "runtime_event list \<Rightarrow> 'a jdc_runtime \<Rightarrow> mining_on list \<times> client_end \<times> 'a jdc_runtime" where
  "jdc_client_waits [] rt = ([], StillRunning, rt)"
| "jdc_client_waits (EvShutdown # evs) rt = ([], Stopped, rt)"
| "jdc_client_waits (EvFallback env # evs) rt =
     (case bootstrap_mining env (cleanup_for_fallback rt) of
        (Inl k, rt') \<Rightarrow> ([], EndedWith k, rt')
      | (Inr on, rt') \<Rightarrow> (let (ons, fin, rt'') = jdc_client_waits evs rt' in (on # ons, fin, rt'')))"

text \<open>\<open>bootstrap\<close> starts the Template Provider first.\<close>

definition jdc_client_start ::
  "config_jdc_mode \<Rightarrow> bool \<Rightarrow> ('a \<times> string) list \<Rightarrow> template_provider_type \<Rightarrow> u64 option \<Rightarrow> mining_env \<Rightarrow> runtime_event list \<Rightarrow>
   mining_on list \<times> client_end" where
  "jdc_client_start config_mode encoded upstreams provider max_past_jobs env evs =
     (case jdc_runtime_new config_mode encoded upstreams of
        Inl k \<Rightarrow> ([], EndedWith k)
      | Inr rt \<Rightarrow>
          (case bootstrap_template_provider provider max_past_jobs of
             Inl k \<Rightarrow> ([], EndedWith k)
           | Inr _ \<Rightarrow>
               (case bootstrap_mining env rt of
                  (Inl k, rt') \<Rightarrow> ([], EndedWith k)
                | (Inr on, rt') \<Rightarrow> (let (ons, fin, rt'') = jdc_client_waits evs rt' in (on # ons, fin)))))"

section \<open>Failover\<close>

fun used_upstreams :: "mining_on list \<Rightarrow> nat list" where
  "used_upstreams [] = []"
| "used_upstreams (OnUpstream i # ons) = i # used_upstreams ons"
| "used_upstreams (OnSolo # ons) = used_upstreams ons"

lemma initialize_jd_untried:
  assumes "initialize_jd env us = (r, us')"
  shows "length us' = length us" and "untried us' \<subseteq> untried us"
    and "r = Ok (i, identity) \<Longrightarrow> i \<in> untried us - untried us'"
  using try_upstreams_untried [OF assms [unfolded initialize_jd_def]] by auto

text \<open>One start: what it leaves of the candidates, and when it fails.\<close>

lemma bootstrap_mining_untried:
  assumes "bootstrap_mining env rt = (r, rt')"
  shows "untried (jr_upstreams rt') \<subseteq> untried (jr_upstreams rt)"
    and "r = Ok (OnUpstream i) \<Longrightarrow> i \<in> untried (jr_upstreams rt) - untried (jr_upstreams rt')"
proof -
  obtain q us where q: "initialize_jd env (jr_upstreams rt) = (q, us)" by fastforce
  note un = initialize_jd_untried [OF q]
  show "untried (jr_upstreams rt') \<subseteq> untried (jr_upstreams rt)"
    using assms q un(2)
    by (auto simp: bootstrap_mining_def try_upstream_def start_services_def into_solo_mining_def Let_def
        split: option.splits if_splits prod.splits sum.splits)
  show "i \<in> untried (jr_upstreams rt) - untried (jr_upstreams rt')" if "r = Ok (OnUpstream i)"
    using assms q un(3) that
    by (auto simp: bootstrap_mining_def try_upstream_def start_services_def into_solo_mining_def Let_def
        split: option.splits if_splits prod.splits sum.splits)
qed

lemma bootstrap_mining_keeps:
  assumes "bootstrap_mining env rt = (r, rt')"
  shows "jr_config_mode rt' = jr_config_mode rt" and "length (jr_upstreams rt') = length (jr_upstreams rt)"
  using assms
  by (auto simp: bootstrap_mining_def try_upstream_def start_services_def into_solo_mining_def Let_def
      split: option.splits if_splits prod.splits sum.splits dest: initialize_jd_untried(1))

text \<open>The kinds of error an attempt ends with are never the one of an empty list.\<close>

lemma jdc_attempts_kind: "jdc_attempts tries n left = TryFatal k \<Longrightarrow> k \<noteq> JkNoUpstreamConfig"
proof (induction tries n left rule: jdc_attempts.induct)
  case (2 tries n left)
  have "je_kind e \<noteq> JkNoUpstreamConfig" if "try_initialize_single (tries n) = Failed e" for e
    using that by (auto simp: try_initialize_single_def as_client_error_def upstream_new_def job_declarator_new_def
        jdc_fallback_def jdc_shutdown_def split: dial.splits)
  then show ?case using 2 by (auto split: if_splits attempt.splits)
qed simp

lemma try_upstreams_kind:
  assumes "try_upstreams exhausted cancelled attempts i us = (Err k, us')" and "exhausted \<noteq> k0"
    and "\<And>i u k. attempts i u = TryFatal k \<Longrightarrow> k \<noteq> k0"
  shows "k \<noteq> k0"
  using assms
  by (induction exhausted cancelled attempts i us arbitrary: k us' rule: try_upstreams.induct)
    (auto simp: Let_def split: if_splits prod.splits try_result.splits)

lemma bootstrap_mining_succeeds:
  assumes "me_manager env = None" and "me_services env = None"
    and "jr_upstreams rt \<noteq> [] \<or> jr_config_mode rt = SoloMiningMode"
  shows "\<exists>on rt'. bootstrap_mining env rt = (Ok on, rt')"
proof -
  have "k \<noteq> JkNoUpstreamConfig" if "initialize_jd env (jr_upstreams rt) = (Err k, us')" for k us'
    using try_upstreams_kind [OF that [unfolded initialize_jd_def], of JkNoUpstreamConfig] jdc_attempts_kind by blast
  then show ?thesis
    using assms by (auto simp: bootstrap_mining_def try_upstream_def start_services_def Let_def split: prod.splits sum.splits)
qed

text \<open>The mode the client runs in: without an upstream it mines alone, whatever it is configured for.\<close>

lemma solo_runs_in_solo_mode:
  assumes "bootstrap_mining env rt = (Ok OnSolo, rt')"
  shows "jr_mode rt' = SoloMiningMode"
  using assms
  by (auto simp: bootstrap_mining_def try_upstream_def start_services_def into_solo_mining_def Let_def
      split: option.splits if_splits prod.splits sum.splits)

lemma waits_used:
  assumes "jdc_client_waits evs rt = (ons, fin, rt')"
  shows "distinct (used_upstreams ons)" and "set (used_upstreams ons) \<subseteq> untried (jr_upstreams rt)"
  using assms
proof (induction evs rt arbitrary: ons fin rt' rule: jdc_client_waits.induct)
  case (3 env evs rt)
  obtain r rt1 where b: "bootstrap_mining env (cleanup_for_fallback rt) = (r, rt1)" by fastforce
  note un = bootstrap_mining_untried [OF b]
  {
    case 1
    show ?case
    proof (cases r)
      case (Inr on)
      then show ?thesis using 1 b un 3(1,2) [OF b [unfolded Inr, symmetric] refl]
        by (cases on) (fastforce split: prod.splits)+
    qed (use 1 b in auto)
  next
    case 2
    show ?case
    proof (cases r)
      case (Inr on)
      then show ?thesis using 2 b un 3(2) [OF b [unfolded Inr, symmetric] refl]
        by (cases on) (fastforce simp: cleanup_for_fallback_def split: prod.splits)+
    qed (use 2 b in auto)
  }
qed auto

lemma waits_not_failed:
  assumes "jdc_client_waits evs rt = (ons, fin, rt')"
    and "\<And>env. EvFallback env \<in> set evs \<Longrightarrow> me_manager env = None \<and> me_services env = None"
    and "jr_upstreams rt \<noteq> [] \<or> jr_config_mode rt = SoloMiningMode"
  shows "fin \<noteq> EndedWith k"
  using assms
proof (induction evs rt arbitrary: ons fin rt' rule: jdc_client_waits.induct)
  case (3 env evs rt)
  obtain on rt1 where b: "bootstrap_mining env (cleanup_for_fallback rt) = (Ok on, rt1)"
    using bootstrap_mining_succeeds [of env "cleanup_for_fallback rt"] 3(3,4) by (auto simp: cleanup_for_fallback_def)
  have "jr_upstreams rt1 \<noteq> [] \<or> jr_config_mode rt1 = SoloMiningMode"
    using bootstrap_mining_keeps [OF b] 3(4) by (auto simp: cleanup_for_fallback_def)
  then show ?case using 3(1) [OF b [symmetric] refl] 3(2,3) b by (fastforce split: prod.splits)
qed auto


text \<open>A client with two upstreams, the first of which refuses the connection three times: it mines on the second, and
  after a fallback alone.\<close>

definition demo_try :: "dial \<Rightarrow> jdc_try" where
  "demo_try dial = \<lparr>jt_cancelled_before = False, jt_pool = dial, jt_jds = DialConnected, jt_cancelled_after = False\<rparr>"

definition demo_mining_env :: mining_env where
  "demo_mining_env = \<lparr>me_manager = None, me_cancelled = \<lambda>_. False,
     me_tries = \<lambda>i _. demo_try (if i = 0 then DialRefused else DialConnected), me_activated = True, me_services = None\<rparr>"


end
