(* ===== verification/Sv2_Upstream.thy ===== *)
theory Sv2_Upstream
  imports Sv1_Share Payout Jdc_Connection
begin

text \<open>
  \<open>miner-apps/translator/src/lib/sv2/upstream/\<close>, \<open>translator_runtime.rs\<close> and \<open>mod.rs\<close>: the translator's task for its
  upstream, a pool or a Job Declarator Client, and the life of the translator, which goes through its list of
  upstreams and stops when none is left. Tasks, dialling and the list are those of \<open>Peer_Tasks\<close>.
\<close>

section \<open>The upstream's task\<close>

definition tproxy_setup_connection_message :: "u16 \<Rightarrow> u16 \<Rightarrow> bool \<Rightarrow> setup_connection" where
  "tproxy_setup_connection_message min_version max_version is_work_selection_enabled =
     \<lparr>su_protocol = MiningProtocol, su_min_version = min_version, su_max_version = max_version,
      su_flags = (if is_work_selection_enabled then 6 else 4)\<rparr>"

text \<open>\<open>ChannelEndpointChanged\<close> and \<open>Reconnect\<close> are \<open>todo!()\<close>.\<close>

definition tproxy_common_frame ::
  "(frame \<Rightarrow> common_from_server option) \<Rightarrow> frame \<Rightarrow> (tproxy_error, unit) attempt" where
  "tproxy_common_frame decode_common f =
     (case decode_common f of
        None \<Rightarrow> Failed (tp_log TpParserError)
      | Some CsSetupSuccess \<Rightarrow> Done ()
      | Some CsSetupError \<Rightarrow> Failed (tp_fallback TpSetupConnectionError)
      | Some CsEndpointChanged \<Rightarrow> Panicked
      | Some CsReconnect \<Rightarrow> Panicked
      | Some CsSetupConnection \<Rightarrow> Failed (tp_log (TpUnexpectedMessage (fr_ext_type f) (fr_msg_type f))))"

definition tproxy_setup_connection ::
  "(message_name \<Rightarrow> u8) \<Rightarrow> (frame \<Rightarrow> common_from_server option) \<Rightarrow> u16 list \<Rightarrow> bool \<Rightarrow> frame option \<Rightarrow> bool \<Rightarrow>
   (tproxy_error, unit) attempt \<times> (frame, 'q) server_output list" where
  "tproxy_setup_connection code decode_common required sent received sent' =
     (let request = ServerSetup (tproxy_setup_connection_message 2 2 False)
      in if \<not> sent then (Failed (tp_fallback ChannelErrorSender), [])
         else case received of
           None \<Rightarrow> (Failed (tp_fallback ChannelErrorReceiver), [request])
         | Some f \<Rightarrow>
             if \<not> is_setup_answer code f
             then (Failed (tp_fallback (TpUnexpectedMessage (fr_ext_type f) (fr_msg_type f))), [request])
             else (case tproxy_common_frame decode_common f of
                     Done _ \<Rightarrow>
                       if required = [] then (Done (), [request])
                       else if length required \<ge> 2 ^ 16 then (Failed (tp_shutdown TpBinarySv2), [request])
                       else if sent' then (Done (), [request, ServerRequestExtensions 1 required])
                       else (Failed (tp_fallback ChannelErrorSender), [request])
                   | failed \<Rightarrow> (failed, [request])))"

definition tproxy_upstream_frame ::
  "(message_name \<Rightarrow> u8) \<Rightarrow> u16 \<Rightarrow> (frame \<Rightarrow> common_from_server option) \<Rightarrow> bool \<Rightarrow> frame option \<Rightarrow>
   (tproxy_error, unit) attempt \<times> frame list" where
  "tproxy_upstream_frame code ext_negotiation decode_common sent received =
     (case received of
        None \<Rightarrow> (Failed (tp_fallback ChannelErrorReceiver), [])
      | Some f \<Rightarrow>
          (let pass_on = (if sent then (Done (), [f]) else (Failed (tp_shutdown ChannelErrorSender), []))
           in case protocol_message_type code ext_negotiation (fr_ext_type f) (fr_msg_type f) of
                Common \<Rightarrow> (tproxy_common_frame decode_common f, [])
              | Mining \<Rightarrow> pass_on
              | Extensions \<Rightarrow> pass_on
              | _ \<Rightarrow> (Failed (tp_fallback (TpUnexpectedMessage (fr_ext_type f) (fr_msg_type f))), [])))"

definition tproxy_from_manager :: "bool \<Rightarrow> 'q option \<Rightarrow> (tproxy_error, unit) attempt \<times> 'q list" where
  "tproxy_from_manager sent received =
     (case received of
        None \<Rightarrow> (Failed (tp_shutdown ChannelErrorReceiver), [])
      | Some m \<Rightarrow> if sent then (Done (), [m]) else (Failed (tp_fallback ChannelErrorSender), []))"

definition tproxy_error_action :: "tproxy_error \<Rightarrow> loop_control \<times> task_signal" where
  "tproxy_error_action e =
     (case tp_action e of
        TpLog \<Rightarrow> (Continue, NoSignal)
      | TpFallback \<Rightarrow> (Break, CancelFallback)
      | TpShutdown \<Rightarrow> (Break, CancelAll)
      | TpDisconnect _ \<Rightarrow> (Continue, NoSignal))"

definition tproxy_turn ::
  "(message_name \<Rightarrow> u8) \<Rightarrow> u16 \<Rightarrow> (frame \<Rightarrow> common_from_server option) \<Rightarrow> 'q task_event \<Rightarrow> unit \<Rightarrow>
   (tproxy_error, unit) attempt \<times> (frame, 'q) server_output list \<times> unit" where
  "tproxy_turn code ext_negotiation decode_common ev s =
     (case ev of
        PeerFrame sent received \<Rightarrow>
          (case tproxy_upstream_frame code ext_negotiation decode_common sent received of
             (out, fs) \<Rightarrow> (out, map ServerToManager fs, s))
      | ManagerMessage sent received \<Rightarrow>
          (case tproxy_from_manager sent received of (out, qs) \<Rightarrow> (out, map ServerMessage qs, s)))"

text \<open>\<open>run_upstream_task\<close>.\<close>

definition run_upstream_task ::
  "(message_name \<Rightarrow> u8) \<Rightarrow> u16 \<Rightarrow> (frame \<Rightarrow> common_from_server option) \<Rightarrow> 'q task_event list \<Rightarrow>
   (frame, 'q) server_output list \<times> (loop_control \<times> task_signal) \<times> unit" where
  "run_upstream_task code ext_negotiation decode_common evs =
     task_loop (tproxy_turn code ext_negotiation decode_common) tproxy_error_action evs ()"

section \<open>Dialling\<close>

definition tproxy_upstream_new :: "bool \<Rightarrow> dial \<Rightarrow> (tproxy_error, unit) attempt" where
  "tproxy_upstream_new cancelled dial =
     (if cancelled then Failed (tp_shutdown CouldNotInitiateSystem)
      else case dial of
        DialConnected \<Rightarrow> Done ()
      | DialUnresolved \<Rightarrow> Failed (tp_fallback NetworkHelpersError)
      | DialTimeout \<Rightarrow> Failed (tp_fallback TpTimeout)
      | DialRefused \<Rightarrow> Failed (tp_fallback TpIo)
      | DialNoPeer \<Rightarrow> Failed (tp_fallback TpIo)
      | DialCancelled \<Rightarrow> Failed (tp_shutdown CouldNotInitiateSystem)
      | DialInvalidKey \<Rightarrow> Failed (tp_fallback InvalidKey)
      | DialNoiseFailed \<Rightarrow> Failed (tp_fallback NetworkHelpersError))"

text \<open>One attempt: dialling, then \<open>Upstream::start\<close> with the handshake, unless a token is cancelled meanwhile
  (\<open>tt_interrupted\<close>), which counts as a start.\<close>

record tproxy_try =
  tt_cancelled :: bool
  tt_dial :: dial
  tt_interrupted :: bool
  tt_sent :: bool
  tt_answer :: "frame option"
  tt_sent_extensions :: bool

definition tproxy_upstream_start ::
  "(message_name \<Rightarrow> u8) \<Rightarrow> (frame \<Rightarrow> common_from_server option) \<Rightarrow> u16 list \<Rightarrow> tproxy_try \<Rightarrow> (tproxy_error, unit) attempt" where
  "tproxy_upstream_start code decode_common required t =
     (if tt_interrupted t then Done ()
      else fst (tproxy_setup_connection code decode_common required (tt_sent t) (tt_answer t) (tt_sent_extensions t) ::
        (tproxy_error, unit) attempt \<times> (frame, unit) server_output list))"

definition try_initialize_upstream_single ::
  "(message_name \<Rightarrow> u8) \<Rightarrow> (frame \<Rightarrow> common_from_server option) \<Rightarrow> u16 list \<Rightarrow> tproxy_try \<Rightarrow> (tproxy_error, unit) attempt" where
  "try_initialize_upstream_single code decode_common required t =
     (case tproxy_upstream_new (tt_cancelled t) (tt_dial t) of
        Done _ \<Rightarrow> tproxy_upstream_start code decode_common required t
      | failed \<Rightarrow> failed)"

section \<open>The runtime\<close>

text \<open>\<open>expected_payout_distribution\<close>: with verification on, an identity that names no payout of the miner is an error.\<close>

definition expected_payout_distribution ::
  "script_lib \<Rightarrow> bool \<Rightarrow> string \<Rightarrow> (payout_mode_error, payout_mode option) result" where
  "expected_payout_distribution L verify_payout user_identity =
     (if \<not> verify_payout then Ok None
      else case payout_mode_try_from L user_identity of
        Inr FullDonation \<Rightarrow> Err (MissingMinerPayout user_identity MissingFullDonation)
      | Inr m \<Rightarrow> Ok (Some m)
      | Inl (NoPayoutMode _) \<Rightarrow> Err (MissingMinerPayout user_identity MissingNoPayoutMode)
      | Inl e \<Rightarrow> Err e)"

text \<open>What the runtime is configured with; \<open>tc_render\<close> is the text of a payout error.\<close>

record tproxy_config =
  tc_scripts :: script_lib
  tc_verify_payout :: bool
  tc_render :: "string \<Rightarrow> payout_mode_error \<Rightarrow> bytes"
  tc_code :: "message_name \<Rightarrow> u8"
  tc_decode_common :: "frame \<Rightarrow> common_from_server option"
  tc_required_extensions :: "u16 list"

definition tproxy_payout_mode :: "tproxy_config \<Rightarrow> string \<Rightarrow> (tproxy_error_kind, payout_mode option) result" where
  "tproxy_payout_mode cfg user_identity =
     (case expected_payout_distribution (tc_scripts cfg) (tc_verify_payout cfg) user_identity of
        Inl e \<Rightarrow> Err (InvalidUserIdentityName (tc_render cfg user_identity e))
      | Inr p \<Rightarrow> Ok p)"

fun tproxy_attempts ::
  "tproxy_config \<Rightarrow> (nat \<Rightarrow> tproxy_try) \<Rightarrow> string \<Rightarrow> nat \<Rightarrow> nat \<Rightarrow> tproxy_error_kind try_result" where
  "tproxy_attempts cfg tries user_identity n 0 = TryExhausted"
| "tproxy_attempts cfg tries user_identity n (Suc left) =
     (case try_initialize_upstream_single (tc_code cfg) (tc_decode_common cfg) (tc_required_extensions cfg) (tries n) of
        Done _ \<Rightarrow> (case tproxy_payout_mode cfg user_identity of Inl k \<Rightarrow> TryFatal k | Inr _ \<Rightarrow> TryDone)
      | Failed e \<Rightarrow>
          if tp_action e = TpShutdown then TryFatal (tp_kind e)
          else tproxy_attempts cfg tries user_identity (n + 1) left
      | Panicked \<Rightarrow> TryExhausted)"

definition TPROXY_MAX_RETRIES :: nat where
  "TPROXY_MAX_RETRIES = 3"

text \<open>The state: the upstreams, and of the channel manager and the SV1 server the payout that is verified and the
  identity that is used.\<close>

record 'a translator_runtime =
  tr_upstreams :: "'a upstream_entry list"
  tr_payout :: "payout_mode option option"
  tr_user_identity :: "string option"

definition translator_runtime_new ::
  "bool \<Rightarrow> ('a \<times> string) list \<Rightarrow> (tproxy_error_kind, 'a translator_runtime) result" where
  "translator_runtime_new address_ok upstreams =
     (if address_ok
      then Ok \<lparr>tr_upstreams = map (\<lambda>(peer, identity).
                 \<lparr>ue_peer = peer, ue_tried_or_flagged = False, ue_user_identity = identity\<rparr>) upstreams,
               tr_payout = None, tr_user_identity = None\<rparr>
      else Err TpGeneral)"

definition initialize_upstream ::
  "tproxy_config \<Rightarrow> (nat \<Rightarrow> nat \<Rightarrow> tproxy_try) \<Rightarrow> 'a translator_runtime \<Rightarrow>
   (tproxy_error_kind, nat) result \<times> 'a translator_runtime" where
  "initialize_upstream cfg tries rt =
     (case try_upstreams CouldNotInitiateSystem (\<lambda>_. False)
             (\<lambda>i u. tproxy_attempts cfg (tries i) (ue_user_identity u) 1 TPROXY_MAX_RETRIES) 0 (tr_upstreams rt) of
        (Inl k, us) \<Rightarrow> (Err k, rt\<lparr>tr_upstreams := us\<rparr>)
      | (Inr (i, identity), us) \<Rightarrow>
          (case tproxy_payout_mode cfg identity of
             Inl k \<Rightarrow> (Err k, rt\<lparr>tr_upstreams := us\<rparr>)
           | Inr p \<Rightarrow> (Ok i, rt\<lparr>tr_upstreams := us, tr_payout := Some p, tr_user_identity := Some identity\<rparr>)))"

text \<open>\<open>try_upstream\<close> and \<open>start_services\<close> (\<open>services\<close> is the error of a service that cannot be started).\<close>

definition tproxy_bootstrap ::
  "tproxy_config \<Rightarrow> (nat \<Rightarrow> nat \<Rightarrow> tproxy_try) \<times> tproxy_error_kind option \<Rightarrow> 'a translator_runtime \<Rightarrow>
   (tproxy_error_kind, nat) result \<times> 'a translator_runtime" where
  "tproxy_bootstrap cfg env rt =
     (case initialize_upstream cfg (fst env) rt of
        (Inl k, rt') \<Rightarrow> (Err k, rt')
      | (Inr i, rt') \<Rightarrow> (case snd env of Some k \<Rightarrow> (Err k, rt') | None \<Rightarrow> (Ok i, rt')))"

text \<open>\<open>cleanup_for_fallback\<close>: a new channel manager and a new SV1 server, the flags of the upstreams stay.\<close>

definition tproxy_cleanup :: "'a translator_runtime \<Rightarrow> 'a translator_runtime" where
  "tproxy_cleanup rt = rt\<lparr>tr_payout := None, tr_user_identity := None\<rparr>"

datatype tproxy_event = TeShutdown | TeFallback "(nat \<Rightarrow> nat \<Rightarrow> tproxy_try) \<times> tproxy_error_kind option"

datatype tproxy_end = TproxyRunning | TproxyStopped | TproxyEndedWith tproxy_error_kind

fun tproxy_waits ::
  "tproxy_config \<Rightarrow> tproxy_event list \<Rightarrow> 'a translator_runtime \<Rightarrow> nat list \<times> tproxy_end \<times> 'a translator_runtime" where
  "tproxy_waits cfg [] rt = ([], TproxyRunning, rt)"
| "tproxy_waits cfg (TeShutdown # evs) rt = ([], TproxyStopped, rt)"
| "tproxy_waits cfg (TeFallback env # evs) rt =
     (case tproxy_bootstrap cfg env (tproxy_cleanup rt) of
        (Inl k, rt') \<Rightarrow> ([], TproxyEndedWith k, rt')
      | (Inr i, rt') \<Rightarrow> (let (used, fin, rt'') = tproxy_waits cfg evs rt' in (i # used, fin, rt'')))"

definition tproxy_start ::
  "tproxy_config \<Rightarrow> bool \<Rightarrow> ('a \<times> string) list \<Rightarrow> (nat \<Rightarrow> nat \<Rightarrow> tproxy_try) \<times> tproxy_error_kind option \<Rightarrow> tproxy_event list \<Rightarrow>
   nat list \<times> tproxy_end \<times> 'a translator_runtime option" where
  "tproxy_start cfg address_ok upstreams env evs =
     (case translator_runtime_new address_ok upstreams of
        Inl k \<Rightarrow> ([], TproxyEndedWith k, None)
      | Inr rt \<Rightarrow>
          (case tproxy_bootstrap cfg env rt of
             (Inl k, rt') \<Rightarrow> ([], TproxyEndedWith k, Some rt')
           | (Inr i, rt') \<Rightarrow> (let (used, fin, rt'') = tproxy_waits cfg evs rt' in (i # used, fin, Some rt''))))"

section \<open>The translator among the other applications\<close>

text \<open>
  The translator fits both upstreams of this repository. The pool gives it ordinary work, and the Job Declarator Client
  takes it as a miner: it asks for no work selection.
\<close>

theorem translator_fits_its_upstreams:
  assumes "\<not> has_work_selection K 4"
  shows "pool_setup_connection K True d (tproxy_setup_connection_message 2 2 False) c =
      (Done (), [SetupConnectionSuccess 2 0],
       c\<lparr>pd_requires_custom_work := False, pd_requires_standard_jobs := has_requires_std_job K 4\<rparr>)"
    and "fst (jdc_setup_connection K True d (tproxy_setup_connection_message 2 2 False) m) = Done ()"
  using assms
  by (auto simp: pool_setup_connection_def jdc_setup_connection_def tproxy_setup_connection_message_def
      SUPPORTED_PROTOCOL_VERSION_def Let_def)

text \<open>
  C39. One message of the upstream aborts the translator. While its task runs, the next event takes down the whole process
  exactly when it is a frame that decodes as \<open>ChannelEndpointChanged\<close> or \<open>Reconnect\<close>, ordinary messages of the common
  protocol: their handlers are \<open>todo!()\<close>, and the panic drops the task's \<open>FallbackHandler\<close> without \<open>done\<close>, which
  panics again.
\<close>

theorem reconnect_aborts_the_translator:
  assumes "run_upstream_task code en decode_common evs = (os, (Continue, signal), u)"
  shows "task_end (run_upstream_task code en decode_common (evs @ [ev])) = DropAborts \<longleftrightarrow>
    (\<exists>sent f. ev = PeerFrame sent (Some f) \<and>
       protocol_message_type code en (fr_ext_type f) (fr_msg_type f) = Common \<and>
       decode_common f \<in> {Some CsEndpointChanged, Some CsReconnect})"
  using assms
  by (auto simp: run_upstream_task_def task_loop_append tproxy_turn_def tproxy_upstream_frame_def tproxy_from_manager_def
      tproxy_common_frame_def turn_control_def task_end_def drop_fallback_handler_def tproxy_error_action_def tp_log_def
      tp_fallback_def tp_shutdown_def Let_def
      split: task_event.splits option.splits message_type.splits common_from_server.splits if_splits prod.splits
        loop_control.splits)

definition demo_reconnect :: frame where
  "demo_reconnect = \<lparr>fr_ext_type = 0, fr_msg_type = 4, fr_payload = []\<rparr>"

definition demo_codes :: "message_name \<Rightarrow> u8" where
  "demo_codes n = (if n = RECONNECT then 4 else 5)"

theorem reconnect_aborts_the_translator_witness:
  "task_end (run_upstream_task demo_codes 1 (\<lambda>_. Some CsReconnect) ([] @ [PeerFrame True (Some demo_reconnect) :: unit task_event])) =
     DropAborts"
proof -
  have run: "run_upstream_task demo_codes 1 (\<lambda>_. Some CsReconnect) ([] :: unit task_event list) = ([], (Continue, NoSignal), ())"
    by (simp add: run_upstream_task_def)
  have "protocol_message_type demo_codes 1 (fr_ext_type demo_reconnect) (fr_msg_type demo_reconnect) = Common"
    by (simp add: demo_reconnect_def demo_codes_def protocol_message_type_def is_common_message_def)
  then show ?thesis using reconnect_aborts_the_translator [OF run, of "PeerFrame True (Some demo_reconnect)"] by auto
qed

section \<open>Failover\<close>

lemma initialize_upstream_untried:
  assumes "initialize_upstream cfg tries rt = (r, rt')"
  shows "length (tr_upstreams rt') = length (tr_upstreams rt)"
    and "untried (tr_upstreams rt') \<subseteq> untried (tr_upstreams rt)"
    and "r = Ok i \<Longrightarrow> i \<in> untried (tr_upstreams rt) - untried (tr_upstreams rt')"
proof -
  obtain q us where q: "try_upstreams CouldNotInitiateSystem (\<lambda>_. False)
      (\<lambda>i u. tproxy_attempts cfg (tries i) (ue_user_identity u) 1 TPROXY_MAX_RETRIES) 0 (tr_upstreams rt) = (q, us)"
    by fastforce
  have us: "tr_upstreams rt' = us"
    using assms q by (auto simp: initialize_upstream_def split: sum.splits prod.splits)
  have "q = Ok (i, identity)" if "r = Ok i" "q = Ok (i', identity)" for i' identity
    using assms q that by (auto simp: initialize_upstream_def split: sum.splits)
  moreover have "\<exists>i' identity. q = Ok (i', identity)" if "r = Ok i"
    using assms q that by (cases q) (auto simp: initialize_upstream_def)
  ultimately show "length (tr_upstreams rt') = length (tr_upstreams rt)"
      "untried (tr_upstreams rt') \<subseteq> untried (tr_upstreams rt)"
      "r = Ok i \<Longrightarrow> i \<in> untried (tr_upstreams rt) - untried (tr_upstreams rt')"
    using try_upstreams_untried [OF q] us by auto
qed

text \<open>What a start leaves: the candidates, and the payout that is verified.\<close>

lemma tproxy_bootstrap_untried:
  assumes "tproxy_bootstrap cfg env rt = (r, rt')"
  shows "length (tr_upstreams rt') = length (tr_upstreams rt)"
    and "untried (tr_upstreams rt') \<subseteq> untried (tr_upstreams rt)"
    and "r = Ok i \<Longrightarrow> i \<in> untried (tr_upstreams rt) - untried (tr_upstreams rt')"
proof -
  obtain q rt1 where q: "initialize_upstream cfg (fst env) rt = (q, rt1)" by fastforce
  have "rt' = rt1" "r = Ok i \<Longrightarrow> q = Ok i"
    using assms q by (auto simp: tproxy_bootstrap_def split: sum.splits option.splits)
  then show "length (tr_upstreams rt') = length (tr_upstreams rt)"
      "untried (tr_upstreams rt') \<subseteq> untried (tr_upstreams rt)"
      "r = Ok i \<Longrightarrow> i \<in> untried (tr_upstreams rt) - untried (tr_upstreams rt')"
    using initialize_upstream_untried [OF q] by blast+
qed

definition payout_verified :: "tproxy_config \<Rightarrow> 'a translator_runtime \<Rightarrow> bool" where
  "payout_verified cfg rt \<longleftrightarrow>
     (\<exists>identity m. tr_user_identity rt = Some identity \<and> payout_mode_try_from (tc_scripts cfg) identity = Ok m \<and>
        tr_payout rt = Some (Some m) \<and> miner_script_pubkey m \<noteq> None)"

lemma expected_payout_names_a_miner:
  assumes "expected_payout_distribution L True identity = Ok p"
  shows "\<exists>m. p = Some m \<and> payout_mode_try_from L identity = Ok m \<and> miner_script_pubkey m \<noteq> None"
  using assms
  by (auto simp: expected_payout_distribution_def split: sum.splits payout_mode.splits payout_mode_error.splits)

lemma tproxy_bootstrap_payout:
  assumes "tproxy_bootstrap cfg env rt = (Ok i, rt')" and "tc_verify_payout cfg"
  shows "payout_verified cfg rt'"
proof -
  have init: "initialize_upstream cfg (fst env) rt = (Ok i, rt')"
    using assms(1) by (auto simp: tproxy_bootstrap_def split: prod.splits sum.splits option.splits)
  then obtain identity p where p: "tproxy_payout_mode cfg identity = Ok p" "tr_payout rt' = Some p"
      "tr_user_identity rt' = Some identity"
    by (auto simp: initialize_upstream_def split: prod.splits sum.splits)
  then have "expected_payout_distribution (tc_scripts cfg) True identity = Ok p"
    using assms(2) by (auto simp: tproxy_payout_mode_def split: sum.splits)
  from expected_payout_names_a_miner [OF this] show ?thesis using p by (auto simp: payout_verified_def)
qed

lemma tproxy_waits_used:
  assumes "tproxy_waits cfg evs rt = (used, fin, rt')"
  shows "distinct used" and "set used \<subseteq> untried (tr_upstreams rt)"
    and "fin = TproxyRunning \<Longrightarrow> length used = length evs"
    and "fin = TproxyRunning \<Longrightarrow> tc_verify_payout cfg \<Longrightarrow> payout_verified cfg rt \<Longrightarrow> payout_verified cfg rt'"
  using assms
proof (induction cfg evs rt arbitrary: used fin rt' rule: tproxy_waits.induct)
  case (3 cfg env evs rt)
  obtain r rt1 where b: "tproxy_bootstrap cfg env (tproxy_cleanup rt) = (r, rt1)" by fastforce
  have un: "untried (tr_upstreams rt1) \<subseteq> untried (tr_upstreams rt)"
      "r = Ok i \<Longrightarrow> i \<in> untried (tr_upstreams rt) - untried (tr_upstreams rt1)" for i
    using tproxy_bootstrap_untried [OF b] by (simp_all add: tproxy_cleanup_def)
  obtain used1 fin1 rt2 where w: "tproxy_waits cfg evs rt1 = (used1, fin1, rt2)" by (metis prod_cases3)
  have IH: "distinct used1" "set used1 \<subseteq> untried (tr_upstreams rt1)" "fin1 = TproxyRunning \<Longrightarrow> length used1 = length evs"
      "fin1 = TproxyRunning \<Longrightarrow> tc_verify_payout cfg \<Longrightarrow> payout_verified cfg rt1 \<Longrightarrow> payout_verified cfg rt2"
    if "r = Ok i" for i
    using 3 [OF b [unfolded that, symmetric] refl] w by blast+
  {
    case 1
    then show ?case using b w un IH(1,2) by (cases r) fastforce+
  next
    case 2
    then show ?case using b w un IH(2) by (cases r) fastforce+
  next
    case 3
    then show ?case using b w IH(3) by (cases r) fastforce+
  next
    case 4
    then show ?case using b w IH(4) tproxy_bootstrap_payout [of cfg env "tproxy_cleanup rt" _ rt1] by (cases r) fastforce+
  }
qed auto

text \<open>
  C37. Failover of the translator ends. No upstream is used twice, whatever the network does; a translator that is still
  running has gone through fewer fallbacks than it has upstreams, and one more than that stops it. While it runs with
  verification on, the payout it checks every job against is the one its current identity names, and names the miner.
\<close>

theorem translator_failover_ends:
  assumes "tproxy_start cfg address_ok upstreams env evs = (used, fin, rt)"
  shows "distinct used \<and> set used \<subseteq> {..<length upstreams} \<and>
    (fin = TproxyRunning \<longrightarrow> length evs < length upstreams \<and>
       (tc_verify_payout cfg \<longrightarrow> (\<exists>r. rt = Some r \<and> payout_verified cfg r)))"
proof (cases "address_ok \<and> (\<exists>i rt1. tproxy_bootstrap cfg env (projr (translator_runtime_new True upstreams)) = (Ok i, rt1))")
  case False
  then show ?thesis using assms
    by (auto simp: tproxy_start_def translator_runtime_new_def split: sum.splits prod.splits if_splits)
next
  case True
  define rt0 where "rt0 = projr (translator_runtime_new True upstreams)"
  have rt0: "translator_runtime_new address_ok upstreams = Ok rt0" "length (tr_upstreams rt0) = length upstreams"
    using True by (simp_all add: rt0_def translator_runtime_new_def)
  obtain i rt1 where b: "tproxy_bootstrap cfg env rt0 = (Ok i, rt1)" using True by (auto simp: rt0_def)
  obtain used1 rt2 where w: "tproxy_waits cfg evs rt1 = (used1, fin, rt2)" and u: "used = i # used1" "rt = Some rt2"
    using assms rt0 b by (auto simp: tproxy_start_def split: prod.splits)
  have un: "distinct used" "set used \<subseteq> untried (tr_upstreams rt0)"
    using tproxy_waits_used(1,2) [OF w] tproxy_bootstrap_untried [OF b] u by fastforce+
  have bound: "untried (tr_upstreams rt0) \<subseteq> {..<length upstreams}" using rt0 by (auto simp: untried_def)
  have "length used \<le> length upstreams"
    using distinct_card [OF un(1)] card_mono [OF _ subset_trans [OF un(2) bound]] by simp
  then show ?thesis
    using un bound u tproxy_waits_used(3,4) [OF w] tproxy_bootstrap_payout [OF b] by auto
qed

text \<open>A translator with two upstreams: the first answers its set-up, the second refuses every connection, so the first
  fallback ends it.\<close>

definition demo_tproxy_try :: "dial \<Rightarrow> tproxy_try" where
  "demo_tproxy_try dial = \<lparr>tt_cancelled = False, tt_dial = dial, tt_interrupted = False, tt_sent = True,
     tt_answer = Some \<lparr>fr_ext_type = 0, fr_msg_type = 5, fr_payload = []\<rparr>, tt_sent_extensions = True\<rparr>"

definition demo_tries :: "nat \<Rightarrow> nat \<Rightarrow> tproxy_try" where
  "demo_tries i _ = demo_tproxy_try (if i = 0 then DialConnected else DialRefused)"

definition demo_tproxy_config :: tproxy_config where
  "demo_tproxy_config = \<lparr>tc_scripts = demo_scripts, tc_verify_payout = False, tc_render = \<lambda>_ _. [], tc_code = demo_codes,
     tc_decode_common = \<lambda>_. Some CsSetupSuccess, tc_required_extensions = []\<rparr>"

theorem translator_failover_ends_witness:
  "\<exists>rt. tproxy_start demo_tproxy_config True [((), ''a''), ((), ''b'')] (demo_tries, None) [TeFallback (demo_tries, None)] =
     ([0], TproxyEndedWith CouldNotInitiateSystem, rt) \<and> distinct [0::nat] \<and> set [0] \<subseteq> {..<length [((), ''a''), ((), ''b'')]}"
proof -
  obtain rt where run: "tproxy_start demo_tproxy_config True [((), ''a''), ((), ''b'')] (demo_tries, None)
      [TeFallback (demo_tries, None)] = ([0], TproxyEndedWith CouldNotInitiateSystem, rt)"
    by (simp add: tproxy_start_def translator_runtime_new_def tproxy_bootstrap_def initialize_upstream_def
        TPROXY_MAX_RETRIES_def numeral_3_eq_3 try_initialize_upstream_single_def tproxy_upstream_new_def
        tproxy_upstream_start_def tproxy_setup_connection_def tproxy_common_frame_def is_setup_answer_def demo_codes_def
        demo_tries_def demo_tproxy_try_def demo_tproxy_config_def tproxy_payout_mode_def expected_payout_distribution_def
        tproxy_cleanup_def tp_fallback_def)
  from translator_failover_ends [OF run] run show ?thesis by blast
qed

end
