(* ===== verification/Pool_Template_Receiver.thy ===== *)
theory Pool_Template_Receiver
  imports Pool_State Peer_Tasks
begin

text \<open>
  \<open>pool-apps/pool/src/lib/template_receiver/sv2_tp/\<close>: the pool's task for a Template Provider that speaks the
  protocol itself. It dials, makes the handshake and passes the messages of template distribution between the provider
  and the channel manager. The pool has one provider only: whatever goes wrong with it for good stops the pool.
\<close>

section \<open>Dialling\<close>

fun sv2_tp_attempts :: "(nat \<Rightarrow> dial) \<Rightarrow> nat \<Rightarrow> nat \<Rightarrow> (pool_error, unit) attempt" where
  "sv2_tp_attempts dial n 0 = Failed (pool_shutdown PkCouldNotInitiateSystem)"
| "sv2_tp_attempts dial n (Suc left) =
     (case dial n of
        DialConnected \<Rightarrow> Done ()
      | DialTimeout \<Rightarrow> Failed (pool_shutdown PkTimeout)
      | DialCancelled \<Rightarrow> Failed (pool_shutdown PkCouldNotInitiateSystem)
      | DialInvalidKey \<Rightarrow> Failed (pool_shutdown PkInvalidKey)
      | _ \<Rightarrow> sv2_tp_attempts dial (n + 1) left)"

definition sv2_tp_new :: "(nat \<Rightarrow> dial) \<Rightarrow> (pool_error, unit) attempt" where
  "sv2_tp_new dial = sv2_tp_attempts dial 1 3"

section \<open>The handshake\<close>

definition pool_setup_connection_message_tp :: setup_connection where
  "pool_setup_connection_message_tp =
     \<lparr>su_protocol = TemplateDistributionProtocol, su_min_version = 2, su_max_version = 2, su_flags = 0\<rparr>"

definition sv2_tp_common_frame ::
  "(frame \<Rightarrow> common_from_server option) \<Rightarrow> frame \<Rightarrow> (pool_error, unit) attempt" where
  "sv2_tp_common_frame decode_common f =
     (case decode_common f of
        None \<Rightarrow> Failed (pool_log PkParser)
      | Some CsSetupSuccess \<Rightarrow> Done ()
      | Some CsEndpointChanged \<Rightarrow> Failed (pool_shutdown PkChangeEndpoint)
      | Some CsReconnect \<Rightarrow> Done ()
      | Some CsSetupError \<Rightarrow> Failed (pool_shutdown PkSetupConnectionError)
      | Some CsSetupConnection \<Rightarrow> Failed (pool_log (PkUnexpectedMessage (fr_ext_type f) (fr_msg_type f))))"

definition sv2_tp_setup_connection ::
  "(message_name \<Rightarrow> u8) \<Rightarrow> (frame \<Rightarrow> common_from_server option) \<Rightarrow> bool \<Rightarrow> bool \<Rightarrow> frame option \<Rightarrow>
   (pool_error, unit) attempt \<times> setup_connection list" where
  "sv2_tp_setup_connection code decode_common resolved sent received =
     (if \<not> resolved then (Failed (pool_shutdown PkInvalidSocketAddress), [])
      else if \<not> sent then (Failed (pool_shutdown PkChannelErrorSender), [])
      else case received of
        None \<Rightarrow> (Failed (pool_shutdown PkChannelRecv), [pool_setup_connection_message_tp])
      | Some f \<Rightarrow>
          (if is_setup_answer code f then sv2_tp_common_frame decode_common f
           else Failed (pool_shutdown (PkUnexpectedMessage (fr_ext_type f) (fr_msg_type f))),
           [pool_setup_connection_message_tp]))"

section \<open>The loop\<close>

definition sv2_tp_frame ::
  "(message_name \<Rightarrow> u8) \<Rightarrow> u16 \<Rightarrow> (frame \<Rightarrow> common_from_server option) \<Rightarrow> (frame \<Rightarrow> 't option) \<Rightarrow> bool \<Rightarrow> frame option \<Rightarrow>
   (pool_error, unit) attempt \<times> 't list" where
  "sv2_tp_frame code ext_negotiation decode_common decode_td sent received =
     (case received of
        None \<Rightarrow> (Failed (pool_shutdown PkChannelRecv), [])
      | Some f \<Rightarrow>
          (case protocol_message_type code ext_negotiation (fr_ext_type f) (fr_msg_type f) of
             Common \<Rightarrow> (sv2_tp_common_frame decode_common f, [])
           | TemplateDistribution \<Rightarrow>
               (case decode_td f of
                  None \<Rightarrow> (Failed (pool_shutdown PkParser), [])
                | Some m \<Rightarrow> if sent then (Done (), [m]) else (Failed (pool_shutdown PkChannelErrorSender), []))
           | _ \<Rightarrow> (Done (), [])))"

definition sv2_tp_from_manager :: "bool \<Rightarrow> 'q option \<Rightarrow> (pool_error, unit) attempt \<times> 'q list" where
  "sv2_tp_from_manager sent received =
     (case received of
        None \<Rightarrow> (Failed (pool_shutdown PkChannelRecv), [])
      | Some m \<Rightarrow> if sent then (Done (), [m]) else (Failed (pool_shutdown PkChannelErrorSender), []))"

definition sv2_tp_error_action :: "pool_error \<Rightarrow> loop_control \<times> task_signal" where
  "sv2_tp_error_action e = (case pe_action e of PoolShutdown \<Rightarrow> (Break, CancelAll) | _ \<Rightarrow> (Continue, NoSignal))"

definition sv2_tp_turn ::
  "(message_name \<Rightarrow> u8) \<Rightarrow> u16 \<Rightarrow> (frame \<Rightarrow> common_from_server option) \<Rightarrow> (frame \<Rightarrow> 't option) \<Rightarrow> 'q task_event \<Rightarrow> unit \<Rightarrow>
   (pool_error, unit) attempt \<times> ('t, 'q) server_output list \<times> unit" where
  "sv2_tp_turn code ext_negotiation decode_common decode_td ev s =
     (case ev of
        PeerFrame sent received \<Rightarrow>
          (case sv2_tp_frame code ext_negotiation decode_common decode_td sent received of
             (out, ms) \<Rightarrow> (out, map ServerToManager ms, s))
      | ManagerMessage sent received \<Rightarrow>
          (case sv2_tp_from_manager sent received of (out, qs) \<Rightarrow> (out, map ServerMessage qs, s)))"

definition sv2_tp_start ::
  "(message_name \<Rightarrow> u8) \<Rightarrow> u16 \<Rightarrow> (frame \<Rightarrow> common_from_server option) \<Rightarrow> (frame \<Rightarrow> 't option) \<Rightarrow> bool \<Rightarrow> bool \<Rightarrow>
   frame option \<Rightarrow> 'q task_event list \<Rightarrow>
   (pool_error, ('t, 'q) server_output list \<times> (loop_control \<times> task_signal)) attempt" where
  "sv2_tp_start code ext_negotiation decode_common decode_td resolved sent first evs =
     (case sv2_tp_setup_connection code decode_common resolved sent first of
        (Done _, ss) \<Rightarrow>
          (case task_loop (sv2_tp_turn code ext_negotiation decode_common decode_td) sv2_tp_error_action evs () of
             (os, ctl, _) \<Rightarrow> Done (map ServerSetup ss @ os, ctl))
      | (Failed e, _) \<Rightarrow> Failed e
      | (Panicked, _) \<Rightarrow> Panicked)"

section \<open>What the pool can rely on\<close>

text \<open>The connection stands exactly when one of the first three tries succeeds and only refusals and failed handshakes
  came before it.\<close>

definition soft_failure :: "dial \<Rightarrow> bool" where
  "soft_failure d \<longleftrightarrow> d \<in> {DialUnresolved, DialRefused, DialNoPeer, DialNoiseFailed}"

lemma sv2_tp_attempts_iff:
  "sv2_tp_attempts dial n left = Done () \<longleftrightarrow>
     (\<exists>m<left. dial (n + m) = DialConnected \<and> (\<forall>l<m. soft_failure (dial (n + l))))"
proof (induction dial n left rule: sv2_tp_attempts.induct)
  case (2 dial n left)
  have split: "(\<exists>m<Suc left. dial (n + m) = DialConnected \<and> (\<forall>l<m. soft_failure (dial (n + l)))) \<longleftrightarrow>
      dial n = DialConnected \<or>
      soft_failure (dial n) \<and> (\<exists>m<left. dial (n + 1 + m) = DialConnected \<and> (\<forall>l<m. soft_failure (dial (n + 1 + l))))"
    by (simp only: Ex_less_Suc2 All_less_Suc2) auto
  show ?case using 2 unfolding split by (cases "dial n") (auto simp: soft_failure_def)
qed simp

theorem provider_is_dialled_three_times:
  "sv2_tp_new dial = Done () \<longleftrightarrow>
     (\<exists>m\<in>{1..3}. dial m = DialConnected \<and> (\<forall>l. 1 \<le> l \<and> l < m \<longrightarrow> soft_failure (dial l)))"
proof -
  have "(\<exists>m<3. dial (1 + m) = DialConnected \<and> (\<forall>l<m. soft_failure (dial (1 + l)))) \<longleftrightarrow>
      (\<exists>m\<in>{1..3}. dial m = DialConnected \<and> (\<forall>l. 1 \<le> l \<and> l < m \<longrightarrow> soft_failure (dial l)))"
  proof
    assume "\<exists>m<3. dial (1 + m) = DialConnected \<and> (\<forall>l<m. soft_failure (dial (1 + l)))"
    then obtain m where m: "m < 3" "dial (1 + m) = DialConnected" "\<forall>l<m. soft_failure (dial (1 + l))" by blast
    have "soft_failure (dial l)" if "1 \<le> l \<and> l < 1 + m" for l using m(3) that by (cases l) auto
    then show "\<exists>m\<in>{1..3}. dial m = DialConnected \<and> (\<forall>l. 1 \<le> l \<and> l < m \<longrightarrow> soft_failure (dial l))"
      using m(1,2) by (intro bexI [of _ "1 + m"]) auto
  next
    assume "\<exists>m\<in>{1..3}. dial m = DialConnected \<and> (\<forall>l. 1 \<le> l \<and> l < m \<longrightarrow> soft_failure (dial l))"
    then obtain m where m: "1 \<le> m" "m \<le> 3" "dial m = DialConnected" "\<And>l. 1 \<le> l \<and> l < m \<Longrightarrow> soft_failure (dial l)"
      by auto
    then show "\<exists>m<3. dial (1 + m) = DialConnected \<and> (\<forall>l<m. soft_failure (dial (1 + l)))"
      by (intro exI [of _ "m - 1"]) auto
  qed
  then show ?thesis by (simp add: sv2_tp_new_def sv2_tp_attempts_iff)
qed

text \<open>A provider that goes away, or announces another endpoint, stops the pool; nothing else it sends in the common
  protocol does, but a refusal.\<close>

lemma sv2_tp_turn_signals:
  assumes "fst (turn_control sv2_tp_error_action (fst (sv2_tp_turn code en decode_common decode_td ev s))) = Break"
  shows "snd (turn_control sv2_tp_error_action (fst (sv2_tp_turn code en decode_common decode_td ev s))) \<in> {CancelAll}"
  using assms
  by (auto simp: turn_control_def sv2_tp_error_action_def sv2_tp_turn_def sv2_tp_frame_def sv2_tp_from_manager_def
      sv2_tp_common_frame_def pool_shutdown_def pool_log_def
      split: task_event.splits option.splits message_type.splits common_from_server.splits if_splits)

theorem lost_provider_stops_the_pool:
  assumes "PeerFrame b None \<in> set evs"
    and "task_loop (sv2_tp_turn code en decode_common decode_td) sv2_tp_error_action evs () = (os, ctl, u)"
  shows "ctl = (Break, CancelAll)"
  using task_loop_breaks [OF assms(1) _ sv2_tp_turn_signals assms(2)]
  by (cases ctl) (auto simp: sv2_tp_turn_def sv2_tp_frame_def turn_control_def sv2_tp_error_action_def pool_shutdown_def)

end
