(* ===== verification/Spec2Isabelle.thy ===== *)
theory Spec2Isabelle
  imports Payout Downstream_Connection Fallback Sv1_Work Sv2_Registry Sv2_Shares Pool_Work Template_Work Jdc_Work
    Jdc_Runtime Sv2_Upstream Pool_Template_Receiver
begin

text \<open>
  A verification development for the Stratum V2 applications: the pool with its Job Declarator Server,
  the Job Declarator Client, the translator proxy and the libraries they share.

  \<^bold>\<open>The program.\<close> A miner that builds its own block templates declares them to the pool. The Job
  Declarator Server (\<open>pool-apps/jd-server\<close>) hands out tokens, validates each declared job against a
  Bitcoin Core node (\<open>bitcoin-core-sv2\<close>), asks for transactions the node does not know, and activates
  a token for a job that passed. When the miner later sends \<open>SetCustomMiningJob\<close> to the pool, the pool
  asks the server whether the token is active, belongs to that miner and stands for the declared job.
  What the miner is paid is decided by a payout mode that its identity encodes
  (\<open>stratum-apps/src/payout.rs\<close>).

  The pool (\<open>pool-apps/pool\<close>) opens standard and extended channels for its clients, each with an extranonce
  prefix of its own, turns the templates of a Template Provider into jobs that pay as the client's identity
  asks, judges shares, hands blocks back and adjusts difficulty. The Job Declarator Server runs inside it.

  Templates come from a Bitcoin Core node through a runtime (\<open>bitcoin-core-sv2\<close>) that follows the node's tip and
  mempool, keeps superseded templates for a while and submits solutions.

  The Job Declarator Client (\<open>miner-apps/jd-client\<close>) stands between miners that build their own jobs and the
  pool. It serves the miners like a small pool, with the templates of its own node, declares each template to the
  Job Declarator Server (or, in coinbase-only mode, sets it on the pool directly), and sends the shares of all
  miners to the pool over one channel, once the pool has accepted the job they were found on.

  The translator (\<open>miner-apps/translator\<close>) lets SV1 miners mine for an SV2 upstream: it opens a channel per
  miner (or one for all of them), turns upstream jobs into SV1 jobs, checks and forwards shares and manages
  the miners' difficulty.

  \<^bold>\<open>The theories.\<close>

  \<^item> \<open>Sv2_Prelude\<close>: machine integers as words, results, the shared maps of
    \<open>stratum-apps/src/sync.rs\<close> (\<open>sm_insert\<close>, \<open>sm_with_mut\<close>, ...), the token codec, and the rule
    collections the other theories use.
  \<^item> \<open>Bitcoin_Lib\<close>: transactions, blocks and scripts as the sources read them. The functions of the
    \<open>bitcoin\<close> and \<open>miniscript\<close> crates are the fields of two records, \<open>btc_lib\<close> and \<open>script_lib\<close>; a
    definition that calls them takes the record as an argument. \<open>from_descriptor\<close> is
    \<open>CoinbaseRewardScript::from_descriptor\<close>.
  \<^item> \<open>Payout\<close> (\<open>stratum-apps/src/payout.rs\<close>): parsing of identities, the outputs the pool builds
    (\<open>coinbase_outputs\<close>) and the check a proxy makes (\<open>validate_coinbase_outputs\<close>), in 64-bit
    arithmetic. Value is conserved; the check is exactly the promised share in unbounded arithmetic; the
    check accepts what the pool builds; parsing inverts printing.
  \<^item> \<open>Token_Manager\<close> (\<open>job_declarator/token_management/mod.rs\<close>): the two token maps, every operation
    and the janitor's turn. The operations refine an abstract life cycle of a token; a retired token
    never returns. The locale \<open>token_registry\<close> is what the Job Declarator relies on, interpreted on
    these operations.
  \<^item> \<open>Mempool_Mirror\<close> (\<open>v31x/job_declaration_protocol/mempool.rs\<close>): the mirror of the node's mempool.
    Its weight is bounded in every reachable state, and the one-pass resolution of a declaration
    equals a two-pass specification.
  \<^item> \<open>Jdp_Validator\<close> (\<open>handlers.rs\<close>, \<open>mod.rs\<close>, \<open>monitors.rs\<close> beside it): the handler of a declared job,
    cut where it awaits \<open>checkBlock\<close>, the monitor of the mempool and their interleaving \<open>jdp_step\<close>. A
    success is sound in every interleaving; only validated transactions enter the mirror; no
    \<open>expect\<close> fails.
  \<^item> \<open>Declared_Jobs\<close> (\<open>job_validation/bitcoin_core_ipc.rs\<close>): the server's engine: declared jobs per
    client, the rebuilt coinbase, the merkle path, the comparison of a custom job with its
    declaration. The locale \<open>validation_engine\<close> states the contract of the trait
    \<open>JobValidationEngine\<close>, interpreted on the engine.
  \<^item> \<open>Job_Declarator\<close> (\<open>job_declarator/mod.rs\<close>, \<open>job_declaration_message_handler.rs\<close>, \<open>error.rs\<close>): all
    handlers, error actions, clean-up and the pool's call. \<open>jd_step\<close> composes it with the engine and
    the token manager; \<open>jd_reach\<close> are the states this can lead to. A declared job that was accepted can be mined,
    by its owner only and once; a client that left owns nothing; the only panic of the message loop is
    characterised exactly.
  \<^item> \<open>Downstream_Connection\<close> (\<open>job_declarator/downstream/\<close>, \<open>utils/protocol_message_type.rs\<close>): frames,
    the handshake and the loop over a client's frames.
  \<^item> \<open>Fallback\<close> (\<open>stratum-apps/src/fallback_coordinator.rs\<close>): the coordinator of a change of upstream
    as interleaved atomic steps: no wake-up is lost, and the condition under which the wait covers every task.

  \<^item> \<open>Sv1_Job_Store\<close> (\<open>sv1/job_store.rs\<close>): the bounded store of active and past jobs; it refines a bounded
    list of jobs, and its eviction loop always ends.
  \<^item> \<open>Sv1_Downstream\<close> (\<open>sv1/downstream.rs\<close>): a miner's shared data, its session and its task that delivers
    queued events; \<open>dn_step\<close> interleaves server and task. A late share is checked with the extranonce its
    miner had when it was given the job.
  \<^item> \<open>Sv1_Share\<close> (\<open>utils.rs\<close>, \<open>error.rs\<close>): share validation, worker names, errors with their actions.
  \<^item> \<open>Sv1_Server\<close> (\<open>sv1/sv1_server/mod.rs\<close>, \<open>downstream_message_handler.rs\<close>): the registries and every
    handler of the SV1 server. \<open>Difficulty_Manager\<close> (\<open>difficulty_manager.rs\<close>): the variable difficulty,
    which never shows a miner a difficulty its upstream does not accept yet.
  \<^item> \<open>Sv1_Run\<close>: the main loop of the SV1 server and all its handlers, timers and miners' tasks as the steps
    \<open>sv1_step\<close>; the registries stay consistent in every run. \<open>Sv1_Work\<close>: what this means for a miner's
    work: no share counts twice, keepalive jobs keep the job, and no miner can stop the server.
  \<^item> \<open>Chains\<close>: handlers that can stop at several points (\<open>attempt\<close>, \<open>and_then\<close>), and the locale
    \<open>kept_relation\<close>, which carries a relation between states along such a chain and is interpreted on the
    relations of the channel managers. \<open>Mining_Messages\<close>: the messages the translator and the pool share.
  \<^item> \<open>Sv2_Channels\<close> (\<open>sv2/channel_manager/mod.rs\<close>): the channel manager's state, the queueing of jobs with
    the prefix they need, and every message of the SV1 server. Channels, groups and the extranonce allocator
    of \<open>channels_sv2\<close> are values reached through the record \<open>channels_lib\<close>.
  \<^item> \<open>Sv2_Mining_Handler\<close> (\<open>mining_message_handler.rs\<close>, \<open>extensions_message_handler.rs\<close>): every message of the
    upstream.
  \<^item> \<open>Sv2_Prefixes\<close>: which handlers queue what for the miners, and with which prefix. \<open>Sv2_Run\<close>: the runs
    \<open>cm_reach\<close> of the manager; a job reaches a miner only after the prefix it was captured with.
    \<open>Sv2_Registry\<close>: channels, prefixes, groups and the aggregated state agree in every run. \<open>Sv2_Shares\<close>:
    shares go out numbered without a gap, an unpaid job reaches no channel, the search for a channel id is
    complete.

  \<^item> \<open>Coinbase_Constraints\<close> (\<open>stratum-apps/src/coinbase_output_constraints.rs\<close>): what the pool announces to the
    Template Provider; every payout fits it.
  \<^item> \<open>Pool_State\<close> (\<open>pool/src/lib/channel_manager/mod.rs\<close>, \<open>error.rs\<close>): the pool's state, routing, errors and the
    life of a connection in its registries. \<open>Pool_Handlers\<close> (\<open>mining_message_handler.rs\<close>): every message of a
    client. \<open>Pool_Templates\<close> (\<open>template_distribution_message_handler.rs\<close>): templates, previous hashes and the
    variable difficulty. \<open>Pool_Connection\<close> (\<open>pool/src/lib/downstream/\<close>): handshake, extensions and frames of a
    client. Channels, groups, jobs, prefixes and difficulty states of \<open>channels_sv2\<close> are reached through the
    record \<open>pool_lib\<close>; what is relied on is \<open>channels_ok\<close> (a channel keeps its prefix and identity, a group holds
    what was added and not removed) and \<open>allocator_ok\<close> (prefixes handed out are new and none starts another).
  \<^item> \<open>Pool_Shapes\<close>: what handlers leave as it is. \<open>Pool_Run\<close>: the runs \<open>pool_reach\<close> and their invariant, \<open>Pool_Registry\<close>
    that it holds, \<open>Pool_Isolation\<close> how far the effect of one client's message goes, \<open>Pool_Demo\<close> a run for the
    witnesses. \<open>Pool_Work\<close>: search spaces are disjoint, the channels of a client are paid alike, templates reach
    every channel, blocks reach the Template Provider, a custom job is one the Job Declarator validated for that
    channel's identity, registries agree, and no client can harm another.
  \<^item> \<open>Template_Messages\<close>: the messages of template distribution. \<open>Template_Data\<close>
    (\<open>bitcoin-core-sv2/src/unix_capnp/v31x/template_distribution_protocol/template_data.rs\<close>): one template of the
    node, its messages, and solutions. \<open>Template_Provider\<close> (\<open>mod.rs\<close>, \<open>handlers.rs\<close>, \<open>monitors.rs\<close>): the three
    tasks of the runtime, each a value that says at which await it is, and their interleaving \<open>tdp_step\<close>.
    \<open>Template_Runs\<close>: the templates held in any run. \<open>Template_Feed\<close>: the order of the messages sent.
    \<open>Template_Grace\<close>: how long a superseded template stays. \<open>Template_Work\<close>: what the pool can rely on.
  \<^item> \<open>Share_Cache\<close> (\<open>jd-client/src/lib/utils.rs\<close>): the cache of shares whose job the pool has not accepted yet, on
    the binary heap of the standard library; it keeps exactly the best shares. \<open>Jdc_State\<close>
    (\<open>jd-client/src/lib/channel_manager/mod.rs\<close>, \<open>error.rs\<close>, \<open>jd_mode.rs\<close>): the client's state, routing, errors and
    connections; the client side of \<open>channels_sv2\<close> is reached through the record \<open>jdc_lib\<close>, which contains the
    pool's. \<open>Jdc_Downstream\<close> (\<open>downstream_message_handler.rs\<close>): the messages of miners. \<open>Jdc_Templates\<close>
    (\<open>template_message_handler.rs\<close>): templates, declarations and the variable difficulty. \<open>Jdc_Upstream\<close>
    (\<open>upstream_message_handler.rs\<close>, \<open>jd_message_handler.rs\<close>, \<open>extensions_message_handler.rs\<close>): the messages of pool
    and Job Declarator Server.
  \<^item> \<open>Jdc_Frame\<close>: what the handlers leave of the link with the pool. \<open>Jdc_Run\<close>: the runs \<open>jdc_reach\<close>, with the ids
    of the jobs the pool accepted, and their invariant. \<open>Jdc_Demo\<close>: a run for the witnesses. \<open>Jdc_Work\<close>: shares
    name jobs the pool accepted and are numbered by one counter, an accepted job releases the shares that waited
    for it, at most one channel with the pool is open, missing transactions are provided as the Job Declarator
    Server asks for them, and a miner that left can cost others their place in the queue.

  \<^item> \<open>Peer_Tasks\<close>: what the connections of the applications share, a task with its handshake and its turns, the
    \<open>FallbackHandler\<close> it drops, dialling, and a list of upstreams that are tried in turn. \<open>Jdc_Connection\<close>
    (\<open>jd-client/src/lib/downstream/\<close>, \<open>job_declarator/\<close>, \<open>upstream/\<close>, \<open>template_receiver/sv2_tp/\<close>): the tasks of the
    Job Declarator Client. Pool and Job Declarator Server accept its set-up, a lost server is noticed, jobs are
    declared in the configured mode only, and a miner is what its handshake made it. \<open>Jdc_Runtime\<close>
    (\<open>jdc_runtime.rs\<close>, \<open>mod.rs\<close>): the life of the client through its fallbacks, which never end it.
  \<^item> \<open>Sv2_Upstream\<close> (\<open>translator/src/lib/sv2/upstream/\<close>, \<open>translator_runtime.rs\<close>, \<open>mod.rs\<close>): the translator's task for
    its upstream, which one message can abort, and its life through its fallbacks, which ends with its list of
    upstreams. \<open>Pool_Template_Receiver\<close> (\<open>pool/src/lib/template_receiver/sv2_tp/\<close>): the pool's task for a Template
    Provider.

  \<^bold>\<open>Conventions.\<close> A handler that awaits is cut at the await: a first definition computes up to it and
  a second one continues on the state as it is then, so other steps can come in between. What lies
  between two awaits is one step. A panic is a value (\<open>Panic\<close>, \<open>StartPanic\<close>, \<open>HandlerPanic\<close>), an error
  a value of \<open>Inl\<close> or of the source's error type (in the translator and the pool both are an \<open>attempt\<close>). Time is an argument. Message codes, decoders of
  payloads, hash functions and whether a send succeeds are arguments too; where a theorem needs a law
  of one of them (a hash is injective on the values compared, a decoder inverts an encoder), the law is
  a hypothesis with a witness. Every recursive definition is total; none uses fuel.

  \<^bold>\<open>Not modelled.\<close> Sockets, noise encryption, Cap'n Proto connections, threads and channels' capacities;
  configuration and monitoring; the v30x copies of the validator and of template distribution, which repeat the
  v31x ones; the pool's runtime; the wiring of tasks, and their joining or abortion at a shutdown. The
  maps of the channel managers are visited in an order
  that an argument gives (\<open>visit_channels\<close>, \<open>pool_env\<close>, \<open>jdc_env\<close>); the theorems hold for every order that visits them all.
  The closure the pool runs on a registered connection is one step, as its guard makes it.
\<close>

end
